(* ===== verification/Sysal_Prelude.thy ===== *)
theory Sysal_Prelude
  imports Main "HOL-Library.Word" "HOL-Library.List_Lexorder" "HOL-Library.Char_ord"
    "HOL-Library.Product_Lexorder" "HOL-Library.Sublist" "HOL-Library.Code_Target_Nat"
begin

text \<open>
  What the components share: the machine integers, the C++ standard containers the sources
  use (\<open>std::map\<close> and \<open>std::set\<close> as key-sorted lists, with their contracts as locales),
  the searches of \<open>std::string\<close>, and the generic lemmas about lists, options and words.
  \<open>std::string\<close> compares its bytes as unsigned characters, which is the order that
  \<open>List_Lexorder\<close> and \<open>Char_ord\<close> give to \<^typ>\<open>string\<close>; \<open>std::pair\<close> compares as in
  \<open>Product_Lexorder\<close>.
\<close>

named_theorems container_simps
named_theorems text_simps
named_theorems warning_frames

section \<open>Machine integers\<close>

type_synonym u8 = "8 word"
type_synonym u16 = "16 word"
type_synonym u32 = "32 word"
type_synonym u64 = "64 word"
type_synonym i32 = "32 word"
type_synonym i64 = "64 word"

abbreviation u32_max :: u64 where
  "u32_max \<equiv> 4294967295"

text \<open>\<open>static_cast<std::uint32_t>\<close> of a 64-bit value keeps its low 32 bits.\<close>

definition to_u32 :: "u64 \<Rightarrow> u32" where
  "to_u32 v = ucast v"

definition from_u32 :: "u32 \<Rightarrow> u64" where
  "from_u32 v = ucast v"

lemma unat_to_u32: "unat (to_u32 v) = unat v mod 4294967296"
  by (simp add: to_u32_def unsigned_ucast_eq take_bit_eq_mod)

lemma unat_from_u32 [simp]: "unat (from_u32 v) = unat v"
  using unsigned_less [of v, where ?'a = nat]
  by (simp add: from_u32_def unsigned_ucast_eq take_bit_nat_eq_self)

lemma unat_to_u32_small: "v \<le> u32_max \<Longrightarrow> unat (to_u32 v) = unat v"
  by (simp add: unat_to_u32 word_le_nat_alt)

lemma to_u32_from_u32 [simp]: "to_u32 (from_u32 v) = v"
  using unsigned_less [of v, where ?'a = nat] by (simp add: word_unat_eq_iff unat_to_u32)

lemma from_u32_le [simp]: "from_u32 v \<le> u32_max"
  using unsigned_less [of v, where ?'a = nat] by (simp add: word_le_nat_alt)

lemma not_u32_max_less_from_u32 [simp]: "\<not> u32_max < from_u32 v"
  by (simp add: not_less)

section \<open>Ordered sets and maps\<close>

subsection \<open>The contracts\<close>

locale ordered_set =
  fixes empty :: 's
    and put :: "'a::linorder \<Rightarrow> 's \<Rightarrow> 's"
    and elems :: "'s \<Rightarrow> 'a list"
    and invar :: "'s \<Rightarrow> bool"
  assumes invar_empty: "invar empty"
    and elems_empty: "elems empty = []"
    and invar_put: "invar s \<Longrightarrow> invar (put x s)"
    and set_put: "invar s \<Longrightarrow> set (elems (put x s)) = insert x (set (elems s))"
    and sorted_elems: "invar s \<Longrightarrow> sorted_wrt (<) (elems s)"
begin

lemma fold_put: "invar s \<Longrightarrow>
    invar (fold put xs s) \<and> set (elems (fold put xs s)) = set xs \<union> set (elems s)"
  by (induction xs arbitrary: s) (auto simp: invar_put set_put)

lemma elems_unique:
  assumes "invar s" "invar t" "set (elems s) = set (elems t)"
  shows "elems s = elems t"
  using assms by (metis sorted_elems strict_sorted_equal)

lemma fold_put_canonical: "elems (fold put xs empty) = sorted_list_of_set (set xs)"
proof -
  have f: "invar (fold put xs empty)" "set (elems (fold put xs empty)) = set xs"
    using fold_put [OF invar_empty] by (auto simp: elems_empty)
  then show ?thesis
    by (metis sorted_elems strict_sorted_equal strict_sorted_list_of_set
        sorted_list_of_set.set_sorted_key_list_of_set List.finite_set)
qed

lemma fold_put_order_irrelevant:
  "set xs = set ys \<Longrightarrow> elems (fold put xs empty) = elems (fold put ys empty)"
  by (simp add: fold_put_canonical)

lemma length_elems: "invar s \<Longrightarrow> length (elems s) = card (set (elems s))"
  by (metis sorted_elems strict_sorted_iff distinct_card)

end

locale ordered_map =
  fixes empty :: 'm
    and put :: "'k::linorder \<Rightarrow> 'v \<Rightarrow> 'm \<Rightarrow> 'm"
    and lookup :: "'m \<Rightarrow> 'k \<Rightarrow> 'v option"
    and keys :: "'m \<Rightarrow> 'k list"
    and invar :: "'m \<Rightarrow> bool"
  assumes invar_empty: "invar empty"
    and lookup_empty: "lookup empty k = None"
    and invar_put: "invar m \<Longrightarrow> invar (put k v m)"
    and lookup_put: "invar m \<Longrightarrow> lookup (put k v m) = (lookup m)(k \<mapsto> v)"
    and set_keys: "invar m \<Longrightarrow> set (keys m) = dom (lookup m)"
    and sorted_keys: "invar m \<Longrightarrow> sorted_wrt (<) (keys m)"
begin

text \<open>A run of assignments: the invariant is kept, and the last assignment to a key wins.\<close>

lemma fold_put: "invar m \<Longrightarrow>
    invar (fold (\<lambda>(k, v). put k v) ps m) \<and>
    lookup (fold (\<lambda>(k, v). put k v) ps m) = lookup m ++ map_of (rev ps)"
proof (induction ps arbitrary: m)
  case Nil
  then show ?case by simp
next
  case (Cons p ps)
  obtain k v where p: "p = (k, v)" by (cases p)
  have "invar (put k v m)" using Cons.prems by (rule invar_put)
  then show ?case
    using Cons.IH [of "put k v m"] Cons.prems lookup_put [of m k v]
    by (simp add: p map_add_assoc fun_eq_iff map_add_def split: option.splits)
qed

lemma keys_put: "invar m \<Longrightarrow> set (keys (put k v m)) = insert k (set (keys m))"
  by (simp add: set_keys invar_put lookup_put)

lemma size_put: "invar m \<Longrightarrow> length (keys (put k v m)) \<le> Suc (length (keys m))"
proof -
  assume m: "invar m"
  have "length (keys (put k v m)) = card (insert k (set (keys m)))"
    using sorted_keys [OF invar_put [OF m], of k v] keys_put [OF m, of k v]
    by (metis distinct_card strict_sorted_iff)
  also have "\<dots> \<le> Suc (card (set (keys m)))" by (simp add: card_insert_if)
  also have "\<dots> \<le> Suc (length (keys m))" by (simp add: card_length)
  finally show ?thesis .
qed

lemma size_put_new:
  "invar m \<Longrightarrow> lookup m k = None \<Longrightarrow> length (keys (put k v m)) = Suc (length (keys m))"
proof -
  assume m: "invar m" and k: "lookup m k = None"
  have "length (keys (put k v m)) = card (insert k (set (keys m)))"
    using sorted_keys [OF invar_put [OF m], of k v] keys_put [OF m, of k v]
    by (metis distinct_card strict_sorted_iff)
  moreover have "length (keys m) = card (set (keys m))"
    using sorted_keys [OF m] by (metis distinct_card strict_sorted_iff)
  moreover have "k \<notin> set (keys m)"
    using set_keys [OF m] k by (simp add: domIff)
  ultimately show ?thesis by simp
qed

end

subsection \<open>\<open>std::set\<close> as a strictly sorted list\<close>

fun set_put :: "'a::linorder \<Rightarrow> 'a list \<Rightarrow> 'a list" where
  "set_put x [] = [x]"
| "set_put x (y # ys) =
     (if x < y then x # y # ys else if x = y then y # ys else y # set_put x ys)"

definition set_of :: "'a::linorder list \<Rightarrow> 'a list" where
  "set_of xs = fold set_put xs []"

lemma set_set_put [simp]: "set (set_put x s) = insert x (set s)"
  by (induction s) auto

lemma sorted_set_put: "sorted_wrt (<) s \<Longrightarrow> sorted_wrt (<) (set_put x s)"
  by (induction s) auto

interpretation std_set: ordered_set "[]" set_put "\<lambda>s. s" "sorted_wrt (<)"
  by unfold_locales (auto simp: sorted_set_put)

lemma set_of_canonical: "set_of xs = sorted_list_of_set (set xs)"
  unfolding set_of_def by (rule std_set.fold_put_canonical)

lemma set_set_of [simp]: "set (set_of xs) = set xs"
  by (simp add: set_of_canonical)

lemma sorted_set_of: "sorted_wrt (<) (set_of xs)"
  by (simp add: set_of_canonical)

lemma distinct_set_of [simp]: "distinct (set_of xs)"
  using sorted_set_of strict_sorted_iff by blast

lemma length_set_of: "length (set_of xs) = card (set xs)"
  by (simp add: set_of_canonical)

lemma set_of_empty_iff [simp]: "set_of xs = [] \<longleftrightarrow> xs = []"
  by (metis set_empty set_set_of)

subsection \<open>\<open>std::map\<close> as a key-sorted association list\<close>

type_synonym ('k, 'v) std_map = "('k \<times> 'v) list"

fun map_put :: "'k::linorder \<Rightarrow> 'v \<Rightarrow> ('k, 'v) std_map \<Rightarrow> ('k, 'v) std_map" where
  "map_put k v [] = [(k, v)]"
| "map_put k v ((l, w) # m) =
     (if k < l then (k, v) # (l, w) # m
      else if k = l then (k, v) # m else (l, w) # map_put k v m)"

definition map_invar :: "('k::linorder, 'v) std_map \<Rightarrow> bool" where
  "map_invar m \<longleftrightarrow> sorted_wrt (<) (map fst m)"

text \<open>\<open>auto &x = m[k]; x = f(x);\<close> with \<open>d\<close> the value-initialised element.\<close>

definition map_update :: "'k::linorder \<Rightarrow> 'v \<Rightarrow> ('v \<Rightarrow> 'v) \<Rightarrow> ('k, 'v) std_map \<Rightarrow> ('k, 'v) std_map" where
  "map_update k d f m = map_put k (f (case map_of m k of None \<Rightarrow> d | Some v \<Rightarrow> v)) m"

lemma keys_map_put [simp]: "fst ` set (map_put k v m) = insert k (fst ` set m)"
  by (induction m rule: map_put.induct) auto

lemma map_invar_Nil [simp]: "map_invar []"
  by (simp add: map_invar_def)

lemma map_invar_put [intro]: "map_invar m \<Longrightarrow> map_invar (map_put k v m)"
proof (induction k v m rule: map_put.induct)
  case (1 k v)
  then show ?case by (simp add: map_invar_def)
next
  case (2 k v l w m)
  have "\<And>x. x \<in> fst ` set (map_put k v m) \<Longrightarrow> x = k \<or> x \<in> fst ` set m" by simp
  with 2 show ?case by (fastforce simp: map_invar_def)
qed

lemma map_of_put: "map_invar m \<Longrightarrow> map_of (map_put k v m) = (map_of m)(k \<mapsto> v)"
proof (induction k v m rule: map_put.induct)
  case (1 k v)
  then show ?case by simp
next
  case (2 k v l w m)
  then show ?case by (auto simp: map_invar_def fun_eq_iff)
qed

interpretation std_map: ordered_map "[]" map_put map_of "map fst" map_invar
proof (unfold_locales, goal_cases)
  case 1 show ?case by simp
next
  case 2 show ?case by simp
next
  case 3 then show ?case by blast
next
  case 4 then show ?case by (rule map_of_put)
next
  case 5 show ?case by (simp add: dom_map_of_conv_image_fst)
next
  case 6 then show ?case by (simp add: map_invar_def)
qed

lemma map_invar_update [intro]: "map_invar m \<Longrightarrow> map_invar (map_update k d f m)"
  by (auto simp: map_update_def)

lemma map_of_update: "map_invar m \<Longrightarrow>
    map_of (map_update k d f m) =
      (map_of m)(k \<mapsto> f (case map_of m k of None \<Rightarrow> d | Some v \<Rightarrow> v))"
  by (simp add: map_update_def map_of_put)

lemma keys_map_update [simp]: "fst ` set (map_update k d f m) = insert k (fst ` set m)"
  by (simp add: map_update_def)

lemma map_invar_distinct: "map_invar m \<Longrightarrow> distinct (map fst m)"
  using map_invar_def strict_sorted_iff by blast

lemma map_invar_lookup: "map_invar m \<Longrightarrow> (k, v) \<in> set m \<longleftrightarrow> map_of m k = Some v"
  by (metis map_invar_distinct map_of_eq_Some_iff)

lemma map_size_put: "map_invar m \<Longrightarrow> length (map_put k v m) \<le> Suc (length m)"
  using std_map.size_put [of m k v] by simp

lemma map_size_put_new: "map_invar m \<Longrightarrow> k \<notin> fst ` set m \<Longrightarrow> length (map_put k v m) = Suc (length m)"
  using std_map.size_put_new [of m k v] by (simp add: map_of_eq_None_iff)

section \<open>Searches of \<open>std::string\<close>\<close>

text \<open>\<open>npos\<close> is \<^const>\<open>None\<close>; a position is an index from 0.\<close>

primrec find_char :: "char \<Rightarrow> string \<Rightarrow> nat option" where
  "find_char c [] = None"
| "find_char c (x # xs) = (if x = c then Some 0 else map_option Suc (find_char c xs))"

primrec rfind_char :: "char \<Rightarrow> string \<Rightarrow> nat option" where
  "rfind_char c [] = None"
| "rfind_char c (x # xs) =
     (case rfind_char c xs of Some i \<Rightarrow> Some (Suc i) | None \<Rightarrow> if x = c then Some 0 else None)"

definition find_char_from :: "char \<Rightarrow> nat \<Rightarrow> string \<Rightarrow> nat option" where
  "find_char_from c pos s = map_option (\<lambda>i. pos + i) (find_char c (drop pos s))"

primrec find_str :: "string \<Rightarrow> string \<Rightarrow> nat option" where
  "find_str p [] = (if p = [] then Some 0 else None)"
| "find_str p (x # xs) = (if prefix p (x # xs) then Some 0 else map_option Suc (find_str p xs))"

primrec rfind_str :: "string \<Rightarrow> string \<Rightarrow> nat option" where
  "rfind_str p [] = (if p = [] then Some 0 else None)"
| "rfind_str p (x # xs) =
     (case rfind_str p xs of
        Some i \<Rightarrow> Some (Suc i)
      | None \<Rightarrow> if prefix p (x # xs) then Some 0 else None)"

abbreviation contains_str :: "string \<Rightarrow> string \<Rightarrow> bool" where
  "contains_str s p \<equiv> find_str p s \<noteq> None"

lemma find_char_None_iff: "find_char c s = None \<longleftrightarrow> c \<notin> set s"
  by (induction s) auto

lemma rfind_char_None_iff: "rfind_char c s = None \<longleftrightarrow> c \<notin> set s"
  by (induction s) (auto split: option.splits)

lemmas find_char_None [simp] = find_char_None_iff [THEN iffD2]
  and rfind_char_None [simp] = rfind_char_None_iff [THEN iffD2]

lemma find_char_Some:
  "find_char c s = Some i \<Longrightarrow> s = take i s @ c # drop (Suc i) s \<and> c \<notin> set (take i s)"
  by (induction s arbitrary: i) (auto split: if_splits)

lemma find_char_append: "c \<notin> set xs \<Longrightarrow> find_char c (xs @ c # ys) = Some (length xs)"
  by (induction xs) auto

lemma rfind_char_append: "c \<notin> set ys \<Longrightarrow> rfind_char c (xs @ c # ys) = Some (length xs)"
  by (induction xs) simp_all

lemma find_char_less: "find_char c s = Some i \<Longrightarrow> i < length s"
  by (induction s arbitrary: i) (auto split: if_splits)

lemma rfind_char_less: "rfind_char c s = Some i \<Longrightarrow> i < length s"
  by (induction s arbitrary: i) (auto split: if_splits option.splits)

section \<open>Generic lemmas\<close>

text \<open>For a chain of conditionals, with \<open>P\<close> given: one goal for every branch.\<close>

lemma if_intro: "P a \<Longrightarrow> P b \<Longrightarrow> P (if c then a else b)"
  by simp

lemma dropWhile_rest_shorter: "s \<noteq> [] \<Longrightarrow> P (hd s) \<Longrightarrow> length (dropWhile P s) < length s"
  by (cases s) (simp_all add: le_imp_less_Suc length_dropWhile_le)

lemma list_all2_refl_map: "(\<And>x. x \<in> set xs \<Longrightarrow> P x (f x)) \<Longrightarrow> list_all2 P xs (map f xs)"
  by (simp add: list_all2_map2 list_all2_same)

lemma fold_invariant_set:
  "P s \<Longrightarrow> (\<And>x s. x \<in> set xs \<Longrightarrow> P s \<Longrightarrow> P (f x s)) \<Longrightarrow> P (fold f xs s)"
  by (induction xs arbitrary: s) auto

lemma length_filter_all: "length (filter P xs) = length xs \<longleftrightarrow> list_all P xs"
proof (induction xs)
  case Nil
  then show ?case by simp
next
  case (Cons x xs)
  have "length (filter P xs) \<le> length xs" by (rule length_filter_le)
  then have "length (filter P xs) \<noteq> Suc (length xs)" by linarith
  with Cons show ?case by auto
qed

text \<open>What commutes with one step of a loop commutes with the loop.\<close>

lemma fold_push: "(\<And>x s. f x (h s) = h (f x s)) \<Longrightarrow> fold f xs (h s) = h (fold f xs s)"
  by (induction xs arbitrary: s) simp_all

lemma distinct_map_filter:
  "distinct (map f xs) \<longleftrightarrow> (\<forall>k. length (filter (\<lambda>x. f x = k) xs) \<le> 1)"
proof (induction xs)
  case Nil
  then show ?case by simp
next
  case (Cons x xs)
  have "f x \<notin> f ` set xs \<longleftrightarrow> filter (\<lambda>y. f y = f x) xs = []"
    by (simp add: filter_empty_conv image_iff) metis
  with Cons show ?case by (auto simp: le_Suc_eq)
qed

lemma filter_length_partition:
  "length (filter P xs) + length (filter (\<lambda>x. \<not> P x) xs) = length xs"
  by (rule sum_length_filter_compl)

lemma sorted_remdups_adj_strict: "sorted xs \<Longrightarrow> sorted_wrt (<) (remdups_adj xs)"
  by (induction xs rule: remdups_adj.induct) (auto simp: less_le)

end
