(* ===== verification/Sysal_Types.thy ===== *)
theory Sysal_Types
  imports Sysal_Prelude
begin

text \<open>
  The strong types of \<open>include/sysal/types/\<close> and the two core enumerations every component
  uses. \<open>StrongId<T, Tag>\<close>, \<open>NamedString<Tag>\<close> and \<open>ScalarUnit<Tag>\<close> keep the
  phantom tag of the C++ templates as a type argument, so the model distinguishes what the
  library distinguishes: a package id is not a core id, a frequency is not a size.
\<close>

section \<open>Identifiers (\<open>strong_id.hpp\<close>, \<open>ids.hpp\<close>)\<close>

datatype ('a, 'tag) strong_id = StrongId (id_value: 'a)

datatype CpuPackageIdTag = CpuPackageIdTag
datatype CpuCoreIdTag = CpuCoreIdTag
datatype LogicalCpuIdTag = LogicalCpuIdTag
datatype NumaNodeIdTag = NumaNodeIdTag
datatype AcceleratorIdTag = AcceleratorIdTag
datatype StorageIdTag = StorageIdTag
datatype DriverIdTag = DriverIdTag
datatype RdmaDeviceIdTag = RdmaDeviceIdTag

type_synonym CpuPackageId = "(u32, CpuPackageIdTag) strong_id"
type_synonym CpuCoreId = "(u32, CpuCoreIdTag) strong_id"
type_synonym LogicalCpuId = "(u32, LogicalCpuIdTag) strong_id"
type_synonym NumaNodeId = "(u32, NumaNodeIdTag) strong_id"
type_synonym AcceleratorId = "(u32, AcceleratorIdTag) strong_id"
type_synonym StorageId = "(u32, StorageIdTag) strong_id"
type_synonym DriverId = "(u32, DriverIdTag) strong_id"
type_synonym RdmaDeviceId = "(u32, RdmaDeviceIdTag) strong_id"

lemma inj_StrongId [simp]: "inj_on StrongId A"
  by (simp add: inj_on_def)

lemma map_id_value_StrongId [simp]: "map (id_value \<circ> StrongId) xs = xs"
  by (induction xs) auto

lemma id_value_image [simp]: "id_value x \<in> id_value ` S \<longleftrightarrow> x \<in> S"
  by (auto dest: strong_id.expand)

lemma id_value_eq_iff: "id_value x = id_value y \<longleftrightarrow> x = y"
  by (auto dest: strong_id.expand)

section \<open>Scalar units (\<open>units.hpp\<close>)\<close>

datatype 'tag scalar_unit = ScalarUnit (unit_value: u64)

datatype MemorySizeTag = MemorySizeTag
datatype FrequencyTag = FrequencyTag
datatype BandwidthTag = BandwidthTag
datatype TransferRateTag = TransferRateTag
datatype TemperatureTag = TemperatureTag
datatype MillivoltsTag = MillivoltsTag
datatype MicrosecondsTag = MicrosecondsTag

type_synonym MemorySize = "MemorySizeTag scalar_unit"
type_synonym Frequency = "FrequencyTag scalar_unit"
type_synonym Bandwidth = "BandwidthTag scalar_unit"
type_synonym TransferRate = "TransferRateTag scalar_unit"
type_synonym Temperature = "TemperatureTag scalar_unit"
type_synonym Millivolts = "MillivoltsTag scalar_unit"
type_synonym Microseconds = "MicrosecondsTag scalar_unit"

section \<open>Value types (\<open>value_types.hpp\<close>)\<close>

record DeviceNumber =
  dev_major :: u32
  dev_minor :: u32

record PciAddress =
  pci_domain :: u16
  pci_bus :: u8
  pci_device :: u8
  pci_function :: u8

datatype 'tag named_string = NamedString (str_value: string)

datatype VendorTag = VendorTag
datatype DeviceNameTag = DeviceNameTag
datatype InterfaceNameTag = InterfaceNameTag
datatype MacAddressTag = MacAddressTag
datatype IpAddressTag = IpAddressTag
datatype PciClassTag = PciClassTag
datatype MountPointTag = MountPointTag
datatype FilesystemTypeTag = FilesystemTypeTag

type_synonym Vendor = "VendorTag named_string"
type_synonym DeviceName = "DeviceNameTag named_string"
type_synonym InterfaceName = "InterfaceNameTag named_string"
type_synonym MacAddress = "MacAddressTag named_string"
type_synonym IpAddress = "IpAddressTag named_string"
type_synonym PciClass = "PciClassTag named_string"
type_synonym MountPoint = "MountPointTag named_string"
type_synonym FilesystemType = "FilesystemTypeTag named_string"

text \<open>
  \<open>std::tie(domain, bus, device, function)\<close>, the order in which the accelerator selection
  sorts devices by their PCI address.
\<close>

instantiation PciAddress_ext :: (linorder) linorder
begin

definition less_eq_PciAddress_ext :: "'a PciAddress_scheme \<Rightarrow> 'a PciAddress_scheme \<Rightarrow> bool" where
  "less_eq_PciAddress_ext a b \<longleftrightarrow>
     (pci_domain a, pci_bus a, pci_device a, pci_function a, PciAddress.more a) \<le>
     (pci_domain b, pci_bus b, pci_device b, pci_function b, PciAddress.more b)"

definition less_PciAddress_ext :: "'a PciAddress_scheme \<Rightarrow> 'a PciAddress_scheme \<Rightarrow> bool" where
  "less_PciAddress_ext a b \<longleftrightarrow>
     (pci_domain a, pci_bus a, pci_device a, pci_function a, PciAddress.more a) <
     (pci_domain b, pci_bus b, pci_device b, pci_function b, PciAddress.more b)"

instance
proof (standard, goal_cases)
  case (1 x y)
  show ?case
    unfolding less_eq_PciAddress_ext_def less_PciAddress_ext_def by (rule less_le_not_le)
next
  case (2 x)
  show ?case unfolding less_eq_PciAddress_ext_def by (rule order_refl)
next
  case (3 x y z)
  then show ?case unfolding less_eq_PciAddress_ext_def by (rule order_trans)
next
  case (4 x y)
  then have "(pci_domain x, pci_bus x, pci_device x, pci_function x, PciAddress.more x) =
      (pci_domain y, pci_bus y, pci_device y, pci_function y, PciAddress.more y)"
    unfolding less_eq_PciAddress_ext_def by (rule order_antisym)
  then show ?case by simp
next
  case (5 x y)
  show ?case unfolding less_eq_PciAddress_ext_def by (rule linear)
qed

end

section \<open>Enumerations (\<open>enums.hpp\<close>)\<close>

datatype Arch = Arch_X86_64 | Arch_AArch64 | Arch_Riscv64 | Arch_Other

datatype InterfaceState = If_Up | If_Down | If_Unknown

datatype StorageProtocol = Proto_Unknown | Proto_Nvme | Proto_Ata | Proto_Scsi

datatype StorageKind = Stor_Nvme | Stor_Ssd | Stor_Hdd | Stor_Other

datatype AcceleratorKind = Acc_Gpu | Acc_Npu | Acc_Fpga | Acc_Other

datatype IsaExtension = Sse | Sse2 | Sse3 | Ssse3 | Sse41 | Sse42 | Avx | Avx2 | Avx512f
  | Avx512cd | Avx512bw | Avx512dq | Avx512vl | Aes | Fma | F16c | Pclmulqdq

datatype CacheType = Cache_Data | Cache_Instruction | Cache_Unified | Cache_Other

datatype RawSource = ProcCpuInfo | ProcMemInfo | ProcVersion | ProcSelfCgroup | ProcSelfStatus
  | ProcOneCgroup | SysfsCpu | SysfsNuma | SysfsNet | SysfsPci | SysfsBlock | SysfsDmi
  | EtcOsRelease | RootDockerenv | Uname | Lspci | NvidiaSmi | Nvcc | Lsblk
  | Src_Environment | Nvml | Ibverbs | HwinfoOutput
  | ProcHostname | IfAddrs | DfTh | Udevadm | SysfsEdac | SysHypervisor | CompilerVersion
  | CompilerPath | CompilerTarget | MpiVersion | MpiPath | IbverbsVersion | IbverbsLibdir
  | UcxVersion | NvccPath | CudaHome | SysfsThermal | CgroupMountInfo | CgroupFile | SysfsDrm
  | NvidiaMigList | RocmVersion | PackageLibrary | AcceleratorRuntime | StorageMountInfo
  | Ethtool | ProcNetVlan | SysfsHwmon | StorageHealthSysfs | Smartctl | NvmeSmartLog
  | SysfsRdma | SysfsStorageConnections | Src_FilesystemUsage

datatype CollectStatus = Success | Partial | Failed | NotCollected

datatype ReadFailure = NotPresent | PermissionDenied | Unsupported | IoError | ToolUnavailable
  | TimedOut | NotProvided | LowPower

datatype SkipReason = Skip_Unknown | NotRequested | PolicyExcluded | BudgetExhausted
  | NotApplicable

datatype VirtualizationKind = Virt_None | Kvm | Xen | Vmware | Qemu | HyperV | VirtualBox
  | Parallels | Virt_Other

datatype CgroupVersion = V1 | V2

datatype ContainerKind = Docker | Podman | Lxc | Kubernetes | Container_Other

section \<open>Collection requests (\<open>collect.hpp\<close>, \<open>collect_options.hpp\<close>, \<open>error.hpp\<close>)\<close>

text \<open>
  \<open>Collect\<close> is a bit mask over \<open>std::uint32_t\<close>: combinations are values of the
  enumeration, so it is the word itself.
\<close>

type_synonym Collect = u32

definition Collect_Platform :: Collect where "Collect_Platform = push_bit 0 1"
definition Collect_Cpu :: Collect where "Collect_Cpu = push_bit 1 1"
definition Collect_Memory :: Collect where "Collect_Memory = push_bit 2 1"
definition Collect_Accelerator :: Collect where "Collect_Accelerator = push_bit 3 1"
definition Collect_Network :: Collect where "Collect_Network = push_bit 4 1"
definition Collect_Storage :: Collect where "Collect_Storage = push_bit 5 1"
definition Collect_Pci :: Collect where "Collect_Pci = push_bit 6 1"
definition Collect_Software :: Collect where "Collect_Software = push_bit 7 1"
definition Collect_Execution :: Collect where "Collect_Execution = push_bit 8 1"
definition Collect_Raw :: Collect where "Collect_Raw = push_bit 9 1"
definition Collect_Sensors :: Collect where "Collect_Sensors = push_bit 10 1"
definition Collect_StorageHealth :: Collect where "Collect_StorageHealth = push_bit 11 1"

lemmas Collect_defs = Collect_Platform_def Collect_Cpu_def Collect_Memory_def
  Collect_Accelerator_def Collect_Network_def Collect_Storage_def Collect_Pci_def
  Collect_Software_def Collect_Execution_def Collect_Raw_def Collect_Sensors_def
  Collect_StorageHealth_def

definition collect_or :: "Collect \<Rightarrow> Collect \<Rightarrow> Collect" where
  "collect_or a b = Bit_Operations.or a b"

definition has :: "Collect \<Rightarrow> Collect \<Rightarrow> bool" where
  "has flags test \<longleftrightarrow> Bit_Operations.and flags test \<noteq> 0"

definition basic :: Collect where
  "basic = collect_or (collect_or (collect_or Collect_Platform Collect_Cpu) Collect_Memory)
     Collect_Execution"

definition full :: Collect where
  "full = foldl collect_or Collect_Platform
     [Collect_Cpu, Collect_Memory, Collect_Accelerator, Collect_Network, Collect_Storage,
      Collect_Pci, Collect_Software, Collect_Execution, Collect_Raw, Collect_Sensors,
      Collect_StorageHealth]"

lemma full_eq: "full = 4095"
  by (simp add: full_def collect_or_def Collect_defs)

lemma has_or: "has flags (collect_or a b) \<longleftrightarrow> has flags a \<or> has flags b"
proof -
  have "Bit_Operations.and flags (Bit_Operations.or a b) = 0 \<longleftrightarrow>
      Bit_Operations.and flags a = 0 \<and> Bit_Operations.and flags b = 0"
    by (simp add: bit.conj_disj_distrib or_eq_0_iff)
  then show ?thesis by (simp add: has_def collect_or_def)
qed

text \<open>
  The two policies are scoped enumerations. A C++ caller can cast any integer into them and
  \<open>CollectOptions::validate\<close> rejects it, so a policy here is its underlying \<open>int\<close> value.
\<close>

type_synonym FilesystemQuery = i32

definition FilesystemQuery_None :: FilesystemQuery where "FilesystemQuery_None = 0"
definition FilesystemQuery_Local :: FilesystemQuery where "FilesystemQuery_Local = 1"
definition FilesystemQuery_AllMounted :: FilesystemQuery where "FilesystemQuery_AllMounted = 2"

type_synonym SensorDevices = i32

definition SensorDevices_All :: SensorDevices where "SensorDevices_All = 0"
definition SensorDevices_ExcludeDisplay :: SensorDevices where "SensorDevices_ExcludeDisplay = 1"

record CollectOptions =
  opt_filesystems :: FilesystemQuery
  opt_sensors :: SensorDevices

definition CollectOptions_default :: CollectOptions where
  "CollectOptions_default =
     \<lparr>opt_filesystems = FilesystemQuery_Local, opt_sensors = SensorDevices_All\<rparr>"

record CollectionRequest =
  req_flags :: Collect
  req_options :: CollectOptions

datatype ErrorKind = CollectionFailed | ParseError | Err_IoError | FileNotFound
  | Err_PermissionDenied | BackendUnavailable | BackendError | SerializationError
  | DeserializationError | Err_Unknown

text \<open>
  What a call may throw: the library's \<open>SysalError\<close>, \<open>std::invalid_argument\<close>, or an exception of the
  standard library or of the JSON library that nothing catches.
\<close>

datatype exception = SysalError ErrorKind string | InvalidArgument string | ForeignException

end
