(* ===== verification/Cpu_Model.thy ===== *)
theory Cpu_Model
  imports Sysal_Types
begin

text \<open>
  The CPU data model of \<open>include/sysal/model/cpu.hpp\<close> and \<open>cpu_features.hpp\<close>: every struct is
  a record whose fields carry a short prefix, and \<open>X_default\<close> is the value-initialised \<open>X{}\<close>.
\<close>

datatype CpuFeatureNameTag = CpuFeatureNameTag

type_synonym CpuFeatureName = "CpuFeatureNameTag named_string"

datatype CpuFeatureState = Feature_Unknown | Feature_Reported | Feature_NotReported

record CpuFeatureReport =
  rep_name :: CpuFeatureName
  rep_reported_cpu_ids :: "LogicalCpuId list"
  rep_not_reported_cpu_ids :: "LogicalCpuId list"
  rep_unknown_cpu_ids :: "LogicalCpuId list"

record CpuFeatureSummary =
  sum_logical_cpu_ids :: "LogicalCpuId list"
  sum_complete_cpu_ids :: "LogicalCpuId list"
  sum_observed_union :: "CpuFeatureName list"
  sum_common :: "(CpuFeatureName list) option"
  sum_reports :: "CpuFeatureReport list"

definition CpuFeatureSummary_default :: CpuFeatureSummary where
  "CpuFeatureSummary_default =
    \<lparr>sum_logical_cpu_ids = [], sum_complete_cpu_ids = [], sum_observed_union = [],
     sum_common = None, sum_reports = []\<rparr>"

record CpuPackage =
  pkg_id :: CpuPackageId
  pkg_vendor :: Vendor
  pkg_model_name :: DeviceName
  pkg_physical_cores :: u32
  pkg_logical_threads :: u32
  pkg_base_frequency :: "Frequency option"
  pkg_max_frequency :: "Frequency option"

definition CpuPackage_default :: CpuPackage where
  "CpuPackage_default =
    \<lparr>pkg_id = StrongId 0, pkg_vendor = NamedString [], pkg_model_name = NamedString [],
     pkg_physical_cores = 0, pkg_logical_threads = 0, pkg_base_frequency = None,
     pkg_max_frequency = None\<rparr>"

record CpuCore =
  core_id :: CpuCoreId
  core_package_id :: CpuPackageId
  core_logical_threads :: u32
  core_numa_node :: "NumaNodeId option"

definition CpuCore_default :: CpuCore where
  "CpuCore_default =
    \<lparr>core_id = StrongId 0, core_package_id = StrongId 0, core_logical_threads = 0,
     core_numa_node = None\<rparr>"

record CpuIdentification =
  ident_family :: "u32 option"
  ident_model :: "u32 option"
  ident_stepping :: "u32 option"
  ident_implementer :: "u32 option"
  ident_part :: "u32 option"
  ident_variant :: "u32 option"
  ident_revision :: string
  ident_architecture :: string
  ident_microcode :: string
  ident_features :: "string list"
  ident_features_reported :: bool

definition CpuIdentification_default :: CpuIdentification where
  "CpuIdentification_default =
    \<lparr>ident_family = None, ident_model = None, ident_stepping = None,
     ident_implementer = None, ident_part = None, ident_variant = None, ident_revision = [],
     ident_architecture = [], ident_microcode = [], ident_features = [],
     ident_features_reported = False\<rparr>"

record CpuFrequencyPolicy =
  pol_index :: u32
  pol_related_cpus :: "LogicalCpuId list"
  pol_affected_cpus :: "LogicalCpuId list"
  pol_base_frequency :: "Frequency option"
  pol_hardware_min_frequency :: "Frequency option"
  pol_hardware_max_frequency :: "Frequency option"
  pol_scaling_min_frequency :: "Frequency option"
  pol_scaling_max_frequency :: "Frequency option"
  pol_scaling_current_frequency :: "Frequency option"
  pol_hardware_current_frequency :: "Frequency option"
  pol_driver :: string
  pol_governor :: string
  pol_energy_performance_preference :: string

definition CpuFrequencyPolicy_default :: CpuFrequencyPolicy where
  "CpuFrequencyPolicy_default =
    \<lparr>pol_index = 0, pol_related_cpus = [], pol_affected_cpus = [],
     pol_base_frequency = None, pol_hardware_min_frequency = None,
     pol_hardware_max_frequency = None, pol_scaling_min_frequency = None,
     pol_scaling_max_frequency = None, pol_scaling_current_frequency = None,
     pol_hardware_current_frequency = None, pol_driver = [], pol_governor = [],
     pol_energy_performance_preference = []\<rparr>"

record LogicalCpu =
  lc_id :: LogicalCpuId
  lc_core_id :: CpuCoreId
  lc_package_id :: CpuPackageId
  lc_numa_node :: "NumaNodeId option"
  lc_visible_to_current_process :: "bool option"
  lc_identification :: CpuIdentification
  lc_online :: "bool option"

definition LogicalCpu_default :: LogicalCpu where
  "LogicalCpu_default =
    \<lparr>lc_id = StrongId 0, lc_core_id = StrongId 0, lc_package_id = StrongId 0,
     lc_numa_node = None, lc_visible_to_current_process = None,
     lc_identification = CpuIdentification_default, lc_online = None\<rparr>"

record NumaNode =
  nn_id :: NumaNodeId
  nn_cpus :: "LogicalCpuId list"

record CpuCache =
  cache_level :: u32
  cache_type :: CacheType
  cache_size :: MemorySize
  cache_ways :: u32
  cache_line_size :: u32
  cache_cpu_number :: u32
  cache_cache_id :: "u32 option"
  cache_sets :: "u32 option"
  cache_shared_cpus :: "LogicalCpuId list"

definition CpuCache_default :: CpuCache where
  "CpuCache_default =
    \<lparr>cache_level = 0, cache_type = Cache_Data, cache_size = ScalarUnit 0, cache_ways = 0,
     cache_line_size = 0, cache_cpu_number = 0, cache_cache_id = None, cache_sets = None,
     cache_shared_cpus = []\<rparr>"

record ThermalZone =
  tz_name :: string
  tz_type :: string
  tz_temp :: Temperature

definition ThermalZone_default :: ThermalZone where
  "ThermalZone_default =
    \<lparr>tz_name = [], tz_type = [], tz_temp = ScalarUnit 0\<rparr>"

record Cpu =
  cpu_arch :: Arch
  cpu_packages :: "CpuPackage list"
  cpu_cores :: "CpuCore list"
  cpu_logical_cpus :: "LogicalCpu list"
  cpu_numa_nodes :: "NumaNode list"
  cpu_isa_extensions :: "IsaExtension list"
  cpu_caches :: "CpuCache list"
  cpu_governor :: string
  cpu_thermal_zones :: "ThermalZone list"
  cpu_frequency_policies :: "CpuFrequencyPolicy list"
  cpu_present_cpu_ids :: "(LogicalCpuId list) option"
  cpu_online_cpu_ids :: "(LogicalCpuId list) option"
  cpu_smt_supported :: "bool option"
  cpu_smt_active :: "bool option"
  cpu_smt_control :: string
  cpu_boost_enabled :: "bool option"

definition Cpu_default :: Cpu where
  "Cpu_default =
    \<lparr>cpu_arch = Arch_X86_64, cpu_packages = [], cpu_cores = [], cpu_logical_cpus = [],
     cpu_numa_nodes = [], cpu_isa_extensions = [], cpu_caches = [], cpu_governor = [],
     cpu_thermal_zones = [], cpu_frequency_policies = [], cpu_present_cpu_ids = None,
     cpu_online_cpu_ids = None, cpu_smt_supported = None, cpu_smt_active = None,
     cpu_smt_control = [], cpu_boost_enabled = None\<rparr>"

lemmas cpu_default_defs = CpuFeatureSummary_default_def CpuPackage_default_def CpuCore_default_def
  CpuIdentification_default_def CpuFrequencyPolicy_default_def LogicalCpu_default_def
  CpuCache_default_def ThermalZone_default_def Cpu_default_def

end
