(* ===== verification/Device_Model.thy ===== *)
theory Device_Model
  imports Sysal_Types
begin

text \<open>
  The device and process data models of \<open>include/sysal/model/\<close> other than the CPU: PCI,
  accelerators, network with RDMA, memory with EDAC, storage with health, connections and
  classification, sensors, hardware health and the execution context. As in \<open>Cpu_Model\<close>,
  every struct is a record with prefixed fields and \<open>X_default\<close> is \<open>X{}\<close>.
\<close>

section \<open>PCI (\<open>pci.hpp\<close>)\<close>

datatype PciDriverNameTag = PciDriverNameTag
type_synonym PciDriverName = "PciDriverNameTag named_string"

record PciDevice =
  pd_address :: PciAddress
  pd_vendor :: Vendor
  pd_device_name :: DeviceName
  pd_device_class :: PciClass
  pd_numa_node :: "NumaNodeId option"
  pd_physical_slot :: string
  pd_firmware_label :: string
  pd_current_link_speed :: string
  pd_max_link_speed :: string
  pd_current_link_width :: "u32 option"
  pd_max_link_width :: "u32 option"
  pd_upstream_address :: "PciAddress option"
  pd_physical_function :: "PciAddress option"
  pd_driver_name :: PciDriverName
  pd_local_cpus :: "LogicalCpuId list"
  pd_maximum_virtual_functions :: "u32 option"
  pd_enabled_virtual_functions :: "u32 option"

definition PciDevice_default :: PciDevice where
  "PciDevice_default =
    \<lparr>
     pd_address = \<lparr>pci_domain = 0, pci_bus = 0, pci_device = 0, pci_function = 0\<rparr>,
     pd_vendor = NamedString [], pd_device_name = NamedString [],
     pd_device_class = NamedString [], pd_numa_node = None, pd_physical_slot = [],
     pd_firmware_label = [], pd_current_link_speed = [], pd_max_link_speed = [],
     pd_current_link_width = None, pd_max_link_width = None, pd_upstream_address = None,
     pd_physical_function = None, pd_driver_name = NamedString [], pd_local_cpus = [],
     pd_maximum_virtual_functions = None, pd_enabled_virtual_functions = None\<rparr>"

record Pci =
  pci_devices :: "PciDevice list"

definition Pci_default :: Pci where
  "Pci_default =
    \<lparr>pci_devices = []\<rparr>"

section \<open>Accelerators (\<open>accelerator.hpp\<close>)\<close>

record AcceleratorDevice =
  acc_id :: AcceleratorId
  acc_kind :: AcceleratorKind
  acc_vendor :: Vendor
  acc_name :: DeviceName
  acc_pci_address :: "PciAddress option"
  acc_nearest_numa_node :: "NumaNodeId option"
  acc_memory_size :: "MemorySize option"
  acc_driver :: "DriverId option"
  acc_visible_to_current_process :: bool
  acc_uuid :: "string option"
  acc_parent_uuid :: "string option"
  acc_gpu_instance_id :: "u32 option"
  acc_compute_instance_id :: "u32 option"

definition AcceleratorDevice_default :: AcceleratorDevice where
  "AcceleratorDevice_default =
    \<lparr>acc_id = StrongId 0, acc_kind = Acc_Gpu, acc_vendor = NamedString [],
     acc_name = NamedString [], acc_pci_address = None, acc_nearest_numa_node = None,
     acc_memory_size = None, acc_driver = None, acc_visible_to_current_process = False,
     acc_uuid = None, acc_parent_uuid = None, acc_gpu_instance_id = None,
     acc_compute_instance_id = None\<rparr>"

record Accelerators =
  acc_devices :: "AcceleratorDevice list"

definition Accelerators_default :: Accelerators where
  "Accelerators_default =
    \<lparr>acc_devices = []\<rparr>"

section \<open>RDMA and network (\<open>rdma.hpp\<close>, \<open>network.hpp\<close>)\<close>

datatype RdmaPortNumberTag = RdmaPortNumberTag
datatype RdmaLidTag = RdmaLidTag
datatype RdmaGuidTag = RdmaGuidTag
datatype RdmaDeviceNameTag = RdmaDeviceNameTag
type_synonym RdmaPortNumber = "(u32, RdmaPortNumberTag) strong_id"
type_synonym RdmaLid = "(u32, RdmaLidTag) strong_id"
type_synonym RdmaGuid = "RdmaGuidTag named_string"
type_synonym RdmaDeviceName = "RdmaDeviceNameTag named_string"

datatype RdmaNodeType = Rdma_Node_Unknown | ChannelAdapter | Switch | Router | Rnic | Usnic | UsnicUdp
datatype RdmaPortState = Rdma_Port_Unknown | Rdma_Port_Down | Rdma_Port_Init | Armed | Active | ActiveDeferred
datatype RdmaPhysicalState = Rdma_Phys_Unknown | Sleep | Polling | Disabled | Training | LinkUp | Recovery | PhyTest
datatype RdmaLinkLayer = Rdma_Link_Unknown | InfiniBand | Ethernet

record RdmaPort =
  rp_number :: RdmaPortNumber
  rp_state :: RdmaPortState
  rp_physical_state :: RdmaPhysicalState
  rp_link_layer :: RdmaLinkLayer
  rp_rate_report :: string
  rp_rate :: "Bandwidth option"
  rp_lid :: "RdmaLid option"
  rp_subnet_manager_lid :: "RdmaLid option"
  rp_subnet_manager_sl :: "u8 option"
  rp_lid_mask_count :: "u8 option"
  rp_capability_mask :: "u32 option"
  rp_network_interfaces :: "InterfaceName list"

definition RdmaPort_default :: RdmaPort where
  "RdmaPort_default =
    \<lparr>rp_number = StrongId 0, rp_state = Rdma_Port_Unknown,
     rp_physical_state = Rdma_Phys_Unknown, rp_link_layer = Rdma_Link_Unknown,
     rp_rate_report = [], rp_rate = None, rp_lid = None, rp_subnet_manager_lid = None,
     rp_subnet_manager_sl = None, rp_lid_mask_count = None, rp_capability_mask = None,
     rp_network_interfaces = []\<rparr>"

record RdmaDevice =
  rd_id :: RdmaDeviceId
  rd_name :: RdmaDeviceName
  rd_node_type :: RdmaNodeType
  rd_description :: string
  rd_node_guid :: RdmaGuid
  rd_system_image_guid :: RdmaGuid
  rd_firmware_version :: string
  rd_driver :: string
  rd_pci_address :: "PciAddress option"
  rd_numa_node :: "NumaNodeId option"
  rd_vendor :: Vendor
  rd_device_name :: DeviceName
  rd_network_interfaces :: "InterfaceName list"
  rd_ports :: "RdmaPort list"

definition RdmaDevice_default :: RdmaDevice where
  "RdmaDevice_default =
    \<lparr>rd_id = StrongId 0, rd_name = NamedString [], rd_node_type = Rdma_Node_Unknown,
     rd_description = [], rd_node_guid = NamedString [], rd_system_image_guid = NamedString [],
     rd_firmware_version = [], rd_driver = [], rd_pci_address = None, rd_numa_node = None,
     rd_vendor = NamedString [], rd_device_name = NamedString [], rd_network_interfaces = [],
     rd_ports = []\<rparr>"

record RdmaInventory =
  ri_status :: CollectStatus
  ri_failure :: "ReadFailure option"
  ri_devices :: "RdmaDevice list"

definition RdmaInventory_default :: RdmaInventory where
  "RdmaInventory_default =
    \<lparr>ri_status = NotCollected, ri_failure = Some NotProvided, ri_devices = []\<rparr>"

record NetworkInterface =
  if_name :: InterfaceName
  if_mac :: MacAddress
  if_state :: InterfaceState
  if_speed :: "Bandwidth option"
  if_addresses :: "IpAddress list"
  if_pci_address :: "PciAddress option"
  if_visible_to_current_process :: bool
  if_mtu :: "MemorySize option"
  if_carrier :: "bool option"
  if_duplex :: string
  if_driver :: string
  if_physical_port_name :: string
  if_numa_node :: "NumaNodeId option"
  if_interface_index :: "u32 option"
  if_vendor :: Vendor
  if_device_name :: DeviceName
  if_firmware_version :: string
  if_driver_version :: string
  if_permanent_mac :: "MacAddress option"
  if_autonegotiation :: "bool option"
  if_supported_link_modes :: "string list"
  if_advertised_link_modes :: "string list"
  if_peer_link_modes :: "string list"
  if_master :: "InterfaceName option"
  if_lower_interfaces :: "InterfaceName list"
  if_interface_kind :: string
  if_bond_mode :: string
  if_vlan_id :: "u32 option"
  if_vlan_parent :: "InterfaceName option"

definition NetworkInterface_default :: NetworkInterface where
  "NetworkInterface_default =
    \<lparr>if_name = NamedString [], if_mac = NamedString [], if_state = If_Unknown,
     if_speed = None, if_addresses = [], if_pci_address = None,
     if_visible_to_current_process = False, if_mtu = None, if_carrier = None, if_duplex = [],
     if_driver = [], if_physical_port_name = [], if_numa_node = None, if_interface_index = None,
     if_vendor = NamedString [], if_device_name = NamedString [], if_firmware_version = [],
     if_driver_version = [], if_permanent_mac = None, if_autonegotiation = None,
     if_supported_link_modes = [], if_advertised_link_modes = [], if_peer_link_modes = [],
     if_master = None, if_lower_interfaces = [], if_interface_kind = [], if_bond_mode = [],
     if_vlan_id = None, if_vlan_parent = None\<rparr>"

record Network =
  net_interfaces :: "NetworkInterface list"
  net_rdma :: RdmaInventory

definition Network_default :: Network where
  "Network_default =
    \<lparr>net_interfaces = [], net_rdma = RdmaInventory_default\<rparr>"

section \<open>Memory (\<open>memory.hpp\<close>)\<close>

datatype EdacLocationLayer = EdacLayer_Unknown | Branch | Channel | Slot | ChipSelect | AllMemory
datatype EdacMemoryDeviceKind = Edac_Unknown | Dimm | Rank
datatype DimmEdacAssociation = Assoc_Unknown | EdacInventory | LabelAndCapacity
datatype EdacMemoryDeviceIndexTag = EdacMemoryDeviceIndexTag
type_synonym EdacMemoryDeviceIndex = "(u32, EdacMemoryDeviceIndexTag) strong_id"

record NumaMemory =
  nm_node :: NumaNodeId
  nm_total :: MemorySize
  nm_available :: "MemorySize option"
  nm_free :: "MemorySize option"

definition NumaMemory_default :: NumaMemory where
  "NumaMemory_default =
    \<lparr>nm_node = StrongId 0, nm_total = ScalarUnit 0, nm_available = None,
     nm_free = None\<rparr>"

record EdacLocationCoordinate =
  coord_layer :: EdacLocationLayer
  coord_index :: u32

record EdacLocation =
  loc_report :: string
  loc_coordinates :: "EdacLocationCoordinate list"

definition EdacLocation_default :: EdacLocation where
  "EdacLocation_default =
    \<lparr>loc_report = [], loc_coordinates = []\<rparr>"

record EdacMemoryDevice =
  ed_controller_index :: u32
  ed_index :: EdacMemoryDeviceIndex
  ed_kind :: EdacMemoryDeviceKind
  ed_label :: string
  ed_size :: "MemorySize option"
  ed_location :: EdacLocation
  ed_memory_type :: string
  ed_edac_mode :: string
  ed_device_width :: string
  ed_numa_node :: "NumaNodeId option"

definition EdacMemoryDevice_default :: EdacMemoryDevice where
  "EdacMemoryDevice_default =
    \<lparr>ed_controller_index = 0, ed_index = StrongId 0, ed_kind = Edac_Unknown,
     ed_label = [], ed_size = None, ed_location = EdacLocation_default, ed_memory_type = [],
     ed_edac_mode = [], ed_device_width = [], ed_numa_node = None\<rparr>"

record MemoryController =
  mc_index :: u32
  mc_name :: string
  mc_capacity :: "MemorySize option"
  mc_corrected_errors :: "u64 option"
  mc_uncorrected_errors :: "u64 option"
  mc_numa_node :: "NumaNodeId option"
  mc_pci_address :: "PciAddress option"
  mc_max_location :: EdacLocation

definition MemoryController_default :: MemoryController where
  "MemoryController_default =
    \<lparr>mc_index = 0, mc_name = [], mc_capacity = None, mc_corrected_errors = None,
     mc_uncorrected_errors = None, mc_numa_node = None, mc_pci_address = None,
     mc_max_location = EdacLocation_default\<rparr>"

record DimmInfo =
  dimm_locator :: string
  dimm_bank_locator :: string
  dimm_size :: MemorySize
  dimm_speed_mts :: "TransferRate option"
  dimm_manufacturer :: "Vendor option"
  dimm_part_number :: "string option"
  dimm_rank :: "u32 option"
  dimm_total_width :: "u32 option"
  dimm_data_width :: "u32 option"
  dimm_form_factor :: "string option"
  dimm_present :: bool
  dimm_memory_type :: string
  dimm_configured_speed_mts :: "TransferRate option"
  dimm_serial :: string
  dimm_asset_tag :: string
  dimm_type_detail :: string
  dimm_configured_voltage_mv :: "Millivolts option"
  dimm_edac_mode :: string
  dimm_device_width :: string
  dimm_controller_index :: "u32 option"
  dimm_numa_node :: "NumaNodeId option"
  dimm_edac_device_index :: "EdacMemoryDeviceIndex option"
  dimm_edac_association :: DimmEdacAssociation

definition DimmInfo_default :: DimmInfo where
  "DimmInfo_default =
    \<lparr>dimm_locator = [], dimm_bank_locator = [], dimm_size = ScalarUnit 0,
     dimm_speed_mts = None, dimm_manufacturer = None, dimm_part_number = None, dimm_rank = None,
     dimm_total_width = None, dimm_data_width = None, dimm_form_factor = None,
     dimm_present = False, dimm_memory_type = [], dimm_configured_speed_mts = None,
     dimm_serial = [], dimm_asset_tag = [], dimm_type_detail = [],
     dimm_configured_voltage_mv = None, dimm_edac_mode = [], dimm_device_width = [],
     dimm_controller_index = None, dimm_numa_node = None, dimm_edac_device_index = None,
     dimm_edac_association = Assoc_Unknown\<rparr>"

record Memory =
  mem_total_memory :: MemorySize
  mem_available_memory :: "MemorySize option"
  mem_memory_type :: string
  mem_configured_speed_mts :: "TransferRate option"
  mem_numa_memory :: "NumaMemory list"
  mem_dimms :: "DimmInfo list"
  mem_dimm_count :: "u32 option"
  mem_populated_dimms :: "u32 option"
  mem_controllers :: "MemoryController list"
  mem_dimm_inventory_source :: string
  mem_reported_slot_count :: "u32 option"
  mem_reported_array_location :: string
  mem_reported_array_error_correction :: string
  mem_reported_array_max_capacity :: "MemorySize option"
  mem_reported_slots_complete :: "bool option"
  mem_edac_devices :: "EdacMemoryDevice list"

definition Memory_default :: Memory where
  "Memory_default =
    \<lparr>mem_total_memory = ScalarUnit 0, mem_available_memory = None, mem_memory_type = [],
     mem_configured_speed_mts = None, mem_numa_memory = [], mem_dimms = [],
     mem_dimm_count = None, mem_populated_dimms = None, mem_controllers = [],
     mem_dimm_inventory_source = [], mem_reported_slot_count = None,
     mem_reported_array_location = [], mem_reported_array_error_correction = [],
     mem_reported_array_max_capacity = None, mem_reported_slots_complete = None,
     mem_edac_devices = []\<rparr>"

end
