(* ===== verification/Storage_Model.thy ===== *)
theory Storage_Model
  imports Sysal_Types
begin

text \<open>
  The storage and sensor data models: \<open>storage.hpp\<close>, \<open>storage_connections.hpp\<close>,
  \<open>storage_classification.hpp\<close>, \<open>storage_health.hpp\<close>, \<open>filesystem.hpp\<close>, \<open>sensors.hpp\<close> and
  \<open>hardware_health.hpp\<close>.
\<close>

section \<open>Connections and classification\<close>

datatype NvmeControllerNameTag = NvmeControllerNameTag
datatype NvmeControllerIdTag = NvmeControllerIdTag
datatype NvmeNamespaceIdTag = NvmeNamespaceIdTag
datatype ScsiHostNumberTag = ScsiHostNumberTag
datatype ScsiChannelIdTag = ScsiChannelIdTag
datatype ScsiTargetIdTag = ScsiTargetIdTag
datatype ScsiLunTag = ScsiLunTag
datatype AtaPortNumberTag = AtaPortNumberTag

type_synonym NvmeControllerName = "NvmeControllerNameTag named_string"
type_synonym NvmeControllerId = "(u16, NvmeControllerIdTag) strong_id"
type_synonym NvmeNamespaceId = "(u32, NvmeNamespaceIdTag) strong_id"
type_synonym ScsiHostNumber = "(u32, ScsiHostNumberTag) strong_id"
type_synonym ScsiChannelId = "(u32, ScsiChannelIdTag) strong_id"
type_synonym ScsiTargetId = "(u32, ScsiTargetIdTag) strong_id"
type_synonym ScsiLun = "(u64, ScsiLunTag) strong_id"
type_synonym AtaPortNumber = "(u32, AtaPortNumberTag) strong_id"

record StorageController =
  sc_pci_address :: PciAddress
  sc_class_code :: u32
  sc_vendor :: Vendor
  sc_model :: DeviceName
  sc_driver :: string
  sc_numa_node :: "NumaNodeId option"

record NvmeController =
  nc_name :: NvmeControllerName
  nc_transport :: string
  nc_address :: string
  nc_model :: string
  nc_serial :: string
  nc_firmware_revision :: string
  nc_state :: string
  nc_controller_id :: "NvmeControllerId option"
  nc_subsystem_nqn :: string
  nc_pci_address :: "PciAddress option"
  nc_numa_node :: "NumaNodeId option"

definition NvmeController_default :: NvmeController where
  "NvmeController_default =
    \<lparr>nc_name = NamedString [], nc_transport = [], nc_address = [], nc_model = [],
     nc_serial = [], nc_firmware_revision = [], nc_state = [], nc_controller_id = None,
     nc_subsystem_nqn = [], nc_pci_address = None, nc_numa_node = None\<rparr>"

record ScsiHost =
  sh_number :: ScsiHostNumber
  sh_proc_name :: string
  sh_state :: string
  sh_supported_mode :: string
  sh_active_mode :: string
  sh_pci_address :: "PciAddress option"
  sh_numa_node :: "NumaNodeId option"
  sh_ata_port :: "AtaPortNumber option"

definition ScsiHost_default :: ScsiHost where
  "ScsiHost_default =
    \<lparr>sh_number = StrongId 0, sh_proc_name = [], sh_state = [], sh_supported_mode = [],
     sh_active_mode = [], sh_pci_address = None, sh_numa_node = None, sh_ata_port = None\<rparr>"

record ScsiAddress =
  sa_host :: ScsiHostNumber
  sa_channel :: ScsiChannelId
  sa_target :: ScsiTargetId
  sa_lun :: ScsiLun

record ScsiDeviceInfo =
  sd_address :: ScsiAddress
  sd_peripheral_type :: "u32 option"
  sd_state :: string

record NvmeNamespaceInfo =
  nsi_id :: NvmeNamespaceId
  nsi_nguid :: string
  nsi_eui :: string
  nsi_controllers :: "NvmeControllerName list"

datatype BlockDeviceLayer = Layer_Unknown | Layer_Device | Partition | DeviceMapper | Raid | Loop | Virtual
datatype StoragePurpose = Purpose_Unknown | Disk | Optical | Purpose_Other
datatype StorageTransport = Transport_Unknown | Pcie | Sata | Sas | Usb | Tcp | Transport_Rdma
  | FibreChannel | Iscsi | ParallelScsi

record StorageClassification =
  cls_layer :: BlockDeviceLayer
  cls_purpose :: StoragePurpose
  cls_protocol :: StorageProtocol
  cls_transports :: "StorageTransport list"

definition StorageClassification_default :: StorageClassification where
  "StorageClassification_default =
    \<lparr>cls_layer = Layer_Unknown, cls_purpose = Purpose_Unknown,
     cls_protocol = Proto_Unknown, cls_transports = []\<rparr>"

section \<open>Sensors\<close>

datatype SensorIdTag = SensorIdTag
datatype FanSpeedTag = FanSpeedTag
datatype SensorPowerTag = SensorPowerTag
type_synonym SensorId = "SensorIdTag named_string"
type_synonym FanSpeed = "FanSpeedTag scalar_unit"
type_synonym SensorPower = "SensorPowerTag scalar_unit"

text \<open>
  \<open>SensorTemperature\<close> is a signed count of millidegrees (\<open>std::int64_t\<close>), read with
  \<^const>\<open>sint\<close>. \<open>SensorReading\<close> is a template over the unit.
\<close>

datatype SensorTemperature = SensorTemperature (temperature_value: i64)

record SensorIdentity =
  si_id :: SensorId
  si_chip :: string
  si_driver :: string
  si_channel :: string
  si_label :: string
  si_source :: RawSource
  si_origin :: string
  si_device_path :: string
  si_pci_address :: "PciAddress option"

definition SensorIdentity_default :: SensorIdentity where
  "SensorIdentity_default =
    \<lparr>si_id = NamedString [], si_chip = [], si_driver = [], si_channel = [], si_label = [],
     si_source = ProcCpuInfo, si_origin = [], si_device_path = [], si_pci_address = None\<rparr>"

record SensorAlarm =
  alarm_attribute :: string
  alarm_active :: bool

record 'unit SensorReading =
  sr_identity :: SensorIdentity
  sr_input :: "'unit option"
  sr_average :: "'unit option"
  sr_minimum :: "'unit option"
  sr_maximum :: "'unit option"
  sr_critical :: "'unit option"
  sr_enabled :: "bool option"
  sr_fault :: "bool option"
  sr_alarms :: "SensorAlarm list"
  sr_unit_supported :: bool

definition SensorReading_default :: "'unit SensorReading" where
  "SensorReading_default =
    \<lparr>sr_identity = SensorIdentity_default, sr_input = None, sr_average = None,
     sr_minimum = None, sr_maximum = None, sr_critical = None, sr_enabled = None,
     sr_fault = None, sr_alarms = [], sr_unit_supported = True\<rparr>"

record Sensors =
  sens_temperatures :: "(SensorTemperature SensorReading) list"
  sens_fans :: "(FanSpeed SensorReading) list"
  sens_powers :: "(SensorPower SensorReading) list"

definition Sensors_default :: Sensors where
  "Sensors_default =
    \<lparr>sens_temperatures = [], sens_fans = [], sens_powers = []\<rparr>"

section \<open>Storage health and file systems\<close>

text \<open>An exact unsigned 128-bit count, kept as its decimal text.\<close>

datatype StorageCounter = StorageCounter (counter_decimal: string)

record NvmeHealth =
  nvme_critical_warning :: "u8 option"
  nvme_available_spare :: "u8 option"
  nvme_spare_threshold :: "u8 option"
  nvme_percentage_used :: "u8 option"
  nvme_temperature :: "SensorTemperature option"
  nvme_power_on_hours :: "StorageCounter option"
  nvme_power_cycles :: "StorageCounter option"
  nvme_unsafe_shutdowns :: "StorageCounter option"
  nvme_media_errors :: "StorageCounter option"
  nvme_error_log_entries :: "StorageCounter option"
  nvme_data_units_read :: "StorageCounter option"
  nvme_data_units_written :: "StorageCounter option"

definition NvmeHealth_default :: NvmeHealth where
  "NvmeHealth_default =
    \<lparr>nvme_critical_warning = None, nvme_available_spare = None,
     nvme_spare_threshold = None, nvme_percentage_used = None, nvme_temperature = None,
     nvme_power_on_hours = None, nvme_power_cycles = None, nvme_unsafe_shutdowns = None,
     nvme_media_errors = None, nvme_error_log_entries = None, nvme_data_units_read = None,
     nvme_data_units_written = None\<rparr>"

record AtaHealthAttribute =
  ata_id :: u8
  ata_name :: string
  ata_value :: "u8 option"
  ata_worst :: "u8 option"
  ata_threshold :: "u8 option"
  ata_raw :: string
  ata_when_failed :: string

definition AtaHealthAttribute_default :: AtaHealthAttribute where
  "AtaHealthAttribute_default =
    \<lparr>ata_id = 0, ata_name = [], ata_value = None, ata_worst = None, ata_threshold = None,
     ata_raw = [], ata_when_failed = []\<rparr>"

record ScsiHealth =
  scsi_read_uncorrected :: "StorageCounter option"
  scsi_write_uncorrected :: "StorageCounter option"
  scsi_verify_uncorrected :: "StorageCounter option"

definition ScsiHealth_default :: ScsiHealth where
  "ScsiHealth_default =
    \<lparr>scsi_read_uncorrected = None, scsi_write_uncorrected = None,
     scsi_verify_uncorrected = None\<rparr>"

record StorageHealthReport =
  shr_target :: DeviceName
  shr_devices :: "DeviceName list"
  shr_protocol :: StorageProtocol
  shr_source :: RawSource
  shr_origin :: string
  shr_status :: CollectStatus
  shr_failure :: "ReadFailure option"
  shr_smart_available :: "bool option"
  shr_smart_enabled :: "bool option"
  shr_passed :: "bool option"
  shr_nvme :: "NvmeHealth option"
  shr_ata_attributes :: "AtaHealthAttribute list"
  shr_scsi :: "ScsiHealth option"

definition StorageHealthReport_default :: StorageHealthReport where
  "StorageHealthReport_default =
    \<lparr>shr_target = NamedString [], shr_devices = [], shr_protocol = Proto_Unknown,
     shr_source = Smartctl, shr_origin = [], shr_status = NotCollected, shr_failure = None,
     shr_smart_available = None, shr_smart_enabled = None, shr_passed = None, shr_nvme = None,
     shr_ata_attributes = [], shr_scsi = None\<rparr>"

datatype FilesystemKind = Fs_Local | Fs_Network | Fs_Memory | Fs_Pseudo | Fs_Userspace | Fs_Unknown

record FilesystemUsage =
  fu_total :: MemorySize
  fu_free :: "MemorySize option"
  fu_available :: "MemorySize option"
  fu_inodes :: "u64 option"
  fu_free_inodes :: "u64 option"
  fu_available_inodes :: "u64 option"
  fu_filesystem_id :: string

record FilesystemReport =
  fr_mount_ids :: "u32 list"
  fr_kind :: FilesystemKind
  fr_status :: CollectStatus
  fr_failure :: "ReadFailure option"
  fr_note :: string
  fr_usage :: "FilesystemUsage option"
  fr_skip :: "SkipReason option"

definition FilesystemReport_default :: FilesystemReport where
  "FilesystemReport_default =
    \<lparr>fr_mount_ids = [], fr_kind = Fs_Unknown, fr_status = NotCollected, fr_failure = None,
     fr_note = [], fr_usage = None, fr_skip = None\<rparr>"

section \<open>Storage\<close>

record StorageMount =
  sm_mount_id :: u32
  sm_parent_mount_id :: u32
  sm_device_number :: DeviceNumber
  sm_root :: string
  sm_path :: MountPoint
  sm_filesystem :: FilesystemType
  sm_source :: string
  sm_options :: "string list"
  sm_block_device :: "DeviceName option"
  sm_read_only :: bool

definition StorageMount_default :: StorageMount where
  "StorageMount_default =
    \<lparr>sm_mount_id = 0, sm_parent_mount_id = 0,
     sm_device_number = \<lparr>dev_major = 0, dev_minor = 0\<rparr>, sm_root = [],
     sm_path = NamedString [], sm_filesystem = NamedString [], sm_source = [], sm_options = [],
     sm_block_device = None, sm_read_only = False\<rparr>"

record StorageDevice =
  st_id :: StorageId
  st_name :: DeviceName
  st_capacity :: "MemorySize option"
  st_pci_address :: "PciAddress option"
  st_kind :: StorageKind
  st_mount_point :: "MountPoint option"
  st_fs_type :: "FilesystemType option"
  st_model :: string
  st_vendor :: Vendor
  st_serial :: string
  st_firmware_revision :: string
  st_wwid :: string
  st_logical_block_size :: "MemorySize option"
  st_physical_block_size :: "MemorySize option"
  st_minimum_io_size :: "MemorySize option"
  st_optimal_io_size :: "MemorySize option"
  st_rotational :: "bool option"
  st_read_only :: "bool option"
  st_removable :: "bool option"
  st_numa_node :: "NumaNodeId option"
  st_transport :: string
  st_controller_name :: string
  st_scheduler :: string
  st_device_number :: "DeviceNumber option"
  st_partition_number :: "u32 option"
  st_parent :: "DeviceName option"
  st_slaves :: "DeviceName list"
  st_layer :: string
  st_mapper_name :: string
  st_mapper_uuid :: string
  st_raid_level :: string
  st_raid_state :: string
  st_raid_disks :: "u32 option"
  st_raid_degraded :: "u32 option"
  st_nvme_namespace :: "NvmeNamespaceInfo option"
  st_scsi_device :: "ScsiDeviceInfo option"
  st_driver :: string
  st_classification :: StorageClassification

definition StorageDevice_default :: StorageDevice where
  "StorageDevice_default =
    \<lparr>st_id = StrongId 0, st_name = NamedString [], st_capacity = None,
     st_pci_address = None, st_kind = Stor_Other, st_mount_point = None, st_fs_type = None,
     st_model = [], st_vendor = NamedString [], st_serial = [], st_firmware_revision = [],
     st_wwid = [], st_logical_block_size = None, st_physical_block_size = None,
     st_minimum_io_size = None, st_optimal_io_size = None, st_rotational = None,
     st_read_only = None, st_removable = None, st_numa_node = None, st_transport = [],
     st_controller_name = [], st_scheduler = [], st_device_number = None,
     st_partition_number = None, st_parent = None, st_slaves = [], st_layer = [],
     st_mapper_name = [], st_mapper_uuid = [], st_raid_level = [], st_raid_state = [],
     st_raid_disks = None, st_raid_degraded = None, st_nvme_namespace = None,
     st_scsi_device = None, st_driver = [],
     st_classification = StorageClassification_default\<rparr>"

record Storage =
  storage_devices :: "StorageDevice list"
  storage_filesystems :: "FilesystemReport list"
  storage_mounts :: "StorageMount list"
  storage_health :: "StorageHealthReport list"
  storage_controllers :: "StorageController list"
  storage_nvme_controllers :: "NvmeController list"
  storage_scsi_hosts :: "ScsiHost list"

definition Storage_default :: Storage where
  "Storage_default =
    \<lparr>storage_devices = [], storage_filesystems = [], storage_mounts = [],
     storage_health = [], storage_controllers = [], storage_nvme_controllers = [],
     storage_scsi_hosts = []\<rparr>"

section \<open>Hardware health\<close>

datatype HealthSeverity = Information | Warning | Critical
datatype SensorAlertKind = DriverAlarm | Fault | CriticalLimit | BelowMinimum | AboveMaximum
datatype HealthCoverageStatus = Coverage_NotRequested | Unavailable | Coverage_Partial | Available
datatype DriveFindingKind = SmartFailed | NvmeWarning | SpareLow | EnduranceEstimate | AtaCurrent
  | AtaHistorical | NvmeMediaHistory | ScsiHistory

record SensorAlert =
  sal_sensor :: SensorId
  sal_kind :: SensorAlertKind
  sal_severity :: HealthSeverity
  sal_origin :: string

record StorageAlert =
  stal_device :: DeviceName
  stal_degraded_members :: u32
  stal_severity :: HealthSeverity
  stal_origin :: string

record MemoryErrorEvent =
  mee_controller_index :: u32
  mee_corrected :: "u64 option"
  mee_uncorrected :: "u64 option"
  mee_severity :: HealthSeverity
  mee_origin :: string

record HealthCoverage =
  cov_domain :: string
  cov_status :: HealthCoverageStatus
  cov_usable_readings :: u32
  cov_alarm_reports :: u32

definition HealthCoverage_default :: HealthCoverage where
  "HealthCoverage_default =
    \<lparr>cov_domain = [], cov_status = Coverage_NotRequested, cov_usable_readings = 0,
     cov_alarm_reports = 0\<rparr>"

record DriveFinding =
  df_target :: DeviceName
  df_kind :: DriveFindingKind
  df_severity :: HealthSeverity
  df_origin :: string
  df_attribute_id :: "u8 option"

record HardwareHealth =
  hh_sensor_alerts :: "SensorAlert list"
  hh_storage_alerts :: "StorageAlert list"
  hh_memory_events :: "MemoryErrorEvent list"
  hh_coverage :: "HealthCoverage list"
  hh_drive_findings :: "DriveFinding list"

definition HardwareHealth_default :: HardwareHealth where
  "HardwareHealth_default =
    \<lparr>hh_sensor_alerts = [], hh_storage_alerts = [], hh_memory_events = [],
     hh_coverage = [], hh_drive_findings = []\<rparr>"

end
