(* ===== verification/Process_Model.thy ===== *)
theory Process_Model
  imports Sysal_Types
begin

text \<open>
  The host, software and process data models: \<open>platform.hpp\<close>, \<open>software.hpp\<close> and
  \<open>execution.hpp\<close>.
\<close>

section \<open>Platform (\<open>platform.hpp\<close>)\<close>

record Host =
  host_hostname :: string
  host_machine_id :: string
  host_product_name :: string
  host_vendor :: Vendor
  host_serial :: string
  host_product_family :: string
  host_product_version :: string
  host_product_sku :: string
  host_product_uuid :: string

definition Host_default :: Host where
  "Host_default =
    \<lparr>host_hostname = [], host_machine_id = [], host_product_name = [],
     host_vendor = NamedString [], host_serial = [], host_product_family = [],
     host_product_version = [], host_product_sku = [], host_product_uuid = []\<rparr>"

record Baseboard =
  board_vendor :: Vendor
  board_name :: string
  board_version :: string
  board_serial :: string
  board_asset_tag :: string

definition Baseboard_default :: Baseboard where
  "Baseboard_default =
    \<lparr>board_vendor = NamedString [], board_name = [], board_version = [],
     board_serial = [], board_asset_tag = []\<rparr>"

record Chassis =
  chassis_vendor :: Vendor
  chassis_type :: "u32 option"
  chassis_version :: string
  chassis_serial :: string
  chassis_asset_tag :: string

definition Chassis_default :: Chassis where
  "Chassis_default =
    \<lparr>chassis_vendor = NamedString [], chassis_type = None, chassis_version = [],
     chassis_serial = [], chassis_asset_tag = []\<rparr>"

record Os =
  os_name :: string
  os_version :: string
  os_distribution :: string
  os_distribution_version :: string
  os_codename :: string

definition Os_default :: Os where
  "Os_default =
    \<lparr>os_name = [], os_version = [], os_distribution = [], os_distribution_version = [],
     os_codename = []\<rparr>"

record Kernel =
  kernel_release :: string
  kernel_version :: string
  kernel_compiled_at :: string
  kernel_architecture :: string

definition Kernel_default :: Kernel where
  "Kernel_default =
    \<lparr>kernel_release = [], kernel_version = [], kernel_compiled_at = [],
     kernel_architecture = []\<rparr>"

record Architecture =
  arch_name :: string
  arch_bits :: u32
  arch_byte_order :: string

definition Architecture_default :: Architecture where
  "Architecture_default =
    \<lparr>arch_name = [], arch_bits = 0, arch_byte_order = []\<rparr>"

record Firmware =
  fw_bios_vendor :: Vendor
  fw_bios_version :: string
  fw_bios_date :: string
  fw_uefi :: bool
  fw_bios_release :: string
  fw_ec_firmware_release :: string

definition Firmware_default :: Firmware where
  "Firmware_default =
    \<lparr>fw_bios_vendor = NamedString [], fw_bios_version = [], fw_bios_date = [],
     fw_uefi = False, fw_bios_release = [], fw_ec_firmware_release = []\<rparr>"

record Virtualization =
  virt_kind :: VirtualizationKind
  virt_hypervisor :: string

definition Virtualization_default :: Virtualization where
  "Virtualization_default =
    \<lparr>virt_kind = Virt_None, virt_hypervisor = []\<rparr>"

record Platform =
  plat_host :: Host
  plat_os :: Os
  plat_kernel :: Kernel
  plat_architecture :: Architecture
  plat_firmware :: "Firmware option"
  plat_virtualization :: "Virtualization option"
  plat_baseboard :: "Baseboard option"
  plat_chassis :: "Chassis option"

definition Platform_default :: Platform where
  "Platform_default =
    \<lparr>plat_host = Host_default, plat_os = Os_default, plat_kernel = Kernel_default,
     plat_architecture = Architecture_default, plat_firmware = None, plat_virtualization = None,
     plat_baseboard = None, plat_chassis = None\<rparr>"

section \<open>Software (\<open>software.hpp\<close>)\<close>

record Driver =
  drv_id :: DriverId
  drv_name :: string
  drv_version :: string
  drv_loaded :: bool
  drv_path :: string

definition Driver_default :: Driver where
  "Driver_default =
    \<lparr>drv_id = StrongId 0, drv_name = [], drv_version = [], drv_loaded = False,
     drv_path = []\<rparr>"

record Runtime =
  rt_name :: string
  rt_version :: string
  rt_path :: string
  rt_env_var :: string

definition Runtime_default :: Runtime where
  "Runtime_default =
    \<lparr>rt_name = [], rt_version = [], rt_path = [], rt_env_var = []\<rparr>"

record Compiler =
  comp_name :: string
  comp_version :: string
  comp_path :: string
  comp_target :: string

definition Compiler_default :: Compiler where
  "Compiler_default =
    \<lparr>comp_name = [], comp_version = [], comp_path = [], comp_target = []\<rparr>"

record Library =
  lib_name :: string
  lib_version :: string
  lib_path :: string
  lib_kind :: string

definition Library_default :: Library where
  "Library_default =
    \<lparr>lib_name = [], lib_version = [], lib_path = [], lib_kind = []\<rparr>"

record Cuda =
  cuda_version :: string
  cuda_driver_version :: string
  cuda_nvcc_path :: string
  cuda_home :: string

definition Cuda_default :: Cuda where
  "Cuda_default =
    \<lparr>cuda_version = [], cuda_driver_version = [], cuda_nvcc_path = [],
     cuda_home = []\<rparr>"

record Rocm =
  rocm_version :: string
  rocm_hip_path :: string
  rocm_rocm_path :: string

definition Rocm_default :: Rocm where
  "Rocm_default =
    \<lparr>rocm_version = [], rocm_hip_path = [], rocm_rocm_path = []\<rparr>"

record LevelZero =
  lz_version :: string
  lz_loader_path :: string

definition LevelZero_default :: LevelZero where
  "LevelZero_default =
    \<lparr>lz_version = [], lz_loader_path = []\<rparr>"

record Mpi =
  mpi_implementation :: string
  mpi_version :: string
  mpi_path :: string

definition Mpi_default :: Mpi where
  "Mpi_default =
    \<lparr>mpi_implementation = [], mpi_version = [], mpi_path = []\<rparr>"

record RdmaStack =
  rs_rdma_core_version :: string
  rs_ibverbs_path :: string
  rs_ucx_version :: string

definition RdmaStack_default :: RdmaStack where
  "RdmaStack_default =
    \<lparr>rs_rdma_core_version = [], rs_ibverbs_path = [], rs_ucx_version = []\<rparr>"

record SoftwareStack =
  sw_drivers :: "Driver list"
  sw_runtimes :: "Runtime list"
  sw_compilers :: "Compiler list"
  sw_libraries :: "Library list"
  sw_cuda :: "Cuda option"
  sw_rocm :: "Rocm option"
  sw_level_zero :: "LevelZero option"
  sw_mpi :: "Mpi option"
  sw_rdma :: "RdmaStack option"

definition SoftwareStack_default :: SoftwareStack where
  "SoftwareStack_default =
    \<lparr>sw_drivers = [], sw_runtimes = [], sw_compilers = [], sw_libraries = [],
     sw_cuda = None, sw_rocm = None, sw_level_zero = None, sw_mpi = None, sw_rdma = None\<rparr>"

section \<open>Execution context (\<open>execution.hpp\<close>)\<close>

record Process =
  proc_pid :: i32
  proc_ppid :: i32
  proc_uid :: u32
  proc_gid :: u32
  proc_comm :: string
  proc_exe :: string
  proc_cwd :: string

definition Process_default :: Process where
  "Process_default =
    \<lparr>proc_pid = 0, proc_ppid = 0, proc_uid = 0, proc_gid = 0, proc_comm = [],
     proc_exe = [], proc_cwd = []\<rparr>"

record Environment =
  env_entries :: "(string \<times> string) list"

definition Environment_default :: Environment where
  "Environment_default =
    \<lparr>env_entries = []\<rparr>"

record Cgroup =
  cg_version :: CgroupVersion
  cg_path :: string
  cg_controllers :: "string list"
  cg_cpu_quota_us :: "Microseconds option"
  cg_cpu_period_us :: "Microseconds option"
  cg_memory_limit :: "MemorySize option"
  cg_memory_current :: "MemorySize option"
  cg_cpu_limit_known :: bool
  cg_memory_limit_known :: bool

definition Cgroup_default :: Cgroup where
  "Cgroup_default =
    \<lparr>cg_version = V1, cg_path = [], cg_controllers = [], cg_cpu_quota_us = None,
     cg_cpu_period_us = None, cg_memory_limit = None, cg_memory_current = None,
     cg_cpu_limit_known = False, cg_memory_limit_known = False\<rparr>"

record Cpuset =
  cs_cpus :: string
  cs_mems :: string
  cs_cpus_effective :: string
  cs_mems_effective :: string

definition Cpuset_default :: Cpuset where
  "Cpuset_default =
    \<lparr>cs_cpus = [], cs_mems = [], cs_cpus_effective = [], cs_mems_effective = []\<rparr>"

record Permission =
  perm_euid :: u32
  perm_egid :: u32
  perm_capabilities :: "string list"
  perm_is_root :: bool

definition Permission_default :: Permission where
  "Permission_default =
    \<lparr>perm_euid = 0, perm_egid = 0, perm_capabilities = [], perm_is_root = False\<rparr>"

record Container =
  cont_kind :: ContainerKind
  cont_id :: string
  cont_runtime :: string

record ExecutionContext =
  ex_process :: Process
  ex_environment :: Environment
  ex_cgroup :: Cgroup
  ex_cpuset :: Cpuset
  ex_permission :: Permission
  ex_container :: "Container option"
  ex_visible_logical_cpu_ids :: "LogicalCpuId list"
  ex_visible_accelerator_ids :: "AcceleratorId list"
  ex_visible_network_interface_names :: "InterfaceName list"
  ex_cpu_visibility_known :: bool
  ex_accelerator_visibility_restricted :: bool

definition ExecutionContext_default :: ExecutionContext where
  "ExecutionContext_default =
    \<lparr>ex_process = Process_default, ex_environment = Environment_default,
     ex_cgroup = Cgroup_default, ex_cpuset = Cpuset_default, ex_permission = Permission_default,
     ex_container = None, ex_visible_logical_cpu_ids = [], ex_visible_accelerator_ids = [],
     ex_visible_network_interface_names = [], ex_cpu_visibility_known = False,
     ex_accelerator_visibility_restricted = False\<rparr>"

end
