(* ===== verification/Raw_Store.thy ===== *)
theory Raw_Store
  imports Cpu_Model Device_Model Storage_Model Process_Model
begin

text \<open>
  The raw evidence store (\<open>raw_store.hpp\<close>, \<open>src/model/raw_store.cpp\<close>), the inventory reports
  (\<open>inventory.hpp\<close>), the snapshot metadata (\<open>snapshot_meta.hpp\<close>) and the top-level
  \<open>System\<close> (\<open>system.hpp\<close>). A query returns pointers into the store; here it returns the
  records themselves. A time point is its count of clock ticks.
\<close>

section \<open>Records and enumerations\<close>

datatype InventoryKind = CpuPackages | CpuCores | LogicalCpus | NumaNodes | CpuCaches
  | NetworkInterfaces | BlockDevices | PciDevices | AcceleratorDevices

datatype InventoryCompleteness = Completeness_Unknown | Completeness_Partial | Complete

record InventoryEnumeration =
  ie_inventory :: InventoryKind
  ie_source :: RawSource
  ie_origin :: string
  ie_entries :: "string list"
  ie_status :: CollectStatus
  ie_failure :: "ReadFailure option"

record InventoryReport =
  ir_inventory :: InventoryKind
  ir_completeness :: InventoryCompleteness
  ir_origin :: string

record RawRecord =
  rec_source :: RawSource
  rec_path_or_command :: string
  rec_payload :: string
  rec_status :: CollectStatus
  rec_collected_at :: int
  rec_failure :: "ReadFailure option"
  rec_skip :: "SkipReason option"

record RawStore =
  raw_records :: "RawRecord list"
  raw_enumerations :: "InventoryEnumeration list"
  raw_collection_request :: "CollectionRequest option"

definition RawStore_default :: RawStore where
  "RawStore_default =
    \<lparr>raw_records = [], raw_enumerations = [], raw_collection_request = None\<rparr>"

section \<open>Queries\<close>

definition get_all :: "RawStore \<Rightarrow> RawSource \<Rightarrow> RawRecord list" where
  "get_all raw source = filter (\<lambda>r. rec_source r = source) (raw_records raw)"

definition get :: "RawStore \<Rightarrow> RawSource \<Rightarrow> string \<Rightarrow> RawRecord list" where
  "get raw source path_or_command =
     filter (\<lambda>r. rec_source r = source \<and> rec_path_or_command r = path_or_command) (raw_records raw)"

definition first_success :: "RawStore \<Rightarrow> RawSource \<Rightarrow> RawRecord option" where
  "first_success raw source = find (\<lambda>r. rec_status r = Success) (get_all raw source)"

definition has_source :: "RawStore \<Rightarrow> RawSource \<Rightarrow> bool" where
  "has_source raw source \<longleftrightarrow> list_ex (\<lambda>r. rec_source r = source) (raw_records raw)"

definition has_success :: "RawStore \<Rightarrow> RawSource \<Rightarrow> bool" where
  "has_success raw source \<longleftrightarrow>
     list_ex (\<lambda>r. rec_source r = source \<and> rec_status r = Success) (raw_records raw)"

definition count :: "RawStore \<Rightarrow> RawSource \<Rightarrow> nat" where
  "count raw source = length (filter (\<lambda>r. rec_source r = source) (raw_records raw))"

text \<open>A unique enumeration report; absent or conflicting evidence is unknown.\<close>

fun unique_entry :: "('e \<Rightarrow> bool) \<Rightarrow> 'e list \<Rightarrow> 'e option \<Rightarrow> 'e option" where
  "unique_entry P [] result = result"
| "unique_entry P (entry # entries) result =
     (if P entry
      then (if result \<noteq> None then None else unique_entry P entries (Some entry))
      else unique_entry P entries result)"

definition enumeration :: "RawStore \<Rightarrow> InventoryKind \<Rightarrow> InventoryEnumeration option" where
  "enumeration raw inventory =
     unique_entry (\<lambda>e. ie_inventory e = inventory) (raw_enumerations raw) None"

section \<open>Snapshot metadata and \<open>System\<close>\<close>

record CollectionObservation =
  obs_domain :: string
  obs_source :: RawSource
  obs_origin :: string
  obs_status :: CollectStatus
  obs_failure :: "ReadFailure option"
  obs_skip :: "SkipReason option"

record SnapshotMeta =
  meta_collect_time :: int
  meta_sysal_version :: string
  meta_collect_duration :: int
  meta_requested_flags :: Collect
  meta_succeeded_collectors :: "string list"
  meta_failed_collectors :: "string list"
  meta_observations :: "CollectionObservation list"
  meta_inventories :: "InventoryReport list"
  meta_collection_request :: "CollectionRequest option"

definition inventory_completeness :: "SnapshotMeta \<Rightarrow> InventoryKind \<Rightarrow> InventoryCompleteness" where
  "inventory_completeness meta inventory =
     (case unique_entry (\<lambda>e. ir_inventory e = inventory) (meta_inventories meta) None of
        None \<Rightarrow> Completeness_Unknown
      | Some r \<Rightarrow> ir_completeness r)"

record SystemInfo =
  info_platform :: Platform
  info_cpu :: Cpu
  info_memory :: Memory
  info_accelerators :: Accelerators
  info_network :: Network
  info_storage :: Storage
  info_pci :: Pci
  info_software :: SoftwareStack
  info_execution :: ExecutionContext
  info_sensors :: Sensors
  info_hardware_health :: HardwareHealth

record System =
  sys_info :: SystemInfo
  sys_meta :: SnapshotMeta
  sys_warnings :: "string list"
  sys_raw :: "RawStore option"

section \<open>Laws of the queries\<close>

lemma set_get_all [simp]:
  "r \<in> set (get_all raw s) \<longleftrightarrow> r \<in> set (raw_records raw) \<and> rec_source r = s"
  by (auto simp: get_all_def)

lemma get_all_empty_iff: "get_all raw s = [] \<longleftrightarrow> \<not> has_source raw s"
  by (auto simp: get_all_def has_source_def filter_empty_conv list_ex_iff)

lemma count_get_all: "count raw s = length (get_all raw s)"
  by (simp add: count_def get_all_def)

lemma get_filter_get_all:
  "get raw s p = filter (\<lambda>r. rec_path_or_command r = p) (get_all raw s)"
  by (simp add: get_def get_all_def conj_commute)

lemma has_success_get_all: "has_success raw s \<longleftrightarrow> list_ex (\<lambda>r. rec_status r = Success) (get_all raw s)"
  by (auto simp: has_success_def get_all_def list_ex_iff)

lemma unique_entry_filter:
  "unique_entry P es result =
     (case (result, filter P es) of
        (None, []) \<Rightarrow> None
      | (None, [e]) \<Rightarrow> Some e
      | (Some r, []) \<Rightarrow> Some r
      | _ \<Rightarrow> None)"
  by (induction P es result rule: unique_entry.induct) (auto split: list.splits option.splits)

lemma unique_entry_Some_iff: "unique_entry P es None = Some e \<longleftrightarrow> filter P es = [e]"
  by (auto simp: unique_entry_filter split: list.splits)

section \<open>What a parser may depend on\<close>

text \<open>
  A parser reads the store through queries on a few sources. The contract says that equal
  evidence of those sources gives equal results; the lemmas say what cannot matter then: the
  records of other sources, wherever they stand, and the way the sources interleave.
\<close>

locale source_parser =
  fixes parse :: "RawStore \<Rightarrow> 'r"
    and sources :: "RawSource set"
    and inventories :: "InventoryKind set"
  assumes depends:
    "(\<And>s. s \<in> sources \<Longrightarrow> get_all raw s = get_all raw' s) \<Longrightarrow>
     (\<And>k. k \<in> inventories \<Longrightarrow> enumeration raw k = enumeration raw' k) \<Longrightarrow>
     parse raw = parse raw'"
begin

lemma irrelevant_records:
  assumes "\<And>r. r \<in> set extra \<Longrightarrow> rec_source r \<notin> sources"
    and "raw_records raw = before @ after"
  shows "parse (raw\<lparr>raw_records := before @ extra @ after\<rparr>) = parse raw"
proof (rule depends)
  fix s
  assume "s \<in> sources"
  then have "filter (\<lambda>r. rec_source r = s) extra = []"
    using assms(1) by (auto simp: filter_empty_conv)
  then show "get_all (raw\<lparr>raw_records := before @ extra @ after\<rparr>) s = get_all raw s"
    by (simp add: get_all_def assms(2))
next
  fix k
  show "enumeration (raw\<lparr>raw_records := before @ extra @ after\<rparr>) k = enumeration raw k"
    by (simp add: enumeration_def)
qed

lemma only_own_sources:
  "parse (raw\<lparr>raw_records := filter (\<lambda>r. rec_source r \<in> sources) (raw_records raw)\<rparr>) = parse raw"
proof (rule depends)
  fix s
  assume "s \<in> sources"
  then show "get_all (raw\<lparr>raw_records := filter (\<lambda>r. rec_source r \<in> sources) (raw_records raw)\<rparr>) s =
      get_all raw s"
    by (auto simp: get_all_def intro: filter_cong)
next
  fix k
  show "enumeration (raw\<lparr>raw_records := filter (\<lambda>r. rec_source r \<in> sources) (raw_records raw)\<rparr>) k =
      enumeration raw k"
    by (simp add: enumeration_def)
qed

lemma ignores_request: "parse (raw\<lparr>raw_collection_request := q\<rparr>) = parse raw"
  by (rule depends) (simp_all add: get_all_def enumeration_def)

lemma no_evidence:
  assumes "\<And>r. r \<in> set (raw_records raw) \<Longrightarrow> rec_source r \<notin> sources" and "raw_enumerations raw = []"
  shows "parse raw = parse RawStore_default"
proof (rule depends)
  fix s
  assume "s \<in> sources"
  then show "get_all raw s = get_all RawStore_default s"
    using assms(1) by (auto simp: get_all_def RawStore_default_def filter_empty_conv)
next
  fix k
  show "enumeration raw k = enumeration RawStore_default k"
    by (simp add: enumeration_def RawStore_default_def assms(2))
qed

end

text \<open>
  A parser of a domain also appends warnings: what it returns and what it appends do not depend on
  the warnings that are already there, and every warning is one of its own.
\<close>

locale domain_parser =
  fixes parse :: "RawStore \<Rightarrow> string list \<Rightarrow> 'r \<times> string list"
    and sources :: "RawSource set"
    and inventories :: "InventoryKind set"
    and warning :: "string \<Rightarrow> bool"
  assumes frame: "parse raw warnings = (fst (parse raw []), warnings @ snd (parse raw []))"
    and evidence:
    "(\<And>s. s \<in> sources \<Longrightarrow> get_all raw s = get_all raw' s) \<Longrightarrow>
     (\<And>k. k \<in> inventories \<Longrightarrow> enumeration raw k = enumeration raw' k) \<Longrightarrow>
     parse raw [] = parse raw' []"
    and own_warnings: "list_all warning (snd (parse raw []))"
begin

lemma warnings_grow: "prefix warnings (snd (parse raw warnings))"
  by (subst frame) simp

lemma result_frame: "fst (parse raw warnings) = fst (parse raw warnings')"
  by (subst (1 2) frame) simp

lemma warnings_from: "list_all P warnings \<Longrightarrow> (\<And>m. warning m \<Longrightarrow> P m) \<Longrightarrow>
    list_all P (snd (parse raw warnings))"
  using own_warnings [of raw] by (subst frame) (auto simp: list_all_iff)

end

sublocale domain_parser \<subseteq> evidence: source_parser "\<lambda>raw. parse raw warnings" sources inventories
  for warnings
proof (unfold_locales, goal_cases)
  case (1 raw raw')
  then have "parse raw [] = parse raw' []" by (rule evidence)
  then show ?case using frame [of raw warnings] frame [of raw' warnings] by simp
qed

end
