(* ===== verification/Cpu_Features.thy ===== *)
theory Cpu_Features
  imports Raw_Store
begin

text \<open>
  \<open>src/model/cpu_features.cpp\<close>: the feature evidence of each logical CPU, the three-way report
  of one feature (reported, not reported, unknown) and the summary over all CPUs.
  \<open>FeatureIndex\<close> is a \<open>std::map\<close> from the CPU number to its evidence; a CPU number that occurs
  twice is marked as a duplicate and carries no evidence.
\<close>

section \<open>Definitions\<close>

definition aliases :: "(string \<times> string) list" where
  "aliases =
     [(''pni'', ''sse3''), (''sha_ni'', ''sha''), (''cx16'', ''cmpxchg16b''),
      (''lahf_lm'', ''lahf_sahf''), (''avx512_vnni'', ''avx512vnni'')]"

definition known_features :: "string list" where
  "known_features =
     [''sse'', ''sse2'', ''sse3'', ''ssse3'', ''sse4_1'', ''sse4_2'', ''avx'', ''avx2'',
      ''avx512f'', ''avx512cd'', ''avx512bw'', ''avx512dq'', ''avx512vl'', ''aes'', ''fma'',
      ''f16c'', ''pclmulqdq'', ''avx512vnni'', ''sha'', ''bmi1'', ''bmi2'', ''cmpxchg16b'',
      ''lahf_sahf'']"

definition normalize_cpu_feature :: "string \<Rightarrow> CpuFeatureName" where
  "normalize_cpu_feature name =
     (case find (\<lambda>(alias, canonical). name = alias) aliases of
        Some (_, canonical) \<Rightarrow> NamedString canonical
      | None \<Rightarrow> NamedString name)"

definition identification_feature :: "CpuIdentification \<Rightarrow> CpuFeatureName \<Rightarrow> CpuFeatureState" where
  "identification_feature ident name =
     (let canonical = normalize_cpu_feature (str_value name) in
      if str_value canonical = [] then Feature_Unknown
      else if list_ex (\<lambda>item. normalize_cpu_feature item = canonical) (ident_features ident)
      then Feature_Reported
      else if ident_features_reported ident then Feature_NotReported else Feature_Unknown)"

record FeatureEvidence =
  ev_complete :: bool
  ev_duplicate :: bool
  ev_features :: "string list"

type_synonym FeatureIndex = "(u32, FeatureEvidence) std_map"

text \<open>The set of normalised, non-empty feature names of one CPU.\<close>

definition feature_set :: "string list \<Rightarrow> string list" where
  "feature_set fs =
     set_of (map (\<lambda>f. str_value (normalize_cpu_feature f)) (filter (\<lambda>f. f \<noteq> []) fs))"

definition feature_index_step :: "LogicalCpu \<Rightarrow> FeatureIndex \<Rightarrow> FeatureIndex" where
  "feature_index_step logical index =
     (let k = id_value (lc_id logical) in
      case map_of index k of
        Some _ \<Rightarrow> map_put k \<lparr>ev_complete = False, ev_duplicate = True, ev_features = []\<rparr> index
      | None \<Rightarrow>
          map_put k
            \<lparr>ev_complete = ident_features_reported (lc_identification logical),
             ev_duplicate = False,
             ev_features = feature_set (ident_features (lc_identification logical))\<rparr> index)"

definition feature_index :: "Cpu \<Rightarrow> FeatureIndex" where
  "feature_index cpu = fold feature_index_step (cpu_logical_cpus cpu) []"

definition feature_usable :: "CpuFeatureName \<Rightarrow> FeatureEvidence \<Rightarrow> bool" where
  "feature_usable name ev \<longleftrightarrow> str_value name \<noteq> [] \<and> \<not> ev_duplicate ev"

definition classify_evidence :: "CpuFeatureName \<Rightarrow> FeatureEvidence \<Rightarrow> CpuFeatureState" where
  "classify_evidence name ev =
     (if feature_usable name ev \<and> str_value name \<in> set (ev_features ev) then Feature_Reported
      else if feature_usable name ev \<and> ev_complete ev then Feature_NotReported
      else Feature_Unknown)"

definition feature_report_step ::
  "u32 \<times> FeatureEvidence \<Rightarrow> CpuFeatureReport \<Rightarrow> CpuFeatureReport" where
  "feature_report_step = (\<lambda>(number, evidence) report.
     let i = StrongId number in
     case classify_evidence (rep_name report) evidence of
       Feature_Reported \<Rightarrow> report\<lparr>rep_reported_cpu_ids := rep_reported_cpu_ids report @ [i]\<rparr>
     | Feature_NotReported \<Rightarrow>
         report\<lparr>rep_not_reported_cpu_ids := rep_not_reported_cpu_ids report @ [i]\<rparr>
     | Feature_Unknown \<Rightarrow> report\<lparr>rep_unknown_cpu_ids := rep_unknown_cpu_ids report @ [i]\<rparr>)"

definition feature_report :: "FeatureIndex \<Rightarrow> CpuFeatureName \<Rightarrow> CpuFeatureReport" where
  "feature_report index name =
     fold feature_report_step index
       \<lparr>rep_name = normalize_cpu_feature (str_value name), rep_reported_cpu_ids = [],
        rep_not_reported_cpu_ids = [], rep_unknown_cpu_ids = []\<rparr>"

definition cpu_feature :: "Cpu \<Rightarrow> CpuFeatureName \<Rightarrow> CpuFeatureReport" where
  "cpu_feature cpu name = feature_report (feature_index cpu) name"

text \<open>
  \<open>Cpu::feature_summary\<close>: the CPUs, those with a complete report, the union of the observed
  names, and one report per name of the vocabulary; \<open>common\<close> is engaged only when every
  CPU has a complete report.
\<close>

definition summary_vocabulary :: "FeatureIndex \<Rightarrow> string list" where
  "summary_vocabulary index = set_of (concat (map (ev_features \<circ> snd) index) @ known_features)"

definition summary_step ::
  "FeatureIndex \<Rightarrow> string \<Rightarrow> CpuFeatureSummary \<Rightarrow> CpuFeatureSummary" where
  "summary_step index name summary =
     (let report = feature_report index (NamedString name);
          common = (case sum_common summary of
             None \<Rightarrow> None
           | Some names \<Rightarrow>
               Some (if length (rep_reported_cpu_ids report) = length index
                 then names @ [rep_name report] else names))
      in summary\<lparr>sum_common := common, sum_reports := sum_reports summary @ [report]\<rparr>)"

definition feature_summary :: "Cpu \<Rightarrow> CpuFeatureSummary" where
  "feature_summary cpu =
     (let index = feature_index cpu;
          observed = set_of (concat (map (ev_features \<circ> snd) index));
          complete = map (StrongId \<circ> fst) (filter (ev_complete \<circ> snd) index);
          summary = CpuFeatureSummary_default
            \<lparr>sum_logical_cpu_ids := map (StrongId \<circ> fst) index,
             sum_complete_cpu_ids := complete,
             sum_observed_union := map NamedString observed,
             sum_common := if index \<noteq> [] \<and> length complete = length index then Some [] else None\<rparr>
      in fold (summary_step index) (summary_vocabulary index) summary)"

section \<open>The alias table\<close>

lemma normalize_unfold:
  "normalize_cpu_feature n = NamedString
     (if n = ''pni'' then ''sse3'' else if n = ''sha_ni'' then ''sha''
      else if n = ''cx16'' then ''cmpxchg16b'' else if n = ''lahf_lm'' then ''lahf_sahf''
      else if n = ''avx512_vnni'' then ''avx512vnni'' else n)"
  by (simp add: normalize_cpu_feature_def aliases_def)

lemma normalize_idem [simp]:
  "normalize_cpu_feature (str_value (normalize_cpu_feature n)) = normalize_cpu_feature n"
  by (simp add: normalize_unfold)

lemma normalize_empty [simp]: "str_value (normalize_cpu_feature n) = [] \<longleftrightarrow> n = []"
  by (simp add: normalize_unfold)

section \<open>The index\<close>

lemma set_feature_set [simp]:
  "set (feature_set fs) = (\<lambda>f. str_value (normalize_cpu_feature f)) ` {f \<in> set fs. f \<noteq> []}"
  by (auto simp: feature_set_def)

text \<open>The CPUs of a number, in the order of the snapshot.\<close>

definition cpus_numbered :: "LogicalCpu list \<Rightarrow> u32 \<Rightarrow> LogicalCpu list" where
  "cpus_numbered cs k = filter (\<lambda>c. id_value (lc_id c) = k) cs"

definition evidence_of :: "LogicalCpu list \<Rightarrow> FeatureEvidence option" where
  "evidence_of cs = (case cs of
     [] \<Rightarrow> None
   | [c] \<Rightarrow> Some \<lparr>ev_complete = ident_features_reported (lc_identification c),
        ev_duplicate = False, ev_features = feature_set (ident_features (lc_identification c))\<rparr>
   | _ \<Rightarrow> Some \<lparr>ev_complete = False, ev_duplicate = True, ev_features = []\<rparr>)"

lemma cpus_numbered_snoc [simp]:
  "cpus_numbered (cs @ [c]) k =
     cpus_numbered cs k @ (if id_value (lc_id c) = k then [c] else [])"
  by (simp add: cpus_numbered_def)

lemma evidence_of_Nil [simp]: "evidence_of [] = None"
  by (simp add: evidence_of_def)

lemma evidence_of_repeated [simp]:
  "evidence_of (a # cs @ [c]) = Some \<lparr>ev_complete = False, ev_duplicate = True, ev_features = []\<rparr>"
  by (simp add: evidence_of_def split: list.splits)

lemma evidence_of_None_iff: "evidence_of cs = None \<longleftrightarrow> cs = []"
  by (auto simp: evidence_of_def split: list.splits)

lemma feature_index_step_lookup:
  "map_invar m \<Longrightarrow> map_invar (feature_index_step c m) \<and>
   map_of (feature_index_step c m) k =
     (if k = id_value (lc_id c)
      then (case map_of m k of
              None \<Rightarrow> evidence_of [c]
            | Some _ \<Rightarrow> Some \<lparr>ev_complete = False, ev_duplicate = True, ev_features = []\<rparr>)
      else map_of m k)"
  by (auto simp: feature_index_step_def Let_def map_of_put evidence_of_def split: option.splits)

lemma fold_feature_index:
  "map_invar (fold feature_index_step cs []) \<and>
   map_of (fold feature_index_step cs []) k = evidence_of (cpus_numbered cs k)"
proof (induction cs arbitrary: k rule: rev_induct)
  case Nil
  then show ?case by (simp add: cpus_numbered_def)
next
  case (snoc c cs)
  then have inv: "map_invar (fold feature_index_step cs [])"
    and lk: "\<And>k. map_of (fold feature_index_step cs []) k = evidence_of (cpus_numbered cs k)"
    by auto
  show ?case
    using feature_index_step_lookup [OF inv, of c k]
    by (cases "cpus_numbered cs k") (auto simp: lk evidence_of_None_iff split: option.splits)
qed

lemma map_invar_feature_index: "map_invar (feature_index cpu)"
  using fold_feature_index by (simp add: feature_index_def)

lemma map_of_feature_index:
  "map_of (feature_index cpu) k = evidence_of (cpus_numbered (cpu_logical_cpus cpu) k)"
  using fold_feature_index by (simp add: feature_index_def)

lemma feature_index_keys:
  "set (map fst (feature_index cpu)) = (id_value \<circ> lc_id) ` set (cpu_logical_cpus cpu)"
proof -
  have "k \<in> fst ` set (feature_index cpu) \<longleftrightarrow>
      k \<in> (id_value \<circ> lc_id) ` set (cpu_logical_cpus cpu)" for k
  proof -
    have "k \<in> fst ` set (feature_index cpu) \<longleftrightarrow> map_of (feature_index cpu) k \<noteq> None"
      by (simp add: map_of_eq_None_iff)
    also have "\<dots> \<longleftrightarrow> cpus_numbered (cpu_logical_cpus cpu) k \<noteq> []"
      by (simp add: map_of_feature_index evidence_of_None_iff)
    finally show ?thesis by (auto simp: cpus_numbered_def filter_empty_conv)
  qed
  then show ?thesis by auto
qed

section \<open>The report of one feature\<close>

definition index_ids ::
  "CpuFeatureName \<Rightarrow> CpuFeatureState \<Rightarrow> FeatureIndex \<Rightarrow> LogicalCpuId list" where
  "index_ids name st index =
     map (StrongId \<circ> fst) (filter (\<lambda>(_, ev). classify_evidence name ev = st) index)"

lemma fold_feature_report:
  "fold feature_report_step index r =
     r\<lparr>rep_reported_cpu_ids := rep_reported_cpu_ids r @ index_ids (rep_name r) Feature_Reported index,
       rep_not_reported_cpu_ids :=
         rep_not_reported_cpu_ids r @ index_ids (rep_name r) Feature_NotReported index,
       rep_unknown_cpu_ids := rep_unknown_cpu_ids r @ index_ids (rep_name r) Feature_Unknown index\<rparr>"
  by (induction index arbitrary: r)
    (auto simp: feature_report_step_def index_ids_def Let_def split: CpuFeatureState.splits)

lemma feature_report_eq:
  "feature_report index name =
     (let n = normalize_cpu_feature (str_value name) in
      \<lparr>rep_name = n, rep_reported_cpu_ids = index_ids n Feature_Reported index,
       rep_not_reported_cpu_ids = index_ids n Feature_NotReported index,
       rep_unknown_cpu_ids = index_ids n Feature_Unknown index\<rparr>)"
  by (simp add: feature_report_def fold_feature_report Let_def)

lemma set_index_ids:
  "map_invar index \<Longrightarrow> StrongId k \<in> set (index_ids n st index) \<longleftrightarrow>
     (\<exists>ev. map_of index k = Some ev \<and> classify_evidence n ev = st)"
  by (force simp: index_ids_def simp flip: map_invar_lookup)

lemma index_ids_sorted:
  "map_invar index \<Longrightarrow> sorted_wrt (<) (map id_value (index_ids n st index))"
  by (simp add: index_ids_def map_invar_def comp_def sorted_wrt_map sorted_wrt_filter)

lemma index_ids_total:
  "length (index_ids n Feature_Reported index) + length (index_ids n Feature_NotReported index) +
   length (index_ids n Feature_Unknown index) = length index"
proof (induction index)
  case Nil
  then show ?case by (simp add: index_ids_def)
next
  case (Cons p index)
  obtain k ev where "p = (k, ev)" by (cases p)
  with Cons show ?case by (cases "classify_evidence n ev") (auto simp: index_ids_def)
qed

lemma index_ids_all_iff:
  "length (index_ids n st index) = length index \<longleftrightarrow> (\<forall>(k, ev) \<in> set index. classify_evidence n ev = st)"
proof -
  have "length (index_ids n st index) = length (filter (\<lambda>(_, ev). classify_evidence n ev = st) index)"
    by (simp add: index_ids_def)
  moreover have "length (filter P xs) = length xs \<longleftrightarrow> (\<forall>x \<in> set xs. P x)" for P and xs :: FeatureIndex
    by (metis filter_True filter_id_conv length_filter_less order_less_irrefl)
  ultimately show ?thesis by auto
qed

text \<open>A single CPU's evidence is classified as the CPU answers for itself.\<close>

lemma classify_single:
  "evidence_of [c] = Some ev \<Longrightarrow>
   classify_evidence (normalize_cpu_feature (str_value name)) ev =
     identification_feature (lc_identification c) name"
proof -
  assume "evidence_of [c] = Some ev"
  then have ev: "ev = \<lparr>ev_complete = ident_features_reported (lc_identification c),
      ev_duplicate = False, ev_features = feature_set (ident_features (lc_identification c))\<rparr>"
    by (simp add: evidence_of_def)
  let ?n = "normalize_cpu_feature (str_value name)"
  have "str_value name \<noteq> [] \<Longrightarrow> str_value ?n \<in> set (ev_features ev) \<longleftrightarrow>
      list_ex (\<lambda>item. normalize_cpu_feature item = ?n) (ident_features (lc_identification c))"
  proof -
    assume ne: "str_value name \<noteq> []"
    have "normalize_cpu_feature f = ?n \<Longrightarrow> f \<noteq> []" for f
      using ne by (metis normalize_empty)
    moreover have "str_value ?n = str_value (normalize_cpu_feature f) \<longleftrightarrow> normalize_cpu_feature f = ?n" for f
      by (metis named_string.expand)
    ultimately show ?thesis by (auto simp: ev list_ex_iff image_iff)
  qed
  then show ?thesis
    by (auto simp: ev classify_evidence_def feature_usable_def identification_feature_def Let_def)
qed

section \<open>The summary\<close>

lemma fold_summary:
  "fold (summary_step index) names s =
     s\<lparr>sum_common := map_option
         (\<lambda>c. c @ map NamedString (filter (\<lambda>n. length (rep_reported_cpu_ids
             (feature_report index (NamedString n))) = length index)
           (map (\<lambda>n. n) names))) (map_option (\<lambda>c. c) (sum_common s)),
       sum_reports := sum_reports s @ map (\<lambda>n. feature_report index (NamedString n)) names\<rparr>"
  if "\<forall>n \<in> set names. str_value (normalize_cpu_feature n) = n"
  using that
proof (induction names arbitrary: s)
  case Nil
  then show ?case by (simp add: option.map_ident)
next
  case (Cons n names)
  have nn: "rep_name (feature_report index (NamedString n)) = NamedString n"
    using Cons.prems by (auto simp: feature_report_eq Let_def intro: named_string.expand)
  show ?case using Cons nn
    by (cases "sum_common s") (auto simp: summary_step_def Let_def)
qed

lemma vocabulary_canonical:
  "n \<in> set (summary_vocabulary (feature_index cpu)) \<Longrightarrow> str_value (normalize_cpu_feature n) = n"
proof -
  assume "n \<in> set (summary_vocabulary (feature_index cpu))"
  then consider "n \<in> set known_features"
    | ev k where "(k, ev) \<in> set (feature_index cpu)" "n \<in> set (ev_features ev)"
    by (auto simp: summary_vocabulary_def)
  then show ?thesis
  proof cases
    case 1
    moreover have "list_all (\<lambda>n. str_value (normalize_cpu_feature n) = n) known_features"
      by code_simp
    ultimately show ?thesis by (auto simp: list_all_iff)
  next
    case (2 ev k)
    then have "evidence_of (cpus_numbered (cpu_logical_cpus cpu) k) = Some ev"
      using map_invar_lookup [OF map_invar_feature_index [of cpu], where k = k and v = ev]
      by (simp add: map_of_feature_index)
    with 2(2) have "\<exists>f. n = str_value (normalize_cpu_feature f)"
      by (auto simp: evidence_of_def split: list.splits)
    then show ?thesis by auto
  qed
qed

section \<open>Properties\<close>

lemma cpu_feature_eq:
  "cpu_feature cpu name =
     (let n = normalize_cpu_feature (str_value name); i = feature_index cpu in
      \<lparr>rep_name = n, rep_reported_cpu_ids = index_ids n Feature_Reported i,
       rep_not_reported_cpu_ids = index_ids n Feature_NotReported i,
       rep_unknown_cpu_ids = index_ids n Feature_Unknown i\<rparr>)"
  by (simp add: cpu_feature_def feature_report_eq Let_def)

lemma index_ids_feature_index:
  "i \<in> set (index_ids n st (feature_index cpu)) \<longleftrightarrow>
     (\<exists>ev. evidence_of (cpus_numbered (cpu_logical_cpus cpu) (id_value i)) = Some ev \<and>
        classify_evidence n ev = st)"
  using set_index_ids [OF map_invar_feature_index, of "id_value i" n st cpu]
  by (simp add: map_of_feature_index)

lemma index_ids_disjoint:
  "st \<noteq> st' \<Longrightarrow> set (index_ids n st (feature_index cpu)) \<inter> set (index_ids n st' (feature_index cpu)) = {}"
  by (auto simp: index_ids_feature_index)

lemma index_ids_cover:
  "set (index_ids n Feature_Reported (feature_index cpu)) \<union>
   set (index_ids n Feature_NotReported (feature_index cpu)) \<union>
   set (index_ids n Feature_Unknown (feature_index cpu)) = lc_id ` set (cpu_logical_cpus cpu)"
proof (rule set_eqI)
  fix i :: LogicalCpuId
  have "i \<in> lc_id ` set (cpu_logical_cpus cpu) \<longleftrightarrow>
      cpus_numbered (cpu_logical_cpus cpu) (id_value i) \<noteq> []"
    by (auto simp: cpus_numbered_def filter_empty_conv image_iff) (metis strong_id.expand)
  also have "\<dots> \<longleftrightarrow> (\<exists>ev. evidence_of (cpus_numbered (cpu_logical_cpus cpu) (id_value i)) = Some ev)"
    by (metis evidence_of_None_iff not_None_eq)
  finally show "i \<in> set (index_ids n Feature_Reported (feature_index cpu)) \<union>
      set (index_ids n Feature_NotReported (feature_index cpu)) \<union>
      set (index_ids n Feature_Unknown (feature_index cpu)) \<longleftrightarrow> i \<in> lc_id ` set (cpu_logical_cpus cpu)"
    by (auto simp: index_ids_feature_index) (metis CpuFeatureState.exhaust)
qed

text \<open>\<open>Cpu::feature\<close> sorts every CPU of the snapshot into exactly one of the three answers: the
  reported, not-reported and unknown lists are pairwise disjoint, strictly ascending, and
  together name exactly the logical CPUs of the model.
\<close>

theorem cpu_feature_partition:
  "let r = cpu_feature cpu name in
     set (rep_reported_cpu_ids r) \<union> set (rep_not_reported_cpu_ids r) \<union> set (rep_unknown_cpu_ids r)
       = lc_id ` set (cpu_logical_cpus cpu) \<and>
     set (rep_reported_cpu_ids r) \<inter> set (rep_not_reported_cpu_ids r) = {} \<and>
     set (rep_reported_cpu_ids r) \<inter> set (rep_unknown_cpu_ids r) = {} \<and>
     set (rep_not_reported_cpu_ids r) \<inter> set (rep_unknown_cpu_ids r) = {} \<and>
     sorted_wrt (<) (map id_value (rep_reported_cpu_ids r)) \<and>
     sorted_wrt (<) (map id_value (rep_not_reported_cpu_ids r)) \<and>
     sorted_wrt (<) (map id_value (rep_unknown_cpu_ids r))"
  by (simp add: cpu_feature_eq Let_def index_ids_cover index_ids_disjoint
      index_ids_sorted [OF map_invar_feature_index])

text \<open>C27: the index-based report agrees with the direct answer: for a CPU whose number occurs once,
  the list it is in is the state \<open>CpuIdentification::feature\<close> gives for that CPU.
\<close>

theorem cpu_feature_agrees:
  assumes "cpus_numbered (cpu_logical_cpus cpu) (id_value (lc_id c)) = [c]"
  shows "(lc_id c \<in> set (rep_reported_cpu_ids (cpu_feature cpu name)) \<longleftrightarrow>
      identification_feature (lc_identification c) name = Feature_Reported) \<and>
    (lc_id c \<in> set (rep_not_reported_cpu_ids (cpu_feature cpu name)) \<longleftrightarrow>
      identification_feature (lc_identification c) name = Feature_NotReported) \<and>
    (lc_id c \<in> set (rep_unknown_cpu_ids (cpu_feature cpu name)) \<longleftrightarrow>
      identification_feature (lc_identification c) name = Feature_Unknown)"
proof -
  obtain ev where ev: "evidence_of [c] = Some ev" by (auto simp: evidence_of_def)
  show ?thesis
    by (simp add: cpu_feature_eq Let_def index_ids_feature_index assms ev classify_single [OF ev])
qed

definition sample_cpu :: "u32 \<Rightarrow> string list \<Rightarrow> bool \<Rightarrow> LogicalCpu" where
  "sample_cpu k fs complete = LogicalCpu_default
     \<lparr>lc_id := StrongId k, lc_identification := CpuIdentification_default
        \<lparr>ident_features := fs, ident_features_reported := complete\<rparr>\<rparr>"

theorem cpu_feature_agrees_witness:
  "let cpu = Cpu_default\<lparr>cpu_logical_cpus :=
        [sample_cpu 0 [''avx2'', ''pni''] True, sample_cpu 1 [''avx2''] True]\<rparr>
   in StrongId 0 \<in> set (rep_reported_cpu_ids (cpu_feature cpu (NamedString ''sse3''))) \<and>
      StrongId 1 \<in> set (rep_not_reported_cpu_ids (cpu_feature cpu (NamedString ''sse3'')))"
proof -
  let ?a = "sample_cpu 0 [''avx2'', ''pni''] True" and ?b = "sample_cpu 1 [''avx2''] True"
  let ?cpu = "Cpu_default\<lparr>cpu_logical_cpus := [?a, ?b]\<rparr>"
  have a: "cpus_numbered (cpu_logical_cpus ?cpu) (id_value (lc_id ?a)) = [?a]"
    and b: "cpus_numbered (cpu_logical_cpus ?cpu) (id_value (lc_id ?b)) = [?b]"
    by (simp_all add: cpus_numbered_def sample_cpu_def)
  have "identification_feature (lc_identification ?a) (NamedString ''sse3'') = Feature_Reported"
    and "identification_feature (lc_identification ?b) (NamedString ''sse3'') = Feature_NotReported"
    by (simp_all add: sample_cpu_def identification_feature_def normalize_unfold)
  then show ?thesis
    using cpu_feature_agrees [OF a, of "NamedString ''sse3''"]
      cpu_feature_agrees [OF b, of "NamedString ''sse3''"]
    by (simp add: sample_cpu_def)
qed

text \<open>
  a CPU number that occurs more than once is never evidence: whatever its entries report,
  it is listed as unknown for every feature.
\<close>

theorem duplicate_cpu_unknown:
  assumes "cpus_numbered (cpu_logical_cpus cpu) k = a # b # rest"
  shows "StrongId k \<in> set (rep_unknown_cpu_ids (cpu_feature cpu name)) \<and>
    StrongId k \<notin> set (rep_reported_cpu_ids (cpu_feature cpu name)) \<and>
    StrongId k \<notin> set (rep_not_reported_cpu_ids (cpu_feature cpu name))"
proof -
  have "evidence_of (a # b # rest) =
      Some \<lparr>ev_complete = False, ev_duplicate = True, ev_features = []\<rparr>"
    by (simp add: evidence_of_def)
  then show ?thesis
    by (simp add: cpu_feature_eq Let_def index_ids_feature_index assms classify_evidence_def
        feature_usable_def)
qed

theorem duplicate_cpu_unknown_witness:
  "StrongId 3 \<in> set (rep_unknown_cpu_ids (cpu_feature (Cpu_default\<lparr>cpu_logical_cpus :=
     [sample_cpu 3 [''avx2''] True, sample_cpu 3 [''avx2''] True]\<rparr>) (NamedString ''avx2'')))"
proof -
  let ?c = "sample_cpu 3 [''avx2''] True"
  have "cpus_numbered (cpu_logical_cpus (Cpu_default\<lparr>cpu_logical_cpus := [?c, ?c]\<rparr>)) 3 = [?c, ?c]"
    by (simp add: cpus_numbered_def sample_cpu_def)
  from duplicate_cpu_unknown [OF this] show ?thesis by blast
qed

lemma index_all_complete_iff:
  "length (filter (ev_complete \<circ> snd) (feature_index cpu)) = length (feature_index cpu) \<longleftrightarrow>
     distinct (map lc_id (cpu_logical_cpus cpu)) \<and>
     list_all (\<lambda>c. ident_features_reported (lc_identification c)) (cpu_logical_cpus cpu)"
proof -
  let ?cs = "cpu_logical_cpus cpu"
  let ?all = "list_all (\<lambda>c. ident_features_reported (lc_identification c))"
  have one: "(\<forall>ev. evidence_of cs = Some ev \<longrightarrow> ev_complete ev) \<longleftrightarrow> length cs \<le> 1 \<and> ?all cs" for cs
    by (auto simp: evidence_of_def split: list.splits)
  have num: "cpus_numbered ?cs k = filter (\<lambda>c. lc_id c = StrongId k) ?cs" for k
    unfolding cpus_numbered_def by (rule filter_cong) (auto intro: strong_id.expand)
  have "length (filter (ev_complete \<circ> snd) (feature_index cpu)) = length (feature_index cpu) \<longleftrightarrow>
      (\<forall>k ev. map_of (feature_index cpu) k = Some ev \<longrightarrow> ev_complete ev)"
    by (auto simp: length_filter_all list_all_iff simp flip: map_invar_lookup [OF map_invar_feature_index])
  also have "\<dots> \<longleftrightarrow> (\<forall>k. length (cpus_numbered ?cs k) \<le> 1) \<and> (\<forall>k. ?all (cpus_numbered ?cs k))"
    using one by (auto simp: map_of_feature_index)
  also have "(\<forall>k. length (cpus_numbered ?cs k) \<le> 1) \<longleftrightarrow> distinct (map lc_id ?cs)"
    unfolding distinct_map_filter num by (metis strong_id.collapse)
  also have "(\<forall>k. ?all (cpus_numbered ?cs k)) \<longleftrightarrow> ?all ?cs"
    by (auto simp: cpus_numbered_def list_all_iff)
  finally show ?thesis .
qed

lemma singleton_list: "length xs \<le> 1 \<Longrightarrow> c \<in> set xs \<Longrightarrow> xs = [c]"
  by (cases xs; cases "tl xs") auto

lemma report_all_iff:
  assumes "distinct (map lc_id (cpu_logical_cpus cpu))"
  shows "length (rep_reported_cpu_ids (feature_report (feature_index cpu) name)) =
      length (feature_index cpu) \<longleftrightarrow>
    list_all (\<lambda>c. identification_feature (lc_identification c) name = Feature_Reported)
      (cpu_logical_cpus cpu)"
proof -
  let ?cs = "cpu_logical_cpus cpu" and ?n = "normalize_cpu_feature (str_value name)"
  have single: "cpus_numbered ?cs (id_value (lc_id c)) = [c]" if "c \<in> set ?cs" for c
  proof -
    have "length (filter (\<lambda>x. lc_id x = lc_id c) ?cs) \<le> 1"
      using assms unfolding distinct_map_filter by blast
    moreover have "cpus_numbered ?cs (id_value (lc_id c)) = filter (\<lambda>x. lc_id x = lc_id c) ?cs"
      unfolding cpus_numbered_def by (rule filter_cong) (auto intro: strong_id.expand)
    moreover have "c \<in> set (filter (\<lambda>x. lc_id x = lc_id c) ?cs)" using that by simp
    ultimately show ?thesis by (simp only: singleton_list)
  qed
  have "length (rep_reported_cpu_ids (feature_report (feature_index cpu) name)) =
      length (feature_index cpu) \<longleftrightarrow>
      (\<forall>k ev. map_of (feature_index cpu) k = Some ev \<longrightarrow> classify_evidence ?n ev = Feature_Reported)"
    by (auto simp: feature_report_eq Let_def index_ids_all_iff
        simp flip: map_invar_lookup [OF map_invar_feature_index])
  also have "\<dots> \<longleftrightarrow> (\<forall>c \<in> set ?cs. \<forall>ev. evidence_of [c] = Some ev \<longrightarrow>
      classify_evidence ?n ev = Feature_Reported)"
  proof
    assume "\<forall>k ev. map_of (feature_index cpu) k = Some ev \<longrightarrow> classify_evidence ?n ev = Feature_Reported"
    then show "\<forall>c \<in> set ?cs. \<forall>ev. evidence_of [c] = Some ev \<longrightarrow> classify_evidence ?n ev = Feature_Reported"
      using single by (metis map_of_feature_index)
  next
    assume a: "\<forall>c \<in> set ?cs. \<forall>ev. evidence_of [c] = Some ev \<longrightarrow> classify_evidence ?n ev = Feature_Reported"
    show "\<forall>k ev. map_of (feature_index cpu) k = Some ev \<longrightarrow> classify_evidence ?n ev = Feature_Reported"
    proof (intro allI impI)
      fix k ev
      assume e: "map_of (feature_index cpu) k = Some ev"
      then have "cpus_numbered ?cs k \<noteq> []"
        unfolding map_of_feature_index by (metis evidence_of_None_iff option.discI)
      then obtain c where c: "c \<in> set ?cs" "id_value (lc_id c) = k"
        by (auto simp: cpus_numbered_def filter_empty_conv)
      then have "evidence_of [c] = Some ev"
        using e single [OF c(1)] by (simp add: map_of_feature_index)
      then show "classify_evidence ?n ev = Feature_Reported"
        using a c(1) by blast
    qed
  qed
  also have "\<dots> \<longleftrightarrow> list_all (\<lambda>c. identification_feature (lc_identification c) name = Feature_Reported) ?cs"
    by (auto simp: list_all_iff classify_single) (auto simp: evidence_of_def)
  finally show ?thesis .
qed

lemma feature_index_empty_iff: "feature_index cpu = [] \<longleftrightarrow> cpu_logical_cpus cpu = []"
  by (metis feature_index_keys image_is_empty map_is_Nil_conv set_empty)

text \<open>\<open>feature_summary().common\<close> is engaged exactly when the model has CPUs, their numbers are
  distinct and every one of them reported its feature field; it then lists exactly the names of
  the vocabulary that every single CPU reports.
\<close>

theorem feature_summary_common:
  "sum_common (feature_summary cpu) =
     (if cpu_logical_cpus cpu \<noteq> [] \<and> distinct (map lc_id (cpu_logical_cpus cpu)) \<and>
         list_all (\<lambda>c. ident_features_reported (lc_identification c)) (cpu_logical_cpus cpu)
      then Some (map NamedString (filter
        (\<lambda>n. list_all (\<lambda>c. identification_feature (lc_identification c) (NamedString n)
            = Feature_Reported) (cpu_logical_cpus cpu))
        (summary_vocabulary (feature_index cpu))))
      else None)"
proof -
  have can: "\<forall>n \<in> set (summary_vocabulary (feature_index cpu)). str_value (normalize_cpu_feature n) = n"
    using vocabulary_canonical by blast
  show ?thesis
    using index_all_complete_iff [of cpu] report_all_iff [of cpu]
    by (simp add: feature_summary_def Let_def fold_summary [OF can] feature_index_empty_iff comp_def)
qed

end
