(* ===== verification/Parse_Utils.thy ===== *)
theory Parse_Utils
  imports Sysal_Types
begin

text \<open>
  \<open>src/parser/parse_utils.cpp\<close>: trimming, splitting and the number and address parsers that
  every parser of the library goes through. \<open>std::from_chars\<close> is modelled by its contract:
  it consumes the longest prefix of digits of the base, fails with \<open>invalid_argument\<close> when
  there is none and with \<open>result_out_of_range\<close> when the value does not fit, and returns the
  rest of the input. \<open>std::isspace\<close> and \<open>std::tolower\<close> are those of the C locale.
\<close>

section \<open>Characters\<close>

definition is_space :: "char \<Rightarrow> bool" where
  "is_space c \<longleftrightarrow> of_char c = (32 :: nat) \<or> (9 \<le> (of_char c :: nat) \<and> of_char c \<le> (13 :: nat))"

definition is_digit :: "char \<Rightarrow> bool" where
  "is_digit c \<longleftrightarrow> 48 \<le> (of_char c :: nat) \<and> of_char c \<le> (57 :: nat)"

definition to_lower :: "char \<Rightarrow> char" where
  "to_lower c = (if 65 \<le> (of_char c :: nat) \<and> of_char c \<le> (90 :: nat)
     then char_of ((of_char c :: nat) + 32) else c)"

definition char_value :: "char \<Rightarrow> nat option" where
  "char_value c =
     (let n = of_char c in
      if 48 \<le> n \<and> n \<le> 57 then Some (n - 48)
      else if 97 \<le> n \<and> n \<le> 122 then Some (n - 87)
      else if 65 \<le> n \<and> n \<le> 90 then Some (n - 55)
      else None)"

definition digit_in :: "nat \<Rightarrow> char \<Rightarrow> bool" where
  "digit_in base c \<longleftrightarrow> (case char_value c of None \<Rightarrow> False | Some v \<Rightarrow> v < base)"

text \<open>A string given by its bytes, for the UTF-8 parts of the warnings.\<close>

definition bytes :: "nat list \<Rightarrow> string" where
  "bytes ns = map char_of ns"

section \<open>Trimming and splitting\<close>

definition trim :: "string \<Rightarrow> string" where
  "trim s = rev (dropWhile is_space (rev (dropWhile is_space s)))"

definition placeholders :: "string list" where
  "placeholders =
     [''no dimm'', ''unspecified'', ''not provided'', ''unknown'', ''not specified'',
      ''not applicable'', ''none'', ''n/a'', ''default string'', ''system manufacturer'',
      ''system product name'', ''system version'', ''base board product name'',
      ''base board version'', ''chassis version'', ''to be filled by o.e.m.'',
      ''to be filled by oem'', ''system serial number'',
      ''00000000-0000-0000-0000-000000000000'', ''ffffffff-ffff-ffff-ffff-ffffffffffff'']"

definition hardware_text :: "string \<Rightarrow> string" where
  "hardware_text s =
     (let v = trim s in if map to_lower v \<in> set placeholders then [] else v)"

fun split_loop :: "char \<Rightarrow> string \<Rightarrow> string \<Rightarrow> string list" where
  "split_loop d current [] = [current]"
| "split_loop d current (ch # s) =
     (if ch = d then current # split_loop d [] s else split_loop d (current @ [ch]) s)"

definition split :: "string \<Rightarrow> char \<Rightarrow> string list" where
  "split s delimiter = split_loop delimiter [] s"

definition parse_kv :: "string \<Rightarrow> char \<Rightarrow> string \<times> string" where
  "parse_kv line separator =
     (case find_char separator line of
        None \<Rightarrow> (trim line, [])
      | Some pos \<Rightarrow> (trim (take pos line), trim (drop (pos + 1) line)))"

definition extract_filename :: "string \<Rightarrow> string" where
  "extract_filename path =
     (case rfind_char (CHR ''/'') path of None \<Rightarrow> path | Some i \<Rightarrow> drop (i + 1) path)"

section \<open>Numbers\<close>

datatype errc = Errc_InvalidArgument | Errc_ResultOutOfRange

definition digits_value :: "nat \<Rightarrow> string \<Rightarrow> nat" where
  "digits_value base ds = foldl (\<lambda>n c. n * base + (case char_value c of None \<Rightarrow> 0 | Some v \<Rightarrow> v)) 0 ds"

definition from_chars :: "nat \<Rightarrow> string \<Rightarrow> errc + (u64 \<times> string)" where
  "from_chars base s =
     (let ds = takeWhile (digit_in base) s; rest = dropWhile (digit_in base) s;
          v = digits_value base ds
      in if ds = [] then Inl Errc_InvalidArgument
         else if v < 2 ^ 64 then Inr (word_of_nat v, rest)
         else Inl Errc_ResultOutOfRange)"

definition parse_base :: "nat \<Rightarrow> string \<Rightarrow> u64 option" where
  "parse_base base s =
     (let trimmed = trim s in
      if trimmed = [] then None
      else case from_chars base trimmed of
             Inl _ \<Rightarrow> None
           | Inr (value, rest) \<Rightarrow> if rest \<noteq> [] then None else Some value)"

definition parse_uint :: "string \<Rightarrow> u64 option" where
  "parse_uint s = parse_base 10 s"

definition parse_hex :: "string \<Rightarrow> u64 option" where
  "parse_hex s = parse_base 16 s"

definition parse_device_number :: "string \<Rightarrow> DeviceNumber option" where
  "parse_device_number s =
     (case find_char (CHR '':'') s of
        None \<Rightarrow> None
      | Some colon \<Rightarrow>
          (case (parse_uint (take colon s), parse_uint (drop (colon + 1) s)) of
             (Some major, Some minor) \<Rightarrow>
               if major > u32_max \<or> minor > u32_max then None
               else Some \<lparr>dev_major = to_u32 major, dev_minor = to_u32 minor\<rparr>
           | _ \<Rightarrow> None))"

definition parse_kb_to_bytes :: "string \<Rightarrow> MemorySize option" where
  "parse_kb_to_bytes s = map_option (\<lambda>v. ScalarUnit (v * 1024)) (parse_uint s)"

text \<open>
  The address is taken apart from the right: the function after the first dot, then device
  and bus after the last colons of what precedes, and the domain in front. Each part is
  read in hexadecimal and checked against the width of its field.
\<close>

definition parse_pci_address :: "string \<Rightarrow> PciAddress option" where
  "parse_pci_address s =
     (let trimmed = trim s in
      if trimmed = [] then None else
      case find_char (CHR ''.'') trimmed of None \<Rightarrow> None | Some dot_pos \<Rightarrow>
      (case parse_hex (drop (dot_pos + 1) trimmed) of None \<Rightarrow> None | Some func \<Rightarrow>
       if func > 255 then None else
       let before_dot = take dot_pos trimmed in
       case rfind_char (CHR '':'') before_dot of None \<Rightarrow> None | Some last_colon \<Rightarrow>
       (case parse_hex (drop (last_colon + 1) before_dot) of None \<Rightarrow> None | Some device \<Rightarrow>
        if device > 255 then None else
        let before_device = take last_colon before_dot in
        case rfind_char (CHR '':'') before_device of None \<Rightarrow> None | Some second_colon \<Rightarrow>
        (case parse_hex (drop (second_colon + 1) before_device) of None \<Rightarrow> None | Some bus \<Rightarrow>
         if bus > 255 then None else
         case parse_hex (take second_colon before_device) of None \<Rightarrow> None | Some domain \<Rightarrow>
         if domain > 65535 then None
         else Some \<lparr>pci_domain = ucast domain, pci_bus = ucast bus, pci_device = ucast device,
                pci_function = ucast func\<rparr>))))"

section \<open>Printing: \<open>std::to_string\<close> and the hexadecimal stream output\<close>

definition digit_char :: "nat \<Rightarrow> char" where
  "digit_char d = char_of (if d < 10 then 48 + d else 87 + d)"

fun print_base :: "nat \<Rightarrow> nat \<Rightarrow> string" where
  "print_base base n =
     (if base \<le> 1 \<or> n < base then [digit_char n]
      else print_base base (n div base) @ [digit_char (n mod base)])"

declare print_base.simps [simp del]

definition to_string_nat :: "nat \<Rightarrow> string" where
  "to_string_nat n = print_base 10 n"

definition to_string :: "'a::len word \<Rightarrow> string" where
  "to_string v = to_string_nat (unat v)"

text \<open>\<open>std::hex << std::setfill('0') << std::setw(w)\<close> pads on the left and never truncates.\<close>

definition print_hex :: "nat \<Rightarrow> nat \<Rightarrow> string" where
  "print_hex w n =
     (let s = print_base 16 n in replicate (w - length s) (CHR ''0'') @ s)"


section \<open>Trimming\<close>

lemma trim_split:
  "\<exists>pre post. s = pre @ trim s @ post \<and> list_all is_space pre \<and> list_all is_space post"
proof -
  let ?a = "dropWhile is_space s"
  have "s = takeWhile is_space s @ ?a" by simp
  moreover have "?a = trim s @ rev (takeWhile is_space (rev ?a))"
    unfolding trim_def by (metis rev_append rev_rev_ident takeWhile_dropWhile_id)
  moreover have "list_all is_space (takeWhile is_space s)"
    by (auto simp: list_all_iff dest: set_takeWhileD)
  moreover have "list_all is_space (rev (takeWhile is_space (rev ?a)))"
    by (auto simp: list_all_iff dest: set_takeWhileD)
  ultimately show ?thesis by (metis append.assoc)
qed

lemma hd_dropWhile_not: "dropWhile P s \<noteq> [] \<Longrightarrow> \<not> P (hd (dropWhile P s))"
  by (rule hd_dropWhile)

lemma dropWhile_id: "s = [] \<or> \<not> P (hd s) \<Longrightarrow> dropWhile P s = s"
  by (cases s) auto

lemma trim_last: "trim s \<noteq> [] \<Longrightarrow> \<not> is_space (last (trim s))"
  unfolding trim_def using hd_dropWhile_not [of is_space "rev (dropWhile is_space s)"]
  by (simp add: last_rev)

lemma trim_hd: "trim s \<noteq> [] \<Longrightarrow> \<not> is_space (hd (trim s))"
proof -
  assume ne: "trim s \<noteq> []"
  let ?a = "dropWhile is_space s"
  have a: "?a = trim s @ rev (takeWhile is_space (rev ?a))"
    unfolding trim_def by (metis rev_append rev_rev_ident takeWhile_dropWhile_id)
  then have "hd ?a = hd (trim s)" and "?a \<noteq> []" using ne by (metis hd_append2, metis append_is_Nil_conv)
  then show ?thesis using hd_dropWhile_not [of is_space s] by simp
qed

lemma trim_id: "s = [] \<or> \<not> is_space (hd s) \<and> \<not> is_space (last s) \<Longrightarrow> trim s = s"
  unfolding trim_def by (auto simp: dropWhile_id hd_rev)

lemma trim_trim [simp]: "trim (trim s) = trim s"
  by (rule trim_id) (use trim_hd trim_last in blast)

lemma trim_no_space: "list_all (\<lambda>c. \<not> is_space c) s \<Longrightarrow> trim s = s"
  by (rule trim_id) (cases "s = []"; auto simp: list_all_iff)

lemma trim_Nil [simp]: "trim [] = []"
  by (simp add: trim_def)

lemma set_trim: "set (trim s) \<subseteq> set s"
  unfolding trim_def by (auto dest!: set_dropWhileD)

lemma trim_empty_iff: "trim s = [] \<longleftrightarrow> list_all is_space s"
proof
  assume "trim s = []"
  with trim_split [of s] show "list_all is_space s" by auto
next
  assume "list_all is_space s"
  then have "dropWhile is_space s = []" by (simp add: list_all_iff)
  then show "trim s = []" unfolding trim_def by (metis dropWhile.simps(1) rev.simps(1))
qed

section \<open>Splitting\<close>

fun join :: "char \<Rightarrow> string list \<Rightarrow> string" where
  "join d [] = []"
| "join d [x] = x"
| "join d (x # y # xs) = x @ d # join d (y # xs)"

lemma split_loop_nonempty [simp]: "split_loop d cur s \<noteq> []"
  by (induction d cur s rule: split_loop.induct) auto

lemma split_nonempty [simp]: "split s d \<noteq> []"
  by (simp add: split_def)

lemma join_Cons: "xs \<noteq> [] \<Longrightarrow> join d (x # xs) = x @ d # join d xs"
  by (cases xs) auto

lemma join_split_loop: "join d (split_loop d cur s) = cur @ s"
  by (induction d cur s rule: split_loop.induct) (auto simp: join_Cons)

lemma split_loop_no_delim:
  "d \<notin> set cur \<Longrightarrow> x \<in> set (split_loop d cur s) \<Longrightarrow> d \<notin> set x"
  by (induction d cur s rule: split_loop.induct) (auto split: if_splits)

lemma split_no_delim: "x \<in> set (split s d) \<Longrightarrow> d \<notin> set x"
  unfolding split_def by (rule split_loop_no_delim [of d "[]"]) auto

lemma join_split [simp]: "join d (split s d) = s"
  by (simp add: split_def join_split_loop)

lemma split_loop_plain: "d \<notin> set xs \<Longrightarrow> split_loop d cur (xs @ s) = split_loop d (cur @ xs) s"
  by (induction xs arbitrary: cur) auto

lemma split_join:
  "xs \<noteq> [] \<Longrightarrow> \<forall>x \<in> set xs. d \<notin> set x \<Longrightarrow> split (join d xs) d = xs"
proof (induction d xs rule: join.induct)
  case (1 d)
  then show ?case by simp
next
  case (2 d x)
  then show ?case using split_loop_plain [of d x "[]" "[]"] by (simp add: split_def)
next
  case (3 d x y xs)
  then have "split (join d (y # xs)) d = y # xs" by simp
  then show ?case using 3 split_loop_plain [of d x "[]"] by (simp add: split_def)
qed

lemma length_split_loop: "length (split_loop d cur s) = Suc (count_list s d)"
  by (induction d cur s rule: split_loop.induct) auto

lemma split_set_chars: "x \<in> set (split s d) \<Longrightarrow> set x \<subseteq> set s"
proof -
  have "x \<in> set (split_loop d cur s) \<Longrightarrow> set x \<subseteq> set cur \<union> set s" for cur
    by (induction d cur s rule: split_loop.induct) (auto split: if_splits)
  from this [of "[]"] show "x \<in> set (split s d) \<Longrightarrow> set x \<subseteq> set s" by (simp add: split_def)
qed

section \<open>Digits and numbers\<close>



lemma char_value_digit_char: "d < 16 \<Longrightarrow> char_value (digit_char d) = Some d"
proof -
  have "list_all (\<lambda>d. char_value (digit_char d) = Some d) [0..<16]" by code_simp
  then show "d < 16 \<Longrightarrow> ?thesis" by (simp add: list_all_iff)
qed

lemma digit_char_not_space: "d < 16 \<Longrightarrow> \<not> is_space (digit_char d)"
proof -
  have "list_all (\<lambda>d. \<not> is_space (digit_char d)) [0..<16]" by code_simp
  then show "d < 16 \<Longrightarrow> ?thesis" by (simp add: list_all_iff)
qed

lemma digit_in_digit_char: "d < base \<Longrightarrow> base \<le> 16 \<Longrightarrow> digit_in base (digit_char d)"
  by (simp add: digit_in_def char_value_digit_char)

lemma digit_in_not_space: "digit_in base c \<Longrightarrow> \<not> is_space c"
  by (auto simp: digit_in_def char_value_def is_space_def Let_def split: if_splits)

lemma is_digit_digit_in: "digit_in 10 c \<longleftrightarrow> is_digit c"
  by (auto simp: digit_in_def char_value_def is_digit_def Let_def)

lemma digits_value_snoc [simp]:
  "digits_value b (ds @ [c]) =
     digits_value b ds * b + (case char_value c of None \<Rightarrow> 0 | Some v \<Rightarrow> v)"
  by (simp add: digits_value_def)

lemma digits_value_Nil [simp]: "digits_value b [] = 0"
  by (simp add: digits_value_def)

lemma digits_value_zeros: "digits_value b (replicate k (CHR ''0'') @ ds) = digits_value b ds"
proof -
  have z: "char_value (CHR ''0'') = Some 0" by code_simp
  have "foldl (\<lambda>n c. n * b + (case char_value c of None \<Rightarrow> 0 | Some v \<Rightarrow> v)) 0
      (replicate k (CHR ''0'')) = 0"
    by (induction k) (auto simp: z)
  then show ?thesis by (simp add: digits_value_def)
qed

text \<open>\<open>number_text b s n\<close>: the trimmed text \<open>s\<close> is a numeral of the base for \<open>n\<close>.\<close>

definition number_text :: "nat \<Rightarrow> string \<Rightarrow> nat \<Rightarrow> bool" where
  "number_text b s n \<longleftrightarrow>
     trim s \<noteq> [] \<and> list_all (digit_in b) (trim s) \<and> digits_value b (trim s) = n"

lemma unat_of_nat_u64: "n < 2 ^ 64 \<Longrightarrow> unat (word_of_nat n :: u64) = n"
  by (simp add: unsigned_of_nat take_bit_nat_eq_self)

lemma from_chars_all:
  "list_all (digit_in b) s \<Longrightarrow> s \<noteq> [] \<Longrightarrow> from_chars b s =
     (if digits_value b s < 2 ^ 64 then Inr (word_of_nat (digits_value b s), [])
      else Inl Errc_ResultOutOfRange)"
proof -
  assume a: "list_all (digit_in b) s" "s \<noteq> []"
  then have t: "takeWhile (digit_in b) s = s" and d: "dropWhile (digit_in b) s = []"
    by (auto simp: list_all_iff)
  show ?thesis unfolding from_chars_def Let_def t d using a by simp
qed

lemma from_chars_rest: "\<not> list_all (digit_in b) s \<Longrightarrow> from_chars b s = Inr (v, rest) \<Longrightarrow> rest \<noteq> []"
  by (auto simp: from_chars_def Let_def list_all_iff split: if_splits)

lemma parse_base_Some_iff:
  "parse_base b s = Some v \<longleftrightarrow> number_text b s (unat v)"
proof (cases "trim s \<noteq> [] \<and> list_all (digit_in b) (trim s)")
  case True
  let ?n = "digits_value b (trim s)"
  have p: "parse_base b s = (if ?n < 2 ^ 64 then Some (word_of_nat ?n) else None)"
    using True by (simp add: parse_base_def from_chars_all)
  have v: "unat v < 2 ^ 64" using unsigned_less [of v, where ?'a = nat] by simp
  have "parse_base b s = Some v \<longleftrightarrow> ?n = unat v"
  proof
    assume "parse_base b s = Some v"
    then have "?n < 2 ^ 64" and "word_of_nat ?n = v" unfolding p by (simp_all split: if_splits)
    then show "?n = unat v" using unat_of_nat_u64 [of ?n] by metis
  next
    assume "?n = unat v"
    then show "parse_base b s = Some v" unfolding p using v by simp
  qed
  then show ?thesis using True by (simp add: number_text_def)
next
  case False
  have "parse_base b s = None"
  proof (cases "trim s = []")
    case True
    then show ?thesis by (simp add: parse_base_def)
  next
    case ne: False
    with False have na: "\<not> list_all (digit_in b) (trim s)" by simp
    show ?thesis
    proof (cases "from_chars b (trim s)")
      case (Inl e)
      with ne show ?thesis by (simp add: parse_base_def)
    next
      case (Inr r)
      then obtain v' rest where r: "from_chars b (trim s) = Inr (v', rest)" by (cases r) simp
      then have "rest \<noteq> []" by (rule from_chars_rest [OF na])
      with ne r show ?thesis by (simp add: parse_base_def)
    qed
  qed
  moreover have "\<not> number_text b s (unat v)" unfolding number_text_def using False by blast
  ultimately show ?thesis by simp
qed

lemma parse_base_None_iff:
  "parse_base b s = None \<longleftrightarrow> (\<forall>n < 2 ^ 64. \<not> number_text b s n)"
proof -
  have "parse_base b s = None \<longleftrightarrow> (\<forall>v :: u64. \<not> number_text b s (unat v))"
  proof (cases "parse_base b s")
    case None
    then show ?thesis by (metis parse_base_Some_iff option.discI)
  next
    case (Some v)
    then have "number_text b s (unat v)" by (simp only: parse_base_Some_iff)
    with Some show ?thesis by auto
  qed
  also have "\<dots> \<longleftrightarrow> (\<forall>n < 2 ^ 64. \<not> number_text b s n)"
  proof (intro iffI allI impI)
    fix n :: nat
    assume "\<forall>v :: u64. \<not> number_text b s (unat v)" and "n < 2 ^ 64"
    then show "\<not> number_text b s n" using unat_of_nat_u64 [of n] by metis
  next
    fix v :: u64
    assume "\<forall>n < 2 ^ 64. \<not> number_text b s n"
    moreover have "unat v < 2 ^ 64" using unsigned_less [of v, where ?'a = nat] by simp
    ultimately show "\<not> number_text b s (unat v)" by blast
  qed
  finally show ?thesis .
qed

lemma parse_uint_Some_iff: "parse_uint s = Some v \<longleftrightarrow> number_text 10 s (unat v)"
  by (simp add: parse_uint_def parse_base_Some_iff)

lemma parse_hex_Some_iff: "parse_hex s = Some v \<longleftrightarrow> number_text 16 s (unat v)"
  by (simp add: parse_hex_def parse_base_Some_iff)

lemma parse_uint_trim [simp]: "parse_uint (trim s) = parse_uint s"
  by (simp add: parse_uint_def parse_base_def)

lemma parse_hex_trim [simp]: "parse_hex (trim s) = parse_hex s"
  by (simp add: parse_hex_def parse_base_def)

section \<open>Printing\<close>

lemma print_base_nonempty [simp]: "print_base b n \<noteq> []"
  by (subst print_base.simps) simp

lemma print_base_digits: "2 \<le> b \<Longrightarrow> b \<le> 16 \<Longrightarrow> list_all (digit_in b) (print_base b n)"
proof (induction b n rule: print_base.induct)
  case (1 b n)
  then show ?case
    by (subst print_base.simps) (auto simp: digit_in_digit_char)
qed

lemma print_base_value: "2 \<le> b \<Longrightarrow> b \<le> 16 \<Longrightarrow> digits_value b (print_base b n) = n"
proof (induction b n rule: print_base.induct)
  case (1 b n)
  show ?case
  proof (cases "n < b")
    case True
    then have "print_base b n = [] @ [digit_char n]" by (subst print_base.simps) simp
    then show ?thesis using True 1 by (simp only: digits_value_snoc) (simp add: char_value_digit_char)
  next
    case False
    then have "print_base b n = print_base b (n div b) @ [digit_char (n mod b)]"
      using 1 by (subst print_base.simps) simp
    then show ?thesis using False 1
      by (simp add: char_value_digit_char less_le_trans [of "n mod b" b 16])
  qed
qed

lemma print_base_no_space: "2 \<le> b \<Longrightarrow> b \<le> 16 \<Longrightarrow> trim (print_base b n) = print_base b n"
  using print_base_digits [of b n] by (intro trim_no_space) (auto simp: list_all_iff digit_in_not_space)

lemma parse_print_base:
  "2 \<le> b \<Longrightarrow> b \<le> 16 \<Longrightarrow> n < 2 ^ 64 \<Longrightarrow> parse_base b (print_base b n) = Some (word_of_nat n)"
  by (subst parse_base_Some_iff)
    (simp add: number_text_def print_base_no_space print_base_digits print_base_value unat_of_nat_u64
      del: power_numeral)

lemma print_hex_digits: "list_all (digit_in 16) (print_hex w n)"
proof -
  have "digit_in 16 (CHR ''0'')" by code_simp
  then show ?thesis
    using print_base_digits [of 16 n] by (auto simp: print_hex_def Let_def list_all_iff)
qed

lemma print_hex_nonempty [simp]: "print_hex w n \<noteq> []"
  by (simp add: print_hex_def Let_def)

lemma parse_print_hex: "n < 2 ^ 64 \<Longrightarrow> parse_hex (print_hex w n) = Some (word_of_nat n)"
proof -
  assume n: "n < 2 ^ 64"
  have "trim (print_hex w n) = print_hex w n"
    using print_hex_digits [of w n] by (intro trim_no_space) (auto simp: list_all_iff digit_in_not_space)
  moreover have "digits_value 16 (print_hex w n) = n"
    by (simp add: print_hex_def Let_def digits_value_zeros print_base_value)
  ultimately show ?thesis using n print_hex_digits [of w n]
    by (subst parse_hex_Some_iff) (simp add: number_text_def unat_of_nat_u64 del: power_numeral)
qed

section \<open>Printers with a parser\<close>

text \<open>
  The contract between a printer and the parser that reads its output back, and what follows
  from it for the names the inventories compare: printing is injective, so a list of distinct
  identities prints to distinct names.
\<close>

locale codec =
  fixes pr :: "'a \<Rightarrow> string" and ps :: "string \<Rightarrow> 'a option"
  assumes parse_print: "ps (pr x) = Some x"
begin

lemma inj_pr: "inj pr"
  by (metis injI option.inject parse_print)

lemma pr_eq_iff: "pr x = pr y \<longleftrightarrow> x = y"
  using inj_pr by (auto dest: injD)

lemma distinct_print: "distinct (map pr xs) \<longleftrightarrow> distinct xs"
  using inj_on_subset [OF inj_pr, of "set xs"] by (simp add: distinct_map)

lemma parse_list: "map ps (map pr xs) = map Some xs"
  by (simp add: parse_print)

lemma set_print_eq: "set (map pr xs) = set (map pr ys) \<longleftrightarrow> set xs = set ys"
  using inj_pr by (simp add: inj_image_eq_iff)

end

definition parse_u32 :: "string \<Rightarrow> u32 option" where
  "parse_u32 s = (case parse_uint s of
     None \<Rightarrow> None | Some v \<Rightarrow> if v \<le> u32_max then Some (to_u32 v) else None)"

interpretation decimal_u64: codec "to_string :: u64 \<Rightarrow> string" parse_uint
proof unfold_locales
  fix x :: u64
  have "unat x < 2 ^ 64" using unsigned_less [of x, where ?'a = nat] by simp
  then show "parse_uint (to_string x) = Some x"
    unfolding to_string_def to_string_nat_def parse_uint_def
    by (simp add: parse_print_base del: power_numeral)
qed

interpretation decimal_u32: codec "to_string :: u32 \<Rightarrow> string" parse_u32
proof unfold_locales
  fix x :: u32
  have "to_string x = to_string (from_u32 x)" by (simp add: to_string_def)
  then show "parse_u32 (to_string x) = Some x"
    by (simp add: parse_u32_def decimal_u64.parse_print)
qed

end
