(* ===== verification/Cpu_Details.thy ===== *)
theory Cpu_Details
  imports Raw_Store Parse_Utils
begin

text \<open>
  \<open>src/parser/cpu_details.cpp\<close>: the CPU list syntax of the kernel (\<open>0-3,8\<close>), the cpufreq
  policies, and the presence, online and SMT state of the CPUs.
\<close>

section \<open>CPU lists\<close>

definition max_cpu_count :: nat where
  "max_cpu_count = 65536"

text \<open>The body of the \<open>for\<close> loop over the ids of one token, with its early return.\<close>

fun insert_ids :: "nat list \<Rightarrow> u32 list \<Rightarrow> u32 list option" where
  "insert_ids [] ids = Some ids"
| "insert_ids (i # is) ids =
     (let ids' = set_put (word_of_nat i) ids in
      if length ids' > max_cpu_count then None else insert_ids is ids')"

definition cpu_id_range :: "string \<Rightarrow> (u64 \<times> u64) option" where
  "cpu_id_range token =
     (let dash = find_char (CHR ''-'') token;
          first_id = parse_uint (case dash of None \<Rightarrow> token | Some d \<Rightarrow> take d token);
          last_id = (case dash of None \<Rightarrow> first_id | Some d \<Rightarrow> parse_uint (drop (d + 1) token))
      in case (first_id, last_id) of
           (Some a, Some b) \<Rightarrow>
             if b < a \<or> b > u32_max \<or> b - a \<ge> 65536 then None else Some (a, b)
         | _ \<Rightarrow> None)"

fun cpu_id_tokens :: "string list \<Rightarrow> u32 list \<Rightarrow> u32 list option" where
  "cpu_id_tokens [] ids = Some ids"
| "cpu_id_tokens (token # ts) ids =
     (if token = [] then cpu_id_tokens ts ids
      else case cpu_id_range token of
             None \<Rightarrow> None
           | Some (first_id, last_id) \<Rightarrow>
               (case insert_ids [unat first_id..<Suc (unat last_id)] ids of
                  None \<Rightarrow> None
                | Some ids' \<Rightarrow> cpu_id_tokens ts ids'))"

definition normalize_cpu_list :: "string \<Rightarrow> string" where
  "normalize_cpu_list value = map (\<lambda>c. if is_space c then CHR '','' else c) value"

definition parse_cpu_id_list :: "string \<Rightarrow> LogicalCpuId list option" where
  "parse_cpu_id_list value =
     map_option (map StrongId) (cpu_id_tokens (split (normalize_cpu_list value) (CHR '','')) [])"

section \<open>Frequency policies\<close>

definition max_khz :: u64 where
  "max_khz = 18446744073709551615 div 1000"

definition khz_to_hz :: "string \<Rightarrow> Frequency option" where
  "khz_to_hz payload =
     (case parse_uint payload of
        None \<Rightarrow> None
      | Some number \<Rightarrow>
          if number > 0 \<and> number \<le> max_khz then Some (ScalarUnit (number * 1000)) else None)"

definition frequency_fields ::
  "(string \<times> (Frequency option \<Rightarrow> CpuFrequencyPolicy \<Rightarrow> CpuFrequencyPolicy)) list" where
  "frequency_fields =
     [(''base_frequency'', \<lambda>v. pol_base_frequency_update (\<lambda>_. v)),
      (''cpuinfo_min_freq'', \<lambda>v. pol_hardware_min_frequency_update (\<lambda>_. v)),
      (''cpuinfo_max_freq'', \<lambda>v. pol_hardware_max_frequency_update (\<lambda>_. v)),
      (''scaling_min_freq'', \<lambda>v. pol_scaling_min_frequency_update (\<lambda>_. v)),
      (''scaling_max_freq'', \<lambda>v. pol_scaling_max_frequency_update (\<lambda>_. v)),
      (''scaling_cur_freq'', \<lambda>v. pol_scaling_current_frequency_update (\<lambda>_. v)),
      (''cpuinfo_cur_freq'', \<lambda>v. pol_hardware_current_frequency_update (\<lambda>_. v))]"

definition invalid_cpu_list :: "string \<Rightarrow> string" where
  "invalid_cpu_list path = ''parse_cpu: invalid CPU list in '' @ path"

definition invalid_frequency :: "string \<Rightarrow> string" where
  "invalid_frequency path = ''parse_cpu: invalid frequency in '' @ path"

definition read_policy_field ::
  "CpuFrequencyPolicy \<Rightarrow> RawRecord \<Rightarrow> string list \<Rightarrow> CpuFrequencyPolicy \<times> string list" where
  "read_policy_field policy record warnings =
     (let field = extract_filename (rec_path_or_command record);
          path = rec_path_or_command record; payload = rec_payload record in
      if field = ''related_cpus'' \<or> field = ''affected_cpus'' then
        (case parse_cpu_id_list payload of
           Some ids \<Rightarrow>
             (if field = ''related_cpus'' then policy\<lparr>pol_related_cpus := ids\<rparr>
              else policy\<lparr>pol_affected_cpus := ids\<rparr>, warnings)
         | None \<Rightarrow> (policy, warnings @ [invalid_cpu_list path]))
      else
        (case map_of frequency_fields field of
           Some member \<Rightarrow>
             (case khz_to_hz payload of
                Some f \<Rightarrow> (member (Some f) policy, warnings)
              | None \<Rightarrow> (policy, warnings @ [invalid_frequency path]))
         | None \<Rightarrow>
             (if field = ''scaling_driver'' then policy\<lparr>pol_driver := trim payload\<rparr>
              else if field = ''scaling_governor'' then policy\<lparr>pol_governor := trim payload\<rparr>
              else if field = ''energy_performance_preference''
              then policy\<lparr>pol_energy_performance_preference := trim payload\<rparr>
              else policy, warnings)))"

section \<open>The details of a CPU model\<close>

definition base_path :: string where
  "base_path = ''/sys/devices/system/cpu/''"

definition policy_prefix :: string where
  "policy_prefix = ''/sys/devices/system/cpu/cpufreq/policy''"

definition legacy_prefix :: string where
  "legacy_prefix = ''/sys/devices/system/cpu/cpu''"

record DetailState =
  det_cpu :: Cpu
  det_online :: "(u32, bool) std_map"
  det_policies :: "(u32, CpuFrequencyPolicy) std_map"
  det_warnings :: "string list"

text \<open>The leading component of a path suffix, up to the next slash.\<close>

definition first_component :: "string \<Rightarrow> string" where
  "first_component s = (case find_char (CHR ''/'') s of None \<Rightarrow> s | Some i \<Rightarrow> take i s)"

definition read_online_field :: "RawRecord \<Rightarrow> DetailState \<Rightarrow> DetailState" where
  "read_online_field record st =
     (let tail = drop (length legacy_prefix) (rec_path_or_command record);
          value = trim (rec_payload record) in
      case parse_uint (first_component tail) of
        None \<Rightarrow> st
      | Some number \<Rightarrow>
          if number \<le> u32_max \<and> (value = ''0'' \<or> value = ''1'')
          then st\<lparr>det_online := map_put (to_u32 number) (value = ''1'') (det_online st)\<rparr>
          else st)"

text \<open>The policy number a path belongs to, if it names one.\<close>

definition policy_index :: "string \<Rightarrow> u32 option" where
  "policy_index path =
     (let legacy = \<not> prefix policy_prefix path;
          tail = drop (length (if legacy then legacy_prefix else policy_prefix)) path in
      case find_char (CHR ''/'') tail of
        None \<Rightarrow> None
      | Some separator \<Rightarrow>
          if legacy \<and> \<not> prefix ''/cpufreq/'' (drop separator tail) then None
          else case parse_uint (take separator tail) of
                 None \<Rightarrow> None
               | Some index \<Rightarrow> if index > u32_max then None else Some (to_u32 index))"

definition read_policy_record :: "RawRecord \<Rightarrow> DetailState \<Rightarrow> DetailState" where
  "read_policy_record record st =
     (case policy_index (rec_path_or_command record) of
        None \<Rightarrow> st
      | Some k \<Rightarrow>
          let policy = (case map_of (det_policies st) k of
                None \<Rightarrow> CpuFrequencyPolicy_default | Some p \<Rightarrow> p);
              (policy', warnings') =
                read_policy_field (policy\<lparr>pol_index := k\<rparr>) record (det_warnings st)
          in st\<lparr>det_policies := map_put k policy' (det_policies st), det_warnings := warnings'\<rparr>)"

definition read_presence_list :: "RawRecord \<Rightarrow> Cpu \<Rightarrow> Cpu" where
  "read_presence_list record cpu =
     (let ids = parse_cpu_id_list (rec_payload record) in
      if suffix ''present'' (rec_path_or_command record) then cpu\<lparr>cpu_present_cpu_ids := ids\<rparr>
      else cpu\<lparr>cpu_online_cpu_ids := ids\<rparr>)"

definition read_smt_control :: "RawRecord \<Rightarrow> Cpu \<Rightarrow> Cpu" where
  "read_smt_control record cpu =
     (let control = trim (rec_payload record); cpu' = cpu\<lparr>cpu_smt_control := control\<rparr> in
      if control = ''notsupported'' then cpu'\<lparr>cpu_smt_supported := Some False\<rparr>
      else if control = ''on'' \<or> control = ''off'' \<or> control = ''forceoff''
      then cpu'\<lparr>cpu_smt_supported := Some True\<rparr> else cpu')"

definition read_flag_record :: "RawRecord \<Rightarrow> Cpu \<Rightarrow> Cpu" where
  "read_flag_record record cpu =
     (let value = trim (rec_payload record) in
      if value = ''0'' \<or> value = ''1'' then
        (if suffix ''active'' (rec_path_or_command record)
         then cpu\<lparr>cpu_smt_active := Some (value = ''1'')\<rparr>
         else cpu\<lparr>cpu_boost_enabled := Some (value = ''1'')\<rparr>)
      else cpu)"

definition read_detail_record :: "bool \<Rightarrow> RawRecord \<Rightarrow> DetailState \<Rightarrow> DetailState" where
  "read_detail_record modern_policies record st =
     (let path = rec_path_or_command record in
      if rec_status record \<noteq> Success then st
      else if path = base_path @ ''present'' \<or> path = base_path @ ''online'' then
        st\<lparr>det_cpu := read_presence_list record (det_cpu st),
           det_warnings :=
             (if parse_cpu_id_list (rec_payload record) = None
              then det_warnings st @ [invalid_cpu_list path] else det_warnings st)\<rparr>
      else if path = base_path @ ''smt/control'' then
        st\<lparr>det_cpu := read_smt_control record (det_cpu st)\<rparr>
      else if path = base_path @ ''smt/active'' \<or> path = base_path @ ''cpufreq/boost'' then
        st\<lparr>det_cpu := read_flag_record record (det_cpu st)\<rparr>
      else if prefix legacy_prefix path \<and> suffix ''/online'' path then read_online_field record st
      else if prefix policy_prefix path \<or> (\<not> modern_policies \<and> prefix legacy_prefix path)
      then read_policy_record record st
      else st)"

definition modern_policies :: "RawRecord list \<Rightarrow> bool" where
  "modern_policies records \<longleftrightarrow>
     list_ex (\<lambda>r. rec_status r = Success \<and> prefix policy_prefix (rec_path_or_command r)) records"

text \<open>Legacy per-CPU policies with the same related CPUs are one policy; the first one is kept.\<close>

fun collect_policies ::
  "bool \<Rightarrow> (u32, CpuFrequencyPolicy) std_map \<Rightarrow> u32 list list \<Rightarrow> CpuFrequencyPolicy list" where
  "collect_policies modern [] legacy_members = []"
| "collect_policies modern ((index, policy) # ps) legacy_members =
     (if \<not> modern \<and> pol_related_cpus policy \<noteq> [] then
        (let members = map id_value (pol_related_cpus policy) in
         if members \<in> set legacy_members then collect_policies modern ps legacy_members
         else policy # collect_policies modern ps (set_put members legacy_members))
      else policy # collect_policies modern ps legacy_members)"

definition apply_reported_online :: "(u32, bool) std_map \<Rightarrow> LogicalCpu \<Rightarrow> LogicalCpu" where
  "apply_reported_online reported logical =
     (case map_of reported (id_value (lc_id logical)) of
        Some online \<Rightarrow> logical\<lparr>lc_online := Some online\<rparr>
      | None \<Rightarrow> logical)"

definition apply_online_list :: "LogicalCpuId list option \<Rightarrow> LogicalCpu list \<Rightarrow> LogicalCpu list" where
  "apply_online_list online_ids cpus =
     (case online_ids of
        None \<Rightarrow> cpus
      | Some ids \<Rightarrow>
          (let online = set_of (map id_value ids) in
           map (\<lambda>c. c\<lparr>lc_online := Some (id_value (lc_id c) \<in> set online)\<rparr>) cpus))"

definition read_cpu_details :: "RawStore \<Rightarrow> Cpu \<Rightarrow> string list \<Rightarrow> Cpu \<times> string list" where
  "read_cpu_details raw cpu warnings =
     (let records = get_all raw SysfsCpu;
          modern = modern_policies records;
          st = fold (read_detail_record modern) records
            \<lparr>det_cpu = cpu, det_online = [], det_policies = [], det_warnings = warnings\<rparr>;
          cpu1 = det_cpu st;
          logical1 = map (apply_reported_online (det_online st)) (cpu_logical_cpus cpu1)
      in (cpu1\<lparr>cpu_frequency_policies :=
                 cpu_frequency_policies cpu1 @ collect_policies modern (det_policies st) [],
               cpu_logical_cpus := apply_online_list (cpu_online_cpu_ids cpu1) logical1\<rparr>,
          det_warnings st))"

section \<open>CPU lists: what is accepted and what is read\<close>

definition word_ids :: "nat list \<Rightarrow> u32 set" where
  "word_ids is = word_of_nat ` set is"

lemma insert_ids_eq:
  "sorted_wrt (<) ids \<Longrightarrow> length ids \<le> max_cpu_count \<Longrightarrow>
   insert_ids is ids =
     (if card (set ids \<union> word_ids is) \<le> max_cpu_count
      then Some (sorted_list_of_set (set ids \<union> word_ids is)) else None)"
proof (induction "is" arbitrary: ids)
  case Nil
  then have "sorted_list_of_set (set ids) = ids" and "card (set ids) = length ids"
    by (simp_all add: strict_sorted_iff sorted_list_of_set.idem_if_sorted_distinct distinct_card)
  with Nil show ?case by (simp add: word_ids_def)
next
  case (Cons i "is")
  let ?ids = "set_put (word_of_nat i) ids"
  have s: "sorted_wrt (<) ?ids" using Cons.prems by (simp add: sorted_set_put)
  then have l: "length ?ids = card (set ?ids)"
    by (simp add: strict_sorted_iff distinct_card del: set_set_put)
  have u: "set ids \<union> word_ids (i # is) = set ?ids \<union> word_ids is" by (auto simp: word_ids_def)
  show ?case
  proof (cases "length ?ids \<le> max_cpu_count")
    case True
    then show ?thesis using Cons.IH [OF s True] by (simp add: Let_def u del: set_set_put)
  next
    case False
    have "card (set ?ids) \<le> card (set ?ids \<union> word_ids is)"
      by (rule card_mono) (auto simp: word_ids_def)
    with False l have "\<not> card (set ?ids \<union> word_ids is) \<le> max_cpu_count" by linarith
    then show ?thesis using False by (simp add: u del: set_set_put)
  qed
qed

text \<open>The ids a token stands for.\<close>

definition token_ids :: "string \<Rightarrow> u32 set" where
  "token_ids token =
     (case cpu_id_range token of
        None \<Rightarrow> {} | Some (first_id, last_id) \<Rightarrow> word_ids [unat first_id..<Suc (unat last_id)])"

definition valid_token :: "string \<Rightarrow> bool" where
  "valid_token token \<longleftrightarrow> token = [] \<or> cpu_id_range token \<noteq> None"

lemma finite_token_ids [simp]: "finite (token_ids t)"
  by (auto simp: token_ids_def word_ids_def split: option.splits)

lemma cpu_id_range_Nil [simp]: "cpu_id_range [] = None"
  by (simp add: cpu_id_range_def parse_uint_def parse_base_def Let_def)

lemma token_ids_Nil [simp]: "token_ids [] = {}"
  by (simp add: token_ids_def)

lemma cpu_id_tokens_eq:
  "sorted_wrt (<) ids \<Longrightarrow> length ids \<le> max_cpu_count \<Longrightarrow>
   cpu_id_tokens ts ids =
     (if list_all valid_token ts \<and> card (set ids \<union> (\<Union>t \<in> set ts. token_ids t)) \<le> max_cpu_count
      then Some (sorted_list_of_set (set ids \<union> (\<Union>t \<in> set ts. token_ids t))) else None)"
proof (induction ts arbitrary: ids)
  case Nil
  then have "sorted_list_of_set (set ids) = ids" and "card (set ids) = length ids"
    by (simp_all add: strict_sorted_iff sorted_list_of_set.idem_if_sorted_distinct distinct_card)
  with Nil show ?case by simp
next
  case (Cons t ts)
  let ?rest = "\<Union>t \<in> set ts. token_ids t"
  show ?case
  proof (cases "cpu_id_range t")
    case None
    then have "token_ids t = {}" by (simp add: token_ids_def)
    then show ?thesis using None Cons by (simp add: valid_token_def)
  next
    case (Some r)
    then obtain a b where r: "cpu_id_range t = Some (a, b)" by (cases r) auto
    then have t: "t \<noteq> []" "valid_token t" "token_ids t = word_ids [unat a..<Suc (unat b)]"
      by (auto simp: valid_token_def token_ids_def)
    let ?s = "set ids \<union> token_ids t"
    have u: "set ids \<union> (\<Union>t \<in> set (t # ts). token_ids t) = ?s \<union> ?rest" by auto
    show ?thesis
    proof (cases "card ?s \<le> max_cpu_count")
      case True
      then have "insert_ids [unat a..<Suc (unat b)] ids = Some (sorted_list_of_set ?s)"
        using insert_ids_eq [OF Cons.prems] t(3) by simp
      then have "cpu_id_tokens (t # ts) ids = cpu_id_tokens ts (sorted_list_of_set ?s)"
        using t r by simp
      also have "\<dots> = (if list_all valid_token ts \<and> card (?s \<union> ?rest) \<le> max_cpu_count
          then Some (sorted_list_of_set (?s \<union> ?rest)) else None)"
        using Cons.IH [of "sorted_list_of_set ?s"] True by simp
      finally show ?thesis using t(2) u by simp
    next
      case False
      then have "insert_ids [unat a..<Suc (unat b)] ids = None"
        using insert_ids_eq [OF Cons.prems] t(3) by simp
      moreover have "\<not> card (?s \<union> ?rest) \<le> max_cpu_count"
        using False card_mono [of "?s \<union> ?rest" ?s] by fastforce
      ultimately show ?thesis using t r u by simp
    qed
  qed
qed

definition cpu_list_tokens :: "string \<Rightarrow> string list" where
  "cpu_list_tokens value = split (normalize_cpu_list value) (CHR '','')"

text \<open>C17: the CPU list parser computes the union of the ranges of its tokens: it accepts exactly the
  lists whose non-empty tokens are all valid ranges and whose union has at most 65536 ids, and
  then returns the ids in strictly ascending order without repetition.
\<close>

theorem parse_cpu_id_list_spec:
  "parse_cpu_id_list value =
     (let tokens = cpu_list_tokens value; ids = (\<Union>t \<in> set tokens. token_ids t) in
      if list_all valid_token tokens \<and> card ids \<le> max_cpu_count
      then Some (map StrongId (sorted_list_of_set ids)) else None)"
  using cpu_id_tokens_eq [of "[]" "split (normalize_cpu_list value) (CHR '','')"]
  by (simp add: parse_cpu_id_list_def cpu_list_tokens_def Let_def)

section \<open>Frequencies\<close>

lemma unat_mult_1000: "x \<le> max_khz \<Longrightarrow> unat (x * 1000) = unat x * 1000"
proof -
  assume "x \<le> max_khz"
  then have "unat x \<le> 18446744073709551" by (simp add: max_khz_def word_le_nat_alt)
  then have "unat x * unat (1000 :: u64) < 2 ^ 64" by simp
  then show ?thesis by (simp add: unat_mult_lem [THEN iffD1] del: power_numeral)
qed

text \<open>
  a kilohertz value is converted to hertz without wrap-around: the parser returns a
  frequency exactly for the numerals between 1 and the largest value whose thousandfold fits in
  64 bits, and the stored value is the thousandfold as a mathematical integer.
\<close>

theorem khz_to_hz_exact:
  "khz_to_hz payload = Some f \<longleftrightarrow>
     (\<exists>n. number_text 10 payload n \<and> 0 < n \<and> n \<le> 18446744073709551 \<and>
        unat (unit_value f) = n * 1000)"
proof
  assume "khz_to_hz payload = Some f"
  then obtain v where v: "parse_uint payload = Some v" "v > 0" "v \<le> max_khz"
      "f = ScalarUnit (v * 1000)"
    by (auto simp: khz_to_hz_def split: option.splits if_splits)
  moreover have "unat v \<le> 18446744073709551" using v(3) by (simp add: max_khz_def word_le_nat_alt)
  ultimately show "\<exists>n. number_text 10 payload n \<and> 0 < n \<and> n \<le> 18446744073709551 \<and>
        unat (unit_value f) = n * 1000"
    by (intro exI [of _ "unat v"]) (simp add: unat_mult_1000 word_less_nat_alt flip: parse_uint_Some_iff)
next
  assume "\<exists>n. number_text 10 payload n \<and> 0 < n \<and> n \<le> 18446744073709551 \<and>
        unat (unit_value f) = n * 1000"
  then obtain n where n: "number_text 10 payload n" "0 < n" "n \<le> 18446744073709551"
      "unat (unit_value f) = n * 1000" by blast
  let ?v = "word_of_nat n :: u64"
  have v: "unat ?v = n" using n by (intro unat_of_nat_u64) simp
  have "parse_uint payload = Some ?v" by (simp add: parse_uint_Some_iff v n(1))
  moreover have "0 < ?v" using n v by (simp add: word_less_nat_alt)
  moreover have m: "?v \<le> max_khz" using n v by (simp add: max_khz_def word_le_nat_alt)
  moreover have "f = ScalarUnit (?v * 1000)"
    using unat_mult_1000 [OF m] n(4) v by (cases f) (simp add: word_unat_eq_iff)
  ultimately show "khz_to_hz payload = Some f" by (simp add: khz_to_hz_def)
qed

section \<open>What the details leave alone\<close>

text \<open>The model with everything erased that \<open>read_cpu_details\<close> is there to fill in.\<close>

definition details_erased :: "Cpu \<Rightarrow> Cpu" where
  "details_erased cpu = cpu
     \<lparr>cpu_present_cpu_ids := None, cpu_online_cpu_ids := None, cpu_smt_supported := None,
      cpu_smt_active := None, cpu_smt_control := [], cpu_boost_enabled := None,
      cpu_frequency_policies := [],
      cpu_logical_cpus := map (lc_online_update (\<lambda>_. None)) (cpu_logical_cpus cpu)\<rparr>"

lemma read_policy_record_cpu [simp]: "det_cpu (read_policy_record r st) = det_cpu st"
  by (simp add: read_policy_record_def Let_def split: option.split prod.split)

lemma read_online_field_cpu [simp]: "det_cpu (read_online_field r st) = det_cpu st"
  by (auto simp: read_online_field_def Let_def split: option.splits)

lemma detail_fields_erased [simp]:
  "details_erased (read_presence_list r cpu) = details_erased cpu"
  "details_erased (read_smt_control r cpu) = details_erased cpu"
  "details_erased (read_flag_record r cpu) = details_erased cpu"
  by (simp_all add: read_presence_list_def read_smt_control_def read_flag_record_def Let_def
      details_erased_def)

lemma read_detail_record_cpu:
  "details_erased (det_cpu (read_detail_record m r st)) = details_erased (det_cpu st)"
  by (simp add: read_detail_record_def Let_def)

lemma fold_read_detail_record_cpu:
  "details_erased (det_cpu (fold (read_detail_record m) rs st)) = details_erased (det_cpu st)"
  by (induction rs arbitrary: st) (simp_all add: read_detail_record_cpu)

lemma apply_reported_online_erased [simp]:
  "lc_online_update (\<lambda>_. None) (apply_reported_online m c) = lc_online_update (\<lambda>_. None) c"
  by (auto simp: apply_reported_online_def split: option.splits)

lemma apply_online_list_erased [simp]:
  "map (lc_online_update (\<lambda>_. None)) (apply_online_list o' cs) = map (lc_online_update (\<lambda>_. None)) cs"
  by (auto simp: apply_online_list_def Let_def split: option.splits)

lemma read_cpu_details_erased:
  "details_erased (fst (read_cpu_details raw cpu warnings)) = details_erased cpu"
proof -
  let ?cpu1 = "det_cpu (fold (read_detail_record (modern_policies (get_all raw SysfsCpu)))
      (get_all raw SysfsCpu)
      \<lparr>det_cpu = cpu, det_online = [], det_policies = [], det_warnings = warnings\<rparr>)"
  have "details_erased ?cpu1 = details_erased cpu" by (simp add: fold_read_detail_record_cpu)
  moreover have "details_erased (fst (read_cpu_details raw cpu warnings)) = details_erased ?cpu1"
    by (simp add: read_cpu_details_def Let_def details_erased_def comp_def)
  ultimately show ?thesis by simp
qed

text \<open>
  reading the details changes nothing but the details: packages, cores, caches, NUMA nodes,
  and of every logical CPU everything except its online state, are as before.
\<close>

theorem read_cpu_details_frame:
  "details_erased (fst (read_cpu_details raw cpu warnings)) = details_erased cpu"
  by (rule read_cpu_details_erased)

text \<open>when the kernel's list of online CPUs was read, it decides: every logical CPU of the model
  is online exactly when its number is in the list, whatever the per-CPU files said.
\<close>

theorem online_list_decides:
  "let cpu' = fst (read_cpu_details raw cpu warnings) in
   case cpu_online_cpu_ids cpu' of
     None \<Rightarrow> True
   | Some ids \<Rightarrow> list_all (\<lambda>c. lc_online c = Some (lc_id c \<in> set ids)) (cpu_logical_cpus cpu')"
  by (simp add: read_cpu_details_def Let_def apply_online_list_def list_all_iff split: option.splits)

text \<open>The policies that are kept: with per-CPU files, one policy per set of related CPUs.\<close>

lemma collect_policies_related:
  "distinct (filter (\<lambda>m. m \<noteq> []) (map (map id_value \<circ> pol_related_cpus) (collect_policies False ps seen))) \<and>
   (\<forall>m \<in> set seen. m \<noteq> [] \<longrightarrow> m \<notin> (map id_value \<circ> pol_related_cpus) ` set (collect_policies False ps seen))"
proof (induction False ps seen rule: collect_policies.induct)
  case (1 seen)
  then show ?case by simp
next
  case (2 index policy ps seen)
  then show ?case by (auto simp: Let_def)
qed

end
