(* ===== verification/Streams.thy ===== *)
theory Streams
  imports Parse_Utils
begin

text \<open>
  Two pieces of the C++ library that several parsers read text with: the \<open>std::istringstream\<close>
  extractions of a line, which are its whitespace-separated \<open>tokens\<close> taken from the front, and
  the decomposition of a POSIX \<open>std::filesystem::path\<close>.
\<close>

section \<open>Stream extraction\<close>

function tokens :: "string \<Rightarrow> string list" where
  "tokens s =
     (let s' = dropWhile is_space s in
      if s' = [] then []
      else takeWhile (\<lambda>c. \<not> is_space c) s' # tokens (dropWhile (\<lambda>c. \<not> is_space c) s'))"
  by pat_completeness auto
termination
proof (relation "measure length", goal_cases)
  case 1
  then show ?case by simp
next
  case (2 s s')
  then have "\<not> is_space (hd s')" using hd_dropWhile [of is_space s] by simp
  then have "length (dropWhile (\<lambda>c. \<not> is_space c) s') < length s'"
    using 2 by (intro dropWhile_rest_shorter) auto
  also have "length s' \<le> length s" using 2 by (simp add: length_dropWhile_le)
  finally show ?case by simp
qed

declare tokens.simps [simp del]

lemma tokens_Nil [simp]: "tokens [] = []"
  by (simp add: tokens.simps)

lemma tokens_space: "is_space c \<Longrightarrow> tokens (c # s) = tokens s"
  by (subst (1 2) tokens.simps) simp

lemma takeWhile_append_stop:
  "list_all P xs \<Longrightarrow> \<not> P c \<Longrightarrow> takeWhile P (xs @ c # ys) = xs \<and> dropWhile P (xs @ c # ys) = c # ys"
  by (induction xs) auto

lemma tokens_word:
  "w \<noteq> [] \<Longrightarrow> list_all (\<lambda>c. \<not> is_space c) w \<Longrightarrow> is_space c \<Longrightarrow> tokens (w @ c # s) = w # tokens s"
proof -
  assume w: "w \<noteq> []" "list_all (\<lambda>c. \<not> is_space c) w" and c: "is_space c"
  have "dropWhile is_space (w @ c # s) = w @ c # s"
    using w by (cases w) auto
  then show ?thesis
    using w c takeWhile_append_stop [of "\<lambda>c. \<not> is_space c" w c s]
    by (subst tokens.simps) (simp add: Let_def tokens_space)
qed

lemma tokens_last:
  "w \<noteq> [] \<Longrightarrow> list_all (\<lambda>c. \<not> is_space c) w \<Longrightarrow> tokens w = [w]"
proof -
  assume w: "w \<noteq> []" "list_all (\<lambda>c. \<not> is_space c) w"
  have d: "dropWhile is_space w = w" using w by (cases w) auto
  have t: "takeWhile (\<lambda>c. \<not> is_space c) w = w" and e: "dropWhile (\<lambda>c. \<not> is_space c) w = []"
    using w by (auto simp: list_all_iff)
  show ?thesis unfolding tokens.simps [of w] Let_def d t e using w by simp
qed

definition plain_word :: "string \<Rightarrow> bool" where
  "plain_word w \<longleftrightarrow> w \<noteq> [] \<and> list_all (\<lambda>c. \<not> is_space c) w"

lemma tokens_join:
  "list_all plain_word ws \<Longrightarrow> tokens (join (CHR '' '') ws) = ws"
proof (induction "CHR '' ''" ws rule: join.induct)
  case 1
  then show ?case by simp
next
  case (2 w)
  then show ?case by (simp add: tokens_last plain_word_def)
next
  case (3 w v ws)
  have "is_space (CHR '' '')" by code_simp
  with 3 show ?case by (simp add: tokens_word plain_word_def)
qed

section \<open>Paths\<close>

text \<open>\<open>path::filename\<close>: what follows the last slash.\<close>

definition path_filename :: "string \<Rightarrow> string" where
  "path_filename path =
     (case rfind_char (CHR ''/'') path of None \<Rightarrow> path | Some i \<Rightarrow> drop (i + 1) path)"

text \<open>
  \<open>path::parent_path\<close>: what precedes the last component and its separators; the parent of an entry
  of the root directory is the root.
\<close>

definition strip_slashes :: "string \<Rightarrow> string" where
  "strip_slashes p = rev (dropWhile (\<lambda>c. c = CHR ''/'') (rev p))"

definition parent_path :: "string \<Rightarrow> string" where
  "parent_path path =
     (case rfind_char (CHR ''/'') path of
        None \<Rightarrow> []
      | Some i \<Rightarrow>
          (let p = strip_slashes (take (i + 1) path) in if p = [] then ''/'' else p))"

text \<open>\<open>operator/\<close> with a relative right-hand side.\<close>

definition path_append :: "string \<Rightarrow> string \<Rightarrow> string" where
  "path_append dir name =
     (if dir = [] \<or> List.last dir = CHR ''/'' then dir @ name else dir @ ''/'' @ name)"

lemma path_filename_no_slash: "CHR ''/'' \<notin> set (path_filename path)"
proof (cases "rfind_char (CHR ''/'') path")
  case None
  then show ?thesis by (simp add: path_filename_def rfind_char_None_iff)
next
  case (Some i)
  then have "CHR ''/'' \<notin> set (drop (i + 1) path)"
  proof (induction path arbitrary: i)
    case Nil
    then show ?case by simp
  next
    case (Cons c path)
    then show ?case by (auto simp: rfind_char_None_iff split: option.splits if_splits)
  qed
  then show ?thesis by (simp add: path_filename_def Some)
qed

lemma path_filename_append [simp]:
  "CHR ''/'' \<notin> set name \<Longrightarrow> path_filename (dir @ CHR ''/'' # name) = name"
  by (simp add: path_filename_def rfind_char_append)

lemma strip_slashes_id: "p = [] \<or> List.last p \<noteq> CHR ''/'' \<Longrightarrow> strip_slashes p = p"
  by (cases p rule: rev_cases) (auto simp: strip_slashes_def)

lemma parent_path_append:
  "CHR ''/'' \<notin> set name \<Longrightarrow> dir \<noteq> [] \<Longrightarrow> List.last dir \<noteq> CHR ''/'' \<Longrightarrow>
   parent_path (dir @ CHR ''/'' # name) = dir"
  by (simp add: parent_path_def rfind_char_append strip_slashes_def Let_def)
    (cases dir rule: rev_cases; simp)

end
