(* ===== verification/Cpu_Info.thy ===== *)
theory Cpu_Info
  imports Cpu_Details Streams
begin

text \<open>
  The first half of \<open>src/parser/cpu.cpp\<close>: the entries of \<open>/proc/cpuinfo\<close>, the legacy ISA
  projection, and the sysfs topology that corrects the entries and adds offline CPUs.
\<close>

section \<open>/proc/cpuinfo\<close>

record CpuInfoEntry =
  ce_processor_set :: bool
  ce_processor :: u32
  ce_physical_id :: u32
  ce_core_id :: u32
  ce_model_name :: string
  ce_vendor_id :: string
  ce_flags :: string
  ce_core_id_set :: bool
  ce_identification :: CpuIdentification

definition CpuInfoEntry_default :: CpuInfoEntry where
  "CpuInfoEntry_default =
     \<lparr>ce_processor_set = False, ce_processor = 0, ce_physical_id = 0, ce_core_id = 0,
      ce_model_name = [], ce_vendor_id = [], ce_flags = [], ce_core_id_set = False,
      ce_identification = CpuIdentification_default\<rparr>"

record CpuInfoState =
  ci_entries :: "CpuInfoEntry list"
  ci_current :: CpuInfoEntry
  ci_has_entry :: bool
  ci_warnings :: "string list"

definition finish_entry :: "CpuInfoState \<Rightarrow> CpuInfoState" where
  "finish_entry st =
     (let current = ci_current st;
          entry = (if ce_core_id_set current then current
            else current\<lparr>ce_core_id := ce_processor current\<rparr>)
      in st\<lparr>ci_entries := (if ci_has_entry st \<and> ce_processor_set current
                then ci_entries st @ [entry] else ci_entries st),
            ci_current := CpuInfoEntry_default, ci_has_entry := False\<rparr>)"

text \<open>A value of the 32-bit range; the two bases of the identification numbers.\<close>

definition parse_small_uint :: "string \<Rightarrow> u32 option" where
  "parse_small_uint value =
     (case parse_uint value of
        None \<Rightarrow> None | Some v \<Rightarrow> if v \<le> u32_max then Some (to_u32 v) else None)"

definition parse_ident_number :: "string \<Rightarrow> u32 option" where
  "parse_ident_number value =
     (case (if prefix ''0x'' value then parse_hex (drop 2 value) else parse_uint value) of
        None \<Rightarrow> None | Some v \<Rightarrow> if v \<le> u32_max then Some (to_u32 v) else None)"

definition ident_fields ::
  "(string \<times> (u32 \<Rightarrow> CpuIdentification \<Rightarrow> CpuIdentification)) list" where
  "ident_fields =
     [(''cpu family'', \<lambda>v. ident_family_update (\<lambda>_. Some v)),
      (''model'', \<lambda>v. ident_model_update (\<lambda>_. Some v)),
      (''stepping'', \<lambda>v. ident_stepping_update (\<lambda>_. Some v)),
      (''CPU implementer'', \<lambda>v. ident_implementer_update (\<lambda>_. Some v)),
      (''CPU part'', \<lambda>v. ident_part_update (\<lambda>_. Some v)),
      (''CPU variant'', \<lambda>v. ident_variant_update (\<lambda>_. Some v))]"

text \<open>\<open>std::erase_if\<close> of the empty names, \<open>sort\<close>, and \<open>unique\<close> of neighbours.\<close>

definition cpuinfo_features :: "string \<Rightarrow> string list" where
  "cpuinfo_features value = remdups_adj (sort (filter (\<lambda>f. f \<noteq> []) (split value (CHR '' ''))))"

definition invalid_processor :: "string \<Rightarrow> string" where
  "invalid_processor value =
     ''parse_cpu: /proc/cpuinfo processor '' @
     bytes [232, 167, 163, 230, 158, 144, 229, 164, 177, 232, 180, 165] @ '': '' @ value"

definition cpuinfo_field ::
  "string \<Rightarrow> string \<Rightarrow> CpuInfoEntry \<Rightarrow> string list \<Rightarrow> CpuInfoEntry \<times> string list" where
  "cpuinfo_field key value current warnings =
     (if key = ''processor'' then
        (case parse_small_uint value of
           Some v \<Rightarrow> (current\<lparr>ce_processor_set := True, ce_processor := v\<rparr>, warnings)
         | None \<Rightarrow> (current\<lparr>ce_processor_set := False\<rparr>, warnings @ [invalid_processor value]))
      else if key = ''physical id'' then
        (case parse_small_uint value of
           Some v \<Rightarrow> (current\<lparr>ce_physical_id := v\<rparr>, warnings) | None \<Rightarrow> (current, warnings))
      else if key = ''core id'' then
        (case parse_small_uint value of
           Some v \<Rightarrow> (current\<lparr>ce_core_id := v, ce_core_id_set := True\<rparr>, warnings)
         | None \<Rightarrow> (current, warnings))
      else if key = ''model name'' then (current\<lparr>ce_model_name := value\<rparr>, warnings)
      else if key = ''vendor_id'' then (current\<lparr>ce_vendor_id := value\<rparr>, warnings)
      else if key = ''flags'' \<or> key = ''Features'' then
        (current\<lparr>ce_flags := value,
           ce_identification := (ce_identification current)
             \<lparr>ident_features_reported := True, ident_features := cpuinfo_features value\<rparr>\<rparr>, warnings)
      else if key = ''microcode'' then
        (current\<lparr>ce_identification := (ce_identification current)\<lparr>ident_microcode := value\<rparr>\<rparr>, warnings)
      else if key = ''CPU architecture'' then
        (current\<lparr>ce_identification := (ce_identification current)\<lparr>ident_architecture := value\<rparr>\<rparr>,
         warnings)
      else if key = ''CPU revision'' then
        (current\<lparr>ce_identification := (ce_identification current)\<lparr>ident_revision := value\<rparr>\<rparr>, warnings)
      else
        (case map_of ident_fields key of
           None \<Rightarrow> (current, warnings)
         | Some member \<Rightarrow>
             (case parse_ident_number value of
                None \<Rightarrow> (current, warnings)
              | Some narrowed \<Rightarrow>
                  (current\<lparr>ce_identification := member narrowed (ce_identification current)\<rparr>,
                   warnings))))"

definition cpuinfo_line :: "string \<Rightarrow> CpuInfoState \<Rightarrow> CpuInfoState" where
  "cpuinfo_line line st =
     (let trimmed = trim line in
      if trimmed = [] then finish_entry st
      else
        let (key, value) = parse_kv trimmed (CHR '':'');
            (current, warnings) = cpuinfo_field key value (ci_current st) (ci_warnings st)
        in st\<lparr>ci_current := current, ci_has_entry := True, ci_warnings := warnings\<rparr>)"

definition parse_cpuinfo :: "string \<Rightarrow> string list \<Rightarrow> CpuInfoEntry list \<times> string list" where
  "parse_cpuinfo payload warnings =
     (let st = finish_entry (fold cpuinfo_line (split payload (CHR 0x0A))
            \<lparr>ci_entries = [], ci_current = CpuInfoEntry_default, ci_has_entry = False,
             ci_warnings = warnings\<rparr>)
      in (ci_entries st, ci_warnings st))"

section \<open>ISA extensions\<close>

definition isa_map :: "(string \<times> IsaExtension) list" where
  "isa_map =
     [(''sse'', Sse), (''sse2'', Sse2), (''sse3'', Sse3), (''ssse3'', Ssse3), (''sse4_1'', Sse41),
      (''sse4_2'', Sse42), (''avx'', Avx), (''avx2'', Avx2), (''avx512f'', Avx512f),
      (''avx512cd'', Avx512cd), (''avx512bw'', Avx512bw), (''avx512dq'', Avx512dq),
      (''avx512vl'', Avx512vl), (''aes'', Aes), (''fma'', Fma), (''f16c'', F16c),
      (''pclmulqdq'', Pclmulqdq)]"

definition legacy_isa_extensions :: "string \<Rightarrow> IsaExtension list" where
  "legacy_isa_extensions flags =
     (let flag_set = set_of (map trim (split flags (CHR '' ''))) in
      map snd (filter (\<lambda>(flag, _). flag \<in> set flag_set) isa_map))"

section \<open>Sysfs topology\<close>

text \<open>The digits after the first \<open>cpu/cpu\<close> of a path.\<close>

definition extract_cpu_number_from_path :: "string \<Rightarrow> u32 option" where
  "extract_cpu_number_from_path path =
     (case find_str ''cpu/cpu'' path of
        None \<Rightarrow> None
      | Some pos \<Rightarrow>
          (let digits = takeWhile is_digit (drop (pos + 7) path) in
           if digits = [] then None else map_option to_u32 (parse_uint digits)))"

record Topology =
  topo_package :: "u32 option"
  topo_core :: "u32 option"

definition Topology_default :: Topology where
  "Topology_default = \<lparr>topo_package = None, topo_core = None\<rparr>"

definition topology_record :: "RawRecord \<Rightarrow> (u32, Topology) std_map \<Rightarrow> (u32, Topology) std_map" where
  "topology_record record topology =
     (let path = rec_path_or_command record in
      if rec_status record \<noteq> Success then topology
      else if \<not> suffix ''/topology/physical_package_id'' path \<and> \<not> suffix ''/topology/core_id'' path
      then topology
      else case (extract_cpu_number_from_path path, parse_small_uint (rec_payload record)) of
             (Some number, Some value) \<Rightarrow>
               map_update number Topology_default
                 (if suffix ''physical_package_id'' path then topo_package_update (\<lambda>_. Some value)
                  else topo_core_update (\<lambda>_. Some value)) topology
           | _ \<Rightarrow> topology)"

definition map_erase :: "'k \<Rightarrow> ('k, 'v) std_map \<Rightarrow> ('k, 'v) std_map" where
  "map_erase k m = filter (\<lambda>p. fst p \<noteq> k) m"

fun correct_entries ::
  "CpuInfoEntry list \<Rightarrow> (u32, Topology) std_map \<Rightarrow> CpuInfoEntry list \<times> (u32, Topology) std_map" where
  "correct_entries [] topology = ([], topology)"
| "correct_entries (entry # es) topology =
     (case map_of topology (ce_processor entry) of
        None \<Rightarrow> (let (es', t') = correct_entries es topology in (entry # es', t'))
      | Some found \<Rightarrow>
          (let entry1 = (case topo_package found of
                 None \<Rightarrow> entry | Some p \<Rightarrow> entry\<lparr>ce_physical_id := p\<rparr>);
               entry2 = (case topo_core found of
                 None \<Rightarrow> entry1 | Some c \<Rightarrow> entry1\<lparr>ce_core_id := c\<rparr>);
               (es', t') = correct_entries es (map_erase (ce_processor entry) topology)
           in (entry2 # es', t')))"

text \<open>Offline CPUs: what is left of the topology, with both package and core known.\<close>

definition offline_entry :: "u32 \<times> Topology \<Rightarrow> CpuInfoEntry option" where
  "offline_entry = (\<lambda>(number, item).
     case (topo_package item, topo_core item) of
       (Some p, Some c) \<Rightarrow>
         Some (CpuInfoEntry_default\<lparr>ce_processor := number, ce_physical_id := p, ce_core_id := c\<rparr>)
     | _ \<Rightarrow> None)"

definition apply_sysfs_topology :: "RawStore \<Rightarrow> CpuInfoEntry list \<Rightarrow> CpuInfoEntry list" where
  "apply_sysfs_topology raw entries =
     (let topology = fold topology_record (get_all raw SysfsCpu) [];
          (corrected, remaining) = correct_entries entries topology
      in corrected @ List.map_filter offline_entry remaining)"

section \<open>Entries\<close>

lemma finish_entry_warnings [simp]: "ci_warnings (finish_entry st) = ci_warnings st"
  by (simp add: finish_entry_def Let_def)

text \<open>What every recorded entry satisfies, and the entry being read once it has its number.\<close>

definition entry_ok :: "CpuInfoEntry \<Rightarrow> bool" where
  "entry_ok e \<longleftrightarrow> ce_processor_set e \<and> (\<not> ce_core_id_set e \<longrightarrow> ce_core_id e = ce_processor e) \<and>
     sorted_wrt (<) (ident_features (ce_identification e)) \<and>
     [] \<notin> set (ident_features (ce_identification e)) \<and>
     (ident_features (ce_identification e) \<noteq> [] \<longrightarrow> ident_features_reported (ce_identification e))"

definition features_ok :: "CpuIdentification \<Rightarrow> bool" where
  "features_ok i \<longleftrightarrow> sorted_wrt (<) (ident_features i) \<and> [] \<notin> set (ident_features i) \<and>
     (ident_features i \<noteq> [] \<longrightarrow> ident_features_reported i)"

lemma cpuinfo_features_ok:
  "sorted_wrt (<) (cpuinfo_features v) \<and> [] \<notin> set (cpuinfo_features v)"
  by (simp add: cpuinfo_features_def sorted_remdups_adj_strict)

lemma set_cpuinfo_features: "set (cpuinfo_features v) = set (split v (CHR '' '')) - {[]}"
  by (auto simp: cpuinfo_features_def)

lemma features_ok_default [simp]: "features_ok (ce_identification CpuInfoEntry_default)"
  by (simp add: features_ok_def CpuInfoEntry_default_def CpuIdentification_default_def)

lemma ident_fields_features:
  "map_of ident_fields key = Some member \<Longrightarrow>
   ident_features (member v i) = ident_features i \<and>
   ident_features_reported (member v i) = ident_features_reported i"
  by (auto simp: ident_fields_def split: if_splits)

lemma cpuinfo_field_features:
  "features_ok (ce_identification c) \<Longrightarrow> features_ok (ce_identification (fst (cpuinfo_field k v c w)))"
  using cpuinfo_features_ok [of v] ident_fields_features [of k]
  by (auto simp: cpuinfo_field_def features_ok_def split: option.splits)

definition cpuinfo_inv :: "CpuInfoState \<Rightarrow> bool" where
  "cpuinfo_inv st \<longleftrightarrow> list_all entry_ok (ci_entries st) \<and> features_ok (ce_identification (ci_current st))"

lemma cpuinfo_inv_finish: "cpuinfo_inv st \<Longrightarrow> cpuinfo_inv (finish_entry st)"
  by (auto simp: cpuinfo_inv_def finish_entry_def Let_def entry_ok_def features_ok_def
      CpuInfoEntry_default_def CpuIdentification_default_def)

lemma cpuinfo_inv_line: "cpuinfo_inv st \<Longrightarrow> cpuinfo_inv (cpuinfo_line line st)"
proof (cases "trim line = []")
  case True
  then show "cpuinfo_inv st \<Longrightarrow> ?thesis" by (simp add: cpuinfo_line_def cpuinfo_inv_finish)
next
  case False
  obtain k v where kv: "parse_kv (trim line) (CHR '':'') = (k, v)" by fastforce
  obtain c w where cw: "cpuinfo_field k v (ci_current st) (ci_warnings st) = (c, w)" by fastforce
  show "cpuinfo_inv st \<Longrightarrow> ?thesis"
    using cpuinfo_field_features [of "ci_current st" k v "ci_warnings st"]
    by (simp add: cpuinfo_line_def False kv cw cpuinfo_inv_def)
qed

text \<open>every entry read from \<open>/proc/cpuinfo\<close> has an explicit, valid processor number; without an
  explicit core id its core is the processor itself; and its feature names are strictly sorted,
  non-empty, and present only when the feature field was read.
\<close>

theorem cpuinfo_entries_ok: "list_all entry_ok (fst (parse_cpuinfo payload warnings))"
proof -
  let ?init = "\<lparr>ci_entries = [], ci_current = CpuInfoEntry_default, ci_has_entry = False,
      ci_warnings = warnings\<rparr>"
  have "cpuinfo_inv (fold cpuinfo_line (split payload (CHR 0x0A)) ?init)"
    by (rule fold_invariant_set) (simp_all add: cpuinfo_inv_line, simp add: cpuinfo_inv_def)
  then have "cpuinfo_inv (finish_entry (fold cpuinfo_line (split payload (CHR 0x0A)) ?init))"
    by (rule cpuinfo_inv_finish)
  then show ?thesis by (simp add: parse_cpuinfo_def cpuinfo_inv_def)
qed

section \<open>Topology\<close>

lemma length_correct_entries [simp]: "length (fst (correct_entries es t)) = length es"
  by (induction es t rule: correct_entries.induct) (auto split: option.splits prod.splits)

lemma correct_entries_processors:
  "map ce_processor (fst (correct_entries es t)) = map ce_processor es"
  by (induction es t rule: correct_entries.induct) (auto split: option.splits prod.splits)

lemma map_of_map_erase: "map_of (map_erase k m) = (map_of m)(k := None)"
  by (induction m) (auto simp: map_erase_def fun_eq_iff)

lemma correct_entries_rest:
  "map_of (snd (correct_entries es t)) k = (if k \<in> ce_processor ` set es then None else map_of t k)"
  by (induction es t rule: correct_entries.induct)
    (auto simp: map_of_map_erase split: option.splits prod.splits)

lemma map_invar_map_erase: "map_invar m \<Longrightarrow> map_invar (map_erase k m)"
  by (induction m) (auto simp: map_erase_def map_invar_def)

lemma correct_entries_invar: "map_invar t \<Longrightarrow> map_invar (snd (correct_entries es t))"
  by (induction es t rule: correct_entries.induct)
    (auto simp: map_invar_map_erase split: option.splits prod.splits)

lemma topology_invar: "map_invar (fold topology_record rs [])"
  by (rule fold_invariant_set) (auto simp: topology_record_def Let_def split: option.splits)

definition offline_entries :: "CpuInfoEntry list \<Rightarrow> RawStore \<Rightarrow> CpuInfoEntry list" where
  "offline_entries es raw = drop (length es) (apply_sysfs_topology raw es)"

text \<open>sysfs only corrects and extends: the entries of \<open>/proc/cpuinfo\<close> keep their order and
  processor numbers, and each CPU added behind them is one that \<open>/proc/cpuinfo\<close> does not list,
  added once, with no identification copied from another CPU.
\<close>

theorem sysfs_topology_extends:
  "let es' = apply_sysfs_topology raw es; added = offline_entries es raw in
     map ce_processor (take (length es) es') = map ce_processor es \<and>
     ce_processor ` set added \<inter> ce_processor ` set es = {} \<and>
     distinct (map ce_processor added) \<and>
     list_all (\<lambda>e. ce_identification e = CpuIdentification_default \<and> ce_flags e = [] \<and>
       ce_model_name e = [] \<and> ce_vendor_id e = []) added"
proof -
  let ?t = "fold topology_record (get_all raw SysfsCpu) []"
  obtain c r where cr: "correct_entries es ?t = (c, r)" by fastforce
  have len: "length c = length es" using length_correct_entries [of es ?t] cr by simp
  have app: "apply_sysfs_topology raw es = c @ List.map_filter offline_entry r"
    by (simp add: apply_sysfs_topology_def cr)
  then have add: "offline_entries es raw = List.map_filter offline_entry r"
    by (simp add: offline_entries_def len)
  have r: "map_invar r"
    using correct_entries_invar [where t = ?t and es = es] topology_invar cr by simp
  have keys: "ce_processor ` set (List.map_filter offline_entry r) \<subseteq> fst ` set r"
    by (force simp: List.map_filter_def offline_entry_def split: option.splits prod.splits)
  have "k \<notin> ce_processor ` set es" if "k \<in> fst ` set r" for k
    using correct_entries_rest [of es ?t k] that cr
    by (auto simp: map_of_eq_None_iff image_iff split: if_splits)
  then have "ce_processor ` set (List.map_filter offline_entry r) \<inter> ce_processor ` set es = {}"
    using keys by blast
  moreover have "distinct (map ce_processor (List.map_filter offline_entry r))"
    using map_invar_distinct [OF r] keys
  proof (induction r)
    case Nil
    then show ?case by (simp add: List.map_filter_def)
  next
    case (Cons p r)
    have "ce_processor ` set (List.map_filter offline_entry r) \<subseteq> fst ` set r"
      by (force simp: List.map_filter_def offline_entry_def split: option.splits prod.splits)
    moreover have "offline_entry p = Some e \<Longrightarrow> ce_processor e = fst p" for e
      by (auto simp: offline_entry_def split: option.splits prod.splits)
    ultimately show ?case using Cons
      by (cases "offline_entry p") (auto simp: List.map_filter_simps)
  qed
  moreover have "list_all (\<lambda>e. ce_identification e = CpuIdentification_default \<and> ce_flags e = [] \<and>
       ce_model_name e = [] \<and> ce_vendor_id e = []) (List.map_filter offline_entry r)"
    by (auto simp: List.map_filter_def offline_entry_def list_all_iff CpuInfoEntry_default_def
        split: option.splits prod.splits)
  moreover have "map ce_processor c = map ce_processor es"
    using correct_entries_processors [of es ?t] cr by simp
  ultimately show ?thesis
    by (simp add: Let_def app add len)
qed

end
