(* ===== verification/Cpu_Sysfs.thy ===== *)
theory Cpu_Sysfs
  imports Cpu_Info
begin

text \<open>
  The sysfs readers in the second half of \<open>src/parser/cpu.cpp\<close>: package frequencies, caches,
  the governor, thermal zones, and the mapping of CPUs to NUMA nodes with its bound on the number
  of CPUs.
\<close>

section \<open>Package frequencies\<close>

record FreqState =
  fr_base :: "u64 list"
  fr_max :: "Frequency option"

definition cpufreq_record :: "u32 list \<Rightarrow> RawRecord \<Rightarrow> FreqState \<Rightarrow> FreqState" where
  "cpufreq_record package_cpu_ids record st =
     (let path = rec_path_or_command record in
      if rec_status record \<noteq> Success then st
      else case extract_cpu_number_from_path path of
        None \<Rightarrow> st
      | Some cpu_num \<Rightarrow>
          if cpu_num \<notin> set package_cpu_ids then st
          else
            let hz = khz_to_hz (rec_payload record);
                st1 = (case hz of
                    Some f \<Rightarrow> if contains_str path ''base_frequency''
                      then st\<lparr>fr_base := set_put (unit_value f) (fr_base st)\<rparr> else st
                  | None \<Rightarrow> st)
            in (case hz of
                  Some f \<Rightarrow> if contains_str path ''cpuinfo_max_freq''
                    then st1\<lparr>fr_max := Some (ScalarUnit
                      (max (case fr_max st1 of Some m \<Rightarrow> unit_value m | None \<Rightarrow> 0) (unit_value f)))\<rparr>
                    else st1
                | None \<Rightarrow> st1))"

definition read_cpufreq :: "RawStore \<Rightarrow> u32 list \<Rightarrow> Frequency option \<times> Frequency option" where
  "read_cpufreq raw package_cpu_ids =
     (let st = fold (cpufreq_record package_cpu_ids) (get_all raw SysfsCpu)
            \<lparr>fr_base = [], fr_max = None\<rparr>
      in (case fr_base st of [f] \<Rightarrow> Some (ScalarUnit f) | _ \<Rightarrow> None, fr_max st))"

section \<open>Caches\<close>

definition size_multiplier :: "char \<Rightarrow> u64 option" where
  "size_multiplier c =
     (if c = CHR ''K'' \<or> c = CHR ''k'' then Some 1024
      else if c = CHR ''M'' \<or> c = CHR ''m'' then Some (1024 * 1024)
      else if c = CHR ''G'' \<or> c = CHR ''g'' then Some (1024 * 1024 * 1024)
      else None)"

definition parse_cache_size :: "string \<Rightarrow> u64 option" where
  "parse_cache_size s =
     (let trimmed = trim s in
      if trimmed = [] then None
      else
        let (number, multiplier) = (case size_multiplier (List.last trimmed) of
              Some m \<Rightarrow> (butlast trimmed, m) | None \<Rightarrow> (trimmed, 1))
        in case parse_uint number of
             None \<Rightarrow> None
           | Some v \<Rightarrow> if v > 18446744073709551615 div multiplier then None
               else Some (v * multiplier))"

definition parse_cache_type :: "string \<Rightarrow> CacheType" where
  "parse_cache_type s =
     (let t = trim s in
      if t = ''Data'' then Cache_Data
      else if t = ''Instruction'' then Cache_Instruction
      else if t = ''Unified'' then Cache_Unified
      else Cache_Other)"

definition digits_after :: "string \<Rightarrow> string \<Rightarrow> string option" where
  "digits_after pattern path =
     (case find_str pattern path of
        None \<Rightarrow> None
      | Some pos \<Rightarrow>
          (let digits = takeWhile is_digit (drop (pos + length pattern) path) in
           if digits = [] then None else Some digits))"

definition extract_cache_key :: "string \<Rightarrow> (u32 \<times> u32) option" where
  "extract_cache_key path =
     (case digits_after ''cpu/cpu'' path of
        None \<Rightarrow> None
      | Some cpu_str \<Rightarrow>
          (case digits_after ''/cache/index'' path of
             None \<Rightarrow> None
           | Some idx_str \<Rightarrow>
               (case (parse_uint cpu_str, parse_uint idx_str) of
                  (Some cpu, Some idx) \<Rightarrow> Some (to_u32 cpu, to_u32 idx)
                | _ \<Rightarrow> None)))"

text \<open>The attribute a cache file holds, by the \<open>else if\<close> chain over its path.\<close>

definition cache_field :: "string \<Rightarrow> string \<Rightarrow> CpuCache \<Rightarrow> CpuCache" where
  "cache_field path payload cache =
     (if suffix ''/shared_cpu_list'' path then
        (case parse_cpu_id_list payload of
           Some ids \<Rightarrow> cache\<lparr>cache_shared_cpus := ids\<rparr> | None \<Rightarrow> cache)
      else if suffix ''/id'' path \<or> suffix ''/number_of_sets'' path then
        (case parse_small_uint payload of
           Some number \<Rightarrow>
             if suffix ''/id'' path then cache\<lparr>cache_cache_id := Some number\<rparr>
             else cache\<lparr>cache_sets := Some number\<rparr>
         | None \<Rightarrow> cache)
      else if rfind_str ''/level'' path \<noteq> None then
        (case parse_uint payload of Some v \<Rightarrow> cache\<lparr>cache_level := to_u32 v\<rparr> | None \<Rightarrow> cache)
      else if rfind_str ''/type'' path \<noteq> None then cache\<lparr>cache_type := parse_cache_type payload\<rparr>
      else if rfind_str ''/size'' path \<noteq> None then
        (case parse_cache_size payload of
           Some v \<Rightarrow> cache\<lparr>cache_size := ScalarUnit v\<rparr> | None \<Rightarrow> cache)
      else if rfind_str ''ways_of_associativity'' path \<noteq> None then
        (case parse_uint payload of Some v \<Rightarrow> cache\<lparr>cache_ways := to_u32 v\<rparr> | None \<Rightarrow> cache)
      else if rfind_str ''coherency_line_size'' path \<noteq> None then
        (case parse_uint payload of Some v \<Rightarrow> cache\<lparr>cache_line_size := to_u32 v\<rparr> | None \<Rightarrow> cache)
      else cache)"

definition cache_record ::
  "RawRecord \<Rightarrow> (u32 \<times> u32, CpuCache) std_map \<Rightarrow> (u32 \<times> u32, CpuCache) std_map" where
  "cache_record record cache_map =
     (let path = rec_path_or_command record in
      if rec_status record \<noteq> Success then cache_map
      else case extract_cache_key path of
        None \<Rightarrow> cache_map
      | Some key \<Rightarrow>
          map_update key CpuCache_default
            (\<lambda>cache. let cache1 = cache\<lparr>cache_cpu_number := fst key\<rparr> in
               if \<not> contains_str path ''cache/index'' then cache1
               else cache_field path (rec_payload record) cache1) cache_map)"

text \<open>The lambda of \<open>find_if\<close>: \<open>cache\<close> is the same physical cache as \<open>other\<close>.\<close>

definition same_cache :: "CpuCache \<Rightarrow> CpuCache \<Rightarrow> bool" where
  "same_cache cache other \<longleftrightarrow>
     cache_shared_cpus cache \<noteq> [] \<and> cache_level cache = cache_level other \<and>
     cache_type cache = cache_type other \<and> cache_shared_cpus cache = cache_shared_cpus other \<and>
     cache_cache_id cache = cache_cache_id other \<and> cache_size cache = cache_size other \<and>
     cache_ways cache = cache_ways other \<and> cache_line_size cache = cache_line_size other \<and>
     cache_sets cache = cache_sets other"

definition add_cache :: "CpuCache \<Rightarrow> CpuCache list \<Rightarrow> CpuCache list" where
  "add_cache cache caches = (if list_ex (same_cache cache) caches then caches else caches @ [cache])"

definition cache_entries :: "RawStore \<Rightarrow> (u32 \<times> u32, CpuCache) std_map" where
  "cache_entries raw = fold cache_record (get_all raw SysfsCpu) []"

definition read_cpu_caches :: "RawStore \<Rightarrow> CpuCache list" where
  "read_cpu_caches raw = fold add_cache (map snd (cache_entries raw)) []"

section \<open>Governor and thermal zones\<close>

definition governor_record :: "RawRecord \<Rightarrow> string list \<Rightarrow> string list" where
  "governor_record record governors =
     (if rec_status record = Success \<and> suffix ''/scaling_governor'' (rec_path_or_command record)
      then let value = trim (rec_payload record) in
        if value \<noteq> [] then set_put value governors else governors
      else governors)"

definition read_cpu_governor :: "RawStore \<Rightarrow> string" where
  "read_cpu_governor raw =
     (case fold governor_record (get_all raw SysfsCpu) [] of
        [] \<Rightarrow> [] | [g] \<Rightarrow> g | _ \<Rightarrow> ''mixed'')"

record ThermalState =
  th_zones :: "(string, ThermalZone) std_map"
  th_measured :: "string list"

definition thermal_record :: "RawRecord \<Rightarrow> ThermalState \<Rightarrow> ThermalState" where
  "thermal_record record st =
     (let path = rec_path_or_command record; filename = path_filename path in
      if rec_status record \<noteq> Success then st
      else case rfind_str ''thermal_zone'' path of
        None \<Rightarrow> st
      | Some zone_start \<Rightarrow>
          let zone_name = first_component (drop zone_start path);
              named = st\<lparr>th_zones := map_update zone_name ThermalZone_default
                  (tz_name_update (\<lambda>_. zone_name)) (th_zones st)\<rparr>
          in if filename = ''type'' then
               named\<lparr>th_zones := map_update zone_name ThermalZone_default
                 (tz_type_update (\<lambda>_. trim (rec_payload record))) (th_zones named)\<rparr>
             else if filename = ''temp'' then
               (case parse_uint (rec_payload record) of
                  None \<Rightarrow> named
                | Some v \<Rightarrow> named\<lparr>th_zones := map_update zone_name ThermalZone_default
                      (tz_temp_update (\<lambda>_. ScalarUnit v)) (th_zones named),
                    th_measured := set_put zone_name (th_measured named)\<rparr>)
             else named)"

definition read_thermal_zones :: "RawStore \<Rightarrow> ThermalZone list" where
  "read_thermal_zones raw =
     (let st = fold thermal_record (get_all raw SysfsThermal) \<lparr>th_zones = [], th_measured = []\<rparr>
      in map snd (filter (\<lambda>(name, _). name \<in> set (th_measured st)) (th_zones st)))"

section \<open>NUMA nodes\<close>

definition max_numa_cpus :: nat where
  "max_numa_cpus = 1024"

text \<open>
  The loop over a CPU range, on 64-bit counters that wrap. Every pass either adds a CPU, of which
  there are fewer than \<^const>\<open>max_numa_cpus\<close>, or comes one step closer to a CPU that is not in the
  map yet.
\<close>

definition fresh_distance :: "u64 \<Rightarrow> (u32, u32) std_map \<Rightarrow> nat" where
  "fresh_distance cpu m = (LEAST d. to_u32 (cpu + word_of_nat d) \<notin> fst ` set m)"

lemma length_map_put:
  "length (map_put k v m) = Suc (length m) \<or> length (map_put k v m) = length m \<and> k \<in> fst ` set m"
  by (induction m rule: map_put.induct) auto

lemma fresh_cpu_exists:
  assumes "length m < max_numa_cpus"
  shows "\<exists>d. to_u32 (cpu + word_of_nat d) \<notin> fst ` set (m :: (u32, u32) std_map)"
proof -
  have "card (fst ` set m) \<le> length m"
    by (metis card_length length_map list.set_map)
  also have "\<dots> < card (UNIV :: u32 set)"
    using assms by (simp add: max_numa_cpus_def card_word)
  finally have "fst ` set m \<noteq> UNIV" by (metis less_irrefl)
  then obtain k where k: "k \<notin> fst ` set m" by blast
  have "to_u32 (cpu + word_of_nat (unat (from_u32 k - cpu))) = k" by simp
  with k show ?thesis by metis
qed

lemma fresh_distance_step:
  assumes "length m < max_numa_cpus" "to_u32 cpu \<in> fst ` set m" "fst ` set m' = fst ` set m"
  shows "fresh_distance (cpu + 1) m' < fresh_distance cpu m"
proof -
  let ?P = "\<lambda>d. to_u32 (cpu + word_of_nat d) \<notin> fst ` set m"
  obtain d where d: "fresh_distance cpu m = d" "?P d"
    using fresh_cpu_exists [OF assms(1), of cpu] LeastI_ex [of ?P] by (auto simp: fresh_distance_def)
  have "d \<noteq> 0" using d(2) assms(2) by (cases d) auto
  then obtain e where e: "d = Suc e" by (cases d) auto
  have "to_u32 (cpu + 1 + word_of_nat e) \<notin> fst ` set m'"
    using d(2) by (simp add: e assms(3) add.assoc)
  then have "fresh_distance (cpu + 1) m' \<le> e" unfolding fresh_distance_def by (rule Least_le)
  then show ?thesis by (simp add: d e)
qed

function numa_range :: "u64 \<Rightarrow> u64 \<Rightarrow> u32 \<Rightarrow> (u32, u32) std_map \<Rightarrow> (u32, u32) std_map" where
  "numa_range cpu last_cpu node m =
     (if cpu \<le> last_cpu \<and> length m < max_numa_cpus
      then numa_range (cpu + 1) last_cpu node (map_put (to_u32 cpu) node m) else m)"
  by pat_completeness auto

termination
proof (relation "measures [\<lambda>(c, l, n, m). max_numa_cpus - length m, \<lambda>(c, l, n, m). fresh_distance c m]",
    goal_cases)
  case 1
  show ?case by simp
next
  case (2 cpu last_cpu node m)
  then show ?case
    using length_map_put [of "to_u32 cpu" node m]
      fresh_distance_step [of m cpu "map_put (to_u32 cpu) node m"]
    by (auto simp: insert_absorb)
qed

declare numa_range.simps [simp del]

text \<open>The last key of the map is \<open>rbegin()\<close>; the map has \<open>MAX_CPUS\<close> entries where it is read.\<close>

fun numa_parts :: "string list \<Rightarrow> u32 \<Rightarrow> (u32, u32) std_map \<Rightarrow> (u32, u32) std_map" where
  "numa_parts [] node m = m"
| "numa_parts (part # ps) node m =
     (let trimmed = trim part in
      case find_char (CHR ''-'') trimmed of
        Some dash_pos \<Rightarrow>
          (case (parse_uint (take dash_pos trimmed), parse_uint (drop (dash_pos + 1) trimmed)) of
             (Some first_cpu, Some last_cpu) \<Rightarrow>
               (let m' = numa_range first_cpu last_cpu node m in
                if length m' \<ge> max_numa_cpus \<and> last_cpu > from_u32 (fst (List.last m')) then m'
                else numa_parts ps node m')
           | _ \<Rightarrow> numa_parts ps node m)
      | None \<Rightarrow>
          (case parse_uint trimmed of
             Some cpu \<Rightarrow>
               if length m \<ge> max_numa_cpus then m
               else numa_parts ps node (map_put (to_u32 cpu) node m)
           | None \<Rightarrow> numa_parts ps node m))"

definition numa_node_of_path :: "string \<Rightarrow> u32 option" where
  "numa_node_of_path path =
     (if \<not> contains_str path ''cpulist'' then None
      else case find_str ''node/node'' path of
        None \<Rightarrow> None
      | Some pos \<Rightarrow>
          (let after = drop (pos + 9) path in
           case find_char (CHR ''/'') after of
             None \<Rightarrow> None
           | Some slash_pos \<Rightarrow> map_option to_u32 (parse_uint (take slash_pos after))))"

definition numa_record :: "RawRecord \<Rightarrow> (u32, u32) std_map \<Rightarrow> (u32, u32) std_map" where
  "numa_record record cpu_to_numa =
     (if rec_status record \<noteq> Success then cpu_to_numa
      else case numa_node_of_path (rec_path_or_command record) of
        None \<Rightarrow> cpu_to_numa
      | Some numa_node \<Rightarrow> numa_parts (split (rec_payload record) (CHR '','')) numa_node cpu_to_numa)"

definition build_numa_mapping :: "RawStore \<Rightarrow> (u32, u32) std_map" where
  "build_numa_mapping raw = fold numa_record (get_all raw SysfsNuma) []"

definition node_cpus :: "(u32, u32) std_map \<Rightarrow> (u32, LogicalCpuId list) std_map" where
  "node_cpus cpu_to_numa =
     fold (\<lambda>(cpu, node). map_update node [] (\<lambda>cpus. cpus @ [StrongId cpu])) cpu_to_numa []"

definition build_numa_nodes :: "(u32, u32) std_map \<Rightarrow> NumaNode list" where
  "build_numa_nodes cpu_to_numa =
     map (\<lambda>(node_id, cpus). \<lparr>nn_id = StrongId node_id, nn_cpus = cpus\<rparr>) (node_cpus cpu_to_numa)"

section \<open>Cache sizes\<close>

text \<open>A size text: a decimal number, in bytes or with a binary unit letter behind it.\<close>

definition size_text :: "string \<Rightarrow> nat \<Rightarrow> nat \<Rightarrow> bool" where
  "size_text s n m \<longleftrightarrow> trim s \<noteq> [] \<and>
     (case size_multiplier (List.last (trim s)) of
        Some u \<Rightarrow> number_text 10 (butlast (trim s)) n \<and> m = unat u
      | None \<Rightarrow> number_text 10 (trim s) n \<and> m = 1)"

lemma mult_no_overflow:
  assumes "(m :: u64) > 0"
  shows "\<not> v > 18446744073709551615 div m \<longleftrightarrow> unat v * unat m < 2 ^ 64"
proof -
  have m: "unat m > 0" using assms by (simp add: word_less_nat_alt)
  have "v \<le> 18446744073709551615 div m \<longleftrightarrow> unat v \<le> 18446744073709551615 div unat m"
    by (simp add: word_le_nat_alt unat_div)
  also have "\<dots> \<longleftrightarrow> unat v * unat m \<le> 18446744073709551615"
    using m by (rule less_eq_div_iff_mult_less_eq)
  finally show ?thesis by (simp add: not_less less_Suc_eq_le [of _ 18446744073709551615, symmetric])
qed

lemma unat_mult_exact: "unat (v :: u64) * unat m < 2 ^ 64 \<Longrightarrow> unat (v * m) = unat v * unat m"
  by (simp add: unat_word_ariths)

lemma size_multiplier_positive: "size_multiplier c = Some m \<Longrightarrow> m > 0"
  by (auto simp: size_multiplier_def word_less_nat_alt split: if_splits)

lemma scaled_number:
  assumes "(m :: u64) > 0"
  shows "(case parse_uint s of None \<Rightarrow> None
       | Some v \<Rightarrow> if v > 18446744073709551615 div m then None else Some (v * m)) = Some r \<longleftrightarrow>
     (\<exists>n. number_text 10 s n \<and> n * unat m < 2 ^ 64 \<and> unat r = n * unat m)"
    (is "?l \<longleftrightarrow> ?r")
proof
  assume ?l
  then show ?r
    using mult_no_overflow [OF assms] unat_mult_exact [of _ m]
    by (auto simp: parse_uint_Some_iff simp del: power_numeral split: option.splits if_splits)
next
  assume ?r
  then obtain n where n: "number_text 10 s n" "n * unat m < 2 ^ 64" "unat r = n * unat m" by blast
  have "1 \<le> unat m" using assms by (simp add: word_less_nat_alt Suc_le_eq)
  then have "n * 1 \<le> n * unat m" by (rule mult_le_mono2)
  then have lt: "n < 2 ^ 64" using n(2) by linarith
  let ?v = "word_of_nat n :: u64"
  have v: "unat ?v = n" by (rule unat_of_nat_u64 [OF lt])
  have p: "parse_uint s = Some ?v" using n(1) by (simp add: parse_uint_Some_iff v)
  have "unat r = unat (?v * m)" using unat_mult_exact [of ?v m] n by (simp add: v)
  then have "r = ?v * m" by (simp add: word_unat_eq_iff)
  with p show ?l using mult_no_overflow [OF assms, of ?v] n(2) by (simp add: v)
qed

text \<open>a cache size is accepted exactly when it is a decimal number with an optional unit letter
  and the product fits in 64 bits, and then the result is that product with no wrap-around.
\<close>

theorem parse_cache_size_exact:
  "parse_cache_size s = Some v \<longleftrightarrow> (\<exists>n m. size_text s n m \<and> n * m < 2 ^ 64 \<and> unat v = n * m)"
proof (cases "trim s = []")
  case True
  then show ?thesis by (simp add: parse_cache_size_def size_text_def)
next
  case False
  show ?thesis
  proof (cases "size_multiplier (List.last (trim s))")
    case None
    then show ?thesis
      using False scaled_number [of 1 "trim s" v]
      by (simp add: parse_cache_size_def size_text_def Let_def)
  next
    case (Some u)
    then show ?thesis
      using False scaled_number [OF size_multiplier_positive [OF Some], of "butlast (trim s)" v]
      by (simp add: parse_cache_size_def size_text_def Let_def)
  qed
qed

section \<open>Caches\<close>

definition caches_represent :: "CpuCache list \<Rightarrow> CpuCache list \<Rightarrow> bool" where
  "caches_represent seen caches \<longleftrightarrow>
     list_all (\<lambda>c. c \<in> set caches \<or> list_ex (same_cache c) caches) seen \<and> set caches \<subseteq> set seen \<and>
     sorted_wrt (\<lambda>c d. \<not> same_cache d c) caches"

lemma caches_represent_add:
  "caches_represent seen caches \<Longrightarrow> caches_represent (seen @ [c]) (add_cache c caches)"
  by (auto simp: caches_represent_def add_cache_def sorted_wrt_append list_all_iff list_ex_iff)

lemma caches_represent_fold:
  "caches_represent seen caches \<Longrightarrow> caches_represent (seen @ cs) (fold add_cache cs caches)"
proof (induction cs arbitrary: seen caches)
  case Nil
  then show ?case by simp
next
  case (Cons c cs)
  then show ?case
    using Cons.IH [OF caches_represent_add [OF Cons.prems, of c]] by simp
qed

text \<open>the cache list holds each physical cache once: every per-CPU entry that sysfs reports is in
  the list or is the same cache as one in it, nothing else is in it, and no two of its caches
  with known sharers agree on all attributes.
\<close>

theorem read_cpu_caches_unique:
  "let entries = map snd (cache_entries raw); caches = read_cpu_caches raw in
     list_all (\<lambda>c. c \<in> set caches \<or> list_ex (same_cache c) caches) entries \<and>
     set caches \<subseteq> set entries \<and> sorted_wrt (\<lambda>c d. \<not> same_cache d c) caches"
  using caches_represent_fold [of "[]" "[]" "map snd (cache_entries raw)"]
  by (simp add: caches_represent_def read_cpu_caches_def Let_def)

section \<open>The NUMA mapping\<close>

lemma map_invar_numa_range: "map_invar m \<Longrightarrow> map_invar (numa_range cpu last_cpu node m)"
proof (induction cpu last_cpu node m rule: numa_range.induct)
  case (1 cpu last_cpu node m)
  then show ?case by (subst numa_range.simps) (auto intro: map_invar_put)
qed

lemma length_numa_range:
  "length m \<le> max_numa_cpus \<Longrightarrow> length (numa_range cpu last_cpu node m) \<le> max_numa_cpus"
proof (induction cpu last_cpu node m rule: numa_range.induct)
  case (1 cpu last_cpu node m)
  then show ?case
    using length_map_put [of "to_u32 cpu" node m] by (subst numa_range.simps) auto
qed

text \<open>a CPU range that fits under the limit is read exactly: its CPUs belong to the node and the
  others keep theirs.
\<close>

theorem numa_range_exact:
  "map_invar m \<Longrightarrow> last_cpu \<le> u32_max \<Longrightarrow>
   length m + (Suc (unat last_cpu) - unat first_cpu) \<le> max_numa_cpus \<Longrightarrow>
   map_of (numa_range first_cpu last_cpu node m) k =
     (if unat first_cpu \<le> unat k \<and> unat k \<le> unat last_cpu then Some node else map_of m k)"
proof (induction first_cpu last_cpu node m rule: numa_range.induct)
  case (1 cpu last_cpu node m)
  show ?case
  proof (cases "cpu \<le> last_cpu")
    case False
    then show ?thesis by (subst numa_range.simps) (auto simp: word_le_nat_alt)
  next
    case True
    have le: "unat cpu \<le> unat last_cpu" "unat last_cpu \<le> 4294967295"
      using True 1(3) by (simp_all add: word_le_nat_alt)
    then have lt: "length m < max_numa_cpus" using 1(4) by linarith
    have succ: "unat (cpu + 1) = Suc (unat cpu)"
      using le by (simp add: unat_word_ariths)
    have len: "length (map_put (to_u32 cpu) node m) \<le> Suc (length m)"
      by (rule map_size_put [OF 1(2)])
    have small: "unat (to_u32 cpu) = unat cpu" using le by (simp add: unat_to_u32)
    have "map_of (numa_range (cpu + 1) last_cpu node (map_put (to_u32 cpu) node m)) k =
        (if Suc (unat cpu) \<le> unat k \<and> unat k \<le> unat last_cpu then Some node
         else map_of (map_put (to_u32 cpu) node m) k)"
      using 1(1) [OF conjI [OF True lt] map_invar_put [OF 1(2)] 1(3)] len 1(4) le
      by (simp add: succ)
    then show ?thesis
      using True lt le small
      by (subst numa_range.simps) (auto simp: map_of_put [OF 1(2)] word_unat_eq_iff)
  qed
qed

theorem numa_range_exact_witness:
  "map_of (numa_range 2 4 7 [(1, 0)]) (3 :: u32) = Some 7 \<and>
   map_of (numa_range 2 4 7 [(1, 0)]) (1 :: u32) = Some (0 :: u32)"
  using numa_range_exact [of "[(1, 0)]" 4 2 7 3] numa_range_exact [of "[(1, 0)]" 4 2 7 1]
  by (simp add: map_invar_def max_numa_cpus_def word_le_nat_alt)

definition numa_inv :: "(u32, u32) std_map \<Rightarrow> bool" where
  "numa_inv m \<longleftrightarrow> map_invar m \<and> length m \<le> max_numa_cpus"

lemma numa_inv_range: "numa_inv m \<Longrightarrow> numa_inv (numa_range a b node m)"
  by (simp add: numa_inv_def map_invar_numa_range length_numa_range)

lemma numa_inv_put: "numa_inv m \<Longrightarrow> length m < max_numa_cpus \<Longrightarrow> numa_inv (map_put c node m)"
  using map_size_put [of m c node] by (auto simp: numa_inv_def)

lemma numa_inv_parts: "numa_inv m \<Longrightarrow> numa_inv (numa_parts ps node m)"
  by (induction ps node m rule: numa_parts.induct)
    (auto simp: Let_def numa_inv_range numa_inv_put split: option.split)

lemma numa_mapping_invar: "numa_inv (build_numa_mapping raw)"
  unfolding build_numa_mapping_def
  by (rule fold_invariant_set)
    (auto simp: numa_inv_def [of "[]"] numa_record_def numa_inv_parts split: option.split)

text \<open>the CPU to NUMA node mapping is a map of at most 1024 CPUs, whatever the cpulist files hold.
\<close>

theorem numa_mapping_bounded:
  "map_invar (build_numa_mapping raw) \<and> length (build_numa_mapping raw) \<le> 1024"
  using numa_mapping_invar [of raw] by (simp add: numa_inv_def max_numa_cpus_def)

text \<open>An upper end of \<open>UINT64_MAX\<close> never stops the loop before the limit does.\<close>

lemma numa_range_saturates:
  "length m \<le> max_numa_cpus \<Longrightarrow>
   length (numa_range cpu 18446744073709551615 node m) = max_numa_cpus"
proof (induction cpu "18446744073709551615 :: u64" node m rule: numa_range.induct)
  case (1 cpu node m)
  have "cpu \<le> 18446744073709551615" 
    using unsigned_less [of cpu, where ?'a = nat] by (simp add: word_le_nat_alt)
  with 1 show ?case
    using length_map_put [of "to_u32 cpu" node m] by (subst numa_range.simps) auto
qed

section \<open>The NUMA nodes\<close>

definition nodes_of :: "(u32, u32) std_map \<Rightarrow> (u32, LogicalCpuId list) std_map \<Rightarrow> bool" where
  "nodes_of m nodes \<longleftrightarrow> map_invar nodes \<and>
     (\<forall>n. map_of nodes n = (let cs = map (StrongId \<circ> fst) (filter (\<lambda>p. snd p = n) m)
        in if cs = [] then None else Some cs))"

lemma nodes_of_step:
  "nodes_of m nodes \<Longrightarrow>
   nodes_of (m @ [(cpu, node)]) (map_update node [] (\<lambda>cpus. cpus @ [StrongId cpu]) nodes)"
  by (auto simp: nodes_of_def map_of_update Let_def split: option.splits)

lemma nodes_of_fold:
  "nodes_of m nodes \<Longrightarrow>
   nodes_of (m @ ps) (fold (\<lambda>(cpu, node). map_update node [] (\<lambda>cpus. cpus @ [StrongId cpu])) ps nodes)"
proof (induction ps arbitrary: m nodes)
  case Nil
  then show ?case by simp
next
  case (Cons p ps)
  obtain cpu node where p: "p = (cpu, node)" by fastforce
  show ?case using Cons.IH [OF nodes_of_step [OF Cons.prems, of cpu node]] by (simp add: p)
qed

lemma node_cpus_nodes_of: "nodes_of m (node_cpus m)"
  unfolding node_cpus_def
  using nodes_of_fold [of "[]" "[]" m] by (simp add: nodes_of_def)

lemma build_numa_nodes_ids: "map (id_value \<circ> nn_id) (build_numa_nodes m) = map fst (node_cpus m)"
  by (auto simp: build_numa_nodes_def)

lemma build_numa_nodes_cpus:
  "nd \<in> set (build_numa_nodes m) \<Longrightarrow>
   nn_cpus nd = map (StrongId \<circ> fst) (filter (\<lambda>p. snd p = id_value (nn_id nd)) m) \<and> nn_cpus nd \<noteq> []"
proof -
  assume "nd \<in> set (build_numa_nodes m)"
  then obtain n cs where n: "(n, cs) \<in> set (node_cpus m)" "nd = \<lparr>nn_id = StrongId n, nn_cpus = cs\<rparr>"
    by (auto simp: build_numa_nodes_def)
  have inv: "nodes_of m (node_cpus m)" by (rule node_cpus_nodes_of)
  then have "map_of (node_cpus m) n = Some cs"
    using n(1) map_invar_lookup [of "node_cpus m" n cs] by (simp add: nodes_of_def)
  with inv show ?thesis by (auto simp: nodes_of_def n(2) Let_def split: if_splits)
qed

lemma numa_node_ex:
  "(cpu, n) \<in> set m \<Longrightarrow> \<exists>nd \<in> set (build_numa_nodes m). nn_id nd = StrongId n \<and> StrongId cpu \<in> set (nn_cpus nd)"
proof -
  assume m: "(cpu, n) \<in> set m"
  let ?cs = "map (StrongId \<circ> fst) (filter (\<lambda>p. snd p = n) m)"
  have "?cs \<noteq> []" using m by (force simp: filter_empty_conv)
  then have "map_of (node_cpus m) n = Some ?cs"
    using node_cpus_nodes_of [of m] by (auto simp: nodes_of_def Let_def)
  then have "(n, ?cs) \<in> set (node_cpus m)" by (rule map_of_SomeD)
  then have "\<lparr>nn_id = StrongId n, nn_cpus = ?cs\<rparr> \<in> set (build_numa_nodes m)"
    by (force simp: build_numa_nodes_def)
  moreover have "StrongId cpu \<in> set ?cs" using m by force
  ultimately show ?thesis by (metis NumaNode.select_convs(1,2))
qed

lemma numa_nodes_listed:
  assumes "map_invar m"
  shows "map_of m cpu = Some n \<longleftrightarrow>
    (\<exists>cpus. \<lparr>nn_id = StrongId n, nn_cpus = cpus\<rparr> \<in> set (build_numa_nodes m) \<and> StrongId cpu \<in> set cpus)"
proof
  assume "map_of m cpu = Some n"
  then have "(cpu, n) \<in> set m" by (rule map_of_SomeD)
  from numa_node_ex [OF this]
  show "\<exists>cpus. \<lparr>nn_id = StrongId n, nn_cpus = cpus\<rparr> \<in> set (build_numa_nodes m) \<and> StrongId cpu \<in> set cpus"
    by (metis NumaNode.cases NumaNode.select_convs(1,2))
next
  assume "\<exists>cpus. \<lparr>nn_id = StrongId n, nn_cpus = cpus\<rparr> \<in> set (build_numa_nodes m) \<and> StrongId cpu \<in> set cpus"
  then show "map_of m cpu = Some n"
    using build_numa_nodes_cpus map_invar_lookup [OF assms] by fastforce
qed

text \<open>the NUMA nodes partition the mapped CPUs: node ids are strictly increasing, no node is empty,
  and a CPU is listed by a node exactly when the mapping sends it there.
\<close>

theorem numa_nodes_partition:
  "let m = build_numa_mapping raw; nodes = build_numa_nodes m in
     sorted_wrt (<) (map (id_value \<circ> nn_id) nodes) \<and>
     list_all (\<lambda>nd. nn_cpus nd \<noteq> []) nodes \<and>
     (\<forall>cpu n. map_of m cpu = Some n \<longleftrightarrow>
        (\<exists>cpus. \<lparr>nn_id = StrongId n, nn_cpus = cpus\<rparr> \<in> set nodes \<and> StrongId cpu \<in> set cpus))"
proof -
  let ?m = "build_numa_mapping raw"
  have inv: "map_invar ?m" using numa_mapping_invar by (simp add: numa_inv_def)
  have srt: "sorted_wrt (<) (map (id_value \<circ> nn_id) (build_numa_nodes ?m))"
    using node_cpus_nodes_of [of ?m] by (simp add: build_numa_nodes_ids nodes_of_def map_invar_def)
  have ne: "list_all (\<lambda>nd. nn_cpus nd \<noteq> []) (build_numa_nodes ?m)"
    unfolding list_all_iff using build_numa_nodes_cpus by blast
  from srt ne numa_nodes_listed [OF inv] show ?thesis by (simp add: Let_def)
qed

section \<open>The governor\<close>

definition governors :: "RawStore \<Rightarrow> string set" where
  "governors raw = {g. g \<noteq> [] \<and> (\<exists>r \<in> set (get_all raw SysfsCpu). rec_status r = Success \<and>
     suffix ''/scaling_governor'' (rec_path_or_command r) \<and> g = trim (rec_payload r))}"

lemma fold_governor_record:
  "sorted_wrt (<) gs \<Longrightarrow> sorted_wrt (<) (fold governor_record rs gs) \<and>
   set (fold governor_record rs gs) = set gs \<union> {g. g \<noteq> [] \<and> (\<exists>r \<in> set rs. rec_status r = Success \<and>
     suffix ''/scaling_governor'' (rec_path_or_command r) \<and> g = trim (rec_payload r))}"
proof (induction rs arbitrary: gs)
  case Nil
  then show ?case by simp
next
  case (Cons r rs)
  have "sorted_wrt (<) (governor_record r gs)"
    using Cons.prems by (simp add: governor_record_def Let_def sorted_set_put)
  from Cons.IH [OF this] show ?case by (auto simp: governor_record_def Let_def)
qed

text \<open>
  the governor is empty when no CPU reports one, the common one when all agree, and
  \<open>mixed\<close> when they differ.
\<close>

theorem read_cpu_governor_spec:
  "read_cpu_governor raw =
     (if governors raw = {} then [] else if card (governors raw) = 1 then the_elem (governors raw)
      else ''mixed'')"
proof -
  let ?gs = "fold governor_record (get_all raw SysfsCpu) []"
  have gs: "sorted_wrt (<) ?gs" "governors raw = set ?gs"
    using fold_governor_record [of "[]" "get_all raw SysfsCpu"] by (auto simp: governors_def)
  have d: "distinct ?gs" using gs(1) strict_sorted_iff by blast
  show ?thesis
    unfolding read_cpu_governor_def gs(2)
    using d by (auto split: list.split)
qed

end
