(* ===== verification/Resource.thy ===== *)
theory Resource
  imports Raw_Store
begin

text \<open>
  \<open>src/model/resource.cpp\<close>: the lookups and filters of \<open>Cpu\<close>, \<open>Accelerators\<close>, \<open>Network\<close> and
  \<open>Pci\<close>. A lookup returns the first match or \<^const>\<open>None\<close> for the null pointer; a filter keeps
  the order of the snapshot.
\<close>

section \<open>Definitions\<close>

definition find_by_member :: "'e list \<Rightarrow> ('e \<Rightarrow> 'k) \<Rightarrow> 'k \<Rightarrow> 'e option" where
  "find_by_member items member key = find (\<lambda>item. member item = key) items"

definition filter_by :: "'e list \<Rightarrow> ('e \<Rightarrow> bool) \<Rightarrow> 'e list" where
  "filter_by items pred = filter pred items"

definition find_package :: "Cpu \<Rightarrow> CpuPackageId \<Rightarrow> CpuPackage option" where
  "find_package cpu i = find_by_member (cpu_packages cpu) pkg_id i"

definition find_core :: "Cpu \<Rightarrow> CpuCoreId \<Rightarrow> CpuCore option" where
  "find_core cpu i = find_by_member (cpu_cores cpu) core_id i"

definition find_logical_cpu :: "Cpu \<Rightarrow> LogicalCpuId \<Rightarrow> LogicalCpu option" where
  "find_logical_cpu cpu i = find_by_member (cpu_logical_cpus cpu) lc_id i"

definition logical_cpus_of_package :: "Cpu \<Rightarrow> CpuPackageId \<Rightarrow> LogicalCpu list" where
  "logical_cpus_of_package cpu i = filter_by (cpu_logical_cpus cpu) (\<lambda>c. lc_package_id c = i)"

definition logical_cpus_of_core :: "Cpu \<Rightarrow> CpuCoreId \<Rightarrow> LogicalCpu list" where
  "logical_cpus_of_core cpu i = filter_by (cpu_logical_cpus cpu) (\<lambda>c. lc_core_id c = i)"

definition cores_of_package :: "Cpu \<Rightarrow> CpuPackageId \<Rightarrow> CpuCore list" where
  "cores_of_package cpu i = filter_by (cpu_cores cpu) (\<lambda>c. core_package_id c = i)"

definition visible_logical_cpus :: "Cpu \<Rightarrow> LogicalCpu list" where
  "visible_logical_cpus cpu =
     filter_by (cpu_logical_cpus cpu) (\<lambda>c. lc_visible_to_current_process c = Some True)"

definition by_kind :: "Accelerators \<Rightarrow> AcceleratorKind \<Rightarrow> AcceleratorDevice list" where
  "by_kind accs kind = filter (\<lambda>dev. acc_kind dev = kind) (acc_devices accs)"

definition gpus :: "Accelerators \<Rightarrow> AcceleratorDevice list" where
  "gpus accs = by_kind accs Acc_Gpu"

definition npus :: "Accelerators \<Rightarrow> AcceleratorDevice list" where
  "npus accs = by_kind accs Acc_Npu"

definition fpgas :: "Accelerators \<Rightarrow> AcceleratorDevice list" where
  "fpgas accs = by_kind accs Acc_Fpga"

definition accelerators_visible :: "Accelerators \<Rightarrow> AcceleratorDevice list" where
  "accelerators_visible accs = filter_by (acc_devices accs) acc_visible_to_current_process"

definition accelerators_find :: "Accelerators \<Rightarrow> AcceleratorId \<Rightarrow> AcceleratorDevice option" where
  "accelerators_find accs i = find_by_member (acc_devices accs) acc_id i"

definition network_visible :: "Network \<Rightarrow> NetworkInterface list" where
  "network_visible net = filter_by (net_interfaces net) if_visible_to_current_process"

definition network_find :: "Network \<Rightarrow> InterfaceName \<Rightarrow> NetworkInterface option" where
  "network_find net name = find_by_member (net_interfaces net) if_name name"

definition pci_find :: "Pci \<Rightarrow> PciAddress \<Rightarrow> PciDevice option" where
  "pci_find pci addr = find_by_member (pci_devices pci) pd_address addr"

section \<open>Lookups\<close>

lemma find_by_member_Some:
  "find_by_member items member key = Some x \<Longrightarrow> x \<in> set items \<and> member x = key"
  by (auto simp: find_by_member_def find_Some_iff)

lemma find_by_member_None_iff:
  "find_by_member items member key = None \<longleftrightarrow> key \<notin> member ` set items"
  by (auto simp: find_by_member_def find_None_iff)

lemma find_by_member_distinct:
  "distinct (map member items) \<Longrightarrow> x \<in> set items \<Longrightarrow> find_by_member items member (member x) = Some x"
  by (induction items) (auto simp: find_by_member_def)

lemma pci_find_Some: "pci_find pci a = Some d \<Longrightarrow> d \<in> set (pci_devices pci) \<and> pd_address d = a"
  unfolding pci_find_def by (rule find_by_member_Some)

lemma pci_find_Nil [simp]: "pci_find \<lparr>pci_devices = []\<rparr> a = None"
  by (simp add: pci_find_def find_by_member_def)

end
