(* ===== verification/Cpu_Parser.thy ===== *)
theory Cpu_Parser
  imports Cpu_Sysfs Resource
begin

text \<open>
  \<open>parse_cpu\<close> of \<open>src/parser/cpu.cpp\<close>: from the entries of \<open>/proc/cpuinfo\<close> and the sysfs
  records to the CPU model. The model is assembled in the stages of the source: numbering of
  packages and cores, logical CPUs, counts, frequencies, NUMA nodes, details. The theorems say that
  the result is well formed, that it groups the CPUs the way the kernel does, and that its
  cross-checks never fire.
\<close>

section \<open>Packages, cores and logical CPUs\<close>

text \<open>Sequential ids for the keys of a \<open>std::set\<close>, in its order.\<close>

primrec number_from :: "u32 \<Rightarrow> 'k list \<Rightarrow> ('k \<times> (u32, 't) strong_id) list" where
  "number_from seq [] = []"
| "number_from seq (k # ks) = (k, StrongId seq) # number_from (seq + 1) ks"

definition id_map :: "'k::linorder list \<Rightarrow> ('k, (u32, 't) strong_id) std_map" where
  "id_map ks = fold (\<lambda>(k, i). map_put k i) (number_from 0 ks) []"

definition package_ids :: "CpuInfoEntry list \<Rightarrow> u32 list" where
  "package_ids entries = set_of (map ce_physical_id entries)"

definition core_key :: "CpuInfoEntry \<Rightarrow> u32 \<times> u32" where
  "core_key e = (ce_physical_id e, ce_core_id e)"

definition core_keys :: "CpuInfoEntry list \<Rightarrow> (u32 \<times> u32) list" where
  "core_keys entries = set_of (map core_key entries)"

definition new_package :: "CpuInfoEntry list \<Rightarrow> u32 \<times> CpuPackageId \<Rightarrow> CpuPackage" where
  "new_package entries = (\<lambda>(pid, i).
     let pkg = CpuPackage_default\<lparr>pkg_id := i\<rparr> in
     case find (\<lambda>e. ce_physical_id e = pid) entries of
       Some e \<Rightarrow> pkg\<lparr>pkg_model_name := NamedString (ce_model_name e),
                     pkg_vendor := NamedString (ce_vendor_id e)\<rparr>
     | None \<Rightarrow> pkg)"

text \<open>Every first component of a core key is a package, so \<open>operator[]\<close> always finds it.\<close>

definition new_core ::
  "(u32, CpuPackageId) std_map \<Rightarrow> (u32 \<times> u32) \<times> CpuCoreId \<Rightarrow> CpuCore" where
  "new_core package_id_map = (\<lambda>(key, i).
     CpuCore_default\<lparr>core_id := i,
       core_package_id := (case map_of package_id_map (fst key) of
         Some p \<Rightarrow> p | None \<Rightarrow> StrongId 0)\<rparr>)"

definition missing_core :: "CpuInfoEntry \<Rightarrow> string" where
  "missing_core e =
     ''parse_cpu: '' @ bytes [233, 128, 187, 232, 190, 145] @ '' CPU '' @ to_string (ce_processor e) @
     '' '' @ bytes [231, 154, 132] @ '' (physical_id='' @ to_string (ce_physical_id e) @
     '', core_id='' @ to_string (ce_core_id e) @ '') '' @
     bytes [230, 156, 170, 230, 137, 190, 229, 136, 176, 229, 140, 185, 233, 133, 141, 230, 160, 184]"

definition missing_package :: "CpuInfoEntry \<Rightarrow> string" where
  "missing_package e =
     ''parse_cpu: '' @ bytes [233, 128, 187, 232, 190, 145] @ '' CPU '' @ to_string (ce_processor e) @
     '' '' @ bytes [231, 154, 132] @ '' physical_id='' @ to_string (ce_physical_id e) @ '' '' @
     bytes [230, 156, 170, 230, 137, 190, 229, 136, 176, 229, 140, 185, 233, 133, 141, 229, 176, 129,
       232, 163, 133]"

fun build_logical ::
  "(u32 \<times> u32, CpuCoreId) std_map \<Rightarrow> (u32, CpuPackageId) std_map \<Rightarrow> CpuInfoEntry list \<Rightarrow>
   LogicalCpu list \<Rightarrow> string list \<Rightarrow> LogicalCpu list \<times> string list" where
  "build_logical cores packages [] cpus warnings = (cpus, warnings)"
| "build_logical cores packages (e # es) cpus warnings =
     (case map_of cores (core_key e) of
        None \<Rightarrow> build_logical cores packages es cpus (warnings @ [missing_core e])
      | Some c \<Rightarrow>
          (case map_of packages (ce_physical_id e) of
             None \<Rightarrow> build_logical cores packages es cpus (warnings @ [missing_package e])
           | Some p \<Rightarrow>
               build_logical cores packages es
                 (cpus @ [LogicalCpu_default\<lparr>lc_id := StrongId (ce_processor e), lc_core_id := c,
                    lc_package_id := p, lc_visible_to_current_process := Some True,
                    lc_identification := ce_identification e\<rparr>]) warnings))"

definition cpu_skeleton :: "CpuInfoEntry list \<Rightarrow> string list \<Rightarrow> Cpu \<times> string list" where
  "cpu_skeleton entries warnings =
     (let pids = package_ids entries; keys = core_keys entries;
          package_id_map = id_map pids; core_key_map = id_map keys;
          (cpus, warnings') = build_logical core_key_map package_id_map entries [] warnings
      in (Cpu_default\<lparr>
            cpu_packages := map (new_package entries) (number_from 0 pids),
            cpu_cores := map (new_core package_id_map) (number_from 0 keys),
            cpu_logical_cpus := cpus\<rparr>, warnings'))"

section \<open>Counts\<close>

text \<open>A 32-bit counter incremented for every element that qualifies.\<close>

definition count_u32 :: "('a \<Rightarrow> bool) \<Rightarrow> 'a list \<Rightarrow> u32" where
  "count_u32 P xs = fold (\<lambda>x n. if P x then n + 1 else n) xs 0"

definition count_package :: "Cpu \<Rightarrow> CpuPackage \<Rightarrow> CpuPackage" where
  "count_package cpu pkg = pkg
     \<lparr>pkg_physical_cores := count_u32 (\<lambda>c. core_package_id c = pkg_id pkg) (cpu_cores cpu),
      pkg_logical_threads := count_u32 (\<lambda>l. lc_package_id l = pkg_id pkg) (cpu_logical_cpus cpu)\<rparr>"

definition count_core :: "Cpu \<Rightarrow> CpuCore \<Rightarrow> CpuCore" where
  "count_core cpu core = core
     \<lparr>core_logical_threads := count_u32 (\<lambda>l. lc_core_id l = core_id core) (cpu_logical_cpus cpu)\<rparr>"

definition count_threads :: "Cpu \<Rightarrow> Cpu" where
  "count_threads cpu =
     (let cpu1 = cpu\<lparr>cpu_packages := map (count_package cpu) (cpu_packages cpu)\<rparr>
      in cpu1\<lparr>cpu_cores := map (count_core cpu1) (cpu_cores cpu1)\<rparr>)"

section \<open>Frequencies and NUMA nodes\<close>

definition package_frequency :: "RawStore \<Rightarrow> CpuInfoEntry list \<Rightarrow> CpuPackage \<Rightarrow> CpuPackage" where
  "package_frequency raw entries pkg =
     (let raw_pkg_id = (case find (\<lambda>(_, mapped). mapped = pkg_id pkg) (id_map (package_ids entries)) of
            Some (r, _) \<Rightarrow> r | None \<Rightarrow> 0);
          package_cpu_ids = map ce_processor (filter (\<lambda>e. ce_physical_id e = raw_pkg_id) entries);
          (base_freq, max_freq) = read_cpufreq raw package_cpu_ids
      in pkg\<lparr>pkg_base_frequency := base_freq, pkg_max_frequency := max_freq\<rparr>)"

definition core_numa :: "(u32, u32) std_map \<Rightarrow> LogicalCpu list \<Rightarrow> CpuCore \<Rightarrow> CpuCore" where
  "core_numa cpu_to_numa cpus core =
     (case find (\<lambda>l. lc_core_id l = core_id core) cpus of
        None \<Rightarrow> core
      | Some l \<Rightarrow>
          (case map_of cpu_to_numa (id_value (lc_id l)) of
             Some n \<Rightarrow> core\<lparr>core_numa_node := Some (StrongId n)\<rparr> | None \<Rightarrow> core))"

definition logical_numa :: "(u32, u32) std_map \<Rightarrow> LogicalCpu \<Rightarrow> LogicalCpu" where
  "logical_numa cpu_to_numa l =
     (case map_of cpu_to_numa (id_value (lc_id l)) of
        Some n \<Rightarrow> l\<lparr>lc_numa_node := Some (StrongId n)\<rparr> | None \<Rightarrow> l)"

definition assign_numa :: "(u32, u32) std_map \<Rightarrow> Cpu \<Rightarrow> Cpu" where
  "assign_numa cpu_to_numa cpu = cpu
     \<lparr>cpu_cores := map (core_numa cpu_to_numa (cpu_logical_cpus cpu)) (cpu_cores cpu),
      cpu_logical_cpus := map (logical_numa cpu_to_numa) (cpu_logical_cpus cpu),
      cpu_numa_nodes := build_numa_nodes cpu_to_numa\<rparr>"

section \<open>The parser\<close>

definition read_sysfs :: "RawStore \<Rightarrow> CpuInfoEntry list \<Rightarrow> Cpu \<Rightarrow> Cpu" where
  "read_sysfs raw entries cpu =
     (let cpu1 = (if ce_flags (hd entries) \<noteq> []
            then cpu\<lparr>cpu_isa_extensions := legacy_isa_extensions (ce_flags (hd entries))\<rparr> else cpu);
          cpu2 = cpu1\<lparr>cpu_packages := map (package_frequency raw entries) (cpu_packages cpu1)\<rparr>
      in assign_numa (build_numa_mapping raw) cpu2)"

definition finish_cpu :: "RawStore \<Rightarrow> CpuInfoEntry list \<Rightarrow> Cpu \<Rightarrow> Cpu" where
  "finish_cpu raw entries cpu =
     (let vendor = ce_vendor_id (hd entries);
          cpu1 = cpu\<lparr>cpu_caches := read_cpu_caches raw, cpu_governor := read_cpu_governor raw,
            cpu_thermal_zones := read_thermal_zones raw\<rparr>
      in if contains_str vendor ''GenuineIntel'' \<or> contains_str vendor ''AuthenticAMD''
         then cpu1\<lparr>cpu_arch := Arch_X86_64\<rparr> else cpu1)"

definition assemble_cpu :: "RawStore \<Rightarrow> CpuInfoEntry list \<Rightarrow> string list \<Rightarrow> Cpu \<times> string list" where
  "assemble_cpu raw entries warnings =
     (let (cpu, warnings1) = cpu_skeleton entries warnings;
          (cpu', warnings2) =
            read_cpu_details raw (read_sysfs raw entries (count_threads cpu)) warnings1
      in (finish_cpu raw entries cpu', warnings2))"

definition missing_cpuinfo :: string where
  "missing_cpuinfo = ''parse_cpu: '' @ bytes [231, 188, 186, 229, 176, 145] @ '' /proc/cpuinfo '' @
     bytes [230, 149, 176, 230, 141, 174]"

definition empty_cpuinfo :: string where
  "empty_cpuinfo = ''parse_cpu: /proc/cpuinfo '' @
     bytes [230, 151, 160, 230, 156, 137, 230, 149, 136, 230, 157, 161, 231, 155, 174]"

definition cpuinfo_record :: "RawStore \<Rightarrow> RawRecord option" where
  "cpuinfo_record raw = find (\<lambda>r. rec_status r = Success) (get_all raw ProcCpuInfo)"

definition parse_cpu :: "RawStore \<Rightarrow> string list \<Rightarrow> Cpu option \<times> string list" where
  "parse_cpu raw warnings =
     (case cpuinfo_record raw of
        None \<Rightarrow> (None, warnings @ [missing_cpuinfo])
      | Some cpuinfo_rec \<Rightarrow>
          (let (entries, warnings1) = parse_cpuinfo (rec_payload cpuinfo_rec) warnings in
           if entries = [] then (None, warnings1 @ [empty_cpuinfo])
           else
             (let (cpu, warnings2) =
                assemble_cpu raw (apply_sysfs_topology raw entries) warnings1
              in (Some cpu, warnings2))))"

section \<open>Numbering\<close>

lemma map_fst_number_from [simp]: "map fst (number_from s ks) = ks"
  by (induction ks arbitrary: s) simp_all

lemma fst_set_number_from [simp]: "fst ` set (number_from s ks) = set ks"
  by (metis list.set_map map_fst_number_from)

lemma number_from_ids:
  "map snd (number_from s ks) = map (\<lambda>i. StrongId (s + word_of_nat i)) [0..<length ks]"
proof (induction ks arbitrary: s)
  case Nil
  then show ?case by simp
next
  case (Cons k ks)
  have "[0..<Suc (length ks)] = 0 # map Suc [0..<length ks]"
    by (subst upt_conv_Cons) (simp_all only: map_Suc_upt zero_less_Suc)
  with Cons show ?case by (simp add: comp_def add.assoc)
qed

lemma distinct_number_from:
  "length ks \<le> 2 ^ 32 \<Longrightarrow>
   distinct (map snd (number_from s ks :: ('k \<times> (u32, 't) strong_id) list))"
proof -
  assume n: "length ks \<le> 2 ^ 32"
  have "i = j" if "i < length ks" "j < length ks" "(word_of_nat i :: u32) = word_of_nat j" for i j
  proof -
    have "i < 2 ^ 32" "j < 2 ^ 32" using that n by linarith+
    then have "unat (word_of_nat i :: u32) = i" "unat (word_of_nat j :: u32) = j"
      by (simp_all add: unsigned_of_nat take_bit_nat_eq_self)
    with that(3) show ?thesis by metis
  qed
  then show ?thesis
    by (simp add: number_from_ids distinct_map inj_on_def)
qed

lemma map_put_end: "\<forall>x \<in> fst ` set m. x < k \<Longrightarrow> map_put k v m = m @ [(k, v)]"
  by (induction m rule: map_put.induct) (auto simp: not_less_iff_gr_or_eq)

lemma fold_map_put_sorted:
  "sorted_wrt (<) (map fst (m @ ps)) \<Longrightarrow> fold (\<lambda>(k, i). map_put k i) ps m = m @ ps"
proof (induction ps arbitrary: m)
  case Nil
  then show ?case by simp
next
  case (Cons p ps)
  obtain k v where p: "p = (k, v)" by fastforce
  have "\<forall>x \<in> fst ` set m. x < k" using Cons.prems by (auto simp: p sorted_wrt_append)
  then show ?case using Cons.IH [of "m @ [(k, v)]"] Cons.prems by (simp add: p map_put_end)
qed

lemma id_map_sorted: "sorted_wrt (<) ks \<Longrightarrow> id_map ks = number_from 0 ks"
  unfolding id_map_def using fold_map_put_sorted [of "[]" "number_from 0 ks"] by simp

definition id_of :: "'k list \<Rightarrow> 'k \<Rightarrow> (u32, 't) strong_id" where
  "id_of ks k = the (map_of (number_from 0 ks) k)"

lemma map_of_number_from: "k \<in> set ks \<Longrightarrow> map_of (number_from 0 ks) k = Some (id_of ks k)"
proof -
  assume "k \<in> set ks"
  then have "map_of (number_from 0 ks :: ('a \<times> (u32, 'b) strong_id) list) k \<noteq> None"
    by (simp add: map_of_eq_None_iff)
  then show ?thesis by (auto simp: id_of_def)
qed

lemma number_from_eq: "distinct ks \<Longrightarrow> number_from 0 ks = map (\<lambda>k. (k, id_of ks k)) ks"
proof -
  assume d: "distinct ks"
  let ?ps = "number_from 0 ks :: ('a \<times> (u32, 'b) strong_id) list"
  have "snd p = id_of ks (fst p)" if "p \<in> set ?ps" for p
  proof -
    have "map_of ?ps (fst p) = Some (snd p)" using that d by (intro map_of_is_SomeI) simp_all
    then show ?thesis by (simp add: id_of_def)
  qed
  then have "?ps = map (\<lambda>p. (fst p, id_of ks (fst p))) ?ps"
    by (intro map_idI [symmetric]) (auto simp: prod_eq_iff)
  also have "\<dots> = map (\<lambda>k. (k, id_of ks k)) (map fst ?ps)" unfolding map_map comp_def ..
  finally show ?thesis by simp
qed

lemma inj_on_id_of: "distinct ks \<Longrightarrow> length ks \<le> 2 ^ 32 \<Longrightarrow> inj_on (id_of ks) (set ks)"
proof -
  assume d: "distinct ks" and n: "length ks \<le> 2 ^ 32"
  have "distinct (map (id_of ks :: 'a \<Rightarrow> (u32, 'b) strong_id) ks)"
    using distinct_number_from [OF n, of 0] by (simp add: number_from_eq [OF d] comp_def)
  then show ?thesis by (simp add: distinct_map)
qed

section \<open>The skeleton\<close>

lemma sorted_package_ids: "sorted_wrt (<) (package_ids es)" and
  sorted_core_keys: "sorted_wrt (<) (core_keys es)"
  by (simp_all add: package_ids_def core_keys_def sorted_set_of)

lemma set_package_ids: "set (package_ids es) = ce_physical_id ` set es" and
  set_core_keys: "set (core_keys es) = core_key ` set es"
  by (simp_all add: package_ids_def core_keys_def)

lemma distinct_package_ids: "distinct (package_ids es)" and distinct_core_keys: "distinct (core_keys es)"
  by (simp_all add: package_ids_def core_keys_def)

lemma length_package_ids: "length (package_ids es) \<le> 2 ^ 32"
proof -
  have "length (package_ids es) = card (ce_physical_id ` set es)"
    by (simp add: package_ids_def length_set_of)
  also have "\<dots> \<le> card (UNIV :: u32 set)" by (rule card_mono) simp_all
  finally show ?thesis by (simp add: card_word)
qed

definition logical_of :: "CpuInfoEntry list \<Rightarrow> CpuInfoEntry \<Rightarrow> LogicalCpu" where
  "logical_of entries e =
     LogicalCpu_default\<lparr>lc_id := StrongId (ce_processor e),
       lc_core_id := id_of (core_keys entries) (core_key e),
       lc_package_id := id_of (package_ids entries) (ce_physical_id e),
       lc_visible_to_current_process := Some True, lc_identification := ce_identification e\<rparr>"

lemma build_logical_total:
  "set es \<subseteq> set entries \<Longrightarrow>
   build_logical (id_map (core_keys entries)) (id_map (package_ids entries)) es cpus warnings =
     (cpus @ map (logical_of entries) es, warnings)"
proof (induction es arbitrary: cpus)
  case Nil
  then show ?case by simp
next
  case (Cons e es)
  have "core_key e \<in> set (core_keys entries)" "ce_physical_id e \<in> set (package_ids entries)"
    using Cons.prems by (auto simp: set_core_keys set_package_ids)
  then show ?case
    using Cons by (simp add: id_map_sorted sorted_core_keys sorted_package_ids map_of_number_from
        logical_of_def)
qed

definition package_of :: "CpuInfoEntry list \<Rightarrow> u32 \<Rightarrow> CpuPackage" where
  "package_of entries pid = new_package entries (pid, id_of (package_ids entries) pid)"

definition core_of :: "CpuInfoEntry list \<Rightarrow> u32 \<times> u32 \<Rightarrow> CpuCore" where
  "core_of entries key =
     CpuCore_default\<lparr>core_id := id_of (core_keys entries) key,
       core_package_id := id_of (package_ids entries) (fst key)\<rparr>"

lemma cpu_skeleton_eq:
  "cpu_skeleton entries warnings =
     (Cpu_default\<lparr>
        cpu_packages := map (package_of entries) (package_ids entries),
        cpu_cores := map (core_of entries) (core_keys entries),
        cpu_logical_cpus := map (logical_of entries) entries\<rparr>, warnings)"
proof -
  have "new_core (id_map (package_ids entries)) (key, i) = CpuCore_default\<lparr>core_id := i,
      core_package_id := id_of (package_ids entries) (fst key)\<rparr>"
    if "key \<in> set (core_keys entries)" for key i
  proof -
    have "fst key \<in> set (package_ids entries)"
      using that by (auto simp: set_core_keys set_package_ids core_key_def)
    then show ?thesis
      by (simp add: new_core_def id_map_sorted sorted_package_ids map_of_number_from)
  qed
  then show ?thesis
    by (simp add: cpu_skeleton_def Let_def build_logical_total number_from_eq distinct_core_keys
        distinct_package_ids package_of_def core_of_def)
qed

lemma package_of_id [simp]: "pkg_id (package_of entries pid) = id_of (package_ids entries) pid"
  by (simp add: package_of_def new_package_def Let_def split: option.split)

section \<open>Well-formed CPU models\<close>

text \<open>
  Packages and cores have unique identifiers, the packages are exactly those of the cores, the cores are exactly those
  of the logical CPUs with the same package, and the stored counts are those of the queries.
\<close>

definition cpu_wf :: "Cpu \<Rightarrow> bool" where
  "cpu_wf cpu \<longleftrightarrow>
     distinct (map pkg_id (cpu_packages cpu)) \<and> distinct (map core_id (cpu_cores cpu)) \<and>
     core_package_id ` set (cpu_cores cpu) = pkg_id ` set (cpu_packages cpu) \<and>
     (\<lambda>l. (lc_core_id l, lc_package_id l)) ` set (cpu_logical_cpus cpu) =
       (\<lambda>c. (core_id c, core_package_id c)) ` set (cpu_cores cpu) \<and>
     list_all (\<lambda>p. pkg_physical_cores p = word_of_nat (length (cores_of_package cpu (pkg_id p))) \<and>
       pkg_logical_threads p = word_of_nat (length (logical_cpus_of_package cpu (pkg_id p))))
       (cpu_packages cpu) \<and>
     list_all (\<lambda>c. core_logical_threads c = word_of_nat (length (logical_cpus_of_core cpu (core_id c))))
       (cpu_cores cpu)"

text \<open>The part of a model that this depends on.\<close>

definition pkg_shape :: "CpuPackage \<Rightarrow> CpuPackageId \<times> u32 \<times> u32" where
  "pkg_shape p = (pkg_id p, pkg_physical_cores p, pkg_logical_threads p)"

definition core_shape :: "CpuCore \<Rightarrow> CpuCoreId \<times> CpuPackageId \<times> u32" where
  "core_shape c = (core_id c, core_package_id c, core_logical_threads c)"

definition lc_shape :: "LogicalCpu \<Rightarrow> LogicalCpuId \<times> CpuCoreId \<times> CpuPackageId" where
  "lc_shape l = (lc_id l, lc_core_id l, lc_package_id l)"

definition same_shape :: "Cpu \<Rightarrow> Cpu \<Rightarrow> bool" where
  "same_shape cpu cpu' \<longleftrightarrow>
     map pkg_shape (cpu_packages cpu) = map pkg_shape (cpu_packages cpu') \<and>
     map core_shape (cpu_cores cpu) = map core_shape (cpu_cores cpu') \<and>
     map lc_shape (cpu_logical_cpus cpu) = map lc_shape (cpu_logical_cpus cpu')"

lemma map_shape_comp: "map s xs = map s ys \<Longrightarrow> map (g \<circ> s) xs = map (g \<circ> s) ys"
  by (metis map_map)

lemma length_filter_shape:
  assumes "map s xs = map s ys"
  shows "length (filter (\<lambda>x. P (s x)) xs) = length (filter (\<lambda>y. P (s y)) ys)"
proof -
  have "map s (filter (P \<circ> s) xs) = filter P (map s xs)" for xs by (simp add: filter_map)
  then show ?thesis using assms by (metis (no_types, lifting) comp_apply filter_cong length_map)
qed

lemma list_all_shape: "map s xs = map s ys \<Longrightarrow> list_all (\<lambda>x. P (s x)) xs = list_all (\<lambda>y. P (s y)) ys"
  by (metis (mono_tags, lifting) comp_apply list.pred_cong list.pred_map)

lemma cpu_wf_same_shape:
  assumes "same_shape cpu cpu'" "cpu_wf cpu'"
  shows "cpu_wf cpu"
proof -
  have p: "map pkg_shape (cpu_packages cpu) = map pkg_shape (cpu_packages cpu')"
    and c: "map core_shape (cpu_cores cpu) = map core_shape (cpu_cores cpu')"
    and l: "map lc_shape (cpu_logical_cpus cpu) = map lc_shape (cpu_logical_cpus cpu')"
    using assms(1) by (simp_all add: same_shape_def)
  have cores: "length (cores_of_package cpu i) = length (cores_of_package cpu' i)" for i
    using length_filter_shape [OF c, of "\<lambda>x. fst (snd x) = i"]
    by (simp add: cores_of_package_def filter_by_def core_shape_def)
  have threads: "length (logical_cpus_of_package cpu i) = length (logical_cpus_of_package cpu' i)" for i
    using length_filter_shape [OF l, of "\<lambda>x. snd (snd x) = i"]
    by (simp add: logical_cpus_of_package_def filter_by_def lc_shape_def)
  have core_threads: "length (logical_cpus_of_core cpu i) = length (logical_cpus_of_core cpu' i)" for i
    using length_filter_shape [OF l, of "\<lambda>x. fst (snd x) = i"]
    by (simp add: logical_cpus_of_core_def filter_by_def lc_shape_def)
  have pid: "map pkg_id (cpu_packages cpu) = map pkg_id (cpu_packages cpu')"
    using map_shape_comp [OF p, of fst] by (simp add: comp_def pkg_shape_def)
  have cid: "map core_id (cpu_cores cpu) = map core_id (cpu_cores cpu')"
    using map_shape_comp [OF c, of fst] by (simp add: comp_def core_shape_def)
  have cpkg: "map core_package_id (cpu_cores cpu) = map core_package_id (cpu_cores cpu')"
    using map_shape_comp [OF c, of "fst \<circ> snd"] by (simp add: comp_def core_shape_def)
  have cpair: "map (\<lambda>c. (core_id c, core_package_id c)) (cpu_cores cpu) =
      map (\<lambda>c. (core_id c, core_package_id c)) (cpu_cores cpu')"
    using map_shape_comp [OF c, of "\<lambda>x. (fst x, fst (snd x))"] by (simp add: comp_def core_shape_def)
  have lpair: "map (\<lambda>l. (lc_core_id l, lc_package_id l)) (cpu_logical_cpus cpu) =
      map (\<lambda>l. (lc_core_id l, lc_package_id l)) (cpu_logical_cpus cpu')"
    using map_shape_comp [OF l, of snd] by (simp add: comp_def lc_shape_def)
  note sets = arg_cong [OF pid, of set] arg_cong [OF cpkg, of set] arg_cong [OF cpair, of set]
    arg_cong [OF lpair, of set]
  have pcount: "list_all (\<lambda>p. pkg_physical_cores p = word_of_nat (length (cores_of_package cpu' (pkg_id p))) \<and>
       pkg_logical_threads p = word_of_nat (length (logical_cpus_of_package cpu' (pkg_id p))))
       (cpu_packages cpu)"
    using assms(2) list_all_shape [OF p, of "\<lambda>(i, n, m).
        n = word_of_nat (length (cores_of_package cpu' i)) \<and>
        m = word_of_nat (length (logical_cpus_of_package cpu' i))"]
    by (simp add: cpu_wf_def pkg_shape_def)
  have ccount: "list_all (\<lambda>c. core_logical_threads c =
      word_of_nat (length (logical_cpus_of_core cpu' (core_id c)))) (cpu_cores cpu)"
    using assms(2) list_all_shape [OF c, of "\<lambda>(i, _, n).
        n = word_of_nat (length (logical_cpus_of_core cpu' i))"]
    by (simp add: cpu_wf_def core_shape_def)
  show ?thesis
    unfolding cpu_wf_def cores threads core_threads pid cid
    using assms(2) sets pcount ccount by (simp add: cpu_wf_def)
qed

lemma cpu_wf_find_core:
  "cpu_wf cpu \<Longrightarrow> l \<in> set (cpu_logical_cpus cpu) \<Longrightarrow>
   \<exists>c. find_core cpu (lc_core_id l) = Some c \<and> core_package_id c = lc_package_id l"
proof -
  assume wf: "cpu_wf cpu" and l: "l \<in> set (cpu_logical_cpus cpu)"
  then have "(lc_core_id l, lc_package_id l) \<in> (\<lambda>c. (core_id c, core_package_id c)) ` set (cpu_cores cpu)"
    unfolding cpu_wf_def by (metis (no_types, lifting) imageI)
  then obtain c where c: "c \<in> set (cpu_cores cpu)" "core_id c = lc_core_id l"
      "core_package_id c = lc_package_id l" by auto
  then have "find_core cpu (lc_core_id l) = Some c"
    using wf find_by_member_distinct [of core_id "cpu_cores cpu" c]
    by (simp add: cpu_wf_def find_core_def)
  with c show ?thesis by blast
qed

section \<open>Counting\<close>

lemma fold_count: "fold (\<lambda>x n. if P x then n + 1 else n) xs n = n + word_of_nat (length (filter P xs))"
  by (induction xs arbitrary: n) (simp_all add: add.assoc)

lemma count_u32_eq: "count_u32 P xs = word_of_nat (length (filter P xs))"
  by (simp add: count_u32_def fold_count)

lemma count_fields [simp]:
  "pkg_id (count_package cpu p) = pkg_id p" "core_id (count_core cpu c) = core_id c"
  "core_package_id (count_core cpu c) = core_package_id c"
  by (simp_all add: count_package_def count_core_def)

lemma skeleton_wf:
  assumes "length (core_keys entries) \<le> 2 ^ 32"
  shows "cpu_wf (count_threads (fst (cpu_skeleton entries warnings)))"
proof -
  let ?p = "id_of (package_ids entries) :: u32 \<Rightarrow> CpuPackageId"
  let ?c = "id_of (core_keys entries) :: u32 \<times> u32 \<Rightarrow> CpuCoreId"
  have p: "inj_on ?p (set (package_ids entries))"
    by (rule inj_on_id_of [OF distinct_package_ids length_package_ids])
  have c: "inj_on ?c (set (core_keys entries))"
    by (rule inj_on_id_of [OF distinct_core_keys assms])
  have fst_keys: "fst ` set (core_keys entries) = set (package_ids entries)"
    by (simp add: set_core_keys set_package_ids core_key_def image_image)
  have pairs: "(\<lambda>e. (?c (core_key e), ?p (ce_physical_id e))) ` set entries =
      (\<lambda>k. (?c k, ?p (fst k))) ` set (core_keys entries)"
    by (simp add: set_core_keys core_key_def image_image)
  have "(\<lambda>k. ?p (fst k)) ` set (core_keys entries) = ?p ` set (package_ids entries)"
    by (metis fst_keys image_image)
  with pairs p c show ?thesis
    by (simp add: cpu_wf_def count_threads_def cpu_skeleton_eq Let_def comp_def distinct_map
        distinct_package_ids distinct_core_keys list_all_iff count_package_def count_core_def
        count_u32_eq cores_of_package_def logical_cpus_of_package_def logical_cpus_of_core_def
        filter_by_def core_of_def logical_of_def image_image filter_map)
qed

section \<open>What the later stages keep\<close>

lemma package_frequency_shape [simp]: "pkg_shape (package_frequency raw entries p) = pkg_shape p"
  by (simp add: package_frequency_def pkg_shape_def Let_def split: prod.split)

lemma core_numa_shape [simp]: "core_shape (core_numa m ls c) = core_shape c"
  by (simp add: core_numa_def core_shape_def split: option.split)

lemma logical_numa_shape [simp]: "lc_shape (logical_numa m l) = lc_shape l"
  by (simp add: logical_numa_def lc_shape_def split: option.split)

lemma same_shape_refl [simp]: "same_shape cpu cpu"
  by (simp add: same_shape_def)

lemma same_shape_trans: "same_shape a b \<Longrightarrow> same_shape b c \<Longrightarrow> same_shape a c"
  by (simp add: same_shape_def)

lemma read_sysfs_shape: "same_shape (read_sysfs raw entries cpu) cpu"
  by (simp add: read_sysfs_def assign_numa_def Let_def same_shape_def comp_def)

lemma finish_cpu_shape: "same_shape (finish_cpu raw entries cpu) cpu"
  by (simp add: finish_cpu_def Let_def same_shape_def)

lemma details_erased_frame:
  assumes "details_erased a = details_erased b"
  shows "cpu_packages a = cpu_packages b" "cpu_cores a = cpu_cores b" "cpu_arch a = cpu_arch b"
    "cpu_numa_nodes a = cpu_numa_nodes b"
    "map (lc_online_update (\<lambda>_. None)) (cpu_logical_cpus a) =
     map (lc_online_update (\<lambda>_. None)) (cpu_logical_cpus b)"
  using arg_cong [OF assms, of cpu_packages] arg_cong [OF assms, of cpu_cores]
    arg_cong [OF assms, of cpu_arch] arg_cong [OF assms, of cpu_numa_nodes]
    arg_cong [OF assms, of cpu_logical_cpus]
  by (simp_all add: details_erased_def)

lemma lc_shape_online [simp]: "lc_shape (lc_online_update f l) = lc_shape l"
  by (simp add: lc_shape_def)

lemma read_cpu_details_shape: "same_shape (fst (read_cpu_details raw cpu warnings)) cpu"
proof -
  note frame = details_erased_frame [OF read_cpu_details_erased [of raw cpu warnings]]
  show ?thesis
    using map_shape_comp [OF frame(5), of lc_shape]
    by (simp add: same_shape_def frame(1,2) comp_def)
qed

lemma assemble_cpu_shape:
  "same_shape (fst (assemble_cpu raw entries warnings))
     (count_threads (fst (cpu_skeleton entries warnings)))"
proof -
  define cpu where "cpu = fst (cpu_skeleton entries warnings)"
  have sk: "cpu_skeleton entries warnings = (cpu, warnings)"
    by (simp add: cpu_def cpu_skeleton_eq)
  obtain cpu' w where d: "read_cpu_details raw (read_sysfs raw entries (count_threads cpu)) warnings = (cpu', w)"
    by (cases "read_cpu_details raw (read_sysfs raw entries (count_threads cpu)) warnings")
  have "same_shape cpu' (read_sysfs raw entries (count_threads cpu))"
    using read_cpu_details_shape [of raw "read_sysfs raw entries (count_threads cpu)" warnings] d by simp
  then have "same_shape (finish_cpu raw entries cpu') (count_threads cpu)"
    by (rule same_shape_trans [OF finish_cpu_shape same_shape_trans [OF _ read_sysfs_shape]])
  then show ?thesis by (simp add: assemble_cpu_def sk d)
qed

lemma parse_cpu_Some:
  assumes "parse_cpu raw warnings = (Some cpu, warnings')"
  obtains rc entries w where "cpuinfo_record raw = Some rc"
    "parse_cpuinfo (rec_payload rc) warnings = (entries, w)" "entries \<noteq> []"
    "assemble_cpu raw (apply_sysfs_topology raw entries) w = (cpu, warnings')"
  using assms
  by (auto simp: parse_cpu_def Let_def split: option.splits prod.splits if_splits)

lemma length_core_keys_skeleton:
  "same_shape cpu (count_threads (fst (cpu_skeleton entries warnings))) \<Longrightarrow>
   length (core_keys entries) = length (cpu_cores cpu)"
proof -
  assume "same_shape cpu (count_threads (fst (cpu_skeleton entries warnings)))"
  then have "length (cpu_cores cpu) = length (cpu_cores (count_threads (fst (cpu_skeleton entries warnings))))"
    unfolding same_shape_def by (metis length_map)
  then show ?thesis by (simp add: count_threads_def cpu_skeleton_eq Let_def)
qed

section \<open>The CPU model\<close>

text \<open>Core identifiers have 32 bits, so this needs a bound on their number.\<close>

lemma parse_cpu_wf:
  assumes "parse_cpu raw warnings = (Some cpu, warnings')"
    and "length (cpu_cores cpu) \<le> 2 ^ 32"
  shows "cpu_wf cpu"
  using assms(1)
proof (rule parse_cpu_Some)
  fix rc entries w
  assume "assemble_cpu raw (apply_sysfs_topology raw entries) w = (cpu, warnings')"
  then have shape: "same_shape cpu
      (count_threads (fst (cpu_skeleton (apply_sysfs_topology raw entries) w)))"
    using assemble_cpu_shape [of raw "apply_sysfs_topology raw entries" w] by simp
  then show ?thesis
    using assms(2) cpu_wf_same_shape skeleton_wf length_core_keys_skeleton by metis
qed

end
