(* ===== verification/Cpu_Contract.thy ===== *)
theory Cpu_Contract
  imports Cpu_Parser
begin

text \<open>
  The contract of \<open>parse_cpu\<close> with the pipeline: which evidence it reads, which warnings it can
  append, and what its model says about the kernel's view: the grouping of the CPUs, their NUMA
  nodes, and the architecture field.
\<close>

section \<open>Warnings\<close>

abbreviation push_info :: "string list \<Rightarrow> CpuInfoState \<Rightarrow> CpuInfoState" where
  "push_info w \<equiv> ci_warnings_update (\<lambda>u. w @ u)"

abbreviation push_detail :: "string list \<Rightarrow> DetailState \<Rightarrow> DetailState" where
  "push_detail w \<equiv> det_warnings_update (\<lambda>u. w @ u)"

lemma cpuinfo_field_push:
  "cpuinfo_field k v c (w @ u) = (fst (cpuinfo_field k v c u), w @ snd (cpuinfo_field k v c u))"
  by (simp add: cpuinfo_field_def split: option.split)

lemma finish_entry_push: "finish_entry (push_info w st) = push_info w (finish_entry st)"
  by (simp add: finish_entry_def Let_def)

lemma cpuinfo_line_push: "cpuinfo_line l (push_info w st) = push_info w (cpuinfo_line l st)"
proof (cases "trim l = []")
  case True
  then show ?thesis by (simp add: cpuinfo_line_def finish_entry_push)
next
  case False
  obtain k v where kv: "parse_kv (trim l) (CHR '':'') = (k, v)" by fastforce
  show ?thesis
    by (simp add: cpuinfo_line_def False kv cpuinfo_field_push case_prod_unfold Let_def)
qed

lemma parse_cpuinfo_frame [warning_frames]:
  "parse_cpuinfo payload w = (fst (parse_cpuinfo payload []), w @ snd (parse_cpuinfo payload []))"
proof -
  let ?st = "\<lparr>ci_entries = [], ci_current = CpuInfoEntry_default, ci_has_entry = False,
      ci_warnings = []\<rparr>"
  let ?ls = "split payload (CHR 0x0A)"
  have "fold cpuinfo_line ?ls (push_info w ?st) = push_info w (fold cpuinfo_line ?ls ?st)"
    by (rule fold_push) (rule cpuinfo_line_push)
  then show ?thesis by (simp add: parse_cpuinfo_def Let_def finish_entry_push)
qed

lemma read_policy_field_push:
  "read_policy_field p r (w @ u) = (fst (read_policy_field p r u), w @ snd (read_policy_field p r u))"
  by (simp add: read_policy_field_def Let_def split: option.split)

lemma read_policy_record_push:
  "read_policy_record r (push_detail w st) = push_detail w (read_policy_record r st)"
  by (simp add: read_policy_record_def Let_def read_policy_field_push case_prod_unfold
      split: option.split)

lemma read_online_field_push:
  "read_online_field r (push_detail w st) = push_detail w (read_online_field r st)"
  by (auto simp: read_online_field_def Let_def split: option.split)

lemma read_detail_record_push:
  "read_detail_record m r (push_detail w st) = push_detail w (read_detail_record m r st)"
  by (simp add: read_detail_record_def Let_def read_policy_record_push read_online_field_push)

lemma read_cpu_details_frame' [warning_frames]:
  "read_cpu_details raw cpu w =
     (fst (read_cpu_details raw cpu []), w @ snd (read_cpu_details raw cpu []))"
proof -
  let ?st = "\<lparr>det_cpu = cpu, det_online = [], det_policies = [], det_warnings = []\<rparr>"
  let ?rs = "get_all raw SysfsCpu"
  have "fold (read_detail_record m) ?rs (push_detail w ?st) =
      push_detail w (fold (read_detail_record m) ?rs ?st)" for m
    by (rule fold_push) (rule read_detail_record_push)
  then show ?thesis by (simp add: read_cpu_details_def Let_def)
qed

lemma assemble_cpu_frame [warning_frames]:
  "assemble_cpu raw es w = (fst (assemble_cpu raw es []), w @ snd (assemble_cpu raw es []))"
  unfolding assemble_cpu_def cpu_skeleton_eq
  by (subst read_cpu_details_frame') (simp add: case_prod_unfold Let_def)

lemma parse_cpu_frame:
  "parse_cpu raw w = (fst (parse_cpu raw []), w @ snd (parse_cpu raw []))"
proof (cases "cpuinfo_record raw")
  case None
  then show ?thesis by (simp add: parse_cpu_def)
next
  case (Some r)
  obtain es v where p: "parse_cpuinfo (rec_payload r) [] = (es, v)" by fastforce
  have q: "parse_cpuinfo (rec_payload r) w = (es, w @ v)"
    using parse_cpuinfo_frame [of "rec_payload r" w] by (simp add: p)
  show ?thesis
    using assemble_cpu_frame [of raw "apply_sysfs_topology raw es" "w @ v"]
      assemble_cpu_frame [of raw "apply_sysfs_topology raw es" v]
    by (simp add: parse_cpu_def Some p q case_prod_unfold Let_def)
qed

text \<open>Every warning \<open>parse_cpu\<close> has: one about the file, or about a value that does not parse.\<close>

definition cpu_warning :: "string \<Rightarrow> bool" where
  "cpu_warning m \<longleftrightarrow> m = missing_cpuinfo \<or> m = empty_cpuinfo \<or> m \<in> range invalid_processor \<or>
     m \<in> range invalid_cpu_list \<or> m \<in> range invalid_frequency"

lemma cpu_warning_intros [simp]:
  "cpu_warning missing_cpuinfo" "cpu_warning empty_cpuinfo" "cpu_warning (invalid_processor v)"
  "cpu_warning (invalid_cpu_list v)" "cpu_warning (invalid_frequency v)"
  by (simp_all add: cpu_warning_def)

lemma cpuinfo_field_warnings:
  "list_all cpu_warning w \<Longrightarrow> list_all cpu_warning (snd (cpuinfo_field k v c w))"
  by (simp add: cpuinfo_field_def split: option.split)

lemma cpuinfo_line_warnings:
  "list_all cpu_warning (ci_warnings st) \<Longrightarrow> list_all cpu_warning (ci_warnings (cpuinfo_line l st))"
  by (simp add: cpuinfo_line_def Let_def case_prod_unfold cpuinfo_field_warnings)

lemma parse_cpuinfo_warnings: "list_all cpu_warning (snd (parse_cpuinfo payload []))"
proof -
  have "list_all cpu_warning (ci_warnings (fold cpuinfo_line (split payload (CHR 0x0A))
      \<lparr>ci_entries = [], ci_current = CpuInfoEntry_default, ci_has_entry = False, ci_warnings = []\<rparr>))"
    by (rule fold_invariant_set) (simp_all add: cpuinfo_line_warnings)
  then show ?thesis by (simp add: parse_cpuinfo_def Let_def)
qed

lemma read_policy_field_warnings:
  "list_all cpu_warning w \<Longrightarrow> list_all cpu_warning (snd (read_policy_field p r w))"
  by (simp add: read_policy_field_def Let_def split: option.split)

lemma read_detail_record_warnings:
  "list_all cpu_warning (det_warnings st) \<Longrightarrow>
   list_all cpu_warning (det_warnings (read_detail_record m r st))"
  by (simp add: read_detail_record_def read_policy_record_def read_online_field_def Let_def
      case_prod_unfold read_policy_field_warnings split: option.split)

lemma read_cpu_details_warnings: "list_all cpu_warning (snd (read_cpu_details raw cpu []))"
proof -
  have "list_all cpu_warning (det_warnings (fold (read_detail_record m) (get_all raw SysfsCpu)
      \<lparr>det_cpu = cpu, det_online = [], det_policies = [], det_warnings = []\<rparr>))" for m
    by (rule fold_invariant_set) (simp_all add: read_detail_record_warnings)
  then show ?thesis by (simp add: read_cpu_details_def Let_def)
qed

lemma parse_cpu_own_warnings: "list_all cpu_warning (snd (parse_cpu raw []))"
proof (cases "cpuinfo_record raw")
  case None
  then show ?thesis by (simp add: parse_cpu_def)
next
  case (Some r)
  have "list_all cpu_warning (snd (assemble_cpu raw es []))" for es
    by (simp add: assemble_cpu_def cpu_skeleton_eq case_prod_unfold Let_def read_cpu_details_warnings)
  then have "list_all cpu_warning (snd (assemble_cpu raw es w))" if "list_all cpu_warning w" for es w
    using that by (subst assemble_cpu_frame) simp
  then show ?thesis
    using parse_cpuinfo_warnings [of "rec_payload r"]
    by (simp add: parse_cpu_def Some case_prod_unfold Let_def)
qed

section \<open>The interface to the pipeline\<close>

lemma parse_cpu_evidence:
  assumes "\<And>s. s \<in> {ProcCpuInfo, SysfsCpu, SysfsNuma, SysfsThermal} \<Longrightarrow> get_all raw s = get_all raw' s"
  shows "parse_cpu raw w = parse_cpu raw' w"
proof -
  have g: "get_all raw ProcCpuInfo = get_all raw' ProcCpuInfo"
    "get_all raw SysfsCpu = get_all raw' SysfsCpu" "get_all raw SysfsNuma = get_all raw' SysfsNuma"
    "get_all raw SysfsThermal = get_all raw' SysfsThermal"
    using assms by simp_all
  have f: "read_cpufreq raw = read_cpufreq raw'" by (rule ext) (simp add: read_cpufreq_def g)
  have pf: "package_frequency raw = package_frequency raw'"
    by (intro ext) (simp add: package_frequency_def f)
  have t: "apply_sysfs_topology raw = apply_sysfs_topology raw'"
    by (rule ext) (simp add: apply_sysfs_topology_def g)
  have s: "read_sysfs raw = read_sysfs raw'"
    by (intro ext) (simp add: read_sysfs_def pf build_numa_mapping_def g)
  have d: "read_cpu_details raw = read_cpu_details raw'"
    by (intro ext) (simp add: read_cpu_details_def g)
  have a: "assemble_cpu raw = assemble_cpu raw'"
    by (intro ext) (simp add: assemble_cpu_def s d finish_cpu_def read_cpu_caches_def
        cache_entries_def read_cpu_governor_def read_thermal_zones_def g)
  show ?thesis unfolding parse_cpu_def cpuinfo_record_def t a g ..
qed

interpretation cpu_parser: domain_parser parse_cpu "{ProcCpuInfo, SysfsCpu, SysfsNuma, SysfsThermal}"
  "{}" cpu_warning
  by unfold_locales (rule parse_cpu_frame, erule parse_cpu_evidence, rule parse_cpu_own_warnings)

text \<open>only the records of its four sources matter to the CPU parser, wherever they stand in the
  store: dropping all others changes neither the model nor the warnings.
\<close>

theorem parse_cpu_sources:
  "parse_cpu (raw\<lparr>raw_records := filter (\<lambda>r. rec_source r \<in> {ProcCpuInfo, SysfsCpu, SysfsNuma,
     SysfsThermal}) (raw_records raw)\<rparr>) warnings = parse_cpu raw warnings"
  by (rule cpu_parser.evidence.only_own_sources)

text \<open>the parser only appends warnings, its model does not depend on those already there, and every
  warning it appends is about the file or an unparsable value: the two cross-checks of logical CPUs
  against cores and packages never fire.
\<close>

theorem parse_cpu_warnings:
  "\<exists>own. parse_cpu raw warnings = (fst (parse_cpu raw []), warnings @ own) \<and>
     list_all cpu_warning own \<and> missing_core e \<notin> set own \<and> missing_package e \<notin> set own"
proof -
  have "\<not> cpu_warning (missing_core e)" "\<not> cpu_warning (missing_package e)"
    by (auto simp: cpu_warning_def missing_core_def missing_package_def missing_cpuinfo_def
        empty_cpuinfo_def invalid_processor_def invalid_cpu_list_def invalid_frequency_def bytes_def)
  then show ?thesis
    using cpu_parser.frame [of raw warnings] cpu_parser.own_warnings [of raw]
    by (auto simp: list_all_iff)
qed

section \<open>The model against the kernel's view\<close>

text \<open>The entries a model is assembled from, empty when there is no model.\<close>

definition parsed_entries :: "RawStore \<Rightarrow> CpuInfoEntry list" where
  "parsed_entries raw =
     (case cpuinfo_record raw of
        None \<Rightarrow> []
      | Some r \<Rightarrow>
          (let entries = fst (parse_cpuinfo (rec_payload r) []) in
           if entries = [] then [] else apply_sysfs_topology raw entries))"

lemma parse_cpu_assembled:
  assumes "parse_cpu raw warnings = (Some cpu, warnings')"
  shows "\<exists>w. assemble_cpu raw (parsed_entries raw) w = (cpu, warnings')"
  using assms
proof (rule parse_cpu_Some)
  fix rc entries w
  assume r: "cpuinfo_record raw = Some rc" "parse_cpuinfo (rec_payload rc) warnings = (entries, w)"
    "entries \<noteq> []" "assemble_cpu raw (apply_sysfs_topology raw entries) w = (cpu, warnings')"
  have "fst (parse_cpuinfo (rec_payload rc) []) = entries"
    using parse_cpuinfo_frame [of "rec_payload rc" warnings] r(2) by simp
  with r show ?thesis by (auto simp: parsed_entries_def)
qed

lemma parse_cpu_shape:
  "parse_cpu raw warnings = (Some cpu, warnings') \<Longrightarrow>
   same_shape cpu (count_threads (fst (cpu_skeleton (parsed_entries raw) [])))"
proof -
  assume "parse_cpu raw warnings = (Some cpu, warnings')"
  then obtain w where "assemble_cpu raw (parsed_entries raw) w = (cpu, warnings')"
    using parse_cpu_assembled by blast
  then have "same_shape cpu (count_threads (fst (cpu_skeleton (parsed_entries raw) w)))"
    using assemble_cpu_shape [of raw "parsed_entries raw" w] by simp
  then show ?thesis by (simp add: cpu_skeleton_eq)
qed

lemma nth_shape: "map s xs = map t ys \<Longrightarrow> i < length ys \<Longrightarrow> s (xs ! i) = t (ys ! i)"
  by (metis length_map nth_map)

text \<open>A machine with one core and two threads, to apply the theorems to.\<close>

definition two_threads :: RawStore where
  "two_threads = RawStore_default\<lparr>raw_records :=
     [\<lparr>rec_source = ProcCpuInfo, rec_path_or_command = ''/proc/cpuinfo'',
       rec_payload = ''processor:0'' @ [CHR 0x0A] @ ''core id:3'' @ [CHR 0x0A, CHR 0x0A] @
         ''processor:1'' @ [CHR 0x0A] @ ''core id:3'',
       rec_status = Success, rec_collected_at = 0, rec_failure = None, rec_skip = None\<rparr>]\<rparr>"

lemma two_threads_parsed:
  "fst (parse_cpu two_threads []) \<noteq> None \<and> length (cpu_cores (the (fst (parse_cpu two_threads [])))) = 1 \<and>
   length (parsed_entries two_threads) = 2"
  by code_simp

lemma two_threads_cpu:
  "parse_cpu two_threads [] = (Some (the (fst (parse_cpu two_threads []))), snd (parse_cpu two_threads []))"
  using two_threads_parsed by (simp add: prod_eq_iff)

lemma parse_cpu_ids:
  "parse_cpu raw warnings = (Some cpu, warnings') \<Longrightarrow>
   map lc_id (cpu_logical_cpus cpu) = map (StrongId \<circ> ce_processor) (parsed_entries raw)"
proof -
  let ?es = "parsed_entries raw"
  assume "parse_cpu raw warnings = (Some cpu, warnings')"
  then have "map lc_shape (cpu_logical_cpus cpu) = map (lc_shape \<circ> logical_of ?es) ?es"
    using parse_cpu_shape by (auto simp: same_shape_def count_threads_def cpu_skeleton_eq Let_def)
  then show ?thesis
    using map_shape_comp [of lc_shape "cpu_logical_cpus cpu" "map (logical_of ?es) ?es" fst]
    by (simp add: comp_def lc_shape_def logical_of_def)
qed

text \<open>C1: a parsed CPU model with at most 2 to the 32 cores is well formed: package and core ids are unique,
  every core has its package and at least one logical CPU, every logical CPU has its core and agrees
  with it on the package, and the counts stored in packages and cores are those the queries find. The
  parser does not merge logical CPUs, so their ids are unique exactly when the kernel's are.
\<close>

theorem parse_cpu_well_formed:
  assumes "parse_cpu raw warnings = (Some cpu, warnings')"
    and "length (cpu_cores cpu) \<le> 2 ^ 32"
  shows "cpu_wf cpu \<and>
    (distinct (map lc_id (cpu_logical_cpus cpu)) \<longleftrightarrow> distinct (map ce_processor (parsed_entries raw)))"
  using parse_cpu_wf [OF assms]
  by (simp add: parse_cpu_ids [OF assms(1)] distinct_map inj_on_def comp_def)

theorem parse_cpu_well_formed_witness:
  "cpu_wf (the (fst (parse_cpu two_threads []))) \<and> distinct (map lc_id (cpu_logical_cpus (the (fst (parse_cpu two_threads [])))))"
proof -
  have "distinct (map ce_processor (parsed_entries two_threads))" by code_simp
  then show ?thesis using parse_cpu_well_formed [OF two_threads_cpu] two_threads_parsed by simp
qed

text \<open>C9: the model groups the CPUs as the kernel reports them: one logical CPU per entry, in order and
  under its number; as many packages and cores as there are distinct ids; and two logical CPUs
  share a core (a package) exactly when their entries have the same core key (physical id).
\<close>

theorem parse_cpu_groups:
  assumes "parse_cpu raw warnings = (Some cpu, warnings')"
    and "length (cpu_cores cpu) \<le> 2 ^ 32"
    and "i < length (parsed_entries raw)" "j < length (parsed_entries raw)"
  shows "let es = parsed_entries raw; ls = cpu_logical_cpus cpu in
     map lc_id ls = map (StrongId \<circ> ce_processor) es \<and>
     length (cpu_packages cpu) = card (ce_physical_id ` set es) \<and>
     length (cpu_cores cpu) = card (core_key ` set es) \<and>
     (lc_core_id (ls ! i) = lc_core_id (ls ! j) \<longleftrightarrow> core_key (es ! i) = core_key (es ! j)) \<and>
     (lc_package_id (ls ! i) = lc_package_id (ls ! j) \<longleftrightarrow>
        ce_physical_id (es ! i) = ce_physical_id (es ! j))"
proof -
  let ?es = "parsed_entries raw"
  let ?k = "count_threads (fst (cpu_skeleton ?es []))"
  note shape = parse_cpu_shape [OF assms(1)]
  then have l: "map lc_shape (cpu_logical_cpus cpu) = map (lc_shape \<circ> logical_of ?es) ?es"
    and p: "length (cpu_packages cpu) = length (package_ids ?es)"
    and c: "length (cpu_cores cpu) = length (core_keys ?es)"
    using length_core_keys_skeleton [OF shape] map_eq_imp_length_eq [of pkg_shape "cpu_packages cpu"]
    by (auto simp: same_shape_def count_threads_def cpu_skeleton_eq Let_def)
  note ids = parse_cpu_ids [OF assms(1)]
  have at: "lc_core_id (cpu_logical_cpus cpu ! n) = id_of (core_keys ?es) (core_key (?es ! n)) \<and>
      lc_package_id (cpu_logical_cpus cpu ! n) = id_of (package_ids ?es) (ce_physical_id (?es ! n))"
    if "n < length ?es" for n
    using nth_shape [OF l that] by (simp add: lc_shape_def logical_of_def)
  have inj: "inj_on (id_of (core_keys ?es) :: _ \<Rightarrow> CpuCoreId) (set (core_keys ?es))"
    "inj_on (id_of (package_ids ?es) :: _ \<Rightarrow> CpuPackageId) (set (package_ids ?es))"
    using assms(2) c inj_on_id_of [OF distinct_core_keys, of ?es]
      inj_on_id_of [OF distinct_package_ids length_package_ids, of ?es] by simp_all
  show ?thesis
    using at [OF assms(3)] at [OF assms(4)] assms(3,4) ids p c inj
    by (simp add: Let_def length_set_of package_ids_def core_keys_def inj_on_eq_iff)
qed

theorem parse_cpu_groups_witness:
  "lc_core_id (cpu_logical_cpus (the (fst (parse_cpu two_threads []))) ! 0) =
   lc_core_id (cpu_logical_cpus (the (fst (parse_cpu two_threads []))) ! 1)"
proof -
  have "core_key (parsed_entries two_threads ! 0) = core_key (parsed_entries two_threads ! 1)"
    by code_simp
  then show ?thesis
    using parse_cpu_groups [OF two_threads_cpu, of 0 1] two_threads_parsed by (simp add: Let_def)
qed

lemma read_cpu_details_unchanged:
  "cpu_numa_nodes (fst (read_cpu_details raw cpu w)) = cpu_numa_nodes cpu"
  "cpu_arch (fst (read_cpu_details raw cpu w)) = cpu_arch cpu"
  "map (\<lambda>l. (lc_id l, lc_numa_node l)) (cpu_logical_cpus (fst (read_cpu_details raw cpu w))) =
   map (\<lambda>l. (lc_id l, lc_numa_node l)) (cpu_logical_cpus cpu)"
proof -
  note frame = details_erased_frame [OF read_cpu_details_erased [of raw cpu w]]
  show "cpu_numa_nodes (fst (read_cpu_details raw cpu w)) = cpu_numa_nodes cpu"
    "cpu_arch (fst (read_cpu_details raw cpu w)) = cpu_arch cpu"
    by (rule frame(4), rule frame(3))
  show "map (\<lambda>l. (lc_id l, lc_numa_node l)) (cpu_logical_cpus (fst (read_cpu_details raw cpu w))) =
      map (\<lambda>l. (lc_id l, lc_numa_node l)) (cpu_logical_cpus cpu)"
    using map_shape_comp [OF frame(5), of "\<lambda>l. (lc_id l, lc_numa_node l)"] by (simp add: comp_def)
qed

lemma assemble_cpu_fields:
  "cpu_arch (fst (assemble_cpu raw es w)) = Arch_X86_64"
  "cpu_numa_nodes (fst (assemble_cpu raw es w)) = build_numa_nodes (build_numa_mapping raw)"
  "list_all (\<lambda>l. lc_numa_node l = map_option StrongId (map_of (build_numa_mapping raw) (id_value (lc_id l))))
     (cpu_logical_cpus (fst (assemble_cpu raw es w)))"
proof -
  let ?m = "build_numa_mapping raw"
  let ?c = "read_sysfs raw es (count_threads (fst (cpu_skeleton es w)))"
  let ?d = "fst (read_cpu_details raw ?c w)"
  have a: "fst (assemble_cpu raw es w) = finish_cpu raw es ?d"
    by (simp add: assemble_cpu_def cpu_skeleton_eq case_prod_unfold Let_def)
  have c: "cpu_arch ?c = Arch_X86_64" "cpu_numa_nodes ?c = build_numa_nodes ?m"
    "list_all (\<lambda>l. lc_numa_node l = map_option StrongId (map_of ?m (id_value (lc_id l)))) (cpu_logical_cpus ?c)"
    by (auto simp: read_sysfs_def assign_numa_def Let_def count_threads_def cpu_skeleton_eq
        Cpu_default_def list_all_iff logical_numa_def logical_of_def LogicalCpu_default_def
        split: option.split)
  have "list_all (\<lambda>l. lc_numa_node l = map_option StrongId (map_of ?m (id_value (lc_id l)))) (cpu_logical_cpus ?d)"
    using list_all_shape [OF read_cpu_details_unchanged(3) [of raw ?c w],
        of "\<lambda>(i, n). n = map_option StrongId (map_of ?m (id_value i))"] c(3) by simp
  then show "cpu_arch (fst (assemble_cpu raw es w)) = Arch_X86_64"
    "cpu_numa_nodes (fst (assemble_cpu raw es w)) = build_numa_nodes ?m"
    "list_all (\<lambda>l. lc_numa_node l = map_option StrongId (map_of ?m (id_value (lc_id l))))
       (cpu_logical_cpus (fst (assemble_cpu raw es w)))"
    using c by (simp_all add: a finish_cpu_def Let_def read_cpu_details_unchanged)
qed

text \<open>C39: the two views of NUMA agree: a logical CPU carries a node exactly when the node list of the
  model has that node with this CPU in it.
\<close>

theorem parse_cpu_numa:
  "case fst (parse_cpu raw warnings) of
     None \<Rightarrow> True
   | Some cpu \<Rightarrow> list_all (\<lambda>l. lc_numa_node l = Some n \<longleftrightarrow>
       (\<exists>cpus. \<lparr>nn_id = n, nn_cpus = cpus\<rparr> \<in> set (cpu_numa_nodes cpu) \<and> lc_id l \<in> set cpus))
       (cpu_logical_cpus cpu)"
proof (cases "parse_cpu raw warnings")
  case (Pair o' warnings')
  show ?thesis
  proof (cases o')
    case None
    then show ?thesis by (simp add: Pair)
  next
    case (Some cpu)
    then obtain w where w: "assemble_cpu raw (parsed_entries raw) w = (cpu, warnings')"
      using parse_cpu_assembled [of raw warnings cpu warnings'] Pair by auto
    have inv: "map_invar (build_numa_mapping raw)"
      using numa_mapping_invar by (simp add: numa_inv_def)
    have "lc_numa_node l = Some n \<longleftrightarrow>
        (\<exists>cpus. \<lparr>nn_id = n, nn_cpus = cpus\<rparr> \<in> set (cpu_numa_nodes cpu) \<and> lc_id l \<in> set cpus)"
      if "l \<in> set (cpu_logical_cpus cpu)" for l
      using assemble_cpu_fields(2,3) [of raw "parsed_entries raw" w] that
        numa_nodes_listed [OF inv, of "id_value (lc_id l)" "id_value n"]
      by (cases n; cases "lc_id l") (auto simp: w list_all_iff)
    then show ?thesis by (simp add: Pair Some list_all_iff)
  qed
qed

text \<open>the architecture of every parsed model is x86-64, whoever the vendor is: the vendor test can
  only set the value the field already has.
\<close>

theorem parse_cpu_arch:
  "case fst (parse_cpu raw warnings) of None \<Rightarrow> True | Some cpu \<Rightarrow> cpu_arch cpu = Arch_X86_64"
proof (cases "parse_cpu raw warnings")
  case (Pair o' warnings')
  show ?thesis
  proof (cases o')
    case None
    then show ?thesis by (simp add: Pair)
  next
    case (Some cpu)
    then obtain w where "assemble_cpu raw (parsed_entries raw) w = (cpu, warnings')"
      using parse_cpu_assembled [of raw warnings cpu warnings'] Pair by auto
    then show ?thesis
      using assemble_cpu_fields(1) [of raw "parsed_entries raw" w] by (simp add: Pair Some)
  qed
qed

end
