(* ===== verification/Mountinfo.thy ===== *)
theory Mountinfo
  imports Raw_Store Streams
begin

text \<open>
  \<open>src/common/\<close>: the classification of file system types (\<open>filesystem.cpp\<close>) and the mountinfo
  reader that storage and file system statistics share (\<open>mountinfo.cpp\<close>). The
  \<open>std::istringstream\<close> extractions of a line are the whitespace-separated \<open>tokens\<close> of the
  line, taken from the front.
\<close>

section \<open>File system kinds\<close>

definition local_filesystems :: "string list" where
  "local_filesystems =
     [''ext2'', ''ext3'', ''ext4'', ''xfs'', ''btrfs'', ''f2fs'', ''jfs'', ''reiserfs'', ''zfs'',
      ''bcachefs'', ''vfat'', ''exfat'', ''ntfs'', ''ntfs3'', ''iso9660'', ''udf'', ''squashfs'',
      ''overlay'']"

definition network_filesystems :: "string list" where
  "network_filesystems =
     [''nfs'', ''nfs4'', ''cifs'', ''smb3'', ''ceph'', ''lustre'', ''beegfs'', ''gpfs'', ''afs'',
      ''9p'', ''fuse.sshfs'', ''fuse.glusterfs'', ''fuse.ceph'']"

definition pseudo_filesystems :: "string list" where
  "pseudo_filesystems =
     [''proc'', ''sysfs'', ''cgroup'', ''cgroup2'', ''devpts'', ''securityfs'', ''debugfs'',
      ''tracefs'', ''pstore'', ''efivarfs'', ''configfs'', ''mqueue'', ''hugetlbfs'',
      ''binfmt_misc'', ''autofs'', ''rpc_pipefs'', ''fusectl'', ''bpf'', ''nsfs'']"

definition filesystem_kind :: "string \<Rightarrow> FilesystemKind" where
  "filesystem_kind type =
     (if type = ''tmpfs'' \<or> type = ''devtmpfs'' \<or> type = ''ramfs'' then Fs_Memory
      else if type \<in> set local_filesystems then Fs_Local
      else if type \<in> set network_filesystems then Fs_Network
      else if type = ''fuse'' \<or> type = ''fuseblk'' \<or> prefix ''fuse.'' type then Fs_Userspace
      else if type \<in> set pseudo_filesystems then Fs_Pseudo
      else Fs_Unknown)"

section \<open>Mount records\<close>

definition is_octal :: "char \<Rightarrow> bool" where
  "is_octal c \<longleftrightarrow> 48 \<le> (of_char c :: nat) \<and> of_char c \<le> (55 :: nat)"

definition octal_value :: "char \<Rightarrow> char \<Rightarrow> char \<Rightarrow> nat" where
  "octal_value a b c =
     (of_char a - 48) * 64 + (of_char b - 48) * 8 + (of_char c - (48 :: nat))"

definition backslash :: char where
  "backslash = CHR 0x5C"

fun unescape_mount :: "string \<Rightarrow> string" where
  "unescape_mount (c # a # b # d # s) =
     (if c = backslash \<and> is_octal a \<and> is_octal b \<and> is_octal d
      then char_of (octal_value a b d) # unescape_mount s
      else c # unescape_mount (a # b # d # s))"
| "unescape_mount s = s"

definition malformed_header :: string where
  "malformed_header = ''parse_storage: malformed mountinfo header''"

definition malformed_record :: string where
  "malformed_record = ''parse_storage: malformed mountinfo record''"

definition parse_mount_line :: "string \<Rightarrow> string + StorageMount" where
  "parse_mount_line line =
     (case tokens line of
        ident # parent # number # root # path # options # rest \<Rightarrow>
          (case dropWhile (\<lambda>token. token \<noteq> ''-'') rest of
             dash # filesystem # source # super_options # _ \<Rightarrow>
               (case (parse_uint ident, parse_uint parent, parse_device_number number) of
                  (Some mount_id, Some parent_id, Some device_number) \<Rightarrow>
                    if mount_id > u32_max \<or> parent_id > u32_max then Inl malformed_record
                    else
                      let opts = split options (CHR '','') in
                      Inr (StorageMount_default
                        \<lparr>sm_mount_id := to_u32 mount_id, sm_parent_mount_id := to_u32 parent_id,
                         sm_device_number := device_number, sm_root := unescape_mount root,
                         sm_path := NamedString (unescape_mount path),
                         sm_filesystem := NamedString filesystem,
                         sm_source := unescape_mount source, sm_options := opts,
                         sm_read_only := list_ex (\<lambda>option. option = ''ro'') opts\<rparr>)
                | _ \<Rightarrow> Inl malformed_record)
           | _ \<Rightarrow> Inl malformed_record)
      | _ \<Rightarrow> Inl malformed_header)"

definition parse_mountinfo_step ::
  "string \<Rightarrow> StorageMount list \<times> string list \<Rightarrow> StorageMount list \<times> string list" where
  "parse_mountinfo_step line = (\<lambda>(mounts, warnings).
     if line = [] then (mounts, warnings)
     else case parse_mount_line line of
            Inl message \<Rightarrow> (mounts, warnings @ [message])
          | Inr mount \<Rightarrow> (mounts @ [mount], warnings))"

definition parse_mountinfo :: "string \<Rightarrow> string list \<Rightarrow> StorageMount list \<times> string list" where
  "parse_mountinfo payload warnings =
     fold parse_mountinfo_step (split payload (CHR 0x0A)) ([], warnings)"

section \<open>The escapes of the kernel\<close>

text \<open>
  What \<open>unescape_mount\<close> undoes: the kernel writes blank, tab, newline and backslash of a name
  as a backslash and three octal digits (\<open>proc(5)\<close>, \<open>/proc/pid/mountinfo\<close>).
\<close>

definition octal_escape :: "char \<Rightarrow> string" where
  "octal_escape c =
     (let n = of_char c :: nat in
      [backslash, char_of (48 + n div 64), char_of (48 + n div 8 mod 8), char_of (48 + n mod 8)])"

definition kernel_escapes :: "char list" where
  "kernel_escapes = [CHR '' '', CHR 0x09, CHR 0x0A, backslash]"

definition escape_mount :: "string \<Rightarrow> string" where
  "escape_mount s = concat (map (\<lambda>c. if c \<in> set kernel_escapes then octal_escape c else [c]) s)"

lemma unescape_plain: "c \<noteq> backslash \<Longrightarrow> unescape_mount (c # s) = c # unescape_mount s"
proof (cases "\<exists>a b d t. s = a # b # d # t")
  case True
  then show "c \<noteq> backslash \<Longrightarrow> ?thesis" by auto
next
  case False
  then have "unescape_mount s = s" and "unescape_mount (c # s) = c # s"
    by (cases s rule: unescape_mount.cases; auto)+
  then show ?thesis by simp
qed

lemma unescape_octal: "c \<in> set kernel_escapes \<Longrightarrow> unescape_mount (octal_escape c @ s) = c # unescape_mount s"
proof -
  assume "c \<in> set kernel_escapes"
  moreover have "list_all (\<lambda>c. case octal_escape c of
      [x, a, b, d] \<Rightarrow> x = backslash \<and> is_octal a \<and> is_octal b \<and> is_octal d \<and>
        char_of (octal_value a b d) = c | _ \<Rightarrow> False) kernel_escapes"
    by code_simp
  ultimately have "case octal_escape c of
      [x, a, b, d] \<Rightarrow> x = backslash \<and> is_octal a \<and> is_octal b \<and> is_octal d \<and>
        char_of (octal_value a b d) = c | _ \<Rightarrow> False"
    by (simp add: list_all_iff)
  then show ?thesis by (auto split: list.splits)
qed

lemma unescape_escape [simp]: "unescape_mount (escape_mount s) = s"
proof (induction s)
  case Nil
  then show ?case by (simp add: escape_mount_def)
next
  case (Cons c s)
  show ?case
  proof (cases "c \<in> set kernel_escapes")
    case True
    then have "escape_mount (c # s) = octal_escape c @ escape_mount s"
      by (simp add: escape_mount_def)
    then show ?thesis using True Cons by (simp add: unescape_octal)
  next
    case False
    then have "escape_mount (c # s) = c # escape_mount s" and "c \<noteq> backslash"
      by (auto simp: escape_mount_def kernel_escapes_def)
    then show ?thesis using Cons by (simp add: unescape_plain)
  qed
qed

text \<open>A name without the separators the kernel does not escape stays one word.\<close>

definition mount_text :: "string \<Rightarrow> bool" where
  "mount_text s \<longleftrightarrow> s \<noteq> [] \<and> list_all (\<lambda>c. is_space c \<longrightarrow> c \<in> set kernel_escapes) s"

lemma octal_escape_word: "c \<in> set kernel_escapes \<Longrightarrow> plain_word (octal_escape c)"
proof -
  have "list_all (\<lambda>c. plain_word (octal_escape c)) kernel_escapes" by code_simp
  then show "c \<in> set kernel_escapes \<Longrightarrow> ?thesis" by (simp add: list_all_iff)
qed

lemma escape_mount_word: "mount_text s \<Longrightarrow> plain_word (escape_mount s)"
proof -
  assume s: "mount_text s"
  have "list_all (\<lambda>c. \<not> is_space c) (escape_mount s)"
    using s octal_escape_word by (auto simp: escape_mount_def mount_text_def list_all_iff plain_word_def)
  moreover have "escape_mount s \<noteq> []"
    using s octal_escape_word by (cases s) (auto simp: escape_mount_def mount_text_def plain_word_def)
  ultimately show ?thesis by (simp add: plain_word_def)
qed

section \<open>Properties\<close>

lemma fold_mountinfo:
  "fold parse_mountinfo_step ls (ms, ws) =
     (ms @ List.map_filter (\<lambda>l. case parse_mount_line l of Inr m \<Rightarrow> Some m | Inl _ \<Rightarrow> None)
        (filter (\<lambda>l. l \<noteq> []) ls),
      ws @ List.map_filter (\<lambda>l. case parse_mount_line l of Inl w \<Rightarrow> Some w | Inr _ \<Rightarrow> None)
        (filter (\<lambda>l. l \<noteq> []) ls))"
  by (induction ls arbitrary: ms ws)
    (auto simp: parse_mountinfo_step_def List.map_filter_def split: sum.splits)

lemma map_filter_partition:
  "length (List.map_filter (\<lambda>l. case f l of Inr m \<Rightarrow> Some m | Inl _ \<Rightarrow> None) ls) +
   length (List.map_filter (\<lambda>l. case f l of Inl w \<Rightarrow> Some w | Inr _ \<Rightarrow> None) ls) = length ls"
  by (induction ls) (auto simp: List.map_filter_def split: sum.splits)

text \<open>every non-empty line of mountinfo is accounted for: it becomes exactly one mount or
  exactly one warning, in the order of the lines, and earlier warnings stay in front.
\<close>

theorem mountinfo_accounts_for_every_line:
  "let (mounts, warnings') = parse_mountinfo payload warnings;
       lines = filter (\<lambda>l. l \<noteq> []) (split payload (CHR 0x0A))
   in length mounts + length warnings' = length lines + length warnings \<and>
      take (length warnings) warnings' = warnings \<and>
      mounts = List.map_filter (\<lambda>l. case parse_mount_line l of Inr m \<Rightarrow> Some m | Inl _ \<Rightarrow> None) lines"
  using map_filter_partition [of parse_mount_line "filter (\<lambda>l. l \<noteq> []) (split payload (CHR 0x0A))"]
  by (simp add: parse_mountinfo_def fold_mountinfo)

text \<open>The line the kernel prints for a mount.\<close>

definition kernel_mount_line :: "StorageMount \<Rightarrow> string list \<Rightarrow> string \<Rightarrow> string" where
  "kernel_mount_line m optional super =
     join (CHR '' '')
       ([to_string (sm_mount_id m), to_string (sm_parent_mount_id m),
         to_string (dev_major (sm_device_number m)) @ '':'' @ to_string (dev_minor (sm_device_number m)),
         escape_mount (sm_root m), escape_mount (str_value (sm_path m)),
         join (CHR '','') (sm_options m)] @ optional @
        [''-'', str_value (sm_filesystem m), escape_mount (sm_source m), super])"

definition kernel_mount :: "StorageMount \<Rightarrow> bool" where
  "kernel_mount m \<longleftrightarrow>
     mount_text (sm_root m) \<and> mount_text (str_value (sm_path m)) \<and> mount_text (sm_source m) \<and>
     plain_word (str_value (sm_filesystem m)) \<and> sm_options m \<noteq> [] \<and>
     list_all (\<lambda>o'. plain_word o' \<and> CHR '','' \<notin> set o') (sm_options m) \<and>
     sm_block_device m = None \<and> sm_read_only m = (''ro'' \<in> set (sm_options m))"

lemma to_string_word: "plain_word (to_string v)"
  using print_base_digits [of 10 "unat v"]
  by (auto simp: to_string_def to_string_nat_def plain_word_def list_all_iff digit_in_not_space)

lemma to_string_no_colon: "CHR '':'' \<notin> set (to_string v)"
proof -
  have "\<not> digit_in 10 (CHR '':'')" by code_simp
  then show ?thesis using print_base_digits [of 10 "unat v"]
    by (auto simp: to_string_def to_string_nat_def list_all_iff)
qed

lemma to_string_from_u32: "to_string (from_u32 v) = to_string v"
  by (simp add: to_string_def)

lemma parse_uint_to_string_u32 [simp]: "parse_uint (to_string (v :: u32)) = Some (from_u32 v)"
  by (metis decimal_u64.parse_print to_string_from_u32)

lemma parse_device_number_print:
  "parse_device_number (to_string a @ '':'' @ to_string b) = Some \<lparr>dev_major = a, dev_minor = b\<rparr>"
proof -
  have "find_char (CHR '':'') (to_string a @ '':'' @ to_string b) = Some (length (to_string a))"
    using to_string_no_colon [of a] by (simp add: find_char_append)
  then show ?thesis
    by (simp add: parse_device_number_def not_less)
qed

lemma join_plain_word:
  "xs \<noteq> [] \<Longrightarrow> \<not> is_space d \<Longrightarrow> list_all plain_word xs \<Longrightarrow> plain_word (join d xs)"
  by (induction d xs rule: join.induct) (auto simp: plain_word_def)

text \<open>C25: the mountinfo reader inverts the kernel's printer: a mount whose names contain no
  separator other than the ones the kernel escapes is read back exactly, whatever optional
  fields precede the dash.
\<close>

theorem mount_line_roundtrip:
  assumes m: "kernel_mount m" and opt: "list_all (\<lambda>t. plain_word t \<and> t \<noteq> ''-'') optional"
    and sup: "plain_word super"
  shows "parse_mount_line (kernel_mount_line m optional super) = Inr m"
proof -
  let ?num = "to_string (dev_major (sm_device_number m)) @ '':'' @ to_string (dev_minor (sm_device_number m))"
  let ?ws = "[to_string (sm_mount_id m), to_string (sm_parent_mount_id m), ?num,
      escape_mount (sm_root m), escape_mount (str_value (sm_path m)), join (CHR '','') (sm_options m)]
      @ optional @ [''-'', str_value (sm_filesystem m), escape_mount (sm_source m), super]"
  have sp: "\<not> is_space (CHR '','')" "\<not> is_space (CHR '':'')" "\<not> is_space (CHR ''-'')"
    by code_simp+
  have "plain_word ?num"
    using to_string_word [of "dev_major (sm_device_number m)"]
      to_string_word [of "dev_minor (sm_device_number m)"] sp
    by (simp add: plain_word_def)
  moreover have "plain_word (join (CHR '','') (sm_options m))"
    using m sp by (intro join_plain_word) (auto simp: kernel_mount_def list_all_iff)
  moreover have "plain_word ''-''" using sp by (simp add: plain_word_def)
  moreover have "list_all plain_word optional" using opt by (simp add: list_all_iff)
  ultimately have "list_all plain_word ?ws"
    using m sup by (simp add: to_string_word escape_mount_word kernel_mount_def)
  then have tok: "tokens (kernel_mount_line m optional super) = ?ws"
    unfolding kernel_mount_line_def by (rule tokens_join)
  have dash: "dropWhile (\<lambda>t. t \<noteq> ''-'') (optional @ ''-'' # rest) = ''-'' # rest" for rest
    using opt by (induction optional) auto
  have opts: "split (join (CHR '','') (sm_options m)) (CHR '','') = sm_options m"
    using m by (intro split_join) (auto simp: kernel_mount_def list_all_iff)
  have "parse_mount_line (kernel_mount_line m optional super) = Inr (StorageMount_default
      \<lparr>sm_mount_id := sm_mount_id m, sm_parent_mount_id := sm_parent_mount_id m,
       sm_device_number := \<lparr>dev_major = dev_major (sm_device_number m),
         dev_minor = dev_minor (sm_device_number m)\<rparr>,
       sm_root := sm_root m, sm_path := NamedString (str_value (sm_path m)),
       sm_filesystem := NamedString (str_value (sm_filesystem m)), sm_source := sm_source m,
       sm_options := sm_options m, sm_read_only := ''ro'' \<in> set (sm_options m)\<rparr>)"
    unfolding parse_mount_line_def tok
    by (simp add: dash parse_device_number_print [simplified] opts Let_def list_ex_iff)
  also have "\<dots> = Inr m"
    using m by (cases m) (simp add: kernel_mount_def StorageMount_default_def)
  finally show ?thesis .
qed

definition sample_mount :: StorageMount where
  "sample_mount = StorageMount_default
     \<lparr>sm_mount_id := 36, sm_parent_mount_id := 35, sm_device_number := \<lparr>dev_major = 98, dev_minor = 0\<rparr>,
      sm_root := ''/mnt1'', sm_path := NamedString ''/mnt 2'', sm_filesystem := NamedString ''ext3'',
      sm_source := ''/dev/root'', sm_options := [''ro'', ''noatime''], sm_read_only := True\<rparr>"

theorem mount_line_roundtrip_witness:
  "parse_mount_line (kernel_mount_line sample_mount [''master:1''] ''rw,errors=continue'') =
     Inr sample_mount"
proof -
  have "kernel_mount sample_mount" by code_simp
  moreover have "list_all (\<lambda>t. plain_word t \<and> t \<noteq> ''-'') [''master:1'']" by code_simp
  moreover have "plain_word ''rw,errors=continue''" by code_simp
  ultimately show ?thesis by (rule mount_line_roundtrip)
qed

text \<open>the kernel does not escape a carriage return, but the stream extraction treats it as a
  separator: a mount point with one in its name is not read back, and its tail is taken for the
  mount options.
\<close>

theorem mount_carriage_return_misread:
  "let m = sample_mount\<lparr>sm_path := NamedString (''/mnt'' @ [CHR 0x0D] @ ''usb'')\<rparr>;
       line = kernel_mount_line m [] ''rw''
   in parse_mount_line line =
        Inr (m\<lparr>sm_path := NamedString ''/mnt'', sm_options := [''usb''], sm_read_only := False\<rparr>)"
  by code_simp

end
