(* ===== verification/Accelerator_Selection.thy ===== *)
theory Accelerator_Selection
  imports Raw_Store Parse_Utils
begin

text \<open>
  \<open>src/resolver/accelerator_selection.cpp\<close>: which devices of a vendor the environment of the
  process selects (\<open>CUDA_VISIBLE_DEVICES\<close>, \<open>ROCR_VISIBLE_DEVICES\<close>, \<open>HIP_VISIBLE_DEVICES\<close>,
  \<open>ZE_AFFINITY_MASK\<close>, \<open>ONEAPI_DEVICE_SELECTOR\<close>). A selection is a list of indices into the device
  list. \<open>std::sort\<close> leaves the order of equal keys open; the model keeps them in their old order.
\<close>

section \<open>Shared definitions\<close>

datatype AcceleratorVendor = Nvidia | Amd | Intel

definition vendor_name :: "AcceleratorVendor \<Rightarrow> string" where
  "vendor_name vendor =
     (case vendor of Nvidia \<Rightarrow> ''NVIDIA'' | Amd \<Rightarrow> ''AMD'' | Intel \<Rightarrow> ''Intel'')"

definition accelerator_vendor :: "string \<Rightarrow> AcceleratorVendor option" where
  "accelerator_vendor name =
     (if name = ''NVIDIA'' then Some Nvidia else if name = ''AMD'' then Some Amd
      else if name = ''Intel'' then Some Intel else None)"

record RuntimeVisibility =
  rv_vendor :: AcceleratorVendor
  rv_visible :: "AcceleratorId list"

type_synonym DeviceIndices = "nat list"

definition environment_value :: "ExecutionContext \<Rightarrow> string \<Rightarrow> string option" where
  "environment_value execution name = map_of (env_entries (ex_environment execution)) name"

primrec append_unique :: "DeviceIndices \<Rightarrow> DeviceIndices \<Rightarrow> DeviceIndices" where
  "append_unique [] target = target"
| "append_unique (index # source) target =
     append_unique source (if index \<in> set target then target else target @ [index])"

definition matches_uuid :: "AcceleratorDevice \<Rightarrow> string \<Rightarrow> bool" where
  "matches_uuid device token \<longleftrightarrow>
     (case acc_uuid device of Some u \<Rightarrow> prefix token u | None \<Rightarrow> False) \<or>
     (case (acc_parent_uuid device, acc_gpu_instance_id device, acc_compute_instance_id device) of
        (Some p, Some g, Some c) \<Rightarrow>
          ''MIG-'' @ p @ ''/'' @ to_string g @ ''/'' @ to_string c = token
      | _ \<Rightarrow> False)"

datatype OrdinalOrder = Candidate | PhysicalId

section \<open>Comma-separated selectors\<close>

definition token_matches ::
  "Accelerators \<Rightarrow> DeviceIndices \<Rightarrow> DeviceIndices \<Rightarrow> OrdinalOrder \<Rightarrow> string \<Rightarrow> DeviceIndices" where
  "token_matches devices pool uuid_pool order token =
     (case parse_uint token of
        Some number \<Rightarrow>
          (case order of
             Candidate \<Rightarrow> if unat number < length pool then [pool ! unat number] else []
           | PhysicalId \<Rightarrow>
               filter (\<lambda>index. from_u32 (id_value (acc_id (acc_devices devices ! index))) = number) pool)
      | None \<Rightarrow>
          if prefix ''GPU-'' token \<or> prefix ''MIG-'' token
          then filter (\<lambda>index. matches_uuid (acc_devices devices ! index) token) uuid_pool
          else [])"

definition invalid_selector :: "string \<Rightarrow> string \<Rightarrow> string" where
  "invalid_selector variable token =
     ''[visibility] '' @ variable @ '': invalid or ambiguous selector '' @ [CHR 0x27] @ token @
     [CHR 0x27] @ ''; later entries ignored''"

definition bad_matches :: "string \<Rightarrow> DeviceIndices \<Rightarrow> bool" where
  "bad_matches token matches \<longleftrightarrow>
     matches = [] \<or> ((prefix ''GPU-'' token \<or> prefix ''MIG-'' token) \<and> length matches \<noteq> 1)"

fun select_tokens ::
  "(string \<Rightarrow> DeviceIndices) \<Rightarrow> string \<Rightarrow> string list \<Rightarrow> DeviceIndices \<Rightarrow> string list \<Rightarrow>
   DeviceIndices \<times> string list" where
  "select_tokens find_matches variable [] selected warnings = (selected, warnings)"
| "select_tokens find_matches variable (part # ps) selected warnings =
     (let token = trim part in
      if token = ''-1'' \<or> token = ''none'' then (selected, warnings)
      else
        let matches = find_matches token in
        if bad_matches token matches then (selected, warnings @ [invalid_selector variable token])
        else select_tokens find_matches variable ps (append_unique matches selected) warnings)"

definition select_csv ::
  "Accelerators \<Rightarrow> DeviceIndices \<Rightarrow> DeviceIndices \<Rightarrow> string \<Rightarrow> string \<Rightarrow> OrdinalOrder \<Rightarrow> string list \<Rightarrow>
   DeviceIndices \<times> string list" where
  "select_csv devices pool uuid_pool value variable order warnings =
     (if trim value = [] then ([], warnings)
      else select_tokens (token_matches devices pool uuid_pool order) variable
        (split value (CHR '','')) [] warnings)"

section \<open>SYCL selectors\<close>

record SyclFilter =
  sy_backend :: string
  sy_selectors :: "string list"
  sy_exclude :: bool

definition sycl_backends :: "string list" where
  "sycl_backends = [''*'', ''level_zero'', ''opencl'', ''cuda'', ''hip'', ''native_cpu'']"

definition sycl_selector :: "string \<Rightarrow> bool" where
  "sycl_selector selector \<longleftrightarrow>
     selector = ''*'' \<or> selector = ''gpu'' \<or> selector = ''cpu'' \<or> parse_uint selector \<noteq> None"

definition parse_sycl_clause :: "string \<Rightarrow> bool \<Rightarrow> SyclFilter option" where
  "parse_sycl_clause text exclude =
     (case split text (CHR '':'') of
        [b, s] \<Rightarrow>
          (let backend = trim b; selectors = map trim (split s (CHR '','')) in
           if backend \<in> set sycl_backends \<and> list_all sycl_selector selectors
           then Some \<lparr>sy_backend = backend, sy_selectors = selectors, sy_exclude = exclude\<rparr>
           else None)
      | _ \<Rightarrow> None)"

fun parse_sycl_clauses :: "string list \<Rightarrow> bool \<Rightarrow> SyclFilter list \<Rightarrow> SyclFilter list option" where
  "parse_sycl_clauses [] discarding filters = Some filters"
| "parse_sycl_clauses (clause # cs) discarding filters =
     (let text = map to_lower (trim clause); exclude = prefix ''!'' text in
      if \<not> exclude \<and> discarding then None
      else case parse_sycl_clause (if exclude then drop 1 text else text) exclude of
             None \<Rightarrow> None
           | Some f \<Rightarrow> parse_sycl_clauses cs (discarding \<or> exclude) (filters @ [f]))"

definition parse_sycl :: "string \<Rightarrow> SyclFilter list option" where
  "parse_sycl value = parse_sycl_clauses (split value (CHR '';'')) False []"

definition unsupported_selector :: string where
  "unsupported_selector =
     ''[visibility] unsupported ONEAPI_DEVICE_SELECTOR; Intel selection left unchanged''"

definition ordinal_unavailable :: string where
  "ordinal_unavailable =
     ''[visibility] SYCL backend ordinal unavailable; Intel selection left unchanged''"

text \<open>The devices a filter names; \<^const>\<open>None\<close> when it needs an enumeration that is not available.\<close>

fun sycl_matches ::
  "DeviceIndices \<Rightarrow> bool \<Rightarrow> string \<Rightarrow> string list \<Rightarrow> DeviceIndices \<Rightarrow> DeviceIndices option" where
  "sycl_matches candidates runtime_known backend [] matches = Some matches"
| "sycl_matches candidates runtime_known backend (selector # ss) matches =
     (if selector = ''gpu'' \<or> selector = ''*''
      then sycl_matches candidates runtime_known backend ss (append_unique candidates matches)
      else case parse_uint selector of
             None \<Rightarrow> sycl_matches candidates runtime_known backend ss matches
           | Some ordinal \<Rightarrow>
               if backend \<noteq> ''level_zero'' \<or> \<not> runtime_known then None
               else sycl_matches candidates runtime_known backend ss
                 (if unat ordinal < length candidates
                  then append_unique [candidates ! unat ordinal] matches else matches))"

fun sycl_apply ::
  "DeviceIndices \<Rightarrow> bool \<Rightarrow> SyclFilter list \<Rightarrow> DeviceIndices \<Rightarrow> DeviceIndices option" where
  "sycl_apply candidates runtime_known [] selected = Some selected"
| "sycl_apply candidates runtime_known (f # fs) selected =
     (if sy_backend f \<noteq> ''*'' \<and> sy_backend f \<noteq> ''level_zero'' \<and> sy_backend f \<noteq> ''opencl''
      then sycl_apply candidates runtime_known fs selected
      else case sycl_matches candidates runtime_known (sy_backend f) (sy_selectors f) [] of
             None \<Rightarrow> None
           | Some matches \<Rightarrow>
               sycl_apply candidates runtime_known fs
                 (if sy_exclude f then filter (\<lambda>index. index \<notin> set matches) selected
                  else append_unique matches selected))"

definition select_sycl ::
  "DeviceIndices \<Rightarrow> string \<Rightarrow> bool \<Rightarrow> string list \<Rightarrow> DeviceIndices \<times> string list" where
  "select_sycl candidates value runtime_known warnings =
     (if trim value = [] then ([], warnings)
      else case parse_sycl value of
             None \<Rightarrow> (candidates, warnings @ [unsupported_selector])
           | Some filters \<Rightarrow>
               (let has_accept = list_ex (\<lambda>f. \<not> sy_exclude f) filters in
                case sycl_apply candidates runtime_known filters (if has_accept then [] else candidates) of
                  None \<Rightarrow> (candidates, warnings @ [ordinal_unavailable])
                | Some selected \<Rightarrow> (selected, warnings)))"

section \<open>The environment of a vendor\<close>

text \<open>The comparison of \<open>CUDA_DEVICE_ORDER=PCI_BUS_ID\<close>: devices with an address first, by address.\<close>

definition pci_order_key :: "Accelerators \<Rightarrow> nat \<Rightarrow> bool \<times> (u16 \<times> u8 \<times> u8 \<times> u8) \<times> nat" where
  "pci_order_key devices index =
     (case acc_pci_address (acc_devices devices ! index) of
        Some a \<Rightarrow> (False, (pci_domain a, pci_bus a, pci_device a, pci_function a), 0)
      | None \<Rightarrow> (True, (0, 0, 0, 0), index))"

definition cuda_inferred :: string where
  "cuda_inferred = ''[visibility] CUDA runtime unavailable; visibility inferred from inventory and environment''"

definition hip_inferred :: string where
  "hip_inferred = ''[visibility] HIP runtime unavailable; AMD ordinals use DRM inventory order''"

definition subdevice_mask :: string where
  "subdevice_mask = ''[visibility] Level Zero subdevice mask unavailable; Intel selection left unchanged''"

definition select_nvidia ::
  "Accelerators \<Rightarrow> DeviceIndices \<Rightarrow> ExecutionContext \<Rightarrow> bool \<Rightarrow> string list \<Rightarrow>
   DeviceIndices option \<times> string list" where
  "select_nvidia devices candidates execution runtime_known warnings =
     (case environment_value execution ''CUDA_VISIBLE_DEVICES'' of
        None \<Rightarrow> (None, warnings)
      | Some value \<Rightarrow>
          if runtime_known then (None, warnings)
          else
            let physical = filter (\<lambda>i. acc_parent_uuid (acc_devices devices ! i) = None) candidates;
                pci_order = (environment_value execution ''CUDA_DEVICE_ORDER'' = Some ''PCI_BUS_ID'');
                pool = (if pci_order then sort_key (pci_order_key devices) physical else physical);
                warnings1 = (if candidates \<noteq> [] then warnings @ [cuda_inferred] else warnings);
                (selected, warnings2) = select_csv devices pool candidates value ''CUDA_VISIBLE_DEVICES''
                  (if pci_order then Candidate else PhysicalId) warnings1
            in (Some selected, warnings2))"

record SelectionState =
  sel_selected :: DeviceIndices
  sel_filtered :: bool
  sel_warnings :: "string list"

text \<open>The lambda \<open>apply\<close>, with the variables it captures by reference as its state.\<close>

definition apply_variable ::
  "Accelerators \<Rightarrow> ExecutionContext \<Rightarrow> string \<Rightarrow> SelectionState \<Rightarrow> SelectionState" where
  "apply_variable devices execution name st =
     (case environment_value execution name of
        None \<Rightarrow> st
      | Some value \<Rightarrow>
          (let (selected, warnings) = select_csv devices (sel_selected st) (sel_selected st) value name
                 Candidate (sel_warnings st)
           in \<lparr>sel_selected = selected, sel_filtered = True, sel_warnings = warnings\<rparr>))"

definition select_amd :: "Accelerators \<Rightarrow> ExecutionContext \<Rightarrow> bool \<Rightarrow> SelectionState \<Rightarrow> SelectionState" where
  "select_amd devices execution runtime_known st =
     (if runtime_known then st
      else
        let st1 = apply_variable devices execution ''HIP_VISIBLE_DEVICES''
              (apply_variable devices execution ''ROCR_VISIBLE_DEVICES'' st)
        in if sel_filtered st1 then st1\<lparr>sel_warnings := sel_warnings st1 @ [hip_inferred]\<rparr> else st1)"

definition select_intel :: "Accelerators \<Rightarrow> ExecutionContext \<Rightarrow> bool \<Rightarrow> SelectionState \<Rightarrow> SelectionState" where
  "select_intel devices execution runtime_known st =
     (let st1 = (if runtime_known then st
            else case environment_value execution ''ZE_AFFINITY_MASK'' of
                   Some affinity \<Rightarrow>
                     if find_char (CHR ''.'') affinity \<noteq> None
                     then st\<lparr>sel_warnings := sel_warnings st @ [subdevice_mask]\<rparr>
                     else apply_variable devices execution ''ZE_AFFINITY_MASK'' st
                 | None \<Rightarrow> apply_variable devices execution ''ZE_AFFINITY_MASK'' st)
      in case environment_value execution ''ONEAPI_DEVICE_SELECTOR'' of
           None \<Rightarrow> st1
         | Some value \<Rightarrow>
             (let (selected, warnings) =
                select_sycl (sel_selected st1) value runtime_known (sel_warnings st1)
              in \<lparr>sel_selected = selected, sel_filtered = True, sel_warnings = warnings\<rparr>))"

definition select_accelerator_environment ::
  "Accelerators \<Rightarrow> AcceleratorVendor \<Rightarrow> DeviceIndices \<Rightarrow> ExecutionContext \<Rightarrow> bool \<Rightarrow> string list \<Rightarrow>
   DeviceIndices option \<times> string list" where
  "select_accelerator_environment devices vendor candidates execution runtime_known warnings =
     (let st = \<lparr>sel_selected = candidates, sel_filtered = False, sel_warnings = warnings\<rparr>;
          result = (\<lambda>st. (if sel_filtered st then Some (sel_selected st) else None, sel_warnings st))
      in case vendor of
           Nvidia \<Rightarrow> select_nvidia devices candidates execution runtime_known warnings
         | Amd \<Rightarrow> result (select_amd devices execution runtime_known st)
         | Intel \<Rightarrow> result (select_intel devices execution runtime_known st))"

section \<open>Selections stay within their pool\<close>

lemma set_append_unique [simp]: "set (append_unique src tgt) = set src \<union> set tgt"
  by (induction src arbitrary: tgt) auto

lemma distinct_append_unique: "distinct tgt \<Longrightarrow> distinct (append_unique src tgt)"
  by (induction src arbitrary: tgt) auto

text \<open>A selection among a pool: indices of the pool, none of them twice.\<close>

definition selection_of :: "DeviceIndices \<Rightarrow> DeviceIndices \<Rightarrow> bool" where
  "selection_of pool selected \<longleftrightarrow> set selected \<subseteq> set pool \<and> distinct selected"

lemma selection_of_trans: "selection_of a b \<Longrightarrow> selection_of b c \<Longrightarrow> selection_of a c"
  by (auto simp: selection_of_def)

lemma selection_of_append_unique:
  "selection_of pool selected \<Longrightarrow> set matches \<subseteq> set pool \<Longrightarrow> selection_of pool (append_unique matches selected)"
  by (simp add: selection_of_def distinct_append_unique)

lemma token_matches_pool:
  "set pool \<subseteq> set all \<Longrightarrow> set uuid_pool \<subseteq> set all \<Longrightarrow>
   set (token_matches devices pool uuid_pool order token) \<subseteq> set all"
  by (auto simp: token_matches_def split: option.splits OrdinalOrder.splits if_splits dest: nth_mem)

lemma select_tokens_selection:
  "(\<And>t. set (fm t) \<subseteq> set pool) \<Longrightarrow> selection_of pool selected \<Longrightarrow>
   selection_of pool (fst (select_tokens fm var ts selected w))"
  by (induction fm var ts selected w rule: select_tokens.induct)
    (simp_all add: Let_def selection_of_append_unique)

lemma select_csv_selection:
  "set pool \<subseteq> set all \<Longrightarrow> set uuid_pool \<subseteq> set all \<Longrightarrow>
   selection_of all (fst (select_csv devices pool uuid_pool value var order w))"
  by (simp add: select_csv_def select_tokens_selection token_matches_pool selection_of_def [of _ "[]"])

lemma sycl_matches_pool:
  "sycl_matches cands rk b ss ms = Some r \<Longrightarrow> set ms \<subseteq> set cands \<Longrightarrow> set r \<subseteq> set cands"
  by (induction cands rk b ss ms rule: sycl_matches.induct) (auto split: if_splits option.splits)

lemma sycl_apply_selection:
  "sycl_apply cands rk fs sel = Some r \<Longrightarrow> selection_of cands sel \<Longrightarrow> selection_of cands r"
proof (induction cands rk fs sel rule: sycl_apply.induct)
  case (1 cands rk sel)
  then show ?case by simp
next
  case (2 cands rk f fs sel)
  have drop: "selection_of cands (filter P sel)" for P
    using 2(4) by (auto simp: selection_of_def)
  show ?case
    using 2 drop sycl_matches_pool [of cands rk "sy_backend f" "sy_selectors f" "[]"]
    by (auto simp: selection_of_append_unique split: if_splits option.splits)
qed

lemma select_sycl_selection:
  "distinct cands \<Longrightarrow> selection_of cands (fst (select_sycl cands value rk w))"
proof -
  assume d: "distinct cands"
  then have "selection_of cands cands" "selection_of cands []" by (simp_all add: selection_of_def)
  then show ?thesis
    using sycl_apply_selection [of cands rk]
    by (auto simp: select_sycl_def Let_def split: option.split)
qed

lemma apply_variable_selection:
  "selection_of cands (sel_selected st) \<Longrightarrow>
   selection_of cands (sel_selected (apply_variable devices ex name st))"
  using select_csv_selection [of "sel_selected st" cands "sel_selected st" devices _ name Candidate]
  by (auto simp: apply_variable_def case_prod_unfold Let_def selection_of_def split: option.split)

section \<open>What a comma-separated variable selects\<close>

text \<open>The list without repetitions, each element at its first place.\<close>

definition dedup :: "'a list \<Rightarrow> 'a list" where
  "dedup xs = rev (remdups (rev xs))"

lemma distinct_dedup [simp]: "distinct (dedup xs)" and set_dedup [simp]: "set (dedup xs) = set xs"
  by (simp_all add: dedup_def)

lemma dedup_dedup_append: "dedup (dedup xs @ ys) = dedup (xs @ ys)"
  by (simp add: dedup_def remdups_append2)

lemma append_unique_eq: "distinct tgt \<Longrightarrow> append_unique src tgt = dedup (tgt @ src)"
proof (induction src arbitrary: tgt)
  case Nil
  then show ?case by (simp add: dedup_def distinct_remdups_id [of "rev tgt"])
next
  case (Cons x src)
  let ?t = "if x \<in> set tgt then tgt else tgt @ [x]"
  have t: "rev ?t = remdups (x # rev tgt)"
    using Cons.prems by (simp add: distinct_remdups_id [of "rev tgt"])
  have "remdups (rev src @ rev ?t) = remdups (rev src @ x # rev tgt)"
    unfolding t by (rule remdups_append2)
  then have "dedup (?t @ src) = dedup (tgt @ x # src)"
    by (simp only: dedup_def rev_append rev.simps append_assoc append.simps)
  moreover have "distinct ?t" using Cons.prems by simp
  ultimately show ?case using Cons.IH [of ?t] by (simp only: append_unique.simps)
qed

definition terminator :: "string \<Rightarrow> bool" where
  "terminator token \<longleftrightarrow> token = ''-1'' \<or> token = ''none''"

definition usable :: "(string \<Rightarrow> DeviceIndices) \<Rightarrow> string \<Rightarrow> bool" where
  "usable find_matches token \<longleftrightarrow> \<not> terminator token \<and> \<not> bad_matches token (find_matches token)"

lemma select_tokens_eq:
  "select_tokens fm var ts (dedup sel) w =
     (dedup (sel @ concat (map fm (takeWhile (usable fm) (map trim ts)))),
      w @ (case dropWhile (usable fm) (map trim ts) of
             [] \<Rightarrow> [] | t # _ \<Rightarrow> if terminator t then [] else [invalid_selector var t]))"
proof (induction ts arbitrary: sel)
  case Nil
  then show ?case by simp
next
  case (Cons t ts)
  show ?case
  proof (cases "usable fm (trim t)")
    case True
    have "append_unique (fm (trim t)) (dedup sel) = dedup (sel @ fm (trim t))"
      by (simp add: append_unique_eq dedup_dedup_append)
    then show ?thesis
      using True Cons.IH [of "sel @ fm (trim t)"] by (simp add: usable_def terminator_def Let_def)
  next
    case False
    then show ?thesis by (auto simp: usable_def terminator_def Let_def)
  qed
qed

lemma select_csv_eq:
  "select_csv devices pool uuid_pool value variable order warnings =
     (if trim value = [] then ([], warnings)
      else
        let matches = token_matches devices pool uuid_pool order;
            tokens = map trim (split value (CHR '',''))
        in (dedup (concat (map matches (takeWhile (usable matches) tokens))),
            warnings @ (case dropWhile (usable matches) tokens of
               [] \<Rightarrow> [] | t # _ \<Rightarrow> if terminator t then [] else [invalid_selector variable t])))"
  using select_tokens_eq [of "token_matches devices pool uuid_pool order" variable
      "split value (CHR '','')" "[]" warnings]
  by (simp add: select_csv_def Let_def dedup_def [of "[]"])

lemma select_csv_frame:
  "select_csv devices pool uuid_pool value variable order (w @ u) =
     apsnd ((@) w) (select_csv devices pool uuid_pool value variable order u)"
  by (simp add: select_csv_eq Let_def)

text \<open>a comma-separated variable selects, in order and without repetition, the matches of its
  tokens up to the first one that terminates the list or is invalid or ambiguous; only the latter
  is reported; and an empty value selects nothing.
\<close>

theorem select_csv_prefix:
  "select_csv devices pool uuid_pool value variable order warnings =
     (if trim value = [] then ([], warnings)
      else
        let matches = token_matches devices pool uuid_pool order;
            tokens = map trim (split value (CHR '',''))
        in (dedup (concat (map matches (takeWhile (usable matches) tokens))),
            warnings @ (case dropWhile (usable matches) tokens of
               [] \<Rightarrow> [] | t # _ \<Rightarrow> if terminator t then [] else [invalid_selector variable t])))"
  by (rule select_csv_eq)

section \<open>What the environment of a vendor selects\<close>

lemma apply_variable_filtered:
  "sel_filtered (apply_variable devices ex name st) \<longleftrightarrow>
     sel_filtered st \<or> environment_value ex name \<noteq> None"
  by (auto simp: apply_variable_def case_prod_unfold Let_def split: option.split)

lemma select_nvidia_selection:
  "fst (select_nvidia devices cands ex rk w) = Some sel \<Longrightarrow> selection_of cands sel"
  by (auto simp: select_nvidia_def Let_def case_prod_unfold split: option.splits if_splits
      intro!: select_csv_selection)

lemma select_amd_selection:
  "selection_of cands (sel_selected st) \<Longrightarrow> selection_of cands (sel_selected (select_amd devices ex rk st))"
  by (simp add: select_amd_def Let_def apply_variable_selection)

lemma select_intel_selection:
  assumes "selection_of cands (sel_selected st)"
  shows "selection_of cands (sel_selected (select_intel devices ex rk st))"
proof -
  define st1 where "st1 = (if rk then st
      else case environment_value ex ''ZE_AFFINITY_MASK'' of
             Some affinity \<Rightarrow> if find_char (CHR ''.'') affinity \<noteq> None
               then st\<lparr>sel_warnings := sel_warnings st @ [subdevice_mask]\<rparr>
               else apply_variable devices ex ''ZE_AFFINITY_MASK'' st
           | None \<Rightarrow> apply_variable devices ex ''ZE_AFFINITY_MASK'' st)"
  have 1: "selection_of cands (sel_selected st1)"
    using assms apply_variable_selection by (simp add: st1_def split: option.split)
  then have "distinct (sel_selected st1)" by (simp add: selection_of_def)
  from selection_of_trans [OF 1 select_sycl_selection [OF this]] 1 show ?thesis
    by (simp add: select_intel_def st1_def [symmetric] Let_def case_prod_unfold split: option.split)
qed

text \<open>Warnings are appended, and what is there before does not matter.\<close>

abbreviation push_selection :: "string list \<Rightarrow> SelectionState \<Rightarrow> SelectionState" where
  "push_selection w \<equiv> sel_warnings_update (\<lambda>u. w @ u)"

lemma apply_variable_push:
  "apply_variable devices ex name (push_selection w st) = push_selection w (apply_variable devices ex name st)"
  by (simp add: apply_variable_def case_prod_unfold Let_def select_csv_frame split: option.split)

lemma select_sycl_push:
  "select_sycl cands value rk (w @ u) = apsnd ((@) w) (select_sycl cands value rk u)"
  by (simp add: select_sycl_def Let_def split: option.split)

lemma select_nvidia_push:
  "select_nvidia devices cands ex rk (w @ u) = apsnd ((@) w) (select_nvidia devices cands ex rk u)"
  by (simp add: select_nvidia_def Let_def case_prod_unfold select_csv_frame
      select_csv_frame [of _ _ _ _ _ _ w "u @ _"] split: option.split)

lemma select_amd_push:
  "select_amd devices ex rk (push_selection w st) = push_selection w (select_amd devices ex rk st)"
  by (simp add: select_amd_def Let_def apply_variable_push)

lemma select_intel_push:
  "select_intel devices ex rk (push_selection w st) = push_selection w (select_intel devices ex rk st)"
  by (simp add: select_intel_def Let_def case_prod_unfold apply_variable_push select_sycl_push
      split: option.split)

lemma select_environment_push:
  "select_accelerator_environment devices vendor cands ex rk (w @ u) =
     apsnd ((@) w) (select_accelerator_environment devices vendor cands ex rk u)"
  using select_amd_push [of devices ex rk w "\<lparr>sel_selected = cands, sel_filtered = False, sel_warnings = u\<rparr>"]
    select_intel_push [of devices ex rk w "\<lparr>sel_selected = cands, sel_filtered = False, sel_warnings = u\<rparr>"]
  by (simp add: select_accelerator_environment_def Let_def select_nvidia_push
      split: AcceleratorVendor.split)

text \<open>C12: whatever the environment holds, a selection is made of candidates, none twice; and there is
  no selection exactly when no variable of the vendor applies: for NVIDIA and AMD also when the
  runtime has been asked, for Intel when only a subdevice mask is set.
\<close>

theorem select_environment_within:
  assumes "distinct candidates"
  shows "(case fst (select_accelerator_environment devices vendor candidates execution runtime_known warnings) of
       Some selected \<Rightarrow> selection_of candidates selected | None \<Rightarrow> True) \<and>
     (fst (select_accelerator_environment devices vendor candidates execution runtime_known warnings) = None \<longleftrightarrow>
       (let unset = (\<lambda>name. environment_value execution name = None) in
        case vendor of
          Nvidia \<Rightarrow> unset ''CUDA_VISIBLE_DEVICES'' \<or> runtime_known
        | Amd \<Rightarrow> (unset ''ROCR_VISIBLE_DEVICES'' \<and> unset ''HIP_VISIBLE_DEVICES'') \<or> runtime_known
        | Intel \<Rightarrow> unset ''ONEAPI_DEVICE_SELECTOR'' \<and>
            (runtime_known \<or> (case environment_value execution ''ZE_AFFINITY_MASK'' of
               None \<Rightarrow> True | Some affinity \<Rightarrow> find_char (CHR ''.'') affinity \<noteq> None))))"
proof -
  let ?st = "\<lparr>sel_selected = candidates, sel_filtered = False, sel_warnings = warnings\<rparr>"
  have start: "selection_of candidates (sel_selected ?st)" using assms by (simp add: selection_of_def)
  show ?thesis
  proof (cases vendor)
    case Nvidia
    show ?thesis
      using select_nvidia_selection [of devices candidates execution runtime_known warnings]
      by (auto simp: select_accelerator_environment_def Nvidia select_nvidia_def Let_def
          case_prod_unfold split: option.split)
  next
    case Amd
    have "sel_filtered (select_amd devices execution runtime_known ?st) \<longleftrightarrow>
        \<not> runtime_known \<and> (environment_value execution ''ROCR_VISIBLE_DEVICES'' \<noteq> None \<or>
          environment_value execution ''HIP_VISIBLE_DEVICES'' \<noteq> None)"
      by (auto simp: select_amd_def Let_def apply_variable_filtered)
    then show ?thesis
      using select_amd_selection [OF start, of devices execution runtime_known]
      by (auto simp: select_accelerator_environment_def Amd Let_def)
  next
    case Intel
    have "sel_filtered (select_intel devices execution runtime_known ?st) \<longleftrightarrow>
        environment_value execution ''ONEAPI_DEVICE_SELECTOR'' \<noteq> None \<or>
        (\<not> runtime_known \<and> (case environment_value execution ''ZE_AFFINITY_MASK'' of
           None \<Rightarrow> False | Some affinity \<Rightarrow> find_char (CHR ''.'') affinity = None))"
      by (auto simp: select_intel_def Let_def case_prod_unfold apply_variable_filtered
          split: option.split)
    then show ?thesis
      using select_intel_selection [OF start, of devices execution runtime_known]
      by (auto simp: select_accelerator_environment_def Intel Let_def split: option.split)
  qed
qed

text \<open>Two GPUs of one vendor, the second one hidden by an invalid ordinal.\<close>

definition two_gpus :: Accelerators where
  "two_gpus = \<lparr>acc_devices = [AcceleratorDevice_default\<lparr>acc_vendor := NamedString ''NVIDIA''\<rparr>,
     AcceleratorDevice_default\<lparr>acc_id := StrongId 1, acc_vendor := NamedString ''NVIDIA''\<rparr>]\<rparr>"

definition cuda_execution :: "string \<Rightarrow> ExecutionContext" where
  "cuda_execution value = ExecutionContext_default
     \<lparr>ex_environment := \<lparr>env_entries = [(''CUDA_VISIBLE_DEVICES'', value)]\<rparr>\<rparr>"

theorem select_environment_within_witness:
  "fst (select_accelerator_environment two_gpus Nvidia [0, 1] (cuda_execution ''1,7,0'') False []) = Some [1] \<and>
   selection_of [0, 1] [1]"
proof -
  have "fst (select_accelerator_environment two_gpus Nvidia [0, 1] (cuda_execution ''1,7,0'') False []) = Some [1]"
    by code_simp
  then show ?thesis
    using select_environment_within [of "[0, 1]" two_gpus Nvidia "cuda_execution ''1,7,0''" False "[]"]
    by simp
qed

end
