(* ===== verification/Accelerator_Visibility.thy ===== *)
theory Accelerator_Visibility
  imports Accelerator_Selection Resource
begin

text \<open>
  \<open>src/resolver/accelerator_visibility.cpp\<close>: which accelerators the current process can use. The
  stages mutate one flag per device in place; the model updates the device list at the same
  indices, in the order of the source.
\<close>

section \<open>Definitions\<close>

definition selection_variables :: "string list" where
  "selection_variables =
     [''CUDA_VISIBLE_DEVICES'', ''HIP_VISIBLE_DEVICES'', ''ROCR_VISIBLE_DEVICES'', ''ZE_AFFINITY_MASK'',
      ''ONEAPI_DEVICE_SELECTOR'']"

definition has_selection_environment :: "ExecutionContext \<Rightarrow> bool" where
  "has_selection_environment execution \<longleftrightarrow>
     list_ex (\<lambda>(name, _). name \<in> set selection_variables) (env_entries (ex_environment execution))"

definition has_children :: "AcceleratorDevice list \<Rightarrow> AcceleratorDevice \<Rightarrow> bool" where
  "has_children devices parent \<longleftrightarrow>
     acc_uuid parent \<noteq> None \<and> list_ex (\<lambda>child. acc_parent_uuid child = acc_uuid parent) devices"

text \<open>The indices at which \<open>P\<close> holds, in order.\<close>

definition indices_where :: "('a \<Rightarrow> bool) \<Rightarrow> 'a list \<Rightarrow> nat list" where
  "indices_where P xs = filter (\<lambda>i. P (xs ! i)) [0..<length xs]"

fun runtime_indices ::
  "AcceleratorDevice list \<Rightarrow> AcceleratorVendor \<Rightarrow> RuntimeVisibility list \<Rightarrow> DeviceIndices option" where
  "runtime_indices devices vendor [] = None"
| "runtime_indices devices vendor (observation # os) =
     (if rv_vendor observation \<noteq> vendor then runtime_indices devices vendor os
      else Some (concat (map (\<lambda>i. indices_where (\<lambda>d. acc_id d = i) devices) (rv_visible observation))))"

definition set_visible :: "bool \<Rightarrow> AcceleratorDevice \<Rightarrow> AcceleratorDevice" where
  "set_visible v device = device\<lparr>acc_visible_to_current_process := v\<rparr>"

definition selected_device :: "AcceleratorDevice list \<Rightarrow> DeviceIndices \<Rightarrow> nat \<Rightarrow> bool" where
  "selected_device devices selected index \<longleftrightarrow>
     (let device = devices ! index;
          via_parent = (acc_parent_uuid device \<noteq> None \<and>
            list_ex (\<lambda>parent. acc_uuid (devices ! parent) = acc_parent_uuid device) selected)
      in (index \<in> set selected \<or> via_parent) \<and> \<not> has_children devices device)"

definition apply_selection ::
  "DeviceIndices \<Rightarrow> DeviceIndices \<Rightarrow> AcceleratorDevice list \<Rightarrow> AcceleratorDevice list" where
  "apply_selection candidates selected devices =
     fold (\<lambda>index devices.
         devices[index := set_visible (selected_device devices selected index) (devices ! index)])
       candidates devices"

definition phantom_accelerator :: "AcceleratorId \<Rightarrow> string" where
  "phantom_accelerator i = ''[visibility_mismatch] accelerator_'' @ to_string (id_value i) @
     '': in_visible_accelerator_ids but accelerator does not exist in model''"

definition legacy_warnings :: "AcceleratorDevice list \<Rightarrow> AcceleratorId list \<Rightarrow> string list" where
  "legacy_warnings devices ids =
     map phantom_accelerator (filter (\<lambda>i. \<not> list_ex (\<lambda>d. acc_id d = i) devices) ids)"

definition initial_visibility ::
  "AcceleratorDevice list \<Rightarrow> bool \<Rightarrow> AcceleratorId list \<Rightarrow> AcceleratorDevice list" where
  "initial_visibility devices has_environment legacy_ids =
     fold (\<lambda>index devices. let device = devices ! index in
         devices[index := set_visible (\<not> has_children devices device \<and>
           (has_environment \<or> legacy_ids = [] \<or> acc_id device \<in> set legacy_ids)) device])
       [0..<length devices] devices"

definition vendor_candidates :: "AcceleratorDevice list \<Rightarrow> AcceleratorVendor \<Rightarrow> DeviceIndices" where
  "vendor_candidates devices vendor =
     sort_key (\<lambda>i. id_value (acc_id (devices ! i)))
       (indices_where (\<lambda>d. str_value (acc_vendor d) = vendor_name vendor) devices)"

definition resolve_vendor ::
  "ExecutionContext \<Rightarrow> RuntimeVisibility list \<Rightarrow> AcceleratorVendor \<Rightarrow>
   AcceleratorDevice list \<times> string list \<Rightarrow> AcceleratorDevice list \<times> string list" where
  "resolve_vendor execution runtime vendor = (\<lambda>(devices, warnings).
     let candidates = vendor_candidates devices vendor;
         observed = runtime_indices devices vendor runtime;
         (selection, warnings') = select_accelerator_environment \<lparr>acc_devices = devices\<rparr> vendor
           (case observed of Some o' \<Rightarrow> o' | None \<Rightarrow> candidates) execution (observed \<noteq> None) warnings
     in (case selection of
           Some selected \<Rightarrow> apply_selection candidates selected devices
         | None \<Rightarrow> (case observed of
             Some o' \<Rightarrow> apply_selection candidates o' devices | None \<Rightarrow> devices), warnings'))"

definition visible_ids :: "AcceleratorDevice list \<Rightarrow> AcceleratorId list" where
  "visible_ids devices = map acc_id (filter acc_visible_to_current_process devices)"

definition resolve_accelerator_visibility ::
  "Accelerators \<Rightarrow> ExecutionContext \<Rightarrow> RuntimeVisibility list \<Rightarrow> string list \<Rightarrow>
   Accelerators \<times> ExecutionContext \<times> string list" where
  "resolve_accelerator_visibility accs execution runtime warnings =
     (let legacy_ids = ex_visible_accelerator_ids execution;
          has_environment = has_selection_environment execution;
          warnings1 = (if has_environment then warnings
            else warnings @ legacy_warnings (acc_devices accs) legacy_ids);
          devices1 = initial_visibility (acc_devices accs) has_environment legacy_ids;
          execution1 = execution\<lparr>ex_accelerator_visibility_restricted :=
            (has_environment \<or> legacy_ids \<noteq> [])\<rparr>;
          (devices2, warnings2) =
            fold (resolve_vendor execution1 runtime) [Nvidia, Amd, Intel] (devices1, warnings1)
      in (\<lparr>acc_devices = devices2\<rparr>,
          execution1\<lparr>ex_visible_accelerator_ids := visible_ids devices2\<rparr>, warnings2))"

section \<open>Everything but the visibility flag stays\<close>

text \<open>Two device lists that differ at most in the flags.\<close>

definition same_devices :: "AcceleratorDevice list \<Rightarrow> AcceleratorDevice list \<Rightarrow> bool" where
  "same_devices ds es \<longleftrightarrow> map (set_visible False) ds = map (set_visible False) es"

lemma same_devices_refl [simp]: "same_devices ds ds"
  by (simp add: same_devices_def)

lemma same_devices_trans: "same_devices a b \<Longrightarrow> same_devices b c \<Longrightarrow> same_devices a c"
  by (simp add: same_devices_def)

lemma same_devices_sym: "same_devices a b \<Longrightarrow> same_devices b a"
  by (simp add: same_devices_def)

lemma same_devices_length: "same_devices ds es \<Longrightarrow> length ds = length es"
  by (metis same_devices_def length_map)

lemma nth_beyond: "length xs = length ys \<Longrightarrow> length xs \<le> i \<Longrightarrow> xs ! i = ys ! i"
  by (induction xs ys arbitrary: i rule: list_induct2) (auto simp: nth_Cons split: nat.split)

lemma set_visible_fields [simp]:
  "acc_id (set_visible v d) = acc_id d" "acc_uuid (set_visible v d) = acc_uuid d"
  "acc_parent_uuid (set_visible v d) = acc_parent_uuid d"
  "acc_vendor (set_visible v d) = acc_vendor d"
  "acc_pci_address (set_visible v d) = acc_pci_address d"
  "acc_gpu_instance_id (set_visible v d) = acc_gpu_instance_id d"
  "acc_compute_instance_id (set_visible v d) = acc_compute_instance_id d"
  "acc_visible_to_current_process (set_visible v d) = v"
  "set_visible v (set_visible u d) = set_visible v d"
  by (simp_all add: set_visible_def)

lemma same_devices_field:
  assumes "same_devices ds es" "\<And>d. f (set_visible False d) = f d"
  shows "f (ds ! i) = f (es ! i)" "map f ds = map f es"
proof -
  show "map f ds = map f es"
    using assms map_cong [OF refl, of ds f "f \<circ> set_visible False"]
      map_cong [OF refl, of es f "f \<circ> set_visible False"]
    by (simp add: same_devices_def flip: map_map)
  then show "f (ds ! i) = f (es ! i)"
    using same_devices_length [OF assms(1)] nth_beyond [of ds es i]
    by (cases "i < length ds") (metis nth_map, simp)
qed

lemma same_devices_update:
  "same_devices (ds[i := set_visible v (ds ! i)]) ds"
proof -
  have "map (set_visible False) (ds[i := set_visible v (ds ! i)]) =
      (map (set_visible False) ds)[i := set_visible False (ds ! i)]"
    by (simp add: map_update)
  also have "\<dots> = map (set_visible False) ds"
    by (cases "i < length ds") (simp_all add: list_update_same_conv list_update_beyond)
  finally show ?thesis by (simp add: same_devices_def)
qed

lemma static_field:
  assumes "same_devices ds es"
  shows "acc_id (ds ! i) = acc_id (es ! i)" "acc_uuid (ds ! i) = acc_uuid (es ! i)"
    "acc_parent_uuid (ds ! i) = acc_parent_uuid (es ! i)" "acc_vendor (ds ! i) = acc_vendor (es ! i)"
    "acc_pci_address (ds ! i) = acc_pci_address (es ! i)"
    "acc_gpu_instance_id (ds ! i) = acc_gpu_instance_id (es ! i)"
    "acc_compute_instance_id (ds ! i) = acc_compute_instance_id (es ! i)"
  by (rule same_devices_field(1) [OF assms], simp)+

lemma has_children_same:
  assumes "same_devices ds es"
  shows "has_children ds p = has_children es p"
proof -
  have "map acc_parent_uuid ds = map acc_parent_uuid es"
    by (rule same_devices_field(2) [OF assms]) simp
  then have "acc_parent_uuid ` set ds = acc_parent_uuid ` set es" by (metis list.set_map)
  then show ?thesis
    by (simp add: has_children_def list_ex_iff) (metis (no_types, lifting) image_iff)
qed

lemma has_children_set_visible [simp]: "has_children ds (set_visible v d) = has_children ds d"
  by (simp add: has_children_def)

lemma has_children_nth_same:
  "same_devices ds es \<Longrightarrow> has_children ds (ds ! i) = has_children es (es ! i)"
  using same_devices_field(1) [of ds es "has_children es" i] by (simp add: has_children_same)

lemma selected_device_same:
  assumes "same_devices ds es"
  shows "selected_device ds sel i = selected_device es sel i"
  unfolding selected_device_def Let_def
  by (simp only: static_field [OF assms] has_children_nth_same [OF assms])

section \<open>Updates at a list of indices\<close>

lemma fold_set_visible:
  assumes "\<And>ds i. same_devices ds base \<Longrightarrow> P ds i = Q i"
    and "same_devices ds base"
  shows "same_devices (fold (\<lambda>i ds. ds[i := set_visible (P ds i) (ds ! i)]) ixs ds) base \<and>
    (\<forall>i < length base. fold (\<lambda>i ds. ds[i := set_visible (P ds i) (ds ! i)]) ixs ds ! i =
       (if i \<in> set ixs then set_visible (Q i) (ds ! i) else ds ! i))"
  using assms(2)
proof (induction ixs arbitrary: ds)
  case Nil
  then show ?case by simp
next
  case (Cons k ks)
  let ?ds = "ds[k := set_visible (P ds k) (ds ! k)]"
  have len: "length ds = length base" by (rule same_devices_length [OF Cons.prems])
  have "same_devices ?ds base"
    by (rule same_devices_trans [OF same_devices_update Cons.prems])
  note IH = Cons.IH [OF this]
  have nth: "?ds ! i = (if i = k then set_visible (Q k) (ds ! k) else ds ! i)" if "i < length base" for i
    using that assms(1) [OF Cons.prems, of k] by (simp add: nth_list_update len)
  have "(if i \<in> set ks then set_visible (Q i) (?ds ! i) else ?ds ! i) =
      (if i \<in> set (k # ks) then set_visible (Q i) (ds ! i) else ds ! i)" if "i < length base" for i
    unfolding nth [OF that] by simp
  then show ?case using IH by simp
qed

lemma apply_selection_spec:
  assumes "same_devices ds base"
  shows "same_devices (apply_selection cands sel ds) base"
    and "i < length base \<Longrightarrow> apply_selection cands sel ds ! i =
      (if i \<in> set cands then set_visible (selected_device base sel i) (ds ! i) else ds ! i)"
  using fold_set_visible [where P = "\<lambda>ds i. selected_device ds sel i" and Q = "selected_device base sel"
      and base = base and ixs = cands, OF selected_device_same assms]
  by (simp_all add: apply_selection_def)

definition initially_visible :: "AcceleratorDevice list \<Rightarrow> bool \<Rightarrow> AcceleratorId list \<Rightarrow> nat \<Rightarrow> bool" where
  "initially_visible devices has_environment legacy_ids i \<longleftrightarrow>
     \<not> has_children devices (devices ! i) \<and>
     (has_environment \<or> legacy_ids = [] \<or> acc_id (devices ! i) \<in> set legacy_ids)"

lemma initially_visible_same:
  "same_devices ds base \<Longrightarrow> initially_visible ds e l i = initially_visible base e l i"
  unfolding initially_visible_def by (simp only: has_children_nth_same static_field)

lemma initial_visibility_spec:
  shows "same_devices (initial_visibility base e l) base"
    and "i < length base \<Longrightarrow> initial_visibility base e l ! i = set_visible (initially_visible base e l i) (base ! i)"
  using fold_set_visible [where P = "\<lambda>ds i. initially_visible ds e l i" and Q = "initially_visible base e l"
      and base = base and ixs = "[0..<length base]", OF initially_visible_same same_devices_refl]
  by (simp_all add: initial_visibility_def initially_visible_def Let_def)

section \<open>The stages depend only on what stays\<close>

lemma indices_where_same:
  "same_devices ds es \<Longrightarrow> (\<And>d. P (set_visible False d) = P d) \<Longrightarrow> indices_where P ds = indices_where P es"
  using same_devices_field(1) [of ds es P]
  by (simp add: indices_where_def same_devices_length)

lemma vendor_candidates_same:
  assumes "same_devices ds es"
  shows "vendor_candidates ds v = vendor_candidates es v"
  using indices_where_same [OF assms, of "\<lambda>d. str_value (acc_vendor d) = vendor_name v"]
  by (simp add: vendor_candidates_def static_field [OF assms])

lemma runtime_indices_same:
  assumes "same_devices ds es"
  shows "runtime_indices ds v rt = runtime_indices es v rt"
proof -
  have "indices_where (\<lambda>d. acc_id d = i) ds = indices_where (\<lambda>d. acc_id d = i) es" for i
    by (rule indices_where_same [OF assms]) simp
  then show ?thesis by (induction rt) simp_all
qed

lemma token_matches_same:
  assumes "same_devices ds es"
  shows "token_matches \<lparr>acc_devices = ds\<rparr> = token_matches \<lparr>acc_devices = es\<rparr>"
  unfolding token_matches_def matches_uuid_def
  by (simp only: Accelerators.select_convs static_field [OF assms])

lemma select_csv_same:
  "same_devices ds es \<Longrightarrow> select_csv \<lparr>acc_devices = ds\<rparr> = select_csv \<lparr>acc_devices = es\<rparr>"
  by (intro ext) (simp add: select_csv_def token_matches_same [of ds es])

lemma apply_variable_same:
  assumes "same_devices ds es"
  shows "apply_variable \<lparr>acc_devices = ds\<rparr> = apply_variable \<lparr>acc_devices = es\<rparr>"
  unfolding apply_variable_def select_csv_same [OF assms] ..

lemma select_nvidia_same:
  assumes "same_devices ds es"
  shows "select_nvidia \<lparr>acc_devices = ds\<rparr> = select_nvidia \<lparr>acc_devices = es\<rparr>"
proof -
  have "pci_order_key \<lparr>acc_devices = ds\<rparr> = pci_order_key \<lparr>acc_devices = es\<rparr>"
    by (intro ext) (simp only: pci_order_key_def Accelerators.select_convs static_field [OF assms])
  then show ?thesis
    unfolding select_nvidia_def
    by (simp only: Accelerators.select_convs static_field [OF assms] select_csv_same [OF assms])
qed

lemma select_environment_same:
  assumes "same_devices ds es"
  shows "select_accelerator_environment \<lparr>acc_devices = ds\<rparr> = select_accelerator_environment \<lparr>acc_devices = es\<rparr>"
  unfolding select_accelerator_environment_def select_amd_def select_intel_def
  by (simp only: select_nvidia_same [OF assms] apply_variable_same [OF assms])

text \<open>The selection that decides about a vendor: the environment's, else the runtime's, else none.\<close>

definition effective_selection ::
  "AcceleratorDevice list \<Rightarrow> ExecutionContext \<Rightarrow> RuntimeVisibility list \<Rightarrow> AcceleratorVendor \<Rightarrow>
   DeviceIndices option" where
  "effective_selection devices execution runtime vendor =
     (let observed = runtime_indices devices vendor runtime in
      case fst (select_accelerator_environment \<lparr>acc_devices = devices\<rparr> vendor
        (case observed of Some o' \<Rightarrow> o' | None \<Rightarrow> vendor_candidates devices vendor) execution
        (observed \<noteq> None) []) of
        Some s \<Rightarrow> Some s
      | None \<Rightarrow> observed)"

section \<open>The resolution of all vendors\<close>

lemma vendor_candidates_set:
  "i \<in> set (vendor_candidates devices v) \<longleftrightarrow>
     i < length devices \<and> str_value (acc_vendor (devices ! i)) = vendor_name v"
  by (auto simp: vendor_candidates_def indices_where_def)

lemma vendor_name_inject: "vendor_name v = vendor_name w \<Longrightarrow> v = w"
  by (cases v; cases w) (simp_all add: vendor_name_def)

lemma resolve_vendor_spec:
  assumes "same_devices ds base"
  shows "same_devices (fst (resolve_vendor execution runtime v (ds, w))) base"
    and "i < length base \<Longrightarrow> fst (resolve_vendor execution runtime v (ds, w)) ! i =
      (case effective_selection base execution runtime v of
         Some sel \<Rightarrow>
           if str_value (acc_vendor (base ! i)) = vendor_name v
           then set_visible (selected_device base sel i) (ds ! i) else ds ! i
       | None \<Rightarrow> ds ! i)"
proof -
  let ?cands = "vendor_candidates base v"
  have frame: "fst (select_accelerator_environment \<lparr>acc_devices = base\<rparr> v c execution rk w) =
      fst (select_accelerator_environment \<lparr>acc_devices = base\<rparr> v c execution rk [])" for c rk
    using select_environment_push [of "\<lparr>acc_devices = base\<rparr>" v c execution rk w "[]"] by simp
  have run: "fst (resolve_vendor execution runtime v (ds, w)) =
      (case effective_selection base execution runtime v of
         Some sel \<Rightarrow> apply_selection ?cands sel ds | None \<Rightarrow> ds)"
    by (simp add: resolve_vendor_def Let_def case_prod_unfold effective_selection_def frame
        vendor_candidates_same [OF assms] runtime_indices_same [OF assms]
        select_environment_same [OF assms] split: option.split)
  show "same_devices (fst (resolve_vendor execution runtime v (ds, w))) base"
    using apply_selection_spec(1) [OF assms] assms by (simp add: run split: option.split)
  show "i < length base \<Longrightarrow> fst (resolve_vendor execution runtime v (ds, w)) ! i =
      (case effective_selection base execution runtime v of
         Some sel \<Rightarrow>
           if str_value (acc_vendor (base ! i)) = vendor_name v
           then set_visible (selected_device base sel i) (ds ! i) else ds ! i
       | None \<Rightarrow> ds ! i)"
    using apply_selection_spec(2) [OF assms, of i ?cands]
    by (simp add: run vendor_candidates_set split: option.split)
qed

text \<open>The visibility of a device as one formula over the devices before the resolution.\<close>

definition final_visibility ::
  "AcceleratorDevice list \<Rightarrow> ExecutionContext \<Rightarrow> RuntimeVisibility list \<Rightarrow> nat \<Rightarrow> bool" where
  "final_visibility devices execution runtime i =
     (let initial = initially_visible devices (has_selection_environment execution)
            (ex_visible_accelerator_ids execution) i in
      case accelerator_vendor (str_value (acc_vendor (devices ! i))) of
        None \<Rightarrow> initial
      | Some v \<Rightarrow>
          (case effective_selection devices execution runtime v of
             None \<Rightarrow> initial
           | Some sel \<Rightarrow> selected_device devices sel i))"

lemma accelerator_vendor_Some: "accelerator_vendor n = Some v \<longleftrightarrow> n = vendor_name v"
  by (cases v) (auto simp: accelerator_vendor_def vendor_name_def)

lemma accelerator_vendor_None: "accelerator_vendor n = None \<longleftrightarrow> (\<forall>v. n \<noteq> vendor_name v)"
  using accelerator_vendor_Some [of n] by (metis not_None_eq)

lemma env_value_restricted [simp]:
  "environment_value (ex\<lparr>ex_accelerator_visibility_restricted := b\<rparr>) = environment_value ex"
  by (intro ext) (simp add: environment_value_def)

lemma effective_selection_restricted [simp]:
  "effective_selection ds (ex\<lparr>ex_accelerator_visibility_restricted := b\<rparr>) rt v =
   effective_selection ds ex rt v"
proof -
  let ?ex = "ex\<lparr>ex_accelerator_visibility_restricted := b\<rparr>"
  have a: "apply_variable d ?ex = apply_variable d ex" for d
    unfolding apply_variable_def env_value_restricted ..
  have "select_accelerator_environment d v c ?ex = select_accelerator_environment d v c ex" for d c
    unfolding select_accelerator_environment_def select_nvidia_def select_amd_def select_intel_def
      env_value_restricted a ..
  then show ?thesis by (simp add: effective_selection_def)
qed

lemma resolve_devices:
  fixes accs execution runtime warnings
  defines "base \<equiv> acc_devices accs"
  defines "ds \<equiv> acc_devices (fst (resolve_accelerator_visibility accs execution runtime warnings))"
  shows "same_devices ds base"
    and "i < length base \<Longrightarrow> ds ! i = set_visible (final_visibility base execution runtime i) (base ! i)"
proof -
  let ?e = "has_selection_environment execution"
  let ?l = "ex_visible_accelerator_ids execution"
  let ?w = "if ?e then warnings else warnings @ legacy_warnings base ?l"
  let ?ex = "execution\<lparr>ex_accelerator_visibility_restricted := (?e \<or> ?l \<noteq> [])\<rparr>"
  define d1 where "d1 = initial_visibility base ?e ?l"
  define s2 where "s2 = resolve_vendor ?ex runtime Nvidia (d1, ?w)"
  define s3 where "s3 = resolve_vendor ?ex runtime Amd s2"
  define s4 where "s4 = resolve_vendor ?ex runtime Intel s3"
  have ds: "ds = fst s4"
    by (simp add: ds_def resolve_accelerator_visibility_def Let_def case_prod_unfold s4_def s3_def
        s2_def d1_def base_def)
  have 1: "same_devices d1 base" unfolding d1_def by (rule initial_visibility_spec(1))
  have 2: "same_devices (fst s2) base" unfolding s2_def by (rule resolve_vendor_spec(1) [OF 1])
  have 3: "same_devices (fst s3) base"
    using resolve_vendor_spec(1) [OF 2, of ?ex runtime Amd "snd s2"] by (simp add: s3_def)
  have 4: "same_devices (fst s4) base"
    using resolve_vendor_spec(1) [OF 3, of ?ex runtime Intel "snd s3"] by (simp add: s4_def)
  show "same_devices ds base" unfolding ds by (rule 4)
  assume i: "i < length base"
  note steps = initial_visibility_spec(2) [OF i, of ?e ?l, folded d1_def]
    resolve_vendor_spec(2) [OF 1 i, of ?ex runtime Nvidia ?w, folded s2_def]
    resolve_vendor_spec(2) [OF 2 i, of ?ex runtime Amd "snd s2", unfolded prod.collapse, folded s3_def]
    resolve_vendor_spec(2) [OF 3 i, of ?ex runtime Intel "snd s3", unfolded prod.collapse, folded s4_def]
  define name where "name = str_value (acc_vendor (base ! i))"
  define upd where "upd = (\<lambda>v d. case effective_selection base execution runtime v of
      Some sel \<Rightarrow> if name = vendor_name v then set_visible (selected_device base sel i) d else d
    | None \<Rightarrow> d)"
  have chain: "ds ! i = upd Intel (upd Amd (upd Nvidia
      (set_visible (initially_visible base ?e ?l i) (base ! i))))"
    unfolding ds steps upd_def name_def effective_selection_restricted ..
  show "ds ! i = set_visible (final_visibility base execution runtime i) (base ! i)"
  proof (cases "accelerator_vendor name")
    case None
    then have "upd v d = d" for v d
      by (simp add: upd_def accelerator_vendor_None split: option.split)
    moreover have "final_visibility base execution runtime i = initially_visible base ?e ?l i"
      using None by (simp add: final_visibility_def name_def)
    ultimately show ?thesis by (simp add: chain)
  next
    case (Some v)
    have u: "upd u d = (if u = v then (case effective_selection base execution runtime v of
        Some sel \<Rightarrow> set_visible (selected_device base sel i) d | None \<Rightarrow> d) else d)" for u d
    proof -
      have "name = vendor_name v" using Some by (simp only: accelerator_vendor_Some)
      then have eq: "name = vendor_name u \<longleftrightarrow> v = u" using vendor_name_inject by blast
      show ?thesis unfolding upd_def eq by (auto split: option.split)
    qed
    have "final_visibility base execution runtime i =
        (case effective_selection base execution runtime v of
           None \<Rightarrow> initially_visible base ?e ?l i | Some sel \<Rightarrow> selected_device base sel i)"
      using Some by (simp add: final_visibility_def name_def)
    then show ?thesis
      by (cases v; cases "effective_selection base execution runtime v") (simp_all add: chain u)
  qed
qed

lemma resolve_devices_map:
  "acc_devices (fst (resolve_accelerator_visibility accs execution runtime warnings)) =
     map (\<lambda>i. set_visible (final_visibility (acc_devices accs) execution runtime i) (acc_devices accs ! i))
       [0..<length (acc_devices accs)]"
  by (rule nth_equalityI)
    (simp_all add: same_devices_length [OF resolve_devices(1)] resolve_devices(2))

lemma resolve_ids:
  "ex_visible_accelerator_ids (fst (snd (resolve_accelerator_visibility accs execution runtime warnings))) =
     visible_ids (acc_devices (fst (resolve_accelerator_visibility accs execution runtime warnings)))"
  by (simp add: resolve_accelerator_visibility_def Let_def case_prod_unfold)

text \<open>C8: the resolution changes nothing of a device but its visibility flag, and sets that to one
  formula over the devices before it: what the selection of the device's vendor says (the
  environment's, else the runtime's), and without a selection the initial rule.
\<close>

theorem accelerator_visibility_formula:
  "acc_devices (fst (resolve_accelerator_visibility accs execution runtime warnings)) =
     map (\<lambda>i. set_visible (final_visibility (acc_devices accs) execution runtime i) (acc_devices accs ! i))
       [0..<length (acc_devices accs)]"
  by (rule resolve_devices_map)

text \<open>a device that has been partitioned into instances is never visible itself, and the ids listed
  in the execution context are exactly those of the visible devices, in order.
\<close>

theorem accelerator_parents_hidden:
  "let (accs', execution', _) = resolve_accelerator_visibility accs execution runtime warnings in
     list_all (\<lambda>d. \<not> (acc_visible_to_current_process d \<and> has_children (acc_devices accs) d))
       (acc_devices accs') \<and>
     ex_visible_accelerator_ids execution' = map acc_id (accelerators_visible accs')"
proof -
  obtain a e w where r: "resolve_accelerator_visibility accs execution runtime warnings = (a, e, w)"
    by (cases "resolve_accelerator_visibility accs execution runtime warnings")
  have "\<not> final_visibility (acc_devices accs) execution runtime i"
    if "has_children (acc_devices accs) (acc_devices accs ! i)" for i
    using that by (simp add: final_visibility_def initially_visible_def selected_device_def Let_def
        split: option.split)
  then have "list_all (\<lambda>d. \<not> (acc_visible_to_current_process d \<and> has_children (acc_devices accs) d)) (acc_devices a)"
    using resolve_devices_map [of accs execution runtime warnings] by (auto simp: r list_all_iff)
  then show ?thesis
    using resolve_ids [of accs execution runtime warnings]
    by (simp add: r visible_ids_def accelerators_visible_def filter_by_def)
qed

lemma accelerator_vendor_nvidia: "accelerator_vendor ''NVIDIA'' = Some Nvidia"
  by (simp add: accelerator_vendor_def)

text \<open>an empty \<open>CUDA_VISIBLE_DEVICES\<close> hides every NVIDIA device when the CUDA runtime could not be
  asked, whatever else the environment holds.
\<close>

theorem empty_cuda_hides_all:
  assumes "environment_value execution ''CUDA_VISIBLE_DEVICES'' = Some value" "trim value = []"
    and "runtime_indices (acc_devices accs) Nvidia runtime = None"
  shows "list_all (\<lambda>d. \<not> (str_value (acc_vendor d) = ''NVIDIA'' \<and> acc_visible_to_current_process d))
     (acc_devices (fst (resolve_accelerator_visibility accs execution runtime warnings)))"
proof -
  let ?ds = "acc_devices accs"
  have "effective_selection ?ds execution runtime Nvidia = Some []"
    using assms by (simp add: effective_selection_def Let_def select_accelerator_environment_def
        select_nvidia_def select_csv_def case_prod_unfold)
  then have "\<not> final_visibility ?ds execution runtime i"
    if "str_value (acc_vendor (?ds ! i)) = ''NVIDIA''" for i
    using that by (simp add: final_visibility_def accelerator_vendor_nvidia selected_device_def Let_def)
  then show ?thesis by (auto simp: resolve_devices_map list_all_iff)
qed

theorem empty_cuda_hides_all_witness:
  "acc_devices (fst (resolve_accelerator_visibility two_gpus (cuda_execution '' '') [] [])) \<noteq> [] \<and>
   list_all (\<lambda>d. \<not> (str_value (acc_vendor d) = ''NVIDIA'' \<and> acc_visible_to_current_process d))
     (acc_devices (fst (resolve_accelerator_visibility two_gpus (cuda_execution '' '') [] [])))"
proof -
  have "environment_value (cuda_execution '' '') ''CUDA_VISIBLE_DEVICES'' = Some '' ''"
    by (simp add: environment_value_def cuda_execution_def)
  moreover have "trim '' '' = []" by code_simp
  ultimately have "list_all (\<lambda>d. \<not> (str_value (acc_vendor d) = ''NVIDIA'' \<and> acc_visible_to_current_process d))
     (acc_devices (fst (resolve_accelerator_visibility two_gpus (cuda_execution '' '') [] [])))"
    by (rule empty_cuda_hides_all) simp
  then show ?thesis by (simp add: resolve_devices_map two_gpus_def)
qed

end
