(* ===== verification/Cgroup_Limits.thy ===== *)
theory Cgroup_Limits
  imports Raw_Store Streams
begin

text \<open>
  \<open>src/parser/cgroup.cpp\<close>: the limits of the cgroup hierarchy. \<open>LimitSummary\<close> is a small state
  machine over the files of the hierarchy; its contract is proved once in a locale over the
  \<open>operator<\<close> of its value type and interpreted for both instances. CPU budgets compare as
  \<open>long double\<close> quotients: the rounding is written out, for a significand of \<open>64 + extra\<close> bits
  (\<open>extra = 0\<close> on x86-64, \<open>49\<close> where \<open>long double\<close> is IEEE binary128).
\<close>

section \<open>Limit summaries\<close>

datatype LimitState = Limit_Unknown | Limit_Unlimited | Limit_Finite | Limit_Incomplete

record 'v LimitSummary =
  ls_state :: LimitState
  ls_value :: "'v option"

definition LimitSummary_default :: "'v LimitSummary" where
  "LimitSummary_default = \<lparr>ls_state = Limit_Unknown, ls_value = None\<rparr>"

definition adopt :: "('v \<Rightarrow> 'v \<Rightarrow> bool) \<Rightarrow> 'v \<Rightarrow> 'v LimitSummary \<Rightarrow> 'v LimitSummary" where
  "adopt lt value s = s
     \<lparr>ls_value := (case ls_value s of
        None \<Rightarrow> Some value | Some v \<Rightarrow> if lt value v then Some value else Some v),
      ls_state := (if ls_state s \<noteq> Limit_Incomplete then Limit_Finite else ls_state s)\<rparr>"

definition unlimited :: "'v LimitSummary \<Rightarrow> 'v LimitSummary" where
  "unlimited s = (if ls_state s = Limit_Unknown then s\<lparr>ls_state := Limit_Unlimited\<rparr> else s)"

definition unreadable :: "'v LimitSummary \<Rightarrow> 'v LimitSummary" where
  "unreadable s = s\<lparr>ls_state := Limit_Incomplete\<rparr>"

definition known :: "'v LimitSummary \<Rightarrow> bool" where
  "known s \<longleftrightarrow> ls_state s = Limit_Unlimited \<or> ls_state s = Limit_Finite"

definition incomplete :: "'v LimitSummary \<Rightarrow> bool" where
  "incomplete s \<longleftrightarrow> ls_state s = Limit_Incomplete"

section \<open>CPU budgets and memory limits\<close>

record CpuBudget =
  bud_quota :: Microseconds
  bud_period :: Microseconds

text \<open>A quotient rounded to the nearest integer, ties to even.\<close>

definition round_div :: "nat \<Rightarrow> nat \<Rightarrow> nat" where
  "round_div a b =
     (let f = a div b; r = a mod b in
      if 2 * r < b \<or> (2 * r = b \<and> even f) then f else f + 1)"

text \<open>The doublings that bring a quotient to \<open>k + 1\<close> significant bits.\<close>

function ld_scale :: "nat \<Rightarrow> nat \<Rightarrow> nat \<Rightarrow> nat" where
  "ld_scale k q p = (if q = 0 \<or> 2 ^ k * p \<le> q then 0 else Suc (ld_scale k (2 * q) p))"
  by pat_completeness auto

termination
  by (relation "measure (\<lambda>(k, q, p). 2 ^ k * p - q)") auto

declare ld_scale.simps [simp del]

text \<open>A rounded quotient is \<open>m / 2 ^ e\<close>.\<close>

definition ld_div :: "nat \<Rightarrow> nat \<Rightarrow> nat \<Rightarrow> nat \<times> nat" where
  "ld_div k q p = (let e = ld_scale k q p in (round_div (q * 2 ^ e) p, e))"

definition ld_less :: "nat \<times> nat \<Rightarrow> nat \<times> nat \<Rightarrow> bool" where
  "ld_less x y \<longleftrightarrow> fst x * 2 ^ snd y < fst y * 2 ^ snd x"

definition budget_less :: "nat \<Rightarrow> CpuBudget \<Rightarrow> CpuBudget \<Rightarrow> bool" where
  "budget_less extra a b \<longleftrightarrow>
     ld_less (ld_div (63 + extra) (unat (unit_value (bud_quota a))) (unat (unit_value (bud_period a))))
       (ld_div (63 + extra) (unat (unit_value (bud_quota b))) (unat (unit_value (bud_period b))))"

definition memory_less :: "MemorySize \<Rightarrow> MemorySize \<Rightarrow> bool" where
  "memory_less a b \<longleftrightarrow> unit_value a < unit_value b"

definition read_cpu_limit ::
  "nat \<Rightarrow> string \<Rightarrow> string \<Rightarrow> CpuBudget LimitSummary \<times> Microseconds option \<Rightarrow>
   CpuBudget LimitSummary \<times> Microseconds option" where
  "read_cpu_limit extra quota_text period_text = (\<lambda>(limits, unlimited_period).
     let period = parse_uint period_text; quota = parse_uint quota_text;
         is_unlimited = (quota_text = ''max'' \<or> quota_text = ''-1'')
     in case period of
          None \<Rightarrow> (unreadable limits, unlimited_period)
        | Some p \<Rightarrow>
            if p = 0 \<or> (\<not> is_unlimited \<and> (quota = None \<or> quota = Some 0))
            then (unreadable limits, unlimited_period)
            else if is_unlimited
            then (unlimited limits,
              case unlimited_period of None \<Rightarrow> Some (ScalarUnit p) | Some u \<Rightarrow> Some u)
            else (adopt (budget_less extra)
                    \<lparr>bud_quota = ScalarUnit (the quota), bud_period = ScalarUnit p\<rparr> limits,
                  unlimited_period))"

definition v1_unlimited :: u64 where
  "v1_unlimited = 9223372036854775807 - 65535"

definition read_memory_limit ::
  "string \<Rightarrow> string \<Rightarrow> MemorySize LimitSummary \<Rightarrow> MemorySize LimitSummary" where
  "read_memory_limit name value limits =
     (let limit = parse_uint value;
          is_unlimited = (value = ''max'' \<or>
            (name = ''memory.limit_in_bytes'' \<and>
             (case limit of Some l \<Rightarrow> l \<ge> v1_unlimited | None \<Rightarrow> False)))
      in if is_unlimited then unlimited limits
         else case limit of
                Some l \<Rightarrow> adopt memory_less (ScalarUnit l) limits
              | None \<Rightarrow> unreadable limits)"

section \<open>The scan of the cgroup files\<close>

record CgroupScan =
  scan_cpu :: "CpuBudget LimitSummary"
  scan_memory :: "MemorySize LimitSummary"
  scan_period :: "Microseconds option"
  scan_context :: ExecutionContext

definition cgroup_values :: "RawRecord list \<Rightarrow> (string \<times> string) list" where
  "cgroup_values records =
     map (\<lambda>r. (rec_path_or_command r, trim (rec_payload r))) (filter (\<lambda>r. rec_status r = Success) records)"

definition scan_cpu_limit :: "nat \<Rightarrow> (string \<times> string) option \<Rightarrow> CgroupScan \<Rightarrow> CgroupScan" where
  "scan_cpu_limit extra texts scan =
     (case texts of
        None \<Rightarrow> scan\<lparr>scan_cpu := unreadable (scan_cpu scan)\<rparr>
      | Some (quota, period) \<Rightarrow>
          (let (limits, unlimited_period) =
                 read_cpu_limit extra quota period (scan_cpu scan, scan_period scan)
           in scan\<lparr>scan_cpu := limits, scan_period := unlimited_period\<rparr>))"

text \<open>The two texts of a CPU limit, when the record is readable and has them.\<close>

definition cpu_max_texts :: "RawRecord \<Rightarrow> (string \<times> string) option" where
  "cpu_max_texts record =
     (case tokens (trim (rec_payload record)) of
        [quota, period] \<Rightarrow> if rec_status record = Success then Some (quota, period) else None
      | _ \<Rightarrow> None)"

definition cfs_texts :: "(string \<times> string) list \<Rightarrow> RawRecord \<Rightarrow> (string \<times> string) option" where
  "cfs_texts values record =
     (case map_of values (path_append (parent_path (rec_path_or_command record)) ''cpu.cfs_period_us'') of
        Some period \<Rightarrow>
          if rec_status record = Success then Some (trim (rec_payload record), period) else None
      | None \<Rightarrow> None)"

definition scan_memory_limit :: "RawRecord \<Rightarrow> string \<Rightarrow> CgroupScan \<Rightarrow> CgroupScan" where
  "scan_memory_limit record name scan = scan
     \<lparr>scan_memory :=
        (if rec_status record = Success
         then read_memory_limit name (trim (rec_payload record)) (scan_memory scan)
         else unreadable (scan_memory scan))\<rparr>"

definition set_memory_current :: "string \<Rightarrow> ExecutionContext \<Rightarrow> ExecutionContext" where
  "set_memory_current value context =
     (case parse_uint value of
        Some current \<Rightarrow>
          if cg_memory_current (ex_cgroup context) = None
          then context\<lparr>ex_cgroup := (ex_cgroup context)\<lparr>cg_memory_current := Some (ScalarUnit current)\<rparr>\<rparr>
          else context
      | None \<Rightarrow> context)"

definition scan_context_field :: "RawRecord \<Rightarrow> string \<Rightarrow> ExecutionContext \<Rightarrow> ExecutionContext" where
  "scan_context_field record name context =
     (let value = trim (rec_payload record); readable = (rec_status record = Success) in
      if readable \<and> (name = ''memory.current'' \<or> name = ''memory.usage_in_bytes'')
      then set_memory_current value context
      else if readable \<and> name = ''cpuset.cpus.effective'' \<and> cs_cpus_effective (ex_cpuset context) = []
      then context\<lparr>ex_cpuset := (ex_cpuset context)\<lparr>cs_cpus_effective := value\<rparr>\<rparr>
      else if readable \<and> name = ''cpuset.mems.effective'' \<and> cs_mems_effective (ex_cpuset context) = []
      then context\<lparr>ex_cpuset := (ex_cpuset context)\<lparr>cs_mems_effective := value\<rparr>\<rparr>
      else context)"

definition scan_cgroup_record ::
  "nat \<Rightarrow> (string \<times> string) list \<Rightarrow> RawRecord \<Rightarrow> CgroupScan \<Rightarrow> CgroupScan" where
  "scan_cgroup_record extra values record scan =
     (let name = path_filename (rec_path_or_command record) in
      if rec_status record = NotCollected then scan
      else if name = ''cpu.max'' then scan_cpu_limit extra (cpu_max_texts record) scan
      else if name = ''cpu.cfs_quota_us'' then scan_cpu_limit extra (cfs_texts values record) scan
      else if name = ''memory.max'' \<or> name = ''memory.limit_in_bytes''
      then scan_memory_limit record name scan
      else scan\<lparr>scan_context := scan_context_field record name (scan_context scan)\<rparr>)"

definition cpu_incomplete :: string where
  "cpu_incomplete =
     ''[cgroup] CPU limit hierarchy incomplete; observed quota is only an upper bound''"

definition memory_incomplete :: string where
  "memory_incomplete =
     ''[cgroup] memory limit hierarchy incomplete; observed limit is only an upper bound''"

definition store_limits :: "CgroupScan \<Rightarrow> Cgroup \<Rightarrow> Cgroup" where
  "store_limits scan grp =
     (let group1 = grp\<lparr>cg_cpu_limit_known := known (scan_cpu scan),
            cg_memory_limit_known := known (scan_memory scan)\<rparr>;
          group2 = (case ls_value (scan_cpu scan) of
            Some b \<Rightarrow> group1\<lparr>cg_cpu_quota_us := Some (bud_quota b), cg_cpu_period_us := Some (bud_period b)\<rparr>
          | None \<Rightarrow> group1\<lparr>cg_cpu_period_us := scan_period scan\<rparr>)
      in case ls_value (scan_memory scan) of
           Some s \<Rightarrow> group2\<lparr>cg_memory_limit := Some s\<rparr>
         | None \<Rightarrow> group2)"

definition scan_cgroup :: "nat \<Rightarrow> RawStore \<Rightarrow> ExecutionContext \<Rightarrow> CgroupScan" where
  "scan_cgroup extra raw context =
     (let records = get_all raw CgroupFile in
      fold (scan_cgroup_record extra (cgroup_values records)) records
        \<lparr>scan_cpu = LimitSummary_default, scan_memory = LimitSummary_default, scan_period = None,
         scan_context = context\<rparr>)"

definition parse_cgroup_limits ::
  "nat \<Rightarrow> RawStore \<Rightarrow> ExecutionContext \<Rightarrow> string list \<Rightarrow> ExecutionContext \<times> string list" where
  "parse_cgroup_limits extra raw context warnings =
     (let scan = scan_cgroup extra raw context; context' = scan_context scan in
      (context'\<lparr>ex_cgroup := store_limits scan (ex_cgroup context')\<rparr>,
       warnings @ (if incomplete (scan_cpu scan) then [cpu_incomplete] else []) @
         (if incomplete (scan_memory scan) then [memory_incomplete] else [])))"

section \<open>The contract of a limit summary\<close>

text \<open>What one file of the hierarchy says.\<close>

datatype ('v, 'u) limit_event = Adopt 'v | Unlimited 'u | Unreadable

locale limit_order =
  fixes lt :: "'v \<Rightarrow> 'v \<Rightarrow> bool"
  assumes asym: "lt a b \<Longrightarrow> \<not> lt b a"
    and not_less_trans: "\<not> lt a b \<Longrightarrow> \<not> lt b c \<Longrightarrow> \<not> lt a c"
begin

primrec observe :: "('v, 'u) limit_event \<Rightarrow> 'v LimitSummary \<Rightarrow> 'v LimitSummary" where
  "observe (Adopt v) s = adopt lt v s"
| "observe (Unlimited u) s = unlimited s"
| "observe Unreadable s = unreadable s"

definition summary :: "('v, 'u) limit_event list \<Rightarrow> 'v LimitSummary" where
  "summary es = fold observe es LimitSummary_default"

definition strictest :: "('v, 'u) limit_event list \<Rightarrow> 'v option \<Rightarrow> bool" where
  "strictest es value \<longleftrightarrow>
     (case value of
        None \<Rightarrow> \<forall>v. Adopt v \<notin> set es
      | Some v \<Rightarrow> Adopt v \<in> set es \<and> (\<forall>w. Adopt w \<in> set es \<longrightarrow> \<not> lt w v))"

lemma summary_snoc: "summary (es @ [e]) = observe e (summary es)"
  by (simp add: summary_def)

lemma irrefl: "\<not> lt a a"
  using asym by blast

text \<open>The value is one of those adopted, and none of them is below it.\<close>

lemma strictest_adopt:
  assumes "strictest es (ls_value s)"
  shows "strictest (es @ [Adopt v]) (ls_value (adopt lt v s))"
proof (cases "ls_value s")
  case None
  then show ?thesis using assms irrefl by (simp add: strictest_def adopt_def)
next
  case (Some u)
  show ?thesis
  proof (cases "lt v u")
    case True
    have "\<not> lt w v" if "Adopt w \<in> set es" for w
    proof
      assume "lt w v"
      moreover have "\<not> lt w u" using assms that by (simp add: strictest_def Some)
      moreover have "\<not> lt u v" using True by (rule asym)
      ultimately show False using not_less_trans by blast
    qed
    then show ?thesis using Some True irrefl by (auto simp: strictest_def adopt_def)
  next
    case False
    then show ?thesis using assms Some by (auto simp: strictest_def adopt_def)
  qed
qed

lemma summary_value: "strictest es (ls_value (summary es))"
proof (induction es rule: rev_induct)
  case Nil
  then show ?case by (simp add: summary_def LimitSummary_default_def strictest_def)
next
  case (snoc e es)
  then show ?case
  proof (cases e)
    case (Adopt v)
    then show ?thesis using snoc strictest_adopt by (simp add: summary_snoc)
  qed (auto simp: summary_snoc strictest_def unlimited_def unreadable_def split: option.splits)
qed

text \<open>The state says which kinds of files were seen.\<close>

lemma summary_state:
  "ls_state (summary es) =
     (if Unreadable \<in> set es then Limit_Incomplete
      else if es = [] then Limit_Unknown
      else if list_ex (\<lambda>e. \<exists>v. e = Adopt v) es then Limit_Finite else Limit_Unlimited)"
proof (induction es rule: rev_induct)
  case Nil
  then show ?case by (simp add: summary_def LimitSummary_default_def)
next
  case (snoc e es)
  then show ?case
    by (cases e) (auto simp: summary_snoc adopt_def unlimited_def unreadable_def list_ex_iff)
qed

lemma known_summary: "known (summary es) \<longleftrightarrow> es \<noteq> [] \<and> Unreadable \<notin> set es"
  by (simp add: known_def summary_state)

lemma incomplete_summary: "incomplete (summary es) \<longleftrightarrow> Unreadable \<in> set es"
  by (simp add: incomplete_def summary_state)

end

lemma ld_less_asym: "ld_less x y \<Longrightarrow> \<not> ld_less y x"
  by (simp add: ld_less_def)

lemma cross_le_trans:
  assumes "(z :: nat) * Y \<le> y * Z" "y * X \<le> x * Y" "0 < Y"
  shows "z * X \<le> x * Z"
proof -
  have "Y * (z * X) = (z * Y) * X" by (simp only: ac_simps)
  also have "\<dots> \<le> (y * Z) * X" using assms(1) by (rule mult_le_mono1)
  also have "\<dots> = (y * X) * Z" by (simp only: ac_simps)
  also have "\<dots> \<le> (x * Y) * Z" using assms(2) by (rule mult_le_mono1)
  also have "\<dots> = Y * (x * Z)" by (simp only: ac_simps)
  finally show ?thesis using assms(3) by (simp only: mult_le_cancel1 simp_thms)
qed

lemma ld_not_less_trans: "\<not> ld_less x y \<Longrightarrow> \<not> ld_less y z \<Longrightarrow> \<not> ld_less x z"
  using cross_le_trans [of "fst z" "2 ^ snd y" "fst y" "2 ^ snd z" "2 ^ snd x" "fst x"]
  by (simp add: ld_less_def not_less)

interpretation cpu_limit: limit_order "budget_less extra" for extra
  by unfold_locales (auto simp: budget_less_def dest: ld_less_asym ld_not_less_trans)

interpretation memory_limit: limit_order memory_less
  by unfold_locales (auto simp: memory_less_def)

section \<open>What the files of the hierarchy say\<close>

definition budget_event :: "string \<Rightarrow> string \<Rightarrow> (CpuBudget, Microseconds) limit_event" where
  "budget_event quota period =
     (case parse_uint period of
        None \<Rightarrow> Unreadable
      | Some p \<Rightarrow>
          if p = 0 then Unreadable
          else if quota = ''max'' \<or> quota = ''-1'' then Unlimited (ScalarUnit p)
          else (case parse_uint quota of
                  None \<Rightarrow> Unreadable
                | Some q \<Rightarrow> if q = 0 then Unreadable
                    else Adopt \<lparr>bud_quota = ScalarUnit q, bud_period = ScalarUnit p\<rparr>))"

definition texts_event :: "(string \<times> string) option \<Rightarrow> (CpuBudget, Microseconds) limit_event" where
  "texts_event texts = (case texts of None \<Rightarrow> Unreadable | Some (q, p) \<Rightarrow> budget_event q p)"

definition cpu_event ::
  "(string \<times> string) list \<Rightarrow> RawRecord \<Rightarrow> (CpuBudget, Microseconds) limit_event option" where
  "cpu_event values record =
     (let name = path_filename (rec_path_or_command record) in
      if rec_status record = NotCollected then None
      else if name = ''cpu.max'' then Some (texts_event (cpu_max_texts record))
      else if name = ''cpu.cfs_quota_us'' then Some (texts_event (cfs_texts values record))
      else None)"

definition memory_event :: "RawRecord \<Rightarrow> (MemorySize, unit) limit_event option" where
  "memory_event record =
     (let name = path_filename (rec_path_or_command record); value = trim (rec_payload record) in
      if rec_status record = NotCollected then None
      else if name = ''memory.max'' \<or> name = ''memory.limit_in_bytes'' then
        (if rec_status record \<noteq> Success then Some Unreadable
         else if value = ''max'' then Some (Unlimited ())
         else case parse_uint value of
                None \<Rightarrow> Some Unreadable
              | Some l \<Rightarrow> if name = ''memory.limit_in_bytes'' \<and> l \<ge> v1_unlimited
                  then Some (Unlimited ()) else Some (Adopt (ScalarUnit l)))
      else None)"

definition cpu_events :: "RawStore \<Rightarrow> (CpuBudget, Microseconds) limit_event list" where
  "cpu_events raw =
     (let records = get_all raw CgroupFile in
      List.map_filter (cpu_event (cgroup_values records)) records)"

definition memory_events :: "RawStore \<Rightarrow> (MemorySize, unit) limit_event list" where
  "memory_events raw = List.map_filter memory_event (get_all raw CgroupFile)"

text \<open>The period of the first unlimited file.\<close>

primrec first_period :: "(CpuBudget, Microseconds) limit_event list \<Rightarrow> Microseconds option" where
  "first_period [] = None"
| "first_period (e # es) = (case e of Unlimited p \<Rightarrow> Some p | _ \<Rightarrow> first_period es)"

lemma first_period_snoc:
  "first_period (es @ [e]) = (case first_period es of
     Some p \<Rightarrow> Some p | None \<Rightarrow> (case e of Unlimited p \<Rightarrow> Some p | _ \<Rightarrow> None))"
  by (induction es) (auto split: limit_event.split)

section \<open>The scan refines the event lists\<close>

definition scan_refines :: "nat \<Rightarrow> (string \<times> string) list \<Rightarrow> RawRecord list \<Rightarrow> CgroupScan \<Rightarrow> bool" where
  "scan_refines extra values records scan \<longleftrightarrow>
     scan_cpu scan = cpu_limit.summary extra (List.map_filter (cpu_event values) records) \<and>
     scan_period scan = first_period (List.map_filter (cpu_event values) records) \<and>
     scan_memory scan = memory_limit.summary (List.map_filter memory_event records)"

lemma map_filter_snoc:
  "List.map_filter f (xs @ [x]) = List.map_filter f xs @ (case f x of None \<Rightarrow> [] | Some y \<Rightarrow> [y])"
  by (simp add: List.map_filter_def split: option.split)

lemma read_cpu_limit_event:
  "read_cpu_limit extra q p (s, u) =
     (cpu_limit.observe extra (budget_event q p) s,
      case u of Some v \<Rightarrow> Some v | None \<Rightarrow> (case budget_event q p of Unlimited v \<Rightarrow> Some v | _ \<Rightarrow> None))"
  by (auto simp: read_cpu_limit_def budget_event_def Let_def split: option.split)

lemma scan_cpu_limit_event:
  "scan_cpu (scan_cpu_limit extra texts scan) =
     cpu_limit.observe extra (texts_event texts) (scan_cpu scan)"
  "scan_period (scan_cpu_limit extra texts scan) =
     (case scan_period scan of Some v \<Rightarrow> Some v
      | None \<Rightarrow> (case texts_event texts of Unlimited v \<Rightarrow> Some v | _ \<Rightarrow> None))"
  "scan_memory (scan_cpu_limit extra texts scan) = scan_memory scan"
  "scan_context (scan_cpu_limit extra texts scan) = scan_context scan"
  by (auto simp: scan_cpu_limit_def texts_event_def read_cpu_limit_event split: option.split)

lemma scan_memory_limit_event:
  "rec_status record \<noteq> NotCollected \<Longrightarrow>
   path_filename (rec_path_or_command record) = name \<Longrightarrow>
   name = ''memory.max'' \<or> name = ''memory.limit_in_bytes'' \<Longrightarrow>
   memory_event record = Some e \<Longrightarrow>
   scan_memory (scan_memory_limit record name scan) = memory_limit.observe e (scan_memory scan)"
  by (auto simp: scan_memory_limit_def read_memory_limit_def memory_event_def Let_def
      split: option.splits if_splits)

lemma memory_event_Some:
  "rec_status record \<noteq> NotCollected \<Longrightarrow>
   path_filename (rec_path_or_command record) = name \<Longrightarrow>
   name = ''memory.max'' \<or> name = ''memory.limit_in_bytes'' \<Longrightarrow> memory_event record \<noteq> None"
  by (auto simp: memory_event_def Let_def split: option.split)

lemma scan_memory_limit_frame:
  "scan_cpu (scan_memory_limit r n scan) = scan_cpu scan"
  "scan_period (scan_memory_limit r n scan) = scan_period scan"
  "scan_context (scan_memory_limit r n scan) = scan_context scan"
  by (simp_all add: scan_memory_limit_def)

lemma scan_refines_step:
  assumes "scan_refines extra values rs scan"
  shows "scan_refines extra values (rs @ [r]) (scan_cgroup_record extra values r scan)"
proof -
  let ?name = "path_filename (rec_path_or_command r)"
  consider (skip) "rec_status r = NotCollected"
    | (cpu) "rec_status r \<noteq> NotCollected" "?name = ''cpu.max'' \<or> ?name = ''cpu.cfs_quota_us''"
    | (memory) "rec_status r \<noteq> NotCollected" "?name = ''memory.max'' \<or> ?name = ''memory.limit_in_bytes''"
    | (other) "rec_status r \<noteq> NotCollected" "?name \<notin> {''cpu.max'', ''cpu.cfs_quota_us'',
        ''memory.max'', ''memory.limit_in_bytes''}"
    by blast
  then show ?thesis
  proof cases
    case skip
    then show ?thesis
      using assms by (simp add: scan_refines_def scan_cgroup_record_def map_filter_snoc cpu_event_def
          memory_event_def Let_def)
  next
    case cpu
    then obtain texts where t: "cpu_event values r = Some (texts_event texts)"
        "scan_cgroup_record extra values r scan = scan_cpu_limit extra texts scan"
      by (auto simp: cpu_event_def scan_cgroup_record_def Let_def)
    have "memory_event r = None" using cpu by (auto simp: memory_event_def Let_def)
    with t assms show ?thesis
      by (simp add: scan_refines_def map_filter_snoc scan_cpu_limit_event first_period_snoc
          cpu_limit.summary_snoc)
  next
    case memory
    then have s: "scan_cgroup_record extra values r scan = scan_memory_limit r ?name scan"
      "cpu_event values r = None"
      by (auto simp: scan_cgroup_record_def cpu_event_def Let_def)
    obtain e where e: "memory_event r = Some e"
      using memory_event_Some [OF memory(1) refl memory(2)] by blast
    show ?thesis
      using assms scan_memory_limit_event [OF memory(1) refl memory(2) e, of scan]
      by (simp add: scan_refines_def map_filter_snoc s e scan_memory_limit_frame
          memory_limit.summary_snoc)
  next
    case other
    then show ?thesis
      using assms by (simp add: scan_refines_def scan_cgroup_record_def map_filter_snoc cpu_event_def
          memory_event_def Let_def)
  qed
qed

lemma scan_refines_fold:
  "scan_refines extra values seen scan \<Longrightarrow>
   scan_refines extra values (seen @ rs) (fold (scan_cgroup_record extra values) rs scan)"
proof (induction rs arbitrary: seen scan)
  case Nil
  then show ?case by simp
next
  case (Cons r rs)
  then show ?case using Cons.IH [OF scan_refines_step [OF Cons.prems, of r]] by simp
qed

lemma scan_cgroup_events:
  "scan_cpu (scan_cgroup extra raw context) = cpu_limit.summary extra (cpu_events raw)"
  "scan_period (scan_cgroup extra raw context) = first_period (cpu_events raw)"
  "scan_memory (scan_cgroup extra raw context) = memory_limit.summary (memory_events raw)"
proof -
  let ?rs = "get_all raw CgroupFile"
  have "scan_refines extra (cgroup_values ?rs) [] \<lparr>scan_cpu = LimitSummary_default,
      scan_memory = LimitSummary_default, scan_period = None, scan_context = context\<rparr>"
    by (simp add: scan_refines_def List.map_filter_def cpu_limit.summary_def memory_limit.summary_def)
  from scan_refines_fold [OF this, of ?rs]
  show "scan_cpu (scan_cgroup extra raw context) = cpu_limit.summary extra (cpu_events raw)"
    "scan_period (scan_cgroup extra raw context) = first_period (cpu_events raw)"
    "scan_memory (scan_cgroup extra raw context) = memory_limit.summary (memory_events raw)"
    by (simp_all add: scan_refines_def scan_cgroup_def cpu_events_def memory_events_def Let_def)
qed

section \<open>Rounded quotients\<close>

lemma ld_scale_lower: "0 < q \<Longrightarrow> 2 ^ k * p \<le> q * 2 ^ ld_scale k q p"
proof (induction k q p rule: ld_scale.induct)
  case (1 k q p)
  show ?case
  proof (cases "2 ^ k * p \<le> q")
    case True
    then show ?thesis using 1(2) by (subst ld_scale.simps) simp
  next
    case False
    then have "ld_scale k q p = Suc (ld_scale k (2 * q) p)"
      using 1(2) by (subst ld_scale.simps) simp
    moreover have "2 ^ k * p \<le> 2 * q * 2 ^ ld_scale k (2 * q) p"
      using 1(1) 1(2) False by simp
    ultimately show ?thesis by (simp add: ac_simps)
  qed
qed

lemma round_div_error:
  assumes "0 < b"
  shows "2 * (b * round_div a b) \<le> 2 * a + b" "2 * a \<le> 2 * (b * round_div a b) + b"
proof -
  define f r where "f = a div b" and "r = a mod b"
  have a: "a = b * f + r" by (simp add: f_def r_def)
  have r: "r < b" using assms by (simp add: r_def)
  have cases: "round_div a b = f \<and> 2 * r \<le> b \<or> round_div a b = f + 1 \<and> b \<le> 2 * r"
    by (auto simp: round_div_def Let_def f_def r_def)
  have up: "b * (f + 1) = b * f + b" by simp
  from cases have "2 * (b * round_div a b) \<le> 2 * a + b \<and> 2 * a \<le> 2 * (b * round_div a b) + b"
  proof
    assume c: "round_div a b = f \<and> 2 * r \<le> b"
    then have "b * round_div a b = b * f" by simp
    with c a show ?thesis by linarith
  next
    assume c: "round_div a b = f + 1 \<and> b \<le> 2 * r"
    then have "b * round_div a b = b * f + b" by simp
    with c a r show ?thesis by linarith
  qed
  then show "2 * (b * round_div a b) \<le> 2 * a + b" "2 * a \<le> 2 * (b * round_div a b) + b" by simp_all
qed

text \<open>Quotients of numbers below \<open>2 ^ 31\<close> stay apart under the rounding.\<close>

lemma ld_scale_large:
  assumes "0 < q" "q < 2 ^ 31" "0 < p1" "p2 < 2 ^ 31" "63 \<le> k"
  shows "p1 * p2 < 2 ^ ld_scale k q p1"
proof (rule ccontr)
  assume "\<not> p1 * p2 < 2 ^ ld_scale k q p1"
  then have le: "2 ^ ld_scale k q p1 \<le> p1 * p2" by simp
  have "(2 :: nat) ^ 63 * p1 \<le> 2 ^ k * p1"
    using assms(5) by (intro mult_le_mono1 power_increasing) simp_all
  also have "\<dots> \<le> q * 2 ^ ld_scale k q p1" by (rule ld_scale_lower [OF assms(1)])
  also have "\<dots> \<le> q * (p1 * p2)" using le by (rule mult_le_mono2)
  also have "\<dots> = (q * p2) * p1" by (simp only: ac_simps)
  also have "\<dots> \<le> (2 ^ 31 * 2 ^ 31) * p1"
    using assms(2,4) by (intro mult_le_mono1 mult_le_mono) simp_all
  finally have "(2 :: nat) ^ 63 * p1 \<le> 2 ^ 62 * p1" by (simp add: power_add [symmetric])
  then show False using assms(3) by simp
qed

lemma ld_less_exact:
  assumes "0 < q1" "q1 < 2 ^ 31" "0 < p1" "p1 < 2 ^ 31"
    and "0 < q2" "q2 < 2 ^ 31" "0 < p2" "p2 < 2 ^ 31"
    and k: "63 \<le> k" and less: "q1 * p2 < q2 * p1"
  shows "ld_less (ld_div k q1 p1) (ld_div k q2 p2)"
proof -
  define A where "A = (2 :: nat) ^ ld_scale k q1 p1"
  define B where "B = (2 :: nat) ^ ld_scale k q2 p2"
  define m where "m = round_div (q1 * A) p1"
  define n where "n = round_div (q2 * B) p2"
  have A: "p1 * p2 < A" unfolding A_def by (rule ld_scale_large) (use assms in simp_all)
  have B: "p1 * p2 < B"
    using ld_scale_large [of q2 p2 p1 k] assms by (simp add: B_def mult.commute)
  have m: "2 * (p1 * m) \<le> 2 * (q1 * A) + p1"
    unfolding m_def by (rule round_div_error(1) [OF assms(3)])
  have n: "2 * (q2 * B) \<le> 2 * (p2 * n) + p2"
    unfolding n_def by (rule round_div_error(2) [OF assms(7)])
  have "m * B < n * A"
  proof (rule ccontr)
    assume "\<not> m * B < n * A"
    then have le: "n * A \<le> m * B" by simp
    have "2 * ((q2 * p1) * (A * B)) = 2 * (q2 * B) * (p1 * A)" by (simp only: ac_simps)
    also have "\<dots> \<le> (2 * (p2 * n) + p2) * (p1 * A)" using n by (rule mult_le_mono1)
    also have "\<dots> = 2 * (p1 * p2) * (n * A) + p1 * p2 * A" by (simp add: algebra_simps)
    also have "\<dots> \<le> 2 * (p1 * p2) * (m * B) + p1 * p2 * A" using le by (simp only: add_le_mono1 mult_le_mono2)
    also have "\<dots> = 2 * (p1 * m) * (p2 * B) + p1 * p2 * A" by (simp only: ac_simps)
    also have "\<dots> \<le> (2 * (q1 * A) + p1) * (p2 * B) + p1 * p2 * A"
      using mult_le_mono1 [OF m] by (simp only: add_le_mono1)
    also have "\<dots> = 2 * ((q1 * p2) * (A * B)) + p1 * p2 * B + p1 * p2 * A" by (simp add: algebra_simps)
    also have "\<dots> < 2 * ((q1 * p2) * (A * B)) + A * B + B * A"
    proof -
      have "0 < A" "0 < B" using A B by simp_all
      then have "p1 * p2 * B < A * B" "p1 * p2 * A < B * A" using A B by simp_all
      then show ?thesis by linarith
    qed
    also have "\<dots> = 2 * ((q1 * p2 + 1) * (A * B))" by (simp add: algebra_simps)
    also have "\<dots> \<le> 2 * ((q2 * p1) * (A * B))"
      using less by (intro mult_le_mono2 mult_le_mono1) simp
    finally show False by simp
  qed
  then show ?thesis
    by (simp add: ld_less_def ld_div_def Let_def m_def n_def A_def B_def)
qed

section \<open>The limits of the model\<close>

definition adopted :: "('v, 'u) limit_event list \<Rightarrow> 'v list" where
  "adopted es = List.map_filter (\<lambda>e. case e of Adopt v \<Rightarrow> Some v | _ \<Rightarrow> None) es"

lemma set_adopted [simp]: "v \<in> set (adopted es) \<longleftrightarrow> Adopt v \<in> set es"
  by (force simp: adopted_def List.map_filter_def split: limit_event.splits)

lemma adopted_Nil_iff: "adopted es = [] \<longleftrightarrow> (\<forall>v. Adopt v \<notin> set es)"
  by (metis set_adopted set_empty empty_iff ex_in_conv)

lemma scan_context_field_frame:
  "cg_memory_limit (ex_cgroup (scan_context_field r n c)) = cg_memory_limit (ex_cgroup c) \<and>
   cg_cpu_quota_us (ex_cgroup (scan_context_field r n c)) = cg_cpu_quota_us (ex_cgroup c)"
  by (simp add: scan_context_field_def set_memory_current_def Let_def split: option.split)

lemma scan_cgroup_record_frame:
  "cg_memory_limit (ex_cgroup (scan_context (scan_cgroup_record x v r s))) =
     cg_memory_limit (ex_cgroup (scan_context s)) \<and>
   cg_cpu_quota_us (ex_cgroup (scan_context (scan_cgroup_record x v r s))) =
     cg_cpu_quota_us (ex_cgroup (scan_context s))"
  by (simp add: scan_cgroup_record_def Let_def scan_cpu_limit_event scan_memory_limit_frame
      scan_context_field_frame)

lemma scan_cgroup_frame:
  "cg_memory_limit (ex_cgroup (scan_context (scan_cgroup extra raw context))) =
     cg_memory_limit (ex_cgroup context) \<and>
   cg_cpu_quota_us (ex_cgroup (scan_context (scan_cgroup extra raw context))) =
     cg_cpu_quota_us (ex_cgroup context)"
  unfolding scan_cgroup_def Let_def
  by (rule fold_invariant_set) (simp_all add: scan_cgroup_record_frame)

lemma store_limits_fields:
  "cg_cpu_limit_known (store_limits scan g) = known (scan_cpu scan)"
  "cg_memory_limit_known (store_limits scan g) = known (scan_memory scan)"
  "cg_memory_limit (store_limits scan g) =
     (case ls_value (scan_memory scan) of None \<Rightarrow> cg_memory_limit g | Some s \<Rightarrow> Some s)"
  "cg_cpu_quota_us (store_limits scan g) =
     (case ls_value (scan_cpu scan) of None \<Rightarrow> cg_cpu_quota_us g | Some b \<Rightarrow> Some (bud_quota b))"
  "cg_cpu_period_us (store_limits scan g) =
     (case ls_value (scan_cpu scan) of None \<Rightarrow> scan_period scan | Some b \<Rightarrow> Some (bud_period b))"
  by (simp_all add: store_limits_def Let_def split: option.split)

text \<open>a limit of the hierarchy is reported as known exactly when some file of it was seen and every
  one could be read; and a warning says that a limit is only an upper bound exactly when a file
  could not be read.
\<close>

theorem cgroup_limits_known:
  "let (context', warnings') = parse_cgroup_limits extra raw context warnings;
       cpu = cpu_events raw; memory = memory_events raw in
     (cg_cpu_limit_known (ex_cgroup context') \<longleftrightarrow> cpu \<noteq> [] \<and> Unreadable \<notin> set cpu) \<and>
     (cg_memory_limit_known (ex_cgroup context') \<longleftrightarrow> memory \<noteq> [] \<and> Unreadable \<notin> set memory) \<and>
     warnings' = warnings @ (if Unreadable \<in> set cpu then [cpu_incomplete] else []) @
       (if Unreadable \<in> set memory then [memory_incomplete] else [])"
  by (simp add: parse_cgroup_limits_def Let_def store_limits_fields scan_cgroup_events
      cpu_limit.known_summary memory_limit.known_summary cpu_limit.incomplete_summary
      memory_limit.incomplete_summary)

text \<open>the memory limit is the smallest of the finite limits of the hierarchy, and is left alone when
  there is none.
\<close>

theorem cgroup_memory_strictest:
  "cg_memory_limit (ex_cgroup (fst (parse_cgroup_limits extra raw context warnings))) =
     (if adopted (memory_events raw) = [] then cg_memory_limit (ex_cgroup context)
      else Some (ScalarUnit (Min (unit_value ` set (adopted (memory_events raw))))))"
proof -
  let ?es = "memory_events raw"
  have s: "memory_limit.strictest ?es (ls_value (memory_limit.summary ?es))"
    by (rule memory_limit.summary_value)
  have c: "cg_memory_limit (ex_cgroup (fst (parse_cgroup_limits extra raw context warnings))) =
      (case ls_value (memory_limit.summary ?es) of None \<Rightarrow> cg_memory_limit (ex_cgroup context)
       | Some s \<Rightarrow> Some s)"
    by (simp add: parse_cgroup_limits_def Let_def store_limits_fields scan_cgroup_events
        scan_cgroup_frame split: option.split)
  show ?thesis
  proof (cases "ls_value (memory_limit.summary ?es)")
    case None
    then show ?thesis using s c by (simp add: memory_limit.strictest_def adopted_Nil_iff)
  next
    case (Some v)
    then have v: "v \<in> set (adopted ?es)" "\<And>w. w \<in> set (adopted ?es) \<Longrightarrow> unit_value v \<le> unit_value w"
      using s by (auto simp: memory_limit.strictest_def memory_less_def not_less)
    have "Min (unit_value ` set (adopted ?es)) = unit_value v"
      by (rule Min_eqI) (use v in auto)
    moreover have "adopted ?es \<noteq> []" using v(1) by (metis list.set(1) empty_iff)
    ultimately show ?thesis using c by (cases v) (simp add: Some)
  qed
qed

lemma budget_event_positive:
  "budget_event q p = Adopt b \<Longrightarrow>
   0 < unat (unit_value (bud_quota b)) \<and> 0 < unat (unit_value (bud_period b))"
  by (auto simp: budget_event_def unat_gt_0 split: option.splits if_splits)

lemma cpu_events_positive:
  "Adopt b \<in> set (cpu_events raw) \<Longrightarrow>
   0 < unat (unit_value (bud_quota b)) \<and> 0 < unat (unit_value (bud_period b))"
  by (auto simp: cpu_events_def List.map_filter_def cpu_event_def texts_event_def Let_def
      dest: budget_event_positive [OF sym] split: if_splits option.splits)

text \<open>A budget whose quota and period are below \<open>2 ^ 31\<close> microseconds, about 35 minutes.\<close>

definition small_budget :: "CpuBudget \<Rightarrow> bool" where
  "small_budget b \<longleftrightarrow> unat (unit_value (bud_quota b)) < 2 ^ 31 \<and> unat (unit_value (bud_period b)) < 2 ^ 31"

text \<open>The first budget allows at most as much CPU time per period as the second, exactly.\<close>

definition ratio_le :: "CpuBudget \<Rightarrow> CpuBudget \<Rightarrow> bool" where
  "ratio_le a b \<longleftrightarrow>
     unat (unit_value (bud_quota a)) * unat (unit_value (bud_period b)) \<le>
     unat (unit_value (bud_quota b)) * unat (unit_value (bud_period a))"

text \<open>C11: the CPU quota and period are those of the strictest finite budget of the hierarchy: one of
  the budgets read, with a quota-to-period ratio that no other budget undercuts, although the code
  compares rounded quotients.
\<close>

theorem cgroup_cpu_strictest:
  assumes "list_all small_budget (adopted (cpu_events raw))" "adopted (cpu_events raw) \<noteq> []"
  shows "let g = ex_cgroup (fst (parse_cgroup_limits extra raw context warnings)) in
    \<exists>b. b \<in> set (adopted (cpu_events raw)) \<and> cg_cpu_quota_us g = Some (bud_quota b) \<and>
      cg_cpu_period_us g = Some (bud_period b) \<and> list_all (ratio_le b) (adopted (cpu_events raw))"
proof -
  let ?es = "cpu_events raw"
  let ?g = "ex_cgroup (fst (parse_cgroup_limits extra raw context warnings))"
  have s: "cpu_limit.strictest extra ?es (ls_value (cpu_limit.summary extra ?es))"
    by (rule cpu_limit.summary_value)
  then obtain b where b: "ls_value (cpu_limit.summary extra ?es) = Some b"
    using assms(2) by (cases "ls_value (cpu_limit.summary extra ?es)")
      (simp_all add: cpu_limit.strictest_def adopted_Nil_iff)
  then have mem: "b \<in> set (adopted ?es)"
    and min: "\<And>w. w \<in> set (adopted ?es) \<Longrightarrow> \<not> budget_less extra w b"
    using s by (auto simp: cpu_limit.strictest_def)
  have "ratio_le b w" if w: "w \<in> set (adopted ?es)" for w
  proof (rule ccontr)
    assume "\<not> ratio_le b w"
    then have "budget_less extra w b"
      using assms(1) w mem cpu_events_positive [of w raw] cpu_events_positive [of b raw]
      by (auto simp: budget_less_def ratio_le_def not_le small_budget_def list_all_iff
          intro!: ld_less_exact)
    then show False using min [OF w] by blast
  qed
  moreover have "cg_cpu_quota_us ?g = Some (bud_quota b)" "cg_cpu_period_us ?g = Some (bud_period b)"
    by (simp_all add: parse_cgroup_limits_def Let_def store_limits_fields scan_cgroup_events b)
  ultimately show ?thesis using mem by (auto simp: Let_def list_all_iff)
qed

text \<open>A quota of half a CPU below an ancestor with a quota of one CPU.\<close>

definition nested_quota :: RawStore where
  "nested_quota = RawStore_default\<lparr>raw_records :=
     [\<lparr>rec_source = CgroupFile, rec_path_or_command = ''/sys/fs/cgroup/a/cpu.max'',
       rec_payload = ''50000 100000'', rec_status = Success, rec_collected_at = 0,
       rec_failure = None, rec_skip = None\<rparr>,
      \<lparr>rec_source = CgroupFile, rec_path_or_command = ''/sys/fs/cgroup/cpu.max'',
       rec_payload = ''100000 100000'', rec_status = Success, rec_collected_at = 0,
       rec_failure = None, rec_skip = None\<rparr>]\<rparr>"

theorem cgroup_cpu_strictest_witness:
  "\<exists>b. b \<in> set (adopted (cpu_events nested_quota)) \<and>
     list_all (ratio_le b) (adopted (cpu_events nested_quota))"
proof -
  have "list_all small_budget (adopted (cpu_events nested_quota))"
    "adopted (cpu_events nested_quota) \<noteq> []"
    by code_simp+
  from cgroup_cpu_strictest [OF this, of 0 ExecutionContext_default "[]"]
  show ?thesis by (auto simp: Let_def)
qed

end
