(* ===== verification/Execution.thy ===== *)
theory Execution
  imports Cgroup_Limits Cpu_Details
begin

text \<open>
  \<open>src/parser/execution.cpp\<close>: the execution context of the process from \<open>/proc/self/status\<close>,
  \<open>/proc/self/cgroup\<close>, the environment and the cgroup files, with the container detection. A
  parser that fills in a context by reference returns the updated context.
\<close>

section \<open>Capabilities\<close>

definition cap_table :: "(nat \<times> string) list" where
  "cap_table =
     [(0, ''CAP_CHOWN''), (1, ''CAP_DAC_OVERRIDE''), (3, ''CAP_FOWNER''), (4, ''CAP_FSETID''),
      (5, ''CAP_KILL''), (6, ''CAP_SETGID''), (7, ''CAP_SETUID''), (8, ''CAP_SETPCAP''),
      (10, ''CAP_NET_BIND_SERVICE''), (11, ''CAP_NET_BROADCAST''), (12, ''CAP_NET_ADMIN''),
      (13, ''CAP_NET_RAW''), (14, ''CAP_IPC_LOCK''), (15, ''CAP_IPC_OWNER''),
      (16, ''CAP_SYS_MODULE''), (17, ''CAP_SYS_RAWIO''), (18, ''CAP_SYS_CHROOT''),
      (19, ''CAP_SYS_PTRACE''), (20, ''CAP_SYS_PACCT''), (21, ''CAP_SYS_ADMIN''),
      (22, ''CAP_SYS_BOOT''), (23, ''CAP_SYS_NICE''), (24, ''CAP_SYS_RESOURCE''),
      (25, ''CAP_SYS_TIME''), (26, ''CAP_SYS_TTY_CONFIG''), (27, ''CAP_MKNOD''),
      (28, ''CAP_LEASE''), (29, ''CAP_AUDIT_WRITE''), (30, ''CAP_AUDIT_CONTROL''),
      (31, ''CAP_SETFCAP''), (32, ''CAP_MAC_OVERRIDE''), (33, ''CAP_MAC_ADMIN''),
      (34, ''CAP_SYSLOG''), (35, ''CAP_WAKE_ALARM''), (36, ''CAP_BLOCK_SUSPEND''),
      (37, ''CAP_AUDIT_READ''), (38, ''CAP_PERFMON''), (39, ''CAP_BPF''),
      (40, ''CAP_CHECKPOINT_RESTORE'')]"

definition decode_capabilities :: "string \<Rightarrow> string list" where
  "decode_capabilities hex =
     (let trimmed = trim hex in
      if trimmed = [] then []
      else case parse_hex trimmed of
             None \<Rightarrow> []
           | Some val \<Rightarrow> map snd (filter (\<lambda>(b, _). bit (val :: u64) b) cap_table))"

section \<open>/proc/self/status\<close>

definition to_i32 :: "u64 \<Rightarrow> i32" where
  "to_i32 v = ucast v"

text \<open>The real and the effective id of a \<open>Uid\<close> or \<open>Gid\<close> line.\<close>

definition id_field :: "string list \<Rightarrow> nat \<Rightarrow> u32 option" where
  "id_field parts i =
     (if i < length parts then map_option to_u32 (parse_uint (trim (parts ! i))) else None)"

definition set_uid :: "u32 option \<Rightarrow> u32 option \<Rightarrow> ExecutionContext \<Rightarrow> ExecutionContext" where
  "set_uid real effective ctx =
     (let ctx1 = (case real of
            Some u \<Rightarrow> ctx\<lparr>ex_process := (ex_process ctx)\<lparr>proc_uid := u\<rparr>\<rparr> | None \<Rightarrow> ctx)
      in case effective of
           Some u \<Rightarrow> ctx1\<lparr>ex_permission := (ex_permission ctx1)\<lparr>perm_euid := u\<rparr>\<rparr> | None \<Rightarrow> ctx1)"

definition set_gid :: "u32 option \<Rightarrow> u32 option \<Rightarrow> ExecutionContext \<Rightarrow> ExecutionContext" where
  "set_gid real effective ctx =
     (let ctx1 = (case real of
            Some g \<Rightarrow> ctx\<lparr>ex_process := (ex_process ctx)\<lparr>proc_gid := g\<rparr>\<rparr> | None \<Rightarrow> ctx)
      in case effective of
           Some g \<Rightarrow> ctx1\<lparr>ex_permission := (ex_permission ctx1)\<lparr>perm_egid := g\<rparr>\<rparr> | None \<Rightarrow> ctx1)"

definition invalid_allowed_list :: string where
  "invalid_allowed_list =
     ''parse_execution: invalid or oversized Cpus_allowed_list; CPU visibility unknown''"

definition set_allowed_cpus ::
  "string \<Rightarrow> ExecutionContext \<times> string list \<Rightarrow> ExecutionContext \<times> string list" where
  "set_allowed_cpus value = (\<lambda>(ctx, warnings).
     let ctx1 = ctx\<lparr>ex_cpuset := (ex_cpuset ctx)\<lparr>cs_cpus := value, cs_cpus_effective := value\<rparr>\<rparr> in
     case parse_cpu_id_list value of
       Some ids \<Rightarrow>
         (ctx1\<lparr>ex_visible_logical_cpu_ids := ids, ex_cpu_visibility_known := True\<rparr>, warnings)
     | None \<Rightarrow> (ctx1, warnings @ [invalid_allowed_list]))"

definition set_process :: "(Process \<Rightarrow> Process) \<Rightarrow> ExecutionContext \<Rightarrow> ExecutionContext" where
  "set_process f ctx = ctx\<lparr>ex_process := f (ex_process ctx)\<rparr>"

definition status_line :: "string \<Rightarrow> ExecutionContext \<times> string list \<Rightarrow> ExecutionContext \<times> string list" where
  "status_line line = (\<lambda>(ctx, warnings).
     let (k, v) = parse_kv line (CHR '':''); key = trim k; value = trim v in
     if key = ''Pid'' then
       (case parse_uint value of
          Some n \<Rightarrow> set_process (proc_pid_update (\<lambda>_. to_i32 n)) ctx | None \<Rightarrow> ctx, warnings)
     else if key = ''PPid'' then
       (case parse_uint value of
          Some n \<Rightarrow> set_process (proc_ppid_update (\<lambda>_. to_i32 n)) ctx | None \<Rightarrow> ctx, warnings)
     else if key = ''Name'' then (set_process (proc_comm_update (\<lambda>_. value)) ctx, warnings)
     else if key = ''Uid'' then
       (let parts = split value (CHR 0x09) in
        (set_uid (id_field parts 0) (id_field parts 1) ctx, warnings))
     else if key = ''Gid'' then
       (let parts = split value (CHR 0x09) in
        (set_gid (id_field parts 0) (id_field parts 1) ctx, warnings))
     else if key = ''CapEff'' then
       (ctx\<lparr>ex_permission := (ex_permission ctx)\<lparr>perm_capabilities := decode_capabilities value\<rparr>\<rparr>,
        warnings)
     else if key = ''Cpus_allowed_list'' then set_allowed_cpus value (ctx, warnings)
     else if key = ''Mems_allowed_list'' then
       (ctx\<lparr>ex_cpuset := (ex_cpuset ctx)\<lparr>cs_mems := value, cs_mems_effective := value\<rparr>\<rparr>, warnings)
     else (ctx, warnings))"

definition set_is_root :: "ExecutionContext \<Rightarrow> ExecutionContext" where
  "set_is_root ctx =
     (let perm = ex_permission ctx in
      if perm_euid perm \<noteq> 0 \<or> perm_egid perm \<noteq> 0
      then ctx\<lparr>ex_permission := perm\<lparr>perm_is_root := False\<rparr>\<rparr>
      else if perm_euid perm = 0 then ctx\<lparr>ex_permission := perm\<lparr>perm_is_root := True\<rparr>\<rparr>
      else ctx)"

definition parse_proc_self_status ::
  "string \<Rightarrow> ExecutionContext \<times> string list \<Rightarrow> ExecutionContext \<times> string list" where
  "parse_proc_self_status payload st =
     (let (ctx, warnings) = fold status_line (split payload (CHR 0x0A)) st
      in (set_is_root ctx, warnings))"

section \<open>/proc/self/cgroup\<close>

text \<open>The three fields of a version 1 line.\<close>

definition cgroup_v1_fields :: "string \<Rightarrow> (string \<times> string) option" where
  "cgroup_v1_fields trimmed =
     (case find_char (CHR '':'') trimmed of
        None \<Rightarrow> None
      | Some first_colon \<Rightarrow>
          (case find_char_from (CHR '':'') (first_colon + 1) trimmed of
             None \<Rightarrow> None
           | Some second_colon \<Rightarrow>
               Some (take (second_colon - first_colon - 1) (drop (first_colon + 1) trimmed),
                     drop (second_colon + 1) trimmed)))"

fun cgroup_lines :: "string list \<Rightarrow> Cgroup \<Rightarrow> Cgroup" where
  "cgroup_lines [] g = g"
| "cgroup_lines (line # ls) g =
     (let trimmed = trim line in
      if trimmed = [] then cgroup_lines ls g
      else if prefix ''0::'' trimmed then g\<lparr>cg_version := V2, cg_path := drop 3 trimmed\<rparr>
      else case cgroup_v1_fields trimmed of
             None \<Rightarrow> cgroup_lines ls g
           | Some (controllers_str, cgroup_path) \<Rightarrow>
               g\<lparr>cg_version := V1, cg_path := cgroup_path,
                 cg_controllers := cg_controllers g @
                   filter (\<lambda>tc. tc \<noteq> []) (map trim (split controllers_str (CHR '','')))\<rparr>)"

definition parse_proc_self_cgroup :: "string \<Rightarrow> ExecutionContext \<Rightarrow> ExecutionContext" where
  "parse_proc_self_cgroup payload ctx =
     ctx\<lparr>ex_cgroup := cgroup_lines (split payload (CHR 0x0A)) (ex_cgroup ctx)\<rparr>"

section \<open>The environment\<close>

definition environment_entry :: "string \<Rightarrow> (string \<times> string) option" where
  "environment_entry line =
     (let trimmed = trim line in
      if trimmed = [] then None
      else case find_char (CHR ''='') trimmed of
             None \<Rightarrow> None
           | Some eq \<Rightarrow> Some (take eq trimmed, drop (eq + 1) trimmed))"

definition cuda_ids :: "string \<Rightarrow> AcceleratorId list" where
  "cuda_ids value =
     List.map_filter (\<lambda>id_str. map_option (\<lambda>v. StrongId (to_u32 v)) (parse_uint (trim id_str)))
       (split value (CHR '',''))"

definition parse_environment :: "string \<Rightarrow> ExecutionContext \<Rightarrow> ExecutionContext" where
  "parse_environment payload ctx =
     (let entries = env_entries (ex_environment ctx) @
            List.map_filter environment_entry (split payload (CHR 0x0A));
          ids = concat (map (\<lambda>(key, value). if key = ''CUDA_VISIBLE_DEVICES'' then cuda_ids value else [])
            entries)
      in ctx\<lparr>ex_environment := \<lparr>env_entries = entries\<rparr>,
             ex_visible_accelerator_ids := ex_visible_accelerator_ids ctx @ ids\<rparr>)"

section \<open>Containers\<close>

definition container_of_kind :: "ContainerKind \<Rightarrow> Container" where
  "container_of_kind kind = \<lparr>cont_kind = kind, cont_id = [], cont_runtime = []\<rparr>"

definition cgroup_container :: "string \<Rightarrow> ContainerKind option" where
  "cgroup_container content =
     (if contains_str content ''docker'' then Some Docker
      else if contains_str content ''podman'' then Some Podman
      else if contains_str content ''lxc'' then Some Lxc
      else if contains_str content ''kubepods'' \<or> contains_str content ''kube'' then Some Kubernetes
      else None)"

fun find_cgroup_container :: "RawRecord list \<Rightarrow> ContainerKind option" where
  "find_cgroup_container [] = None"
| "find_cgroup_container (r # rs) =
     (if rec_status r \<noteq> Success then find_cgroup_container rs
      else case cgroup_container (rec_payload r) of
             Some kind \<Rightarrow> Some kind
           | None \<Rightarrow> find_cgroup_container rs)"

definition env_container :: "string \<Rightarrow> string \<Rightarrow> Container option" where
  "env_container key value =
     (if key = ''container'' then
        (if value = ''docker'' then Some (container_of_kind Docker)
         else if value = ''podman'' then Some (container_of_kind Podman)
         else if value = ''lxc'' then Some (container_of_kind Lxc)
         else Some \<lparr>cont_kind = Container_Other, cont_id = value, cont_runtime = []\<rparr>)
      else if key = ''KUBERNETES_SERVICE_HOST'' then Some (container_of_kind Kubernetes)
      else None)"

fun find_env_container :: "(string \<times> string) list \<Rightarrow> Container option" where
  "find_env_container [] = None"
| "find_env_container ((key, value) # es) =
     (case env_container key value of Some c \<Rightarrow> Some c | None \<Rightarrow> find_env_container es)"

definition detect_container :: "RawStore \<Rightarrow> ExecutionContext \<Rightarrow> Container option" where
  "detect_container raw ctx =
     (if has_success raw RootDockerenv then Some (container_of_kind Docker)
      else case find_cgroup_container (get_all raw ProcOneCgroup) of
             Some kind \<Rightarrow> Some (container_of_kind kind)
           | None \<Rightarrow> find_env_container (env_entries (ex_environment ctx)))"

section \<open>The parser\<close>

definition parse_execution ::
  "nat \<Rightarrow> RawStore \<Rightarrow> string list \<Rightarrow> ExecutionContext option \<times> string list" where
  "parse_execution extra raw warnings =
     (let status = first_success raw ProcSelfStatus;
          cgroup = first_success raw ProcSelfCgroup;
          env = first_success raw Src_Environment;
          (ctx1, warnings1) = (case status of
              Some r \<Rightarrow> parse_proc_self_status (rec_payload r) (ExecutionContext_default, warnings)
            | None \<Rightarrow> (ExecutionContext_default, warnings));
          ctx2 = (case cgroup of
              Some r \<Rightarrow> parse_proc_self_cgroup (rec_payload r) ctx1 | None \<Rightarrow> ctx1);
          ctx3 = (case env of
              Some r \<Rightarrow> parse_environment (rec_payload r) ctx2 | None \<Rightarrow> ctx2);
          (ctx4, warnings2) = parse_cgroup_limits extra raw ctx3 warnings1;
          has_data = (status \<noteq> None \<or> cgroup \<noteq> None \<or> env \<noteq> None \<or> get_all raw CgroupFile \<noteq> []);
          ctx5 = ctx4\<lparr>ex_container := detect_container raw ctx4\<rparr>
      in if \<not> has_data then (None, warnings2) else (Some ctx5, warnings2))"

section \<open>Reading the lines\<close>

lemma trim_word_space:
  assumes "list_all (\<lambda>c. \<not> is_space c) w" "is_space c"
  shows "trim (w @ [c]) = w"
proof (cases w rule: rev_cases)
  case Nil
  then show ?thesis using assms by (simp add: trim_def)
next
  case (snoc v d)
  have "dropWhile is_space (w @ [c]) = w @ [c]"
    using assms(1) snoc by (cases v) auto
  then show ?thesis using assms by (simp add: trim_def snoc)
qed

lemma parse_cpu_id_list_sorted:
  "parse_cpu_id_list value = Some ids \<Longrightarrow> sorted_wrt (<) (map id_value ids)"
  using cpu_id_tokens_eq [of "[]" "split (normalize_cpu_list value) (CHR '','')"]
  by (auto simp: parse_cpu_id_list_def split: if_splits)

section \<open>Capabilities of a mask\<close>

text \<open>the capabilities reported for a mask, printed as the kernel prints it, are exactly the names
  of the table whose bit is set, in the order of the bits; two capabilities of the kernel are not
  in the table and so are never reported, whatever the mask.
\<close>

theorem capabilities_of_mask:
  "decode_capabilities (print_hex width (unat (mask_value :: u64)) @ [CHR 0x0A]) =
     map snd (filter (\<lambda>(b, _). bit mask_value b) cap_table) \<and>
   ''CAP_DAC_READ_SEARCH'' \<notin> set (decode_capabilities hex) \<and>
   ''CAP_LINUX_IMMUTABLE'' \<notin> set (decode_capabilities hex)"
proof -
  let ?p = "print_hex width (unat mask_value)"
  have digits: "list_all (\<lambda>c. \<not> is_space c) ?p"
    using print_hex_digits [of width "unat mask_value"] digit_in_not_space by (auto simp: list_all_iff)
  have "is_space (CHR 0x0A)" by code_simp
  then have "trim (?p @ [CHR 0x0A]) = ?p" by (rule trim_word_space [OF digits])
  moreover have "parse_hex ?p = Some mask_value"
    using parse_print_hex [of "unat mask_value" width] unsigned_less [of mask_value, where ?'a = nat]
    by simp
  moreover have "''CAP_DAC_READ_SEARCH'' \<notin> set (decode_capabilities hex)"
    "''CAP_LINUX_IMMUTABLE'' \<notin> set (decode_capabilities hex)"
    by (auto simp: decode_capabilities_def Let_def cap_table_def split: option.splits)
  ultimately show ?thesis by (simp add: decode_capabilities_def Let_def)
qed

section \<open>The status file\<close>

text \<open>The CPU visibility of a context: unknown with no CPUs, or a strictly increasing list.\<close>

definition visibility_ok :: "ExecutionContext \<Rightarrow> bool" where
  "visibility_ok ctx \<longleftrightarrow>
     (if ex_cpu_visibility_known ctx then sorted_wrt (<) (map id_value (ex_visible_logical_cpu_ids ctx))
      else ex_visible_logical_cpu_ids ctx = [])"

lemma visibility_fields [simp]:
  "visibility_ok (set_uid r e ctx) = visibility_ok ctx"
  "visibility_ok (set_gid r e ctx) = visibility_ok ctx"
  "visibility_ok (set_process f ctx) = visibility_ok ctx"
  "visibility_ok (ctx\<lparr>ex_permission := p\<rparr>) = visibility_ok ctx"
  "visibility_ok (ctx\<lparr>ex_cpuset := s\<rparr>) = visibility_ok ctx"
  by (simp_all add: visibility_ok_def set_uid_def set_gid_def set_process_def Let_def split: option.split)

lemma visibility_allowed:
  "visibility_ok ctx \<Longrightarrow> visibility_ok (fst (set_allowed_cpus value (ctx, w)))"
  by (auto simp: set_allowed_cpus_def visibility_ok_def Let_def parse_cpu_id_list_sorted
      split: option.split)

lemma visibility_status_line:
  "visibility_ok (fst st) \<Longrightarrow> visibility_ok (fst (status_line line st))"
  by (cases st) (simp add: status_line_def Let_def visibility_allowed case_prod_unfold
      split: option.split)

lemma visibility_set_is_root [simp]: "visibility_ok (set_is_root ctx) = visibility_ok ctx"
  by (simp add: set_is_root_def Let_def)

lemma visibility_status:
  "visibility_ok (fst st) \<Longrightarrow> visibility_ok (fst (parse_proc_self_status payload st))"
proof -
  assume "visibility_ok (fst st)"
  then have "visibility_ok (fst (fold status_line (split payload (CHR 0x0A)) st))"
    by (rule fold_invariant_set) (rule visibility_status_line)
  then show ?thesis by (simp add: parse_proc_self_status_def case_prod_unfold Let_def)
qed

text \<open>The part of a context that the later stages leave alone.\<close>

definition status_part :: "ExecutionContext \<Rightarrow> Process \<times> Permission \<times> LogicalCpuId list \<times> bool" where
  "status_part ctx = (ex_process ctx, ex_permission ctx, ex_visible_logical_cpu_ids ctx,
     ex_cpu_visibility_known ctx)"

lemma status_part_frame [simp]:
  "status_part (parse_proc_self_cgroup p ctx) = status_part ctx"
  "status_part (parse_environment p ctx) = status_part ctx"
  "status_part (ctx\<lparr>ex_container := c\<rparr>) = status_part ctx"
  "status_part (ctx\<lparr>ex_cgroup := g\<rparr>) = status_part ctx"
  by (simp_all add: status_part_def parse_proc_self_cgroup_def parse_environment_def Let_def)

lemma status_part_scan_field: "status_part (scan_context_field r n ctx) = status_part ctx"
  by (simp add: scan_context_field_def set_memory_current_def status_part_def Let_def
      split: option.split)

lemma status_part_scan: "status_part (scan_context (scan_cgroup extra raw ctx)) = status_part ctx"
proof -
  have "status_part (scan_context (scan_cgroup_record extra v r s)) = status_part (scan_context s)" for v r s
    by (simp add: scan_cgroup_record_def Let_def scan_cpu_limit_event scan_memory_limit_frame
        status_part_scan_field)
  then show ?thesis
    unfolding scan_cgroup_def Let_def
    by (intro fold_invariant_set [where P = "\<lambda>s. status_part (scan_context s) = status_part ctx"]) simp_all
qed

lemma status_part_limits [simp]:
  "status_part (fst (parse_cgroup_limits extra raw ctx w)) = status_part ctx"
  by (simp add: parse_cgroup_limits_def Let_def status_part_scan)

definition status_context :: "RawStore \<Rightarrow> ExecutionContext" where
  "status_context raw =
     (case first_success raw ProcSelfStatus of
        Some r \<Rightarrow> fst (parse_proc_self_status (rec_payload r) (ExecutionContext_default, []))
      | None \<Rightarrow> ExecutionContext_default)"

section \<open>Warnings and evidence\<close>

lemma set_allowed_cpus_push:
  "set_allowed_cpus v (apsnd ((@) w) st) = apsnd ((@) w) (set_allowed_cpus v st)"
  by (cases st) (simp add: set_allowed_cpus_def Let_def split: option.split)

lemma status_line_push: "status_line l (apsnd ((@) w) st) = apsnd ((@) w) (status_line l st)"
proof (cases st)
  case (Pair ctx u)
  then show ?thesis
    using set_allowed_cpus_push [of _ w "(ctx, u)"]
    by (simp add: status_line_def case_prod_unfold Let_def split: option.split)
qed

lemma parse_proc_self_status_push:
  "parse_proc_self_status p (apsnd ((@) w) st) = apsnd ((@) w) (parse_proc_self_status p st)"
proof -
  have "fold status_line ls (apsnd ((@) w) st) = apsnd ((@) w) (fold status_line ls st)" for ls
    by (rule fold_push) (rule status_line_push)
  then show ?thesis by (simp add: parse_proc_self_status_def case_prod_unfold Let_def)
qed

lemma parse_cgroup_limits_push:
  "parse_cgroup_limits extra raw ctx (w @ u) = apsnd ((@) w) (parse_cgroup_limits extra raw ctx u)"
  by (simp add: parse_cgroup_limits_def Let_def)

lemma parse_execution_frame:
  "parse_execution extra raw w =
     (fst (parse_execution extra raw []), w @ snd (parse_execution extra raw []))"
proof -
  define status where "status = (\<lambda>u. case first_success raw ProcSelfStatus of
      Some r \<Rightarrow> parse_proc_self_status (rec_payload r) (ExecutionContext_default, u)
    | None \<Rightarrow> (ExecutionContext_default, u))"
  obtain c u where s: "status [] = (c, u)" by (cases "status []")
  have "status w = apsnd ((@) w) (status [])"
    using parse_proc_self_status_push [of _ w "(ExecutionContext_default, [])"]
    by (simp add: status_def split: option.split)
  then have sw: "status w = (c, w @ u)" by (simp add: s)
  have run: "parse_execution extra raw v =
      (let (ctx1, warnings1) = status v;
           ctx2 = (case first_success raw ProcSelfCgroup of
              Some r \<Rightarrow> parse_proc_self_cgroup (rec_payload r) ctx1 | None \<Rightarrow> ctx1);
           ctx3 = (case first_success raw Src_Environment of
              Some r \<Rightarrow> parse_environment (rec_payload r) ctx2 | None \<Rightarrow> ctx2);
           (ctx4, warnings2) = parse_cgroup_limits extra raw ctx3 warnings1
       in (if first_success raw ProcSelfStatus = None \<and> first_success raw ProcSelfCgroup = None \<and>
             first_success raw Src_Environment = None \<and> get_all raw CgroupFile = [] then None
           else Some (ctx4\<lparr>ex_container := detect_container raw ctx4\<rparr>), warnings2))" for v
    by (simp add: parse_execution_def Let_def case_prod_unfold status_def)
  show ?thesis
    by (simp add: run s sw Let_def case_prod_unfold parse_cgroup_limits_push cong: option.case_cong)
qed

definition execution_warning :: "string \<Rightarrow> bool" where
  "execution_warning m \<longleftrightarrow> m \<in> {invalid_allowed_list, cpu_incomplete, memory_incomplete}"

lemma status_line_warnings:
  "list_all execution_warning (snd st) \<Longrightarrow> list_all execution_warning (snd (status_line l st))"
  by (cases st) (simp add: status_line_def set_allowed_cpus_def Let_def case_prod_unfold
      execution_warning_def split: option.split)

lemma parse_execution_own_warnings:
  "list_all execution_warning (snd (parse_execution extra raw []))"
proof -
  have status: "list_all execution_warning (snd (parse_proc_self_status p (ctx, [])))" for p ctx
  proof -
    have "list_all execution_warning (snd (fold status_line (split p (CHR 0x0A)) (ctx, [])))"
      by (rule fold_invariant_set) (simp_all add: status_line_warnings)
    then show ?thesis by (simp add: parse_proc_self_status_def case_prod_unfold Let_def)
  qed
  have limits: "list_all execution_warning (snd (parse_cgroup_limits extra raw ctx w))"
    if "list_all execution_warning w" for ctx w
    using that by (simp add: parse_cgroup_limits_def Let_def execution_warning_def)
  show ?thesis
    using status by (simp add: parse_execution_def Let_def case_prod_unfold limits split: option.split)
qed

lemma parse_execution_evidence:
  assumes "\<And>s. s \<in> {ProcSelfStatus, ProcSelfCgroup, Src_Environment, CgroupFile, ProcOneCgroup,
      RootDockerenv} \<Longrightarrow> get_all raw s = get_all raw' s"
  shows "parse_execution extra raw w = parse_execution extra raw' w"
proof -
  have g: "get_all raw ProcSelfStatus = get_all raw' ProcSelfStatus"
    "get_all raw ProcSelfCgroup = get_all raw' ProcSelfCgroup"
    "get_all raw Src_Environment = get_all raw' Src_Environment"
    "get_all raw CgroupFile = get_all raw' CgroupFile"
    "get_all raw ProcOneCgroup = get_all raw' ProcOneCgroup"
    "get_all raw RootDockerenv = get_all raw' RootDockerenv"
    using assms by simp_all
  have limits: "parse_cgroup_limits extra raw = parse_cgroup_limits extra raw'"
    by (intro ext) (simp add: parse_cgroup_limits_def scan_cgroup_def g)
  have container: "detect_container raw = detect_container raw'"
    by (intro ext) (simp add: detect_container_def has_success_get_all g)
  show ?thesis
    unfolding parse_execution_def first_success_def g limits container ..
qed

interpretation execution_parser: domain_parser "parse_execution extra"
  "{ProcSelfStatus, ProcSelfCgroup, Src_Environment, CgroupFile, ProcOneCgroup, RootDockerenv}"
  "{}" execution_warning for extra
  by unfold_locales (rule parse_execution_frame, erule parse_execution_evidence,
    rule parse_execution_own_warnings)

text \<open>the execution parser reads only its six sources, appends only its three warnings, and returns
  no context exactly when there is no evidence: no readable status, cgroup or environment record
  and no cgroup file at all.
\<close>

theorem parse_execution_contract:
  "let own = {ProcSelfStatus, ProcSelfCgroup, Src_Environment, CgroupFile, ProcOneCgroup, RootDockerenv};
       raw' = raw\<lparr>raw_records := filter (\<lambda>r. rec_source r \<in> own) (raw_records raw)\<rparr> in
     parse_execution extra raw' warnings = parse_execution extra raw warnings \<and>
     (\<exists>w. snd (parse_execution extra raw warnings) = warnings @ w \<and> list_all execution_warning w) \<and>
     (fst (parse_execution extra raw warnings) = None \<longleftrightarrow>
        \<not> has_success raw ProcSelfStatus \<and> \<not> has_success raw ProcSelfCgroup \<and>
        \<not> has_success raw Src_Environment \<and> \<not> has_source raw CgroupFile)"
proof -
  have success: "first_success raw s = None \<longleftrightarrow> \<not> has_success raw s" for s
    by (auto simp: first_success_def has_success_get_all find_None_iff list_ex_iff)
  have none: "fst (parse_execution extra raw warnings) = None \<longleftrightarrow>
      first_success raw ProcSelfStatus = None \<and> first_success raw ProcSelfCgroup = None \<and>
      first_success raw Src_Environment = None \<and> get_all raw CgroupFile = []"
    by (simp add: parse_execution_def Let_def case_prod_unfold)
  have "\<exists>w. snd (parse_execution extra raw warnings) = warnings @ w \<and> list_all execution_warning w"
    using execution_parser.frame [of extra raw warnings] execution_parser.own_warnings by fastforce
  then show ?thesis
    using execution_parser.evidence.only_own_sources [of extra raw warnings]
    by (simp add: Let_def none success get_all_empty_iff)
qed

text \<open>in a parsed context the CPU visibility is either unknown, with no CPU listed, or a strictly
  increasing list of CPUs; the process is root exactly when its effective user and group ids are
  both zero, which a status record without id lines also gives.
\<close>

theorem parse_execution_status:
  "case (fst (parse_execution extra raw warnings), first_success raw ProcSelfStatus) of
     (Some ctx, Some r) \<Rightarrow> visibility_ok ctx \<and>
       (perm_is_root (ex_permission ctx) \<longleftrightarrow>
          perm_euid (ex_permission ctx) = 0 \<and> perm_egid (ex_permission ctx) = 0)
   | _ \<Rightarrow> True"
proof (cases "first_success raw ProcSelfStatus")
  case None
  then show ?thesis by (simp split: option.split)
next
  case (Some r)
  show ?thesis
  proof (cases "fst (parse_execution extra raw warnings)")
    case None
    then show ?thesis by simp
  next
    case ctx: (Some ctx)
    have "visibility_ok ExecutionContext_default"
      by (simp add: visibility_ok_def ExecutionContext_default_def)
    then have v: "visibility_ok (status_context raw)"
      using visibility_status by (simp add: status_context_def Some)
    have root: "perm_is_root (ex_permission (status_context raw)) \<longleftrightarrow>
        perm_euid (ex_permission (status_context raw)) = 0 \<and>
        perm_egid (ex_permission (status_context raw)) = 0"
      by (simp add: status_context_def Some parse_proc_self_status_def case_prod_unfold Let_def
          set_is_root_def)
    have "fst (parse_execution extra raw []) = Some ctx"
      using ctx execution_parser.result_frame [of extra raw warnings "[]"] by simp
    then have "status_part ctx = status_part (status_context raw)"
      by (auto simp: parse_execution_def Let_def case_prod_unfold Some status_context_def
          split: option.splits if_splits)
    then show ?thesis
      using v root by (simp add: ctx Some status_part_def visibility_ok_def)
  qed
qed

section \<open>Round trips\<close>

text \<open>An environment entry that a line can carry: no line break, no \<open>=\<close> in the name, no outer blanks.\<close>

definition plain_entry :: "string \<times> string \<Rightarrow> bool" where
  "plain_entry = (\<lambda>(k, v). CHR ''='' \<notin> set k \<and> CHR 0x0A \<notin> set k \<and> CHR 0x0A \<notin> set v \<and>
     trim (k @ CHR ''='' # v) = k @ CHR ''='' # v)"

definition environment_line :: "string \<times> string \<Rightarrow> string" where
  "environment_line = (\<lambda>(k, v). k @ CHR ''='' # v)"

lemma environment_entry_line: "plain_entry e \<Longrightarrow> environment_entry (environment_line e) = Some e"
  by (cases e) (simp add: plain_entry_def environment_line_def environment_entry_def Let_def
      find_char_append)

lemma map_filter_all_Some: "(\<And>x. x \<in> set xs \<Longrightarrow> f (g x) = Some x) \<Longrightarrow> List.map_filter f (map g xs) = xs"
  by (induction xs) (simp_all add: List.map_filter_simps)

text \<open>C38: an environment written one \<open>KEY=VALUE\<close> line per entry is read back entry for entry, in order,
  with values that may contain \<open>=\<close>; and the CUDA devices it makes visible are those of all its
  \<open>CUDA_VISIBLE_DEVICES\<close> entries.
\<close>

theorem environment_roundtrip:
  assumes "list_all plain_entry es"
  shows "parse_environment (join (CHR 0x0A) (map environment_line es)) ctx =
     ctx\<lparr>ex_environment := \<lparr>env_entries = env_entries (ex_environment ctx) @ es\<rparr>,
       ex_visible_accelerator_ids := ex_visible_accelerator_ids ctx @
         concat (map (\<lambda>(key, value). if key = ''CUDA_VISIBLE_DEVICES'' then cuda_ids value else [])
           (env_entries (ex_environment ctx) @ es))\<rparr>"
proof -
  have "List.map_filter environment_entry
      (split (join (CHR 0x0A) (map environment_line es)) (CHR 0x0A)) = es"
  proof (cases "es = []")
    case True
    then show ?thesis by (simp add: split_def List.map_filter_simps environment_entry_def)
  next
    case False
    have "CHR 0x0A \<notin> set (environment_line e)" if "e \<in> set es" for e
      using assms that by (cases e) (force simp: list_all_iff plain_entry_def environment_line_def)
    then have "split (join (CHR 0x0A) (map environment_line es)) (CHR 0x0A) = map environment_line es"
      using False by (intro split_join) auto
    moreover have "environment_entry (environment_line e) = Some e" if "e \<in> set es" for e
      using assms that environment_entry_line by (simp add: list_all_iff)
    ultimately show ?thesis by (simp add: map_filter_all_Some)
  qed
  then show ?thesis by (simp add: parse_environment_def Let_def)
qed

theorem environment_roundtrip_witness:
  "ex_visible_accelerator_ids (parse_environment (join (CHR 0x0A) (map environment_line
     [(''HOME'', ''/root''), (''CUDA_VISIBLE_DEVICES'', ''2,0'')])) ExecutionContext_default) =
   [StrongId 2, StrongId 0]"
proof -
  have p: "list_all plain_entry [(''HOME'', ''/root''), (''CUDA_VISIBLE_DEVICES'', ''2,0'')]" by code_simp
  have c: "cuda_ids ''2,0'' = [StrongId 2, StrongId 0]" by code_simp
  show ?thesis
    unfolding environment_roundtrip [OF p]
    by (simp add: ExecutionContext_default_def Environment_default_def c)
qed

text \<open>A version 1 line of \<open>/proc/self/cgroup\<close> after its hierarchy number.\<close>

definition plain_controller :: "string \<Rightarrow> bool" where
  "plain_controller c \<longleftrightarrow> c \<noteq> [] \<and> trim c = c \<and> CHR '':'' \<notin> set c \<and> CHR '','' \<notin> set c"

lemma set_join: "set (join d ws) \<subseteq> insert d (\<Union>w \<in> set ws. set w)"
  by (induction d ws rule: join.induct) auto

text \<open>of \<open>/proc/self/cgroup\<close> the first line decides: a version 2 line gives its path, a version 1
  line its controllers and its path, whatever lines follow.
\<close>

theorem cgroup_line_roundtrip:
  assumes "CHR '':'' \<notin> set hierarchy" "hierarchy \<noteq> ''0''" "cs \<noteq> []" "list_all plain_controller cs"
    and "trim (hierarchy @ '':'' @ join (CHR '','') cs @ '':'' @ path) =
      hierarchy @ '':'' @ join (CHR '','') cs @ '':'' @ path"
    and "trim (''0::'' @ path) = ''0::'' @ path"
  shows "cgroup_lines ((hierarchy @ '':'' @ join (CHR '','') cs @ '':'' @ path) # ls) g =
      g\<lparr>cg_version := V1, cg_path := path, cg_controllers := cg_controllers g @ cs\<rparr> \<and>
    cgroup_lines ((''0::'' @ path) # ls) g = g\<lparr>cg_version := V2, cg_path := path\<rparr>"
proof -
  let ?cs = "join (CHR '','') cs"
  let ?line = "hierarchy @ CHR '':'' # ?cs @ CHR '':'' # path"
  have colon: "CHR '':'' \<notin> set ?cs"
  proof -
    have "\<forall>w \<in> set cs. CHR '':'' \<notin> set w"
      using assms(4) unfolding list_all_iff plain_controller_def by blast
    then have "CHR '':'' \<notin> insert (CHR '','') (\<Union>w \<in> set cs. set w)" by simp
    then show ?thesis using set_join [of "CHR '',''" cs] by blast
  qed
  have v2: "\<not> prefix ''0::'' ?line"
  proof (cases hierarchy)
    case Nil
    then show ?thesis by simp
  next
    case (Cons c h)
    then show ?thesis using assms(1,2) by (cases h) auto
  qed
  have fields: "cgroup_v1_fields ?line = Some (?cs, path)"
    by (simp add: cgroup_v1_fields_def find_char_append [OF assms(1)] find_char_from_def
        find_char_append [OF colon])
  have cs: "split ?cs (CHR '','') = cs"
    using assms(3,4) by (intro split_join) (auto simp: list_all_iff plain_controller_def)
  have tr: "filter (\<lambda>tc. tc \<noteq> []) (map trim cs) = cs"
    using assms(4) by (induction cs) (auto simp: plain_controller_def)
  have t: "trim ?line = ?line" using assms(5) by simp
  have ne: "?line \<noteq> []" by simp
  have "cgroup_lines (?line # ls) g =
      g\<lparr>cg_version := V1, cg_path := path, cg_controllers := cg_controllers g @ cs\<rparr>"
    unfolding cgroup_lines.simps Let_def t fields using v2 ne by (simp add: cs tr)
  moreover have "cgroup_lines ((''0::'' @ path) # ls) g = g\<lparr>cg_version := V2, cg_path := path\<rparr>"
    unfolding cgroup_lines.simps Let_def assms(6) by simp
  ultimately show ?thesis by simp
qed

theorem cgroup_line_roundtrip_witness:
  "cgroup_lines [''4:cpu,cpuacct:/a:b'', ''0::/''] Cgroup_default =
   Cgroup_default\<lparr>cg_version := V1, cg_path := ''/a:b'', cg_controllers := [''cpu'', ''cpuacct'']\<rparr>"
proof -
  have c: "list_all plain_controller [''cpu'', ''cpuacct'']" by code_simp
  have t: "trim (''4'' @ '':'' @ join (CHR '','') [''cpu'', ''cpuacct''] @ '':'' @ ''/a:b'') =
      ''4'' @ '':'' @ join (CHR '','') [''cpu'', ''cpuacct''] @ '':'' @ ''/a:b''"
    "trim (''0::'' @ ''/a:b'') = ''0::'' @ ''/a:b''"
    by code_simp+
  show ?thesis
    using cgroup_line_roundtrip [OF _ _ _ c t, of "[''0::/'']" Cgroup_default]
    by (simp add: Cgroup_default_def)
qed

end
