(* ===== verification/Hardware_Health.thy ===== *)
theory Hardware_Health
  imports Raw_Store Parse_Utils
begin

text \<open>
  \<open>src/resolver/hardware_health.cpp\<close> and \<open>src/resolver/storage_health.cpp\<close>: the alerts of the
  sensors, the degraded arrays, the memory error counts, the findings about drives, and the
  coverage that says of how much evidence they were made. \<open>sensor_alerts\<close> is a template over
  the unit of the reading; here it is polymorphic over ordered units.
\<close>

section \<open>Units are ordered by their value\<close>

instantiation scalar_unit :: (type) linorder
begin

definition less_eq_scalar_unit :: "'a scalar_unit \<Rightarrow> 'a scalar_unit \<Rightarrow> bool" where
  "less_eq_scalar_unit a b \<longleftrightarrow> unit_value a \<le> unit_value b"

definition less_scalar_unit :: "'a scalar_unit \<Rightarrow> 'a scalar_unit \<Rightarrow> bool" where
  "less_scalar_unit a b \<longleftrightarrow> unit_value a < unit_value b"

instance
  by standard (auto simp: less_eq_scalar_unit_def less_scalar_unit_def intro: scalar_unit.expand)

end

instantiation SensorTemperature :: linorder
begin

definition less_eq_SensorTemperature :: "SensorTemperature \<Rightarrow> SensorTemperature \<Rightarrow> bool" where
  "less_eq_SensorTemperature a b \<longleftrightarrow> sint (temperature_value a) \<le> sint (temperature_value b)"

definition less_SensorTemperature :: "SensorTemperature \<Rightarrow> SensorTemperature \<Rightarrow> bool" where
  "less_SensorTemperature a b \<longleftrightarrow> sint (temperature_value a) < sint (temperature_value b)"

instance
proof
  fix x y z :: SensorTemperature
  note order_defs = less_eq_SensorTemperature_def less_SensorTemperature_def
  show "x < y \<longleftrightarrow> x \<le> y \<and> \<not> y \<le> x" by (auto simp: order_defs)
  show "x \<le> x" by (simp add: order_defs)
  show "x \<le> z" if "x \<le> y" "y \<le> z" using that by (simp add: order_defs)
  show "x \<le> y \<or> y \<le> x" by (auto simp: order_defs)
  show "x = y" if "x \<le> y" "y \<le> x"
  proof (rule SensorTemperature.expand)
    from that have "sint (temperature_value x) = sint (temperature_value y)" by (simp add: order_defs)
    then show "temperature_value x = temperature_value y" by (rule signed_word_eqI)
  qed
qed

end

section \<open>Sensors\<close>

definition severe_attribute :: "string \<Rightarrow> bool" where
  "severe_attribute attribute \<longleftrightarrow>
     suffix ''crit_alarm'' attribute \<or> suffix ''emergency_alarm'' attribute"

definition active_alarm :: "SensorAlarm list \<Rightarrow> SensorAlarm option" where
  "active_alarm alarms =
     (case List.find (\<lambda>a. alarm_active a \<and> severe_attribute (alarm_attribute a)) alarms of
        Some a \<Rightarrow> Some a
      | None \<Rightarrow> List.find alarm_active alarms)"

definition value_or :: "'a \<Rightarrow> 'a option \<Rightarrow> 'a" where
  "value_or d v = (case v of None \<Rightarrow> d | Some x \<Rightarrow> x)"

text \<open>The comparison with the limits, after faults and alarms of the driver.\<close>

definition limit_alert :: "'unit::linorder SensorReading \<Rightarrow> (SensorAlertKind \<times> HealthSeverity) option" where
  "limit_alert sensor =
     (case sr_input sensor of
        None \<Rightarrow> None
      | Some input \<Rightarrow>
          if \<not> value_or True (sr_enabled sensor) \<or> \<not> sr_unit_supported sensor \<or>
             (case (sr_minimum sensor, sr_maximum sensor) of
                (Some minimum, Some maximum) \<Rightarrow> minimum > maximum | _ \<Rightarrow> False)
          then None
          else if (case sr_critical sensor of None \<Rightarrow> False | Some critical \<Rightarrow> input \<ge> critical)
          then Some (CriticalLimit, Critical)
          else if (case sr_maximum sensor of None \<Rightarrow> False | Some maximum \<Rightarrow> input > maximum)
          then Some (AboveMaximum, Warning)
          else if (case sr_minimum sensor of None \<Rightarrow> False | Some minimum \<Rightarrow> input < minimum)
          then Some (BelowMinimum, Warning)
          else None)"

definition sensor_alert :: "'unit::linorder SensorReading \<Rightarrow> SensorAlert option" where
  "sensor_alert sensor =
     (let identity = sr_identity sensor;
          alert = (\<lambda>kind severity origin. Some \<lparr>sal_sensor = si_id identity, sal_kind = kind,
            sal_severity = severity, sal_origin = origin\<rparr>) in
      if value_or False (sr_fault sensor)
      then alert Fault Warning (str_value (si_id identity) @ ''_fault'')
      else case active_alarm (sr_alarms sensor) of
        Some alarm \<Rightarrow>
          let slash = rfind_char (CHR ''/'') (si_origin identity);
              severity = (if severe_attribute (alarm_attribute alarm) then Critical else Warning)
          in alert DriverAlarm severity
               ((case slash of None \<Rightarrow> [] | Some i \<Rightarrow> take (i + 1) (si_origin identity)) @
                alarm_attribute alarm)
      | None \<Rightarrow>
          (case limit_alert sensor of
             None \<Rightarrow> None
           | Some (kind, severity) \<Rightarrow> alert kind severity (si_origin identity)))"

definition usable_reading :: "'unit SensorReading \<Rightarrow> bool" where
  "usable_reading sensor \<longleftrightarrow>
     (sr_input sensor \<noteq> None \<or> sr_average sensor \<noteq> None) \<and> value_or True (sr_enabled sensor) \<and>
     \<not> value_or False (sr_fault sensor)"

definition sensor_step :: "'unit::linorder SensorReading \<Rightarrow> HardwareHealth \<times> HealthCoverage \<Rightarrow>
    HardwareHealth \<times> HealthCoverage" where
  "sensor_step sensor = (\<lambda>(health, coverage).
     (case sensor_alert sensor of
        None \<Rightarrow> health
      | Some a \<Rightarrow> health\<lparr>hh_sensor_alerts := hh_sensor_alerts health @ [a]\<rparr>,
      coverage\<lparr>
        cov_usable_readings := cov_usable_readings coverage + of_bool (usable_reading sensor),
        cov_alarm_reports := cov_alarm_reports coverage +
          (word_of_nat (length (sr_alarms sensor)) + of_bool (sr_fault sensor \<noteq> None))\<rparr>))"

definition sensor_alerts :: "'unit::linorder SensorReading list \<Rightarrow> HardwareHealth \<times> HealthCoverage \<Rightarrow>
    HardwareHealth \<times> HealthCoverage" where
  "sensor_alerts sensors state = fold sensor_step sensors state"

definition coverage_status :: "bool \<Rightarrow> u32 \<Rightarrow> bool \<Rightarrow> HealthCoverageStatus" where
  "coverage_status requested reports failed =
     (if \<not> requested then Coverage_NotRequested
      else if reports = 0 then Unavailable
      else if failed then Coverage_Partial
      else Available)"

definition sensor_failure :: "RawStore \<Rightarrow> bool" where
  "sensor_failure raw \<longleftrightarrow>
     list_ex (\<lambda>r. (rec_source r = SysfsHwmon \<or> rec_source r = SysfsThermal) \<and> rec_status r = Failed)
       (raw_records raw)"

definition sensor_health :: "Sensors \<Rightarrow> Collect \<Rightarrow> RawStore \<Rightarrow> HardwareHealth \<Rightarrow> HardwareHealth" where
  "sensor_health sensors flags raw health =
     (let coverage = HealthCoverage_default\<lparr>cov_domain := ''sensors''\<rparr>;
          (health, coverage) =
            (if has flags Collect_Sensors
             then sensor_alerts (sens_powers sensors)
                    (sensor_alerts (sens_fans sensors)
                       (sensor_alerts (sens_temperatures sensors) (health, coverage)))
             else (health, coverage));
          coverage = coverage\<lparr>cov_status := coverage_status (has flags Collect_Sensors)
            (cov_usable_readings coverage + cov_alarm_reports coverage) (sensor_failure raw)\<rparr>
      in health\<lparr>hh_coverage := hh_coverage health @ [coverage]\<rparr>)"

section \<open>Arrays and memory\<close>

definition array_step :: "StorageDevice \<Rightarrow> HardwareHealth \<times> HealthCoverage \<times> bool \<Rightarrow>
    HardwareHealth \<times> HealthCoverage \<times> bool" where
  "array_step device = (\<lambda>(health, coverage, incomplete).
     let incomplete = (incomplete \<or> (st_layer device = ''md'' \<and> st_raid_degraded device = None)) in
     case st_raid_degraded device of
       None \<Rightarrow> (health, coverage, incomplete)
     | Some degraded \<Rightarrow>
         (if degraded > 0
          then health\<lparr>hh_storage_alerts := hh_storage_alerts health @
            [\<lparr>stal_device = st_name device, stal_degraded_members = degraded,
              stal_severity = Warning,
              stal_origin = ''/sys/class/block/'' @ str_value (st_name device) @ ''/md/degraded''\<rparr>]\<rparr>
          else health,
          coverage\<lparr>cov_usable_readings := cov_usable_readings coverage + 1\<rparr>,
          incomplete))"

definition array_health :: "Storage \<Rightarrow> Collect \<Rightarrow> HardwareHealth \<Rightarrow> HardwareHealth" where
  "array_health storage flags health =
     (let (health, coverage, incomplete) = fold array_step (storage_devices storage)
            (health, HealthCoverage_default\<lparr>cov_domain := ''md''\<rparr>, False);
          coverage = coverage\<lparr>cov_status := coverage_status (has flags Collect_Storage)
            (cov_usable_readings coverage) incomplete\<rparr>
      in health\<lparr>hh_coverage := hh_coverage health @ [coverage]\<rparr>)"

definition memory_step :: "MemoryController \<Rightarrow> HardwareHealth \<times> HealthCoverage \<times> bool \<Rightarrow>
    HardwareHealth \<times> HealthCoverage \<times> bool" where
  "memory_step controller = (\<lambda>(health, coverage, incomplete).
     let corrected = mc_corrected_errors controller; uncorrected = mc_uncorrected_errors controller in
     (if value_or 0 corrected > 0 \<or> value_or 0 uncorrected > 0
      then health\<lparr>hh_memory_events := hh_memory_events health @
        [\<lparr>mee_controller_index = mc_index controller, mee_corrected = corrected,
          mee_uncorrected = uncorrected,
          mee_severity = (if value_or 0 uncorrected > 0 then Warning else Information),
          mee_origin = ''/sys/devices/system/edac/mc/mc'' @ to_string (mc_index controller)\<rparr>]\<rparr>
      else health,
      coverage\<lparr>cov_usable_readings := cov_usable_readings coverage +
        of_bool (corrected \<noteq> None \<or> uncorrected \<noteq> None)\<rparr>,
      incomplete \<or> corrected = None \<or> uncorrected = None))"

definition memory_health :: "Memory \<Rightarrow> Collect \<Rightarrow> HardwareHealth \<Rightarrow> HardwareHealth" where
  "memory_health memory flags health =
     (let (health, coverage, incomplete) = fold memory_step (mem_controllers memory)
            (health, HealthCoverage_default\<lparr>cov_domain := ''edac''\<rparr>, False);
          coverage = coverage\<lparr>cov_status := coverage_status (has flags Collect_Memory)
            (cov_usable_readings coverage) incomplete\<rparr>
      in health\<lparr>hh_coverage := hh_coverage health @ [coverage]\<rparr>)"

section \<open>Drives\<close>

definition positive :: "StorageCounter option \<Rightarrow> bool" where
  "positive counter \<longleftrightarrow>
     (case counter of None \<Rightarrow> False | Some c \<Rightarrow> counter_decimal c \<noteq> ''0'')"

definition nvme_evidence :: "NvmeHealth \<Rightarrow> bool" where
  "nvme_evidence h \<longleftrightarrow>
     nvme_critical_warning h \<noteq> None \<or> nvme_available_spare h \<noteq> None \<or>
     nvme_percentage_used h \<noteq> None \<or> nvme_media_errors h \<noteq> None \<or> nvme_power_on_hours h \<noteq> None"

definition evidence :: "StorageHealthReport \<Rightarrow> bool" where
  "evidence r \<longleftrightarrow>
     shr_passed r \<noteq> None \<or> shr_ata_attributes r \<noteq> [] \<or>
     (case shr_nvme r of None \<Rightarrow> False | Some h \<Rightarrow> nvme_evidence h) \<or>
     (case shr_scsi r of
        None \<Rightarrow> False
      | Some s \<Rightarrow> scsi_read_uncorrected s \<noteq> None \<or> scsi_write_uncorrected s \<noteq> None \<or>
          scsi_verify_uncorrected s \<noteq> None)"

definition finding :: "StorageHealthReport \<Rightarrow> DriveFindingKind \<Rightarrow> HealthSeverity \<Rightarrow> string \<Rightarrow>
    u8 option \<Rightarrow> DriveFinding" where
  "finding r kind severity field attribute =
     \<lparr>df_target = shr_target r, df_kind = kind, df_severity = severity,
      df_origin = shr_origin r @ ''#'' @ field, df_attribute_id = attribute\<rparr>"

definition nvme_findings :: "StorageHealthReport \<Rightarrow> NvmeHealth \<Rightarrow> DriveFinding list" where
  "nvme_findings r nvme =
     (let start = (if shr_source r = Smartctl then ''nvme_smart_health_information_log/'' else []) in
      (if value_or 0 (nvme_critical_warning nvme) > 0
       then [finding r NvmeWarning Critical (start @ ''critical_warning'') None] else []) @
      (case (nvme_available_spare nvme, nvme_spare_threshold nvme) of
         (Some spare, Some threshold) \<Rightarrow>
           if spare < threshold \<and>
              Bit_Operations.and (value_or 0 (nvme_critical_warning nvme)) 1 = 0
           then [finding r SpareLow Warning (start @ ''available_spare'') None] else []
       | _ \<Rightarrow> []) @
      (if value_or 0 (nvme_percentage_used nvme) \<ge> 100
       then [finding r EnduranceEstimate Warning
               (start @ (if shr_source r = Smartctl then ''percentage_used'' else ''percent_used'')) None]
       else []) @
      (if positive (nvme_media_errors nvme)
       then [finding r NvmeMediaHistory Information (start @ ''media_errors'') None] else []))"

definition ata_finding :: "StorageHealthReport \<Rightarrow> AtaHealthAttribute \<Rightarrow> DriveFinding list" where
  "ata_finding r attribute =
     (if ata_when_failed attribute = ''now''
      then [finding r AtaCurrent Warning ''ata_smart_attributes'' (Some (ata_id attribute))]
      else if ata_when_failed attribute = ''past''
      then [finding r AtaHistorical Information ''ata_smart_attributes'' (Some (ata_id attribute))]
      else [])"

definition scsi_findings :: "StorageHealthReport \<Rightarrow> ScsiHealth \<Rightarrow> DriveFinding list" where
  "scsi_findings r scsi =
     concat (map (\<lambda>(operation, counter).
       if positive counter
       then [finding r ScsiHistory Information
               (''scsi_error_counter_log/'' @ operation @ ''/total_uncorrected_errors'') None]
       else [])
       [(''read'', scsi_read_uncorrected scsi), (''write'', scsi_write_uncorrected scsi),
        (''verify'', scsi_verify_uncorrected scsi)])"

definition report_findings :: "StorageHealthReport \<Rightarrow> DriveFinding list" where
  "report_findings r =
     (if \<not> value_or True (shr_passed r) \<and>
         (case shr_nvme r of None \<Rightarrow> True | Some nvme \<Rightarrow> value_or 0 (nvme_critical_warning nvme) = 0)
      then [finding r SmartFailed Critical ''smart_status/passed'' None] else []) @
     (case shr_nvme r of None \<Rightarrow> [] | Some nvme \<Rightarrow> nvme_findings r nvme) @
     concat (map (ata_finding r) (shr_ata_attributes r)) @
     (case shr_scsi r of None \<Rightarrow> [] | Some scsi \<Rightarrow> scsi_findings r scsi)"

definition drive_step :: "StorageHealthReport \<Rightarrow> HardwareHealth \<times> HealthCoverage \<times> bool \<Rightarrow>
    HardwareHealth \<times> HealthCoverage \<times> bool" where
  "drive_step r = (\<lambda>(health, coverage, incomplete).
     (health\<lparr>hh_drive_findings := hh_drive_findings health @ report_findings r\<rparr>,
      coverage\<lparr>
        cov_usable_readings := cov_usable_readings coverage + of_bool (evidence r),
        cov_alarm_reports := cov_alarm_reports coverage + of_bool (shr_passed r \<noteq> None) +
          (case shr_nvme r of None \<Rightarrow> 0 | Some nvme \<Rightarrow> of_bool (nvme_critical_warning nvme \<noteq> None))\<rparr>,
      incomplete \<or> shr_status r \<noteq> Success \<or> \<not> evidence r))"

definition storage_findings :: "HardwareHealth \<Rightarrow> Storage \<Rightarrow> Collect \<Rightarrow> RawStore \<Rightarrow> HardwareHealth" where
  "storage_findings health storage flags raw =
     (let incomplete = list_ex (\<lambda>r. rec_source r = StorageHealthSysfs \<and> rec_status r \<noteq> Success)
            (raw_records raw);
          (health, coverage, incomplete) = fold drive_step (storage_health storage)
            (health, HealthCoverage_default\<lparr>cov_domain := ''storage_health''\<rparr>, incomplete);
          coverage = coverage\<lparr>cov_status :=
            (if \<not> has flags Collect_StorageHealth then Coverage_NotRequested
             else if cov_usable_readings coverage = 0 then Unavailable
             else if incomplete then Coverage_Partial
             else Available)\<rparr>
      in health\<lparr>hh_coverage := hh_coverage health @ [coverage]\<rparr>)"

definition hardware_health :: "SystemInfo \<Rightarrow> Collect \<Rightarrow> RawStore \<Rightarrow> HardwareHealth" where
  "hardware_health info flags raw =
     storage_findings
       (memory_health (info_memory info) flags
         (array_health (info_storage info) flags
           (sensor_health (info_sensors info) flags raw HardwareHealth_default)))
       (info_storage info) flags raw"

section \<open>The loops\<close>

lemma sensor_alerts_health:
  "fst (sensor_alerts ss state) =
     (fst state)\<lparr>hh_sensor_alerts := hh_sensor_alerts (fst state) @ List.map_filter sensor_alert ss\<rparr>"
  unfolding sensor_alerts_def
proof (induction ss arbitrary: state)
  case Nil
  then show ?case by simp
next
  case (Cons s ss)
  obtain h c where "state = (h, c)" by (cases state)
  with Cons.IH show ?case by (simp add: sensor_step_def map_filter_simps split: option.split)
qed

lemma sensor_alerts_coverage:
  "cov_domain (snd (sensor_alerts ss state)) = cov_domain (snd state)"
  unfolding sensor_alerts_def
proof (induction ss arbitrary: state)
  case Nil
  then show ?case by simp
next
  case (Cons s ss)
  obtain h c where "state = (h, c)" by (cases state)
  with Cons.IH show ?case by (simp add: sensor_step_def)
qed

lemma array_loop:
  "fst (fold array_step ds (health, coverage, incomplete)) =
     health\<lparr>hh_storage_alerts := hh_storage_alerts health @ List.map_filter (\<lambda>d.
       case st_raid_degraded d of
         None \<Rightarrow> None
       | Some n \<Rightarrow> if n > 0 then Some \<lparr>stal_device = st_name d, stal_degraded_members = n,
           stal_severity = Warning,
           stal_origin = ''/sys/class/block/'' @ str_value (st_name d) @ ''/md/degraded''\<rparr> else None) ds\<rparr>"
  by (induction ds arbitrary: health coverage incomplete)
    (auto simp: array_step_def Let_def map_filter_simps split: option.splits)

lemma array_loop_coverage:
  "cov_domain (fst (snd (fold array_step ds (health, coverage, incomplete)))) = cov_domain coverage"
  by (induction ds arbitrary: health coverage incomplete)
    (auto simp: array_step_def Let_def split: option.splits)

definition memory_event :: "MemoryController \<Rightarrow> MemoryErrorEvent option" where
  "memory_event c =
     (if value_or 0 (mc_corrected_errors c) = 0 \<and> value_or 0 (mc_uncorrected_errors c) = 0 then None
      else Some \<lparr>mee_controller_index = mc_index c, mee_corrected = mc_corrected_errors c,
        mee_uncorrected = mc_uncorrected_errors c,
        mee_severity = (if value_or 0 (mc_uncorrected_errors c) = 0 then Information else Warning),
        mee_origin = ''/sys/devices/system/edac/mc/mc'' @ to_string (mc_index c)\<rparr>)"

lemma memory_loop:
  "fst (fold memory_step cs (health, coverage, incomplete)) =
     health\<lparr>hh_memory_events := hh_memory_events health @ List.map_filter memory_event cs\<rparr>"
  by (induction cs arbitrary: health coverage incomplete)
    (simp_all add: memory_step_def memory_event_def Let_def map_filter_simps word_neq_0_conv [symmetric])

lemma memory_loop_coverage:
  "cov_domain (fst (snd (fold memory_step cs (health, coverage, incomplete)))) = cov_domain coverage"
  by (induction cs arbitrary: health coverage incomplete) (simp_all add: memory_step_def Let_def)

lemma drive_loop:
  "fst (fold drive_step rs (health, coverage, incomplete)) =
     health\<lparr>hh_drive_findings := hh_drive_findings health @ concat (map report_findings rs)\<rparr> \<and>
   snd (snd (fold drive_step rs (health, coverage, incomplete))) =
     (incomplete \<or> list_ex (\<lambda>r. shr_status r \<noteq> Success \<or> \<not> evidence r) rs)"
proof (induction rs arbitrary: health coverage incomplete)
  case Nil
  then show ?case by simp
next
  case (Cons r rs)
  obtain h c i where step: "drive_step r (health, coverage, incomplete) = (h, c, i)"
    by (cases "drive_step r (health, coverage, incomplete)")
  then have "h = health\<lparr>hh_drive_findings := hh_drive_findings health @ report_findings r\<rparr>"
    and "i = (incomplete \<or> shr_status r \<noteq> Success \<or> \<not> evidence r)"
    by (auto simp: drive_step_def)
  then show ?case using Cons.IH [of h c i] by (simp add: step)
qed

lemma drive_loop_coverage:
  "cov_domain (fst (snd (fold drive_step rs (health, coverage, incomplete)))) = cov_domain coverage \<and>
   cov_usable_readings (fst (snd (fold drive_step rs (health, coverage, incomplete)))) =
     cov_usable_readings coverage + word_of_nat (length (filter evidence rs))"
proof (induction rs arbitrary: health coverage incomplete)
  case Nil
  then show ?case by simp
next
  case (Cons r rs)
  then show ?case by (cases "evidence r") (simp_all add: drive_step_def)
qed

section \<open>What is reported\<close>

lemma other_alerts:
  "hh_storage_alerts (sensor_health sensors flags raw health) = hh_storage_alerts health"
  "hh_memory_events (sensor_health sensors flags raw health) = hh_memory_events health"
  "hh_drive_findings (sensor_health sensors flags raw health) = hh_drive_findings health"
  "hh_sensor_alerts (array_health storage flags health) = hh_sensor_alerts health"
  "hh_memory_events (array_health storage flags health) = hh_memory_events health"
  "hh_drive_findings (array_health storage flags health) = hh_drive_findings health"
  "hh_sensor_alerts (memory_health memory flags health) = hh_sensor_alerts health"
  "hh_storage_alerts (memory_health memory flags health) = hh_storage_alerts health"
  "hh_drive_findings (memory_health memory flags health) = hh_drive_findings health"
  "hh_sensor_alerts (storage_findings health storage flags raw) = hh_sensor_alerts health"
  "hh_storage_alerts (storage_findings health storage flags raw) = hh_storage_alerts health"
  "hh_memory_events (storage_findings health storage flags raw) = hh_memory_events health"
  unfolding sensor_health_def array_health_def memory_health_def storage_findings_def Let_def
  by (simp_all add: split_beta sensor_alerts_health array_loop memory_loop drive_loop)

lemma sensor_health_alerts:
  "hh_sensor_alerts (sensor_health sensors flags raw health) =
     (if has flags Collect_Sensors
      then hh_sensor_alerts health @ List.map_filter sensor_alert (sens_temperatures sensors) @
        List.map_filter sensor_alert (sens_fans sensors) @
        List.map_filter sensor_alert (sens_powers sensors)
      else hh_sensor_alerts health)"
  unfolding sensor_health_def Let_def by (simp add: split_beta sensor_alerts_health)

lemma coverage_domains:
  "map cov_domain (hh_coverage (sensor_health sensors flags raw health)) =
     map cov_domain (hh_coverage health) @ [''sensors'']"
  "map cov_domain (hh_coverage (array_health storage flags health)) =
     map cov_domain (hh_coverage health) @ [''md'']"
  "map cov_domain (hh_coverage (memory_health memory flags health)) =
     map cov_domain (hh_coverage health) @ [''edac'']"
  "map cov_domain (hh_coverage (storage_findings health storage flags raw)) =
     map cov_domain (hh_coverage health) @ [''storage_health'']"
  unfolding sensor_health_def array_health_def memory_health_def storage_findings_def Let_def
  by (simp_all add: split_beta sensor_alerts_health sensor_alerts_coverage array_loop
    array_loop_coverage memory_loop memory_loop_coverage drive_loop drive_loop_coverage
    HealthCoverage_default_def)

definition degraded_array :: "StorageDevice \<Rightarrow> StorageAlert option" where
  "degraded_array d =
     (case st_raid_degraded d of
        None \<Rightarrow> None
      | Some n \<Rightarrow> if n > 0 then Some \<lparr>stal_device = st_name d, stal_degraded_members = n,
          stal_severity = Warning,
          stal_origin = ''/sys/class/block/'' @ str_value (st_name d) @ ''/md/degraded''\<rparr> else None)"

text \<open>the report of the hardware is one alert at most per sensor, array and controller and the
  findings of every drive, each list in the order of the model and nothing else; the sensors are
  left out unless they were requested; and the coverage always has the same four domains.
\<close>

theorem hardware_health_contents:
  "let health = hardware_health info flags raw; sensors = info_sensors info in
     hh_sensor_alerts health =
       (if has flags Collect_Sensors
        then List.map_filter sensor_alert (sens_temperatures sensors) @
          List.map_filter sensor_alert (sens_fans sensors) @
          List.map_filter sensor_alert (sens_powers sensors)
        else []) \<and>
     hh_storage_alerts health = List.map_filter degraded_array (storage_devices (info_storage info)) \<and>
     hh_memory_events health = List.map_filter memory_event (mem_controllers (info_memory info)) \<and>
     hh_drive_findings health = concat (map report_findings (storage_health (info_storage info))) \<and>
     map cov_domain (hh_coverage health) = [''sensors'', ''md'', ''edac'', ''storage_health'']"
proof -
  have arrays: "hh_storage_alerts (array_health storage flags health) =
      hh_storage_alerts health @ List.map_filter degraded_array (storage_devices storage)"
    for storage health
    unfolding array_health_def Let_def
    by (simp add: split_beta array_loop degraded_array_def [abs_def])
  have memory: "hh_memory_events (memory_health memory flags health) =
      hh_memory_events health @ List.map_filter memory_event (mem_controllers memory)"
    for memory health
    unfolding memory_health_def Let_def by (simp add: split_beta memory_loop)
  have drives: "hh_drive_findings (storage_findings health storage flags raw) =
      hh_drive_findings health @ concat (map report_findings (storage_health storage))"
    for storage health
    unfolding storage_findings_def Let_def by (simp add: split_beta drive_loop)
  show ?thesis
    unfolding hardware_health_def Let_def
    by (simp add: other_alerts coverage_domains sensor_health_alerts arrays memory drives
      HardwareHealth_default_def)
qed

lemma find_active:
  "List.find P xs = None \<longleftrightarrow> \<not> list_ex P xs"
  "List.find P xs = Some x \<Longrightarrow> P x"
  by (auto simp: find_None_iff find_Some_iff list_ex_iff)

lemma active_alarm_cases:
  "active_alarm alarms = None \<longleftrightarrow> \<not> list_ex alarm_active alarms"
  "active_alarm alarms = Some a \<Longrightarrow> severe_attribute (alarm_attribute a) \<longleftrightarrow>
     list_ex (\<lambda>a. alarm_active a \<and> severe_attribute (alarm_attribute a)) alarms"
proof -
  let ?severe = "\<lambda>a. alarm_active a \<and> severe_attribute (alarm_attribute a)"
  have sub: "list_ex ?severe alarms \<Longrightarrow> list_ex alarm_active alarms" by (auto simp: list_ex_iff)
  show "active_alarm alarms = None \<longleftrightarrow> \<not> list_ex alarm_active alarms"
    using sub by (auto simp: active_alarm_def find_active(1) dest: find_active(2) split: option.splits)
      (metis find_active(1) option.discI)
  show "severe_attribute (alarm_attribute a) \<longleftrightarrow> list_ex ?severe alarms" if "active_alarm alarms = Some a"
  proof (cases "List.find ?severe alarms")
    case None
    then have none: "\<not> list_ex ?severe alarms" using find_active(1) [of ?severe alarms] by blast
    from None have "List.find alarm_active alarms = Some a"
      using that unfolding active_alarm_def by (simp only: option.case)
    then have "alarm_active a" "a \<in> set alarms" by (auto simp: find_Some_iff)
    then show ?thesis using none by (auto simp: list_ex_iff)
  next
    case (Some b)
    then have "a = b" using that by (simp add: active_alarm_def)
    then show ?thesis using find_active(2) [OF Some] find_active(1) [of ?severe alarms] Some by auto
  qed
qed

text \<open>C37: a sensor's alert is graded by the strongest evidence: a faulted sensor gives a warning and
  its readings are not judged; otherwise an active critical or emergency alarm of the driver is
  critical wherever it stands among the alarms; otherwise any active alarm is a warning; and only
  a sensor with neither is compared with its limits.
\<close>

theorem sensor_alert_severity:
  "map_option sal_severity (sensor_alert sensor) =
     (if sr_fault sensor = Some True then Some Warning
      else if list_ex (\<lambda>a. alarm_active a \<and> severe_attribute (alarm_attribute a)) (sr_alarms sensor)
      then Some Critical
      else if list_ex alarm_active (sr_alarms sensor) then Some Warning
      else map_option snd (limit_alert sensor))"
proof (cases "sr_fault sensor = Some True")
  case True
  then show ?thesis by (simp add: sensor_alert_def value_or_def Let_def)
next
  case False
  then have fault: "\<not> value_or False (sr_fault sensor)"
    by (auto simp: value_or_def split: option.splits)
  show ?thesis
  proof (cases "active_alarm (sr_alarms sensor)")
    case None
    then have none: "\<not> list_ex alarm_active (sr_alarms sensor)" using active_alarm_cases(1) by blast
    then have "\<not> list_ex (\<lambda>a. alarm_active a \<and> severe_attribute (alarm_attribute a)) (sr_alarms sensor)"
      by (auto simp: list_ex_iff)
    then show ?thesis using None none fault False
      by (simp add: sensor_alert_def Let_def split: option.splits)
  next
    case (Some a)
    then have "list_ex alarm_active (sr_alarms sensor)"
      using active_alarm_cases(1) [of "sr_alarms sensor"] by auto
    then show ?thesis using Some fault False active_alarm_cases(2) [OF Some]
      by (simp add: sensor_alert_def Let_def)
  qed
qed

text \<open>a drive that reports a failure is not lost and not counted twice: its report gives exactly one
  critical finding when the self-assessment failed or an NVMe critical warning is set, and none
  otherwise; and only a report with evidence gives findings at all.
\<close>

theorem drive_failure_once:
  "length (filter (\<lambda>f. df_severity f = Critical) (report_findings r)) =
     (if shr_passed r = Some False \<or>
         (case shr_nvme r of None \<Rightarrow> False | Some h \<Rightarrow> value_or 0 (nvme_critical_warning h) > 0)
      then 1 else 0) \<and>
   (report_findings r = [] \<or> evidence r)"
proof -
  have ata: "filter (\<lambda>f. df_severity f = Critical) (concat (map (ata_finding r) as)) = []" for as
    by (induction as) (simp_all add: ata_finding_def finding_def)
  have scsi: "filter (\<lambda>f. df_severity f = Critical) (scsi_findings r s) = []" for s
    by (simp add: scsi_findings_def finding_def)
  have nvme: "filter (\<lambda>f. df_severity f = Critical) (nvme_findings r h) =
      (if value_or 0 (nvme_critical_warning h) > 0
       then [finding r NvmeWarning Critical
          ((if shr_source r = Smartctl then ''nvme_smart_health_information_log/'' else []) @
            ''critical_warning'') None]
       else [])" for h
    by (simp add: nvme_findings_def finding_def Let_def split: option.split)
  have passed: "\<not> value_or True (shr_passed r) \<longleftrightarrow> shr_passed r = Some False"
    by (auto simp: value_or_def split: option.splits)
  have "length (filter (\<lambda>f. df_severity f = Critical) (report_findings r)) =
     (if shr_passed r = Some False \<or>
         (case shr_nvme r of None \<Rightarrow> False | Some h \<Rightarrow> value_or 0 (nvme_critical_warning h) > 0)
      then 1 else 0)"
    unfolding report_findings_def passed filter_append ata
    by (auto simp: scsi nvme finding_def word_neq_0_conv split: option.split)
  moreover have "report_findings r = []" if none: "\<not> evidence r"
  proof -
    from none have "shr_passed r = None" "shr_ata_attributes r = []"
      by (auto simp: evidence_def)
    moreover have "nvme_findings r h = []" if "shr_nvme r = Some h" for h
    proof -
      have "nvme_critical_warning h = None" "nvme_available_spare h = None"
        "nvme_percentage_used h = None" "nvme_media_errors h = None"
        using none that by (auto simp: evidence_def nvme_evidence_def)
      then show ?thesis by (simp add: nvme_findings_def value_or_def positive_def Let_def)
    qed
    moreover have "scsi_findings r s = []" if "shr_scsi r = Some s" for s
    proof -
      have "scsi_read_uncorrected s = None" "scsi_write_uncorrected s = None"
        "scsi_verify_uncorrected s = None"
        using none that by (auto simp: evidence_def)
      then show ?thesis by (simp add: scsi_findings_def positive_def)
    qed
    ultimately show ?thesis
      by (simp add: report_findings_def value_or_def split: option.split)
  qed
  ultimately show ?thesis by blast
qed

text \<open>the coverage of the drives is called available only when it is: when it was requested, some
  report has evidence, and nothing at all is missing, neither a record of sysfs nor the evidence
  of any report.
\<close>

theorem storage_coverage_available:
  assumes "length (storage_health (info_storage info)) < 2 ^ 32"
  shows "cov_status (last (hh_coverage (hardware_health info flags raw))) = Available \<longleftrightarrow>
    has flags Collect_StorageHealth \<and> storage_health (info_storage info) \<noteq> [] \<and>
    list_all (\<lambda>r. shr_status r = Success \<and> evidence r) (storage_health (info_storage info)) \<and>
    list_all (\<lambda>r. rec_status r = Success) (get_all raw StorageHealthSysfs)"
proof -
  let ?rs = "storage_health (info_storage info)"
  have small: "length (filter evidence ?rs) < 2 ^ 32"
    using assms length_filter_le [of evidence ?rs] by linarith
  then have zero: "(word_of_nat (length (filter evidence ?rs)) :: u32) = 0 \<longleftrightarrow>
      filter evidence ?rs = []"
    by (simp add: of_nat_eq_0_iff take_bit_nat_eq_self word_of_nat_eq_0_iff)
      (auto dest: dvd_imp_le)
  have sysfs: "list_ex (\<lambda>r. rec_source r = StorageHealthSysfs \<and> rec_status r \<noteq> Success) (raw_records raw) \<longleftrightarrow>
      \<not> list_all (\<lambda>r. rec_status r = Success) (get_all raw StorageHealthSysfs)"
    by (auto simp: list_ex_iff list_all_iff)
  have reports: "list_ex (\<lambda>r. shr_status r \<noteq> Success \<or> \<not> evidence r) ?rs \<longleftrightarrow>
      \<not> list_all (\<lambda>r. shr_status r = Success \<and> evidence r) ?rs"
    by (auto simp: list_ex_iff list_all_iff)
  show ?thesis
    unfolding hardware_health_def storage_findings_def Let_def sysfs
    by (simp add: split_beta drive_loop drive_loop_coverage reports HealthCoverage_default_def zero)
      (auto simp: filter_empty_conv list_all_iff list_ex_iff)
qed

definition healthy_drive :: SystemInfo where
  "healthy_drive =
     \<lparr>info_platform = Platform_default, info_cpu = Cpu_default, info_memory = Memory_default,
      info_accelerators = Accelerators_default, info_network = Network_default,
      info_storage = Storage_default\<lparr>storage_health :=
        [StorageHealthReport_default\<lparr>shr_status := Success, shr_passed := Some True\<rparr>]\<rparr>,
      info_pci = Pci_default, info_software = SoftwareStack_default,
      info_execution = ExecutionContext_default, info_sensors = Sensors_default,
      info_hardware_health = HardwareHealth_default\<rparr>"

theorem storage_coverage_available_witness:
  "cov_status (last (hh_coverage (hardware_health healthy_drive Collect_StorageHealth RawStore_default))) =
     Available"
proof -
  have "length (storage_health (info_storage healthy_drive)) < 2 ^ 32"
    by (simp add: healthy_drive_def)
  moreover have "has Collect_StorageHealth Collect_StorageHealth"
    by (simp add: has_def Collect_StorageHealth_def)
  moreover have "get_all RawStore_default StorageHealthSysfs = []"
    by (simp add: get_all_def RawStore_default_def)
  moreover have "storage_health (info_storage healthy_drive) \<noteq> []"
    "list_all (\<lambda>r. shr_status r = Success \<and> evidence r) (storage_health (info_storage healthy_drive))"
    by (auto simp: healthy_drive_def evidence_def StorageHealthReport_default_def)
  ultimately show ?thesis
    by (simp add: storage_coverage_available)
qed

end
