(* ===== verification/Sensor_Parser.thy ===== *)
theory Sensor_Parser
  imports Hardware_Health
begin

text \<open>
  \<open>src/parser/sensors.cpp\<close>: the hwmon and thermal attributes are grouped by directory, and every
  channel of a group becomes a sensor. The groups are a \<open>std::map\<close> over pairs of source and
  path; of the sources only thermal zones and hwmon occur, in this order of the enumeration, so
  the key holds whether the source is hwmon. The template \<open>channel\<close> is polymorphic in the
  unit; what it needs of the unit is the reader of its number and whether it is a temperature.
\<close>

type_synonym Attributes = "(string, string) std_map"

section \<open>Reading a value\<close>

definition attribute_value :: "Attributes \<Rightarrow> string \<Rightarrow> string" where
  "attribute_value attributes key = (case map_of attributes key of None \<Rightarrow> [] | Some v \<Rightarrow> trim v)"

text \<open>\<open>std::from_chars\<close> on \<open>std::int64_t\<close>: an optional minus sign, then digits.\<close>

definition from_chars_signed :: "string \<Rightarrow> errc + (i64 \<times> string)" where
  "from_chars_signed s =
     (let negative = (s \<noteq> [] \<and> hd s = CHR ''-'');
          s = (if negative then tl s else s);
          ds = takeWhile (digit_in 10) s; rest = dropWhile (digit_in 10) s;
          v = int (digits_value 10 ds)
      in if ds = [] then Inl Errc_InvalidArgument
         else if (if negative then v \<le> 2 ^ 63 else v < 2 ^ 63)
         then Inr (word_of_int (if negative then - v else v), rest)
         else Inl Errc_ResultOutOfRange)"

definition whole :: "errc + ('n \<times> string) \<Rightarrow> 'n option" where
  "whole parsed = (case parsed of Inl _ \<Rightarrow> None | Inr (n, rest) \<Rightarrow> if rest = [] then Some n else None)"

definition read_temperature :: "string \<Rightarrow> SensorTemperature option" where
  "read_temperature text = map_option SensorTemperature (whole (from_chars_signed text))"

definition read_scalar :: "string \<Rightarrow> 'tag scalar_unit option" where
  "read_scalar text = map_option ScalarUnit (whole (from_chars 10 text))"

definition measurement :: "(string \<Rightarrow> 'unit option) \<Rightarrow> Attributes \<Rightarrow> string \<Rightarrow> 'unit option" where
  "measurement read attributes key =
     (let text = attribute_value attributes key in if text = [] then None else read text)"

definition attribute_flag :: "Attributes \<Rightarrow> string \<Rightarrow> bool option" where
  "attribute_flag attributes key =
     (let text = attribute_value attributes key in
      if text = ''0'' then Some False else if text = ''1'' then Some True else None)"

section \<open>A channel\<close>

definition last_pci_address :: "string \<Rightarrow> PciAddress option" where
  "last_pci_address path =
     fold (\<lambda>part found. case parse_pci_address part of None \<Rightarrow> found | Some a \<Rightarrow> Some a)
       (split path (CHR ''/'')) None"

definition channel_alarms :: "Attributes \<Rightarrow> string \<Rightarrow> SensorAlarm list" where
  "channel_alarms attributes name =
     List.map_filter (\<lambda>(key, _).
       if prefix (name @ ''_'') key \<and> suffix ''_alarm'' key
       then map_option (\<lambda>active. \<lparr>alarm_attribute = key, alarm_active = active\<rparr>)
              (attribute_flag attributes key)
       else None) attributes"

definition converted_thermistors :: "string list" where
  "converted_thermistors = [''it87'', ''ntc-thermistor'', ''ntc_thermistor'']"

definition channel :: "(string \<Rightarrow> 'unit option) \<Rightarrow> bool \<Rightarrow> Attributes \<Rightarrow> string \<Rightarrow> string \<Rightarrow> RawSource \<Rightarrow>
    'unit SensorReading" where
  "channel read temperature attributes path name source =
     (let device_path = attribute_value attributes ''device_path'';
          driver = attribute_value attributes ''driver'';
          supported = (\<not> temperature \<or> attribute_value attributes (name @ ''_type'') \<noteq> ''4'' \<or>
            driver \<in> set converted_thermistors);
          number = (\<lambda>field. if supported then measurement read attributes (name @ field) else None)
      in \<lparr>sr_identity =
            \<lparr>si_id = NamedString (path @ ''/'' @ name), si_chip = attribute_value attributes ''name'',
             si_driver = driver, si_channel = name,
             si_label = attribute_value attributes (name @ ''_label''), si_source = source,
             si_origin = path @ ''/'' @ name @
               (if map_of attributes (name @ ''_input'') \<noteq> None then ''_input''
                else if map_of attributes (name @ ''_average'') \<noteq> None then ''_average''
                else ''_input''),
             si_device_path = device_path, si_pci_address = last_pci_address device_path\<rparr>,
          sr_input = number ''_input'', sr_average = number ''_average'', sr_minimum = number ''_min'',
          sr_maximum = number ''_max'', sr_critical = number ''_crit'',
          sr_enabled = attribute_flag attributes (name @ ''_enable''),
          sr_fault = attribute_flag attributes (name @ ''_fault''),
          sr_alarms = channel_alarms attributes name, sr_unit_supported = supported\<rparr>)"

section \<open>Groups\<close>

type_synonym SensorGroups = "(bool \<times> string, Attributes) std_map"

definition group_record :: "RawRecord \<Rightarrow> SensorGroups \<Rightarrow> SensorGroups" where
  "group_record r groups =
     (if (rec_source r = SysfsHwmon \<or> rec_source r = SysfsThermal) \<and> rec_status r = Success
      then (case rfind_char (CHR ''/'') (rec_path_or_command r) of
              None \<Rightarrow> groups
            | Some slash \<Rightarrow>
                map_update (rec_source r = SysfsHwmon, take slash (rec_path_or_command r)) []
                  (map_put (drop (slash + 1) (rec_path_or_command r)) (rec_payload r)) groups)
      else groups)"

definition sensor_groups :: "RawStore \<Rightarrow> SensorGroups" where
  "sensor_groups raw = fold group_record (raw_records raw) []"

section \<open>Thermal zones\<close>

definition lower_critical :: "Attributes \<Rightarrow> string \<times> string \<Rightarrow> SensorTemperature option \<Rightarrow>
    SensorTemperature option" where
  "lower_critical attributes = (\<lambda>(field, trip_type) critical.
     if prefix ''trip_point_'' field \<and> suffix ''_type'' field \<and> trim trip_type = ''critical''
     then (case measurement read_temperature attributes (take (length field - 4) field @ ''temp'') of
             None \<Rightarrow> critical
           | Some limit \<Rightarrow>
               (case critical of
                  None \<Rightarrow> Some limit
                | Some c \<Rightarrow>
                    if sint (temperature_value limit) < sint (temperature_value c) then Some limit
                    else critical))
     else critical)"

definition thermal_sensor :: "string \<Rightarrow> Attributes \<Rightarrow> SensorTemperature SensorReading option" where
  "thermal_sensor path attributes =
     (if map_of attributes ''temp'' = None then None
      else
        let translated = map_put ''temp1_label'' (attribute_value attributes ''type'')
              (map_put ''temp1_input'' (attribute_value attributes ''temp'') attributes);
            sensor = channel read_temperature True translated path ''temp1'' SysfsThermal
        in Some (sensor\<lparr>
             sr_identity := (sr_identity sensor)\<lparr>si_origin := path @ ''/temp'',
               si_chip := attribute_value attributes ''type''\<rparr>,
             sr_critical := fold (lower_critical attributes) attributes (sr_critical sensor)\<rparr>))"

section \<open>Hwmon chips\<close>

definition channel_start :: "string \<Rightarrow> nat" where
  "channel_start name =
     (if prefix ''temp'' name then 4 else if prefix ''fan'' name then 3
      else if prefix ''power'' name then 5 else 0)"

definition channel_name :: "string \<Rightarrow> string option" where
  "channel_name field =
     (case find_char (CHR ''_'') field of
        None \<Rightarrow> None
      | Some separator \<Rightarrow>
          let name = take separator field; start = channel_start name in
          if start \<noteq> 0 \<and> length name > start \<and> list_all is_digit (drop start name)
          then Some name else None)"

definition channel_names :: "Attributes \<Rightarrow> string list" where
  "channel_names attributes = set_of (List.map_filter (\<lambda>(field, _). channel_name field) attributes)"

definition hwmon_channel :: "string \<Rightarrow> Attributes \<Rightarrow> string \<Rightarrow> Sensors \<Rightarrow> Sensors" where
  "hwmon_channel path attributes name sensors =
     (if prefix ''temp'' name
      then sensors\<lparr>sens_temperatures := sens_temperatures sensors @
        [channel read_temperature True attributes path name SysfsHwmon]\<rparr>
      else if prefix ''fan'' name
      then sensors\<lparr>sens_fans := sens_fans sensors @
        [channel read_scalar False attributes path name SysfsHwmon]\<rparr>
      else sensors\<lparr>sens_powers := sens_powers sensors @
        [channel read_scalar False attributes path name SysfsHwmon]\<rparr>)"

definition group_sensors :: "(bool \<times> string) \<times> Attributes \<Rightarrow> Sensors \<Rightarrow> Sensors" where
  "group_sensors = (\<lambda>((hwmon, path), attributes) sensors.
     if \<not> hwmon
     then (case thermal_sensor path attributes of
             None \<Rightarrow> sensors
           | Some s \<Rightarrow> sensors\<lparr>sens_temperatures := sens_temperatures sensors @ [s]\<rparr>)
     else fold (hwmon_channel path attributes) (channel_names attributes) sensors)"

definition parse_sensors :: "RawStore \<Rightarrow> Sensors" where
  "parse_sensors raw = fold group_sensors (sensor_groups raw) Sensors_default"

section \<open>The groups are maps of files without directories\<close>

definition file_attributes :: "Attributes \<Rightarrow> bool" where
  "file_attributes as \<longleftrightarrow> map_invar as \<and> (\<forall>f \<in> fst ` set as. CHR ''/'' \<notin> set f)"

definition groups_ok :: "SensorGroups \<Rightarrow> bool" where
  "groups_ok groups \<longleftrightarrow>
     map_invar groups \<and> (\<forall>k as. map_of groups k = Some as \<longrightarrow> file_attributes as)"

lemma file_attributes_put:
  "file_attributes as \<Longrightarrow> CHR ''/'' \<notin> set f \<Longrightarrow> file_attributes (map_put f v as)"
  unfolding file_attributes_def by (simp add: map_invar_put)

lemma rfind_tail: "rfind_char c s = Some i \<Longrightarrow> c \<notin> set (drop (i + 1) s)"
  by (induction s arbitrary: i) (auto simp: rfind_char_None_iff split: option.splits if_splits)

lemma groups_ok_record: "groups_ok groups \<Longrightarrow> groups_ok (group_record r groups)"
proof -
  assume g: "groups_ok groups"
  show ?thesis
  proof (cases "(rec_source r = SysfsHwmon \<or> rec_source r = SysfsThermal) \<and> rec_status r = Success")
    case False
    show ?thesis using g unfolding group_record_def if_not_P [OF False] .
  next
    case True
    show ?thesis
    proof (cases "rfind_char (CHR ''/'') (rec_path_or_command r)")
      case None
      then show ?thesis using g True by (simp add: group_record_def)
    next
      case (Some i)
      let ?k = "(rec_source r = SysfsHwmon, take i (rec_path_or_command r))"
      let ?f = "map_put (drop (i + 1) (rec_path_or_command r)) (rec_payload r)"
      have m: "map_invar groups" using g by (simp add: groups_ok_def)
      have "file_attributes (case map_of groups ?k of None \<Rightarrow> [] | Some as \<Rightarrow> as)"
        using g by (cases "map_of groups ?k") (simp_all add: groups_ok_def file_attributes_def)
      then have "file_attributes (?f (case map_of groups ?k of None \<Rightarrow> [] | Some as \<Rightarrow> as))"
        using rfind_tail [OF Some] by (rule file_attributes_put)
      then have "groups_ok (map_update ?k [] ?f groups)"
        using g map_invar_update [OF m, of ?k "[]" ?f]
        unfolding groups_ok_def map_of_update [OF m] by simp
      then show ?thesis using True Some by (simp add: group_record_def)
    qed
  qed
qed

lemma sensor_groups_ok: "groups_ok (sensor_groups raw)"
proof -
  have "groups_ok []" by (simp add: groups_ok_def)
  then show ?thesis
    unfolding sensor_groups_def
    by (rule fold_invariant_set [where P = groups_ok]) (rule groups_ok_record)
qed

section \<open>The sensors of a group\<close>

definition group_channels :: "string \<Rightarrow> (bool \<times> string) \<times> Attributes \<Rightarrow> string list" where
  "group_channels kind = (\<lambda>((hwmon, _), attributes).
     if hwmon then filter (prefix kind) (channel_names attributes) else [])"

lemma channel_names_iff:
  "n \<in> set (channel_names as) \<longleftrightarrow> (\<exists>f \<in> fst ` set as. channel_name f = Some n)"
  by (force simp: channel_names_def map_filter_def)

lemma channel_kind:
  "n \<in> set (channel_names as) \<Longrightarrow>
   (prefix ''temp'' n \<or> prefix ''fan'' n \<or> prefix ''power'' n) \<and>
   list_all is_digit (drop (channel_start n) n)"
proof -
  assume "n \<in> set (channel_names as)"
  then obtain f where f: "channel_name f = Some n" unfolding channel_names_iff by blast
  then obtain i where "find_char (CHR ''_'') f = Some i" by (auto simp: channel_name_def split: option.splits)
  with f have "channel_start n \<noteq> 0 \<and> list_all is_digit (drop (channel_start n) n)"
    by (auto simp: channel_name_def Let_def split: if_splits)
  then show ?thesis by (auto simp: channel_start_def split: if_splits)
qed

lemma kinds_disjoint:
  "prefix ''temp'' n \<Longrightarrow> \<not> prefix ''fan'' n" "prefix ''temp'' n \<Longrightarrow> \<not> prefix ''power'' n"
  "prefix ''fan'' n \<Longrightarrow> \<not> prefix ''power'' n"
  by (auto simp: prefix_def)

definition group_temperatures :: "(bool \<times> string) \<times> Attributes \<Rightarrow> SensorTemperature SensorReading list" where
  "group_temperatures = (\<lambda>((hwmon, path), attributes).
     if \<not> hwmon then (case thermal_sensor path attributes of None \<Rightarrow> [] | Some s \<Rightarrow> [s])
     else map (\<lambda>n. channel read_temperature True attributes path n SysfsHwmon)
       (filter (prefix ''temp'') (channel_names attributes)))"

definition group_scalars :: "string \<Rightarrow> (bool \<times> string) \<times> Attributes \<Rightarrow> 'tag scalar_unit SensorReading list" where
  "group_scalars kind = (\<lambda>((hwmon, path), attributes).
     map (\<lambda>n. channel read_scalar False attributes path n SysfsHwmon)
       (group_channels kind ((hwmon, path), attributes)))"

lemma hwmon_channels:
  "set ns \<subseteq> set (channel_names as) \<Longrightarrow>
   fold (hwmon_channel path as) ns sensors =
     \<lparr>sens_temperatures = sens_temperatures sensors @
        map (\<lambda>n. channel read_temperature True as path n SysfsHwmon) (filter (prefix ''temp'') ns),
      sens_fans = sens_fans sensors @
        map (\<lambda>n. channel read_scalar False as path n SysfsHwmon) (filter (prefix ''fan'') ns),
      sens_powers = sens_powers sensors @
        map (\<lambda>n. channel read_scalar False as path n SysfsHwmon) (filter (prefix ''power'') ns)\<rparr>"
proof (induction ns arbitrary: sensors)
  case Nil
  then show ?case by simp
next
  case (Cons n ns)
  then have "prefix ''temp'' n \<or> prefix ''fan'' n \<or> prefix ''power'' n"
    using channel_kind [of n as] by simp
  then show ?case using Cons kinds_disjoint [of n] by (auto simp: hwmon_channel_def)
qed

lemma group_sensors_eq:
  "group_sensors g sensors =
     \<lparr>sens_temperatures = sens_temperatures sensors @ group_temperatures g,
      sens_fans = sens_fans sensors @ group_scalars ''fan'' g,
      sens_powers = sens_powers sensors @ group_scalars ''power'' g\<rparr>"
proof -
  obtain hwmon path as where g: "g = ((hwmon, path), as)" by (metis surj_pair)
  show ?thesis
    by (cases hwmon)
      (auto simp: g group_sensors_def group_temperatures_def group_scalars_def group_channels_def
        hwmon_channels split: option.split)
qed

lemma parse_sensors_eq:
  "parse_sensors raw =
     \<lparr>sens_temperatures = concat (map group_temperatures (sensor_groups raw)),
      sens_fans = concat (map (group_scalars ''fan'') (sensor_groups raw)),
      sens_powers = concat (map (group_scalars ''power'') (sensor_groups raw))\<rparr>"
proof -
  have "fold group_sensors gs sensors =
     \<lparr>sens_temperatures = sens_temperatures sensors @ concat (map group_temperatures gs),
      sens_fans = sens_fans sensors @ concat (map (group_scalars ''fan'') gs),
      sens_powers = sens_powers sensors @ concat (map (group_scalars ''power'') gs)\<rparr>" for gs sensors
    by (induction gs arbitrary: sensors) (simp_all add: group_sensors_eq)
  then show ?thesis by (simp add: parse_sensors_def Sensors_default_def)
qed

section \<open>Every channel once\<close>

lemma channel_identity [simp]:
  "si_id (sr_identity (channel read temperature as path n source)) = NamedString (path @ ''/'' @ n)"
  "si_source (sr_identity (channel read temperature as path n source)) = source"
  by (simp_all add: channel_def Let_def)

lemma thermal_identity:
  "thermal_sensor path as = Some s \<Longrightarrow>
   si_id (sr_identity s) = NamedString (path @ ''/temp1'') \<and> si_source (sr_identity s) = SysfsThermal"
  by (auto simp: thermal_sensor_def Let_def split: if_splits)

lemma channel_name_prefix: "channel_name f = Some n \<Longrightarrow> prefix n f"
  by (auto simp: channel_name_def Let_def take_is_prefix split: option.splits if_splits)

lemma channel_names_no_slash:
  "file_attributes as \<Longrightarrow> n \<in> set (channel_names as) \<Longrightarrow> CHR ''/'' \<notin> set n"
  using channel_name_prefix set_mono_prefix
  by (fastforce simp: channel_names_iff file_attributes_def)

lemma path_name_inject:
  assumes "CHR ''/'' \<notin> set n" "CHR ''/'' \<notin> set n'" "path @ ''/'' @ n = path' @ ''/'' @ n'"
  shows "path = path' \<and> n = n'"
proof -
  have "length path = length path'"
    using rfind_char_append [OF assms(1), of path] rfind_char_append [OF assms(2), of path'] assms(3)
    by simp
  then show ?thesis using assms(3) by simp
qed

definition sensor_key :: "'unit SensorReading \<Rightarrow> RawSource \<times> SensorId" where
  "sensor_key s = (si_source (sr_identity s), si_id (sr_identity s))"

text \<open>The keys of a group: where they come from and that they are distinct.\<close>

definition keys_within :: "(bool \<times> string) \<times> Attributes \<Rightarrow> (RawSource \<times> SensorId) list \<Rightarrow> bool" where
  "keys_within g ks \<longleftrightarrow> distinct ks \<and>
     (\<forall>k \<in> set ks. \<exists>n. CHR ''/'' \<notin> set n \<and>
        k = (if fst (fst g) then SysfsHwmon else SysfsThermal, NamedString (snd (fst g) @ ''/'' @ n)))"

lemma distinct_group_keys:
  assumes "distinct (map fst gs)" "\<And>g. g \<in> set gs \<Longrightarrow> keys_within g (key_list g)"
  shows "distinct (concat (map key_list gs))"
  using assms
proof (induction gs)
  case Nil
  then show ?case by simp
next
  case (Cons g gs)
  have "k \<notin> set (key_list h)" if k: "k \<in> set (key_list g)" and h: "h \<in> set gs" for k h
  proof
    assume "k \<in> set (key_list h)"
    with Cons.prems(2) [of h] h obtain n' where n': "CHR ''/'' \<notin> set n'"
      "k = (if fst (fst h) then SysfsHwmon else SysfsThermal, NamedString (snd (fst h) @ ''/'' @ n'))"
      unfolding keys_within_def by auto
    from Cons.prems(2) [of g] k obtain n where n: "CHR ''/'' \<notin> set n"
      "k = (if fst (fst g) then SysfsHwmon else SysfsThermal, NamedString (snd (fst g) @ ''/'' @ n))"
      unfolding keys_within_def by auto
    from n(2) n'(2) have source: "fst (fst g) = fst (fst h)" and
      path: "snd (fst g) @ ''/'' @ n = snd (fst h) @ ''/'' @ n'"
      by (auto split: if_splits)
    have "snd (fst g) = snd (fst h)" using path_name_inject [OF n(1) n'(1) path] by blast
    with source have "fst g = fst h" by (simp add: prod_eq_iff)
    then show False using Cons.prems(1) h by force
  qed
  moreover have "distinct (key_list g)" using Cons.prems(2) [of g] by (simp add: keys_within_def)
  moreover have "distinct (concat (map key_list gs))" using Cons by simp
  ultimately show ?case by auto
qed

lemma hwmon_keys:
  assumes "file_attributes as" "set ns \<subseteq> set (channel_names as)" "distinct ns"
  shows "keys_within ((True, path), as) (map (\<lambda>n. (SysfsHwmon, NamedString (path @ ''/'' @ n))) ns)"
  using assms channel_names_no_slash [OF assms(1)]
  by (auto simp: keys_within_def distinct_map inj_on_def)

lemma groups_distinct: "distinct (map fst (sensor_groups raw))"
  using sensor_groups_ok [of raw] map_invar_distinct by (auto simp: groups_ok_def)

lemma group_member_ok: "g \<in> set (sensor_groups raw) \<Longrightarrow> file_attributes (snd g)"
proof -
  assume "g \<in> set (sensor_groups raw)"
  then have "map_of (sensor_groups raw) (fst g) = Some (snd g)"
    using sensor_groups_ok [of raw] map_invar_lookup [of "sensor_groups raw" "fst g" "snd g"]
    by (simp add: groups_ok_def)
  then show ?thesis using sensor_groups_ok [of raw] unfolding groups_ok_def by blast
qed

lemma temperature_keys:
  "file_attributes (snd g) \<Longrightarrow> keys_within g (map sensor_key (group_temperatures g))"
proof -
  assume as: "file_attributes (snd g)"
  obtain hwmon path as where g: "g = ((hwmon, path), as)" by (metis surj_pair)
  show ?thesis
  proof (cases hwmon)
    case True
    have "distinct (channel_names as)" by (simp add: channel_names_def)
    then show ?thesis
      using hwmon_keys [of as "filter (prefix ''temp'') (channel_names as)" path] as True
      by (simp add: g group_temperatures_def sensor_key_def comp_def)
  next
    case False
    then show ?thesis
      using thermal_identity [of path as]
      by (auto simp: g group_temperatures_def sensor_key_def keys_within_def split: option.split
          intro!: exI [of _ "''temp1''"])
  qed
qed

lemma scalar_keys:
  "file_attributes (snd g) \<Longrightarrow> keys_within g (map sensor_key (group_scalars kind g))"
proof -
  assume as: "file_attributes (snd g)"
  obtain hwmon path as where g: "g = ((hwmon, path), as)" by (metis surj_pair)
  have "distinct (channel_names as)" by (simp add: channel_names_def)
  then show ?thesis
    using hwmon_keys [of as "filter (prefix kind) (channel_names as)" path] as
    by (cases hwmon)
      (simp_all add: g group_scalars_def group_channels_def sensor_key_def comp_def keys_within_def)
qed

text \<open>
  no sensor is listed twice: within each kind, two sensors differ in their source or in their
  id, which is the directory and the channel.
\<close>

theorem sensors_distinct:
  "distinct (map sensor_key (sens_temperatures (parse_sensors raw))) \<and>
   distinct (map sensor_key (sens_fans (parse_sensors raw))) \<and>
   distinct (map sensor_key (sens_powers (parse_sensors raw)))"
  using distinct_group_keys [OF groups_distinct, of raw "\<lambda>g. map sensor_key (group_temperatures g)"]
    distinct_group_keys [OF groups_distinct, of raw "\<lambda>g. map sensor_key (group_scalars ''fan'' g)"]
    distinct_group_keys [OF groups_distinct, of raw "\<lambda>g. map sensor_key (group_scalars ''power'' g)"]
  by (simp add: parse_sensors_eq map_concat comp_def temperature_keys scalar_keys group_member_ok)

section \<open>No channel is lost\<close>

text \<open>The files of a directory that were read, with the last payload of each.\<close>

definition file_read :: "RawStore \<Rightarrow> RawSource \<Rightarrow> string \<Rightarrow> string \<Rightarrow> bool" where
  "file_read raw source path f \<longleftrightarrow>
     CHR ''/'' \<notin> set f \<and> list_ex (\<lambda>r. rec_source r = source \<and> rec_status r = Success \<and>
       rec_path_or_command r = path @ ''/'' @ f) (raw_records raw)"

lemma rfind_split: "rfind_char c s = Some i \<longleftrightarrow> (\<exists>xs ys. s = xs @ c # ys \<and> c \<notin> set ys \<and> i = length xs)"
proof
  assume i: "rfind_char c s = Some i"
  then have "s = take i s @ c # drop (i + 1) s"
    by (induction s arbitrary: i) (auto split: option.splits if_splits)
  then show "\<exists>xs ys. s = xs @ c # ys \<and> c \<notin> set ys \<and> i = length xs"
    using rfind_tail [OF i] rfind_char_less [OF i] by (metis length_take min.absorb2 less_imp_le)
next
  assume "\<exists>xs ys. s = xs @ c # ys \<and> c \<notin> set ys \<and> i = length xs"
  then show "rfind_char c s = Some i" using rfind_char_append by blast
qed

definition has_file :: "SensorGroups \<Rightarrow> bool \<Rightarrow> string \<Rightarrow> string \<Rightarrow> bool" where
  "has_file groups hwmon path f \<longleftrightarrow>
     (case map_of groups (hwmon, path) of None \<Rightarrow> False | Some as \<Rightarrow> f \<in> fst ` set as)"

definition record_of_file :: "RawRecord \<Rightarrow> bool \<Rightarrow> string \<Rightarrow> string \<Rightarrow> bool" where
  "record_of_file r hwmon path f \<longleftrightarrow>
     rec_source r = (if hwmon then SysfsHwmon else SysfsThermal) \<and> rec_status r = Success \<and>
     rec_path_or_command r = path @ ''/'' @ f"

lemma has_file_record:
  assumes "map_invar groups" "CHR ''/'' \<notin> set f"
  shows "has_file (group_record r groups) hwmon path f \<longleftrightarrow>
    has_file groups hwmon path f \<or> record_of_file r hwmon path f"
proof (cases "(rec_source r = SysfsHwmon \<or> rec_source r = SysfsThermal) \<and> rec_status r = Success")
  case False
  then have "\<not> record_of_file r hwmon path f" by (auto simp: record_of_file_def split: if_splits)
  then show ?thesis unfolding group_record_def if_not_P [OF False] by simp
next
  case True
  show ?thesis
  proof (cases "rfind_char (CHR ''/'') (rec_path_or_command r)")
    case None
    then have "\<not> record_of_file r hwmon path f"
      by (auto simp: record_of_file_def rfind_char_None_iff)
    then show ?thesis using True None by (simp add: group_record_def)
  next
    case (Some i)
    then obtain p g where path_r: "rec_path_or_command r = p @ CHR ''/'' # g" "CHR ''/'' \<notin> set g"
      "i = length p" unfolding rfind_split by blast
    have "record_of_file r hwmon path f \<longleftrightarrow> hwmon = (rec_source r = SysfsHwmon) \<and> path = p \<and> f = g"
      using True path_name_inject [OF path_r(2) assms(2), of p path]
      by (auto simp: record_of_file_def path_r(1))
    then show ?thesis using True Some assms(1)
      by (auto simp: group_record_def has_file_def map_of_update path_r split: option.splits)
  qed
qed

lemma has_file_sensor_groups:
  "CHR ''/'' \<notin> set f \<Longrightarrow> has_file (sensor_groups raw) hwmon path f \<longleftrightarrow>
   file_read raw (if hwmon then SysfsHwmon else SysfsThermal) path f"
proof -
  assume f: "CHR ''/'' \<notin> set f"
  have "groups_ok groups \<Longrightarrow> has_file (fold group_record rs groups) hwmon path f \<longleftrightarrow>
      has_file groups hwmon path f \<or> list_ex (\<lambda>r. record_of_file r hwmon path f) rs" for rs groups
  proof (induction rs arbitrary: groups)
    case Nil
    then show ?case by simp
  next
    case (Cons r rs)
    then have "map_invar groups" by (simp add: groups_ok_def)
    from has_file_record [OF this f] Cons.IH [OF groups_ok_record [OF Cons.prems]] show ?case
      by auto
  qed
  from this [of "[]" "raw_records raw"] show ?thesis
    using f by (simp add: sensor_groups_def groups_ok_def has_file_def file_read_def record_of_file_def)
qed

lemma entry_with_key: "(\<exists>g \<in> S. fst g = k \<and> P (snd g)) \<longleftrightarrow> (\<exists>v. (k, v) \<in> S \<and> P v)"
  by force

lemma group_of_file:
  "(\<exists>g \<in> set (sensor_groups raw). fst g = (hwmon, path) \<and> f \<in> fst ` set (snd g)) \<longleftrightarrow>
   has_file (sensor_groups raw) hwmon path f"
proof -
  have lookup: "((hwmon, path), as) \<in> set (sensor_groups raw) \<longleftrightarrow>
      map_of (sensor_groups raw) (hwmon, path) = Some as" for as
    using sensor_groups_ok [of raw] by (intro map_invar_lookup) (simp add: groups_ok_def)
  show ?thesis
    unfolding entry_with_key [where P = "\<lambda>as. f \<in> fst ` set as"] lookup has_file_def
    by (cases "map_of (sensor_groups raw) (hwmon, path)") simp_all
qed

definition channel_keys :: "RawStore \<Rightarrow> string \<Rightarrow> (RawSource \<times> SensorId) set" where
  "channel_keys raw kind =
     {(SysfsHwmon, NamedString (path @ ''/'' @ n)) | path f n.
        file_read raw SysfsHwmon path f \<and> channel_name f = Some n \<and> prefix kind n}"

lemma group_channel_iff:
  "(\<exists>g \<in> set (sensor_groups raw). fst g = (True, path) \<and> n \<in> set (channel_names (snd g))) \<longleftrightarrow>
   (\<exists>f. file_read raw SysfsHwmon path f \<and> channel_name f = Some n)"
proof -
  have "(\<exists>g \<in> set (sensor_groups raw). fst g = (True, path) \<and> n \<in> set (channel_names (snd g))) \<longleftrightarrow>
      (\<exists>f. (\<exists>g \<in> set (sensor_groups raw). fst g = (True, path) \<and> f \<in> fst ` set (snd g)) \<and>
        channel_name f = Some n)"
    by (auto simp: channel_names_iff)
  also have "\<dots> \<longleftrightarrow> (\<exists>f. has_file (sensor_groups raw) True path f \<and> channel_name f = Some n)"
    by (simp only: group_of_file)
  also have "\<dots> \<longleftrightarrow> (\<exists>f. file_read raw SysfsHwmon path f \<and> channel_name f = Some n)"
  proof -
    have "CHR ''/'' \<notin> set f" if "has_file (sensor_groups raw) True path f" for f
      using that group_member_ok unfolding group_of_file [symmetric] file_attributes_def by blast
    moreover have "CHR ''/'' \<notin> set f" if "file_read raw SysfsHwmon path f" for f
      using that by (simp add: file_read_def)
    ultimately show ?thesis using has_file_sensor_groups [of _ raw True path] by (metis (full_types))
  qed
  finally show ?thesis .
qed

lemma thermal_zone_iff:
  "(\<exists>g \<in> set (sensor_groups raw). fst g = (False, path) \<and> ''temp'' \<in> fst ` set (snd g)) \<longleftrightarrow>
   file_read raw SysfsThermal path ''temp''"
  using has_file_sensor_groups [of "''temp''" raw False path] by (simp add: group_of_file)

lemma scalar_key_set:
  "sensor_key ` set (concat (map (group_scalars kind) (sensor_groups raw))) = channel_keys raw kind"
proof -
  have "sensor_key ` set (group_scalars kind g) =
      {(SysfsHwmon, NamedString (path @ ''/'' @ n)) | path n.
        fst g = (True, path) \<and> n \<in> set (channel_names (snd g)) \<and> prefix kind n}" for g
    by (cases g) (auto simp: group_scalars_def group_channels_def sensor_key_def image_iff)
  then have "sensor_key ` set (concat (map (group_scalars kind) (sensor_groups raw))) =
      {(SysfsHwmon, NamedString (path @ ''/'' @ n)) | path n.
        (\<exists>g \<in> set (sensor_groups raw). fst g = (True, path) \<and> n \<in> set (channel_names (snd g))) \<and>
        prefix kind n}"
    by (simp add: image_UN) blast
  then show ?thesis unfolding group_channel_iff channel_keys_def by blast
qed

lemma temperature_key_set:
  "sensor_key ` set (concat (map group_temperatures (sensor_groups raw))) =
   channel_keys raw ''temp'' \<union>
   {(SysfsThermal, NamedString (path @ ''/temp1'')) | path. file_read raw SysfsThermal path ''temp''}"
proof -
  have thermal: "thermal_sensor path as \<noteq> None \<longleftrightarrow> ''temp'' \<in> fst ` set as" for path as
    by (simp add: thermal_sensor_def Let_def map_of_eq_None_iff)
  have "sensor_key ` set (group_temperatures g) =
      {(SysfsHwmon, NamedString (path @ ''/'' @ n)) | path n.
        fst g = (True, path) \<and> n \<in> set (channel_names (snd g)) \<and> prefix ''temp'' n} \<union>
      {(SysfsThermal, NamedString (path @ ''/temp1'')) | path.
        fst g = (False, path) \<and> ''temp'' \<in> fst ` set (snd g)}" for g
  proof -
    obtain hwmon path as where g: "g = ((hwmon, path), as)" by (metis surj_pair)
    show ?thesis
    proof (cases hwmon)
      case True
      then show ?thesis by (auto simp: g group_temperatures_def sensor_key_def image_iff)
    next
      case False
      then show ?thesis
        using thermal [of path as] thermal_identity [of path as]
        by (cases "thermal_sensor path as") (auto simp: g group_temperatures_def sensor_key_def)
    qed
  qed
  then have "sensor_key ` set (concat (map group_temperatures (sensor_groups raw))) =
      (\<Union>g \<in> set (sensor_groups raw).
        {(SysfsHwmon, NamedString (path @ ''/'' @ n)) | path n.
          fst g = (True, path) \<and> n \<in> set (channel_names (snd g)) \<and> prefix ''temp'' n}) \<union>
      (\<Union>g \<in> set (sensor_groups raw). {(SysfsThermal, NamedString (path @ ''/temp1'')) | path.
        fst g = (False, path) \<and> ''temp'' \<in> fst ` set (snd g)})"
    by (simp add: image_UN UN_Un_distrib)
  also have "\<dots> = {(SysfsHwmon, NamedString (path @ ''/'' @ n)) | path n.
        (\<exists>g \<in> set (sensor_groups raw). fst g = (True, path) \<and> n \<in> set (channel_names (snd g))) \<and>
        prefix ''temp'' n} \<union>
      {(SysfsThermal, NamedString (path @ ''/temp1'')) | path.
        \<exists>g \<in> set (sensor_groups raw). fst g = (False, path) \<and> ''temp'' \<in> fst ` set (snd g)}"
    by (rule arg_cong2 [where f = "(\<union>)"]) blast+
  also have "\<dots> = channel_keys raw ''temp'' \<union>
      {(SysfsThermal, NamedString (path @ ''/temp1'')) | path. file_read raw SysfsThermal path ''temp''}"
  proof -
    have "{(SysfsHwmon, NamedString (path @ ''/'' @ n)) | path n.
        (\<exists>g \<in> set (sensor_groups raw). fst g = (True, path) \<and> n \<in> set (channel_names (snd g))) \<and>
        prefix ''temp'' n} = channel_keys raw ''temp''"
      unfolding group_channel_iff channel_keys_def by blast
    then show ?thesis unfolding thermal_zone_iff by (rule arg_cong)
  qed
  finally show ?thesis .
qed

text \<open>C40: every channel is a sensor and every sensor a channel: a temperature, fan or power sensor is
  reported exactly for the channels that some readable hwmon file names, and a zone sensor exactly
  for the thermal zones whose temperature was read.
\<close>

theorem sensors_complete:
  "let sensors = parse_sensors raw in
     sensor_key ` set (sens_temperatures sensors) = channel_keys raw ''temp'' \<union>
       {(SysfsThermal, NamedString (path @ ''/temp1'')) | path. file_read raw SysfsThermal path ''temp''} \<and>
     sensor_key ` set (sens_fans sensors) = channel_keys raw ''fan'' \<and>
     sensor_key ` set (sens_powers sensors) = channel_keys raw ''power''"
  unfolding Let_def parse_sensors_eq
  by (simp only: Sensors.simps temperature_key_set scalar_key_set simp_thms)

section \<open>Temperatures are read as printed\<close>

definition print_temperature :: "SensorTemperature \<Rightarrow> string" where
  "print_temperature t =
     (let v = sint (temperature_value t) in
      if v < 0 then ''-'' @ to_string_nat (nat (- v)) else to_string_nat (nat v))"

lemma digit_char_not_minus: "d < 10 \<Longrightarrow> digit_char d \<noteq> CHR ''-''"
proof -
  have "list_all (\<lambda>d. digit_char d \<noteq> CHR ''-'') [0..<10]" by code_simp
  then show "d < 10 \<Longrightarrow> ?thesis" by (simp add: list_all_iff)
qed

lemma to_string_nat_plain:
  "to_string_nat n \<noteq> []" "list_all (digit_in 10) (to_string_nat n)" "digits_value 10 (to_string_nat n) = n"
  "hd (to_string_nat n) \<noteq> CHR ''-''"
proof -
  show "to_string_nat n \<noteq> []" "list_all (digit_in 10) (to_string_nat n)" "digits_value 10 (to_string_nat n) = n"
    by (simp_all add: to_string_nat_def print_base_digits print_base_value)
  then have "digit_in 10 (hd (to_string_nat n))" by (simp add: list_all_iff)
  moreover have "\<not> digit_in 10 (CHR ''-'')" by code_simp
  ultimately show "hd (to_string_nat n) \<noteq> CHR ''-''" by metis
qed

lemma take_drop_all:
  "list_all P s \<Longrightarrow> takeWhile P s = s \<and> dropWhile P s = []"
  by (simp add: list_all_iff)

lemma read_print_temperature: "read_temperature (print_temperature t) = Some t"
proof -
  let ?v = "sint (temperature_value t)"
  have range: "- (2 ^ 63) \<le> ?v" "?v < 2 ^ 63"
    using sint_greater_eq [of "temperature_value t"] sint_less [of "temperature_value t"] by simp_all
  have digits: "takeWhile (digit_in 10) (to_string_nat n) = to_string_nat n"
    "dropWhile (digit_in 10) (to_string_nat n) = []" for n
    using take_drop_all [OF to_string_nat_plain(2)] by blast+
  have "from_chars_signed (print_temperature t) = Inr (word_of_int ?v, [])"
  proof (cases "?v < 0")
    case True
    then have "print_temperature t = CHR ''-'' # to_string_nat (nat (- ?v))"
      by (simp add: print_temperature_def)
    then show ?thesis using True range
      by (simp add: from_chars_signed_def Let_def digits to_string_nat_plain)
  next
    case False
    then have "print_temperature t = to_string_nat (nat ?v)" by (simp add: print_temperature_def)
    then show ?thesis using False range
      by (simp add: from_chars_signed_def Let_def digits to_string_nat_plain)
  qed
  then show ?thesis by (simp add: read_temperature_def whole_def)
qed

interpretation millidegrees: codec print_temperature read_temperature
  by unfold_locales (rule read_print_temperature)

section \<open>Critical limits of thermal zones\<close>

definition critical_trip :: "Attributes \<Rightarrow> string \<times> string \<Rightarrow> SensorTemperature option" where
  "critical_trip as p =
     (if prefix ''trip_point_'' (fst p) \<and> suffix ''_type'' (fst p) \<and> trim (snd p) = ''critical''
      then measurement read_temperature as (take (length (fst p) - 4) (fst p) @ ''temp'') else None)"

definition least_of :: "'a::linorder set \<Rightarrow> 'a option" where
  "least_of S = (if S = {} then None else Some (Min S))"

definition absorb :: "'a::linorder option \<Rightarrow> 'a option \<Rightarrow> 'a option" where
  "absorb limit c = (case limit of None \<Rightarrow> c
     | Some l \<Rightarrow> Some (case c of None \<Rightarrow> l | Some x \<Rightarrow> min l x))"

lemma same_temperature: "sint (temperature_value a) = sint (temperature_value b) \<Longrightarrow> a = b"
  by (rule order_antisym) (simp_all add: less_eq_SensorTemperature_def)

lemma lower_critical_eq: "lower_critical as = (\<lambda>p. absorb (critical_trip as p))"
proof (intro ext)
  fix p c
  show "lower_critical as p c = absorb (critical_trip as p) c"
  proof (cases "prefix ''trip_point_'' (fst p) \<and> suffix ''_type'' (fst p) \<and> trim (snd p) = ''critical''")
    case False
    then show ?thesis by (cases p) (auto simp: lower_critical_def absorb_def critical_trip_def)
  next
    case True
    then show ?thesis
      by (cases p; cases c; cases "critical_trip as p")
        (auto simp: lower_critical_def absorb_def critical_trip_def min_def
          less_eq_SensorTemperature_def dest: same_temperature)
  qed
qed

lemma absorb_least_of:
  "finite S \<Longrightarrow> absorb (least_of S) (absorb limit c) = absorb (least_of (set_option limit \<union> S)) c"
  by (cases limit; cases c; cases "S = {}") (auto simp: least_of_def absorb_def min.assoc min.commute min.left_commute)

lemma fold_absorb:
  "fold (\<lambda>p. absorb (f p)) ps c = absorb (least_of (\<Union>p \<in> set ps. set_option (f p))) c"
proof (induction ps arbitrary: c)
  case Nil
  then show ?case by (simp add: least_of_def absorb_def)
next
  case (Cons p ps)
  then show ?case by (simp add: absorb_least_of)
qed

lemma absorb_set: "finite S \<Longrightarrow> absorb (least_of S) c = least_of (set_option c \<union> S)"
  using absorb_least_of [of S c None] by (cases c) (auto simp: absorb_def least_of_def split: option.splits if_splits)

text \<open>the critical limit of a thermal zone is the lowest of all its critical trip points and the
  limit of the channel itself, as signed temperatures; it is absent only when there is none.
\<close>

theorem thermal_critical_lowest:
  "case thermal_sensor path attributes of
     None \<Rightarrow> map_of attributes ''temp'' = None
   | Some sensor \<Rightarrow> sr_critical sensor = least_of ((\<Union>p \<in> set attributes. set_option (critical_trip attributes p)) \<union>
       (if sr_unit_supported sensor
        then set_option (measurement read_temperature
          (map_put ''temp1_label'' (attribute_value attributes ''type'')
            (map_put ''temp1_input'' (attribute_value attributes ''temp'') attributes)) ''temp1_crit'')
        else {}))"
  by (simp add: thermal_sensor_def Let_def lower_critical_eq fold_absorb absorb_set channel_def Un_commute)

end
