(* ===== verification/Inventory.thy ===== *)
theory Inventory
  imports Raw_Store Parse_Utils "HOL-Library.Multiset"
begin

text \<open>
  \<open>src/resolver/inventory.cpp\<close>: the completeness reports of the snapshot. An inventory is
  reported complete only when the kernel's own enumeration, read without failure, names exactly
  the entries of the model. The names the entries are compared under are printed from their
  identities; the codec laws show that no two identities share a name.
\<close>

section \<open>Names\<close>

definition cpu_name :: "LogicalCpu \<Rightarrow> string" where
  "cpu_name entry = ''cpu'' @ to_string (id_value (lc_id entry))"

definition node_name :: "NumaNode \<Rightarrow> string" where
  "node_name entry = ''node'' @ to_string (id_value (nn_id entry))"

definition pci_name :: "PciAddress \<Rightarrow> string" where
  "pci_name a =
     print_hex 4 (unat (pci_domain a)) @ '':'' @ print_hex 2 (unat (pci_bus a)) @ '':'' @
     print_hex 2 (unat (pci_device a)) @ ''.'' @ print_hex 0 (unat (pci_function a))"

section \<open>Reports\<close>

definition observed :: "InventoryKind \<Rightarrow> bool \<Rightarrow> string \<Rightarrow> InventoryReport" where
  "observed kind none origin =
     \<lparr>ir_inventory = kind,
      ir_completeness = (if none then Completeness_Unknown else Completeness_Partial),
      ir_origin = origin\<rparr>"

definition report :: "RawStore \<Rightarrow> InventoryKind \<Rightarrow> 'e list \<Rightarrow> ('e \<Rightarrow> string) \<Rightarrow> string \<Rightarrow> InventoryReport" where
  "report raw kind entries name origin =
     (let result = \<lparr>ir_inventory = kind,
        ir_completeness = (if entries = [] then Completeness_Unknown else Completeness_Partial),
        ir_origin = origin\<rparr> in
      case enumeration raw kind of
        None \<Rightarrow> result
      | Some listed \<Rightarrow>
          let result = result\<lparr>ir_origin := ie_origin listed\<rparr> in
          if ie_status listed \<noteq> Success \<or> ie_failure listed \<noteq> None then result
          else
            let expected = set_of (ie_entries listed); actual = set_of (map name entries) in
            if length expected = length (ie_entries listed) \<and> length actual = length entries \<and>
               expected = actual
            then result\<lparr>ir_completeness := Complete\<rparr>
            else result)"

definition topology_fields :: "string list" where
  "topology_fields = [''physical_package_id'', ''core_id'']"

definition field_known :: "RawStore \<Rightarrow> LogicalCpu \<Rightarrow> string \<Rightarrow> bool" where
  "field_known raw logical field =
     (let path = ''/sys/devices/system/cpu/cpu'' @ to_string (id_value (lc_id logical)) @
                 ''/topology/'' @ field in
      case get raw SysfsCpu path of
        [r] \<Rightarrow> rec_status r = Success \<and>
          (case parse_uint (trim (rec_payload r)) of
             None \<Rightarrow> False | Some number \<Rightarrow> \<not> number > u32_max)
      | _ \<Rightarrow> False)"

definition topology_known :: "Cpu \<Rightarrow> RawStore \<Rightarrow> bool" where
  "topology_known cpu raw \<longleftrightarrow>
     cpu_logical_cpus cpu \<noteq> [] \<and>
     list_all (\<lambda>logical. list_all (field_known raw logical) topology_fields) (cpu_logical_cpus cpu)"

definition logical_report :: "SystemInfo \<Rightarrow> RawStore \<Rightarrow> InventoryReport" where
  "logical_report info raw =
     report raw LogicalCpus (cpu_logical_cpus (info_cpu info)) cpu_name ''/sys/devices/system/cpu''"

definition cpu_reports :: "SystemInfo \<Rightarrow> RawStore \<Rightarrow> InventoryReport list" where
  "cpu_reports info raw =
     (let cpu = info_cpu info;
          logical = logical_report info raw;
          packages = observed CpuPackages (cpu_packages cpu = []) (ir_origin logical);
          cores = observed CpuCores (cpu_cores cpu = []) (ir_origin logical);
          known = topology_known cpu raw;
          packages = (if known then packages\<lparr>ir_completeness := ir_completeness logical\<rparr> else packages);
          cores = (if known then cores\<lparr>ir_completeness := ir_completeness logical\<rparr> else cores)
      in [logical, packages, cores,
          report raw NumaNodes (cpu_numa_nodes cpu) node_name ''/sys/devices/system/node'',
          observed CpuCaches (cpu_caches cpu = []) ''observed CPU caches''])"

definition inventory_reports :: "SystemInfo \<Rightarrow> RawStore \<Rightarrow> Collect \<Rightarrow> InventoryReport list" where
  "inventory_reports info raw flags =
     (if has flags Collect_Cpu then cpu_reports info raw else []) @
     (if has flags Collect_Network
      then [report raw NetworkInterfaces (net_interfaces (info_network info)) (str_value \<circ> if_name)
              ''/sys/class/net''] else []) @
     (if has flags Collect_Storage
      then [report raw BlockDevices (storage_devices (info_storage info)) (str_value \<circ> st_name)
              ''/sys/class/block''] else []) @
     (if has flags Collect_Pci
      then [report raw PciDevices (pci_devices (info_pci info)) (pci_name \<circ> pd_address)
              ''/sys/bus/pci/devices''] else []) @
     (if has flags Collect_Accelerator
      then [observed AcceleratorDevices (acc_devices (info_accelerators info) = [])
              ''observed accelerator backends''] else [])"

section \<open>PCI addresses are read back as printed\<close>

lemma print_hex_plain: "c \<in> set (print_hex w n) \<Longrightarrow> digit_in 16 c"
  using print_hex_digits [of w n] by (simp add: list_all_iff)

lemma separator_not_digit [simp]: "\<not> digit_in 16 (CHR '':'')" "\<not> digit_in 16 (CHR ''.'')"
  by code_simp+

lemma separator_not_in_hex [simp]:
  "CHR '':'' \<notin> set (print_hex w n)" "CHR ''.'' \<notin> set (print_hex w n)"
  using print_hex_plain separator_not_digit by blast+

lemma separator_not_space [simp]: "\<not> is_space (CHR '':'')" "\<not> is_space (CHR ''.'')"
  by code_simp+

lemma pci_name_no_space: "trim (pci_name a) = pci_name a"
proof (rule trim_no_space)
  have "\<not> is_space c" if "c \<in> set (print_hex w n)" for c w n
    using print_hex_plain [OF that] by (rule digit_in_not_space)
  then show "list_all (\<lambda>c. \<not> is_space c) (pci_name a)"
    by (auto simp: pci_name_def list_all_iff)
qed

lemma parse_print_hex_word: "LENGTH('a) \<le> 64 \<Longrightarrow>
    parse_hex (print_hex w (unat (v :: 'a::len word))) = Some (ucast v)"
proof -
  assume "LENGTH('a) \<le> 64"
  then have "(2::nat) ^ LENGTH('a) \<le> 2 ^ 64" by (rule power_increasing) simp
  then have "unat v < 2 ^ 64"
    using unsigned_less [of v, where ?'a = nat] by (rule order.strict_trans2 [rotated])
  then show ?thesis by (simp add: parse_print_hex del: power_numeral)
qed

lemma parse_pci_name: "parse_pci_address (pci_name a) = Some a"
proof -
  let ?dom = "print_hex 4 (unat (pci_domain a))" and ?bus = "print_hex 2 (unat (pci_bus a))"
    and ?dev = "print_hex 2 (unat (pci_device a))" and ?fn = "print_hex 0 (unat (pci_function a))"
  let ?bd = "?dom @ CHR '':'' # ?bus"
  have name: "pci_name a = (?bd @ CHR '':'' # ?dev) @ CHR ''.'' # ?fn"
    by (simp add: pci_name_def)
  have dot: "find_char (CHR ''.'') (pci_name a) = Some (length (?bd @ CHR '':'' # ?dev))"
    unfolding name by (rule find_char_append) simp
  have c1: "rfind_char (CHR '':'') (?bd @ CHR '':'' # ?dev) = Some (length ?bd)"
    by (rule rfind_char_append) simp
  have c2: "rfind_char (CHR '':'') (?dom @ CHR '':'' # ?bus) = Some (length ?dom)"
    by (rule rfind_char_append) simp
  have cut: "take (length xs) (xs @ c # ys) = xs" "drop (length xs + 1) (xs @ c # ys) = ys"
    for c :: char and xs ys
    by simp_all
  have ne: "pci_name a \<noteq> []" by (simp add: name)
  have small: "\<not> (ucast v :: u64) > 255" for v :: u8
    using unsigned_less [of v, where ?'a = nat]
    by (simp add: word_less_nat_alt unsigned_ucast_eq take_bit_nat_eq_self)
  have small16: "\<not> (ucast v :: u64) > 65535" for v :: u16
    using unsigned_less [of v, where ?'a = nat]
    by (simp add: word_less_nat_alt unsigned_ucast_eq take_bit_nat_eq_self)
  have wide8: "ucast (ucast v :: u64) = v" for v :: u8
    using unsigned_less [of v, where ?'a = nat]
    by (simp add: word_unat_eq_iff unsigned_ucast_eq take_bit_word_eq_self)
  have wide16: "ucast (ucast v :: u64) = v" for v :: u16
    using unsigned_less [of v, where ?'a = nat]
    by (simp add: word_unat_eq_iff unsigned_ucast_eq take_bit_word_eq_self)
  show ?thesis
    unfolding parse_pci_address_def pci_name_no_space Let_def
    by (simp only: ne if_False dot option.case, simp only: name cut option.case c1,
        simp only: cut option.case c2, simp add: parse_print_hex_word small small16 wide8 wide16)
qed

interpretation pci_codec: codec pci_name parse_pci_address
  by unfold_locales (rule parse_pci_name)

interpretation cpu_codec: codec "\<lambda>i. ''cpu'' @ to_string (i :: u32)" "\<lambda>s. parse_u32 (drop 3 s)"
  by unfold_locales (simp add: decimal_u32.parse_print)

interpretation node_codec: codec "\<lambda>i. ''node'' @ to_string (i :: u32)" "\<lambda>s. parse_u32 (drop 4 s)"
  by unfold_locales (simp add: decimal_u32.parse_print)

section \<open>When an inventory is complete\<close>

text \<open>The entries an enumeration must name, under the flag that asks for the inventory.\<close>

fun enumerated :: "InventoryKind \<Rightarrow> SystemInfo \<Rightarrow> (Collect \<times> string list) option" where
  "enumerated LogicalCpus info =
     Some (Collect_Cpu, map cpu_name (cpu_logical_cpus (info_cpu info)))"
| "enumerated NumaNodes info =
     Some (Collect_Cpu, map node_name (cpu_numa_nodes (info_cpu info)))"
| "enumerated NetworkInterfaces info =
     Some (Collect_Network, map (str_value \<circ> if_name) (net_interfaces (info_network info)))"
| "enumerated BlockDevices info =
     Some (Collect_Storage, map (str_value \<circ> st_name) (storage_devices (info_storage info)))"
| "enumerated PciDevices info =
     Some (Collect_Pci, map (pci_name \<circ> pd_address) (pci_devices (info_pci info)))"
| "enumerated _ info = None"

definition listed_exactly :: "RawStore \<Rightarrow> InventoryKind \<Rightarrow> string list \<Rightarrow> bool" where
  "listed_exactly raw kind names \<longleftrightarrow>
     (case enumeration raw kind of
        None \<Rightarrow> False
      | Some e \<Rightarrow> ie_status e = Success \<and> ie_failure e = None \<and> distinct (ie_entries e) \<and>
          mset (ie_entries e) = mset names)"

fun complete_by_evidence :: "InventoryKind \<Rightarrow> SystemInfo \<Rightarrow> RawStore \<Rightarrow> Collect \<Rightarrow> bool" where
  "complete_by_evidence kind info raw flags =
     (if kind = CpuPackages \<or> kind = CpuCores
      then has flags Collect_Cpu \<and> topology_known (info_cpu info) raw \<and>
        listed_exactly raw LogicalCpus (map cpu_name (cpu_logical_cpus (info_cpu info)))
      else (case enumerated kind info of
              None \<Rightarrow> False
            | Some (flag, names) \<Rightarrow> has flags flag \<and> listed_exactly raw kind names))"

lemma ir_inventory_report [simp]: "ir_inventory (report raw kind entries name origin) = kind"
  by (cases "enumeration raw kind") (simp_all add: report_def Let_def del: set_of_empty_iff)

lemma ir_inventory_observed [simp]: "ir_inventory (observed kind none origin) = kind"
  by (simp add: observed_def)

lemma observed_not_complete [simp]: "ir_completeness (observed kind none origin) \<noteq> Complete"
  by (simp add: observed_def)

text \<open>The comparison of two ordered sets and two sizes is the equality of duplicate-free bags.\<close>

lemma same_names_iff:
  "length (set_of xs) = length xs \<and> length (set_of ys) = length ys \<and> set_of xs = set_of ys \<longleftrightarrow>
   distinct xs \<and> mset xs = mset (ys :: string list)"
proof -
  have len: "length (set_of zs) = length zs \<longleftrightarrow> distinct zs" for zs :: "string list"
    unfolding length_set_of using card_distinct distinct_card by blast
  have eq: "set_of xs = set_of ys \<longleftrightarrow> set xs = set ys"
    by (simp add: set_of_canonical) (metis List.finite_set sorted_list_of_set.set_sorted_key_list_of_set)
  show ?thesis
    unfolding len eq
    using set_eq_iff_mset_eq_distinct [of xs ys] mset_eq_imp_distinct_iff [of xs ys] by blast
qed

lemma report_complete_iff:
  "ir_completeness (report raw kind entries name origin) = Complete \<longleftrightarrow>
   listed_exactly raw kind (map name entries)"
proof (cases "enumeration raw kind")
  case None
  then show ?thesis by (simp add: report_def listed_exactly_def)
next
  case (Some e)
  have "length (set_of (ie_entries e)) = length (ie_entries e) \<and>
      length (set_of (map name entries)) = length entries \<and>
      set_of (ie_entries e) = set_of (map name entries) \<longleftrightarrow>
    distinct (ie_entries e) \<and> mset (ie_entries e) = mset (map name entries)"
    using same_names_iff [of "ie_entries e" "map name entries"] by simp
  with Some show ?thesis
    by (simp add: report_def listed_exactly_def Let_def del: mset_map)
qed

lemma cpu_reports_kinds:
  "map ir_inventory (cpu_reports info raw) = [LogicalCpus, CpuPackages, CpuCores, NumaNodes, CpuCaches]"
  by (simp add: cpu_reports_def logical_report_def Let_def)

lemma cpu_reports_kind_set: "ir_inventory ` set (cpu_reports info raw) =
    {LogicalCpus, CpuPackages, CpuCores, NumaNodes, CpuCaches}"
  by (simp add: cpu_reports_kinds flip: set_map)

lemma inventory_kinds_distinct: "distinct (map ir_inventory (inventory_reports info raw flags))"
  unfolding inventory_reports_def
  by (cases "has flags Collect_Cpu"; cases "has flags Collect_Network"; cases "has flags Collect_Storage";
      cases "has flags Collect_Pci"; cases "has flags Collect_Accelerator")
    (simp_all add: cpu_reports_kinds cpu_reports_kind_set)

lemma unique_report:
  assumes "distinct (map ir_inventory rs)" "r \<in> set rs"
  shows "unique_entry (\<lambda>e. ir_inventory e = ir_inventory r) rs None = Some r"
proof -
  obtain before after where rs: "rs = before @ r # after" using assms(2) by (meson split_list)
  have "filter (\<lambda>e. ir_inventory e = ir_inventory r) before = []"
    "filter (\<lambda>e. ir_inventory e = ir_inventory r) after = []"
    using assms(1) unfolding rs by (auto simp: filter_empty_conv rev_image_eqI)
  then show ?thesis by (simp add: unique_entry_Some_iff rs)
qed

lemma completeness_of_member:
  "r \<in> set (inventory_reports info raw flags) \<Longrightarrow>
   inventory_completeness (meta\<lparr>meta_inventories := inventory_reports info raw flags\<rparr>) (ir_inventory r) =
     ir_completeness r"
  by (simp add: inventory_completeness_def unique_report [OF inventory_kinds_distinct])

lemma completeness_of_absent:
  "kind \<notin> ir_inventory ` set (inventory_reports info raw flags) \<Longrightarrow>
   inventory_completeness (meta\<lparr>meta_inventories := inventory_reports info raw flags\<rparr>) kind =
     Completeness_Unknown"
proof -
  assume "kind \<notin> ir_inventory ` set (inventory_reports info raw flags)"
  then have "filter (\<lambda>e. ir_inventory e = kind) (inventory_reports info raw flags) = []"
    by (auto simp: filter_empty_conv)
  then show ?thesis by (simp add: inventory_completeness_def unique_entry_filter)
qed

lemma kinds_of_reports:
  "kind \<in> ir_inventory ` set (inventory_reports info raw flags) \<longleftrightarrow>
   (kind \<in> {LogicalCpus, CpuPackages, CpuCores, NumaNodes, CpuCaches} \<and> has flags Collect_Cpu) \<or>
   (kind = NetworkInterfaces \<and> has flags Collect_Network) \<or>
   (kind = BlockDevices \<and> has flags Collect_Storage) \<or>
   (kind = PciDevices \<and> has flags Collect_Pci) \<or>
   (kind = AcceleratorDevices \<and> has flags Collect_Accelerator)"
  unfolding inventory_reports_def set_append image_Un cpu_reports_kind_set
  by (cases "has flags Collect_Cpu"; cases "has flags Collect_Network"; cases "has flags Collect_Storage";
      cases "has flags Collect_Pci"; cases "has flags Collect_Accelerator")
    (auto simp: cpu_reports_kind_set)

lemma topology_reports:
  "r \<in> set (cpu_reports info raw) \<Longrightarrow> ir_inventory r = CpuPackages \<or> ir_inventory r = CpuCores \<Longrightarrow>
   ir_completeness r = Complete \<longleftrightarrow>
     topology_known (info_cpu info) raw \<and>
     listed_exactly raw LogicalCpus (map cpu_name (cpu_logical_cpus (info_cpu info)))"
  by (cases "topology_known (info_cpu info) raw")
    (auto simp: cpu_reports_def logical_report_def Let_def report_complete_iff)

lemma enumerated_reports:
  "r \<in> set (inventory_reports info raw flags) \<Longrightarrow> enumerated (ir_inventory r) info = Some (flag, names) \<Longrightarrow>
   ir_completeness r = Complete \<longleftrightarrow> has flags flag \<and> listed_exactly raw (ir_inventory r) names"
  unfolding inventory_reports_def
  by (auto simp: cpu_reports_def logical_report_def Let_def report_complete_iff comp_def
      simp del: mset_map split: if_splits)

lemma unproved_reports:
  "r \<in> set (inventory_reports info raw flags) \<Longrightarrow>
   ir_inventory r = CpuCaches \<or> ir_inventory r = AcceleratorDevices \<Longrightarrow>
   ir_completeness r \<noteq> Complete"
  unfolding inventory_reports_def by (auto simp: cpu_reports_def logical_report_def Let_def split: if_splits)

text \<open>C10: a snapshot answers that an inventory is complete exactly when there is the evidence for it:
  the inventory was requested and the kernel's enumeration, unique and read without failure, names
  every entry of the model once and nothing else. Packages and cores have no enumeration: they
  are complete when the logical CPUs are and both topology files of every one of them were read.
  Caches and accelerators are never called complete.
\<close>

theorem inventory_complete_iff:
  "inventory_completeness (meta\<lparr>meta_inventories := inventory_reports info raw flags\<rparr>) kind = Complete \<longleftrightarrow>
     complete_by_evidence kind info raw flags"
proof (cases "kind \<in> ir_inventory ` set (inventory_reports info raw flags)")
  case True
  then obtain r where r: "r \<in> set (inventory_reports info raw flags)" "kind = ir_inventory r" by blast
  have present: "inventory_completeness (meta\<lparr>meta_inventories := inventory_reports info raw flags\<rparr>) kind =
      ir_completeness r"
    unfolding r(2) by (rule completeness_of_member [OF r(1)])
  show ?thesis
  proof (cases "kind = CpuPackages \<or> kind = CpuCores")
    case topology: True
    then have flag: "has flags Collect_Cpu" and "r \<in> set (cpu_reports info raw)"
      using r True by (auto simp: kinds_of_reports inventory_reports_def split: if_splits)
    with topology show ?thesis
      unfolding present using topology_reports [of r info raw] r(2) by auto
  next
    case other: False
    show ?thesis
    proof (cases "enumerated kind info")
      case None
      then have "kind = CpuCaches \<or> kind = AcceleratorDevices" using other by (cases kind) auto
      with None show ?thesis unfolding present using unproved_reports [OF r(1)] r(2) other by auto
    next
      case (Some p)
      obtain flag names where "p = (flag, names)" by (cases p)
      with Some show ?thesis unfolding present using enumerated_reports [OF r(1)] r(2) other by auto
    qed
  qed
next
  case False
  then have "\<not> complete_by_evidence kind info raw flags"
    by (cases kind) (simp_all add: kinds_of_reports)
  with False show ?thesis by (simp add: completeness_of_absent)
qed

text \<open>
  a PCI address printed for an inventory is read back exactly, so no two addresses share a name.
\<close>

theorem pci_address_roundtrip: "parse_pci_address (pci_name a) = Some a"
  by (rule pci_codec.parse_print)

end
