(* ===== verification/Pci_Parser.thy ===== *)
theory Pci_Parser
  imports Cpu_Details Inventory "HOL-Library.Monad_Syntax"
begin

text \<open>
  \<open>src/parser/pci.cpp\<close>: the PCI devices of sysfs, grouped by the address in the path, merged with
  the names of \<open>lspci -nn\<close>. An early return with \<open>std::nullopt\<close> is the option monad. The index
  from address to device is a \<open>std::map\<close> into the vector of devices.
\<close>

section \<open>Addresses and lspci lines\<close>

definition device_prefix :: string where
  "device_prefix = ''/sys/bus/pci/devices/''"

definition extract_pci_address_from_path :: "string \<Rightarrow> string" where
  "extract_pci_address_from_path path =
     (if \<not> prefix device_prefix path then []
      else
        let start = length device_prefix in
        case find_char_from (CHR ''/'') start path of
          None \<Rightarrow> drop start path
        | Some stop \<Rightarrow> take (stop - start) (drop start path))"

definition normalize_lspci_address :: "string \<Rightarrow> string" where
  "normalize_lspci_address addr_raw =
     (let second_colon = (case find_char (CHR '':'') addr_raw of
            None \<Rightarrow> None | Some first \<Rightarrow> find_char_from (CHR '':'') (first + 1) addr_raw)
      in if second_colon = None then ''0000:'' @ addr_raw else addr_raw)"

definition require :: "bool \<Rightarrow> unit option" where
  "require b = (if b then Some () else None)"

definition parse_lspci_line :: "string \<Rightarrow> (string \<times> string) option" where
  "parse_lspci_line line =
     (let trimmed = trim line in
      do {
        require (trimmed \<noteq> []);
        space_pos \<leftarrow> find_char (CHR '' '') trimmed;
        let addr_str = normalize_lspci_address (take space_pos trimmed);
        require (parse_pci_address addr_str \<noteq> None);
        let rest = drop (space_pos + 1) trimmed;
        sep \<leftarrow> find_str '']: '' rest;
        let tail = drop (sep + 3) rest;
        last_bracket \<leftarrow> rfind_char (CHR ''['') tail;
        close_bracket \<leftarrow> find_char_from (CHR '']'') last_bracket tail;
        let inner = take (close_bracket - last_bracket - 1) (drop (last_bracket + 1) tail);
        colon \<leftarrow> find_char (CHR '':'') inner;
        require (parse_hex (take colon inner) \<noteq> None \<and> parse_hex (drop (colon + 1) inner) \<noteq> None);
        let name = trim (take last_bracket tail);
        require (name \<noteq> []);
        Some (addr_str, name)
      })"

section \<open>One device\<close>

definition numa_failed :: "string \<Rightarrow> string" where
  "numa_failed trimmed = ''parse_pci: numa_node '' @
     bytes [229, 128, 188, 232, 167, 163, 230, 158, 144, 229, 164, 177, 232, 180, 165] @ '': '' @ trimmed"

definition upstream :: "PciAddress \<Rightarrow> string \<Rightarrow> PciAddress option \<Rightarrow> PciAddress option" where
  "upstream address payload old =
     (let components = split (trim payload) (CHR ''/'') in
      if length components \<ge> 2 \<and> parse_pci_address (last components) = Some address
      then parse_pci_address (components ! (length components - 2)) else old)"

definition small_uint :: "string \<Rightarrow> u32 option" where
  "small_uint payload =
     (case parse_uint (trim payload) of
        None \<Rightarrow> None | Some n \<Rightarrow> if n \<le> u32_max then Some (to_u32 n) else None)"

definition link_width :: "string \<Rightarrow> u32 option" where
  "link_width payload =
     (case parse_uint (trim payload) of
        None \<Rightarrow> None
      | Some n \<Rightarrow> if n > 0 \<and> n \<noteq> 0xff \<and> n \<le> u32_max then Some (to_u32 n) else None)"

text \<open>A field that is only assigned when the value is readable keeps its old value otherwise.\<close>

definition or_old :: "'a option \<Rightarrow> 'a option \<Rightarrow> 'a option" where
  "or_old new old = (case new of None \<Rightarrow> old | Some v \<Rightarrow> Some v)"

definition pci_numa :: "string \<Rightarrow> PciDevice \<times> string list \<Rightarrow> PciDevice \<times> string list" where
  "pci_numa payload = (\<lambda>(dev, warnings).
     let trimmed = trim payload in
     case small_uint trimmed of
       Some node \<Rightarrow> (dev\<lparr>pd_numa_node := Some (StrongId node)\<rparr>, warnings)
     | None \<Rightarrow>
         if trimmed = ''-1'' then (dev\<lparr>pd_numa_node := None\<rparr>, warnings)
         else (dev, warnings @ [numa_failed trimmed]))"

definition pci_field :: "string \<Rightarrow> string \<Rightarrow> PciDevice \<Rightarrow> PciDevice" where
  "pci_field filename payload dev =
     (if filename = ''vendor'' then dev\<lparr>pd_vendor := NamedString (trim payload)\<rparr>
      else if filename = ''device'' then dev\<lparr>pd_device_name := NamedString (trim payload)\<rparr>
      else if filename = ''class'' then dev\<lparr>pd_device_class := NamedString (trim payload)\<rparr>
      else if filename = ''physical_slot'' then dev\<lparr>pd_physical_slot := hardware_text payload\<rparr>
      else if filename = ''label'' then dev\<lparr>pd_firmware_label := hardware_text payload\<rparr>
      else if filename = ''sysfs_path''
      then dev\<lparr>pd_upstream_address := upstream (pd_address dev) payload (pd_upstream_address dev)\<rparr>
      else if filename = ''physfn''
      then dev\<lparr>pd_physical_function := parse_pci_address (extract_filename (trim payload))\<rparr>
      else if filename = ''driver''
      then dev\<lparr>pd_driver_name := NamedString (extract_filename (trim payload))\<rparr>
      else if filename = ''local_cpulist''
      then (case parse_cpu_id_list payload of
              None \<Rightarrow> dev | Some cpus \<Rightarrow> dev\<lparr>pd_local_cpus := cpus\<rparr>)
      else if filename = ''sriov_totalvfs''
      then dev\<lparr>pd_maximum_virtual_functions :=
        or_old (small_uint payload) (pd_maximum_virtual_functions dev)\<rparr>
      else if filename = ''sriov_numvfs''
      then dev\<lparr>pd_enabled_virtual_functions :=
        or_old (small_uint payload) (pd_enabled_virtual_functions dev)\<rparr>
      else if filename = ''current_link_speed''
      then dev\<lparr>pd_current_link_speed := hardware_text payload\<rparr>
      else if filename = ''max_link_speed'' then dev\<lparr>pd_max_link_speed := hardware_text payload\<rparr>
      else if filename = ''current_link_width''
      then dev\<lparr>pd_current_link_width := or_old (link_width payload) (pd_current_link_width dev)\<rparr>
      else if filename = ''max_link_width''
      then dev\<lparr>pd_max_link_width := or_old (link_width payload) (pd_max_link_width dev)\<rparr>
      else dev)"

definition pci_record :: "RawRecord \<Rightarrow> PciDevice \<times> string list \<Rightarrow> PciDevice \<times> string list" where
  "pci_record r = (\<lambda>(dev, warnings).
     let filename = extract_filename (rec_path_or_command r) in
     if filename = ''numa_node'' then pci_numa (rec_payload r) (dev, warnings)
     else (pci_field filename (rec_payload r) dev, warnings))"

section \<open>All devices\<close>

definition pci_groups :: "RawRecord list \<Rightarrow> (string, RawRecord list) std_map" where
  "pci_groups records =
     fold (\<lambda>r groups.
       if rec_status r \<noteq> Success then groups
       else map_update (extract_pci_address_from_path (rec_path_or_command r)) [] (\<lambda>rs. rs @ [r]) groups)
       records []"

record PciState =
  ps_devices :: "PciDevice list"
  ps_index :: "(string, nat) std_map"
  ps_warnings :: "string list"

definition bad_address :: "string \<Rightarrow> string" where
  "bad_address addr_str = ''parse_pci: '' @
     bytes [230, 151, 160, 230, 179, 149, 232, 167, 163, 230, 158, 144] @ '' PCI '' @
     bytes [229, 156, 176, 229, 157, 128] @ '': '' @ addr_str"

definition push_device :: "string \<Rightarrow> PciDevice \<Rightarrow> PciState \<Rightarrow> PciState" where
  "push_device addr_str dev s =
     s\<lparr>ps_index := map_put addr_str (length (ps_devices s)) (ps_index s),
       ps_devices := ps_devices s @ [dev]\<rparr>"

definition group_device :: "string \<times> RawRecord list \<Rightarrow> PciState \<Rightarrow> PciState" where
  "group_device = (\<lambda>(addr_str, records) s.
     case parse_pci_address addr_str of
       None \<Rightarrow> s\<lparr>ps_warnings := ps_warnings s @ [bad_address addr_str]\<rparr>
     | Some addr \<Rightarrow>
         let (dev, warnings) = fold pci_record records
               (PciDevice_default\<lparr>pd_address := addr\<rparr>, ps_warnings s)
         in push_device addr_str dev (s\<lparr>ps_warnings := warnings\<rparr>))"

definition lspci_only :: "string \<Rightarrow> string" where
  "lspci_only addr_str = ''parse_pci: lspci '' @
     bytes [231, 139, 172, 230, 156, 137, 232, 174, 190, 229, 164, 135] @ '' '' @ addr_str @
     bytes [239, 188, 140] @ ''sysfs '' @
     bytes [230, 149, 176, 230, 141, 174, 231, 188, 186, 229, 164, 177]"

definition lspci_line :: "string \<Rightarrow> PciState \<Rightarrow> PciState" where
  "lspci_line line s =
     (case parse_lspci_line line of
        None \<Rightarrow> s
      | Some (addr_str, name) \<Rightarrow>
          (case map_of (ps_index s) addr_str of
             Some i \<Rightarrow> s\<lparr>ps_devices := (ps_devices s)
               [i := (ps_devices s ! i)\<lparr>pd_device_name := NamedString name\<rparr>]\<rparr>
           | None \<Rightarrow>
               (case parse_pci_address addr_str of
                  None \<Rightarrow> s
                | Some addr \<Rightarrow>
                    let s = push_device addr_str
                      (PciDevice_default\<lparr>pd_address := addr, pd_device_name := NamedString name\<rparr>) s
                    in s\<lparr>ps_warnings := ps_warnings s @ [lspci_only addr_str]\<rparr>)))"

definition lspci_record :: "RawRecord \<Rightarrow> PciState \<Rightarrow> PciState" where
  "lspci_record r s =
     (if rec_status r \<noteq> Success then s else fold lspci_line (split (rec_payload r) (CHR 0x0A)) s)"

definition missing_pci :: string where
  "missing_pci = ''parse_pci: '' @ bytes [231, 188, 186, 229, 176, 145] @ '' SysfsPci '' @
     bytes [230, 149, 176, 230, 141, 174]"

definition parse_pci :: "RawStore \<Rightarrow> string list \<Rightarrow> Pci option \<times> string list" where
  "parse_pci raw warnings =
     (let pci_records = get_all raw SysfsPci in
      if pci_records = [] \<and> enumeration raw PciDevices = None then (None, warnings @ [missing_pci])
      else
        let s = fold group_device (pci_groups pci_records)
              \<lparr>ps_devices = [], ps_index = [], ps_warnings = warnings\<rparr>;
            s = fold lspci_record (get_all raw Lspci) s
        in (Some \<lparr>pci_devices = ps_devices s\<rparr>, ps_warnings s))"

section \<open>Warnings are only appended\<close>

definition push_pair :: "string list \<Rightarrow> PciDevice \<times> string list \<Rightarrow> PciDevice \<times> string list" where
  "push_pair ws = (\<lambda>(dev, w). (dev, ws @ w))"

definition push_state :: "string list \<Rightarrow> PciState \<Rightarrow> PciState" where
  "push_state ws s = s\<lparr>ps_warnings := ws @ ps_warnings s\<rparr>"

lemma push_state_sel [simp]:
  "ps_devices (push_state ws s) = ps_devices s" "ps_index (push_state ws s) = ps_index s"
  "ps_warnings (push_state ws s) = ws @ ps_warnings s"
  by (simp_all add: push_state_def)

lemma pci_record_push: "pci_record r (push_pair ws s) = push_pair ws (pci_record r s)"
  by (cases s) (simp add: pci_record_def pci_numa_def push_pair_def Let_def split: option.split)

lemma group_device_push: "group_device g (push_state ws s) = push_state ws (group_device g s)"
proof -
  obtain addr_str records where g: "g = (addr_str, records)" by (cases g)
  have records: "fold pci_record records (dev, ws @ w) = push_pair ws (fold pci_record records (dev, w))"
    for dev w
    using fold_push [of pci_record "push_pair ws" records "(dev, w)", OF pci_record_push]
    by (simp add: push_pair_def)
  show ?thesis
  proof (cases "parse_pci_address addr_str")
    case None
    then show ?thesis by (simp add: g group_device_def push_state_def)
  next
    case (Some addr)
    obtain dev w where run: "fold pci_record records (PciDevice_default\<lparr>pd_address := addr\<rparr>, ps_warnings s)
        = (dev, w)"
      by (cases "fold pci_record records (PciDevice_default\<lparr>pd_address := addr\<rparr>, ps_warnings s)")
    show ?thesis
      by (simp add: g group_device_def Some records run push_pair_def push_device_def Let_def
        push_state_def)
  qed
qed

lemma lspci_line_push: "lspci_line line (push_state ws s) = push_state ws (lspci_line line s)"
  by (simp add: lspci_line_def push_device_def Let_def push_state_def split: option.split prod.split)

lemma lspci_record_push: "lspci_record r (push_state ws s) = push_state ws (lspci_record r s)"
  by (simp add: lspci_record_def fold_push [where f = lspci_line and h = "push_state ws", OF lspci_line_push])

lemma parse_pci_frame: "parse_pci raw warnings = (fst (parse_pci raw []), warnings @ snd (parse_pci raw []))"
proof -
  let ?start = "\<lparr>ps_devices = [], ps_index = [], ps_warnings = []\<rparr>"
  let ?run = "\<lambda>s. fold lspci_record (get_all raw Lspci) (fold group_device (pci_groups (get_all raw SysfsPci)) s)"
  have "\<lparr>ps_devices = [], ps_index = [], ps_warnings = warnings\<rparr> = push_state warnings ?start"
    by (simp add: push_state_def)
  then have "?run \<lparr>ps_devices = [], ps_index = [], ps_warnings = warnings\<rparr> = push_state warnings (?run ?start)"
    by (simp only: fold_push [where f = group_device and h = "push_state warnings", OF group_device_push]
      fold_push [where f = lspci_record and h = "push_state warnings", OF lspci_record_push])
  then show ?thesis by (simp add: parse_pci_def Let_def)
qed

definition pci_warning :: "string \<Rightarrow> bool" where
  "pci_warning w \<longleftrightarrow> w = missing_pci \<or> (\<exists>a. w = bad_address a) \<or> (\<exists>t. w = numa_failed t) \<or>
     (\<exists>a. w = lspci_only a)"

lemma pci_warning_intros [simp]:
  "pci_warning missing_pci" "pci_warning (bad_address a)" "pci_warning (numa_failed t)"
  "pci_warning (lspci_only a)"
  by (auto simp: pci_warning_def)

lemma pci_records_warn:
  "list_all pci_warning w \<Longrightarrow> list_all pci_warning (snd (fold pci_record rs (dev, w)))"
  by (rule fold_invariant_set [where P = "\<lambda>s. list_all pci_warning (snd s)"])
    (auto simp: pci_record_def pci_numa_def Let_def split: option.splits prod.splits)

lemma group_device_warn: "list_all pci_warning (ps_warnings s) \<Longrightarrow> list_all pci_warning (ps_warnings (group_device g s))"
  using pci_records_warn [of "ps_warnings s" "snd g"]
  by (cases g) (auto simp: group_device_def push_device_def Let_def case_prod_unfold split: option.split)

lemma lspci_line_warn: "list_all pci_warning (ps_warnings s) \<Longrightarrow> list_all pci_warning (ps_warnings (lspci_line line s))"
  by (auto simp: lspci_line_def push_device_def Let_def split: option.split prod.split)

lemma parse_pci_own_warnings: "list_all pci_warning (snd (parse_pci raw []))"
proof -
  let ?P = "\<lambda>s. list_all pci_warning (ps_warnings s)"
  have "?P (lspci_record r s)" if "?P s" for r s
    using that fold_invariant_set [where P = ?P and f = lspci_line] lspci_line_warn
    by (simp add: lspci_record_def)
  then show ?thesis
    using fold_invariant_set [where P = ?P and f = lspci_record]
      fold_invariant_set [where P = ?P and f = group_device] group_device_warn
    by (simp add: parse_pci_def Let_def)
qed

interpretation pci_parser: domain_parser parse_pci "{SysfsPci, Lspci}" "{PciDevices}" pci_warning
proof (unfold_locales, goal_cases)
  case 1
  show ?case by (rule parse_pci_frame)
next
  case (2 raw raw')
  then have "get_all raw SysfsPci = get_all raw' SysfsPci" "get_all raw Lspci = get_all raw' Lspci"
    "enumeration raw PciDevices = enumeration raw' PciDevices"
    by simp_all
  then show ?case by (simp only: parse_pci_def)
next
  case 3
  show ?case by (rule parse_pci_own_warnings)
qed

section \<open>One device for every address\<close>

lemma pci_field_address [simp]: "pd_address (pci_field f payload dev) = pd_address dev"
  by (simp add: pci_field_def split: option.split)

lemma pci_record_address: "pd_address (fst (pci_record r s)) = pd_address (fst s)"
  by (cases s) (simp add: pci_record_def pci_numa_def Let_def split: option.split)

lemma pci_records_address: "pd_address (fst (fold pci_record rs s)) = pd_address (fst s)"
  by (induction rs arbitrary: s) (simp_all add: pci_record_address)

text \<open>The address texts seen so far, and the device each readable one has.\<close>

definition pci_inv :: "string set \<Rightarrow> PciState \<Rightarrow> bool" where
  "pci_inv seen s \<longleftrightarrow>
     (\<exists>ss. distinct ss \<and> set ss = {t \<in> seen. parse_pci_address t \<noteq> None} \<and>
       map (Some \<circ> pd_address) (ps_devices s) = map parse_pci_address ss \<and> map_invar (ps_index s) \<and>
       (\<forall>t i. map_of (ps_index s) t = Some i \<longleftrightarrow> i < length ss \<and> ss ! i = t))"

lemma push_device_inv:
  assumes "pci_inv seen s" "t \<notin> seen" "parse_pci_address t = Some (pd_address dev)"
  shows "pci_inv (insert t seen) (push_device t dev s)"
proof -
  obtain ss where ss: "distinct ss" "set ss = {t \<in> seen. parse_pci_address t \<noteq> None}"
    "map (Some \<circ> pd_address) (ps_devices s) = map parse_pci_address ss" "map_invar (ps_index s)"
    "\<forall>t i. map_of (ps_index s) t = Some i \<longleftrightarrow> i < length ss \<and> ss ! i = t"
    using assms(1) by (auto simp: pci_inv_def)
  have len: "length (ps_devices s) = length ss" using ss(3) by (metis length_map)
  have "t \<notin> set ss" using assms(2) ss(2) by simp
  then have "\<forall>u i. map_of (map_put t (length ss) (ps_index s)) u = Some i \<longleftrightarrow>
      i < length (ss @ [t]) \<and> (ss @ [t]) ! i = u"
    using ss(5) by (auto simp: map_of_put [OF ss(4)] nth_append less_Suc_eq)
  then show ?thesis
    unfolding pci_inv_def push_device_def using ss assms(2,3) \<open>t \<notin> set ss\<close>
    by (intro exI [of _ "ss @ [t]"]) (auto simp: len)
qed

lemma pci_inv_insert_bad: "pci_inv seen s \<Longrightarrow> parse_pci_address t = None \<Longrightarrow> pci_inv (insert t seen) s"
proof -
  assume s: "pci_inv seen s" and t: "parse_pci_address t = None"
  have "{u \<in> insert t seen. parse_pci_address u \<noteq> None} = {u \<in> seen. parse_pci_address u \<noteq> None}"
    using t by auto
  then show ?thesis using s unfolding pci_inv_def by simp
qed

lemma pci_inv_warnings [simp]: "pci_inv seen (s\<lparr>ps_warnings := w\<rparr>) \<longleftrightarrow> pci_inv seen s"
  by (simp add: pci_inv_def)

lemma group_device_inv:
  assumes "pci_inv seen s" "fst g \<notin> seen"
  shows "pci_inv (insert (fst g) seen) (group_device g s)"
proof (cases "parse_pci_address (fst g)")
  case None
  then show ?thesis using pci_inv_insert_bad [OF assms(1) None]
    by (simp add: group_device_def case_prod_unfold)
next
  case (Some addr)
  let ?run = "fold pci_record (snd g) (PciDevice_default\<lparr>pd_address := addr\<rparr>, ps_warnings s)"
  have "pci_inv (insert (fst g) seen) (push_device (fst g) (fst ?run) (s\<lparr>ps_warnings := snd ?run\<rparr>))"
    using assms by (intro push_device_inv) (simp_all add: pci_records_address Some)
  then show ?thesis by (simp add: group_device_def case_prod_unfold Some Let_def)
qed

lemma group_devices_inv:
  "pci_inv seen s \<Longrightarrow> distinct (map fst gs) \<Longrightarrow> fst ` set gs \<inter> seen = {} \<Longrightarrow>
   pci_inv (fst ` set gs \<union> seen) (fold group_device gs s)"
proof (induction gs arbitrary: seen s)
  case Nil
  then show ?case by simp
next
  case (Cons g gs)
  then have "pci_inv (insert (fst g) seen) (group_device g s)" by (intro group_device_inv) auto
  from Cons.IH [OF this] Cons.prems show ?case by auto
qed

lemma push_existing_inv:
  "pci_inv seen s \<Longrightarrow> map_of (ps_index s) t = Some i \<Longrightarrow>
   pci_inv seen (s\<lparr>ps_devices := (ps_devices s)[i := (ps_devices s ! i)\<lparr>pd_device_name := n\<rparr>]\<rparr>)"
proof -
  assume s: "pci_inv seen s" and i: "map_of (ps_index s) t = Some i"
  have "map (Some \<circ> pd_address) ((ps_devices s)[i := (ps_devices s ! i)\<lparr>pd_device_name := n\<rparr>]) =
      map (Some \<circ> pd_address) (ps_devices s)"
  proof (cases "i < length (ps_devices s)")
    case True
    then show ?thesis by (auto simp: map_update intro!: nth_equalityI) (auto simp: nth_list_update)
  next
    case False
    then show ?thesis by (simp add: list_update_beyond)
  qed
  then show ?thesis using s unfolding pci_inv_def by simp
qed

definition line_address :: "string \<Rightarrow> string set" where
  "line_address line = (case parse_lspci_line line of None \<Rightarrow> {} | Some (addr_str, _) \<Rightarrow> {addr_str})"

lemma lspci_line_inv: "pci_inv seen s \<Longrightarrow> pci_inv (line_address line \<union> seen) (lspci_line line s)"
proof -
  assume s: "pci_inv seen s"
  show ?thesis
  proof (cases "parse_lspci_line line")
    case None
    then show ?thesis using s by (simp add: lspci_line_def line_address_def)
  next
    case (Some p)
    then obtain t n where p: "parse_lspci_line line = Some (t, n)" by (cases p) simp
    then have a: "line_address line = {t}" by (simp add: line_address_def)
    show ?thesis
    proof (cases "map_of (ps_index s) t")
      case (Some i)
      then have "t \<in> seen" using s by (force simp: pci_inv_def)
      then show ?thesis using push_existing_inv [OF s Some] by (simp add: lspci_line_def p Some a insert_absorb)
    next
      case None
      show ?thesis
      proof (cases "parse_pci_address t")
        case bad: None
        then show ?thesis using pci_inv_insert_bad [OF s bad] by (simp add: lspci_line_def p None a)
      next
        case (Some addr)
        have "t \<notin> seen"
        proof
          assume "t \<in> seen"
          obtain ss where ss: "set ss = {t \<in> seen. parse_pci_address t \<noteq> None}"
            "\<forall>t i. map_of (ps_index s) t = Some i \<longleftrightarrow> i < length ss \<and> ss ! i = t"
            using s unfolding pci_inv_def by blast
          have "t \<in> set ss" using \<open>t \<in> seen\<close> Some by (simp add: ss(1))
          then obtain i where "i < length ss" "ss ! i = t" by (auto simp: in_set_conv_nth)
          with ss(2) have "map_of (ps_index s) t = Some i" by blast
          with None show False by simp
        qed
        then show ?thesis using push_device_inv [OF s, of t] Some
          by (simp add: lspci_line_def p None a Let_def)
      qed
    qed
  qed
qed

lemma lspci_lines_inv: "pci_inv seen s \<Longrightarrow> pci_inv ((\<Union>l \<in> set ls. line_address l) \<union> seen) (fold lspci_line ls s)"
proof (induction ls arbitrary: seen s)
  case Nil
  then show ?case by simp
next
  case (Cons l ls)
  from Cons.IH [OF lspci_line_inv [OF Cons.prems, of l]] show ?case by (simp add: Un_ac)
qed

text \<open>Every address text that sysfs or lspci gives.\<close>

definition record_addresses :: "RawRecord \<Rightarrow> string set" where
  "record_addresses r = (if rec_status r \<noteq> Success then {}
     else \<Union>l \<in> set (split (rec_payload r) (CHR 0x0A)). line_address l)"

definition address_texts :: "RawStore \<Rightarrow> string set" where
  "address_texts raw =
     {extract_pci_address_from_path (rec_path_or_command r) | r.
        r \<in> set (get_all raw SysfsPci) \<and> rec_status r = Success} \<union>
     (\<Union>r \<in> set (get_all raw Lspci). record_addresses r)"

lemma lspci_records_inv:
  "pci_inv seen s \<Longrightarrow> pci_inv ((\<Union>r \<in> set rs. record_addresses r) \<union> seen) (fold lspci_record rs s)"
proof (induction rs arbitrary: seen s)
  case Nil
  then show ?case by simp
next
  case (Cons r rs)
  have "pci_inv (record_addresses r \<union> seen) (lspci_record r s)"
    using Cons.prems lspci_lines_inv [of seen s "split (rec_payload r) (CHR 0x0A)"]
    by (simp add: lspci_record_def record_addresses_def)
  from Cons.IH [OF this] show ?case by (simp add: Un_ac)
qed

lemma pci_groups_keys:
  "map_invar (pci_groups rs) \<and> fst ` set (pci_groups rs) =
     {extract_pci_address_from_path (rec_path_or_command r) | r. r \<in> set rs \<and> rec_status r = Success}"
proof -
  let ?f = "\<lambda>r groups. if rec_status r \<noteq> Success then groups
       else map_update (extract_pci_address_from_path (rec_path_or_command r)) [] (\<lambda>rs. rs @ [r]) groups"
  have "map_invar gs \<Longrightarrow> map_invar (fold ?f rs gs) \<and> fst ` set (fold ?f rs gs) = fst ` set gs \<union>
     {extract_pci_address_from_path (rec_path_or_command r) | r. r \<in> set rs \<and> rec_status r = Success}" for gs
  proof (induction rs arbitrary: gs)
    case Nil
    then show ?case by simp
  next
    case (Cons r rs)
    then have "map_invar (?f r gs)" by auto
    from Cons.IH [OF this] show ?case by auto
  qed
  from this [of "[]"] show ?thesis by (simp add: pci_groups_def)
qed

lemma parse_pci_inv:
  assumes "fst (parse_pci raw warnings) = Some pci"
  obtains ss where "distinct ss" "set ss = {t \<in> address_texts raw. parse_pci_address t \<noteq> None}"
    "map (Some \<circ> pd_address) (pci_devices pci) = map parse_pci_address ss"
proof -
  let ?start = "\<lparr>ps_devices = [], ps_index = [], ps_warnings = warnings\<rparr>"
  let ?gs = "pci_groups (get_all raw SysfsPci)"
  have "pci_inv {} ?start" by (simp add: pci_inv_def)
  then have "pci_inv (fst ` set ?gs \<union> {}) (fold group_device ?gs ?start)"
    using map_invar_distinct [OF conjunct1 [OF pci_groups_keys], of "get_all raw SysfsPci"]
    by (intro group_devices_inv) simp_all
  from lspci_records_inv [OF this, of "get_all raw Lspci"]
  have "pci_inv (address_texts raw) (fold lspci_record (get_all raw Lspci) (fold group_device ?gs ?start))"
    using pci_groups_keys [of "get_all raw SysfsPci"] by (simp add: address_texts_def Un_commute)
  moreover have "pci_devices pci =
      ps_devices (fold lspci_record (get_all raw Lspci) (fold group_device ?gs ?start))"
    using assms by (auto simp: parse_pci_def Let_def split: if_splits)
  ultimately show ?thesis using that unfolding pci_inv_def by auto
qed

section \<open>Properties\<close>

lemma parse_pci_addresses:
  assumes "fst (parse_pci raw warnings) = Some pci"
  shows "pd_address ` set (pci_devices pci) = {a. \<exists>t \<in> address_texts raw. parse_pci_address t = Some a}"
proof -
  obtain ss where ss: "set ss = {t \<in> address_texts raw. parse_pci_address t \<noteq> None}"
    "map (Some \<circ> pd_address) (pci_devices pci) = map parse_pci_address ss"
    using parse_pci_inv [OF assms] .
  have "Some ` pd_address ` set (pci_devices pci) = parse_pci_address ` set ss"
    using arg_cong [OF ss(2), of set] by (simp add: image_comp)
  then have "pd_address ` set (pci_devices pci) = {a. Some a \<in> parse_pci_address ` set ss}"
    by (metis (no_types, lifting) Collect_mem_eq Collect_cong image_eqI imageE option.inject)
  also have "\<dots> = {a. \<exists>t \<in> address_texts raw. parse_pci_address t = Some a}"
    unfolding ss(1) by force
  finally show ?thesis .
qed

text \<open>C29: no PCI device is lost and none is invented: the devices of the model have exactly the addresses
  that a readable sysfs path or a well-formed line of lspci gives; there is no model exactly when
  there is neither a sysfs record nor an enumeration of the bus.
\<close>

theorem parse_pci_complete:
  "case fst (parse_pci raw warnings) of
     None \<Rightarrow> \<not> has_source raw SysfsPci \<and> enumeration raw PciDevices = None
   | Some pci \<Rightarrow> pd_address ` set (pci_devices pci) =
       {a. \<exists>t \<in> address_texts raw. parse_pci_address t = Some a}"
proof (cases "fst (parse_pci raw warnings)")
  case None
  then show ?thesis by (auto simp: parse_pci_def Let_def get_all_empty_iff split: if_splits)
next
  case (Some pci)
  then show ?thesis by (simp only: option.case parse_pci_addresses)
qed

text \<open>as long as sysfs and lspci spell an address as the kernel prints it, no address is in the model
  twice: the lspci line of a device updates it and does not add another.
\<close>

theorem parse_pci_unique:
  assumes "\<And>t a. t \<in> address_texts raw \<Longrightarrow> parse_pci_address t = Some a \<Longrightarrow> t = pci_name a"
    and "fst (parse_pci raw warnings) = Some pci"
  shows "distinct (map pd_address (pci_devices pci))"
proof -
  obtain ss where ss: "distinct ss" "set ss = {t \<in> address_texts raw. parse_pci_address t \<noteq> None}"
    "map (Some \<circ> pd_address) (pci_devices pci) = map parse_pci_address ss"
    using parse_pci_inv [OF assms(2)] .
  have "map pci_name (map pd_address (pci_devices pci)) = ss"
  proof (rule nth_equalityI)
    show len: "length (map pci_name (map pd_address (pci_devices pci))) = length ss"
      using ss(3) by (metis length_map)
    fix i
    assume i: "i < length (map pci_name (map pd_address (pci_devices pci)))"
    then have "parse_pci_address (ss ! i) = Some (pd_address (pci_devices pci ! i))"
      using arg_cong [OF ss(3), of "\<lambda>xs. xs ! i"] len by simp
    moreover have "ss ! i \<in> address_texts raw" using i len ss(2) by (metis (no_types, lifting) mem_Collect_eq nth_mem)
    ultimately show "map pci_name (map pd_address (pci_devices pci)) ! i = ss ! i"
      using assms(1) i by simp
  qed
  then show ?thesis using ss(1) pci_codec.distinct_print by blast
qed

definition one_device :: RawStore where
  "one_device = RawStore_default\<lparr>raw_records :=
     [\<lparr>rec_source = SysfsPci, rec_path_or_command = ''/sys/bus/pci/devices/0000:41:00.0/vendor'',
       rec_payload = ''0x10de'', rec_status = Success, rec_collected_at = 0, rec_failure = None,
       rec_skip = None\<rparr>]\<rparr>"

theorem parse_pci_unique_witness:
  "\<exists>pci. fst (parse_pci one_device []) = Some pci \<and> pci_devices pci \<noteq> [] \<and>
     distinct (map pd_address (pci_devices pci))"
proof -
  have path: "extract_pci_address_from_path ''/sys/bus/pci/devices/0000:41:00.0/vendor'' = ''0000:41:00.0''"
    by code_simp
  have texts: "address_texts one_device = {''0000:41:00.0''}"
    by (auto simp: address_texts_def one_device_def get_all_def RawStore_default_def path)
  let ?a = "\<lparr>pci_domain = 0, pci_bus = 65, pci_device = 0, pci_function = 0\<rparr>"
  have "pci_name ?a = ''0000:41:00.0''" by code_simp
  then have name: "parse_pci_address ''0000:41:00.0'' = Some ?a" "pci_name ?a = ''0000:41:00.0''"
    using parse_pci_name [of ?a] by simp_all
  have "fst (parse_pci one_device []) \<noteq> None"
    by (simp add: parse_pci_def one_device_def get_all_def RawStore_default_def Let_def)
  then obtain pci where pci: "fst (parse_pci one_device []) = Some pci" by blast
  have "pd_address ` set (pci_devices pci) = {?a}"
    unfolding parse_pci_addresses [OF pci] texts using name(1) by auto
  then have "pci_devices pci \<noteq> []" by auto
  moreover have "distinct (map pd_address (pci_devices pci))"
    by (rule parse_pci_unique [OF _ pci]) (auto simp: texts name)
  ultimately show ?thesis using pci by blast
qed

section \<open>lspci lines are read back\<close>

lemma find_str_head: "p \<noteq> [] \<Longrightarrow> hd p \<notin> set xs \<Longrightarrow> find_str p (xs @ p @ ys) = Some (length xs)"
proof (induction xs)
  case Nil
  then show ?case by (cases p) simp_all
next
  case (Cons x xs)
  then have "\<not> prefix p (x # xs @ p @ ys)" by (cases p) auto
  with Cons show ?case by simp
qed

definition lspci_text :: "PciAddress \<Rightarrow> string \<Rightarrow> string \<Rightarrow> string \<Rightarrow> u16 \<Rightarrow> u16 \<Rightarrow> string \<Rightarrow> string" where
  "lspci_text a class_name code name vendor device revision =
     pci_name a @ '' '' @ class_name @ '' ['' @ code @ '']: '' @ name @ '' ['' @
     print_hex 4 (unat vendor) @ '':'' @ print_hex 4 (unat device) @ '']'' @ revision"

lemma hex_chars [simp]:
  "CHR ''['' \<notin> set (print_hex w n)" "CHR '']'' \<notin> set (print_hex w n)" "CHR '' '' \<notin> set (print_hex w n)"
proof -
  have "\<not> digit_in 16 (CHR ''['')" "\<not> digit_in 16 (CHR '']'')" "\<not> digit_in 16 (CHR '' '')" by code_simp+
  then show "CHR ''['' \<notin> set (print_hex w n)" "CHR '']'' \<notin> set (print_hex w n)"
    "CHR '' '' \<notin> set (print_hex w n)"
    using print_hex_plain by blast+
qed

lemma pci_name_chars: "c \<in> set (pci_name a) \<Longrightarrow> \<not> is_space c"
proof -
  have "c \<in> set (print_hex w n) \<Longrightarrow> \<not> is_space c" for w n
    by (rule digit_in_not_space) (rule print_hex_plain)
  then show "c \<in> set (pci_name a) \<Longrightarrow> \<not> is_space c" by (auto simp: pci_name_def)
qed

lemma normalize_pci_name: "normalize_lspci_address (pci_name a) = pci_name a"
proof -
  have "find_char (CHR '':'') (pci_name a) = Some (length (print_hex 4 (unat (pci_domain a))))"
    by (simp add: pci_name_def find_char_append)
  moreover have "find_char (CHR '':'') (drop (length (print_hex 4 (unat (pci_domain a))) + 1) (pci_name a)) \<noteq> None"
    by (simp add: pci_name_def find_char_None_iff)
  ultimately show ?thesis by (simp add: normalize_lspci_address_def find_char_from_def)
qed

text \<open>a line of \<open>lspci -nn\<close> gives its address and its device name back, with brackets in the name
  kept, whatever class and revision stand around it.
\<close>

theorem lspci_line_roundtrip:
  assumes "CHR '']'' \<notin> set class_name" "CHR '']'' \<notin> set code" "name \<noteq> []" "trim name = name"
    and "CHR ''['' \<notin> set revision" "revision = [] \<or> \<not> is_space (last revision)"
  shows "parse_lspci_line (lspci_text a class_name code name vendor device revision) =
    Some (pci_name a, name)"
proof -
  define vnd where "vnd = print_hex 4 (unat vendor)"
  define dvc where "dvc = print_hex 4 (unat device)"
  define tail where "tail = name @ '' ['' @ vnd @ '':'' @ dvc @ '']'' @ revision"
  define rest where "rest = class_name @ '' ['' @ code @ '']: '' @ tail"
  define line where "line = pci_name a @ CHR '' '' # rest"
  have line_text: "lspci_text a class_name code name vendor device revision = line"
    by (simp add: lspci_text_def line_def rest_def tail_def vnd_def dvc_def)
  have ne: "pci_name a \<noteq> []" by (simp add: pci_name_def)
  then have first: "\<not> is_space (hd line)" using pci_name_chars [of "hd (pci_name a)" a] by (simp add: line_def)
  have "\<not> is_space (CHR '']'')" by code_simp
  then have "\<not> is_space (last line)" using assms(6) by (auto simp: line_def rest_def tail_def)
  with first have trimmed: "trim line = line" by (intro trim_id) simp
  have "is_space (CHR '' '')" by code_simp
  then have no_blank: "CHR '' '' \<notin> set (pci_name a)" using pci_name_chars by blast
  have space: "line \<noteq> []" "find_char (CHR '' '') line = Some (length (pci_name a))"
    "take (length (pci_name a)) line = pci_name a" "drop (length (pci_name a) + 1) line = rest"
    using no_blank by (simp_all add: line_def find_char_append)
  have sep: "find_str '']: '' rest = Some (length (class_name @ '' ['' @ code))"
    "drop (length (class_name @ '' ['' @ code) + 3) rest = tail"
  proof -
    have cut: "drop (length xs + length p) (xs @ p @ ys) = ys" for xs p ys :: string by simp
    have three: "length '']: '' = 3" by simp
    have rest: "rest = (class_name @ '' ['' @ code) @ '']: '' @ tail" by (simp add: rest_def)
    show "find_str '']: '' rest = Some (length (class_name @ '' ['' @ code))"
      unfolding rest by (rule find_str_head) (use assms(1,2) in simp_all)
    show "drop (length (class_name @ '' ['' @ code) + 3) rest = tail"
      unfolding rest by (rule cut [of _ "'']: ''", unfolded three])
  qed
  let ?open = "length (name @ '' '')" and ?inner = "vnd @ CHR '':'' # dvc"
  have brackets: "rfind_char (CHR ''['') tail = Some ?open"
    "find_char_from (CHR '']'') ?open tail = Some (?open + (length ?inner + 1))"
    "take (?open + (length ?inner + 1) - ?open - 1) (drop (?open + 1) tail) = ?inner"
    "take ?open tail = name @ '' ''"
    using rfind_char_append [of "CHR ''[''" "?inner @ '']'' @ revision" "name @ '' ''"] assms(5)
      find_char_append [of "CHR '']''" "CHR ''['' # ?inner" revision]
    by (simp_all add: tail_def find_char_from_def vnd_def dvc_def)
  have colon: "find_char (CHR '':'') ?inner = Some (length vnd)" "take (length vnd) ?inner = vnd"
    "drop (length vnd + 1) ?inner = dvc"
    by (simp_all add: find_char_append vnd_def)
  have hex: "parse_hex vnd \<noteq> None" "parse_hex dvc \<noteq> None"
    by (simp_all add: parse_print_hex_word vnd_def dvc_def)
  have name_back: "trim (name @ '' '') = name"
  proof -
    have "is_space (CHR '' '')" by code_simp
    then have "dropWhile is_space (rev (dropWhile is_space (name @ '' ''))) =
        dropWhile is_space (rev (dropWhile is_space name))"
      using assms(3,4) trim_hd [of name] by (cases name) simp_all
    then show ?thesis using assms(4) by (simp add: trim_def)
  qed
  have address: "parse_pci_address (pci_name a) \<noteq> None" by (simp add: parse_pci_name)
  show ?thesis
    unfolding line_text parse_lspci_line_def trimmed Let_def require_def
    by (simp only: space sep brackets colon hex name_back normalize_pci_name address assms(3)
      if_True simp_thms Option.bind.simps)
qed

theorem lspci_line_roundtrip_witness:
  "parse_lspci_line (lspci_text \<lparr>pci_domain = 0, pci_bus = 65, pci_device = 0, pci_function = 0\<rparr>
     ''VGA compatible controller'' ''0300'' ''GP102 [GeForce GTX 1080 Ti]'' 0x10de 0x1b06 '' (rev a1)'') =
   Some (pci_name \<lparr>pci_domain = 0, pci_bus = 65, pci_device = 0, pci_function = 0\<rparr>,
     ''GP102 [GeForce GTX 1080 Ti]'')"
proof (rule lspci_line_roundtrip)
  show "trim ''GP102 [GeForce GTX 1080 Ti]'' = ''GP102 [GeForce GTX 1080 Ti]''" by code_simp
  show "'' (rev a1)'' = [] \<or> \<not> is_space (last '' (rev a1)'')" by code_simp
qed simp_all

end
