(* ===== verification/Rdma.thy ===== *)
theory Rdma
  imports Raw_Store Parse_Utils
begin

text \<open>
  \<open>src/parser/rdma.cpp\<close>: the RDMA devices below \<open>/sys/class/infiniband\<close> with their ports. A
  \<open>substr\<close> up to a \<open>find\<close> that fails takes the whole string, which is \<open>before_char\<close>; a scoped
  enumeration read from its number is the list of its constructors indexed by it.
\<close>

section \<open>Fields\<close>

definition rdma_root :: string where
  "rdma_root = ''/sys/class/infiniband''"

definition rdma_prefix :: string where
  "rdma_prefix = ''/sys/class/infiniband/''"

definition before_char :: "char \<Rightarrow> string \<Rightarrow> string" where
  "before_char c s = (case find_char c s of None \<Rightarrow> s | Some i \<Rightarrow> take i s)"

definition reported_enum :: "'e list \<Rightarrow> string \<Rightarrow> 'e" where
  "reported_enum values payload =
     (case parse_uint (before_char (CHR '':'') payload) of
        Some number \<Rightarrow> if unat number < length values then values ! unat number else hd values
      | None \<Rightarrow> hd values)"

definition node_types :: "RdmaNodeType list" where
  "node_types = [Rdma_Node_Unknown, ChannelAdapter, Switch, Router, Rnic, Usnic, UsnicUdp]"

definition port_states :: "RdmaPortState list" where
  "port_states = [Rdma_Port_Unknown, Rdma_Port_Down, Rdma_Port_Init, Armed, Active, ActiveDeferred]"

definition physical_states :: "RdmaPhysicalState list" where
  "physical_states = [Rdma_Phys_Unknown, Sleep, Polling, Disabled, Training, LinkUp, Recovery, PhyTest]"

definition append_interface :: "string \<Rightarrow> InterfaceName list \<Rightarrow> InterfaceName list" where
  "append_interface payload interfaces =
     (let name = trim payload in
      if name = [] \<or> CHR ''/'' \<in> set name \<or> name = ''.'' \<or> name = ''..'' then interfaces
      else if NamedString name \<in> set interfaces then interfaces
      else interfaces @ [NamedString name])"

definition rate_scale :: u64 where
  "rate_scale = 1000000000"

definition u64_max :: u64 where
  "u64_max = - 1"

definition rate_fraction :: "string \<Rightarrow> u64 option" where
  "rate_fraction digits =
     (case parse_uint digits of
        None \<Rightarrow> None
      | Some v \<Rightarrow>
          if length digits > 9 \<or> \<not> list_all is_digit digits then None
          else Some (((\<lambda>f. f * 10) ^^ (9 - length digits)) v))"

definition parse_rate :: "string \<Rightarrow> Bandwidth option" where
  "parse_rate text =
     (case find_str '' Gb/sec'' text of None \<Rightarrow> None | Some unit \<Rightarrow>
      let decimal = take unit text; dot = find_char (CHR ''.'') decimal in
      case parse_uint (before_char (CHR ''.'') decimal) of None \<Rightarrow> None | Some whole \<Rightarrow>
      if whole > u64_max div rate_scale then None
      else
        case (case dot of None \<Rightarrow> Some 0 | Some i \<Rightarrow> rate_fraction (drop (i + 1) decimal)) of
          None \<Rightarrow> None
        | Some fraction \<Rightarrow>
            if fraction > u64_max - whole * rate_scale then None
            else Some (ScalarUnit (whole * rate_scale + fraction)))"

section \<open>Ports and devices\<close>

definition hex_u32 :: "string \<Rightarrow> u32 option" where
  "hex_u32 payload =
     (let digits = trim payload in
      case parse_hex (if prefix ''0x'' digits \<or> prefix ''0X'' digits then drop 2 digits else digits) of
        None \<Rightarrow> None | Some n \<Rightarrow> if n > u32_max then None else Some (to_u32 n))"

definition small_u8 :: "u64 \<Rightarrow> string \<Rightarrow> u8 option" where
  "small_u8 maximum payload =
     (case parse_uint (trim payload) of
        None \<Rightarrow> None | Some n \<Rightarrow> if n \<le> maximum then Some (ucast n) else None)"

definition parse_port :: "string \<Rightarrow> string \<Rightarrow> RdmaPort \<Rightarrow> RdmaPort" where
  "parse_port field payload port =
     (if field = ''state'' then port\<lparr>rp_state := reported_enum port_states payload\<rparr>
      else if field = ''phys_state''
      then port\<lparr>rp_physical_state := reported_enum physical_states payload\<rparr>
      else if field = ''link_layer''
      then (if trim payload = ''InfiniBand'' then port\<lparr>rp_link_layer := InfiniBand\<rparr>
            else if trim payload = ''Ethernet'' then port\<lparr>rp_link_layer := Ethernet\<rparr> else port)
      else if field = ''rate''
      then port\<lparr>rp_rate_report := hardware_text payload, rp_rate := parse_rate (hardware_text payload)\<rparr>
      else if field = ''lid'' \<or> field = ''sm_lid'' \<or> field = ''cap_mask''
      then (case hex_u32 payload of
              None \<Rightarrow> port
            | Some number \<Rightarrow>
                if field = ''cap_mask'' then port\<lparr>rp_capability_mask := Some number\<rparr>
                else if field = ''lid'' then port\<lparr>rp_lid := Some (StrongId number)\<rparr>
                else port\<lparr>rp_subnet_manager_lid := Some (StrongId number)\<rparr>)
      else if field = ''sm_sl'' \<or> field = ''lid_mask_count''
      then (case small_u8 (if field = ''sm_sl'' then 15 else 7) payload of
              None \<Rightarrow> port
            | Some number \<Rightarrow>
                if field = ''sm_sl'' then port\<lparr>rp_subnet_manager_sl := Some number\<rparr>
                else port\<lparr>rp_lid_mask_count := Some number\<rparr>)
      else if prefix ''gid_attrs/ndevs/'' field \<and> parse_uint (drop 16 field) \<noteq> None
      then port\<lparr>rp_network_interfaces := append_interface payload (rp_network_interfaces port)\<rparr>
      else port)"

type_synonym PortMap = "(u32, RdmaPort) std_map"

definition port_record :: "string \<Rightarrow> string \<Rightarrow> PortMap \<Rightarrow> PortMap" where
  "port_record tail payload ports =
     (let slash = find_char (CHR ''/'') tail in
      case parse_uint (before_char (CHR ''/'') tail) of
        None \<Rightarrow> ports
      | Some number \<Rightarrow>
          if number > u32_max then ports
          else
            let port_number = to_u32 number in
            map_update port_number RdmaPort_default
              (\<lambda>port. let port = port\<lparr>rp_number := StrongId port_number\<rparr> in
                 case slash of None \<Rightarrow> port | Some i \<Rightarrow> parse_port (drop (i + 1) tail) payload port)
              ports)"

definition last_component_address :: "string \<Rightarrow> PciAddress option \<Rightarrow> PciAddress option" where
  "last_component_address path old =
     fold (\<lambda>component found. case parse_pci_address component of None \<Rightarrow> found | Some a \<Rightarrow> Some a)
       (split path (CHR ''/'')) old"

definition device_field :: "string \<Rightarrow> string \<Rightarrow> RdmaDevice \<times> PortMap \<Rightarrow> RdmaDevice \<times> PortMap" where
  "device_field field payload = (\<lambda>(device, ports).
     if field = ''node_type''
     then (device\<lparr>rd_node_type := reported_enum node_types payload\<rparr>, ports)
     else if field = ''node_guid''
     then (device\<lparr>rd_node_guid := NamedString (hardware_text payload)\<rparr>, ports)
     else if field = ''sys_image_guid''
     then (device\<lparr>rd_system_image_guid := NamedString (hardware_text payload)\<rparr>, ports)
     else if field = ''node_desc'' then (device\<lparr>rd_description := hardware_text payload\<rparr>, ports)
     else if field = ''fw_ver'' then (device\<lparr>rd_firmware_version := hardware_text payload\<rparr>, ports)
     else if field = ''device/driver''
     then (device\<lparr>rd_driver := extract_filename (trim payload)\<rparr>, ports)
     else if field = ''sysfs_path''
     then (device\<lparr>rd_pci_address := last_component_address (trim payload) (rd_pci_address device)\<rparr>, ports)
     else if prefix ''device/net/'' field \<and> find_char_from (CHR ''/'') 11 field = None
     then (device\<lparr>rd_network_interfaces :=
             append_interface (drop 11 field) (rd_network_interfaces device)\<rparr>, ports)
     else if prefix ''ports/'' field then (device, port_record (drop 6 field) payload ports)
     else (device, ports))"

definition device_record :: "string \<Rightarrow> RawRecord \<Rightarrow> RdmaDevice \<times> PortMap \<Rightarrow> RdmaDevice \<times> PortMap" where
  "device_record base r state =
     (if length (rec_path_or_command r) \<le> length base then state
      else device_field (drop (length base + 1) (rec_path_or_command r)) (rec_payload r) state)"

definition parse_rdma_device :: "string \<Rightarrow> RawRecord list \<Rightarrow> RdmaDeviceId \<Rightarrow> RdmaDevice" where
  "parse_rdma_device name records i =
     (let (device, ports) = fold (device_record (rdma_prefix @ name)) records
            (RdmaDevice_default\<lparr>rd_id := i, rd_name := NamedString name\<rparr>, [])
      in device\<lparr>rd_ports := rd_ports device @ map snd ports\<rparr>)"

section \<open>The inventory\<close>

definition rdma_device_name :: "RawRecord \<Rightarrow> string option" where
  "rdma_device_name r =
     (if rec_status r \<noteq> Success \<or> \<not> prefix rdma_prefix (rec_path_or_command r) then None
      else
        let name = before_char (CHR ''/'') (drop (length rdma_prefix) (rec_path_or_command r)) in
        if name \<noteq> [] \<and> name \<noteq> ''.'' \<and> name \<noteq> ''..'' then Some name else None)"

definition rdma_record :: "RawRecord \<Rightarrow> RdmaInventory \<times> (string, RawRecord list) std_map \<Rightarrow>
    RdmaInventory \<times> (string, RawRecord list) std_map" where
  "rdma_record r = (\<lambda>(inventory, devices).
     (if rec_path_or_command r = rdma_root
      then inventory\<lparr>ri_status := rec_status r, ri_failure := rec_failure r\<rparr> else inventory,
      case rdma_device_name r of
        None \<Rightarrow> devices | Some name \<Rightarrow> map_update name [] (\<lambda>rs. rs @ [r]) devices))"

definition add_rdma_device :: "string \<times> RawRecord list \<Rightarrow> RdmaInventory \<Rightarrow> RdmaInventory" where
  "add_rdma_device = (\<lambda>(name, records) inventory.
     inventory\<lparr>ri_devices := ri_devices inventory @
       [parse_rdma_device name records (StrongId (word_of_nat (length (ri_devices inventory))))]\<rparr>)"

definition parse_rdma :: "RawStore \<Rightarrow> RdmaInventory" where
  "parse_rdma raw =
     (let (inventory, devices) = fold rdma_record (get_all raw SysfsRdma) (RdmaInventory_default, [])
      in fold add_rdma_device devices inventory)"

section \<open>Rates are exact\<close>

text \<open>The rate in bits per second over the natural numbers.\<close>

definition rate_value :: "string \<Rightarrow> nat option" where
  "rate_value text =
     (case find_str '' Gb/sec'' text of None \<Rightarrow> None | Some unit \<Rightarrow>
      let decimal = take unit text in
      case parse_uint (before_char (CHR ''.'') decimal) of None \<Rightarrow> None | Some whole \<Rightarrow>
      case find_char (CHR ''.'') decimal of
        None \<Rightarrow> Some (unat whole * 10 ^ 9)
      | Some i \<Rightarrow>
          let digits = drop (i + 1) decimal in
          if digits \<noteq> [] \<and> length digits \<le> 9 \<and> list_all is_digit digits
          then Some (unat whole * 10 ^ 9 + digits_value 10 digits * 10 ^ (9 - length digits))
          else None)"

lemma digits_value_less: "list_all is_digit ds \<Longrightarrow> digits_value 10 ds < 10 ^ length ds"
proof (induction ds rule: rev_induct)
  case Nil
  then show ?case by simp
next
  case (snoc c ds)
  then have "digit_in 10 c" by (simp add: is_digit_digit_in)
  then obtain v where v: "char_value c = Some v" "v < 10" by (auto simp: digit_in_def split: option.splits)
  have "digits_value 10 ds < 10 ^ length ds" using snoc by simp
  then have "Suc (digits_value 10 ds) * 10 \<le> 10 ^ length ds * 10" by (intro mult_right_mono) simp_all
  then show ?case using v by simp
qed

lemma funpow_times_ten: "unat v * 10 ^ k < 2 ^ 64 \<Longrightarrow> unat (((\<lambda>f. f * 10) ^^ k) (v :: u64)) = unat v * 10 ^ k"
proof (induction k)
  case 0
  then show ?case by simp
next
  case (Suc k)
  have "unat v * 10 ^ k \<le> unat v * 10 ^ Suc k" by simp
  then have "unat v * 10 ^ k < 2 ^ 64" using Suc.prems by linarith
  with Suc.IH have k: "unat (((\<lambda>f. f * 10) ^^ k) v) = unat v * 10 ^ k" .
  have "unat v * 10 ^ k * 10 < 2 ^ 64" using Suc.prems by (simp only: power_Suc2 mult.assoc)
  then have "unat (((\<lambda>f. f * 10) ^^ k) v) * unat (10 :: u64) < 2 ^ LENGTH(64)" by (simp add: k)
  then have "unat (((\<lambda>f. f * 10) ^^ k) v * 10) = unat v * 10 ^ k * 10"
    unfolding unat_mult_lem by (simp add: k)
  then show ?case by (simp only: funpow.simps comp_def power_Suc2 mult.assoc)
qed

lemma rate_fraction_eq:
  "rate_fraction ds =
     (if ds \<noteq> [] \<and> length ds \<le> 9 \<and> list_all is_digit ds
      then Some (word_of_nat (digits_value 10 ds * 10 ^ (9 - length ds))) else None)"
proof (cases "ds \<noteq> [] \<and> length ds \<le> 9 \<and> list_all is_digit ds")
  case True
  then have digits: "list_all (digit_in 10) ds" by (simp add: is_digit_digit_in [abs_def] list_all_iff)
  then have trimmed: "trim ds = ds"
    by (intro trim_no_space) (auto simp: list_all_iff digit_in_not_space)
  have small: "digits_value 10 ds < 10 ^ length ds" using True by (intro digits_value_less) simp
  have "(10 :: nat) ^ length ds \<le> 10 ^ 9" using True by (intro power_increasing) simp_all
  with small have v: "digits_value 10 ds < 2 ^ 64" by simp
  then have parsed: "parse_uint ds = Some (word_of_nat (digits_value 10 ds))"
    using True digits trimmed
    by (subst parse_uint_Some_iff) (simp add: number_text_def unat_of_nat_u64 del: power_numeral)
  have "digits_value 10 ds * 10 ^ (9 - length ds) \<le> 10 ^ length ds * 10 ^ (9 - length ds)"
    using small by (intro mult_right_mono) simp_all
  also have "\<dots> = 10 ^ 9" using True by (simp flip: power_add)
  finally have w: "unat (word_of_nat (digits_value 10 ds) :: u64) * 10 ^ (9 - length ds) < 2 ^ 64"
    unfolding unat_of_nat_u64 [OF v] by simp
  have "((\<lambda>f. f * 10) ^^ (9 - length ds)) (word_of_nat (digits_value 10 ds)) =
      (word_of_nat (digits_value 10 ds * 10 ^ (9 - length ds)) :: u64)"
    using arg_cong [OF funpow_times_ten [OF w], of "\<lambda>n. word_of_nat n :: u64"]
    unfolding unat_of_nat_u64 [OF v] by (simp only: of_nat_unat ucast_id)
  then show ?thesis using True by (simp add: rate_fraction_def parsed)
next
  case False
  have "parse_uint [] = None" by (simp add: parse_uint_def parse_base_def)
  then show ?thesis using False by (auto simp: rate_fraction_def split: option.splits)
qed

lemma checked_sum:
  fixes w :: u64
  assumes "n < 10 ^ 9"
  shows "(if w > u64_max div rate_scale then None
      else if word_of_nat n > u64_max - w * rate_scale then None
      else Some (w * rate_scale + word_of_nat n)) =
    (if unat w * 10 ^ 9 + n < 2 ^ 64 then Some (word_of_nat (unat w * 10 ^ 9 + n)) else None)"
proof -
  have max: "unat u64_max = 2 ^ 64 - 1" by (simp add: u64_max_def unsigned_minus_1_eq_mask mask_eq_exp_minus_1)
  have scale: "unat rate_scale = 10 ^ 9" by (simp add: rate_scale_def)
  have n: "unat (word_of_nat n :: u64) = n" using assms by (intro unat_of_nat_u64) simp
  have whole: "w > u64_max div rate_scale \<longleftrightarrow> \<not> unat w * 10 ^ 9 < 2 ^ 64"
    unfolding word_less_nat_alt unat_div max scale by auto
  show ?thesis
  proof (cases "unat w * 10 ^ 9 < 2 ^ 64")
    case False
    then show ?thesis using whole by simp
  next
    case True
    then have product: "unat (w * rate_scale) = unat w * 10 ^ 9"
      by (subst unat_mult_lem [THEN iffD1]) (simp_all add: scale)
    have "w * rate_scale \<le> u64_max" using True by (simp add: word_le_nat_alt product max)
    then have rest: "unat (u64_max - w * rate_scale) = 2 ^ 64 - 1 - unat w * 10 ^ 9"
      by (simp add: unat_sub product max)
    have "word_of_nat n > u64_max - w * rate_scale \<longleftrightarrow> \<not> unat w * 10 ^ 9 + n < 2 ^ 64"
      unfolding word_less_nat_alt rest n using True by auto
    moreover have "w * rate_scale + word_of_nat n = word_of_nat (unat w * 10 ^ 9 + n)"
      by (simp add: rate_scale_def)
    ultimately show ?thesis using whole True by simp
  qed
qed

text \<open>a port rate is converted to bits per second without wrap-around: the parser agrees with the
  decimal value of the report over the natural numbers, and returns nothing when it does not fit.
\<close>

theorem parse_rate_exact:
  "parse_rate text =
     (case rate_value text of
        None \<Rightarrow> None
      | Some n \<Rightarrow> if n < 2 ^ 64 then Some (ScalarUnit (word_of_nat n)) else None)"
proof -
  have fraction: "digits_value 10 ds * 10 ^ (9 - length ds) < 10 ^ 9"
    if "length ds \<le> 9" "list_all is_digit ds" for ds
  proof -
    have "digits_value 10 ds * 10 ^ (9 - length ds) < 10 ^ length ds * 10 ^ (9 - length ds)"
      using digits_value_less [OF that(2)] by simp
    also have "\<dots> = 10 ^ 9" using that(1) by (simp flip: power_add)
    finally show ?thesis .
  qed
  have lift: "(if c then None else if d then None else Some (ScalarUnit x)) =
      map_option ScalarUnit (if c then None else if d then None else Some x)" for c d x
    by simp
  show ?thesis
  proof (cases "find_str '' Gb/sec'' text")
    case None
    then show ?thesis by (simp add: parse_rate_def rate_value_def)
  next
    case (Some u)
    let ?dec = "take u text"
    show ?thesis
    proof (cases "parse_uint (before_char (CHR ''.'') ?dec)")
      case None
      then show ?thesis using Some by (simp add: parse_rate_def rate_value_def Let_def)
    next
      case whole: (Some w)
      show ?thesis
      proof (cases "find_char (CHR ''.'') ?dec")
        case None
        then show ?thesis using Some whole checked_sum [of 0 w]
          by (simp add: parse_rate_def rate_value_def Let_def lift del: power_numeral split: if_splits)
      next
        case dot: (Some i)
        let ?ds = "drop (i + 1) ?dec"
        show ?thesis
        proof (cases "?ds \<noteq> [] \<and> length ?ds \<le> 9 \<and> list_all is_digit ?ds")
          case True
          then show ?thesis
            using Some whole dot checked_sum [OF fraction, of ?ds w]
            by (simp add: parse_rate_def rate_value_def Let_def rate_fraction_eq lift del: power_numeral
              split: if_splits)
        next
          case False
          then have "rate_fraction ?ds = None" unfolding rate_fraction_eq by simp
          then show ?thesis using Some whole dot False
            by (auto simp: parse_rate_def rate_value_def Let_def)
        qed
      qed
    qed
  qed
qed

section \<open>The shape of the inventory\<close>

definition ports_ok :: "PortMap \<Rightarrow> bool" where
  "ports_ok ports \<longleftrightarrow> map_invar ports \<and> (\<forall>k p. map_of ports k = Some p \<longrightarrow>
     rp_number p = StrongId k \<and> distinct (rp_network_interfaces p))"

lemma append_interface_distinct: "distinct is \<Longrightarrow> distinct (append_interface payload is)"
  by (simp add: append_interface_def Let_def)

lemma parse_port_ok:
  "rp_number (parse_port field payload p) = rp_number p \<and>
   (distinct (rp_network_interfaces p) \<longrightarrow> distinct (rp_network_interfaces (parse_port field payload p)))"
  by (simp add: parse_port_def append_interface_distinct split: option.split)

lemma port_record_ok: "ports_ok ports \<Longrightarrow> ports_ok (port_record tail payload ports)"
proof -
  assume ports: "ports_ok ports"
  then have m: "map_invar ports" by (simp add: ports_ok_def)
  let ?f = "\<lambda>n port. let port = port\<lparr>rp_number := StrongId n\<rparr> in
     case find_char (CHR ''/'') tail of None \<Rightarrow> port | Some i \<Rightarrow> parse_port (drop (i + 1) tail) payload port"
  have step: "rp_number (?f n p) = StrongId n \<and>
      (distinct (rp_network_interfaces p) \<longrightarrow> distinct (rp_network_interfaces (?f n p)))" for n p
    using parse_port_ok by (simp add: Let_def split: option.split)
  have start: "distinct (rp_network_interfaces (case map_of ports n of None \<Rightarrow> RdmaPort_default | Some p \<Rightarrow> p))"
    for n
    using ports by (simp add: ports_ok_def RdmaPort_default_def split: option.split)
  have "ports_ok (map_update n RdmaPort_default (?f n) ports)" for n
    unfolding ports_ok_def map_of_update [OF m]
    using map_invar_update [OF m] step start ports by (simp add: ports_ok_def)
  then show ?thesis using ports
    by (simp add: port_record_def Let_def split: option.split)
qed

definition rdma_device_ok :: "RdmaDevice \<Rightarrow> bool" where
  "rdma_device_ok d \<longleftrightarrow>
     sorted_wrt (<) (map (id_value \<circ> rp_number) (rd_ports d)) \<and> distinct (rd_network_interfaces d) \<and>
     list_all (\<lambda>p. distinct (rp_network_interfaces p)) (rd_ports d)"

definition device_state_ok :: "string \<Rightarrow> RdmaDeviceId \<Rightarrow> RdmaDevice \<times> PortMap \<Rightarrow> bool" where
  "device_state_ok name i s \<longleftrightarrow>
     rd_name (fst s) = NamedString name \<and> rd_id (fst s) = i \<and> rd_ports (fst s) = [] \<and>
     distinct (rd_network_interfaces (fst s)) \<and> ports_ok (snd s)"

lemma device_field_ok: "device_state_ok name i s \<Longrightarrow> device_state_ok name i (device_field field payload s)"
  by (cases s) (simp add: device_state_ok_def device_field_def append_interface_distinct port_record_ok)

lemma parse_rdma_device_ok:
  "rdma_device_ok (parse_rdma_device name rs i) \<and> rd_name (parse_rdma_device name rs i) = NamedString name \<and>
   rd_id (parse_rdma_device name rs i) = i"
proof -
  let ?s0 = "(RdmaDevice_default\<lparr>rd_id := i, rd_name := NamedString name\<rparr>, [])"
  have s0: "device_state_ok name i ?s0"
    by (simp add: device_state_ok_def ports_ok_def RdmaDevice_default_def)
  have step: "device_state_ok name i (device_record base r s)" if "device_state_ok name i s" for base r s
    using that by (simp add: device_record_def device_field_ok)
  obtain d ports where run: "fold (device_record (rdma_prefix @ name)) rs ?s0 = (d, ports)"
    by (cases "fold (device_record (rdma_prefix @ name)) rs ?s0")
  have ok: "device_state_ok name i (d, ports)"
    using fold_invariant_set [where P = "device_state_ok name i" and f = "device_record (rdma_prefix @ name)"
        and xs = rs, OF s0] step by (simp add: run)
  then have m: "map_invar ports" by (simp add: device_state_ok_def ports_ok_def)
  have entry: "rp_number p = StrongId k \<and> distinct (rp_network_interfaces p)" if "(k, p) \<in> set ports" for k p
  proof -
    have "map_of ports k = Some p" using map_invar_lookup [OF m] that by blast
    then show ?thesis using ok by (simp add: device_state_ok_def ports_ok_def)
  qed
  have "map (id_value \<circ> rp_number) (map snd ports) = map fst ports"
    using entry by (auto intro!: map_cong)
  then have "sorted_wrt (<) (map (id_value \<circ> rp_number) (map snd ports))"
    using m by (simp only: map_invar_def)
  then show ?thesis
    using ok entry by (auto simp: parse_rdma_device_def run rdma_device_ok_def device_state_ok_def
        list_all_iff)
qed

lemma add_rdma_devices:
  "ri_devices (fold add_rdma_device gs inventory) = ri_devices inventory @
     map (\<lambda>(k, name, rs). parse_rdma_device name rs (StrongId (word_of_nat k)))
       (zip [length (ri_devices inventory)..<length (ri_devices inventory) + length gs] gs)"
proof (induction gs arbitrary: inventory)
  case Nil
  then show ?case by simp
next
  case (Cons g gs)
  obtain name rs where g: "g = (name, rs)" by (cases g)
  show ?case using Cons.IH [of "add_rdma_device g inventory"]
    by (simp add: g add_rdma_device_def upt_conv_Cons del: upt_Suc)
qed

text \<open>the RDMA devices are listed in the order of their names, each once, numbered from zero; the
  ports of a device are listed in the order of their numbers, each once; and no interface is
  named twice by a device or a port.
\<close>

theorem parse_rdma_ordered:
  "let devices = ri_devices (parse_rdma raw) in
     sorted_wrt (<) (map (str_value \<circ> rd_name) devices) \<and>
     map rd_id devices = map (StrongId \<circ> word_of_nat) [0..<length devices] \<and>
     list_all rdma_device_ok devices"
proof -
  obtain inv gs where run: "fold rdma_record (get_all raw SysfsRdma) (RdmaInventory_default, []) = (inv, gs)"
    by (cases "fold rdma_record (get_all raw SysfsRdma) (RdmaInventory_default, [])")
  have "ri_devices (fst (fold rdma_record rs s)) = ri_devices (fst s) \<and>
      (map_invar (snd s) \<longrightarrow> map_invar (snd (fold rdma_record rs s)))" for rs s
  proof (induction rs arbitrary: s)
    case Nil
    then show ?case by simp
  next
    case (Cons r rs)
    have "ri_devices (fst (rdma_record r s)) = ri_devices (fst s) \<and>
        (map_invar (snd s) \<longrightarrow> map_invar (snd (rdma_record r s)))"
      by (cases s) (auto simp: rdma_record_def split: option.split)
    with Cons.IH [of "rdma_record r s"] show ?case by auto
  qed
  from this [of "get_all raw SysfsRdma" "(RdmaInventory_default, [])"]
  have inv: "ri_devices inv = []" and gs: "map_invar gs"
    unfolding run by (simp_all add: RdmaInventory_default_def)
  let ?mk = "\<lambda>(k, name, rs). parse_rdma_device name rs (StrongId (word_of_nat k))"
  have devices: "ri_devices (parse_rdma raw) = map ?mk (zip [0..<length gs] gs)"
    by (simp add: parse_rdma_def run add_rdma_devices inv)
  have names: "map (str_value \<circ> rd_name) (map ?mk (zip [0..<length gs] gs)) = map fst gs"
    using parse_rdma_device_ok by (intro nth_equalityI) (auto split: prod.split)
  have ids: "map rd_id (map ?mk (zip [0..<length gs] gs)) = map (StrongId \<circ> word_of_nat) [0..<length gs]"
    using parse_rdma_device_ok by (intro nth_equalityI) (auto split: prod.split)
  show ?thesis
    unfolding Let_def devices names ids
    using gs parse_rdma_device_ok by (auto simp: map_invar_def list_all_iff)
qed

end
