(* ===== verification/Network_Parser.thy ===== *)
theory Network_Parser
  imports Rdma Streams
begin

text \<open>
  \<open>src/parser/network.cpp\<close> and \<open>src/parser/network_details.cpp\<close>: the network interfaces of sysfs,
  their addresses, and what ethtool and the VLAN table add. The pointer \<open>modes\<close> into one of three
  lists of an interface is the name of that list.
\<close>

section \<open>ethtool and VLANs\<close>

datatype ModeField = SupportedModes | AdvertisedModes | PeerModes

definition modes_of :: "ModeField \<Rightarrow> NetworkInterface \<Rightarrow> string list" where
  "modes_of m iface =
     (case m of
        SupportedModes \<Rightarrow> if_supported_link_modes iface
      | AdvertisedModes \<Rightarrow> if_advertised_link_modes iface
      | PeerModes \<Rightarrow> if_peer_link_modes iface)"

definition set_modes :: "ModeField \<Rightarrow> string list \<Rightarrow> NetworkInterface \<Rightarrow> NetworkInterface" where
  "set_modes m modes iface =
     (case m of
        SupportedModes \<Rightarrow> iface\<lparr>if_supported_link_modes := modes\<rparr>
      | AdvertisedModes \<Rightarrow> iface\<lparr>if_advertised_link_modes := modes\<rparr>
      | PeerModes \<Rightarrow> iface\<lparr>if_peer_link_modes := modes\<rparr>)"

definition mode_key :: "string \<Rightarrow> ModeField option" where
  "mode_key key =
     (if key = ''Supported link modes'' then Some SupportedModes
      else if key = ''Advertised link modes'' then Some AdvertisedModes
      else if key = ''Link partner advertised link modes'' then Some PeerModes
      else None)"

definition ethtool_field :: "string \<Rightarrow> string \<Rightarrow> NetworkInterface \<Rightarrow> NetworkInterface" where
  "ethtool_field key value iface =
     (if key = ''firmware-version'' then iface\<lparr>if_firmware_version := hardware_text value\<rparr>
      else if key = ''version'' then iface\<lparr>if_driver_version := hardware_text value\<rparr>
      else if key = ''Auto-negotiation'' \<and> (value = ''on'' \<or> value = ''off'')
      then iface\<lparr>if_autonegotiation := Some (value = ''on'')\<rparr>
      else if key = ''Permanent address'' \<and> value \<noteq> []
      then (if list_ex (\<lambda>ch. ch \<noteq> CHR ''0'' \<and> ch \<noteq> CHR '':'') value \<and> CHR '':'' \<in> set value
            then iface\<lparr>if_permanent_mac := Some (NamedString value)\<rparr> else iface)
      else iface)"

definition add_mode :: "string \<Rightarrow> string list \<Rightarrow> string list" where
  "add_mode mode modes =
     (if CHR ''/'' \<in> set mode \<and> mode \<notin> set modes then modes @ [mode] else modes)"

definition ethtool_line :: "string \<Rightarrow> NetworkInterface \<times> ModeField option \<Rightarrow> NetworkInterface \<times> ModeField option" where
  "ethtool_line line = (\<lambda>(iface, modes).
     let (value, iface, modes) =
           (if find_char (CHR '':'') line = None then (trim line, iface, modes)
            else
              let (key, entry) = parse_kv line (CHR '':'')
              in (entry, ethtool_field key entry iface, mode_key key))
     in (case modes of
           None \<Rightarrow> iface
         | Some m \<Rightarrow> set_modes m (fold add_mode (tokens value) (modes_of m iface)) iface,
         modes))"

definition parse_ethtool :: "string \<Rightarrow> NetworkInterface \<Rightarrow> NetworkInterface" where
  "parse_ethtool payload iface = fst (fold ethtool_line (split payload (CHR 0x0A)) (iface, None))"

text \<open>\<open>std::find_if\<close>, and what the code does with the iterator unless it is the end.\<close>

fun update_first :: "('a \<Rightarrow> bool) \<Rightarrow> ('a \<Rightarrow> 'a) \<Rightarrow> 'a list \<Rightarrow> 'a list" where
  "update_first P f [] = []"
| "update_first P f (x # xs) = (if P x then f x # xs else x # update_first P f xs)"

definition ethtool_prefix :: string where
  "ethtool_prefix = ''ethtool/''"

definition ethtool_record :: "RawRecord \<Rightarrow> Network \<Rightarrow> Network" where
  "ethtool_record r net =
     (if rec_status r \<noteq> Success \<and> rec_status r \<noteq> Partial \<or> \<not> prefix ethtool_prefix (rec_path_or_command r)
      then net
      else
        let name = before_char (CHR ''/'') (drop (length ethtool_prefix) (rec_path_or_command r)) in
        net\<lparr>net_interfaces := update_first (\<lambda>item. str_value (if_name item) = name)
          (parse_ethtool (rec_payload r)) (net_interfaces net)\<rparr>)"

definition vlan_line :: "string \<Rightarrow> Network \<Rightarrow> Network" where
  "vlan_line line net =
     (case split line (CHR ''|'') of
        [first, second, third] \<Rightarrow>
          (case parse_uint second of
             None \<Rightarrow> net
           | Some i \<Rightarrow>
               if i > 4095 then net
               else
                 let name = trim first; parent = trim third in
                 if parent = [] then net
                 else net\<lparr>net_interfaces := update_first (\<lambda>item. str_value (if_name item) = name)
                   (\<lambda>iface. iface\<lparr>if_interface_kind := ''vlan'', if_vlan_id := Some (to_u32 i),
                      if_vlan_parent := Some (NamedString parent)\<rparr>) (net_interfaces net)\<rparr>)
      | _ \<Rightarrow> net)"

definition vlan_record :: "RawRecord \<Rightarrow> Network \<Rightarrow> Network" where
  "vlan_record r net =
     (if rec_status r \<noteq> Success then net else fold vlan_line (split (rec_payload r) (CHR 0x0A)) net)"

definition apply_network_details :: "RawStore \<Rightarrow> Network \<Rightarrow> Network" where
  "apply_network_details raw net =
     fold vlan_record (get_all raw ProcNetVlan) (fold ethtool_record (get_all raw Ethtool) net)"

section \<open>Interfaces\<close>

definition extract_interface_name_from_path :: "string \<Rightarrow> string" where
  "extract_interface_name_from_path path =
     (case find_str ''/sys/class/net/'' path of
        None \<Rightarrow> []
      | Some pos \<Rightarrow> before_char (CHR ''/'') (drop (pos + length ''/sys/class/net/'') path))"

definition parse_interface_state :: "string \<Rightarrow> InterfaceState" where
  "parse_interface_state state_str =
     (if trim state_str = ''up'' then If_Up else if trim state_str = ''down'' then If_Down else If_Unknown)"

definition parse_speed :: "string \<Rightarrow> Bandwidth option" where
  "parse_speed payload =
     (case parse_uint (trim payload) of
        None \<Rightarrow> None
      | Some v \<Rightarrow> if v > 0 \<and> v \<le> u64_max div 1000000 then Some (ScalarUnit (v * 1000000)) else None)"

definition interface_field :: "string \<Rightarrow> string \<Rightarrow> NetworkInterface \<Rightarrow> NetworkInterface" where
  "interface_field filename payload iface =
     (if filename = ''address'' then iface\<lparr>if_mac := NamedString (trim payload)\<rparr>
      else if filename = ''operstate'' then iface\<lparr>if_state := parse_interface_state payload\<rparr>
      else if filename = ''speed''
      then (case parse_speed payload of None \<Rightarrow> iface | Some b \<Rightarrow> iface\<lparr>if_speed := Some b\<rparr>)
      else if filename = ''mtu''
      then (case parse_uint (trim payload) of
              None \<Rightarrow> iface
            | Some n \<Rightarrow> if n > 0 then iface\<lparr>if_mtu := Some (ScalarUnit n)\<rparr> else iface)
      else if filename = ''carrier''
      then (if trim payload = ''0'' \<or> trim payload = ''1''
            then iface\<lparr>if_carrier := Some (trim payload = ''1'')\<rparr> else iface)
      else if filename = ''duplex''
      then (if trim payload = ''full'' \<or> trim payload = ''half''
            then iface\<lparr>if_duplex := trim payload\<rparr> else iface)
      else if filename = ''driver'' then iface\<lparr>if_driver := hardware_text payload\<rparr>
      else if filename = ''phys_port_name''
      then iface\<lparr>if_physical_port_name := hardware_text payload\<rparr>
      else if filename = ''numa_node'' \<or> filename = ''ifindex''
      then (case parse_uint (trim payload) of
              None \<Rightarrow> iface
            | Some n \<Rightarrow>
                if n \<le> u32_max
                then (if filename = ''numa_node'' then iface\<lparr>if_numa_node := Some (StrongId (to_u32 n))\<rparr>
                      else iface\<lparr>if_interface_index := Some (to_u32 n)\<rparr>)
                else iface)
      else if filename = ''master'' then iface\<lparr>if_master := Some (NamedString (trim payload))\<rparr>
      else if filename = ''lower_interfaces''
      then iface\<lparr>if_lower_interfaces := if_lower_interfaces iface @
        map NamedString (filter (\<lambda>name. name \<noteq> []) (split payload (CHR 0x0A)))\<rparr>
      else if filename = ''kind'' then iface\<lparr>if_interface_kind := trim payload\<rparr>
      else if filename = ''mode'' then iface\<lparr>if_bond_mode := trim payload\<rparr>
      else if filename = ''device''
      then iface\<lparr>if_pci_address := last_component_address (trim payload) (if_pci_address iface)\<rparr>
      else iface)"

section \<open>Grouping\<close>

type_synonym NetGroups = "(string, RawRecord list) std_map"
type_synonym IpMap = "(string, string list) std_map"

definition no_interface :: "string \<Rightarrow> string" where
  "no_interface path = ''parse_network: '' @
     bytes [230, 151, 160, 230, 179, 149, 228, 187, 142, 232, 183, 175, 229, 190, 132, 230, 143, 144,
       229, 143, 150, 230, 142, 165, 229, 143, 163, 229, 144, 141] @ '': '' @ path"

definition net_record :: "RawRecord \<Rightarrow> NetGroups \<times> string list \<Rightarrow> NetGroups \<times> string list" where
  "net_record r = (\<lambda>(groups, warnings).
     if rec_status r \<noteq> Success then (groups, warnings)
     else
       let ifname = extract_interface_name_from_path (rec_path_or_command r) in
       if ifname = [] then (groups, warnings @ [no_interface (rec_path_or_command r)])
       else (map_update ifname [] (\<lambda>rs. rs @ [r]) groups, warnings))"

definition no_space :: "string \<Rightarrow> string" where
  "no_space line = ''parse_network: IfAddrs '' @
     bytes [232, 161, 140, 230, 151, 160, 231, 169, 186, 230, 160, 188, 229, 136, 134, 233, 154, 148] @
     '': '' @ line"

definition empty_part :: "string \<Rightarrow> string" where
  "empty_part line = ''parse_network: IfAddrs '' @
     bytes [232, 161, 140, 230, 142, 165, 229, 143, 163, 229, 144, 141, 230, 136, 150] @ '' IP '' @
     bytes [228, 184, 186, 231, 169, 186] @ '': '' @ line"

definition ifaddr_line :: "string \<Rightarrow> IpMap \<times> string list \<Rightarrow> IpMap \<times> string list" where
  "ifaddr_line line = (\<lambda>(ips, warnings).
     if line = [] then (ips, warnings)
     else
       case find_char (CHR '' '') line of
         None \<Rightarrow> (ips, warnings @ [no_space line])
       | Some space \<Rightarrow>
           let ifname = trim (take space line); ip = trim (drop (space + 1) line) in
           if ifname = [] \<or> ip = [] then (ips, warnings @ [empty_part line])
           else (map_update ifname [] (\<lambda>l. l @ [ip]) ips, warnings))"

definition ifaddr_record :: "RawRecord \<Rightarrow> IpMap \<times> string list \<Rightarrow> IpMap \<times> string list" where
  "ifaddr_record r state =
     (if rec_status r \<noteq> Success \<or> rec_payload r = [] then state
      else fold ifaddr_line (split (rec_payload r) (CHR 0x0A)) state)"

definition group_interface :: "IpMap \<Rightarrow> string \<times> RawRecord list \<Rightarrow> NetworkInterface" where
  "group_interface ips = (\<lambda>(ifname, records).
     let iface = fold (\<lambda>r. interface_field (extract_filename (rec_path_or_command r)) (rec_payload r)) records
           (NetworkInterface_default\<lparr>if_name := NamedString ifname, if_visible_to_current_process := True\<rparr>)
     in case map_of ips ifname of
          None \<Rightarrow> iface
        | Some l \<Rightarrow> iface\<lparr>if_addresses := if_addresses iface @ map NamedString l\<rparr>)"

definition missing_net :: string where
  "missing_net = ''parse_network: '' @ bytes [231, 188, 186, 229, 176, 145] @ '' SysfsNet '' @
     bytes [230, 149, 176, 230, 141, 174]"

definition parse_network :: "RawStore \<Rightarrow> string list \<Rightarrow> Network option \<times> string list" where
  "parse_network raw warnings =
     (let net_records = get_all raw SysfsNet in
      if net_records = [] \<and> get_all raw SysfsRdma = [] \<and> enumeration raw NetworkInterfaces = None
      then (None, warnings @ [missing_net])
      else
        let (groups, warnings) = fold net_record net_records ([], warnings);
            (ips, warnings) = fold ifaddr_record (get_all raw IfAddrs) ([], warnings);
            network = Network_default\<lparr>net_interfaces := map (group_interface ips) groups\<rparr>;
            network = apply_network_details raw network
        in (Some (network\<lparr>net_rdma := parse_rdma raw\<rparr>), warnings))"

section \<open>What the details leave alone\<close>

text \<open>The identity of an interface: nothing that ethtool or the VLAN table touches.\<close>

definition interface_core :: "NetworkInterface \<Rightarrow> InterfaceName \<times> IpAddress list" where
  "interface_core i = (if_name i, if_addresses i)"

definition modes_ok :: "NetworkInterface \<Rightarrow> bool" where
  "modes_ok i \<longleftrightarrow> list_all (\<lambda>m. distinct (modes_of m i) \<and> list_all (\<lambda>s. CHR ''/'' \<in> set s) (modes_of m i))
     [SupportedModes, AdvertisedModes, PeerModes]"

lemma add_modes_ok:
  "distinct ms \<and> list_all (\<lambda>s. CHR ''/'' \<in> set s) ms \<Longrightarrow>
   distinct (fold add_mode ts ms) \<and> list_all (\<lambda>s. CHR ''/'' \<in> set s) (fold add_mode ts ms)"
  by (induction ts arbitrary: ms) (auto simp: add_mode_def)

lemma ethtool_field_frame:
  "interface_core (ethtool_field key value i) = interface_core i"
  "modes_of m (ethtool_field key value i) = modes_of m i"
  by (auto simp: ethtool_field_def interface_core_def modes_of_def split: ModeField.split)

lemma set_modes_frame:
  "interface_core (set_modes m ms i) = interface_core i"
  "modes_of n (set_modes m ms i) = (if n = m then ms else modes_of n i)"
  by (auto simp: set_modes_def interface_core_def modes_of_def split: ModeField.split)

lemma set_modes_ok: "modes_ok i \<Longrightarrow> modes_ok (set_modes m (fold add_mode ts (modes_of m i)) i)"
  using add_modes_ok [of "modes_of m i" ts]
  by (cases m) (auto simp: modes_ok_def set_modes_frame)

lemma ethtool_line_ok:
  "interface_core (fst (ethtool_line line s)) = interface_core (fst s) \<and>
   (modes_ok (fst s) \<longrightarrow> modes_ok (fst (ethtool_line line s)))"
proof -
  have field: "modes_ok (ethtool_field key entry i) \<longleftrightarrow> modes_ok i" for key entry i
    by (simp add: modes_ok_def ethtool_field_frame)
  have added: "modes_ok (set_modes m (fold add_mode ts (modes_of m i)) (ethtool_field key entry i))"
    if "modes_ok i" for m ts key entry i
    using set_modes_ok [of "ethtool_field key entry i" m ts] that by (simp add: field ethtool_field_frame)
  show ?thesis
    by (cases s) (auto simp: ethtool_line_def Let_def case_prod_unfold ethtool_field_frame set_modes_frame field
        set_modes_ok added split: option.split)
qed

lemma parse_ethtool_ok:
  "interface_core (parse_ethtool payload i) = interface_core i \<and> (modes_ok i \<longrightarrow> modes_ok (parse_ethtool payload i))"
proof -
  have "interface_core (fst (fold ethtool_line ls s)) = interface_core (fst s) \<and>
      (modes_ok (fst s) \<longrightarrow> modes_ok (fst (fold ethtool_line ls s)))" for ls s
  proof (induction ls arbitrary: s)
    case Nil
    then show ?case by simp
  next
    case (Cons l ls)
    then show ?case using ethtool_line_ok [of l s] by simp
  qed
  then show ?thesis by (simp add: parse_ethtool_def)
qed

lemma update_first_ok:
  assumes "\<And>x. g (f x) = g x" "\<And>x. Q x \<Longrightarrow> Q (f x)"
  shows "map g (update_first P f xs) = map g xs" "list_all Q xs \<Longrightarrow> list_all Q (update_first P f xs)"
  using assms by (induction xs) auto

text \<open>A step of the details keeps the identities in order and the modes well formed.\<close>

definition keeps :: "Network \<Rightarrow> Network \<Rightarrow> bool" where
  "keeps net net' \<longleftrightarrow>
     map interface_core (net_interfaces net') = map interface_core (net_interfaces net) \<and>
     (list_all modes_ok (net_interfaces net) \<longrightarrow> list_all modes_ok (net_interfaces net'))"

lemma keeps_refl [simp]: "keeps net net"
  by (simp add: keeps_def)

lemma keeps_fold: "(\<And>x n. keeps n (f x n)) \<Longrightarrow> keeps net (fold f xs net)"
  by (induction xs arbitrary: net) (auto simp: keeps_def)

lemma ethtool_record_keeps: "keeps net (ethtool_record r net)"
  unfolding ethtool_record_def Let_def keeps_def
  using update_first_ok [of interface_core "parse_ethtool (rec_payload r)" modes_ok] parse_ethtool_ok
  by simp

lemma vlan_line_keeps: "keeps net (vlan_line line net)"
proof -
  let ?f = "\<lambda>i parent iface. iface\<lparr>if_interface_kind := ''vlan'', if_vlan_id := Some (to_u32 i),
      if_vlan_parent := Some (NamedString parent)\<rparr>"
  have f: "interface_core (?f i parent iface) = interface_core iface"
    "modes_ok (?f i parent iface) \<longleftrightarrow> modes_ok iface" for i parent iface
    by (simp_all add: interface_core_def modes_ok_def modes_of_def)
  have "keeps net (net\<lparr>net_interfaces := update_first P (?f i parent) (net_interfaces net)\<rparr>)" for P i parent
    using update_first_ok [of interface_core "?f i parent" modes_ok] f by (simp add: keeps_def)
  then show ?thesis
    unfolding vlan_line_def Let_def by (auto split: list.split option.split)
qed

lemma apply_network_details_keeps: "keeps net (apply_network_details raw net)"
proof -
  have trans: "keeps a b \<Longrightarrow> keeps b c \<Longrightarrow> keeps a c" for a b c by (simp add: keeps_def)
  have "keeps n (vlan_record r n)" for r n
    using keeps_fold [of vlan_line] vlan_line_keeps by (simp add: vlan_record_def)
  then show ?thesis
    unfolding apply_network_details_def
    using trans keeps_fold [of ethtool_record, OF ethtool_record_keeps] keeps_fold [of vlan_record] by blast
qed

section \<open>Warnings\<close>

definition push_second :: "string list \<Rightarrow> 'a \<times> string list \<Rightarrow> 'a \<times> string list" where
  "push_second ws = (\<lambda>(a, w). (a, ws @ w))"

lemma push_second_simp [simp]: "push_second ws (a, w) = (a, ws @ w)"
  by (simp add: push_second_def)

lemma net_record_push: "net_record r (push_second ws s) = push_second ws (net_record r s)"
  by (cases s) (simp add: net_record_def Let_def)

lemma ifaddr_line_push: "ifaddr_line l (push_second ws s) = push_second ws (ifaddr_line l s)"
  by (cases s) (simp add: ifaddr_line_def Let_def split: option.split)

lemma ifaddr_record_push: "ifaddr_record r (push_second ws s) = push_second ws (ifaddr_record r s)"
  by (simp add: ifaddr_record_def fold_push [where f = ifaddr_line and h = "push_second ws", OF ifaddr_line_push])

lemma parse_network_frame:
  "parse_network raw warnings = (fst (parse_network raw []), warnings @ snd (parse_network raw []))"
proof -
  obtain groups w where g: "fold net_record (get_all raw SysfsNet) ([], []) = (groups, w)"
    by (cases "fold net_record (get_all raw SysfsNet) ([], [])")
  have g': "fold net_record (get_all raw SysfsNet) ([], warnings) = (groups, warnings @ w)"
    using fold_push [where f = net_record and h = "push_second warnings", OF net_record_push, of _ "([], [])"]
    by (simp add: g)
  obtain ips v where i: "fold ifaddr_record (get_all raw IfAddrs) ([], []) = (ips, v)"
    by (cases "fold ifaddr_record (get_all raw IfAddrs) ([], [])")
  have i': "fold ifaddr_record (get_all raw IfAddrs) ([], ws) = (ips, ws @ v)" for ws
    using fold_push [where f = ifaddr_record and h = "push_second ws", OF ifaddr_record_push, of _ "([], [])"]
    by (simp add: i)
  show ?thesis by (simp add: parse_network_def Let_def g g' i i')
qed

definition network_warning :: "string \<Rightarrow> bool" where
  "network_warning w \<longleftrightarrow> w = missing_net \<or> (\<exists>p. w = no_interface p) \<or> (\<exists>l. w = no_space l) \<or>
     (\<exists>l. w = empty_part l)"

lemma network_warning_intros [simp]:
  "network_warning missing_net" "network_warning (no_interface p)" "network_warning (no_space l)"
  "network_warning (empty_part l)"
  by (auto simp: network_warning_def)

lemma parse_network_own_warnings: "list_all network_warning (snd (parse_network raw []))"
proof -
  let ?P = "\<lambda>s. list_all network_warning (snd s)"
  have net: "?P (net_record r s)" if "?P s" for r s
    using that by (cases s) (simp add: net_record_def Let_def)
  have line: "?P (ifaddr_line l s)" if "?P s" for l s
    using that by (cases s) (simp add: ifaddr_line_def Let_def split: option.split)
  have whole_file: "?P (ifaddr_record r s)" if "?P s" for r s
    using that fold_invariant_set [where P = ?P and f = ifaddr_line] line by (simp add: ifaddr_record_def)
  obtain groups w where g: "fold net_record (get_all raw SysfsNet) ([], []) = (groups, w)"
    by (cases "fold net_record (get_all raw SysfsNet) ([], [])")
  have "list_all network_warning w"
    using fold_invariant_set [where P = ?P and f = net_record and s = "([], [])" and xs = "get_all raw SysfsNet"] net
    by (simp add: g)
  then have "?P (fold ifaddr_record (get_all raw IfAddrs) ([], w))"
    using fold_invariant_set [where P = ?P and f = ifaddr_record] whole_file by simp
  then show ?thesis by (simp add: parse_network_def Let_def g case_prod_unfold)
qed

interpretation network_parser: domain_parser parse_network
  "{SysfsNet, IfAddrs, Ethtool, ProcNetVlan, SysfsRdma}" "{NetworkInterfaces}" network_warning
proof (unfold_locales, goal_cases)
  case 1
  show ?case by (rule parse_network_frame)
next
  case (2 raw raw')
  then have "get_all raw SysfsNet = get_all raw' SysfsNet" "get_all raw IfAddrs = get_all raw' IfAddrs"
    "get_all raw Ethtool = get_all raw' Ethtool" "get_all raw ProcNetVlan = get_all raw' ProcNetVlan"
    "get_all raw SysfsRdma = get_all raw' SysfsRdma"
    "enumeration raw NetworkInterfaces = enumeration raw' NetworkInterfaces"
    by simp_all
  then show ?case by (simp only: parse_network_def apply_network_details_def parse_rdma_def)
next
  case 3
  show ?case by (rule parse_network_own_warnings)
qed

section \<open>The interfaces of the model\<close>

definition interface_frame :: "NetworkInterface \<Rightarrow> InterfaceName \<times> IpAddress list \<times> string list \<times> string list \<times> string list" where
  "interface_frame i = (if_name i, if_addresses i, if_supported_link_modes i, if_advertised_link_modes i,
     if_peer_link_modes i)"

lemma interface_field_frame: "interface_frame (interface_field f payload i) = interface_frame i"
  unfolding interface_field_def
  by (intro if_intro [where P = "\<lambda>x. interface_frame x = interface_frame i"])
    (simp_all add: interface_frame_def split: option.split)

lemma interface_field_core [simp]: "interface_core (interface_field f payload i) = interface_core i"
  using interface_field_frame [of f payload i] by (simp add: interface_frame_def interface_core_def)

lemma interface_field_modes: "modes_ok (interface_field f payload i) \<longleftrightarrow> modes_ok i"
  using interface_field_frame [of f payload i] by (simp add: interface_frame_def modes_ok_def modes_of_def)

lemma group_interface_core:
  "interface_core (group_interface ips g) =
     (NamedString (fst g), case map_of ips (fst g) of None \<Rightarrow> [] | Some l \<Rightarrow> map NamedString l) \<and>
   modes_ok (group_interface ips g)"
proof -
  let ?step = "\<lambda>r. interface_field (extract_filename (rec_path_or_command r)) (rec_payload r)"
  let ?start = "NetworkInterface_default\<lparr>if_name := NamedString (fst g), if_visible_to_current_process := True\<rparr>"
  have "interface_core (fold ?step rs i) = interface_core i \<and> (modes_ok (fold ?step rs i) \<longleftrightarrow> modes_ok i)" for rs i
    by (induction rs arbitrary: i) (simp_all add: interface_field_modes)
  from this [of "snd g" ?start]
  have "interface_core (fold ?step (snd g) ?start) = (NamedString (fst g), [])"
    and modes: "modes_ok (fold ?step (snd g) ?start)"
    by (simp_all add: interface_core_def NetworkInterface_default_def modes_ok_def modes_of_def)
  then have "if_name (fold ?step (snd g) ?start) = NamedString (fst g)"
    "if_addresses (fold ?step (snd g) ?start) = []"
    by (simp_all add: interface_core_def)
  moreover have "modes_ok (i\<lparr>if_addresses := l\<rparr>) \<longleftrightarrow> modes_ok i" for i l
    by (simp add: modes_ok_def modes_of_def)
  ultimately show ?thesis using modes
    by (cases g) (simp add: group_interface_def Let_def interface_core_def split: option.split)
qed

text \<open>The interface names of the readable records, and the addresses of the well-formed lines.\<close>

definition sysfs_names :: "RawStore \<Rightarrow> string set" where
  "sysfs_names raw =
     {extract_interface_name_from_path (rec_path_or_command r) | r.
        r \<in> set (get_all raw SysfsNet) \<and> rec_status r = Success} - {[]}"

definition line_entry :: "string \<Rightarrow> (string \<times> string) list" where
  "line_entry line =
     (case find_char (CHR '' '') line of
        None \<Rightarrow> []
      | Some space \<Rightarrow>
          let ifname = trim (take space line); ip = trim (drop (space + 1) line) in
          if ifname = [] \<or> ip = [] then [] else [(ifname, ip)])"

definition listed_addresses :: "RawStore \<Rightarrow> (string \<times> string) list" where
  "listed_addresses raw = concat (map line_entry
     (concat (map (\<lambda>r. split (rec_payload r) (CHR 0x0A))
       (filter (\<lambda>r. rec_status r = Success) (get_all raw IfAddrs)))))"

lemma net_groups_keys:
  "map_invar (fst s) \<Longrightarrow> map_invar (fst (fold net_record rs s)) \<and>
   fst ` set (fst (fold net_record rs s)) = fst ` set (fst s) \<union>
     ({extract_interface_name_from_path (rec_path_or_command r) | r. r \<in> set rs \<and> rec_status r = Success} - {[]})"
proof (induction rs arbitrary: s)
  case Nil
  then show ?case by simp
next
  case (Cons r rs)
  have "map_invar (fst (net_record r s)) \<and> fst ` set (fst (net_record r s)) = fst ` set (fst s) \<union>
      (if rec_status r = Success then {extract_interface_name_from_path (rec_path_or_command r)} - {[]} else {})"
    using Cons.prems by (cases s) (auto simp: net_record_def Let_def)
  with Cons.IH [of "net_record r s"] show ?case by auto
qed

definition lists :: "IpMap \<Rightarrow> (string \<times> string) list \<Rightarrow> bool" where
  "lists ips entries \<longleftrightarrow> map_invar ips \<and>
     (\<forall>n. (case map_of ips n of None \<Rightarrow> [] | Some l \<Rightarrow> l) = map snd (filter (\<lambda>e. fst e = n) entries))"

lemma ifaddr_line_lists: "lists (fst s) es \<Longrightarrow> lists (fst (ifaddr_line line s)) (es @ line_entry line)"
proof -
  assume s: "lists (fst s) es"
  then have m: "map_invar (fst s)" by (simp add: lists_def)
  have add: "lists (map_update n [] (\<lambda>l. l @ [ip]) (fst s)) (es @ [(n, ip)])" for n ip
    using s map_invar_update [OF m] by (auto simp: lists_def map_of_update [OF m] split: option.splits)
  have "line_entry [] = []" by (simp add: line_entry_def)
  then show ?thesis using s add
    by (cases s) (auto simp: ifaddr_line_def line_entry_def Let_def split: option.split)
qed

lemma ifaddr_lines_lists:
  "lists (fst s) es \<Longrightarrow> lists (fst (fold ifaddr_line ls s)) (es @ concat (map line_entry ls))"
proof (induction ls arbitrary: s es)
  case Nil
  then show ?case by simp
next
  case (Cons l ls)
  from Cons.IH [OF ifaddr_line_lists [OF Cons.prems]] show ?case by simp
qed

lemma ifaddr_records_lists:
  "lists (fst s) es \<Longrightarrow> lists (fst (fold ifaddr_record rs s)) (es @ concat (map line_entry
     (concat (map (\<lambda>r. split (rec_payload r) (CHR 0x0A)) (filter (\<lambda>r. rec_status r = Success) rs)))))"
proof (induction rs arbitrary: s es)
  case Nil
  then show ?case by simp
next
  case (Cons r rs)
  have empty_file: "concat (map line_entry (split [] d)) = []" for d
    by (simp add: split_def line_entry_def)
  have "lists (fst (ifaddr_record r s)) (es @ concat (map line_entry
      (if rec_status r = Success then split (rec_payload r) (CHR 0x0A) else [])))"
    using Cons.prems ifaddr_lines_lists [OF Cons.prems] by (auto simp: ifaddr_record_def empty_file)
  from Cons.IH [OF this] show ?case by auto
qed

lemma parse_network_interfaces:
  assumes "fst (parse_network raw warnings) = Some net"
  shows "map interface_core (net_interfaces net) =
      map (\<lambda>n. (NamedString n, map (NamedString \<circ> snd) (filter (\<lambda>e. fst e = n) (listed_addresses raw))))
        (sorted_list_of_set (sysfs_names raw)) \<and>
    list_all modes_ok (net_interfaces net)"
proof -
  obtain groups w where g: "fold net_record (get_all raw SysfsNet) ([], warnings) = (groups, w)"
    by (cases "fold net_record (get_all raw SysfsNet) ([], warnings)")
  obtain ips v where i: "fold ifaddr_record (get_all raw IfAddrs) ([], w) = (ips, v)"
    by (cases "fold ifaddr_record (get_all raw IfAddrs) ([], w)")
  let ?base = "Network_default\<lparr>net_interfaces := map (group_interface ips) groups\<rparr>"
  have net: "net = (apply_network_details raw ?base)\<lparr>net_rdma := parse_rdma raw\<rparr>"
    using assms by (auto simp: parse_network_def Let_def g i split: if_splits)
  have keys: "map_invar groups" "fst ` set groups = sysfs_names raw"
    using net_groups_keys [of "([], warnings)" "get_all raw SysfsNet"] by (simp_all add: g sysfs_names_def)
  have "sorted_list_of_set (sysfs_names raw) = map fst groups"
    using keys by (simp add: map_invar_def strict_sorted_equal sorted_list_of_set.idem_if_sorted_distinct
        flip: keys(2))
  moreover have "lists ips (listed_addresses raw)"
    using ifaddr_records_lists [of "([], w)" "[]" "get_all raw IfAddrs"]
    by (simp add: i lists_def listed_addresses_def)
  moreover have "interface_core (group_interface ips g) = (NamedString (fst g),
      map (NamedString \<circ> snd) (filter (\<lambda>e. fst e = fst g) (listed_addresses raw)))"
    if "lists ips (listed_addresses raw)" for g
  proof -
    have "(case map_of ips (fst g) of None \<Rightarrow> [] | Some l \<Rightarrow> map NamedString l) =
        map NamedString (case map_of ips (fst g) of None \<Rightarrow> [] | Some l \<Rightarrow> l)"
      by (simp split: option.split)
    also have "\<dots> = map (NamedString \<circ> snd) (filter (\<lambda>e. fst e = fst g) (listed_addresses raw))"
      using that by (simp add: lists_def)
    finally show ?thesis using group_interface_core by simp
  qed
  ultimately have "map interface_core (map (group_interface ips) groups) =
      map (\<lambda>n. (NamedString n, map (NamedString \<circ> snd) (filter (\<lambda>e. fst e = n) (listed_addresses raw))))
        (sorted_list_of_set (sysfs_names raw))"
    by simp
  moreover have "list_all modes_ok (map (group_interface ips) groups)"
    using group_interface_core by (simp add: list_all_iff)
  ultimately show ?thesis
    using apply_network_details_keeps [of ?base raw] by (simp add: net keeps_def Network_default_def)
qed

text \<open>C28: the network model lists exactly the interfaces sysfs names, each once and in the order of the
  names; an interface has exactly the addresses of its well-formed lines, in their order; its link
  modes are distinct; and neither ethtool nor the VLAN table adds, drops or renames one.
\<close>

theorem network_interfaces_exact:
  "case fst (parse_network raw warnings) of
     None \<Rightarrow> \<not> has_source raw SysfsNet \<and> \<not> has_source raw SysfsRdma \<and>
       enumeration raw NetworkInterfaces = None
   | Some net \<Rightarrow>
       map interface_core (net_interfaces net) =
         map (\<lambda>n. (NamedString n, map (NamedString \<circ> snd) (filter (\<lambda>e. fst e = n) (listed_addresses raw))))
           (sorted_list_of_set (sysfs_names raw)) \<and>
       list_all modes_ok (net_interfaces net)"
proof (cases "fst (parse_network raw warnings)")
  case None
  then show ?thesis
    by (auto simp: parse_network_def Let_def get_all_empty_iff case_prod_unfold split: if_splits)
next
  case (Some net)
  then show ?thesis by (simp only: option.case parse_network_interfaces simp_thms)
qed

end
