(* ===== verification/Resolve.thy ===== *)
theory Resolve
  imports Accelerator_Visibility Resource Parse_Utils
begin

text \<open>
  \<open>src/resolver/resolve.cpp\<close> and \<open>src/resolver/storage_connections.cpp\<close>: the parse results of the
  domains are merged into one \<open>SystemInfo\<close>, linked through PCI addresses and controller numbers,
  and the visibility of CPUs, accelerators and interfaces is set and cross-checked. The
  sets of ids the code builds are only tested for membership, so they are the lists themselves.
\<close>

section \<open>Definitions\<close>

record ParseResult =
  pr_platform :: "Platform option"
  pr_cpu :: "Cpu option"
  pr_memory :: "Memory option"
  pr_pci :: "Pci option"
  pr_network :: "Network option"
  pr_accelerators :: "Accelerators option"
  pr_storage :: "Storage option"
  pr_software :: "SoftwareStack option"
  pr_execution :: "ExecutionContext option"
  pr_sensors :: "Sensors option"
  pr_accelerator_runtime_visibility :: "RuntimeVisibility list"

definition ParseResult_default :: ParseResult where
  "ParseResult_default =
     \<lparr>pr_platform = None, pr_cpu = None, pr_memory = None, pr_pci = None, pr_network = None,
      pr_accelerators = None, pr_storage = None, pr_software = None, pr_execution = None,
      pr_sensors = None, pr_accelerator_runtime_visibility = []\<rparr>"

definition value_or_default :: "'a \<Rightarrow> 'a option \<Rightarrow> 'a" where
  "value_or_default d v = (case v of None \<Rightarrow> d | Some x \<Rightarrow> x)"

text \<open>\<open>if(x.pci_address) if(const auto *device = pci.find(*x.pci_address))\<close>\<close>

definition device_at :: "Pci \<Rightarrow> PciAddress option \<Rightarrow> PciDevice option" where
  "device_at pci address = (case address of None \<Rightarrow> None | Some a \<Rightarrow> pci_find pci a)"

subsection \<open>Visibility of CPUs and interfaces\<close>

definition cpu_visibility :: "ExecutionContext \<Rightarrow> LogicalCpu \<Rightarrow> LogicalCpu" where
  "cpu_visibility exec lc =
     (let visible = ex_visible_logical_cpu_ids exec in
      lc\<lparr>lc_visible_to_current_process :=
        (if lc_online lc = Some False then Some False
         else if ex_cpu_visibility_known exec \<or> visible \<noteq> [] then Some (lc_id lc \<in> set visible)
         else None)\<rparr>)"

definition compute_cpu_visibility :: "Cpu \<Rightarrow> ExecutionContext \<Rightarrow> Cpu" where
  "compute_cpu_visibility cpu exec =
     cpu\<lparr>cpu_logical_cpus := map (cpu_visibility exec) (cpu_logical_cpus cpu)\<rparr>"

definition compute_network_visibility :: "Network \<Rightarrow> Network" where
  "compute_network_visibility net =
     net\<lparr>net_interfaces := map (\<lambda>i. i\<lparr>if_visible_to_current_process := True\<rparr>) (net_interfaces net)\<rparr>"

definition phantom_cpu :: "LogicalCpuId \<Rightarrow> string" where
  "phantom_cpu i = ''[visibility_mismatch] cpu_'' @ to_string (id_value i) @
     '': in_visible_logical_cpu_ids but cpu does not exist in model''"

definition restricted :: "string \<Rightarrow> nat \<Rightarrow> nat \<Rightarrow> string" where
  "restricted what all_count visible = ''[constraint] '' @ what @ '' visibility restricted: '' @
     to_string_nat all_count @ '' total, '' @ to_string_nat visible @ '' visible''"

definition cross_check_cpu_visibility :: "Cpu \<Rightarrow> ExecutionContext \<Rightarrow> string list \<Rightarrow> string list" where
  "cross_check_cpu_visibility cpu exec warnings =
     (let ids = ex_visible_logical_cpu_ids exec in
      if ids = [] then warnings
      else
        let model_ids = map lc_id (cpu_logical_cpus cpu) in
        warnings @ map phantom_cpu (filter (\<lambda>i. i \<notin> set model_ids) ids) @
        (if ids \<noteq> [] \<and> length ids < length (cpu_logical_cpus cpu)
         then [restricted ''cpu'' (length (cpu_logical_cpus cpu)) (length ids)] else []))"

definition cross_check_accelerator_visibility ::
  "Accelerators \<Rightarrow> ExecutionContext \<Rightarrow> string list \<Rightarrow> string list" where
  "cross_check_accelerator_visibility acc exec warnings =
     (let ids = ex_visible_accelerator_ids exec in
      if ids = [] then warnings
      else
        let model_ids = map acc_id (acc_devices acc) in
        warnings @ map phantom_accelerator (filter (\<lambda>i. i \<notin> set model_ids) ids) @
        (if ids \<noteq> [] \<and> length ids < length (acc_devices acc)
         then [restricted ''accelerator'' (length (acc_devices acc)) (length ids)] else []))"

subsection \<open>Links\<close>

definition controller_numa :: "Pci \<Rightarrow> MemoryController \<Rightarrow> MemoryController" where
  "controller_numa pci controller =
     (if mc_numa_node controller = None
      then (case device_at pci (mc_pci_address controller) of
              None \<Rightarrow> controller
            | Some device \<Rightarrow> controller\<lparr>mc_numa_node := pd_numa_node device\<rparr>)
      else controller)"

text \<open>The loop assigns on every match, so the last controller with the number decides.\<close>

definition numa_of_controller :: "MemoryController list \<Rightarrow> u32 \<Rightarrow> NumaNodeId option \<Rightarrow> NumaNodeId option" where
  "numa_of_controller controllers index node =
     fold (\<lambda>c node. if mc_index c = index then mc_numa_node c else node) controllers node"

definition dimm_numa :: "MemoryController list \<Rightarrow> DimmInfo \<Rightarrow> DimmInfo" where
  "dimm_numa controllers dimm =
     (case (dimm_numa_node dimm, dimm_controller_index dimm) of
        (None, Some index) \<Rightarrow>
          dimm\<lparr>dimm_numa_node := numa_of_controller controllers index (dimm_numa_node dimm)\<rparr>
      | _ \<Rightarrow> dimm)"

definition edac_numa :: "MemoryController list \<Rightarrow> EdacMemoryDevice \<Rightarrow> EdacMemoryDevice" where
  "edac_numa controllers device =
     (if ed_numa_node device = None
      then device\<lparr>ed_numa_node :=
        numa_of_controller controllers (ed_controller_index device) (ed_numa_node device)\<rparr>
      else device)"

definition link_memory :: "Pci \<Rightarrow> Memory \<Rightarrow> Memory" where
  "link_memory pci memory =
     (let controllers = map (controller_numa pci) (mem_controllers memory) in
      memory\<lparr>mem_controllers := controllers,
        mem_dimms := map (dimm_numa controllers) (mem_dimms memory),
        mem_edac_devices := map (edac_numa controllers) (mem_edac_devices memory)\<rparr>)"

definition link_rdma :: "Pci \<Rightarrow> RdmaDevice \<Rightarrow> RdmaDevice" where
  "link_rdma pci rdma =
     (case device_at pci (rd_pci_address rdma) of
        None \<Rightarrow> rdma
      | Some device \<Rightarrow>
          rdma\<lparr>rd_vendor := pd_vendor device, rd_device_name := pd_device_name device,
            rd_numa_node := pd_numa_node device,
            rd_driver := (if rd_driver rdma = [] then str_value (pd_driver_name device)
              else rd_driver rdma)\<rparr>)"

definition link_interface :: "Pci \<Rightarrow> NetworkInterface \<Rightarrow> NetworkInterface" where
  "link_interface pci iface =
     (case device_at pci (if_pci_address iface) of
        None \<Rightarrow> iface
      | Some device \<Rightarrow>
          iface\<lparr>if_vendor := pd_vendor device, if_device_name := pd_device_name device,
            if_numa_node := (if if_numa_node iface = None then pd_numa_node device
              else if_numa_node iface)\<rparr>)"

definition link_network :: "Pci \<Rightarrow> Network \<Rightarrow> Network" where
  "link_network pci net =
     net\<lparr>net_interfaces := map (link_interface pci) (net_interfaces net),
       net_rdma := (net_rdma net)\<lparr>ri_devices := map (link_rdma pci) (ri_devices (net_rdma net))\<rparr>\<rparr>"

definition link_storage :: "Pci \<Rightarrow> StorageDevice \<Rightarrow> StorageDevice" where
  "link_storage pci storage =
     (case device_at pci (st_pci_address storage) of
        None \<Rightarrow> storage
      | Some device \<Rightarrow>
          storage\<lparr>st_controller_name := str_value (pd_device_name device),
            st_numa_node := (if st_numa_node storage = None then pd_numa_node device
              else st_numa_node storage)\<rparr>)"

text \<open>A PCI device whose class is mass storage: base class 1 of the 24-bit class code.\<close>

definition class_code :: "PciDevice \<Rightarrow> u64 option" where
  "class_code device =
     (let report = str_value (pd_device_class device) in
      parse_hex (if prefix ''0x'' report \<or> prefix ''0X'' report then drop 2 report else report))"

definition storage_controller :: "PciDevice \<Rightarrow> StorageController option" where
  "storage_controller device =
     (case class_code device of
        None \<Rightarrow> None
      | Some code \<Rightarrow>
          if code > 0xffffff \<or> drop_bit 16 code \<noteq> 1 then None
          else Some \<lparr>sc_pci_address = pd_address device, sc_class_code = to_u32 code,
            sc_vendor = pd_vendor device, sc_model = pd_device_name device,
            sc_driver = str_value (pd_driver_name device), sc_numa_node = pd_numa_node device\<rparr>)"

definition nvme_numa :: "Pci \<Rightarrow> NvmeController \<Rightarrow> NvmeController" where
  "nvme_numa pci controller =
     (case device_at pci (nc_pci_address controller) of
        None \<Rightarrow> controller
      | Some device \<Rightarrow> controller\<lparr>nc_numa_node := pd_numa_node device\<rparr>)"

definition host_numa :: "Pci \<Rightarrow> ScsiHost \<Rightarrow> ScsiHost" where
  "host_numa pci host =
     (case device_at pci (sh_pci_address host) of
        None \<Rightarrow> host
      | Some device \<Rightarrow> host\<lparr>sh_numa_node := pd_numa_node device\<rparr>)"

definition resolve_storage_connections :: "Storage \<Rightarrow> Pci \<Rightarrow> Storage" where
  "resolve_storage_connections storage pci =
     storage\<lparr>
       storage_controllers := storage_controllers storage @
         List.map_filter storage_controller (pci_devices pci),
       storage_nvme_controllers := map (nvme_numa pci) (storage_nvme_controllers storage),
       storage_scsi_hosts := map (host_numa pci) (storage_scsi_hosts storage)\<rparr>"

subsection \<open>The resolver\<close>

definition resolved_storage :: "Storage option \<Rightarrow> Pci \<Rightarrow> Storage" where
  "resolved_storage parsed pci =
     (let storage = value_or_default Storage_default parsed;
          storage = (if parsed \<noteq> None then resolve_storage_connections storage pci else storage)
      in storage\<lparr>storage_devices := map (link_storage pci) (storage_devices storage)\<rparr>)"

definition resolve :: "ParseResult \<Rightarrow> string list \<Rightarrow> SystemInfo \<times> string list" where
  "resolve result warnings =
     (let pci = value_or_default Pci_default (pr_pci result);
          memory = link_memory pci (value_or_default Memory_default (pr_memory result));
          network = link_network pci (value_or_default Network_default (pr_network result));
          storage = resolved_storage (pr_storage result) pci;
          execution = value_or_default ExecutionContext_default (pr_execution result);
          cpu = compute_cpu_visibility (value_or_default Cpu_default (pr_cpu result)) execution;
          (accelerators, execution, warnings) =
            resolve_accelerator_visibility (value_or_default Accelerators_default (pr_accelerators result))
              execution (pr_accelerator_runtime_visibility result) warnings;
          network = compute_network_visibility network;
          warnings = cross_check_cpu_visibility cpu execution warnings;
          warnings = cross_check_accelerator_visibility accelerators execution warnings
      in (\<lparr>info_platform = value_or_default Platform_default (pr_platform result), info_cpu = cpu,
           info_memory = memory, info_accelerators = accelerators, info_network = network,
           info_storage = storage, info_pci = pci,
           info_software = value_or_default SoftwareStack_default (pr_software result),
           info_execution = execution,
           info_sensors = value_or_default Sensors_default (pr_sensors result),
           info_hardware_health = HardwareHealth_default\<rparr>,
          warnings))"

section \<open>Properties\<close>

lemma resolve_execution_ids:
  "ex_visible_logical_cpu_ids (fst (snd (resolve_accelerator_visibility accs execution runtime warnings))) =
     ex_visible_logical_cpu_ids execution"
  "ex_cpu_visibility_known (fst (snd (resolve_accelerator_visibility accs execution runtime warnings))) =
     ex_cpu_visibility_known execution"
  by (simp_all add: resolve_accelerator_visibility_def Let_def case_prod_unfold)

lemma resolve_parts:
  "info_cpu (fst (resolve result warnings)) =
     compute_cpu_visibility (value_or_default Cpu_default (pr_cpu result))
       (value_or_default ExecutionContext_default (pr_execution result))"
  "info_memory (fst (resolve result warnings)) =
     link_memory (value_or_default Pci_default (pr_pci result))
       (value_or_default Memory_default (pr_memory result))"
  "info_network (fst (resolve result warnings)) =
     compute_network_visibility (link_network (value_or_default Pci_default (pr_pci result))
       (value_or_default Network_default (pr_network result)))"
  "info_storage (fst (resolve result warnings)) =
     resolved_storage (pr_storage result) (value_or_default Pci_default (pr_pci result))"
  "info_accelerators (fst (resolve result warnings)) =
     fst (resolve_accelerator_visibility (value_or_default Accelerators_default (pr_accelerators result))
       (value_or_default ExecutionContext_default (pr_execution result))
       (pr_accelerator_runtime_visibility result) warnings)"
  "info_execution (fst (resolve result warnings)) =
     fst (snd (resolve_accelerator_visibility (value_or_default Accelerators_default (pr_accelerators result))
       (value_or_default ExecutionContext_default (pr_execution result))
       (pr_accelerator_runtime_visibility result) warnings))"
  "info_pci (fst (resolve result warnings)) = value_or_default Pci_default (pr_pci result)"
  by (simp_all add: resolve_def Let_def case_prod_unfold)

text \<open>a resolved CPU is visible to the process exactly when it is not offline and the affinity list
  names it; nothing is inferred without complete affinity evidence; and the resolver changes
  nothing else of the parsed CPU.
\<close>

theorem resolved_cpu_visibility:
  "let info = fst (resolve result warnings); exec = info_execution info; cpu = info_cpu info;
       ids = ex_visible_logical_cpu_ids exec; known = ex_cpu_visibility_known exec in
     list_all (\<lambda>c. (lc_visible_to_current_process c = Some True \<longleftrightarrow>
         lc_online c \<noteq> Some False \<and> lc_id c \<in> set ids) \<and>
       (lc_visible_to_current_process c = None \<longleftrightarrow>
         lc_online c \<noteq> Some False \<and> \<not> known \<and> ids = [])) (cpu_logical_cpus cpu) \<and>
     cpu\<lparr>cpu_logical_cpus := map (\<lambda>c. c\<lparr>lc_visible_to_current_process := None\<rparr>) (cpu_logical_cpus cpu)\<rparr> =
       (let parsed = value_or_default Cpu_default (pr_cpu result) in
        parsed\<lparr>cpu_logical_cpus :=
          map (\<lambda>c. c\<lparr>lc_visible_to_current_process := None\<rparr>) (cpu_logical_cpus parsed)\<rparr>)"
  unfolding Let_def resolve_parts resolve_execution_ids
  by (auto simp: compute_cpu_visibility_def cpu_visibility_def list_all_iff Let_def comp_def)

text \<open>C30: locality follows the PCI links: a known NUMA node of an interface, a block device or a memory
  controller is kept, and an unknown one is that of the PCI device with the same address; for an
  RDMA device the PCI device decides even against a known node.
\<close>

theorem resolved_numa_links:
  "let info = fst (resolve result warnings); pci = info_pci info;
       linked = (\<lambda>node address. case node of Some n \<Rightarrow> Some n
         | None \<Rightarrow> Option.bind (device_at pci address) pd_numa_node);
       net = value_or_default Network_default (pr_network result) in
     map if_numa_node (net_interfaces (info_network info)) =
       map (\<lambda>i. linked (if_numa_node i) (if_pci_address i)) (net_interfaces net) \<and>
     map st_numa_node (storage_devices (info_storage info)) =
       map (\<lambda>s. linked (st_numa_node s) (st_pci_address s))
         (storage_devices (value_or_default Storage_default (pr_storage result))) \<and>
     map mc_numa_node (mem_controllers (info_memory info)) =
       map (\<lambda>c. linked (mc_numa_node c) (mc_pci_address c))
         (mem_controllers (value_or_default Memory_default (pr_memory result))) \<and>
     map rd_numa_node (ri_devices (net_rdma (info_network info))) =
       map (\<lambda>r. case device_at pci (rd_pci_address r) of None \<Rightarrow> rd_numa_node r
          | Some d \<Rightarrow> pd_numa_node d) (ri_devices (net_rdma net))"
  unfolding Let_def resolve_parts
  by (simp add: compute_network_visibility_def link_network_def link_interface_def link_rdma_def
    resolved_storage_def resolve_storage_connections_def link_storage_def link_memory_def
    controller_numa_def Let_def comp_def split: option.split)

lemma filter_length_less: "length (filter P xs) < length xs \<longleftrightarrow> \<not> list_all P xs"
  using length_filter_all [of P xs] length_filter_le [of P xs] by linarith

text \<open>the cross-check reports every listed CPU that the model lacks and a restriction when fewer
  CPUs are listed than the model has; for accelerators it only reports that some but not all are
  visible, since the ids it checks were just written from the visible devices themselves.
\<close>

theorem resolve_cross_check:
  "let info = fst (resolve result warnings);
       exec = value_or_default ExecutionContext_default (pr_execution result);
       ids = ex_visible_logical_cpu_ids exec; cpus = cpu_logical_cpus (info_cpu info);
       devices = acc_devices (info_accelerators info) in
     snd (resolve result warnings) =
       snd (snd (resolve_accelerator_visibility
         (value_or_default Accelerators_default (pr_accelerators result)) exec
         (pr_accelerator_runtime_visibility result) warnings)) @
       map phantom_cpu (filter (\<lambda>i. i \<notin> lc_id ` set cpus) ids) @
       (if ids \<noteq> [] \<and> length ids < length cpus then [restricted ''cpu'' (length cpus) (length ids)] else []) @
       (if list_ex acc_visible_to_current_process devices \<and>
           \<not> list_all acc_visible_to_current_process devices
        then [restricted ''accelerator'' (length devices)
               (length (filter acc_visible_to_current_process devices))] else [])"
proof -
  let ?exec = "value_or_default ExecutionContext_default (pr_execution result)"
  obtain a e w where acc: "resolve_accelerator_visibility
      (value_or_default Accelerators_default (pr_accelerators result)) ?exec
      (pr_accelerator_runtime_visibility result) warnings = (a, e, w)"
    by (rule prod_cases3)
  have ids: "ex_visible_accelerator_ids e = visible_ids (acc_devices a)"
    using resolve_ids [of "value_or_default Accelerators_default (pr_accelerators result)" ?exec
      "pr_accelerator_runtime_visibility result" warnings] by (simp add: acc)
  have cpu_ids: "ex_visible_logical_cpu_ids e = ex_visible_logical_cpu_ids ?exec"
    using resolve_execution_ids(1) [of "value_or_default Accelerators_default (pr_accelerators result)"
      ?exec "pr_accelerator_runtime_visibility result" warnings] by (simp add: acc)
  have known: "filter (\<lambda>i. i \<notin> acc_id ` set (acc_devices a)) (visible_ids (acc_devices a)) = []"
    by (auto simp: visible_ids_def filter_empty_conv)
  have some: "filter acc_visible_to_current_process (acc_devices a) \<noteq> [] \<longleftrightarrow>
      list_ex acc_visible_to_current_process (acc_devices a)"
    by (auto simp: filter_empty_conv list_ex_iff)
  show ?thesis
    unfolding resolve_def Let_def acc
    by (simp add: cross_check_cpu_visibility_def cross_check_accelerator_visibility_def ids cpu_ids
      known Let_def image_set [symmetric] del: image_set)
      (simp add: visible_ids_def filter_length_less flip: some)
qed

end
