(* ===== verification/Storage_Links.thy ===== *)
theory Storage_Links
  imports Mountinfo
begin

text \<open>
  \<open>src/parser/storage_connections.cpp\<close> and \<open>src/parser/storage_topology.cpp\<close>: the NVMe controllers
  and SCSI hosts of sysfs, the connection of each block device to them, and the mounts of the block
  devices. \<open>Inventory\<close>, a \<open>std::map\<close> of \<open>std::map\<close>s, groups the attributes of a class by device. A
  device vector that is updated through an index keeps its length and order.
\<close>

section \<open>Attributes of the connections\<close>

type_synonym ConnAttributes = "(string, string) std_map"
type_synonym ConnInventory = "(string, ConnAttributes) std_map"

definition connection_record :: "string \<Rightarrow> RawRecord \<Rightarrow> ConnInventory \<Rightarrow> ConnInventory" where
  "connection_record root r groups =
     (if rec_status r \<noteq> Success \<or> \<not> prefix root (rec_path_or_command r) then groups
      else let tail = drop (length root) (rec_path_or_command r) in
        case find_char (CHR ''/'') tail of
          None \<Rightarrow> groups
        | Some slash \<Rightarrow>
            if slash = 0 then groups
            else map_update (take slash tail) [] (map_put (drop (slash + 1) tail) (trim (rec_payload r))) groups)"

definition connection_inventory :: "RawStore \<Rightarrow> string \<Rightarrow> ConnInventory" where
  "connection_inventory raw root = fold (connection_record root) (get_all raw SysfsStorageConnections) []"

definition conn_attribute :: "ConnAttributes \<Rightarrow> string \<Rightarrow> string" where
  "conn_attribute attributes key = (case map_of attributes key of None \<Rightarrow> [] | Some value \<Rightarrow> value)"

definition conn_number :: "string \<Rightarrow> u32 option" where
  "conn_number s =
     (case parse_uint s of None \<Rightarrow> None | Some parsed \<Rightarrow> if parsed > u32_max then None else Some (to_u32 parsed))"

definition numbered :: "string \<Rightarrow> string \<Rightarrow> u32 option" where
  "numbered s stem = (if prefix stem s then conn_number (drop (length stem) s) else None)"

definition ancestor_pci :: "string \<Rightarrow> PciAddress option" where
  "ancestor_pci path =
     fold (\<lambda>part address. case parse_pci_address part of Some parsed \<Rightarrow> Some parsed | None \<Rightarrow> address)
       (split path (CHR ''/'')) None"

definition ata_port :: "string \<Rightarrow> AtaPortNumber option" where
  "ata_port path =
     (case List.map_filter (\<lambda>part. numbered part ''ata'') (split path (CHR ''/'')) of
        [] \<Rightarrow> None | port # _ \<Rightarrow> Some (StrongId port))"

definition scsi_address :: "string \<Rightarrow> ScsiAddress option" where
  "scsi_address path =
     (case split (extract_filename path) (CHR '':'') of
        [p0, p1, p2, p3] \<Rightarrow>
          (case (conn_number p0, conn_number p1, conn_number p2, parse_uint p3) of
             (Some host, Some channel, Some target, Some lun) \<Rightarrow>
               Some \<lparr>sa_host = StrongId host, sa_channel = StrongId channel,
                 sa_target = StrongId target, sa_lun = StrongId lun\<rparr>
           | _ \<Rightarrow> None)
      | _ \<Rightarrow> None)"

definition nvme_identifier :: "string \<Rightarrow> string" where
  "nvme_identifier s =
     (let cleaned = hardware_text s in
      if list_all (\<lambda>c. c \<in> set [CHR ''0'', CHR '' '', CHR ''-'', CHR '':'', CHR 0x09, CHR 0x0A]) cleaned
      then [] else cleaned)"

section \<open>Controllers, hosts and block devices\<close>

definition reaches :: "string \<Rightarrow> string \<Rightarrow> bool" where
  "reaches canonical path \<longleftrightarrow>
     canonical \<noteq> [] \<and> (path = canonical \<or> prefix (canonical @ ''/'') path)"

definition attach_step ::
  "string \<Rightarrow> string \<times> ConnAttributes \<Rightarrow> NvmeControllerName list \<Rightarrow> NvmeControllerName list" where
  "attach_step path = (\<lambda>(name, attributes) controllers.
     if numbered name ''nvme'' = None \<or> \<not> reaches (conn_attribute attributes ''sysfs_path'') path
     then controllers
     else if list_ex (\<lambda>item. str_value item = name) controllers then controllers
     else controllers @ [NamedString name])"

definition attach_controller ::
  "ConnInventory \<Rightarrow> string \<Rightarrow> NvmeControllerName list \<Rightarrow> NvmeControllerName list" where
  "attach_controller controllers path names = fold (attach_step path) controllers names"

definition nvme_namespace :: "u32 \<Rightarrow> string \<Rightarrow> ConnAttributes \<Rightarrow> ConnInventory \<Rightarrow> NvmeNamespaceInfo" where
  "nvme_namespace nsid path attributes controllers =
     (let names = attach_controller controllers path [];
          names = fold (\<lambda>(field, target). if prefix ''multipath/'' field
            then attach_controller controllers target else (\<lambda>names. names)) attributes names
      in \<lparr>nsi_id = StrongId nsid, nsi_nguid = nvme_identifier (conn_attribute attributes ''nguid''),
          nsi_eui = nvme_identifier (conn_attribute attributes ''eui''),
          nsi_controllers = sort_key str_value names\<rparr>)"

definition apply_block :: "ConnAttributes \<Rightarrow> ConnInventory \<Rightarrow> StorageDevice \<Rightarrow> StorageDevice" where
  "apply_block attributes controllers device =
     (let path = conn_attribute attributes ''device_path'';
          scsi = (case scsi_address path of
              None \<Rightarrow> device
            | Some address \<Rightarrow> device\<lparr>st_scsi_device := Some
                \<lparr>sd_address = address, sd_peripheral_type = conn_number (conn_attribute attributes ''device/type''),
                 sd_state = hardware_text (conn_attribute attributes ''device/state'')\<rparr>\<rparr>)
      in case conn_number (conn_attribute attributes ''nsid'') of
           None \<Rightarrow> scsi
         | Some nsid \<Rightarrow>
             if nsid \<noteq> 0
             then device\<lparr>st_nvme_namespace := Some (nvme_namespace nsid path attributes controllers)\<rparr>
             else scsi)"

definition nvme_controller :: "string \<times> ConnAttributes \<Rightarrow> NvmeController option" where
  "nvme_controller = (\<lambda>(name, attributes).
     if numbered name ''nvme'' = None then None
     else let text = (\<lambda>key. hardware_text (conn_attribute attributes key)) in
       Some \<lparr>nc_name = NamedString name, nc_transport = text ''transport'', nc_address = text ''address'',
         nc_model = text ''model'', nc_serial = text ''serial'', nc_firmware_revision = text ''firmware_rev'',
         nc_state = text ''state'',
         nc_controller_id = (case conn_number (conn_attribute attributes ''cntlid'') of
             None \<Rightarrow> None | Some n \<Rightarrow> if n \<le> 0xffff then Some (StrongId (ucast n)) else None),
         nc_subsystem_nqn = text ''subsysnqn'',
         nc_pci_address = ancestor_pci (conn_attribute attributes ''sysfs_path''), nc_numa_node = None\<rparr>)"

definition scsi_host :: "string \<times> ConnAttributes \<Rightarrow> ScsiHost option" where
  "scsi_host = (\<lambda>(name, attributes).
     case numbered name ''host'' of
       None \<Rightarrow> None
     | Some index \<Rightarrow>
         let text = (\<lambda>key. hardware_text (conn_attribute attributes key));
             path = conn_attribute attributes ''sysfs_path''
         in Some \<lparr>sh_number = StrongId index, sh_proc_name = text ''proc_name'', sh_state = text ''state'',
              sh_supported_mode = text ''supported_mode'', sh_active_mode = text ''active_mode'',
              sh_pci_address = ancestor_pci path, sh_numa_node = None, sh_ata_port = ata_port path\<rparr>)"

definition connect_block :: "ConnInventory \<Rightarrow> ConnInventory \<Rightarrow> StorageDevice \<Rightarrow> StorageDevice" where
  "connect_block blocks nvme device =
     (if st_partition_number device \<noteq> None then device
      else case map_of blocks (str_value (st_name device)) of
        None \<Rightarrow> device
      | Some attributes \<Rightarrow> apply_block attributes nvme device)"

definition apply_storage_connections :: "RawStore \<Rightarrow> Storage \<Rightarrow> Storage" where
  "apply_storage_connections raw storage =
     (let nvme = connection_inventory raw ''/sys/class/nvme/'';
          hosts = connection_inventory raw ''/sys/class/scsi_host/'';
          blocks = connection_inventory raw ''/sys/class/block/''
      in storage\<lparr>
           storage_nvme_controllers := storage_nvme_controllers storage @ List.map_filter nvme_controller nvme,
           storage_scsi_hosts := sort_key (\<lambda>host. id_value (sh_number host))
             (storage_scsi_hosts storage @ List.map_filter scsi_host hosts),
           storage_devices := map (connect_block blocks nvme) (storage_devices storage)\<rparr>)"

section \<open>Mounts of the block devices\<close>

type_synonym NumberIndex = "(u32 \<times> u32, nat) std_map"

definition number_key :: "DeviceNumber \<Rightarrow> u32 \<times> u32" where
  "number_key n = (dev_major n, dev_minor n)"

definition index_number :: "nat \<times> StorageDevice \<Rightarrow> NumberIndex \<Rightarrow> NumberIndex" where
  "index_number = (\<lambda>(i, device) numbers. case st_device_number device of
     None \<Rightarrow> numbers | Some n \<Rightarrow> map_put (number_key n) i numbers)"

definition unmounted :: "StorageDevice \<Rightarrow> StorageDevice" where
  "unmounted device = device\<lparr>st_mount_point := None, st_fs_type := None\<rparr>"

definition mount_block :: "StorageMount \<Rightarrow> StorageDevice \<Rightarrow> StorageDevice" where
  "mount_block mount block =
     (if st_mount_point block = None \<or> str_value (sm_path mount) = ''/''
      then block\<lparr>st_mount_point := Some (sm_path mount), st_fs_type := Some (sm_filesystem mount)\<rparr>
      else block)"

definition link_mount :: "NumberIndex \<Rightarrow> StorageMount \<Rightarrow> StorageDevice list \<times> StorageMount list \<Rightarrow>
    StorageDevice list \<times> StorageMount list" where
  "link_mount numbers mount = (\<lambda>(devices, mounts).
     case map_of numbers (number_key (sm_device_number mount)) of
       None \<Rightarrow> (devices, mounts @ [mount])
     | Some i \<Rightarrow> (devices[i := mount_block mount (devices ! i)],
         mounts @ [mount\<lparr>sm_block_device := Some (st_name (devices ! i))\<rparr>]))"

definition apply_storage_mounts :: "RawStore \<Rightarrow> Storage \<Rightarrow> string list \<Rightarrow> Storage \<times> string list" where
  "apply_storage_mounts raw storage warnings =
     (case find (\<lambda>r. rec_status r = Success) (get_all raw StorageMountInfo) of
        None \<Rightarrow> (storage, warnings)
      | Some r \<Rightarrow>
          let (mounts, warnings) = parse_mountinfo (rec_payload r) warnings;
              devices = map unmounted (storage_devices storage);
              numbers = fold index_number (enumerate 0 devices) [];
              (devices, mounts) = fold (link_mount numbers) mounts (devices, [])
          in (storage\<lparr>storage_devices := devices, storage_mounts := mounts\<rparr>, warnings))"

section \<open>SCSI addresses are read as printed\<close>

definition scsi_name :: "ScsiAddress \<Rightarrow> string" where
  "scsi_name a = join (CHR '':'') [to_string (id_value (sa_host a)), to_string (id_value (sa_channel a)),
     to_string (id_value (sa_target a)), to_string (id_value (sa_lun a))]"

lemma conn_number_print [simp]: "conn_number (to_string v) = Some v"
  using decimal_u32.parse_print [of v] by (auto simp: conn_number_def parse_u32_def split: option.splits if_splits)

lemma to_string_digits: "c \<in> set (to_string v) \<Longrightarrow> is_digit c"
  using print_base_digits [of 10 "unat v"]
  by (auto simp: to_string_def to_string_nat_def list_all_iff is_digit_digit_in)

lemma to_string_no_slash [simp]: "CHR ''/'' \<notin> set (to_string v)"
proof -
  have "\<not> is_digit (CHR ''/'')" by code_simp
  then show ?thesis using to_string_digits by blast
qed

lemma scsi_name_no_slash: "CHR ''/'' \<notin> set (scsi_name a)"
  by (simp add: scsi_name_def)

lemma split_scsi_name:
  "split (scsi_name a) (CHR '':'') = [to_string (id_value (sa_host a)), to_string (id_value (sa_channel a)),
     to_string (id_value (sa_target a)), to_string (id_value (sa_lun a))]"
  unfolding scsi_name_def by (rule split_join) (simp_all add: to_string_no_colon)

lemma scsi_address_name: "extract_filename path = scsi_name a \<Longrightarrow> scsi_address path = Some a"
  by (simp add: scsi_address_def split_scsi_name decimal_u64.parse_print)

interpretation scsi_codec: codec scsi_name scsi_address
proof
  fix a
  have "extract_filename (scsi_name a) = scsi_name a"
    by (simp add: extract_filename_def rfind_char_None_iff [THEN iffD2] scsi_name_no_slash)
  then show "scsi_address (scsi_name a) = Some a" by (rule scsi_address_name)
qed

text \<open>
  the SCSI address of a block device is the last component of its device path, whatever
  the directory: the kernel's spelling of an address is read back exactly.
\<close>

theorem scsi_path_roundtrip: "scsi_address (directory @ ''/'' @ scsi_name a) = Some a"
  by (rule scsi_address_name) (simp add: extract_filename_def rfind_char_append scsi_name_no_slash)

section \<open>Controllers\<close>

text \<open>The devices of a class that have a readable attribute.\<close>

definition connection_names :: "RawStore \<Rightarrow> string \<Rightarrow> string set" where
  "connection_names raw root =
     {name. name \<noteq> [] \<and> CHR ''/'' \<notin> set name \<and>
        (\<exists>r \<in> set (get_all raw SysfsStorageConnections). \<exists>field.
           rec_status r = Success \<and> rec_path_or_command r = root @ name @ ''/'' @ field)}"

lemma connection_record_keys:
  "fst ` set (connection_record root r groups) =
     fst ` set groups \<union> {name. name \<noteq> [] \<and> CHR ''/'' \<notin> set name \<and>
        (\<exists>field. rec_status r = Success \<and> rec_path_or_command r = root @ name @ ''/'' @ field)}"
proof (cases "rec_status r = Success \<and> prefix root (rec_path_or_command r)")
  case False
  then show ?thesis by (auto simp: connection_record_def prefix_def)
next
  case True
  then obtain tail where tail: "rec_path_or_command r = root @ tail" by (auto simp: prefix_def)
  show ?thesis
  proof (cases "find_char (CHR ''/'') tail")
    case None
    then show ?thesis using True tail
      by (auto simp: connection_record_def find_char_None_iff)
  next
    case (Some i)
    have split: "tail = take i tail @ CHR ''/'' # drop (Suc i) tail" and no: "CHR ''/'' \<notin> set (take i tail)"
      and len: "i < length tail"
      using find_char_Some [OF Some] find_char_less [OF Some] by (auto simp: id_take_nth_drop)
    have first: "name = take i tail" if "tail = name @ CHR ''/'' # field" "CHR ''/'' \<notin> set name" for name field
      using find_char_append [OF that(2), of field] Some that(1) by simp
    have zero: "i = 0 \<longleftrightarrow> take i tail = []" using len by (cases tail) auto
    have "{name. name \<noteq> [] \<and> CHR ''/'' \<notin> set name \<and> (\<exists>field. tail = name @ CHR ''/'' # field)} =
        (if i = 0 then {} else {take i tail})" (is "?names = _")
    proof (intro equalityI subsetI)
      fix name
      assume "name \<in> ?names"
      then obtain field where "tail = name @ CHR ''/'' # field" "CHR ''/'' \<notin> set name" "name \<noteq> []"
        by auto
      then have "name = take i tail" "name \<noteq> []" using first [of name field] by simp_all
      moreover from this have "i \<noteq> 0" by (metis take0)
      ultimately show "name \<in> (if i = 0 then {} else {take i tail})" by (simp only: if_False singleton_iff)
    next
      fix name
      assume "name \<in> (if i = 0 then {} else {take i tail})"
      then have "i \<noteq> 0" "name = take i tail" by (auto split: if_splits)
      with zero no have "name \<noteq> []" "CHR ''/'' \<notin> set name" by metis+
      moreover have "tail = name @ CHR ''/'' # drop (Suc i) tail" using split \<open>name = take i tail\<close> by simp
      ultimately show "name \<in> ?names" by blast
    qed
    moreover have "fst ` set (connection_record root r groups) =
        fst ` set groups \<union> (if i = 0 then {} else {take i tail})"
      using True tail by (simp add: connection_record_def Some)
    ultimately show ?thesis using True tail by simp
  qed
qed

lemma connection_record_invar: "map_invar groups \<Longrightarrow> map_invar (connection_record root r groups)"
  by (auto simp: connection_record_def Let_def split: option.split)

lemma connection_inventory_invar: "map_invar (connection_inventory raw root)"
  unfolding connection_inventory_def
  by (rule fold_invariant_set [where P = map_invar]) (simp_all add: connection_record_invar)

lemma connection_inventory_keys: "fst ` set (connection_inventory raw root) = connection_names raw root"
proof -
  have "fst ` set (fold (connection_record root) rs groups) =
      fst ` set groups \<union> {name. name \<noteq> [] \<and> CHR ''/'' \<notin> set name \<and> (\<exists>r \<in> set rs. \<exists>field.
           rec_status r = Success \<and> rec_path_or_command r = root @ name @ ''/'' @ field)}" for rs groups
    by (induction rs arbitrary: groups) (auto simp: connection_record_keys)
  then show ?thesis by (simp add: connection_inventory_def connection_names_def)
qed

lemma map_filter_keys:
  assumes "\<And>k v. f (k, v) = None \<longleftrightarrow> \<not> P k" and "\<And>k v x. f (k, v) = Some x \<Longrightarrow> g x = k"
  shows "map g (List.map_filter f m) = filter P (map fst m)"
proof (induction m)
  case Nil
  then show ?case by (simp add: List.map_filter_simps)
next
  case (Cons e m)
  obtain k v where e: "e = (k, v)" by (cases e)
  show ?case
    using Cons assms(1) [of k v] assms(2) [of k v]
    by (cases "f (k, v)") (auto simp: e List.map_filter_simps)
qed

lemma set_map_filter: "y \<in> set (List.map_filter f xs) \<longleftrightarrow> (\<exists>x \<in> set xs. f x = Some y)"
  by (force simp: List.map_filter_def)

lemma sorted_keys_unique:
  assumes "map_invar m"
  shows "filter P (map fst m) = sorted_list_of_set {k \<in> fst ` set m. P k}"
proof -
  have "sorted_wrt (<) (filter P (map fst m))"
    using assms by (simp add: map_invar_def sorted_wrt_filter)
  moreover have "set (filter P (map fst m)) = {k \<in> fst ` set m. P k}" by auto
  ultimately show ?thesis
    by (metis List.finite_set sorted_list_of_set.idem_if_sorted_distinct strict_sorted_iff)
qed

text \<open>
  the NVMe controllers added are exactly the devices of the NVMe class with a readable attribute
  and a controller's name, each once and in name order; the SCSI hosts are exactly the numbered
  hosts, in the order of their numbers.
\<close>

theorem storage_controllers_exact:
  "let storage' = apply_storage_connections raw storage in
     map (str_value \<circ> nc_name) (storage_nvme_controllers storage') =
       map (str_value \<circ> nc_name) (storage_nvme_controllers storage) @
       sorted_list_of_set {n \<in> connection_names raw ''/sys/class/nvme/''. numbered n ''nvme'' \<noteq> None} \<and>
     sorted (map (id_value \<circ> sh_number) (storage_scsi_hosts storage')) \<and>
     id_value ` sh_number ` set (storage_scsi_hosts storage') =
       id_value ` sh_number ` set (storage_scsi_hosts storage) \<union>
       {n. \<exists>name \<in> connection_names raw ''/sys/class/scsi_host/''. numbered name ''host'' = Some n}"
proof -
  let ?nvme = "connection_inventory raw ''/sys/class/nvme/''"
  let ?hosts = "connection_inventory raw ''/sys/class/scsi_host/''"
  have names: "map (str_value \<circ> nc_name) (List.map_filter nvme_controller ?nvme) =
      sorted_list_of_set {n \<in> connection_names raw ''/sys/class/nvme/''. numbered n ''nvme'' \<noteq> None}"
  proof -
    have "map (str_value \<circ> nc_name) (List.map_filter nvme_controller ?nvme) =
        filter (\<lambda>n. numbered n ''nvme'' \<noteq> None) (map fst ?nvme)"
      by (rule map_filter_keys) (auto simp: nvme_controller_def Let_def split: if_splits)
    then show ?thesis
      by (simp only: sorted_keys_unique [OF connection_inventory_invar] connection_inventory_keys)
  qed
  have host: "scsi_host e = None \<longleftrightarrow> numbered (fst e) ''host'' = None"
    "scsi_host e = Some h \<Longrightarrow> numbered (fst e) ''host'' = Some (id_value (sh_number h))" for e h
    by (auto simp: scsi_host_def Let_def split: option.splits prod.splits)
  have "id_value ` sh_number ` set (List.map_filter scsi_host ?hosts) =
      {n. \<exists>name \<in> fst ` set ?hosts. numbered name ''host'' = Some n}" (is "?l = ?r")
  proof (intro equalityI subsetI)
    fix n
    assume "n \<in> ?l"
    then obtain h e where "n = id_value (sh_number h)" "e \<in> set ?hosts" "scsi_host e = Some h"
      by (auto simp: set_map_filter)
    with host(2) [of e h] show "n \<in> ?r" by auto
  next
    fix n
    assume "n \<in> ?r"
    then obtain e where e: "e \<in> set ?hosts" "numbered (fst e) ''host'' = Some n" by auto
    then obtain h where "scsi_host e = Some h" using host(1) [of e] by (cases "scsi_host e") auto
    with e host(2) [of e h] have "n = id_value (sh_number h)" "h \<in> set (List.map_filter scsi_host ?hosts)"
      by (auto simp: set_map_filter)
    then show "n \<in> ?l" by blast
  qed
  with names show ?thesis
    by (simp add: apply_storage_connections_def Let_def image_Un connection_inventory_keys comp_def)
qed

text \<open>The names of the controllers below which one of the paths lies.\<close>

definition reached_controllers :: "ConnInventory \<Rightarrow> string set \<Rightarrow> string set" where
  "reached_controllers controllers paths =
     {name. \<exists>attributes. (name, attributes) \<in> set controllers \<and> numbered name ''nvme'' \<noteq> None \<and>
        (\<exists>path \<in> paths. reaches (conn_attribute attributes ''sysfs_path'') path)}"

definition named_once :: "string set \<Rightarrow> NvmeControllerName list \<Rightarrow> bool" where
  "named_once names ns \<longleftrightarrow> distinct (map str_value ns) \<and> str_value ` set ns = names"

lemma attach_step_named:
  assumes "named_once names ns"
  shows "named_once (names \<union> reached_controllers [e] {path}) (attach_step path e ns)"
proof -
  obtain name attributes where e: "e = (name, attributes)" by (cases e)
  have listed: "list_ex (\<lambda>item. str_value item = name) ns \<longleftrightarrow> name \<in> names"
    using assms by (auto simp: named_once_def list_ex_iff)
  have one: "reached_controllers [e] {path} =
      (if numbered name ''nvme'' \<noteq> None \<and> reaches (conn_attribute attributes ''sysfs_path'') path
       then {name} else {})"
    by (auto simp: reached_controllers_def e)
  show ?thesis
    using assms unfolding one by (auto simp: attach_step_def e listed named_once_def)
qed

lemma attach_controller_named:
  assumes "named_once names ns"
  shows "named_once (names \<union> reached_controllers controllers {path}) (attach_controller controllers path ns)"
  unfolding attach_controller_def
  using assms
proof (induction controllers arbitrary: names ns)
  case Nil
  then show ?case by (simp add: reached_controllers_def)
next
  case (Cons e controllers)
  have "reached_controllers (e # controllers) {path} =
      reached_controllers [e] {path} \<union> reached_controllers controllers {path}"
    by (auto simp: reached_controllers_def)
  with Cons.IH [OF attach_step_named [OF Cons.prems, of e path]] show ?case
    by (simp add: Un_assoc)
qed

definition multipath_targets :: "ConnAttributes \<Rightarrow> string set" where
  "multipath_targets attributes = {target. \<exists>field. (field, target) \<in> set attributes \<and> prefix ''multipath/'' field}"

lemma multipath_named:
  "named_once names ns \<Longrightarrow> named_once (names \<union> reached_controllers controllers (multipath_targets attributes))
     (fold (\<lambda>(field, target). if prefix ''multipath/'' field
        then attach_controller controllers target else (\<lambda>names. names)) attributes ns)"
proof (induction attributes arbitrary: names ns)
  case Nil
  then show ?case by (simp add: reached_controllers_def multipath_targets_def)
next
  case (Cons e attributes)
  obtain field target where e: "e = (field, target)" by (cases e)
  show ?case
  proof (cases "prefix ''multipath/'' field")
    case True
    then have "multipath_targets (e # attributes) = insert target (multipath_targets attributes)"
      by (auto simp: multipath_targets_def e)
    then have "reached_controllers controllers (multipath_targets (e # attributes)) =
        reached_controllers controllers {target} \<union> reached_controllers controllers (multipath_targets attributes)"
      by (auto simp: reached_controllers_def)
    with Cons.IH [OF attach_controller_named [OF Cons.prems, of controllers target]] True show ?thesis
      by (simp add: e Un_assoc)
  next
    case False
    then have "multipath_targets (e # attributes) = multipath_targets attributes"
      by (auto simp: multipath_targets_def e)
    with Cons False show ?thesis by (simp add: e)
  qed
qed

text \<open>C31: an NVMe namespace lists exactly the controllers its device path or one of its multipath
  targets lies below, each once and in name order; a controller whose path is merely a prefix of
  the text, as nvme1 of nvme10, is not one of them.
\<close>

theorem namespace_controllers_exact:
  "map str_value (nsi_controllers (nvme_namespace nsid path attributes controllers)) =
     sorted_list_of_set (reached_controllers controllers (insert path (multipath_targets attributes)))"
proof -
  define ns where "ns = fold (\<lambda>(field, target). if prefix ''multipath/'' field
      then attach_controller controllers target else (\<lambda>names. names)) attributes
      (attach_controller controllers path [])"
  have "named_once {} []" by (simp add: named_once_def)
  from multipath_named [OF attach_controller_named [OF this, of controllers path], of controllers attributes]
  have "named_once (reached_controllers controllers (insert path (multipath_targets attributes))) ns"
  proof -
    have "reached_controllers controllers (insert path (multipath_targets attributes)) =
        {} \<union> reached_controllers controllers {path} \<union> reached_controllers controllers (multipath_targets attributes)"
      by (auto simp: reached_controllers_def)
    then show ?thesis
      using multipath_named [OF attach_controller_named [OF \<open>named_once {} []\<close>, of controllers path],
        of controllers attributes] by (simp add: ns_def)
  qed
  then have "distinct (map str_value (sort_key str_value ns))"
    "set (map str_value (sort_key str_value ns)) = reached_controllers controllers (insert path (multipath_targets attributes))"
    "sorted (map str_value (sort_key str_value ns))"
    by (simp_all add: named_once_def distinct_map)
  then have "map str_value (sort_key str_value ns) =
      sorted_list_of_set (reached_controllers controllers (insert path (multipath_targets attributes)))"
    by (metis sorted_list_of_set.idem_if_sorted_distinct)
  then show ?thesis by (simp add: nvme_namespace_def Let_def ns_def)
qed

section \<open>Mounts\<close>

text \<open>
  The device a mount belongs to is the last one with its number; of the mounts of a device the last
  one at the root directory represents it, or else the first.
\<close>

definition owner :: "StorageDevice list \<Rightarrow> DeviceNumber \<Rightarrow> nat option" where
  "owner devices n =
     (case filter (\<lambda>i. st_device_number (devices ! i) = Some n) [0..<length devices] of
        [] \<Rightarrow> None | is \<Rightarrow> Some (List.last is))"

definition representative :: "StorageMount list \<Rightarrow> StorageMount option" where
  "representative mounts =
     (case filter (\<lambda>m. str_value (sm_path m) = ''/'') mounts of
        [] \<Rightarrow> (case mounts of [] \<Rightarrow> None | m # _ \<Rightarrow> Some m)
      | roots \<Rightarrow> Some (List.last roots))"

definition mounted_as :: "StorageMount option \<Rightarrow> StorageDevice \<Rightarrow> StorageDevice" where
  "mounted_as m device = (case m of None \<Rightarrow> device
     | Some m \<Rightarrow> device\<lparr>st_mount_point := Some (sm_path m), st_fs_type := Some (sm_filesystem m)\<rparr>)"

lemma case_last: "(case xs of [] \<Rightarrow> d | ys \<Rightarrow> Some (List.last ys)) = (if xs = [] then d else Some (List.last xs))"
  by (cases xs) simp_all

lemma number_key_eq [simp]: "number_key n = number_key n' \<longleftrightarrow> n = n'"
  by (cases n; cases n') (simp add: number_key_def)

lemma index_number_invar: "map_invar (fold index_number es [])"
  by (rule fold_invariant_set [where P = map_invar])
    (auto simp: index_number_def split: option.split prod.split)

lemma index_numbers: "map_of (fold index_number (enumerate 0 devices) []) (number_key n) = owner devices n"
proof (induction devices rule: rev_induct)
  case Nil
  then show ?case by (simp add: owner_def)
next
  case (snoc d ds)
  have "filter (\<lambda>i. st_device_number ((ds @ [d]) ! i) = Some n) [0..<length ds] =
      filter (\<lambda>i. st_device_number (ds ! i) = Some n) [0..<length ds]"
    by (rule filter_cong) (simp_all add: nth_append)
  then have "owner (ds @ [d]) n =
      (if st_device_number d = Some n then Some (length ds) else owner ds n)"
    by (simp add: owner_def case_last)
  moreover have "fold index_number (enumerate 0 (ds @ [d])) [] =
      index_number (length ds, d) (fold index_number (enumerate 0 ds) [])"
    by (simp add: enumerate_append_eq)
  ultimately show ?case
    using snoc map_of_put [OF index_number_invar [of "enumerate 0 ds"]]
    by (auto simp: index_number_def split: option.split)
qed

lemma mount_block_fields [simp]:
  "st_name (mount_block m d) = st_name d" "st_device_number (mount_block m d) = st_device_number d"
  by (simp_all add: mount_block_def)

lemma mount_blocks: "st_mount_point d = None \<Longrightarrow> st_fs_type d = None \<Longrightarrow>
    fold mount_block mounts d = mounted_as (representative mounts) d"
proof (induction mounts rule: rev_induct)
  case Nil
  then show ?case by (simp add: representative_def mounted_as_def)
next
  case (snoc m mounts)
  have "representative (mounts @ [m]) =
      (if str_value (sm_path m) = ''/'' \<or> mounts = [] then Some m else representative mounts)"
    by (cases mounts) (auto simp: representative_def case_last)
  moreover have "representative mounts = None \<longleftrightarrow> mounts = []"
    by (auto simp: representative_def case_last split: list.splits)
  ultimately show ?case
    using snoc by (auto simp: mount_block_def mounted_as_def split: option.splits)
qed

lemma link_mounts:
  "fold (link_mount numbers) ms (ds, acc) =
     (map (\<lambda>i. fold mount_block (filter (\<lambda>m. map_of numbers (number_key (sm_device_number m)) = Some i) ms) (ds ! i))
        [0..<length ds],
      acc @ map (\<lambda>m. case map_of numbers (number_key (sm_device_number m)) of None \<Rightarrow> m
        | Some i \<Rightarrow> m\<lparr>sm_block_device := Some (st_name (ds ! i))\<rparr>) ms)"
proof (induction ms arbitrary: ds acc)
  case Nil
  then show ?case by (simp add: map_nth)
next
  case (Cons m ms)
  show ?case
  proof (cases "map_of numbers (number_key (sm_device_number m))")
    case None
    then have "link_mount numbers m (ds, acc) = (ds, acc @ [m])" by (simp add: link_mount_def)
    with None show ?thesis by (simp add: Cons.IH)
  next
    case (Some i)
    have "st_name (ds[i := mount_block m (ds ! i)] ! j) = st_name (ds ! j)" for j
      by (cases "j = i"; cases "i < length ds") (simp_all add: not_less list_update_beyond)
    moreover have "link_mount numbers m (ds, acc) = (ds[i := mount_block m (ds ! i)],
        acc @ [m\<lparr>sm_block_device := Some (st_name (ds ! i))\<rparr>])"
      using Some by (simp add: link_mount_def)
    ultimately show ?thesis
      using Some by (auto simp: Cons.IH nth_list_update cong: option.case_cong)
  qed
qed

lemma owner_unmounted: "owner (map unmounted devices) n = owner devices n"
proof -
  have "filter (\<lambda>i. st_device_number (map unmounted devices ! i) = Some n) [0..<length devices] =
      filter (\<lambda>i. st_device_number (devices ! i) = Some n) [0..<length devices]"
    by (rule filter_cong) (simp_all add: unmounted_def)
  then show ?thesis by (simp add: owner_def)
qed

text \<open>with a readable mount table, every mount is kept and names the block device that owns its
  device number; every block device shows the mount at the root directory if it has one and its
  first mount otherwise, and no mount of the old evidence is left over. Without one nothing changes.
\<close>

theorem mounts_linked:
  "let devices = storage_devices storage; (storage', warnings') = apply_storage_mounts raw storage warnings in
     case find (\<lambda>r. rec_status r = Success) (get_all raw StorageMountInfo) of
       None \<Rightarrow> storage' = storage \<and> warnings' = warnings
     | Some r \<Rightarrow>
         let mounts = fst (parse_mountinfo (rec_payload r) warnings);
             own = (\<lambda>m. owner devices (sm_device_number m)) in
         storage_mounts storage' = map (\<lambda>m. case own m of None \<Rightarrow> m
           | Some i \<Rightarrow> m\<lparr>sm_block_device := Some (st_name (devices ! i))\<rparr>) mounts \<and>
         storage_devices storage' = map (\<lambda>i. mounted_as (representative (filter (\<lambda>m. own m = Some i) mounts))
           (unmounted (devices ! i))) [0..<length devices]"
proof (cases "find (\<lambda>r. rec_status r = Success) (get_all raw StorageMountInfo)")
  case None
  then show ?thesis by (simp add: apply_storage_mounts_def)
next
  case (Some r)
  let ?devs = "storage_devices storage"
  obtain mounts w where parsed: "parse_mountinfo (rec_payload r) warnings = (mounts, w)" by fastforce
  have small: "i < length ?devs" if "owner ?devs n = Some i" for i n
  proof -
    have "i \<in> set (filter (\<lambda>i. st_device_number (?devs ! i) = Some n) [0..<length ?devs])"
      using that last_in_set by (fastforce simp: owner_def case_last split: if_splits)
    then show ?thesis by simp
  qed
  have name: "st_name (unmounted d) = st_name d" for d
    by (simp add: unmounted_def)
  have mounted: "fold mount_block ms (unmounted d) = mounted_as (representative ms) (unmounted d)" for ms d
    by (rule mount_blocks) (simp_all add: unmounted_def)
  show ?thesis
    using small
    by (auto simp: apply_storage_mounts_def Some parsed Let_def link_mounts index_numbers owner_unmounted mounted name
      intro!: map_cong split: option.split)
qed

end
