(* ===== verification/Json.thy ===== *)
theory Json
  imports Raw_Store Parse_Utils
begin

text \<open>
  The values of \<open>nlohmann::json\<close> the parsers look at, with the queries they use and the number
  readers of \<open>src/serialization/storage_health_values.hpp\<close>. The JSON grammar is that of the library:
  \<open>json::parse\<close> without exceptions is an argument \<open>parse_json\<close> of the parsers, which yields
  \<open>Json_Discarded\<close> for a text that is not JSON. The library reads a number without sign, fraction
  and exponent as unsigned, one with a sign as an integer, and what does not fit as a float.
\<close>

section \<open>Values\<close>

datatype json = Json_Null | Json_Boolean bool | Json_Integer i64 | Json_Unsigned u64 | Json_Float string
  | Json_String string | Json_Array "json list" | Json_Object "(string, json) std_map" | Json_Discarded

fun json_find :: "json \<Rightarrow> string \<Rightarrow> json option" where
  "json_find (Json_Object members) key = map_of members key"
| "json_find _ _ = None"

fun is_object :: "json \<Rightarrow> bool" where
  "is_object (Json_Object _) = True"
| "is_object _ = False"

fun json_string :: "json \<Rightarrow> string option" where
  "json_string (Json_String s) = Some s"
| "json_string _ = None"

fun json_boolean :: "json \<Rightarrow> bool option" where
  "json_boolean (Json_Boolean b) = Some b"
| "json_boolean _ = None"

fun json_array :: "json \<Rightarrow> json list option" where
  "json_array (Json_Array xs) = Some xs"
| "json_array _ = None"

text \<open>\<open>is_number_integer()\<close> and not negative, then \<open>get<std::uint64_t>()\<close>.\<close>

fun json_unsigned :: "json \<Rightarrow> u64 option" where
  "json_unsigned (Json_Unsigned v) = Some v"
| "json_unsigned (Json_Integer v) = (if sint v < 0 then None else Some (ucast v))"
| "json_unsigned _ = None"

definition json_text :: "json \<Rightarrow> string \<Rightarrow> string option" where
  "json_text j key = Option.bind (json_find j key) json_string"

section \<open>Numbers of the health reports (\<open>storage_health_values.hpp\<close>)\<close>

definition health_u8 :: "json \<Rightarrow> u8 option" where
  "health_u8 j = (case json_unsigned j of None \<Rightarrow> None | Some v \<Rightarrow> if v > 255 then None else Some (ucast v))"

definition counter_maximum :: string where
  "counter_maximum = ''340282366920938463463374607431768211455''"

definition storage_counter :: "json \<Rightarrow> StorageCounter option" where
  "storage_counter j =
     (case (case json_string j of Some s \<Rightarrow> Some s | None \<Rightarrow> map_option to_string (json_unsigned j)) of
        None \<Rightarrow> None
      | Some text \<Rightarrow>
          if text = [] \<or> \<not> list_all is_digit text then None
          else let stripped = dropWhile (\<lambda>c. c = CHR ''0'') text;
                   digits = (if stripped = [] then ''0'' else stripped)
            in if length digits > length counter_maximum \<or>
                 length digits = length counter_maximum \<and> digits > counter_maximum
               then None
               else Some (StorageCounter digits))"

definition health_counter :: "json \<Rightarrow> string \<Rightarrow> StorageCounter option" where
  "health_counter j key =
     (case json_find j (key @ ''_s'') of
        Some exact \<Rightarrow> storage_counter exact
      | None \<Rightarrow> Option.bind (json_find j key) storage_counter)"

section \<open>Counters are exact\<close>

lemma digits_value_Cons:
  "digits_value b (c # ds) = (case char_value c of None \<Rightarrow> 0 | Some v \<Rightarrow> v) * b ^ length ds + digits_value b ds"
proof (induction ds rule: rev_induct)
  case Nil
  then show ?case by (simp add: digits_value_def)
next
  case (snoc d ds)
  then show ?case
    using digits_value_snoc [of b "c # ds" d] by (simp add: algebra_simps)
qed

lemma digit_value_less: "is_digit c \<Longrightarrow> \<exists>v < 10. char_value c = Some v \<and> (of_char c :: nat) = 48 + v"
  by (auto simp: is_digit_def char_value_def)

lemma decimal_less: "list_all is_digit ds \<Longrightarrow> digits_value 10 ds < 10 ^ length ds"
proof (induction ds)
  case Nil
  then show ?case by simp
next
  case (Cons c ds)
  then obtain v where v: "v < 10" "char_value c = Some v" using digit_value_less by auto
  have "v * 10 ^ length ds + digits_value 10 ds < (v + 1) * 10 ^ length ds" using Cons by simp
  also have "\<dots> \<le> 10 * 10 ^ length ds" using v(1) by (intro mult_right_mono) auto
  finally show ?case by (simp add: digits_value_Cons v(2))
qed

text \<open>Numerals of one length compare as their values.\<close>

lemma decimal_order:
  "length xs = length ys \<Longrightarrow> list_all is_digit xs \<Longrightarrow> list_all is_digit ys \<Longrightarrow>
     xs < ys \<longleftrightarrow> digits_value 10 xs < digits_value 10 ys"
proof (induction xs ys rule: list_induct2)
  case Nil
  then show ?case by simp
next
  case (Cons x xs y ys)
  obtain v where v: "v < 10" "char_value x = Some v" "(of_char x :: nat) = 48 + v"
    using digit_value_less [of x] Cons.prems by auto
  obtain w where w: "w < 10" "char_value y = Some w" "(of_char y :: nat) = 48 + w"
    using digit_value_less [of y] Cons.prems by auto
  have xs: "digits_value 10 xs < 10 ^ length ys" using decimal_less [of xs] Cons by simp
  have ys: "digits_value 10 ys < 10 ^ length ys" using decimal_less [of ys] Cons by simp
  have chars: "x < y \<longleftrightarrow> v < w" "x = y \<longleftrightarrow> v = w"
    using v(3) w(3) by (auto simp: less_char_def) (metis of_char_eq_iff)
  have step: "a * 10 ^ length ys + digits_value 10 as < b * 10 ^ length ys + digits_value 10 bs"
    if "a < b" "digits_value 10 as < 10 ^ length ys" for a b as bs
  proof -
    have "a * 10 ^ length ys + digits_value 10 as < (a + 1) * 10 ^ length ys" using that(2) by simp
    also have "\<dots> \<le> b * 10 ^ length ys" using that(1) by (intro mult_right_mono) auto
    finally show ?thesis by simp
  qed
  consider "v < w" | "v = w" | "w < v" by linarith
  then show ?case
  proof cases
    case 1
    then show ?thesis using step [OF 1 xs] chars Cons.hyps by (simp add: digits_value_Cons v(2) w(2))
  next
    case 2
    then show ?thesis using Cons chars by (simp add: digits_value_Cons v(2) w(2))
  next
    case 3
    then show ?thesis using step [OF 3 ys, of xs] chars Cons.hyps
      by (auto simp: digits_value_Cons v(2) w(2))
  qed
qed

lemma digits_value_strip: "digits_value 10 (dropWhile (\<lambda>c. c = CHR ''0'') ds) = digits_value 10 ds"
proof -
  have "char_value (CHR ''0'') = Some 0" by code_simp
  then show ?thesis by (induction ds) (simp_all add: digits_value_Cons)
qed

lemma leading_digit:
  assumes "list_all is_digit ds" "ds \<noteq> []" "hd ds \<noteq> CHR ''0''"
  shows "10 ^ (length ds - 1) \<le> digits_value 10 ds"
proof -
  obtain c cs where ds: "ds = c # cs" using assms(2) by (cases ds) auto
  obtain v where v: "char_value c = Some v" "(of_char c :: nat) = 48 + v"
    using digit_value_less [of c] assms(1) by (auto simp: ds)
  have "v \<noteq> 0"
  proof
    assume "v = 0"
    then have "of_char c = (of_char (CHR ''0'') :: nat)" using v(2) by (simp add: of_char_def)
    then show False using assms(3) ds by (simp only: of_char_eq_iff list.sel)
  qed
  then have "1 * 10 ^ length cs \<le> v * 10 ^ length cs" by (intro mult_right_mono) auto
  then have "10 ^ length cs \<le> v * 10 ^ length cs + digits_value 10 cs" by linarith
  then show ?thesis by (simp add: ds digits_value_Cons v(1))
qed

text \<open>A numeral without leading zeros is the one its value prints as.\<close>

lemma canonical_decimal:
  "list_all is_digit ds \<Longrightarrow> ds \<noteq> [] \<Longrightarrow> hd ds \<noteq> CHR ''0'' \<or> length ds = 1 \<Longrightarrow>
     to_string_nat (digits_value 10 ds) = ds"
proof (induction ds rule: rev_induct)
  case Nil
  then show ?case by simp
next
  case (snoc c ds)
  obtain v where v: "v < 10" "char_value c = Some v" "(of_char c :: nat) = 48 + v"
    using digit_value_less [of c] snoc.prems(1) by auto
  have char: "digit_char v = c"
    using v(1) by (simp add: digit_char_def flip: v(3))
  show ?case
  proof (cases "ds = []")
    case True
    then show ?thesis
      using v char digits_value_snoc [of 10 "[]" c]
      by (simp add: to_string_nat_def print_base.simps [of 10 v])
  next
    case False
    then have zero: "hd ds \<noteq> CHR ''0''" using snoc.prems(3) by (cases ds) auto
    have IH: "print_base 10 (digits_value 10 ds) = ds"
      using snoc.IH snoc.prems(1) False zero by (simp add: to_string_nat_def)
    have "1 \<le> digits_value 10 ds"
      using leading_digit [of ds] snoc.prems(1) False zero
      by (metis list_all_append one_le_numeral one_le_power order_trans)
    moreover have "digits_value 10 (ds @ [c]) = digits_value 10 ds * 10 + v" by (simp add: v(2))
    ultimately show ?thesis
      using v(1) IH char by (simp add: to_string_nat_def print_base.simps [of 10 "digits_value 10 ds * 10 + v"])
  qed
qed

lemma counter_maximum_digits: "list_all is_digit counter_maximum" "length counter_maximum = 39"
  "digits_value 10 counter_maximum = 2 ^ 128 - 1"
  by code_simp+

text \<open>A counter that is a decimal number below 2 to the 128 is kept in its canonical spelling.\<close>

lemma storage_counter_text:
  "storage_counter (Json_String s) =
     (if s \<noteq> [] \<and> list_all is_digit s \<and> digits_value 10 s < 2 ^ 128
      then Some (StorageCounter (to_string_nat (digits_value 10 s))) else None)"
proof (cases "s \<noteq> [] \<and> list_all is_digit s")
  case False
  then show ?thesis by (auto simp: storage_counter_def)
next
  case True
  define stripped where "stripped = dropWhile (\<lambda>c. c = CHR ''0'') s"
  define ds where "ds = (if stripped = [] then ''0'' else stripped)"
  have digits: "list_all is_digit ds"
  proof -
    have "set stripped \<subseteq> set s" by (simp add: stripped_def set_dropWhileD subsetI)
    moreover have "is_digit (CHR ''0'')" by code_simp
    ultimately show ?thesis using True by (auto simp: ds_def list_all_iff)
  qed
  have head: "hd ds \<noteq> CHR ''0'' \<or> length ds = 1" "ds \<noteq> []"
    using hd_dropWhile_not [of "\<lambda>c. c = CHR ''0''" s] by (auto simp: ds_def stripped_def)
  have "digits_value 10 ''0'' = 0" by code_simp
  then have val: "digits_value 10 ds = digits_value 10 s"
    using digits_value_strip [of s, folded stripped_def] by (cases "stripped = []") (simp_all add: ds_def)
  have small: "length ds > 39 \<or> length ds = 39 \<and> ds > counter_maximum \<longleftrightarrow> \<not> digits_value 10 ds < 2 ^ 128"
  proof -
    consider "length ds < 39" | "length ds = 39" | "length ds > 39" by linarith
    then show ?thesis
    proof cases
      case 1
      have "digits_value 10 ds < 10 ^ length ds" by (rule decimal_less [OF digits])
      also have "\<dots> \<le> 10 ^ 38" using 1 by (intro power_increasing) simp_all
      finally show ?thesis using 1 by simp
    next
      case 2
      have "counter_maximum < ds \<longleftrightarrow> digits_value 10 counter_maximum < digits_value 10 ds"
        by (rule decimal_order [OF _ counter_maximum_digits(1) digits]) (simp only: counter_maximum_digits(2) 2)
      moreover have "n - 1 < x \<longleftrightarrow> \<not> x < n" if "0 < n" for n x :: nat using that by linarith
      ultimately have "counter_maximum < ds \<longleftrightarrow> \<not> digits_value 10 ds < 2 ^ 128"
        by (simp only: counter_maximum_digits(3) zero_less_power zero_less_numeral)
      then show ?thesis using 2 by linarith
    next
      case 3
      have "(10 :: nat) ^ 39 \<le> 10 ^ (length ds - 1)" using 3 by (intro power_increasing) simp_all
      also have "\<dots> \<le> digits_value 10 ds"
        using leading_digit [OF digits head(2)] head(1) 3 by simp
      finally show ?thesis using 3 by simp
    qed
  qed
  have "storage_counter (Json_String s) =
      (if length ds > 39 \<or> length ds = 39 \<and> ds > counter_maximum then None else Some (StorageCounter ds))"
    using True by (simp add: storage_counter_def Let_def ds_def stripped_def counter_maximum_digits(2))
  then show ?thesis
    using True small canonical_decimal [OF digits head(2) head(1)] by (simp add: val)
qed

lemma to_string_nat_decimal:
  "to_string_nat n \<noteq> []" "list_all is_digit (to_string_nat n)" "digits_value 10 (to_string_nat n) = n"
  using print_base_value [of 10 n] print_base_digits [of 10 n]
  by (simp_all add: to_string_nat_def is_digit_digit_in list_all_iff)

lemma storage_counter_number: "storage_counter (Json_Unsigned v) = Some (StorageCounter (to_string v))"
proof -
  have "unat v < 2 ^ 64" using unsigned_less [of v, where ?'a = nat] by simp
  then have "unat v < 2 ^ 128" by simp
  then have "storage_counter (Json_String (to_string v)) = Some (StorageCounter (to_string v))"
    by (simp add: storage_counter_text to_string_def to_string_nat_decimal)
  then show ?thesis by (simp add: storage_counter_def)
qed

text \<open>A counter that was accepted once is accepted as it is.\<close>

lemma storage_counter_again:
  assumes "storage_counter j = Some c"
  shows "storage_counter (Json_String (counter_decimal c)) = Some c"
proof -
  obtain s where "storage_counter (Json_String s) = Some c"
  proof (cases "json_string j")
    case (Some s)
    then have "storage_counter j = storage_counter (Json_String s)" by (simp add: storage_counter_def)
    then show thesis using assms that by simp
  next
    case None
    then obtain v where "json_unsigned j = Some v"
      using assms by (cases "json_unsigned j") (simp_all add: storage_counter_def)
    then have "storage_counter j = storage_counter (Json_String (to_string v))"
      using None by (simp add: storage_counter_def)
    then show thesis using assms that by simp
  qed
  then have "digits_value 10 s < 2 ^ 128" "c = StorageCounter (to_string_nat (digits_value 10 s))"
    by (auto simp: storage_counter_text split: if_splits)
  then show ?thesis by (simp add: storage_counter_text to_string_nat_decimal)
qed

text \<open>a counter of a health report is accepted exactly when it is a decimal number below
  2 to the 128, whatever its leading zeros, and is kept exactly, in its canonical spelling.
\<close>

theorem storage_counter_exact:
  "storage_counter (Json_String s) =
     (if s \<noteq> [] \<and> list_all is_digit s \<and> digits_value 10 s < 2 ^ 128
      then Some (StorageCounter (to_string_nat (digits_value 10 s))) else None) \<and>
   storage_counter (Json_Unsigned v) = Some (StorageCounter (to_string v))"
  by (simp only: storage_counter_text storage_counter_number simp_thms)

end
