(* ===== verification/Filesystem_Parser.thy ===== *)
theory Filesystem_Parser
  imports Json Mountinfo
begin

text \<open>
  \<open>src/parser/filesystems.cpp\<close>: the space statistics of the mounted file systems, which a reader
  stores as JSON. Capacities are products of 64-bit counts; the theorem compares them with the
  products of the natural numbers.
\<close>

definition stat_field :: "json \<Rightarrow> string \<Rightarrow> u64 option" where
  "stat_field j name = Option.bind (json_find j name) json_unsigned"

definition fs_limit :: u64 where
  "fs_limit = - 1"

definition invalid_statistics :: "FilesystemReport \<Rightarrow> FilesystemReport" where
  "invalid_statistics report =
     report\<lparr>fr_status := Failed, fr_failure := Some IoError,
       fr_note := ''Invalid filesystem capacity statistics''\<rparr>"

definition within :: "u64 option \<Rightarrow> u64 \<Rightarrow> u64 option" where
  "within amount bound = (case amount of None \<Rightarrow> None | Some n \<Rightarrow> if n \<le> bound then Some n else None)"

definition free_space :: "json \<Rightarrow> u64 \<Rightarrow> u64 \<Rightarrow> MemorySize option \<times> MemorySize option" where
  "free_space stats unit_size blocks =
     (case within (stat_field stats ''free_blocks'') blocks of
        None \<Rightarrow> (None, None)
      | Some free \<Rightarrow> (Some (ScalarUnit (free * unit_size)),
          map_option (\<lambda>available. ScalarUnit (available * unit_size))
            (within (stat_field stats ''available_blocks'') free)))"

definition free_inodes :: "json \<Rightarrow> u64 option \<times> u64 option \<times> u64 option" where
  "free_inodes stats =
     (case stat_field stats ''inodes'' of
        None \<Rightarrow> (None, None, None)
      | Some inodes \<Rightarrow>
          if inodes > 0 \<and> inodes \<noteq> fs_limit
          then (case within (stat_field stats ''free_inodes'') inodes of
                  None \<Rightarrow> (Some inodes, None, None)
                | Some free \<Rightarrow> (Some inodes, Some free, within (stat_field stats ''available_inodes'') free))
          else (None, None, None))"

definition statistics :: "FilesystemReport \<Rightarrow> json \<Rightarrow> FilesystemReport" where
  "statistics report stats =
     (case (stat_field stats ''block_size'', stat_field stats ''blocks'') of
        (Some unit_size, Some blocks) \<Rightarrow>
          if unit_size = 0 \<or> blocks > fs_limit div unit_size then invalid_statistics report
          else
            let (free, available) = free_space stats unit_size blocks;
                (inodes, unused, usable) = free_inodes stats;
                report = (if free = None \<or> available = None
                  then report\<lparr>fr_status := Partial, fr_note := ''Some space statistics were missing or inconsistent''\<rparr>
                  else report)
            in report\<lparr>fr_usage := Some \<lparr>fu_total = ScalarUnit (blocks * unit_size), fu_free = free,
                 fu_available = available, fu_inodes = inodes, fu_free_inodes = unused,
                 fu_available_inodes = usable,
                 fu_filesystem_id = (case json_text stats ''filesystem_id'' of None \<Rightarrow> [] | Some s \<Rightarrow> s)\<rparr>\<rparr>
      | _ \<Rightarrow> invalid_statistics report)"

definition known_mount :: "u32 list \<Rightarrow> json \<Rightarrow> u32 option" where
  "known_mount mounts j =
     (case json_unsigned j of
        None \<Rightarrow> None
      | Some parsed \<Rightarrow>
          if parsed \<le> u32_max \<and> to_u32 parsed \<in> set mounts then Some (to_u32 parsed) else None)"

definition filesystem_report :: "Storage \<Rightarrow> RawRecord \<Rightarrow> json \<Rightarrow> u32 list \<Rightarrow> FilesystemReport" where
  "filesystem_report storage r j ids =
     (let report = FilesystemReport_default
            \<lparr>fr_mount_ids := ids,
             fr_kind := (case find (\<lambda>m. sm_mount_id m = hd ids) (storage_mounts storage) of
               None \<Rightarrow> fr_kind FilesystemReport_default
             | Some m \<Rightarrow> filesystem_kind (str_value (sm_filesystem m))),
             fr_skip := rec_skip r, fr_status := rec_status r, fr_failure := rec_failure r,
             fr_note := (case json_text j ''note'' of None \<Rightarrow> [] | Some s \<Rightarrow> s)\<rparr>
      in if rec_status r = Success
         then statistics report (case json_find j ''stats'' of
             None \<Rightarrow> Json_Object [] | Some stats \<Rightarrow> if is_object stats then stats else Json_Object [])
         else report)"

definition invalid_report :: "RawRecord \<Rightarrow> string" where
  "invalid_report r = ''parse_storage: invalid filesystem report in '' @ rec_path_or_command r"

definition filesystem_record :: "(string \<Rightarrow> json) \<Rightarrow> u32 list \<Rightarrow> RawRecord \<Rightarrow> Storage \<times> string list \<Rightarrow>
    Storage \<times> string list" where
  "filesystem_record parse_json mounts r = (\<lambda>(storage, warnings).
     let j = parse_json (rec_payload r) in
     case Option.bind (json_find j ''mount_ids'') json_array of
       None \<Rightarrow> (storage, warnings @ [invalid_report r])
     | Some listed \<Rightarrow>
         let ids = List.map_filter (known_mount mounts) listed in
         if ids = [] then (storage, warnings)
         else (storage\<lparr>storage_filesystems := storage_filesystems storage @ [filesystem_report storage r j ids]\<rparr>,
           warnings))"

definition apply_filesystems :: "(string \<Rightarrow> json) \<Rightarrow> RawStore \<Rightarrow> Storage \<Rightarrow> string list \<Rightarrow> Storage \<times> string list" where
  "apply_filesystems parse_json raw storage warnings =
     fold (filesystem_record parse_json (map sm_mount_id (storage_mounts storage)))
       (get_all raw Src_FilesystemUsage) (storage, warnings)"

section \<open>Capacities do not wrap\<close>

text \<open>The reference: the same rules over the natural numbers.\<close>

definition nat_field :: "json \<Rightarrow> string \<Rightarrow> nat option" where
  "nat_field j name = map_option unat (stat_field j name)"

definition nat_within :: "nat option \<Rightarrow> nat \<Rightarrow> nat option" where
  "nat_within amount bound = (case amount of None \<Rightarrow> None | Some n \<Rightarrow> if n \<le> bound then Some n else None)"

definition reference_usage :: "json \<Rightarrow> (nat \<times> nat option \<times> nat option) option" where
  "reference_usage stats =
     (case (nat_field stats ''block_size'', nat_field stats ''blocks'') of
        (Some unit_size, Some blocks) \<Rightarrow>
          if unit_size = 0 \<or> blocks * unit_size \<ge> 2 ^ 64 then None
          else let free = nat_within (nat_field stats ''free_blocks'') blocks;
                   available = (case free of None \<Rightarrow> None
                     | Some n \<Rightarrow> nat_within (nat_field stats ''available_blocks'') n)
               in Some (blocks * unit_size, map_option (\<lambda>n. n * unit_size) free, map_option (\<lambda>n. n * unit_size) available)
      | _ \<Rightarrow> None)"

definition exact_usage :: "FilesystemUsage \<Rightarrow> nat \<times> nat option \<times> nat option" where
  "exact_usage u = (unat (unit_value (fu_total u)), map_option (unat \<circ> unit_value) (fu_free u),
     map_option (unat \<circ> unit_value) (fu_available u))"

lemma within_nat: "map_option unat (within amount bound) = nat_within (map_option unat amount) (unat bound)"
  by (simp add: within_def nat_within_def word_le_nat_alt split: option.split)

lemma within_le: "within amount bound = Some n \<Longrightarrow> n \<le> bound"
  by (auto simp: within_def split: option.splits if_splits)

lemma pred_less_iff: "0 < n \<Longrightarrow> n - 1 < x \<longleftrightarrow> n \<le> (x :: nat)"
  by linarith

lemma product_fits: "(unit_size :: u64) \<noteq> 0 \<Longrightarrow> blocks > fs_limit div unit_size \<longleftrightarrow> unat blocks * unat unit_size \<ge> 2 ^ 64"
proof -
  assume unit_size: "unit_size \<noteq> 0"
  then have pos: "0 < unat unit_size" by (simp add: unat_gt_0)
  have max: "unat fs_limit = 2 ^ 64 - 1" by code_simp
  have "blocks > fs_limit div unit_size \<longleftrightarrow> (2 ^ 64 - 1) div unat unit_size < unat blocks"
    by (simp only: word_less_nat_alt unat_div max)
  also have "\<dots> \<longleftrightarrow> 2 ^ 64 - 1 < unat blocks * unat unit_size"
    using pos by (simp only: div_less_iff_less_mult)
  also have "\<dots> \<longleftrightarrow> 2 ^ 64 \<le> unat blocks * unat unit_size" by (rule pred_less_iff) simp
  finally show ?thesis .
qed

lemma unat_times_le:
  "(n :: u64) \<le> blocks \<Longrightarrow> unat blocks * unat unit_size < 2 ^ 64 \<Longrightarrow> unat (n * unit_size) = unat n * unat unit_size"
proof -
  assume n: "n \<le> blocks" and fits: "unat blocks * unat unit_size < 2 ^ 64"
  have "unat n * unat unit_size \<le> unat blocks * unat unit_size" using n by (simp add: word_le_nat_alt)
  then have "unat n * unat unit_size < 2 ^ 64" using fits by (rule le_less_trans)
  then have "unat n * unat unit_size < 2 ^ LENGTH(64)" by simp
  then show ?thesis using unat_mult_lem [of n unit_size] by simp
qed

text \<open>C35: the capacity, free and available space of a file system are the exact products of its block
  counts and its block size: a report whose capacity does not fit in 64 bits is rejected, and
  free space never exceeds the capacity nor available space the free space.
\<close>

theorem filesystem_usage_exact:
  "map_option exact_usage (fr_usage (statistics (report\<lparr>fr_usage := None\<rparr>) stats)) = reference_usage stats"
proof (cases "stat_field stats ''block_size''"; cases "stat_field stats ''blocks''")
  fix unit_size blocks
  assume fields: "stat_field stats ''block_size'' = Some unit_size" "stat_field stats ''blocks'' = Some blocks"
  show ?thesis
  proof (cases "unit_size = 0 \<or> blocks > fs_limit div unit_size")
    case True
    then have "unat unit_size = 0 \<or> unat blocks * unat unit_size \<ge> 2 ^ 64" using product_fits [of unit_size blocks] by (cases "unit_size = 0") auto
    with True fields show ?thesis
      by (simp only: statistics_def reference_usage_def nat_field_def option.map option.case prod.case if_True)
        (simp add: invalid_statistics_def)
  next
    case False
    then have fits: "unat unit_size \<noteq> 0" "unat blocks * unat unit_size < 2 ^ 64"
      using product_fits [of unit_size blocks] by (auto simp: not_le unat_eq_0)
    have free: "within (stat_field stats ''free_blocks'') blocks = Some n \<Longrightarrow> unat (n * unit_size) = unat n * unat unit_size" for n
      using unat_times_le [OF within_le fits(2)] .
    have available: "within (stat_field stats ''free_blocks'') blocks = Some n \<Longrightarrow>
        within (stat_field stats ''available_blocks'') n = Some m \<Longrightarrow> unat (m * unit_size) = unat m * unat unit_size" for n m
      using unat_times_le [OF order_trans [OF within_le within_le] fits(2)] .
    show ?thesis
      using False fields fits unat_times_le [OF order_refl fits(2)] free available
      by (auto simp: statistics_def reference_usage_def nat_field_def exact_usage_def free_space_def Let_def
        fits(2) not_le option.map_comp comp_def simp flip: within_nat split: prod.split option.split)
  qed
qed (simp_all add: statistics_def reference_usage_def nat_field_def invalid_statistics_def)

end
