(* ===== verification/Warnings.thy ===== *)
theory Warnings
  imports Raw_Store
begin

text \<open>
  The discipline of the warning list that every parser is handed by reference: a stage appends
  warnings of its own kind and does not look at those already there. Stages compose, and so do the
  loops over them; a parser made of such stages satisfies the contract of a domain parser.
\<close>

definition logs :: "(string \<Rightarrow> bool) \<Rightarrow> ('a \<times> string list \<Rightarrow> 'b \<times> string list) \<Rightarrow> bool" where
  "logs own f \<longleftrightarrow> (\<exists>result added. (\<forall>a ws. f (a, ws) = (result a, ws @ added a)) \<and>
     (\<forall>a. list_all own (added a)))"

lemma logsI: "(\<And>a ws. f (a, ws) = (result a, ws @ added a)) \<Longrightarrow> (\<And>a. list_all own (added a)) \<Longrightarrow> logs own f"
  unfolding logs_def by blast

lemma logsE:
  assumes "logs own f"
  obtains result added where "\<And>a ws. f (a, ws) = (result a, ws @ added a)" "\<And>a. list_all own (added a)"
  using assms unfolding logs_def by blast

lemma logs_id: "logs own (\<lambda>s. s)"
  by (rule logsI [where result = "\<lambda>a. a" and added = "\<lambda>_. []"]) simp_all

lemma logs_comp: "logs own f \<Longrightarrow> logs own g \<Longrightarrow> logs own (\<lambda>s. g (f s))"
proof (elim logsE)
  fix r w r' w'
  assume "\<And>a ws. f (a, ws) = (r a, ws @ w a)" "\<And>a. list_all own (w a)"
    "\<And>a ws. g (a, ws) = (r' a, ws @ w' a)" "\<And>a. list_all own (w' a)"
  then show ?thesis
    by (intro logsI [where result = "\<lambda>a. r' (r a)" and added = "\<lambda>a. w a @ w' (r a)"]) simp_all
qed

lemma logs_fold: "(\<And>x. logs own (f x)) \<Longrightarrow> logs own (fold f xs)"
proof (induction xs)
  case Nil
  then show ?case using logs_id by (simp add: id_def)
next
  case (Cons x xs)
  have "logs own (\<lambda>s. fold f xs (f x s))" by (rule logs_comp [OF Cons.prems Cons.IH [OF Cons.prems]])
  then show ?case by (simp add: comp_def)
qed

lemma logs_if: "logs own f \<Longrightarrow> logs own g \<Longrightarrow> logs own (if c then f else g)"
  by simp

lemma logs_at: "logs own f \<Longrightarrow> f (a, ws) = (fst (f (a, [])), ws @ snd (f (a, []))) \<and> list_all own (snd (f (a, [])))"
  by (elim logsE) simp

text \<open>A stage that is not a loop shows its results and its warnings itself.\<close>

lemma logs_stage:
  "(\<And>a ws. f (a, ws) = (fst (f (a, [])), ws @ snd (f (a, [])))) \<Longrightarrow>
   (\<And>a. list_all own (snd (f (a, [])))) \<Longrightarrow> logs own f"
  by (rule logsI [where result = "\<lambda>a. fst (f (a, []))" and added = "\<lambda>a. snd (f (a, []))"])

text \<open>What a parser of logging stages promises.\<close>

lemma domain_parserI:
  assumes "\<And>raw. logs own (\<lambda>(_ :: unit, ws). parse raw ws)"
    and "\<And>raw raw'. (\<And>s. s \<in> sources \<Longrightarrow> get_all raw s = get_all raw' s) \<Longrightarrow>
      (\<And>k. k \<in> inventories \<Longrightarrow> enumeration raw k = enumeration raw' k) \<Longrightarrow> parse raw [] = parse raw' []"
  shows "domain_parser parse sources inventories own"
proof
  fix raw warnings
  show "parse raw warnings = (fst (parse raw []), warnings @ snd (parse raw []))"
    using logs_at [OF assms(1) [of raw], of "()" warnings] by simp
  show "list_all own (snd (parse raw []))"
    using logs_at [OF assms(1) [of raw], of "()" "[]"] by simp
qed (rule assms(2))

end
