(* ===== verification/Storage_Parser.thy ===== *)
theory Storage_Parser
  imports Storage_Links Filesystem_Parser Warnings
begin

text \<open>
  \<open>src/parser/storage.cpp\<close>, \<open>storage_compatibility.cpp\<close> and \<open>storage_classification.cpp\<close>: the block
  devices of sysfs with their attributes, the layer, purpose, protocol and transports they are
  classified by, and the older description by kind, layer name and \<open>df\<close> mount.
\<close>

section \<open>Compatibility (\<open>storage_compatibility.cpp\<close>)\<close>

definition is_partition_of :: "string \<Rightarrow> string \<Rightarrow> bool" where
  "is_partition_of dev_name df_name \<longleftrightarrow>
     length dev_name < length df_name \<and> prefix dev_name df_name \<and>
     (case drop (length dev_name) df_name of
        [] \<Rightarrow> False
      | c # cs \<Rightarrow> is_digit c \<or> (c = CHR ''p'' \<and> (case cs of [] \<Rightarrow> False | d # _ \<Rightarrow> is_digit d)))"

definition legacy_layer :: "StorageDevice \<Rightarrow> string \<Rightarrow> string" where
  "legacy_layer device target =
     (if st_partition_number device \<noteq> None then ''partition''
      else if st_mapper_uuid device \<noteq> [] \<or> st_mapper_name device \<noteq> [] then ''device-mapper''
      else if st_raid_level device \<noteq> [] then ''md''
      else if contains_str target ''/virtual/'' then ''virtual''
      else if target = [] then ''unknown'' else ''disk'')"

definition legacy_kind :: "StorageDevice \<Rightarrow> StorageKind" where
  "legacy_kind device =
     (if prefix ''nvme'' (str_value (st_name device)) then Stor_Nvme
      else if list_ex (\<lambda>stem. prefix stem (str_value (st_name device)))
        [''loop'', ''ram'', ''sr'', ''dm-'', ''md'', ''zram'', ''fd'']
      then Stor_Other
      else case st_rotational device of
        None \<Rightarrow> Stor_Other | Some rotational \<Rightarrow> if rotational then Stor_Hdd else Stor_Ssd)"

definition apply_storage_compatibility :: "string \<Rightarrow> StorageDevice \<Rightarrow> StorageDevice" where
  "apply_storage_compatibility target device =
     device\<lparr>st_layer := legacy_layer device target, st_kind := legacy_kind device\<rparr>"

type_synonym DfMap = "(string, string \<times> string) std_map"

definition df_short :: "string \<Rightarrow> string" where
  "df_short line = ''parse_storage: df -Th '' @ bytes [232, 161, 140, 229, 173, 151, 230, 174, 181, 228, 184, 141, 232, 182, 179] @
     '' 7 '' @ bytes [228, 184, 170] @ '': '' @ line"

definition df_mount :: "string list \<Rightarrow> string" where
  "df_mount columns = fold (\<lambda>f mount. (if mount \<noteq> [] then mount @ '' '' else mount) @ f) (drop 6 columns) []"

definition df_line :: "string \<Rightarrow> DfMap \<times> string list \<Rightarrow> DfMap \<times> string list" where
  "df_line line = (\<lambda>(df_map, warnings).
     let trimmed = trim line in
     if trimmed = [] \<or> prefix ''Filesystem'' trimmed then (df_map, warnings)
     else
       let columns = filter (\<lambda>v. v \<noteq> []) (map trim (split trimmed (CHR '' ''))) in
       if length columns < 7 then (df_map, warnings @ [df_short trimmed])
       else
         let fs = columns ! 0;
             fs = (if prefix ''/dev/'' fs then drop 5 fs else fs)
         in (map_put fs (df_mount columns, columns ! 1) df_map, warnings))"

definition df_record :: "RawRecord \<Rightarrow> DfMap \<times> string list \<Rightarrow> DfMap \<times> string list" where
  "df_record r s = (if rec_status r \<noteq> Success then s else fold df_line (split (rec_payload r) (CHR 0x0A)) s)"

definition df_partition :: "string \<times> string \<times> string \<Rightarrow> StorageDevice \<Rightarrow> StorageDevice" where
  "df_partition = (\<lambda>(df_name, mount, type) device.
     if is_partition_of (str_value (st_name device)) df_name \<and>
        (st_mount_point device = None \<or> mount = ''/'')
     then device\<lparr>st_mount_point := Some (NamedString mount), st_fs_type := Some (NamedString type)\<rparr>
     else device)"

definition df_device :: "DfMap \<Rightarrow> StorageDevice \<Rightarrow> StorageDevice" where
  "df_device df_map device =
     (case map_of df_map (str_value (st_name device)) of
        Some (mount, type) \<Rightarrow>
          device\<lparr>st_mount_point := Some (NamedString mount), st_fs_type := Some (NamedString type)\<rparr>
      | None \<Rightarrow> fold df_partition df_map device)"

definition apply_legacy_storage_mounts :: "RawStore \<Rightarrow> Storage \<Rightarrow> string list \<Rightarrow> Storage \<times> string list" where
  "apply_legacy_storage_mounts raw storage warnings =
     (if has_success raw StorageMountInfo then (storage, warnings)
      else let (df_map, warnings) = fold df_record (get_all raw DfTh) ([], warnings)
        in (storage\<lparr>storage_devices := map (df_device df_map) (storage_devices storage)\<rparr>, warnings))"

section \<open>Classification (\<open>storage_classification.cpp\<close>)\<close>

definition transport_names :: "(string \<times> StorageTransport) list" where
  "transport_names = [(''pcie'', Pcie), (''sata'', Sata), (''sas'', Sas), (''usb'', Usb), (''tcp'', Tcp),
     (''rdma'', Transport_Rdma), (''fc'', FibreChannel), (''iscsi'', Iscsi), (''spi'', ParallelScsi)]"

definition transport :: "string \<Rightarrow> StorageTransport" where
  "transport s = (case map_of transport_names (map to_lower s) of None \<Rightarrow> Transport_Unknown | Some kind \<Rightarrow> kind)"

fun transport_index :: "StorageTransport \<Rightarrow> nat" where
  "transport_index Transport_Unknown = 0"
| "transport_index Pcie = 1"
| "transport_index Sata = 2"
| "transport_index Sas = 3"
| "transport_index Usb = 4"
| "transport_index Tcp = 5"
| "transport_index Transport_Rdma = 6"
| "transport_index FibreChannel = 7"
| "transport_index Iscsi = 8"
| "transport_index ParallelScsi = 9"

definition is_nvme :: "StorageDevice \<Rightarrow> bool" where
  "is_nvme device \<longleftrightarrow> (case st_nvme_namespace device of None \<Rightarrow> False | Some ns \<Rightarrow> id_value (nsi_id ns) \<noteq> 0)"

definition scsi_purpose :: "u32 \<Rightarrow> StoragePurpose" where
  "scsi_purpose type =
     (if type \<in> {0x00, 0x0e, 0x14} then Disk
      else if type \<in> {0x04, 0x05, 0x07} then Optical
      else if type \<in> {0x01, 0x02, 0x03, 0x06, 0x08, 0x09, 0x0c, 0x0d, 0x11, 0x1e} then Purpose_Other
      else Purpose_Unknown)"

definition purpose :: "StorageDevice \<Rightarrow> StoragePurpose" where
  "purpose device =
     (if is_nvme device then Disk
      else case Option.bind (st_scsi_device device) sd_peripheral_type of
        Some type \<Rightarrow> scsi_purpose type
      | None \<Rightarrow> if st_driver device = ''virtio_blk'' then Disk else Purpose_Unknown)"

definition protocol :: "Storage \<Rightarrow> StorageDevice \<Rightarrow> StorageProtocol" where
  "protocol storage device =
     (if is_nvme device then Proto_Nvme
      else case st_scsi_device device of
        None \<Rightarrow> Proto_Unknown
      | Some scsi \<Rightarrow>
          (case find (\<lambda>host. sh_number host = sa_host (sd_address scsi)) (storage_scsi_hosts storage) of
             None \<Rightarrow> Proto_Scsi
           | Some host \<Rightarrow> if sh_ata_port host \<noteq> None then Proto_Ata else Proto_Scsi))"

definition transports :: "Storage \<Rightarrow> StorageDevice \<Rightarrow> StorageTransport list" where
  "transports storage device =
     (let controllers = (case st_nvme_namespace device of
            None \<Rightarrow> []
          | Some ns \<Rightarrow>
              if is_nvme device
              then concat (map (\<lambda>name. map nc_transport
                (filter (\<lambda>c. nc_name c = name) (storage_nvme_controllers storage))) (nsi_controllers ns))
              else []);
          kinds = filter (\<lambda>kind. kind \<noteq> Transport_Unknown) (map transport (st_transport device # controllers))
      in remdups_adj (sort_key transport_index kinds))"

definition classified :: "Storage \<Rightarrow> StorageDevice \<Rightarrow> StorageDevice" where
  "classified storage device =
     (let old = cls_layer (st_classification device);
          layer = (if is_nvme device \<and> old = Virtual then Layer_Device else old)
      in device\<lparr>st_classification :=
           (if layer = Layer_Device \<or> layer = Layer_Unknown
            then \<lparr>cls_layer = layer, cls_purpose = purpose device, cls_protocol = protocol storage device,
              cls_transports = transports storage device\<rparr>
            else \<lparr>cls_layer = layer, cls_purpose = Purpose_Unknown, cls_protocol = Proto_Unknown,
              cls_transports = []\<rparr>)\<rparr>)"

definition apply_storage_classification :: "Storage \<Rightarrow> Storage" where
  "apply_storage_classification storage =
     storage\<lparr>storage_devices := map (classified storage) (storage_devices storage)\<rparr>"

section \<open>Block devices (\<open>storage.cpp\<close>)\<close>

type_synonym BlockAttributes = "(string, string) std_map"
type_synonym BlockGroups = "(string, BlockAttributes) std_map"

definition extract_device_name :: "string \<Rightarrow> string" where
  "extract_device_name path =
     (let stem = (if prefix ''/sys/class/block/'' path then ''/sys/class/block/'' else ''/sys/block/'') in
      case find_str stem path of
        None \<Rightarrow> []
      | Some block_pos \<Rightarrow>
          let rest = drop (block_pos + length stem) path in
          (case find_char (CHR ''/'') rest of None \<Rightarrow> rest | Some slash \<Rightarrow> take slash rest))"

definition extract_pci_address_from_block :: "string \<Rightarrow> PciAddress option" where
  "extract_pci_address_from_block target =
     fold (\<lambda>segment result. case parse_pci_address segment of Some a \<Rightarrow> Some a | None \<Rightarrow> result)
       (split target (CHR ''/'')) None"

definition block_attribute :: "BlockAttributes \<Rightarrow> string \<Rightarrow> string" where
  "block_attribute attrs field = (case map_of attrs field of None \<Rightarrow> [] | Some s \<Rightarrow> trim s)"

definition block_number :: "BlockAttributes \<Rightarrow> string \<Rightarrow> u32 option" where
  "block_number attrs field =
     (case parse_uint (block_attribute attrs field) of
        None \<Rightarrow> None | Some number \<Rightarrow> if number \<le> u32_max then Some (to_u32 number) else None)"

definition size_failed :: "string \<Rightarrow> string \<Rightarrow> string" where
  "size_failed dev_name s = ''parse_storage: '' @ bytes [229, 157, 151, 232, 174, 190, 229, 164, 135] @ '' '' @ dev_name @
     '' '' @ bytes [231, 154, 132] @ '' size '' @ bytes [232, 167, 163, 230, 158, 144, 229, 164, 177, 232, 180, 165] @ '': '' @
     trim s"

definition block_capacity :: "string \<Rightarrow> BlockAttributes \<Rightarrow> MemorySize option \<times> string list" where
  "block_capacity dev_name attrs =
     (case map_of attrs ''size'' of
        None \<Rightarrow> (None, [])
      | Some s \<Rightarrow>
          (case parse_uint (trim s) of
             None \<Rightarrow> (None, [size_failed dev_name s])
           | Some sectors \<Rightarrow>
               if sectors \<le> (- 1) div 512 then (Some (ScalarUnit (sectors * 512)), [])
               else (None, [size_failed dev_name s])))"

definition block_partition :: "BlockAttributes \<Rightarrow> u32 option" where
  "block_partition attrs =
     (case parse_uint (block_attribute attrs ''partition'') of
        None \<Rightarrow> None
      | Some number \<Rightarrow> if number > 0 \<and> number \<le> u32_max then Some (to_u32 number) else None)"

definition has_attribute :: "BlockAttributes \<Rightarrow> string \<Rightarrow> bool" where
  "has_attribute attrs field \<longleftrightarrow> map_of attrs field \<noteq> None"

definition block_layer :: "BlockAttributes \<Rightarrow> BlockDeviceLayer" where
  "block_layer attrs =
     (let target = block_attribute attrs ''device'' in
      if block_partition attrs \<noteq> None then Partition
      else if has_attribute attrs ''partition'' then Layer_Unknown
      else if has_attribute attrs ''name'' \<or> has_attribute attrs ''uuid'' then DeviceMapper
      else if has_attribute attrs ''level'' \<or> has_attribute attrs ''array_state'' then Raid
      else if block_attribute attrs ''loop_present'' = ''1'' then Loop
      else if contains_str target ''/virtual/'' then Virtual
      else if target = [] then Layer_Unknown else Layer_Device)"

definition text_fields :: "(string \<times> (string \<Rightarrow> StorageDevice \<Rightarrow> StorageDevice)) list" where
  "text_fields =
     [(''model'', \<lambda>v d. d\<lparr>st_model := v\<rparr>), (''vendor'', \<lambda>v d. d\<lparr>st_vendor := NamedString v\<rparr>),
      (''serial'', \<lambda>v d. d\<lparr>st_serial := v\<rparr>), (''rev'', \<lambda>v d. d\<lparr>st_firmware_revision := v\<rparr>),
      (''firmware_rev'', \<lambda>v d. d\<lparr>st_firmware_revision := v\<rparr>), (''wwid'', \<lambda>v d. d\<lparr>st_wwid := v\<rparr>),
      (''transport'', \<lambda>v d. d\<lparr>st_transport := v\<rparr>)]"

definition block_text :: "BlockAttributes \<Rightarrow> string \<times> (string \<Rightarrow> StorageDevice \<Rightarrow> StorageDevice) \<Rightarrow>
    StorageDevice \<Rightarrow> StorageDevice" where
  "block_text attrs = (\<lambda>(field, store) device.
     case map_of attrs field of
       None \<Rightarrow> device
     | Some s \<Rightarrow> let text = hardware_text s in if text \<noteq> [] then store text device else device)"

definition block_size :: "BlockAttributes \<Rightarrow> string \<Rightarrow> MemorySize option" where
  "block_size attrs field = Option.bind (map_of attrs field) (\<lambda>s. map_option ScalarUnit (parse_uint (trim s)))"

definition block_state :: "BlockAttributes \<Rightarrow> string \<Rightarrow> bool option" where
  "block_state attrs field = Option.bind (map_of attrs field) (\<lambda>s.
     if trim s = ''0'' \<or> trim s = ''1'' then Some (trim s = ''1'') else None)"

definition block_scheduler :: "BlockAttributes \<Rightarrow> string" where
  "block_scheduler attrs =
     (case map_of attrs ''scheduler'' of
        None \<Rightarrow> []
      | Some s \<Rightarrow>
          (case find_char (CHR ''['') s of
             Some start \<Rightarrow>
               (case find_char_from (CHR '']'') start s of
                  Some stop \<Rightarrow> take (stop - start - 1) (drop (start + 1) s)
                | None \<Rightarrow> if trim s = ''none'' then ''none'' else [])
           | None \<Rightarrow> if trim s = ''none'' then ''none'' else []))"

definition block_device :: "StorageId \<Rightarrow> string \<Rightarrow> BlockAttributes \<Rightarrow> StorageDevice \<times> string list" where
  "block_device ident dev_name attrs =
     (let (capacity, warnings) = block_capacity dev_name attrs;
          attribute = block_attribute attrs;
          target = attribute ''device'';
          device = StorageDevice_default
            \<lparr>st_id := ident, st_name := NamedString dev_name, st_capacity := capacity,
             st_pci_address := Option.bind (map_of attrs ''device'') extract_pci_address_from_block,
             st_device_number := parse_device_number (attribute ''dev''),
             st_partition_number := block_partition attrs,
             st_parent := (if attribute ''parent'' \<noteq> [] then Some (NamedString (attribute ''parent'')) else None),
             st_slaves := map NamedString (filter (\<lambda>s. s \<noteq> []) (split (attribute ''slaves'') (CHR 0x0A))),
             st_mapper_name := hardware_text (attribute ''name''),
             st_mapper_uuid := hardware_text (attribute ''uuid''),
             st_raid_level := hardware_text (attribute ''level''),
             st_raid_state := hardware_text (attribute ''array_state''),
             st_raid_disks := block_number attrs ''raid_disks'',
             st_raid_degraded := block_number attrs ''degraded'',
             st_classification := StorageClassification_default\<lparr>cls_layer := block_layer attrs\<rparr>,
             st_driver := hardware_text (attribute ''driver'')\<rparr>;
          device = fold (block_text attrs) text_fields device;
          device = device
            \<lparr>st_logical_block_size := block_size attrs ''logical_block_size'',
             st_physical_block_size := block_size attrs ''physical_block_size'',
             st_minimum_io_size := block_size attrs ''minimum_io_size'',
             st_optimal_io_size := block_size attrs ''optimal_io_size'',
             st_rotational := block_state attrs ''rotational'',
             st_read_only := block_state attrs ''ro'',
             st_removable := block_state attrs ''removable'',
             st_numa_node := map_option StrongId (block_number attrs ''numa_node''),
             st_scheduler := block_scheduler attrs\<rparr>
      in (apply_storage_compatibility target device, warnings))"

definition block_record :: "RawRecord \<Rightarrow> BlockGroups \<Rightarrow> BlockGroups" where
  "block_record r groups =
     (if rec_status r \<noteq> Success then groups
      else let dev_name = extract_device_name (rec_path_or_command r) in
        if dev_name = [] then groups
        else map_update dev_name []
          (map_put (extract_filename (rec_path_or_command r)) (rec_payload r)) groups)"

definition add_block_device :: "string \<times> BlockAttributes \<Rightarrow> StorageDevice list \<times> string list \<Rightarrow>
    StorageDevice list \<times> string list" where
  "add_block_device = (\<lambda>(dev_name, attrs) (devices, warnings).
     let (device, ws) = block_device (StrongId (word_of_nat (length devices))) dev_name attrs
     in (devices @ [device], warnings @ ws))"

definition missing_block :: string where
  "missing_block = ''parse_storage: '' @ bytes [231, 188, 186, 229, 176, 145] @ '' SysfsBlock '' @
     bytes [230, 149, 176, 230, 141, 174]"

definition no_valid_block :: string where
  "no_valid_block = ''parse_storage: SysfsBlock '' @
     bytes [232, 174, 176, 229, 189, 149, 228, 184, 173, 230, 151, 160, 230, 156, 137, 230, 149, 136, 229, 157, 151, 232, 174, 190, 229, 164, 135]"

definition parse_storage :: "(string \<Rightarrow> json) \<Rightarrow> RawStore \<Rightarrow> string list \<Rightarrow> Storage option \<times> string list" where
  "parse_storage parse_json raw warnings =
     (let blocks = get_all raw SysfsBlock;
          unmounted = \<not> has_success raw StorageMountInfo \<and> enumeration raw BlockDevices = None;
          unconnected = get_all raw SysfsStorageConnections = []
      in if blocks = [] \<and> unconnected \<and> unmounted then (None, warnings @ [missing_block])
         else
           let groups = fold block_record blocks [];
               warnings = (if groups = [] \<and> unmounted then warnings @ [no_valid_block] else warnings)
           in if groups = [] \<and> unconnected \<and> unmounted then (None, warnings)
              else
                let (devices, warnings) = fold add_block_device groups ([], warnings);
                    storage = Storage_default\<lparr>storage_devices := devices\<rparr>;
                    storage = apply_storage_classification (apply_storage_connections raw storage);
                    (storage, warnings) = apply_legacy_storage_mounts raw storage warnings;
                    (storage, warnings) = apply_storage_mounts raw storage warnings;
                    (storage, warnings) = apply_filesystems parse_json raw storage warnings
                in (Some storage, warnings))"

section \<open>Warnings\<close>

definition storage_warning :: "string \<Rightarrow> bool" where
  "storage_warning w \<longleftrightarrow> w \<in> {missing_block, no_valid_block, malformed_header, malformed_record} \<or>
     (\<exists>name s. w = size_failed name s) \<or> (\<exists>line. w = df_short line) \<or> (\<exists>r. w = invalid_report r)"

lemma storage_warning_intros [simp]:
  "storage_warning missing_block" "storage_warning no_valid_block" "storage_warning malformed_header"
  "storage_warning malformed_record" "storage_warning (size_failed name s)" "storage_warning (df_short line)"
  "storage_warning (invalid_report r)"
  by (auto simp: storage_warning_def)

lemma df_line_logs: "logs storage_warning (df_line line)"
  by (rule logs_stage) (simp_all add: df_line_def Let_def)

lemma df_record_logs: "logs storage_warning (df_record r)"
  unfolding df_record_def [abs_def] by (cases "rec_status r = Success") (simp_all add: logs_fold df_line_logs logs_id)

lemma legacy_mounts_logs: "logs storage_warning (\<lambda>(s, ws). apply_legacy_storage_mounts raw s ws)"
proof (cases "has_success raw StorageMountInfo")
  case True
  then show ?thesis by (intro logs_stage) (simp_all add: apply_legacy_storage_mounts_def)
next
  case False
  obtain r w where run: "\<And>ws. fold df_record (get_all raw DfTh) ([], ws) = (r, ws @ w)" "list_all storage_warning w"
    using logs_fold [where f = df_record, OF df_record_logs, of "get_all raw DfTh"] by (elim logsE) blast
  show ?thesis using False run(2) by (intro logs_stage) (simp_all add: apply_legacy_storage_mounts_def run(1))
qed

lemma mountinfo_line_warns: "parse_mount_line line = Inl w \<Longrightarrow> storage_warning w"
  by (auto simp: parse_mount_line_def Let_def split: list.splits option.splits if_splits)

lemma mountinfo_logs: "logs storage_warning (\<lambda>(_ :: unit, ws). parse_mountinfo payload ws)"
proof (intro logs_stage)
  fix u :: unit and ws
  show "(case (u, ws) of (_, ws) \<Rightarrow> parse_mountinfo payload ws) =
      (fst (case (u, []) of (_, ws) \<Rightarrow> parse_mountinfo payload ws),
       ws @ snd (case (u, []) of (_, ws) \<Rightarrow> parse_mountinfo payload ws))"
    by (simp add: parse_mountinfo_def fold_mountinfo)
  have "list_all storage_warning (List.map_filter (\<lambda>l. case parse_mount_line l of Inl w \<Rightarrow> Some w | Inr _ \<Rightarrow> None) ls)" for ls
    by (induction ls) (auto simp: List.map_filter_def mountinfo_line_warns split: sum.splits)
  then show "list_all storage_warning (snd (case (u, []) of (_, ws) \<Rightarrow> parse_mountinfo payload ws))"
    by (simp add: parse_mountinfo_def fold_mountinfo)
qed

lemma mounts_logs: "logs storage_warning (\<lambda>(s, ws). apply_storage_mounts raw s ws)"
proof (cases "find (\<lambda>r. rec_status r = Success) (get_all raw StorageMountInfo)")
  case None
  then show ?thesis by (intro logs_stage) (simp_all add: apply_storage_mounts_def)
next
  case (Some r)
  obtain ms w where "\<And>ws. parse_mountinfo (rec_payload r) ws = (ms, ws @ w)" "list_all storage_warning w"
    using mountinfo_logs [of "rec_payload r"] by (elim logsE) (metis old.prod.case)
  then show ?thesis using Some
    by (intro logs_stage) (simp_all add: apply_storage_mounts_def Let_def case_prod_unfold)
qed

lemma filesystem_record_logs: "logs storage_warning (filesystem_record parse_json mounts r)"
  by (rule logs_stage) (simp_all add: filesystem_record_def Let_def split: option.split)

lemma filesystems_logs: "logs storage_warning (\<lambda>(s, ws). apply_filesystems parse_json raw s ws)"
proof -
  have "logs storage_warning (\<lambda>(s, ws). fold (filesystem_record parse_json (ids s)) rs (s, ws))" for ids rs
  proof (intro logs_stage)
    fix s ws
    have step: "logs storage_warning (fold (filesystem_record parse_json (ids s)) rs)"
      by (intro logs_fold filesystem_record_logs)
    show "(case (s, ws) of (s, ws) \<Rightarrow> fold (filesystem_record parse_json (ids s)) rs (s, ws)) =
        (fst (case (s, []) of (s, ws) \<Rightarrow> fold (filesystem_record parse_json (ids s)) rs (s, ws)),
         ws @ snd (case (s, []) of (s, ws) \<Rightarrow> fold (filesystem_record parse_json (ids s)) rs (s, ws)))"
      using logs_at [OF step, of s ws] by simp
    show "list_all storage_warning (snd (case (s, []) of (s, ws) \<Rightarrow> fold (filesystem_record parse_json (ids s)) rs (s, ws)))"
      using logs_at [OF step, of s "[]"] by simp
  qed
  then show ?thesis unfolding apply_filesystems_def .
qed

lemma add_block_logs: "logs storage_warning (add_block_device e)"
  by (rule logs_stage)
    (auto simp: add_block_device_def block_device_def block_capacity_def Let_def case_prod_unfold
      split: option.split)

lemma parse_storage_logs: "logs storage_warning (\<lambda>(_ :: unit, ws). parse_storage parse_json raw ws)"
proof -
  obtain ds w1 where 1: "\<And>a ws. fold add_block_device groups (a, ws) = (ds groups a, ws @ w1 groups a)"
    "\<And>a. list_all storage_warning (w1 groups a)" for groups
  proof -
    have "\<exists>r w. \<forall>a ws. fold add_block_device groups (a, ws) = (r a, ws @ w a) \<and> list_all storage_warning (w a)" for groups
      using logs_fold [where f = add_block_device, OF add_block_logs, of groups] unfolding logs_def by metis
    then show ?thesis using that by metis
  qed
  obtain s2 w2 where 2: "\<And>s ws. apply_legacy_storage_mounts raw s ws = (s2 s, ws @ w2 s)"
    "\<And>s. list_all storage_warning (w2 s)"
    using legacy_mounts_logs [of raw] by (elim logsE) (metis old.prod.case)
  obtain s3 w3 where 3: "\<And>s ws. apply_storage_mounts raw s ws = (s3 s, ws @ w3 s)"
    "\<And>s. list_all storage_warning (w3 s)"
    using mounts_logs [of raw] by (elim logsE) (metis old.prod.case)
  obtain s4 w4 where 4: "\<And>s ws. apply_filesystems parse_json raw s ws = (s4 s, ws @ w4 s)"
    "\<And>s. list_all storage_warning (w4 s)"
    using filesystems_logs [of parse_json raw] by (elim logsE) (metis old.prod.case)
  show ?thesis
    by (rule logs_stage) (simp_all add: parse_storage_def Let_def 1 2 3 4)
qed

lemma storage_evidence:
  assumes "\<And>s. s \<in> {SysfsBlock, SysfsStorageConnections, StorageMountInfo, DfTh, Src_FilesystemUsage} \<Longrightarrow>
      get_all raw s = get_all raw' s"
    and "\<And>k. k \<in> {BlockDevices} \<Longrightarrow> enumeration raw k = enumeration raw' k"
  shows "parse_storage parse_json raw ws = parse_storage parse_json raw' ws"
proof -
  have "get_all raw SysfsBlock = get_all raw' SysfsBlock"
    "get_all raw SysfsStorageConnections = get_all raw' SysfsStorageConnections"
    "get_all raw StorageMountInfo = get_all raw' StorageMountInfo" "get_all raw DfTh = get_all raw' DfTh"
    "get_all raw Src_FilesystemUsage = get_all raw' Src_FilesystemUsage"
    "enumeration raw BlockDevices = enumeration raw' BlockDevices"
    using assms by simp_all
  then show ?thesis
    by (simp only: parse_storage_def apply_storage_connections_def connection_inventory_def
      apply_legacy_storage_mounts_def apply_storage_mounts_def apply_filesystems_def has_success_get_all)
qed

interpretation storage_parser: domain_parser "parse_storage parse_json"
  "{SysfsBlock, SysfsStorageConnections, StorageMountInfo, DfTh, Src_FilesystemUsage}" "{BlockDevices}"
  storage_warning for parse_json
  by (rule domain_parserI) (rule parse_storage_logs, rule storage_evidence)

section \<open>The devices of the model\<close>

text \<open>The block devices that some readable sysfs path names.\<close>

definition block_names :: "RawStore \<Rightarrow> string set" where
  "block_names raw =
     {extract_device_name (rec_path_or_command r) | r. r \<in> set (get_all raw SysfsBlock) \<and> rec_status r = Success} - {[]}"

text \<open>What the stages after the first keep of a device, and what classification makes of the layer.\<close>

definition device_core :: "StorageDevice \<Rightarrow> StorageId \<times> DeviceName \<times> MemorySize option" where
  "device_core d = (st_id d, st_name d, st_capacity d)"

definition classification_ok :: "StorageDevice \<Rightarrow> bool" where
  "classification_ok d \<longleftrightarrow>
     (let c = st_classification d in
      sorted_wrt (\<lambda>a b. transport_index a < transport_index b) (cls_transports c) \<and>
      Transport_Unknown \<notin> set (cls_transports c) \<and>
      (cls_layer c \<in> {Layer_Device, Layer_Unknown} \<or>
       (cls_purpose c, cls_protocol c, cls_transports c) = (Purpose_Unknown, Proto_Unknown, [])) \<and>
      (is_nvme d \<longrightarrow> cls_layer c \<noteq> Virtual \<and>
         (cls_layer c = Layer_Device \<longrightarrow> cls_purpose c = Disk \<and> cls_protocol c = Proto_Nvme)))"

lemma inj_transport_index: "inj transport_index"
proof (rule injI)
  fix a b
  show "transport_index a = transport_index b \<Longrightarrow> a = b" by (cases a; cases b) simp_all
qed

lemma transports_ok:
  "sorted_wrt (\<lambda>a b. transport_index a < transport_index b) (transports storage d)"
  "Transport_Unknown \<notin> set (transports storage d)"
proof -
  have sorted: "sorted_wrt (\<lambda>a b. transport_index a < transport_index b) (remdups_adj (sort_key transport_index ks))" for ks
  proof -
    have "map transport_index (remdups_adj (sort_key transport_index ks)) =
        remdups_adj (map transport_index (sort_key transport_index ks))"
      by (metis remdups_adj_map_injective inj_transport_index)
    moreover have "sorted_wrt (<) (remdups_adj (map transport_index (sort_key transport_index ks)))"
      by (intro sorted_remdups_adj_strict sorted_sort_key)
    ultimately have "sorted_wrt (<) (map transport_index (remdups_adj (sort_key transport_index ks)))" by simp
    then show ?thesis by (simp add: sorted_wrt_map)
  qed
  show "sorted_wrt (\<lambda>a b. transport_index a < transport_index b) (transports storage d)"
    unfolding transports_def Let_def by (rule sorted)
  show "Transport_Unknown \<notin> set (transports storage d)"
    by (simp add: transports_def Let_def)
qed

lemma classified_ok: "classification_ok (classified storage d)"
  using transports_ok [of storage d]
  by (simp add: classification_ok_def classified_def Let_def is_nvme_def purpose_def protocol_def)

lemma stage_cores:
  "device_core (classified storage d) = device_core d"
  "device_core (connect_block blocks nvme d) = device_core d"
  "device_core (df_device df_map d) = device_core d"
  "device_core (unmounted d) = device_core d"
  "device_core (mount_block m d) = device_core d"
proof -
  have "device_core (df_partition e d) = device_core d" for e d
    by (simp add: device_core_def df_partition_def split: prod.split)
  then have "device_core (fold df_partition es d) = device_core d" for es
    by (induction es arbitrary: d) simp_all
  then show "device_core (df_device df_map d) = device_core d"
    by (simp add: df_device_def device_core_def split: option.split)
qed (auto simp: device_core_def classified_def connect_block_def apply_block_def Let_def unmounted_def
    mount_block_def split: option.split)

lemma stage_classes:
  "classification_ok (df_device df_map d) = classification_ok d"
  "classification_ok (unmounted d) = classification_ok d"
  "classification_ok (mount_block m d) = classification_ok d"
proof -
  have "classification_ok (df_partition e d) = classification_ok d" for e d
    by (simp add: classification_ok_def is_nvme_def df_partition_def split: prod.split)
  then have "classification_ok (fold df_partition es d) = classification_ok d" for es
    by (induction es arbitrary: d) simp_all
  then show "classification_ok (df_device df_map d) = classification_ok d"
    by (simp add: df_device_def classification_ok_def is_nvme_def split: option.split)
qed (simp_all add: classification_ok_def is_nvme_def unmounted_def mount_block_def)

text \<open>A stage that changes devices in place, without touching the cores or the classification.\<close>

definition settles :: "Storage \<Rightarrow> Storage \<Rightarrow> bool" where
  "settles s s' \<longleftrightarrow> map device_core (storage_devices s') = map device_core (storage_devices s) \<and>
     list_all classification_ok (storage_devices s') = list_all classification_ok (storage_devices s)"

lemma settles_refl: "settles s s" and settles_trans: "settles a b \<Longrightarrow> settles b c \<Longrightarrow> settles a c"
  by (simp_all add: settles_def)

lemma legacy_settles: "settles s (fst (apply_legacy_storage_mounts raw s ws))"
  by (simp add: apply_legacy_storage_mounts_def settles_def Let_def case_prod_unfold stage_cores stage_classes
    list.pred_map comp_def)

lemma mounts_settles: "settles s (fst (apply_storage_mounts raw s ws))"
proof -
  have block: "device_core (fold mount_block ms d) = device_core d \<and>
      classification_ok (fold mount_block ms d) = classification_ok d" for ms d
    by (induction ms arbitrary: d) (simp_all add: stage_cores stage_classes)
  have "map device_core (fst (fold (link_mount numbers) ms (ds, acc))) = map device_core ds \<and>
      list_all classification_ok (fst (fold (link_mount numbers) ms (ds, acc))) = list_all classification_ok ds"
    for numbers ms ds acc
    by (auto simp: link_mounts block list_all_length intro: nth_equalityI)
  from this [of "fold index_number (enumerate 0 (map unmounted (storage_devices s))) []" _
      "map unmounted (storage_devices s)" "[]"]
  show ?thesis
    by (simp add: apply_storage_mounts_def settles_def Let_def case_prod_unfold stage_cores stage_classes
      list.pred_map comp_def split: option.split)
qed

lemma filesystems_settles: "settles s (fst (apply_filesystems parse_json raw s ws))"
proof -
  have "storage_devices (fst (fold (filesystem_record parse_json ids) rs s)) = storage_devices (fst s)" for ids rs s
    by (induction rs arbitrary: s)
      (auto simp: filesystem_record_def Let_def case_prod_unfold split: option.split)
  then show ?thesis by (simp add: apply_filesystems_def settles_def)
qed

lemma late_settles:
  "settles s (fst (apply_filesystems parse_json raw
     (fst (apply_storage_mounts raw (fst (apply_legacy_storage_mounts raw s ws)) w1)) w2))"
  by (rule settles_trans [OF settles_trans [OF legacy_settles mounts_settles] filesystems_settles])

lemma block_groups: "map_invar groups \<Longrightarrow> map_invar (fold block_record rs groups)"
  "fst ` set (fold block_record rs groups) = fst ` set groups \<union>
     ({extract_device_name (rec_path_or_command r) | r. r \<in> set rs \<and> rec_status r = Success} - {[]})"
proof -
  have step: "fst ` set (block_record r groups) =
      fst ` set groups \<union> (if rec_status r = Success then {extract_device_name (rec_path_or_command r)} - {[]} else {})" for r groups
    by (auto simp: block_record_def Let_def)
  show "fst ` set (fold block_record rs groups) = fst ` set groups \<union>
     ({extract_device_name (rec_path_or_command r) | r. r \<in> set rs \<and> rec_status r = Success} - {[]})"
    by (induction rs arbitrary: groups) (auto simp: step)
  show "map_invar groups \<Longrightarrow> map_invar (fold block_record rs groups)"
    by (rule fold_invariant_set [where P = map_invar]) (auto simp: block_record_def Let_def)
qed

lemma block_device_core: "device_core (fst (block_device ident name attrs)) =
    (ident, NamedString name, fst (block_capacity name attrs))"
proof -
  have "device_core (block_text attrs e d) = device_core d" if "e \<in> set text_fields" for e d
    using that by (auto simp: text_fields_def block_text_def device_core_def Let_def split: option.split)
  then have "device_core (fold (block_text attrs) text_fields d) = device_core d" for d
    using fold_invariant_set [where P = "\<lambda>x. device_core x = device_core d" and f = "block_text attrs" and xs = text_fields]
    by simp
  then show ?thesis
    by (simp add: block_device_def Let_def case_prod_unfold apply_storage_compatibility_def device_core_def)
qed

lemma add_block_cores:
  "map device_core (fst (fold add_block_device groups (ds, ws))) = map device_core ds @
     map (\<lambda>(i, name, attrs). (StrongId (word_of_nat i), NamedString name, fst (block_capacity name attrs)))
       (enumerate (length ds) groups)"
proof (induction groups arbitrary: ds ws)
  case Nil
  then show ?case by simp
next
  case (Cons e groups)
  obtain name attrs where e: "e = (name, attrs)" by (cases e)
  obtain d w where d: "block_device (StrongId (word_of_nat (length ds))) name attrs = (d, w)"
    by (cases "block_device (StrongId (word_of_nat (length ds))) name attrs")
  have "add_block_device e (ds, ws) = (ds @ [d], ws @ w)" by (simp add: add_block_device_def e d)
  then show ?case
    using Cons.IH [of "ds @ [d]" "ws @ w"] block_device_core [of "StrongId (word_of_nat (length ds))" name attrs]
    by (simp add: e d)
qed

definition storage_nothing :: "RawStore \<Rightarrow> bool" where
  "storage_nothing raw \<longleftrightarrow> \<not> has_source raw SysfsStorageConnections \<and> \<not> has_success raw StorageMountInfo \<and>
     enumeration raw BlockDevices = None"

lemma parse_storage_stages:
  assumes "fst (parse_storage parse_json raw warnings) = Some storage"
  obtains groups where "map_invar groups" "fst ` set groups = block_names raw"
    "map device_core (storage_devices storage) =
       map (\<lambda>(i, name, attrs). (StrongId (word_of_nat i), NamedString name, fst (block_capacity name attrs)))
         (enumerate 0 groups)"
    "list_all classification_ok (storage_devices storage)"
proof -
  let ?groups = "fold block_record (get_all raw SysfsBlock) []"
  let ?first = "\<lambda>ws. Storage_default\<lparr>storage_devices := fst (fold add_block_device ?groups ([], ws))\<rparr>"
  let ?classed = "\<lambda>ws. apply_storage_classification (apply_storage_connections raw (?first ws))"
  have "\<exists>ws. settles (?classed ws) storage"
    using assms
    by (auto simp: parse_storage_def Let_def case_prod_unfold split: if_splits intro!: exI late_settles)
  then obtain ws where late: "settles (?classed ws) storage" ..
  have "map device_core (storage_devices (?classed ws)) = map device_core (storage_devices (?first ws))"
    by (simp add: apply_storage_classification_def apply_storage_connections_def Let_def stage_cores comp_def)
  with late have "map device_core (storage_devices storage) =
      map (\<lambda>(i, name, attrs). (StrongId (word_of_nat i), NamedString name, fst (block_capacity name attrs)))
         (enumerate 0 ?groups)"
    by (simp add: settles_def add_block_cores)
  moreover have "list_all classification_ok (storage_devices (?classed ws))"
    by (simp add: apply_storage_classification_def list.pred_map comp_def classified_ok list.pred_True)
  then have "list_all classification_ok (storage_devices storage)" using late by (simp add: settles_def)
  moreover have "fst ` set ?groups = block_names raw" by (simp add: block_groups block_names_def)
  ultimately show ?thesis using that [of ?groups] block_groups(1) [OF map_invar_Nil] by blast
qed

lemma parse_storage_None:
  "fst (parse_storage parse_json raw warnings) = None \<longleftrightarrow> block_names raw = {} \<and> storage_nothing raw"
proof -
  have "fold block_record (get_all raw SysfsBlock) [] = [] \<longleftrightarrow> block_names raw = {}"
    using block_groups(2) [of "get_all raw SysfsBlock" "[]"]
    by (simp only: block_names_def image_empty list.set Un_empty_left flip: image_is_empty [of fst] set_empty)
  then show ?thesis
    by (auto simp: parse_storage_def Let_def case_prod_unfold storage_nothing_def split: if_splits
      simp flip: get_all_empty_iff)
qed

text \<open>C13: the block devices of the model are exactly those a readable sysfs path names, each once and in
  name order with consecutive ids; there is no model exactly when there is no device and no other
  evidence of storage either.
\<close>

theorem parse_storage_devices:
  "case fst (parse_storage parse_json raw warnings) of
     None \<Rightarrow> block_names raw = {} \<and> storage_nothing raw
   | Some storage \<Rightarrow>
       \<not> (block_names raw = {} \<and> storage_nothing raw) \<and>
       map (str_value \<circ> st_name) (storage_devices storage) = sorted_list_of_set (block_names raw) \<and>
       map st_id (storage_devices storage) = map (StrongId \<circ> word_of_nat) [0..<length (storage_devices storage)]"
proof (cases "fst (parse_storage parse_json raw warnings)")
  case None
  then show ?thesis using parse_storage_None [of parse_json raw warnings] by simp
next
  case (Some storage)
  from parse_storage_stages [OF Some] obtain groups where g: "map_invar groups" "fst ` set groups = block_names raw"
    "map device_core (storage_devices storage) =
       map (\<lambda>(i, name, attrs). (StrongId (word_of_nat i), NamedString name, fst (block_capacity name attrs)))
         (enumerate 0 groups)" .
  have "map (str_value \<circ> st_name) (storage_devices storage) =
      map (\<lambda>c. str_value (fst (snd c))) (map device_core (storage_devices storage))"
    by (simp add: device_core_def)
  also have "\<dots> = map fst groups" unfolding g(3) by (intro nth_equalityI) (auto simp: nth_enumerate_eq split: prod.split)
  also have "\<dots> = sorted_list_of_set (block_names raw)"
    using sorted_keys_unique [OF g(1), of "\<lambda>_. True"] by (simp add: g(2))
  finally have names: "map (str_value \<circ> st_name) (storage_devices storage) = sorted_list_of_set (block_names raw)" .
  have len: "length (storage_devices storage) = length groups"
    using arg_cong [OF g(3), of length] by simp
  have "map st_id (storage_devices storage) = map fst (map device_core (storage_devices storage))"
    by (simp add: device_core_def)
  also have "\<dots> = map (StrongId \<circ> word_of_nat) [0..<length groups]"
    unfolding g(3) by (intro nth_equalityI) (auto simp: nth_enumerate_eq split: prod.split)
  finally show ?thesis using names parse_storage_None [of parse_json raw warnings] by (simp add: Some len)
qed

text \<open>
  the classification is sound: the transports of a device are distinct and in order, a partition
  or a virtual layer does not claim the purpose, protocol or transport of the device below it, and
  an NVMe namespace is an NVMe disk even when the kernel presents it as virtual.
\<close>

theorem storage_classification_sound:
  "pred_option (\<lambda>storage. list_all classification_ok (storage_devices storage))
     (fst (parse_storage parse_json raw warnings))"
proof (cases "fst (parse_storage parse_json raw warnings)")
  case None
  then show ?thesis by simp
next
  case (Some storage)
  show ?thesis using parse_storage_stages [OF Some] by (simp add: Some)
qed

text \<open>
  a capacity is the sector count times 512 and never wraps: it is known exactly when the size
  attribute is a number and the product fits in 64 bits, and otherwise a present size is warned about.
\<close>

theorem block_capacity_exact:
  "block_capacity name attrs =
     (case map_of attrs ''size'' of
        None \<Rightarrow> (None, [])
      | Some s \<Rightarrow>
          (case map_option unat (parse_uint s) of
             None \<Rightarrow> (None, [size_failed name s])
           | Some n \<Rightarrow> if n * 512 < 2 ^ 64 then (Some (ScalarUnit (word_of_nat (n * 512))), [])
               else (None, [size_failed name s])))"
proof -
  have "n \<le> (- 1) div 512 \<longleftrightarrow> unat n * 512 < 2 ^ 64" for n :: u64
    by (simp add: word_le_nat_alt unat_div unsigned_minus_1_eq_mask mask_eq_exp_minus_1) linarith
  moreover have "word_of_nat (unat n * 512) = n * 512" for n :: u64 by simp
  ultimately show ?thesis
    by (auto simp: block_capacity_def split: option.split)
qed

end
