(* ===== verification/Storage_Health_Parser.thy ===== *)
theory Storage_Health_Parser
  imports Json Warnings
begin

text \<open>
  \<open>src/parser/storage_health.cpp\<close>: the health reports of the drives, from the JSON of \<open>smartctl\<close>
  and \<open>nvme smart-log\<close>. The sysfs records name the block devices of each target and its
  protocol; of several reports on a target the last one counts.
\<close>

section \<open>JSON members\<close>

definition health_object :: "json \<Rightarrow> string \<Rightarrow> json" where
  "health_object j key =
     (case json_find j key of
        None \<Rightarrow> Json_Object [] | Some v \<Rightarrow> if is_object v then v else Json_Object [])"

fun empty_object :: "json \<Rightarrow> bool" where
  "empty_object (Json_Object members) \<longleftrightarrow> members = []"
| "empty_object _ \<longleftrightarrow> False"

definition health_boolean :: "json \<Rightarrow> string \<Rightarrow> bool option" where
  "health_boolean j key = Option.bind (json_find j key) json_boolean"

definition health_text :: "json \<Rightarrow> string \<Rightarrow> string" where
  "health_text j key = (case json_text j key of None \<Rightarrow> [] | Some s \<Rightarrow> s)"

definition health_field :: "json \<Rightarrow> string \<Rightarrow> u8 option" where
  "health_field j key = Option.bind (json_find j key) health_u8"

section \<open>NVMe\<close>

definition or_else :: "'a option \<Rightarrow> 'a option \<Rightarrow> 'a option" where
  "or_else a b = (case a of None \<Rightarrow> b | Some x \<Rightarrow> Some x)"

definition percentage :: "u8 option \<Rightarrow> u8 option" where
  "percentage v = (case v of None \<Rightarrow> None | Some n \<Rightarrow> if n > 100 then None else Some n)"

definition celsius :: "bool \<Rightarrow> int \<Rightarrow> SensorTemperature option" where
  "celsius kelvin v =
     (if (if kelvin then 1 else - 273) \<le> v \<and> v \<le> 65535
      then Some (SensorTemperature (word_of_int (v * 1000 - (if kelvin then 273150 else 0)))) else None)"

definition health_temperature :: "bool \<Rightarrow> json \<Rightarrow> SensorTemperature option" where
  "health_temperature kelvin j =
     (case json_find j ''temperature'' of
        Some (Json_Unsigned v) \<Rightarrow> if v \<le> 65535 then celsius kelvin (uint v) else None
      | Some (Json_Integer v) \<Rightarrow> celsius kelvin (sint v)
      | _ \<Rightarrow> None)"

definition nvme_health :: "bool \<Rightarrow> json \<Rightarrow> NvmeHealth" where
  "nvme_health kelvin j =
     \<lparr>nvme_critical_warning = health_field j ''critical_warning'',
      nvme_available_spare = percentage (or_else (health_field j ''available_spare'') (health_field j ''avail_spare'')),
      nvme_spare_threshold =
        percentage (or_else (health_field j ''available_spare_threshold'') (health_field j ''spare_thresh'')),
      nvme_percentage_used = or_else (health_field j ''percentage_used'') (health_field j ''percent_used''),
      nvme_temperature = health_temperature kelvin j,
      nvme_power_on_hours = health_counter j ''power_on_hours'',
      nvme_power_cycles = health_counter j ''power_cycles'',
      nvme_unsafe_shutdowns = health_counter j ''unsafe_shutdowns'',
      nvme_media_errors = health_counter j ''media_errors'',
      nvme_error_log_entries = health_counter j ''num_err_log_entries'',
      nvme_data_units_read = health_counter j ''data_units_read'',
      nvme_data_units_written = health_counter j ''data_units_written''\<rparr>"

section \<open>smartctl\<close>

definition ata_attribute :: "json \<Rightarrow> AtaHealthAttribute option" where
  "ata_attribute j =
     (if \<not> is_object j then None
      else case health_field j ''id'' of
        None \<Rightarrow> None
      | Some ident \<Rightarrow>
          if ident = 0 then None
          else Some \<lparr>ata_id = ident, ata_name = health_text j ''name'', ata_value = health_field j ''value'',
            ata_worst = health_field j ''worst'', ata_threshold = health_field j ''thresh'',
            ata_raw = health_text (health_object j ''raw'') ''string'',
            ata_when_failed = health_text j ''when_failed''\<rparr>)"

definition scsi_health :: "json \<Rightarrow> ScsiHealth" where
  "scsi_health errors =
     (let uncorrected = (\<lambda>key. health_counter (health_object errors key) ''total_uncorrected_errors'') in
      \<lparr>scsi_read_uncorrected = uncorrected ''read'', scsi_write_uncorrected = uncorrected ''write'',
       scsi_verify_uncorrected = uncorrected ''verify''\<rparr>)"

definition smart_health :: "json \<Rightarrow> StorageHealthReport \<Rightarrow> StorageHealthReport" where
  "smart_health j report =
     (let support = health_object j ''smart_support'';
          nvme = health_object j ''nvme_smart_health_information_log'';
          errors = health_object j ''scsi_error_counter_log'';
          table = Option.bind (json_find (health_object j ''ata_smart_attributes'') ''table'') json_array;
          report = report\<lparr>shr_smart_available := health_boolean support ''available'',
            shr_smart_enabled := health_boolean support ''enabled'',
            shr_passed := health_boolean (health_object j ''smart_status'') ''passed''\<rparr>
      in case shr_protocol report of
           Proto_Nvme \<Rightarrow> if empty_object nvme then report else report\<lparr>shr_nvme := Some (nvme_health False nvme)\<rparr>
         | Proto_Ata \<Rightarrow> report\<lparr>shr_ata_attributes := shr_ata_attributes report @
             List.map_filter ata_attribute (case table of None \<Rightarrow> [] | Some rows \<Rightarrow> rows)\<rparr>
         | Proto_Scsi \<Rightarrow> if empty_object errors then report else report\<lparr>shr_scsi := Some (scsi_health errors)\<rparr>
         | Proto_Unknown \<Rightarrow> report)"

section \<open>Reports\<close>

type_synonym HealthDevices = "(string, DeviceName list) std_map"
type_synonym HealthProtocols = "(string, StorageProtocol) std_map"

definition health_protocol :: "string \<Rightarrow> StorageProtocol" where
  "health_protocol s =
     (if s = ''nvme'' then Proto_Nvme else if s = ''ata'' then Proto_Ata
      else if s = ''scsi'' then Proto_Scsi else Proto_Unknown)"

definition target_record :: "RawRecord \<Rightarrow> HealthDevices \<times> HealthProtocols \<Rightarrow> HealthDevices \<times> HealthProtocols" where
  "target_record r = (\<lambda>(devices, protocols).
     if rec_status r \<noteq> Success then (devices, protocols)
     else
       let path = rec_path_or_command r;
           parts = split path (CHR ''/'');
           devices = (if prefix ''/sys/class/block/'' path \<and> suffix ''/health_target'' path \<and> length parts = 6
             then map_update (trim (rec_payload r)) [] (\<lambda>names. names @ [NamedString (parts ! 4)]) devices
             else devices);
           protocols = (if prefix ''/dev/'' path \<and> suffix ''/protocol'' path \<and> length parts = 4
             then map_put (parts ! 2) (health_protocol (trim (rec_payload r))) protocols
             else protocols)
       in (devices, protocols))"

definition health_targets :: "RawStore \<Rightarrow> HealthDevices \<times> HealthProtocols" where
  "health_targets raw = fold target_record (get_all raw StorageHealthSysfs) ([], [])"

text \<open>The target of a report, when it has a protocol.\<close>

definition health_target :: "HealthProtocols \<Rightarrow> RawRecord \<Rightarrow> string option" where
  "health_target protocols r =
     (if rec_source r \<noteq> Smartctl \<and> rec_source r \<noteq> NvmeSmartLog then None
      else case find_char (CHR ''/'') (rec_path_or_command r) of
        None \<Rightarrow> None
      | Some slash \<Rightarrow>
          let target = drop (slash + 1) (rec_path_or_command r) in
          if target = [] \<or> CHR ''/'' \<in> set target \<or> map_of protocols target = None then None
          else Some target)"

definition invalid_health :: "RawRecord \<Rightarrow> string" where
  "invalid_health r = ''storage health: invalid JSON from '' @ rec_path_or_command r"

definition readable :: "RawRecord \<Rightarrow> bool" where
  "readable r \<longleftrightarrow> rec_status r = Success \<or> rec_status r = Partial"

definition health_report :: "(string \<Rightarrow> json) \<Rightarrow> HealthDevices \<times> HealthProtocols \<Rightarrow> string \<Rightarrow> RawRecord \<Rightarrow>
    StorageHealthReport" where
  "health_report parse_json = (\<lambda>(devices, protocols) target r.
     let report = StorageHealthReport_default
           \<lparr>shr_target := NamedString target,
            shr_devices := (case map_of devices target of None \<Rightarrow> [] | Some names \<Rightarrow> names),
            shr_protocol := (case map_of protocols target of None \<Rightarrow> Proto_Unknown | Some p \<Rightarrow> p),
            shr_source := rec_source r, shr_origin := rec_path_or_command r,
            shr_status := rec_status r, shr_failure := rec_failure r\<rparr>;
         j = parse_json (rec_payload r)
     in if \<not> readable r then report
        else if \<not> is_object j then report\<lparr>shr_status := Failed, shr_failure := Some Unsupported\<rparr>
        else if rec_source r = NvmeSmartLog then report\<lparr>shr_nvme := Some (nvme_health True j)\<rparr>
        else smart_health j report)"

definition health_warnings :: "(string \<Rightarrow> json) \<Rightarrow> RawRecord \<Rightarrow> string list" where
  "health_warnings parse_json r =
     (if readable r \<and> \<not> is_object (parse_json (rec_payload r)) then [invalid_health r] else [])"

definition health_record :: "(string \<Rightarrow> json) \<Rightarrow> HealthDevices \<times> HealthProtocols \<Rightarrow> RawRecord \<Rightarrow>
    (string, StorageHealthReport) std_map \<times> string list \<Rightarrow> (string, StorageHealthReport) std_map \<times> string list" where
  "health_record parse_json targets r = (\<lambda>(reports, warnings).
     case health_target (snd targets) r of
       None \<Rightarrow> (reports, warnings)
     | Some target \<Rightarrow> (map_put target (health_report parse_json targets target r) reports,
         warnings @ health_warnings parse_json r))"

definition parse_storage_health :: "(string \<Rightarrow> json) \<Rightarrow> RawStore \<Rightarrow> Storage \<Rightarrow> string list \<Rightarrow> Storage \<times> string list" where
  "parse_storage_health parse_json raw storage warnings =
     (let (reports, warnings) = fold (health_record parse_json (health_targets raw)) (raw_records raw) ([], warnings)
      in (storage\<lparr>storage_health := storage_health storage @ map snd reports\<rparr>, warnings))"

section \<open>One report for each target\<close>

text \<open>The last report on every target, in the order of the targets.\<close>

definition last_report :: "(string \<Rightarrow> json) \<Rightarrow> RawStore \<Rightarrow> string \<Rightarrow> StorageHealthReport" where
  "last_report parse_json raw target =
     health_report parse_json (health_targets raw) target
       (List.last (filter (\<lambda>r. health_target (snd (health_targets raw)) r = Some target) (raw_records raw)))"

definition reported_targets :: "RawStore \<Rightarrow> string set" where
  "reported_targets raw =
     {target. \<exists>r \<in> set (raw_records raw). health_target (snd (health_targets raw)) r = Some target}"

lemma health_records:
  assumes "map_invar m"
  shows "map_invar (fst (fold (health_record parse_json ts) rs (m, ws)))" (is ?invar)
    and "map_of (fst (fold (health_record parse_json ts) rs (m, ws))) target =
      (let mine = filter (\<lambda>r. health_target (snd ts) r = Some target) rs in
       if mine = [] then map_of m target else Some (health_report parse_json ts target (List.last mine)))" (is ?lookup)
proof -
  have "?invar \<and> ?lookup"
    using assms
  proof (induction rs arbitrary: m ws)
    case Nil
    then show ?case by simp
  next
    case (Cons r rs)
    show ?case
    proof (cases "health_target (snd ts) r")
      case None
      then have "health_record parse_json ts r (m, ws) = (m, ws)" by (simp add: health_record_def)
      with None Cons show ?thesis by simp
    next
      case (Some t)
      then have "health_record parse_json ts r (m, ws) =
          (map_put t (health_report parse_json ts t r) m, ws @ health_warnings parse_json r)"
        by (simp add: health_record_def)
      then show ?thesis
        using Cons.IH [of "map_put t (health_report parse_json ts t r) m"] Cons.prems Some
        by (auto simp: Let_def map_of_put map_invar_put)
    qed
  qed
  then show ?invar ?lookup by blast+
qed

lemma map_invar_listing: "map_invar m \<Longrightarrow> map snd m = map (\<lambda>k. the (map_of m k)) (sorted_list_of_set (dom (map_of m)))"
proof -
  assume m: "map_invar m"
  have "sorted_list_of_set (dom (map_of m)) = map fst m"
    using m by (simp add: dom_map_of_conv_image_fst map_invar_def strict_sorted_iff
        sorted_list_of_set.idem_if_sorted_distinct flip: set_map)
  moreover have "map_of m k = Some v" if "(k, v) \<in> set m" for k v
    using that map_invar_lookup [OF m] by blast
  then have "map snd m = map (\<lambda>e. the (map_of m (fst e))) m" by (simp add: split_paired_all)
  ultimately show ?thesis by (simp add: comp_def)
qed

text \<open>C23: every drive with a known protocol and a report is listed exactly once, in the order of the
  targets, with what its last report says; a target without a protocol is left out.
\<close>

theorem storage_health_reports:
  "storage_health (fst (parse_storage_health parse_json raw storage warnings)) =
     storage_health storage @ map (last_report parse_json raw) (sorted_list_of_set (reported_targets raw))"
proof -
  define m where "m = fst (fold (health_record parse_json (health_targets raw)) (raw_records raw) ([], warnings))"
  have m: "map_invar m"
    "map_of m target = (if target \<in> reported_targets raw then Some (last_report parse_json raw target) else None)" for target
    unfolding m_def
    by (simp_all add: health_records Let_def reported_targets_def last_report_def filter_empty_conv)
  have "dom (map_of m) = reported_targets raw" by (auto simp: m(2) split: if_splits)
  moreover have "finite (reported_targets raw)" using calculation finite_dom_map_of by metis
  ultimately have "map snd m = map (last_report parse_json raw) (sorted_list_of_set (reported_targets raw))"
    using map_invar_listing [OF m(1)] by (auto simp: m(2))
  then show ?thesis by (simp add: parse_storage_health_def case_prod_unfold m_def)
qed

text \<open>
  the values of an NVMe report are plausible: spare capacities are percentages, and no
  temperature is below absolute zero or beyond what the report's 16-bit field can hold.
\<close>

theorem nvme_health_ranges:
  "let h = nvme_health kelvin j in
     pred_option (\<lambda>v. v \<le> 100) (nvme_available_spare h) \<and> pred_option (\<lambda>v. v \<le> 100) (nvme_spare_threshold h) \<and>
     pred_option (\<lambda>t. - 273000 \<le> sint (temperature_value t) \<and> sint (temperature_value t) \<le> 65535000)
       (nvme_temperature h)"
proof -
  have range: "sint (word_of_int n :: i64) = n" if "- 273000 \<le> n" "n \<le> 65535000" for n
    using that by (simp add: signed_take_bit_int_eq_self sint_sbintrunc')
  have "pred_option (\<lambda>t. - 273000 \<le> sint (temperature_value t) \<and> sint (temperature_value t) \<le> 65535000) (celsius kelvin v)" for v
    using range [of "v * 1000 - (if kelvin then 273150 else 0)"] by (auto simp: celsius_def simp del: of_int_diff of_int_mult)
  then have "pred_option (\<lambda>t. - 273000 \<le> sint (temperature_value t) \<and> sint (temperature_value t) \<le> 65535000)
      (health_temperature kelvin j)"
    by (auto simp: health_temperature_def split: option.split json.split)
  moreover have "pred_option (\<lambda>v. v \<le> 100) (percentage v)" for v
    by (auto simp: percentage_def split: option.split)
  ultimately show ?thesis by (simp add: nvme_health_def)
qed

end
