(* ===== verification/Memory_Edac.thy ===== *)
theory Memory_Edac
  imports Raw_Store Streams
begin

text \<open>
  \<open>src/parser/memory_edac.cpp\<close> and \<open>memory_topology.cpp\<close>: the memory devices and controllers that
  EDAC reports, their locations, and how they complete the DIMM list. \<open>std::sort\<close> leaves the order of
  equal keys open; the model keeps the order of the directories. A DIMM that is updated in place is the
  only one that matches, so the model maps the update over the list.
\<close>

section \<open>Locations\<close>

definition location_layer :: "string \<Rightarrow> EdacLocationLayer" where
  "location_layer name =
     (if name = ''branch'' then Branch else if name = ''channel'' then Channel
      else if name = ''slot'' then Slot else if name = ''csrow'' then ChipSelect
      else if name = ''memory'' then AllMemory else EdacLayer_Unknown)"

fun edac_coordinates :: "string list \<Rightarrow> EdacLocationCoordinate list \<Rightarrow> EdacLocationCoordinate list option" where
  "edac_coordinates [] coordinates = Some coordinates"
| "edac_coordinates [name] coordinates = None"
| "edac_coordinates (name # text # rest) coordinates =
     (case parse_u32 text of
        None \<Rightarrow> None
      | Some index \<Rightarrow>
          if location_layer name = EdacLayer_Unknown \<or>
             list_ex (\<lambda>item. coord_layer item = location_layer name) coordinates
          then None
          else edac_coordinates rest
            (coordinates @ [\<lparr>coord_layer = location_layer name, coord_index = index\<rparr>]))"

definition parse_edac_location :: "string \<Rightarrow> EdacLocation" where
  "parse_edac_location report =
     \<lparr>loc_report = trim report,
      loc_coordinates = (case edac_coordinates (tokens (trim report)) [] of None \<Rightarrow> [] | Some cs \<Rightarrow> cs)\<rparr>"

section \<open>Devices\<close>

definition edac_controller_index :: "string \<Rightarrow> u32 option" where
  "edac_controller_index path =
     (case find_str ''/mc/mc'' path of
        None \<Rightarrow> None
      | Some start \<Rightarrow>
          let rest = drop (start + 6) path in
          parse_u32 (case find_char (CHR ''/'') rest of None \<Rightarrow> rest | Some stop \<Rightarrow> take stop rest))"

definition edac_kind :: "string \<Rightarrow> EdacMemoryDeviceKind" where
  "edac_kind name = (if prefix ''dimm'' name then Dimm else if prefix ''rank'' name then Rank else Edac_Unknown)"

definition device_identity :: "string \<Rightarrow> EdacMemoryDevice option" where
  "device_identity directory =
     (case edac_controller_index directory of
        None \<Rightarrow> None
      | Some controller \<Rightarrow>
          let name = extract_filename directory in
          if edac_kind name = Edac_Unknown then None
          else case parse_u32 (drop 4 name) of
            None \<Rightarrow> None
          | Some index \<Rightarrow>
              let parent = (case rfind_char (CHR ''/'') directory of
                    None \<Rightarrow> directory | Some slash \<Rightarrow> take slash directory)
              in if extract_filename parent \<noteq> ''mc'' @ to_string controller then None
                 else Some (EdacMemoryDevice_default
                   \<lparr>ed_controller_index := controller, ed_index := StrongId index, ed_kind := edac_kind name\<rparr>))"

definition mebibytes :: "u64 \<Rightarrow> MemorySize option" where
  "mebibytes n = (if n \<le> (- 1) div (1024 * 1024) then Some (ScalarUnit (n * 1024 * 1024)) else None)"

definition edac_device_field :: "string \<Rightarrow> string \<Rightarrow> EdacMemoryDevice \<Rightarrow> EdacMemoryDevice" where
  "edac_device_field field payload device =
     (let text = hardware_text payload in
      if field = ''dimm_label'' then device\<lparr>ed_label := text\<rparr>
      else if field = ''dimm_location'' then device\<lparr>ed_location := parse_edac_location payload\<rparr>
      else if field = ''dimm_mem_type'' then device\<lparr>ed_memory_type := text\<rparr>
      else if field = ''dimm_edac_mode'' then device\<lparr>ed_edac_mode := text\<rparr>
      else if field = ''dimm_dev_type'' then device\<lparr>ed_device_width := text\<rparr>
      else if field = ''size''
      then (case Option.bind (parse_uint (trim payload)) mebibytes of
              None \<Rightarrow> device | Some s \<Rightarrow> device\<lparr>ed_size := Some s\<rparr>)
      else device)"

type_synonym EdacGroups = "(string, EdacMemoryDevice) std_map"

definition edac_record :: "RawRecord \<Rightarrow> EdacGroups \<Rightarrow> EdacGroups" where
  "edac_record r grouped =
     (if rec_status r \<noteq> Success then grouped
      else let path = rec_path_or_command r in
        case rfind_char (CHR ''/'') path of
          None \<Rightarrow> grouped
        | Some slash \<Rightarrow>
            (case device_identity (take slash path) of
               None \<Rightarrow> grouped
             | Some ident \<Rightarrow> map_update (take slash path) ident
                 (edac_device_field (drop (slash + 1) path) (rec_payload r)) grouped))"

fun edac_kind_index :: "EdacMemoryDeviceKind \<Rightarrow> nat" where
  "edac_kind_index Edac_Unknown = 0"
| "edac_kind_index Dimm = 1"
| "edac_kind_index Rank = 2"

definition edac_key :: "EdacMemoryDevice \<Rightarrow> u32 \<times> nat \<times> u32" where
  "edac_key d = (ed_controller_index d, edac_kind_index (ed_kind d), id_value (ed_index d))"

definition edac_devices :: "RawStore \<Rightarrow> EdacMemoryDevice list" where
  "edac_devices raw = map snd (fold edac_record (get_all raw SysfsEdac) [])"

section \<open>The DIMM list\<close>

definition inventory_dimm :: "EdacMemoryDevice \<Rightarrow> MemorySize \<Rightarrow> DimmInfo" where
  "inventory_dimm device s = DimmInfo_default
     \<lparr>dimm_locator := ed_label device, dimm_bank_locator := loc_report (ed_location device), dimm_size := s,
      dimm_present := unit_value s > 0, dimm_memory_type := ed_memory_type device,
      dimm_edac_mode := ed_edac_mode device, dimm_device_width := ed_device_width device,
      dimm_controller_index := Some (ed_controller_index device),
      dimm_edac_device_index := Some (ed_index device), dimm_edac_association := EdacInventory\<rparr>"

definition matches_dimm :: "EdacMemoryDevice \<Rightarrow> MemorySize \<Rightarrow> DimmInfo \<Rightarrow> bool" where
  "matches_dimm device s dimm \<longleftrightarrow> dimm_present dimm \<and> dimm_locator dimm = ed_label device \<and> dimm_size dimm = s"

definition matches_edac :: "EdacMemoryDevice \<Rightarrow> EdacMemoryDevice \<Rightarrow> bool" where
  "matches_edac device other \<longleftrightarrow>
     ed_kind other = Dimm \<and> ed_label other = ed_label device \<and> ed_size other = ed_size device"

definition associate :: "EdacMemoryDevice \<Rightarrow> DimmInfo \<Rightarrow> DimmInfo" where
  "associate device dimm = dimm
     \<lparr>dimm_edac_mode := ed_edac_mode device, dimm_device_width := ed_device_width device,
      dimm_controller_index := Some (ed_controller_index device),
      dimm_edac_device_index := Some (ed_index device), dimm_edac_association := LabelAndCapacity\<rparr>"

definition common_type :: "string \<Rightarrow> string \<Rightarrow> string" where
  "common_type memory_type type =
     (if memory_type = [] then type else if memory_type = type then memory_type else ''mixed'')"

definition edac_dimm :: "bool \<Rightarrow> EdacMemoryDevice list \<Rightarrow> EdacMemoryDevice \<Rightarrow> DimmInfo list \<times> string \<Rightarrow>
    DimmInfo list \<times> string" where
  "edac_dimm fallback devices device = (\<lambda>(dimms, memory_type).
     if ed_kind device \<noteq> Dimm then (dimms, memory_type)
     else case ed_size device of
       None \<Rightarrow> (dimms, memory_type)
     | Some s \<Rightarrow>
         if fallback
         then (dimms @ [inventory_dimm device s],
           if unit_value s > 0 \<and> ed_memory_type device \<noteq> []
           then common_type memory_type (ed_memory_type device) else memory_type)
         else if ed_label device = [] \<or> unit_value s = 0 then (dimms, memory_type)
         else if length (filter (matches_dimm device s) dimms) \<noteq> 1 \<or>
                 length (filter (matches_edac device) devices) \<noteq> 1
         then (dimms, memory_type)
         else (map (\<lambda>dimm. if matches_dimm device s dimm then associate device dimm else dimm) dimms,
           memory_type))"

definition apply_edac_inventory :: "RawStore \<Rightarrow> Memory \<Rightarrow> string \<Rightarrow> Memory \<times> string" where
  "apply_edac_inventory raw memory memory_type =
     (let devices = sort_key edac_key (mem_edac_devices memory @ edac_devices raw);
          fallback = (mem_dimms memory = []);
          (dimms, memory_type) = fold (edac_dimm fallback devices) devices (mem_dimms memory, memory_type)
      in (memory\<lparr>mem_edac_devices := devices, mem_dimms := dimms,
            mem_dimm_inventory_source :=
              (if fallback \<and> dimms \<noteq> [] then ''edac'' else mem_dimm_inventory_source memory)\<rparr>,
          memory_type))"

section \<open>Controllers\<close>

definition controller_field :: "string \<Rightarrow> string \<Rightarrow> MemoryController \<Rightarrow> MemoryController" where
  "controller_field name text controller =
     (let number = parse_uint text in
      if name = ''max_location'' then controller\<lparr>mc_max_location := parse_edac_location text\<rparr>
      else if name = ''mc_name'' then controller\<lparr>mc_name := hardware_text text\<rparr>
      else if name = ''size_mb''
      then (case Option.bind number mebibytes of
              None \<Rightarrow> controller | Some s \<Rightarrow> controller\<lparr>mc_capacity := Some s\<rparr>)
      else if name = ''ce_count'' then controller\<lparr>mc_corrected_errors := number\<rparr>
      else if name = ''ue_count'' then controller\<lparr>mc_uncorrected_errors := number\<rparr>
      else if name = ''numa_node''
      then (case parse_u32 text of
              None \<Rightarrow> controller | Some n \<Rightarrow> controller\<lparr>mc_numa_node := Some (StrongId n)\<rparr>)
      else if name = ''device''
      then controller\<lparr>mc_pci_address :=
        fold (\<lambda>part address. case parse_pci_address part of Some a \<Rightarrow> Some a | None \<Rightarrow> address)
          (split text (CHR ''/'')) (mc_pci_address controller)\<rparr>
      else controller)"

type_synonym Controllers = "(u32, MemoryController) std_map"

definition controller_record :: "RawRecord \<Rightarrow> Controllers \<Rightarrow> Controllers" where
  "controller_record r controllers =
     (let path = rec_path_or_command r in
      if rec_status r \<noteq> Success \<or> contains_str path ''/dimm'' \<or> contains_str path ''/rank'' then controllers
      else case edac_controller_index path of
        None \<Rightarrow> controllers
      | Some index \<Rightarrow> map_update index MemoryController_default
          (\<lambda>c. controller_field (extract_filename path) (trim (rec_payload r)) (c\<lparr>mc_index := index\<rparr>)) controllers)"

definition controller_at :: "MemoryController list \<Rightarrow> u32 \<Rightarrow> MemoryController option" where
  "controller_at controllers index = find (\<lambda>c. mc_index c = index) controllers"

definition place_dimm :: "MemoryController list \<Rightarrow> DimmInfo \<Rightarrow> DimmInfo" where
  "place_dimm controllers dimm =
     (case Option.bind (dimm_controller_index dimm) (controller_at controllers) of
        None \<Rightarrow> dimm | Some c \<Rightarrow> dimm\<lparr>dimm_numa_node := mc_numa_node c\<rparr>)"

definition place_device :: "MemoryController list \<Rightarrow> EdacMemoryDevice \<Rightarrow> EdacMemoryDevice" where
  "place_device controllers device =
     (case controller_at controllers (ed_controller_index device) of
        None \<Rightarrow> device | Some c \<Rightarrow> device\<lparr>ed_numa_node := mc_numa_node c\<rparr>)"

definition array_line :: "string \<Rightarrow> Memory \<Rightarrow> Memory" where
  "array_line line memory =
     (let (key, text) = parse_kv line (CHR ''='') in
      if key = ''E: MEMORY_ARRAY_LOCATION'' then memory\<lparr>mem_reported_array_location := hardware_text text\<rparr>
      else if key = ''E: MEMORY_ARRAY_EC_TYPE''
      then memory\<lparr>mem_reported_array_error_correction := hardware_text text\<rparr>
      else if key = ''E: MEMORY_ARRAY_MAX_CAPACITY''
      then (case parse_uint text of
              None \<Rightarrow> memory | Some s \<Rightarrow> memory\<lparr>mem_reported_array_max_capacity := Some (ScalarUnit s)\<rparr>)
      else if key = ''E: MEMORY_ARRAY_NUM_DEVICES''
      then (case parse_u32 text of
              None \<Rightarrow> memory | Some n \<Rightarrow> memory\<lparr>mem_reported_slot_count := Some n\<rparr>)
      else memory)"

definition array_record :: "RawRecord \<Rightarrow> Memory \<Rightarrow> Memory" where
  "array_record r memory =
     (if rec_status r = Success then fold array_line (split (rec_payload r) (CHR 0x0A)) memory else memory)"

definition apply_memory_topology :: "RawStore \<Rightarrow> Memory \<Rightarrow> Memory" where
  "apply_memory_topology raw memory =
     (let controllers = mem_controllers memory @ map snd (fold controller_record (get_all raw SysfsEdac) []);
          memory = memory\<lparr>mem_controllers := controllers,
            mem_dimms := map (place_dimm controllers) (mem_dimms memory),
            mem_edac_devices := map (place_device controllers) (mem_edac_devices memory)\<rparr>;
          memory = fold array_record (get_all raw Udevadm) memory
      in case mem_reported_slot_count memory of
           None \<Rightarrow> memory
         | Some slots \<Rightarrow>
             if mem_dimm_inventory_source memory = ''udev''
             then memory\<lparr>mem_reported_slots_complete := Some (length (mem_dimms memory) = unat slots)\<rparr>
             else memory)"

section \<open>Locations are read as printed\<close>

fun layer_name :: "EdacLocationLayer \<Rightarrow> string" where
  "layer_name Branch = ''branch''"
| "layer_name Channel = ''channel''"
| "layer_name Slot = ''slot''"
| "layer_name ChipSelect = ''csrow''"
| "layer_name AllMemory = ''memory''"
| "layer_name EdacLayer_Unknown = ''unknown''"

definition location_words :: "EdacLocationCoordinate list \<Rightarrow> string list" where
  "location_words cs = concat (map (\<lambda>c. [layer_name (coord_layer c), to_string (coord_index c)]) cs)"

definition location_text :: "EdacLocationCoordinate list \<Rightarrow> string" where
  "location_text cs = join (CHR '' '') (location_words cs)"

lemma location_layer_name [simp]: "location_layer (layer_name l) = l"
  by (cases l) (simp_all add: location_layer_def)

lemma edac_coordinates_print:
  "distinct (map coord_layer (seen @ cs)) \<Longrightarrow> EdacLayer_Unknown \<notin> coord_layer ` set cs \<Longrightarrow>
     edac_coordinates (location_words cs) seen = Some (seen @ cs)"
proof (induction cs arbitrary: seen)
  case Nil
  then show ?case by (simp add: location_words_def)
next
  case (Cons c cs)
  have "\<not> list_ex (\<lambda>item. coord_layer item = coord_layer c) seen"
    using Cons.prems(1) by (auto simp: list_ex_iff image_iff)
  moreover have "\<lparr>coord_layer = coord_layer c, coord_index = coord_index c\<rparr> = c" by simp
  moreover have "coord_layer c \<noteq> EdacLayer_Unknown" using Cons.prems(2) by auto
  ultimately show ?case
    using Cons by (simp add: location_words_def decimal_u32.parse_print)
qed

lemma location_words_plain: "w \<in> set (location_words cs) \<Longrightarrow> plain_word w"
proof -
  have name: "plain_word (layer_name l)" for l by (cases l) (simp_all add: plain_word_def is_space_def)
  have number: "plain_word (to_string n)" for n :: u32
    using print_base_digits [of 10 "unat n"]
    by (auto simp: plain_word_def to_string_def to_string_nat_def list_all_iff digit_in_not_space)
  show "w \<in> set (location_words cs) \<Longrightarrow> ?thesis" using name number by (auto simp: location_words_def)
qed

lemma join_plain_ends:
  "list_all plain_word ws \<Longrightarrow>
     join d ws = [] \<or> \<not> is_space (hd (join d ws)) \<and> \<not> is_space (List.last (join d ws))"
proof (induction d ws rule: join.induct)
  case (3 d w v ws)
  have "join d (v # ws) \<noteq> []" using 3 by (cases ws) (auto simp: plain_word_def)
  with 3 show ?case by (cases w) (auto simp: plain_word_def)
qed (auto simp: plain_word_def list_all_iff)

text \<open>
  a location that EDAC prints is read back coordinate for coordinate, and only as a whole: the
  coordinates of any report name every layer at most once and none that is unknown.
\<close>

theorem edac_location_roundtrip:
  assumes "distinct (map coord_layer cs)" "EdacLayer_Unknown \<notin> coord_layer ` set cs"
  shows "parse_edac_location (location_text cs) = \<lparr>loc_report = location_text cs, loc_coordinates = cs\<rparr>"
proof -
  have "tokens (location_text cs) = location_words cs"
    using location_words_plain by (simp add: location_text_def tokens_join list_all_iff)
  moreover have "trim (location_text cs) = location_text cs"
    unfolding location_text_def using location_words_plain
    by (intro trim_id join_plain_ends) (simp add: list_all_iff)
  ultimately show ?thesis
    using edac_coordinates_print [of "[]" cs] assms by (simp add: parse_edac_location_def)
qed

theorem edac_location_roundtrip_witness:
  "parse_edac_location ''channel 1 slot 0'' = \<lparr>loc_report = ''channel 1 slot 0'',
     loc_coordinates = [\<lparr>coord_layer = Channel, coord_index = 1\<rparr>, \<lparr>coord_layer = Slot, coord_index = 0\<rparr>]\<rparr>"
proof -
  have "location_text [\<lparr>coord_layer = Channel, coord_index = 1\<rparr>, \<lparr>coord_layer = Slot, coord_index = 0\<rparr>] =
      ''channel 1 slot 0''" by code_simp
  then show ?thesis
    using edac_location_roundtrip [of "[\<lparr>coord_layer = Channel, coord_index = 1\<rparr>, \<lparr>coord_layer = Slot, coord_index = 0\<rparr>]"]
    by simp
qed

section \<open>The association is unambiguous\<close>

text \<open>
  An association by label and capacity names the one EDAC DIMM and the one present DIMM that have
  this label and this capacity.
\<close>

definition same_slot :: "DimmInfo \<Rightarrow> DimmInfo \<Rightarrow> bool" where
  "same_slot a b \<longleftrightarrow> dimm_present b \<and> dimm_locator b = dimm_locator a \<and> dimm_size b = dimm_size a"

definition device_of :: "DimmInfo \<Rightarrow> EdacMemoryDevice \<Rightarrow> bool" where
  "device_of d e \<longleftrightarrow> ed_kind e = Dimm \<and> ed_label e = dimm_locator d \<and> ed_size e = Some (dimm_size d)"

definition association_ok :: "EdacMemoryDevice list \<Rightarrow> DimmInfo list \<Rightarrow> DimmInfo \<Rightarrow> bool" where
  "association_ok devices dimms d \<longleftrightarrow>
     (dimm_edac_association d = LabelAndCapacity \<longrightarrow>
      length (filter (same_slot d) dimms) = 1 \<and> dimm_present d \<and>
      (\<exists>e. filter (device_of d) devices = [e] \<and> dimm_edac_device_index d = Some (ed_index e) \<and>
         dimm_controller_index d = Some (ed_controller_index e)))"

lemma associate_slot [simp]:
  "dimm_present (associate e d) = dimm_present d" "dimm_locator (associate e d) = dimm_locator d"
  "dimm_size (associate e d) = dimm_size d"
  by (simp_all add: associate_def)

lemma edac_dimm_ok:
  assumes "list_all (association_ok devices dimms) dimms" and "device \<in> set devices"
  shows "list_all (association_ok devices (fst (edac_dimm False devices device (dimms, mt))))
    (fst (edac_dimm False devices device (dimms, mt)))"
proof (cases "ed_kind device = Dimm")
  case False
  then show ?thesis using assms(1) by (simp add: edac_dimm_def)
next
  case dimm: True
  show ?thesis
  proof (cases "ed_size device")
    case None
    then show ?thesis using assms(1) by (simp add: edac_dimm_def)
  next
    case (Some s)
    let ?skip = "ed_label device = [] \<or> unit_value s = 0 \<or>
        length (filter (matches_dimm device s) dimms) \<noteq> 1 \<or> length (filter (matches_edac device) devices) \<noteq> 1"
    let ?f = "\<lambda>d. if matches_dimm device s d then associate device d else d"
    show ?thesis
    proof (cases ?skip)
      case True
      then have "edac_dimm False devices device (dimms, mt) = (dimms, mt)"
        using dimm Some by (auto simp: edac_dimm_def)
      then show ?thesis using assms(1) by simp
    next
      case False
      then have new: "fst (edac_dimm False devices device (dimms, mt)) = map ?f dimms"
        using dimm Some by (simp add: edac_dimm_def)
      have slots: "same_slot (?f a) (?f b) = same_slot a b" for a b by (simp add: same_slot_def)
      have count: "length (filter (same_slot (?f d)) (map ?f dimms)) = length (filter (same_slot d) dimms)" for d
        using slots by (simp add: filter_map comp_def)
      have devs: "device_of (?f d) = device_of d" for d by (simp add: device_of_def fun_eq_iff)
      have "association_ok devices (map ?f dimms) (?f d)" if "d \<in> set dimms" for d
      proof (cases "matches_dimm device s d")
        case True
        have "filter (same_slot d) dimms = filter (matches_dimm device s) dimms"
          using True by (intro filter_cong) (auto simp: same_slot_def matches_dimm_def)
        then have dimms: "length (filter (same_slot (?f d)) (map ?f dimms)) = 1"
          using False count [of d] by simp
        have "filter (device_of d) devices = filter (matches_edac device) devices"
          using True Some by (intro filter_cong) (auto simp: device_of_def matches_dimm_def matches_edac_def)
        moreover obtain e where e: "filter (matches_edac device) devices = [e]"
          using False by (auto simp: length_Suc_conv)
        moreover have "device \<in> set (filter (matches_edac device) devices)"
          using assms(2) dimm by (simp add: matches_edac_def)
        ultimately have "filter (device_of (?f d)) devices = [device]" using devs [of d] by simp
        moreover have "?f d = associate device d" "dimm_present d" using True by (simp_all add: matches_dimm_def)
        moreover from this have "dimm_edac_device_index (?f d) = Some (ed_index device)"
          "dimm_controller_index (?f d) = Some (ed_controller_index device)" "dimm_present (?f d)"
          by (simp_all only: associate_def) simp_all
        ultimately show ?thesis
          using dimms unfolding association_ok_def by blast
      next
        case no: False
        then show ?thesis
          using assms(1) that count [of d] by (simp add: association_ok_def list_all_iff)
      qed
      then have "list_all (\<lambda>d. association_ok devices (map ?f dimms) (?f d)) dimms"
        unfolding list_all_iff by blast
      then show ?thesis by (simp only: new list.pred_map comp_def)
    qed
  qed
qed

lemma edac_dimms_ok:
  "set es \<subseteq> set devices \<Longrightarrow> list_all (association_ok devices dimms) dimms \<Longrightarrow>
     list_all (association_ok devices (fst (fold (edac_dimm False devices) es (dimms, mt))))
       (fst (fold (edac_dimm False devices) es (dimms, mt)))"
proof (induction es arbitrary: dimms mt)
  case Nil
  then show ?case by simp
next
  case (Cons e es)
  obtain dimms' mt' where step: "edac_dimm False devices e (dimms, mt) = (dimms', mt')"
    by (cases "edac_dimm False devices e (dimms, mt)")
  have "list_all (association_ok devices dimms') dimms'"
    using edac_dimm_ok [of devices dimms e mt] Cons.prems by (simp add: step)
  then show ?case using Cons.IH [of dimms' mt'] Cons.prems by (simp add: step)
qed

lemma fallback_associations:
  "list_all (\<lambda>d. dimm_edac_association d \<noteq> LabelAndCapacity) dimms \<Longrightarrow>
     list_all (\<lambda>d. dimm_edac_association d \<noteq> LabelAndCapacity) (fst (fold (edac_dimm True devices) es (dimms, mt)))"
proof (induction es arbitrary: dimms mt)
  case Nil
  then show ?case by simp
next
  case (Cons e es)
  obtain dimms' mt' where step: "edac_dimm True devices e (dimms, mt) = (dimms', mt')"
    by (cases "edac_dimm True devices e (dimms, mt)")
  have "list_all (\<lambda>d. dimm_edac_association d \<noteq> LabelAndCapacity) dimms'"
    using step Cons.prems by (auto simp: edac_dimm_def inventory_dimm_def split: if_splits option.splits)
  then show ?case using Cons.IH [of dimms' mt'] by (simp add: step)
qed

lemma edac_inventory_ok:
  assumes "list_all (\<lambda>d. dimm_edac_association d \<noteq> LabelAndCapacity) (mem_dimms memory)"
  shows "list_all (association_ok (mem_edac_devices (fst (apply_edac_inventory raw memory mt)))
      (mem_dimms (fst (apply_edac_inventory raw memory mt)))) (mem_dimms (fst (apply_edac_inventory raw memory mt)))"
proof -
  let ?devices = "sort_key edac_key (mem_edac_devices memory @ edac_devices raw)"
  have none: "list_all (association_ok ds xs) ys" if "list_all (\<lambda>d. dimm_edac_association d \<noteq> LabelAndCapacity) ys" for ds xs ys
    using that by (auto simp: list_all_iff association_ok_def)
  show ?thesis
  proof (cases "mem_dimms memory = []")
    case True
    then show ?thesis
      using none fallback_associations [of "[]" ?devices ?devices mt]
      by (simp add: apply_edac_inventory_def Let_def case_prod_unfold)
  next
    case False
    then show ?thesis
      using edac_dimms_ok [of ?devices ?devices "mem_dimms memory" mt] none [OF assms]
      by (simp add: apply_edac_inventory_def Let_def case_prod_unfold)
  qed
qed

lemma place_frame [simp]:
  "dimm_present (place_dimm cs d) = dimm_present d" "dimm_locator (place_dimm cs d) = dimm_locator d"
  "dimm_size (place_dimm cs d) = dimm_size d"
  "dimm_edac_association (place_dimm cs d) = dimm_edac_association d"
  "dimm_edac_device_index (place_dimm cs d) = dimm_edac_device_index d"
  "dimm_controller_index (place_dimm cs d) = dimm_controller_index d"
  "dimm_configured_speed_mts (place_dimm cs d) = dimm_configured_speed_mts d"
  "ed_kind (place_device cs e) = ed_kind e" "ed_label (place_device cs e) = ed_label e"
  "ed_size (place_device cs e) = ed_size e" "ed_index (place_device cs e) = ed_index e"
  "ed_controller_index (place_device cs e) = ed_controller_index e"
  by (simp_all add: place_dimm_def place_device_def split: option.split)

lemma association_placed:
  "association_ok devices dimms d \<Longrightarrow>
     association_ok (map (place_device cs) devices) (map (place_dimm cs) dimms) (place_dimm cs d)"
proof -
  have slots: "same_slot (place_dimm cs d) (place_dimm cs b) = same_slot d b" for b
    by (simp add: same_slot_def)
  have devs: "device_of (place_dimm cs d) (place_device cs e) = device_of d e" for e
    by (simp add: device_of_def)
  show "association_ok devices dimms d \<Longrightarrow> ?thesis"
    by (auto simp: association_ok_def filter_map comp_def slots devs)
qed

lemma array_record_frame:
  "mem_dimms (array_record r m) = mem_dimms m" "mem_edac_devices (array_record r m) = mem_edac_devices m"
  "mem_dimm_inventory_source (array_record r m) = mem_dimm_inventory_source m"
  "mem_configured_speed_mts (array_record r m) = mem_configured_speed_mts m"
  "mem_dimm_count (array_record r m) = mem_dimm_count m" "mem_populated_dimms (array_record r m) = mem_populated_dimms m"
  "mem_total_memory (array_record r m) = mem_total_memory m" "mem_numa_memory (array_record r m) = mem_numa_memory m"
proof -
  let ?view = "\<lambda>m. (mem_dimms m, mem_edac_devices m, mem_dimm_inventory_source m, mem_configured_speed_mts m,
      mem_dimm_count m, mem_populated_dimms m, mem_total_memory m, mem_numa_memory m)"
  have "?view (array_line l m) = ?view m" for l m
    by (simp add: array_line_def Let_def case_prod_unfold split: option.split)
  then have "?view (fold array_line ls m) = ?view m" for ls
    using fold_invariant_set [where P = "\<lambda>x. ?view x = ?view m" and f = array_line and xs = ls] by simp
  then have "?view (array_record r m) = ?view m" by (simp add: array_record_def)
  then show "mem_dimms (array_record r m) = mem_dimms m" "mem_edac_devices (array_record r m) = mem_edac_devices m"
    "mem_dimm_inventory_source (array_record r m) = mem_dimm_inventory_source m"
    "mem_configured_speed_mts (array_record r m) = mem_configured_speed_mts m"
    "mem_dimm_count (array_record r m) = mem_dimm_count m" "mem_populated_dimms (array_record r m) = mem_populated_dimms m"
    "mem_total_memory (array_record r m) = mem_total_memory m" "mem_numa_memory (array_record r m) = mem_numa_memory m"
    by simp_all
qed

text \<open>What the topology stage keeps of the memory model.\<close>

lemma topology_frame:
  defines "cs memory raw \<equiv> mem_controllers memory @ map snd (fold controller_record (get_all raw SysfsEdac) [])"
  shows "mem_dimms (apply_memory_topology raw memory) = map (place_dimm (cs memory raw)) (mem_dimms memory)"
    "mem_edac_devices (apply_memory_topology raw memory) = map (place_device (cs memory raw)) (mem_edac_devices memory)"
    "mem_configured_speed_mts (apply_memory_topology raw memory) = mem_configured_speed_mts memory"
    "mem_dimm_count (apply_memory_topology raw memory) = mem_dimm_count memory"
    "mem_populated_dimms (apply_memory_topology raw memory) = mem_populated_dimms memory"
    "mem_total_memory (apply_memory_topology raw memory) = mem_total_memory memory"
    "mem_numa_memory (apply_memory_topology raw memory) = mem_numa_memory memory"
proof -
  let ?view = "\<lambda>m. (mem_dimms m, mem_edac_devices m, mem_dimm_inventory_source m, mem_configured_speed_mts m,
      mem_dimm_count m, mem_populated_dimms m, mem_total_memory m, mem_numa_memory m)"
  have records: "?view (fold array_record rs m) = ?view m" for rs m
    using fold_invariant_set [where P = "\<lambda>x. ?view x = ?view m" and f = array_record and xs = rs]
    by (simp add: array_record_frame)
  have "?view (apply_memory_topology raw memory) =
      (map (place_dimm (cs memory raw)) (mem_dimms memory), map (place_device (cs memory raw)) (mem_edac_devices memory),
       mem_dimm_inventory_source memory, mem_configured_speed_mts memory, mem_dimm_count memory,
       mem_populated_dimms memory, mem_total_memory memory, mem_numa_memory memory)"
    using records by (simp add: apply_memory_topology_def Let_def cs_def split: option.split)
  then show "mem_dimms (apply_memory_topology raw memory) = map (place_dimm (cs memory raw)) (mem_dimms memory)"
    "mem_edac_devices (apply_memory_topology raw memory) = map (place_device (cs memory raw)) (mem_edac_devices memory)"
    "mem_configured_speed_mts (apply_memory_topology raw memory) = mem_configured_speed_mts memory"
    "mem_dimm_count (apply_memory_topology raw memory) = mem_dimm_count memory"
    "mem_populated_dimms (apply_memory_topology raw memory) = mem_populated_dimms memory"
    "mem_total_memory (apply_memory_topology raw memory) = mem_total_memory memory"
    "mem_numa_memory (apply_memory_topology raw memory) = mem_numa_memory memory"
    by simp_all
qed

end
