(* ===== verification/Memory_Parser.thy ===== *)
theory Memory_Parser
  imports Memory_Edac Warnings
begin

text \<open>
  \<open>src/parser/memory.cpp\<close>: the memory of the machine and of its NUMA nodes from meminfo, the DIMMs
  from the SMBIOS properties of udev, and the completion by EDAC. The loop over udev lines fills a
  map from DIMM index to DIMM and remembers which indices reported their presence.
\<close>

section \<open>meminfo\<close>

definition parse_failed_text :: string where
  "parse_failed_text = bytes [229, 128, 188, 232, 167, 163, 230, 158, 144, 229, 164, 177, 232, 180, 165] @ '': ''"

definition meminfo_failed :: "string \<Rightarrow> string \<Rightarrow> string" where
  "meminfo_failed key text = ''parse_memory: '' @ key @ '' '' @ parse_failed_text @ text"

definition kb_value :: "string \<Rightarrow> MemorySize option" where
  "kb_value text = parse_kb_to_bytes (trim (hd (split text (CHR '' ''))))"

definition meminfo_line :: "string \<Rightarrow> (MemorySize \<times> MemorySize option) \<times> string list \<Rightarrow>
    (MemorySize \<times> MemorySize option) \<times> string list" where
  "meminfo_line line = (\<lambda>((total, available), warnings).
     let (key, text) = parse_kv line (CHR '':'') in
     if key = ''MemTotal''
     then (case kb_value text of
             Some kb \<Rightarrow> ((kb, available), warnings)
           | None \<Rightarrow> ((total, available), warnings @ [meminfo_failed key text]))
     else if key = ''MemAvailable''
     then (case kb_value text of
             Some kb \<Rightarrow> ((total, Some kb), warnings)
           | None \<Rightarrow> ((total, available), warnings @ [meminfo_failed key text]))
     else ((total, available), warnings))"

definition parse_meminfo :: "string \<Rightarrow> string list \<Rightarrow> (MemorySize \<times> MemorySize option) \<times> string list" where
  "parse_meminfo payload warnings =
     fold meminfo_line (split payload (CHR 0x0A)) ((ScalarUnit 0, None), warnings)"

definition node_failed :: "u32 \<Rightarrow> string \<Rightarrow> string \<Rightarrow> string" where
  "node_failed node kind text =
     ''parse_numa_meminfo: node '' @ to_string node @ '' '' @ kind @ '' '' @ parse_failed_text @ text"

definition numa_line :: "u32 \<Rightarrow> string \<Rightarrow> NumaMemory \<times> string list \<Rightarrow> NumaMemory \<times> string list" where
  "numa_line node line = (\<lambda>(nm, warnings).
     let (key, text) = parse_kv line (CHR '':''); key = trim key in
     if key = ''Node '' @ to_string node @ '' MemTotal''
     then (case kb_value text of
             Some kb \<Rightarrow> (nm\<lparr>nm_total := kb\<rparr>, warnings)
           | None \<Rightarrow> (nm, warnings @ [node_failed node ''Total'' text]))
     else if key = ''Node '' @ to_string node @ '' MemFree''
     then (case kb_value text of
             Some kb \<Rightarrow> (nm\<lparr>nm_free := Some kb\<rparr>, warnings)
           | None \<Rightarrow> (nm, warnings @ [node_failed node ''Free'' text]))
     else (nm, warnings))"

definition parse_numa_meminfo :: "string \<Rightarrow> u32 \<Rightarrow> string list \<Rightarrow> NumaMemory \<times> string list" where
  "parse_numa_meminfo payload node warnings =
     fold (numa_line node) (split payload (CHR 0x0A)) (NumaMemory_default\<lparr>nm_node := StrongId node\<rparr>, warnings)"

definition meminfo_node :: "string \<Rightarrow> u64 option" where
  "meminfo_node path =
     (if \<not> contains_str path ''meminfo'' then None
      else case find_str ''node/node'' path of
        None \<Rightarrow> None
      | Some pos \<Rightarrow>
          let rest = drop (pos + 9) path in
          (case find_char (CHR ''/'') rest of None \<Rightarrow> None | Some slash \<Rightarrow> parse_uint (take slash rest)))"

definition numa_memory_record :: "RawRecord \<Rightarrow> NumaMemory list \<times> string list \<Rightarrow> NumaMemory list \<times> string list" where
  "numa_memory_record r = (\<lambda>(nodes, warnings).
     if rec_status r \<noteq> Success then (nodes, warnings)
     else case meminfo_node (rec_path_or_command r) of
       None \<Rightarrow> (nodes, warnings)
     | Some node \<Rightarrow>
         let (nm, warnings) = parse_numa_meminfo (rec_payload r) (to_u32 node) warnings
         in (if unit_value (nm_total nm) > 0 then nodes @ [nm] else nodes, warnings))"

section \<open>DIMMs\<close>

definition udev_not_e :: "string \<Rightarrow> string" where
  "udev_not_e line = ''parse_udevadm_dimms: '' @ bytes [233, 157, 158] @ '' E '' @ bytes [230, 160, 135, 231, 173, 190] @
     '': '' @ line"

definition udev_empty :: "string \<Rightarrow> string" where
  "udev_empty line = ''parse_udevadm_dimms: E: '' @ bytes [229, 128, 188, 228, 184, 186, 231, 169, 186] @ '': '' @ line"

definition udev_no_index :: "string \<Rightarrow> string" where
  "udev_no_index key = ''parse_udevadm_dimms: key '' @
     bytes [229, 137, 141, 231, 188, 128, 229, 144, 142, 230, 151, 160, 228, 184, 139, 229, 136, 146, 231, 186, 191] @ '': '' @ key"

definition udev_no_field :: "string \<Rightarrow> string" where
  "udev_no_field key = ''parse_udevadm_dimms: key '' @
     bytes [228, 184, 139, 229, 136, 146, 231, 186, 191, 229, 144, 142, 230, 151, 160, 229, 173, 151, 230, 174, 181] @ '': '' @ key"

definition udev_bad_index :: "string \<Rightarrow> string" where
  "udev_bad_index key = ''parse_udevadm_dimms: '' @
     bytes [231, 180, 162, 229, 188, 149, 232, 167, 163, 230, 158, 144, 229, 164, 177, 232, 180, 165] @ '': '' @ key"

definition positive_u64 :: "string \<Rightarrow> u64 option" where
  "positive_u64 text = (case parse_uint text of None \<Rightarrow> None | Some v \<Rightarrow> if v > 0 then Some v else None)"

definition positive_u32 :: "string \<Rightarrow> u32 option" where
  "positive_u32 text = (case parse_uint text of
     None \<Rightarrow> None | Some v \<Rightarrow> if v > 0 \<and> v \<le> u32_max then Some (to_u32 v) else None)"

definition keep_or :: "('a \<Rightarrow> 'r \<Rightarrow> 'r) \<Rightarrow> 'a option \<Rightarrow> 'r \<Rightarrow> 'r" where
  "keep_or store v r = (case v of None \<Rightarrow> r | Some x \<Rightarrow> store x r)"

text \<open>A voltage such as 1.2 in millivolts: at most three decimals, padded on the right.\<close>

definition millivolts :: "string \<Rightarrow> Millivolts option" where
  "millivolts text =
     (let parts = split text (CHR ''.'') in
      if length parts > 2 then None
      else
        let whole = parse_uint (hd parts);
            fraction = (if length parts = 2 then parts ! 1 else [])
        in if length fraction > 3 then None
           else case (whole, parse_uint (fraction @ replicate (3 - length fraction) (CHR ''0''))) of
             (Some w, Some d) \<Rightarrow> if w \<le> 100 \<and> d < 1000 then Some (ScalarUnit (w * 1000 + d)) else None
           | _ \<Rightarrow> None)"

definition dimm_field :: "string \<Rightarrow> string \<Rightarrow> DimmInfo \<Rightarrow> DimmInfo" where
  "dimm_field field text d =
     (if field = ''TYPE'' then d\<lparr>dimm_memory_type := text\<rparr>
      else if field = ''SPEED_MTS''
      then keep_or (\<lambda>v d. d\<lparr>dimm_speed_mts := Some (ScalarUnit v)\<rparr>) (positive_u64 text) d
      else if field = ''CONFIGURED_SPEED_MTS''
      then keep_or (\<lambda>v d. d\<lparr>dimm_configured_speed_mts := Some (ScalarUnit v)\<rparr>) (positive_u64 text) d
      else if field = ''SIZE'' then keep_or (\<lambda>v d. d\<lparr>dimm_size := ScalarUnit v\<rparr>) (parse_uint text) d
      else if field = ''MANUFACTURER'' then d\<lparr>dimm_manufacturer := Some (NamedString text)\<rparr>
      else if field = ''PART_NUMBER'' then d\<lparr>dimm_part_number := Some text\<rparr>
      else if field = ''LOCATOR'' then d\<lparr>dimm_locator := text\<rparr>
      else if field = ''BANK_LOCATOR'' then d\<lparr>dimm_bank_locator := text\<rparr>
      else if field = ''RANK'' then keep_or (\<lambda>v d. d\<lparr>dimm_rank := Some v\<rparr>) (positive_u32 text) d
      else if field = ''TOTAL_WIDTH'' then keep_or (\<lambda>v d. d\<lparr>dimm_total_width := Some v\<rparr>) (positive_u32 text) d
      else if field = ''DATA_WIDTH'' then keep_or (\<lambda>v d. d\<lparr>dimm_data_width := Some v\<rparr>) (positive_u32 text) d
      else if field = ''FORM_FACTOR'' then d\<lparr>dimm_form_factor := Some text\<rparr>
      else if field = ''SERIAL_NUMBER'' then d\<lparr>dimm_serial := text\<rparr>
      else if field = ''ASSET_TAG'' then d\<lparr>dimm_asset_tag := text\<rparr>
      else if field = ''TYPE_DETAIL'' then d\<lparr>dimm_type_detail := text\<rparr>
      else if field = ''CONFIGURED_VOLTAGE''
      then keep_or (\<lambda>v d. d\<lparr>dimm_configured_voltage_mv := Some v\<rparr>) (millivolts text) d
      else if field = ''PRESENT'' then d\<lparr>dimm_present := (text = ''1'')\<rparr>
      else d)"

record UdevState =
  ud_dimms :: "(u32, DimmInfo) std_map"
  ud_present :: "u32 list"
  ud_memory_type :: string

definition dimm_stem :: string where
  "dimm_stem = ''MEMORY_DEVICE_''"

definition udev_property :: "string \<Rightarrow> string \<Rightarrow> UdevState \<times> string list \<Rightarrow> UdevState \<times> string list" where
  "udev_property key text = (\<lambda>(st, warnings).
     let rest = drop (length dimm_stem) key in
     case find_char (CHR ''_'') rest of
       None \<Rightarrow> (st, warnings @ [udev_no_index key])
     | Some us \<Rightarrow>
         let field = drop (us + 1) rest in
         if field = [] then (st, warnings @ [udev_no_field key])
         else case parse_u32 (take us rest) of
           None \<Rightarrow> (st, warnings @ [udev_bad_index key])
         | Some index \<Rightarrow>
             (st\<lparr>ud_dimms := map_update index DimmInfo_default (dimm_field field text) (ud_dimms st),
               ud_memory_type := (if field = ''TYPE'' then common_type (ud_memory_type st) text else ud_memory_type st),
               ud_present := (if field = ''PRESENT'' then set_put index (ud_present st) else ud_present st)\<rparr>,
              warnings))"

definition udev_line :: "string \<Rightarrow> UdevState \<times> string list \<Rightarrow> UdevState \<times> string list" where
  "udev_line line = (\<lambda>(st, warnings).
     let trimmed = trim line in
     if trimmed = [] \<or> hd trimmed \<noteq> CHR ''E'' then (st, warnings)
     else
       let (tag, rest) = parse_kv trimmed (CHR '':'') in
       if tag \<noteq> ''E'' then (st, warnings @ [udev_not_e trimmed])
       else if rest = [] then (st, warnings @ [udev_empty trimmed])
       else case find_char (CHR ''='') rest of
         None \<Rightarrow> (st, warnings)
       | Some eq_pos \<Rightarrow>
           let key = trim (take eq_pos rest); text = hardware_text (drop (eq_pos + 1) rest) in
           if text = [] \<or> length key \<le> length dimm_stem \<or> take (length dimm_stem) key \<noteq> dimm_stem
           then (st, warnings)
           else udev_property key text (st, warnings))"

definition settle_present :: "u32 list \<Rightarrow> u32 \<times> DimmInfo \<Rightarrow> DimmInfo" where
  "settle_present present_seen = (\<lambda>(idx, dimm).
     if idx \<in> set present_seen then dimm else dimm\<lparr>dimm_present := unit_value (dimm_size dimm) > 0\<rparr>)"

definition speed_step :: "DimmInfo \<Rightarrow> bool \<times> TransferRate option \<Rightarrow> bool \<times> TransferRate option" where
  "speed_step dimm = (\<lambda>(complete, speed).
     if \<not> dimm_present dimm then (complete, speed)
     else case dimm_configured_speed_mts dimm of
       None \<Rightarrow> (False, speed)
     | Some v \<Rightarrow>
         (case speed of
            None \<Rightarrow> (complete, Some v)
          | Some s \<Rightarrow> (complete \<and> unit_value s = unit_value v, Some s)))"

definition common_speed :: "DimmInfo list \<Rightarrow> TransferRate option \<Rightarrow> TransferRate option" where
  "common_speed dimms speed =
     (let (complete, speed) = fold speed_step dimms (True, speed) in if complete then speed else None)"

definition parse_udevadm_dimms :: "string \<Rightarrow> string \<Rightarrow> TransferRate option \<Rightarrow> string list \<Rightarrow>
    (DimmInfo list \<times> string \<times> TransferRate option) \<times> string list" where
  "parse_udevadm_dimms payload memory_type speed warnings =
     (let (st, warnings) = fold udev_line (split payload (CHR 0x0A))
           (\<lparr>ud_dimms = [], ud_present = [], ud_memory_type = memory_type\<rparr>, warnings);
          dimms = map (settle_present (ud_present st)) (ud_dimms st)
      in ((dimms, ud_memory_type st, common_speed dimms speed), warnings))"

text \<open>The loop over the udev records stops at the first one with DIMMs.\<close>

fun udev_records :: "RawRecord list \<Rightarrow> (DimmInfo list \<times> string \<times> TransferRate option) \<times> string list \<Rightarrow>
    (DimmInfo list \<times> string \<times> TransferRate option) \<times> string list" where
  "udev_records [] s = s"
| "udev_records (r # rs) ((dimms, memory_type, speed), warnings) =
     (if rec_status r \<noteq> Success then udev_records rs ((dimms, memory_type, speed), warnings)
      else
        let ((found, memory_type, speed), warnings) = parse_udevadm_dimms (rec_payload r) memory_type speed warnings
        in if found \<noteq> [] then ((found, memory_type, speed), warnings)
           else udev_records rs ((dimms, memory_type, speed), warnings))"

section \<open>The memory model\<close>

definition missing_meminfo :: string where
  "missing_meminfo = ''parse_memory: '' @ bytes [231, 188, 186, 229, 176, 145] @ '' /proc/meminfo '' @
     bytes [230, 149, 176, 230, 141, 174]"

definition zero_meminfo :: string where
  "zero_meminfo = ''parse_memory: MemTotal '' @ bytes [228, 184, 186] @ '' 0 '' @
     bytes [230, 136, 150, 230, 156, 170, 230, 137, 190, 229, 136, 176]"

definition count_dimms :: "Memory \<Rightarrow> Memory" where
  "count_dimms memory =
     (if mem_dimms memory = [] then memory
      else memory\<lparr>mem_dimm_count := Some (word_of_nat (length (mem_dimms memory))),
        mem_populated_dimms := Some (fold (\<lambda>d populated. if dimm_present d then populated + 1 else populated)
          (mem_dimms memory) 0)\<rparr>)"

definition parse_memory :: "RawStore \<Rightarrow> string list \<Rightarrow> Memory option \<times> string list" where
  "parse_memory raw warnings =
     (case find (\<lambda>r. rec_status r = Success) (get_all raw ProcMemInfo) of
        None \<Rightarrow> (None, warnings @ [missing_meminfo])
      | Some meminfo \<Rightarrow>
          let ((total, available), warnings) = parse_meminfo (rec_payload meminfo) warnings in
          if unit_value total = 0 then (None, warnings @ [zero_meminfo])
          else
            let (nodes, warnings) = fold numa_memory_record (get_all raw SysfsNuma) ([], warnings);
                ((dimms, memory_type, speed), warnings) =
                  udev_records (get_all raw Udevadm) (([], [], None), warnings);
                memory = Memory_default
                  \<lparr>mem_total_memory := total, mem_available_memory := available, mem_numa_memory := nodes,
                   mem_dimms := dimms,
                   mem_dimm_inventory_source := (if dimms \<noteq> [] then ''udev'' else [])\<rparr>;
                (memory, memory_type) = apply_edac_inventory raw memory memory_type;
                memory = memory\<lparr>mem_memory_type := memory_type, mem_configured_speed_mts := speed\<rparr>
            in (Some (apply_memory_topology raw (count_dimms memory)), warnings))"

section \<open>Warnings\<close>

definition memory_warning :: "string \<Rightarrow> bool" where
  "memory_warning w \<longleftrightarrow> w \<in> {missing_meminfo, zero_meminfo} \<or> (\<exists>key text. w = meminfo_failed key text) \<or>
     (\<exists>node kind text. w = node_failed node kind text) \<or>
     (\<exists>s. w \<in> {udev_not_e s, udev_empty s, udev_no_index s, udev_no_field s, udev_bad_index s})"

lemma memory_warning_intros [simp]:
  "memory_warning missing_meminfo" "memory_warning zero_meminfo" "memory_warning (meminfo_failed key text)"
  "memory_warning (node_failed node kind text)" "memory_warning (udev_not_e s)" "memory_warning (udev_empty s)"
  "memory_warning (udev_no_index s)" "memory_warning (udev_no_field s)" "memory_warning (udev_bad_index s)"
  by (auto simp: memory_warning_def)

lemma meminfo_line_logs: "logs memory_warning (meminfo_line line)"
  by (rule logs_stage) (auto simp: meminfo_line_def case_prod_unfold Let_def split: option.split)

lemma numa_line_logs: "logs memory_warning (numa_line node line)"
  by (rule logs_stage) (auto simp: numa_line_def case_prod_unfold Let_def split: option.split)

lemma numa_memory_record_logs: "logs memory_warning (numa_memory_record r)"
proof -
  have nm: "parse_numa_meminfo payload node ws =
      (fst (parse_numa_meminfo payload node []), ws @ snd (parse_numa_meminfo payload node [])) \<and>
      list_all memory_warning (snd (parse_numa_meminfo payload node []))" for payload node ws
    unfolding parse_numa_meminfo_def by (rule logs_at [OF logs_fold [where f = "numa_line node", OF numa_line_logs]])
  show ?thesis
  proof (cases "rec_status r = Success")
    case False
    then show ?thesis by (intro logs_stage) (simp_all add: numa_memory_record_def)
  next
    case success: True
    show ?thesis
    proof (cases "meminfo_node (rec_path_or_command r)")
      case None
      then show ?thesis by (intro logs_stage) (simp_all add: numa_memory_record_def)
    next
      case (Some node)
      obtain m w where "\<And>ws. parse_numa_meminfo (rec_payload r) (to_u32 node) ws = (m, ws @ w)" "list_all memory_warning w"
        using nm [of "rec_payload r" "to_u32 node"] by (metis prod.collapse)
      then show ?thesis using Some success by (intro logs_stage) (simp_all add: numa_memory_record_def)
    qed
  qed
qed

lemma udev_line_logs: "logs memory_warning (udev_line line)"
proof -
  have "logs memory_warning (udev_property key v)" for key v
    by (rule logs_stage) (auto simp: udev_property_def Let_def split: option.split)
  then have stage: "udev_property key v (st, ws) = (fst (udev_property key v (st, [])),
      ws @ snd (udev_property key v (st, []))) \<and> list_all memory_warning (snd (udev_property key v (st, [])))"
    for key v st ws by (rule logs_at)
  define result where "result key v st = fst (udev_property key v (st, []))" for key v st
  define added where "added key v st = snd (udev_property key v (st, []))" for key v st
  have property: "udev_property key v (st, ws) = (result key v st, ws @ added key v st)"
    "list_all memory_warning (added key v st)" for key v st ws
    using stage [of key v st ws] by (simp_all add: result_def added_def)
  show ?thesis
    by (intro logs_stage) (simp_all add: udev_line_def case_prod_unfold Let_def property split: option.split)
qed

lemma udev_records_logs: "logs memory_warning (udev_records rs)"
proof -
  have step: "parse_udevadm_dimms payload mt speed ws = (fst (parse_udevadm_dimms payload mt speed []),
      ws @ snd (parse_udevadm_dimms payload mt speed [])) \<and>
      list_all memory_warning (snd (parse_udevadm_dimms payload mt speed []))" for payload mt speed ws
    using logs_at [OF logs_fold [where f = udev_line, OF udev_line_logs], of "split payload (CHR 0x0A)"
      "\<lparr>ud_dimms = [], ud_present = [], ud_memory_type = mt\<rparr>" ws]
    by (simp add: parse_udevadm_dimms_def Let_def case_prod_unfold)
  have "udev_records rs (a, ws) = (fst (udev_records rs (a, [])), ws @ snd (udev_records rs (a, []))) \<and>
      list_all memory_warning (snd (udev_records rs (a, [])))" for a ws
  proof (induction rs arbitrary: a ws)
    case Nil
    then show ?case by simp
  next
    case (Cons r rs)
    obtain dimms mt speed where a: "a = (dimms, mt, speed)" by (cases a)
    obtain found mt' speed' w where run: "\<And>ws. parse_udevadm_dimms (rec_payload r) mt speed ws =
        ((found, mt', speed'), ws @ w)" "list_all memory_warning w"
      using step [of "rec_payload r" mt speed] by (metis prod.collapse)
    have rest: "udev_records rs (b, ws) = (fst (udev_records rs (b, [])), ws @ snd (udev_records rs (b, [])))"
      "list_all memory_warning (snd (udev_records rs (b, [])))" for b ws
      using Cons.IH [of b ws] by blast+
    show ?case
    proof (cases "rec_status r = Success \<and> found = []")
      case True
      then show ?thesis
        using rest(1) [of "(dimms, mt', speed')" "ws @ w"] rest(1) [of "(dimms, mt', speed')" w]
          rest(2) [of "(dimms, mt', speed')"] run(2)
        by (simp add: a run(1))
    next
      case False
      then show ?thesis using rest(1) [of a ws] rest(2) [of a] run(2) by (auto simp: a run(1))
    qed
  qed
  then show ?thesis by (intro logs_stage) blast+
qed

lemma parse_memory_logs: "logs memory_warning (\<lambda>(_ :: unit, ws). parse_memory raw ws)"
proof (cases "find (\<lambda>r. rec_status r = Success) (get_all raw ProcMemInfo)")
  case None
  then show ?thesis by (intro logs_stage) (simp_all add: parse_memory_def)
next
  case (Some r)
  obtain t a w1 where 1: "\<And>ws. parse_meminfo (rec_payload r) ws = ((t, a), ws @ w1)" "list_all memory_warning w1"
    using logs_at [OF logs_fold [where f = meminfo_line, OF meminfo_line_logs], of "split (rec_payload r) (CHR 0x0A)" "(ScalarUnit 0, None)"]
    unfolding parse_meminfo_def by (metis prod.collapse)
  obtain nodes w2 where 2: "\<And>ws. fold numa_memory_record (get_all raw SysfsNuma) ([], ws) = (nodes, ws @ w2)"
    "list_all memory_warning w2"
    using logs_at [OF logs_fold [where f = numa_memory_record, OF numa_memory_record_logs], of "get_all raw SysfsNuma" "[]"]
    by metis
  obtain d m s w3 where 3: "\<And>ws. udev_records (get_all raw Udevadm) (([], [], None), ws) = ((d, m, s), ws @ w3)"
    "list_all memory_warning w3"
    using logs_at [OF udev_records_logs, of "get_all raw Udevadm" "([], [], None)"] by (metis prod.collapse)
  show ?thesis
    using 1(2) 2(2) 3(2)
    by (intro logs_stage) (simp_all add: parse_memory_def Some 1(1) 2(1) 3(1) Let_def case_prod_unfold)
qed

lemma memory_evidence:
  assumes "\<And>s. s \<in> {ProcMemInfo, SysfsNuma, Udevadm, SysfsEdac} \<Longrightarrow> get_all raw s = get_all raw' s"
  shows "parse_memory raw ws = parse_memory raw' ws"
proof -
  have "get_all raw ProcMemInfo = get_all raw' ProcMemInfo" "get_all raw SysfsNuma = get_all raw' SysfsNuma"
    "get_all raw Udevadm = get_all raw' Udevadm" "get_all raw SysfsEdac = get_all raw' SysfsEdac"
    using assms by simp_all
  then show ?thesis
    by (simp only: parse_memory_def apply_edac_inventory_def edac_devices_def apply_memory_topology_def)
qed

interpretation memory_parser: domain_parser parse_memory "{ProcMemInfo, SysfsNuma, Udevadm, SysfsEdac}" "{}"
  memory_warning
  by (rule domain_parserI) (rule parse_memory_logs, rule memory_evidence)

section \<open>The DIMMs of udev\<close>

definition unassociated :: "DimmInfo \<Rightarrow> bool" where
  "unassociated d \<longleftrightarrow> dimm_edac_association d \<noteq> LabelAndCapacity"

lemma set_map_put_subset: "set (map_put k v m) \<subseteq> insert (k, v) (set m)"
  by (induction k v m rule: map_put.induct) auto

lemma dimm_field_unassociated: "unassociated (dimm_field field text d) = unassociated d"
  by (simp add: dimm_field_def keep_or_def unassociated_def split: option.split)

lemma udev_dimms_unassociated:
  "list_all unassociated (fst (fst (parse_udevadm_dimms payload memory_type speed warnings)))"
proof -
  let ?P = "\<lambda>s. list_all (unassociated \<circ> snd) (ud_dimms (fst s))"
  have update: "list_all (unassociated \<circ> snd) (map_update i DimmInfo_default (dimm_field field v) m)"
    if "list_all (unassociated \<circ> snd) m" for i field v m
  proof -
    have "unassociated (case map_of m i of None \<Rightarrow> DimmInfo_default | Some d \<Rightarrow> d)"
      using that map_of_SomeD [of m i]
      by (fastforce simp: list_all_iff unassociated_def DimmInfo_default_def split: option.split)
    then show ?thesis
      using that set_map_put_subset [of i _ m]
      by (force simp: map_update_def list_all_iff dimm_field_unassociated)
  qed
  have "?P (udev_property key v s)" if "?P s" for key v s
    using that update by (auto simp: udev_property_def case_prod_unfold Let_def split: option.split)
  then have "?P (udev_line line s)" if "?P s" for line s
    using that by (auto simp: udev_line_def case_prod_unfold Let_def split: option.split)
  then have "?P (fold udev_line ls (\<lparr>ud_dimms = [], ud_present = [], ud_memory_type = memory_type\<rparr>, warnings))" for ls
    by (intro fold_invariant_set [where P = ?P]) simp_all
  from this [of "split payload (CHR 0x0A)"] show ?thesis
    by (fastforce simp: parse_udevadm_dimms_def Let_def case_prod_unfold list_all_iff settle_present_def unassociated_def)
qed

text \<open>The speed that all present DIMMs share.\<close>

definition shared_speed :: "DimmInfo list \<Rightarrow> TransferRate \<Rightarrow> bool" where
  "shared_speed dimms v \<longleftrightarrow> filter dimm_present dimms \<noteq> [] \<and>
     list_all (\<lambda>d. dimm_configured_speed_mts d = Some v) (filter dimm_present dimms)"

lemma unit_value_eq: "unit_value a = unit_value b \<longleftrightarrow> a = b"
  by (auto dest: scalar_unit.expand)

lemma speed_known: "fold speed_step ds (c, Some s) =
    (c \<and> list_all (\<lambda>d. dimm_configured_speed_mts d = Some s) (filter dimm_present ds), Some s)"
  by (induction ds arbitrary: c) (auto simp: speed_step_def unit_value_eq split: option.split)

lemma speed_lost: "fst (fold speed_step ds (False, s)) = False"
proof (induction ds arbitrary: s)
  case Nil
  then show ?case by simp
next
  case (Cons d ds)
  obtain b s' where step: "speed_step d (False, s) = (b, s')" by (cases "speed_step d (False, s)")
  have "\<not> b" using step by (auto simp: speed_step_def split: if_splits option.splits)
  with step Cons show ?case by simp
qed

lemma common_speed_shared: "common_speed ds None = Some v \<longleftrightarrow> shared_speed ds v"
proof (induction ds)
  case Nil
  then show ?case by (simp add: common_speed_def shared_speed_def)
next
  case (Cons d ds)
  consider "\<not> dimm_present d" | "dimm_present d" "dimm_configured_speed_mts d = None"
    | s where "dimm_present d" "dimm_configured_speed_mts d = Some s" by blast
  then show ?case
  proof cases
    case 1
    then have "speed_step d (True, None) = (True, None)" by (simp add: speed_step_def)
    with 1 Cons show ?thesis by (simp add: common_speed_def shared_speed_def)
  next
    case 2
    then have "speed_step d (True, None) = (False, None)" by (simp add: speed_step_def)
    with 2 speed_lost [of ds None] show ?thesis by (simp add: common_speed_def shared_speed_def case_prod_unfold)
  next
    case 3
    then have "speed_step d (True, None) = (True, Some s)" by (simp add: speed_step_def)
    with 3 show ?thesis by (auto simp: common_speed_def shared_speed_def speed_known)
  qed
qed

lemma udev_records_result:
  "case udev_records rs (([], memory_type, None), warnings) of
     ((dimms, _, speed), _) \<Rightarrow> list_all unassociated dimms \<and> speed = common_speed dimms None"
proof (induction rs arbitrary: memory_type warnings)
  case Nil
  then show ?case by (simp add: common_speed_def)
next
  case (Cons r rs)
  obtain found mt sp ws where run: "parse_udevadm_dimms (rec_payload r) memory_type None warnings = ((found, mt, sp), ws)"
    by (metis prod.collapse)
  then have speed: "sp = common_speed found None"
    by (auto simp: parse_udevadm_dimms_def Let_def case_prod_unfold)
  have found: "list_all unassociated found"
    using udev_dimms_unassociated [of "rec_payload r" memory_type None warnings] by (simp add: run)
  have "sp = None" if "found = []" using that speed by (simp add: common_speed_def)
  then show ?case
    using Cons.IH [of memory_type warnings] Cons.IH [of mt ws] speed found by (cases "found = []") (simp_all add: run)
qed

section \<open>The model\<close>

definition dimm_speed_view :: "DimmInfo \<Rightarrow> bool \<times> TransferRate option" where
  "dimm_speed_view d = (dimm_present d, dimm_configured_speed_mts d)"

lemma shared_speed_view: "map dimm_speed_view ds = map dimm_speed_view ds' \<Longrightarrow> shared_speed ds v = shared_speed ds' v"
proof -
  have view: "shared_speed ds v \<longleftrightarrow> filter fst (map dimm_speed_view ds) \<noteq> [] \<and>
      list_all (\<lambda>p. snd p = Some v) (filter fst (map dimm_speed_view ds))" for ds
    by (simp add: shared_speed_def dimm_speed_view_def filter_map comp_def list.pred_map)
  show "map dimm_speed_view ds = map dimm_speed_view ds' \<Longrightarrow> ?thesis" by (simp only: view)
qed

lemma edac_inventory_speed:
  "shared_speed (mem_dimms (fst (apply_edac_inventory raw memory mt))) v =
     shared_speed (mem_dimms memory) v"
proof -
  have keep: "map dimm_speed_view (fst (fold (edac_dimm False devices) es (dimms, mt))) = map dimm_speed_view dimms"
    for devices es dimms mt
  proof (induction es arbitrary: dimms mt)
    case Nil
    then show ?case by simp
  next
    case (Cons e es)
    obtain dimms' mt' where step: "edac_dimm False devices e (dimms, mt) = (dimms', mt')"
      by (cases "edac_dimm False devices e (dimms, mt)")
    have "map dimm_speed_view dimms' = map dimm_speed_view dimms"
      using step by (auto simp: edac_dimm_def dimm_speed_view_def associate_def split: if_splits option.splits)
    then show ?case by (simp add: step Cons.IH)
  qed
  have fresh: "list_all (\<lambda>d. dimm_configured_speed_mts d = None) (fst (fold (edac_dimm True devices) es (dimms, mt)))"
    if "list_all (\<lambda>d. dimm_configured_speed_mts d = None) dimms" for devices es dimms mt
    using that
  proof (induction es arbitrary: dimms mt)
    case Nil
    then show ?case by simp
  next
    case (Cons e es)
    obtain dimms' mt' where step: "edac_dimm True devices e (dimms, mt) = (dimms', mt')"
      by (cases "edac_dimm True devices e (dimms, mt)")
    have "list_all (\<lambda>d. dimm_configured_speed_mts d = None) dimms'"
      using step Cons.prems
      by (auto simp: edac_dimm_def inventory_dimm_def DimmInfo_default_def split: if_splits option.splits)
    then show ?case by (simp add: step Cons.IH)
  qed
  show ?thesis
  proof (cases "mem_dimms memory = []")
    case True
    have none: "\<not> shared_speed ds v" if "list_all (\<lambda>d. dimm_configured_speed_mts d = None) ds" for ds
      using that by (auto simp: shared_speed_def list_all_iff filter_empty_conv)
    have "list_all (\<lambda>d. dimm_configured_speed_mts d = None) (mem_dimms (fst (apply_edac_inventory raw memory mt)))"
      using fresh [of "[]"] True by (simp add: apply_edac_inventory_def Let_def case_prod_unfold)
    with none show ?thesis by (simp add: True)
  next
    case False
    then show ?thesis
      by (intro shared_speed_view) (simp add: apply_edac_inventory_def Let_def case_prod_unfold keep)
  qed
qed

lemma parse_memory_stages:
  assumes "fst (parse_memory raw warnings) = Some memory"
  obtains first memory_type speed where
    "list_all unassociated (mem_dimms first)" "speed = common_speed (mem_dimms first) None"
    "unit_value (mem_total_memory first) \<noteq> 0" "mem_dimm_count first = None" "mem_populated_dimms first = None"
    "memory = apply_memory_topology raw (count_dimms ((fst (apply_edac_inventory raw first memory_type))
       \<lparr>mem_memory_type := snd (apply_edac_inventory raw first memory_type), mem_configured_speed_mts := speed\<rparr>))"
proof -
  obtain r where r: "find (\<lambda>r. rec_status r = Success) (get_all raw ProcMemInfo) = Some r"
    using assms by (auto simp: parse_memory_def split: option.splits)
  obtain t a w1 where 1: "parse_meminfo (rec_payload r) warnings = ((t, a), w1)" by (metis prod.collapse)
  obtain nodes w2 where 2: "fold numa_memory_record (get_all raw SysfsNuma) ([], w1) = (nodes, w2)" by (metis prod.collapse)
  obtain d m s w3 where 3: "udev_records (get_all raw Udevadm) (([], [], None), w2) = ((d, m, s), w3)" by (metis prod.collapse)
  have d: "list_all unassociated d" "s = common_speed d None"
    using udev_records_result [of "get_all raw Udevadm" "[]" w2] by (simp_all add: 3)
  have "unit_value t \<noteq> 0" using assms by (auto simp: parse_memory_def r 1 Let_def split: if_splits)
  then show ?thesis
    using that [of "Memory_default\<lparr>mem_total_memory := t, mem_available_memory := a, mem_numa_memory := nodes,
        mem_dimms := d, mem_dimm_inventory_source := (if d \<noteq> [] then ''udev'' else [])\<rparr>" s m] assms d
    by (simp add: parse_memory_def r 1 2 3 Let_def case_prod_unfold Memory_default_def)
qed

lemma count_dimms_frame [simp]:
  "mem_dimms (count_dimms m) = mem_dimms m" "mem_edac_devices (count_dimms m) = mem_edac_devices m"
  "mem_configured_speed_mts (count_dimms m) = mem_configured_speed_mts m"
  "mem_total_memory (count_dimms m) = mem_total_memory m"
  by (simp_all add: count_dimms_def)

text \<open>the configured speed of the memory is known exactly when some DIMM is present and every
  present DIMM reports this one speed, whether udev or EDAC gave the DIMM list.
\<close>

theorem memory_speed_shared:
  "pred_option (\<lambda>memory. \<forall>v. mem_configured_speed_mts memory = Some v \<longleftrightarrow> shared_speed (mem_dimms memory) v)
     (fst (parse_memory raw warnings))"
proof (cases "fst (parse_memory raw warnings)")
  case None
  then show ?thesis by simp
next
  case (Some memory)
  from parse_memory_stages [OF Some] obtain first mt speed where
    stages: "speed = common_speed (mem_dimms first) None"
    "memory = apply_memory_topology raw (count_dimms ((fst (apply_edac_inventory raw first mt))
       \<lparr>mem_memory_type := snd (apply_edac_inventory raw first mt), mem_configured_speed_mts := speed\<rparr>))" by metis
  have "shared_speed (mem_dimms memory) v = shared_speed (mem_dimms (fst (apply_edac_inventory raw first mt))) v" for v
    by (rule shared_speed_view) (simp add: stages(2) topology_frame dimm_speed_view_def)
  then show ?thesis
    by (simp add: Some stages topology_frame edac_inventory_speed common_speed_shared)
qed

text \<open>C19: an EDAC device is tied to a DIMM of udev only when label and capacity single out both: exactly
  one present DIMM and exactly one EDAC DIMM have them, and the DIMM carries this device's indices.
\<close>

theorem edac_association_unambiguous:
  "pred_option (\<lambda>memory. list_all (association_ok (mem_edac_devices memory) (mem_dimms memory)) (mem_dimms memory))
     (fst (parse_memory raw warnings))"
proof (cases "fst (parse_memory raw warnings)")
  case None
  then show ?thesis by simp
next
  case (Some memory)
  from parse_memory_stages [OF Some] obtain first mt speed where
    stages: "list_all unassociated (mem_dimms first)"
    "memory = apply_memory_topology raw (count_dimms ((fst (apply_edac_inventory raw first mt))
       \<lparr>mem_memory_type := snd (apply_edac_inventory raw first mt), mem_configured_speed_mts := speed\<rparr>))" by metis
  have "list_all (\<lambda>d. dimm_edac_association d \<noteq> LabelAndCapacity) (mem_dimms first)"
    using stages(1) by (simp add: unassociated_def [abs_def])
  from edac_inventory_ok [OF this, of raw mt] show ?thesis
    by (auto simp: Some stages(2) topology_frame list_all_iff association_placed)
qed

lemma populated_count: "fold (\<lambda>d (n :: u32). if dimm_present d then n + 1 else n) ds n =
    n + word_of_nat (length (filter dimm_present ds))"
  by (induction ds arbitrary: n) simp_all

text \<open>
  the total memory of a model is not zero, and its DIMM counts are those of its list: unknown
  for an empty list, and otherwise the length and the number of present DIMMs.
\<close>

theorem memory_counts:
  "pred_option (\<lambda>memory. unit_value (mem_total_memory memory) \<noteq> 0 \<and>
      mem_dimm_count memory = (if mem_dimms memory = [] then None else Some (word_of_nat (length (mem_dimms memory)))) \<and>
      mem_populated_dimms memory = (if mem_dimms memory = [] then None
        else Some (word_of_nat (length (filter dimm_present (mem_dimms memory))))))
     (fst (parse_memory raw warnings))"
proof (cases "fst (parse_memory raw warnings)")
  case None
  then show ?thesis by simp
next
  case (Some memory)
  from parse_memory_stages [OF Some] obtain first mt speed where
    stages: "unit_value (mem_total_memory first) \<noteq> 0" "mem_dimm_count first = None" "mem_populated_dimms first = None"
    "memory = apply_memory_topology raw (count_dimms ((fst (apply_edac_inventory raw first mt))
       \<lparr>mem_memory_type := snd (apply_edac_inventory raw first mt), mem_configured_speed_mts := speed\<rparr>))" by metis
  have "mem_total_memory (fst (apply_edac_inventory raw first mt)) = mem_total_memory first"
    "mem_dimm_count (fst (apply_edac_inventory raw first mt)) = mem_dimm_count first"
    "mem_populated_dimms (fst (apply_edac_inventory raw first mt)) = mem_populated_dimms first"
    by (simp_all add: apply_edac_inventory_def Let_def case_prod_unfold)
  then show ?thesis
    using stages(1-3) by (simp add: Some stages(4) topology_frame count_dimms_def populated_count filter_map comp_def)
qed

end
