(* ===== verification/Accelerator_Inventory.thy ===== *)
theory Accelerator_Inventory
  imports Raw_Store
begin

text \<open>
  \<open>src/parser/accelerator_inventory.cpp\<close>: the list that the accelerator backends are merged into. A
  device that is already listed completes its entry; another one is appended under an ordinal
  that no entry has. The search for a free ordinal is a \<open>while\<close> loop over 32-bit numbers, which ends
  because the list is shorter than their range; the model bounds it by the length of the list, and
  the loop itself, as a partial function, is shown to return the same number.
\<close>

section \<open>Free ordinals\<close>

definition ordinals :: "AcceleratorDevice list \<Rightarrow> u32 set" where
  "ordinals devices = id_value ` acc_id ` set devices"

fun next_from :: "nat \<Rightarrow> AcceleratorDevice list \<Rightarrow> u32 \<Rightarrow> u32" where
  "next_from 0 devices n = n"
| "next_from (Suc steps) devices n =
     (if list_ex (\<lambda>device. id_value (acc_id device) = n) devices then next_from steps devices (n + 1) else n)"

definition next_id :: "AcceleratorDevice list \<Rightarrow> u32" where
  "next_id devices = next_from (length devices) devices 0"

text \<open>The loop as it is written, without a bound.\<close>

partial_function (option) next_loop :: "AcceleratorDevice list \<Rightarrow> u32 \<Rightarrow> u32 option" where
  "next_loop devices n =
     (if list_ex (\<lambda>device. id_value (acc_id device) = n) devices then next_loop devices (n + 1) else Some n)"

section \<open>Merging\<close>

definition same_device :: "AcceleratorDevice \<Rightarrow> AcceleratorDevice \<Rightarrow> bool" where
  "same_device left right =
     (if acc_vendor left \<noteq> acc_vendor right \<or> acc_parent_uuid left \<noteq> acc_parent_uuid right then False
      else if acc_uuid left \<noteq> None \<and> acc_uuid right \<noteq> None then acc_uuid left = acc_uuid right
      else if acc_parent_uuid left \<noteq> None
      then acc_gpu_instance_id left \<noteq> None \<and> acc_gpu_instance_id right \<noteq> None \<and>
        acc_compute_instance_id left \<noteq> None \<and> acc_compute_instance_id right \<noteq> None \<and>
        acc_gpu_instance_id left = acc_gpu_instance_id right \<and>
        acc_compute_instance_id left = acc_compute_instance_id right
      else if acc_pci_address left \<noteq> None \<and> acc_pci_address right \<noteq> None
      then acc_pci_address left = acc_pci_address right
      else acc_id left = acc_id right)"

definition fill_missing :: "'a option \<Rightarrow> 'a option \<Rightarrow> 'a option" where
  "fill_missing target source = (case target of None \<Rightarrow> source | Some x \<Rightarrow> Some x)"

definition fill_device :: "AcceleratorDevice \<Rightarrow> AcceleratorDevice \<Rightarrow> AcceleratorDevice" where
  "fill_device existing device = existing
     \<lparr>acc_uuid := fill_missing (acc_uuid existing) (acc_uuid device),
      acc_pci_address := fill_missing (acc_pci_address existing) (acc_pci_address device),
      acc_memory_size := fill_missing (acc_memory_size existing) (acc_memory_size device),
      acc_nearest_numa_node := fill_missing (acc_nearest_numa_node existing) (acc_nearest_numa_node device),
      acc_gpu_instance_id := fill_missing (acc_gpu_instance_id existing) (acc_gpu_instance_id device),
      acc_compute_instance_id := fill_missing (acc_compute_instance_id existing) (acc_compute_instance_id device)\<rparr>"

definition uuid_conflict :: string where
  "uuid_conflict = ''parse_accelerator: conflicting UUIDs at the same PCI address; devices kept separate''"

definition pci_conflict :: string where
  "pci_conflict = ''parse_accelerator: conflicting PCI addresses for the same UUID''"

definition ordinal_range :: string where
  "ordinal_range = ''parse_accelerator: device ordinal out of range''"

text \<open>The loop over the entries: it stops at the first entry of the same device.\<close>

fun merge_existing :: "AcceleratorDevice \<Rightarrow> AcceleratorDevice list \<Rightarrow> AcceleratorDevice list option \<times> string list" where
  "merge_existing device [] = (None, [])"
| "merge_existing device (existing # rest) =
     (if \<not> same_device existing device
      then
        let (merged, warnings) = merge_existing device rest;
            conflict = acc_parent_uuid existing = None \<and> acc_parent_uuid device = None \<and>
              acc_vendor existing = acc_vendor device \<and> acc_uuid existing \<noteq> None \<and> acc_uuid device \<noteq> None \<and>
              acc_pci_address existing \<noteq> None \<and> acc_pci_address existing = acc_pci_address device
        in (map_option (\<lambda>es. existing # es) merged, (if conflict then [uuid_conflict] else []) @ warnings)
      else
        let conflict = acc_pci_address existing \<noteq> None \<and> acc_pci_address device \<noteq> None \<and>
              acc_pci_address existing \<noteq> acc_pci_address device
        in (Some (fill_device existing device # rest), if conflict then [pci_conflict] else []))"

text \<open>A synthetic ordinal gives way to a physical device that reports it.\<close>

fun give_way :: "AcceleratorId \<Rightarrow> AcceleratorDevice list \<Rightarrow> AcceleratorDevice list \<Rightarrow> AcceleratorDevice list" where
  "give_way ident before [] = before"
| "give_way ident before (existing # rest) =
     (let moved = (if acc_parent_uuid existing \<noteq> None \<and> acc_id existing = ident
            then existing\<lparr>acc_id := StrongId (next_id (before @ existing # rest))\<rparr> else existing)
      in give_way ident (before @ [moved]) rest)"

definition append_device :: "AcceleratorDevice \<Rightarrow> AcceleratorDevice list \<Rightarrow> AcceleratorDevice list" where
  "append_device device devices =
     (let devices = (if acc_parent_uuid device = None then give_way (acc_id device) [] devices else devices);
          device = (if acc_parent_uuid device \<noteq> None \<or> list_ex (\<lambda>existing. acc_id existing = acc_id device) devices
            then device\<lparr>acc_id := StrongId (next_id devices)\<rparr> else device)
      in devices @ [device])"

definition add_device :: "AcceleratorDevice \<Rightarrow> AcceleratorDevice list \<times> string list \<Rightarrow>
    AcceleratorDevice list \<times> string list" where
  "add_device device = (\<lambda>(devices, warnings).
     if id_value (acc_id device) = - 1 then (devices, warnings @ [ordinal_range])
     else
       let (merged, ws) = merge_existing device devices in
       (case merged of Some entries \<Rightarrow> entries | None \<Rightarrow> append_device device devices, warnings @ ws))"

section \<open>The search for a free ordinal ends\<close>

lemma list_ex_ordinals: "list_ex (\<lambda>device. id_value (acc_id device) = n) devices \<longleftrightarrow> n \<in> ordinals devices"
  by (auto simp: list_ex_iff ordinals_def)

text \<open>The first free ordinal, as an offset from the start of the search.\<close>

definition first_free :: "AcceleratorDevice list \<Rightarrow> u32 \<Rightarrow> nat \<Rightarrow> bool" where
  "first_free devices n m \<longleftrightarrow>
     n + word_of_nat m \<notin> ordinals devices \<and> (\<forall>i < m. n + word_of_nat i \<in> ordinals devices)"

lemma first_free_Suc: "first_free devices n (Suc m) \<Longrightarrow> n \<in> ordinals devices \<and> first_free devices (n + 1) m"
proof -
  assume free: "first_free devices n (Suc m)"
  have "n + word_of_nat i + 1 \<in> ordinals devices" if "i < m" for i
    using free that unfolding first_free_def by (auto dest!: spec [of _ "Suc i"] simp: algebra_simps)
  moreover have "n \<in> ordinals devices" using free by (auto simp: first_free_def dest: spec [of _ 0])
  ultimately show ?thesis using free by (simp add: first_free_def algebra_simps)
qed

lemma next_from_first: "m \<le> steps \<Longrightarrow> first_free devices n m \<Longrightarrow> next_from steps devices n = n + word_of_nat m"
proof (induction steps arbitrary: m n)
  case 0
  then show ?case by simp
next
  case (Suc steps)
  show ?case
  proof (cases m)
    case 0
    then show ?thesis using Suc.prems by (simp add: list_ex_ordinals first_free_def)
  next
    case (Suc k)
    then have "n \<in> ordinals devices" "first_free devices (n + 1) k" using first_free_Suc Suc.prems by blast+
    then show ?thesis
      using Suc.IH [of k "n + 1"] Suc Suc.prems(1) by (simp add: list_ex_ordinals algebra_simps)
  qed
qed

lemma next_loop_first: "first_free devices n m \<Longrightarrow> next_loop devices n = Some (n + word_of_nat m)"
proof (induction m arbitrary: n)
  case 0
  then show ?case by (subst next_loop.simps) (simp add: list_ex_ordinals first_free_def)
next
  case (Suc m)
  then have "n \<in> ordinals devices" "first_free devices (n + 1) m" using first_free_Suc by blast+
  then show ?case using Suc.IH [of "n + 1"] by (subst next_loop.simps) (simp add: list_ex_ordinals algebra_simps)
qed

lemma free_ordinal_exists:
  assumes "length devices < 2 ^ 32"
  obtains m where "m \<le> length devices" "first_free devices 0 m"
proof -
  let ?P = "\<lambda>m. (word_of_nat m :: u32) \<notin> ordinals devices"
  have "\<exists>m \<le> length devices. ?P m"
  proof (rule ccontr)
    assume "\<not> ?thesis"
    then have "(word_of_nat :: nat \<Rightarrow> u32) ` {0..length devices} \<subseteq> ordinals devices" by auto
    moreover have "finite (ordinals devices)" by (simp add: ordinals_def)
    ultimately have "card ((word_of_nat :: nat \<Rightarrow> u32) ` {0..length devices}) \<le> card (ordinals devices)"
      by (rule card_mono [rotated])
    also have "\<dots> \<le> length devices"
      unfolding ordinals_def by (metis card_image_le card_length finite_imageI le_trans List.finite_set)
    finally have "card ((word_of_nat :: nat \<Rightarrow> u32) ` {0..length devices}) \<le> length devices" .
    moreover have "inj_on (word_of_nat :: nat \<Rightarrow> u32) {0..length devices}"
      using assms by (intro inj_onI) (simp add: word_of_nat_eq_iff take_bit_nat_eq_self)
    then have "card ((word_of_nat :: nat \<Rightarrow> u32) ` {0..length devices}) = Suc (length devices)"
      by (simp add: card_image)
    ultimately show False by simp
  qed
  then obtain k where k: "k \<le> length devices" "?P k" by blast
  define m where "m = (LEAST m. ?P m)"
  have "?P m" unfolding m_def by (rule LeastI [of ?P, OF k(2)])
  moreover have "m \<le> k" unfolding m_def by (rule Least_le [of ?P, OF k(2)])
  moreover have "\<not> ?P i" if "i < m" for i using that not_less_Least [of i ?P] by (simp add: m_def)
  ultimately show ?thesis using that [of m] k(1) by (simp add: first_free_def)
qed

lemma next_id_fresh: "length devices < 2 ^ 32 \<Longrightarrow> next_id devices \<notin> ordinals devices"
proof -
  assume "length devices < 2 ^ 32"
  then obtain m where m: "m \<le> length devices" "first_free devices 0 m" by (rule free_ordinal_exists)
  then have "next_id devices = word_of_nat m" using next_from_first [of m _ devices 0] by (simp add: next_id_def)
  then show ?thesis using m(2) by (simp add: first_free_def)
qed

text \<open>C32: the search for a free ordinal always ends, with the smallest number that no entry has, as
  long as the list has less than 2 to the 32 entries; the bound of the model is enough.
\<close>

theorem next_id_terminates:
  assumes "length devices < 2 ^ 32"
  shows "next_loop devices 0 = Some (next_id devices) \<and> next_id devices \<notin> ordinals devices \<and>
    {n. n < next_id devices} \<subseteq> ordinals devices"
proof -
  obtain m where m: "m \<le> length devices" "first_free devices 0 m" using free_ordinal_exists [OF assms] .
  have id: "next_id devices = word_of_nat m"
    using next_from_first [OF m] by (simp add: next_id_def)
  have "n \<in> ordinals devices" if "n < next_id devices" for n
  proof -
    have "m < 2 ^ 32" using m(1) assms by simp
    then have "unat n < m"
      using that by (simp add: id word_less_nat_alt unat_of_nat take_bit_nat_eq_self)
    then show ?thesis using m(2) by (auto simp: first_free_def dest: spec [of _ "unat n"])
  qed
  then show ?thesis
    using next_loop_first [OF m(2)] next_id_fresh [OF assms] by (auto simp: id)
qed

definition two_devices :: "AcceleratorDevice list" where
  "two_devices = [AcceleratorDevice_default, AcceleratorDevice_default\<lparr>acc_id := StrongId 2\<rparr>]"

theorem next_id_terminates_witness: "next_loop two_devices 0 = Some 1"
proof -
  have "length two_devices < 2 ^ 32" by (simp add: two_devices_def)
  from next_id_terminates [OF this] have "next_loop two_devices 0 = Some (next_id two_devices)" by blast
  moreover have "next_id two_devices = 1" by code_simp
  ultimately show ?thesis by simp
qed

section \<open>Ordinals are unique\<close>

definition unique_ordinals :: "AcceleratorDevice list \<Rightarrow> bool" where
  "unique_ordinals devices \<longleftrightarrow> distinct (map acc_id devices)"

lemma merge_existing_ids:
  "fst (merge_existing device devices) = Some entries \<Longrightarrow> map acc_id entries = map acc_id devices"
  by (induction devices arbitrary: entries)
    (auto simp: fill_device_def Let_def case_prod_unfold split: if_splits)

lemma ordinals_acc_id: "acc_id d \<in> acc_id ` set devices \<longleftrightarrow> id_value (acc_id d) \<in> ordinals devices"
  by (simp add: ordinals_def)

lemma fresh_id: "length devices < 2 ^ 32 \<Longrightarrow> StrongId (next_id devices) \<notin> acc_id ` set devices"
  using next_id_fresh [of devices] by (auto simp: ordinals_def image_iff) (metis strong_id.sel)

lemma give_way_unique:
  "unique_ordinals (before @ rest) \<Longrightarrow> length (before @ rest) < 2 ^ 32 \<Longrightarrow>
     unique_ordinals (give_way ident before rest) \<and> length (give_way ident before rest) = length (before @ rest)"
proof (induction rest arbitrary: before)
  case Nil
  then show ?case by simp
next
  case (Cons e rest)
  let ?moved = "if acc_parent_uuid e \<noteq> None \<and> acc_id e = ident
      then e\<lparr>acc_id := StrongId (next_id (before @ e # rest))\<rparr> else e"
  have "StrongId (next_id (before @ e # rest)) \<notin> acc_id ` set (before @ e # rest)"
    using Cons.prems(2) by (rule fresh_id)
  then have "unique_ordinals ((before @ [?moved]) @ rest)"
    using Cons.prems(1) by (auto simp: unique_ordinals_def)
  then show ?case using Cons.IH [of "before @ [?moved]"] Cons.prems(2) by (simp add: Let_def)
qed

lemma append_device_unique:
  assumes "unique_ordinals devices" "length devices < 2 ^ 32"
  shows "unique_ordinals (append_device device devices)" "length (append_device device devices) = Suc (length devices)"
proof -
  define es where "es = (if acc_parent_uuid device = None then give_way (acc_id device) [] devices else devices)"
  have es: "unique_ordinals es" "length es = length devices"
    using give_way_unique [of "[]" devices "acc_id device"] assms by (auto simp: es_def)
  have "StrongId (next_id es) \<notin> acc_id ` set es" using es(2) assms(2) by (intro fresh_id) simp
  then have "unique_ordinals (es @ [if acc_parent_uuid device \<noteq> None \<or> list_ex (\<lambda>e. acc_id e = acc_id device) es
      then device\<lparr>acc_id := StrongId (next_id es)\<rparr> else device])"
    using es(1) by (auto simp: unique_ordinals_def list_ex_iff)
  then show "unique_ordinals (append_device device devices)"
    by (simp add: append_device_def Let_def flip: es_def)
  show "length (append_device device devices) = Suc (length devices)"
    by (simp add: append_device_def Let_def es(2) flip: es_def)
qed

lemma add_device_grows: "length devices \<le> length (fst (add_device device (devices, warnings)))"
proof -
  have "length (give_way ident before rest) = length before + length rest" for ident before rest
    by (induction rest arbitrary: before) (simp_all add: Let_def)
  moreover have "length entries = length devices" if "fst (merge_existing device devices) = Some entries" for entries
    using arg_cong [OF merge_existing_ids [OF that], of length] by simp
  ultimately show ?thesis
    by (auto simp: add_device_def append_device_def Let_def case_prod_unfold split: option.split)
qed

lemma add_device_unique:
  assumes "length devices < 2 ^ 32" "unique_ordinals devices"
  shows "unique_ordinals (fst (add_device device (devices, warnings)))"
proof (cases "fst (merge_existing device devices)")
  case None
  then show ?thesis
    using append_device_unique [OF assms(2,1)] assms(2) by (simp add: add_device_def case_prod_unfold)
next
  case (Some entries)
  then show ?thesis
    using merge_existing_ids [OF Some] assms(2) by (simp add: add_device_def case_prod_unfold unique_ordinals_def)
qed

end
