(* ===== verification/Accelerator_Parser.thy ===== *)
theory Accelerator_Parser
  imports Accelerator_Inventory Accelerator_Selection Inventory Json Warnings
begin

text \<open>
  \<open>src/parser/accelerator.cpp\<close>: the accelerators of NVML, \<open>nvidia-smi\<close>, the MIG list, the vendor
  runtimes and DRM, merged in this order into one inventory, and the complete enumerations of the
  runtimes, which decide what the process can use. A backend is a loop over its records with the
  inventory and the warnings as state. \<open>std::sort\<close> of the DRM records leaves the order of equal paths
  open; the model keeps their order.
\<close>

type_synonym AccState = "AcceleratorDevice list \<times> string list"

section \<open>Text fields\<close>

definition string_field :: "json \<Rightarrow> string \<Rightarrow> string \<Rightarrow> string" where
  "string_field j key fallback = (case json_text j key of None \<Rightarrow> fallback | Some s \<Rightarrow> s)"

definition uuid_hex :: "string \<Rightarrow> string" where
  "uuid_hex s =
     (let s = (if prefix ''GPU-'' s \<or> prefix ''MIG-'' s then drop 4 s else s) in
      if CHR ''/'' \<in> set s then []
      else let hex = map to_lower (filter (\<lambda>c. c \<noteq> CHR ''-'') s) in if length hex = 32 then hex else [])"

fun json_number :: "json \<Rightarrow> u64 option" where
  "json_number (Json_Unsigned v) = Some v"
| "json_number _ = None"

definition number_field :: "json \<Rightarrow> string \<Rightarrow> u64 option" where
  "number_field j key = Option.bind (json_find j key) json_number"

definition device_entries :: "json \<Rightarrow> json list option" where
  "device_entries evidence =
     (if is_object evidence then Option.bind (json_find evidence ''devices'') json_array else None)"

section \<open>NVML\<close>

definition malformed_nvml :: string where
  "malformed_nvml = ''parse_accelerator: malformed NVML evidence''"

definition nvml_device :: "bool \<Rightarrow> json \<Rightarrow> AcceleratorDevice option" where
  "nvml_device children entry =
     (if \<not> is_object entry \<or> (json_find entry ''parent_uuid'' \<noteq> None) \<noteq> children then None
      else case number_field entry ''index'' of
        None \<Rightarrow> None
      | Some index \<Rightarrow> Some (AcceleratorDevice_default
          \<lparr>acc_id := StrongId (to_u32 index), acc_vendor := NamedString ''NVIDIA'', acc_kind := Acc_Gpu,
           acc_name := NamedString (string_field entry ''name'' ''NVIDIA GPU''),
           acc_uuid := json_text entry ''uuid'',
           acc_parent_uuid := (if children then json_text entry ''parent_uuid'' else None),
           acc_pci_address := Option.bind (json_text entry ''pci_bus_id'') parse_pci_address,
           acc_memory_size := map_option ScalarUnit (number_field entry ''memory_total''),
           acc_gpu_instance_id := map_option to_u32 (number_field entry ''gpu_instance_id''),
           acc_compute_instance_id := map_option to_u32 (number_field entry ''compute_instance_id'')\<rparr>))"

definition nvml_entry :: "bool \<Rightarrow> json \<Rightarrow> AccState \<Rightarrow> AccState" where
  "nvml_entry children entry s = (case nvml_device children entry of None \<Rightarrow> s | Some d \<Rightarrow> add_device d s)"

definition nvml_record :: "(string \<Rightarrow> json) \<Rightarrow> RawRecord \<Rightarrow> AccState \<Rightarrow> AccState" where
  "nvml_record parse_json r = (\<lambda>(devices, warnings).
     if rec_status r \<noteq> Success then (devices, warnings)
     else case device_entries (parse_json (rec_payload r)) of
       None \<Rightarrow> (devices, warnings @ [malformed_nvml])
     | Some entries \<Rightarrow> fold (nvml_entry True) entries (fold (nvml_entry False) entries (devices, warnings)))"

definition decode_nvml :: "(string \<Rightarrow> json) \<Rightarrow> RawStore \<Rightarrow> AccState \<Rightarrow> AccState" where
  "decode_nvml parse_json raw = fold (nvml_record parse_json) (get_all raw Nvml)"

section \<open>nvidia-smi\<close>

definition smi_prefix :: string where
  "smi_prefix = ''parse_accelerator: nvidia-smi ''"

definition smi_failed :: string where
  "smi_failed = bytes [232, 167, 163, 230, 158, 144, 229, 164, 177, 232, 180, 165] @ '': ''"

definition smi_columns :: "string \<Rightarrow> string" where
  "smi_columns line = smi_prefix @ ''CSV '' @
     bytes [229, 173, 151, 230, 174, 181, 228, 184, 141, 232, 182, 179] @ '': '' @ line"

definition smi_index :: "string \<Rightarrow> string" where
  "smi_index s = smi_prefix @ ''index '' @ smi_failed @ s"

definition smi_unit :: "string \<Rightarrow> string" where
  "smi_unit u = smi_prefix @ ''memory.total '' @
     bytes [230, 156, 170, 231, 159, 165, 229, 141, 149, 228, 189, 141] @ '': '' @ u @
     bytes [239, 188, 140, 233, 187, 152, 232, 174, 164, 230, 140, 137] @ '' MiB '' @ bytes [229, 164, 132, 231, 144, 134]"

definition smi_memory :: "string \<Rightarrow> string" where
  "smi_memory s = smi_prefix @ ''memory.total '' @
     bytes [230, 149, 176, 229, 128, 188, 232, 167, 163, 230, 158, 144, 229, 164, 177, 232, 180, 165] @ '': '' @ s"

definition smi_range :: string where
  "smi_range = ''parse_accelerator: nvidia-smi memory size out of range''"

definition smi_bus :: "string \<Rightarrow> string" where
  "smi_bus s = smi_prefix @ ''pci.bus_id '' @ smi_failed @ s"

definition unit_multipliers :: "(string \<times> u64) list" where
  "unit_multipliers = [(''MiB'', 1024 * 1024), (''GiB'', 1024 * 1024 * 1024), (''KiB'', 1024), (''B'', 1)]"

definition smi_multiplier :: "string list \<Rightarrow> u64 \<times> string list" where
  "smi_multiplier parts =
     (if length parts > 1
      then let u = trim (parts ! 1) in
        (case map_of unit_multipliers u of Some m \<Rightarrow> (m, []) | None \<Rightarrow> (1024 * 1024, [smi_unit u]))
      else (1024 * 1024, []))"

definition smi_memory_size :: "string \<Rightarrow> MemorySize option \<times> string list" where
  "smi_memory_size field =
     (let parts = split (trim field) (CHR '' '') in
      case parse_uint (trim (hd parts)) of
        None \<Rightarrow> (None, [smi_memory (trim (hd parts))])
      | Some num \<Rightarrow>
          let (multiplier, warnings) = smi_multiplier parts in
          if num \<le> (- 1) div multiplier then (Some (ScalarUnit (num * multiplier)), warnings)
          else (None, warnings @ [smi_range]))"

definition parse_nvidia_smi_row :: "string \<Rightarrow> AcceleratorDevice option \<times> string list" where
  "parse_nvidia_smi_row line =
     (let columns = split line (CHR '','') in
      if length columns < 4 then (None, [smi_columns line])
      else case parse_uint (trim (columns ! 0)) of
        None \<Rightarrow> (None, [smi_index (trim (columns ! 0))])
      | Some index \<Rightarrow>
          if index \<ge> u32_max then (None, [smi_index (trim (columns ! 0))])
          else
            let (memory, warnings) = smi_memory_size (columns ! 2);
                pci = parse_pci_address (trim (columns ! 3));
                device = AcceleratorDevice_default
                  \<lparr>acc_kind := Acc_Gpu, acc_vendor := NamedString ''NVIDIA'', acc_visible_to_current_process := True,
                   acc_id := StrongId (to_u32 index), acc_name := NamedString (trim (columns ! 1)),
                   acc_memory_size := memory,
                   acc_uuid := (if length columns > 5 \<and> prefix ''GPU-'' (trim (columns ! 5))
                     then Some (trim (columns ! 5)) else None),
                   acc_pci_address := pci\<rparr>
            in (Some device, warnings @ (if pci = None then [smi_bus (trim (columns ! 3))] else [])))"

definition is_nvidia_smi_header :: "string \<Rightarrow> bool" where
  "is_nvidia_smi_header line \<longleftrightarrow> contains_str (trim line) ''index'' \<or> contains_str (trim line) ''name''"

definition smi_line :: "string \<Rightarrow> AccState \<Rightarrow> AccState" where
  "smi_line line = (\<lambda>(devices, warnings).
     if trim line = [] \<or> is_nvidia_smi_header line then (devices, warnings)
     else let (device, ws) = parse_nvidia_smi_row line in
       case device of
         None \<Rightarrow> (devices, warnings @ ws)
       | Some d \<Rightarrow> add_device d (devices, warnings @ ws))"

definition smi_record :: "RawRecord \<Rightarrow> AccState \<Rightarrow> AccState" where
  "smi_record r s = (if rec_status r \<noteq> Success then s else fold smi_line (split (rec_payload r) (CHR 0x0A)) s)"

definition decode_nvidia_smi :: "RawStore \<Rightarrow> AccState \<Rightarrow> AccState" where
  "decode_nvidia_smi raw = fold smi_record (get_all raw NvidiaSmi)"

section \<open>The MIG list of nvidia-smi\<close>

definition uuid_of :: "string \<Rightarrow> string option" where
  "uuid_of v = (case find_str ''(UUID: '' v of
      None \<Rightarrow> None
    | Some start \<Rightarrow> (case find_char_from (CHR '')'') start v of
        None \<Rightarrow> None
      | Some stop \<Rightarrow> Some (take (stop - start - 7) (drop (start + 7) v))))"

definition up_to :: "nat option \<Rightarrow> string \<Rightarrow> string" where
  "up_to pos s = (case pos of None \<Rightarrow> s | Some n \<Rightarrow> take n s)"

definition name_parent :: "string \<Rightarrow> string \<Rightarrow> AcceleratorDevice list \<Rightarrow> AcceleratorDevice list" where
  "name_parent v uuid devices =
     (case parse_uint (drop 4 (up_to (find_char (CHR '':'') v) v)) of
        None \<Rightarrow> devices
      | Some index \<Rightarrow> map (\<lambda>device.
          if acc_parent_uuid device = None \<and> acc_vendor device = NamedString ''NVIDIA'' \<and>
             from_u32 (id_value (acc_id device)) = index
          then device\<lparr>acc_uuid := Some uuid\<rparr> else device) devices)"

definition mig_device :: "string \<Rightarrow> string \<Rightarrow> string \<Rightarrow> AcceleratorDevice list \<Rightarrow> AcceleratorDevice" where
  "mig_device v uuid parent devices = fold
     (\<lambda>physical device. if acc_uuid physical = Some parent
        then device\<lparr>acc_pci_address := acc_pci_address physical,
          acc_nearest_numa_node := acc_nearest_numa_node physical\<rparr>
        else device) devices
     (AcceleratorDevice_default
       \<lparr>acc_vendor := NamedString ''NVIDIA'', acc_kind := Acc_Gpu,
        acc_name := NamedString (trim (up_to (find_str ''Device'' v) v)), acc_uuid := Some uuid,
        acc_parent_uuid := Some parent\<rparr>)"

definition mig_line :: "string \<Rightarrow> (string option \<times> AcceleratorDevice list) \<times> string list \<Rightarrow>
    (string option \<times> AcceleratorDevice list) \<times> string list" where
  "mig_line line = (\<lambda>((parent, devices), warnings).
     let v = trim line in
     case uuid_of v of
       None \<Rightarrow> ((parent, devices), warnings)
     | Some uuid \<Rightarrow>
         if prefix ''GPU '' v then ((Some uuid, name_parent v uuid devices), warnings)
         else if prefix ''MIG '' v then
           (case parent of
              None \<Rightarrow> ((parent, devices), warnings)
            | Some p \<Rightarrow>
                let (devices, warnings) = add_device (mig_device v uuid p devices) (devices, warnings)
                in ((parent, devices), warnings))
         else ((parent, devices), warnings))"

definition mig_record :: "RawRecord \<Rightarrow> AccState \<Rightarrow> AccState" where
  "mig_record r = (\<lambda>(devices, warnings).
     if rec_status r \<noteq> Success then (devices, warnings)
     else let ((parent, devices), warnings) =
         fold mig_line (split (rec_payload r) (CHR 0x0A)) ((None, devices), warnings)
       in (devices, warnings))"

definition decode_mig_list :: "RawStore \<Rightarrow> AccState \<Rightarrow> AccState" where
  "decode_mig_list raw = fold mig_record (get_all raw NvidiaMigList)"

section \<open>Vendor runtimes\<close>

definition formatted_uuid :: "string \<Rightarrow> string" where
  "formatted_uuid hex = take 8 hex @ ''-'' @ take 4 (drop 8 hex) @ ''-'' @ take 4 (drop 12 hex) @ ''-'' @
     take 4 (drop 16 hex) @ ''-'' @ drop 20 hex"

definition name_runtime :: "string \<Rightarrow> PciAddress \<Rightarrow> AcceleratorDevice list \<Rightarrow> AcceleratorDevice \<Rightarrow> AcceleratorDevice" where
  "name_runtime hex pci devices device =
     (if length hex \<noteq> 32 then device
      else fold
        (\<lambda>parent device. case acc_uuid parent of
           None \<Rightarrow> device
         | Some uuid \<Rightarrow>
             if acc_parent_uuid parent = None \<and> acc_pci_address parent = Some pci \<and> uuid_hex uuid \<noteq> hex
             then device\<lparr>acc_parent_uuid := Some uuid, acc_uuid := Some (''MIG-'' @ formatted_uuid hex)\<rparr>
             else device) devices
        (device\<lparr>acc_uuid := Some (''GPU-'' @ formatted_uuid hex)\<rparr>))"

definition known_uuid :: "AcceleratorDevice list \<Rightarrow> string \<Rightarrow> bool" where
  "known_uuid devices hex \<longleftrightarrow> list_ex (\<lambda>device. map_option uuid_hex (acc_uuid device) = Some hex) devices"

definition runtime_device :: "string \<Rightarrow> json \<Rightarrow> AcceleratorDevice list \<Rightarrow> AcceleratorDevice option" where
  "runtime_device vendor entry devices =
     (if \<not> is_object entry then None
      else case parse_pci_address (string_field entry ''pci_bus_id'' []) of
        None \<Rightarrow> None
      | Some pci \<Rightarrow>
          let hex = string_field entry ''uuid_hex'' [] in
          if vendor = ''NVIDIA'' \<and> known_uuid devices hex then None
          else
            let device = AcceleratorDevice_default
              \<lparr>acc_id := StrongId (next_id devices), acc_vendor := NamedString vendor, acc_kind := Acc_Gpu,
               acc_name := NamedString (string_field entry ''name'' (vendor @ '' GPU'')),
               acc_pci_address := Some pci\<rparr>;
                device = (if vendor = ''NVIDIA'' then name_runtime hex pci devices device else device)
            in Some (device\<lparr>acc_memory_size := map_option ScalarUnit (number_field entry ''memory_total'')\<rparr>))"

definition runtime_entry :: "string \<Rightarrow> json \<Rightarrow> AccState \<Rightarrow> AccState" where
  "runtime_entry vendor entry s =
     (case runtime_device vendor entry (fst s) of None \<Rightarrow> s | Some device \<Rightarrow> add_device device s)"

definition runtime_record :: "(string \<Rightarrow> json) \<Rightarrow> RawRecord \<Rightarrow> AccState \<Rightarrow> AccState" where
  "runtime_record parse_json r s =
     (if rec_status r \<noteq> Success then s
      else let evidence = parse_json (rec_payload r) in
        case device_entries evidence of
          None \<Rightarrow> s
        | Some entries \<Rightarrow>
            let vendor = string_field evidence ''vendor'' [] in
            if vendor \<notin> {''AMD'', ''Intel'', ''NVIDIA''} then s
            else fold (runtime_entry vendor) entries s)"

definition decode_runtime_inventory :: "(string \<Rightarrow> json) \<Rightarrow> RawStore \<Rightarrow> AccState \<Rightarrow> AccState" where
  "decode_runtime_inventory parse_json raw = fold (runtime_record parse_json) (get_all raw AcceleratorRuntime)"

section \<open>DRM\<close>

definition drm_vendor :: "u64 \<Rightarrow> string option" where
  "drm_vendor v = (if v = 0x1002 then Some ''AMD'' else if v = 0x8086 then Some ''Intel''
     else if v = 0x10de then Some ''NVIDIA'' else None)"

definition drm_number :: "(string \<Rightarrow> u64 option) \<Rightarrow> json \<Rightarrow> string \<Rightarrow> u64 option" where
  "drm_number parse entry key = parse (trim (string_field entry key []))"

definition drm_uuid :: "json \<Rightarrow> string option" where
  "drm_uuid entry = (case drm_number parse_hex entry ''unique_id'' of
      None \<Rightarrow> None
    | Some v \<Rightarrow> if v = 0 then None else Some (''GPU-'' @ print_hex 16 (unat v)))"

definition malformed_drm :: string where
  "malformed_drm = ''parse_accelerator: malformed DRM evidence''"

definition drm_device :: "json \<Rightarrow> string \<Rightarrow> AcceleratorId \<Rightarrow> AcceleratorDevice" where
  "drm_device entry vendor ident = AcceleratorDevice_default
     \<lparr>acc_id := ident, acc_vendor := NamedString vendor, acc_kind := Acc_Gpu,
      acc_name := NamedString (trim (string_field entry ''product_name''
        (vendor @ '' GPU '' @ trim (string_field entry ''device'' [])))),
      acc_pci_address := parse_pci_address (string_field entry ''pci_bus_id'' []),
      acc_memory_size := map_option ScalarUnit (drm_number parse_uint entry ''mem_info_vram_total''),
      acc_nearest_numa_node := map_option (StrongId \<circ> to_u32) (drm_number parse_uint entry ''numa_node''),
      acc_uuid := drm_uuid entry\<rparr>"

definition drm_record :: "(string \<Rightarrow> json) \<Rightarrow> RawRecord \<Rightarrow> AccState \<Rightarrow> AccState" where
  "drm_record parse_json r = (\<lambda>(devices, warnings).
     if rec_status r \<noteq> Success then (devices, warnings)
     else let entry = parse_json (rec_payload r) in
       if \<not> is_object entry then (devices, warnings @ [malformed_drm])
       else case Option.bind (drm_number parse_hex entry ''vendor'') drm_vendor of
         None \<Rightarrow> (devices, warnings)
       | Some vendor \<Rightarrow> add_device (drm_device entry vendor (StrongId (next_id devices))) (devices, warnings))"

definition decode_drm :: "(string \<Rightarrow> json) \<Rightarrow> RawStore \<Rightarrow> AccState \<Rightarrow> AccState" where
  "decode_drm parse_json raw = fold (drm_record parse_json) (sort_key rec_path_or_command (get_all raw SysfsDrm))"

section \<open>The parser\<close>

fun first_node :: "string \<Rightarrow> RawRecord list \<Rightarrow> NumaNodeId option" where
  "first_node address [] = None"
| "first_node address (r # rs) =
     (if rec_status r = Success \<and> contains_str (rec_path_or_command r) address \<and>
         contains_str (rec_path_or_command r) ''numa_node''
      then case parse_uint (trim (rec_payload r)) of
          Some v \<Rightarrow> Some (StrongId (to_u32 v))
        | None \<Rightarrow> first_node address rs
      else first_node address rs)"

definition find_numa_node_for_pci :: "RawStore \<Rightarrow> PciAddress \<Rightarrow> NumaNodeId option" where
  "find_numa_node_for_pci raw address = first_node (pci_name address) (get_all raw SysfsPci)"

definition locate :: "RawStore \<Rightarrow> AcceleratorDevice \<Rightarrow> AcceleratorDevice" where
  "locate raw device =
     (if acc_nearest_numa_node device = None
      then device\<lparr>acc_nearest_numa_node := Option.bind (acc_pci_address device) (find_numa_node_for_pci raw)\<rparr>
      else device)"

definition no_backend :: string where
  "no_backend = ''parse_accelerator: no readable accelerator backend''"

definition parse_accelerator :: "(string \<Rightarrow> json) \<Rightarrow> RawStore \<Rightarrow> string list \<Rightarrow> Accelerators option \<times> string list" where
  "parse_accelerator parse_json raw warnings =
     (let (devices, warnings) = decode_drm parse_json raw (decode_runtime_inventory parse_json raw
            (decode_mig_list raw (decode_nvidia_smi raw (decode_nvml parse_json raw ([], warnings)))));
          devices = map (locate raw) devices
      in if devices = [] \<and> \<not> has_success raw SysfsDrm \<and> \<not> has_success raw Nvml
         then (None, warnings @ [no_backend])
         else (Some (Accelerators_default\<lparr>acc_devices := devices\<rparr>), warnings))"

section \<open>Complete enumerations of the runtimes\<close>

fun runtime_identities :: "json list \<Rightarrow> (PciAddress \<times> string) list option" where
  "runtime_identities [] = Some []"
| "runtime_identities (entry # rest) =
     (if \<not> is_object entry then None
      else case parse_pci_address (string_field entry ''pci_bus_id'' []) of
        None \<Rightarrow> None
      | Some pci \<Rightarrow> map_option (\<lambda>ids. (pci, string_field entry ''uuid_hex'' []) # ids) (runtime_identities rest))"

definition runtime_match :: "AcceleratorVendor \<Rightarrow> PciAddress \<times> string \<Rightarrow> AcceleratorDevice \<Rightarrow> bool" where
  "runtime_match vendor = (\<lambda>(pci, uuid) device.
     str_value (acc_vendor device) = vendor_name vendor \<and>
     (if vendor = Nvidia then map_option uuid_hex (acc_uuid device) = Some uuid
      else acc_pci_address device = Some pci))"

fun runtime_ids :: "AcceleratorVendor \<Rightarrow> AcceleratorDevice list \<Rightarrow> (PciAddress \<times> string) list \<Rightarrow> AcceleratorId list option" where
  "runtime_ids vendor devices [] = Some []"
| "runtime_ids vendor devices (ident # rest) =
     (let matched = map acc_id (filter (runtime_match vendor ident) devices) in
      if matched = [] then None else map_option (\<lambda>ids. matched @ ids) (runtime_ids vendor devices rest))"

definition runtime_visibility :: "(string \<Rightarrow> json) \<Rightarrow> Accelerators \<Rightarrow> RawRecord \<Rightarrow> RuntimeVisibility option" where
  "runtime_visibility parse_json devices r =
     (if rec_status r \<noteq> Success then None
      else let evidence = parse_json (rec_payload r) in
        case device_entries evidence of
          None \<Rightarrow> None
        | Some entries \<Rightarrow> (case accelerator_vendor (string_field evidence ''vendor'' []) of
            None \<Rightarrow> None
          | Some vendor \<Rightarrow> (case runtime_identities entries of
              None \<Rightarrow> None
            | Some identities \<Rightarrow> map_option (\<lambda>ids. \<lparr>rv_vendor = vendor, rv_visible = ids\<rparr>)
                (runtime_ids vendor (acc_devices devices) identities))))"

definition parse_accelerator_runtime_visibility ::
    "(string \<Rightarrow> json) \<Rightarrow> RawStore \<Rightarrow> Accelerators \<Rightarrow> RuntimeVisibility list" where
  "parse_accelerator_runtime_visibility parse_json raw devices =
     List.map_filter (runtime_visibility parse_json devices) (get_all raw AcceleratorRuntime)"

section \<open>Ordinals are unique\<close>

definition ordinals_kept :: "AcceleratorDevice list \<Rightarrow> bool" where
  "ordinals_kept devices \<longleftrightarrow> (length devices < 2 ^ 32 \<longrightarrow> unique_ordinals devices)"

lemma add_device_kept [intro]: "ordinals_kept (fst s) \<Longrightarrow> ordinals_kept (fst (add_device device s))"
proof (cases s)
  fix devices warnings
  assume "s = (devices, warnings)" and "ordinals_kept (fst s)"
  then show ?thesis
    using add_device_grows [of devices device warnings] add_device_unique [of devices device warnings]
    by (auto simp: ordinals_kept_def)
qed

lemma ordinals_kept_map: "(\<And>d. acc_id (f d) = acc_id d) \<Longrightarrow> ordinals_kept (map f devices) = ordinals_kept devices"
  by (simp add: ordinals_kept_def unique_ordinals_def comp_def)

lemma fold_kept:
  "(\<And>x s. ordinals_kept (fst s) \<Longrightarrow> ordinals_kept (fst (f x s))) \<Longrightarrow> ordinals_kept (fst s) \<Longrightarrow>
   ordinals_kept (fst (fold f xs s))"
  by (induction xs arbitrary: s) simp_all

lemma decode_nvml_kept: "ordinals_kept (fst s) \<Longrightarrow> ordinals_kept (fst (decode_nvml parse_json raw s))"
proof -
  have "ordinals_kept (fst s) \<Longrightarrow> ordinals_kept (fst (nvml_entry children entry s))" for children entry s
    by (auto simp: nvml_entry_def split: option.split)
  then have "ordinals_kept (fst s) \<Longrightarrow> ordinals_kept (fst (nvml_record parse_json r s))" for r s
    by (cases s) (auto simp: nvml_record_def split: option.split intro!: fold_kept)
  then show "ordinals_kept (fst s) \<Longrightarrow> ordinals_kept (fst (decode_nvml parse_json raw s))"
    unfolding decode_nvml_def by (rule fold_kept)
qed

lemma decode_nvidia_smi_kept: "ordinals_kept (fst s) \<Longrightarrow> ordinals_kept (fst (decode_nvidia_smi raw s))"
proof -
  have "ordinals_kept (fst s) \<Longrightarrow> ordinals_kept (fst (smi_line line s))" for line s
    by (cases s; cases "parse_nvidia_smi_row line") (auto simp: smi_line_def Let_def split: option.split)
  then have "ordinals_kept (fst s) \<Longrightarrow> ordinals_kept (fst (smi_record r s))" for r s
    by (auto simp: smi_record_def intro: fold_kept)
  then show "ordinals_kept (fst s) \<Longrightarrow> ordinals_kept (fst (decode_nvidia_smi raw s))"
    unfolding decode_nvidia_smi_def by (rule fold_kept)
qed

lemma mig_line_kept: "ordinals_kept (snd (fst s)) \<Longrightarrow> ordinals_kept (snd (fst (mig_line line s)))"
proof -
  have parent: "ordinals_kept (name_parent v uuid devices) = ordinals_kept devices" for v uuid devices
    by (simp add: name_parent_def ordinals_kept_map split: option.split)
  obtain parent devices warnings where s: "s = ((parent, devices), warnings)" by (cases s) auto
  assume "ordinals_kept (snd (fst s))"
  then have "ordinals_kept (fst (add_device d (devices, warnings)))" for d
    by (intro add_device_kept) (simp add: s)
  then show ?thesis
    using \<open>ordinals_kept (snd (fst s))\<close>
    by (auto simp: s mig_line_def Let_def parent case_prod_unfold split: option.split)
qed

lemma decode_mig_list_kept: "ordinals_kept (fst s) \<Longrightarrow> ordinals_kept (fst (decode_mig_list raw s))"
proof -
  have "ordinals_kept (snd (fst s)) \<Longrightarrow> ordinals_kept (snd (fst (fold mig_line ls s)))" for ls s
    by (induction ls arbitrary: s) (simp_all add: mig_line_kept)
  from this [of "((None, _), _)"]
  have "ordinals_kept (fst s) \<Longrightarrow> ordinals_kept (fst (mig_record r s))" for r s
    by (cases s) (simp add: mig_record_def Let_def case_prod_unfold)
  then show "ordinals_kept (fst s) \<Longrightarrow> ordinals_kept (fst (decode_mig_list raw s))"
    unfolding decode_mig_list_def by (rule fold_kept)
qed

lemma decode_runtime_inventory_kept:
  "ordinals_kept (fst s) \<Longrightarrow> ordinals_kept (fst (decode_runtime_inventory parse_json raw s))"
proof -
  have "ordinals_kept (fst s) \<Longrightarrow> ordinals_kept (fst (runtime_entry vendor entry s))" for vendor entry s
    by (auto simp: runtime_entry_def split: option.split)
  then have "ordinals_kept (fst s) \<Longrightarrow> ordinals_kept (fst (runtime_record parse_json r s))" for r s
    by (auto simp: runtime_record_def Let_def split: option.split intro!: fold_kept)
  then show "ordinals_kept (fst s) \<Longrightarrow> ordinals_kept (fst (decode_runtime_inventory parse_json raw s))"
    unfolding decode_runtime_inventory_def by (rule fold_kept)
qed

lemma decode_drm_kept: "ordinals_kept (fst s) \<Longrightarrow> ordinals_kept (fst (decode_drm parse_json raw s))"
proof -
  have "ordinals_kept (fst s) \<Longrightarrow> ordinals_kept (fst (drm_record parse_json r s))" for r s
    by (cases s) (auto simp: drm_record_def Let_def split: option.split)
  then show "ordinals_kept (fst s) \<Longrightarrow> ordinals_kept (fst (decode_drm parse_json raw s))"
    unfolding decode_drm_def by (rule fold_kept)
qed

text \<open>C18: whatever the five backends report and however their devices overlap, no two accelerators of the
  parsed inventory have the same ordinal.
\<close>

theorem accelerator_ordinals_unique:
  assumes "fst (parse_accelerator parse_json raw warnings) = Some accelerators"
    and "length (acc_devices accelerators) < 2 ^ 32"
  shows "distinct (map acc_id (acc_devices accelerators))"
proof -
  define devices where "devices = fst (decode_drm parse_json raw (decode_runtime_inventory parse_json raw
    (decode_mig_list raw (decode_nvidia_smi raw (decode_nvml parse_json raw ([], warnings))))))"
  have "ordinals_kept devices"
    unfolding devices_def
    by (intro decode_drm_kept decode_runtime_inventory_kept decode_mig_list_kept decode_nvidia_smi_kept decode_nvml_kept)
      (simp add: ordinals_kept_def unique_ordinals_def)
  then have "ordinals_kept (map (locate raw) devices)"
    by (simp add: ordinals_kept_map locate_def)
  moreover have "acc_devices accelerators = map (locate raw) devices"
    using assms(1) by (auto simp: parse_accelerator_def Let_def case_prod_unfold devices_def split: if_splits)
  ultimately show ?thesis using assms(2) by (simp add: ordinals_kept_def unique_ordinals_def)
qed

definition nvml_entry_of :: "string \<Rightarrow> json" where
  "nvml_entry_of uuid = Json_Object [(''index'', Json_Unsigned 0), (''uuid'', Json_String uuid)]"

definition same_index :: RawStore where
  "same_index = RawStore_default\<lparr>raw_records :=
     [\<lparr>rec_source = Nvml, rec_path_or_command = [], rec_payload = [], rec_status = Success,
       rec_collected_at = 0, rec_failure = None, rec_skip = None\<rparr>]\<rparr>"

definition same_index_json :: "string \<Rightarrow> json" where
  "same_index_json s = Json_Object [(''devices'', Json_Array [nvml_entry_of ''GPU-a'', nvml_entry_of ''GPU-b''])]"

lemma same_index_nvml:
  "map acc_id (fst (decode_nvml same_index_json same_index ([], []))) = [StrongId 0, StrongId 1]"
  by (simp add: decode_nvml_def same_index_def same_index_json_def RawStore_default_def get_all_def nvml_record_def
    device_entries_def nvml_entry_def nvml_device_def nvml_entry_of_def number_field_def json_text_def
    add_device_def same_device_def append_device_def next_id_def AcceleratorDevice_default_def string_field_def Let_def
    to_u32_def)

lemma same_index_parsed:
  "map_option (map acc_id \<circ> acc_devices) (fst (parse_accelerator same_index_json same_index [])) =
     Some [StrongId 0, StrongId 1]"
proof -
  have "decode_drm same_index_json same_index (decode_runtime_inventory same_index_json same_index
      (decode_mig_list same_index (decode_nvidia_smi same_index s))) = s" for s
    by (simp add: decode_drm_def decode_runtime_inventory_def decode_mig_list_def decode_nvidia_smi_def get_all_def
      same_index_def RawStore_default_def)
  moreover have "map acc_id (map (locate same_index) devices) = map acc_id devices" for devices
    by (simp add: locate_def)
  moreover have "fst (decode_nvml same_index_json same_index ([], [])) \<noteq> []" using same_index_nvml by auto
  ultimately show ?thesis
    using same_index_nvml by (simp add: parse_accelerator_def Let_def case_prod_unfold del: map_map)
qed

theorem accelerator_ordinals_unique_witness:
  "\<exists>accelerators. fst (parse_accelerator same_index_json same_index []) = Some accelerators \<and>
     map acc_id (acc_devices accelerators) = [StrongId 0, StrongId 1] \<and> distinct (map acc_id (acc_devices accelerators))"
proof -
  from same_index_parsed obtain accelerators where
    a: "fst (parse_accelerator same_index_json same_index []) = Some accelerators"
      "map acc_id (acc_devices accelerators) = [StrongId 0, StrongId 1]" by auto
  have "length (map acc_id (acc_devices accelerators)) = 2" unfolding a(2) by simp
  then have "length (acc_devices accelerators) < 2 ^ 32" by simp
  from accelerator_ordinals_unique [OF a(1) this] show ?thesis by (intro exI [of _ accelerators] conjI a)
qed

section \<open>The contract of the parser\<close>

definition accelerator_warning :: "string \<Rightarrow> bool" where
  "accelerator_warning w \<longleftrightarrow> prefix ''parse_accelerator: '' w"

lemmas accelerator_messages = accelerator_warning_def ordinal_range_def malformed_nvml_def malformed_drm_def
  uuid_conflict_def pci_conflict_def no_backend_def smi_columns_def smi_index_def smi_unit_def smi_memory_def
  smi_range_def smi_bus_def smi_prefix_def

lemma merge_existing_warnings: "list_all accelerator_warning (snd (merge_existing device devices))"
  by (induction devices) (simp_all add: Let_def case_prod_unfold accelerator_messages)

lemma add_device_logs: "logs accelerator_warning (add_device device)"
  by (rule logs_stage)
    (auto simp: add_device_def Let_def case_prod_unfold merge_existing_warnings accelerator_messages
      split: option.split)

lemma add_device_at:
  "add_device device (devices, ws) = (fst (add_device device (devices, [])), ws @ snd (add_device device (devices, [])))"
  "list_all accelerator_warning (snd (add_device device (devices, [])))"
  using logs_at [OF add_device_logs, of device devices ws] by simp_all

lemma add_warning_logs: "accelerator_warning w \<Longrightarrow> logs accelerator_warning (\<lambda>s. (fst s, snd s @ [w]))"
  by (rule logsI [where result = "\<lambda>a. a" and added = "\<lambda>_. [w]"]) simp_all

lemma decode_nvml_logs: "logs accelerator_warning (decode_nvml parse_json raw)"
proof -
  have entry: "logs accelerator_warning (nvml_entry children entry)" for children entry
    by (cases "nvml_device children entry")
      (simp_all add: nvml_entry_def [abs_def] logs_id add_device_logs)
  have "nvml_record parse_json r = (if rec_status r \<noteq> Success then \<lambda>s. s
      else case device_entries (parse_json (rec_payload r)) of None \<Rightarrow> (\<lambda>s. (fst s, snd s @ [malformed_nvml]))
      | Some es \<Rightarrow> (\<lambda>s. fold (nvml_entry True) es (fold (nvml_entry False) es s)))" for r
    by (rule ext) (simp add: nvml_record_def case_prod_unfold split: option.split)
  moreover have "logs accelerator_warning (\<lambda>s. fold (nvml_entry True) es (fold (nvml_entry False) es s))" for es
    using logs_comp [OF logs_fold [where f = "nvml_entry False", OF entry, of es]
      logs_fold [where f = "nvml_entry True", OF entry, of es]] .
  moreover have "logs accelerator_warning (\<lambda>s :: AccState. (fst s, snd s @ [malformed_nvml]))"
    by (rule add_warning_logs) (simp add: accelerator_messages)
  ultimately have "logs accelerator_warning (nvml_record parse_json r)" for r
    by (simp add: logs_id split: option.split)
  then show ?thesis unfolding decode_nvml_def by (rule logs_fold)
qed

lemma logs_unless: "logs own f \<Longrightarrow> logs own (\<lambda>s. if c then s else f s)"
  using logs_id by (cases c) simp_all

lemma smi_row_warnings: "list_all accelerator_warning (snd (parse_nvidia_smi_row line))"
proof -
  have "list_all accelerator_warning (snd (smi_multiplier parts))" for parts
    by (auto simp: smi_multiplier_def Let_def accelerator_messages split: option.split)
  then have "list_all accelerator_warning (snd (smi_memory_size field))" for field
    by (auto simp: smi_memory_size_def Let_def case_prod_unfold smi_memory_def smi_range_def smi_prefix_def
      accelerator_warning_def split: option.split)
  then show ?thesis
    by (auto simp: parse_nvidia_smi_row_def Let_def case_prod_unfold smi_columns_def smi_index_def smi_bus_def
      smi_prefix_def accelerator_warning_def split: option.split)
qed

lemma decode_nvidia_smi_logs: "logs accelerator_warning (decode_nvidia_smi raw)"
proof -
  have line: "logs accelerator_warning (smi_line line)" for line
  proof (rule logs_stage)
    fix devices ws
    show "smi_line line (devices, ws) = (fst (smi_line line (devices, [])), ws @ snd (smi_line line (devices, [])))"
      using add_device_at(1) [of _ devices "ws @ snd (parse_nvidia_smi_row line)"]
        add_device_at(1) [of _ devices "snd (parse_nvidia_smi_row line)"]
      by (auto simp: smi_line_def Let_def case_prod_unfold split: option.split)
    show "list_all accelerator_warning (snd (smi_line line (devices, [])))"
      using add_device_at(1) [of _ devices "snd (parse_nvidia_smi_row line)"]
      by (auto simp: smi_line_def Let_def case_prod_unfold smi_row_warnings add_device_at(2) split: option.split)
  qed
  have "logs accelerator_warning (smi_record r)" for r
    unfolding smi_record_def [abs_def] by (rule logs_unless [OF logs_fold [where f = smi_line, OF line]])
  then show ?thesis unfolding decode_nvidia_smi_def by (rule logs_fold)
qed

lemma decode_mig_list_logs: "logs accelerator_warning (decode_mig_list raw)"
proof -
  have line: "logs accelerator_warning (mig_line line)" for line
  proof (rule logs_stage)
    fix a :: "string option \<times> AcceleratorDevice list" and ws :: "string list"
    obtain parent devices where a: "a = (parent, devices)" by (cases a)
    show "mig_line line (a, ws) = (fst (mig_line line (a, [])), ws @ snd (mig_line line (a, [])))"
      using add_device_at(1) [of _ devices ws]
      by (auto simp: a mig_line_def Let_def case_prod_unfold split: option.split)
    show "list_all accelerator_warning (snd (mig_line line (a, [])))"
      using add_device_at(2) by (auto simp: a mig_line_def Let_def case_prod_unfold split: option.split)
  qed
  have "logs accelerator_warning (mig_record r)" for r
  proof (rule logs_stage)
    fix devices ws
    let ?f = "fold mig_line (split (rec_payload r) (CHR 0x0A))"
    note f = logs_at [OF logs_fold [where f = mig_line, OF line]]
    show "mig_record r (devices, ws) = (fst (mig_record r (devices, [])), ws @ snd (mig_record r (devices, [])))"
      using f [of "split (rec_payload r) (CHR 0x0A)" "(None, devices)" ws]
      by (auto simp: mig_record_def Let_def case_prod_unfold)
    show "list_all accelerator_warning (snd (mig_record r (devices, [])))"
      using f [of "split (rec_payload r) (CHR 0x0A)" "(None, devices)" "[]"]
      by (auto simp: mig_record_def Let_def case_prod_unfold)
  qed
  then show ?thesis unfolding decode_mig_list_def by (rule logs_fold)
qed

lemma decode_runtime_inventory_logs: "logs accelerator_warning (decode_runtime_inventory parse_json raw)"
proof -
  have entry: "logs accelerator_warning (runtime_entry vendor entry)" for vendor entry
  proof (rule logs_stage)
    fix devices ws
    show "runtime_entry vendor entry (devices, ws) =
        (fst (runtime_entry vendor entry (devices, [])), ws @ snd (runtime_entry vendor entry (devices, [])))"
      by (simp add: runtime_entry_def add_device_at(1) [of _ devices ws] split: option.split)
    show "list_all accelerator_warning (snd (runtime_entry vendor entry (devices, [])))"
      by (simp add: runtime_entry_def add_device_at(2) split: option.split)
  qed
  have "logs accelerator_warning (fold (runtime_entry vendor) es)" for vendor es
    by (rule logs_fold [where f = "runtime_entry vendor", OF entry])
  moreover have "runtime_record parse_json r = (let evidence = parse_json (rec_payload r);
      vendor = string_field evidence ''vendor'' [] in
      if rec_status r = Success \<and> device_entries evidence \<noteq> None \<and> vendor \<in> {''AMD'', ''Intel'', ''NVIDIA''}
      then fold (runtime_entry vendor) (the (device_entries evidence)) else (\<lambda>s. s))" for r
    by (intro ext) (simp add: runtime_record_def Let_def split: option.split)
  ultimately have "logs accelerator_warning (runtime_record parse_json r)" for r
    by (simp add: Let_def logs_id)
  then show ?thesis unfolding decode_runtime_inventory_def by (rule logs_fold)
qed

lemma decode_drm_logs: "logs accelerator_warning (decode_drm parse_json raw)"
proof -
  have "logs accelerator_warning (drm_record parse_json r)" for r
  proof (rule logs_stage)
    fix devices ws
    show "drm_record parse_json r (devices, ws) =
        (fst (drm_record parse_json r (devices, [])), ws @ snd (drm_record parse_json r (devices, [])))"
      by (simp add: drm_record_def Let_def add_device_at(1) [of _ devices ws] split: option.split)
    show "list_all accelerator_warning (snd (drm_record parse_json r (devices, [])))"
      using add_device_at(2)
      by (simp add: drm_record_def Let_def malformed_drm_def accelerator_warning_def split: option.split)
  qed
  then show ?thesis unfolding decode_drm_def by (rule logs_fold)
qed

interpretation accelerator_parser: domain_parser "parse_accelerator parse_json"
  "{Nvml, NvidiaSmi, NvidiaMigList, AcceleratorRuntime, SysfsDrm, SysfsPci}" "{}" accelerator_warning
  for parse_json
proof (rule domain_parserI, goal_cases)
  case (1 raw)
  let ?stages = "\<lambda>s. decode_drm parse_json raw (decode_runtime_inventory parse_json raw
      (decode_mig_list raw (decode_nvidia_smi raw (decode_nvml parse_json raw s))))"
  have "logs accelerator_warning ?stages"
    using logs_comp [OF logs_comp [OF logs_comp [OF logs_comp [OF decode_nvml_logs decode_nvidia_smi_logs]
      decode_mig_list_logs] decode_runtime_inventory_logs] decode_drm_logs] .
  note stages = logs_at [OF this, of "[]"]
  show ?case
  proof (rule logs_stage)
    fix a :: unit and ws :: "string list"
    show "(case (a, ws) of (_, ws) \<Rightarrow> parse_accelerator parse_json raw ws) =
        (fst (case (a, []) of (_, ws) \<Rightarrow> parse_accelerator parse_json raw ws),
         ws @ snd (case (a, []) of (_, ws) \<Rightarrow> parse_accelerator parse_json raw ws))"
      using stages [of ws] by (simp add: parse_accelerator_def Let_def case_prod_unfold)
    show "list_all accelerator_warning (snd (case (a, []) of (_, ws) \<Rightarrow> parse_accelerator parse_json raw ws))"
      using stages [of "[]"]
      by (simp add: parse_accelerator_def Let_def case_prod_unfold no_backend_def accelerator_warning_def)
  qed
next
  case (2 raw raw')
  then have same: "get_all raw s = get_all raw' s"
    if "s \<in> {Nvml, NvidiaSmi, NvidiaMigList, AcceleratorRuntime, SysfsDrm, SysfsPci}" for s using that by blast
  then have "find_numa_node_for_pci raw = find_numa_node_for_pci raw'"
    by (simp add: find_numa_node_for_pci_def [abs_def])
  then have "locate raw = locate raw'" by (intro ext) (simp add: locate_def)
  moreover have "has_success raw s = has_success raw' s" if "s \<in> {SysfsDrm, Nvml}" for s
    using same [of s] that has_success_get_all by auto
  ultimately show ?case
    by (simp add: parse_accelerator_def decode_nvml_def decode_nvidia_smi_def decode_mig_list_def
      decode_runtime_inventory_def decode_drm_def same)
qed

section \<open>What the enumerations and sizes mean\<close>

definition entry_identity :: "json \<Rightarrow> (PciAddress \<times> string) option" where
  "entry_identity entry =
     (if is_object entry then map_option (\<lambda>pci. (pci, string_field entry ''uuid_hex'' []))
        (parse_pci_address (string_field entry ''pci_bus_id'' [])) else None)"

lemma runtime_identities_map: "runtime_identities entries = Some ids \<longleftrightarrow> map entry_identity entries = map Some ids"
  by (induction entries arbitrary: ids)
    (auto simp: entry_identity_def Cons_eq_map_conv split: option.split)

lemma runtime_ids_matched:
  "runtime_ids vendor devices ids = Some visible \<Longrightarrow>
     list_all (\<lambda>i. list_ex (runtime_match vendor i) devices) ids \<and>
     set visible = acc_id ` {d \<in> set devices. list_ex (\<lambda>i. runtime_match vendor i d) ids}"
proof (induction ids arbitrary: visible)
  case Nil
  then show ?case by simp
next
  case (Cons i ids)
  then obtain rest where rest: "runtime_ids vendor devices ids = Some rest"
    "visible = map acc_id (filter (runtime_match vendor i) devices) @ rest"
    "filter (runtime_match vendor i) devices \<noteq> []"
    by (auto simp: Let_def split: if_splits)
  moreover have "{d \<in> set devices. runtime_match vendor i d \<or> list_ex (\<lambda>i. runtime_match vendor i d) ids} =
      {d \<in> set devices. runtime_match vendor i d} \<union> {d \<in> set devices. list_ex (\<lambda>i. runtime_match vendor i d) ids}"
    by blast
  ultimately show ?case using Cons.IH [OF rest(1)] by (simp add: image_Un filter_empty_conv list_ex_iff)
qed

text \<open>C33: an enumeration of a runtime is used only when it is complete: every entry names a PCI address
  and matches a device of the model, and the visible ids are exactly those of the matching devices.
\<close>

theorem runtime_visibility_exact:
  "pred_option (\<lambda>v. \<exists>ids.
       map_option (map entry_identity) (device_entries (parse_json (rec_payload r))) = Some (map Some ids) \<and>
       list_all (\<lambda>i. list_ex (runtime_match (rv_vendor v) i) (acc_devices devices)) ids \<and>
       set (rv_visible v) =
         acc_id ` {d \<in> set (acc_devices devices). list_ex (\<lambda>i. runtime_match (rv_vendor v) i d) ids})
     (runtime_visibility parse_json devices r)"
proof (cases "runtime_visibility parse_json devices r")
  case None
  then show ?thesis by simp
next
  case (Some v)
  then obtain entries ids where e: "device_entries (parse_json (rec_payload r)) = Some entries"
      "runtime_identities entries = Some ids"
      "runtime_ids (rv_vendor v) (acc_devices devices) ids = Some (rv_visible v)"
    by (auto simp: runtime_visibility_def Let_def split: if_splits option.splits)
  then show ?thesis using runtime_ids_matched [OF e(3)] by (simp add: Some runtime_identities_map exI [of _ ids])
qed

text \<open>
  the memory size of a row of \<open>nvidia-smi\<close> never wraps: it is the product of the number and the
  unit over the natural numbers, and there is none when the product does not fit in 64 bits.
\<close>

theorem smi_memory_exact:
  "fst (smi_memory_size field) =
     (let parts = split (trim field) (CHR '' ''); unit_size = unat (fst (smi_multiplier parts)) in
      case map_option unat (parse_uint (trim (hd parts))) of
        None \<Rightarrow> None
      | Some n \<Rightarrow> if n * unit_size < 2 ^ 64 then Some (ScalarUnit (word_of_nat (n * unit_size))) else None)"
proof -
  have pos: "unat (fst (smi_multiplier parts)) > 0" for parts
    by (simp add: smi_multiplier_def Let_def unit_multipliers_def split: option.split)
  have max: "unat (- 1 :: u64) = 2 ^ 64 - 1" by (simp only: unsigned_minus_1_eq_mask mask_eq_exp_minus_1) simp
  have "num \<le> (- 1) div fst (smi_multiplier parts) \<longleftrightarrow> unat num * unat (fst (smi_multiplier parts)) \<le> 2 ^ 64 - 1"
    for num :: u64 and parts
    by (simp only: word_le_nat_alt unat_div max less_eq_div_iff_mult_less_eq [OF pos])
  moreover have "n \<le> 2 ^ 64 - 1 \<longleftrightarrow> n < 2 ^ 64" for n :: nat
    using zero_less_power [of "2 :: nat" 64] by linarith
  ultimately have "num \<le> (- 1) div fst (smi_multiplier parts) \<longleftrightarrow>
      unat num * unat (fst (smi_multiplier parts)) < 2 ^ 64" for num :: u64 and parts
    by (simp only:)
  moreover have "word_of_nat (unat num * unat m) = num * m" for num m :: u64 by simp
  ultimately show ?thesis by (simp only: smi_memory_size_def Let_def case_prod_unfold) (simp split: option.split)
qed

end
