(* ===== verification/Platform_Parser.thy ===== *)
theory Platform_Parser
  imports Process_Model Parse_Utils Warnings
begin

text \<open>
  \<open>src/parser/platform.cpp\<close>: operating system, kernel, architecture, firmware, board, chassis, host
  name and virtualization. A table of member pointers becomes a function from the name of the file to
  the record with the member set.
\<close>

section \<open>Operating system and kernel\<close>

definition unquoted :: "string \<Rightarrow> string" where
  "unquoted v = (if length v \<ge> 2 \<and> hd v = CHR 0x22 \<and> last v = CHR 0x22 then take (length v - 2) (drop 1 v) else v)"

definition os_line :: "string \<Rightarrow> Os \<Rightarrow> Os" where
  "os_line line os =
     (let (key, v) = parse_kv line (CHR ''=''); v = unquoted v in
      if key = ''NAME'' then os\<lparr>os_name := v\<rparr>
      else if key = ''VERSION_ID'' then os\<lparr>os_version := v\<rparr>
      else if key = ''ID'' then os\<lparr>os_distribution := v\<rparr>
      else if key = ''VERSION_CODENAME'' then os\<lparr>os_codename := v\<rparr>
      else if key = ''VERSION'' then os\<lparr>os_distribution_version := v\<rparr>
      else os)"

definition parse_os_release :: "string \<Rightarrow> Os" where
  "parse_os_release payload = fold os_line (split payload (CHR 0x0A)) Os_default"

definition platform_message :: "string \<Rightarrow> string" where
  "platform_message m = ''parse_platform: '' @ m"

definition empty_version :: string where
  "empty_version = platform_message (''/proc/version '' @
     bytes [229, 134, 133, 229, 174, 185, 228, 184, 186, 231, 169, 186])"

definition malformed_version :: string where
  "malformed_version = platform_message (''/proc/version '' @
     bytes [230, 160, 188, 229, 188, 143, 229, 188, 130, 229, 184, 184, 239, 188, 140, 230, 151, 160, 230, 179, 149,
       230, 143, 144, 229, 143, 150, 229, 134, 133, 230, 160, 184, 229, 143, 145, 232, 161, 140, 229, 143, 183])"

definition parse_proc_version :: "string \<Rightarrow> Kernel \<times> string list" where
  "parse_proc_version payload =
     (let trimmed = trim payload in
      if trimmed = [] then (Kernel_default, [empty_version])
      else case split trimmed (CHR 0x0A) of
        [] \<Rightarrow> (Kernel_default, [malformed_version])
      | release # rest \<Rightarrow>
          (Kernel_default\<lparr>kernel_release := release,
             kernel_version := (case find_char (CHR ''-'') release of None \<Rightarrow> release | Some dash \<Rightarrow> take dash release),
             kernel_compiled_at := (case rest of [] \<Rightarrow> [] | line # _ \<Rightarrow> line)\<rparr>, []))"

definition infer_bits :: "string \<Rightarrow> u32" where
  "infer_bits name = (if contains_str name ''64'' then 64 else 32)"

section \<open>DMI\<close>

record DmiState =
  dmi_host :: Host
  dmi_firmware :: Firmware
  dmi_board :: Baseboard
  dmi_chassis :: Chassis
  dmi_has_firmware :: bool
  dmi_has_board :: bool
  dmi_has_chassis :: bool

definition dmi_bios :: "string \<Rightarrow> string \<Rightarrow> Firmware \<Rightarrow> Firmware option" where
  "dmi_bios name v fw =
     (if name = ''bios_vendor'' then Some (fw\<lparr>fw_bios_vendor := NamedString v\<rparr>)
      else if name = ''bios_version'' then Some (fw\<lparr>fw_bios_version := v\<rparr>)
      else if name = ''bios_date'' then Some (fw\<lparr>fw_bios_date := v\<rparr>)
      else if name = ''bios_release'' then Some (fw\<lparr>fw_bios_release := v\<rparr>)
      else if name = ''ec_firmware_release'' then Some (fw\<lparr>fw_ec_firmware_release := v\<rparr>)
      else None)"

definition dmi_system :: "string \<Rightarrow> string \<Rightarrow> Host \<Rightarrow> Host option" where
  "dmi_system name v host =
     (if name = ''sys_vendor'' then Some (host\<lparr>host_vendor := NamedString v\<rparr>)
      else if name = ''product_name'' then Some (host\<lparr>host_product_name := v\<rparr>)
      else if name = ''product_serial'' then Some (host\<lparr>host_serial := v\<rparr>)
      else if name = ''product_family'' then Some (host\<lparr>host_product_family := v\<rparr>)
      else if name = ''product_version'' then Some (host\<lparr>host_product_version := v\<rparr>)
      else if name = ''product_sku'' then Some (host\<lparr>host_product_sku := v\<rparr>)
      else if name = ''product_uuid'' then Some (host\<lparr>host_product_uuid := v\<rparr>)
      else None)"

definition dmi_baseboard :: "string \<Rightarrow> string \<Rightarrow> Baseboard \<Rightarrow> Baseboard option" where
  "dmi_baseboard name v board =
     (if name = ''board_vendor'' then Some (board\<lparr>board_vendor := NamedString v\<rparr>)
      else if name = ''board_name'' then Some (board\<lparr>board_name := v\<rparr>)
      else if name = ''board_version'' then Some (board\<lparr>board_version := v\<rparr>)
      else if name = ''board_serial'' then Some (board\<lparr>board_serial := v\<rparr>)
      else if name = ''board_asset_tag'' then Some (board\<lparr>board_asset_tag := v\<rparr>)
      else None)"

definition dmi_enclosure :: "string \<Rightarrow> string \<Rightarrow> Chassis \<Rightarrow> Chassis option" where
  "dmi_enclosure name v chassis =
     (if name = ''chassis_vendor'' then Some (chassis\<lparr>chassis_vendor := NamedString v\<rparr>)
      else if name = ''chassis_version'' then Some (chassis\<lparr>chassis_version := v\<rparr>)
      else if name = ''chassis_serial'' then Some (chassis\<lparr>chassis_serial := v\<rparr>)
      else if name = ''chassis_asset_tag'' then Some (chassis\<lparr>chassis_asset_tag := v\<rparr>)
      else None)"

text \<open>The table is searched in order; the names of its four parts are disjoint.\<close>

definition dmi_field :: "string \<Rightarrow> string \<Rightarrow> DmiState \<Rightarrow> DmiState" where
  "dmi_field name v s =
     (case dmi_bios name v (dmi_firmware s) of
        Some fw \<Rightarrow> s\<lparr>dmi_firmware := fw, dmi_has_firmware := True\<rparr>
      | None \<Rightarrow> (case dmi_system name v (dmi_host s) of
          Some host \<Rightarrow> s\<lparr>dmi_host := host\<rparr>
        | None \<Rightarrow> (case dmi_baseboard name v (dmi_board s) of
            Some board \<Rightarrow> s\<lparr>dmi_board := board, dmi_has_board := True\<rparr>
          | None \<Rightarrow> (case dmi_enclosure name v (dmi_chassis s) of
              Some chassis \<Rightarrow> s\<lparr>dmi_chassis := chassis, dmi_has_chassis := True\<rparr>
            | None \<Rightarrow> s))))"

definition chassis_kind :: "string \<Rightarrow> DmiState \<Rightarrow> DmiState" where
  "chassis_kind v s = (case parse_uint v of
      None \<Rightarrow> s
    | Some number \<Rightarrow>
        if number \<le> 255
        then s\<lparr>dmi_chassis := (dmi_chassis s)\<lparr>chassis_type := Some (to_u32 number)\<rparr>, dmi_has_chassis := True\<rparr>
        else s)"

definition dmi_record :: "RawRecord \<Rightarrow> DmiState \<Rightarrow> DmiState" where
  "dmi_record r s =
     (if rec_status r \<noteq> Success then s
      else if rec_path_or_command r = ''/sys/firmware/efi''
      then s\<lparr>dmi_firmware := (dmi_firmware s)\<lparr>fw_uefi := True\<rparr>, dmi_has_firmware := True\<rparr>
      else
        let name = extract_filename (rec_path_or_command r); v = hardware_text (rec_payload r) in
        if v = [] then s
        else if name = ''chassis_type'' then chassis_kind v s
        else dmi_field name v s)"

definition parse_dmi :: "RawStore \<Rightarrow> Platform \<Rightarrow> Platform" where
  "parse_dmi raw platform =
     (let s = fold dmi_record (get_all raw SysfsDmi)
        \<lparr>dmi_host = plat_host platform, dmi_firmware = Firmware_default, dmi_board = Baseboard_default,
         dmi_chassis = Chassis_default, dmi_has_firmware = False, dmi_has_board = False, dmi_has_chassis = False\<rparr>
      in platform\<lparr>plat_host := dmi_host s,
           plat_firmware := (if dmi_has_firmware s then Some (dmi_firmware s) else plat_firmware platform),
           plat_baseboard := (if dmi_has_board s then Some (dmi_board s) else plat_baseboard platform),
           plat_chassis := (if dmi_has_chassis s then Some (dmi_chassis s) else plat_chassis platform)\<rparr>)"

section \<open>Virtualization\<close>

definition icontains :: "string \<Rightarrow> string \<Rightarrow> bool" where
  "icontains haystack needle \<longleftrightarrow> contains_str (map to_lower haystack) (map to_lower needle)"

definition vendor_product_record :: "RawRecord \<Rightarrow> string \<times> string \<Rightarrow> string \<times> string" where
  "vendor_product_record r = (\<lambda>(vendor, product).
     if rec_status r \<noteq> Success then (vendor, product)
     else if contains_str (rec_path_or_command r) ''sys_vendor'' then (trim (rec_payload r), product)
     else if contains_str (rec_path_or_command r) ''product_name'' then (vendor, trim (rec_payload r))
     else (vendor, product))"

definition extract_dmi_vendor_product :: "RawStore \<Rightarrow> string \<times> string" where
  "extract_dmi_vendor_product raw = fold vendor_product_record (get_all raw SysfsDmi) ([], [])"

definition xen_type :: "RawStore \<Rightarrow> bool" where
  "xen_type raw \<longleftrightarrow>
     list_ex (\<lambda>r. rec_status r = Success \<and> trim (rec_payload r) = ''xen'') (get_all raw SysHypervisor)"

definition dmi_hypervisor :: "string \<Rightarrow> string \<Rightarrow> Virtualization option" where
  "dmi_hypervisor vendor product =
     (if icontains vendor ''VMware'' \<or> icontains product ''VMware''
      then Some \<lparr>virt_kind = Vmware, virt_hypervisor = ''VMware''\<rparr>
      else if icontains vendor ''Microsoft'' \<and> (icontains product ''Virtual'' \<or> icontains product ''Hyper-V'')
      then Some \<lparr>virt_kind = HyperV, virt_hypervisor = ''Hyper-V''\<rparr>
      else if icontains vendor ''KVM'' \<or> icontains product ''KVM''
      then Some \<lparr>virt_kind = Kvm, virt_hypervisor = ''KVM''\<rparr>
      else if icontains vendor ''QEMU'' \<or> icontains product ''QEMU'' \<or> icontains vendor ''Bochs'' \<or>
          icontains product ''Bochs''
      then Some \<lparr>virt_kind = Qemu, virt_hypervisor = ''QEMU''\<rparr>
      else if icontains vendor ''Xen'' \<or> icontains product ''Xen''
      then Some \<lparr>virt_kind = Xen, virt_hypervisor = ''Xen''\<rparr>
      else if icontains vendor ''innotek'' \<or> icontains product ''VirtualBox''
      then Some \<lparr>virt_kind = VirtualBox, virt_hypervisor = ''VirtualBox''\<rparr>
      else if icontains vendor ''Parallels'' \<or> icontains product ''Parallels''
      then Some \<lparr>virt_kind = Parallels, virt_hypervisor = ''Parallels''\<rparr>
      else None)"

definition hypervisor_line :: "string \<Rightarrow> bool" where
  "hypervisor_line line =
     (let (key, v) = parse_kv line (CHR '':'') in
      trim key = ''flags'' \<and> list_ex (\<lambda>f. trim f = ''hypervisor'') (split (map to_lower v) (CHR '' '')))"

definition hypervisor_flag :: "RawStore \<Rightarrow> bool" where
  "hypervisor_flag raw \<longleftrightarrow>
     list_ex (\<lambda>r. rec_status r = Success \<and> list_ex hypervisor_line (split (rec_payload r) (CHR 0x0A)))
       (get_all raw ProcCpuInfo)"

definition unknown_hypervisor :: string where
  "unknown_hypervisor =
     ''detect_virtualization: CPU hypervisor flag set but DMI/sysfs did not match known hypervisor''"

definition detect_virtualization :: "RawStore \<Rightarrow> Virtualization option \<times> string list" where
  "detect_virtualization raw =
     (if xen_type raw then (Some \<lparr>virt_kind = Xen, virt_hypervisor = ''Xen''\<rparr>, [])
      else let (vendor, product) = extract_dmi_vendor_product raw in
        case dmi_hypervisor vendor product of
          Some v \<Rightarrow> (Some v, [])
        | None \<Rightarrow>
            if hypervisor_flag raw
            then (Some \<lparr>virt_kind = Virt_Other, virt_hypervisor = ''Unknown''\<rparr>, [unknown_hypervisor])
            else (None, []))"

section \<open>The parser\<close>

definition missing_platform :: "string \<Rightarrow> string" where
  "missing_platform what =
     platform_message (bytes [231, 188, 186, 229, 176, 145] @ '' '' @ what @ '' '' @ bytes [230, 149, 176, 230, 141, 174])"

definition platform_os :: "RawStore \<Rightarrow> Os \<times> string list" where
  "platform_os raw = (case first_success raw EtcOsRelease of
      Some r \<Rightarrow> (parse_os_release (rec_payload r), [])
    | None \<Rightarrow> (Os_default, [missing_platform ''/etc/os-release'']))"

definition platform_kernel :: "RawStore \<Rightarrow> Kernel \<times> string list" where
  "platform_kernel raw = (case first_success raw ProcVersion of
      Some r \<Rightarrow> parse_proc_version (rec_payload r)
    | None \<Rightarrow> (Kernel_default, [missing_platform ''/proc/version'']))"

definition platform_architecture :: "RawStore \<Rightarrow> Platform \<Rightarrow> Platform \<times> string list" where
  "platform_architecture raw platform = (case first_success raw Uname of
      Some r \<Rightarrow>
        let name = trim (rec_payload r) in
        (platform\<lparr>plat_architecture := \<lparr>arch_name = name, arch_bits = infer_bits name, arch_byte_order = ''little''\<rparr>,
           plat_kernel := (plat_kernel platform)\<lparr>kernel_architecture := name\<rparr>\<rparr>, [])
    | None \<Rightarrow> (platform, [missing_platform ''uname'']))"

definition platform_hostname :: "RawStore \<Rightarrow> Platform \<Rightarrow> Platform \<times> string list" where
  "platform_hostname raw platform =
     (let platform = (case find (\<lambda>r. rec_status r = Success \<and> rec_payload r \<noteq> []) (get_all raw ProcHostname) of
         Some r \<Rightarrow> platform\<lparr>plat_host := (plat_host platform)\<lparr>host_hostname := trim (rec_payload r)\<rparr>\<rparr>
       | None \<Rightarrow> platform)
      in (platform, if host_hostname (plat_host platform) = [] then [missing_platform ''hostname''] else []))"

definition parse_platform :: "RawStore \<Rightarrow> string list \<Rightarrow> Platform option \<times> string list" where
  "parse_platform raw warnings =
     (let (os, os_warnings) = platform_os raw;
          (kernel, kernel_warnings) = platform_kernel raw;
          (platform, architecture_warnings) =
            platform_architecture raw (Platform_default\<lparr>plat_os := os, plat_kernel := kernel\<rparr>);
          platform = parse_dmi raw platform;
          (platform, host_warnings) = platform_hostname raw platform;
          (virtualization, virtualization_warnings) = detect_virtualization raw
      in (Some (platform\<lparr>plat_virtualization := virtualization\<rparr>),
          warnings @ os_warnings @ kernel_warnings @ architecture_warnings @ host_warnings @ virtualization_warnings))"

section \<open>The DMI values\<close>

text \<open>
  What the file of a name holds: the last readable record with a usable text decides. The fields of
  the records are those values, each under its own name, and a part is reported when one of its
  names has a value.
\<close>

definition dmi_text :: "string \<Rightarrow> RawRecord \<Rightarrow> string option" where
  "dmi_text name r =
     (if rec_status r = Success \<and> rec_path_or_command r \<noteq> ''/sys/firmware/efi'' \<and>
         extract_filename (rec_path_or_command r) = name \<and> hardware_text (rec_payload r) \<noteq> []
      then Some (hardware_text (rec_payload r)) else None)"

definition last_text :: "string \<Rightarrow> RawRecord list \<Rightarrow> string" where
  "last_text name rs = (case List.map_filter (dmi_text name) (rev rs) of [] \<Rightarrow> [] | v # _ \<Rightarrow> v)"

definition efi_record :: "RawRecord \<Rightarrow> bool" where
  "efi_record r \<longleftrightarrow> rec_status r = Success \<and> rec_path_or_command r = ''/sys/firmware/efi''"

definition chassis_number :: "RawRecord \<Rightarrow> u64 option" where
  "chassis_number r = Option.bind (dmi_text ''chassis_type'' r)
     (\<lambda>v. case parse_uint v of None \<Rightarrow> None | Some n \<Rightarrow> if n \<le> 255 then Some n else None)"

definition last_chassis :: "RawRecord list \<Rightarrow> u32 option" where
  "last_chassis rs = (case List.map_filter chassis_number (rev rs) of [] \<Rightarrow> None | n # _ \<Rightarrow> Some (to_u32 n))"

definition bios_names :: "string list" where
  "bios_names = [''bios_vendor'', ''bios_version'', ''bios_date'', ''bios_release'', ''ec_firmware_release'']"

definition board_names :: "string list" where
  "board_names = [''board_vendor'', ''board_name'', ''board_version'', ''board_serial'', ''board_asset_tag'']"

definition chassis_names :: "string list" where
  "chassis_names = [''chassis_vendor'', ''chassis_version'', ''chassis_serial'', ''chassis_asset_tag'']"

definition named :: "string list \<Rightarrow> RawRecord list \<Rightarrow> bool" where
  "named names rs \<longleftrightarrow> list_ex (\<lambda>name. last_text name rs \<noteq> []) names"

definition host_of :: "RawRecord list \<Rightarrow> Host" where
  "host_of rs = Host_default
     \<lparr>host_vendor := NamedString (last_text ''sys_vendor'' rs), host_product_name := last_text ''product_name'' rs,
      host_serial := last_text ''product_serial'' rs, host_product_family := last_text ''product_family'' rs,
      host_product_version := last_text ''product_version'' rs, host_product_sku := last_text ''product_sku'' rs,
      host_product_uuid := last_text ''product_uuid'' rs\<rparr>"

definition firmware_of :: "RawRecord list \<Rightarrow> Firmware" where
  "firmware_of rs =
     \<lparr>fw_bios_vendor = NamedString (last_text ''bios_vendor'' rs), fw_bios_version = last_text ''bios_version'' rs,
      fw_bios_date = last_text ''bios_date'' rs, fw_uefi = list_ex efi_record rs,
      fw_bios_release = last_text ''bios_release'' rs, fw_ec_firmware_release = last_text ''ec_firmware_release'' rs\<rparr>"

definition board_of :: "RawRecord list \<Rightarrow> Baseboard" where
  "board_of rs =
     \<lparr>board_vendor = NamedString (last_text ''board_vendor'' rs), board_name = last_text ''board_name'' rs,
      board_version = last_text ''board_version'' rs, board_serial = last_text ''board_serial'' rs,
      board_asset_tag = last_text ''board_asset_tag'' rs\<rparr>"

definition chassis_of :: "RawRecord list \<Rightarrow> Chassis" where
  "chassis_of rs =
     \<lparr>chassis_vendor = NamedString (last_text ''chassis_vendor'' rs), chassis_type = last_chassis rs,
      chassis_version = last_text ''chassis_version'' rs, chassis_serial = last_text ''chassis_serial'' rs,
      chassis_asset_tag = last_text ''chassis_asset_tag'' rs\<rparr>"

definition dmi_of :: "RawRecord list \<Rightarrow> DmiState" where
  "dmi_of rs =
     \<lparr>dmi_host = host_of rs, dmi_firmware = firmware_of rs, dmi_board = board_of rs, dmi_chassis = chassis_of rs,
      dmi_has_firmware = (list_ex efi_record rs \<or> named bios_names rs), dmi_has_board = named board_names rs,
      dmi_has_chassis = (last_chassis rs \<noteq> None \<or> named chassis_names rs)\<rparr>"

lemma last_text_snoc: "last_text name (rs @ [r]) = (case dmi_text name r of None \<Rightarrow> last_text name rs | Some v \<Rightarrow> v)"
  by (simp add: last_text_def List.map_filter_simps split: option.split)

lemma last_chassis_snoc:
  "last_chassis (rs @ [r]) = (case chassis_number r of None \<Rightarrow> last_chassis rs | Some n \<Rightarrow> Some (to_u32 n))"
  by (simp add: last_chassis_def List.map_filter_simps split: option.split)

lemma dmi_skipped:
  assumes "\<And>name. dmi_text name r = None" "\<not> efi_record r"
  shows "dmi_of (rs @ [r]) = dmi_of rs"
  using assms
  by (simp add: dmi_of_def host_of_def firmware_of_def board_of_def chassis_of_def last_text_snoc last_chassis_snoc
    named_def chassis_number_def)

lemma dmi_text_at:
  "rec_status r = Success \<Longrightarrow> rec_path_or_command r \<noteq> ''/sys/firmware/efi'' \<Longrightarrow> hardware_text (rec_payload r) = v \<Longrightarrow>
   v \<noteq> [] \<Longrightarrow> dmi_text name r = (if extract_filename (rec_path_or_command r) = name then Some v else None)"
  by (simp add: dmi_text_def)

definition system_names :: "string list" where
  "system_names = [''sys_vendor'', ''product_name'', ''product_serial'', ''product_family'', ''product_version'',
     ''product_sku'', ''product_uuid'']"

lemma dmi_part_None_iff:
  "dmi_bios name v fw = None \<longleftrightarrow> name \<notin> set bios_names"
  "dmi_system name v host = None \<longleftrightarrow> name \<notin> set system_names"
  "dmi_baseboard name v board = None \<longleftrightarrow> name \<notin> set board_names"
  "dmi_enclosure name v chassis = None \<longleftrightarrow> name \<notin> set chassis_names"
  by (simp_all add: dmi_bios_def dmi_system_def dmi_baseboard_def dmi_enclosure_def bios_names_def system_names_def
    board_names_def chassis_names_def)

definition one_text :: "RawRecord \<Rightarrow> string \<Rightarrow> string \<Rightarrow> bool" where
  "one_text r name v \<longleftrightarrow> (\<forall>n. dmi_text n r = (if n = name then Some v else None)) \<and> v \<noteq> [] \<and> \<not> efi_record r \<and>
     name \<noteq> ''chassis_type''"

lemma one_text_simps:
  assumes "one_text r name v"
  shows "dmi_text n r = (if n = name then Some v else None)" "v \<noteq> []" "\<not> efi_record r" "chassis_number r = None"
  using assms by (auto simp: one_text_def chassis_number_def)

lemma firmware_snoc:
  assumes "one_text r name v"
  shows "firmware_of (rs @ [r]) = (case dmi_bios name v (firmware_of rs) of None \<Rightarrow> firmware_of rs | Some fw \<Rightarrow> fw)"
  using one_text_simps [OF assms] by (auto simp: firmware_of_def last_text_snoc dmi_bios_def)

lemma host_snoc:
  assumes "one_text r name v"
  shows "host_of (rs @ [r]) = (case dmi_system name v (host_of rs) of None \<Rightarrow> host_of rs | Some host \<Rightarrow> host)"
  using one_text_simps [OF assms] by (auto simp: host_of_def last_text_snoc dmi_system_def)

lemma board_snoc:
  assumes "one_text r name v"
  shows "board_of (rs @ [r]) = (case dmi_baseboard name v (board_of rs) of None \<Rightarrow> board_of rs | Some board \<Rightarrow> board)"
  using one_text_simps [OF assms] by (auto simp: board_of_def last_text_snoc dmi_baseboard_def)

lemma chassis_snoc:
  assumes "one_text r name v"
  shows "chassis_of (rs @ [r]) = (case dmi_enclosure name v (chassis_of rs) of None \<Rightarrow> chassis_of rs | Some chassis \<Rightarrow> chassis)"
  using one_text_simps [OF assms] by (auto simp: chassis_of_def last_text_snoc dmi_enclosure_def last_chassis_snoc)

lemma named_snoc:
  assumes "one_text r name v"
  shows "named names (rs @ [r]) \<longleftrightarrow> name \<in> set names \<or> named names rs"
  using one_text_simps [OF assms] by (auto simp: named_def list_ex_iff last_text_snoc)

lemmas dmi_part_None = dmi_part_None_iff [THEN iffD2]

lemma dmi_names_disjoint:
  "name \<in> set bios_names \<Longrightarrow> name \<notin> set system_names \<and> name \<notin> set board_names \<and> name \<notin> set chassis_names"
  "name \<in> set system_names \<Longrightarrow> name \<notin> set board_names \<and> name \<notin> set chassis_names"
  "name \<in> set board_names \<Longrightarrow> name \<notin> set chassis_names"
  by (auto simp: bios_names_def system_names_def board_names_def chassis_names_def)

lemma dmi_of_field:
  assumes "one_text r name v"
  shows "dmi_of (rs @ [r]) = dmi_field name v (dmi_of rs)"
proof -
  note parts = dmi_of_def firmware_snoc [OF assms] host_snoc [OF assms] board_snoc [OF assms] chassis_snoc [OF assms]
    named_snoc [OF assms] last_chassis_snoc one_text_simps [OF assms] dmi_field_def
  consider "name \<in> set bios_names" | "name \<in> set system_names" | "name \<in> set board_names"
    | "name \<in> set chassis_names" "name \<notin> set bios_names \<union> set system_names \<union> set board_names"
    | "name \<notin> set bios_names \<union> set system_names \<union> set board_names \<union> set chassis_names" by blast
  then show ?thesis
  proof cases
    case 1
    then obtain fw where "dmi_bios name v (firmware_of rs) = Some fw"
      using dmi_part_None_iff(1) [of name v "firmware_of rs"] by auto
    with 1 dmi_names_disjoint(1) [OF 1] show ?thesis by (simp add: parts dmi_part_None)
  next
    case 2
    then obtain host where "dmi_system name v (host_of rs) = Some host"
      using dmi_part_None_iff(2) [of name v "host_of rs"] by auto
    moreover have "name \<notin> set bios_names" using 2 dmi_names_disjoint(1) by blast
    ultimately show ?thesis using 2 dmi_names_disjoint(2) [OF 2] by (simp add: parts dmi_part_None)
  next
    case 3
    then obtain board where "dmi_baseboard name v (board_of rs) = Some board"
      using dmi_part_None_iff(3) [of name v "board_of rs"] by auto
    moreover have "name \<notin> set bios_names" "name \<notin> set system_names"
      using 3 dmi_names_disjoint(1,2) by blast+
    ultimately show ?thesis using 3 dmi_names_disjoint(3) [OF 3] by (simp add: parts dmi_part_None)
  next
    case 4
    then obtain chassis where "dmi_enclosure name v (chassis_of rs) = Some chassis"
      using dmi_part_None_iff(4) [of name v "chassis_of rs"] by auto
    with 4 show ?thesis by (simp add: parts dmi_part_None)
  next
    case 5
    then show ?thesis by (simp add: parts dmi_part_None)
  qed
qed

lemma dmi_of_record: "dmi_of (rs @ [r]) = dmi_record r (dmi_of rs)"
proof -
  define v where "v = hardware_text (rec_payload r)"
  define name where "name = extract_filename (rec_path_or_command r)"
  consider "rec_status r \<noteq> Success" | "efi_record r"
    | "rec_status r = Success" "rec_path_or_command r \<noteq> ''/sys/firmware/efi''" "v = []"
    | "rec_status r = Success" "rec_path_or_command r \<noteq> ''/sys/firmware/efi''" "v \<noteq> []" "name = ''chassis_type''"
    | "rec_status r = Success" "rec_path_or_command r \<noteq> ''/sys/firmware/efi''" "v \<noteq> []" "name \<noteq> ''chassis_type''"
    by (auto simp: efi_record_def)
  then show ?thesis
  proof cases
    case 1
    then show ?thesis using dmi_skipped [of r rs] by (simp add: dmi_text_def efi_record_def dmi_record_def)
  next
    case 2
    then have none: "dmi_text n r = None" for n by (simp add: dmi_text_def efi_record_def)
    have "dmi_record r s = s\<lparr>dmi_firmware := (dmi_firmware s)\<lparr>fw_uefi := True\<rparr>, dmi_has_firmware := True\<rparr>" for s
      using 2 by (simp add: dmi_record_def efi_record_def)
    then show ?thesis
      using 2 by (simp add: dmi_of_def host_of_def firmware_of_def board_of_def chassis_of_def last_text_snoc
        last_chassis_snoc chassis_number_def none named_def)
  next
    case 3
    then have "dmi_record r s = s" for s by (simp add: dmi_record_def v_def)
    with 3 show ?thesis using dmi_skipped [of r rs] by (simp add: dmi_text_def efi_record_def v_def)
  next
    case 4
    have only: "dmi_text n r = (if n = ''chassis_type'' then Some v else None)" for n
      using 4 by (auto simp: dmi_text_def v_def name_def)
    have same: "last_text n (rs @ [r]) = last_text n rs" if "n \<noteq> ''chassis_type''" for n
      using that by (simp add: last_text_snoc only)
    have "named names (rs @ [r]) = named names rs" if "''chassis_type'' \<notin> set names" for names
    proof -
      have "n \<noteq> ''chassis_type''" if "n \<in> set names" for n using that \<open>''chassis_type'' \<notin> set names\<close> by metis
      then show ?thesis unfolding named_def list_ex_iff by (intro bex_cong refl) (metis same)
    qed
    moreover have "dmi_record r s = chassis_kind v s" for s
      using 4 by (simp add: dmi_record_def flip: v_def name_def)
    ultimately show ?thesis
      using 4 by (simp add: dmi_of_def host_of_def firmware_of_def board_of_def chassis_of_def same
        last_chassis_snoc chassis_number_def only chassis_kind_def efi_record_def bios_names_def board_names_def
        chassis_names_def split: option.split)
  next
    case 5
    have "one_text r name v" using 5 by (auto simp: one_text_def dmi_text_def efi_record_def v_def name_def)
    moreover have "dmi_record r s = dmi_field name v s" for s
      using 5 by (simp add: dmi_record_def flip: v_def name_def)
    ultimately show ?thesis using dmi_of_field by simp
  qed
qed

lemma dmi_fold: "fold dmi_record rs (dmi_of []) = dmi_of rs"
  by (induction rs rule: rev_induct) (simp_all add: dmi_of_record)

lemma dmi_of_Nil: "dmi_of [] =
    \<lparr>dmi_host = Host_default, dmi_firmware = Firmware_default, dmi_board = Baseboard_default,
     dmi_chassis = Chassis_default, dmi_has_firmware = False, dmi_has_board = False, dmi_has_chassis = False\<rparr>"
  by (simp add: dmi_of_def host_of_def firmware_of_def board_of_def chassis_of_def named_def last_text_def
    last_chassis_def List.map_filter_simps Host_default_def Firmware_default_def Baseboard_default_def
    Chassis_default_def list_ex_iff)

text \<open>C34: the firmware, board, chassis and product data of the platform are those of DMI, field for field:
  a field has the text of the last readable file of its name and of no other, whatever order the
  files are in, and a part is reported exactly when one of its files has something to say.
\<close>

theorem parse_dmi_exact:
  "parse_dmi raw (platform\<lparr>plat_host := Host_default\<rparr>) = (let rs = get_all raw SysfsDmi in platform
     \<lparr>plat_host := host_of rs,
      plat_firmware := (if list_ex efi_record rs \<or> named bios_names rs then Some (firmware_of rs) else plat_firmware platform),
      plat_baseboard := (if named board_names rs then Some (board_of rs) else plat_baseboard platform),
      plat_chassis := (if last_chassis rs = None \<and> \<not> named chassis_names rs then plat_chassis platform
        else Some (chassis_of rs))\<rparr>)"
proof -
  have "fold dmi_record (get_all raw SysfsDmi)
      \<lparr>dmi_host = Host_default, dmi_firmware = Firmware_default, dmi_board = Baseboard_default,
       dmi_chassis = Chassis_default, dmi_has_firmware = False, dmi_has_board = False, dmi_has_chassis = False\<rparr> =
      dmi_of (get_all raw SysfsDmi)"
    by (simp only: dmi_fold flip: dmi_of_Nil)
  then show ?thesis
    unfolding parse_dmi_def by (simp add: dmi_of_def Let_def del: not_None_eq)
qed

section \<open>The contract of the parser\<close>

definition platform_warning :: "string \<Rightarrow> bool" where
  "platform_warning w \<longleftrightarrow> w \<in> {empty_version, malformed_version, unknown_hypervisor} \<or> w \<in> range missing_platform"

lemma platform_warnings:
  "list_all platform_warning (snd (platform_os raw))"
  "list_all platform_warning (snd (platform_kernel raw))"
  "list_all platform_warning (snd (platform_architecture raw platform))"
  "list_all platform_warning (snd (platform_hostname raw platform))"
  "list_all platform_warning (snd (detect_virtualization raw))"
  by (simp_all add: platform_os_def platform_kernel_def parse_proc_version_def platform_architecture_def
    platform_hostname_def detect_virtualization_def Let_def case_prod_unfold platform_warning_def
    split: option.split list.split)

lemma parse_platform_logs: "logs platform_warning (\<lambda>(_ :: unit, ws). parse_platform raw ws)"
  by (rule logs_stage) (simp_all add: parse_platform_def Let_def case_prod_unfold platform_warnings)

lemma platform_evidence:
  assumes "\<And>s. s \<in> {EtcOsRelease, ProcVersion, Uname, SysfsDmi, ProcHostname, SysHypervisor, ProcCpuInfo} \<Longrightarrow>
    get_all raw s = get_all raw' s"
  shows "parse_platform raw [] = parse_platform raw' []"
proof -
  have "detect_virtualization raw = detect_virtualization raw'" "parse_dmi raw = parse_dmi raw'"
    "platform_os raw = platform_os raw'" "platform_kernel raw = platform_kernel raw'"
    "platform_architecture raw = platform_architecture raw'" "platform_hostname raw = platform_hostname raw'"
    by (simp_all add: fun_eq_iff detect_virtualization_def xen_type_def extract_dmi_vendor_product_def
      hypervisor_flag_def parse_dmi_def platform_os_def platform_kernel_def platform_architecture_def
      platform_hostname_def first_success_def assms)
  then show ?thesis by (simp add: parse_platform_def)
qed

interpretation platform_parser: domain_parser parse_platform
  "{EtcOsRelease, ProcVersion, Uname, SysfsDmi, ProcHostname, SysHypervisor, ProcCpuInfo}" "{}" platform_warning
  by (rule domain_parserI) (rule parse_platform_logs, rule platform_evidence)

end
