(* ===== verification/Software_Parser.thy ===== *)
theory Software_Parser
  imports Json Process_Model Warnings
begin

text \<open>
  \<open>src/parser/software.cpp\<close>: drivers, runtimes, compilers and libraries from the output of the tools
  that report them. The parse of a JSON text is an argument. The scan for a version number in
  \<open>runtime_version\<close> jumps over the number it rejects; it is a recursion on the rest of the text.
\<close>

section \<open>Versions in the output of tools\<close>

definition driver_columns :: "string \<Rightarrow> string option" where
  "driver_columns line =
     (let columns = split (trim line) (CHR '','') in
      if trim line \<noteq> [] \<and> length columns \<ge> 5 \<and> trim (columns ! 4) \<noteq> [] then Some (trim (columns ! 4)) else None)"

fun first_of :: "('a \<Rightarrow> 'b option) \<Rightarrow> 'a list \<Rightarrow> 'b option" where
  "first_of f [] = None"
| "first_of f (x # xs) = (case f x of Some y \<Rightarrow> Some y | None \<Rightarrow> first_of f xs)"

definition extract_nvidia_driver_version :: "string \<Rightarrow> string option" where
  "extract_nvidia_driver_version payload = first_of driver_columns (split payload (CHR 0x0A))"

definition release_of :: "string \<Rightarrow> string option" where
  "release_of line = (case find_str ''release '' (trim line) of
      None \<Rightarrow> None
    | Some pos \<Rightarrow>
        let rest = drop (pos + 8) (trim line) in
        (case find_char (CHR '','') rest of
           None \<Rightarrow> None
         | Some comma \<Rightarrow> if trim (take comma rest) = [] then None else Some (trim (take comma rest))))"

definition extract_cuda_version :: "string \<Rightarrow> string option" where
  "extract_cuda_version payload = first_of release_of (split payload (CHR 0x0A))"

definition three_numbers :: "string \<Rightarrow> bool" where
  "three_numbers t \<longleftrightarrow>
     length (split t (CHR ''.'')) = 3 \<and> list_all (\<lambda>part. part \<noteq> [] \<and> list_all is_digit part) (split t (CHR ''.''))"

definition extract_compiler_version :: "string \<Rightarrow> string option" where
  "extract_compiler_version payload = (case split payload (CHR 0x0A) of
      [] \<Rightarrow> None
    | line # _ \<Rightarrow> find (\<lambda>t. t \<noteq> [] \<and> three_numbers t) (map trim (split (trim line) (CHR '' ''))))"

definition version_char :: "char \<Rightarrow> bool" where
  "version_char c \<longleftrightarrow> is_digit c \<or> c = CHR ''.''"

function runtime_version :: "string \<Rightarrow> string option" where
  "runtime_version [] = None"
| "runtime_version (c # s) =
     (if \<not> is_digit c then runtime_version s
      else
        let version = takeWhile version_char (c # s); rest = dropWhile version_char (c # s) in
        if CHR ''.'' \<in> set version \<and> last version \<noteq> CHR ''.'' then Some version
        else runtime_version (drop 1 rest))"
  by pat_completeness auto

termination
proof (relation "measure length", goal_cases)
  case (3 c s version rest)
  have "length (dropWhile version_char s) \<le> length s" by (rule length_dropWhile_le)
  then have "length (dropWhile version_char s) - Suc 0 \<le> length s" by simp
  with 3 show ?case by (simp add: version_char_def less_Suc_eq_le)
qed simp_all

definition extract_mpi_info :: "string \<Rightarrow> (string \<times> string) option" where
  "extract_mpi_info payload = (case split payload (CHR 0x0A) of
      [] \<Rightarrow> None
    | line # _ \<Rightarrow>
        let line = trim line in
        if line = [] then None
        else
          let implementation = (case (find_char (CHR ''('') line, find_char (CHR '')'') line) of
                (Some opening, Some closing) \<Rightarrow>
                  if closing > opening then trim (take (closing - opening - 1) (drop (opening + 1) line)) else []
              | _ \<Rightarrow> []);
              version = (case rfind_char (CHR '' '') line of None \<Rightarrow> line | Some space \<Rightarrow> drop (space + 1) line)
          in if implementation = [] \<or> version = [] then None else Some (implementation, version))"

definition derive_cuda_home :: "string \<Rightarrow> string" where
  "derive_cuda_home nvcc = (case rfind_char (CHR ''/'') nvcc of
      None \<Rightarrow> nvcc
    | Some parent \<Rightarrow> (case rfind_char (CHR ''/'') (take parent nvcc) of
        None \<Rightarrow> take parent nvcc
      | Some grandparent \<Rightarrow> take grandparent nvcc))"

definition first_matching :: "RawStore \<Rightarrow> RawSource \<Rightarrow> string \<Rightarrow> RawRecord option" where
  "first_matching raw source part =
     find (\<lambda>r. rec_status r = Success \<and> contains_str (rec_path_or_command r) part) (get_all raw source)"

definition first_success_cmd :: "RawStore \<Rightarrow> RawSource \<Rightarrow> string \<Rightarrow> RawRecord option" where
  "first_success_cmd raw source cmd =
     find (\<lambda>r. rec_status r = Success \<and> rec_path_or_command r = cmd) (get_all raw source)"

definition output_or_empty :: "RawRecord option \<Rightarrow> string" where
  "output_or_empty r = (case r of None \<Rightarrow> [] | Some r \<Rightarrow> trim (rec_payload r))"

section \<open>NVIDIA driver and CUDA version\<close>

definition software_message :: "string \<Rightarrow> string" where
  "software_message m = ''parse_software: '' @ m"

definition no_driver :: string where
  "no_driver = software_message (''nvidia-smi '' @ bytes [232, 190, 147, 229, 135, 186, 228, 184, 173, 230, 156, 170,
     230, 137, 190, 229, 136, 176] @ '' Driver Version'')"

definition no_release :: string where
  "no_release = software_message (''nvcc --version '' @ bytes [232, 190, 147, 229, 135, 186, 228, 184, 173, 230, 156,
     170, 230, 137, 190, 229, 136, 176] @ '' release '' @ bytes [231, 137, 136, 230, 156, 172])"

definition no_software :: string where
  "no_software = software_message (bytes [230, 151, 160] @ '' nvidia-smi/nvcc/'' @
     bytes [231, 188, 150, 232, 175, 145, 229, 153, 168] @ ''/MPI/RDMA '' @ bytes [230, 149, 176, 230, 141, 174])"

definition nvml_driver :: "(string \<Rightarrow> json) \<Rightarrow> RawRecord \<Rightarrow> string option \<Rightarrow> string option" where
  "nvml_driver parse_json r version =
     (if rec_status r \<noteq> Success then version
      else let evidence = parse_json (rec_payload r) in
        if is_object evidence \<and> json_text evidence ''driver_version'' \<noteq> None
        then json_text evidence ''driver_version'' else version)"

definition driver_version :: "(string \<Rightarrow> json) \<Rightarrow> RawStore \<Rightarrow> string option \<times> string list" where
  "driver_version parse_json raw =
     (let (version, warnings) = (case first_success raw NvidiaSmi of
            None \<Rightarrow> (None, [])
          | Some r \<Rightarrow> (case extract_nvidia_driver_version (rec_payload r) of
              None \<Rightarrow> (None, [no_driver])
            | Some v \<Rightarrow> (Some v, [])))
      in (if version = None then fold (nvml_driver parse_json) (get_all raw Nvml) None else version, warnings))"

definition toolkit_version :: "RawStore \<Rightarrow> string option \<times> string list" where
  "toolkit_version raw = (case first_success raw Nvcc of
      None \<Rightarrow> (None, [])
    | Some r \<Rightarrow> (case extract_cuda_version (rec_payload r) of
        None \<Rightarrow> (None, [no_release])
      | Some v \<Rightarrow> (Some v, [])))"

section \<open>Accelerator software and libraries\<close>

definition hipconfig :: "RawStore \<Rightarrow> RawRecord option" where
  "hipconfig raw = first_success_cmd raw RocmVersion ''command -v hipconfig''"

definition rocm_of_record :: "RawStore \<Rightarrow> RawRecord \<Rightarrow> Rocm option" where
  "rocm_of_record raw r =
     (if rec_status r \<noteq> Success \<or> prefix ''command -v'' (rec_path_or_command r) \<or> \<not> prefix ''/'' (rec_path_or_command r)
      then None
      else case runtime_version (rec_payload r) of
        None \<Rightarrow> None
      | Some version \<Rightarrow> Some
          \<lparr>rocm_version = version, rocm_hip_path = output_or_empty (hipconfig raw),
           rocm_rocm_path = (if prefix ''/opt/rocm/'' (rec_path_or_command r) then ''/opt/rocm'' else [])\<rparr>)"

definition known_libraries :: "(string \<times> string) list" where
  "known_libraries = [(''level-zero'', ''GPU''), (''ze_loader'', ''GPU''), (''OpenCL'', ''GPU''), (''openblas'', ''BLAS''),
     (''blas'', ''BLAS''), (''lapack'', ''LAPACK''), (''fftw3'', ''FFT''), (''libfabric'', ''Network''), (''hwloc'', ''Topology'')]"

definition library_of :: "RawStore \<Rightarrow> string \<times> string \<Rightarrow> Library option" where
  "library_of raw = (\<lambda>(name, kind).
     case first_success_cmd raw PackageLibrary (''pkg-config --modversion '' @ name) of
       None \<Rightarrow> None
     | Some version \<Rightarrow> Some
         \<lparr>lib_name = name, lib_version = trim (rec_payload version),
          lib_path = output_or_empty (first_success_cmd raw PackageLibrary (''pkg-config --variable=libdir '' @ name)),
          lib_kind = kind\<rparr>)"

definition loader_of :: "Library \<Rightarrow> LevelZero" where
  "loader_of library =
     \<lparr>lz_version = lib_version library,
      lz_loader_path = (if lib_path library = [] then [] else lib_path library @ ''/libze_loader.so.1'')\<rparr>"

definition add_library :: "RawStore \<Rightarrow> string \<times> string \<Rightarrow> SoftwareStack \<Rightarrow> SoftwareStack" where
  "add_library raw entry stack = (case library_of raw entry of
      None \<Rightarrow> stack
    | Some library \<Rightarrow> stack
        \<lparr>sw_level_zero := (if lib_name library \<in> {''level-zero'', ''ze_loader''} then Some (loader_of library)
           else sw_level_zero stack),
         sw_libraries := sw_libraries stack @ [library]\<rparr>)"

definition level_zero_runtime :: "SoftwareStack \<Rightarrow> SoftwareStack" where
  "level_zero_runtime stack = (case sw_level_zero stack of
      None \<Rightarrow> stack
    | Some lz \<Rightarrow> stack\<lparr>sw_runtimes := sw_runtimes stack @
        [\<lparr>rt_name = ''level-zero'', rt_version = lz_version lz, rt_path = lz_loader_path lz,
          rt_env_var = ''ZE_AFFINITY_MASK''\<rparr>]\<rparr>)"

definition rocm_or_new :: "SoftwareStack \<Rightarrow> Rocm" where
  "rocm_or_new stack = (case sw_rocm stack of None \<Rightarrow> Rocm_default | Some rocm \<Rightarrow> rocm)"

definition hip_runtime :: "RawStore \<Rightarrow> SoftwareStack \<Rightarrow> SoftwareStack" where
  "hip_runtime raw stack = (case first_success_cmd raw RocmVersion ''hipconfig --version'' of
      None \<Rightarrow> stack
    | Some hip \<Rightarrow> (case runtime_version (rec_payload hip) of
        None \<Rightarrow> stack
      | Some version \<Rightarrow>
          let rocm = rocm_or_new stack;
              rocm = (case hipconfig raw of None \<Rightarrow> rocm | Some path \<Rightarrow> rocm\<lparr>rocm_hip_path := trim (rec_payload path)\<rparr>)
          in stack\<lparr>sw_rocm := Some rocm, sw_runtimes := sw_runtimes stack @
            [\<lparr>rt_name = ''hip'', rt_version = version, rt_path = rocm_hip_path rocm, rt_env_var = ''HIP_PATH''\<rparr>]\<rparr>))"

definition hip_evidence :: "json \<Rightarrow> SoftwareStack \<Rightarrow> SoftwareStack" where
  "hip_evidence entry stack = (case json_text entry ''runtime_version'' of
      None \<Rightarrow> stack
    | Some version \<Rightarrow> stack
        \<lparr>sw_rocm := Some (rocm_or_new stack),
         sw_runtimes := sw_runtimes stack @
           (if list_ex (\<lambda>runtime. rt_name runtime = ''hip'') (sw_runtimes stack) then []
            else [\<lparr>rt_name = ''hip'', rt_version = version, rt_path = ''libamdhip64.so'', rt_env_var = ''HIP_PATH''\<rparr>])\<rparr>)"

definition level_zero_evidence :: "json \<Rightarrow> SoftwareStack \<Rightarrow> SoftwareStack" where
  "level_zero_evidence entry stack = (case json_text entry ''api_version'' of
      None \<Rightarrow> stack
    | Some version \<Rightarrow> stack
        \<lparr>sw_level_zero := Some (case sw_level_zero stack of
             None \<Rightarrow> \<lparr>lz_version = [], lz_loader_path = ''libze_loader.so.1''\<rparr>
           | Some lz \<Rightarrow> lz),
         sw_runtimes := sw_runtimes stack @
           [\<lparr>rt_name = ''level-zero API'', rt_version = version, rt_path = ''libze_loader.so.1'',
             rt_env_var = ''ZE_AFFINITY_MASK''\<rparr>]\<rparr>)"

definition runtime_evidence :: "(string \<Rightarrow> json) \<Rightarrow> RawRecord \<Rightarrow> SoftwareStack \<Rightarrow> SoftwareStack" where
  "runtime_evidence parse_json r stack =
     (let entry = parse_json (rec_payload r) in
      if rec_status r \<noteq> Success \<or> \<not> is_object entry then stack
      else if rec_path_or_command r = ''HIP'' then hip_evidence entry stack
      else if rec_path_or_command r = ''Level Zero'' then level_zero_evidence entry stack
      else stack)"

section \<open>Compilers, MPI and RDMA\<close>

definition compiler_names :: "string list" where
  "compiler_names = [''gcc'', ''g++'', ''clang'', ''clang++'', ''gfortran'']"

definition compiler_of :: "RawStore \<Rightarrow> string \<Rightarrow> Compiler option" where
  "compiler_of raw cc = (case first_success_cmd raw CompilerVersion (cc @ '' --version'') of
      None \<Rightarrow> None
    | Some r \<Rightarrow> (case extract_compiler_version (rec_payload r) of
        None \<Rightarrow> None
      | Some version \<Rightarrow> Some
          \<lparr>comp_name = cc, comp_version = version,
           comp_path = output_or_empty (first_success_cmd raw CompilerPath (''command -v '' @ cc)),
           comp_target = output_or_empty (first_success_cmd raw CompilerTarget (cc @ '' -dumpmachine''))\<rparr>))"

definition mpi_of :: "RawStore \<Rightarrow> Mpi option" where
  "mpi_of raw = (case first_matching raw MpiVersion ''mpirun'' of
      None \<Rightarrow> None
    | Some r \<Rightarrow> map_option (\<lambda>(implementation, version).
        \<lparr>mpi_implementation = implementation, mpi_version = version,
         mpi_path = output_or_empty (first_matching raw MpiPath ''mpirun'')\<rparr>) (extract_mpi_info (rec_payload r)))"

definition rdma_stack_of :: "RawStore \<Rightarrow> RdmaStack option" where
  "rdma_stack_of raw = (case first_matching raw IbverbsVersion ''pkg-config'' of
      None \<Rightarrow> None
    | Some r \<Rightarrow> Some
        \<lparr>rs_rdma_core_version = trim (rec_payload r),
         rs_ibverbs_path = output_or_empty (first_matching raw IbverbsLibdir ''pkg-config''),
         rs_ucx_version = output_or_empty (first_matching raw UcxVersion ''pkg-config'')\<rparr>)"

definition cuda_of :: "RawStore \<Rightarrow> string option \<Rightarrow> string option \<Rightarrow> Cuda" where
  "cuda_of raw cuda driver =
     (let nvcc = output_or_empty (first_matching raw NvccPath ''readlink'') in
      \<lparr>cuda_version = (case cuda of None \<Rightarrow> [] | Some v \<Rightarrow> v), cuda_driver_version = (case driver of None \<Rightarrow> [] | Some v \<Rightarrow> v),
       cuda_nvcc_path = nvcc,
       cuda_home = (case first_matching raw CudaHome ''printenv'' of
           Some r \<Rightarrow> trim (rec_payload r)
         | None \<Rightarrow> if nvcc = [] then [] else derive_cuda_home nvcc)\<rparr>)"

section \<open>The parser\<close>

definition add_cuda :: "RawStore \<Rightarrow> string option \<Rightarrow> string option \<Rightarrow> SoftwareStack \<Rightarrow> SoftwareStack" where
  "add_cuda raw cuda driver stack = stack
     \<lparr>sw_drivers := sw_drivers stack @ (case driver of
          None \<Rightarrow> []
        | Some v \<Rightarrow> [\<lparr>drv_id = StrongId 0, drv_name = ''nvidia'', drv_version = v, drv_loaded = True, drv_path = []\<rparr>]),
      sw_runtimes := sw_runtimes stack @ (case cuda of
          None \<Rightarrow> []
        | Some v \<Rightarrow> [\<lparr>rt_name = ''cuda'', rt_version = v, rt_path = [], rt_env_var = ''CUDA_HOME''\<rparr>]),
      sw_cuda := (if cuda = None \<and> driver = None then sw_cuda stack else Some (cuda_of raw cuda driver))\<rparr>"

definition software_stack :: "(string \<Rightarrow> json) \<Rightarrow> RawStore \<Rightarrow> string option \<Rightarrow> string option \<Rightarrow> SoftwareStack" where
  "software_stack parse_json raw driver cuda =
     (let stack = SoftwareStack_default\<lparr>sw_rocm := first_of (rocm_of_record raw) (get_all raw RocmVersion)\<rparr>;
          stack = level_zero_runtime (fold (add_library raw) known_libraries stack);
          stack = fold (runtime_evidence parse_json) (get_all raw AcceleratorRuntime) (hip_runtime raw stack);
          stack = stack\<lparr>sw_compilers := List.map_filter (compiler_of raw) compiler_names,
            sw_mpi := mpi_of raw, sw_rdma := rdma_stack_of raw\<rparr>
      in add_cuda raw cuda driver stack)"

definition nothing_found :: "SoftwareStack \<Rightarrow> bool" where
  "nothing_found stack \<longleftrightarrow> sw_drivers stack = [] \<and> sw_runtimes stack = [] \<and> sw_compilers stack = [] \<and>
     sw_libraries stack = [] \<and> sw_mpi stack = None \<and> sw_rdma stack = None"

definition parse_software :: "(string \<Rightarrow> json) \<Rightarrow> RawStore \<Rightarrow> string list \<Rightarrow> SoftwareStack option \<times> string list" where
  "parse_software parse_json raw warnings =
     (let (driver, driver_warnings) = driver_version parse_json raw;
          (cuda, cuda_warnings) = toolkit_version raw;
          stack = software_stack parse_json raw driver cuda;
          warnings = warnings @ driver_warnings @ cuda_warnings
      in if nothing_found stack
         then (None, warnings @
           (if list_all (\<lambda>s. get_all raw s = []) [NvidiaSmi, Nvcc, CompilerVersion, MpiVersion, IbverbsVersion]
            then [no_software] else []))
         else (Some stack, warnings))"

section \<open>Version numbers\<close>

definition version_number :: "string \<Rightarrow> bool" where
  "version_number v \<longleftrightarrow> v \<noteq> [] \<and> is_digit (hd v) \<and> list_all version_char v \<and> CHR ''.'' \<in> set v \<and> last v \<noteq> CHR ''.''"

lemma runtime_version_found: "runtime_version s = Some v \<Longrightarrow> version_number v \<and> sublist v s"
proof (induction s rule: runtime_version.induct)
  case 1
  then show ?case by simp
next
  case (2 c s)
  define version where "version = takeWhile version_char (c # s)"
  define rest where "rest = dropWhile version_char (c # s)"
  show ?case
  proof (cases "is_digit c \<and> CHR ''.'' \<in> set version \<and> last version \<noteq> CHR ''.''")
    case True
    then have "runtime_version (c # s) = Some version"
      by (simp only: runtime_version.simps Let_def flip: version_def) simp
    then have "v = version" using "2.prems" by simp
    moreover have "sublist version (c # s)"
      unfolding version_def by (rule prefix_imp_sublist) (rule takeWhile_is_prefix)
    moreover have "list_all version_char version" by (auto simp: version_def list_all_iff dest: set_takeWhileD)
    ultimately show ?thesis using True by (auto simp: version_number_def version_def version_char_def)
  next
    case False
    show ?thesis
    proof (cases "is_digit c")
      case True
      then have "runtime_version (drop 1 rest) = Some v"
        using "2.prems" False by (simp add: version_def rest_def Let_def split: if_splits)
      then have "version_number v \<and> sublist v (drop 1 rest)"
        using "2.IH"(2) [OF _ version_def rest_def] True False by blast
      moreover have "sublist (drop 1 rest) (c # s)"
        unfolding rest_def
        by (rule suffix_imp_sublist) (rule suffix_order.order_trans [OF suffix_drop suffix_dropWhile])
      ultimately show ?thesis using sublist_order.order_trans by blast
    next
      case no_digit: False
      then have "version_number v \<and> sublist v s" using "2.IH"(1) "2.prems" by simp
      moreover have "sublist s (c # s)" by (simp add: sublist_Cons_right)
      ultimately show ?thesis using sublist_order.order_trans by blast
    qed
  qed
qed

lemma runtime_version_skip: "list_all (\<lambda>c. \<not> is_digit c) before \<Longrightarrow> runtime_version (before @ s) = runtime_version s"
  by (induction before) simp_all

lemma runtime_version_at:
  assumes "version_number v" "rest = [] \<or> \<not> version_char (hd rest)"
  shows "runtime_version (v @ rest) = Some v"
proof -
  obtain c s where v: "v = c # s" "is_digit c" using assms(1) by (cases v) (auto simp: version_number_def)
  have "takeWhile version_char (v @ rest) = v @ takeWhile version_char rest"
    using assms(1) by (simp add: version_number_def list_all_iff takeWhile_append2)
  moreover have "takeWhile version_char rest = []" using assms(2) by (cases rest) auto
  ultimately have "takeWhile version_char (v @ rest) = v" by simp
  then have "takeWhile version_char (c # s @ rest) = v" by (simp add: v)
  then show ?thesis using assms(1) v by (simp add: version_number_def Let_def)
qed

text \<open>the scan for a version returns only text that is in its input and is a version, a digit followed
  by digits and dots with a dot inside, and it finds every version that stands after text
  without digits.
\<close>

theorem runtime_version_exact:
  "pred_option (\<lambda>v. version_number v \<and> sublist v s) (runtime_version s) \<and>
   (version_number v \<and> list_all (\<lambda>c. \<not> is_digit c) before \<and> \<not> version_char c \<longrightarrow>
      runtime_version (before @ v @ c # rest) = Some v)"
  using runtime_version_found [of s] runtime_version_skip [of before "v @ c # rest"] runtime_version_at [of v "c # rest"]
  by (cases "runtime_version s") simp_all

theorem runtime_version_exact_witness: "runtime_version ''HIP version: 6.1.2-beta'' = Some ''6.1.2''"
proof -
  have "version_number ''6.1.2''" "list_all (\<lambda>c. \<not> is_digit c) ''HIP version: ''" "\<not> version_char (CHR ''-'')"
    by code_simp+
  then show ?thesis
    using runtime_version_exact [of "[]" "''6.1.2''" "''HIP version: ''" "CHR ''-''" "''beta''"] by simp
qed

section \<open>Runtimes\<close>

definition single_names :: "SoftwareStack \<Rightarrow> string list" where
  "single_names stack = filter (\<lambda>name. name \<noteq> ''level-zero API'') (map rt_name (sw_runtimes stack))"

definition names_ok :: "SoftwareStack \<Rightarrow> bool" where
  "names_ok stack \<longleftrightarrow> distinct (single_names stack) \<and> set (single_names stack) \<subseteq> {''level-zero'', ''hip''}"

lemma libraries_runtimes: "sw_runtimes (fold (add_library raw) entries stack) = sw_runtimes stack"
  by (induction entries arbitrary: stack) (simp_all add: add_library_def split: option.split)

lemma level_zero_names:
  "sw_runtimes stack = [] \<Longrightarrow> distinct (single_names (level_zero_runtime stack)) \<and>
     set (single_names (level_zero_runtime stack)) \<subseteq> {''level-zero''}"
  by (simp add: level_zero_runtime_def single_names_def split: option.split)

lemma hip_runtime_names:
  "distinct (single_names stack) \<Longrightarrow> set (single_names stack) \<subseteq> {''level-zero''} \<Longrightarrow> names_ok (hip_runtime raw stack)"
  by (auto simp: hip_runtime_def Let_def single_names_def names_ok_def split: option.split)

lemma runtime_evidence_names: "names_ok stack \<Longrightarrow> names_ok (runtime_evidence parse_json r stack)"
  by (auto simp: runtime_evidence_def hip_evidence_def level_zero_evidence_def Let_def single_names_def names_ok_def
    list_ex_iff split: option.split)

lemma runtime_records_names: "names_ok stack \<Longrightarrow> names_ok (fold (runtime_evidence parse_json) rs stack)"
  by (induction rs arbitrary: stack) (simp_all add: runtime_evidence_names)

text \<open>
  apart from the API levels that the Level Zero loaders report, no runtime is listed twice,
  whatever the tools, the packages and the runtimes themselves report.
\<close>

theorem software_runtimes_unique:
  "pred_option (\<lambda>stack. distinct (single_names stack)) (fst (parse_software parse_json raw warnings))"
proof -
  have names: "distinct (single_names (software_stack parse_json raw driver cuda))" for driver cuda
  proof -
    define first where "first = level_zero_runtime (fold (add_library raw) known_libraries
      (SoftwareStack_default\<lparr>sw_rocm := first_of (rocm_of_record raw) (get_all raw RocmVersion)\<rparr>))"
    have "distinct (single_names first) \<and> set (single_names first) \<subseteq> {''level-zero''}"
      unfolding first_def
      by (rule level_zero_names) (simp add: libraries_runtimes SoftwareStack_default_def)
    then have "names_ok (fold (runtime_evidence parse_json) (get_all raw AcceleratorRuntime) (hip_runtime raw first))"
      by (intro runtime_records_names hip_runtime_names) simp_all
    then show ?thesis
      by (auto simp: software_stack_def Let_def add_cuda_def names_ok_def single_names_def
        simp flip: first_def split: option.split)
  qed
  then show ?thesis by (simp add: parse_software_def Let_def case_prod_unfold)
qed

section \<open>The contract of the parser\<close>

definition software_warning :: "string \<Rightarrow> bool" where
  "software_warning w \<longleftrightarrow> w \<in> {no_driver, no_release, no_software}"

abbreviation software_sources :: "RawSource set" where
  "software_sources \<equiv> {NvidiaSmi, Nvml, Nvcc, RocmVersion, PackageLibrary, AcceleratorRuntime, CompilerVersion, CompilerPath,
     CompilerTarget, MpiVersion, MpiPath, IbverbsVersion, IbverbsLibdir, UcxVersion, NvccPath, CudaHome}"

lemma parse_software_logs: "logs software_warning (\<lambda>(_ :: unit, ws). parse_software parse_json raw ws)"
proof -
  have "list_all software_warning (snd (driver_version parse_json raw))" "list_all software_warning (snd (toolkit_version raw))"
    by (simp_all add: driver_version_def toolkit_version_def Let_def case_prod_unfold software_warning_def
      split: option.split)
  then show ?thesis
    by (intro logs_stage) (simp_all add: parse_software_def Let_def case_prod_unfold software_warning_def)
qed

lemma software_evidence:
  assumes same: "\<And>s. s \<in> software_sources \<Longrightarrow> get_all raw s = get_all raw' s"
  shows "parse_software parse_json raw [] = parse_software parse_json raw' []"
proof -
  have queries: "first_success_cmd raw s = first_success_cmd raw' s" "first_matching raw s = first_matching raw' s"
    "first_success raw s = first_success raw' s" if "s \<in> software_sources" for s
    using same [OF that] by (simp_all add: first_success_cmd_def first_matching_def first_success_def fun_eq_iff)
  have hip: "hipconfig raw = hipconfig raw'" by (simp add: hipconfig_def queries)
  have "rocm_of_record raw = rocm_of_record raw'" "hip_runtime raw = hip_runtime raw'"
    by (simp_all only: fun_eq_iff rocm_of_record_def hip_runtime_def queries hip simp_thms insert_iff)
  moreover have "library_of raw = library_of raw'" 
    by (intro ext) (simp add: library_of_def queries split: prod.split option.split)
  then have "add_library raw = add_library raw'" by (simp add: fun_eq_iff add_library_def)
  moreover have "compiler_of raw = compiler_of raw'" "mpi_of raw = mpi_of raw'" "rdma_stack_of raw = rdma_stack_of raw'"
    by (simp_all add: fun_eq_iff compiler_of_def mpi_of_def rdma_stack_of_def queries split: option.split)
  moreover have "cuda_of raw = cuda_of raw'" by (simp add: fun_eq_iff cuda_of_def Let_def queries split: option.split)
  then have "add_cuda raw = add_cuda raw'" by (simp add: fun_eq_iff add_cuda_def)
  moreover have "driver_version parse_json raw = driver_version parse_json raw'" "toolkit_version raw = toolkit_version raw'"
    by (simp_all add: driver_version_def toolkit_version_def queries same case_prod_unfold Let_def)
  ultimately show ?thesis by (simp add: parse_software_def software_stack_def same Let_def case_prod_unfold)
qed

interpretation software_parser: domain_parser "parse_software parse_json" software_sources "{}" software_warning
  for parse_json
  by (rule domain_parserI) (rule parse_software_logs, rule software_evidence)

end
