(* ===== verification/Pipeline.thy ===== *)
theory Pipeline
  imports Platform_Parser Software_Parser Sensor_Parser Cpu_Contract Memory_Parser Pci_Parser Network_Parser
    Accelerator_Parser Storage_Parser Storage_Health_Parser Execution Resolve Inventory Hardware_Health
begin

text \<open>
  \<open>src/pipeline/pipeline.cpp\<close>, \<open>src/api/\<close>: from the evidence to the snapshot, and the collection
  calls of the library. The readers, which talk to the machine, are arguments that fill in a store;
  so are the two readings of the clocks, the parse of a JSON text and the precision of
  \<open>long double\<close> that the cgroup limits need. A call that throws returns the exception, and leaves
  the snapshot it was made on as it was.
\<close>

section \<open>Observations\<close>

fun observation_domain :: "RawSource \<Rightarrow> string" where
  "observation_domain source = (case source of
      SysfsHwmon \<Rightarrow> ''sensors'' | SysfsThermal \<Rightarrow> ''sensors''
    | SysfsDmi \<Rightarrow> ''system''
    | ProcCpuInfo \<Rightarrow> ''cpu'' | SysfsCpu \<Rightarrow> ''cpu''
    | ProcMemInfo \<Rightarrow> ''memory'' | SysfsNuma \<Rightarrow> ''memory'' | SysfsEdac \<Rightarrow> ''memory'' | Udevadm \<Rightarrow> ''memory''
    | SysfsNet \<Rightarrow> ''network'' | IfAddrs \<Rightarrow> ''network'' | Ethtool \<Rightarrow> ''network'' | ProcNetVlan \<Rightarrow> ''network''
    | SysfsRdma \<Rightarrow> ''network''
    | StorageHealthSysfs \<Rightarrow> ''storage_health'' | Smartctl \<Rightarrow> ''storage_health'' | NvmeSmartLog \<Rightarrow> ''storage_health''
    | SysfsStorageConnections \<Rightarrow> ''storage'' | SysfsBlock \<Rightarrow> ''storage'' | StorageMountInfo \<Rightarrow> ''storage''
    | Src_FilesystemUsage \<Rightarrow> ''storage''
    | SysfsPci \<Rightarrow> ''pci'' | Lspci \<Rightarrow> ''pci''
    | _ \<Rightarrow> [])"

definition observation :: "RawRecord \<Rightarrow> CollectionObservation option" where
  "observation r =
     (let domain = observation_domain (rec_source r);
          blank = rec_source r = SysfsDmi \<and> rec_status r = Success \<and> hardware_text (rec_payload r) = []
      in if domain = [] then None
         else Some
           \<lparr>obs_domain = domain, obs_source = rec_source r, obs_origin = rec_path_or_command r,
            obs_status = (if blank then Partial else rec_status r),
            obs_failure = (if blank then Some NotProvided else rec_failure r), obs_skip = rec_skip r\<rparr>)"

section \<open>The outcome of the collectors\<close>

definition health_available :: "Storage option \<Rightarrow> bool" where
  "health_available storage = (case storage of
      None \<Rightarrow> False
    | Some s \<Rightarrow> list_ex (\<lambda>report. shr_status report = Success \<or> shr_status report = Partial) (storage_health s))"

definition collector_checks :: "ParseResult \<Rightarrow> (Collect \<times> string \<times> bool) list" where
  "collector_checks result =
     [(Collect_Sensors, ''sensors'', pr_sensors result \<noteq> None),
      (Collect_Platform, ''platform'', pr_platform result \<noteq> None),
      (Collect_Cpu, ''cpu'', pr_cpu result \<noteq> None),
      (Collect_Memory, ''memory'', pr_memory result \<noteq> None),
      (Collect_Pci, ''pci'', pr_pci result \<noteq> None),
      (Collect_Network, ''network'', pr_network result \<noteq> None),
      (Collect_Accelerator, ''accelerator'', pr_accelerators result \<noteq> None),
      (Collect_Storage, ''storage'', pr_storage result \<noteq> None),
      (Collect_StorageHealth, ''storage_health'', health_available (pr_storage result)),
      (Collect_Software, ''software'', pr_software result \<noteq> None),
      (Collect_Execution, ''execution'', pr_execution result \<noteq> None)]"

definition collector_check :: "Collect \<Rightarrow> Collect \<times> string \<times> bool \<Rightarrow> string list \<times> string list \<Rightarrow> string list \<times> string list" where
  "collector_check flags = (\<lambda>(flag, name, available) (succeeded, failed).
     if \<not> has flags flag then (succeeded, failed)
     else if available then (succeeded @ [name], failed)
     else (succeeded, failed @ [name]))"

definition record_collector_status :: "ParseResult \<Rightarrow> Collect \<Rightarrow> string list \<times> string list" where
  "record_collector_status result flags = fold (collector_check flags) (collector_checks result) ([], [])"

section \<open>The dispatch of the parsers\<close>

type_synonym ParseStep = "RawStore \<Rightarrow> ParseResult \<times> string list \<Rightarrow> ParseResult \<times> string list"

definition parse_sensors_step :: ParseStep where
  "parse_sensors_step raw = (\<lambda>(r, w). (r\<lparr>pr_sensors := Some (parse_sensors raw)\<rparr>, w))"

definition parse_platform_step :: ParseStep where
  "parse_platform_step raw = (\<lambda>(r, w). let (p, w) = parse_platform raw w in (r\<lparr>pr_platform := p\<rparr>, w))"

definition parse_cpu_step :: ParseStep where
  "parse_cpu_step raw = (\<lambda>(r, w). let (c, w) = parse_cpu raw w in (r\<lparr>pr_cpu := c\<rparr>, w))"

definition parse_memory_step :: ParseStep where
  "parse_memory_step raw = (\<lambda>(r, w). let (m, w) = parse_memory raw w in (r\<lparr>pr_memory := m\<rparr>, w))"

definition parse_pci_step :: ParseStep where
  "parse_pci_step raw = (\<lambda>(r, w). let (p, w) = parse_pci raw w in (r\<lparr>pr_pci := p\<rparr>, w))"

definition parse_network_step :: ParseStep where
  "parse_network_step raw = (\<lambda>(r, w). let (n, w) = parse_network raw w in (r\<lparr>pr_network := n\<rparr>, w))"

definition parse_accelerator_step :: "(string \<Rightarrow> json) \<Rightarrow> ParseStep" where
  "parse_accelerator_step parse_json raw = (\<lambda>(r, w).
     let (accelerators, w) = parse_accelerator parse_json raw w;
         r = r\<lparr>pr_accelerators := accelerators\<rparr>
     in (case accelerators of
           None \<Rightarrow> r
         | Some devices \<Rightarrow>
             r\<lparr>pr_accelerator_runtime_visibility := parse_accelerator_runtime_visibility parse_json raw devices\<rparr>, w))"

definition parse_storage_step :: "(string \<Rightarrow> json) \<Rightarrow> ParseStep" where
  "parse_storage_step parse_json raw = (\<lambda>(r, w). let (s, w) = parse_storage parse_json raw w in (r\<lparr>pr_storage := s\<rparr>, w))"

definition parse_software_step :: "(string \<Rightarrow> json) \<Rightarrow> ParseStep" where
  "parse_software_step parse_json raw = (\<lambda>(r, w). let (s, w) = parse_software parse_json raw w in (r\<lparr>pr_software := s\<rparr>, w))"

definition parse_execution_step :: "nat \<Rightarrow> ParseStep" where
  "parse_execution_step extra raw = (\<lambda>(r, w). let (e, w) = parse_execution extra raw w in (r\<lparr>pr_execution := e\<rparr>, w))"

definition pci_flags :: Collect where
  "pci_flags = foldl collect_or Collect_Pci [Collect_Network, Collect_Storage, Collect_StorageHealth]"

definition storage_flags :: Collect where
  "storage_flags = collect_or Collect_Storage Collect_StorageHealth"

definition parser_dispatch :: "nat \<Rightarrow> (string \<Rightarrow> json) \<Rightarrow> (Collect \<times> ParseStep) list" where
  "parser_dispatch extra parse_json =
     [(Collect_Sensors, parse_sensors_step), (Collect_Platform, parse_platform_step), (Collect_Cpu, parse_cpu_step),
      (Collect_Memory, parse_memory_step), (pci_flags, parse_pci_step), (Collect_Network, parse_network_step),
      (Collect_Accelerator, parse_accelerator_step parse_json), (storage_flags, parse_storage_step parse_json),
      (Collect_Software, parse_software_step parse_json), (Collect_Execution, parse_execution_step extra)]"

definition dispatch_step :: "RawStore \<Rightarrow> Collect \<Rightarrow> Collect \<times> ParseStep \<Rightarrow> ParseResult \<times> string list \<Rightarrow>
    ParseResult \<times> string list" where
  "dispatch_step raw flags entry s = (if has flags (fst entry) then snd entry raw s else s)"

definition health_step :: "(string \<Rightarrow> json) \<Rightarrow> ParseStep" where
  "health_step parse_json raw = (\<lambda>(r, w). case pr_storage r of
      None \<Rightarrow> (r, w)
    | Some storage \<Rightarrow>
        let (storage, w) = parse_storage_health parse_json raw storage w in (r\<lparr>pr_storage := Some storage\<rparr>, w))"

definition parse_domains ::
    "nat \<Rightarrow> (string \<Rightarrow> json) \<Rightarrow> RawStore \<Rightarrow> Collect \<Rightarrow> string list \<Rightarrow> ParseResult \<times> string list" where
  "parse_domains extra parse_json raw flags warnings =
     (let s = fold (dispatch_step raw flags) (parser_dispatch extra parse_json) (ParseResult_default, warnings)
      in if has flags Collect_StorageHealth then health_step parse_json raw s else s)"

section \<open>Replay and collection\<close>

definition sysal_version :: string where
  "sysal_version = ''0.0.26''"

definition all_failed :: "string list \<Rightarrow> exception" where
  "all_failed failed =
     SysalError CollectionFailed (''all requested collectors failed: '' @ to_string_nat (length failed) @ '' collectors'')"

text \<open>A reader returns \<^const>\<open>None\<close> where it throws.\<close>

type_synonym Reader = "Collect \<Rightarrow> CollectOptions \<Rightarrow> RawStore \<Rightarrow> RawStore option"

record Machine =
  long_double_extra :: nat
  json_parse :: "string \<Rightarrow> json"
  procfs_reader :: Reader
  sysfs_reader :: Reader

definition run_replay ::
    "Machine \<Rightarrow> int \<times> int \<Rightarrow> RawStore \<Rightarrow> Collect \<Rightarrow> string list \<Rightarrow> exception + System" where
  "run_replay m clock raw flags warnings =
     (let (result, warnings) = parse_domains (long_double_extra m) (json_parse m) raw flags warnings;
          (succeeded, failed) = record_collector_status result flags
      in if succeeded = [] \<and> failed \<noteq> [] then Inl (all_failed failed)
      else
        let (info, warnings) = resolve result warnings;
            info = info\<lparr>info_hardware_health := hardware_health info flags raw\<rparr>
        in Inr
          \<lparr>sys_info = info,
           sys_meta =
             \<lparr>meta_collect_time = fst clock, meta_sysal_version = sysal_version, meta_collect_duration = snd clock,
              meta_requested_flags = flags, meta_succeeded_collectors = succeeded, meta_failed_collectors = failed,
              meta_observations = List.map_filter observation (raw_records raw),
              meta_inventories = inventory_reports info raw flags,
              meta_collection_request = raw_collection_request raw\<rparr>,
           sys_warnings = warnings, sys_raw = None\<rparr>)"

definition read_evidence :: "Machine \<Rightarrow> Collect \<Rightarrow> CollectOptions \<Rightarrow> RawStore option" where
  "read_evidence m flags options =
     (let raw = RawStore_default
        \<lparr>raw_collection_request := Some \<lparr>req_flags = flags, req_options = options\<rparr>\<rparr>
      in Option.bind (procfs_reader m flags options raw) (sysfs_reader m flags options))"

definition run_pipeline ::
    "Machine \<Rightarrow> int \<times> int \<Rightarrow> int \<times> int \<Rightarrow> Collect \<Rightarrow> CollectOptions \<Rightarrow> string list \<Rightarrow>
      exception + System" where
  "run_pipeline m clock replay_clock flags options warnings =
     (case read_evidence m flags options of
        None \<Rightarrow> Inl ForeignException
      | Some raw \<Rightarrow>
          (case run_replay m replay_clock raw flags warnings of
             Inl e \<Rightarrow> Inl e
           | Inr sys \<Rightarrow>
               let sys = (if has flags Collect_Raw then sys\<lparr>sys_raw := Some raw\<rparr> else sys)
               in Inr (sys\<lparr>sys_meta :=
                    (sys_meta sys)\<lparr>meta_collect_time := fst clock, meta_collect_duration := snd clock\<rparr>\<rparr>)))"

section \<open>The interface of the library\<close>

definition options_validate :: "CollectOptions \<Rightarrow> exception option" where
  "options_validate options =
     (if opt_filesystems options \<notin> {FilesystemQuery_None, FilesystemQuery_Local, FilesystemQuery_AllMounted}
      then Some (InvalidArgument ''invalid filesystem query policy'')
      else if opt_sensors options \<notin> {SensorDevices_All, SensorDevices_ExcludeDisplay}
      then Some (InvalidArgument ''invalid sensor device policy'')
      else None)"

definition request_validate :: "CollectionRequest \<Rightarrow> exception option" where
  "request_validate request =
     (if Bit_Operations.and (req_flags request) (Bit_Operations.not full) \<noteq> 0
      then Some (InvalidArgument ''unknown collection flags'')
      else options_validate (req_options request))"

definition collect_from_raw :: "Machine \<Rightarrow> int \<times> int \<Rightarrow> RawStore \<Rightarrow> Collect \<Rightarrow> exception + System" where
  "collect_from_raw m clock raw flags =
     (case request_validate \<lparr>req_flags = flags, req_options = CollectOptions_default\<rparr> of
        Some e \<Rightarrow> Inl e
      | None \<Rightarrow> run_replay m clock raw flags [])"

definition collect_system ::
    "Machine \<Rightarrow> int \<times> int \<Rightarrow> int \<times> int \<Rightarrow> Collect \<Rightarrow> CollectOptions \<Rightarrow> exception + System" where
  "collect_system m clock replay_clock flags options =
     (case request_validate \<lparr>req_flags = flags, req_options = options\<rparr> of
        Some e \<Rightarrow> Inl e
      | None \<Rightarrow> run_pipeline m clock replay_clock flags options [])"

definition unknown_request :: exception where
  "unknown_request =
     InvalidArgument ''snapshot acquisition options are unknown; collect with an explicit request''"

text \<open>The exception, if any, and the snapshot after the call.\<close>

definition refresh ::
    "Machine \<Rightarrow> int \<times> int \<Rightarrow> int \<times> int \<Rightarrow> System \<Rightarrow> exception option \<times> System" where
  "refresh m clock replay_clock sys =
     (case meta_collection_request (sys_meta sys) of
        None \<Rightarrow> (Some unknown_request, sys)
      | Some request \<Rightarrow>
          (case collect_system m clock replay_clock (meta_requested_flags (sys_meta sys))
             (req_options request) of
             Inl e \<Rightarrow> (Some e, sys)
           | Inr fresh \<Rightarrow> (None, fresh)))"

section \<open>The domains do not interfere\<close>

definition requested :: "Collect \<Rightarrow> Collect \<Rightarrow> 'a option \<Rightarrow> 'a option" where
  "requested flags wanted part = (if has flags wanted then part else None)"

lemma sensors_at: "fst (dispatch_step raw flags (Collect_Sensors, parse_sensors_step) s) =
    (fst s)\<lparr>pr_sensors := if has flags Collect_Sensors then Some (parse_sensors raw) else pr_sensors (fst s)\<rparr>"
  by (simp add: dispatch_step_def parse_sensors_step_def case_prod_unfold)

lemma platform_at: "fst (dispatch_step raw flags (Collect_Platform, parse_platform_step) s) =
    (fst s)\<lparr>pr_platform := if has flags Collect_Platform then fst (parse_platform raw []) else pr_platform (fst s)\<rparr>"
  using platform_parser.result_frame [of raw "snd s" "[]"]
  by (simp add: dispatch_step_def parse_platform_step_def case_prod_unfold)

lemma cpu_at: "fst (dispatch_step raw flags (Collect_Cpu, parse_cpu_step) s) =
    (fst s)\<lparr>pr_cpu := if has flags Collect_Cpu then fst (parse_cpu raw []) else pr_cpu (fst s)\<rparr>"
  using cpu_parser.result_frame [of raw "snd s" "[]"]
  by (simp add: dispatch_step_def parse_cpu_step_def case_prod_unfold)

lemma memory_at: "fst (dispatch_step raw flags (Collect_Memory, parse_memory_step) s) =
    (fst s)\<lparr>pr_memory := if has flags Collect_Memory then fst (parse_memory raw []) else pr_memory (fst s)\<rparr>"
  using memory_parser.result_frame [of raw "snd s" "[]"]
  by (simp add: dispatch_step_def parse_memory_step_def case_prod_unfold)

lemma pci_at: "fst (dispatch_step raw flags (pci_flags, parse_pci_step) s) =
    (fst s)\<lparr>pr_pci := if has flags pci_flags then fst (parse_pci raw []) else pr_pci (fst s)\<rparr>"
  using pci_parser.result_frame [of raw "snd s" "[]"]
  by (simp add: dispatch_step_def parse_pci_step_def case_prod_unfold)

lemma network_at: "fst (dispatch_step raw flags (Collect_Network, parse_network_step) s) =
    (fst s)\<lparr>pr_network := if has flags Collect_Network then fst (parse_network raw []) else pr_network (fst s)\<rparr>"
  using network_parser.result_frame [of raw "snd s" "[]"]
  by (simp add: dispatch_step_def parse_network_step_def case_prod_unfold)

definition runtime_part :: "(string \<Rightarrow> json) \<Rightarrow> RawStore \<Rightarrow> RuntimeVisibility list" where
  "runtime_part parse_json raw = (case fst (parse_accelerator parse_json raw []) of
      None \<Rightarrow> [] | Some devices \<Rightarrow> parse_accelerator_runtime_visibility parse_json raw devices)"

lemma accelerator_at:
  "pr_accelerator_runtime_visibility (fst s) = [] \<Longrightarrow>
   fst (dispatch_step raw flags (Collect_Accelerator, parse_accelerator_step parse_json) s) = (fst s)
     \<lparr>pr_accelerators := if has flags Collect_Accelerator then fst (parse_accelerator parse_json raw [])
        else pr_accelerators (fst s),
      pr_accelerator_runtime_visibility := if has flags Collect_Accelerator then runtime_part parse_json raw else []\<rparr>"
  using accelerator_parser.result_frame [of parse_json raw "snd s" "[]"]
  by (cases s) (simp add: dispatch_step_def parse_accelerator_step_def case_prod_unfold Let_def runtime_part_def
    split: option.split)

lemma storage_at: "fst (dispatch_step raw flags (storage_flags, parse_storage_step parse_json) s) = (fst s)
    \<lparr>pr_storage := if has flags storage_flags then fst (parse_storage parse_json raw []) else pr_storage (fst s)\<rparr>"
  using storage_parser.result_frame [of parse_json raw "snd s" "[]"]
  by (simp add: dispatch_step_def parse_storage_step_def case_prod_unfold)

lemma software_at: "fst (dispatch_step raw flags (Collect_Software, parse_software_step parse_json) s) = (fst s)
    \<lparr>pr_software := if has flags Collect_Software then fst (parse_software parse_json raw []) else pr_software (fst s)\<rparr>"
  using software_parser.result_frame [of parse_json raw "snd s" "[]"]
  by (simp add: dispatch_step_def parse_software_step_def case_prod_unfold)

lemma execution_at: "fst (dispatch_step raw flags (Collect_Execution, parse_execution_step extra) s) = (fst s)
    \<lparr>pr_execution := if has flags Collect_Execution then fst (parse_execution extra raw []) else pr_execution (fst s)\<rparr>"
  using execution_parser.result_frame [of extra raw "snd s" "[]"]
  by (simp add: dispatch_step_def parse_execution_step_def case_prod_unfold)

lemma dispatched: "fst (fold (dispatch_step raw flags) (parser_dispatch extra parse_json) (ParseResult_default, warnings)) =
    \<lparr>pr_platform = requested flags Collect_Platform (fst (parse_platform raw [])),
     pr_cpu = requested flags Collect_Cpu (fst (parse_cpu raw [])),
     pr_memory = requested flags Collect_Memory (fst (parse_memory raw [])),
     pr_pci = requested flags pci_flags (fst (parse_pci raw [])),
     pr_network = requested flags Collect_Network (fst (parse_network raw [])),
     pr_accelerators = requested flags Collect_Accelerator (fst (parse_accelerator parse_json raw [])),
     pr_storage = requested flags storage_flags (fst (parse_storage parse_json raw [])),
     pr_software = requested flags Collect_Software (fst (parse_software parse_json raw [])),
     pr_execution = requested flags Collect_Execution (fst (parse_execution extra raw [])),
     pr_sensors = requested flags Collect_Sensors (Some (parse_sensors raw)),
     pr_accelerator_runtime_visibility =
       (if has flags Collect_Accelerator then runtime_part parse_json raw else [])\<rparr>"
  by (simp add: parser_dispatch_def sensors_at platform_at cpu_at memory_at pci_at network_at accelerator_at storage_at
    software_at execution_at ParseResult_default_def requested_def)

lemma health_frame: "fst (parse_storage_health parse_json raw storage warnings) = fst (parse_storage_health parse_json raw storage [])"
proof -
  have "fst (fold (health_record parse_json targets) rs (reports, w)) =
      fst (fold (health_record parse_json targets) rs (reports, w'))" for targets rs reports w w'
    by (induction rs arbitrary: reports w w') (simp_all add: health_record_def split: option.split)
  from this [of "health_targets raw" "raw_records raw" "[]" warnings "[]"] show ?thesis
    by (simp add: parse_storage_health_def case_prod_unfold Let_def)
qed

lemma health_step_at: "fst (health_step parse_json raw s) = (fst s)
    \<lparr>pr_storage := map_option (\<lambda>st. fst (parse_storage_health parse_json raw st [])) (pr_storage (fst s))\<rparr>"
  by (simp add: health_step_def case_prod_unfold health_frame [of _ _ _ "snd s"] split: option.split)

text \<open>C2: every part of the parsed evidence is what its parser says of the evidence alone, whatever warnings
  the parsers before it left, and is there only when the request calls for it. PCI devices are parsed when
  PCI, the network, the storage or its health are requested; the storage when the storage or its health
  are; the health reports are filled into the storage exactly when the health is requested; every other
  part depends on the request of its own domain only.
\<close>

theorem domains_parsed:
  "fst (parse_domains extra parse_json raw flags warnings) =
    \<lparr>pr_platform = requested flags Collect_Platform (fst (parse_platform raw [])),
     pr_cpu = requested flags Collect_Cpu (fst (parse_cpu raw [])),
     pr_memory = requested flags Collect_Memory (fst (parse_memory raw [])),
     pr_pci =
       (if has flags Collect_Pci \<or> has flags Collect_Network \<or> has flags Collect_Storage \<or>
           has flags Collect_StorageHealth
        then fst (parse_pci raw []) else None),
     pr_network = requested flags Collect_Network (fst (parse_network raw [])),
     pr_accelerators = requested flags Collect_Accelerator (fst (parse_accelerator parse_json raw [])),
     pr_storage =
       (if has flags Collect_StorageHealth
        then map_option (\<lambda>storage. fst (parse_storage_health parse_json raw storage [])) (fst (parse_storage parse_json raw []))
        else requested flags Collect_Storage (fst (parse_storage parse_json raw []))),
     pr_software = requested flags Collect_Software (fst (parse_software parse_json raw [])),
     pr_execution = requested flags Collect_Execution (fst (parse_execution extra raw [])),
     pr_sensors = requested flags Collect_Sensors (Some (parse_sensors raw)),
     pr_accelerator_runtime_visibility =
       (if has flags Collect_Accelerator then runtime_part parse_json raw else [])\<rparr>"
  using dispatched [of raw flags extra parse_json warnings]
  by (simp add: parse_domains_def Let_def health_step_at requested_def pci_flags_def storage_flags_def has_or)

section \<open>The outcome\<close>

lemma has_zero: "\<not> has 0 flag"
  by (simp add: has_def)

abbreviation check_name :: "Collect \<times> string \<times> bool \<Rightarrow> string" where
  "check_name check \<equiv> fst (snd check)"

abbreviation check_passed :: "Collect \<times> string \<times> bool \<Rightarrow> bool" where
  "check_passed check \<equiv> snd (snd check)"

lemma collector_fold:
  "fold (collector_check flags) checks (succeeded, failed) =
     (succeeded @ map check_name (filter check_passed (filter (\<lambda>check. has flags (fst check)) checks)),
      failed @ map check_name (filter (\<lambda>check. \<not> check_passed check) (filter (\<lambda>check. has flags (fst check)) checks)))"
  by (induction checks arbitrary: succeeded failed) (simp_all add: collector_check_def case_prod_unfold)

text \<open>
  What the outcome is compared with, written down without the checks of the code: the names of the domains,
  and for each whether its parser finds something in the evidence.
\<close>

definition domain_names :: "(Collect \<times> string) list" where
  "domain_names =
     [(Collect_Sensors, ''sensors''), (Collect_Platform, ''platform''), (Collect_Cpu, ''cpu''),
      (Collect_Memory, ''memory''), (Collect_Pci, ''pci''), (Collect_Network, ''network''),
      (Collect_Accelerator, ''accelerator''), (Collect_Storage, ''storage''),
      (Collect_StorageHealth, ''storage_health''), (Collect_Software, ''software''),
      (Collect_Execution, ''execution'')]"

definition requested_names :: "Collect \<Rightarrow> string list" where
  "requested_names flags = map snd (filter (\<lambda>domain. has flags (fst domain)) domain_names)"

definition drives_answer :: "(string \<Rightarrow> json) \<Rightarrow> RawStore \<Rightarrow> bool" where
  "drives_answer parse_json raw =
     (case fst (parse_storage parse_json raw []) of
        None \<Rightarrow> False
      | Some storage \<Rightarrow>
          list_ex (\<lambda>report. shr_status report \<in> {Success, Partial})
            (storage_health (fst (parse_storage_health parse_json raw storage []))))"

definition found :: "Machine \<Rightarrow> RawStore \<Rightarrow> Collect \<Rightarrow> bool" where
  "found m raw domain =
     (if domain = Collect_Cpu then fst (parse_cpu raw []) \<noteq> None
      else if domain = Collect_Memory then fst (parse_memory raw []) \<noteq> None
      else if domain = Collect_Pci then fst (parse_pci raw []) \<noteq> None
      else if domain = Collect_Network then fst (parse_network raw []) \<noteq> None
      else if domain = Collect_Accelerator then fst (parse_accelerator (json_parse m) raw []) \<noteq> None
      else if domain = Collect_Storage then fst (parse_storage (json_parse m) raw []) \<noteq> None
      else if domain = Collect_StorageHealth then drives_answer (json_parse m) raw
      else if domain = Collect_Software then fst (parse_software (json_parse m) raw []) \<noteq> None
      else if domain = Collect_Execution then fst (parse_execution (long_double_extra m) raw []) \<noteq> None
      else domain = Collect_Platform \<or> domain = Collect_Sensors)"

lemma requested_names_checks:
  "requested_names flags = map check_name (filter (\<lambda>check. has flags (fst check)) (collector_checks result))"
  by (simp add: requested_names_def domain_names_def collector_checks_def)

lemma distinct_names: "distinct (map snd domain_names)"
  by (simp add: domain_names_def)

lemma all_domains: "foldl collect_or Collect_Raw (map fst domain_names) = full"
  by (simp add: domain_names_def full_eq collect_or_def Collect_defs)

lemma platform_found: "fst (parse_platform raw warnings) \<noteq> None"
  by (simp add: parse_platform_def case_prod_unfold Let_def)

lemma health_available_parsed:
  "has flags Collect_StorageHealth \<Longrightarrow>
   health_available (pr_storage (fst (parse_domains extra parse_json raw flags warnings))) = drives_answer parse_json raw"
  by (simp add: parse_domains_def Let_def health_step_at dispatched requested_def storage_flags_def has_or
    health_available_def drives_answer_def option.map_comp split: option.split)

lemma filter_checks:
  "list_all2 (\<lambda>(domain, name, passed) (domain', name'). domain = domain' \<and> name = name' \<and> (has flags domain \<longrightarrow> passed = f domain))
     checks names \<Longrightarrow>
   filter (\<lambda>check. has flags (fst check)) checks =
     map (\<lambda>(domain, name). (domain, name, f domain)) (filter (\<lambda>domain. has flags (fst domain)) names)"
  by (induction checks names rule: list_all2_induct) auto

lemma requested_checks:
  "filter (\<lambda>check. has flags (fst check))
     (collector_checks (fst (parse_domains (long_double_extra m) (json_parse m) raw flags warnings))) =
   map (\<lambda>(domain, name). (domain, name, found m raw domain))
     (filter (\<lambda>domain. has flags (fst domain)) domain_names)"
proof -
  let ?result = "fst (parse_domains (long_double_extra m) (json_parse m) raw flags warnings)"
  have flags: "Collect_Sensors = 1024" "Collect_Platform = 1" "Collect_Cpu = 2" "Collect_Memory = 4" "Collect_Pci = 64"
    "Collect_Network = 16" "Collect_Accelerator = 8" "Collect_Storage = 32" "Collect_StorageHealth = 2048"
    "Collect_Software = 128" "Collect_Execution = 256"
    by (simp_all add: Collect_defs)
  have parts: "has flags Collect_Sensors \<Longrightarrow> pr_sensors ?result \<noteq> None"
    "has flags Collect_Platform \<Longrightarrow> pr_platform ?result \<noteq> None"
    "has flags Collect_Cpu \<Longrightarrow> pr_cpu ?result = fst (parse_cpu raw [])"
    "has flags Collect_Memory \<Longrightarrow> pr_memory ?result = fst (parse_memory raw [])"
    "has flags Collect_Pci \<Longrightarrow> pr_pci ?result = fst (parse_pci raw [])"
    "has flags Collect_Network \<Longrightarrow> pr_network ?result = fst (parse_network raw [])"
    "has flags Collect_Accelerator \<Longrightarrow> pr_accelerators ?result = fst (parse_accelerator (json_parse m) raw [])"
    "has flags Collect_Storage \<Longrightarrow> pr_storage ?result \<noteq> None \<longleftrightarrow> fst (parse_storage (json_parse m) raw []) \<noteq> None"
    "has flags Collect_Software \<Longrightarrow> pr_software ?result = fst (parse_software (json_parse m) raw [])"
    "has flags Collect_Execution \<Longrightarrow> pr_execution ?result = fst (parse_execution (long_double_extra m) raw [])"
    by (simp_all add: parse_domains_def Let_def health_step_at dispatched requested_def pci_flags_def
      storage_flags_def has_or platform_found del: not_None_eq)
  have founds: "found m raw Collect_Sensors" "found m raw Collect_Platform"
    "found m raw Collect_Cpu = (fst (parse_cpu raw []) \<noteq> None)"
    "found m raw Collect_Memory = (fst (parse_memory raw []) \<noteq> None)"
    "found m raw Collect_Pci = (fst (parse_pci raw []) \<noteq> None)"
    "found m raw Collect_Network = (fst (parse_network raw []) \<noteq> None)"
    "found m raw Collect_Accelerator = (fst (parse_accelerator (json_parse m) raw []) \<noteq> None)"
    "found m raw Collect_Storage = (fst (parse_storage (json_parse m) raw []) \<noteq> None)"
    "found m raw Collect_StorageHealth = drives_answer (json_parse m) raw"
    "found m raw Collect_Software = (fst (parse_software (json_parse m) raw []) \<noteq> None)"
    "found m raw Collect_Execution = (fst (parse_execution (long_double_extra m) raw []) \<noteq> None)"
    by (simp_all add: found_def flags)
  show ?thesis
    by (rule filter_checks)
      (simp add: collector_checks_def domain_names_def founds health_available_parsed parts del: not_None_eq)
qed

lemma recorded:
  "record_collector_status (fst (parse_domains (long_double_extra m) (json_parse m) raw flags warnings)) flags =
     (map snd (filter (\<lambda>(domain, name). has flags domain \<and> found m raw domain) domain_names),
      map snd (filter (\<lambda>(domain, name). has flags domain \<and> \<not> found m raw domain) domain_names))"
  by (simp add: record_collector_status_def collector_fold requested_checks filter_map comp_def case_prod_unfold
    conj_commute)

lemma distinct_partition:
  "distinct (map f xs) \<Longrightarrow> (\<And>x. P x \<Longrightarrow> \<not> Q x) \<Longrightarrow> distinct (map f (filter P xs) @ map f (filter Q xs))"
  by (induction xs) auto

text \<open>C20: the snapshot accounts for every domain of its request, and for nothing else. The eleven domains
  and the raw evidence are all that can be requested. A domain is listed as succeeded exactly when it is
  requested and its parser finds something in the evidence, for the health of drives a report that was
  read at least in part, and as failed exactly when it is requested and its parser finds nothing; the
  lists are in one fixed order, name no domain twice, and a replay that throws found nothing for any
  requested domain.
\<close>

theorem collectors_partition:
  "foldl collect_or Collect_Raw (map fst domain_names) = full \<and>
   (case run_replay m clock raw flags warnings of
      Inl e \<Rightarrow> list_all (\<lambda>(domain, name). \<not> (has flags domain \<and> found m raw domain)) domain_names
    | Inr sys \<Rightarrow>
        meta_succeeded_collectors (sys_meta sys) =
          map snd (filter (\<lambda>(domain, name). has flags domain \<and> found m raw domain) domain_names) \<and>
        meta_failed_collectors (sys_meta sys) =
          map snd (filter (\<lambda>(domain, name). has flags domain \<and> \<not> found m raw domain) domain_names) \<and>
        distinct (meta_succeeded_collectors (sys_meta sys) @ meta_failed_collectors (sys_meta sys)))"
proof -
  obtain result w where r: "parse_domains (long_double_extra m) (json_parse m) raw flags warnings = (result, w)"
    by fastforce
  let ?yes = "filter (\<lambda>(domain, name). has flags domain \<and> found m raw domain) domain_names"
  let ?no = "filter (\<lambda>(domain, name). has flags domain \<and> \<not> found m raw domain) domain_names"
  have status: "record_collector_status result flags = (map snd ?yes, map snd ?no)"
    using recorded [of m raw flags warnings] by (simp add: r)
  have parts: "distinct (map snd ?yes @ map snd ?no)"
    by (rule distinct_partition [OF distinct_names]) auto
  have none: "list_all (\<lambda>(domain, name). \<not> (has flags domain \<and> found m raw domain)) domain_names" if "map snd ?yes = []"
    using that by (auto simp: filter_empty_conv list_all_iff)
  show ?thesis
    using parts none by (simp add: all_domains run_replay_def r status case_prod_unfold Let_def)
qed

lemma always_available:
  "pr_sensors (fst (parse_domains extra parse_json raw flags warnings)) = requested flags Collect_Sensors (Some (parse_sensors raw))"
  "has flags Collect_Platform \<Longrightarrow> pr_platform (fst (parse_domains extra parse_json raw flags warnings)) \<noteq> None"
  by (simp_all add: parse_domains_def Let_def health_step_at dispatched requested_def parse_platform_def case_prod_unfold)

lemma failing_iff:
  "(case record_collector_status result flags of (succeeded, failed) \<Rightarrow> succeeded = [] \<and> failed \<noteq> []) \<longleftrightarrow>
     requested_names flags \<noteq> [] \<and>
     \<not> list_ex (\<lambda>check. has flags (fst check) \<and> check_passed check) (collector_checks result)"
  unfolding requested_names_checks [of flags result] record_collector_status_def collector_fold
  by (auto simp: filter_empty_conv list_ex_iff)

text \<open>C21: a replay fails exactly when something was requested and no requested domain has any evidence. It
  never fails when the platform or the sensors are requested, since their parsers always answer,
  and never when nothing is.
\<close>

theorem replay_fails_iff:
  "(case run_replay m clock raw flags warnings of
      Inl e \<Rightarrow> requested_names flags \<noteq> [] \<and> \<not> has flags Collect_Platform \<and> \<not> has flags Collect_Sensors \<and>
        \<not> list_ex (\<lambda>check. has flags (fst check) \<and> check_passed check)
          (collector_checks (fst (parse_domains (long_double_extra m) (json_parse m) raw flags warnings))) \<and>
        e = all_failed (requested_names flags)
    | Inr sys \<Rightarrow> requested_names flags = [] \<or>
        list_ex (\<lambda>check. has flags (fst check) \<and> check_passed check)
          (collector_checks (fst (parse_domains (long_double_extra m) (json_parse m) raw flags warnings))))"
proof -
  obtain result w where r: "parse_domains (long_double_extra m) (json_parse m) raw flags warnings = (result, w)"
    by fastforce
  obtain succeeded failed where s: "record_collector_status result flags = (succeeded, failed)" by fastforce
  have fails: "succeeded = [] \<and> failed \<noteq> [] \<longleftrightarrow> requested_names flags \<noteq> [] \<and>
      \<not> list_ex (\<lambda>check. has flags (fst check) \<and> check_passed check) (collector_checks result)"
    using failing_iff [of result flags] by (simp add: s)
  have "result = fst (parse_domains (long_double_extra m) (json_parse m) raw flags warnings)" by (simp add: r)
  then have available: "has flags Collect_Sensors \<Longrightarrow> pr_sensors result \<noteq> None"
    "has flags Collect_Platform \<Longrightarrow> pr_platform result \<noteq> None"
    using always_available by (simp_all add: requested_def)
  show ?thesis
  proof (cases "succeeded = [] \<and> failed \<noteq> []")
    case True
    then have none: "\<not> list_ex (\<lambda>check. has flags (fst check) \<and> check_passed check) (collector_checks result)"
      using fails by blast
    then have "\<not> has flags Collect_Platform" "\<not> has flags Collect_Sensors"
      using available by (auto simp: collector_checks_def)
    moreover have "failed = requested_names flags"
    proof -
      have "filter (\<lambda>check. \<not> check_passed check) (filter (\<lambda>check. has flags (fst check)) (collector_checks result)) =
          filter (\<lambda>check. has flags (fst check)) (collector_checks result)"
        using none by (auto simp: list_ex_iff intro!: filter_cong)
      then show ?thesis
        using s by (auto simp: record_collector_status_def collector_fold requested_names_checks [of flags result])
    qed
    ultimately show ?thesis using True fails by (simp add: run_replay_def r s)
  next
    case False
    then have "\<not> (requested_names flags \<noteq> [] \<and>
        \<not> list_ex (\<lambda>check. has flags (fst check) \<and> check_passed check) (collector_checks result))"
      using fails by blast
    with False show ?thesis
      by (auto simp: run_replay_def r s case_prod_unfold Let_def list_all_iff list_ex_iff)
  qed
qed

section \<open>Replaying the evidence\<close>

definition timed :: "int \<times> int \<Rightarrow> System \<Rightarrow> System" where
  "timed clock sys = sys\<lparr>sys_meta := (sys_meta sys)\<lparr>meta_collect_time := fst clock, meta_collect_duration := snd clock\<rparr>\<rparr>"

lemma run_replay_clock: "run_replay m clock raw flags warnings = map_sum id (timed clock) (run_replay m clock' raw flags warnings)"
  by (simp add: run_replay_def case_prod_unfold Let_def timed_def)

lemma run_replay_meta:
  "run_replay m clock raw flags warnings = Inr sys \<Longrightarrow> sys_raw sys = None \<and> meta_requested_flags (sys_meta sys) = flags \<and>
     meta_collection_request (sys_meta sys) = raw_collection_request raw \<and> timed clock sys = sys"
  by (auto simp: run_replay_def case_prod_unfold Let_def timed_def split: if_splits)

text \<open>C3: a snapshot is a function of its evidence: a collection that asks for the raw evidence stores
  exactly what was read, and replaying it gives the same snapshot, warnings and errors again. An
  exception that leaves a reader leaves the collection.
\<close>

theorem replay_reproduces:
  "case read_evidence m flags options of
     None \<Rightarrow> run_pipeline m clock replay_clock flags options warnings = Inl ForeignException
   | Some raw \<Rightarrow>
       (case run_pipeline m clock replay_clock flags options warnings of
          Inl e \<Rightarrow> run_replay m clock raw flags warnings = Inl e
        | Inr sys \<Rightarrow>
            sys_raw sys = (if has flags Collect_Raw then Some raw else None) \<and>
            meta_requested_flags (sys_meta sys) = flags \<and>
            run_replay m clock raw flags warnings = Inr (sys\<lparr>sys_raw := None\<rparr>))"
proof (cases "read_evidence m flags options")
  case None
  then show ?thesis by (simp add: run_pipeline_def)
next
  case (Some raw)
  have replay: "run_replay m clock raw flags warnings =
      map_sum id (timed clock) (run_replay m replay_clock raw flags warnings)" by (rule run_replay_clock)
  show ?thesis
  proof (cases "run_replay m replay_clock raw flags warnings")
    case (Inl e)
    then show ?thesis using replay Some by (simp add: run_pipeline_def)
  next
    case (Inr sys)
    have "timed clock sys = (timed clock sys)\<lparr>sys_raw := None\<rparr>"
      using run_replay_meta [OF Inr] by (simp add: timed_def)
    then show ?thesis
      using replay run_replay_meta [OF Inr] Some by (simp add: run_pipeline_def Inr timed_def)
  qed
qed

section \<open>Refreshing a snapshot\<close>

text \<open>A snapshot changes through refreshes, at any readings of the clocks, that may fail.\<close>

inductive refreshed :: "Machine \<Rightarrow> System \<Rightarrow> System \<Rightarrow> bool" for m where
  refreshed: "refresh m clock replay_clock sys = (e, sys') \<Longrightarrow> refreshed m sys sys'"

inductive_cases refreshedE: "refreshed m sys sys'"

definition keeps_request :: "Machine \<Rightarrow> bool" where
  "keeps_request m \<longleftrightarrow> (\<forall>flags options raw.
     pred_option (\<lambda>raw'. raw_collection_request raw' = raw_collection_request raw) (procfs_reader m flags options raw) \<and>
     pred_option (\<lambda>raw'. raw_collection_request raw' = raw_collection_request raw) (sysfs_reader m flags options raw))"

definition made_with :: "Collect \<Rightarrow> CollectOptions \<Rightarrow> System \<Rightarrow> bool" where
  "made_with flags options sys \<longleftrightarrow> meta_requested_flags (sys_meta sys) = flags \<and>
     meta_collection_request (sys_meta sys) = Some \<lparr>req_flags = flags, req_options = options\<rparr>"

lemma run_pipeline_made_with:
  assumes "keeps_request m" "run_pipeline m clock replay_clock flags options warnings = Inr sys"
  shows "made_with flags options sys"
proof -
  obtain raw fresh where raw: "read_evidence m flags options = Some raw"
    and fresh: "run_replay m replay_clock raw flags warnings = Inr fresh"
    "sys_meta sys = (sys_meta fresh)\<lparr>meta_collect_time := fst clock, meta_collect_duration := snd clock\<rparr>"
    using assms(2) by (auto simp: run_pipeline_def Let_def split: sum.splits option.splits)
  obtain read where read: "procfs_reader m flags options
      (RawStore_default\<lparr>raw_collection_request := Some \<lparr>req_flags = flags, req_options = options\<rparr>\<rparr>) = Some read"
    "sysfs_reader m flags options read = Some raw"
    using raw by (auto simp: read_evidence_def Let_def bind_eq_Some_conv)
  have "raw_collection_request raw = Some \<lparr>req_flags = flags, req_options = options\<rparr>"
    using assms(1) read by (fastforce simp: keeps_request_def option.pred_set)
  then show ?thesis using run_replay_meta [OF fresh(1)] by (simp add: made_with_def fresh(2))
qed

lemma refreshed_made_with:
  assumes "keeps_request m" "refreshed m sys sys'" "made_with flags options sys"
  shows "made_with flags options sys'"
  using assms(2)
proof (rule refreshedE)
  fix clock replay_clock e
  assume r: "refresh m clock replay_clock sys = (e, sys')"
  have "sys' = sys \<or> run_pipeline m clock replay_clock flags options [] = Inr sys'"
    using r assms(3) by (auto simp: refresh_def made_with_def collect_system_def split: option.splits sum.splits)
  then show ?thesis using assms run_pipeline_made_with by blast
qed

text \<open>C22: however often a snapshot is refreshed and whichever refreshes fail, it stays a snapshot of the
  same request: the domains and the acquisition options of the first collection. The readers are
  relied on not to touch the request in the store.
\<close>

theorem refresh_keeps_request:
  assumes "keeps_request m" "(refreshed m)\<^sup>*\<^sup>* sys sys'" "made_with flags options sys"
  shows "made_with flags options sys'"
  using assms(2,3)
proof (induction rule: rtranclp_induct)
  case base
  then show ?case .
next
  case (step mid sys')
  then show ?case using refreshed_made_with [OF assms(1)] by blast
qed

lemma replay_answers:
  assumes "has flags Collect_Platform \<or> has flags Collect_Sensors"
  obtains sys where "run_replay m clock raw flags warnings = Inr sys"
proof -
  define result where "result = fst (parse_domains (long_double_extra m) (json_parse m) raw flags warnings)"
  have "has flags Collect_Platform \<and> pr_platform result \<noteq> None \<or> has flags Collect_Sensors \<and> pr_sensors result \<noteq> None"
    using assms always_available [where extra = "long_double_extra m" and parse_json = "json_parse m" and raw = raw
      and flags = flags and warnings = warnings]
    by (auto simp: requested_def simp flip: result_def)
  then have "list_ex (\<lambda>check. has flags (fst check) \<and> check_passed check) (collector_checks result)"
    by (auto simp: collector_checks_def)
  then have "\<not> (case record_collector_status result flags of (succeeded, failed) \<Rightarrow> succeeded = [] \<and> failed \<noteq> [])"
    by (simp add: failing_iff)
  then have "\<exists>sys. run_replay m clock raw flags warnings = Inr sys"
    by (simp add: run_replay_def case_prod_unfold Let_def result_def)
  then show ?thesis using that by blast
qed

text \<open>C36: a refresh of a snapshot whose request is valid and names the platform or the sensors always
  completes with a fresh snapshot, whatever the machine has become in the meantime, provided its readers
  return.
\<close>

theorem refresh_completes:
  assumes "meta_collection_request (sys_meta sys) = Some request"
    and "request_validate \<lparr>req_flags = meta_requested_flags (sys_meta sys), req_options = req_options request\<rparr> = None"
    and "has (meta_requested_flags (sys_meta sys)) Collect_Platform \<or> has (meta_requested_flags (sys_meta sys)) Collect_Sensors"
    and "read_evidence m (meta_requested_flags (sys_meta sys)) (req_options request) = Some raw"
  shows "case refresh m clock replay_clock sys of (e, fresh) \<Rightarrow> e = None \<and> meta_collect_time (sys_meta fresh) = fst clock"
proof -
  obtain fresh where "run_replay m replay_clock raw (meta_requested_flags (sys_meta sys)) [] = Inr fresh"
    using replay_answers [OF assms(3)] .
  then show ?thesis by (simp add: refresh_def assms(1,2,4) collect_system_def run_pipeline_def Let_def)
qed

definition empty_machine :: Machine where
  "empty_machine = \<lparr>long_double_extra = 0, json_parse = \<lambda>_. Json_Discarded, procfs_reader = \<lambda>_ _. Some,
     sysfs_reader = \<lambda>_ _. Some\<rparr>"

definition first_snapshot :: System where
  "first_snapshot = projr (run_replay empty_machine (0, 0)
     (the (read_evidence empty_machine Collect_Sensors CollectOptions_default)) Collect_Sensors [])"

lemma first_snapshot_made_with: "made_with Collect_Sensors CollectOptions_default first_snapshot"
proof -
  have "has Collect_Sensors Collect_Sensors" by code_simp
  then obtain sys where sys: "run_replay empty_machine (0, 0)
      (the (read_evidence empty_machine Collect_Sensors CollectOptions_default)) Collect_Sensors [] = Inr sys"
    using replay_answers by blast
  then show ?thesis
    using run_replay_meta [OF sys]
    by (simp add: first_snapshot_def made_with_def read_evidence_def empty_machine_def Let_def)
qed

theorem refresh_keeps_request_witness:
  "made_with Collect_Sensors CollectOptions_default (snd (refresh empty_machine (1, 2) (3, 4) first_snapshot))"
proof (rule refresh_keeps_request [OF _ r_into_rtranclp first_snapshot_made_with])
  show "keeps_request empty_machine" by (simp add: keeps_request_def empty_machine_def)
  show "refreshed empty_machine first_snapshot (snd (refresh empty_machine (1, 2) (3, 4) first_snapshot))"
    by (rule refreshed.refreshed) (simp add: prod_eq_iff)
qed

theorem refresh_completes_witness:
  "fst (refresh empty_machine (1, 2) (3, 4) first_snapshot) = None \<and>
   meta_collect_time (sys_meta (snd (refresh empty_machine (1, 2) (3, 4) first_snapshot))) = 1"
proof -
  have made: "meta_collection_request (sys_meta first_snapshot) =
      Some \<lparr>req_flags = Collect_Sensors, req_options = CollectOptions_default\<rparr>"
    "meta_requested_flags (sys_meta first_snapshot) = Collect_Sensors"
    using first_snapshot_made_with by (simp_all add: made_with_def)
  have "request_validate \<lparr>req_flags = Collect_Sensors, req_options = CollectOptions_default\<rparr> = None"
    "has Collect_Sensors Collect_Sensors" by code_simp+
  moreover obtain raw where "read_evidence empty_machine Collect_Sensors CollectOptions_default = Some raw"
    by (simp add: read_evidence_def empty_machine_def Let_def)
  ultimately show ?thesis
    using refresh_completes [OF made(1), where m = empty_machine and clock = "(1, 2)" and replay_clock = "(3, 4)"]
    by (simp add: made(2) case_prod_unfold)
qed

end
