(* ===== verification/Json_Codec.thy ===== *)
theory Json_Codec
  imports Json "HOL-Library.Monad_Syntax"
begin

text \<open>
  What the files of \<open>src/serialization/\<close> share (\<open>json_values.hpp\<close>): objects written field by field and
  read back key by key. A reader that throws is \<^const>\<open>None\<close>: whatever it throws, the callers of
  \<open>from_json\<close> and \<open>load_raw_store\<close> see a \<open>DeserializationError\<close>. A signed number is written in the form
  in which its text is read back, a non-negative one as an unsigned number; the readers, and the
  equality of the library, treat both forms alike. The contract of a struct is \<open>json_codec\<close>: its
  reader undoes its writer on the values the reader can yield, and on no others.
\<close>

section \<open>Objects\<close>

text \<open>An object is written as the list of its keys, each of them once; \<^const>\<open>None\<close> for a key that is left
  out.\<close>

fun members_of :: "(string \<times> json option) list \<Rightarrow> (string, json) std_map" where
  "members_of [] = []"
| "members_of ((key, v) # ms) =
     (let rest = filter (\<lambda>m. fst m \<noteq> key) (members_of ms) in
      case v of None \<Rightarrow> rest | Some j \<Rightarrow> map_put key j rest)"

definition json_object :: "(string \<times> json option) list \<Rightarrow> json" where
  "json_object ms = Json_Object (members_of ms)"

fun field_of :: "(string \<times> json option) list \<Rightarrow> string \<Rightarrow> json option" where
  "field_of [] key = None"
| "field_of ((k, v) # ms) key = (if k = key then v else field_of ms key)"

lemma map_of_filter_key: "map_of (filter (\<lambda>m. fst m \<noteq> k) m) key = (if key = k then None else map_of m key)"
  by (induction m) auto

lemma map_invar_filter: "map_invar m \<Longrightarrow> map_invar (filter P m)"
  by (induction m) (auto simp: map_invar_def)

lemma map_of_members_of: "map_invar (members_of ms) \<and> map_of (members_of ms) key = field_of ms key"
  by (induction ms rule: members_of.induct)
    (auto simp: Let_def map_of_put map_of_filter_key map_invar_filter split: option.split)

lemma json_find_object [simp]: "json_find (json_object ms) key = field_of ms key"
  by (simp add: json_object_def map_of_members_of)

lemma is_object_json_object [simp]: "is_object (json_object ms)"
  by (simp add: json_object_def)

text \<open>A string or a list that is left out when it is empty.\<close>

definition text_unless_empty :: "string \<Rightarrow> json option" where
  "text_unless_empty s = (if s = [] then None else Some (Json_String s))"

definition list_json :: "('a \<Rightarrow> json) \<Rightarrow> 'a list \<Rightarrow> json" where
  "list_json put xs = Json_Array (map put xs)"

definition list_unless_empty :: "('a \<Rightarrow> json) \<Rightarrow> 'a list \<Rightarrow> json option" where
  "list_unless_empty put xs = (if xs = [] then None else Some (list_json put xs))"

section \<open>Reading\<close>

text \<open>\<open>j.at(key)\<close> with a reader; \<open>if(j.contains(key)) x = \<dots>\<close> for an optional field, and for one
  that has a value already; \<open>j.value(key, std::string{})\<close>.\<close>

definition needed :: "(json \<Rightarrow> 'a option) \<Rightarrow> json option \<Rightarrow> 'a option" where
  "needed read v = Option.bind v read"

definition maybe :: "(json \<Rightarrow> 'a option) \<Rightarrow> json option \<Rightarrow> 'a option option" where
  "maybe read v = (case v of None \<Rightarrow> Some None | Some j \<Rightarrow> map_option Some (read j))"

definition given :: "(json \<Rightarrow> 'a option) \<Rightarrow> 'a \<Rightarrow> json option \<Rightarrow> 'a option" where
  "given read d v = (case v of None \<Rightarrow> Some d | Some j \<Rightarrow> read j)"

definition json_value :: "json \<Rightarrow> string \<Rightarrow> string option" where
  "json_value j key = (if is_object j then given json_string [] (json_find j key) else None)"

definition name_value :: "json \<Rightarrow> string \<Rightarrow> 'tag named_string option" where
  "name_value j key = map_option NamedString (json_value j key)"

text \<open>A range-based loop visits the elements of an array, the values of an object, nothing for null,
  and any other value itself; \<open>get_ref<const json::array_t &>\<close> takes arrays only.\<close>

fun json_items :: "json \<Rightarrow> json list" where
  "json_items (Json_Array xs) = xs"
| "json_items (Json_Object ms) = map snd ms"
| "json_items Json_Null = []"
| "json_items j = [j]"

definition list_of :: "(json \<Rightarrow> 'a option) \<Rightarrow> json \<Rightarrow> 'a list option" where
  "list_of read j = those (map read (json_items j))"

definition array_of :: "(json \<Rightarrow> 'a option) \<Rightarrow> json \<Rightarrow> 'a list option" where
  "array_of read j = Option.bind (json_array j) (\<lambda>xs. those (map read xs))"

section \<open>The contract\<close>

lemma needed_Some [simp]: "needed read (Some j) = read j"
  by (simp add: needed_def)

lemma maybe_None [simp]: "maybe read None = Some None"
  by (simp add: maybe_def)

lemma given_simps [simp]: "given read d (Some j) = read j" "given read d None = Some d"
  by (simp_all add: given_def)

lemma text_written [simp]: "given json_string [] (text_unless_empty s) = Some s"
  by (simp add: text_unless_empty_def)

lemma json_value_object [simp]: "json_value (json_object ms) key = given json_string [] (field_of ms key)"
  by (simp add: json_value_def)

definition boolean_value :: "json \<Rightarrow> string \<Rightarrow> bool \<Rightarrow> bool option" where
  "boolean_value j key d = (if is_object j then given json_boolean d (json_find j key) else None)"

definition texts_value :: "json \<Rightarrow> string \<Rightarrow> string list option" where
  "texts_value j key = (if is_object j then given (array_of json_string) [] (json_find j key) else None)"

lemma value_objects [simp]:
  "boolean_value (json_object ms) key d = given json_boolean d (field_of ms key)"
  "texts_value (json_object ms) key = given (array_of json_string) [] (field_of ms key)"
  by (simp_all add: boolean_value_def texts_value_def)

lemma those_Some_iff: "those xs = Some ys \<longleftrightarrow> xs = map Some ys"
  by (induction xs arbitrary: ys) (auto split: option.split)

lemma pred_True [simp]: "list_all (\<lambda>_. True) = (\<lambda>_. True)" "pred_option (\<lambda>_. True) = (\<lambda>_. True)"
  by (simp_all add: list.pred_True option.pred_True)

text \<open>What a reader yields satisfies the invariant, and the invariant carries over to optional and repeated fields.\<close>

locale reader_codec =
  fixes read :: "json \<Rightarrow> 'a option"
    and ok :: "'a \<Rightarrow> bool"
  assumes decoded: "read j = Some x \<Longrightarrow> ok x"
begin

lemma needed_decoded: "needed read v = Some x \<Longrightarrow> ok x"
  by (auto simp: needed_def bind_eq_Some_conv dest: decoded)

lemma maybe_decoded: "maybe read v = Some x \<Longrightarrow> pred_option ok x"
  by (auto simp: maybe_def dest: decoded split: option.splits)

lemma given_decoded: "given read d v = Some x \<Longrightarrow> ok d \<Longrightarrow> ok x"
  by (auto simp: given_def dest: decoded split: option.splits)

lemma those_decoded: "those (map read js) = Some xs \<Longrightarrow> list_all ok xs"
proof (induction js arbitrary: xs)
  case (Cons j js)
  then show ?case by (auto dest: decoded split: option.splits)
qed simp

lemma list_decoded: "list_of read j = Some xs \<Longrightarrow> list_all ok xs" "array_of read j = Some xs \<Longrightarrow> list_all ok xs"
  by (auto simp: list_of_def array_of_def bind_eq_Some_conv dest: those_decoded)

lemma needed_list_decoded: "needed (list_of read) v = Some xs \<Longrightarrow> list_all ok xs"
  by (auto simp: needed_def bind_eq_Some_conv dest: list_decoded)

lemma given_list_decoded:
  "given (list_of read) [] v = Some xs \<Longrightarrow> list_all ok xs" "given (array_of read) [] v = Some xs \<Longrightarrow> list_all ok xs"
  by (auto simp: given_def dest: list_decoded split: option.splits)

end

locale json_codec = reader_codec read ok
  for put :: "'a \<Rightarrow> json" and read :: "json \<Rightarrow> 'a option" and ok :: "'a \<Rightarrow> bool" +
  assumes written [simp]: "ok x \<Longrightarrow> read (put x) = Some x"
begin

lemma ok_iff: "ok x \<longleftrightarrow> read (put x) = Some x"
  using decoded by auto

lemma maybe_written [simp]: "pred_option ok v \<Longrightarrow> maybe read (map_option put v) = Some v"
  by (cases v) (simp_all add: maybe_def)

lemma maybe_one_written [simp]: "ok x \<Longrightarrow> maybe read (Some (put x)) = Some (Some x)"
  by (simp add: maybe_def)

lemma those_written: "list_all ok xs \<Longrightarrow> those (map (\<lambda>x. read (put x)) xs) = Some xs"
  by (induction xs) simp_all

lemma list_written [simp]: "list_all ok xs \<Longrightarrow> list_of read (list_json put xs) = Some xs"
  by (simp add: list_of_def list_json_def comp_def those_written)

lemma array_written [simp]: "list_all ok xs \<Longrightarrow> array_of read (list_json put xs) = Some xs"
  by (simp add: array_of_def list_json_def comp_def those_written)

lemma given_list_written [simp]:
  "list_all ok xs \<Longrightarrow> given (list_of read) [] (list_unless_empty put xs) = Some xs"
  "list_all ok xs \<Longrightarrow> given (array_of read) [] (list_unless_empty put xs) = Some xs"
  by (simp_all add: list_unless_empty_def)

lemma maybe_list_written [simp]:
  "pred_option (list_all ok) v \<Longrightarrow> maybe (list_of read) (map_option (list_json put) v) = Some v"
  by (cases v) (simp_all add: maybe_def)

end

text \<open>A writer that may throw (\<open>SerializationError\<close>), and so the writers that call it.\<close>

definition put_needed :: "('a \<Rightarrow> json option) \<Rightarrow> 'a \<Rightarrow> json option option" where
  "put_needed put x = map_option Some (put x)"

definition put_maybe :: "('a \<Rightarrow> json option) \<Rightarrow> 'a option \<Rightarrow> json option option" where
  "put_maybe put v = (case v of None \<Rightarrow> Some None | Some x \<Rightarrow> map_option Some (put x))"

definition put_list :: "('a \<Rightarrow> json option) \<Rightarrow> 'a list \<Rightarrow> json option option" where
  "put_list put xs = map_option (\<lambda>js. Some (Json_Array js)) (those (map put xs))"

definition put_list_unless_empty :: "('a \<Rightarrow> json option) \<Rightarrow> 'a list \<Rightarrow> json option option" where
  "put_list_unless_empty put xs = (if xs = [] then Some None else put_list put xs)"

locale fallible_codec = reader_codec read ok
  for put :: "'a \<Rightarrow> json option" and read :: "json \<Rightarrow> 'a option" and ok :: "'a \<Rightarrow> bool" +
  assumes bind_written: "ok x \<Longrightarrow> Option.bind (put x) read = Some x"
begin

lemma written: "ok x \<Longrightarrow> \<exists>j. put x = Some j \<and> read j = Some x"
  using bind_written by (simp add: bind_eq_Some_conv)

lemma put_needed_written: "ok x \<Longrightarrow> \<exists>j. put_needed put x = Some (Some j) \<and> read j = Some x"
  by (auto simp: put_needed_def dest: written)

lemma put_maybe_written: "pred_option ok v \<Longrightarrow> \<exists>j. put_maybe put v = Some j \<and> maybe read j = Some v"
  by (cases v) (auto simp: put_maybe_def maybe_def dest: written)

lemma those_written: "list_all ok xs \<Longrightarrow> \<exists>js. those (map put xs) = Some js \<and> those (map read js) = Some xs"
  by (induction xs) (auto dest: written)

lemma put_list_written: "list_all ok xs \<Longrightarrow> \<exists>j. put_list put xs = Some (Some j) \<and> list_of read j = Some xs"
  by (auto simp: put_list_def list_of_def dest: those_written)

lemma put_list_unless_empty_written:
  "list_all ok xs \<Longrightarrow> \<exists>j. put_list_unless_empty put xs = Some j \<and> given (list_of read) [] j = Some xs"
  by (auto simp: put_list_unless_empty_def dest: put_list_written)

end

section \<open>Numbers, texts and names\<close>

definition checked_unsigned :: "json \<Rightarrow> u64 \<Rightarrow> u64 option" where
  "checked_unsigned j maximum =
     (case json_unsigned j of None \<Rightarrow> None | Some v \<Rightarrow> if v > maximum then None else Some v)"

definition uint32_from_json :: "json \<Rightarrow> u32 option" where
  "uint32_from_json j = map_option ucast (checked_unsigned j u32_max)"

definition uint64_from_json :: "json \<Rightarrow> u64 option" where
  "uint64_from_json j = checked_unsigned j (- 1)"

text \<open>A checked number that is cast to a smaller unsigned type, and a number of such a type as JSON.\<close>

definition bounded_from_json :: "u64 \<Rightarrow> json \<Rightarrow> 'a::len word option" where
  "bounded_from_json maximum j = map_option ucast (checked_unsigned j maximum)"

definition word_json :: "'a::len word \<Rightarrow> json" where
  "word_json v = Json_Unsigned (ucast v)"

definition int_json :: "'a::len word \<Rightarrow> json" where
  "int_json v = (if 0 \<le> sint v then Json_Unsigned (word_of_int (sint v)) else Json_Integer (word_of_int (sint v)))"

definition id_json :: "('a::len word, 'tag) strong_id \<Rightarrow> json" where
  "id_json i = word_json (id_value i)"

definition id_from_json :: "json \<Rightarrow> (u32, 'tag) strong_id option" where
  "id_from_json j = map_option StrongId (uint32_from_json j)"

definition unit_json :: "'tag scalar_unit \<Rightarrow> json" where
  "unit_json u = Json_Unsigned (unit_value u)"

definition unit_from_json :: "json \<Rightarrow> 'tag scalar_unit option" where
  "unit_from_json j = map_option ScalarUnit (uint64_from_json j)"

definition name_json :: "'tag named_string \<Rightarrow> json" where
  "name_json n = Json_String (str_value n)"

definition name_from_json :: "json \<Rightarrow> 'tag named_string option" where
  "name_from_json j = map_option NamedString (json_string j)"

definition name_unless_empty :: "'tag named_string \<Rightarrow> json option" where
  "name_unless_empty n = text_unless_empty (str_value n)"

lemma checked_unsigned_bound: "checked_unsigned j maximum = Some v \<Longrightarrow> v \<le> maximum"
  by (auto simp: checked_unsigned_def split: option.splits if_splits)

lemma sign_mod: "0 \<le> u \<Longrightarrow> u < 18446744073709551616 \<Longrightarrow>
   (0 \<le> (u + 9223372036854775808) mod 18446744073709551616 - (9223372036854775808 :: int)) = (u \<le> 9223372036854775807)"
proof (cases "u < 9223372036854775808")
  case False
  assume "u < 18446744073709551616"
  then have "(u + 9223372036854775808) mod 18446744073709551616 = u - 9223372036854775808"
    using False by (subst mod_pos_geq) simp_all
  then show ?thesis using False \<open>u < 18446744073709551616\<close> by simp
qed simp

lemma sint_sign: "0 \<le> sint (x :: i64) \<longleftrightarrow> x \<le> 0x7fffffffffffffff"
proof -
  have u: "uint x < 2 ^ 64" "0 \<le> uint x" using uint_lt2p [of x] by simp_all
  have s: "sint x = (uint x + 2 ^ 63) mod 2 ^ 64 - 2 ^ 63"
    by (simp add: sint_uint signed_take_bit_eq_take_bit_shift take_bit_eq_mod)
  have le: "x \<le> 0x7fffffffffffffff \<longleftrightarrow> uint x \<le> uint (0x7fffffffffffffff :: i64)"
    by (rule word_le_def)
  show ?thesis using sign_mod [of "uint x"] u unfolding s le by simp
qed

lemma ucast_back: "LENGTH('a::len) \<le> 64 \<Longrightarrow> (ucast (ucast (v :: 'a word) :: u64) :: 'a word) = v"
  by transfer simp

lemma bounded_codec:
  fixes maximum :: u64
  assumes "unat maximum < 2 ^ LENGTH('a::len)"
  shows "json_codec (word_json :: 'a word \<Rightarrow> json) (bounded_from_json maximum) (\<lambda>v. unat v \<le> unat maximum)"
proof
  fix v :: "'a word"
  assume v: "unat v \<le> unat maximum"
  also have "\<dots> < 2 ^ 64" using unsigned_less [of maximum, where ?'a = nat] by simp
  finally have small: "unat (ucast v :: u64) = unat v"
    by (simp add: unsigned_ucast_eq take_bit_nat_eq_self)
  have "ucast (ucast v :: u64) = v"
    using small by (metis of_nat_unat ucast_id word_of_nat_eq_iff unsigned_ucast_eq)
  then show "bounded_from_json maximum (word_json v) = Some v"
    using v by (simp add: bounded_from_json_def word_json_def checked_unsigned_def word_less_nat_alt small)
next
  fix j and v :: "'a word"
  assume "bounded_from_json maximum j = Some v"
  then obtain w where w: "w \<le> maximum" "v = ucast w"
    by (auto simp: bounded_from_json_def dest: checked_unsigned_bound)
  then have "unat w \<le> unat maximum" by (simp add: word_le_nat_alt)
  moreover from this have "unat v = unat w"
    using assms by (simp add: w(2) unsigned_ucast_eq take_bit_nat_eq_self)
  ultimately show "unat v \<le> unat maximum" by simp
qed

lemma u32_max_bound: "unat u32_max < 2 ^ 32" "unat (v :: u32) \<le> unat u32_max"
  using unsigned_less [of v, where ?'a = nat] by simp_all

lemma uint32_bounded: "uint32_from_json = bounded_from_json u32_max"
  by (simp add: fun_eq_iff uint32_from_json_def bounded_from_json_def)

interpretation u32: json_codec "word_json :: u32 \<Rightarrow> json" uint32_from_json "\<lambda>_. True"
proof -
  have "json_codec (word_json :: u32 \<Rightarrow> json) uint32_from_json (\<lambda>v. unat v \<le> unat u32_max)"
    unfolding uint32_bounded by (rule bounded_codec) (simp add: u32_max_bound)
  moreover have "(\<lambda>v :: u32. unat v \<le> unat u32_max) = (\<lambda>_. True)" using u32_max_bound(2) by simp
  ultimately show "json_codec (word_json :: u32 \<Rightarrow> json) uint32_from_json (\<lambda>_. True)" by simp
qed

interpretation u64: json_codec Json_Unsigned uint64_from_json "\<lambda>_. True"
  by unfold_locales (simp_all add: uint64_from_json_def checked_unsigned_def word_order.extremum_strict
    word_coorder.extremum_strict)

interpretation u8: json_codec "word_json :: u8 \<Rightarrow> json" "bounded_from_json 0xff" "\<lambda>_. True"
proof -
  have "json_codec (word_json :: u8 \<Rightarrow> json) (bounded_from_json 0xff) (\<lambda>v. unat v \<le> unat (0xff :: u64))"
    by (rule bounded_codec) simp
  moreover have "(\<lambda>v :: u8. unat v \<le> unat (0xff :: u64)) = (\<lambda>_. True)"
  proof
    fix v :: u8
    show "(unat v \<le> unat (0xff :: u64)) = True" using unsigned_less [of v, where ?'a = nat] by simp
  qed
  ultimately show "json_codec (word_json :: u8 \<Rightarrow> json) (bounded_from_json 0xff) (\<lambda>_. True)" by simp
qed

interpretation strong_id: json_codec id_json id_from_json "\<lambda>_. True"
  by unfold_locales (simp_all add: id_json_def id_from_json_def)

interpretation scalar_unit: json_codec unit_json unit_from_json "\<lambda>_. True"
  by unfold_locales (simp_all add: unit_json_def unit_from_json_def)

interpretation named_string: json_codec name_json name_from_json "\<lambda>_. True"
  by unfold_locales (simp_all add: name_json_def name_from_json_def)

interpretation texts: json_codec Json_String json_string "\<lambda>_. True"
  by unfold_locales simp_all

interpretation boolean: json_codec Json_Boolean json_boolean "\<lambda>_. True"
  by unfold_locales simp_all

lemma name_value_object [simp]:
  "name_value (json_object ms) key = map_option NamedString (given json_string [] (field_of ms key))"
  by (simp add: name_value_def)

lemma name_written [simp]:
  "map_option NamedString (given json_string [] (name_unless_empty n)) = Some n"
  "json_string (name_json n) = Some (str_value n)"
  by (simp_all add: name_unless_empty_def name_json_def)

section \<open>Enumerations\<close>

text \<open>An enumerator is its position in the declaration; \<open>validate_enum\<close> rejects what lies beyond the given
  last one, and so does the check of a number of 64 bits that some files make directly.\<close>

fun position :: "'a \<Rightarrow> 'a list \<Rightarrow> nat" where
  "position x [] = 0"
| "position x (y # ys) = (if x = y then 0 else Suc (position x ys))"

definition enum_json :: "'a list \<Rightarrow> 'a \<Rightarrow> json" where
  "enum_json enumerators x = Json_Unsigned (word_of_nat (position x enumerators))"

definition validate_enum :: "'a list \<Rightarrow> 'a \<Rightarrow> json \<Rightarrow> 'a option" where
  "validate_enum enumerators greatest j =
     Option.bind (uint32_from_json j) (\<lambda>v.
       if unat v > position greatest enumerators then None else Some (enumerators ! unat v))"

definition checked_enum :: "'a list \<Rightarrow> 'a \<Rightarrow> json \<Rightarrow> 'a option" where
  "checked_enum enumerators greatest j =
     map_option (\<lambda>v. enumerators ! unat v) (checked_unsigned j (word_of_nat (position greatest enumerators)))"

lemma position_found: "x \<in> set xs \<Longrightarrow> position x xs < length xs \<and> xs ! position x xs = x"
  by (induction xs) auto

lemma position_nth: "distinct xs \<Longrightarrow> i < length xs \<Longrightarrow> position (xs ! i) xs = i"
  by (induction xs arbitrary: i) (auto simp: nth_Cons split: nat.split)

lemma unat_position:
  assumes "length xs \<le> 1000" "x \<in> set xs"
  shows "unat (word_of_nat (position x xs) :: u64) = position x xs"
proof -
  have "position x xs < length xs" using position_found [OF assms(2)] by simp
  also have "\<dots> < 2 ^ 64" using assms(1) by simp
  finally show ?thesis by (simp add: unsigned_of_nat take_bit_nat_eq_self)
qed

lemma checked_enum_codec:
  assumes "length xs \<le> 1000" "distinct xs" "\<And>x. x \<in> set xs"
  shows "json_codec (enum_json xs) (checked_enum xs greatest) (\<lambda>x. position x xs \<le> position greatest xs)"
proof
  fix x
  assume x: "position x xs \<le> position greatest xs"
  then have "\<not> word_of_nat (position x xs) > (word_of_nat (position greatest xs) :: u64)"
    using assms(1,3) by (simp add: word_less_nat_alt unat_position)
  then show "checked_enum xs greatest (enum_json xs x) = Some x"
    using assms(1,3) by (simp add: checked_enum_def enum_json_def checked_unsigned_def unat_position position_found)
next
  fix j x
  assume "checked_enum xs greatest j = Some x"
  then obtain v :: u64 where v: "v \<le> word_of_nat (position greatest xs)" "x = xs ! unat v"
    by (auto simp: checked_enum_def dest: checked_unsigned_bound)
  then have "unat v \<le> position greatest xs" using assms(1,3) by (simp add: word_le_nat_alt unat_position)
  moreover from this have "unat v < length xs" using position_found [OF assms(3) [of greatest]] by simp
  ultimately show "position x xs \<le> position greatest xs" using assms(2) by (simp add: v(2) position_nth)
qed

lemma validate_enum_checked:
  assumes "length xs \<le> 1000" "greatest \<in> set xs"
  shows "validate_enum xs greatest = checked_enum xs greatest"
proof
  fix j
  let ?p = "position greatest xs"
  have p: "?p < 1000" using position_found [OF assms(2)] assms(1) by simp
  have small: "unat (ucast v :: u32) = unat v" if "unat v \<le> 4294967295" for v :: u64
    using that by (simp add: unsigned_ucast_eq take_bit_nat_eq_self)
  have max: "v > u32_max \<longleftrightarrow> \<not> unat v \<le> 4294967295" "v > word_of_nat ?p \<longleftrightarrow> \<not> unat v \<le> ?p" for v :: u64
    using assms by (auto simp: word_less_nat_alt unat_position)
  show "validate_enum xs greatest j = checked_enum xs greatest j"
  proof (cases "json_unsigned j")
    case (Some v)
    show ?thesis
      by (cases "unat v \<le> 4294967295")
        (use p in \<open>simp_all add: validate_enum_def checked_enum_def uint32_from_json_def checked_unsigned_def Some max small\<close>)
  qed (simp add: validate_enum_def checked_enum_def uint32_from_json_def checked_unsigned_def)
qed

section \<open>PCI addresses\<close>

definition pci_address_to_json :: "PciAddress \<Rightarrow> json" where
  "pci_address_to_json a = json_object
     [(''domain'', Some (word_json (pci_domain a))), (''bus'', Some (word_json (pci_bus a))),
      (''device'', Some (word_json (pci_device a))), (''function'', Some (word_json (pci_function a)))]"

definition pci_address_from_json :: "json \<Rightarrow> PciAddress option" where
  "pci_address_from_json j = do {
     domain \<leftarrow> needed (bounded_from_json 0xffff) (json_find j ''domain'');
     bus \<leftarrow> needed (bounded_from_json 0xff) (json_find j ''bus'');
     device \<leftarrow> needed (bounded_from_json 0x1f) (json_find j ''device'');
     func \<leftarrow> needed (bounded_from_json 7) (json_find j ''function'');
     Some \<lparr>pci_domain = domain, pci_bus = bus, pci_device = device, pci_function = func\<rparr> }"

definition pci_address_ok :: "PciAddress \<Rightarrow> bool" where
  "pci_address_ok a \<longleftrightarrow> pci_device a \<le> 31 \<and> pci_function a \<le> 7"

lemmas bounded_written = json_codec.written [OF bounded_codec]
lemmas bounded_decoded = reader_codec.needed_decoded [OF json_codec.axioms(1) [OF bounded_codec]]

interpretation pci_address: json_codec pci_address_to_json pci_address_from_json pci_address_ok
proof
  fix a
  assume "pci_address_ok a"
  moreover have "unat (pci_domain a) \<le> 65535" "unat (pci_bus a) \<le> 255"
    using unsigned_less [of "pci_domain a", where ?'a = nat] unsigned_less [of "pci_bus a", where ?'a = nat] by simp_all
  ultimately show "pci_address_from_json (pci_address_to_json a) = Some a"
    by (cases a) (simp add: pci_address_from_json_def pci_address_to_json_def pci_address_ok_def word_le_nat_alt
      bounded_written)
next
  fix j a
  assume "pci_address_from_json j = Some a"
  then show "pci_address_ok a"
    by (auto simp: pci_address_from_json_def pci_address_ok_def bind_eq_Some_conv word_le_nat_alt
      dest!: bounded_decoded [rotated])
qed

section \<open>Numbers of a given type\<close>

text \<open>\<open>get<T>()\<close> converts any number, a float as C++ does, and for the types the library does not store
  itself a boolean too. What a float is as an integer, and how a double is written, is left to the
  machine and the library.\<close>

record Numbers =
  float_u64 :: "string \<Rightarrow> u64"
  float_i64 :: "string \<Rightarrow> i64"
  float_u32 :: "string \<Rightarrow> u32"
  float_i32 :: "string \<Rightarrow> i32"
  double_json :: "int \<Rightarrow> json"
  json_double :: "json \<Rightarrow> int option"

fun get_integer :: "(string \<Rightarrow> 'a::len word) \<Rightarrow> json \<Rightarrow> 'a word option" where
  "get_integer convert (Json_Unsigned v) = Some (ucast v)"
| "get_integer convert (Json_Integer v) = Some (ucast v)"
| "get_integer convert (Json_Float s) = Some (convert s)"
| "get_integer convert j = None"

fun get_arithmetic :: "(string \<Rightarrow> 'a::len word) \<Rightarrow> json \<Rightarrow> 'a word option" where
  "get_arithmetic convert (Json_Boolean b) = Some (of_bool b)"
| "get_arithmetic convert j = get_integer convert j"

lemma get_integer_written [simp]:
  "get_integer convert (Json_Unsigned v) = Some v"
  by simp

lemma get_arithmetic_word [simp]: "get_arithmetic convert (word_json (v :: u32)) = Some v"
  by (simp add: word_json_def ucast_back)

lemma ucast_sint: "LENGTH('a::len) \<le> 64 \<Longrightarrow> (ucast (word_of_int (sint (v :: 'a word)) :: u64) :: 'a word) = v"
  by transfer (simp add: take_bit_signed_take_bit)

lemma ucast_scast: "LENGTH('a::len) \<le> 64 \<Longrightarrow> (ucast (scast (v :: 'a word) :: u64) :: 'a word) = v"
  by transfer (simp add: take_bit_signed_take_bit)

lemma get_int_written [simp]:
  "LENGTH('a::len) \<le> 64 \<Longrightarrow> get_integer convert (int_json (v :: 'a word)) = Some v"
  "LENGTH('a::len) \<le> 64 \<Longrightarrow> get_arithmetic convert (int_json (v :: 'a word)) = Some v"
  by (simp_all add: int_json_def ucast_sint ucast_scast)

text \<open>An enumerator read with \<open>get<std::uint64_t>()\<close> (\<open>hardware.cpp\<close>).\<close>

definition number_enum :: "Numbers \<Rightarrow> 'a list \<Rightarrow> 'a \<Rightarrow> json \<Rightarrow> 'a option" where
  "number_enum n enumerators greatest j =
     Option.bind (get_integer (float_u64 n) j) (\<lambda>v.
       if unat v > position greatest enumerators then None else Some (enumerators ! unat v))"

lemma number_enum_codec:
  assumes "length xs \<le> 1000" "distinct xs" "\<And>x. x \<in> set xs"
  shows "json_codec (enum_json xs) (number_enum n xs greatest) (\<lambda>x. position x xs \<le> position greatest xs)"
proof
  fix x
  assume "position x xs \<le> position greatest xs"
  then show "number_enum n xs greatest (enum_json xs x) = Some x"
    using assms(1,3) by (simp add: number_enum_def enum_json_def unat_position position_found)
next
  fix j x
  assume "number_enum n xs greatest j = Some x"
  then obtain v :: u64 where v: "unat v \<le> position greatest xs" "x = xs ! unat v"
    by (auto simp: number_enum_def bind_eq_Some_conv not_less split: if_splits)
  then have "unat v < length xs" using position_found [OF assms(3) [of greatest]] by simp
  then show "position x xs \<le> position greatest xs" using v assms(2) by (simp add: position_nth)
qed

lemma position_last:
  assumes "distinct xs" "\<And>x. x \<in> set xs" "List.last xs = greatest"
  shows "position x xs \<le> position greatest xs"
proof -
  have "xs \<noteq> []" using assms(2) by force
  then have "position (xs ! (length xs - 1)) xs = length xs - 1" by (intro position_nth assms(1)) simp
  moreover have "position x xs < length xs" using position_found [OF assms(2) [of x]] by simp
  ultimately show ?thesis using assms(3) \<open>xs \<noteq> []\<close> by (simp add: last_conv_nth)
qed

text \<open>Enumerations of which every enumerator is accepted.\<close>

lemma enum_codec:
  assumes "length xs \<le> 1000" "distinct xs" "\<And>x. x \<in> set xs" "List.last xs = greatest"
  shows "json_codec (enum_json xs) (checked_enum xs greatest) (\<lambda>_. True)"
    "json_codec (enum_json xs) (validate_enum xs greatest) (\<lambda>_. True)"
    "json_codec (enum_json xs) (number_enum n xs greatest) (\<lambda>_. True)"
proof -
  have all: "(\<lambda>x. position x xs \<le> position greatest xs) = (\<lambda>_. True)" using position_last [OF assms(2-4)] by simp
  then show "json_codec (enum_json xs) (checked_enum xs greatest) (\<lambda>_. True)"
    using checked_enum_codec [OF assms(1-3), of greatest] by simp
  then show "json_codec (enum_json xs) (validate_enum xs greatest) (\<lambda>_. True)"
    using validate_enum_checked [OF assms(1,3)] by simp
  show "json_codec (enum_json xs) (number_enum n xs greatest) (\<lambda>_. True)"
    using number_enum_codec [OF assms(1-3), of n greatest] all by simp
qed

end
