(* ===== verification/Json_Enums.thy ===== *)
theory Json_Enums
  imports Json_Codec
begin

text \<open>
  The enumerations that snapshots store, each with its enumerators in the order of the declaration,
  and for each the codec of the files that accept all of it. The enumerators of RDMA and EDAC
  are checked as 64-bit numbers, those of the hardware health after a conversion to one.
\<close>

definition Arch_enumerators :: "Arch list" where
  "Arch_enumerators =
     [Arch_X86_64, Arch_AArch64, Arch_Riscv64, Arch_Other]"

definition InterfaceState_enumerators :: "InterfaceState list" where
  "InterfaceState_enumerators =
     [If_Up, If_Down, If_Unknown]"

definition StorageProtocol_enumerators :: "StorageProtocol list" where
  "StorageProtocol_enumerators =
     [Proto_Unknown, Proto_Nvme, Proto_Ata, Proto_Scsi]"

definition StorageKind_enumerators :: "StorageKind list" where
  "StorageKind_enumerators =
     [Stor_Nvme, Stor_Ssd, Stor_Hdd, Stor_Other]"

definition AcceleratorKind_enumerators :: "AcceleratorKind list" where
  "AcceleratorKind_enumerators =
     [Acc_Gpu, Acc_Npu, Acc_Fpga, Acc_Other]"

definition IsaExtension_enumerators :: "IsaExtension list" where
  "IsaExtension_enumerators =
     [Sse, Sse2, Sse3, Ssse3, Sse41, Sse42, Avx, Avx2, Avx512f, Avx512cd, Avx512bw, Avx512dq, Avx512vl, Aes, Fma,
      F16c, Pclmulqdq]"

definition CacheType_enumerators :: "CacheType list" where
  "CacheType_enumerators =
     [Cache_Data, Cache_Instruction, Cache_Unified, Cache_Other]"

definition CollectStatus_enumerators :: "CollectStatus list" where
  "CollectStatus_enumerators =
     [Success, Partial, Failed, NotCollected]"

definition ReadFailure_enumerators :: "ReadFailure list" where
  "ReadFailure_enumerators =
     [NotPresent, PermissionDenied, Unsupported, IoError, ToolUnavailable, TimedOut, NotProvided, LowPower]"

definition SkipReason_enumerators :: "SkipReason list" where
  "SkipReason_enumerators =
     [Skip_Unknown, NotRequested, PolicyExcluded, BudgetExhausted, NotApplicable]"

definition VirtualizationKind_enumerators :: "VirtualizationKind list" where
  "VirtualizationKind_enumerators =
     [Virt_None, Kvm, Xen, Vmware, Qemu, HyperV, VirtualBox, Parallels, Virt_Other]"

definition CgroupVersion_enumerators :: "CgroupVersion list" where
  "CgroupVersion_enumerators =
     [V1, V2]"

definition ContainerKind_enumerators :: "ContainerKind list" where
  "ContainerKind_enumerators =
     [Docker, Podman, Lxc, Kubernetes, Container_Other]"

definition FilesystemKind_enumerators :: "FilesystemKind list" where
  "FilesystemKind_enumerators =
     [Fs_Local, Fs_Network, Fs_Memory, Fs_Pseudo, Fs_Userspace, Fs_Unknown]"

definition BlockDeviceLayer_enumerators :: "BlockDeviceLayer list" where
  "BlockDeviceLayer_enumerators =
     [Layer_Unknown, Layer_Device, Partition, DeviceMapper, Raid, Loop, Virtual]"

definition StoragePurpose_enumerators :: "StoragePurpose list" where
  "StoragePurpose_enumerators =
     [Purpose_Unknown, Disk, Optical, Purpose_Other]"

definition StorageTransport_enumerators :: "StorageTransport list" where
  "StorageTransport_enumerators =
     [Transport_Unknown, Pcie, Sata, Sas, Usb, Tcp, Transport_Rdma, FibreChannel, Iscsi, ParallelScsi]"

definition InventoryKind_enumerators :: "InventoryKind list" where
  "InventoryKind_enumerators =
     [CpuPackages, CpuCores, LogicalCpus, NumaNodes, CpuCaches, NetworkInterfaces, BlockDevices, PciDevices,
      AcceleratorDevices]"

definition InventoryCompleteness_enumerators :: "InventoryCompleteness list" where
  "InventoryCompleteness_enumerators =
     [Completeness_Unknown, Completeness_Partial, Complete]"

definition RawSource_enumerators :: "RawSource list" where
  "RawSource_enumerators =
     [ProcCpuInfo, ProcMemInfo, ProcVersion, ProcSelfCgroup, ProcSelfStatus, ProcOneCgroup, SysfsCpu, SysfsNuma,
      SysfsNet, SysfsPci, SysfsBlock, SysfsDmi, EtcOsRelease, RootDockerenv, Uname, Lspci, NvidiaSmi, Nvcc,
      Lsblk, Src_Environment, Nvml, Ibverbs, HwinfoOutput, ProcHostname, IfAddrs, DfTh, Udevadm, SysfsEdac,
      SysHypervisor, CompilerVersion, CompilerPath, CompilerTarget, MpiVersion, MpiPath, IbverbsVersion,
      IbverbsLibdir, UcxVersion, NvccPath, CudaHome, SysfsThermal, CgroupMountInfo, CgroupFile, SysfsDrm,
      NvidiaMigList, RocmVersion, PackageLibrary, AcceleratorRuntime, StorageMountInfo, Ethtool, ProcNetVlan,
      SysfsHwmon, StorageHealthSysfs, Smartctl, NvmeSmartLog, SysfsRdma, SysfsStorageConnections,
      Src_FilesystemUsage]"

definition RdmaNodeType_enumerators :: "RdmaNodeType list" where
  "RdmaNodeType_enumerators =
     [Rdma_Node_Unknown, ChannelAdapter, Switch, Router, Rnic, Usnic, UsnicUdp]"

definition RdmaPortState_enumerators :: "RdmaPortState list" where
  "RdmaPortState_enumerators =
     [Rdma_Port_Unknown, Rdma_Port_Down, Rdma_Port_Init, Armed, Active, ActiveDeferred]"

definition RdmaPhysicalState_enumerators :: "RdmaPhysicalState list" where
  "RdmaPhysicalState_enumerators =
     [Rdma_Phys_Unknown, Sleep, Polling, Disabled, Training, LinkUp, Recovery, PhyTest]"

definition RdmaLinkLayer_enumerators :: "RdmaLinkLayer list" where
  "RdmaLinkLayer_enumerators =
     [Rdma_Link_Unknown, InfiniBand, Ethernet]"

definition EdacLocationLayer_enumerators :: "EdacLocationLayer list" where
  "EdacLocationLayer_enumerators =
     [EdacLayer_Unknown, Branch, Channel, Slot, ChipSelect, AllMemory]"

definition EdacMemoryDeviceKind_enumerators :: "EdacMemoryDeviceKind list" where
  "EdacMemoryDeviceKind_enumerators =
     [Edac_Unknown, Dimm, Rank]"

definition DimmEdacAssociation_enumerators :: "DimmEdacAssociation list" where
  "DimmEdacAssociation_enumerators =
     [Assoc_Unknown, EdacInventory, LabelAndCapacity]"

definition HealthSeverity_enumerators :: "HealthSeverity list" where
  "HealthSeverity_enumerators =
     [Information, Warning, Critical]"

definition SensorAlertKind_enumerators :: "SensorAlertKind list" where
  "SensorAlertKind_enumerators =
     [DriverAlarm, Fault, CriticalLimit, BelowMinimum, AboveMaximum]"

definition HealthCoverageStatus_enumerators :: "HealthCoverageStatus list" where
  "HealthCoverageStatus_enumerators =
     [Coverage_NotRequested, Unavailable, Coverage_Partial, Available]"

definition DriveFindingKind_enumerators :: "DriveFindingKind list" where
  "DriveFindingKind_enumerators =
     [SmartFailed, NvmeWarning, SpareLow, EnduranceEstimate, AtaCurrent, AtaHistorical, NvmeMediaHistory,
      ScsiHistory]"

lemmas enumerators_defs = Arch_enumerators_def InterfaceState_enumerators_def StorageProtocol_enumerators_def
  StorageKind_enumerators_def AcceleratorKind_enumerators_def IsaExtension_enumerators_def
  CacheType_enumerators_def CollectStatus_enumerators_def ReadFailure_enumerators_def
  SkipReason_enumerators_def VirtualizationKind_enumerators_def CgroupVersion_enumerators_def
  ContainerKind_enumerators_def FilesystemKind_enumerators_def BlockDeviceLayer_enumerators_def
  StoragePurpose_enumerators_def StorageTransport_enumerators_def InventoryKind_enumerators_def
  InventoryCompleteness_enumerators_def RawSource_enumerators_def RdmaNodeType_enumerators_def
  RdmaPortState_enumerators_def RdmaPhysicalState_enumerators_def RdmaLinkLayer_enumerators_def
  EdacLocationLayer_enumerators_def EdacMemoryDeviceKind_enumerators_def DimmEdacAssociation_enumerators_def
  HealthSeverity_enumerators_def SensorAlertKind_enumerators_def HealthCoverageStatus_enumerators_def
  DriveFindingKind_enumerators_def

interpretation Arch: json_codec "enum_json Arch_enumerators" "validate_enum Arch_enumerators Arch_Other" "\<lambda>_. True"
proof (rule enum_codec(2))
  show "x \<in> set Arch_enumerators" for x by (cases x) (simp_all add: enumerators_defs)
qed (simp_all add: enumerators_defs)

interpretation InterfaceState: json_codec "enum_json InterfaceState_enumerators" "validate_enum InterfaceState_enumerators If_Unknown" "\<lambda>_. True"
proof (rule enum_codec(2))
  show "x \<in> set InterfaceState_enumerators" for x by (cases x) (simp_all add: enumerators_defs)
qed (simp_all add: enumerators_defs)

interpretation StorageProtocol: json_codec "enum_json StorageProtocol_enumerators" "validate_enum StorageProtocol_enumerators Proto_Scsi" "\<lambda>_. True"
proof (rule enum_codec(2))
  show "x \<in> set StorageProtocol_enumerators" for x by (cases x) (simp_all add: enumerators_defs)
qed (simp_all add: enumerators_defs)

interpretation checked_StorageProtocol: json_codec "enum_json StorageProtocol_enumerators" "checked_enum StorageProtocol_enumerators Proto_Scsi" "\<lambda>_. True"
proof (rule enum_codec(1))
  show "x \<in> set StorageProtocol_enumerators" for x by (cases x) (simp_all add: enumerators_defs)
qed (simp_all add: enumerators_defs)

interpretation StorageKind: json_codec "enum_json StorageKind_enumerators" "validate_enum StorageKind_enumerators Stor_Other" "\<lambda>_. True"
proof (rule enum_codec(2))
  show "x \<in> set StorageKind_enumerators" for x by (cases x) (simp_all add: enumerators_defs)
qed (simp_all add: enumerators_defs)

interpretation AcceleratorKind: json_codec "enum_json AcceleratorKind_enumerators" "validate_enum AcceleratorKind_enumerators Acc_Other" "\<lambda>_. True"
proof (rule enum_codec(2))
  show "x \<in> set AcceleratorKind_enumerators" for x by (cases x) (simp_all add: enumerators_defs)
qed (simp_all add: enumerators_defs)

interpretation IsaExtension: json_codec "enum_json IsaExtension_enumerators" "validate_enum IsaExtension_enumerators Pclmulqdq" "\<lambda>_. True"
proof (rule enum_codec(2))
  show "x \<in> set IsaExtension_enumerators" for x by (cases x) (simp_all add: enumerators_defs)
qed (simp_all add: enumerators_defs)

interpretation CacheType: json_codec "enum_json CacheType_enumerators" "validate_enum CacheType_enumerators Cache_Other" "\<lambda>_. True"
proof (rule enum_codec(2))
  show "x \<in> set CacheType_enumerators" for x by (cases x) (simp_all add: enumerators_defs)
qed (simp_all add: enumerators_defs)

interpretation CollectStatus: json_codec "enum_json CollectStatus_enumerators" "validate_enum CollectStatus_enumerators NotCollected" "\<lambda>_. True"
proof (rule enum_codec(2))
  show "x \<in> set CollectStatus_enumerators" for x by (cases x) (simp_all add: enumerators_defs)
qed (simp_all add: enumerators_defs)

interpretation checked_CollectStatus: json_codec "enum_json CollectStatus_enumerators" "checked_enum CollectStatus_enumerators NotCollected" "\<lambda>_. True"
proof (rule enum_codec(1))
  show "x \<in> set CollectStatus_enumerators" for x by (cases x) (simp_all add: enumerators_defs)
qed (simp_all add: enumerators_defs)

interpretation ReadFailure: json_codec "enum_json ReadFailure_enumerators" "validate_enum ReadFailure_enumerators LowPower" "\<lambda>_. True"
proof (rule enum_codec(2))
  show "x \<in> set ReadFailure_enumerators" for x by (cases x) (simp_all add: enumerators_defs)
qed (simp_all add: enumerators_defs)

interpretation checked_ReadFailure: json_codec "enum_json ReadFailure_enumerators" "checked_enum ReadFailure_enumerators LowPower" "\<lambda>_. True"
proof (rule enum_codec(1))
  show "x \<in> set ReadFailure_enumerators" for x by (cases x) (simp_all add: enumerators_defs)
qed (simp_all add: enumerators_defs)

interpretation SkipReason: json_codec "enum_json SkipReason_enumerators" "validate_enum SkipReason_enumerators NotApplicable" "\<lambda>_. True"
proof (rule enum_codec(2))
  show "x \<in> set SkipReason_enumerators" for x by (cases x) (simp_all add: enumerators_defs)
qed (simp_all add: enumerators_defs)

interpretation VirtualizationKind: json_codec "enum_json VirtualizationKind_enumerators" "validate_enum VirtualizationKind_enumerators Virt_Other" "\<lambda>_. True"
proof (rule enum_codec(2))
  show "x \<in> set VirtualizationKind_enumerators" for x by (cases x) (simp_all add: enumerators_defs)
qed (simp_all add: enumerators_defs)

interpretation CgroupVersion: json_codec "enum_json CgroupVersion_enumerators" "validate_enum CgroupVersion_enumerators V2" "\<lambda>_. True"
proof (rule enum_codec(2))
  show "x \<in> set CgroupVersion_enumerators" for x by (cases x) (simp_all add: enumerators_defs)
qed (simp_all add: enumerators_defs)

interpretation ContainerKind: json_codec "enum_json ContainerKind_enumerators" "validate_enum ContainerKind_enumerators Container_Other" "\<lambda>_. True"
proof (rule enum_codec(2))
  show "x \<in> set ContainerKind_enumerators" for x by (cases x) (simp_all add: enumerators_defs)
qed (simp_all add: enumerators_defs)

interpretation FilesystemKind: json_codec "enum_json FilesystemKind_enumerators" "validate_enum FilesystemKind_enumerators Fs_Unknown" "\<lambda>_. True"
proof (rule enum_codec(2))
  show "x \<in> set FilesystemKind_enumerators" for x by (cases x) (simp_all add: enumerators_defs)
qed (simp_all add: enumerators_defs)

interpretation BlockDeviceLayer: json_codec "enum_json BlockDeviceLayer_enumerators" "validate_enum BlockDeviceLayer_enumerators Virtual" "\<lambda>_. True"
proof (rule enum_codec(2))
  show "x \<in> set BlockDeviceLayer_enumerators" for x by (cases x) (simp_all add: enumerators_defs)
qed (simp_all add: enumerators_defs)

interpretation StoragePurpose: json_codec "enum_json StoragePurpose_enumerators" "validate_enum StoragePurpose_enumerators Purpose_Other" "\<lambda>_. True"
proof (rule enum_codec(2))
  show "x \<in> set StoragePurpose_enumerators" for x by (cases x) (simp_all add: enumerators_defs)
qed (simp_all add: enumerators_defs)

interpretation StorageTransport: json_codec "enum_json StorageTransport_enumerators" "validate_enum StorageTransport_enumerators ParallelScsi" "\<lambda>_. True"
proof (rule enum_codec(2))
  show "x \<in> set StorageTransport_enumerators" for x by (cases x) (simp_all add: enumerators_defs)
qed (simp_all add: enumerators_defs)

interpretation InventoryKind: json_codec "enum_json InventoryKind_enumerators" "validate_enum InventoryKind_enumerators AcceleratorDevices" "\<lambda>_. True"
proof (rule enum_codec(2))
  show "x \<in> set InventoryKind_enumerators" for x by (cases x) (simp_all add: enumerators_defs)
qed (simp_all add: enumerators_defs)

interpretation InventoryCompleteness: json_codec "enum_json InventoryCompleteness_enumerators" "validate_enum InventoryCompleteness_enumerators Complete" "\<lambda>_. True"
proof (rule enum_codec(2))
  show "x \<in> set InventoryCompleteness_enumerators" for x by (cases x) (simp_all add: enumerators_defs)
qed (simp_all add: enumerators_defs)

interpretation RawSource: json_codec "enum_json RawSource_enumerators" "validate_enum RawSource_enumerators Src_FilesystemUsage" "\<lambda>_. True"
proof (rule enum_codec(2))
  show "x \<in> set RawSource_enumerators" for x by (cases x) (simp_all add: enumerators_defs)
qed (simp_all add: enumerators_defs)

interpretation RdmaNodeType: json_codec "enum_json RdmaNodeType_enumerators" "checked_enum RdmaNodeType_enumerators UsnicUdp" "\<lambda>_. True"
proof (rule enum_codec(1))
  show "x \<in> set RdmaNodeType_enumerators" for x by (cases x) (simp_all add: enumerators_defs)
qed (simp_all add: enumerators_defs)

interpretation RdmaPortState: json_codec "enum_json RdmaPortState_enumerators" "checked_enum RdmaPortState_enumerators ActiveDeferred" "\<lambda>_. True"
proof (rule enum_codec(1))
  show "x \<in> set RdmaPortState_enumerators" for x by (cases x) (simp_all add: enumerators_defs)
qed (simp_all add: enumerators_defs)

interpretation RdmaPhysicalState: json_codec "enum_json RdmaPhysicalState_enumerators" "checked_enum RdmaPhysicalState_enumerators PhyTest" "\<lambda>_. True"
proof (rule enum_codec(1))
  show "x \<in> set RdmaPhysicalState_enumerators" for x by (cases x) (simp_all add: enumerators_defs)
qed (simp_all add: enumerators_defs)

interpretation RdmaLinkLayer: json_codec "enum_json RdmaLinkLayer_enumerators" "checked_enum RdmaLinkLayer_enumerators Ethernet" "\<lambda>_. True"
proof (rule enum_codec(1))
  show "x \<in> set RdmaLinkLayer_enumerators" for x by (cases x) (simp_all add: enumerators_defs)
qed (simp_all add: enumerators_defs)

interpretation EdacLocationLayer: json_codec "enum_json EdacLocationLayer_enumerators" "checked_enum EdacLocationLayer_enumerators AllMemory" "\<lambda>_. True"
proof (rule enum_codec(1))
  show "x \<in> set EdacLocationLayer_enumerators" for x by (cases x) (simp_all add: enumerators_defs)
qed (simp_all add: enumerators_defs)

interpretation EdacMemoryDeviceKind: json_codec "enum_json EdacMemoryDeviceKind_enumerators" "checked_enum EdacMemoryDeviceKind_enumerators Rank" "\<lambda>_. True"
proof (rule enum_codec(1))
  show "x \<in> set EdacMemoryDeviceKind_enumerators" for x by (cases x) (simp_all add: enumerators_defs)
qed (simp_all add: enumerators_defs)

interpretation DimmEdacAssociation: json_codec "enum_json DimmEdacAssociation_enumerators" "checked_enum DimmEdacAssociation_enumerators LabelAndCapacity" "\<lambda>_. True"
proof (rule enum_codec(1))
  show "x \<in> set DimmEdacAssociation_enumerators" for x by (cases x) (simp_all add: enumerators_defs)
qed (simp_all add: enumerators_defs)

interpretation HealthSeverity: json_codec "enum_json HealthSeverity_enumerators" "number_enum n HealthSeverity_enumerators Critical" "\<lambda>_. True" for n
proof (rule enum_codec(3))
  show "x \<in> set HealthSeverity_enumerators" for x by (cases x) (simp_all add: enumerators_defs)
qed (simp_all add: enumerators_defs)

interpretation SensorAlertKind: json_codec "enum_json SensorAlertKind_enumerators" "number_enum n SensorAlertKind_enumerators AboveMaximum" "\<lambda>_. True" for n
proof (rule enum_codec(3))
  show "x \<in> set SensorAlertKind_enumerators" for x by (cases x) (simp_all add: enumerators_defs)
qed (simp_all add: enumerators_defs)

interpretation HealthCoverageStatus: json_codec "enum_json HealthCoverageStatus_enumerators" "number_enum n HealthCoverageStatus_enumerators Available" "\<lambda>_. True" for n
proof (rule enum_codec(3))
  show "x \<in> set HealthCoverageStatus_enumerators" for x by (cases x) (simp_all add: enumerators_defs)
qed (simp_all add: enumerators_defs)

interpretation DriveFindingKind: json_codec "enum_json DriveFindingKind_enumerators" "number_enum n DriveFindingKind_enumerators ScsiHistory" "\<lambda>_. True" for n
proof (rule enum_codec(3))
  show "x \<in> set DriveFindingKind_enumerators" for x by (cases x) (simp_all add: enumerators_defs)
qed (simp_all add: enumerators_defs)

end
