(* ===== verification/Codec_Devices.thy ===== *)
theory Codec_Devices
  imports Json_Enums
begin

text \<open>
  The JSON of the devices: \<open>src/serialization/pci.cpp\<close>, \<open>rdma.cpp\<close>, \<open>accelerator.cpp\<close> and \<open>network.cpp\<close>.
  Every struct has its writer, its reader and, where the reader rejects some values, the invariant of
  the values it accepts; the interpretations of \<open>json_codec\<close> say that they fit.
\<close>

section \<open>PCI (\<open>pci.cpp\<close>)\<close>

definition pci_device_to_json :: "PciDevice \<Rightarrow> json" where
  "pci_device_to_json pd = json_object
     [(''address'', Some (pci_address_to_json (pd_address pd))), (''vendor'', Some (name_json (pd_vendor pd))),
      (''device_name'', Some (name_json (pd_device_name pd))),
      (''device_class'', Some (name_json (pd_device_class pd))),
      (''numa_node'', map_option id_json (pd_numa_node pd)),
      (''physical_slot'', text_unless_empty (pd_physical_slot pd)),
      (''firmware_label'', text_unless_empty (pd_firmware_label pd)),
      (''current_link_speed'', text_unless_empty (pd_current_link_speed pd)),
      (''max_link_speed'', text_unless_empty (pd_max_link_speed pd)),
      (''current_link_width'', map_option word_json (pd_current_link_width pd)),
      (''max_link_width'', map_option word_json (pd_max_link_width pd)),
      (''upstream_address'', map_option pci_address_to_json (pd_upstream_address pd)),
      (''physical_function'', map_option pci_address_to_json (pd_physical_function pd)),
      (''driver_name'', name_unless_empty (pd_driver_name pd)),
      (''local_cpus'', list_unless_empty id_json (pd_local_cpus pd)),
      (''maximum_virtual_functions'', map_option word_json (pd_maximum_virtual_functions pd)),
      (''enabled_virtual_functions'', map_option word_json (pd_enabled_virtual_functions pd))]"

definition pci_device_from_json :: "json \<Rightarrow> PciDevice option" where
  "pci_device_from_json j = do {
     address \<leftarrow> needed pci_address_from_json (json_find j ''address'');
     vendor \<leftarrow> needed name_from_json (json_find j ''vendor'');
     device_name \<leftarrow> needed name_from_json (json_find j ''device_name'');
     device_class \<leftarrow> needed name_from_json (json_find j ''device_class'');
     numa_node \<leftarrow> maybe id_from_json (json_find j ''numa_node'');
     physical_slot \<leftarrow> json_value j ''physical_slot'';
     firmware_label \<leftarrow> json_value j ''firmware_label'';
     current_link_speed \<leftarrow> json_value j ''current_link_speed'';
     max_link_speed \<leftarrow> json_value j ''max_link_speed'';
     current_link_width \<leftarrow> maybe uint32_from_json (json_find j ''current_link_width'');
     max_link_width \<leftarrow> maybe uint32_from_json (json_find j ''max_link_width'');
     upstream_address \<leftarrow> maybe pci_address_from_json (json_find j ''upstream_address'');
     physical_function \<leftarrow> maybe pci_address_from_json (json_find j ''physical_function'');
     driver_name \<leftarrow> name_value j ''driver_name'';
     local_cpus \<leftarrow> given (array_of id_from_json) [] (json_find j ''local_cpus'');
     maximum_virtual_functions \<leftarrow> maybe uint32_from_json (json_find j ''maximum_virtual_functions'');
     enabled_virtual_functions \<leftarrow> maybe uint32_from_json (json_find j ''enabled_virtual_functions'');
     Some
       \<lparr>pd_address = address, pd_vendor = vendor, pd_device_name = device_name, pd_device_class = device_class,
        pd_numa_node = numa_node, pd_physical_slot = physical_slot, pd_firmware_label = firmware_label,
        pd_current_link_speed = current_link_speed, pd_max_link_speed = max_link_speed,
        pd_current_link_width = current_link_width, pd_max_link_width = max_link_width,
        pd_upstream_address = upstream_address, pd_physical_function = physical_function,
        pd_driver_name = driver_name, pd_local_cpus = local_cpus,
        pd_maximum_virtual_functions = maximum_virtual_functions,
        pd_enabled_virtual_functions = enabled_virtual_functions\<rparr> }"

definition pci_device_ok :: "PciDevice \<Rightarrow> bool" where
  "pci_device_ok pd \<longleftrightarrow> pci_address_ok (pd_address pd) \<and> pred_option pci_address_ok (pd_upstream_address pd) \<and>
     pred_option pci_address_ok (pd_physical_function pd)"

interpretation pci_device: json_codec pci_device_to_json pci_device_from_json pci_device_ok
proof
  fix pd
  assume "pci_device_ok pd"
  then show "pci_device_from_json (pci_device_to_json pd) = Some pd"
    by (cases pd) (simp add: pci_device_to_json_def pci_device_from_json_def pci_device_ok_def)
next
  fix j pd
  assume "pci_device_from_json j = Some pd"
  then show "pci_device_ok pd"
    by (auto simp: pci_device_from_json_def pci_device_ok_def bind_eq_Some_conv
      dest: pci_address.needed_decoded pci_address.maybe_decoded)
qed

definition pci_to_json :: "Pci \<Rightarrow> json" where
  "pci_to_json p = json_object
     [(''devices'', Some (list_json pci_device_to_json (pci_devices p)))]"

definition pci_from_json :: "json \<Rightarrow> Pci option" where
  "pci_from_json j = do {
     devices \<leftarrow> needed (list_of pci_device_from_json) (json_find j ''devices'');
     Some
       \<lparr>pci_devices = devices\<rparr> }"

definition pci_ok :: "Pci \<Rightarrow> bool" where
  "pci_ok p \<longleftrightarrow> list_all pci_device_ok (pci_devices p)"

interpretation pci: json_codec pci_to_json pci_from_json pci_ok
proof
  fix p
  assume "pci_ok p"
  then show "pci_from_json (pci_to_json p) = Some p"
    by (cases p) (simp add: pci_to_json_def pci_from_json_def pci_ok_def)
next
  fix j p
  assume "pci_from_json j = Some p"
  then show "pci_ok p"
    by (auto simp: pci_from_json_def pci_ok_def bind_eq_Some_conv
      dest: pci_device.needed_list_decoded)
qed

section \<open>RDMA (\<open>rdma.cpp\<close>)\<close>

interpretation service_level: json_codec "word_json :: u8 \<Rightarrow> json" "bounded_from_json 15" "\<lambda>v. unat v \<le> unat (15 :: u64)"
  by (rule bounded_codec) simp

interpretation lid_mask: json_codec "word_json :: u8 \<Rightarrow> json" "bounded_from_json 7" "\<lambda>v. unat v \<le> unat (7 :: u64)"
  by (rule bounded_codec) simp

definition rdma_port_to_json :: "RdmaPort \<Rightarrow> json" where
  "rdma_port_to_json port = json_object
     [(''number'', Some (id_json (rp_number port))),
      (''state'', Some (enum_json RdmaPortState_enumerators (rp_state port))),
      (''physical_state'', Some (enum_json RdmaPhysicalState_enumerators (rp_physical_state port))),
      (''link_layer'', Some (enum_json RdmaLinkLayer_enumerators (rp_link_layer port))),
      (''rate_report'', Some (Json_String (rp_rate_report port))),
      (''network_interfaces'', Some (list_json name_json (rp_network_interfaces port))),
      (''rate'', map_option unit_json (rp_rate port)), (''lid'', map_option id_json (rp_lid port)),
      (''subnet_manager_lid'', map_option id_json (rp_subnet_manager_lid port)),
      (''subnet_manager_sl'', map_option word_json (rp_subnet_manager_sl port)),
      (''lid_mask_count'', map_option word_json (rp_lid_mask_count port)),
      (''capability_mask'', map_option word_json (rp_capability_mask port))]"

definition rdma_port_from_json :: "json \<Rightarrow> RdmaPort option" where
  "rdma_port_from_json j = do {
     number \<leftarrow> needed id_from_json (json_find j ''number'');
     state \<leftarrow> given (checked_enum RdmaPortState_enumerators ActiveDeferred) Rdma_Port_Unknown (json_find j ''state'');
     physical_state \<leftarrow> given (checked_enum RdmaPhysicalState_enumerators PhyTest) Rdma_Phys_Unknown (json_find j ''physical_state'');
     link_layer \<leftarrow> given (checked_enum RdmaLinkLayer_enumerators Ethernet) Rdma_Link_Unknown (json_find j ''link_layer'');
     rate_report \<leftarrow> json_value j ''rate_report'';
     network_interfaces \<leftarrow> given (array_of name_from_json) [] (json_find j ''network_interfaces'');
     rate \<leftarrow> maybe unit_from_json (json_find j ''rate'');
     lid \<leftarrow> maybe id_from_json (json_find j ''lid'');
     subnet_manager_lid \<leftarrow> maybe id_from_json (json_find j ''subnet_manager_lid'');
     subnet_manager_sl \<leftarrow> maybe (bounded_from_json 15) (json_find j ''subnet_manager_sl'');
     lid_mask_count \<leftarrow> maybe (bounded_from_json 7) (json_find j ''lid_mask_count'');
     capability_mask \<leftarrow> maybe uint32_from_json (json_find j ''capability_mask'');
     Some
       \<lparr>rp_number = number, rp_state = state, rp_physical_state = physical_state, rp_link_layer = link_layer,
        rp_rate_report = rate_report, rp_rate = rate, rp_lid = lid, rp_subnet_manager_lid = subnet_manager_lid,
        rp_subnet_manager_sl = subnet_manager_sl, rp_lid_mask_count = lid_mask_count,
        rp_capability_mask = capability_mask, rp_network_interfaces = network_interfaces\<rparr> }"

definition rdma_port_ok :: "RdmaPort \<Rightarrow> bool" where
  "rdma_port_ok port \<longleftrightarrow> pred_option (\<lambda>v. unat v \<le> unat (15 :: u64)) (rp_subnet_manager_sl port) \<and>
     pred_option (\<lambda>v. unat v \<le> unat (7 :: u64)) (rp_lid_mask_count port)"

interpretation rdma_port: json_codec rdma_port_to_json rdma_port_from_json rdma_port_ok
proof
  fix port
  assume "rdma_port_ok port"
  then show "rdma_port_from_json (rdma_port_to_json port) = Some port"
    by (cases port) (simp add: rdma_port_to_json_def rdma_port_from_json_def rdma_port_ok_def)
next
  fix j port
  assume "rdma_port_from_json j = Some port"
  then show "rdma_port_ok port"
    by (auto simp: rdma_port_from_json_def rdma_port_ok_def bind_eq_Some_conv
      dest: service_level.maybe_decoded lid_mask.maybe_decoded)
qed

definition rdma_device_to_json :: "RdmaDevice \<Rightarrow> json" where
  "rdma_device_to_json device = json_object
     [(''id'', Some (id_json (rd_id device))), (''name'', Some (name_json (rd_name device))),
      (''node_type'', Some (enum_json RdmaNodeType_enumerators (rd_node_type device))),
      (''description'', Some (Json_String (rd_description device))),
      (''node_guid'', Some (name_json (rd_node_guid device))),
      (''system_image_guid'', Some (name_json (rd_system_image_guid device))),
      (''firmware_version'', Some (Json_String (rd_firmware_version device))),
      (''driver'', Some (Json_String (rd_driver device))), (''vendor'', Some (name_json (rd_vendor device))),
      (''device_name'', Some (name_json (rd_device_name device))),
      (''network_interfaces'', Some (list_json name_json (rd_network_interfaces device))),
      (''ports'', Some (list_json rdma_port_to_json (rd_ports device))),
      (''pci_address'', map_option pci_address_to_json (rd_pci_address device)),
      (''numa_node'', map_option id_json (rd_numa_node device))]"

definition rdma_device_from_json :: "json \<Rightarrow> RdmaDevice option" where
  "rdma_device_from_json j = do {
     id \<leftarrow> needed id_from_json (json_find j ''id'');
     name \<leftarrow> needed name_from_json (json_find j ''name'');
     node_type \<leftarrow> given (checked_enum RdmaNodeType_enumerators UsnicUdp) Rdma_Node_Unknown (json_find j ''node_type'');
     description \<leftarrow> json_value j ''description'';
     node_guid \<leftarrow> name_value j ''node_guid'';
     system_image_guid \<leftarrow> name_value j ''system_image_guid'';
     firmware_version \<leftarrow> json_value j ''firmware_version'';
     driver \<leftarrow> json_value j ''driver'';
     vendor \<leftarrow> name_value j ''vendor'';
     device_name \<leftarrow> name_value j ''device_name'';
     network_interfaces \<leftarrow> given (array_of name_from_json) [] (json_find j ''network_interfaces'');
     ports \<leftarrow> given (array_of rdma_port_from_json) [] (json_find j ''ports'');
     pci_address \<leftarrow> maybe pci_address_from_json (json_find j ''pci_address'');
     numa_node \<leftarrow> maybe id_from_json (json_find j ''numa_node'');
     Some
       \<lparr>rd_id = id, rd_name = name, rd_node_type = node_type, rd_description = description,
        rd_node_guid = node_guid, rd_system_image_guid = system_image_guid,
        rd_firmware_version = firmware_version, rd_driver = driver, rd_pci_address = pci_address,
        rd_numa_node = numa_node, rd_vendor = vendor, rd_device_name = device_name,
        rd_network_interfaces = network_interfaces, rd_ports = ports\<rparr> }"

definition rdma_device_ok :: "RdmaDevice \<Rightarrow> bool" where
  "rdma_device_ok device \<longleftrightarrow> list_all rdma_port_ok (rd_ports device) \<and> pred_option pci_address_ok (rd_pci_address device)"

interpretation rdma_device: json_codec rdma_device_to_json rdma_device_from_json rdma_device_ok
proof
  fix device
  assume "rdma_device_ok device"
  then show "rdma_device_from_json (rdma_device_to_json device) = Some device"
    by (cases device) (simp add: rdma_device_to_json_def rdma_device_from_json_def rdma_device_ok_def)
next
  fix j device
  assume "rdma_device_from_json j = Some device"
  then show "rdma_device_ok device"
    by (auto simp: rdma_device_from_json_def rdma_device_ok_def bind_eq_Some_conv
      dest: rdma_port.given_list_decoded pci_address.maybe_decoded)
qed

text \<open>The failure of an inventory is that of its own report: an absent status keeps the default pair.\<close>

definition rdma_inventory_to_json :: "RdmaInventory \<Rightarrow> json" where
  "rdma_inventory_to_json i = json_object
     [(''status'', Some (enum_json CollectStatus_enumerators (ri_status i))),
      (''devices'', Some (list_json rdma_device_to_json (ri_devices i))),
      (''failure'', map_option (enum_json ReadFailure_enumerators) (ri_failure i))]"

definition rdma_inventory_from_json :: "json \<Rightarrow> RdmaInventory option" where
  "rdma_inventory_from_json j = do {
     status \<leftarrow> maybe (checked_enum CollectStatus_enumerators NotCollected) (json_find j ''status'');
     failure \<leftarrow> maybe (checked_enum ReadFailure_enumerators LowPower) (json_find j ''failure'');
     devices \<leftarrow> given (array_of rdma_device_from_json) [] (json_find j ''devices'');
     Some
       (let i = (case status of None \<Rightarrow> RdmaInventory_default
                 | Some status \<Rightarrow> RdmaInventory_default\<lparr>ri_status := status, ri_failure := None\<rparr>);
            i = (case failure of None \<Rightarrow> i | Some f \<Rightarrow> i\<lparr>ri_failure := Some f\<rparr>)
        in i\<lparr>ri_devices := devices\<rparr>) }"

definition rdma_inventory_ok :: "RdmaInventory \<Rightarrow> bool" where
  "rdma_inventory_ok i \<longleftrightarrow> list_all rdma_device_ok (ri_devices i)"

interpretation rdma_inventory: json_codec rdma_inventory_to_json rdma_inventory_from_json rdma_inventory_ok
proof
  fix i
  assume "rdma_inventory_ok i"
  then show "rdma_inventory_from_json (rdma_inventory_to_json i) = Some i"
    by (cases i; cases "ri_failure i")
      (simp_all add: rdma_inventory_from_json_def rdma_inventory_to_json_def rdma_inventory_ok_def Let_def)
next
  fix j i
  assume "rdma_inventory_from_json j = Some i"
  then show "rdma_inventory_ok i"
    by (auto simp: rdma_inventory_from_json_def rdma_inventory_ok_def bind_eq_Some_conv Let_def
      dest: rdma_device.given_list_decoded)
qed

lemma rdma_default_ok: "rdma_inventory_ok RdmaInventory_default"
  by (simp add: rdma_inventory_ok_def RdmaInventory_default_def)

section \<open>Accelerators (\<open>accelerator.cpp\<close>)\<close>

definition accel_device_to_json :: "AcceleratorDevice \<Rightarrow> json" where
  "accel_device_to_json d = json_object
     [(''id'', Some (id_json (acc_id d))),
      (''kind'', Some (enum_json AcceleratorKind_enumerators (acc_kind d))),
      (''vendor'', Some (name_json (acc_vendor d))), (''name'', Some (name_json (acc_name d))),
      (''visible_to_current_process'', Some (Json_Boolean (acc_visible_to_current_process d))),
      (''pci_address'', map_option pci_address_to_json (acc_pci_address d)),
      (''nearest_numa_node'', map_option id_json (acc_nearest_numa_node d)),
      (''memory_size'', map_option unit_json (acc_memory_size d)),
      (''driver'', map_option id_json (acc_driver d)), (''uuid'', map_option Json_String (acc_uuid d)),
      (''parent_uuid'', map_option Json_String (acc_parent_uuid d)),
      (''gpu_instance_id'', map_option word_json (acc_gpu_instance_id d)),
      (''compute_instance_id'', map_option word_json (acc_compute_instance_id d))]"

definition accel_device_from_json :: "json \<Rightarrow> AcceleratorDevice option" where
  "accel_device_from_json j = do {
     id \<leftarrow> needed id_from_json (json_find j ''id'');
     kind \<leftarrow> needed (validate_enum AcceleratorKind_enumerators Acc_Other) (json_find j ''kind'');
     vendor \<leftarrow> needed name_from_json (json_find j ''vendor'');
     name \<leftarrow> needed name_from_json (json_find j ''name'');
     visible_to_current_process \<leftarrow> needed json_boolean (json_find j ''visible_to_current_process'');
     pci_address \<leftarrow> maybe pci_address_from_json (json_find j ''pci_address'');
     nearest_numa_node \<leftarrow> maybe id_from_json (json_find j ''nearest_numa_node'');
     memory_size \<leftarrow> maybe unit_from_json (json_find j ''memory_size'');
     driver \<leftarrow> maybe id_from_json (json_find j ''driver'');
     uuid \<leftarrow> maybe json_string (json_find j ''uuid'');
     parent_uuid \<leftarrow> maybe json_string (json_find j ''parent_uuid'');
     gpu_instance_id \<leftarrow> maybe uint32_from_json (json_find j ''gpu_instance_id'');
     compute_instance_id \<leftarrow> maybe uint32_from_json (json_find j ''compute_instance_id'');
     Some
       \<lparr>acc_id = id, acc_kind = kind, acc_vendor = vendor, acc_name = name, acc_pci_address = pci_address,
        acc_nearest_numa_node = nearest_numa_node, acc_memory_size = memory_size, acc_driver = driver,
        acc_visible_to_current_process = visible_to_current_process, acc_uuid = uuid,
        acc_parent_uuid = parent_uuid, acc_gpu_instance_id = gpu_instance_id,
        acc_compute_instance_id = compute_instance_id\<rparr> }"

definition accel_device_ok :: "AcceleratorDevice \<Rightarrow> bool" where
  "accel_device_ok d \<longleftrightarrow> pred_option pci_address_ok (acc_pci_address d)"

interpretation accel_device: json_codec accel_device_to_json accel_device_from_json accel_device_ok
proof
  fix d
  assume "accel_device_ok d"
  then show "accel_device_from_json (accel_device_to_json d) = Some d"
    by (cases d) (simp add: accel_device_to_json_def accel_device_from_json_def accel_device_ok_def)
next
  fix j d
  assume "accel_device_from_json j = Some d"
  then show "accel_device_ok d"
    by (auto simp: accel_device_from_json_def accel_device_ok_def bind_eq_Some_conv
      dest: pci_address.maybe_decoded)
qed

definition accelerators_to_json :: "Accelerators \<Rightarrow> json" where
  "accelerators_to_json a = json_object
     [(''devices'', Some (list_json accel_device_to_json (acc_devices a)))]"

definition accelerators_from_json :: "json \<Rightarrow> Accelerators option" where
  "accelerators_from_json j = do {
     devices \<leftarrow> needed (list_of accel_device_from_json) (json_find j ''devices'');
     Some
       \<lparr>acc_devices = devices\<rparr> }"

definition accelerators_ok :: "Accelerators \<Rightarrow> bool" where
  "accelerators_ok a \<longleftrightarrow> list_all accel_device_ok (acc_devices a)"

interpretation accelerators: json_codec accelerators_to_json accelerators_from_json accelerators_ok
proof
  fix a
  assume "accelerators_ok a"
  then show "accelerators_from_json (accelerators_to_json a) = Some a"
    by (cases a) (simp add: accelerators_to_json_def accelerators_from_json_def accelerators_ok_def)
next
  fix j a
  assume "accelerators_from_json j = Some a"
  then show "accelerators_ok a"
    by (auto simp: accelerators_from_json_def accelerators_ok_def bind_eq_Some_conv
      dest: accel_device.needed_list_decoded)
qed

section \<open>Network (\<open>network.cpp\<close>)\<close>

definition net_iface_to_json :: "NetworkInterface \<Rightarrow> json" where
  "net_iface_to_json ni = json_object
     [(''name'', Some (name_json (if_name ni))), (''mac'', Some (name_json (if_mac ni))),
      (''state'', Some (enum_json InterfaceState_enumerators (if_state ni))),
      (''visible_to_current_process'', Some (Json_Boolean (if_visible_to_current_process ni))),
      (''speed'', map_option unit_json (if_speed ni)),
      (''addresses'', Some (list_json name_json (if_addresses ni))),
      (''pci_address'', map_option pci_address_to_json (if_pci_address ni)),
      (''duplex'', text_unless_empty (if_duplex ni)), (''driver'', text_unless_empty (if_driver ni)),
      (''physical_port_name'', text_unless_empty (if_physical_port_name ni)),
      (''mtu'', map_option unit_json (if_mtu ni)), (''carrier'', map_option Json_Boolean (if_carrier ni)),
      (''numa_node'', map_option id_json (if_numa_node ni)),
      (''interface_index'', map_option word_json (if_interface_index ni)),
      (''vendor'', name_unless_empty (if_vendor ni)), (''device_name'', name_unless_empty (if_device_name ni)),
      (''firmware_version'', text_unless_empty (if_firmware_version ni)),
      (''driver_version'', text_unless_empty (if_driver_version ni)),
      (''interface_kind'', text_unless_empty (if_interface_kind ni)),
      (''bond_mode'', text_unless_empty (if_bond_mode ni)),
      (''permanent_mac'', map_option name_json (if_permanent_mac ni)),
      (''autonegotiation'', map_option Json_Boolean (if_autonegotiation ni)),
      (''master'', map_option name_json (if_master ni)), (''vlan_id'', map_option word_json (if_vlan_id ni)),
      (''vlan_parent'', map_option name_json (if_vlan_parent ni)),
      (''lower_interfaces'', list_unless_empty name_json (if_lower_interfaces ni)),
      (''supported_link_modes'', list_unless_empty Json_String (if_supported_link_modes ni)),
      (''advertised_link_modes'', list_unless_empty Json_String (if_advertised_link_modes ni)),
      (''peer_link_modes'', list_unless_empty Json_String (if_peer_link_modes ni))]"

definition net_iface_from_json :: "json \<Rightarrow> NetworkInterface option" where
  "net_iface_from_json j = do {
     name \<leftarrow> needed name_from_json (json_find j ''name'');
     mac \<leftarrow> needed name_from_json (json_find j ''mac'');
     state \<leftarrow> needed (validate_enum InterfaceState_enumerators If_Unknown) (json_find j ''state'');
     visible_to_current_process \<leftarrow> needed json_boolean (json_find j ''visible_to_current_process'');
     speed \<leftarrow> maybe unit_from_json (json_find j ''speed'');
     addresses \<leftarrow> given (list_of name_from_json) [] (json_find j ''addresses'');
     pci_address \<leftarrow> maybe pci_address_from_json (json_find j ''pci_address'');
     duplex \<leftarrow> json_value j ''duplex'';
     driver \<leftarrow> json_value j ''driver'';
     physical_port_name \<leftarrow> json_value j ''physical_port_name'';
     mtu \<leftarrow> maybe unit_from_json (json_find j ''mtu'');
     carrier \<leftarrow> maybe json_boolean (json_find j ''carrier'');
     numa_node \<leftarrow> maybe id_from_json (json_find j ''numa_node'');
     interface_index \<leftarrow> maybe uint32_from_json (json_find j ''interface_index'');
     vendor \<leftarrow> name_value j ''vendor'';
     device_name \<leftarrow> name_value j ''device_name'';
     firmware_version \<leftarrow> json_value j ''firmware_version'';
     driver_version \<leftarrow> json_value j ''driver_version'';
     interface_kind \<leftarrow> json_value j ''interface_kind'';
     bond_mode \<leftarrow> json_value j ''bond_mode'';
     permanent_mac \<leftarrow> maybe name_from_json (json_find j ''permanent_mac'');
     autonegotiation \<leftarrow> maybe json_boolean (json_find j ''autonegotiation'');
     master \<leftarrow> maybe name_from_json (json_find j ''master'');
     vlan_id \<leftarrow> maybe uint32_from_json (json_find j ''vlan_id'');
     vlan_parent \<leftarrow> maybe name_from_json (json_find j ''vlan_parent'');
     lower_interfaces \<leftarrow> given (list_of name_from_json) [] (json_find j ''lower_interfaces'');
     supported_link_modes \<leftarrow> given (list_of json_string) [] (json_find j ''supported_link_modes'');
     advertised_link_modes \<leftarrow> given (list_of json_string) [] (json_find j ''advertised_link_modes'');
     peer_link_modes \<leftarrow> given (list_of json_string) [] (json_find j ''peer_link_modes'');
     Some
       \<lparr>if_name = name, if_mac = mac, if_state = state, if_speed = speed, if_addresses = addresses,
        if_pci_address = pci_address, if_visible_to_current_process = visible_to_current_process, if_mtu = mtu,
        if_carrier = carrier, if_duplex = duplex, if_driver = driver,
        if_physical_port_name = physical_port_name, if_numa_node = numa_node,
        if_interface_index = interface_index, if_vendor = vendor, if_device_name = device_name,
        if_firmware_version = firmware_version, if_driver_version = driver_version,
        if_permanent_mac = permanent_mac, if_autonegotiation = autonegotiation,
        if_supported_link_modes = supported_link_modes, if_advertised_link_modes = advertised_link_modes,
        if_peer_link_modes = peer_link_modes, if_master = master, if_lower_interfaces = lower_interfaces,
        if_interface_kind = interface_kind, if_bond_mode = bond_mode, if_vlan_id = vlan_id,
        if_vlan_parent = vlan_parent\<rparr> }"

definition net_iface_ok :: "NetworkInterface \<Rightarrow> bool" where
  "net_iface_ok ni \<longleftrightarrow> pred_option pci_address_ok (if_pci_address ni)"

interpretation net_iface: json_codec net_iface_to_json net_iface_from_json net_iface_ok
proof
  fix ni
  assume "net_iface_ok ni"
  then show "net_iface_from_json (net_iface_to_json ni) = Some ni"
    by (cases ni) (simp add: net_iface_to_json_def net_iface_from_json_def net_iface_ok_def)
next
  fix j ni
  assume "net_iface_from_json j = Some ni"
  then show "net_iface_ok ni"
    by (auto simp: net_iface_from_json_def net_iface_ok_def bind_eq_Some_conv
      dest: pci_address.maybe_decoded)
qed

definition network_to_json :: "Network \<Rightarrow> json" where
  "network_to_json n = json_object
     [(''interfaces'', Some (list_json net_iface_to_json (net_interfaces n))),
      (''rdma'', Some (rdma_inventory_to_json (net_rdma n)))]"

definition network_from_json :: "json \<Rightarrow> Network option" where
  "network_from_json j = do {
     interfaces \<leftarrow> needed (list_of net_iface_from_json) (json_find j ''interfaces'');
     rdma \<leftarrow> given rdma_inventory_from_json RdmaInventory_default (json_find j ''rdma'');
     Some
       \<lparr>net_interfaces = interfaces, net_rdma = rdma\<rparr> }"

definition network_ok :: "Network \<Rightarrow> bool" where
  "network_ok n \<longleftrightarrow> list_all net_iface_ok (net_interfaces n) \<and> rdma_inventory_ok (net_rdma n)"

interpretation network: json_codec network_to_json network_from_json network_ok
proof
  fix n
  assume "network_ok n"
  then show "network_from_json (network_to_json n) = Some n"
    by (cases n) (simp add: network_to_json_def network_from_json_def network_ok_def)
next
  fix j n
  assume "network_from_json j = Some n"
  then show "network_ok n"
    by (auto simp: network_from_json_def network_ok_def bind_eq_Some_conv
      dest: net_iface.needed_list_decoded dest!: rdma_inventory.given_decoded [OF _ rdma_default_ok])
qed

end
