(* ===== verification/Codec_Memory.thy ===== *)
theory Codec_Memory
  imports Json_Enums
begin

text \<open>
  The JSON of the memory: \<open>src/serialization/memory.cpp\<close> and \<open>memory_topology.cpp\<close>.
\<close>

section \<open>EDAC (\<open>memory_topology.cpp\<close>)\<close>

definition edac_coordinate_to_json :: "EdacLocationCoordinate \<Rightarrow> json" where
  "edac_coordinate_to_json c = json_object
     [(''layer'', Some (enum_json EdacLocationLayer_enumerators (coord_layer c))),
      (''index'', Some (word_json (coord_index c)))]"

definition edac_coordinate_from_json :: "json \<Rightarrow> EdacLocationCoordinate option" where
  "edac_coordinate_from_json j = do {
     layer \<leftarrow> needed (checked_enum EdacLocationLayer_enumerators AllMemory) (json_find j ''layer'');
     index \<leftarrow> needed uint32_from_json (json_find j ''index'');
     Some
       \<lparr>coord_layer = layer, coord_index = index\<rparr> }"

interpretation edac_coordinate: json_codec edac_coordinate_to_json edac_coordinate_from_json "\<lambda>_. True"
proof
  fix c
  show "edac_coordinate_from_json (edac_coordinate_to_json c) = Some c"
    by (cases c) (simp add: edac_coordinate_to_json_def edac_coordinate_from_json_def)
qed simp

definition edac_location_to_json :: "EdacLocation \<Rightarrow> json" where
  "edac_location_to_json l = json_object
     [(''report'', Some (Json_String (loc_report l))),
      (''coordinates'', Some (list_json edac_coordinate_to_json (loc_coordinates l)))]"

definition edac_location_from_json :: "json \<Rightarrow> EdacLocation option" where
  "edac_location_from_json j = do {
     report \<leftarrow> json_value j ''report'';
     coordinates \<leftarrow> given (array_of edac_coordinate_from_json) [] (json_find j ''coordinates'');
     Some
       \<lparr>loc_report = report, loc_coordinates = coordinates\<rparr> }"

interpretation edac_location: json_codec edac_location_to_json edac_location_from_json "\<lambda>_. True"
proof
  fix l
  show "edac_location_from_json (edac_location_to_json l) = Some l"
    by (cases l) (simp add: edac_location_to_json_def edac_location_from_json_def)
qed simp

definition edac_device_to_json :: "EdacMemoryDevice \<Rightarrow> json" where
  "edac_device_to_json d = json_object
     [(''controller_index'', Some (word_json (ed_controller_index d))),
      (''index'', Some (id_json (ed_index d))),
      (''kind'', Some (enum_json EdacMemoryDeviceKind_enumerators (ed_kind d))),
      (''label'', Some (Json_String (ed_label d))),
      (''location'', Some (edac_location_to_json (ed_location d))),
      (''memory_type'', Some (Json_String (ed_memory_type d))),
      (''edac_mode'', Some (Json_String (ed_edac_mode d))),
      (''device_width'', Some (Json_String (ed_device_width d))), (''size'', map_option unit_json (ed_size d)),
      (''numa_node'', map_option id_json (ed_numa_node d))]"

definition edac_device_from_json :: "json \<Rightarrow> EdacMemoryDevice option" where
  "edac_device_from_json j = do {
     controller_index \<leftarrow> needed uint32_from_json (json_find j ''controller_index'');
     index \<leftarrow> needed id_from_json (json_find j ''index'');
     kind \<leftarrow> needed (checked_enum EdacMemoryDeviceKind_enumerators Rank) (json_find j ''kind'');
     label \<leftarrow> json_value j ''label'';
     location \<leftarrow> given edac_location_from_json EdacLocation_default (json_find j ''location'');
     memory_type \<leftarrow> json_value j ''memory_type'';
     edac_mode \<leftarrow> json_value j ''edac_mode'';
     device_width \<leftarrow> json_value j ''device_width'';
     size \<leftarrow> maybe unit_from_json (json_find j ''size'');
     numa_node \<leftarrow> maybe id_from_json (json_find j ''numa_node'');
     Some
       \<lparr>ed_controller_index = controller_index, ed_index = index, ed_kind = kind, ed_label = label,
        ed_size = size, ed_location = location, ed_memory_type = memory_type, ed_edac_mode = edac_mode,
        ed_device_width = device_width, ed_numa_node = numa_node\<rparr> }"

interpretation edac_device: json_codec edac_device_to_json edac_device_from_json "\<lambda>_. True"
proof
  fix d
  show "edac_device_from_json (edac_device_to_json d) = Some d"
    by (cases d) (simp add: edac_device_to_json_def edac_device_from_json_def)
qed simp

section \<open>Controllers, nodes and modules (\<open>memory.cpp\<close>)\<close>

definition memory_controller_to_json :: "MemoryController \<Rightarrow> json" where
  "memory_controller_to_json m = json_object
     [(''index'', Some (word_json (mc_index m))), (''name'', Some (Json_String (mc_name m))),
      (''capacity'', map_option unit_json (mc_capacity m)),
      (''corrected_errors'', map_option Json_Unsigned (mc_corrected_errors m)),
      (''uncorrected_errors'', map_option Json_Unsigned (mc_uncorrected_errors m)),
      (''numa_node'', map_option id_json (mc_numa_node m)),
      (''pci_address'', map_option pci_address_to_json (mc_pci_address m)),
      (''max_location'', if loc_report (mc_max_location m) = [] \<and> loc_coordinates (mc_max_location m) = [] then None
       else Some (edac_location_to_json (mc_max_location m)))]"

definition memory_controller_from_json :: "json \<Rightarrow> MemoryController option" where
  "memory_controller_from_json j = do {
     index \<leftarrow> needed uint32_from_json (json_find j ''index'');
     name \<leftarrow> json_value j ''name'';
     capacity \<leftarrow> maybe unit_from_json (json_find j ''capacity'');
     corrected_errors \<leftarrow> maybe uint64_from_json (json_find j ''corrected_errors'');
     uncorrected_errors \<leftarrow> maybe uint64_from_json (json_find j ''uncorrected_errors'');
     numa_node \<leftarrow> maybe id_from_json (json_find j ''numa_node'');
     pci_address \<leftarrow> maybe pci_address_from_json (json_find j ''pci_address'');
     max_location \<leftarrow> given edac_location_from_json EdacLocation_default (json_find j ''max_location'');
     Some
       \<lparr>mc_index = index, mc_name = name, mc_capacity = capacity, mc_corrected_errors = corrected_errors,
        mc_uncorrected_errors = uncorrected_errors, mc_numa_node = numa_node, mc_pci_address = pci_address,
        mc_max_location = max_location\<rparr> }"

definition memory_controller_ok :: "MemoryController \<Rightarrow> bool" where
  "memory_controller_ok m \<longleftrightarrow> pred_option pci_address_ok (mc_pci_address m)"

interpretation memory_controller: json_codec memory_controller_to_json memory_controller_from_json memory_controller_ok
proof
  fix m
  assume "memory_controller_ok m"
  then show "memory_controller_from_json (memory_controller_to_json m) = Some m"
    by (cases m; cases "mc_max_location m")
      (auto simp: memory_controller_to_json_def memory_controller_from_json_def memory_controller_ok_def
        EdacLocation_default_def)
next
  fix j m
  assume "memory_controller_from_json j = Some m"
  then show "memory_controller_ok m"
    by (auto simp: memory_controller_from_json_def memory_controller_ok_def bind_eq_Some_conv
      dest: pci_address.maybe_decoded)
qed

definition numa_memory_to_json :: "NumaMemory \<Rightarrow> json" where
  "numa_memory_to_json nm = json_object
     [(''node'', Some (id_json (nm_node nm))), (''total'', Some (unit_json (nm_total nm))),
      (''available'', map_option unit_json (nm_available nm)), (''free'', map_option unit_json (nm_free nm))]"

definition numa_memory_from_json :: "json \<Rightarrow> NumaMemory option" where
  "numa_memory_from_json j = do {
     node \<leftarrow> needed id_from_json (json_find j ''node'');
     total \<leftarrow> needed unit_from_json (json_find j ''total'');
     available \<leftarrow> maybe unit_from_json (json_find j ''available'');
     free \<leftarrow> maybe unit_from_json (json_find j ''free'');
     Some
       \<lparr>nm_node = node, nm_total = total, nm_available = available, nm_free = free\<rparr> }"

interpretation numa_memory: json_codec numa_memory_to_json numa_memory_from_json "\<lambda>_. True"
proof
  fix nm
  show "numa_memory_from_json (numa_memory_to_json nm) = Some nm"
    by (cases nm) (simp add: numa_memory_to_json_def numa_memory_from_json_def)
qed simp

definition dimm_info_to_json :: "DimmInfo \<Rightarrow> json" where
  "dimm_info_to_json d = json_object
     [(''locator'', Some (Json_String (dimm_locator d))),
      (''bank_locator'', Some (Json_String (dimm_bank_locator d))), (''size'', Some (unit_json (dimm_size d))),
      (''present'', Some (Json_Boolean (dimm_present d))),
      (''speed_mts'', map_option unit_json (dimm_speed_mts d)),
      (''manufacturer'', map_option name_json (dimm_manufacturer d)),
      (''part_number'', map_option Json_String (dimm_part_number d)),
      (''rank'', map_option word_json (dimm_rank d)),
      (''total_width'', map_option word_json (dimm_total_width d)),
      (''data_width'', map_option word_json (dimm_data_width d)),
      (''form_factor'', map_option Json_String (dimm_form_factor d)),
      (''memory_type'', text_unless_empty (dimm_memory_type d)),
      (''serial'', text_unless_empty (dimm_serial d)), (''asset_tag'', text_unless_empty (dimm_asset_tag d)),
      (''type_detail'', text_unless_empty (dimm_type_detail d)),
      (''edac_mode'', text_unless_empty (dimm_edac_mode d)),
      (''device_width'', text_unless_empty (dimm_device_width d)),
      (''configured_speed_mts'', map_option unit_json (dimm_configured_speed_mts d)),
      (''configured_voltage_mv'', map_option unit_json (dimm_configured_voltage_mv d)),
      (''controller_index'', map_option word_json (dimm_controller_index d)),
      (''numa_node'', map_option id_json (dimm_numa_node d)),
      (''edac_device_index'', map_option id_json (dimm_edac_device_index d)),
      (''edac_association'', if dimm_edac_association d = Assoc_Unknown then None
       else Some (enum_json DimmEdacAssociation_enumerators (dimm_edac_association d)))]"

definition dimm_info_from_json :: "json \<Rightarrow> DimmInfo option" where
  "dimm_info_from_json j = do {
     locator \<leftarrow> needed json_string (json_find j ''locator'');
     bank_locator \<leftarrow> needed json_string (json_find j ''bank_locator'');
     size \<leftarrow> needed unit_from_json (json_find j ''size'');
     present \<leftarrow> needed json_boolean (json_find j ''present'');
     speed_mts \<leftarrow> maybe unit_from_json (json_find j ''speed_mts'');
     manufacturer \<leftarrow> maybe name_from_json (json_find j ''manufacturer'');
     part_number \<leftarrow> maybe json_string (json_find j ''part_number'');
     rank \<leftarrow> maybe uint32_from_json (json_find j ''rank'');
     total_width \<leftarrow> maybe uint32_from_json (json_find j ''total_width'');
     data_width \<leftarrow> maybe uint32_from_json (json_find j ''data_width'');
     form_factor \<leftarrow> maybe json_string (json_find j ''form_factor'');
     memory_type \<leftarrow> json_value j ''memory_type'';
     serial \<leftarrow> json_value j ''serial'';
     asset_tag \<leftarrow> json_value j ''asset_tag'';
     type_detail \<leftarrow> json_value j ''type_detail'';
     edac_mode \<leftarrow> json_value j ''edac_mode'';
     device_width \<leftarrow> json_value j ''device_width'';
     configured_speed_mts \<leftarrow> maybe unit_from_json (json_find j ''configured_speed_mts'');
     configured_voltage_mv \<leftarrow> maybe unit_from_json (json_find j ''configured_voltage_mv'');
     controller_index \<leftarrow> maybe uint32_from_json (json_find j ''controller_index'');
     numa_node \<leftarrow> maybe id_from_json (json_find j ''numa_node'');
     edac_device_index \<leftarrow> maybe id_from_json (json_find j ''edac_device_index'');
     edac_association \<leftarrow> given (checked_enum DimmEdacAssociation_enumerators LabelAndCapacity) Assoc_Unknown (json_find j ''edac_association'');
     Some
       \<lparr>dimm_locator = locator, dimm_bank_locator = bank_locator, dimm_size = size, dimm_speed_mts = speed_mts,
        dimm_manufacturer = manufacturer, dimm_part_number = part_number, dimm_rank = rank,
        dimm_total_width = total_width, dimm_data_width = data_width, dimm_form_factor = form_factor,
        dimm_present = present, dimm_memory_type = memory_type,
        dimm_configured_speed_mts = configured_speed_mts, dimm_serial = serial, dimm_asset_tag = asset_tag,
        dimm_type_detail = type_detail, dimm_configured_voltage_mv = configured_voltage_mv,
        dimm_edac_mode = edac_mode, dimm_device_width = device_width, dimm_controller_index = controller_index,
        dimm_numa_node = numa_node, dimm_edac_device_index = edac_device_index,
        dimm_edac_association = edac_association\<rparr> }"

interpretation dimm_info: json_codec dimm_info_to_json dimm_info_from_json "\<lambda>_. True"
proof
  fix d
  show "dimm_info_from_json (dimm_info_to_json d) = Some d"
    by (cases d) (simp add: dimm_info_to_json_def dimm_info_from_json_def)
qed simp

definition memory_to_json :: "Memory \<Rightarrow> json" where
  "memory_to_json m = json_object
     [(''total_memory'', Some (unit_json (mem_total_memory m))),
      (''available_memory'', map_option unit_json (mem_available_memory m)),
      (''memory_type'', text_unless_empty (mem_memory_type m)),
      (''configured_speed_mts'', map_option unit_json (mem_configured_speed_mts m)),
      (''numa_memory'', Some (list_json numa_memory_to_json (mem_numa_memory m))),
      (''dimms'', Some (list_json dimm_info_to_json (mem_dimms m))),
      (''dimm_count'', map_option word_json (mem_dimm_count m)),
      (''populated_dimms'', map_option word_json (mem_populated_dimms m)),
      (''dimm_inventory_source'', text_unless_empty (mem_dimm_inventory_source m)),
      (''reported_slot_count'', map_option word_json (mem_reported_slot_count m)),
      (''reported_slots_complete'', map_option Json_Boolean (mem_reported_slots_complete m)),
      (''controllers'', list_unless_empty memory_controller_to_json (mem_controllers m)),
      (''reported_array_location'', text_unless_empty (mem_reported_array_location m)),
      (''reported_array_error_correction'', text_unless_empty (mem_reported_array_error_correction m)),
      (''reported_array_max_capacity'', map_option unit_json (mem_reported_array_max_capacity m)),
      (''edac_devices'', list_unless_empty edac_device_to_json (mem_edac_devices m))]"

definition memory_from_json :: "json \<Rightarrow> Memory option" where
  "memory_from_json j = do {
     total_memory \<leftarrow> needed unit_from_json (json_find j ''total_memory'');
     available_memory \<leftarrow> maybe unit_from_json (json_find j ''available_memory'');
     memory_type \<leftarrow> given json_string [] (json_find j ''memory_type'');
     configured_speed_mts \<leftarrow> maybe unit_from_json (json_find j ''configured_speed_mts'');
     numa_memory \<leftarrow> given (list_of numa_memory_from_json) [] (json_find j ''numa_memory'');
     dimms \<leftarrow> given (list_of dimm_info_from_json) [] (json_find j ''dimms'');
     dimm_count \<leftarrow> maybe uint32_from_json (json_find j ''dimm_count'');
     populated_dimms \<leftarrow> maybe uint32_from_json (json_find j ''populated_dimms'');
     dimm_inventory_source \<leftarrow> json_value j ''dimm_inventory_source'';
     reported_slot_count \<leftarrow> maybe uint32_from_json (json_find j ''reported_slot_count'');
     reported_slots_complete \<leftarrow> maybe json_boolean (json_find j ''reported_slots_complete'');
     controllers \<leftarrow> given (list_of memory_controller_from_json) [] (json_find j ''controllers'');
     reported_array_location \<leftarrow> json_value j ''reported_array_location'';
     reported_array_error_correction \<leftarrow> json_value j ''reported_array_error_correction'';
     reported_array_max_capacity \<leftarrow> maybe unit_from_json (json_find j ''reported_array_max_capacity'');
     edac_devices \<leftarrow> given (array_of edac_device_from_json) [] (json_find j ''edac_devices'');
     Some
       \<lparr>mem_total_memory = total_memory, mem_available_memory = available_memory, mem_memory_type = memory_type,
        mem_configured_speed_mts = configured_speed_mts, mem_numa_memory = numa_memory, mem_dimms = dimms,
        mem_dimm_count = dimm_count, mem_populated_dimms = populated_dimms, mem_controllers = controllers,
        mem_dimm_inventory_source = dimm_inventory_source, mem_reported_slot_count = reported_slot_count,
        mem_reported_array_location = reported_array_location,
        mem_reported_array_error_correction = reported_array_error_correction,
        mem_reported_array_max_capacity = reported_array_max_capacity,
        mem_reported_slots_complete = reported_slots_complete, mem_edac_devices = edac_devices\<rparr> }"

definition memory_ok :: "Memory \<Rightarrow> bool" where
  "memory_ok m \<longleftrightarrow> list_all memory_controller_ok (mem_controllers m)"

interpretation memory: json_codec memory_to_json memory_from_json memory_ok
proof
  fix m
  assume "memory_ok m"
  then show "memory_from_json (memory_to_json m) = Some m"
    by (cases m) (simp add: memory_to_json_def memory_from_json_def memory_ok_def)
next
  fix j m
  assume "memory_from_json j = Some m"
  then show "memory_ok m"
    by (auto simp: memory_from_json_def memory_ok_def bind_eq_Some_conv
      dest: memory_controller.given_list_decoded)
qed

end
