(* ===== verification/Codec_Cpu.thy ===== *)
theory Codec_Cpu
  imports Json_Enums Cpu_Features
begin

text \<open>
  The JSON of the CPU: \<open>src/serialization/cpu.cpp\<close> and \<open>cpu_features.cpp\<close>. The feature summary is written
  from the query and never read back.
\<close>

section \<open>Parts of the CPU (\<open>cpu.cpp\<close>)\<close>

definition cpu_package_to_json :: "CpuPackage \<Rightarrow> json" where
  "cpu_package_to_json pkg = json_object
     [(''id'', Some (id_json (pkg_id pkg))), (''vendor'', Some (name_json (pkg_vendor pkg))),
      (''model_name'', Some (name_json (pkg_model_name pkg))),
      (''physical_cores'', Some (word_json (pkg_physical_cores pkg))),
      (''logical_threads'', Some (word_json (pkg_logical_threads pkg))),
      (''base_frequency'', map_option unit_json (pkg_base_frequency pkg)),
      (''max_frequency'', map_option unit_json (pkg_max_frequency pkg))]"

definition cpu_package_from_json :: "json \<Rightarrow> CpuPackage option" where
  "cpu_package_from_json j = do {
     id \<leftarrow> needed id_from_json (json_find j ''id'');
     vendor \<leftarrow> needed name_from_json (json_find j ''vendor'');
     model_name \<leftarrow> needed name_from_json (json_find j ''model_name'');
     physical_cores \<leftarrow> needed uint32_from_json (json_find j ''physical_cores'');
     logical_threads \<leftarrow> needed uint32_from_json (json_find j ''logical_threads'');
     base_frequency \<leftarrow> maybe unit_from_json (json_find j ''base_frequency'');
     max_frequency \<leftarrow> maybe unit_from_json (json_find j ''max_frequency'');
     Some
       \<lparr>pkg_id = id, pkg_vendor = vendor, pkg_model_name = model_name, pkg_physical_cores = physical_cores,
        pkg_logical_threads = logical_threads, pkg_base_frequency = base_frequency,
        pkg_max_frequency = max_frequency\<rparr> }"

interpretation cpu_package: json_codec cpu_package_to_json cpu_package_from_json "\<lambda>_. True"
proof
  fix pkg
  show "cpu_package_from_json (cpu_package_to_json pkg) = Some pkg"
    by (cases pkg) (simp add: cpu_package_to_json_def cpu_package_from_json_def)
qed simp

definition cpu_core_to_json :: "CpuCore \<Rightarrow> json" where
  "cpu_core_to_json c = json_object
     [(''id'', Some (id_json (core_id c))), (''package_id'', Some (id_json (core_package_id c))),
      (''logical_threads'', Some (word_json (core_logical_threads c))),
      (''numa_node'', map_option id_json (core_numa_node c))]"

definition cpu_core_from_json :: "json \<Rightarrow> CpuCore option" where
  "cpu_core_from_json j = do {
     id \<leftarrow> needed id_from_json (json_find j ''id'');
     package_id \<leftarrow> needed id_from_json (json_find j ''package_id'');
     logical_threads \<leftarrow> needed uint32_from_json (json_find j ''logical_threads'');
     numa_node \<leftarrow> maybe id_from_json (json_find j ''numa_node'');
     Some
       \<lparr>core_id = id, core_package_id = package_id, core_logical_threads = logical_threads,
        core_numa_node = numa_node\<rparr> }"

interpretation cpu_core: json_codec cpu_core_to_json cpu_core_from_json "\<lambda>_. True"
proof
  fix c
  show "cpu_core_from_json (cpu_core_to_json c) = Some c"
    by (cases c) (simp add: cpu_core_to_json_def cpu_core_from_json_def)
qed simp

definition cpu_identification_to_json :: "CpuIdentification \<Rightarrow> json" where
  "cpu_identification_to_json identity = json_object
     [(''family'', map_option word_json (ident_family identity)),
      (''model'', map_option word_json (ident_model identity)),
      (''stepping'', map_option word_json (ident_stepping identity)),
      (''implementer'', map_option word_json (ident_implementer identity)),
      (''part'', map_option word_json (ident_part identity)),
      (''variant'', map_option word_json (ident_variant identity)),
      (''revision'', Some (Json_String (ident_revision identity))),
      (''architecture'', Some (Json_String (ident_architecture identity))),
      (''microcode'', Some (Json_String (ident_microcode identity))),
      (''features'', Some (list_json Json_String (ident_features identity))),
      (''features_reported'', Some (Json_Boolean (ident_features_reported identity)))]"

definition cpu_identification_from_json :: "json \<Rightarrow> CpuIdentification option" where
  "cpu_identification_from_json j = do {
     family \<leftarrow> maybe uint32_from_json (json_find j ''family'');
     model \<leftarrow> maybe uint32_from_json (json_find j ''model'');
     stepping \<leftarrow> maybe uint32_from_json (json_find j ''stepping'');
     implementer \<leftarrow> maybe uint32_from_json (json_find j ''implementer'');
     part \<leftarrow> maybe uint32_from_json (json_find j ''part'');
     variant \<leftarrow> maybe uint32_from_json (json_find j ''variant'');
     revision \<leftarrow> json_value j ''revision'';
     architecture \<leftarrow> json_value j ''architecture'';
     microcode \<leftarrow> json_value j ''microcode'';
     features \<leftarrow> texts_value j ''features'';
     features_reported \<leftarrow> boolean_value j ''features_reported'' False;
     Some
       \<lparr>ident_family = family, ident_model = model, ident_stepping = stepping, ident_implementer = implementer,
        ident_part = part, ident_variant = variant, ident_revision = revision,
        ident_architecture = architecture, ident_microcode = microcode, ident_features = features,
        ident_features_reported = features_reported\<rparr> }"

interpretation cpu_identification: json_codec cpu_identification_to_json cpu_identification_from_json "\<lambda>_. True"
proof
  fix identity
  show "cpu_identification_from_json (cpu_identification_to_json identity) = Some identity"
    by (cases identity) (simp add: cpu_identification_to_json_def cpu_identification_from_json_def)
qed simp

definition cpu_policy_to_json :: "CpuFrequencyPolicy \<Rightarrow> json" where
  "cpu_policy_to_json policy = json_object
     [(''index'', Some (word_json (pol_index policy))),
      (''related_cpus'', Some (list_json id_json (pol_related_cpus policy))),
      (''affected_cpus'', Some (list_json id_json (pol_affected_cpus policy))),
      (''base_frequency'', map_option unit_json (pol_base_frequency policy)),
      (''hardware_min_frequency'', map_option unit_json (pol_hardware_min_frequency policy)),
      (''hardware_max_frequency'', map_option unit_json (pol_hardware_max_frequency policy)),
      (''scaling_min_frequency'', map_option unit_json (pol_scaling_min_frequency policy)),
      (''scaling_max_frequency'', map_option unit_json (pol_scaling_max_frequency policy)),
      (''scaling_current_frequency'', map_option unit_json (pol_scaling_current_frequency policy)),
      (''hardware_current_frequency'', map_option unit_json (pol_hardware_current_frequency policy)),
      (''driver'', Some (Json_String (pol_driver policy))),
      (''governor'', Some (Json_String (pol_governor policy))),
      (''energy_performance_preference'', Some (Json_String (pol_energy_performance_preference policy)))]"

definition cpu_policy_from_json :: "json \<Rightarrow> CpuFrequencyPolicy option" where
  "cpu_policy_from_json j = do {
     index \<leftarrow> needed uint32_from_json (json_find j ''index'');
     related_cpus \<leftarrow> needed (list_of id_from_json) (json_find j ''related_cpus'');
     affected_cpus \<leftarrow> needed (list_of id_from_json) (json_find j ''affected_cpus'');
     base_frequency \<leftarrow> maybe unit_from_json (json_find j ''base_frequency'');
     hardware_min_frequency \<leftarrow> maybe unit_from_json (json_find j ''hardware_min_frequency'');
     hardware_max_frequency \<leftarrow> maybe unit_from_json (json_find j ''hardware_max_frequency'');
     scaling_min_frequency \<leftarrow> maybe unit_from_json (json_find j ''scaling_min_frequency'');
     scaling_max_frequency \<leftarrow> maybe unit_from_json (json_find j ''scaling_max_frequency'');
     scaling_current_frequency \<leftarrow> maybe unit_from_json (json_find j ''scaling_current_frequency'');
     hardware_current_frequency \<leftarrow> maybe unit_from_json (json_find j ''hardware_current_frequency'');
     driver \<leftarrow> json_value j ''driver'';
     governor \<leftarrow> json_value j ''governor'';
     energy_performance_preference \<leftarrow> json_value j ''energy_performance_preference'';
     Some
       \<lparr>pol_index = index, pol_related_cpus = related_cpus, pol_affected_cpus = affected_cpus,
        pol_base_frequency = base_frequency, pol_hardware_min_frequency = hardware_min_frequency,
        pol_hardware_max_frequency = hardware_max_frequency, pol_scaling_min_frequency = scaling_min_frequency,
        pol_scaling_max_frequency = scaling_max_frequency,
        pol_scaling_current_frequency = scaling_current_frequency,
        pol_hardware_current_frequency = hardware_current_frequency, pol_driver = driver,
        pol_governor = governor, pol_energy_performance_preference = energy_performance_preference\<rparr> }"

interpretation cpu_policy: json_codec cpu_policy_to_json cpu_policy_from_json "\<lambda>_. True"
proof
  fix policy
  show "cpu_policy_from_json (cpu_policy_to_json policy) = Some policy"
    by (cases policy) (simp add: cpu_policy_to_json_def cpu_policy_from_json_def)
qed simp

definition logical_cpu_to_json :: "LogicalCpu \<Rightarrow> json" where
  "logical_cpu_to_json lc = json_object
     [(''id'', Some (id_json (lc_id lc))), (''core_id'', Some (id_json (lc_core_id lc))),
      (''package_id'', Some (id_json (lc_package_id lc))),
      (''visible_to_current_process'', map_option Json_Boolean (lc_visible_to_current_process lc)),
      (''numa_node'', map_option id_json (lc_numa_node lc)),
      (''identification'', Some (cpu_identification_to_json (lc_identification lc))),
      (''online'', map_option Json_Boolean (lc_online lc))]"

definition logical_cpu_from_json :: "json \<Rightarrow> LogicalCpu option" where
  "logical_cpu_from_json j = do {
     id \<leftarrow> needed id_from_json (json_find j ''id'');
     core_id \<leftarrow> needed id_from_json (json_find j ''core_id'');
     package_id \<leftarrow> needed id_from_json (json_find j ''package_id'');
     visible_to_current_process \<leftarrow> maybe json_boolean (json_find j ''visible_to_current_process'');
     numa_node \<leftarrow> maybe id_from_json (json_find j ''numa_node'');
     identification \<leftarrow> given cpu_identification_from_json CpuIdentification_default (json_find j ''identification'');
     online \<leftarrow> maybe json_boolean (json_find j ''online'');
     Some
       \<lparr>lc_id = id, lc_core_id = core_id, lc_package_id = package_id, lc_numa_node = numa_node,
        lc_visible_to_current_process = visible_to_current_process, lc_identification = identification,
        lc_online = online\<rparr> }"

interpretation logical_cpu: json_codec logical_cpu_to_json logical_cpu_from_json "\<lambda>_. True"
proof
  fix lc
  show "logical_cpu_from_json (logical_cpu_to_json lc) = Some lc"
    by (cases lc) (simp add: logical_cpu_to_json_def logical_cpu_from_json_def)
qed simp

definition numa_node_to_json :: "NumaNode \<Rightarrow> json" where
  "numa_node_to_json n = json_object
     [(''id'', Some (id_json (nn_id n))), (''cpus'', Some (list_json id_json (nn_cpus n)))]"

definition numa_node_from_json :: "json \<Rightarrow> NumaNode option" where
  "numa_node_from_json j = do {
     id \<leftarrow> needed id_from_json (json_find j ''id'');
     cpus \<leftarrow> needed (list_of id_from_json) (json_find j ''cpus'');
     Some
       \<lparr>nn_id = id, nn_cpus = cpus\<rparr> }"

interpretation numa_node: json_codec numa_node_to_json numa_node_from_json "\<lambda>_. True"
proof
  fix n
  show "numa_node_from_json (numa_node_to_json n) = Some n"
    by (cases n) (simp add: numa_node_to_json_def numa_node_from_json_def)
qed simp

definition cpu_cache_to_json :: "CpuCache \<Rightarrow> json" where
  "cpu_cache_to_json c = json_object
     [(''level'', Some (word_json (cache_level c))),
      (''type'', Some (enum_json CacheType_enumerators (cache_type c))),
      (''size'', Some (unit_json (cache_size c))), (''ways'', Some (word_json (cache_ways c))),
      (''line_size'', Some (word_json (cache_line_size c))),
      (''cpu_number'', Some (word_json (cache_cpu_number c))),
      (''cache_id'', map_option word_json (cache_cache_id c)), (''sets'', map_option word_json (cache_sets c)),
      (''shared_cpus'', Some (list_json id_json (cache_shared_cpus c)))]"

definition cpu_cache_from_json :: "json \<Rightarrow> CpuCache option" where
  "cpu_cache_from_json j = do {
     level \<leftarrow> needed uint32_from_json (json_find j ''level'');
     type \<leftarrow> needed (validate_enum CacheType_enumerators Cache_Other) (json_find j ''type'');
     size \<leftarrow> needed unit_from_json (json_find j ''size'');
     ways \<leftarrow> needed uint32_from_json (json_find j ''ways'');
     line_size \<leftarrow> needed uint32_from_json (json_find j ''line_size'');
     cpu_number \<leftarrow> needed uint32_from_json (json_find j ''cpu_number'');
     cache_id \<leftarrow> maybe uint32_from_json (json_find j ''cache_id'');
     sets \<leftarrow> maybe uint32_from_json (json_find j ''sets'');
     shared_cpus \<leftarrow> given (list_of id_from_json) [] (json_find j ''shared_cpus'');
     Some
       \<lparr>cache_level = level, cache_type = type, cache_size = size, cache_ways = ways,
        cache_line_size = line_size, cache_cpu_number = cpu_number, cache_cache_id = cache_id,
        cache_sets = sets, cache_shared_cpus = shared_cpus\<rparr> }"

interpretation cpu_cache: json_codec cpu_cache_to_json cpu_cache_from_json "\<lambda>_. True"
proof
  fix c
  show "cpu_cache_from_json (cpu_cache_to_json c) = Some c"
    by (cases c) (simp add: cpu_cache_to_json_def cpu_cache_from_json_def)
qed simp

definition thermal_zone_to_json :: "ThermalZone \<Rightarrow> json" where
  "thermal_zone_to_json t = json_object
     [(''name'', Some (Json_String (tz_name t))), (''type'', Some (Json_String (tz_type t))),
      (''temp'', Some (unit_json (tz_temp t)))]"

definition thermal_zone_from_json :: "json \<Rightarrow> ThermalZone option" where
  "thermal_zone_from_json j = do {
     name \<leftarrow> needed json_string (json_find j ''name'');
     type \<leftarrow> needed json_string (json_find j ''type'');
     temp \<leftarrow> needed unit_from_json (json_find j ''temp'');
     Some
       \<lparr>tz_name = name, tz_type = type, tz_temp = temp\<rparr> }"

interpretation thermal_zone: json_codec thermal_zone_to_json thermal_zone_from_json "\<lambda>_. True"
proof
  fix t
  show "thermal_zone_from_json (thermal_zone_to_json t) = Some t"
    by (cases t) (simp add: thermal_zone_to_json_def thermal_zone_from_json_def)
qed simp

section \<open>Feature summary (\<open>cpu_features.cpp\<close>)\<close>

definition feature_report_to_json :: "CpuFeatureReport \<Rightarrow> json" where
  "feature_report_to_json r = json_object
     [(''name'', Some (name_json (rep_name r))),
      (''reported_cpu_ids'', Some (list_json id_json (rep_reported_cpu_ids r))),
      (''not_reported_cpu_ids'', Some (list_json id_json (rep_not_reported_cpu_ids r))),
      (''unknown_cpu_ids'', Some (list_json id_json (rep_unknown_cpu_ids r)))]"

definition cpu_feature_summary_to_json :: "CpuFeatureSummary \<Rightarrow> json" where
  "cpu_feature_summary_to_json s = json_object
     [(''logical_cpu_ids'', Some (list_json id_json (sum_logical_cpu_ids s))),
      (''complete_cpu_ids'', Some (list_json id_json (sum_complete_cpu_ids s))),
      (''observed_union'', Some (list_json name_json (sum_observed_union s))),
      (''common'', Some (case sum_common s of None \<Rightarrow> Json_Null | Some names \<Rightarrow> list_json name_json names)),
      (''reports'', Some (list_json feature_report_to_json (sum_reports s)))]"

section \<open>The CPU\<close>

definition cpu_to_json :: "Cpu \<Rightarrow> json" where
  "cpu_to_json c = json_object
     [(''arch'', Some (enum_json Arch_enumerators (cpu_arch c))),
      (''packages'', Some (list_json cpu_package_to_json (cpu_packages c))),
      (''cores'', Some (list_json cpu_core_to_json (cpu_cores c))),
      (''logical_cpus'', Some (list_json logical_cpu_to_json (cpu_logical_cpus c))),
      (''numa_nodes'', Some (list_json numa_node_to_json (cpu_numa_nodes c))),
      (''isa_extensions'', Some (list_json (enum_json IsaExtension_enumerators) (cpu_isa_extensions c))),
      (''caches'', Some (list_json cpu_cache_to_json (cpu_caches c))),
      (''governor'', Some (Json_String (cpu_governor c))),
      (''thermal_zones'', Some (list_json thermal_zone_to_json (cpu_thermal_zones c))),
      (''frequency_policies'', Some (list_json cpu_policy_to_json (cpu_frequency_policies c))),
      (''present_cpu_ids'', map_option (list_json id_json) (cpu_present_cpu_ids c)),
      (''online_cpu_ids'', map_option (list_json id_json) (cpu_online_cpu_ids c)),
      (''smt_supported'', map_option Json_Boolean (cpu_smt_supported c)),
      (''smt_active'', map_option Json_Boolean (cpu_smt_active c)),
      (''boost_enabled'', map_option Json_Boolean (cpu_boost_enabled c)),
      (''smt_control'', Some (Json_String (cpu_smt_control c))),
      (''feature_summary'', Some (cpu_feature_summary_to_json (feature_summary c)))]"

definition cpu_from_json :: "json \<Rightarrow> Cpu option" where
  "cpu_from_json j = do {
     arch \<leftarrow> needed (validate_enum Arch_enumerators Arch_Other) (json_find j ''arch'');
     packages \<leftarrow> needed (list_of cpu_package_from_json) (json_find j ''packages'');
     cores \<leftarrow> needed (list_of cpu_core_from_json) (json_find j ''cores'');
     logical_cpus \<leftarrow> needed (list_of logical_cpu_from_json) (json_find j ''logical_cpus'');
     numa_nodes \<leftarrow> needed (list_of numa_node_from_json) (json_find j ''numa_nodes'');
     isa_extensions \<leftarrow> needed (list_of (validate_enum IsaExtension_enumerators Pclmulqdq)) (json_find j ''isa_extensions'');
     caches \<leftarrow> given (list_of cpu_cache_from_json) [] (json_find j ''caches'');
     governor \<leftarrow> given json_string [] (json_find j ''governor'');
     thermal_zones \<leftarrow> given (list_of thermal_zone_from_json) [] (json_find j ''thermal_zones'');
     frequency_policies \<leftarrow> given (list_of cpu_policy_from_json) [] (json_find j ''frequency_policies'');
     present_cpu_ids \<leftarrow> maybe (list_of id_from_json) (json_find j ''present_cpu_ids'');
     online_cpu_ids \<leftarrow> maybe (list_of id_from_json) (json_find j ''online_cpu_ids'');
     smt_supported \<leftarrow> maybe json_boolean (json_find j ''smt_supported'');
     smt_active \<leftarrow> maybe json_boolean (json_find j ''smt_active'');
     boost_enabled \<leftarrow> maybe json_boolean (json_find j ''boost_enabled'');
     smt_control \<leftarrow> json_value j ''smt_control'';
     Some
       \<lparr>cpu_arch = arch, cpu_packages = packages, cpu_cores = cores, cpu_logical_cpus = logical_cpus,
        cpu_numa_nodes = numa_nodes, cpu_isa_extensions = isa_extensions, cpu_caches = caches,
        cpu_governor = governor, cpu_thermal_zones = thermal_zones, cpu_frequency_policies = frequency_policies,
        cpu_present_cpu_ids = present_cpu_ids, cpu_online_cpu_ids = online_cpu_ids,
        cpu_smt_supported = smt_supported, cpu_smt_active = smt_active, cpu_smt_control = smt_control,
        cpu_boost_enabled = boost_enabled\<rparr> }"

interpretation cpu: json_codec cpu_to_json cpu_from_json "\<lambda>_. True"
proof
  fix c
  show "cpu_from_json (cpu_to_json c) = Some c"
    by (cases c) (simp add: cpu_to_json_def cpu_from_json_def)
qed simp

end
