(* ===== verification/Codec_Storage.thy ===== *)
theory Codec_Storage
  imports Json_Enums
begin

text \<open>
  The JSON of the storage: \<open>src/serialization/storage.cpp\<close>, \<open>storage_classification.cpp\<close>,
  \<open>storage_connections.cpp\<close>, \<open>filesystems.cpp\<close> and \<open>storage_health.cpp\<close>. A counter that is not a
  128-bit decimal number cannot be written: the writers of the health reports, and those above them,
  are \<^const>\<open>None\<close> then.
\<close>

section \<open>Classification (\<open>storage_classification.cpp\<close>)\<close>

definition storage_classification_to_json :: "StorageClassification \<Rightarrow> json" where
  "storage_classification_to_json c = json_object
     [(''layer'', Some (enum_json BlockDeviceLayer_enumerators (cls_layer c))),
      (''purpose'', Some (enum_json StoragePurpose_enumerators (cls_purpose c))),
      (''protocol'', Some (enum_json StorageProtocol_enumerators (cls_protocol c))),
      (''transports'', Some (list_json (enum_json StorageTransport_enumerators) (cls_transports c)))]"

definition storage_classification_from_json :: "json \<Rightarrow> StorageClassification option" where
  "storage_classification_from_json j = do {
     layer \<leftarrow> needed (validate_enum BlockDeviceLayer_enumerators Virtual) (json_find j ''layer'');
     purpose \<leftarrow> needed (validate_enum StoragePurpose_enumerators Purpose_Other) (json_find j ''purpose'');
     protocol \<leftarrow> needed (validate_enum StorageProtocol_enumerators Proto_Scsi) (json_find j ''protocol'');
     transports \<leftarrow> needed (array_of (validate_enum StorageTransport_enumerators ParallelScsi)) (json_find j ''transports'');
     Some
       \<lparr>cls_layer = layer, cls_purpose = purpose, cls_protocol = protocol, cls_transports = transports\<rparr> }"

interpretation storage_classification: json_codec storage_classification_to_json storage_classification_from_json "\<lambda>_. True"
proof
  fix c
  show "storage_classification_from_json (storage_classification_to_json c) = Some c"
    by (cases c) (simp add: storage_classification_to_json_def storage_classification_from_json_def)
qed simp

section \<open>Connections (\<open>storage_connections.cpp\<close>)\<close>

definition namespace_id_from_json :: "json \<Rightarrow> NvmeNamespaceId option" where
  "namespace_id_from_json j = Option.bind (id_from_json j) (\<lambda>i. if id_value i = 0 then None else Some i)"

interpretation namespace_id: json_codec id_json namespace_id_from_json "\<lambda>i. id_value i \<noteq> 0"
  by unfold_locales (auto simp: namespace_id_from_json_def bind_eq_Some_conv split: if_splits)

definition lun_from_json :: "json \<Rightarrow> ScsiLun option" where
  "lun_from_json j = map_option StrongId (uint64_from_json j)"

interpretation scsi_lun: json_codec id_json lun_from_json "\<lambda>_. True"
proof
  show "lun_from_json (id_json l) = Some l" for l
    using u64.written [of "id_value l"] by (simp add: lun_from_json_def id_json_def word_json_def)
qed simp

definition controller_id_from_json :: "json \<Rightarrow> NvmeControllerId option" where
  "controller_id_from_json j = map_option StrongId (bounded_from_json 0xffff j)"

interpretation controller_id: json_codec id_json controller_id_from_json "\<lambda>_. True"
proof
  show "controller_id_from_json (id_json i) = Some i" for i
    using unsigned_less [of "id_value i", where ?'a = nat]
    by (simp add: controller_id_from_json_def id_json_def bounded_written)
qed simp

interpretation pci_class: json_codec "word_json :: u32 \<Rightarrow> json" "bounded_from_json 0xffffff" "\<lambda>v. unat v \<le> unat (0xffffff :: u64)"
  by (rule bounded_codec) simp

definition nvme_namespace_info_to_json :: "NvmeNamespaceInfo \<Rightarrow> json" where
  "nvme_namespace_info_to_json ns = json_object
     [(''id'', Some (id_json (nsi_id ns))), (''nguid'', Some (Json_String (nsi_nguid ns))),
      (''eui'', Some (Json_String (nsi_eui ns))),
      (''controllers'', Some (list_json name_json (nsi_controllers ns)))]"

definition nvme_namespace_info_from_json :: "json \<Rightarrow> NvmeNamespaceInfo option" where
  "nvme_namespace_info_from_json j = do {
     id \<leftarrow> needed namespace_id_from_json (json_find j ''id'');
     nguid \<leftarrow> json_value j ''nguid'';
     eui \<leftarrow> json_value j ''eui'';
     controllers \<leftarrow> given (array_of name_from_json) [] (json_find j ''controllers'');
     Some
       \<lparr>nsi_id = id, nsi_nguid = nguid, nsi_eui = eui, nsi_controllers = controllers\<rparr> }"

definition nvme_namespace_info_ok :: "NvmeNamespaceInfo \<Rightarrow> bool" where
  "nvme_namespace_info_ok ns \<longleftrightarrow> (\<lambda>i. id_value i \<noteq> 0) (nsi_id ns)"

interpretation nvme_namespace_info: json_codec nvme_namespace_info_to_json nvme_namespace_info_from_json nvme_namespace_info_ok
proof
  fix ns
  assume "nvme_namespace_info_ok ns"
  then show "nvme_namespace_info_from_json (nvme_namespace_info_to_json ns) = Some ns"
    by (cases ns) (simp add: nvme_namespace_info_to_json_def nvme_namespace_info_from_json_def nvme_namespace_info_ok_def)
next
  fix j ns
  assume "nvme_namespace_info_from_json j = Some ns"
  then show "nvme_namespace_info_ok ns"
    by (auto simp: nvme_namespace_info_from_json_def nvme_namespace_info_ok_def bind_eq_Some_conv
      dest: namespace_id.needed_decoded)
qed

definition scsi_address_to_json :: "ScsiAddress \<Rightarrow> json" where
  "scsi_address_to_json a = json_object
     [(''host'', Some (id_json (sa_host a))), (''channel'', Some (id_json (sa_channel a))),
      (''target'', Some (id_json (sa_target a))), (''lun'', Some (id_json (sa_lun a)))]"

definition scsi_address_from_json :: "json \<Rightarrow> ScsiAddress option" where
  "scsi_address_from_json j = do {
     host \<leftarrow> needed id_from_json (json_find j ''host'');
     channel \<leftarrow> needed id_from_json (json_find j ''channel'');
     target \<leftarrow> needed id_from_json (json_find j ''target'');
     lun \<leftarrow> needed lun_from_json (json_find j ''lun'');
     Some
       \<lparr>sa_host = host, sa_channel = channel, sa_target = target, sa_lun = lun\<rparr> }"

interpretation scsi_address: json_codec scsi_address_to_json scsi_address_from_json "\<lambda>_. True"
proof
  fix a
  show "scsi_address_from_json (scsi_address_to_json a) = Some a"
    by (cases a) (simp add: scsi_address_to_json_def scsi_address_from_json_def)
qed simp

definition scsi_device_info_to_json :: "ScsiDeviceInfo \<Rightarrow> json" where
  "scsi_device_info_to_json scsi = json_object
     [(''address'', Some (scsi_address_to_json (sd_address scsi))),
      (''state'', Some (Json_String (sd_state scsi))),
      (''peripheral_type'', map_option word_json (sd_peripheral_type scsi))]"

definition scsi_device_info_from_json :: "json \<Rightarrow> ScsiDeviceInfo option" where
  "scsi_device_info_from_json j = do {
     address \<leftarrow> needed scsi_address_from_json (json_find j ''address'');
     state \<leftarrow> json_value j ''state'';
     peripheral_type \<leftarrow> maybe uint32_from_json (json_find j ''peripheral_type'');
     Some
       \<lparr>sd_address = address, sd_peripheral_type = peripheral_type, sd_state = state\<rparr> }"

interpretation scsi_device_info: json_codec scsi_device_info_to_json scsi_device_info_from_json "\<lambda>_. True"
proof
  fix scsi
  show "scsi_device_info_from_json (scsi_device_info_to_json scsi) = Some scsi"
    by (cases scsi) (simp add: scsi_device_info_to_json_def scsi_device_info_from_json_def)
qed simp

definition storage_controller_to_json :: "StorageController \<Rightarrow> json" where
  "storage_controller_to_json c = json_object
     [(''pci_address'', Some (pci_address_to_json (sc_pci_address c))),
      (''class_code'', Some (word_json (sc_class_code c))), (''vendor'', Some (name_json (sc_vendor c))),
      (''model'', Some (name_json (sc_model c))), (''driver'', Some (Json_String (sc_driver c))),
      (''numa_node'', map_option id_json (sc_numa_node c))]"

definition storage_controller_from_json :: "json \<Rightarrow> StorageController option" where
  "storage_controller_from_json j = do {
     pci_address \<leftarrow> needed pci_address_from_json (json_find j ''pci_address'');
     class_code \<leftarrow> needed (bounded_from_json 0xffffff) (json_find j ''class_code'');
     vendor \<leftarrow> name_value j ''vendor'';
     model \<leftarrow> name_value j ''model'';
     driver \<leftarrow> json_value j ''driver'';
     numa_node \<leftarrow> maybe id_from_json (json_find j ''numa_node'');
     Some
       \<lparr>sc_pci_address = pci_address, sc_class_code = class_code, sc_vendor = vendor, sc_model = model,
        sc_driver = driver, sc_numa_node = numa_node\<rparr> }"

definition storage_controller_ok :: "StorageController \<Rightarrow> bool" where
  "storage_controller_ok c \<longleftrightarrow> pci_address_ok (sc_pci_address c) \<and>
     (\<lambda>v. unat v \<le> unat (0xffffff :: u64)) (sc_class_code c)"

interpretation storage_controller: json_codec storage_controller_to_json storage_controller_from_json storage_controller_ok
proof
  fix c
  assume "storage_controller_ok c"
  then show "storage_controller_from_json (storage_controller_to_json c) = Some c"
    by (cases c) (simp add: storage_controller_to_json_def storage_controller_from_json_def storage_controller_ok_def)
next
  fix j c
  assume "storage_controller_from_json j = Some c"
  then show "storage_controller_ok c"
    by (auto simp: storage_controller_from_json_def storage_controller_ok_def bind_eq_Some_conv
      dest: pci_address.needed_decoded pci_class.needed_decoded)
qed

definition nvme_controller_to_json :: "NvmeController \<Rightarrow> json" where
  "nvme_controller_to_json c = json_object
     [(''name'', Some (name_json (nc_name c))), (''transport'', Some (Json_String (nc_transport c))),
      (''address'', Some (Json_String (nc_address c))), (''model'', Some (Json_String (nc_model c))),
      (''serial'', Some (Json_String (nc_serial c))),
      (''firmware_revision'', Some (Json_String (nc_firmware_revision c))),
      (''state'', Some (Json_String (nc_state c))),
      (''subsystem_nqn'', Some (Json_String (nc_subsystem_nqn c))),
      (''controller_id'', map_option id_json (nc_controller_id c)),
      (''pci_address'', map_option pci_address_to_json (nc_pci_address c)),
      (''numa_node'', map_option id_json (nc_numa_node c))]"

definition nvme_controller_from_json :: "json \<Rightarrow> NvmeController option" where
  "nvme_controller_from_json j = do {
     name \<leftarrow> needed name_from_json (json_find j ''name'');
     transport \<leftarrow> json_value j ''transport'';
     address \<leftarrow> json_value j ''address'';
     model \<leftarrow> json_value j ''model'';
     serial \<leftarrow> json_value j ''serial'';
     firmware_revision \<leftarrow> json_value j ''firmware_revision'';
     state \<leftarrow> json_value j ''state'';
     subsystem_nqn \<leftarrow> json_value j ''subsystem_nqn'';
     controller_id \<leftarrow> maybe controller_id_from_json (json_find j ''controller_id'');
     pci_address \<leftarrow> maybe pci_address_from_json (json_find j ''pci_address'');
     numa_node \<leftarrow> maybe id_from_json (json_find j ''numa_node'');
     Some
       \<lparr>nc_name = name, nc_transport = transport, nc_address = address, nc_model = model, nc_serial = serial,
        nc_firmware_revision = firmware_revision, nc_state = state, nc_controller_id = controller_id,
        nc_subsystem_nqn = subsystem_nqn, nc_pci_address = pci_address, nc_numa_node = numa_node\<rparr> }"

definition nvme_controller_ok :: "NvmeController \<Rightarrow> bool" where
  "nvme_controller_ok c \<longleftrightarrow> pred_option pci_address_ok (nc_pci_address c)"

interpretation nvme_controller: json_codec nvme_controller_to_json nvme_controller_from_json nvme_controller_ok
proof
  fix c
  assume "nvme_controller_ok c"
  then show "nvme_controller_from_json (nvme_controller_to_json c) = Some c"
    by (cases c) (simp add: nvme_controller_to_json_def nvme_controller_from_json_def nvme_controller_ok_def)
next
  fix j c
  assume "nvme_controller_from_json j = Some c"
  then show "nvme_controller_ok c"
    by (auto simp: nvme_controller_from_json_def nvme_controller_ok_def bind_eq_Some_conv
      dest: pci_address.maybe_decoded)
qed

definition scsi_host_to_json :: "ScsiHost \<Rightarrow> json" where
  "scsi_host_to_json h = json_object
     [(''number'', Some (id_json (sh_number h))), (''proc_name'', Some (Json_String (sh_proc_name h))),
      (''state'', Some (Json_String (sh_state h))),
      (''supported_mode'', Some (Json_String (sh_supported_mode h))),
      (''active_mode'', Some (Json_String (sh_active_mode h))),
      (''ata_port'', map_option id_json (sh_ata_port h)),
      (''pci_address'', map_option pci_address_to_json (sh_pci_address h)),
      (''numa_node'', map_option id_json (sh_numa_node h))]"

definition scsi_host_from_json :: "json \<Rightarrow> ScsiHost option" where
  "scsi_host_from_json j = do {
     number \<leftarrow> needed id_from_json (json_find j ''number'');
     proc_name \<leftarrow> json_value j ''proc_name'';
     state \<leftarrow> json_value j ''state'';
     supported_mode \<leftarrow> json_value j ''supported_mode'';
     active_mode \<leftarrow> json_value j ''active_mode'';
     ata_port \<leftarrow> maybe id_from_json (json_find j ''ata_port'');
     pci_address \<leftarrow> maybe pci_address_from_json (json_find j ''pci_address'');
     numa_node \<leftarrow> maybe id_from_json (json_find j ''numa_node'');
     Some
       \<lparr>sh_number = number, sh_proc_name = proc_name, sh_state = state, sh_supported_mode = supported_mode,
        sh_active_mode = active_mode, sh_pci_address = pci_address, sh_numa_node = numa_node,
        sh_ata_port = ata_port\<rparr> }"

definition scsi_host_ok :: "ScsiHost \<Rightarrow> bool" where
  "scsi_host_ok h \<longleftrightarrow> pred_option pci_address_ok (sh_pci_address h)"

interpretation scsi_host: json_codec scsi_host_to_json scsi_host_from_json scsi_host_ok
proof
  fix h
  assume "scsi_host_ok h"
  then show "scsi_host_from_json (scsi_host_to_json h) = Some h"
    by (cases h) (simp add: scsi_host_to_json_def scsi_host_from_json_def scsi_host_ok_def)
next
  fix j h
  assume "scsi_host_from_json j = Some h"
  then show "scsi_host_ok h"
    by (auto simp: scsi_host_from_json_def scsi_host_ok_def bind_eq_Some_conv
      dest: pci_address.maybe_decoded)
qed

section \<open>File systems (\<open>filesystems.cpp\<close>)\<close>

definition filesystem_usage_to_json :: "FilesystemUsage \<Rightarrow> json" where
  "filesystem_usage_to_json u = json_object
     [(''total'', Some (unit_json (fu_total u))), (''filesystem_id'', Some (Json_String (fu_filesystem_id u))),
      (''free'', map_option unit_json (fu_free u)), (''available'', map_option unit_json (fu_available u)),
      (''inodes'', map_option Json_Unsigned (fu_inodes u)),
      (''free_inodes'', map_option Json_Unsigned (fu_free_inodes u)),
      (''available_inodes'', map_option Json_Unsigned (fu_available_inodes u))]"

definition filesystem_usage_from_json :: "json \<Rightarrow> FilesystemUsage option" where
  "filesystem_usage_from_json j = do {
     total \<leftarrow> needed unit_from_json (json_find j ''total'');
     filesystem_id \<leftarrow> json_value j ''filesystem_id'';
     free \<leftarrow> maybe unit_from_json (json_find j ''free'');
     available \<leftarrow> maybe unit_from_json (json_find j ''available'');
     inodes \<leftarrow> maybe uint64_from_json (json_find j ''inodes'');
     free_inodes \<leftarrow> maybe uint64_from_json (json_find j ''free_inodes'');
     available_inodes \<leftarrow> maybe uint64_from_json (json_find j ''available_inodes'');
     Some
       \<lparr>fu_total = total, fu_free = free, fu_available = available, fu_inodes = inodes,
        fu_free_inodes = free_inodes, fu_available_inodes = available_inodes, fu_filesystem_id = filesystem_id\<rparr> }"

interpretation filesystem_usage: json_codec filesystem_usage_to_json filesystem_usage_from_json "\<lambda>_. True"
proof
  fix u
  show "filesystem_usage_from_json (filesystem_usage_to_json u) = Some u"
    by (cases u) (simp add: filesystem_usage_to_json_def filesystem_usage_from_json_def)
qed simp

definition filesystem_report_to_json :: "FilesystemReport \<Rightarrow> json" where
  "filesystem_report_to_json r = json_object
     [(''mount_ids'', Some (list_json word_json (fr_mount_ids r))),
      (''kind'', Some (enum_json FilesystemKind_enumerators (fr_kind r))),
      (''status'', Some (enum_json CollectStatus_enumerators (fr_status r))),
      (''note'', Some (Json_String (fr_note r))),
      (''failure'', map_option (enum_json ReadFailure_enumerators) (fr_failure r)),
      (''skip'', map_option (enum_json SkipReason_enumerators) (fr_skip r)),
      (''usage'', map_option filesystem_usage_to_json (fr_usage r))]"

definition filesystem_report_from_json :: "json \<Rightarrow> FilesystemReport option" where
  "filesystem_report_from_json j = do {
     mount_ids \<leftarrow> needed (list_of uint32_from_json) (json_find j ''mount_ids'');
     kind \<leftarrow> needed (validate_enum FilesystemKind_enumerators Fs_Unknown) (json_find j ''kind'');
     status \<leftarrow> needed (validate_enum CollectStatus_enumerators NotCollected) (json_find j ''status'');
     note \<leftarrow> json_value j ''note'';
     failure \<leftarrow> maybe (validate_enum ReadFailure_enumerators LowPower) (json_find j ''failure'');
     skip \<leftarrow> maybe (validate_enum SkipReason_enumerators NotApplicable) (json_find j ''skip'');
     usage \<leftarrow> maybe filesystem_usage_from_json (json_find j ''usage'');
     Some
       \<lparr>fr_mount_ids = mount_ids, fr_kind = kind, fr_status = status, fr_failure = failure, fr_note = note,
        fr_usage = usage, fr_skip = skip\<rparr> }"

interpretation filesystem_report: json_codec filesystem_report_to_json filesystem_report_from_json "\<lambda>_. True"
proof
  fix r
  show "filesystem_report_from_json (filesystem_report_to_json r) = Some r"
    by (cases r) (simp add: filesystem_report_to_json_def filesystem_report_from_json_def)
qed simp

section \<open>Health (\<open>storage_health.cpp\<close>)\<close>

definition counter_json :: "StorageCounter \<Rightarrow> json option" where
  "counter_json c =
     map_option (\<lambda>v. Json_String (counter_decimal v)) (storage_counter (Json_String (counter_decimal c)))"

definition counter_ok :: "StorageCounter \<Rightarrow> bool" where
  "counter_ok c \<longleftrightarrow> storage_counter (Json_String (counter_decimal c)) = Some c"

interpretation counter: fallible_codec counter_json storage_counter counter_ok
  by unfold_locales (auto simp: counter_json_def counter_ok_def dest: storage_counter_again)

lemma health_u8_bounded: "health_u8 = bounded_from_json 0xff"
  by (auto simp: fun_eq_iff health_u8_def bounded_from_json_def checked_unsigned_def split: option.split)

interpretation health_byte: json_codec word_json health_u8 "\<lambda>_. True"
  unfolding health_u8_bounded by (rule u8.json_codec_axioms)

definition attribute_id_from_json :: "json \<Rightarrow> u8 option" where
  "attribute_id_from_json j = Option.bind (health_u8 j) (\<lambda>v. if v = 0 then None else Some v)"

interpretation attribute_id: json_codec word_json attribute_id_from_json "\<lambda>v. v \<noteq> 0"
  by unfold_locales (auto simp: attribute_id_from_json_def bind_eq_Some_conv split: if_splits)

text \<open>A signed number: an unsigned value must fit, and nothing but an integer is accepted.\<close>

definition temperature_json :: "SensorTemperature \<Rightarrow> json" where
  "temperature_json t = int_json (temperature_value t)"

fun temperature_from_json :: "json \<Rightarrow> SensorTemperature option" where
  "temperature_from_json (Json_Unsigned v) = (if v > 0x7fffffffffffffff then None else Some (SensorTemperature v))"
| "temperature_from_json (Json_Integer v) = Some (SensorTemperature v)"
| "temperature_from_json _ = None"

interpretation temperature: json_codec temperature_json temperature_from_json "\<lambda>_. True"
proof
  fix t
  show "temperature_from_json (temperature_json t) = Some t"
    by (cases t) (auto simp: temperature_json_def int_json_def sint_sign)
qed simp

definition health_source_ok :: "RawSource \<Rightarrow> bool" where
  "health_source_ok s \<longleftrightarrow> position s RawSource_enumerators \<le> position NvmeSmartLog RawSource_enumerators"

interpretation health_source: json_codec "enum_json RawSource_enumerators" "checked_enum RawSource_enumerators NvmeSmartLog"
  health_source_ok
  unfolding health_source_ok_def [abs_def]
proof (rule checked_enum_codec)
  show "s \<in> set RawSource_enumerators" for s by (cases s) (simp_all add: RawSource_enumerators_def)
qed (simp_all add: RawSource_enumerators_def)

definition nvme_to_json :: "NvmeHealth \<Rightarrow> json option" where
  "nvme_to_json h = do {
     power_on_hours \<leftarrow> put_maybe counter_json (nvme_power_on_hours h);
     power_cycles \<leftarrow> put_maybe counter_json (nvme_power_cycles h);
     unsafe_shutdowns \<leftarrow> put_maybe counter_json (nvme_unsafe_shutdowns h);
     media_errors \<leftarrow> put_maybe counter_json (nvme_media_errors h);
     error_log_entries \<leftarrow> put_maybe counter_json (nvme_error_log_entries h);
     data_units_read \<leftarrow> put_maybe counter_json (nvme_data_units_read h);
     data_units_written \<leftarrow> put_maybe counter_json (nvme_data_units_written h);
     Some (json_object
       [(''critical_warning'', map_option word_json (nvme_critical_warning h)),
        (''available_spare'', map_option word_json (nvme_available_spare h)),
        (''spare_threshold'', map_option word_json (nvme_spare_threshold h)),
        (''percentage_used'', map_option word_json (nvme_percentage_used h)),
        (''temperature'', map_option temperature_json (nvme_temperature h)),
        (''power_on_hours'', power_on_hours), (''power_cycles'', power_cycles),
        (''unsafe_shutdowns'', unsafe_shutdowns), (''media_errors'', media_errors),
        (''error_log_entries'', error_log_entries), (''data_units_read'', data_units_read),
        (''data_units_written'', data_units_written)]) }"

definition nvme_from_json :: "json \<Rightarrow> NvmeHealth option" where
  "nvme_from_json j = do {
     critical_warning \<leftarrow> maybe health_u8 (json_find j ''critical_warning'');
     available_spare \<leftarrow> maybe health_u8 (json_find j ''available_spare'');
     spare_threshold \<leftarrow> maybe health_u8 (json_find j ''spare_threshold'');
     percentage_used \<leftarrow> maybe health_u8 (json_find j ''percentage_used'');
     temperature \<leftarrow> maybe temperature_from_json (json_find j ''temperature'');
     power_on_hours \<leftarrow> maybe storage_counter (json_find j ''power_on_hours'');
     power_cycles \<leftarrow> maybe storage_counter (json_find j ''power_cycles'');
     unsafe_shutdowns \<leftarrow> maybe storage_counter (json_find j ''unsafe_shutdowns'');
     media_errors \<leftarrow> maybe storage_counter (json_find j ''media_errors'');
     error_log_entries \<leftarrow> maybe storage_counter (json_find j ''error_log_entries'');
     data_units_read \<leftarrow> maybe storage_counter (json_find j ''data_units_read'');
     data_units_written \<leftarrow> maybe storage_counter (json_find j ''data_units_written'');
     Some
       \<lparr>nvme_critical_warning = critical_warning, nvme_available_spare = available_spare,
        nvme_spare_threshold = spare_threshold, nvme_percentage_used = percentage_used,
        nvme_temperature = temperature, nvme_power_on_hours = power_on_hours, nvme_power_cycles = power_cycles,
        nvme_unsafe_shutdowns = unsafe_shutdowns, nvme_media_errors = media_errors,
        nvme_error_log_entries = error_log_entries, nvme_data_units_read = data_units_read,
        nvme_data_units_written = data_units_written\<rparr> }"

definition nvme_ok :: "NvmeHealth \<Rightarrow> bool" where
  "nvme_ok h \<longleftrightarrow> pred_option counter_ok (nvme_power_on_hours h) \<and> pred_option counter_ok (nvme_power_cycles h) \<and>
     pred_option counter_ok (nvme_unsafe_shutdowns h) \<and> pred_option counter_ok (nvme_media_errors h) \<and>
     pred_option counter_ok (nvme_error_log_entries h) \<and>
     pred_option counter_ok (nvme_data_units_read h) \<and> pred_option counter_ok (nvme_data_units_written h)"

interpretation nvme: fallible_codec nvme_to_json nvme_from_json nvme_ok
proof
  fix h
  assume "nvme_ok h"
  then show "Option.bind (nvme_to_json h) nvme_from_json = Some h"
    by (cases h) (auto simp: nvme_to_json_def nvme_from_json_def nvme_ok_def
      dest!: counter.put_maybe_written)
next
  fix j h
  assume "nvme_from_json j = Some h"
  then show "nvme_ok h"
    by (auto simp: nvme_from_json_def nvme_ok_def bind_eq_Some_conv
      dest: counter.maybe_decoded)
qed

definition ata_attribute_to_json :: "AtaHealthAttribute \<Rightarrow> json" where
  "ata_attribute_to_json a = json_object
     [(''id'', Some (word_json (ata_id a))), (''name'', Some (Json_String (ata_name a))),
      (''raw'', Some (Json_String (ata_raw a))), (''when_failed'', Some (Json_String (ata_when_failed a))),
      (''value'', map_option word_json (ata_value a)), (''worst'', map_option word_json (ata_worst a)),
      (''threshold'', map_option word_json (ata_threshold a))]"

definition ata_attribute_from_json :: "json \<Rightarrow> AtaHealthAttribute option" where
  "ata_attribute_from_json j = do {
     id \<leftarrow> needed attribute_id_from_json (json_find j ''id'');
     name \<leftarrow> needed json_string (json_find j ''name'');
     raw \<leftarrow> needed json_string (json_find j ''raw'');
     when_failed \<leftarrow> needed json_string (json_find j ''when_failed'');
     value \<leftarrow> maybe health_u8 (json_find j ''value'');
     worst \<leftarrow> maybe health_u8 (json_find j ''worst'');
     threshold \<leftarrow> maybe health_u8 (json_find j ''threshold'');
     Some
       \<lparr>ata_id = id, ata_name = name, ata_value = value, ata_worst = worst, ata_threshold = threshold,
        ata_raw = raw, ata_when_failed = when_failed\<rparr> }"

definition ata_attribute_ok :: "AtaHealthAttribute \<Rightarrow> bool" where
  "ata_attribute_ok a \<longleftrightarrow> (\<lambda>v. v \<noteq> 0) (ata_id a)"

interpretation ata_attribute: json_codec ata_attribute_to_json ata_attribute_from_json ata_attribute_ok
proof
  fix a
  assume "ata_attribute_ok a"
  then show "ata_attribute_from_json (ata_attribute_to_json a) = Some a"
    by (cases a) (simp add: ata_attribute_to_json_def ata_attribute_from_json_def ata_attribute_ok_def)
next
  fix j a
  assume "ata_attribute_from_json j = Some a"
  then show "ata_attribute_ok a"
    by (auto simp: ata_attribute_from_json_def ata_attribute_ok_def bind_eq_Some_conv
      dest: attribute_id.needed_decoded)
qed

definition scsi_health_to_json :: "ScsiHealth \<Rightarrow> json option" where
  "scsi_health_to_json scsi = do {
     read_uncorrected \<leftarrow> put_maybe counter_json (scsi_read_uncorrected scsi);
     write_uncorrected \<leftarrow> put_maybe counter_json (scsi_write_uncorrected scsi);
     verify_uncorrected \<leftarrow> put_maybe counter_json (scsi_verify_uncorrected scsi);
     Some (json_object
       [(''read_uncorrected'', read_uncorrected), (''write_uncorrected'', write_uncorrected),
        (''verify_uncorrected'', verify_uncorrected)]) }"

definition scsi_health_from_json :: "json \<Rightarrow> ScsiHealth option" where
  "scsi_health_from_json j = do {
     read_uncorrected \<leftarrow> maybe storage_counter (json_find j ''read_uncorrected'');
     write_uncorrected \<leftarrow> maybe storage_counter (json_find j ''write_uncorrected'');
     verify_uncorrected \<leftarrow> maybe storage_counter (json_find j ''verify_uncorrected'');
     Some
       \<lparr>scsi_read_uncorrected = read_uncorrected, scsi_write_uncorrected = write_uncorrected,
        scsi_verify_uncorrected = verify_uncorrected\<rparr> }"

definition scsi_health_ok :: "ScsiHealth \<Rightarrow> bool" where
  "scsi_health_ok scsi \<longleftrightarrow> pred_option counter_ok (scsi_read_uncorrected scsi) \<and>
     pred_option counter_ok (scsi_write_uncorrected scsi) \<and>
     pred_option counter_ok (scsi_verify_uncorrected scsi)"

interpretation scsi_health: fallible_codec scsi_health_to_json scsi_health_from_json scsi_health_ok
proof
  fix scsi
  assume "scsi_health_ok scsi"
  then show "Option.bind (scsi_health_to_json scsi) scsi_health_from_json = Some scsi"
    by (cases scsi) (auto simp: scsi_health_to_json_def scsi_health_from_json_def scsi_health_ok_def
      dest!: counter.put_maybe_written)
next
  fix j scsi
  assume "scsi_health_from_json j = Some scsi"
  then show "scsi_health_ok scsi"
    by (auto simp: scsi_health_from_json_def scsi_health_ok_def bind_eq_Some_conv
      dest: counter.maybe_decoded)
qed

definition storage_health_to_json :: "StorageHealthReport \<Rightarrow> json option" where
  "storage_health_to_json h = do {
     nvme \<leftarrow> put_maybe nvme_to_json (shr_nvme h);
     scsi \<leftarrow> put_maybe scsi_health_to_json (shr_scsi h);
     Some (json_object
       [(''target'', Some (name_json (shr_target h))),
        (''devices'', Some (list_json name_json (shr_devices h))),
        (''protocol'', Some (enum_json StorageProtocol_enumerators (shr_protocol h))),
        (''source'', Some (enum_json RawSource_enumerators (shr_source h))),
        (''origin'', Some (Json_String (shr_origin h))),
        (''status'', Some (enum_json CollectStatus_enumerators (shr_status h))),
        (''failure'', map_option (enum_json ReadFailure_enumerators) (shr_failure h)),
        (''smart_available'', map_option Json_Boolean (shr_smart_available h)),
        (''smart_enabled'', map_option Json_Boolean (shr_smart_enabled h)),
        (''passed'', map_option Json_Boolean (shr_passed h)), (''nvme'', nvme),
        (''ata_attributes'', list_unless_empty ata_attribute_to_json (shr_ata_attributes h)), (''scsi'', scsi)]) }"

definition storage_health_from_json :: "json \<Rightarrow> StorageHealthReport option" where
  "storage_health_from_json j = do {
     target \<leftarrow> needed name_from_json (json_find j ''target'');
     devices \<leftarrow> needed (list_of name_from_json) (json_find j ''devices'');
     protocol \<leftarrow> needed (checked_enum StorageProtocol_enumerators Proto_Scsi) (json_find j ''protocol'');
     source \<leftarrow> needed (checked_enum RawSource_enumerators NvmeSmartLog) (json_find j ''source'');
     origin \<leftarrow> needed json_string (json_find j ''origin'');
     status \<leftarrow> needed (checked_enum CollectStatus_enumerators NotCollected) (json_find j ''status'');
     failure \<leftarrow> maybe (checked_enum ReadFailure_enumerators LowPower) (json_find j ''failure'');
     smart_available \<leftarrow> maybe json_boolean (json_find j ''smart_available'');
     smart_enabled \<leftarrow> maybe json_boolean (json_find j ''smart_enabled'');
     passed \<leftarrow> maybe json_boolean (json_find j ''passed'');
     nvme \<leftarrow> maybe nvme_from_json (json_find j ''nvme'');
     ata_attributes \<leftarrow> given (list_of ata_attribute_from_json) [] (json_find j ''ata_attributes'');
     scsi \<leftarrow> maybe scsi_health_from_json (json_find j ''scsi'');
     Some
       \<lparr>shr_target = target, shr_devices = devices, shr_protocol = protocol, shr_source = source,
        shr_origin = origin, shr_status = status, shr_failure = failure, shr_smart_available = smart_available,
        shr_smart_enabled = smart_enabled, shr_passed = passed, shr_nvme = nvme,
        shr_ata_attributes = ata_attributes, shr_scsi = scsi\<rparr> }"

definition storage_health_ok :: "StorageHealthReport \<Rightarrow> bool" where
  "storage_health_ok h \<longleftrightarrow> health_source_ok (shr_source h) \<and> pred_option nvme_ok (shr_nvme h) \<and>
     list_all ata_attribute_ok (shr_ata_attributes h) \<and> pred_option scsi_health_ok (shr_scsi h)"

interpretation storage_health: fallible_codec storage_health_to_json storage_health_from_json storage_health_ok
proof
  fix h
  assume "storage_health_ok h"
  then show "Option.bind (storage_health_to_json h) storage_health_from_json = Some h"
    by (cases h) (auto simp: storage_health_to_json_def storage_health_from_json_def storage_health_ok_def
      dest!: nvme.put_maybe_written scsi_health.put_maybe_written)
next
  fix j h
  assume "storage_health_from_json j = Some h"
  then show "storage_health_ok h"
    by (auto simp: storage_health_from_json_def storage_health_ok_def bind_eq_Some_conv
      dest: health_source.needed_decoded nvme.maybe_decoded ata_attribute.given_list_decoded scsi_health.maybe_decoded)
qed

section \<open>Devices and mounts (\<open>storage.cpp\<close>)\<close>

definition device_number_to_json :: "DeviceNumber \<Rightarrow> json" where
  "device_number_to_json n = json_object
     [(''major'', Some (word_json (dev_major n))), (''minor'', Some (word_json (dev_minor n)))]"

definition device_number_from_json :: "json \<Rightarrow> DeviceNumber option" where
  "device_number_from_json j = do {
     major \<leftarrow> needed uint32_from_json (json_find j ''major'');
     minor \<leftarrow> needed uint32_from_json (json_find j ''minor'');
     Some
       \<lparr>dev_major = major, dev_minor = minor\<rparr> }"

interpretation device_number: json_codec device_number_to_json device_number_from_json "\<lambda>_. True"
proof
  fix n
  show "device_number_from_json (device_number_to_json n) = Some n"
    by (cases n) (simp add: device_number_to_json_def device_number_from_json_def)
qed simp

definition storage_mount_to_json :: "StorageMount \<Rightarrow> json" where
  "storage_mount_to_json m = json_object
     [(''mount_id'', Some (word_json (sm_mount_id m))),
      (''parent_mount_id'', Some (word_json (sm_parent_mount_id m))),
      (''device_number'', Some (device_number_to_json (sm_device_number m))),
      (''root'', Some (Json_String (sm_root m))), (''path'', Some (name_json (sm_path m))),
      (''filesystem'', Some (name_json (sm_filesystem m))), (''source'', Some (Json_String (sm_source m))),
      (''options'', Some (list_json Json_String (sm_options m))),
      (''read_only'', Some (Json_Boolean (sm_read_only m))),
      (''block_device'', map_option name_json (sm_block_device m))]"

definition storage_mount_from_json :: "json \<Rightarrow> StorageMount option" where
  "storage_mount_from_json j = do {
     mount_id \<leftarrow> needed uint32_from_json (json_find j ''mount_id'');
     parent_mount_id \<leftarrow> needed uint32_from_json (json_find j ''parent_mount_id'');
     device_number \<leftarrow> needed device_number_from_json (json_find j ''device_number'');
     root \<leftarrow> needed json_string (json_find j ''root'');
     path \<leftarrow> needed name_from_json (json_find j ''path'');
     filesystem \<leftarrow> needed name_from_json (json_find j ''filesystem'');
     source \<leftarrow> needed json_string (json_find j ''source'');
     options \<leftarrow> needed (list_of json_string) (json_find j ''options'');
     read_only \<leftarrow> needed json_boolean (json_find j ''read_only'');
     block_device \<leftarrow> maybe name_from_json (json_find j ''block_device'');
     Some
       \<lparr>sm_mount_id = mount_id, sm_parent_mount_id = parent_mount_id, sm_device_number = device_number,
        sm_root = root, sm_path = path, sm_filesystem = filesystem, sm_source = source, sm_options = options,
        sm_block_device = block_device, sm_read_only = read_only\<rparr> }"

interpretation storage_mount: json_codec storage_mount_to_json storage_mount_from_json "\<lambda>_. True"
proof
  fix m
  show "storage_mount_from_json (storage_mount_to_json m) = Some m"
    by (cases m) (simp add: storage_mount_to_json_def storage_mount_from_json_def)
qed simp

definition storage_dev_to_json :: "StorageDevice \<Rightarrow> json" where
  "storage_dev_to_json sd = json_object
     [(''id'', Some (id_json (st_id sd))), (''name'', Some (name_json (st_name sd))),
      (''kind'', Some (enum_json StorageKind_enumerators (st_kind sd))),
      (''classification'', Some (storage_classification_to_json (st_classification sd))),
      (''capacity'', map_option unit_json (st_capacity sd)),
      (''pci_address'', map_option pci_address_to_json (st_pci_address sd)),
      (''mount_point'', map_option name_json (st_mount_point sd)),
      (''fs_type'', map_option name_json (st_fs_type sd)), (''model'', text_unless_empty (st_model sd)),
      (''vendor'', name_unless_empty (st_vendor sd)), (''serial'', text_unless_empty (st_serial sd)),
      (''firmware_revision'', text_unless_empty (st_firmware_revision sd)),
      (''wwid'', text_unless_empty (st_wwid sd)), (''scheduler'', text_unless_empty (st_scheduler sd)),
      (''logical_block_size'', map_option unit_json (st_logical_block_size sd)),
      (''physical_block_size'', map_option unit_json (st_physical_block_size sd)),
      (''minimum_io_size'', map_option unit_json (st_minimum_io_size sd)),
      (''optimal_io_size'', map_option unit_json (st_optimal_io_size sd)),
      (''rotational'', map_option Json_Boolean (st_rotational sd)),
      (''read_only'', map_option Json_Boolean (st_read_only sd)),
      (''removable'', map_option Json_Boolean (st_removable sd)),
      (''numa_node'', map_option id_json (st_numa_node sd)),
      (''transport'', text_unless_empty (st_transport sd)), (''driver'', text_unless_empty (st_driver sd)),
      (''controller_name'', text_unless_empty (st_controller_name sd)),
      (''layer'', text_unless_empty (st_layer sd)), (''mapper_name'', text_unless_empty (st_mapper_name sd)),
      (''mapper_uuid'', text_unless_empty (st_mapper_uuid sd)),
      (''raid_level'', text_unless_empty (st_raid_level sd)),
      (''raid_state'', text_unless_empty (st_raid_state sd)),
      (''partition_number'', map_option word_json (st_partition_number sd)),
      (''parent'', map_option name_json (st_parent sd)),
      (''raid_disks'', map_option word_json (st_raid_disks sd)),
      (''raid_degraded'', map_option word_json (st_raid_degraded sd)),
      (''slaves'', list_unless_empty name_json (st_slaves sd)),
      (''device_number'', map_option device_number_to_json (st_device_number sd)),
      (''nvme_namespace'', map_option nvme_namespace_info_to_json (st_nvme_namespace sd)),
      (''scsi_device'', map_option scsi_device_info_to_json (st_scsi_device sd))]"

definition storage_dev_from_json :: "json \<Rightarrow> StorageDevice option" where
  "storage_dev_from_json j = do {
     id \<leftarrow> needed id_from_json (json_find j ''id'');
     name \<leftarrow> needed name_from_json (json_find j ''name'');
     kind \<leftarrow> needed (validate_enum StorageKind_enumerators Stor_Other) (json_find j ''kind'');
     classification \<leftarrow> given storage_classification_from_json StorageClassification_default (json_find j ''classification'');
     capacity \<leftarrow> maybe unit_from_json (json_find j ''capacity'');
     pci_address \<leftarrow> maybe pci_address_from_json (json_find j ''pci_address'');
     mount_point \<leftarrow> maybe name_from_json (json_find j ''mount_point'');
     fs_type \<leftarrow> maybe name_from_json (json_find j ''fs_type'');
     model \<leftarrow> json_value j ''model'';
     vendor \<leftarrow> name_value j ''vendor'';
     serial \<leftarrow> json_value j ''serial'';
     firmware_revision \<leftarrow> json_value j ''firmware_revision'';
     wwid \<leftarrow> json_value j ''wwid'';
     scheduler \<leftarrow> json_value j ''scheduler'';
     logical_block_size \<leftarrow> maybe unit_from_json (json_find j ''logical_block_size'');
     physical_block_size \<leftarrow> maybe unit_from_json (json_find j ''physical_block_size'');
     minimum_io_size \<leftarrow> maybe unit_from_json (json_find j ''minimum_io_size'');
     optimal_io_size \<leftarrow> maybe unit_from_json (json_find j ''optimal_io_size'');
     rotational \<leftarrow> maybe json_boolean (json_find j ''rotational'');
     read_only \<leftarrow> maybe json_boolean (json_find j ''read_only'');
     removable \<leftarrow> maybe json_boolean (json_find j ''removable'');
     numa_node \<leftarrow> maybe id_from_json (json_find j ''numa_node'');
     transport \<leftarrow> json_value j ''transport'';
     driver \<leftarrow> json_value j ''driver'';
     controller_name \<leftarrow> json_value j ''controller_name'';
     layer \<leftarrow> json_value j ''layer'';
     mapper_name \<leftarrow> json_value j ''mapper_name'';
     mapper_uuid \<leftarrow> json_value j ''mapper_uuid'';
     raid_level \<leftarrow> json_value j ''raid_level'';
     raid_state \<leftarrow> json_value j ''raid_state'';
     partition_number \<leftarrow> maybe uint32_from_json (json_find j ''partition_number'');
     parent \<leftarrow> maybe name_from_json (json_find j ''parent'');
     raid_disks \<leftarrow> maybe uint32_from_json (json_find j ''raid_disks'');
     raid_degraded \<leftarrow> maybe uint32_from_json (json_find j ''raid_degraded'');
     slaves \<leftarrow> given (list_of name_from_json) [] (json_find j ''slaves'');
     device_number \<leftarrow> maybe device_number_from_json (json_find j ''device_number'');
     nvme_namespace \<leftarrow> maybe nvme_namespace_info_from_json (json_find j ''nvme_namespace'');
     scsi_device \<leftarrow> maybe scsi_device_info_from_json (json_find j ''scsi_device'');
     Some
       \<lparr>st_id = id, st_name = name, st_capacity = capacity, st_pci_address = pci_address, st_kind = kind,
        st_mount_point = mount_point, st_fs_type = fs_type, st_model = model, st_vendor = vendor,
        st_serial = serial, st_firmware_revision = firmware_revision, st_wwid = wwid,
        st_logical_block_size = logical_block_size, st_physical_block_size = physical_block_size,
        st_minimum_io_size = minimum_io_size, st_optimal_io_size = optimal_io_size, st_rotational = rotational,
        st_read_only = read_only, st_removable = removable, st_numa_node = numa_node, st_transport = transport,
        st_controller_name = controller_name, st_scheduler = scheduler, st_device_number = device_number,
        st_partition_number = partition_number, st_parent = parent, st_slaves = slaves, st_layer = layer,
        st_mapper_name = mapper_name, st_mapper_uuid = mapper_uuid, st_raid_level = raid_level,
        st_raid_state = raid_state, st_raid_disks = raid_disks, st_raid_degraded = raid_degraded,
        st_nvme_namespace = nvme_namespace, st_scsi_device = scsi_device, st_driver = driver,
        st_classification = classification\<rparr> }"

definition storage_dev_ok :: "StorageDevice \<Rightarrow> bool" where
  "storage_dev_ok sd \<longleftrightarrow> pred_option pci_address_ok (st_pci_address sd) \<and>
     pred_option nvme_namespace_info_ok (st_nvme_namespace sd)"

interpretation storage_dev: json_codec storage_dev_to_json storage_dev_from_json storage_dev_ok
proof
  fix sd
  assume "storage_dev_ok sd"
  then show "storage_dev_from_json (storage_dev_to_json sd) = Some sd"
    by (cases sd) (simp add: storage_dev_to_json_def storage_dev_from_json_def storage_dev_ok_def)
next
  fix j sd
  assume "storage_dev_from_json j = Some sd"
  then show "storage_dev_ok sd"
    by (auto simp: storage_dev_from_json_def storage_dev_ok_def bind_eq_Some_conv
      dest: pci_address.maybe_decoded nvme_namespace_info.maybe_decoded)
qed

definition storage_to_json :: "Storage \<Rightarrow> json option" where
  "storage_to_json s = do {
     health \<leftarrow> put_list_unless_empty storage_health_to_json (storage_health s);
     Some (json_object
       [(''devices'', Some (list_json storage_dev_to_json (storage_devices s))), (''health'', health),
        (''mounts'', list_unless_empty storage_mount_to_json (storage_mounts s)),
        (''controllers'', list_unless_empty storage_controller_to_json (storage_controllers s)),
        (''nvme_controllers'', list_unless_empty nvme_controller_to_json (storage_nvme_controllers s)),
        (''scsi_hosts'', list_unless_empty scsi_host_to_json (storage_scsi_hosts s)),
        (''filesystems'', list_unless_empty filesystem_report_to_json (storage_filesystems s))]) }"

definition storage_from_json :: "json \<Rightarrow> Storage option" where
  "storage_from_json j = do {
     devices \<leftarrow> needed (list_of storage_dev_from_json) (json_find j ''devices'');
     health \<leftarrow> given (list_of storage_health_from_json) [] (json_find j ''health'');
     mounts \<leftarrow> given (list_of storage_mount_from_json) [] (json_find j ''mounts'');
     controllers \<leftarrow> given (array_of storage_controller_from_json) [] (json_find j ''controllers'');
     nvme_controllers \<leftarrow> given (array_of nvme_controller_from_json) [] (json_find j ''nvme_controllers'');
     scsi_hosts \<leftarrow> given (array_of scsi_host_from_json) [] (json_find j ''scsi_hosts'');
     filesystems \<leftarrow> given (list_of filesystem_report_from_json) [] (json_find j ''filesystems'');
     Some
       \<lparr>storage_devices = devices, storage_filesystems = filesystems, storage_mounts = mounts,
        storage_health = health, storage_controllers = controllers, storage_nvme_controllers = nvme_controllers,
        storage_scsi_hosts = scsi_hosts\<rparr> }"

definition storage_ok :: "Storage \<Rightarrow> bool" where
  "storage_ok s \<longleftrightarrow> list_all storage_dev_ok (storage_devices s) \<and> list_all storage_health_ok (storage_health s) \<and>
     list_all storage_controller_ok (storage_controllers s) \<and>
     list_all nvme_controller_ok (storage_nvme_controllers s) \<and>
     list_all scsi_host_ok (storage_scsi_hosts s)"

interpretation storage: fallible_codec storage_to_json storage_from_json storage_ok
proof
  fix s
  assume "storage_ok s"
  then show "Option.bind (storage_to_json s) storage_from_json = Some s"
    by (cases s) (auto simp: storage_to_json_def storage_from_json_def storage_ok_def
      dest!: storage_health.put_list_unless_empty_written)
next
  fix j s
  assume "storage_from_json j = Some s"
  then show "storage_ok s"
    by (auto simp: storage_from_json_def storage_ok_def bind_eq_Some_conv
      dest: storage_dev.needed_list_decoded storage_health.given_list_decoded storage_controller.given_list_decoded nvme_controller.given_list_decoded scsi_host.given_list_decoded)
qed

end
