(* ===== verification/Codec_Platform.thy ===== *)
theory Codec_Platform
  imports Json_Enums
begin

text \<open>
  The JSON of the host, of the software and of the process: \<open>src/serialization/platform.cpp\<close>,
  \<open>software.cpp\<close> and \<open>execution.cpp\<close>.
\<close>

section \<open>Platform (\<open>platform.cpp\<close>)\<close>

definition host_to_json :: "Host \<Rightarrow> json" where
  "host_to_json h = json_object
     [(''hostname'', Some (Json_String (host_hostname h))),
      (''machine_id'', Some (Json_String (host_machine_id h))),
      (''product_name'', Some (Json_String (host_product_name h))),
      (''vendor'', Some (name_json (host_vendor h))), (''serial'', Some (Json_String (host_serial h))),
      (''product_family'', text_unless_empty (host_product_family h)),
      (''product_version'', text_unless_empty (host_product_version h)),
      (''product_sku'', text_unless_empty (host_product_sku h)),
      (''product_uuid'', text_unless_empty (host_product_uuid h))]"

definition host_from_json :: "json \<Rightarrow> Host option" where
  "host_from_json j = do {
     hostname \<leftarrow> needed json_string (json_find j ''hostname'');
     machine_id \<leftarrow> needed json_string (json_find j ''machine_id'');
     product_name \<leftarrow> needed json_string (json_find j ''product_name'');
     vendor \<leftarrow> needed name_from_json (json_find j ''vendor'');
     serial \<leftarrow> needed json_string (json_find j ''serial'');
     product_family \<leftarrow> json_value j ''product_family'';
     product_version \<leftarrow> json_value j ''product_version'';
     product_sku \<leftarrow> json_value j ''product_sku'';
     product_uuid \<leftarrow> json_value j ''product_uuid'';
     Some
       \<lparr>host_hostname = hostname, host_machine_id = machine_id, host_product_name = product_name,
        host_vendor = vendor, host_serial = serial, host_product_family = product_family,
        host_product_version = product_version, host_product_sku = product_sku, host_product_uuid = product_uuid\<rparr> }"

interpretation host: json_codec host_to_json host_from_json "\<lambda>_. True"
proof
  fix h
  show "host_from_json (host_to_json h) = Some h"
    by (cases h) (simp add: host_to_json_def host_from_json_def)
qed simp

definition os_to_json :: "Os \<Rightarrow> json" where
  "os_to_json s = json_object
     [(''name'', Some (Json_String (os_name s))), (''version'', Some (Json_String (os_version s))),
      (''distribution'', Some (Json_String (os_distribution s))),
      (''distribution_version'', Some (Json_String (os_distribution_version s))),
      (''codename'', Some (Json_String (os_codename s)))]"

definition os_from_json :: "json \<Rightarrow> Os option" where
  "os_from_json j = do {
     name \<leftarrow> needed json_string (json_find j ''name'');
     version \<leftarrow> needed json_string (json_find j ''version'');
     distribution \<leftarrow> needed json_string (json_find j ''distribution'');
     distribution_version \<leftarrow> needed json_string (json_find j ''distribution_version'');
     codename \<leftarrow> needed json_string (json_find j ''codename'');
     Some
       \<lparr>os_name = name, os_version = version, os_distribution = distribution,
        os_distribution_version = distribution_version, os_codename = codename\<rparr> }"

interpretation os: json_codec os_to_json os_from_json "\<lambda>_. True"
proof
  fix s
  show "os_from_json (os_to_json s) = Some s"
    by (cases s) (simp add: os_to_json_def os_from_json_def)
qed simp

definition kernel_to_json :: "Kernel \<Rightarrow> json" where
  "kernel_to_json k = json_object
     [(''release'', Some (Json_String (kernel_release k))),
      (''version'', Some (Json_String (kernel_version k))),
      (''compiled_at'', Some (Json_String (kernel_compiled_at k))),
      (''architecture'', Some (Json_String (kernel_architecture k)))]"

definition kernel_from_json :: "json \<Rightarrow> Kernel option" where
  "kernel_from_json j = do {
     release \<leftarrow> needed json_string (json_find j ''release'');
     version \<leftarrow> needed json_string (json_find j ''version'');
     compiled_at \<leftarrow> needed json_string (json_find j ''compiled_at'');
     architecture \<leftarrow> needed json_string (json_find j ''architecture'');
     Some
       \<lparr>kernel_release = release, kernel_version = version, kernel_compiled_at = compiled_at,
        kernel_architecture = architecture\<rparr> }"

interpretation kernel: json_codec kernel_to_json kernel_from_json "\<lambda>_. True"
proof
  fix k
  show "kernel_from_json (kernel_to_json k) = Some k"
    by (cases k) (simp add: kernel_to_json_def kernel_from_json_def)
qed simp

definition arch_to_json :: "Architecture \<Rightarrow> json" where
  "arch_to_json a = json_object
     [(''name'', Some (Json_String (arch_name a))), (''bits'', Some (word_json (arch_bits a))),
      (''byte_order'', Some (Json_String (arch_byte_order a)))]"

definition arch_from_json :: "json \<Rightarrow> Architecture option" where
  "arch_from_json j = do {
     name \<leftarrow> needed json_string (json_find j ''name'');
     bits \<leftarrow> needed uint32_from_json (json_find j ''bits'');
     byte_order \<leftarrow> needed json_string (json_find j ''byte_order'');
     Some
       \<lparr>arch_name = name, arch_bits = bits, arch_byte_order = byte_order\<rparr> }"

interpretation arch: json_codec arch_to_json arch_from_json "\<lambda>_. True"
proof
  fix a
  show "arch_from_json (arch_to_json a) = Some a"
    by (cases a) (simp add: arch_to_json_def arch_from_json_def)
qed simp

definition firmware_to_json :: "Firmware \<Rightarrow> json" where
  "firmware_to_json f = json_object
     [(''bios_vendor'', Some (name_json (fw_bios_vendor f))),
      (''bios_version'', Some (Json_String (fw_bios_version f))),
      (''bios_date'', Some (Json_String (fw_bios_date f))), (''uefi'', Some (Json_Boolean (fw_uefi f))),
      (''bios_release'', text_unless_empty (fw_bios_release f)),
      (''ec_firmware_release'', text_unless_empty (fw_ec_firmware_release f))]"

definition firmware_from_json :: "json \<Rightarrow> Firmware option" where
  "firmware_from_json j = do {
     bios_vendor \<leftarrow> needed name_from_json (json_find j ''bios_vendor'');
     bios_version \<leftarrow> needed json_string (json_find j ''bios_version'');
     bios_date \<leftarrow> needed json_string (json_find j ''bios_date'');
     uefi \<leftarrow> needed json_boolean (json_find j ''uefi'');
     bios_release \<leftarrow> json_value j ''bios_release'';
     ec_firmware_release \<leftarrow> json_value j ''ec_firmware_release'';
     Some
       \<lparr>fw_bios_vendor = bios_vendor, fw_bios_version = bios_version, fw_bios_date = bios_date, fw_uefi = uefi,
        fw_bios_release = bios_release, fw_ec_firmware_release = ec_firmware_release\<rparr> }"

interpretation firmware: json_codec firmware_to_json firmware_from_json "\<lambda>_. True"
proof
  fix f
  show "firmware_from_json (firmware_to_json f) = Some f"
    by (cases f) (simp add: firmware_to_json_def firmware_from_json_def)
qed simp

definition virt_to_json :: "Virtualization \<Rightarrow> json" where
  "virt_to_json v = json_object
     [(''kind'', Some (enum_json VirtualizationKind_enumerators (virt_kind v))),
      (''hypervisor'', Some (Json_String (virt_hypervisor v)))]"

definition virt_from_json :: "json \<Rightarrow> Virtualization option" where
  "virt_from_json j = do {
     kind \<leftarrow> needed (validate_enum VirtualizationKind_enumerators Virt_Other) (json_find j ''kind'');
     hypervisor \<leftarrow> needed json_string (json_find j ''hypervisor'');
     Some
       \<lparr>virt_kind = kind, virt_hypervisor = hypervisor\<rparr> }"

interpretation virt: json_codec virt_to_json virt_from_json "\<lambda>_. True"
proof
  fix v
  show "virt_from_json (virt_to_json v) = Some v"
    by (cases v) (simp add: virt_to_json_def virt_from_json_def)
qed simp

definition baseboard_to_json :: "Baseboard \<Rightarrow> json" where
  "baseboard_to_json b = json_object
     [(''vendor'', Some (name_json (board_vendor b))), (''name'', Some (Json_String (board_name b))),
      (''version'', Some (Json_String (board_version b))), (''serial'', Some (Json_String (board_serial b))),
      (''asset_tag'', Some (Json_String (board_asset_tag b)))]"

definition baseboard_from_json :: "json \<Rightarrow> Baseboard option" where
  "baseboard_from_json j = do {
     vendor \<leftarrow> name_value j ''vendor'';
     name \<leftarrow> json_value j ''name'';
     version \<leftarrow> json_value j ''version'';
     serial \<leftarrow> json_value j ''serial'';
     asset_tag \<leftarrow> json_value j ''asset_tag'';
     Some
       \<lparr>board_vendor = vendor, board_name = name, board_version = version, board_serial = serial,
        board_asset_tag = asset_tag\<rparr> }"

interpretation baseboard: json_codec baseboard_to_json baseboard_from_json "\<lambda>_. True"
proof
  fix b
  show "baseboard_from_json (baseboard_to_json b) = Some b"
    by (cases b) (simp add: baseboard_to_json_def baseboard_from_json_def)
qed simp

definition chassis_to_json :: "Chassis \<Rightarrow> json" where
  "chassis_to_json c = json_object
     [(''vendor'', Some (name_json (chassis_vendor c))), (''version'', Some (Json_String (chassis_version c))),
      (''serial'', Some (Json_String (chassis_serial c))),
      (''asset_tag'', Some (Json_String (chassis_asset_tag c))),
      (''type'', map_option word_json (chassis_type c))]"

definition chassis_from_json :: "json \<Rightarrow> Chassis option" where
  "chassis_from_json j = do {
     vendor \<leftarrow> name_value j ''vendor'';
     version \<leftarrow> json_value j ''version'';
     serial \<leftarrow> json_value j ''serial'';
     asset_tag \<leftarrow> json_value j ''asset_tag'';
     type \<leftarrow> maybe uint32_from_json (json_find j ''type'');
     Some
       \<lparr>chassis_vendor = vendor, chassis_type = type, chassis_version = version, chassis_serial = serial,
        chassis_asset_tag = asset_tag\<rparr> }"

interpretation chassis: json_codec chassis_to_json chassis_from_json "\<lambda>_. True"
proof
  fix c
  show "chassis_from_json (chassis_to_json c) = Some c"
    by (cases c) (simp add: chassis_to_json_def chassis_from_json_def)
qed simp

definition platform_to_json :: "Platform \<Rightarrow> json" where
  "platform_to_json p = json_object
     [(''host'', Some (host_to_json (plat_host p))), (''os'', Some (os_to_json (plat_os p))),
      (''kernel'', Some (kernel_to_json (plat_kernel p))),
      (''architecture'', Some (arch_to_json (plat_architecture p))),
      (''firmware'', map_option firmware_to_json (plat_firmware p)),
      (''virtualization'', map_option virt_to_json (plat_virtualization p)),
      (''baseboard'', map_option baseboard_to_json (plat_baseboard p)),
      (''chassis'', map_option chassis_to_json (plat_chassis p))]"

definition platform_from_json :: "json \<Rightarrow> Platform option" where
  "platform_from_json j = do {
     host \<leftarrow> needed host_from_json (json_find j ''host'');
     os \<leftarrow> needed os_from_json (json_find j ''os'');
     kernel \<leftarrow> needed kernel_from_json (json_find j ''kernel'');
     architecture \<leftarrow> needed arch_from_json (json_find j ''architecture'');
     firmware \<leftarrow> maybe firmware_from_json (json_find j ''firmware'');
     virtualization \<leftarrow> maybe virt_from_json (json_find j ''virtualization'');
     baseboard \<leftarrow> maybe baseboard_from_json (json_find j ''baseboard'');
     chassis \<leftarrow> maybe chassis_from_json (json_find j ''chassis'');
     Some
       \<lparr>plat_host = host, plat_os = os, plat_kernel = kernel, plat_architecture = architecture,
        plat_firmware = firmware, plat_virtualization = virtualization, plat_baseboard = baseboard,
        plat_chassis = chassis\<rparr> }"

interpretation platform: json_codec platform_to_json platform_from_json "\<lambda>_. True"
proof
  fix p
  show "platform_from_json (platform_to_json p) = Some p"
    by (cases p) (simp add: platform_to_json_def platform_from_json_def)
qed simp

section \<open>Software (\<open>software.cpp\<close>)\<close>

definition driver_to_json :: "Driver \<Rightarrow> json" where
  "driver_to_json d = json_object
     [(''id'', Some (id_json (drv_id d))), (''name'', Some (Json_String (drv_name d))),
      (''version'', Some (Json_String (drv_version d))), (''loaded'', Some (Json_Boolean (drv_loaded d))),
      (''path'', Some (Json_String (drv_path d)))]"

definition driver_from_json :: "json \<Rightarrow> Driver option" where
  "driver_from_json j = do {
     id \<leftarrow> needed id_from_json (json_find j ''id'');
     name \<leftarrow> needed json_string (json_find j ''name'');
     version \<leftarrow> needed json_string (json_find j ''version'');
     loaded \<leftarrow> needed json_boolean (json_find j ''loaded'');
     path \<leftarrow> needed json_string (json_find j ''path'');
     Some
       \<lparr>drv_id = id, drv_name = name, drv_version = version, drv_loaded = loaded, drv_path = path\<rparr> }"

interpretation driver: json_codec driver_to_json driver_from_json "\<lambda>_. True"
proof
  fix d
  show "driver_from_json (driver_to_json d) = Some d"
    by (cases d) (simp add: driver_to_json_def driver_from_json_def)
qed simp

definition runtime_to_json :: "Runtime \<Rightarrow> json" where
  "runtime_to_json r = json_object
     [(''name'', Some (Json_String (rt_name r))), (''version'', Some (Json_String (rt_version r))),
      (''path'', Some (Json_String (rt_path r))), (''env_var'', Some (Json_String (rt_env_var r)))]"

definition runtime_from_json :: "json \<Rightarrow> Runtime option" where
  "runtime_from_json j = do {
     name \<leftarrow> needed json_string (json_find j ''name'');
     version \<leftarrow> needed json_string (json_find j ''version'');
     path \<leftarrow> needed json_string (json_find j ''path'');
     env_var \<leftarrow> needed json_string (json_find j ''env_var'');
     Some
       \<lparr>rt_name = name, rt_version = version, rt_path = path, rt_env_var = env_var\<rparr> }"

interpretation runtime: json_codec runtime_to_json runtime_from_json "\<lambda>_. True"
proof
  fix r
  show "runtime_from_json (runtime_to_json r) = Some r"
    by (cases r) (simp add: runtime_to_json_def runtime_from_json_def)
qed simp

definition compiler_to_json :: "Compiler \<Rightarrow> json" where
  "compiler_to_json c = json_object
     [(''name'', Some (Json_String (comp_name c))), (''version'', Some (Json_String (comp_version c))),
      (''path'', Some (Json_String (comp_path c))), (''target'', Some (Json_String (comp_target c)))]"

definition compiler_from_json :: "json \<Rightarrow> Compiler option" where
  "compiler_from_json j = do {
     name \<leftarrow> needed json_string (json_find j ''name'');
     version \<leftarrow> needed json_string (json_find j ''version'');
     path \<leftarrow> needed json_string (json_find j ''path'');
     target \<leftarrow> needed json_string (json_find j ''target'');
     Some
       \<lparr>comp_name = name, comp_version = version, comp_path = path, comp_target = target\<rparr> }"

interpretation compiler: json_codec compiler_to_json compiler_from_json "\<lambda>_. True"
proof
  fix c
  show "compiler_from_json (compiler_to_json c) = Some c"
    by (cases c) (simp add: compiler_to_json_def compiler_from_json_def)
qed simp

definition library_to_json :: "Library \<Rightarrow> json" where
  "library_to_json l = json_object
     [(''name'', Some (Json_String (lib_name l))), (''version'', Some (Json_String (lib_version l))),
      (''path'', Some (Json_String (lib_path l))), (''kind'', Some (Json_String (lib_kind l)))]"

definition library_from_json :: "json \<Rightarrow> Library option" where
  "library_from_json j = do {
     name \<leftarrow> needed json_string (json_find j ''name'');
     version \<leftarrow> needed json_string (json_find j ''version'');
     path \<leftarrow> needed json_string (json_find j ''path'');
     kind \<leftarrow> needed json_string (json_find j ''kind'');
     Some
       \<lparr>lib_name = name, lib_version = version, lib_path = path, lib_kind = kind\<rparr> }"

interpretation library: json_codec library_to_json library_from_json "\<lambda>_. True"
proof
  fix l
  show "library_from_json (library_to_json l) = Some l"
    by (cases l) (simp add: library_to_json_def library_from_json_def)
qed simp

definition cuda_to_json :: "Cuda \<Rightarrow> json" where
  "cuda_to_json c = json_object
     [(''version'', Some (Json_String (cuda_version c))),
      (''driver_version'', Some (Json_String (cuda_driver_version c))),
      (''nvcc_path'', Some (Json_String (cuda_nvcc_path c))), (''home'', Some (Json_String (cuda_home c)))]"

definition cuda_from_json :: "json \<Rightarrow> Cuda option" where
  "cuda_from_json j = do {
     version \<leftarrow> needed json_string (json_find j ''version'');
     driver_version \<leftarrow> needed json_string (json_find j ''driver_version'');
     nvcc_path \<leftarrow> needed json_string (json_find j ''nvcc_path'');
     home \<leftarrow> needed json_string (json_find j ''home'');
     Some
       \<lparr>cuda_version = version, cuda_driver_version = driver_version, cuda_nvcc_path = nvcc_path,
        cuda_home = home\<rparr> }"

interpretation cuda: json_codec cuda_to_json cuda_from_json "\<lambda>_. True"
proof
  fix c
  show "cuda_from_json (cuda_to_json c) = Some c"
    by (cases c) (simp add: cuda_to_json_def cuda_from_json_def)
qed simp

definition rocm_to_json :: "Rocm \<Rightarrow> json" where
  "rocm_to_json r = json_object
     [(''version'', Some (Json_String (rocm_version r))), (''hip_path'', Some (Json_String (rocm_hip_path r))),
      (''rocm_path'', Some (Json_String (rocm_rocm_path r)))]"

definition rocm_from_json :: "json \<Rightarrow> Rocm option" where
  "rocm_from_json j = do {
     version \<leftarrow> needed json_string (json_find j ''version'');
     hip_path \<leftarrow> needed json_string (json_find j ''hip_path'');
     rocm_path \<leftarrow> needed json_string (json_find j ''rocm_path'');
     Some
       \<lparr>rocm_version = version, rocm_hip_path = hip_path, rocm_rocm_path = rocm_path\<rparr> }"

interpretation rocm: json_codec rocm_to_json rocm_from_json "\<lambda>_. True"
proof
  fix r
  show "rocm_from_json (rocm_to_json r) = Some r"
    by (cases r) (simp add: rocm_to_json_def rocm_from_json_def)
qed simp

definition level_zero_to_json :: "LevelZero \<Rightarrow> json" where
  "level_zero_to_json lz = json_object
     [(''version'', Some (Json_String (lz_version lz))),
      (''loader_path'', Some (Json_String (lz_loader_path lz)))]"

definition level_zero_from_json :: "json \<Rightarrow> LevelZero option" where
  "level_zero_from_json j = do {
     version \<leftarrow> needed json_string (json_find j ''version'');
     loader_path \<leftarrow> needed json_string (json_find j ''loader_path'');
     Some
       \<lparr>lz_version = version, lz_loader_path = loader_path\<rparr> }"

interpretation level_zero: json_codec level_zero_to_json level_zero_from_json "\<lambda>_. True"
proof
  fix lz
  show "level_zero_from_json (level_zero_to_json lz) = Some lz"
    by (cases lz) (simp add: level_zero_to_json_def level_zero_from_json_def)
qed simp

definition mpi_to_json :: "Mpi \<Rightarrow> json" where
  "mpi_to_json m = json_object
     [(''implementation'', Some (Json_String (mpi_implementation m))),
      (''version'', Some (Json_String (mpi_version m))), (''path'', Some (Json_String (mpi_path m)))]"

definition mpi_from_json :: "json \<Rightarrow> Mpi option" where
  "mpi_from_json j = do {
     implementation \<leftarrow> needed json_string (json_find j ''implementation'');
     version \<leftarrow> needed json_string (json_find j ''version'');
     path \<leftarrow> needed json_string (json_find j ''path'');
     Some
       \<lparr>mpi_implementation = implementation, mpi_version = version, mpi_path = path\<rparr> }"

interpretation mpi: json_codec mpi_to_json mpi_from_json "\<lambda>_. True"
proof
  fix m
  show "mpi_from_json (mpi_to_json m) = Some m"
    by (cases m) (simp add: mpi_to_json_def mpi_from_json_def)
qed simp

definition rdma_stack_to_json :: "RdmaStack \<Rightarrow> json" where
  "rdma_stack_to_json r = json_object
     [(''rdma_core_version'', Some (Json_String (rs_rdma_core_version r))),
      (''ibverbs_path'', Some (Json_String (rs_ibverbs_path r))),
      (''ucx_version'', Some (Json_String (rs_ucx_version r)))]"

definition rdma_stack_from_json :: "json \<Rightarrow> RdmaStack option" where
  "rdma_stack_from_json j = do {
     rdma_core_version \<leftarrow> needed json_string (json_find j ''rdma_core_version'');
     ibverbs_path \<leftarrow> needed json_string (json_find j ''ibverbs_path'');
     ucx_version \<leftarrow> needed json_string (json_find j ''ucx_version'');
     Some
       \<lparr>rs_rdma_core_version = rdma_core_version, rs_ibverbs_path = ibverbs_path, rs_ucx_version = ucx_version\<rparr> }"

interpretation rdma_stack: json_codec rdma_stack_to_json rdma_stack_from_json "\<lambda>_. True"
proof
  fix r
  show "rdma_stack_from_json (rdma_stack_to_json r) = Some r"
    by (cases r) (simp add: rdma_stack_to_json_def rdma_stack_from_json_def)
qed simp

definition software_to_json :: "SoftwareStack \<Rightarrow> json" where
  "software_to_json sw = json_object
     [(''drivers'', Some (list_json driver_to_json (sw_drivers sw))),
      (''runtimes'', Some (list_json runtime_to_json (sw_runtimes sw))),
      (''compilers'', Some (list_json compiler_to_json (sw_compilers sw))),
      (''libraries'', Some (list_json library_to_json (sw_libraries sw))),
      (''cuda'', map_option cuda_to_json (sw_cuda sw)), (''rocm'', map_option rocm_to_json (sw_rocm sw)),
      (''level_zero'', map_option level_zero_to_json (sw_level_zero sw)),
      (''mpi'', map_option mpi_to_json (sw_mpi sw)), (''rdma'', map_option rdma_stack_to_json (sw_rdma sw))]"

definition software_from_json :: "json \<Rightarrow> SoftwareStack option" where
  "software_from_json j = do {
     drivers \<leftarrow> needed (list_of driver_from_json) (json_find j ''drivers'');
     runtimes \<leftarrow> needed (list_of runtime_from_json) (json_find j ''runtimes'');
     compilers \<leftarrow> needed (list_of compiler_from_json) (json_find j ''compilers'');
     libraries \<leftarrow> needed (list_of library_from_json) (json_find j ''libraries'');
     cuda \<leftarrow> maybe cuda_from_json (json_find j ''cuda'');
     rocm \<leftarrow> maybe rocm_from_json (json_find j ''rocm'');
     level_zero \<leftarrow> maybe level_zero_from_json (json_find j ''level_zero'');
     mpi \<leftarrow> maybe mpi_from_json (json_find j ''mpi'');
     rdma \<leftarrow> maybe rdma_stack_from_json (json_find j ''rdma'');
     Some
       \<lparr>sw_drivers = drivers, sw_runtimes = runtimes, sw_compilers = compilers, sw_libraries = libraries,
        sw_cuda = cuda, sw_rocm = rocm, sw_level_zero = level_zero, sw_mpi = mpi, sw_rdma = rdma\<rparr> }"

interpretation software: json_codec software_to_json software_from_json "\<lambda>_. True"
proof
  fix sw
  show "software_from_json (software_to_json sw) = Some sw"
    by (cases sw) (simp add: software_to_json_def software_from_json_def)
qed simp

section \<open>Execution context (\<open>execution.cpp\<close>)\<close>

interpretation process_id: json_codec "int_json :: i32 \<Rightarrow> json" "get_arithmetic (float_i32 n)" "\<lambda>_. True" for n
  by unfold_locales simp_all

definition process_to_json :: "Process \<Rightarrow> json" where
  "process_to_json p = json_object
     [(''pid'', Some (int_json (proc_pid p))), (''ppid'', Some (int_json (proc_ppid p))),
      (''uid'', Some (word_json (proc_uid p))), (''gid'', Some (word_json (proc_gid p))),
      (''comm'', Some (Json_String (proc_comm p))), (''exe'', Some (Json_String (proc_exe p))),
      (''cwd'', Some (Json_String (proc_cwd p)))]"

definition process_from_json :: "Numbers \<Rightarrow> json \<Rightarrow> Process option" where
  "process_from_json n j = do {
     pid \<leftarrow> needed (get_arithmetic (float_i32 n)) (json_find j ''pid'');
     ppid \<leftarrow> needed (get_arithmetic (float_i32 n)) (json_find j ''ppid'');
     uid \<leftarrow> needed uint32_from_json (json_find j ''uid'');
     gid \<leftarrow> needed uint32_from_json (json_find j ''gid'');
     comm \<leftarrow> needed json_string (json_find j ''comm'');
     exe \<leftarrow> needed json_string (json_find j ''exe'');
     cwd \<leftarrow> needed json_string (json_find j ''cwd'');
     Some
       \<lparr>proc_pid = pid, proc_ppid = ppid, proc_uid = uid, proc_gid = gid, proc_comm = comm, proc_exe = exe,
        proc_cwd = cwd\<rparr> }"

interpretation process: json_codec process_to_json "process_from_json n" "\<lambda>_. True" for n
proof
  fix p
  show "process_from_json n (process_to_json p) = Some p"
    by (cases p) (simp add: process_to_json_def process_from_json_def)
qed simp

definition entry_to_json :: "string \<times> string \<Rightarrow> json" where
  "entry_to_json = (\<lambda>(k, v). json_object [(''key'', Some (Json_String k)), (''value'', Some (Json_String v))])"

definition entry_from_json :: "json \<Rightarrow> (string \<times> string) option" where
  "entry_from_json j = do {
     k \<leftarrow> needed json_string (json_find j ''key'');
     v \<leftarrow> needed json_string (json_find j ''value'');
     Some (k, v) }"

interpretation entry: json_codec entry_to_json entry_from_json "\<lambda>_. True"
  by unfold_locales (auto simp: entry_to_json_def entry_from_json_def)

definition environment_to_json :: "Environment \<Rightarrow> json" where
  "environment_to_json e = json_object
     [(''entries'', Some (list_json entry_to_json (env_entries e)))]"

definition environment_from_json :: "json \<Rightarrow> Environment option" where
  "environment_from_json j = do {
     entries \<leftarrow> needed (list_of entry_from_json) (json_find j ''entries'');
     Some
       \<lparr>env_entries = entries\<rparr> }"

interpretation environment: json_codec environment_to_json environment_from_json "\<lambda>_. True"
proof
  fix e
  show "environment_from_json (environment_to_json e) = Some e"
    by (cases e) (simp add: environment_to_json_def environment_from_json_def)
qed simp

definition cgroup_to_json :: "Cgroup \<Rightarrow> json" where
  "cgroup_to_json c = json_object
     [(''version'', Some (enum_json CgroupVersion_enumerators (cg_version c))),
      (''path'', Some (Json_String (cg_path c))),
      (''controllers'', Some (list_json Json_String (cg_controllers c))),
      (''cpu_limit_known'', Some (Json_Boolean (cg_cpu_limit_known c))),
      (''memory_limit_known'', Some (Json_Boolean (cg_memory_limit_known c))),
      (''cpu_quota_us'', map_option unit_json (cg_cpu_quota_us c)),
      (''cpu_period_us'', map_option unit_json (cg_cpu_period_us c)),
      (''memory_limit'', map_option unit_json (cg_memory_limit c)),
      (''memory_current'', map_option unit_json (cg_memory_current c))]"

definition cgroup_from_json :: "json \<Rightarrow> Cgroup option" where
  "cgroup_from_json j = do {
     version \<leftarrow> needed (validate_enum CgroupVersion_enumerators V2) (json_find j ''version'');
     path \<leftarrow> needed json_string (json_find j ''path'');
     controllers \<leftarrow> given (list_of json_string) [] (json_find j ''controllers'');
     cpu_limit_known \<leftarrow> boolean_value j ''cpu_limit_known'' False;
     memory_limit_known \<leftarrow> boolean_value j ''memory_limit_known'' False;
     cpu_quota_us \<leftarrow> maybe unit_from_json (json_find j ''cpu_quota_us'');
     cpu_period_us \<leftarrow> maybe unit_from_json (json_find j ''cpu_period_us'');
     memory_limit \<leftarrow> maybe unit_from_json (json_find j ''memory_limit'');
     memory_current \<leftarrow> maybe unit_from_json (json_find j ''memory_current'');
     Some
       \<lparr>cg_version = version, cg_path = path, cg_controllers = controllers, cg_cpu_quota_us = cpu_quota_us,
        cg_cpu_period_us = cpu_period_us, cg_memory_limit = memory_limit, cg_memory_current = memory_current,
        cg_cpu_limit_known = cpu_limit_known, cg_memory_limit_known = memory_limit_known\<rparr> }"

interpretation cgroup: json_codec cgroup_to_json cgroup_from_json "\<lambda>_. True"
proof
  fix c
  show "cgroup_from_json (cgroup_to_json c) = Some c"
    by (cases c) (simp add: cgroup_to_json_def cgroup_from_json_def)
qed simp

definition cpuset_to_json :: "Cpuset \<Rightarrow> json" where
  "cpuset_to_json cs = json_object
     [(''cpus'', Some (Json_String (cs_cpus cs))), (''mems'', Some (Json_String (cs_mems cs))),
      (''cpus_effective'', Some (Json_String (cs_cpus_effective cs))),
      (''mems_effective'', Some (Json_String (cs_mems_effective cs)))]"

definition cpuset_from_json :: "json \<Rightarrow> Cpuset option" where
  "cpuset_from_json j = do {
     cpus \<leftarrow> needed json_string (json_find j ''cpus'');
     mems \<leftarrow> needed json_string (json_find j ''mems'');
     cpus_effective \<leftarrow> needed json_string (json_find j ''cpus_effective'');
     mems_effective \<leftarrow> needed json_string (json_find j ''mems_effective'');
     Some
       \<lparr>cs_cpus = cpus, cs_mems = mems, cs_cpus_effective = cpus_effective, cs_mems_effective = mems_effective\<rparr> }"

interpretation cpuset: json_codec cpuset_to_json cpuset_from_json "\<lambda>_. True"
proof
  fix cs
  show "cpuset_from_json (cpuset_to_json cs) = Some cs"
    by (cases cs) (simp add: cpuset_to_json_def cpuset_from_json_def)
qed simp

definition permission_to_json :: "Permission \<Rightarrow> json" where
  "permission_to_json p = json_object
     [(''euid'', Some (word_json (perm_euid p))), (''egid'', Some (word_json (perm_egid p))),
      (''is_root'', Some (Json_Boolean (perm_is_root p))),
      (''capabilities'', Some (list_json Json_String (perm_capabilities p)))]"

definition permission_from_json :: "json \<Rightarrow> Permission option" where
  "permission_from_json j = do {
     euid \<leftarrow> needed uint32_from_json (json_find j ''euid'');
     egid \<leftarrow> needed uint32_from_json (json_find j ''egid'');
     is_root \<leftarrow> needed json_boolean (json_find j ''is_root'');
     capabilities \<leftarrow> given (list_of json_string) [] (json_find j ''capabilities'');
     Some
       \<lparr>perm_euid = euid, perm_egid = egid, perm_capabilities = capabilities, perm_is_root = is_root\<rparr> }"

interpretation permission: json_codec permission_to_json permission_from_json "\<lambda>_. True"
proof
  fix p
  show "permission_from_json (permission_to_json p) = Some p"
    by (cases p) (simp add: permission_to_json_def permission_from_json_def)
qed simp

definition container_to_json :: "Container \<Rightarrow> json" where
  "container_to_json c = json_object
     [(''kind'', Some (enum_json ContainerKind_enumerators (cont_kind c))),
      (''id'', Some (Json_String (cont_id c))), (''runtime'', Some (Json_String (cont_runtime c)))]"

definition container_from_json :: "json \<Rightarrow> Container option" where
  "container_from_json j = do {
     kind \<leftarrow> needed (validate_enum ContainerKind_enumerators Container_Other) (json_find j ''kind'');
     id \<leftarrow> needed json_string (json_find j ''id'');
     runtime \<leftarrow> needed json_string (json_find j ''runtime'');
     Some
       \<lparr>cont_kind = kind, cont_id = id, cont_runtime = runtime\<rparr> }"

interpretation container: json_codec container_to_json container_from_json "\<lambda>_. True"
proof
  fix c
  show "container_from_json (container_to_json c) = Some c"
    by (cases c) (simp add: container_to_json_def container_from_json_def)
qed simp

definition execution_to_json :: "ExecutionContext \<Rightarrow> json" where
  "execution_to_json e = json_object
     [(''process'', Some (process_to_json (ex_process e))),
      (''environment'', Some (environment_to_json (ex_environment e))),
      (''cgroup'', Some (cgroup_to_json (ex_cgroup e))), (''cpuset'', Some (cpuset_to_json (ex_cpuset e))),
      (''permission'', Some (permission_to_json (ex_permission e))),
      (''container'', map_option container_to_json (ex_container e)),
      (''visible_logical_cpu_ids'', Some (list_json id_json (ex_visible_logical_cpu_ids e))),
      (''cpu_visibility_known'', Some (Json_Boolean (ex_cpu_visibility_known e))),
      (''visible_accelerator_ids'', Some (list_json id_json (ex_visible_accelerator_ids e))),
      (''accelerator_visibility_restricted'', Some (Json_Boolean (ex_accelerator_visibility_restricted e))),
      (''visible_network_interface_names'', Some (list_json name_json (ex_visible_network_interface_names e)))]"

definition execution_from_json :: "Numbers \<Rightarrow> json \<Rightarrow> ExecutionContext option" where
  "execution_from_json n j = do {
     process \<leftarrow> needed (process_from_json n) (json_find j ''process'');
     environment \<leftarrow> needed environment_from_json (json_find j ''environment'');
     cgroup \<leftarrow> needed cgroup_from_json (json_find j ''cgroup'');
     cpuset \<leftarrow> needed cpuset_from_json (json_find j ''cpuset'');
     permission \<leftarrow> needed permission_from_json (json_find j ''permission'');
     container \<leftarrow> maybe container_from_json (json_find j ''container'');
     visible_logical_cpu_ids \<leftarrow> needed (list_of id_from_json) (json_find j ''visible_logical_cpu_ids'');
     cpu_visibility_known \<leftarrow> boolean_value j ''cpu_visibility_known'' False;
     visible_accelerator_ids \<leftarrow> needed (list_of id_from_json) (json_find j ''visible_accelerator_ids'');
     accelerator_visibility_restricted \<leftarrow> boolean_value j ''accelerator_visibility_restricted'' False;
     visible_network_interface_names \<leftarrow> needed (list_of name_from_json) (json_find j ''visible_network_interface_names'');
     Some
       \<lparr>ex_process = process, ex_environment = environment, ex_cgroup = cgroup, ex_cpuset = cpuset,
        ex_permission = permission, ex_container = container,
        ex_visible_logical_cpu_ids = visible_logical_cpu_ids,
        ex_visible_accelerator_ids = visible_accelerator_ids,
        ex_visible_network_interface_names = visible_network_interface_names,
        ex_cpu_visibility_known = cpu_visibility_known,
        ex_accelerator_visibility_restricted = accelerator_visibility_restricted\<rparr> }"

interpretation execution: json_codec execution_to_json "execution_from_json n" "\<lambda>_. True" for n
proof
  fix e
  show "execution_from_json n (execution_to_json e) = Some e"
    by (cases e) (simp add: execution_to_json_def execution_from_json_def)
qed simp

end
