(* ===== verification/Codec_Hardware.thy ===== *)
theory Codec_Hardware
  imports Json_Enums Codec_Storage
begin

text \<open>
  The JSON of the sensors and of the hardware health: \<open>src/serialization/hardware.cpp\<close>, which reads its
  numbers with \<open>get<T>()\<close>. A reading is a template over its unit, so its writer and its reader take
  those of the unit.
\<close>

section \<open>Numbers read with \<open>get\<close>\<close>

interpretation plain_u64: json_codec Json_Unsigned "get_integer (float_u64 n)" "\<lambda>_. True" for n
  by unfold_locales simp_all

interpretation plain_u32: json_codec "word_json :: u32 \<Rightarrow> json" "get_arithmetic (float_u32 n)" "\<lambda>_. True" for n
  by unfold_locales simp_all

definition limited_number :: "Numbers \<Rightarrow> u64 \<Rightarrow> json \<Rightarrow> 'a::len word option" where
  "limited_number n maximum j =
     Option.bind (get_integer (float_u64 n) j) (\<lambda>v. if v > maximum then None else Some (ucast v))"

lemma limited_number_codec:
  fixes maximum :: u64
  assumes "unat maximum < 2 ^ LENGTH('a::len)"
  shows "json_codec (word_json :: 'a word \<Rightarrow> json) (limited_number n maximum) (\<lambda>v. unat v \<le> unat maximum)"
proof
  fix v :: "'a word"
  assume v: "unat v \<le> unat maximum"
  from json_codec.written [OF bounded_codec [OF assms] this]
  have "map_option ucast (checked_unsigned (word_json v) maximum) = Some v" by (simp add: bounded_from_json_def)
  then show "limited_number n maximum (word_json v) = Some v"
    by (auto simp: limited_number_def word_json_def checked_unsigned_def split: if_splits)
next
  fix j and v :: "'a word"
  assume "limited_number n maximum j = Some v"
  then obtain w where w: "w \<le> maximum" "v = ucast w"
    by (auto simp: limited_number_def bind_eq_Some_conv not_less split: if_splits)
  then have "unat w \<le> unat maximum" by (simp add: word_le_nat_alt)
  moreover from this have "unat v = unat w"
    using assms by (simp add: w(2) unsigned_ucast_eq take_bit_nat_eq_self)
  ultimately show "unat v \<le> unat maximum" by simp
qed

section \<open>Sensors\<close>

definition sensor_pci_from_json :: "Numbers \<Rightarrow> json \<Rightarrow> PciAddress option" where
  "sensor_pci_from_json n j = do {
     domain \<leftarrow> needed (limited_number n 65535) (json_find j ''domain'');
     bus \<leftarrow> needed (limited_number n 255) (json_find j ''bus'');
     device \<leftarrow> needed (limited_number n 31) (json_find j ''device'');
     func \<leftarrow> needed (limited_number n 7) (json_find j ''function'');
     Some \<lparr>pci_domain = domain, pci_bus = bus, pci_device = device, pci_function = func\<rparr> }"

lemmas limited_written = json_codec.written [OF limited_number_codec]
lemmas limited_decoded = reader_codec.needed_decoded [OF json_codec.axioms(1) [OF limited_number_codec]]

interpretation sensor_pci: json_codec pci_address_to_json "sensor_pci_from_json n" pci_address_ok for n
proof
  fix a
  assume "pci_address_ok a"
  moreover have "unat (pci_domain a) \<le> 65535" "unat (pci_bus a) \<le> 255"
    using unsigned_less [of "pci_domain a", where ?'a = nat] unsigned_less [of "pci_bus a", where ?'a = nat] by simp_all
  ultimately show "sensor_pci_from_json n (pci_address_to_json a) = Some a"
    by (cases a) (simp add: sensor_pci_from_json_def pci_address_to_json_def pci_address_ok_def word_le_nat_alt
      limited_written)
next
  fix j a
  assume "sensor_pci_from_json n j = Some a"
  then show "pci_address_ok a"
    by (auto simp: sensor_pci_from_json_def pci_address_ok_def bind_eq_Some_conv word_le_nat_alt
      dest!: limited_decoded [rotated])
qed

definition sensor_source_ok :: "RawSource \<Rightarrow> bool" where
  "sensor_source_ok s \<longleftrightarrow> position s RawSource_enumerators \<le> position SysfsHwmon RawSource_enumerators"

interpretation sensor_source: json_codec "enum_json RawSource_enumerators" "number_enum n RawSource_enumerators SysfsHwmon"
  sensor_source_ok for n
  unfolding sensor_source_ok_def [abs_def]
proof (rule number_enum_codec)
  show "s \<in> set RawSource_enumerators" for s by (cases s) (simp_all add: RawSource_enumerators_def)
qed (simp_all add: RawSource_enumerators_def)

definition identity_to_json :: "SensorIdentity \<Rightarrow> json" where
  "identity_to_json identity = json_object
     [(''id'', Some (name_json (si_id identity))), (''chip'', Some (Json_String (si_chip identity))),
      (''driver'', Some (Json_String (si_driver identity))),
      (''channel'', Some (Json_String (si_channel identity))),
      (''label'', Some (Json_String (si_label identity))),
      (''source'', Some (enum_json RawSource_enumerators (si_source identity))),
      (''origin'', Some (Json_String (si_origin identity))),
      (''device_path'', Some (Json_String (si_device_path identity))),
      (''pci_address'', map_option pci_address_to_json (si_pci_address identity))]"

definition identity_from_json :: "Numbers \<Rightarrow> json \<Rightarrow> SensorIdentity option" where
  "identity_from_json n j = do {
     id \<leftarrow> needed name_from_json (json_find j ''id'');
     chip \<leftarrow> json_value j ''chip'';
     driver \<leftarrow> json_value j ''driver'';
     channel \<leftarrow> json_value j ''channel'';
     label \<leftarrow> json_value j ''label'';
     source \<leftarrow> needed (number_enum n RawSource_enumerators SysfsHwmon) (json_find j ''source'');
     origin \<leftarrow> json_value j ''origin'';
     device_path \<leftarrow> json_value j ''device_path'';
     pci_address \<leftarrow> maybe (sensor_pci_from_json n) (json_find j ''pci_address'');
     Some
       \<lparr>si_id = id, si_chip = chip, si_driver = driver, si_channel = channel, si_label = label,
        si_source = source, si_origin = origin, si_device_path = device_path, si_pci_address = pci_address\<rparr> }"

definition identity_ok :: "SensorIdentity \<Rightarrow> bool" where
  "identity_ok identity \<longleftrightarrow> sensor_source_ok (si_source identity) \<and> pred_option pci_address_ok (si_pci_address identity)"

interpretation identity: json_codec identity_to_json "identity_from_json n" identity_ok for n
proof
  fix identity
  assume "identity_ok identity"
  then show "identity_from_json n (identity_to_json identity) = Some identity"
    by (cases identity) (simp add: identity_to_json_def identity_from_json_def identity_ok_def)
next
  fix j identity
  assume "identity_from_json n j = Some identity"
  then show "identity_ok identity"
    by (auto simp: identity_from_json_def identity_ok_def bind_eq_Some_conv
      dest: sensor_source.needed_decoded sensor_pci.maybe_decoded)
qed

definition alarm_to_json :: "SensorAlarm \<Rightarrow> json" where
  "alarm_to_json a = json_object
     [(''attribute'', Some (Json_String (alarm_attribute a))),
      (''active'', Some (Json_Boolean (alarm_active a)))]"

definition alarm_from_json :: "json \<Rightarrow> SensorAlarm option" where
  "alarm_from_json j = do {
     attribute \<leftarrow> needed json_string (json_find j ''attribute'');
     active \<leftarrow> needed json_boolean (json_find j ''active'');
     Some
       \<lparr>alarm_attribute = attribute, alarm_active = active\<rparr> }"

interpretation alarm: json_codec alarm_to_json alarm_from_json "\<lambda>_. True"
proof
  fix a
  show "alarm_from_json (alarm_to_json a) = Some a"
    by (cases a) (simp add: alarm_to_json_def alarm_from_json_def)
qed simp

definition sensor_to_json :: "('unit \<Rightarrow> json) \<Rightarrow> 'unit SensorReading \<Rightarrow> json" where
  "sensor_to_json unit_put sensor = json_object
     [(''identity'', Some (identity_to_json (sr_identity sensor))),
      (''unit_supported'', Some (Json_Boolean (sr_unit_supported sensor))),
      (''alarms'', Some (list_json alarm_to_json (sr_alarms sensor))),
      (''input'', map_option unit_put (sr_input sensor)), (''average'', map_option unit_put (sr_average sensor)),
      (''minimum'', map_option unit_put (sr_minimum sensor)), (''maximum'', map_option unit_put (sr_maximum sensor)),
      (''critical'', map_option unit_put (sr_critical sensor)),
      (''enabled'', map_option Json_Boolean (sr_enabled sensor)),
      (''fault'', map_option Json_Boolean (sr_fault sensor))]"

definition sensor_from_json :: "Numbers \<Rightarrow> (json \<Rightarrow> 'unit option) \<Rightarrow> json \<Rightarrow> 'unit SensorReading option" where
  "sensor_from_json n unit_read j = do {
     identity \<leftarrow> needed (identity_from_json n) (json_find j ''identity'');
     unit_supported \<leftarrow> boolean_value j ''unit_supported'' True;
     input \<leftarrow> maybe unit_read (json_find j ''input'');
     average \<leftarrow> maybe unit_read (json_find j ''average'');
     minimum \<leftarrow> maybe unit_read (json_find j ''minimum'');
     maximum \<leftarrow> maybe unit_read (json_find j ''maximum'');
     critical \<leftarrow> maybe unit_read (json_find j ''critical'');
     enabled \<leftarrow> maybe json_boolean (json_find j ''enabled'');
     fault \<leftarrow> maybe json_boolean (json_find j ''fault'');
     alarms \<leftarrow> given (list_of alarm_from_json) [] (json_find j ''alarms'');
     Some
       \<lparr>sr_identity = identity, sr_input = input, sr_average = average, sr_minimum = minimum, sr_maximum = maximum,
        sr_critical = critical, sr_enabled = enabled, sr_fault = fault, sr_alarms = alarms,
        sr_unit_supported = unit_supported\<rparr> }"

definition sensor_ok :: "'unit SensorReading \<Rightarrow> bool" where
  "sensor_ok sensor \<longleftrightarrow> identity_ok (sr_identity sensor)"

lemma sensor_codec:
  fixes put :: "'unit \<Rightarrow> json"
  assumes "json_codec put read (\<lambda>_. True)"
  shows "json_codec (sensor_to_json put) (sensor_from_json n read) sensor_ok"
proof
  fix sensor :: "'unit SensorReading"
  note unit = json_codec.maybe_written [OF assms, simplified]
  assume "sensor_ok sensor"
  then show "sensor_from_json n read (sensor_to_json put sensor) = Some sensor"
    by (cases sensor) (simp add: sensor_from_json_def sensor_to_json_def sensor_ok_def unit)
next
  fix j and sensor :: "'unit SensorReading"
  assume "sensor_from_json n read j = Some sensor"
  then show "sensor_ok sensor"
    by (auto simp: sensor_from_json_def sensor_ok_def bind_eq_Some_conv dest: identity.needed_decoded)
qed

interpretation temperature_sensor: json_codec "sensor_to_json temperature_json" "sensor_from_json n temperature_from_json" sensor_ok for n
  by (rule sensor_codec) (rule temperature.json_codec_axioms)

interpretation unit_sensor: json_codec "sensor_to_json unit_json" "sensor_from_json n unit_from_json" sensor_ok for n
  by (rule sensor_codec) (rule scalar_unit.json_codec_axioms)

definition sensors_to_json :: "Sensors \<Rightarrow> json" where
  "sensors_to_json s = json_object
     [(''temperatures'', Some (list_json (sensor_to_json temperature_json) (sens_temperatures s))),
      (''fans'', Some (list_json (sensor_to_json unit_json) (sens_fans s))),
      (''powers'', Some (list_json (sensor_to_json unit_json) (sens_powers s)))]"

definition sensors_from_json :: "Numbers \<Rightarrow> json \<Rightarrow> Sensors option" where
  "sensors_from_json n j = do {
     temperatures \<leftarrow> given (list_of (sensor_from_json n temperature_from_json)) [] (json_find j ''temperatures'');
     fans \<leftarrow> given (list_of (sensor_from_json n unit_from_json)) [] (json_find j ''fans'');
     powers \<leftarrow> given (list_of (sensor_from_json n unit_from_json)) [] (json_find j ''powers'');
     Some
       \<lparr>sens_temperatures = temperatures, sens_fans = fans, sens_powers = powers\<rparr> }"

definition sensors_ok :: "Sensors \<Rightarrow> bool" where
  "sensors_ok s \<longleftrightarrow> list_all sensor_ok (sens_temperatures s) \<and> list_all sensor_ok (sens_fans s) \<and>
     list_all sensor_ok (sens_powers s)"

interpretation sensors: json_codec sensors_to_json "sensors_from_json n" sensors_ok for n
proof
  fix s
  assume "sensors_ok s"
  then show "sensors_from_json n (sensors_to_json s) = Some s"
    by (cases s) (simp add: sensors_to_json_def sensors_from_json_def sensors_ok_def)
next
  fix j s
  assume "sensors_from_json n j = Some s"
  then show "sensors_ok s"
    by (auto simp: sensors_from_json_def sensors_ok_def bind_eq_Some_conv
      dest: temperature_sensor.given_list_decoded unit_sensor.given_list_decoded)
qed

section \<open>Hardware health\<close>

definition finding_attribute_from_json :: "Numbers \<Rightarrow> json \<Rightarrow> u8 option" where
  "finding_attribute_from_json n j =
     Option.bind (limited_number n 255 j) (\<lambda>v. if v = 0 then None else Some v)"

interpretation finding_attribute: json_codec word_json "finding_attribute_from_json n" "\<lambda>v. v \<noteq> 0" for n
proof
  fix v :: u8
  assume "v \<noteq> 0"
  then show "finding_attribute_from_json n (word_json v) = Some v"
    using unsigned_less [of v, where ?'a = nat] by (simp add: finding_attribute_from_json_def limited_written)
qed (auto simp: finding_attribute_from_json_def bind_eq_Some_conv split: if_splits)

definition sensor_alert_record_to_json :: "SensorAlert \<Rightarrow> json" where
  "sensor_alert_record_to_json a = json_object
     [(''sensor'', Some (name_json (sal_sensor a))),
      (''kind'', Some (enum_json SensorAlertKind_enumerators (sal_kind a))),
      (''severity'', Some (enum_json HealthSeverity_enumerators (sal_severity a))),
      (''origin'', Some (Json_String (sal_origin a)))]"

definition sensor_alert_record_from_json :: "Numbers \<Rightarrow> json \<Rightarrow> SensorAlert option" where
  "sensor_alert_record_from_json n j = do {
     sensor \<leftarrow> needed name_from_json (json_find j ''sensor'');
     kind \<leftarrow> needed (number_enum n SensorAlertKind_enumerators AboveMaximum) (json_find j ''kind'');
     severity \<leftarrow> needed (number_enum n HealthSeverity_enumerators Critical) (json_find j ''severity'');
     origin \<leftarrow> needed json_string (json_find j ''origin'');
     Some
       \<lparr>sal_sensor = sensor, sal_kind = kind, sal_severity = severity, sal_origin = origin\<rparr> }"

interpretation sensor_alert_record: json_codec sensor_alert_record_to_json "sensor_alert_record_from_json n" "\<lambda>_. True" for n
proof
  fix a
  show "sensor_alert_record_from_json n (sensor_alert_record_to_json a) = Some a"
    by (cases a) (simp add: sensor_alert_record_to_json_def sensor_alert_record_from_json_def)
qed simp

definition storage_alert_record_to_json :: "StorageAlert \<Rightarrow> json" where
  "storage_alert_record_to_json a = json_object
     [(''device'', Some (name_json (stal_device a))),
      (''degraded_members'', Some (word_json (stal_degraded_members a))),
      (''severity'', Some (enum_json HealthSeverity_enumerators (stal_severity a))),
      (''origin'', Some (Json_String (stal_origin a)))]"

definition storage_alert_record_from_json :: "Numbers \<Rightarrow> json \<Rightarrow> StorageAlert option" where
  "storage_alert_record_from_json n j = do {
     device \<leftarrow> needed name_from_json (json_find j ''device'');
     degraded_members \<leftarrow> needed (get_arithmetic (float_u32 n)) (json_find j ''degraded_members'');
     severity \<leftarrow> needed (number_enum n HealthSeverity_enumerators Critical) (json_find j ''severity'');
     origin \<leftarrow> needed json_string (json_find j ''origin'');
     Some
       \<lparr>stal_device = device, stal_degraded_members = degraded_members, stal_severity = severity,
        stal_origin = origin\<rparr> }"

interpretation storage_alert_record: json_codec storage_alert_record_to_json "storage_alert_record_from_json n" "\<lambda>_. True" for n
proof
  fix a
  show "storage_alert_record_from_json n (storage_alert_record_to_json a) = Some a"
    by (cases a) (simp add: storage_alert_record_to_json_def storage_alert_record_from_json_def)
qed simp

definition memory_event_record_to_json :: "MemoryErrorEvent \<Rightarrow> json" where
  "memory_event_record_to_json e = json_object
     [(''controller_index'', Some (word_json (mee_controller_index e))),
      (''severity'', Some (enum_json HealthSeverity_enumerators (mee_severity e))),
      (''origin'', Some (Json_String (mee_origin e))),
      (''period'', Some (Json_String ''since initialization/reset'')),
      (''corrected'', map_option Json_Unsigned (mee_corrected e)),
      (''uncorrected'', map_option Json_Unsigned (mee_uncorrected e))]"

definition memory_event_record_from_json :: "Numbers \<Rightarrow> json \<Rightarrow> MemoryErrorEvent option" where
  "memory_event_record_from_json n j = do {
     controller_index \<leftarrow> needed (get_arithmetic (float_u32 n)) (json_find j ''controller_index'');
     severity \<leftarrow> needed (number_enum n HealthSeverity_enumerators Critical) (json_find j ''severity'');
     origin \<leftarrow> needed json_string (json_find j ''origin'');
     corrected \<leftarrow> maybe (get_integer (float_u64 n)) (json_find j ''corrected'');
     uncorrected \<leftarrow> maybe (get_integer (float_u64 n)) (json_find j ''uncorrected'');
     Some
       \<lparr>mee_controller_index = controller_index, mee_corrected = corrected, mee_uncorrected = uncorrected,
        mee_severity = severity, mee_origin = origin\<rparr> }"

interpretation memory_event_record: json_codec memory_event_record_to_json "memory_event_record_from_json n" "\<lambda>_. True" for n
proof
  fix e
  show "memory_event_record_from_json n (memory_event_record_to_json e) = Some e"
    by (cases e) (simp add: memory_event_record_to_json_def memory_event_record_from_json_def)
qed simp

definition drive_finding_to_json :: "DriveFinding \<Rightarrow> json" where
  "drive_finding_to_json f = json_object
     [(''target'', Some (name_json (df_target f))),
      (''kind'', Some (enum_json DriveFindingKind_enumerators (df_kind f))),
      (''severity'', Some (enum_json HealthSeverity_enumerators (df_severity f))),
      (''origin'', Some (Json_String (df_origin f))),
      (''attribute_id'', map_option word_json (df_attribute_id f))]"

definition drive_finding_from_json :: "Numbers \<Rightarrow> json \<Rightarrow> DriveFinding option" where
  "drive_finding_from_json n j = do {
     target \<leftarrow> needed name_from_json (json_find j ''target'');
     kind \<leftarrow> needed (number_enum n DriveFindingKind_enumerators ScsiHistory) (json_find j ''kind'');
     severity \<leftarrow> needed (number_enum n HealthSeverity_enumerators Critical) (json_find j ''severity'');
     origin \<leftarrow> needed json_string (json_find j ''origin'');
     attribute_id \<leftarrow> maybe (finding_attribute_from_json n) (json_find j ''attribute_id'');
     Some
       \<lparr>df_target = target, df_kind = kind, df_severity = severity, df_origin = origin,
        df_attribute_id = attribute_id\<rparr> }"

definition drive_finding_ok :: "DriveFinding \<Rightarrow> bool" where
  "drive_finding_ok f \<longleftrightarrow> pred_option (\<lambda>v. v \<noteq> 0) (df_attribute_id f)"

interpretation drive_finding: json_codec drive_finding_to_json "drive_finding_from_json n" drive_finding_ok for n
proof
  fix f
  assume "drive_finding_ok f"
  then show "drive_finding_from_json n (drive_finding_to_json f) = Some f"
    by (cases f) (simp add: drive_finding_to_json_def drive_finding_from_json_def drive_finding_ok_def)
next
  fix j f
  assume "drive_finding_from_json n j = Some f"
  then show "drive_finding_ok f"
    by (auto simp: drive_finding_from_json_def drive_finding_ok_def bind_eq_Some_conv
      dest: finding_attribute.maybe_decoded)
qed

definition coverage_to_json :: "HealthCoverage \<Rightarrow> json" where
  "coverage_to_json c = json_object
     [(''domain'', Some (Json_String (cov_domain c))),
      (''status'', Some (enum_json HealthCoverageStatus_enumerators (cov_status c))),
      (''usable_readings'', Some (word_json (cov_usable_readings c))),
      (''alarm_reports'', Some (word_json (cov_alarm_reports c)))]"

definition coverage_from_json :: "Numbers \<Rightarrow> json \<Rightarrow> HealthCoverage option" where
  "coverage_from_json n j = do {
     domain \<leftarrow> needed json_string (json_find j ''domain'');
     status \<leftarrow> needed (number_enum n HealthCoverageStatus_enumerators Available) (json_find j ''status'');
     usable_readings \<leftarrow> needed (get_arithmetic (float_u32 n)) (json_find j ''usable_readings'');
     alarm_reports \<leftarrow> needed (get_arithmetic (float_u32 n)) (json_find j ''alarm_reports'');
     Some
       \<lparr>cov_domain = domain, cov_status = status, cov_usable_readings = usable_readings,
        cov_alarm_reports = alarm_reports\<rparr> }"

interpretation coverage: json_codec coverage_to_json "coverage_from_json n" "\<lambda>_. True" for n
proof
  fix c
  show "coverage_from_json n (coverage_to_json c) = Some c"
    by (cases c) (simp add: coverage_to_json_def coverage_from_json_def)
qed simp

definition health_to_json :: "HardwareHealth \<Rightarrow> json" where
  "health_to_json h = json_object
     [(''sensor_alerts'', Some (list_json sensor_alert_record_to_json (hh_sensor_alerts h))),
      (''storage_alerts'', Some (list_json storage_alert_record_to_json (hh_storage_alerts h))),
      (''memory_events'', Some (list_json memory_event_record_to_json (hh_memory_events h))),
      (''coverage'', Some (list_json coverage_to_json (hh_coverage h))),
      (''drive_findings'', Some (list_json drive_finding_to_json (hh_drive_findings h)))]"

definition health_from_json :: "Numbers \<Rightarrow> json \<Rightarrow> HardwareHealth option" where
  "health_from_json n j = do {
     sensor_alerts \<leftarrow> given (list_of (sensor_alert_record_from_json n)) [] (json_find j ''sensor_alerts'');
     storage_alerts \<leftarrow> given (list_of (storage_alert_record_from_json n)) [] (json_find j ''storage_alerts'');
     memory_events \<leftarrow> given (list_of (memory_event_record_from_json n)) [] (json_find j ''memory_events'');
     coverage \<leftarrow> given (list_of (coverage_from_json n)) [] (json_find j ''coverage'');
     drive_findings \<leftarrow> given (list_of (drive_finding_from_json n)) [] (json_find j ''drive_findings'');
     Some
       \<lparr>hh_sensor_alerts = sensor_alerts, hh_storage_alerts = storage_alerts, hh_memory_events = memory_events,
        hh_coverage = coverage, hh_drive_findings = drive_findings\<rparr> }"

definition health_ok :: "HardwareHealth \<Rightarrow> bool" where
  "health_ok h \<longleftrightarrow> list_all drive_finding_ok (hh_drive_findings h)"

interpretation health: json_codec health_to_json "health_from_json n" health_ok for n
proof
  fix h
  assume "health_ok h"
  then show "health_from_json n (health_to_json h) = Some h"
    by (cases h) (simp add: health_to_json_def health_from_json_def health_ok_def)
next
  fix j h
  assume "health_from_json n j = Some h"
  then show "health_ok h"
    by (auto simp: health_from_json_def health_ok_def bind_eq_Some_conv
      dest: drive_finding.given_list_decoded)
qed

end
