(* ===== verification/Codec_Snapshot.thy ===== *)
theory Codec_Snapshot
  imports Codec_Devices Codec_Memory Codec_Cpu Codec_Storage Codec_Platform Codec_Hardware
begin

text \<open>
  The JSON of the collection: \<open>src/serialization/inventory.cpp\<close>, \<open>collect_options.cpp\<close>, and the raw
  evidence, the observations, the metadata and the information of \<open>serialize.cpp\<close>.
\<close>

section \<open>Inventories (\<open>inventory.cpp\<close>)\<close>

definition enumeration_to_json :: "InventoryEnumeration \<Rightarrow> json" where
  "enumeration_to_json e = json_object
     [(''inventory'', Some (enum_json InventoryKind_enumerators (ie_inventory e))),
      (''source'', Some (enum_json RawSource_enumerators (ie_source e))),
      (''origin'', Some (Json_String (ie_origin e))),
      (''entries'', Some (list_json Json_String (ie_entries e))),
      (''status'', Some (enum_json CollectStatus_enumerators (ie_status e))),
      (''failure'', map_option (enum_json ReadFailure_enumerators) (ie_failure e))]"

definition enumeration_from_json :: "json \<Rightarrow> InventoryEnumeration option" where
  "enumeration_from_json j = do {
     inventory \<leftarrow> needed (validate_enum InventoryKind_enumerators AcceleratorDevices) (json_find j ''inventory'');
     source \<leftarrow> needed (validate_enum RawSource_enumerators Src_FilesystemUsage) (json_find j ''source'');
     origin \<leftarrow> needed json_string (json_find j ''origin'');
     entries \<leftarrow> needed (array_of json_string) (json_find j ''entries'');
     status \<leftarrow> needed (validate_enum CollectStatus_enumerators NotCollected) (json_find j ''status'');
     failure \<leftarrow> maybe (validate_enum ReadFailure_enumerators LowPower) (json_find j ''failure'');
     Some
       \<lparr>ie_inventory = inventory, ie_source = source, ie_origin = origin, ie_entries = entries,
        ie_status = status, ie_failure = failure\<rparr> }"

interpretation enumeration: json_codec enumeration_to_json enumeration_from_json "\<lambda>_. True"
proof
  fix e
  show "enumeration_from_json (enumeration_to_json e) = Some e"
    by (cases e) (simp add: enumeration_to_json_def enumeration_from_json_def)
qed simp

definition inventory_to_json :: "InventoryReport \<Rightarrow> json" where
  "inventory_to_json r = json_object
     [(''inventory'', Some (enum_json InventoryKind_enumerators (ir_inventory r))),
      (''completeness'', Some (enum_json InventoryCompleteness_enumerators (ir_completeness r))),
      (''origin'', Some (Json_String (ir_origin r)))]"

definition inventory_from_json :: "json \<Rightarrow> InventoryReport option" where
  "inventory_from_json j = do {
     inventory \<leftarrow> needed (validate_enum InventoryKind_enumerators AcceleratorDevices) (json_find j ''inventory'');
     completeness \<leftarrow> needed (validate_enum InventoryCompleteness_enumerators Complete) (json_find j ''completeness'');
     origin \<leftarrow> needed json_string (json_find j ''origin'');
     Some
       \<lparr>ir_inventory = inventory, ir_completeness = completeness, ir_origin = origin\<rparr> }"

interpretation inventory: json_codec inventory_to_json inventory_from_json "\<lambda>_. True"
proof
  fix r
  show "inventory_from_json (inventory_to_json r) = Some r"
    by (cases r) (simp add: inventory_to_json_def inventory_from_json_def)
qed simp

section \<open>Requests (\<open>collect_options.cpp\<close>)\<close>

text \<open>A policy is an integer that the reader checks; the writer takes whatever it is.\<close>

definition policy_from_json :: "u32 \<Rightarrow> json \<Rightarrow> u32 option" where
  "policy_from_json greatest j = Option.bind (uint32_from_json j) (\<lambda>v. if v > greatest then None else Some v)"

interpretation policy: json_codec word_json "policy_from_json greatest" "\<lambda>v. v \<le> greatest" for greatest
  by unfold_locales (auto simp: policy_from_json_def bind_eq_Some_conv split: if_splits)

definition options_to_json :: "CollectOptions \<Rightarrow> json" where
  "options_to_json opts = json_object
     [(''filesystems'', Some (word_json (opt_filesystems opts))),
      (''sensors'', Some (word_json (opt_sensors opts)))]"

definition options_from_json :: "json \<Rightarrow> CollectOptions option" where
  "options_from_json j = do {
     filesystems \<leftarrow> needed (policy_from_json FilesystemQuery_AllMounted) (json_find j ''filesystems'');
     sensors \<leftarrow> needed (policy_from_json SensorDevices_ExcludeDisplay) (json_find j ''sensors'');
     Some
       \<lparr>opt_filesystems = filesystems, opt_sensors = sensors\<rparr> }"

definition options_ok :: "CollectOptions \<Rightarrow> bool" where
  "options_ok opts \<longleftrightarrow> (\<lambda>v. v \<le> FilesystemQuery_AllMounted) (opt_filesystems opts) \<and>
     (\<lambda>v. v \<le> SensorDevices_ExcludeDisplay) (opt_sensors opts)"

interpretation options: json_codec options_to_json options_from_json options_ok
proof
  fix opts
  assume "options_ok opts"
  then show "options_from_json (options_to_json opts) = Some opts"
    by (cases opts) (simp add: options_to_json_def options_from_json_def options_ok_def)
next
  fix j opts
  assume "options_from_json j = Some opts"
  then show "options_ok opts"
    by (auto simp: options_from_json_def options_ok_def bind_eq_Some_conv
      dest: policy.needed_decoded)
qed

definition flags_from_json :: "json \<Rightarrow> Collect option" where
  "flags_from_json j = Option.bind (uint32_from_json j) (\<lambda>flags.
     if Bit_Operations.and flags (Bit_Operations.not full) \<noteq> 0 then None else Some flags)"

definition flags_ok :: "Collect \<Rightarrow> bool" where
  "flags_ok flags \<longleftrightarrow> Bit_Operations.and flags (Bit_Operations.not full) = 0"

interpretation flags: json_codec word_json flags_from_json flags_ok
  by unfold_locales (auto simp: flags_from_json_def flags_ok_def bind_eq_Some_conv split: if_splits)

definition collection_request_to_json :: "CollectionRequest \<Rightarrow> json" where
  "collection_request_to_json r = json_object
     [(''flags'', Some (word_json (req_flags r))), (''options'', Some (options_to_json (req_options r)))]"

definition collection_request_from_json :: "json \<Rightarrow> CollectionRequest option" where
  "collection_request_from_json j = do {
     flags \<leftarrow> needed flags_from_json (json_find j ''flags'');
     options \<leftarrow> needed options_from_json (json_find j ''options'');
     Some
       \<lparr>req_flags = flags, req_options = options\<rparr> }"

definition collection_request_ok :: "CollectionRequest \<Rightarrow> bool" where
  "collection_request_ok r \<longleftrightarrow> flags_ok (req_flags r) \<and> options_ok (req_options r)"

interpretation collection_request: json_codec collection_request_to_json collection_request_from_json collection_request_ok
proof
  fix r
  assume "collection_request_ok r"
  then show "collection_request_from_json (collection_request_to_json r) = Some r"
    by (cases r) (simp add: collection_request_to_json_def collection_request_from_json_def collection_request_ok_def)
next
  fix j r
  assume "collection_request_from_json j = Some r"
  then show "collection_request_ok r"
    by (auto simp: collection_request_from_json_def collection_request_ok_def bind_eq_Some_conv
      dest: flags.needed_decoded options.needed_decoded)
qed

section \<open>Times\<close>

text \<open>A time point counts nanoseconds in a signed integer of 64 bits and is written in milliseconds, rounded
  towards zero. Reading multiplies; \<^const>\<open>None\<close> is the signed overflow of that product, whose behaviour C++
  leaves undefined. A double is written as the library does; what is not finite is written as null and is
  not read back.\<close>

definition time_point_to_ms :: "int \<Rightarrow> i64" where
  "time_point_to_ms t = word_of_int (sgn t * (\<bar>t\<bar> div 1000000))"

definition ms_to_time_point :: "i64 \<Rightarrow> int option" where
  "ms_to_time_point ms =
     (let t = sint ms * 1000000 in if - (2 ^ 63) \<le> t \<and> t < 2 ^ 63 then Some t else None)"

lemma ms_to_time_point_bounds: "ms_to_time_point 9223372036854 \<noteq> None" "ms_to_time_point 9223372036855 = None"
  by code_simp+

definition time_json :: "int \<Rightarrow> json" where
  "time_json t = int_json (time_point_to_ms t)"

definition time_from_json :: "Numbers \<Rightarrow> json \<Rightarrow> int option" where
  "time_from_json n j = Option.bind (get_integer (float_i64 n) j) ms_to_time_point"

text \<open>Reading the member of a time overflows: there is a number, and it is too large.\<close>

definition time_overflows :: "Numbers \<Rightarrow> json option \<Rightarrow> bool" where
  "time_overflows n v =
     (case needed (get_integer (float_i64 n)) v of None \<Rightarrow> False | Some ms \<Rightarrow> ms_to_time_point ms = None)"

definition time_ok :: "int \<Rightarrow> bool" where
  "time_ok t \<longleftrightarrow> 1000000 dvd t \<and> - (2 ^ 63) \<le> t \<and> t < 2 ^ 63"

interpretation time: json_codec time_json "time_from_json n" time_ok for n
proof
  fix t
  assume "time_ok t"
  then obtain ms where ms: "t = ms * 1000000" "- (2 ^ 63) \<le> ms" "ms < 2 ^ 63"
    "- (2 ^ 63) \<le> ms * 1000000" "ms * 1000000 < 2 ^ 63"
    by (auto simp: time_ok_def mult.commute)
  have "sgn t * (\<bar>t\<bar> div 1000000) = ms"
    by (simp add: ms(1) abs_mult sgn_mult mult_sgn_abs)
  moreover have "sint (word_of_int ms :: i64) = ms" 
    using signed_take_bit_int_eq_self [of 63 ms] ms(2,3) by (simp add: sint_uint unsigned_of_int signed_take_bit_take_bit)
  ultimately show "time_from_json n (time_json t) = Some t"
    using ms(4,5) by (simp add: time_from_json_def time_json_def time_point_to_ms_def ms_to_time_point_def ms(1))
next
  fix j t
  assume "time_from_json n j = Some t"
  then show "time_ok t"
    by (auto simp: time_from_json_def ms_to_time_point_def time_ok_def bind_eq_Some_conv Let_def split: if_splits)
qed

definition double_ok :: "Numbers \<Rightarrow> int \<Rightarrow> bool" where
  "double_ok n d \<longleftrightarrow> json_double n (double_json n d) = Some d"

text \<open>A double that the library has read is written so that it is read again.\<close>

definition numbers_ok :: "Numbers \<Rightarrow> bool" where
  "numbers_ok n \<longleftrightarrow> (\<forall>j d. json_double n j = Some d \<longrightarrow> double_ok n d)"

section \<open>Raw evidence (\<open>serialize.cpp\<close>)\<close>

definition raw_record_to_json :: "RawRecord \<Rightarrow> json" where
  "raw_record_to_json rec = json_object
     [(''source'', Some (enum_json RawSource_enumerators (rec_source rec))),
      (''path_or_command'', Some (Json_String (rec_path_or_command rec))),
      (''payload'', Some (Json_String (rec_payload rec))),
      (''status'', Some (enum_json CollectStatus_enumerators (rec_status rec))),
      (''collected_at'', Some (time_json (rec_collected_at rec))),
      (''failure'', map_option (enum_json ReadFailure_enumerators) (rec_failure rec)),
      (''skip'', map_option (enum_json SkipReason_enumerators) (rec_skip rec))]"

definition raw_record_from_json :: "Numbers \<Rightarrow> json \<Rightarrow> RawRecord option" where
  "raw_record_from_json n j = do {
     source \<leftarrow> needed (validate_enum RawSource_enumerators Src_FilesystemUsage) (json_find j ''source'');
     path_or_command \<leftarrow> needed json_string (json_find j ''path_or_command'');
     payload \<leftarrow> needed json_string (json_find j ''payload'');
     status \<leftarrow> needed (validate_enum CollectStatus_enumerators NotCollected) (json_find j ''status'');
     collected_at \<leftarrow> needed (time_from_json n) (json_find j ''collected_at'');
     failure \<leftarrow> maybe (validate_enum ReadFailure_enumerators LowPower) (json_find j ''failure'');
     skip \<leftarrow> maybe (validate_enum SkipReason_enumerators NotApplicable) (json_find j ''skip'');
     Some
       \<lparr>rec_source = source, rec_path_or_command = path_or_command, rec_payload = payload, rec_status = status,
        rec_collected_at = collected_at, rec_failure = failure, rec_skip = skip\<rparr> }"

text \<open>The overflow is reached when what is read before it is as it should be.\<close>

definition raw_record_overflows :: "Numbers \<Rightarrow> json \<Rightarrow> bool" where
  "raw_record_overflows n j \<longleftrightarrow>
     needed (validate_enum RawSource_enumerators Src_FilesystemUsage) (json_find j ''source'') \<noteq> None \<and>
     needed json_string (json_find j ''path_or_command'') \<noteq> None \<and>
     needed json_string (json_find j ''payload'') \<noteq> None \<and>
     needed (validate_enum CollectStatus_enumerators NotCollected) (json_find j ''status'') \<noteq> None \<and>
     time_overflows n (json_find j ''collected_at'')"

definition raw_record_ok :: "RawRecord \<Rightarrow> bool" where
  "raw_record_ok rec \<longleftrightarrow> time_ok (rec_collected_at rec)"

interpretation raw_record: json_codec raw_record_to_json "raw_record_from_json n" raw_record_ok for n
proof
  fix rec
  assume "raw_record_ok rec"
  then show "raw_record_from_json n (raw_record_to_json rec) = Some rec"
    by (cases rec) (simp add: raw_record_to_json_def raw_record_from_json_def raw_record_ok_def)
next
  fix j rec
  assume "raw_record_from_json n j = Some rec"
  then show "raw_record_ok rec"
    by (auto simp: raw_record_from_json_def raw_record_ok_def bind_eq_Some_conv
      dest: time.needed_decoded)
qed

definition raw_store_to_json :: "RawStore \<Rightarrow> json" where
  "raw_store_to_json store = json_object
     [(''records'', Some (list_json raw_record_to_json (raw_records store))),
      (''enumerations'', Some (list_json enumeration_to_json (raw_enumerations store))),
      (''collection_request'', map_option collection_request_to_json (raw_collection_request store))]"

definition raw_store_from_json :: "Numbers \<Rightarrow> json \<Rightarrow> RawStore option" where
  "raw_store_from_json n j = do {
     records \<leftarrow> needed (list_of (raw_record_from_json n)) (json_find j ''records'');
     enumerations \<leftarrow> given (array_of enumeration_from_json) [] (json_find j ''enumerations'');
     collection_request \<leftarrow> maybe collection_request_from_json (json_find j ''collection_request'');
     Some
       \<lparr>raw_records = records, raw_enumerations = enumerations, raw_collection_request = collection_request\<rparr> }"

definition raw_store_overflows :: "Numbers \<Rightarrow> json \<Rightarrow> bool" where
  "raw_store_overflows n j =
     (case json_find j ''records'' of
        None \<Rightarrow> False
      | Some records \<Rightarrow>
          (case find (\<lambda>record'. raw_record_from_json n record' = None) (json_items records) of
             None \<Rightarrow> False
           | Some record' \<Rightarrow> raw_record_overflows n record'))"

lemma raw_record_overflows: "raw_record_overflows n j \<Longrightarrow> raw_record_from_json n j = None"
  by (auto simp: raw_record_overflows_def raw_record_from_json_def time_overflows_def time_from_json_def needed_def
    split: option.splits bind_splits)

lemma those_None: "None \<in> set xs \<Longrightarrow> those xs = None"
  by (induction xs) (auto split: option.split)

lemma raw_store_overflows: "raw_store_overflows n j \<Longrightarrow> raw_store_from_json n j = None"
proof -
  assume "raw_store_overflows n j"
  then obtain records where records: "json_find j ''records'' = Some records"
    "find (\<lambda>r. raw_record_from_json n r = None) (json_items records) \<noteq> None"
    by (auto simp: raw_store_overflows_def split: option.splits)
  then obtain x where "x \<in> set (json_items records)" "raw_record_from_json n x = None"
    by (auto simp: find_None_iff)
  then have "None \<in> set (map (raw_record_from_json n) (json_items records))"
    by (metis image_eqI list.set_map)
  then have "those (map (raw_record_from_json n) (json_items records)) = None"
    by (rule those_None)
  then show ?thesis by (simp add: raw_store_from_json_def needed_def records(1) list_of_def)
qed

definition raw_store_ok :: "RawStore \<Rightarrow> bool" where
  "raw_store_ok store \<longleftrightarrow> list_all raw_record_ok (raw_records store) \<and>
     pred_option collection_request_ok (raw_collection_request store)"

interpretation raw_store: json_codec raw_store_to_json "raw_store_from_json n" raw_store_ok for n
proof
  fix store
  assume "raw_store_ok store"
  then show "raw_store_from_json n (raw_store_to_json store) = Some store"
    by (cases store) (simp add: raw_store_to_json_def raw_store_from_json_def raw_store_ok_def)
next
  fix j store
  assume "raw_store_from_json n j = Some store"
  then show "raw_store_ok store"
    by (auto simp: raw_store_from_json_def raw_store_ok_def bind_eq_Some_conv
      dest: raw_record.needed_list_decoded collection_request.maybe_decoded)
qed

definition observation_to_json :: "CollectionObservation \<Rightarrow> json" where
  "observation_to_json obs = json_object
     [(''domain'', Some (Json_String (obs_domain obs))),
      (''source'', Some (enum_json RawSource_enumerators (obs_source obs))),
      (''origin'', Some (Json_String (obs_origin obs))),
      (''status'', Some (enum_json CollectStatus_enumerators (obs_status obs))),
      (''failure'', map_option (enum_json ReadFailure_enumerators) (obs_failure obs)),
      (''skip'', map_option (enum_json SkipReason_enumerators) (obs_skip obs))]"

definition observation_from_json :: "json \<Rightarrow> CollectionObservation option" where
  "observation_from_json j = do {
     domain \<leftarrow> needed json_string (json_find j ''domain'');
     source \<leftarrow> needed (validate_enum RawSource_enumerators Src_FilesystemUsage) (json_find j ''source'');
     origin \<leftarrow> needed json_string (json_find j ''origin'');
     status \<leftarrow> needed (validate_enum CollectStatus_enumerators NotCollected) (json_find j ''status'');
     failure \<leftarrow> maybe (validate_enum ReadFailure_enumerators LowPower) (json_find j ''failure'');
     skip \<leftarrow> maybe (validate_enum SkipReason_enumerators NotApplicable) (json_find j ''skip'');
     Some
       \<lparr>obs_domain = domain, obs_source = source, obs_origin = origin, obs_status = status,
        obs_failure = failure, obs_skip = skip\<rparr> }"

interpretation observation: json_codec observation_to_json observation_from_json "\<lambda>_. True"
proof
  fix obs
  show "observation_from_json (observation_to_json obs) = Some obs"
    by (cases obs) (simp add: observation_to_json_def observation_from_json_def)
qed simp

section \<open>Information and metadata\<close>

lemma default_ok: "sensors_ok Sensors_default" "health_ok HardwareHealth_default"
  by (simp_all add: sensors_ok_def health_ok_def Sensors_default_def HardwareHealth_default_def)

definition system_info_to_json :: "SystemInfo \<Rightarrow> json option" where
  "system_info_to_json info = do {
     storage \<leftarrow> put_needed storage_to_json (info_storage info);
     Some (json_object
       [(''platform'', Some (platform_to_json (info_platform info))),
        (''cpu'', Some (cpu_to_json (info_cpu info))), (''memory'', Some (memory_to_json (info_memory info))),
        (''accelerators'', Some (accelerators_to_json (info_accelerators info))),
        (''network'', Some (network_to_json (info_network info))), (''storage'', storage),
        (''pci'', Some (pci_to_json (info_pci info))),
        (''software'', Some (software_to_json (info_software info))),
        (''execution'', Some (execution_to_json (info_execution info))),
        (''sensors'', Some (sensors_to_json (info_sensors info))),
        (''hardware_health'', Some (health_to_json (info_hardware_health info)))]) }"

definition system_info_from_json :: "Numbers \<Rightarrow> json \<Rightarrow> SystemInfo option" where
  "system_info_from_json n j = do {
     platform \<leftarrow> needed platform_from_json (json_find j ''platform'');
     cpu \<leftarrow> needed cpu_from_json (json_find j ''cpu'');
     memory \<leftarrow> needed memory_from_json (json_find j ''memory'');
     accelerators \<leftarrow> needed accelerators_from_json (json_find j ''accelerators'');
     network \<leftarrow> needed network_from_json (json_find j ''network'');
     storage \<leftarrow> needed storage_from_json (json_find j ''storage'');
     pci \<leftarrow> needed pci_from_json (json_find j ''pci'');
     software \<leftarrow> needed software_from_json (json_find j ''software'');
     execution \<leftarrow> needed (execution_from_json n) (json_find j ''execution'');
     sensors \<leftarrow> given (sensors_from_json n) Sensors_default (json_find j ''sensors'');
     hardware_health \<leftarrow> given (health_from_json n) HardwareHealth_default (json_find j ''hardware_health'');
     Some
       \<lparr>info_platform = platform, info_cpu = cpu, info_memory = memory, info_accelerators = accelerators,
        info_network = network, info_storage = storage, info_pci = pci, info_software = software,
        info_execution = execution, info_sensors = sensors, info_hardware_health = hardware_health\<rparr> }"

definition system_info_ok :: "SystemInfo \<Rightarrow> bool" where
  "system_info_ok info \<longleftrightarrow> memory_ok (info_memory info) \<and> accelerators_ok (info_accelerators info) \<and>
     network_ok (info_network info) \<and> storage_ok (info_storage info) \<and> pci_ok (info_pci info) \<and>
     sensors_ok (info_sensors info) \<and> health_ok (info_hardware_health info)"

interpretation system_info: fallible_codec system_info_to_json "system_info_from_json n" system_info_ok for n
proof
  fix info
  assume "system_info_ok info"
  then show "Option.bind (system_info_to_json info) (system_info_from_json n) = Some info"
    by (cases info) (auto simp: system_info_to_json_def system_info_from_json_def system_info_ok_def
      dest!: storage.put_needed_written)
next
  fix j info
  assume "system_info_from_json n j = Some info"
  then show "system_info_ok info"
    by (auto simp: system_info_from_json_def system_info_ok_def bind_eq_Some_conv
      dest: memory.needed_decoded accelerators.needed_decoded network.needed_decoded storage.needed_decoded pci.needed_decoded sensors.given_decoded [OF _ default_ok(1)] health.given_decoded [OF _ default_ok(2)])
qed

definition meta_to_json :: "Numbers \<Rightarrow> SnapshotMeta \<Rightarrow> json" where
  "meta_to_json n m = json_object
     [(''collect_time'', Some (time_json (meta_collect_time m))),
      (''sysal_version'', Some (Json_String (meta_sysal_version m))),
      (''collect_duration'', Some (double_json n (meta_collect_duration m))),
      (''requested_flags'', Some (word_json (meta_requested_flags m))),
      (''succeeded_collectors'', Some (list_json Json_String (meta_succeeded_collectors m))),
      (''failed_collectors'', Some (list_json Json_String (meta_failed_collectors m))),
      (''collection_request'', map_option collection_request_to_json (meta_collection_request m)),
      (''inventories'', Some (list_json inventory_to_json (meta_inventories m))),
      (''observations'', list_unless_empty observation_to_json (meta_observations m))]"

definition meta_from_json :: "Numbers \<Rightarrow> json \<Rightarrow> SnapshotMeta option" where
  "meta_from_json n j = do {
     collect_time \<leftarrow> needed (time_from_json n) (json_find j ''collect_time'');
     sysal_version \<leftarrow> needed json_string (json_find j ''sysal_version'');
     collect_duration \<leftarrow> needed (json_double n) (json_find j ''collect_duration'');
     requested_flags \<leftarrow> needed uint32_from_json (json_find j ''requested_flags'');
     succeeded_collectors \<leftarrow> needed (list_of json_string) (json_find j ''succeeded_collectors'');
     failed_collectors \<leftarrow> needed (list_of json_string) (json_find j ''failed_collectors'');
     collection_request \<leftarrow> maybe collection_request_from_json (json_find j ''collection_request'');
     inventories \<leftarrow> given (array_of inventory_from_json) [] (json_find j ''inventories'');
     observations \<leftarrow> given (list_of observation_from_json) [] (json_find j ''observations'');
     Some
       \<lparr>meta_collect_time = collect_time, meta_sysal_version = sysal_version,
        meta_collect_duration = collect_duration, meta_requested_flags = requested_flags,
        meta_succeeded_collectors = succeeded_collectors, meta_failed_collectors = failed_collectors,
        meta_observations = observations, meta_inventories = inventories,
        meta_collection_request = collection_request\<rparr> }"

definition meta_ok :: "Numbers \<Rightarrow> SnapshotMeta \<Rightarrow> bool" where
  "meta_ok n m \<longleftrightarrow> time_ok (meta_collect_time m) \<and> (double_ok n) (meta_collect_duration m) \<and>
     pred_option collection_request_ok (meta_collection_request m)"

lemma meta_written: "meta_ok n m \<Longrightarrow> meta_from_json n (meta_to_json n m) = Some m"
  by (cases m) (simp add: meta_to_json_def meta_from_json_def meta_ok_def double_ok_def)

lemma meta_decoded:
  assumes "numbers_ok n" "meta_from_json n j = Some m"
  shows "meta_ok n m"
proof -
  have "double_ok n d" if "needed (json_double n) v = Some d" for v d
    using assms(1) that by (auto simp: numbers_ok_def needed_def bind_eq_Some_conv)
  then show ?thesis
    using assms(2) by (auto simp: meta_from_json_def meta_ok_def bind_eq_Some_conv
      dest: time.needed_decoded collection_request.maybe_decoded)
qed

end
