(* ===== verification/Serialization.thy ===== *)
theory Serialization
  imports Codec_Snapshot Pipeline
begin

text \<open>
  \<open>to_json\<close>, \<open>from_json\<close>, \<open>save_raw_store\<close> and \<open>load_raw_store\<close> of \<open>src/serialization/serialize.cpp\<close>. The text
  form of a JSON value is that of the library, an argument: \<open>dump\<close> is \<^const>\<open>None\<close> where it throws (a string
  that is not UTF-8), \<open>parse\<close> is \<^const>\<open>Json_Discarded\<close> for what is not JSON. Files are a map from paths to
  their contents. The law the properties need is that a text the library wrote is read back as the
  value it was written from.
\<close>

text \<open>\<open>Time_Overflow\<close> is not an exception: reading a time overflowed, and what happens then is undefined.\<close>

datatype failure = Sysal_Failure ErrorKind | Json_Failure | Time_Overflow

record SerializationOptions =
  pretty_print :: bool
  include_raw :: bool
  include_meta :: bool

type_synonym Dump = "bool \<Rightarrow> json \<Rightarrow> string option"

section \<open>Raw evidence\<close>

text \<open>The file is open, and empty, before the text is written to it.\<close>

definition save_raw_store ::
    "Dump \<Rightarrow> (string \<Rightarrow> bool) \<Rightarrow> RawStore \<Rightarrow> string \<Rightarrow> (string \<rightharpoonup> string) \<Rightarrow> failure option \<times> (string \<rightharpoonup> string)" where
  "save_raw_store dump writable raw path files =
     (if \<not> writable path then (Some (Sysal_Failure Err_IoError), files)
      else case dump True (raw_store_to_json raw) of
          None \<Rightarrow> (Some Json_Failure, files(path \<mapsto> []))
        | Some text \<Rightarrow> (None, files(path \<mapsto> text)))"

definition load_raw_store ::
    "Numbers \<Rightarrow> (string \<Rightarrow> json) \<Rightarrow> (string \<rightharpoonup> string) \<Rightarrow> string \<Rightarrow> failure + RawStore" where
  "load_raw_store n parse files path =
     (case files path of
        None \<Rightarrow> Inl (Sysal_Failure FileNotFound)
      | Some text \<Rightarrow>
          if \<not> is_object (parse text) then Inl (Sysal_Failure DeserializationError)
          else case raw_store_from_json n (parse text) of
              None \<Rightarrow>
                Inl (if raw_store_overflows n (parse text) then Time_Overflow else Sysal_Failure DeserializationError)
            | Some raw \<Rightarrow> Inr raw)"

section \<open>Snapshots\<close>

definition snapshot_value :: "Numbers \<Rightarrow> System \<Rightarrow> SerializationOptions \<Rightarrow> json option" where
  "snapshot_value n sys opts = do {
     info \<leftarrow> system_info_to_json (sys_info sys);
     Some (json_object
       [(''info'', Some info),
        (''meta'', if include_meta opts then Some (meta_to_json n (sys_meta sys)) else None),
        (''warnings'', Some (list_json Json_String (sys_warnings sys))),
        (''raw'', if include_raw opts then map_option raw_store_to_json (sys_raw sys) else None)]) }"

definition to_json :: "Numbers \<Rightarrow> Dump \<Rightarrow> System \<Rightarrow> SerializationOptions \<Rightarrow> failure + string" where
  "to_json n dump sys opts =
     (case snapshot_value n sys opts of
        None \<Rightarrow> Inl (Sysal_Failure SerializationError)
      | Some root \<Rightarrow>
          (case dump (pretty_print opts) root of
             None \<Rightarrow> Inl Json_Failure
           | Some text \<Rightarrow> Inr text))"

definition version_prefix :: string where
  "version_prefix = to_string_nat 0 @ ''.'' @ to_string_nat 0 @ ''.''"

definition compatible :: "json \<Rightarrow> bool" where
  "compatible root =
     (case json_find root ''meta'' of
        None \<Rightarrow> True
      | Some meta \<Rightarrow>
          (case json_text meta ''sysal_version'' of
             None \<Rightarrow> True
           | Some version \<Rightarrow> prefix version_prefix version))"

text \<open>The metadata of \<open>System sys\<close>: what the compiler leaves in the duration is an argument.\<close>

definition SnapshotMeta_initial :: "int \<Rightarrow> SnapshotMeta" where
  "SnapshotMeta_initial indeterminate =
    \<lparr>meta_collect_time = 0, meta_sysal_version = [], meta_collect_duration = indeterminate,
     meta_requested_flags = 0, meta_succeeded_collectors = [], meta_failed_collectors = [],
     meta_observations = [], meta_inventories = [], meta_collection_request = None\<rparr>"

definition system_from_json :: "Numbers \<Rightarrow> int \<Rightarrow> json \<Rightarrow> System option" where
  "system_from_json n indeterminate root = do {
     info \<leftarrow> needed (system_info_from_json n) (json_find root ''info'');
     meta \<leftarrow> given (\<lambda>j. if is_object j then meta_from_json n j else Some (SnapshotMeta_initial indeterminate))
       (SnapshotMeta_initial indeterminate) (json_find root ''meta'');
     warnings \<leftarrow> given (\<lambda>j. if json_array j \<noteq> None then list_of json_string j else Some []) [] (json_find root ''warnings'');
     raw \<leftarrow> given (\<lambda>j. if is_object j then map_option Some (raw_store_from_json n j) else Some None) None
       (json_find root ''raw'');
     Some \<lparr>sys_info = info, sys_meta = meta, sys_warnings = warnings, sys_raw = raw\<rparr> }"

text \<open>The first member that cannot be read is a time that overflows.\<close>

definition snapshot_overflows :: "Numbers \<Rightarrow> int \<Rightarrow> json \<Rightarrow> bool" where
  "snapshot_overflows n indeterminate root \<longleftrightarrow>
     needed (system_info_from_json n) (json_find root ''info'') \<noteq> None \<and>
     (case given (\<lambda>j. if is_object j then meta_from_json n j else Some (SnapshotMeta_initial indeterminate))
         (SnapshotMeta_initial indeterminate) (json_find root ''meta'') of
        None \<Rightarrow> (case json_find root ''meta'' of
            None \<Rightarrow> False | Some meta \<Rightarrow> time_overflows n (json_find meta ''collect_time''))
      | Some _ \<Rightarrow>
          given (\<lambda>j. if json_array j \<noteq> None then list_of json_string j else Some []) [] (json_find root ''warnings'') \<noteq> None \<and>
          (case json_find root ''raw'' of
             None \<Rightarrow> False | Some raw \<Rightarrow> is_object raw \<and> raw_store_overflows n raw))"

definition from_json :: "Numbers \<Rightarrow> int \<Rightarrow> (string \<Rightarrow> json) \<Rightarrow> string \<Rightarrow> failure + System" where
  "from_json n indeterminate parse text =
     (let root = parse text in
      if \<not> is_object root \<or> \<not> compatible root then Inl (Sysal_Failure DeserializationError)
      else case system_from_json n indeterminate root of
          None \<Rightarrow>
            Inl (if snapshot_overflows n indeterminate root then Time_Overflow else Sysal_Failure DeserializationError)
        | Some sys \<Rightarrow> Inr sys)"

section \<open>What a text keeps\<close>

text \<open>A text keeps times to the millisecond, and of a snapshot what the options ask for.\<close>

definition in_milliseconds :: "int \<Rightarrow> int" where
  "in_milliseconds t = sgn t * (\<bar>t\<bar> div 1000000) * 1000000"

definition raw_rounded :: "RawStore \<Rightarrow> RawStore" where
  "raw_rounded raw = raw\<lparr>raw_records :=
     map (\<lambda>r. r\<lparr>rec_collected_at := in_milliseconds (rec_collected_at r)\<rparr>) (raw_records raw)\<rparr>"

definition rounded :: "System \<Rightarrow> System" where
  "rounded sys = sys
     \<lparr>sys_meta := (sys_meta sys)\<lparr>meta_collect_time := in_milliseconds (meta_collect_time (sys_meta sys))\<rparr>,
      sys_raw := map_option raw_rounded (sys_raw sys)\<rparr>"

definition kept :: "int \<Rightarrow> SerializationOptions \<Rightarrow> System \<Rightarrow> System" where
  "kept indeterminate opts sys = sys
     \<lparr>sys_meta := (if include_meta opts then sys_meta sys else SnapshotMeta_initial indeterminate),
      sys_raw := (if include_raw opts then sys_raw sys else None)\<rparr>"

definition version_ok :: "System \<Rightarrow> bool" where
  "version_ok sys \<longleftrightarrow> prefix version_prefix (meta_sysal_version (sys_meta sys))"

definition snapshot_ok :: "Numbers \<Rightarrow> System \<Rightarrow> bool" where
  "snapshot_ok n sys \<longleftrightarrow> system_info_ok (sys_info sys) \<and> meta_ok n (sys_meta sys) \<and> version_ok sys \<and>
     pred_option raw_store_ok (sys_raw sys)"

definition reads_back :: "Dump \<Rightarrow> (string \<Rightarrow> json) \<Rightarrow> bool" where
  "reads_back dump parse \<longleftrightarrow> (\<forall>pretty j text. dump pretty j = Some text \<longrightarrow> parse text = j)"

lemma time_json_rounded [simp]: "time_json (in_milliseconds t) = time_json t"
proof -
  have "sgn (in_milliseconds t) * (\<bar>in_milliseconds t\<bar> div 1000000) = sgn t * (\<bar>t\<bar> div 1000000)"
    by (cases "\<bar>t\<bar> div 1000000 = 0") (auto simp: in_milliseconds_def sgn_mult abs_mult sgn_if)
  then show ?thesis by (simp add: time_json_def time_point_to_ms_def)
qed

lemma in_milliseconds_ok: "time_ok t \<Longrightarrow> in_milliseconds t = t"
proof -
  assume "time_ok t"
  then obtain k where "t = k * 1000000" by (auto simp: time_ok_def mult.commute)
  then show "in_milliseconds t = t"
    by (simp add: in_milliseconds_def sgn_mult abs_mult mult_sgn_abs)
qed

lemma written_rounded [simp]:
  "raw_record_to_json (r\<lparr>rec_collected_at := in_milliseconds (rec_collected_at r)\<rparr>) = raw_record_to_json r"
  "meta_to_json n (m\<lparr>meta_collect_time := in_milliseconds (meta_collect_time m)\<rparr>) = meta_to_json n m"
  by (simp_all add: raw_record_to_json_def meta_to_json_def)

lemma raw_store_to_json_rounded [simp]: "raw_store_to_json (raw_rounded raw) = raw_store_to_json raw"
  by (simp add: raw_store_to_json_def raw_rounded_def list_json_def comp_def)

lemma to_json_rounded: "to_json n dump (rounded sys) opts = to_json n dump sys opts"
proof -
  have "map_option raw_store_to_json (map_option raw_rounded v) = map_option raw_store_to_json v" for v
    by (cases v) simp_all
  then have "snapshot_value n (rounded sys) opts = snapshot_value n sys opts"
    by (simp add: snapshot_value_def rounded_def)
  then show ?thesis by (simp add: to_json_def)
qed

lemma raw_rounded_ok: "raw_store_ok raw \<Longrightarrow> raw_rounded raw = raw"
  by (cases raw) (simp add: raw_store_ok_def raw_rounded_def raw_record_ok_def in_milliseconds_ok list_all_iff map_idI)

lemma rounded_ok: "snapshot_ok n sys \<Longrightarrow> rounded sys = sys"
  by (cases sys; cases "sys_raw sys")
    (simp_all add: snapshot_ok_def rounded_def meta_ok_def in_milliseconds_ok raw_rounded_ok)

section \<open>Round trips\<close>

lemma is_object_written: "is_object (raw_store_to_json raw)" "is_object (meta_to_json n m)"
  by (simp_all add: raw_store_to_json_def meta_to_json_def)

lemma written_version: "json_text (meta_to_json n m) ''sysal_version'' = Some (meta_sysal_version m)"
  by (simp add: json_text_def meta_to_json_def)

text \<open>C24: evidence that was saved is the evidence that is loaded from the file, every record, enumeration
  and the request in place, but for the times, which lose what is below the millisecond.
\<close>

theorem raw_store_saved:
  assumes "reads_back dump parse" "raw_store_ok (raw_rounded raw)"
    and "save_raw_store dump writable raw path files = (None, files')"
  shows "load_raw_store n parse files' path = Inr (raw_rounded raw)"
proof -
  obtain t where "dump True (raw_store_to_json raw) = Some t" "files' = files(path \<mapsto> t)"
    using assms(3) by (auto simp: save_raw_store_def split: if_splits option.splits)
  moreover from this have "parse t = raw_store_to_json (raw_rounded raw)"
    using assms(1) by (auto simp: reads_back_def)
  ultimately show ?thesis using assms(2) is_object_written(1)
    by (simp add: load_raw_store_def raw_store.written del: raw_store_to_json_rounded)
qed

text \<open>The value of a snapshot, and what is read from it.\<close>

lemma snapshot_value_ok:
  assumes "system_info_ok (sys_info sys)"
  obtains info where "system_info_from_json n info = Some (sys_info sys)"
    "snapshot_value n sys opts = Some (json_object
       [(''info'', Some info),
        (''meta'', if include_meta opts then Some (meta_to_json n (sys_meta sys)) else None),
        (''warnings'', Some (list_json Json_String (sys_warnings sys))),
        (''raw'', if include_raw opts then map_option raw_store_to_json (sys_raw sys) else None)])"
proof -
  obtain info where info: "system_info_to_json (sys_info sys) = Some info"
    "system_info_from_json n info = Some (sys_info sys)"
    using assms system_info.written by blast
  show thesis by (rule that [OF info(2)]) (simp add: snapshot_value_def info(1))
qed

lemma from_json_value:
  assumes "system_info_ok (sys_info sys)" "pred_option raw_store_ok (sys_raw sys)"
    and "version_ok sys \<Longrightarrow> meta_from_json n (meta_to_json n (sys_meta sys)) = Some (sys_meta sys)"
    and "snapshot_value n sys opts = Some (parse text)"
  shows "from_json n indeterminate parse text =
     (if include_meta opts \<and> \<not> version_ok sys then Inl (Sysal_Failure DeserializationError)
      else Inr (kept indeterminate opts sys))"
proof -
  obtain info where info: "system_info_from_json n info = Some (sys_info sys)" "parse text = json_object
       [(''info'', Some info),
        (''meta'', if include_meta opts then Some (meta_to_json n (sys_meta sys)) else None),
        (''warnings'', Some (list_json Json_String (sys_warnings sys))),
        (''raw'', if include_raw opts then map_option raw_store_to_json (sys_raw sys) else None)]"
    using snapshot_value_ok [OF assms(1), of n opts] assms(4) by auto
  have raw: "given (\<lambda>j. if is_object j then map_option Some (raw_store_from_json n j) else Some None) None
      (map_option raw_store_to_json (sys_raw sys)) = Some (sys_raw sys)"
    using assms(2) by (cases "sys_raw sys") (simp_all add: is_object_written raw_store.written)
  have warnings: "json_array (list_json Json_String ws) \<noteq> None" for ws by (simp add: list_json_def)
  show ?thesis
    using assms(3) raw warnings
    by (cases sys) (auto simp: from_json_def system_from_json_def compatible_def info written_version is_object_written
      kept_def version_ok_def Let_def)
qed

lemma to_json_value:
  "reads_back dump parse \<Longrightarrow> to_json n dump sys opts = Inr text \<Longrightarrow> snapshot_value n sys opts = Some (parse text)"
  by (auto simp: to_json_def reads_back_def split: option.splits)

text \<open>C6: a snapshot that was written as JSON is the snapshot that is read back, field for field, through every
  struct of the data model: what the options leave out is missing, the times are in milliseconds, and
  nothing else is lost.
\<close>

theorem snapshot_roundtrip:
  assumes "reads_back dump parse" "snapshot_ok n (rounded sys)" "to_json n dump sys opts = Inr text"
  shows "from_json n indeterminate parse text = Inr (kept indeterminate opts (rounded sys))"
proof -
  have "snapshot_value n (rounded sys) opts = Some (parse text)"
    by (rule to_json_value [OF assms(1)]) (simp add: to_json_rounded assms(3))
  from from_json_value [where parse = parse, OF _ _ _ this] show ?thesis
    using assms(2) by (simp add: snapshot_ok_def meta_written)
qed

section \<open>Snapshots that were loaded\<close>

lemma raw_store_decoded: "raw_store_from_json n j = Some raw \<Longrightarrow> raw_store_ok raw"
  by (rule raw_store.decoded)

lemma system_decoded:
  assumes "numbers_ok n" "system_from_json n indeterminate root = Some sys"
  shows "system_info_ok (sys_info sys)" "pred_option raw_store_ok (sys_raw sys)"
    "meta_ok n (sys_meta sys) \<or> sys_meta sys = SnapshotMeta_initial indeterminate"
proof -
  show "system_info_ok (sys_info sys)"
    using assms(2) by (auto simp: system_from_json_def bind_eq_Some_conv dest: system_info.needed_decoded)
  show "pred_option raw_store_ok (sys_raw sys)"
    using assms(2) by (auto simp: system_from_json_def bind_eq_Some_conv given_def dest: raw_store_decoded
      split: option.splits if_splits)
  show "meta_ok n (sys_meta sys) \<or> sys_meta sys = SnapshotMeta_initial indeterminate"
    using assms(2) by (auto simp: system_from_json_def bind_eq_Some_conv given_def dest: meta_decoded [OF assms(1)]
      split: option.splits if_splits)
qed

text \<open>C7: a snapshot that was loaded always has a value as JSON, so writing it again fails only where the
  library cannot print that value. What is read from the printed text is the same snapshot, to the last
  field, times included, with no overflow; only a snapshot whose text had no metadata is rejected when
  it is written with its (empty) metadata.
\<close>

theorem reload_exact:
  assumes "reads_back dump parse" "numbers_ok n" "from_json n indeterminate parse text = Inr sys"
  shows "case snapshot_value n sys opts of
      None \<Rightarrow> False
    | Some root \<Rightarrow>
        (case dump (pretty_print opts) root of
           None \<Rightarrow> to_json n dump sys opts = Inl Json_Failure
         | Some text' \<Rightarrow> to_json n dump sys opts = Inr text' \<and>
             from_json n indeterminate' parse text' =
               (if include_meta opts \<and> \<not> version_ok sys then Inl (Sysal_Failure DeserializationError)
                else Inr (kept indeterminate' opts sys)))"
proof -
  have sys: "system_from_json n indeterminate (parse text) = Some sys"
    using assms(3) by (auto simp: from_json_def Let_def split: if_splits option.splits)
  note ok = system_decoded [OF assms(2) sys]
  have meta: "meta_from_json n (meta_to_json n (sys_meta sys)) = Some (sys_meta sys)" if "version_ok sys"
  proof -
    have "sys_meta sys \<noteq> SnapshotMeta_initial indeterminate"
      using that by (auto simp: version_ok_def SnapshotMeta_initial_def version_prefix_def)
    then show ?thesis using ok(3) by (simp add: meta_written)
  qed
  obtain root where root: "snapshot_value n sys opts = Some root" using snapshot_value_ok [OF ok(1)] by blast
  show ?thesis
  proof (cases "dump (pretty_print opts) root")
    case None
    then show ?thesis by (simp add: root to_json_def)
  next
    case (Some text')
    then have printed: "to_json n dump sys opts = Inr text'" by (simp add: root to_json_def)
    from from_json_value [where parse = parse, OF ok(1,2) meta to_json_value [OF assms(1) printed]]
    show ?thesis by (simp add: root Some printed)
  qed
qed

section \<open>Examples\<close>

definition example_numbers :: Numbers where
  "example_numbers = \<lparr>float_u64 = \<lambda>_. 0, float_i64 = \<lambda>_. 0, float_u32 = \<lambda>_. 0, float_i32 = \<lambda>_. 0,
     double_json = \<lambda>_. Json_Float ''0.0'', json_double = \<lambda>_. Some 0\<rparr>"

definition example_raw :: RawStore where
  "example_raw = RawStore_default
     \<lparr>raw_records := [\<lparr>rec_source = ProcHostname, rec_path_or_command = ''/proc/sys/kernel/hostname'',
        rec_payload = ''node'', rec_status = Success, rec_collected_at = 1234567, rec_failure = None, rec_skip = None\<rparr>]\<rparr>"

definition example_snapshot :: System where
  "example_snapshot =
     \<lparr>sys_info =
        \<lparr>info_platform = Platform_default, info_cpu = Cpu_default, info_memory = Memory_default,
         info_accelerators = Accelerators_default, info_network = Network_default, info_storage = Storage_default,
         info_pci = \<lparr>pci_devices = [PciDevice_default]\<rparr>, info_software = SoftwareStack_default,
         info_execution = ExecutionContext_default, info_sensors = Sensors_default,
         info_hardware_health = HardwareHealth_default\<rparr>,
      sys_meta = (SnapshotMeta_initial 0)\<lparr>meta_collect_time := 1234567, meta_sysal_version := sysal_version\<rparr>,
      sys_warnings = [''none''], sys_raw = Some example_raw\<rparr>"

definition example_options :: SerializationOptions where
  "example_options = \<lparr>pretty_print = False, include_raw = True, include_meta = True\<rparr>"

text \<open>A library that knows the text of one value.\<close>

definition one_dump :: "json \<Rightarrow> Dump" where
  "one_dump root = (\<lambda>_ j. if j = root then Some ''{}'' else None)"

lemma one_dump_reads_back: "reads_back (one_dump root) (\<lambda>_. root)"
  by (simp add: reads_back_def one_dump_def)

lemma example_raw_ok: "raw_store_ok (raw_rounded example_raw)"
  by (simp add: raw_store_ok_def raw_rounded_def example_raw_def RawStore_default_def raw_record_ok_def time_ok_def
    in_milliseconds_def)

lemma example_ok: "snapshot_ok example_numbers (rounded example_snapshot)"
proof -
  have "prefix version_prefix sysal_version" by code_simp
  then show ?thesis
    by (simp add: snapshot_ok_def rounded_def example_snapshot_def version_ok_def example_raw_ok SnapshotMeta_initial_def
      meta_ok_def system_info_ok_def time_ok_def in_milliseconds_def double_ok_def example_numbers_def default_ok
      memory_ok_def Memory_default_def accelerators_ok_def Accelerators_default_def network_ok_def Network_default_def
      rdma_default_ok storage_ok_def Storage_default_def pci_ok_def pci_device_ok_def PciDevice_default_def
      pci_address_ok_def)
qed

lemma example_value:
  obtains root where "snapshot_value example_numbers example_snapshot example_options = Some root"
    "to_json example_numbers (one_dump root) example_snapshot example_options = Inr ''{}''"
proof -
  have "system_info_ok (sys_info example_snapshot)" using example_ok by (simp add: snapshot_ok_def rounded_def)
  from snapshot_value_ok [OF this] obtain root where "snapshot_value example_numbers example_snapshot example_options = Some root"
    by blast
  then show thesis using that by (simp add: to_json_def one_dump_def)
qed

theorem snapshot_roundtrip_witness:
  "\<exists>dump parse text. to_json example_numbers dump example_snapshot example_options = Inr text \<and>
     from_json example_numbers 7 parse text = Inr (rounded example_snapshot)"
proof -
  obtain root where "to_json example_numbers (one_dump root) example_snapshot example_options = Inr ''{}''"
    using example_value .
  from snapshot_roundtrip [OF one_dump_reads_back example_ok this, of 7] this show ?thesis
    by (intro exI conjI) (assumption, simp add: kept_def example_options_def)
qed

theorem raw_store_saved_witness:
  "load_raw_store example_numbers (\<lambda>_. raw_store_to_json example_raw) [''x'' \<mapsto> ''{}''] ''x'' = Inr (raw_rounded example_raw)"
  by (rule raw_store_saved [OF one_dump_reads_back example_raw_ok, where writable = "\<lambda>_. True" and files = Map.empty])
    (simp add: save_raw_store_def one_dump_def)

theorem reload_exact_witness:
  "\<exists>root. from_json example_numbers 7 (\<lambda>_. root) ''{}'' = Inr (rounded example_snapshot) \<and>
     to_json example_numbers (one_dump root) (rounded example_snapshot) example_options = Inr ''{}'' \<and>
     from_json example_numbers 8 (\<lambda>_. root) ''{}'' = Inr (rounded example_snapshot)"
proof -
  let ?s = "rounded example_snapshot"
  have keeps: "kept k example_options ?s = ?s" for k by (simp add: kept_def example_options_def)
  obtain root where root: "to_json example_numbers (one_dump root) ?s example_options = Inr ''{}''"
    using example_value by (metis to_json_rounded)
  have written: "snapshot_value example_numbers ?s example_options = Some root"
    using to_json_value [OF one_dump_reads_back root] .
  have loaded: "from_json example_numbers 7 (\<lambda>_. root) ''{}'' = Inr ?s"
    using example_ok written from_json_value [where parse = "\<lambda>_. root" and sys = ?s and opts = example_options]
    by (simp add: snapshot_ok_def meta_written keeps)
  have "numbers_ok example_numbers" by (simp add: numbers_ok_def example_numbers_def double_ok_def)
  from reload_exact [OF one_dump_reads_back this loaded, where opts = example_options and indeterminate' = 8] root example_ok written
  have "from_json example_numbers 8 (\<lambda>_. root) ''{}'' = Inr ?s" by (simp add: keeps snapshot_ok_def one_dump_def)
  with loaded root show ?thesis by blast
qed

text \<open>An address with a device above 31, which the parsers accept, can be saved and not be loaded.\<close>

lemma pci_address_not_loaded:
  "map_option (\<lambda>a. pci_address_from_json (pci_address_to_json a)) (parse_pci_address ''0000:00:3f.0'') = Some None"
  by code_simp

end
