(* ===== verification/Command.thy ===== *)
theory Command
  imports Raw_Store
begin

text \<open>
  The execution of a probe command (\<open>reader/linux/command.cpp\<close>). The kernel is an argument: the
  results of the calls that set a child process up, and what each iteration of the loop sees, that is the
  outcome of \<open>poll\<close>, the results of the \<open>read\<close> calls on the two pipes and of \<open>waitpid\<close>. The iterations
  listed are those that begin before the deadline; time passes, so there are finitely many, and the next
  one finds no time left. A read that is not listed would block, and a \<open>waitpid\<close> that is not listed
  finds no terminated child. The state of the loop is the two read ends, the captured texts, the status and
  the child, with a flag for the signal sent to its process group.
\<close>

section \<open>Results and options\<close>

datatype CommandStatus = Command_Success | Command_Failed | SpawnError | Command_TimedOut
  | OutputLimit | ReadError

record CommandOptions =
  command_timeout :: i64
  command_output_limit :: u64

definition CommandOptions_default :: CommandOptions where
  "CommandOptions_default = \<lparr>command_timeout = 3000, command_output_limit = 16 * 1024 * 1024\<rparr>"

record CommandResult =
  cmd_status :: CommandStatus
  cmd_exit_code :: "i32 option"
  cmd_signal :: "i32 option"
  cmd_output :: string
  cmd_error :: string

definition CommandResult_default :: CommandResult where
  "CommandResult_default =
     \<lparr>cmd_status = SpawnError, cmd_exit_code = None, cmd_signal = None, cmd_output = [], cmd_error = []\<rparr>"

definition successful :: "CommandResult \<Rightarrow> bool" where
  "successful result \<longleftrightarrow> cmd_status result = Command_Success"

section \<open>Pipes\<close>

record Pipe =
  pipe_reader :: i32
  pipe_writer :: i32

text \<open>The constructor, over the descriptors of \<open>pipe2\<close> and the duplicates \<open>fcntl\<close> hands out.\<close>

definition make_pipe :: "(i32 \<times> i32) option \<Rightarrow> (i32 \<Rightarrow> i32) \<Rightarrow> Pipe" where
  "make_pipe descriptors duplicate =
     (case descriptors of
        None \<Rightarrow> \<lparr>pipe_reader = -1, pipe_writer = -1\<rparr>
      | Some (r, w) \<Rightarrow>
          \<lparr>pipe_reader = (if sint r < 3 then duplicate r else r),
           pipe_writer = (if sint w < 3 then duplicate w else w)\<rparr>)"

definition pipe_valid :: "Pipe \<Rightarrow> bool" where
  "pipe_valid pipe \<longleftrightarrow> 0 \<le> sint (pipe_reader pipe) \<and> 0 \<le> sint (pipe_writer pipe)"

definition reader_open :: "Pipe \<Rightarrow> bool" where
  "reader_open pipe \<longleftrightarrow> 0 \<le> sint (pipe_reader pipe)"

definition close_reader :: "Pipe \<Rightarrow> Pipe" where
  "close_reader pipe = pipe\<lparr>pipe_reader := -1\<rparr>"

definition close_writer :: "Pipe \<Rightarrow> Pipe" where
  "close_writer pipe = pipe\<lparr>pipe_writer := -1\<rparr>"

section \<open>Spawning\<close>

record Spawn =
  spawn_actions_init :: i32
  spawn_attributes_init :: i32
  spawn_setflags :: i32
  spawn_setpgroup :: i32
  spawn_addopen :: i32
  spawn_adddup2 :: "i32 \<Rightarrow> i32 \<Rightarrow> i32"
  spawn_addclose :: "i32 \<Rightarrow> i32"

definition redirect_ready :: "Spawn \<Rightarrow> Pipe \<Rightarrow> i32 \<Rightarrow> bool" where
  "redirect_ready spawn pipe destination \<longleftrightarrow>
     spawn_adddup2 spawn (pipe_writer pipe) destination = 0 \<and>
     spawn_addclose spawn (pipe_reader pipe) = 0 \<and> spawn_addclose spawn (pipe_writer pipe) = 0"

definition configure :: "Spawn \<Rightarrow> Pipe \<Rightarrow> Pipe \<Rightarrow> bool" where
  "configure spawn output error \<longleftrightarrow>
     spawn_actions_init spawn = 0 \<and> spawn_attributes_init spawn = 0 \<and> spawn_setflags spawn = 0 \<and>
     spawn_setpgroup spawn = 0 \<and> spawn_addopen spawn = 0 \<and> redirect_ready spawn output 1 \<and>
     redirect_ready spawn error 2"

section \<open>The child process\<close>

datatype WaitResult = Reaped i32 | Not_Terminated | Wait_Errno int

record ChildProcess =
  child_reaped :: bool
  child_status :: "i32 option"
  child_killed :: bool

definition ChildProcess_default :: ChildProcess where
  "ChildProcess_default = \<lparr>child_reaped = False, child_status = None, child_killed = False\<rparr>"

abbreviation EINTR :: int where
  "EINTR \<equiv> 4"

abbreviation EAGAIN :: int where
  "EAGAIN \<equiv> 11"

fun reap :: "WaitResult list \<Rightarrow> ChildProcess \<Rightarrow> ChildProcess" where
  "reap [] child = child"
| "reap (Not_Terminated # _) child = child"
| "reap (Reaped status # _) child = child\<lparr>child_status := Some status, child_reaped := True\<rparr>"
| "reap (Wait_Errno e # waits) child =
     (if e = EINTR then reap waits child else child\<lparr>child_reaped := True\<rparr>)"

definition child_poll :: "WaitResult list \<Rightarrow> ChildProcess \<Rightarrow> ChildProcess" where
  "child_poll waits child = (if child_reaped child then child else reap waits child)"

definition terminate :: "WaitResult list \<Rightarrow> ChildProcess \<Rightarrow> ChildProcess" where
  "terminate waits child = child_poll waits (child\<lparr>child_killed := True\<rparr>)"

text \<open>The destructor.\<close>

definition release_child :: "WaitResult list \<Rightarrow> ChildProcess \<Rightarrow> ChildProcess" where
  "release_child waits child = (if child_reaped child then child else terminate waits child)"

text \<open>The macros of \<open>sys/wait.h\<close>.\<close>

definition exited :: "i32 \<Rightarrow> bool" where
  "exited status \<longleftrightarrow> take_bit 7 status = 0"

definition signaled :: "i32 \<Rightarrow> bool" where
  "signaled status \<longleftrightarrow> take_bit 7 status \<noteq> 0 \<and> take_bit 7 status \<noteq> 127"

definition exit_status :: "i32 \<Rightarrow> i32" where
  "exit_status status = take_bit 8 (drop_bit 8 status)"

definition term_signal :: "i32 \<Rightarrow> i32" where
  "term_signal status = take_bit 7 status"

section \<open>Draining a pipe\<close>

datatype ReadResult = Bytes string | Read_Errno int

text \<open>
  At most sixteen reads: the remaining count is the first argument. The results are whether to go on, the
  pipe, the captured text and the status.
\<close>

fun drain_reads ::
    "nat \<Rightarrow> u64 \<Rightarrow> ReadResult list \<Rightarrow> Pipe \<times> string \<times> CommandStatus \<Rightarrow> bool \<times> Pipe \<times> string \<times> CommandStatus" where
  "drain_reads 0 limit _ s = (True, s)"
| "drain_reads (Suc n) limit [] s = (True, s)"
| "drain_reads (Suc n) limit (Bytes [] # _) (pipe, output, status) = (True, close_reader pipe, output, status)"
| "drain_reads (Suc n) limit (Bytes (c # cs) # reads) (pipe, output, status) =
     (if length (c # cs) > unat (limit - of_nat (length output)) then (False, pipe, output, OutputLimit)
      else drain_reads n limit reads (pipe, output @ c # cs, status))"
| "drain_reads (Suc n) limit (Read_Errno e # reads) (pipe, output, status) =
     (if e = EAGAIN then (True, pipe, output, status)
      else if e = EINTR then drain_reads n limit reads (pipe, output, status)
      else (False, pipe, output, ReadError))"

definition drain :: "u64 \<Rightarrow> ReadResult list \<Rightarrow> Pipe \<times> string \<times> CommandStatus \<Rightarrow> bool \<times> Pipe \<times> string \<times> CommandStatus" where
  "drain limit reads s = (if reader_open (fst s) then drain_reads 16 limit reads s else (True, s))"

section \<open>The loop\<close>

record Round =
  round_poll :: "int option"
  round_output :: "ReadResult list"
  round_error :: "ReadResult list"
  round_waits :: "WaitResult list"

record Run =
  run_output :: Pipe
  run_error :: Pipe
  run_stdout :: string
  run_stderr :: string
  run_status :: CommandStatus
  run_child :: ChildProcess

definition running :: "Run \<Rightarrow> bool" where
  "running run \<longleftrightarrow>
     reader_open (run_output run) \<or> reader_open (run_error run) \<or> \<not> child_reaped (run_child run)"

text \<open>One iteration; the boolean says whether the loop goes on.\<close>

definition run_round :: "u64 \<Rightarrow> Round \<Rightarrow> Run \<Rightarrow> bool \<times> Run" where
  "run_round limit round run =
     (if round_poll round \<noteq> None \<and> round_poll round \<noteq> Some EINTR then (False, run\<lparr>run_status := ReadError\<rparr>)
      else
        let (go, pipe, text', status) =
              drain limit (round_output round) (run_output run, run_stdout run, run_status run);
            run = run\<lparr>run_output := pipe, run_stdout := text', run_status := status\<rparr>
        in if \<not> go then (False, run)
        else
          let (go, pipe, text', status) =
                drain limit (round_error round) (run_error run, run_stderr run, run_status run);
              run = run\<lparr>run_error := pipe, run_stderr := text', run_status := status\<rparr>
          in if \<not> go then (False, run)
          else (True, run\<lparr>run_child := child_poll (round_waits round) (run_child run)\<rparr>))"

fun run_rounds :: "u64 \<Rightarrow> Round list \<Rightarrow> Run \<Rightarrow> Run" where
  "run_rounds limit rounds run =
     (if \<not> running run then run
      else case rounds of
          [] \<Rightarrow> run\<lparr>run_status := Command_TimedOut\<rparr>
        | round # rounds \<Rightarrow>
            (let (go, run) = run_round limit round run in if go then run_rounds limit rounds run else run))"

declare run_rounds.simps [simp del]

section \<open>\<open>execute_command\<close>\<close>

record Probe =
  probe_output_pipe :: "(i32 \<times> i32) option"
  probe_error_pipe :: "(i32 \<times> i32) option"
  probe_duplicate :: "i32 \<Rightarrow> i32"
  probe_spawn :: Spawn
  probe_start :: i32
  probe_nonblocking :: "i32 \<Rightarrow> i32"
  probe_rounds :: "Round list"
  probe_last_waits :: "WaitResult list"

definition start_run :: "Pipe \<Rightarrow> Pipe \<Rightarrow> Run" where
  "start_run output error =
     \<lparr>run_output = close_writer output, run_error = close_writer error, run_stdout = [], run_stderr = [],
      run_status = Command_Success, run_child = ChildProcess_default\<rparr>"

text \<open>What the loop leaves behind becomes the result.\<close>

definition finish_run :: "Run \<Rightarrow> CommandResult" where
  "finish_run run =
     (let result = \<lparr>cmd_status = run_status run, cmd_exit_code = None, cmd_signal = None,
            cmd_output = run_stdout run, cmd_error = run_stderr run\<rparr>
      in case child_status (run_child run) of
           Some status \<Rightarrow>
             (let result = (if exited status then result\<lparr>cmd_exit_code := Some (exit_status status)\<rparr> else result);
                  result = (if signaled status then result\<lparr>cmd_signal := Some (term_signal status)\<rparr> else result)
              in if cmd_status result = Command_Success \<and> cmd_exit_code result \<noteq> Some 0
                 then result\<lparr>cmd_status := Command_Failed\<rparr> else result)
         | None \<Rightarrow>
             if cmd_status result = Command_Success then result\<lparr>cmd_status := ReadError\<rparr> else result)"

text \<open>The result, and the child if one was started.\<close>

definition execute_command :: "Probe \<Rightarrow> CommandOptions \<Rightarrow> CommandResult \<times> ChildProcess option" where
  "execute_command probe options =
     (let output = make_pipe (probe_output_pipe probe) (probe_duplicate probe);
          error = make_pipe (probe_error_pipe probe) (probe_duplicate probe)
      in if \<not> pipe_valid output \<or> \<not> pipe_valid error \<or> \<not> configure (probe_spawn probe) output error
         then (CommandResult_default, None)
      else if probe_start probe \<noteq> 0 then (CommandResult_default, None)
      else if sint (probe_nonblocking probe (pipe_reader output)) < 0 \<or>
              sint (probe_nonblocking probe (pipe_reader error)) < 0
           then (CommandResult_default\<lparr>cmd_status := ReadError\<rparr>,
                 Some (release_child (probe_last_waits probe) ChildProcess_default))
      else
        let run = run_rounds (command_output_limit options) (probe_rounds probe) (start_run output error);
            run = (if run_status run \<noteq> Command_Success
                   then run\<lparr>run_child := terminate (probe_last_waits probe) (run_child run)\<rparr> else run)
        in (finish_run run, Some (release_child (probe_last_waits probe) (run_child run))))"

section \<open>What a command can answer\<close>

text \<open>A drain keeps the captured text within the limit, and appends to it.\<close>

lemma drain_reads_bounded:
  "length caught \<le> unat limit \<Longrightarrow> drain_reads n limit reads (pipe, caught, status) = (go, pipe', caught', status') \<Longrightarrow>
   length caught' \<le> unat limit"
proof (induction n limit reads "(pipe, caught, status)" arbitrary: pipe caught status rule: drain_reads.induct)
  case (4 n limit c cs reads pipe caught status)
  have "unat (limit - of_nat (length caught)) = unat limit - length caught"
  proof -
    have "unat limit < 2 ^ 64" using unsigned_less [of limit, where 'a = nat] by simp
    then have "take_bit 64 (length caught) = length caught"
      using "4.prems"(1) by (simp add: take_bit_nat_eq_self_iff)
    then show ?thesis using "4.prems"(1) by (subst unat_sub) (simp_all add: word_le_nat_alt unsigned_of_nat)
  qed
  then show ?case using 4 by (auto split: if_splits)
qed (auto split: if_splits)

lemma drain_bounded:
  "length caught \<le> unat limit \<Longrightarrow> drain limit reads (pipe, caught, status) = (go, pipe', caught', status') \<Longrightarrow>
   length caught' \<le> unat limit"
  by (auto simp: drain_def dest: drain_reads_bounded split: if_splits)

lemma drain_reads_status:
  "drain_reads n limit reads (pipe, caught, status) = (go, pipe', caught', status') \<Longrightarrow>
   (if go then status' = status else status' \<in> {OutputLimit, ReadError})"
  by (induction n limit reads "(pipe, caught, status)" arbitrary: pipe caught status rule: drain_reads.induct)
    (auto split: if_splits)

lemma drain_status:
  "drain limit reads (pipe, caught, status) = (go, pipe', caught', status') \<Longrightarrow>
   (if go then status' = status else status' \<in> {OutputLimit, ReadError})"
  by (auto simp: drain_def dest: drain_reads_status split: if_splits)

definition captured :: "u64 \<Rightarrow> Run \<Rightarrow> bool" where
  "captured limit run \<longleftrightarrow> length (run_stdout run) \<le> unat limit \<and> length (run_stderr run) \<le> unat limit"

lemma run_round_captured: "captured limit run \<Longrightarrow> captured limit (snd (run_round limit round run))"
  by (auto simp: run_round_def captured_def Let_def dest: drain_bounded split: prod.splits if_splits)

lemma run_round_status:
  "run_status run = Command_Success \<Longrightarrow> run_round limit round run = (go, run') \<Longrightarrow>
   (if go then run_status run' = Command_Success else run_status run' \<in> {OutputLimit, ReadError})"
  by (auto simp: run_round_def Let_def dest!: drain_status split: prod.splits if_splits)

lemma run_rounds_captured: "captured limit run \<Longrightarrow> captured limit (run_rounds limit rounds run)"
proof (induction rounds arbitrary: run)
  case Nil
  then show ?case by (simp add: run_rounds.simps captured_def)
next
  case (Cons round rounds)
  then show ?case
    using run_round_captured [of limit run round]
    by (cases "run_round limit round run") (auto simp: run_rounds.simps [of limit "round # rounds"])
qed

lemma run_rounds_status:
  "run_status run = Command_Success \<Longrightarrow>
   (if run_status (run_rounds limit rounds run) = Command_Success then \<not> running (run_rounds limit rounds run)
    else run_status (run_rounds limit rounds run) \<in> {Command_TimedOut, OutputLimit, ReadError})"
proof (induction rounds arbitrary: run)
  case Nil
  then show ?case by (simp add: run_rounds.simps)
next
  case (Cons round rounds)
  show ?case
  proof (cases "run_round limit round run")
    case (Pair go run')
    show ?thesis
      using Cons.prems Cons.IH [of run'] run_round_status [OF Cons.prems Pair]
      by (cases go) (auto simp: run_rounds.simps [of limit "round # rounds"] Pair)
  qed
qed

text \<open>A child with a status was reaped.\<close>

definition reaped_first :: "ChildProcess \<Rightarrow> bool" where
  "reaped_first child \<longleftrightarrow> (child_status child \<noteq> None \<longrightarrow> child_reaped child)"

lemma reap_reaped: "reaped_first child \<Longrightarrow> reaped_first (reap waits child)"
  by (induction waits child rule: reap.induct) (simp_all add: reaped_first_def)

lemma child_poll_reaped: "reaped_first child \<Longrightarrow> reaped_first (child_poll waits child)"
  by (simp add: child_poll_def reap_reaped)

lemma terminate_reaped: "reaped_first child \<Longrightarrow> reaped_first (terminate waits child)"
  unfolding terminate_def by (rule child_poll_reaped) (simp add: reaped_first_def)

lemma run_round_reaped: "reaped_first (run_child run) \<Longrightarrow> reaped_first (run_child (snd (run_round limit round run)))"
  by (simp add: run_round_def Let_def child_poll_reaped split: prod.split)

lemma run_rounds_reaped: "reaped_first (run_child run) \<Longrightarrow> reaped_first (run_child (run_rounds limit rounds run))"
proof (induction rounds arbitrary: run)
  case Nil
  then show ?case by (simp add: run_rounds.simps)
next
  case (Cons round rounds)
  then show ?case
    using run_round_reaped [of run limit round]
    by (cases "run_round limit round run") (auto simp: run_rounds.simps [of limit "round # rounds"])
qed

lemma reap_killed [simp]: "child_killed (reap waits child) = child_killed child"
  by (induction waits child rule: reap.induct) simp_all

lemma child_poll_fields: "child_killed (child_poll waits child) = child_killed child"
  by (simp add: child_poll_def reap_killed)

lemma finish_run_texts [simp]:
  "cmd_output (finish_run run) = run_stdout run" "cmd_error (finish_run run) = run_stderr run"
  by (simp_all add: finish_run_def Let_def split: option.splits)


lemma release_child_keeps: "child_reaped child \<Longrightarrow> release_child waits child = child"
  by (simp add: release_child_def)

lemma release_child_killed: "child_killed child \<Longrightarrow> child_killed (release_child waits child)"
  by (simp add: release_child_def terminate_def child_poll_fields)

text \<open>
  How the kernel encodes the end of a child, as arithmetic: a multiple of 128 is an exit with the code in
  the second byte, another remainder but 127 is the signal that ended it.
\<close>

definition wait_code :: "i32 option \<Rightarrow> nat option" where
  "wait_code status = (case status of
      None \<Rightarrow> None
    | Some s \<Rightarrow> if unat s mod 128 = 0 then Some (unat s div 256 mod 256) else None)"

definition wait_signal :: "i32 option \<Rightarrow> nat option" where
  "wait_signal status = (case status of
      None \<Rightarrow> None
    | Some s \<Rightarrow> if unat s mod 128 \<in> {0, 127} then None else Some (unat s mod 128))"

definition ended_as :: "i32 option \<Rightarrow> CommandResult \<Rightarrow> bool" where
  "ended_as status result \<longleftrightarrow>
     map_option unat (cmd_exit_code result) = wait_code status \<and>
     map_option unat (cmd_signal result) = wait_signal status"

lemma unat_masks:
  "unat (exit_status s) = unat s div 256 mod 256" "unat (term_signal s) = unat s mod 128"
  "exited s \<longleftrightarrow> unat s mod 128 = 0" "signaled s \<longleftrightarrow> unat s mod 128 \<notin> {0, 127}"
proof -
  have seven: "unat (take_bit 7 s) = unat s mod 128"
    by (simp only: unsigned_take_bit_eq) (simp add: take_bit_eq_mod)
  show "unat (term_signal s) = unat s mod 128" by (simp add: term_signal_def seven)
  show "unat (exit_status s) = unat s div 256 mod 256"
    using unsigned_less [of s, where 'a = nat]
    by (simp only: exit_status_def unsigned_take_bit_eq unsigned_drop_bit_eq)
      (simp add: take_bit_eq_mod drop_bit_eq_div)
  show "exited s \<longleftrightarrow> unat s mod 128 = 0" by (simp add: exited_def word_unat_eq_iff seven)
  show "signaled s \<longleftrightarrow> unat s mod 128 \<notin> {0, 127}" by (simp add: signaled_def word_unat_eq_iff seven)
qed

lemma finish_run_ended: "ended_as (child_status (run_child run)) (finish_run run)"
  by (auto simp: finish_run_def Let_def ended_as_def wait_code_def wait_signal_def unat_masks split: option.split)

definition command_post :: "u64 \<Rightarrow> CommandResult \<times> ChildProcess option \<Rightarrow> bool" where
  "command_post limit answer \<longleftrightarrow>
     length (cmd_output (fst answer)) \<le> unat limit \<and> length (cmd_error (fst answer)) \<le> unat limit \<and>
     (case snd answer of
        None \<Rightarrow> fst answer = CommandResult_default
      | Some child \<Rightarrow>
          if cmd_status (fst answer) \<in> {Command_Success, Command_Failed}
          then child_reaped child \<and> ended_as (child_status child) (fst answer) \<and>
            (cmd_status (fst answer) = Command_Success \<longleftrightarrow> wait_code (child_status child) = Some 0)
          else (ended_as (child_status child) (fst answer) \<or> ended_as None (fst answer)) \<and>
            (child_killed child \<or>
             cmd_status (fst answer) = ReadError \<and> child_reaped child \<and> child_status child = None))"

lemma finished_post:
  assumes w: "captured limit run" and s: "run_status run = Command_Success \<Longrightarrow> child_reaped (run_child run)"
    "run_status run \<noteq> Command_Success \<Longrightarrow> child_killed (run_child run)" "run_status run \<noteq> Command_Failed"
    "child_status (run_child run) \<noteq> None \<Longrightarrow> child_reaped (run_child run)"
  shows "command_post limit (finish_run run, Some (release_child waits (run_child run)))"
proof -
  let ?child = "release_child waits (run_child run)" and ?result = "finish_run run"
  note ended = finish_run_ended [of run]
  show ?thesis
  proof (cases "run_status run = Command_Success")
    case True
    note reaped = s(1) [OF True] and kept = release_child_keeps [OF s(1) [OF True], of waits]
    have code: "cmd_exit_code ?result = Some 0 \<longleftrightarrow> wait_code (child_status (run_child run)) = Some 0"
      using ended by (cases "cmd_exit_code ?result") (auto simp: ended_as_def unat_eq_0)
    show ?thesis
    proof (cases "child_status (run_child run)")
      case None
      then have "cmd_status ?result = ReadError" using True by (simp add: finish_run_def)
      then show ?thesis using w ended reaped None by (simp add: command_post_def captured_def kept)
    next
      case (Some status)
      then have "cmd_status ?result = (if cmd_exit_code ?result = Some 0 then Command_Success else Command_Failed)"
        using True by (simp add: finish_run_def Let_def)
      then show ?thesis using w ended reaped code by (simp add: command_post_def captured_def kept)
    qed
  next
    case False
    have "cmd_status ?result = run_status run"
      using False by (simp add: finish_run_def Let_def split: option.split)
    moreover have "child_killed ?child" by (intro release_child_killed s(2) False)
    moreover have "ended_as (child_status ?child) ?result \<or> ended_as None ?result"
      using ended s(4) release_child_keeps [of "run_child run" waits] by (cases "child_status (run_child run)") auto
    ultimately show ?thesis using w False s(3) by (simp add: command_post_def captured_def)
  qed
qed

lemma started_post:
  fixes options probe out err
  defines "run \<equiv> run_rounds (command_output_limit options) (probe_rounds probe) (start_run out err)"
  defines "ended \<equiv> (if run_status run \<noteq> Command_Success
       then run\<lparr>run_child := terminate (probe_last_waits probe) (run_child run)\<rparr> else run)"
  shows "command_post (command_output_limit options) (finish_run ended, Some (release_child waits (run_child ended)))"
proof (rule finished_post)
  have "captured (command_output_limit options) run"
    unfolding run_def by (rule run_rounds_captured) (simp add: captured_def start_run_def)
  then show "captured (command_output_limit options) ended" by (simp add: ended_def captured_def)
  have start: "run_status (start_run out err) = Command_Success" by (simp add: start_run_def)
  note status = run_rounds_status [OF start, of "command_output_limit options" "probe_rounds probe", folded run_def]
  show "child_reaped (run_child ended)" if "run_status ended = Command_Success"
    using that status by (simp add: ended_def running_def split: if_splits)
  show "child_killed (run_child ended)" if "run_status ended \<noteq> Command_Success"
    using that by (simp add: ended_def terminate_def child_poll_fields split: if_splits)
  show "run_status ended \<noteq> Command_Failed" using status by (auto simp: ended_def split: if_splits)
  have "reaped_first (run_child run)" unfolding run_def by (rule run_rounds_reaped) (simp add: start_run_def reaped_first_def ChildProcess_default_def)
  then have "reaped_first (run_child ended)" by (simp add: ended_def terminate_reaped)
  then show "child_reaped (run_child ended)" if "child_status (run_child ended) \<noteq> None"
    using that by (simp add: reaped_first_def)
qed


end
