(* ===== verification/Linux_Host.thy ===== *)
theory Linux_Host
  imports Streams Command
begin

text \<open>
  The host the readers look at, and \<open>reader/linux/file_utils.hpp\<close>. The kernel, the commands and the
  libraries of the drivers are not part of the program: a \<open>Server\<close> holds what they answer, each answer an
  error number or a value, and does not change while one collection runs, except for the clock, which is
  read once for every record. A directory is its entries in the order of enumeration and the error that
  ended it, if any. A reader is a function on the evidence store that takes the store last, so that its
  steps compose with \<open>fold\<close>.
\<close>

section \<open>What the host answers\<close>

record StatVfs =
  f_bsize :: u64
  f_frsize :: u64
  f_blocks :: u64
  f_bfree :: u64
  f_bavail :: u64
  f_files :: u64
  f_ffree :: u64
  f_favail :: u64
  f_fsid :: u64

datatype InterfaceAddress = Inet "string option" | Inet6 "string option" | Other_Family | No_Address

text \<open>
  The functions of a driver library; a missing symbol is \<^term>\<open>None\<close>. A call returns its status and what
  it stores through its pointer arguments. A device handle is a number.
\<close>

record NvmlFunctions =
  nvml_init :: "i32 option"
  nvml_shutdown :: "unit option"
  nvml_count :: "(i32 \<times> u32) option"
  nvml_handle :: "(u32 \<Rightarrow> i32 \<times> nat) option"
  nvml_name :: "(nat \<Rightarrow> i32 \<times> string) option"
  nvml_uuid :: "(nat \<Rightarrow> i32 \<times> string) option"
  nvml_pci :: "(nat \<Rightarrow> i32 \<times> string) option"
  nvml_memory :: "(nat \<Rightarrow> i32 \<times> u64) option"
  nvml_mig_count :: "(nat \<Rightarrow> i32 \<times> u32) option"
  nvml_mig_handle :: "(nat \<Rightarrow> u32 \<Rightarrow> i32 \<times> nat) option"
  nvml_gpu_instance :: "(nat \<Rightarrow> i32 \<times> u32) option"
  nvml_compute_instance :: "(nat \<Rightarrow> i32 \<times> u32) option"
  nvml_driver :: "(i32 \<times> string) option"

record HipFunctions =
  hip_count :: "(i32 \<times> i32) option"
  hip_pci :: "(i32 \<Rightarrow> i32 \<times> string) option"
  hip_name :: "(i32 \<Rightarrow> i32 \<times> string) option"
  hip_memory :: "(i32 \<Rightarrow> i32 \<times> u64) option"
  hip_version :: "(i32 \<times> i32) option"

record CudaFunctions =
  cu_init :: "i32 option"
  cu_count :: "(i32 \<times> i32) option"
  cu_device :: "(i32 \<Rightarrow> i32 \<times> i32) option"
  cu_pci :: "(i32 \<Rightarrow> i32 \<times> string) option"
  cu_uuid_v2 :: "(i32 \<Rightarrow> i32 \<times> u8 list) option"
  cu_uuid :: "(i32 \<Rightarrow> i32 \<times> u8 list) option"
  cu_name :: "(i32 \<Rightarrow> i32 \<times> string) option"
  cu_memory :: "(i32 \<Rightarrow> i32 \<times> u64) option"

record ZePci =
  ze_domain :: u32
  ze_bus :: u32
  ze_device :: u32
  ze_function :: u32

record ZeFunctions =
  ze_init :: "i32 option"
  ze_driver_count :: "(i32 \<times> u32) option"
  ze_drivers :: "u32 \<Rightarrow> i32 \<times> u32 \<times> nat list"
  ze_device_count :: "(nat \<Rightarrow> i32 \<times> u32) option"
  ze_devices :: "nat \<Rightarrow> u32 \<Rightarrow> i32 \<times> u32 \<times> nat list"
  ze_pci :: "(nat \<Rightarrow> i32 \<times> ZePci) option"
  ze_version :: "(nat \<Rightarrow> i32 \<times> u32) option"

record Server =
  server_file :: "string \<Rightarrow> int + string"
  server_entries :: "string \<Rightarrow> string list \<times> int option"
  server_exists :: "string \<Rightarrow> int + bool"
  server_is_directory :: "string \<Rightarrow> int + bool"
  server_is_symlink :: "string \<Rightarrow> int + bool"
  server_canonical :: "string \<Rightarrow> int + string"
  server_symlink :: "string \<Rightarrow> int + string"
  server_probe :: "string \<Rightarrow> Probe"
  server_clock :: "nat \<Rightarrow> int"
  server_uname :: "(string \<times> string \<times> string) option"
  server_hostname :: "string option"
  server_environment :: "string \<Rightarrow> string option"
  server_interfaces :: "(string \<times> InterfaceAddress) list option"
  server_open_root :: "int + nat"
  server_openat :: "nat \<Rightarrow> string \<Rightarrow> bool \<Rightarrow> int + nat"
  server_fstatfs :: "nat \<Rightarrow> int + u64"
  server_fstat :: "nat \<Rightarrow> int + bool \<times> u32 \<times> u32"
  server_fstatvfs :: "nat \<Rightarrow> int + StatVfs"
  server_nvml :: NvmlFunctions
  server_cuda :: CudaFunctions
  server_hip :: "string \<Rightarrow> HipFunctions option"
  server_level_zero :: ZeFunctions

section \<open>Errors\<close>

abbreviation EPERM :: int where "EPERM \<equiv> 1"
abbreviation ENOENT :: int where "ENOENT \<equiv> 2"
abbreviation EIO :: int where "EIO \<equiv> 5"
abbreviation ENXIO :: int where "ENXIO \<equiv> 6"
abbreviation EACCES :: int where "EACCES \<equiv> 13"
abbreviation ENODEV :: int where "ENODEV \<equiv> 19"
abbreviation ENOTDIR :: int where "ENOTDIR \<equiv> 20"
abbreviation EINVAL :: int where "EINVAL \<equiv> 22"
abbreviation EOPNOTSUPP :: int where "EOPNOTSUPP \<equiv> 95"

text \<open>What a call that reports through a \<open>std::error_code\<close> leaves in it, and the value it returns.\<close>

fun error_code :: "int + 'a \<Rightarrow> int option" where
  "error_code (Inl e) = Some e"
| "error_code (Inr _) = None"

fun answer_or :: "'a \<Rightarrow> int + 'a \<Rightarrow> 'a" where
  "answer_or d (Inl _) = d"
| "answer_or _ (Inr v) = v"

definition file_failure :: "int \<Rightarrow> ReadFailure" where
  "file_failure error =
     (if error = EACCES \<or> error = EPERM then PermissionDenied
      else if error = ENOENT \<or> error = ENOTDIR then NotPresent
      else if error = EOPNOTSUPP \<or> error = ENODEV \<or> error = ENXIO \<or> error = EINVAL then Unsupported
      else IoError)"

definition command_failure :: "CommandResult \<Rightarrow> ReadFailure option" where
  "command_failure result =
     (if cmd_status result = Command_TimedOut then Some TimedOut
      else if cmd_exit_code result = Some 127 then Some ToolUnavailable
      else if contains_str (cmd_error result) ''Operation not permitted'' \<or>
              contains_str (cmd_error result) ''Permission denied'' then Some PermissionDenied
      else if contains_str (cmd_error result) ''not supported'' then Some Unsupported
      else if successful result then None else Some IoError)"

section \<open>Reading\<close>

definition read_file :: "Server \<Rightarrow> string \<Rightarrow> int + string" where
  "read_file h path =
     (case server_file h path of Inl e \<Rightarrow> Inl (if e = 0 then EIO else e) | Inr content \<Rightarrow> Inr content)"

definition file_content :: "Server \<Rightarrow> string \<Rightarrow> string option" where
  "file_content h path = (case read_file h path of Inl _ \<Rightarrow> None | Inr content \<Rightarrow> Some content)"

definition run_command :: "Server \<Rightarrow> string \<Rightarrow> CommandResult" where
  "run_command h command = fst (execute_command (server_probe h command) CommandOptions_default)"

definition add_record ::
    "Server \<Rightarrow> RawSource \<Rightarrow> string \<Rightarrow> string \<Rightarrow> CollectStatus \<Rightarrow> ReadFailure option \<Rightarrow> SkipReason option \<Rightarrow>
      RawStore \<Rightarrow> RawStore" where
  "add_record h source path_or_command payload status failure skip raw =
     raw\<lparr>raw_records := raw_records raw @
       [\<lparr>rec_source = source, rec_path_or_command = path_or_command, rec_payload = payload, rec_status = status,
         rec_collected_at = server_clock h (length (raw_records raw)), rec_failure = failure, rec_skip = skip\<rparr>]\<rparr>"

definition read_file_record :: "Server \<Rightarrow> RawSource \<Rightarrow> string \<Rightarrow> RawStore \<Rightarrow> RawStore" where
  "read_file_record h source path =
     (case read_file h path of
        Inr content \<Rightarrow> add_record h source path content Success None None
      | Inl e \<Rightarrow> add_record h source path [] Failed (Some (file_failure e)) None)"

text \<open>The loops that read a list of attributes below a directory.\<close>

definition read_fields :: "Server \<Rightarrow> RawSource \<Rightarrow> string \<Rightarrow> string list \<Rightarrow> RawStore \<Rightarrow> RawStore" where
  "read_fields h source dir names =
     fold (\<lambda>name. read_file_record h source (path_append dir name)) names"

text \<open>A record whose payload is the path a call returned.\<close>

definition path_record :: "Server \<Rightarrow> RawSource \<Rightarrow> string \<Rightarrow> int + string \<Rightarrow> RawStore \<Rightarrow> RawStore" where
  "path_record h source path target =
     add_record h source path (answer_or [] target)
       (if error_code target = None then Success else Failed) (map_option file_failure (error_code target)) None"

section \<open>Directories\<close>

definition directory_entries :: "Server \<Rightarrow> string \<Rightarrow> string list \<times> int option" where
  "directory_entries h path = (map (path_append path) (fst (server_entries h path)), snd (server_entries h path))"

definition record_directory_failure ::
    "Server \<Rightarrow> RawSource \<Rightarrow> string \<Rightarrow> int option \<Rightarrow> RawStore \<Rightarrow> RawStore" where
  "record_directory_failure h source path error raw =
     (case error of
        None \<Rightarrow> raw
      | Some e \<Rightarrow> add_record h source path [] Partial (Some (file_failure e)) None raw)"

text \<open>\<open>prefix\<close> followed by one or more decimal digits.\<close>

definition numbered_entry :: "string \<Rightarrow> string \<Rightarrow> bool" where
  "numbered_entry name pre \<longleftrightarrow>
     prefix pre name \<and> length name > length pre \<and> list_all is_digit (drop (length pre) name)"

definition inventory_entries ::
    "Server \<Rightarrow> InventoryKind \<Rightarrow> RawSource \<Rightarrow> string \<Rightarrow> string \<Rightarrow> RawStore \<Rightarrow>
      (string list \<times> int option) \<times> RawStore" where
  "inventory_entries h inventory source path pre raw =
     (let (entries, error) = directory_entries h path;
          status = (if error = None then Success else if entries = [] then Failed else Partial);
          names = filter (\<lambda>name. pre = [] \<or> numbered_entry name pre) (map path_filename entries)
      in ((entries, error),
          raw\<lparr>raw_enumerations := raw_enumerations raw @
            [\<lparr>ie_inventory = inventory, ie_source = source, ie_origin = path, ie_entries = names, ie_status = status,
              ie_failure = map_option file_failure error\<rparr>]\<rparr>))"

definition directory_entry_is_directory ::
    "Server \<Rightarrow> RawSource \<Rightarrow> string \<Rightarrow> RawStore \<Rightarrow> bool \<times> RawStore" where
  "directory_entry_is_directory h source entry raw =
     (case server_is_directory h entry of
        Inl e \<Rightarrow> (False, add_record h source entry [] Failed (Some (file_failure e)) None raw)
      | Inr b \<Rightarrow> (b, raw))"

definition path_exists :: "Server \<Rightarrow> RawSource \<Rightarrow> string \<Rightarrow> RawStore \<Rightarrow> bool option \<times> RawStore" where
  "path_exists h source path raw =
     (case server_exists h path of
        Inl e \<Rightarrow> (None, add_record h source path [] Failed (Some (file_failure e)) None raw)
      | Inr b \<Rightarrow> (Some b, raw))"

section \<open>Shell arguments\<close>

definition quoted_char :: "char \<Rightarrow> string" where
  "quoted_char c = (if c = CHR 0x27 then [CHR 0x27, CHR 0x5C, CHR 0x27, CHR 0x27] else [c])"

definition shell_argument :: "string \<Rightarrow> string" where
  "shell_argument value = [CHR 0x27] @ concat (map quoted_char value) @ [CHR 0x27]"

text \<open>
  How the shell reads an unquoted start of a word: a single quote opens a quotation that ends at the next
  one, a backslash quotes the next character, and anything else ends the word or has a meaning of its own.
\<close>

fun shell_word :: "bool \<Rightarrow> string \<Rightarrow> string option" where
  "shell_word True [] = None"
| "shell_word False [] = Some []"
| "shell_word True (c # cs) =
     (if c = CHR 0x27 then shell_word False cs else map_option (Cons c) (shell_word True cs))"
| "shell_word False [c] = (if c = CHR 0x27 then shell_word True [] else None)"
| "shell_word False (c # d # cs) =
     (if c = CHR 0x27 then shell_word True (d # cs)
      else if c = CHR 0x5C then map_option (Cons d) (shell_word False cs) else None)"

lemma shell_word_quoted:
  "shell_word True (concat (map quoted_char value) @ [CHR 0x27]) = Some value"
proof (induction "value")
  case Nil
  then show ?case by simp
next
  case (Cons c cs)
  obtain d ds where rest: "concat (map quoted_char cs) @ [CHR 0x27] = d # ds"
    by (cases "concat (map quoted_char cs) @ [CHR 0x27]") auto
  show ?case using Cons by (simp add: rest quoted_char_def [of c])
qed

text \<open>C26: Whatever name the kernel reports, the shell reads the argument built from it as one word whose value
  is the name: no character of it is interpreted.
\<close>

theorem shell_argument_exact: "shell_word False (shell_argument name) = Some name"
proof -
  obtain c cs where tail: "concat (map quoted_char name) @ [CHR 0x27] = c # cs"
    by (cases "concat (map quoted_char name) @ [CHR 0x27]") auto
  show ?thesis using shell_word_quoted [of name] by (simp add: shell_argument_def tail)
qed

section \<open>The contract of a reader\<close>

text \<open>
  A reader appends: records of its own sources, enumerations of its own inventories, and nothing else
  changes. The relation is reflexive and transitive, and every operation above preserves it.
\<close>

definition extended :: "RawSource set \<Rightarrow> InventoryKind set \<Rightarrow> RawStore \<Rightarrow> RawStore \<Rightarrow> bool" where
  "extended sources kinds raw raw' \<longleftrightarrow>
     (\<exists>rs es. raw_records raw' = raw_records raw @ rs \<and> raw_enumerations raw' = raw_enumerations raw @ es \<and>
        raw_collection_request raw' = raw_collection_request raw \<and>
        list_all (\<lambda>r. rec_source r \<in> sources) rs \<and> list_all (\<lambda>e. ie_inventory e \<in> kinds) es)"

named_theorems reading

lemma extended_refl [reading]: "extended sources kinds raw raw"
  by (auto simp: extended_def)

lemma extended_trans:
  "extended sources kinds raw raw' \<Longrightarrow> extended sources kinds raw' raw'' \<Longrightarrow> extended sources kinds raw raw''"
  by (fastforce simp: extended_def)

lemma extended_mono:
  "extended sources kinds raw raw' \<Longrightarrow> sources \<subseteq> sources' \<Longrightarrow> kinds \<subseteq> kinds' \<Longrightarrow> extended sources' kinds' raw raw'"
  unfolding extended_def list_all_iff by blast

lemma add_record_extended [reading]:
  "source \<in> sources \<Longrightarrow> extended sources kinds raw raw' \<Longrightarrow>
   extended sources kinds raw (add_record h source path payload status failure skip raw')"
  by (auto simp: extended_def add_record_def)

lemma fold_extended [reading]:
  "(\<And>x raw'. x \<in> set xs \<Longrightarrow> extended sources kinds raw raw' \<Longrightarrow> extended sources kinds raw (f x raw')) \<Longrightarrow>
   extended sources kinds raw raw' \<Longrightarrow> extended sources kinds raw (fold f xs raw')"
  by (induction xs arbitrary: raw') auto

lemma read_file_record_extended [reading]:
  "source \<in> sources \<Longrightarrow> extended sources kinds raw raw' \<Longrightarrow>
   extended sources kinds raw (read_file_record h source path raw')"
  by (auto simp: read_file_record_def intro: add_record_extended split: sum.splits)

lemma read_fields_extended [reading]:
  "source \<in> sources \<Longrightarrow> extended sources kinds raw raw' \<Longrightarrow>
   extended sources kinds raw (read_fields h source dir names raw')"
  unfolding read_fields_def by (intro reading)

lemma path_record_extended [reading]:
  "source \<in> sources \<Longrightarrow> extended sources kinds raw raw' \<Longrightarrow>
   extended sources kinds raw (path_record h source path target raw')"
  unfolding path_record_def by (intro reading)

lemma record_directory_failure_extended [reading]:
  "source \<in> sources \<Longrightarrow> extended sources kinds raw raw' \<Longrightarrow>
   extended sources kinds raw (record_directory_failure h source path error raw')"
  by (auto simp: record_directory_failure_def intro: add_record_extended split: option.splits)

lemma inventory_entries_extended:
  "inventory_entries h inventory source path pre raw' = (entries, raw'') \<Longrightarrow> inventory \<in> kinds \<Longrightarrow>
   extended sources kinds raw raw' \<Longrightarrow> extended sources kinds raw raw''"
  by (auto simp: extended_def inventory_entries_def Let_def split: prod.splits)

lemma directory_entry_is_directory_extended:
  "directory_entry_is_directory h source entry raw' = (b, raw'') \<Longrightarrow> source \<in> sources \<Longrightarrow>
   extended sources kinds raw raw' \<Longrightarrow> extended sources kinds raw raw''"
  by (auto simp: directory_entry_is_directory_def intro: add_record_extended split: sum.splits)

lemma path_exists_extended:
  "path_exists h source path raw' = (b, raw'') \<Longrightarrow> source \<in> sources \<Longrightarrow>
   extended sources kinds raw raw' \<Longrightarrow> extended sources kinds raw raw''"
  by (auto simp: path_exists_def intro: add_record_extended split: sum.splits)

lemmas asked = inventory_entries_extended directory_entry_is_directory_extended path_exists_extended

text \<open>What a client of the store may rely on.\<close>

locale evidence_reader =
  fixes reader :: "RawStore \<Rightarrow> RawStore"
    and sources :: "RawSource set"
    and kinds :: "InventoryKind set"
  assumes appends: "extended sources kinds raw (reader raw)"
begin

lemma request_kept: "raw_collection_request (reader raw) = raw_collection_request raw"
  using appends [of raw] by (auto simp: extended_def)

lemma keeps_records: "prefix (raw_records raw) (raw_records (reader raw))"
  using appends [of raw] by (auto simp: extended_def)

lemma keeps_sources: "source \<notin> sources \<Longrightarrow> get_all (reader raw) source = get_all raw source"
  using appends [of raw] by (fastforce simp: extended_def get_all_def list_all_iff filter_empty_conv)

lemma reads_only:
  "list_all (\<lambda>r. rec_source r \<in> allowed) (raw_records raw) \<Longrightarrow> sources \<subseteq> allowed \<Longrightarrow>
   list_all (\<lambda>r. rec_source r \<in> allowed) (raw_records (reader raw))"
  using appends [of raw] by (fastforce simp: extended_def list_all_iff)

lemma enumerates_only:
  "list_all (\<lambda>e. ie_inventory e \<in> allowed) (raw_enumerations raw) \<Longrightarrow> kinds \<subseteq> allowed \<Longrightarrow>
   list_all (\<lambda>e. ie_inventory e \<in> allowed) (raw_enumerations (reader raw))"
  using appends [of raw] by (fastforce simp: extended_def list_all_iff)

end

end
