(* ===== verification/Device_Readers.thy ===== *)
theory Device_Readers
  imports Linux_Host
begin

text \<open>
  The readers of PCI functions (\<open>pci.cpp\<close>), RDMA devices (\<open>rdma.cpp\<close>), memory controllers
  (\<open>memory_topology.cpp\<close>) and of what \<open>ethtool\<close> says of a network interface (\<open>network_capabilities.cpp\<close>),
  all under \<open>reader/linux/\<close>.
\<close>

section \<open>PCI functions\<close>

definition pci_fields :: "string list" where
  "pci_fields =
     [''vendor'', ''device'', ''class'', ''numa_node'', ''physical_slot'', ''label'', ''current_link_speed'',
      ''max_link_speed'', ''current_link_width'', ''max_link_width'', ''local_cpulist'', ''sriov_totalvfs'',
      ''sriov_numvfs'']"

definition read_link :: "Server \<Rightarrow> string \<Rightarrow> RawStore \<Rightarrow> RawStore" where
  "read_link h path = path_record h SysfsPci path (server_symlink h path)"

definition read_pci_device :: "Server \<Rightarrow> string \<Rightarrow> RawStore \<Rightarrow> RawStore" where
  "read_pci_device h dir raw =
     (let raw = read_fields h SysfsPci dir pci_fields raw;
          raw = fold (\<lambda>name. read_link h (path_append dir name)) [''driver'', ''physfn''] raw
      in path_record h SysfsPci (path_append dir ''sysfs_path'') (server_canonical h dir) raw)"

definition pci_base :: string where
  "pci_base = ''/sys/bus/pci/devices''"

definition read_pci_sysfs :: "Server \<Rightarrow> RawStore \<Rightarrow> RawStore" where
  "read_pci_sysfs h raw =
     (let ((entries, error), raw) = inventory_entries h PciDevices SysfsPci pci_base [] raw
      in record_directory_failure h SysfsPci pci_base error (fold (read_pci_device h) entries raw))"

section \<open>RDMA devices\<close>

definition numeric_name :: "string \<Rightarrow> bool" where
  "numeric_name path \<longleftrightarrow> path_filename path \<noteq> [] \<and> list_all is_digit (path_filename path)"

definition directory_status :: "Server \<Rightarrow> string \<Rightarrow> int option \<Rightarrow> RawStore \<Rightarrow> RawStore" where
  "directory_status h path error =
     add_record h SysfsRdma path [] (if error = None then Success else NotCollected)
       (map_option file_failure error) None"

definition rdma_port_fields :: "string list" where
  "rdma_port_fields =
     [''state'', ''phys_state'', ''rate'', ''link_layer'', ''lid'', ''sm_lid'', ''sm_sl'', ''lid_mask_count'',
      ''cap_mask'']"

definition read_rdma_port :: "Server \<Rightarrow> string \<Rightarrow> RawStore \<Rightarrow> RawStore" where
  "read_rdma_port h path raw =
     (let raw = add_record h SysfsRdma path [] Success None None raw;
          raw = read_fields h SysfsRdma path rdma_port_fields raw;
          ndevs = path_append (path_append path ''gid_attrs'') ''ndevs'';
          (entries, error) = directory_entries h ndevs;
          raw = fold (\<lambda>entry. if numeric_name entry then read_file_record h SysfsRdma entry else (\<lambda>raw. raw)) entries raw
      in directory_status h ndevs error raw)"

definition read_rdma_device :: "Server \<Rightarrow> string \<Rightarrow> RawStore \<Rightarrow> RawStore" where
  "read_rdma_device h path raw =
     (let raw = add_record h SysfsRdma path [] Success None None raw;
          raw = read_fields h SysfsRdma path [''node_type'', ''node_guid'', ''sys_image_guid'', ''node_desc'', ''fw_ver''] raw;
          raw = path_record h SysfsRdma (path_append path ''sysfs_path'') (server_canonical h path) raw;
          driver = path_append (path_append path ''device'') ''driver'';
          raw = path_record h SysfsRdma driver (server_symlink h driver) raw;
          net = path_append (path_append path ''device'') ''net'';
          (interfaces, error) = directory_entries h net;
          raw = fold (\<lambda>interface. add_record h SysfsRdma interface [] Success None None) interfaces raw;
          raw = directory_status h net error raw;
          ports = path_append path ''ports'';
          (entries, error) = directory_entries h ports;
          raw = fold (\<lambda>port. if numeric_name port then read_rdma_port h port else (\<lambda>raw. raw)) entries raw
      in directory_status h ports error raw)"

definition infiniband_root :: string where
  "infiniband_root = ''/sys/class/infiniband''"

definition read_rdma_sysfs :: "Server \<Rightarrow> RawStore \<Rightarrow> RawStore" where
  "read_rdma_sysfs h raw =
     (let (devices, error) = directory_entries h infiniband_root;
          raw = fold (read_rdma_device h) devices raw
      in case error of
           Some e \<Rightarrow>
             if devices \<noteq> [] then add_record h SysfsRdma infiniband_root [] Partial (Some (file_failure e)) None raw
             else directory_status h infiniband_root error raw
         | None \<Rightarrow> directory_status h infiniband_root error raw)"

section \<open>Memory controllers\<close>

definition edac_device_fields :: "string list" where
  "edac_device_fields =
     [''dimm_mem_type'', ''size'', ''dimm_label'', ''dimm_location'', ''dimm_dev_type'', ''dimm_edac_mode'']"

definition read_edac_device :: "Server \<Rightarrow> string \<Rightarrow> RawStore \<Rightarrow> RawStore" where
  "read_edac_device h entry raw =
     (let name = path_filename entry in
      if \<not> numbered_entry name ''dimm'' \<and> \<not> numbered_entry name ''rank'' then raw
      else
        let (directory, raw) = directory_entry_is_directory h SysfsEdac entry raw
        in if directory then read_fields h SysfsEdac entry edac_device_fields raw else raw)"

definition read_edac_devices :: "Server \<Rightarrow> string \<Rightarrow> RawStore \<Rightarrow> RawStore" where
  "read_edac_devices h controller raw =
     (let (entries, error) = directory_entries h controller;
          raw = fold (read_edac_device h) entries raw
      in case error of
           None \<Rightarrow> raw
         | Some e \<Rightarrow> add_record h SysfsEdac controller [] Failed (Some (file_failure e)) None raw)"

definition edac_controller_fields :: "string list" where
  "edac_controller_fields =
     [''mc_name'', ''size_mb'', ''ce_count'', ''ue_count'', ''device/numa_node'', ''max_location'']"

text \<open>Whether a controller was found so far travels with the store.\<close>

definition read_edac_controller :: "Server \<Rightarrow> string \<Rightarrow> bool \<times> RawStore \<Rightarrow> bool \<times> RawStore" where
  "read_edac_controller h entry = (\<lambda>(found, raw).
     if \<not> numbered_entry (path_filename entry) ''mc'' then (found, raw)
     else
       let (directory, raw) = directory_entry_is_directory h SysfsEdac entry raw in
       if \<not> directory then (found, raw)
       else
         let raw = read_fields h SysfsEdac entry edac_controller_fields raw;
             device = path_append entry ''device'';
             raw = (case server_symlink h device of
                      Inl _ \<Rightarrow> raw
                    | Inr target \<Rightarrow> add_record h SysfsEdac device target Success None None raw)
         in (True, read_edac_devices h entry raw))"

definition edac_root :: string where
  "edac_root = ''/sys/devices/system/edac/mc''"

definition read_edac_sysfs :: "Server \<Rightarrow> RawStore \<Rightarrow> RawStore" where
  "read_edac_sysfs h raw =
     (let absent = (\<lambda>error. add_record h SysfsEdac edac_root [] NotCollected
            (Some (case error of None \<Rightarrow> NotPresent | Some e \<Rightarrow> file_failure e)) None);
          directory = server_is_directory h edac_root
      in if \<not> answer_or False directory then absent (error_code directory) raw
      else
        let (entries, error) = directory_entries h edac_root;
            (found, raw) = fold (read_edac_controller h) entries (False, raw)
        in if error \<noteq> None \<or> \<not> found then absent error raw else raw)"

section \<open>Network interfaces\<close>

definition ethtool_queries :: "(string \<times> string) list" where
  "ethtool_queries = [(''settings'', []), (''driver'', ''-i ''), (''permanent_address'', ''-P '')]"

definition ethtool_query :: "Server \<Rightarrow> string \<Rightarrow> string \<times> string \<Rightarrow> RawStore \<Rightarrow> ReadFailure option \<times> RawStore" where
  "ethtool_query h interface query raw =
     (let result = run_command h (''LC_ALL=C ethtool '' @ snd query @ shell_argument interface);
          failure = command_failure result;
          status = (if successful result then (if failure \<noteq> None then Partial else Success)
                    else if cmd_output result = [] then Failed else Partial)
      in (failure,
          add_record h Ethtool (''ethtool/'' @ interface @ ''/'' @ fst query) (cmd_output result) status failure None raw))"

fun ethtool_loop :: "Server \<Rightarrow> string \<Rightarrow> (string \<times> string) list \<Rightarrow> RawStore \<Rightarrow> RawStore" where
  "ethtool_loop h interface [] raw = raw"
| "ethtool_loop h interface (query # queries) raw =
     (let (failure, raw) = ethtool_query h interface query raw
      in if failure = Some ToolUnavailable then raw else ethtool_loop h interface queries raw)"

definition read_network_capabilities :: "Server \<Rightarrow> string \<Rightarrow> RawStore \<Rightarrow> RawStore" where
  "read_network_capabilities h interface =
     (if interface = [] \<or> hd interface = CHR ''-''
      then add_record h Ethtool (''ethtool/'' @ interface) [] NotCollected (Some Unsupported) None
      else ethtool_loop h interface ethtool_queries)"

section \<open>Each reader keeps the contract\<close>

lemma read_pci_device_extended [reading]:
  "SysfsPci \<in> sources \<Longrightarrow> extended sources kinds raw raw' \<Longrightarrow>
   extended sources kinds raw (read_pci_device h dir raw')"
  unfolding read_pci_device_def read_link_def Let_def by (intro reading)

interpretation pci_reader: evidence_reader "read_pci_sysfs h" "{SysfsPci}" "{PciDevices}" for h
  by unfold_locales (auto simp: read_pci_sysfs_def Let_def split: prod.splits intro!: reading elim: asked)

lemma directory_status_extended [reading]:
  "SysfsRdma \<in> sources \<Longrightarrow> extended sources kinds raw raw' \<Longrightarrow>
   extended sources kinds raw (directory_status h path error raw')"
  unfolding directory_status_def by (intro reading)

lemma read_rdma_port_extended [reading]:
  "SysfsRdma \<in> sources \<Longrightarrow> extended sources kinds raw raw' \<Longrightarrow>
   extended sources kinds raw (read_rdma_port h path raw')"
  by (auto simp: read_rdma_port_def Let_def split: prod.splits intro!: reading)

lemma read_rdma_device_extended [reading]:
  "SysfsRdma \<in> sources \<Longrightarrow> extended sources kinds raw raw' \<Longrightarrow>
   extended sources kinds raw (read_rdma_device h path raw')"
  by (auto simp: read_rdma_device_def Let_def split: prod.splits intro!: reading)

interpretation rdma_reader: evidence_reader "read_rdma_sysfs h" "{SysfsRdma}" "{}" for h
  by unfold_locales (auto simp: read_rdma_sysfs_def Let_def split: prod.splits option.splits intro!: reading)

lemma read_edac_device_extended [reading]:
  "SysfsEdac \<in> sources \<Longrightarrow> extended sources kinds raw raw' \<Longrightarrow>
   extended sources kinds raw (read_edac_device h entry raw')"
  by (auto simp: read_edac_device_def Let_def split: prod.splits intro!: reading elim: asked)

lemma read_edac_devices_extended [reading]:
  "SysfsEdac \<in> sources \<Longrightarrow> extended sources kinds raw raw' \<Longrightarrow>
   extended sources kinds raw (read_edac_devices h controller raw')"
  by (auto simp: read_edac_devices_def Let_def split: prod.splits option.splits intro!: reading)

lemma read_edac_controller_extended:
  "SysfsEdac \<in> sources \<Longrightarrow> extended sources kinds raw (snd s) \<Longrightarrow>
   extended sources kinds raw (snd (read_edac_controller h entry s))"
  by (auto simp: read_edac_controller_def Let_def split: prod.splits sum.splits intro!: reading elim: asked)

lemma fold_extended_snd:
  "(\<And>x s. x \<in> set xs \<Longrightarrow> extended sources kinds raw (snd s) \<Longrightarrow> extended sources kinds raw (snd (f x s))) \<Longrightarrow>
   extended sources kinds raw (snd s) \<Longrightarrow> extended sources kinds raw (snd (fold f xs s))"
  by (induction xs arbitrary: s) auto

interpretation edac_reader: evidence_reader "read_edac_sysfs h" "{SysfsEdac}" "{}" for h
proof unfold_locales
  fix raw
  have "extended {SysfsEdac} {} raw (snd (fold (read_edac_controller h) entries (False, raw)))" for entries
    by (intro fold_extended_snd read_edac_controller_extended) (simp_all add: extended_refl)
  then show "extended {SysfsEdac} {} raw (read_edac_sysfs h raw)"
    by (auto simp: read_edac_sysfs_def Let_def split: prod.splits intro!: reading dest: spec)
      (metis snd_conv)+
qed

lemma ethtool_query_extended:
  "ethtool_query h interface query raw' = (failure, raw'') \<Longrightarrow> Ethtool \<in> sources \<Longrightarrow>
   extended sources kinds raw raw' \<Longrightarrow> extended sources kinds raw raw''"
  by (auto simp: ethtool_query_def Let_def intro: add_record_extended)

lemma ethtool_loop_extended [reading]:
  "Ethtool \<in> sources \<Longrightarrow> extended sources kinds raw raw' \<Longrightarrow>
   extended sources kinds raw (ethtool_loop h interface queries raw')"
  by (induction queries arbitrary: raw') (auto simp: Let_def split: prod.splits intro: ethtool_query_extended)

interpretation capabilities_reader: evidence_reader "read_network_capabilities h interface" "{Ethtool}" "{}"
  for h interface
  by unfold_locales (auto simp: read_network_capabilities_def intro!: reading)

end
