(* ===== verification/Path_Walk.thy ===== *)
theory Path_Walk
  imports Linux_Host
begin

text \<open>
  Walking up a path: \<open>path::root_path\<close>, and the directories a loop
  \<open>for(path = start; path != path.root_path(); path = path.parent_path())\<close> visits. Each step is shorter
  than the one before, so the walk ends.
\<close>

definition root_path :: "string \<Rightarrow> string" where
  "root_path path = (if path \<noteq> [] \<and> hd path = CHR ''/'' then ''/'' else [])"

lemma strip_slashes_le: "length (strip_slashes p) \<le> length p"
  using length_dropWhile_le [of "\<lambda>c. c = CHR ''/''" "rev p"] by (simp add: strip_slashes_def)

lemma parent_path_shorter: "parent_path path \<noteq> path \<Longrightarrow> length (parent_path path) < length path"
proof (cases "rfind_char (CHR ''/'') path")
  case None
  then show "parent_path path \<noteq> path \<Longrightarrow> ?thesis" by (cases path) (simp_all add: parent_path_def)
next
  case (Some i)
  assume ne: "parent_path path \<noteq> path"
  let ?p = "strip_slashes (take (i + 1) path)"
  have i: "i < length path" using Some by (rule rfind_char_less)
  have le: "length ?p \<le> length (take (i + 1) path)" by (rule strip_slashes_le)
  show ?thesis
  proof (cases "?p = []")
    case True
    then have parent: "parent_path path = ''/''" by (simp add: parent_path_def Some)
    have "path \<noteq> ''/''" using ne parent by auto
    moreover have "CHR ''/'' \<in> set path" using Some by (metis option.distinct(1) rfind_char_None_iff)
    ultimately have "length path > 1" by (cases path; cases "tl path") auto
    then show ?thesis by (simp add: parent)
  next
    case False
    then have parent: "parent_path path = ?p" by (simp add: parent_path_def Some)
    have p: "prefix ?p path"
      by (metis prefix_order.trans rev_rev_ident strip_slashes_def suffix_dropWhile suffix_to_prefix take_is_prefix)
    then show ?thesis using ne parent prefix_length_less strict_prefixI by metis
  qed
qed

function ancestors :: "string \<Rightarrow> string list" where
  "ancestors path = (if path = root_path path then [] else path # ancestors (parent_path path))"
  by pat_completeness auto

lemma parent_path_root: "parent_path path = path \<Longrightarrow> path = root_path path"
proof (cases "rfind_char (CHR ''/'') path")
  case None
  then show "parent_path path = path \<Longrightarrow> ?thesis" by (simp add: parent_path_def root_path_def)
next
  case (Some i)
  assume same: "parent_path path = path"
  have i: "i < length path" using Some by (rule rfind_char_less)
  have "path = ''/''"
  proof (rule ccontr)
    assume "path \<noteq> ''/''"
    then have strip: "path = strip_slashes (take (i + 1) path)"
      using same by (simp add: parent_path_def Some Let_def split: if_splits)
    have "length (strip_slashes (take (i + 1) path)) \<le> i"
    proof -
      have "path ! i = CHR ''/''" using Some
        by (induction path arbitrary: i) (auto split: option.splits if_splits)
      then have "take (i + 1) path = take i path @ [CHR ''/'']" using i by (simp add: take_Suc_conv_app_nth)
      then show ?thesis using strip_slashes_le [of "take i path"] by (simp add: strip_slashes_def)
    qed
    then show False using strip i by (metis leD)
  qed
  then show ?thesis by (simp add: root_path_def)
qed

termination ancestors
  by (relation "measure length") (auto intro: parent_path_shorter dest: parent_path_root)

declare ancestors.simps [simp del]

end
