(* ===== verification/Partial_Reading.thy ===== *)
theory Partial_Reading
  imports Linux_Host Json_Codec
begin

text \<open>
  Readers that may throw. \<^const>\<open>None\<close> is an exception of the standard library or of the JSON library, whose
  \<open>dump\<close> throws for a string that is not UTF-8; nothing under \<open>reader/linux/\<close> catches either. The records
  added before the exception are lost with the store, which the caller owns. The text form of JSON is an
  argument, as in \<open>Serialization\<close>.
\<close>

primrec try_fold :: "('a \<Rightarrow> 's \<Rightarrow> 's option) \<Rightarrow> 'a list \<Rightarrow> 's \<Rightarrow> 's option" where
  "try_fold f [] s = Some s"
| "try_fold f (x # xs) s = Option.bind (f x s) (try_fold f xs)"

lemma try_fold_append: "try_fold f (xs @ ys) s = Option.bind (try_fold f xs s) (try_fold f ys)"
proof (induction xs arbitrary: s)
  case (Cons x xs)
  then show ?case by (cases "f x s") simp_all
qed simp

lemma try_fold_total: "try_fold (\<lambda>x s. Some (f x s)) xs s = Some (fold f xs s)"
  by (induction xs arbitrary: s) simp_all

lemma try_fold_answers: "(\<And>x s. x \<in> set xs \<Longrightarrow> f x s \<noteq> None) \<Longrightarrow> try_fold f xs s \<noteq> None"
proof (induction xs arbitrary: s)
  case (Cons x xs)
  then obtain s' where "f x s = Some s'" by fastforce
  with Cons show ?case by simp
qed simp

text \<open>
  The contract of a reader that may throw: where it returns, it has appended. Every reader that returns
  satisfies it.
\<close>

locale partial_reader =
  fixes reader :: "RawStore \<Rightarrow> RawStore option"
    and sources :: "RawSource set"
    and kinds :: "InventoryKind set"
  assumes appended: "reader raw = Some raw' \<Longrightarrow> extended sources kinds raw raw'"
begin

lemma request_kept: "pred_option (\<lambda>raw'. raw_collection_request raw' = raw_collection_request raw) (reader raw)"
  using appended [of raw] by (cases "reader raw") (auto simp: extended_def)

lemma reads_only:
  "reader raw = Some raw' \<Longrightarrow> list_all (\<lambda>r. rec_source r \<in> allowed) (raw_records raw) \<Longrightarrow> sources \<subseteq> allowed \<Longrightarrow>
   list_all (\<lambda>r. rec_source r \<in> allowed) (raw_records raw')"
  using appended [of raw raw'] by (fastforce simp: extended_def list_all_iff)

lemma composes:
  assumes "\<And>raw raw'. next_reader raw = Some raw' \<Longrightarrow> extended sources kinds raw raw'"
  shows "Option.bind (reader raw) next_reader = Some raw' \<Longrightarrow> extended sources kinds raw raw'"
  using assms appended extended_trans by (fastforce simp: bind_eq_Some_conv)

end

sublocale evidence_reader \<subseteq> returning: partial_reader "\<lambda>raw. Some (reader raw)" sources kinds
  by unfold_locales (use appends in auto)

text \<open>The relation through the operations on optional stores.\<close>

definition extends_option :: "RawSource set \<Rightarrow> InventoryKind set \<Rightarrow> RawStore \<Rightarrow> RawStore option \<Rightarrow> bool" where
  "extends_option sources kinds raw result = pred_option (extended sources kinds raw) result"

lemma extends_option_None [reading]: "extends_option sources kinds raw None"
  by (simp add: extends_option_def)

lemma extends_option_Some [reading]:
  "extended sources kinds raw raw' \<Longrightarrow> extends_option sources kinds raw (Some raw')"
  by (simp add: extends_option_def)

lemma extends_option_bind [reading]:
  "extends_option sources kinds raw s \<Longrightarrow>
   (\<And>raw'. extended sources kinds raw raw' \<Longrightarrow> extends_option sources kinds raw (f raw')) \<Longrightarrow>
   extends_option sources kinds raw (Option.bind s f)"
  by (cases s) (simp_all add: extends_option_def)

lemma extends_option_fold [reading]:
  "extended sources kinds raw raw' \<Longrightarrow>
   (\<And>x raw'. x \<in> set xs \<Longrightarrow> extended sources kinds raw raw' \<Longrightarrow> extends_option sources kinds raw (f x raw')) \<Longrightarrow>
   extends_option sources kinds raw (try_fold f xs raw')"
proof (induction xs arbitrary: raw')
  case Nil
  then show ?case by (simp add: extends_option_Some)
next
  case (Cons x xs)
  show ?case unfolding try_fold.simps
    by (rule extends_option_bind) (use Cons in auto)
qed

lemma partial_readerI: "(\<And>raw. extends_option sources kinds raw (reader raw)) \<Longrightarrow> partial_reader reader sources kinds"
  by unfold_locales (metis extends_option_def option.pred_inject(2))

section \<open>A host that answers nothing\<close>

text \<open>Every file, directory, system call and library is missing; a command cannot be spawned.\<close>

definition silent_spawn :: Spawn where
  "silent_spawn = \<lparr>spawn_actions_init = -1, spawn_attributes_init = -1, spawn_setflags = -1, spawn_setpgroup = -1,
     spawn_addopen = -1, spawn_adddup2 = \<lambda>_ _. -1, spawn_addclose = \<lambda>_. -1\<rparr>"

definition silent_probe :: Probe where
  "silent_probe = \<lparr>probe_output_pipe = None, probe_error_pipe = None, probe_duplicate = \<lambda>_. -1,
     probe_spawn = silent_spawn, probe_start = -1, probe_nonblocking = \<lambda>_. -1, probe_rounds = [],
     probe_last_waits = []\<rparr>"

definition silent_server :: Server where
  "silent_server =
     \<lparr>server_file = \<lambda>_. Inl ENOENT, server_entries = \<lambda>_. ([], Some ENOENT), server_exists = \<lambda>_. Inr False,
      server_is_directory = \<lambda>_. Inl ENOENT, server_is_symlink = \<lambda>_. Inl ENOENT, server_canonical = \<lambda>_. Inl ENOENT,
      server_symlink = \<lambda>_. Inl ENOENT, server_probe = \<lambda>_. silent_probe, server_clock = int, server_uname = None,
      server_hostname = None, server_environment = \<lambda>_. None, server_interfaces = None, server_open_root = Inl ENOENT,
      server_openat = \<lambda>_ _ _. Inl ENOENT, server_fstatfs = \<lambda>_. Inl ENOENT, server_fstat = \<lambda>_. Inl ENOENT,
      server_fstatvfs = \<lambda>_. Inl ENOENT,
      server_nvml = \<lparr>nvml_init = None, nvml_shutdown = None, nvml_count = None, nvml_handle = None, nvml_name = None,
        nvml_uuid = None, nvml_pci = None, nvml_memory = None, nvml_mig_count = None, nvml_mig_handle = None,
        nvml_gpu_instance = None, nvml_compute_instance = None, nvml_driver = None\<rparr>,
      server_cuda = \<lparr>cu_init = None, cu_count = None, cu_device = None, cu_pci = None, cu_uuid_v2 = None,
        cu_uuid = None, cu_name = None, cu_memory = None\<rparr>,
      server_hip = \<lambda>_. None,
      server_level_zero = \<lparr>ze_init = None, ze_driver_count = None, ze_drivers = \<lambda>_. (-1, 0, []),
        ze_device_count = None, ze_devices = \<lambda>_ _. (-1, 0, []), ze_pci = None, ze_version = None\<rparr>\<rparr>"

end
