(* ===== verification/Sensor_Reader.thy ===== *)
theory Sensor_Reader
  imports Device_Readers Path_Walk Partial_Reading
begin

text \<open>
  The reader of sensors (\<open>reader/linux/sensors.cpp\<close>). Under the policy that leaves display devices alone, the
  reader looks for the PCI function a sensor belongs to and drops the first two characters of the text of
  its \<open>class\<close> file; \<open>std::string::substr\<close> throws \<open>std::out_of_range\<close> for a shorter text and nothing catches
  it, so that reading is partial here and \<^term>\<open>None\<close> is the exception.
\<close>

section \<open>Which attributes are read\<close>

definition attribute_start :: "string \<Rightarrow> nat" where
  "attribute_start channel =
     (if prefix ''temp'' channel then 4 else if prefix ''fan'' channel then 3
      else if prefix ''power'' channel then 5 else 0)"

definition channel_fields :: "string list" where
  "channel_fields =
     [''input'', ''average'', ''label'', ''type'', ''min'', ''max'', ''crit'', ''enable'', ''fault'', ''alarm'']"

definition channel_attribute :: "string \<Rightarrow> bool" where
  "channel_attribute name =
     (case find_char (CHR ''_'') name of
        None \<Rightarrow> False
      | Some separator \<Rightarrow>
          let channel = take separator name;
              start = attribute_start channel;
              field = drop (separator + 1) name
          in if start = 0 \<or> length channel \<le> start \<or> \<not> list_all is_digit (drop start channel) then False
             else field \<in> set channel_fields \<or> suffix ''_alarm'' field)"

definition accepted_attribute :: "RawSource \<Rightarrow> string \<Rightarrow> bool" where
  "accepted_attribute source field =
     (if source = SysfsHwmon then field = ''name'' \<or> channel_attribute field
      else field = ''type'' \<or> field = ''temp'' \<or>
           (prefix ''trip_point_'' field \<and> (suffix ''_type'' field \<or> suffix ''_temp'' field)))"

section \<open>Display devices\<close>

text \<open>The class code of a PCI function; the outer option is the exception.\<close>

definition sensor_class :: "string \<Rightarrow> u64 option option" where
  "sensor_class content = (if length (trim content) < 2 then None else Some (parse_hex (drop 2 (trim content))))"

fun display_loop :: "Server \<Rightarrow> string list \<Rightarrow> bool option" where
  "display_loop h [] = Some False"
| "display_loop h (path # paths) =
     (if parse_pci_address (path_filename path) = None then display_loop h paths
      else case file_content h (path_append path ''class'') of
        None \<Rightarrow> display_loop h paths
      | Some content \<Rightarrow>
          (case sensor_class content of
             None \<Rightarrow> None
           | Some None \<Rightarrow> display_loop h paths
           | Some (Some code) \<Rightarrow> Some (drop_bit 16 code = 3)))"

definition display_device :: "Server \<Rightarrow> string \<Rightarrow> bool option" where
  "display_device h device = display_loop h (ancestors device)"

section \<open>The scan of a sensor class\<close>

definition sensor_device :: "Server \<Rightarrow> string \<Rightarrow> int + string" where
  "sensor_device h entry =
     (case server_canonical h (path_append entry ''device'') of
        Inr device \<Rightarrow> Inr device
      | Inl _ \<Rightarrow> server_canonical h entry)"

fun driver_loop :: "Server \<Rightarrow> RawSource \<Rightarrow> string \<Rightarrow> string list \<Rightarrow> RawStore \<Rightarrow> RawStore" where
  "driver_loop h source entry [] raw = raw"
| "driver_loop h source entry (path # paths) raw =
     (case server_symlink h (path_append path ''driver'') of
        Inl _ \<Rightarrow> driver_loop h source entry paths raw
      | Inr driver \<Rightarrow>
          add_record h source (path_append entry ''driver'') (path_filename driver) Success None None raw)"

definition read_attributes :: "Server \<Rightarrow> RawSource \<Rightarrow> string \<Rightarrow> RawStore \<Rightarrow> RawStore" where
  "read_attributes h source entry raw =
     (let (attributes, error) = directory_entries h entry;
          raw = fold (\<lambda>attribute. if accepted_attribute source (path_filename attribute)
                                   then read_file_record h source attribute else (\<lambda>raw. raw)) attributes raw
      in case error of
           None \<Rightarrow> raw
         | Some e \<Rightarrow> add_record h source entry [] Failed (Some (file_failure e)) None raw)"

definition read_sensor :: "Server \<Rightarrow> RawSource \<Rightarrow> SensorDevices \<Rightarrow> string \<Rightarrow> RawStore \<Rightarrow> RawStore option" where
  "read_sensor h source policy entry raw =
     (let device = sensor_device h entry;
          display = (case device of
            Inl _ \<Rightarrow> Some False
          | Inr path \<Rightarrow> if policy = SensorDevices_ExcludeDisplay then display_device h path else Some False)
      in case display of
           None \<Rightarrow> None
         | Some True \<Rightarrow> Some (add_record h source entry [] NotCollected None (Some PolicyExcluded) raw)
         | Some False \<Rightarrow>
             Some (read_attributes h source entry
               (case device of
                  Inl _ \<Rightarrow> raw
                | Inr path \<Rightarrow>
                    driver_loop h source entry (ancestors path)
                      (add_record h source (path_append entry ''device_path'') path Success None None raw))))"

fun sensor_loop ::
    "Server \<Rightarrow> RawSource \<Rightarrow> SensorDevices \<Rightarrow> string list \<Rightarrow> bool \<times> RawStore \<Rightarrow> (bool \<times> RawStore) option" where
  "sensor_loop h source policy [] s = Some s"
| "sensor_loop h source policy (entry # entries) (found, raw) =
     (if source = SysfsThermal \<and> \<not> prefix ''thermal_zone'' (path_filename entry)
      then sensor_loop h source policy entries (found, raw)
      else case read_sensor h source policy entry raw of
        None \<Rightarrow> None
      | Some raw \<Rightarrow> sensor_loop h source policy entries (True, raw))"

definition scan :: "Server \<Rightarrow> string \<Rightarrow> RawSource \<Rightarrow> SensorDevices \<Rightarrow> RawStore \<Rightarrow> RawStore option" where
  "scan h base source policy raw =
     (let (entries, error) = directory_entries h base in
      case (error, entries) of
        (Some e, []) \<Rightarrow> Some (add_record h source base [] NotCollected (Some (file_failure e)) None raw)
      | _ \<Rightarrow>
          (case sensor_loop h source policy entries (False, raw) of
             None \<Rightarrow> None
           | Some (found, raw) \<Rightarrow>
               let raw = record_directory_failure h source base error raw
               in Some (if \<not> found \<and> error = None
                        then add_record h source base [] NotCollected (Some NotPresent) None raw else raw)))"

definition read_thermal_sensors :: "Server \<Rightarrow> SensorDevices \<Rightarrow> RawStore \<Rightarrow> RawStore option" where
  "read_thermal_sensors h policy = scan h ''/sys/class/thermal'' SysfsThermal policy"

definition read_sensors :: "Server \<Rightarrow> SensorDevices \<Rightarrow> RawStore \<Rightarrow> RawStore option" where
  "read_sensors h policy raw =
     (case scan h ''/sys/class/hwmon'' SysfsHwmon policy raw of
        None \<Rightarrow> None
      | Some raw \<Rightarrow> read_thermal_sensors h policy raw)"

section \<open>When the reader throws\<close>

text \<open>The kernel writes a class code as \<open>0x\<close> and six digits.\<close>

definition class_texts :: "Server \<Rightarrow> bool" where
  "class_texts h \<longleftrightarrow>
     (\<forall>path. pred_option (\<lambda>content. 2 \<le> length (trim content)) (file_content h (path_append path ''class'')))"

lemma display_loop_answers: "class_texts h \<Longrightarrow> display_loop h paths \<noteq> None"
proof (induction paths)
  case Nil
  then show ?case by simp
next
  case (Cons path paths)
  then have "pred_option (\<lambda>content. 2 \<le> length (trim content)) (file_content h (path_append path ''class''))"
    by (simp add: class_texts_def)
  then show ?case using Cons by (auto simp: sensor_class_def split: option.splits)
qed

lemma read_sensor_answers:
  assumes "policy \<noteq> SensorDevices_ExcludeDisplay \<or> class_texts h"
  shows "read_sensor h source policy entry raw \<noteq> None"
proof (cases "sensor_device h entry")
  case (Inl e)
  then show ?thesis by (simp add: read_sensor_def)
next
  case (Inr path)
  have "display_device h path \<noteq> None" if "policy = SensorDevices_ExcludeDisplay"
    using assms that by (simp add: display_device_def display_loop_answers)
  then show ?thesis by (auto simp: read_sensor_def Inr split: option.splits bool.splits)
qed

lemma sensor_loop_answers:
  "policy \<noteq> SensorDevices_ExcludeDisplay \<or> class_texts h \<Longrightarrow> sensor_loop h source policy entries s \<noteq> None"
proof (induction entries arbitrary: s)
  case (Cons entry entries)
  obtain raw where "read_sensor h source policy entry (snd s) = Some raw"
    using read_sensor_answers [OF Cons.prems] by fastforce
  then show ?case using Cons.IH [OF Cons.prems] by (cases s) auto
qed simp

lemma scan_answers:
  assumes "policy \<noteq> SensorDevices_ExcludeDisplay \<or> class_texts h"
  shows "scan h base source policy raw \<noteq> None"
proof -
  obtain entries error where e: "directory_entries h base = (entries, error)" by fastforce
  obtain found raw' where "sensor_loop h source policy entries (False, raw) = Some (found, raw')"
    using sensor_loop_answers [OF assms] by fastforce
  then show ?thesis by (simp add: scan_def e Let_def split: option.splits list.splits)
qed

lemma read_sensors_answers:
  "policy \<noteq> SensorDevices_ExcludeDisplay \<or> class_texts h \<Longrightarrow> read_sensors h policy raw \<noteq> None"
  using scan_answers by (simp add: read_sensors_def read_thermal_sensors_def split: option.splits)

section \<open>The contract\<close>

lemma driver_loop_extended [reading]:
  "source \<in> sources \<Longrightarrow> extended sources kinds raw raw' \<Longrightarrow>
   extended sources kinds raw (driver_loop h source entry paths raw')"
  by (induction paths) (auto split: sum.splits intro: add_record_extended)

lemma read_attributes_extended [reading]:
  "source \<in> sources \<Longrightarrow> extended sources kinds raw raw' \<Longrightarrow>
   extended sources kinds raw (read_attributes h source entry raw')"
  by (auto simp: read_attributes_def Let_def split: prod.splits option.splits intro!: reading)

lemma read_sensor_extended:
  "read_sensor h source policy entry raw' = Some raw'' \<Longrightarrow> source \<in> sources \<Longrightarrow>
   extended sources kinds raw raw' \<Longrightarrow> extended sources kinds raw raw''"
  by (auto simp: read_sensor_def Let_def split: sum.splits option.splits bool.splits if_splits intro!: reading)

lemma sensor_loop_extended:
  "sensor_loop h source policy entries (found, raw') = Some (found', raw'') \<Longrightarrow> source \<in> sources \<Longrightarrow>
   extended sources kinds raw raw' \<Longrightarrow> extended sources kinds raw raw''"
proof (induction entries arbitrary: found raw')
  case Nil
  then show ?case by simp
next
  case (Cons entry entries)
  show ?case
  proof (cases "source = SysfsThermal \<and> \<not> prefix ''thermal_zone'' (path_filename entry)")
    case True
    then show ?thesis using Cons.prems Cons.IH [of found raw'] by simp
  next
    case False
    then obtain next_raw where "read_sensor h source policy entry raw' = Some next_raw"
      "sensor_loop h source policy entries (True, next_raw) = Some (found', raw'')"
      using Cons.prems(1) by (auto split: if_splits option.splits)
    then show ?thesis
      using Cons.IH [OF _ Cons.prems(2)] read_sensor_extended [OF _ Cons.prems(2,3)] by blast
  qed
qed

lemma scan_extended:
  assumes "scan h base source policy raw' = Some raw''" "source \<in> sources" "extended sources kinds raw raw'"
  shows "extended sources kinds raw raw''"
proof -
  obtain entries error where e: "directory_entries h base = (entries, error)" by fastforce
  show ?thesis
  proof (cases "error \<noteq> None \<and> entries = []")
    case True
    then show ?thesis using assms by (auto simp: scan_def e intro!: reading)
  next
    case False
    then obtain found loop where loop: "sensor_loop h source policy entries (False, raw') = Some (found, loop)"
      and raw'': "raw'' = (if \<not> found \<and> error = None
        then add_record h source base [] NotCollected (Some NotPresent) None
          (record_directory_failure h source base error loop)
        else record_directory_failure h source base error loop)"
      using assms(1) by (auto simp: scan_def e Let_def split: option.splits list.splits)
    then show ?thesis
      using assms(2) sensor_loop_extended [OF loop assms(2,3)] by (auto intro!: reading)
  qed
qed

lemma read_thermal_sensors_extended:
  "read_thermal_sensors h policy raw' = Some raw'' \<Longrightarrow> SysfsThermal \<in> sources \<Longrightarrow>
   extended sources kinds raw raw' \<Longrightarrow> extended sources kinds raw raw''"
  unfolding read_thermal_sensors_def by (rule scan_extended)

lemma read_sensors_extended:
  "read_sensors h policy raw' = Some raw'' \<Longrightarrow> {SysfsHwmon, SysfsThermal} \<subseteq> sources \<Longrightarrow>
   extended sources kinds raw raw' \<Longrightarrow> extended sources kinds raw raw''"
  unfolding read_sensors_def
  by (auto split: option.splits intro: read_thermal_sensors_extended scan_extended)

interpretation thermal_reader: partial_reader "read_thermal_sensors h policy" "{SysfsThermal}" "{}" for h policy
  by unfold_locales (erule read_thermal_sensors_extended, simp_all add: extended_refl)

interpretation sensors_reader: partial_reader "read_sensors h policy" "{SysfsHwmon, SysfsThermal}" "{}" for h policy
  by unfold_locales (erule read_sensors_extended, simp_all add: extended_refl)

end
