(* ===== verification/Storage_Reader.thy ===== *)
theory Storage_Reader
  imports Device_Readers Path_Walk Json
begin

text \<open>
  The readers of storage connections (\<open>storage_connections.cpp\<close>) and of the health of storage devices
  (\<open>storage_health.cpp\<close>), under \<open>reader/linux/\<close>. The JSON library is an argument, as for the parsers.
\<close>

section \<open>Storage connections\<close>

definition canonical_record :: "Server \<Rightarrow> string \<Rightarrow> string \<Rightarrow> RawStore \<Rightarrow> RawStore" where
  "canonical_record h origin target = path_record h SysfsStorageConnections origin (server_canonical h target)"

text \<open>\<open>entries\<close>: a directory that cannot be opened has no entries and an error.\<close>

definition read_entries ::
    "Server \<Rightarrow> string \<Rightarrow> (string \<Rightarrow> RawStore \<Rightarrow> RawStore) \<Rightarrow> RawStore \<Rightarrow> RawStore" where
  "read_entries h root read_entry raw =
     (let (entries, error) = directory_entries h root;
          failed = (\<lambda>status e. add_record h SysfsStorageConnections root [] status (Some (file_failure e)) None)
      in case (error, entries) of
           (Some e, []) \<Rightarrow> failed NotCollected e raw
         | _ \<Rightarrow>
             let raw = add_record h SysfsStorageConnections root [] Success None None raw;
                 raw = fold read_entry entries raw
             in case error of None \<Rightarrow> raw | Some e \<Rightarrow> failed Partial e raw)"

definition nvme_fields :: "string list" where
  "nvme_fields =
     [''transport'', ''address'', ''model'', ''serial'', ''firmware_rev'', ''state'', ''cntlid'', ''subsysnqn'']"

definition read_nvme_controller :: "Server \<Rightarrow> string \<Rightarrow> RawStore \<Rightarrow> RawStore" where
  "read_nvme_controller h path raw =
     (if \<not> numbered_entry (path_filename path) ''nvme'' then raw
      else read_fields h SysfsStorageConnections path nvme_fields
        (canonical_record h (path_append path ''sysfs_path'') path raw))"

definition read_scsi_host :: "Server \<Rightarrow> string \<Rightarrow> RawStore \<Rightarrow> RawStore" where
  "read_scsi_host h path raw =
     (if \<not> numbered_entry (path_filename path) ''host'' then raw
      else read_fields h SysfsStorageConnections path [''proc_name'', ''state'', ''supported_mode'', ''active_mode'']
        (canonical_record h (path_append path ''sysfs_path'') path raw))"

definition multipath_link :: "Server \<Rightarrow> string \<Rightarrow> RawStore \<Rightarrow> RawStore" where
  "multipath_link h entry raw =
     (if server_is_symlink h entry = Inr True then canonical_record h entry entry raw else raw)"

definition block_connection :: "Server \<Rightarrow> string \<Rightarrow> RawStore \<Rightarrow> RawStore" where
  "block_connection h path raw =
     (if server_exists h (path_append path ''partition'') \<noteq> Inr False then raw
      else if server_exists h (path_append path ''device'') \<noteq> Inr True then raw
      else
        let raw = canonical_record h (path_append path ''device_path'') (path_append path ''device'') raw in
        if server_exists h (path_append path ''nsid'') = Inr True
        then
          let raw = read_fields h SysfsStorageConnections path [''nsid'', ''nguid'', ''eui''] raw;
              multipath = path_append path ''multipath''
          in if server_is_directory h multipath = Inr True then read_entries h multipath (multipath_link h) raw else raw
        else if server_exists h (path_append path ''device/type'') = Inr True
        then read_fields h SysfsStorageConnections path [''device/type'', ''device/state''] raw
        else raw)"

definition read_storage_connections :: "Server \<Rightarrow> RawStore \<Rightarrow> RawStore" where
  "read_storage_connections h raw =
     (let raw = read_entries h ''/sys/class/nvme'' (read_nvme_controller h) raw;
          raw = read_entries h ''/sys/class/scsi_host'' (read_scsi_host h) raw
      in read_entries h ''/sys/class/block'' (block_connection h) raw)"

section \<open>Storage health\<close>

definition smartctl_command :: "string \<Rightarrow> string \<Rightarrow> string" where
  "smartctl_command target protocol =
     (let power = (if protocol = ''ata'' then '' -n standby,3,5''
                   else if protocol = ''scsi'' then '' -n standby,3'' else []);
          data = (if protocol = ''scsi'' then '' -H -l error'' else '' -H -A'')
      in ''LC_ALL=C smartctl --json=v'' @ data @ '' -d '' @ protocol @ power @ '' '' @
         shell_argument (''/dev/'' @ target))"

text \<open>
  What the exit code of \<open>smartctl\<close> says when it printed a report: its upper bits are findings about the
  device, its lower three are failures of the program.
\<close>

definition smartctl_outcome :: "string \<Rightarrow> i32 \<Rightarrow> CollectStatus \<times> ReadFailure option" where
  "smartctl_outcome protocol code =
     (let failure = (if Bit_Operations.and code 7 = 0 then None else Some IoError);
          status = (if Bit_Operations.and code 7 = 0 then Success
                    else if Bit_Operations.and code 3 \<noteq> 0 then Failed else Partial);
          failure = (if Bit_Operations.and code 1 \<noteq> 0 then Some Unsupported else failure)
      in if protocol \<noteq> ''nvme'' \<and> code = 3 then (NotCollected, Some LowPower)
         else if protocol = ''ata'' \<and> code = 5 then (NotCollected, Some Unsupported)
         else (status, failure))"

definition smartctl_result :: "(string \<Rightarrow> json) \<Rightarrow> string \<Rightarrow> CommandResult \<Rightarrow> CollectStatus \<times> ReadFailure option" where
  "smartctl_result parse protocol result =
     (let (status, failure) =
            (case cmd_exit_code result of
               Some code \<Rightarrow>
                 if is_object (parse (cmd_output result)) \<and>
                    cmd_status result \<in> {Command_Success, Command_Failed}
                 then smartctl_outcome protocol code else (Failed, command_failure result)
             | None \<Rightarrow> (Failed, command_failure result))
      in (status,
          if contains_str (cmd_output result) ''Permission denied'' \<or>
             contains_str (cmd_output result) ''Operation not permitted'' then Some PermissionDenied else failure))"

definition health_query ::
    "(string \<Rightarrow> json) \<Rightarrow> Server \<Rightarrow> string \<Rightarrow> string \<Rightarrow> RawStore \<Rightarrow> RawStore" where
  "health_query parse h target protocol raw =
     (let result = run_command h (smartctl_command target protocol);
          (status, failure) = smartctl_result parse protocol result;
          raw = add_record h Smartctl (''smartctl/'' @ target) (cmd_output result) status failure None raw
      in if protocol = ''nvme'' \<and> failure = Some ToolUnavailable
         then
           let fallback = run_command h
                 (''LC_ALL=C nvme smart-log '' @ shell_argument (''/dev/'' @ target) @ '' -o json'')
           in add_record h NvmeSmartLog (''nvme-smart-log/'' @ target) (cmd_output fallback)
                (if successful fallback then Success else Failed) (command_failure fallback) None raw
         else raw)"

definition associate_target :: "Server \<Rightarrow> string \<Rightarrow> string \<Rightarrow> RawStore \<Rightarrow> RawStore" where
  "associate_target h block target =
     add_record h StorageHealthSysfs (path_append block ''health_target'') target Success None None"

text \<open>\<open>emplace\<close> of a map: the first value of a key stays.\<close>

definition map_emplace :: "'k::linorder \<Rightarrow> 'v \<Rightarrow> ('k, 'v) std_map \<Rightarrow> ('k, 'v) std_map" where
  "map_emplace k v m = (if map_of m k = None then map_put k v m else m)"

type_synonym Targets = "(string, string) std_map"

text \<open>
  The controllers are only looked up, so their order is that of their texts here. A controller whose
  directory has a canonical path becomes a target.
\<close>

definition health_controller :: "Server \<Rightarrow> string \<Rightarrow> Targets \<times> Targets \<Rightarrow> Targets \<times> Targets" where
  "health_controller h entry = (\<lambda>(controllers, targets).
     let name = path_filename entry in
     if \<not> numbered_entry name ''nvme'' then (controllers, targets)
     else case server_canonical h entry of
         Inl _ \<Rightarrow> (controllers, targets)
       | Inr path \<Rightarrow> (map_emplace path name controllers, map_emplace name ''nvme'' targets))"

definition parent_controller :: "Targets \<Rightarrow> string \<Rightarrow> string option" where
  "parent_controller controllers path =
     (case List.map_filter (map_of controllers) (ancestors path) of [] \<Rightarrow> None | name # _ \<Rightarrow> Some name)"

definition disk_type :: "string \<Rightarrow> bool" where
  "disk_type type \<longleftrightarrow> list_all (\<lambda>c. c \<in> set [CHR ''0'', CHR 0x0A, CHR '' '', CHR 0x09]) type \<and> CHR ''0'' \<in> set type"

definition health_block :: "Server \<Rightarrow> Targets \<Rightarrow> string \<Rightarrow> Targets \<times> RawStore \<Rightarrow> Targets \<times> RawStore" where
  "health_block h controllers entry = (\<lambda>(targets, raw).
     if server_exists h (path_append entry ''partition'') \<noteq> Inr False then (targets, raw)
     else case server_canonical h entry of
         Inl _ \<Rightarrow> (targets, raw)
       | Inr path \<Rightarrow>
           if contains_str path ''/virtual/'' then (targets, raw)
           else case parent_controller controllers path of
               Some name \<Rightarrow> (targets, associate_target h entry name raw)
             | None \<Rightarrow>
                 (case file_content h (path_append entry ''device/type'') of
                    None \<Rightarrow> (targets, raw)
                  | Some type \<Rightarrow>
                      if \<not> disk_type type then (targets, raw)
                      else
                        let ata = list_ex (\<lambda>part. numbered_entry part ''ata'') (split path (CHR ''/''));
                            usb = list_ex (\<lambda>part. numbered_entry part ''usb'') (split path (CHR ''/''));
                            name = path_filename entry
                        in if usb \<or> name = [] \<or> hd name = CHR ''-''
                           then (targets,
                             add_record h StorageHealthSysfs (path_append entry ''health_target'') [] NotCollected
                               (Some Unsupported) None raw)
                           else (map_emplace name (if ata then ''ata'' else ''scsi'') targets,
                             associate_target h entry name raw)))"

definition query_target :: "(string \<Rightarrow> json) \<Rightarrow> Server \<Rightarrow> string \<times> string \<Rightarrow> RawStore \<Rightarrow> RawStore" where
  "query_target parse h target raw =
     health_query parse h (fst target) (snd target)
       (add_record h StorageHealthSysfs (''/dev/'' @ fst target @ ''/protocol'') (snd target) Success None None raw)"

definition read_storage_health :: "(string \<Rightarrow> json) \<Rightarrow> Server \<Rightarrow> RawStore \<Rightarrow> RawStore" where
  "read_storage_health parse h raw =
     (let (entries, error) = directory_entries h ''/sys/class/nvme'';
          (controllers, targets) = fold (health_controller h) entries ([], []);
          raw = record_directory_failure h StorageHealthSysfs ''/sys/class/nvme'' error raw;
          (entries, error) = directory_entries h ''/sys/class/block'';
          (targets, raw) = fold (health_block h controllers) entries (targets, raw);
          raw = (case error of
                   None \<Rightarrow> raw
                 | Some e \<Rightarrow> add_record h StorageHealthSysfs ''/sys/class/block'' [] Failed (Some (file_failure e)) None raw);
          raw = fold (query_target parse h) targets raw
      in if targets = []
         then add_record h StorageHealthSysfs ''storage-health'' [] NotCollected (Some NotPresent) None raw else raw)"

section \<open>The contract\<close>

lemma canonical_record_extended [reading]:
  "SysfsStorageConnections \<in> sources \<Longrightarrow> extended sources kinds raw raw' \<Longrightarrow>
   extended sources kinds raw (canonical_record h origin target raw')"
  unfolding canonical_record_def by (intro reading)

lemma read_entries_extended:
  assumes "SysfsStorageConnections \<in> sources" "extended sources kinds raw raw'"
    and "\<And>entry raw'. extended sources kinds raw raw' \<Longrightarrow> extended sources kinds raw (read_entry entry raw')"
  shows "extended sources kinds raw (read_entries h root read_entry raw')"
  using assms
  by (auto simp: read_entries_def Let_def split: prod.splits option.splits list.splits intro!: reading)

lemma nvme_controller_extended:
  "SysfsStorageConnections \<in> sources \<Longrightarrow> extended sources kinds raw raw' \<Longrightarrow>
   extended sources kinds raw (read_nvme_controller h path raw')"
  by (auto simp: read_nvme_controller_def intro!: reading)

lemma scsi_host_extended:
  "SysfsStorageConnections \<in> sources \<Longrightarrow> extended sources kinds raw raw' \<Longrightarrow>
   extended sources kinds raw (read_scsi_host h path raw')"
  by (auto simp: read_scsi_host_def intro!: reading)

lemma multipath_link_extended:
  "SysfsStorageConnections \<in> sources \<Longrightarrow> extended sources kinds raw raw' \<Longrightarrow>
   extended sources kinds raw (multipath_link h path raw')"
  by (auto simp: multipath_link_def intro!: reading)

lemma block_connection_extended:
  "SysfsStorageConnections \<in> sources \<Longrightarrow> extended sources kinds raw raw' \<Longrightarrow>
   extended sources kinds raw (block_connection h path raw')"
  by (auto simp: block_connection_def Let_def intro!: reading read_entries_extended multipath_link_extended)

interpretation connections_reader: evidence_reader "read_storage_connections h" "{SysfsStorageConnections}" "{}" for h
  by unfold_locales
    (auto simp: read_storage_connections_def Let_def
      intro!: read_entries_extended nvme_controller_extended scsi_host_extended block_connection_extended extended_refl)

lemma associate_target_extended [reading]:
  "StorageHealthSysfs \<in> sources \<Longrightarrow> extended sources kinds raw raw' \<Longrightarrow>
   extended sources kinds raw (associate_target h block target raw')"
  unfolding associate_target_def by (intro reading)

abbreviation health_sources :: "RawSource set" where
  "health_sources \<equiv> {StorageHealthSysfs, Smartctl, NvmeSmartLog}"

lemma health_target_extended:
  "extended health_sources kinds raw raw' \<Longrightarrow> extended health_sources kinds raw (query_target parse h target raw')"
  by (auto simp: query_target_def health_query_def Let_def split: prod.splits intro!: reading)

lemma health_block_extended:
  "extended health_sources kinds raw (snd s) \<Longrightarrow>
   extended health_sources kinds raw (snd (health_block h controllers entry s))"
  by (auto simp: health_block_def Let_def split: prod.splits sum.splits option.splits intro!: reading)

lemma health_blocks_extended:
  "fold (health_block h controllers) entries (targets, raw') = (targets', raw'') \<Longrightarrow>
   extended health_sources kinds raw raw' \<Longrightarrow> extended health_sources kinds raw raw''"
  using fold_extended_snd [of entries health_sources kinds raw "health_block h controllers" "(targets, raw')"]
  by (simp add: health_block_extended)

interpretation health_reader: evidence_reader "read_storage_health parse h" health_sources "{}" for parse h
  by unfold_locales
    (auto simp: read_storage_health_def Let_def split: prod.splits option.splits
      intro!: reading health_target_extended elim!: health_blocks_extended)

end
