(* ===== verification/Sysfs_Reader.thy ===== *)
theory Sysfs_Reader
  imports Sensor_Reader Storage_Reader
begin

text \<open>
  The reader of \<open>/sys\<close> (\<open>reader/linux/sysfs.cpp\<close>): processors, NUMA nodes, network interfaces, block
  devices and firmware, and the dispatch over the requested domains. It is partial because the reader of
  sensors is.
\<close>

section \<open>Processors\<close>

definition policy_fields :: "string list" where
  "policy_fields =
     [''related_cpus'', ''affected_cpus'', ''base_frequency'', ''cpuinfo_min_freq'', ''cpuinfo_max_freq'',
      ''scaling_min_freq'', ''scaling_max_freq'', ''scaling_cur_freq'', ''cpuinfo_cur_freq'', ''scaling_driver'',
      ''scaling_governor'', ''energy_performance_preference'']"

definition read_frequency_files :: "Server \<Rightarrow> string \<Rightarrow> RawStore \<Rightarrow> RawStore" where
  "read_frequency_files h dir = read_fields h SysfsCpu dir policy_fields"

text \<open>
  A directory that may be absent: its entries are handled if it is one, and the error that the test or the
  enumeration left behind is recorded. An enumeration clears the error of the test first.
\<close>

definition optional_directory ::
    "Server \<Rightarrow> string \<Rightarrow> (string list \<Rightarrow> 's \<Rightarrow> 's) \<Rightarrow> 's \<times> int option \<Rightarrow> 's \<times> int option" where
  "optional_directory h dir read_entries_of s =
     (if server_is_directory h dir = Inr True
      then (read_entries_of (fst (directory_entries h dir)) (fst s), snd (directory_entries h dir))
      else (fst s, error_code (server_is_directory h dir)))"

definition read_policy :: "Server \<Rightarrow> string \<Rightarrow> bool \<times> RawStore \<Rightarrow> bool \<times> RawStore" where
  "read_policy h entry = (\<lambda>(collected, raw).
     if \<not> numbered_entry (path_filename entry) ''policy'' then (collected, raw)
     else (True, read_frequency_files h entry raw))"

definition cache_fields :: "string list" where
  "cache_fields =
     [''id'', ''number_of_sets'', ''shared_cpu_list'', ''level'', ''type'', ''size'', ''ways_of_associativity'',
      ''coherency_line_size'']"

definition read_cache :: "Server \<Rightarrow> string \<Rightarrow> RawStore \<Rightarrow> RawStore" where
  "read_cache h entry raw =
     (if length (path_filename entry) < 6 \<or> \<not> prefix ''index'' (path_filename entry) then raw
      else read_fields h SysfsCpu entry cache_fields raw)"

definition read_cpu_frequency :: "Server \<Rightarrow> bool \<Rightarrow> string \<Rightarrow> RawStore \<Rightarrow> RawStore" where
  "read_cpu_frequency h collected dir raw =
     (let cpufreq = path_append dir ''cpufreq'' in
      if \<not> collected
      then
        let directory = server_is_directory h cpufreq;
            raw = (if directory = Inr True then read_frequency_files h cpufreq raw else raw)
        in record_directory_failure h SysfsCpu cpufreq (error_code directory) raw
      else read_fields h SysfsCpu cpufreq [''base_frequency'', ''cpuinfo_max_freq''] raw)"

definition read_logical_cpu :: "Server \<Rightarrow> bool \<Rightarrow> string \<Rightarrow> RawStore \<Rightarrow> RawStore" where
  "read_logical_cpu h collected entry raw =
     (let (directory, raw) = directory_entry_is_directory h SysfsCpu entry raw in
      if \<not> directory \<or> \<not> numbered_entry (path_filename entry) ''cpu'' then raw
      else
        let raw = read_fields h SysfsCpu (path_append entry ''topology'') [''physical_package_id'', ''core_id''] raw;
            raw = read_file_record h SysfsCpu (path_append entry ''online'') raw;
            raw = read_cpu_frequency h collected entry raw;
            cache = path_append entry ''cache'';
            (raw, error) = optional_directory h cache (fold (read_cache h)) (raw, None)
        in record_directory_failure h SysfsCpu cache error raw)"

definition cpu_base :: string where
  "cpu_base = ''/sys/devices/system/cpu''"

definition read_cpu_sysfs :: "Server \<Rightarrow> RawStore \<Rightarrow> RawStore" where
  "read_cpu_sysfs h raw =
     (let raw = read_fields h SysfsCpu cpu_base [''present'', ''online'', ''smt/active'', ''smt/control'', ''cpufreq/boost''] raw;
          policies = path_append cpu_base ''cpufreq'';
          ((collected, raw), error) = optional_directory h policies (fold (read_policy h)) ((False, raw), None);
          raw = record_directory_failure h SysfsCpu policies error raw;
          ((entries, error), raw) = inventory_entries h LogicalCpus SysfsCpu cpu_base ''cpu'' raw;
          raw = fold (read_logical_cpu h collected) entries raw
      in record_directory_failure h SysfsCpu cpu_base error raw)"

section \<open>NUMA nodes\<close>

definition read_numa_node :: "Server \<Rightarrow> string \<Rightarrow> RawStore \<Rightarrow> RawStore" where
  "read_numa_node h entry raw =
     (let (directory, raw) = directory_entry_is_directory h SysfsNuma entry raw in
      if \<not> directory \<or> \<not> numbered_entry (path_filename entry) ''node'' then raw
      else read_fields h SysfsNuma entry [''cpulist'', ''meminfo''] raw)"

definition node_base :: string where
  "node_base = ''/sys/devices/system/node''"

definition read_numa_sysfs :: "Server \<Rightarrow> RawStore \<Rightarrow> RawStore" where
  "read_numa_sysfs h raw =
     (let ((entries, error), raw) = inventory_entries h NumaNodes SysfsNuma node_base ''node'' raw
      in record_directory_failure h SysfsNuma node_base error (fold (read_numa_node h) entries raw))"

section \<open>Network interfaces\<close>

definition net_fields :: "string list" where
  "net_fields =
     [''address'', ''operstate'', ''speed'', ''mtu'', ''carrier'', ''duplex'', ''ifindex'', ''phys_port_name'',
      ''device/numa_node'']"

text \<open>A record with the file name of a link, if it can be read.\<close>

definition link_name_record :: "Server \<Rightarrow> RawSource \<Rightarrow> string \<Rightarrow> string \<Rightarrow> RawStore \<Rightarrow> RawStore" where
  "link_name_record h source path link raw =
     (case server_symlink h link of
        Inl _ \<Rightarrow> raw
      | Inr target \<Rightarrow> add_record h source path (path_filename target) Success None None raw)"

text \<open>A record with one line for every entry of a directory.\<close>

definition listing_record ::
    "Server \<Rightarrow> RawSource \<Rightarrow> string \<Rightarrow> string \<Rightarrow> (string \<Rightarrow> string option) \<Rightarrow> RawStore \<Rightarrow> RawStore" where
  "listing_record h source path dir line =
     (let (entries, error) = directory_entries h dir
      in add_record h source path
           (concat (map (\<lambda>name. name @ [CHR 0x0A]) (List.map_filter line (map path_filename entries))))
           (if error = None then Success else Failed) (map_option file_failure error) None)"

definition lower_name :: "string \<Rightarrow> string option" where
  "lower_name name = (if prefix ''lower_'' name then Some (drop 6 name) else None)"

definition net_kind :: "bool \<Rightarrow> bool \<Rightarrow> bool \<Rightarrow> string" where
  "net_kind physical bridge bond =
     (if bridge then ''bridge'' else if bond then ''bond'' else if physical then ''physical'' else ''virtual'')"

definition read_net_kind :: "Server \<Rightarrow> string \<Rightarrow> string \<Rightarrow> RawStore \<Rightarrow> RawStore" where
  "read_net_kind h name dir raw =
     (let (physical, raw) = path_exists h SysfsNet (path_append dir ''device'') raw;
          (bridge, raw) = path_exists h SysfsNet (path_append dir ''bridge'') raw;
          (bond, raw) = path_exists h SysfsNet (path_append dir ''bonding'') raw
      in case (physical, bridge, bond) of
           (Some physical, Some bridge, Some bond) \<Rightarrow>
             (let raw = add_record h SysfsNet (path_append dir ''kind'') (net_kind physical bridge bond) Success None None raw;
                  raw = (if bond then read_file_record h SysfsNet (path_append (path_append dir ''bonding'') ''mode'') raw
                         else raw)
              in if physical then read_network_capabilities h name raw else raw)
         | _ \<Rightarrow> raw)"

definition read_net_device :: "Server \<Rightarrow> string \<Rightarrow> RawStore \<Rightarrow> RawStore" where
  "read_net_device h dir raw =
     (case server_canonical h (path_append dir ''device'') of
        Inr target \<Rightarrow> add_record h SysfsNet (path_append dir ''device'') target Success None None raw
      | Inl e \<Rightarrow>
          if e \<noteq> ENOENT \<and> e \<noteq> ENOTDIR
          then add_record h SysfsNet (path_append dir ''device'') [] Failed (Some (file_failure e)) None raw else raw)"

definition read_net_interface :: "Server \<Rightarrow> string \<Rightarrow> RawStore \<Rightarrow> RawStore" where
  "read_net_interface h dir raw =
     (let (directory, raw) = directory_entry_is_directory h SysfsNet dir raw;
          name = path_filename dir
      in if \<not> directory \<or> name = [] then raw
      else
        let raw = read_fields h SysfsNet dir net_fields raw;
            raw = link_name_record h SysfsNet (path_append dir ''driver'')
              (path_append (path_append dir ''device'') ''driver'') raw;
            raw = link_name_record h SysfsNet (path_append dir ''master'') (path_append dir ''master'') raw;
            raw = listing_record h SysfsNet (path_append dir ''lower_interfaces'') dir lower_name raw;
            raw = read_net_kind h name dir raw
        in read_net_device h dir raw)"

definition net_base :: string where
  "net_base = ''/sys/class/net''"

definition read_net_sysfs :: "Server \<Rightarrow> RawStore \<Rightarrow> RawStore" where
  "read_net_sysfs h raw =
     (let ((entries, error), raw) = inventory_entries h NetworkInterfaces SysfsNet net_base [] raw
      in record_directory_failure h SysfsNet net_base error (fold (read_net_interface h) entries raw))"

section \<open>Block devices\<close>

definition block_fields :: "string list" where
  "block_fields =
     [''ro'', ''removable'', ''wwid'', ''device/model'', ''device/vendor'', ''device/serial'', ''device/rev'',
      ''device/firmware_rev'', ''device/numa_node'', ''device/wwid'', ''device/transport'',
      ''queue/logical_block_size'', ''queue/physical_block_size'', ''queue/minimum_io_size'',
      ''queue/optimal_io_size'', ''queue/scheduler'', ''dev'', ''partition'', ''dm/name'', ''dm/uuid'', ''md/level'',
      ''md/array_state'', ''md/raid_disks'', ''md/degraded'']"

definition read_block_driver :: "Server \<Rightarrow> string \<Rightarrow> RawStore \<Rightarrow> RawStore" where
  "read_block_driver h dir raw =
     (case server_symlink h (path_append (path_append dir ''device'') ''driver'') of
        Inr driver \<Rightarrow> add_record h SysfsBlock (path_append dir ''driver'') (path_filename driver) Success None None raw
      | Inl e \<Rightarrow>
          if e \<noteq> ENOENT \<and> e \<noteq> ENOTDIR
          then add_record h SysfsBlock (path_append dir ''driver'') [] Failed (Some (file_failure e)) None raw else raw)"

definition read_block_parent :: "Server \<Rightarrow> string \<Rightarrow> RawStore \<Rightarrow> RawStore" where
  "read_block_parent h dir raw =
     (let (partition, raw) = path_exists h SysfsBlock (path_append dir ''partition'') raw in
      if partition = Some True
      then case server_canonical h dir of
          Inl _ \<Rightarrow> raw
        | Inr target \<Rightarrow>
            add_record h SysfsBlock (path_append dir ''parent'') (path_filename (parent_path target)) Success None None raw
      else raw)"

definition read_block_device :: "Server \<Rightarrow> string \<Rightarrow> RawStore \<Rightarrow> RawStore" where
  "read_block_device h dir raw =
     (let (directory, raw) = directory_entry_is_directory h SysfsBlock dir raw;
          name = path_filename dir
      in if \<not> directory \<or> name = [] then raw
      else
        let raw = read_file_record h SysfsBlock (path_append dir ''size'') raw;
            (loop, raw) = path_exists h SysfsBlock (path_append dir ''loop'') raw;
            raw = (case loop of
                     None \<Rightarrow> raw
                   | Some b \<Rightarrow> add_record h SysfsBlock (path_append dir ''loop_present'') (if b then ''1'' else ''0'')
                       Success None None raw);
            raw = read_block_driver h dir raw;
            raw = read_file_record h SysfsBlock (path_append (path_append dir ''queue'') ''rotational'') raw;
            raw = read_fields h SysfsBlock dir block_fields raw;
            raw = read_block_parent h dir raw;
            raw = listing_record h SysfsBlock (path_append dir ''slaves'') (path_append dir ''slaves'') Some raw
        in case server_symlink h dir of
             Inl _ \<Rightarrow> raw
           | Inr target \<Rightarrow> add_record h SysfsBlock (path_append dir ''device'') target Success None None raw)"

definition block_base :: string where
  "block_base = ''/sys/class/block''"

definition read_block_sysfs :: "Server \<Rightarrow> RawStore \<Rightarrow> RawStore" where
  "read_block_sysfs h raw =
     (let ((entries, error), raw) = inventory_entries h BlockDevices SysfsBlock block_base [] raw
      in record_directory_failure h SysfsBlock block_base error (fold (read_block_device h) entries raw))"

section \<open>Firmware\<close>

definition dmi_fields :: "string list" where
  "dmi_fields =
     [''bios_vendor'', ''bios_version'', ''bios_date'', ''bios_release'', ''ec_firmware_release'', ''sys_vendor'',
      ''product_name'', ''product_serial'', ''product_family'', ''product_version'', ''product_sku'',
      ''product_uuid'', ''board_vendor'', ''board_name'', ''board_version'', ''board_serial'', ''board_asset_tag'',
      ''chassis_vendor'', ''chassis_type'', ''chassis_version'', ''chassis_serial'', ''chassis_asset_tag'']"

definition dmi_base :: string where
  "dmi_base = ''/sys/class/dmi/id''"

definition read_dmi_sysfs :: "Server \<Rightarrow> RawStore \<Rightarrow> RawStore" where
  "read_dmi_sysfs h raw =
     (let (efi, raw) = path_exists h SysfsDmi ''/sys/firmware/efi'' raw;
          raw = (if efi = Some True then add_record h SysfsDmi ''/sys/firmware/efi'' ''1'' Success None None raw else raw);
          (exists, raw) = path_exists h SysfsDmi dmi_base raw
      in case exists of
           None \<Rightarrow> raw
         | Some False \<Rightarrow> add_record h SysfsDmi dmi_base [] NotCollected (Some NotPresent) None raw
         | Some True \<Rightarrow> read_fields h SysfsDmi dmi_base dmi_fields raw)"

definition read_hypervisor_type :: "Server \<Rightarrow> RawStore \<Rightarrow> RawStore" where
  "read_hypervisor_type h = read_file_record h SysHypervisor ''/sys/hypervisor/type''"

section \<open>The dispatch\<close>

definition reader_dispatch :: "(string \<Rightarrow> json) \<Rightarrow> Server \<Rightarrow> (Collect \<times> (RawStore \<Rightarrow> RawStore)) list" where
  "reader_dispatch parse h =
     [(Collect_Cpu, read_cpu_sysfs h),
      (collect_or Collect_Cpu Collect_Memory, read_numa_sysfs h),
      (Collect_Network, read_net_sysfs h),
      (Collect_Network, read_rdma_sysfs h),
      (collect_or (collect_or (collect_or Collect_Pci Collect_Network) Collect_Storage) Collect_StorageHealth,
       read_pci_sysfs h),
      (collect_or Collect_Storage Collect_StorageHealth, read_block_sysfs h),
      (collect_or Collect_Storage Collect_StorageHealth, read_storage_connections h),
      (Collect_Platform, read_dmi_sysfs h),
      (Collect_Platform, read_hypervisor_type h),
      (Collect_Memory, read_edac_sysfs h),
      (Collect_StorageHealth, read_storage_health parse h)]"

definition dispatch_reader :: "Collect \<Rightarrow> Collect \<times> (RawStore \<Rightarrow> RawStore) \<Rightarrow> RawStore \<Rightarrow> RawStore" where
  "dispatch_reader flags entry raw = (if has flags (fst entry) then snd entry raw else raw)"

definition read_sysfs_evidence ::
    "(string \<Rightarrow> json) \<Rightarrow> Server \<Rightarrow> Collect \<Rightarrow> CollectOptions \<Rightarrow> RawStore \<Rightarrow> RawStore option" where
  "read_sysfs_evidence parse h flags options raw =
     (let raw = fold (dispatch_reader flags) (reader_dispatch parse h) raw in
      if has flags Collect_Sensors then read_sensors h (opt_sensors options) raw
      else if has flags Collect_Cpu then read_thermal_sensors h (opt_sensors options) raw
      else Some raw)"

section \<open>The contract\<close>

lemma read_frequency_files_extended [reading]:
  "SysfsCpu \<in> sources \<Longrightarrow> extended sources kinds raw raw' \<Longrightarrow>
   extended sources kinds raw (read_frequency_files h dir raw')"
  unfolding read_frequency_files_def by (intro reading)

lemma read_cache_extended [reading]:
  "SysfsCpu \<in> sources \<Longrightarrow> extended sources kinds raw raw' \<Longrightarrow> extended sources kinds raw (read_cache h entry raw')"
  by (auto simp: read_cache_def intro!: reading)

lemma read_policy_extended:
  "SysfsCpu \<in> sources \<Longrightarrow> extended sources kinds raw (snd s) \<Longrightarrow>
   extended sources kinds raw (snd (read_policy h entry s))"
  by (cases s) (auto simp: read_policy_def intro!: reading)

lemma read_cpu_frequency_extended [reading]:
  "SysfsCpu \<in> sources \<Longrightarrow> extended sources kinds raw raw' \<Longrightarrow>
   extended sources kinds raw (read_cpu_frequency h collected dir raw')"
  by (auto simp: read_cpu_frequency_def Let_def intro!: reading)

lemma optional_directory_result:
  "(\<And>entries. P (f entries s)) \<Longrightarrow> P s \<Longrightarrow> P (fst (optional_directory h dir f (s, error)))"
  by (simp add: optional_directory_def)

lemma read_logical_cpu_extended [reading]:
  assumes "SysfsCpu \<in> sources" "extended sources kinds raw raw'"
  shows "extended sources kinds raw (read_logical_cpu h collected entry raw')"
proof -
  have cache: "extended sources kinds raw (fst (optional_directory h dir (fold (read_cache h)) (raw'', None)))"
    if "extended sources kinds raw raw''" for dir raw''
    by (rule optional_directory_result) (use that assms in \<open>auto intro!: reading\<close>)
  show ?thesis
    using assms
    by (auto simp: read_logical_cpu_def Let_def case_prod_unfold intro!: reading cache
        directory_entry_is_directory_extended [OF prod.collapse [symmetric]])
qed

interpretation cpu_reader: evidence_reader "read_cpu_sysfs h" "{SysfsCpu}" "{LogicalCpus}" for h
proof unfold_locales
  fix raw
  have policies: "extended {SysfsCpu} {LogicalCpus} raw
      (snd (fst (optional_directory h dir (fold (read_policy h)) ((False, raw'), None))))"
    if "extended {SysfsCpu} {LogicalCpus} raw raw'" for dir raw'
    by (rule optional_directory_result [where P = "\<lambda>s. extended {SysfsCpu} {LogicalCpus} raw (snd s)"])
      (use that in \<open>auto intro!: fold_extended_snd read_policy_extended\<close>)
  show "extended {SysfsCpu} {LogicalCpus} raw (read_cpu_sysfs h raw)"
    by (auto simp: read_cpu_sysfs_def Let_def case_prod_unfold intro!: reading policies
        inventory_entries_extended [OF prod.collapse [symmetric]])
qed

lemma read_numa_node_extended [reading]:
  "SysfsNuma \<in> sources \<Longrightarrow> extended sources kinds raw raw' \<Longrightarrow>
   extended sources kinds raw (read_numa_node h entry raw')"
  by (auto simp: read_numa_node_def Let_def split: prod.splits intro!: reading elim: asked)

interpretation numa_reader: evidence_reader "read_numa_sysfs h" "{SysfsNuma}" "{NumaNodes}" for h
  by unfold_locales (auto simp: read_numa_sysfs_def Let_def split: prod.splits intro!: reading elim: asked)

lemma link_name_record_extended [reading]:
  "source \<in> sources \<Longrightarrow> extended sources kinds raw raw' \<Longrightarrow>
   extended sources kinds raw (link_name_record h source path link raw')"
  by (auto simp: link_name_record_def split: sum.splits intro!: reading)

lemma listing_record_extended [reading]:
  "source \<in> sources \<Longrightarrow> extended sources kinds raw raw' \<Longrightarrow>
   extended sources kinds raw (listing_record h source path dir line raw')"
  by (auto simp: listing_record_def split: prod.splits intro!: reading)

lemma read_network_capabilities_extended [reading]:
  "Ethtool \<in> sources \<Longrightarrow> extended sources kinds raw raw' \<Longrightarrow>
   extended sources kinds raw (read_network_capabilities h name raw')"
  by (auto simp: read_network_capabilities_def intro!: reading)

lemma path_exists_snd [reading]:
  "source \<in> sources \<Longrightarrow> extended sources kinds raw raw' \<Longrightarrow>
   extended sources kinds raw (snd (path_exists h source path raw'))"
  by (rule path_exists_extended [OF prod.collapse [symmetric]])

lemma directory_entry_snd [reading]:
  "source \<in> sources \<Longrightarrow> extended sources kinds raw raw' \<Longrightarrow>
   extended sources kinds raw (snd (directory_entry_is_directory h source entry raw'))"
  by (rule directory_entry_is_directory_extended [OF prod.collapse [symmetric]])

lemma read_net_kind_extended [reading]:
  "SysfsNet \<in> sources \<Longrightarrow> Ethtool \<in> sources \<Longrightarrow> extended sources kinds raw raw' \<Longrightarrow>
   extended sources kinds raw (read_net_kind h name dir raw')"
  by (auto simp: read_net_kind_def Let_def case_prod_unfold split: option.splits intro!: reading)

lemma read_net_device_extended [reading]:
  "SysfsNet \<in> sources \<Longrightarrow> extended sources kinds raw raw' \<Longrightarrow>
   extended sources kinds raw (read_net_device h dir raw')"
  by (auto simp: read_net_device_def split: sum.splits intro!: reading)

lemma read_net_interface_extended [reading]:
  "SysfsNet \<in> sources \<Longrightarrow> Ethtool \<in> sources \<Longrightarrow> extended sources kinds raw raw' \<Longrightarrow>
   extended sources kinds raw (read_net_interface h dir raw')"
  by (auto simp: read_net_interface_def Let_def case_prod_unfold intro!: reading)

interpretation net_reader: evidence_reader "read_net_sysfs h" "{SysfsNet, Ethtool}" "{NetworkInterfaces}" for h
  by unfold_locales (auto simp: read_net_sysfs_def Let_def split: prod.splits intro!: reading elim: asked)

lemma read_block_driver_extended [reading]:
  "SysfsBlock \<in> sources \<Longrightarrow> extended sources kinds raw raw' \<Longrightarrow>
   extended sources kinds raw (read_block_driver h dir raw')"
  by (auto simp: read_block_driver_def split: sum.splits intro!: reading)

lemma read_block_parent_extended [reading]:
  "SysfsBlock \<in> sources \<Longrightarrow> extended sources kinds raw raw' \<Longrightarrow>
   extended sources kinds raw (read_block_parent h dir raw')"
  by (auto simp: read_block_parent_def Let_def case_prod_unfold split: sum.splits intro!: reading)

lemma read_block_device_extended [reading]:
  "SysfsBlock \<in> sources \<Longrightarrow> extended sources kinds raw raw' \<Longrightarrow>
   extended sources kinds raw (read_block_device h dir raw')"
  by (auto simp: read_block_device_def Let_def case_prod_unfold split: sum.splits option.splits intro!: reading)

interpretation block_reader: evidence_reader "read_block_sysfs h" "{SysfsBlock}" "{BlockDevices}" for h
  by unfold_locales (auto simp: read_block_sysfs_def Let_def split: prod.splits intro!: reading elim: asked)

interpretation dmi_reader: evidence_reader "read_dmi_sysfs h" "{SysfsDmi}" "{}" for h
  by unfold_locales
    (auto simp: read_dmi_sysfs_def Let_def case_prod_unfold split: option.splits bool.splits intro!: reading)

interpretation hypervisor_reader: evidence_reader "read_hypervisor_type h" "{SysHypervisor}" "{}" for h
  by unfold_locales (auto simp: read_hypervisor_type_def intro!: reading)

end
