(* ===== verification/Cgroup_Reader.thy ===== *)
theory Cgroup_Reader
  imports Device_Readers Path_Walk
begin

text \<open>
  The reader of control group files (\<open>reader/linux/cgroup.cpp\<close>), with the operations of
  \<open>std::filesystem::path\<close> it joins mount and membership with: \<open>lexically_normal\<close>, \<open>lexically_relative\<close> and
  \<open>operator/\<close>. A POSIX path is its root directory, its names, and an empty name after a trailing separator.
\<close>

section \<open>Lexical operations on paths\<close>

text \<open>The elements an iteration over a path yields.\<close>

definition path_elements :: "string \<Rightarrow> string list" where
  "path_elements path =
     (let names = filter (\<lambda>name. name \<noteq> []) (split path (CHR ''/''));
          root = (if path \<noteq> [] \<and> hd path = CHR ''/'' then [''/''] else []);
          trailing = (if names \<noteq> [] \<and> List.last path = CHR ''/'' then [[]] else [])
      in root @ names @ trailing)"

text \<open>
  The names of a normal form, innermost first, and whether a separator follows them: a \<open>.\<close> leaves the
  separator before it behind, and so does a \<open>..\<close> that removes the name before it.
\<close>

definition normal_step :: "bool \<Rightarrow> string \<Rightarrow> string list \<times> bool \<Rightarrow> string list \<times> bool" where
  "normal_step absolute name = (\<lambda>(names, trailing).
     if name = [] \<or> name = ''.'' then (names, True)
     else if name = ''..''
     then (case names of
             [] \<Rightarrow> if absolute then ([], True) else ([''..''], False)
           | n # ns \<Rightarrow> if n = ''..'' then (''..'' # names, False) else (ns, True))
     else (name # names, False))"

definition join_names :: "string list \<Rightarrow> string" where
  "join_names names = join (CHR ''/'') names"

definition normal_text :: "bool \<Rightarrow> string list \<times> bool \<Rightarrow> string" where
  "normal_text absolute s =
     (let names = fst s;
          text' = (if absolute then ''/'' else []) @ join_names (rev names) @
            (if names \<noteq> [] \<and> hd names \<noteq> ''..'' \<and> snd s then ''/'' else [])
      in if text' = [] then ''.'' else text')"

definition lexically_normal :: "string \<Rightarrow> string" where
  "lexically_normal path =
     (if path = [] then []
      else
        let absolute = (hd path = CHR ''/'') in
        normal_text absolute (fold (normal_step absolute) (split path (CHR ''/'')) ([], False)))"

text \<open>\<open>operator/=\<close> of a relative path: an empty one leaves a separator behind.\<close>

definition path_join :: "string \<Rightarrow> string \<Rightarrow> string" where
  "path_join dir name =
     (if name \<noteq> [] \<and> hd name = CHR ''/'' then name else path_append dir name)"

fun strip_common :: "string list \<Rightarrow> string list \<Rightarrow> string list \<times> string list" where
  "strip_common (a # as) (b # bs) = (if a = b then strip_common as bs else (a # as, b # bs))"
| "strip_common as bs = (as, bs)"

definition lexically_relative :: "string \<Rightarrow> string \<Rightarrow> string" where
  "lexically_relative path base =
     (if (path \<noteq> [] \<and> hd path = CHR ''/'') \<noteq> (base \<noteq> [] \<and> hd base = CHR ''/'') then []
      else
        let (as, bs) = strip_common (path_elements path) (path_elements base) in
        if as = [] \<and> bs = [] then ''.''
        else
          let ups = int (length (filter (\<lambda>b. b \<notin> set [[], ''.'', ''..'']) bs)) -
                int (length (filter (\<lambda>b. b = ''..'') bs))
          in if ups < 0 then []
          else if ups = 0 \<and> (as = [] \<or> hd as = []) then ''.''
          else fold (\<lambda>name path. path_join path name) (replicate (nat ups) ''..'' @ as) [])"

section \<open>Lines of the mount table and of the membership\<close>

text \<open>The escapes are decoded one kind after the other, from left to right.\<close>

fun replace_all :: "string \<Rightarrow> char \<Rightarrow> string \<Rightarrow> string" where
  "replace_all escaped decoded [] = []"
| "replace_all escaped decoded (c # cs) =
     (if escaped \<noteq> [] \<and> prefix escaped (c # cs)
      then decoded # replace_all escaped decoded (drop (length escaped) (c # cs))
      else c # replace_all escaped decoded cs)"

definition cgroup_unescape :: "string \<Rightarrow> string" where
  "cgroup_unescape value =
     replace_all (CHR 0x5C # ''134'') (CHR 0x5C)
       (replace_all (CHR 0x5C # ''011'') (CHR 0x09) (replace_all (CHR 0x5C # ''040'') (CHR '' '') value))"

definition contains_controller :: "string \<Rightarrow> string \<Rightarrow> bool" where
  "contains_controller list' name \<longleftrightarrow> contains_str ('','' @ list' @ '','') ('','' @ name @ '','')"

section \<open>Reading a hierarchy\<close>

definition hierarchy_disabled :: "Server \<Rightarrow> string \<Rightarrow> bool" where
  "hierarchy_disabled h leaf =
     (case file_content h (path_append leaf ''memory.use_hierarchy'') of
        None \<Rightarrow> False
      | Some content \<Rightarrow> prefix ''0'' content)"

definition read_level ::
    "Server \<Rightarrow> string \<Rightarrow> bool \<Rightarrow> string \<Rightarrow> string \<Rightarrow> RawStore \<Rightarrow> RawStore" where
  "read_level h mount current leaf name raw =
     (if \<not> current \<and> name = ''memory.limit_in_bytes'' \<and> hierarchy_disabled h leaf then raw
      else if \<not> current \<and> name \<in> set [''memory.current'', ''memory.usage_in_bytes''] then raw
      else
        let path = path_append leaf name in
        case file_content h path of
          Some payload \<Rightarrow> add_record h CgroupFile path payload Success None None raw
        | None \<Rightarrow>
            add_record h CgroupFile path []
              (if \<not> current \<and> leaf = mount \<and> server_exists h path = Inr False then NotCollected else Failed)
              None None raw)"

function read_hierarchy ::
    "Server \<Rightarrow> string \<Rightarrow> string list \<Rightarrow> bool \<Rightarrow> string \<Rightarrow> RawStore \<Rightarrow> RawStore" where
  "read_hierarchy h mount names current leaf raw =
     (let raw = fold (read_level h mount current leaf) names raw in
      if leaf = mount \<or> parent_path leaf = leaf then raw
      else read_hierarchy h mount names False (parent_path leaf) raw)"
  by pat_completeness auto
termination
  by (relation "measure (\<lambda>(h, mount, names, current, leaf, raw). length leaf)") (auto intro: parent_path_shorter)

declare read_hierarchy.simps [simp del]

text \<open>The directories the loop visits.\<close>

function hierarchy :: "string \<Rightarrow> string \<Rightarrow> string list" where
  "hierarchy mount leaf =
     (if leaf = mount \<or> parent_path leaf = leaf then [leaf] else leaf # hierarchy mount (parent_path leaf))"
  by pat_completeness auto
termination
  by (relation "measure (\<lambda>(mount, leaf). length leaf)") (auto intro: parent_path_shorter)

declare hierarchy.simps [simp del]

section \<open>The reader\<close>

definition cgroup_names :: "bool \<Rightarrow> string \<Rightarrow> string \<Rightarrow> string list" where
  "cgroup_names unified controllers options =
     (let attached = (\<lambda>name. contains_controller controllers name \<and> contains_controller options name) in
      if unified
      then [''cpu.max'', ''memory.max'', ''memory.current'', ''cpuset.cpus.effective'', ''cpuset.mems.effective'']
      else (if attached ''cpu'' then [''cpu.cfs_quota_us'', ''cpu.cfs_period_us''] else []) @
           (if attached ''memory'' then [''memory.limit_in_bytes'', ''memory.usage_in_bytes''] else []) @
           (if attached ''cpuset'' then [''cpuset.cpus'', ''cpuset.mems''] else []))"

text \<open>Where the control group at \<open>path\<close> is mounted, if the mount that starts at \<open>root\<close> shows it.\<close>

definition cgroup_leaf :: "string \<Rightarrow> string \<Rightarrow> string \<Rightarrow> string option" where
  "cgroup_leaf root mount path =
     (let relative = (if path = ''/'' then [] else lexically_relative path root) in
      if relative \<noteq> [] \<and> hd (path_elements relative) = ''..'' then None
      else if relative = [] \<and> path \<noteq> ''/'' \<and> path \<noteq> root then None
      else Some (lexically_normal (path_join mount relative)))"

definition read_cgroup :: "Server \<Rightarrow> string \<Rightarrow> string \<Rightarrow> bool \<Rightarrow> string \<Rightarrow> string \<Rightarrow> RawStore \<Rightarrow> RawStore" where
  "read_cgroup h root mount unified options g raw =
     (case find_char (CHR '':'') g of
        None \<Rightarrow> raw
      | Some first \<Rightarrow>
          (case find_char_from (CHR '':'') (first + 1) g of
             None \<Rightarrow> raw
           | Some second \<Rightarrow>
               let controllers = take (second - first - 1) (drop (first + 1) g);
                   names = cgroup_names unified controllers options
               in if unified \<noteq> (controllers = []) \<or> names = [] then raw
               else case cgroup_leaf root mount (lexically_normal (drop (second + 1) g)) of
                   None \<Rightarrow> raw
                 | Some leaf \<Rightarrow> read_hierarchy h mount names True leaf raw))"

text \<open>The lines \<open>std::getline\<close> yields.\<close>

definition getlines :: "string \<Rightarrow> string list" where
  "getlines s =
     (let lines = split s (CHR 0x0A) in if List.last lines = [] then butlast lines else lines)"

definition read_cgroup_mount :: "Server \<Rightarrow> string \<Rightarrow> string \<Rightarrow> RawStore \<Rightarrow> RawStore" where
  "read_cgroup_mount h membership line raw =
     (case find_str '' - '' line of
        None \<Rightarrow> raw
      | Some separator \<Rightarrow>
          let left = tokens (take separator line);
              right = tokens (drop (separator + 3) line)
          in if length left < 5 \<or> length right < 3 \<or> right ! 0 \<notin> set [''cgroup'', ''cgroup2''] then raw
          else
            let root = lexically_normal (cgroup_unescape (left ! 3));
                mount = lexically_normal (cgroup_unescape (left ! 4))
            in fold (read_cgroup h root mount (right ! 0 = ''cgroup2'') (right ! 2)) (getlines membership) raw)"

definition read_cgroup_limits :: "Server \<Rightarrow> RawStore \<Rightarrow> RawStore" where
  "read_cgroup_limits h raw =
     (case (file_content h ''/proc/self/mountinfo'', file_content h ''/proc/self/cgroup'') of
        (Some mounts, Some membership) \<Rightarrow>
          fold (read_cgroup_mount h membership) (getlines mounts)
            (add_record h CgroupMountInfo ''/proc/self/mountinfo'' mounts Success None None raw)
      | _ \<Rightarrow> raw)"

end
