(* ===== verification/Filesystem_Reader.thy ===== *)
theory Filesystem_Reader
  imports Device_Readers Filesystem_Parser Partial_Reading
begin

text \<open>
  The statistics of the mounted file systems (\<open>filesystem_stats.cpp\<close> and \<open>filesystems.cpp\<close> under
  \<open>reader/linux/\<close>): the walk that opens a mount point component by component, and the report of every group
  of mounts of the same file system.
\<close>

section \<open>The walk to a mount point\<close>

record FilesystemStatistics =
  st_values :: StatVfs
  st_failure :: "ReadFailure option"
  st_skip :: "SkipReason option"
  st_note :: string

definition FilesystemStatistics_default :: FilesystemStatistics where
  "FilesystemStatistics_default =
     \<lparr>st_values = \<lparr>f_bsize = 0, f_frsize = 0, f_blocks = 0, f_bfree = 0, f_bavail = 0, f_files = 0, f_ffree = 0,
        f_favail = 0, f_fsid = 0\<rparr>,
      st_failure = None, st_skip = None, st_note = []\<rparr>"

definition autofs_super_magic :: u64 where
  "autofs_super_magic = 0x187"

definition queryable :: "Server \<Rightarrow> nat \<Rightarrow> FilesystemStatistics \<Rightarrow> bool \<times> FilesystemStatistics" where
  "queryable h fd result =
     (case server_fstatfs h fd of
        Inl e \<Rightarrow> (False, result\<lparr>st_failure := Some (file_failure e)\<rparr>)
      | Inr kind \<Rightarrow>
          if kind = autofs_super_magic
          then (False, result\<lparr>st_skip := Some NotApplicable, st_note := ''Automount filesystem not queried''\<rparr>)
          else (True, result))"

text \<open>The components of \<open>path::relative_path\<close> of an absolute path; a trailing slash is an empty component.\<close>

definition relative_parts :: "string \<Rightarrow> string list" where
  "relative_parts path =
     (let parts = filter (\<lambda>part. part \<noteq> []) (split path (CHR ''/''))
      in if parts \<noteq> [] \<and> List.last path = CHR ''/'' then parts @ [[]] else parts)"

fun open_parts :: "Server \<Rightarrow> string list \<Rightarrow> nat \<Rightarrow> FilesystemStatistics \<Rightarrow> FilesystemStatistics + nat" where
  "open_parts h [] fd result = Inr fd"
| "open_parts h (part # parts) fd result =
     (if part = ''.'' \<or> part = ''..'' then Inl (result\<lparr>st_failure := Some Unsupported\<rparr>)
      else
        let (ok, result) = queryable h fd result in
        if \<not> ok then Inl result
        else case server_openat h fd part (parts \<noteq> []) of
            Inl e \<Rightarrow> Inl (result\<lparr>st_failure := Some (file_failure e)\<rparr>)
          | Inr next_fd \<Rightarrow> open_parts h parts next_fd result)"

definition opened_statistics :: "Server \<Rightarrow> StorageMount \<Rightarrow> nat \<Rightarrow> FilesystemStatistics \<Rightarrow> FilesystemStatistics" where
  "opened_statistics h mount fd result =
     (let (ok, result) = queryable h fd result in
      if \<not> ok then result
      else case server_fstat h fd of
          Inl e \<Rightarrow> result\<lparr>st_failure := Some (file_failure e)\<rparr>
        | Inr (link, dmajor, dminor) \<Rightarrow>
            if link then result\<lparr>st_failure := Some Unsupported\<rparr>
            else if dmajor \<noteq> dev_major (sm_device_number mount) \<or> dminor \<noteq> dev_minor (sm_device_number mount)
            then result\<lparr>st_failure := Some NotPresent,
                   st_note := ''Mount changed or is covered; statistics not associated''\<rparr>
            else (case server_fstatvfs h fd of
                    Inl e \<Rightarrow> result\<lparr>st_failure := Some (file_failure e)\<rparr>
                  | Inr values \<Rightarrow> result\<lparr>st_values := values\<rparr>))"

definition read_filesystem_statistics :: "Server \<Rightarrow> StorageMount \<Rightarrow> FilesystemStatistics" where
  "read_filesystem_statistics h mount =
     (let result = FilesystemStatistics_default;
          path = str_value (sm_path mount)
      in if path = [] \<or> hd path \<noteq> CHR ''/'' \<or> CHR 0x00 \<in> set path then result\<lparr>st_failure := Some Unsupported\<rparr>
      else case server_open_root h of
          Inl e \<Rightarrow> result\<lparr>st_failure := Some (file_failure e)\<rparr>
        | Inr root \<Rightarrow>
            (case open_parts h (relative_parts path) root result of
               Inl result \<Rightarrow> result
             | Inr fd \<Rightarrow> opened_statistics h mount fd result))"

section \<open>The reports\<close>

fun kind_code :: "FilesystemKind \<Rightarrow> u64" where
  "kind_code Fs_Local = 0"
| "kind_code Fs_Network = 1"
| "kind_code Fs_Memory = 2"
| "kind_code Fs_Pseudo = 3"
| "kind_code Fs_Userspace = 4"
| "kind_code Fs_Unknown = 5"

definition statistics_json :: "StatVfs \<Rightarrow> json" where
  "statistics_json values = json_object
     [(''block_size'', Some (Json_Unsigned (if f_frsize values \<noteq> 0 then f_frsize values else f_bsize values))),
      (''blocks'', Some (Json_Unsigned (f_blocks values))),
      (''free_blocks'', Some (Json_Unsigned (f_bfree values))),
      (''available_blocks'', Some (Json_Unsigned (f_bavail values))),
      (''inodes'', Some (Json_Unsigned (f_files values))),
      (''free_inodes'', Some (Json_Unsigned (f_ffree values))),
      (''available_inodes'', Some (Json_Unsigned (f_favail values))),
      (''filesystem_id'', Some (Json_String (to_string (f_fsid values))))]"

definition usage_skip :: "FilesystemQuery \<Rightarrow> StorageMount \<Rightarrow> SkipReason option" where
  "usage_skip policy mount =
     (let kind = filesystem_kind (str_value (sm_filesystem mount)) in
      if kind = Fs_Pseudo \<or> str_value (sm_filesystem mount) = ''ramfs'' then Some NotApplicable
      else if policy = FilesystemQuery_None then Some NotRequested
      else if policy = FilesystemQuery_Local \<and> kind \<noteq> Fs_Local \<and> kind \<noteq> Fs_Memory then Some PolicyExcluded
      else None)"

definition group_representative :: "StorageMount list \<Rightarrow> StorageMount" where
  "group_representative mounts =
     (case find (\<lambda>mount. str_value (sm_path mount) = ''/'') mounts of Some mount \<Rightarrow> mount | None \<Rightarrow> hd mounts)"

definition usage_json :: "StorageMount list \<Rightarrow> string \<Rightarrow> StatVfs option \<Rightarrow> json" where
  "usage_json mounts note values = json_object
     [(''kind'', Some (Json_Unsigned (kind_code (filesystem_kind (str_value (sm_filesystem (group_representative mounts))))))),
      (''mount_ids'', Some (Json_Array (map (\<lambda>mount. Json_Unsigned (from_u32 (sm_mount_id mount))) mounts))),
      (''note'', text_unless_empty note),
      (''stats'', map_option statistics_json values)]"

definition usage_outcome ::
    "Server \<Rightarrow> FilesystemQuery \<Rightarrow> StorageMount list \<Rightarrow>
      json \<times> CollectStatus \<times> ReadFailure option \<times> SkipReason option" where
  "usage_outcome h policy mounts =
     (let mount = group_representative mounts in
      case usage_skip policy mount of
        Some skip \<Rightarrow> (usage_json mounts [] None, NotCollected, None, Some skip)
      | None \<Rightarrow>
          (let result = read_filesystem_statistics h mount in
           if st_failure result \<noteq> None
           then (usage_json mounts (st_note result) None, Failed, st_failure result, st_skip result)
           else if st_skip result \<noteq> None
           then (usage_json mounts (st_note result) None, NotCollected, None, st_skip result)
           else (usage_json mounts (st_note result) (Some (st_values result)), Success, None, None)))"

definition usage_query ::
    "(json \<Rightarrow> string option) \<Rightarrow> Server \<Rightarrow> FilesystemQuery \<Rightarrow> StorageMount list \<Rightarrow> RawStore \<Rightarrow> RawStore option" where
  "usage_query dump h policy mounts raw =
     (let (payload, status, failure, skip) = usage_outcome h policy mounts
      in map_option (\<lambda>content.
           add_record h Src_FilesystemUsage (''statvfs/'' @ to_string (sm_mount_id (group_representative mounts)))
             content status failure skip raw) (dump payload))"

definition mount_key :: "StorageMount \<Rightarrow> u32 \<times> u32 \<times> string \<times> string" where
  "mount_key mount =
     (dev_major (sm_device_number mount), dev_minor (sm_device_number mount), str_value (sm_filesystem mount),
      sm_source mount)"

definition mount_groups :: "StorageMount list \<Rightarrow> (u32 \<times> u32 \<times> string \<times> string, StorageMount list) std_map" where
  "mount_groups mounts = fold (\<lambda>mount. map_update (mount_key mount) [] (\<lambda>ms. ms @ [mount])) mounts []"

definition read_filesystems ::
    "(json \<Rightarrow> string option) \<Rightarrow> Server \<Rightarrow> FilesystemQuery \<Rightarrow> RawStore \<Rightarrow> RawStore option" where
  "read_filesystems dump h policy raw =
     (case first_success raw StorageMountInfo of
        None \<Rightarrow> Some raw
      | Some r \<Rightarrow>
          (let (mounts, warnings) = parse_mountinfo (rec_payload r) []
           in try_fold (\<lambda>g. usage_query dump h policy (snd g)) (mount_groups mounts) raw))"

section \<open>The contract\<close>

lemma usage_query_extends [reading]:
  "Src_FilesystemUsage \<in> sources \<Longrightarrow> extended sources kinds raw raw' \<Longrightarrow>
   extends_option sources kinds raw (usage_query dump h policy mounts raw')"
  by (cases "dump (fst (usage_outcome h policy mounts))")
    (auto simp: usage_query_def split: prod.splits intro!: reading)

interpretation filesystems_reader: partial_reader "read_filesystems dump h policy" "{Src_FilesystemUsage}" "{}"
  for dump h policy
  by (rule partial_readerI) (auto simp: read_filesystems_def Let_def split: option.splits prod.splits intro!: reading)

end
