(* ===== verification/Accelerator_Reader.thy ===== *)
theory Accelerator_Reader
  imports Device_Readers Partial_Reading
begin

text \<open>
  The readers of accelerators (\<open>accelerator.cpp\<close> and \<open>accelerator_runtime.cpp\<close> under \<open>reader/linux/\<close>): the
  management library of NVIDIA, the DRM class of the kernel, and the CUDA, HIP and Level Zero runtimes.
  The libraries are loaded by name; what their functions answer is part of the host. A number that is not
  negative is an unsigned JSON number, the form in which its text is read back.
\<close>

section \<open>Calls into a library\<close>

text \<open>The value a function stores, if the function exists and succeeds.\<close>

definition answered :: "('a \<Rightarrow> i32 \<times> 'b) option \<Rightarrow> 'a \<Rightarrow> 'b option" where
  "answered f x =
     (case f of
        None \<Rightarrow> None
      | Some f \<Rightarrow> (case f x of (status, v) \<Rightarrow> if status = 0 then Some v else None))"

definition got :: "(i32 \<times> 'b) option \<Rightarrow> 'b option" where
  "got f = (case f of None \<Rightarrow> None | Some (status, v) \<Rightarrow> if status = 0 then Some v else None)"

definition json_nat :: "nat \<Rightarrow> json" where
  "json_nat n = Json_Unsigned (of_nat n)"

text \<open>A record whose payload is a JSON text.\<close>

definition json_record ::
    "(json \<Rightarrow> string option) \<Rightarrow> Server \<Rightarrow> RawSource \<Rightarrow> string \<Rightarrow> json \<Rightarrow> RawStore \<Rightarrow> RawStore option" where
  "json_record dump h source path payload raw =
     map_option (\<lambda>content. add_record h source path content Success None None raw) (dump payload)"

section \<open>NVML\<close>

definition nvml_members :: "NvmlFunctions \<Rightarrow> nat \<Rightarrow> nat \<Rightarrow> (string \<times> json option) list" where
  "nvml_members api handle index =
     [(''index'', Some (json_nat index)),
      (''name'', map_option Json_String (answered (nvml_name api) handle)),
      (''uuid'', map_option Json_String (answered (nvml_uuid api) handle)),
      (''pci_bus_id'', map_option Json_String (answered (nvml_pci api) handle)),
      (''memory_total'', map_option Json_Unsigned (answered (nvml_memory api) handle))]"

definition nvml_instance :: "NvmlFunctions \<Rightarrow> nat \<Rightarrow> string \<Rightarrow> nat \<Rightarrow> nat \<Rightarrow> json" where
  "nvml_instance api index parent instance' child =
     json_object (nvml_members api child index @
       [(''parent_uuid'', Some (Json_String parent)),
        (''mig_index'', Some (json_nat instance')),
        (''gpu_instance_id'', map_option (\<lambda>v. Json_Unsigned (from_u32 v)) (answered (nvml_gpu_instance api) child)),
        (''compute_instance_id'',
         map_option (\<lambda>v. Json_Unsigned (from_u32 v)) (answered (nvml_compute_instance api) child))])"

definition nvml_instances :: "NvmlFunctions \<Rightarrow> nat \<Rightarrow> nat \<Rightarrow> string \<Rightarrow> json list" where
  "nvml_instances api handle index parent =
     (case (answered (nvml_mig_count api) handle, nvml_mig_handle api) of
        (Some instances, Some mig_handle) \<Rightarrow>
          if instances > 1024 then []
          else concat (map (\<lambda>instance'.
            case mig_handle handle (of_nat instance') of (status, child) \<Rightarrow>
              if status = 0 then [nvml_instance api index parent instance' child] else []) [0..<unat instances])
      | _ \<Rightarrow> [])"

definition nvml_entries :: "NvmlFunctions \<Rightarrow> nat \<Rightarrow> json list" where
  "nvml_entries api index =
     (case answered (nvml_handle api) (of_nat index) of
        None \<Rightarrow> []
      | Some handle \<Rightarrow>
          json_object (nvml_members api handle index) #
          (case answered (nvml_uuid api) handle of
             None \<Rightarrow> []
           | Some parent \<Rightarrow> nvml_instances api handle index parent))"

definition nvml_available :: "NvmlFunctions \<Rightarrow> bool" where
  "nvml_available api \<longleftrightarrow> nvml_init api = Some 0 \<and> nvml_shutdown api \<noteq> None"

definition read_nvml :: "(json \<Rightarrow> string option) \<Rightarrow> Server \<Rightarrow> RawStore \<Rightarrow> RawStore option" where
  "read_nvml dump h raw =
     (let api = server_nvml h in
      if \<not> nvml_available api then Some raw
      else case (got (nvml_count api), nvml_handle api) of
          (Some device_count, Some _) \<Rightarrow>
            if device_count > 65536 then Some raw
            else json_record dump h Nvml ''libnvidia-ml.so.1''
              (json_object
                 [(''devices'', Some (Json_Array (concat (map (nvml_entries api) [0..<unat device_count])))),
                  (''driver_version'', map_option Json_String (got (nvml_driver api)))]) raw
        | _ \<Rightarrow> Some raw)"

section \<open>DRM\<close>

definition drm_fields :: "string list" where
  "drm_fields = [''vendor'', ''device'', ''product_name'', ''unique_id'', ''mem_info_vram_total'', ''numa_node'']"

definition drm_json :: "Server \<Rightarrow> string \<Rightarrow> string \<Rightarrow> json" where
  "drm_json h name device = json_object
     ([(''card'', Some (Json_String name)), (''pci_bus_id'', Some (Json_String (path_filename device)))] @
      map (\<lambda>field. (field, map_option Json_String (file_content h (path_append device field)))) drm_fields @
      [(''driver'',
        (case server_symlink h (path_append device ''driver'') of
           Inl _ \<Rightarrow> None
         | Inr driver \<Rightarrow> Some (Json_String (path_filename driver))))])"

definition read_drm_card :: "(json \<Rightarrow> string option) \<Rightarrow> Server \<Rightarrow> string \<Rightarrow> RawStore \<Rightarrow> RawStore option" where
  "read_drm_card dump h entry raw =
     (let name = path_filename entry in
      if \<not> numbered_entry name ''card'' then Some raw
      else case server_canonical h (path_append entry ''device'') of
          Inl _ \<Rightarrow> Some raw
        | Inr device \<Rightarrow> json_record dump h SysfsDrm entry (drm_json h name device) raw)"

definition drm_root :: string where
  "drm_root = ''/sys/class/drm''"

definition read_drm :: "(json \<Rightarrow> string option) \<Rightarrow> Server \<Rightarrow> RawStore \<Rightarrow> RawStore option" where
  "read_drm dump h raw =
     (if server_exists h drm_root \<noteq> Inr True then Some raw
      else
        let (cards, error) = directory_entries h drm_root
        in try_fold (read_drm_card dump h) cards
             (add_record h SysfsDrm drm_root ''{}'' (if error = None then Success else Failed) None None raw))"

section \<open>HIP\<close>

text \<open>The status of a runtime without devices.\<close>

abbreviation no_device :: i32 where
  "no_device \<equiv> 100"

definition hip_device :: "HipFunctions \<Rightarrow> nat \<Rightarrow> json option" where
  "hip_device api index =
     map_option (\<lambda>pci. json_object
         [(''pci_bus_id'', Some (Json_String pci)), (''index'', Some (json_nat index)),
          (''name'', map_option Json_String (answered (hip_name api) (of_nat index))),
          (''memory_total'', map_option Json_Unsigned (answered (hip_memory api) (of_nat index)))])
       (answered (hip_pci api) (of_nat index))"

definition hip_version_text :: "HipFunctions \<Rightarrow> string option" where
  "hip_version_text api =
     (case got (hip_version api) of
        None \<Rightarrow> None
      | Some version \<Rightarrow>
          if sint version > 0
          then let v = unat version in
            Some (to_string_nat (v div 10000000) @ ''.'' @ to_string_nat (v div 100000 mod 100) @ ''.'' @
              to_string_nat (v mod 100000))
          else None)"

text \<open>A partial enumeration leaves no evidence.\<close>

definition read_hip :: "(json \<Rightarrow> string option) \<Rightarrow> Server \<Rightarrow> HipFunctions \<Rightarrow> RawStore \<Rightarrow> RawStore option" where
  "read_hip dump h api raw =
     (case (hip_count api, hip_pci api) of
        (Some (status, device_count), Some _) \<Rightarrow>
          if status \<notin> {0, no_device} \<or> sint device_count < 0 \<or> sint device_count > 65536 then Some raw
          else
            let device_count = (if status = no_device then 0 else unat device_count) in
            (case those (map (hip_device api) [0..<device_count]) of
               None \<Rightarrow> Some raw
             | Some devices \<Rightarrow>
                 json_record dump h AcceleratorRuntime ''HIP''
                   (json_object
                      [(''vendor'', Some (Json_String ''AMD'')), (''devices'', Some (Json_Array devices)),
                       (''runtime_version'', map_option Json_String (hip_version_text api))]) raw)
      | _ \<Rightarrow> Some raw)"

section \<open>CUDA\<close>

definition uuid_text :: "u8 list \<Rightarrow> string" where
  "uuid_text uuid = concat (map (\<lambda>byte. print_hex 2 (unat byte)) uuid)"

definition cuda_uuid :: "CudaFunctions \<Rightarrow> (i32 \<Rightarrow> i32 \<times> u8 list) option" where
  "cuda_uuid api = (case cu_uuid_v2 api of None \<Rightarrow> cu_uuid api | Some f \<Rightarrow> Some f)"

definition cuda_device :: "CudaFunctions \<Rightarrow> nat \<Rightarrow> json option" where
  "cuda_device api index =
     (case answered (cu_device api) (of_nat index) of
        None \<Rightarrow> None
      | Some device \<Rightarrow>
          (case (answered (cu_pci api) device, answered (cuda_uuid api) device) of
             (Some pci, Some uuid) \<Rightarrow>
               Some (json_object
                 [(''pci_bus_id'', Some (Json_String pci)), (''uuid_hex'', Some (Json_String (uuid_text uuid))),
                  (''name'', map_option Json_String (answered (cu_name api) device)),
                  (''memory_total'', map_option Json_Unsigned (answered (cu_memory api) device))])
           | _ \<Rightarrow> None))"

text \<open>The number of devices, if the runtime can be asked: none if it says that there are none.\<close>

definition cuda_count :: "CudaFunctions \<Rightarrow> nat option" where
  "cuda_count api =
     (case (cu_init api, cu_count api) of
        (Some status, Some (count_status, device_count)) \<Rightarrow>
          if cu_device api = None \<or> cu_pci api = None \<or> cuda_uuid api = None then None
          else if status = no_device then Some 0
          else if status \<noteq> 0 \<or> count_status \<noteq> 0 \<or> sint device_count < 0 \<or> sint device_count > 65536 then None
          else Some (unat device_count)
      | _ \<Rightarrow> None)"

definition read_cuda :: "(json \<Rightarrow> string option) \<Rightarrow> Server \<Rightarrow> RawStore \<Rightarrow> RawStore option" where
  "read_cuda dump h raw =
     (let api = server_cuda h in
      case cuda_count api of
        None \<Rightarrow> Some raw
      | Some device_count \<Rightarrow>
          (case those (map (cuda_device api) [0..<device_count]) of
             None \<Rightarrow> Some raw
           | Some devices \<Rightarrow>
               json_record dump h AcceleratorRuntime ''CUDA Driver''
                 (json_object [(''vendor'', Some (Json_String ''NVIDIA'')), (''devices'', Some (Json_Array devices))])
                 raw))"

section \<open>Level Zero\<close>

definition ze_address :: "ZePci \<Rightarrow> string" where
  "ze_address pci =
     print_hex 4 (unat (ze_domain pci)) @ '':'' @ print_hex 2 (unat (ze_bus pci)) @ '':'' @
     print_hex 2 (unat (ze_device pci)) @ ''.'' @ print_hex 1 (unat (ze_function pci))"

definition ze_device_json :: "ZeFunctions \<Rightarrow> nat \<Rightarrow> json option" where
  "ze_device_json api device =
     map_option (\<lambda>pci. json_object [(''pci_bus_id'', Some (Json_String (ze_address pci)))]) (answered (ze_pci api) device)"

text \<open>
  Asking for handles: the count, then as many handles, of which the library may store fewer but not more.
\<close>

definition ze_handles :: "(i32 \<times> u32) \<Rightarrow> (u32 \<Rightarrow> i32 \<times> u32 \<times> nat list) \<Rightarrow> nat \<Rightarrow> nat list option" where
  "ze_handles counted stored limit =
     (case counted of (status, n) \<Rightarrow>
        if status \<noteq> 0 \<or> unat n > limit then None
        else if n = 0 then Some []
        else case stored n of (status, m, handles) \<Rightarrow>
            if status \<noteq> 0 \<or> m > n then None else Some (take (unat m) handles))"

definition ze_driver_devices :: "ZeFunctions \<Rightarrow> nat \<Rightarrow> json list option" where
  "ze_driver_devices api driver =
     (case ze_device_count api of
        None \<Rightarrow> None
      | Some counted \<Rightarrow>
          (case ze_handles (counted driver) (ze_devices api driver) 65536 of
             None \<Rightarrow> None
           | Some devices \<Rightarrow> those (map (ze_device_json api) devices)))"

definition ze_version_text :: "ZeFunctions \<Rightarrow> nat \<Rightarrow> string option" where
  "ze_version_text api driver =
     map_option (\<lambda>v. to_string (drop_bit 16 v) @ ''.'' @ to_string (Bit_Operations.and v 0xffff))
       (answered (ze_version api) driver)"

text \<open>The version of the last driver that has one.\<close>

definition read_level_zero :: "(json \<Rightarrow> string option) \<Rightarrow> Server \<Rightarrow> RawStore \<Rightarrow> RawStore option" where
  "read_level_zero dump h raw =
     (let api = server_level_zero h in
      case (ze_driver_count api, ze_device_count api, ze_pci api) of
        (Some counted, Some _, Some _) \<Rightarrow>
          if ze_init api \<noteq> Some 0 then Some raw
          else (case ze_handles counted (ze_drivers api) 1024 of
                  None \<Rightarrow> Some raw
                | Some drivers \<Rightarrow>
                    (case those (map (ze_driver_devices api) drivers) of
                       None \<Rightarrow> Some raw
                     | Some devices \<Rightarrow>
                         json_record dump h AcceleratorRuntime ''Level Zero''
                           (json_object
                              [(''vendor'', Some (Json_String ''Intel'')),
                               (''devices'', Some (Json_Array (concat devices))),
                               (''api_version'',
                                (case rev (List.map_filter (ze_version_text api) drivers) of
                                   [] \<Rightarrow> None
                                 | v # _ \<Rightarrow> Some (Json_String v)))]) raw))
      | _ \<Rightarrow> Some raw)"

section \<open>All backends\<close>

definition hip_libraries :: "string list" where
  "hip_libraries = [''libamdhip64.so'', ''libamdhip64.so.7'', ''libamdhip64.so.6'', ''libamdhip64.so.5'']"

definition read_accelerator_runtimes :: "(json \<Rightarrow> string option) \<Rightarrow> Server \<Rightarrow> RawStore \<Rightarrow> RawStore option" where
  "read_accelerator_runtimes dump h raw = do {
     raw \<leftarrow> read_cuda dump h raw;
     raw \<leftarrow> (case List.map_filter (server_hip h) hip_libraries of
               [] \<Rightarrow> Some raw
             | api # _ \<Rightarrow> read_hip dump h api raw);
     read_level_zero dump h raw
   }"

definition read_accelerator_backends :: "(json \<Rightarrow> string option) \<Rightarrow> Server \<Rightarrow> RawStore \<Rightarrow> RawStore option" where
  "read_accelerator_backends dump h raw = do {
     raw \<leftarrow> read_nvml dump h raw;
     raw \<leftarrow> read_drm dump h raw;
     read_accelerator_runtimes dump h raw
   }"

section \<open>The contract\<close>

lemma json_record_extends [reading]:
  "source \<in> sources \<Longrightarrow> extended sources kinds raw raw' \<Longrightarrow>
   extends_option sources kinds raw (json_record dump h source path payload raw')"
  by (cases "dump payload") (auto simp: json_record_def intro!: reading)

lemma read_nvml_extends [reading]:
  "Nvml \<in> sources \<Longrightarrow> extended sources kinds raw raw' \<Longrightarrow> extends_option sources kinds raw (read_nvml dump h raw')"
  by (auto simp: read_nvml_def Let_def split: option.splits intro!: reading)

lemma read_drm_card_extends:
  "SysfsDrm \<in> sources \<Longrightarrow> extended sources kinds raw raw' \<Longrightarrow>
   extends_option sources kinds raw (read_drm_card dump h entry raw')"
  by (auto simp: read_drm_card_def Let_def split: sum.splits intro!: reading)

lemma read_drm_extends [reading]:
  "SysfsDrm \<in> sources \<Longrightarrow> extended sources kinds raw raw' \<Longrightarrow> extends_option sources kinds raw (read_drm dump h raw')"
  by (auto simp: read_drm_def Let_def split: prod.splits intro!: reading read_drm_card_extends)

lemma read_hip_extends:
  "AcceleratorRuntime \<in> sources \<Longrightarrow> extended sources kinds raw raw' \<Longrightarrow>
   extends_option sources kinds raw (read_hip dump h api raw')"
  by (auto simp: read_hip_def Let_def split: option.splits intro!: reading)

lemma read_cuda_extends:
  "AcceleratorRuntime \<in> sources \<Longrightarrow> extended sources kinds raw raw' \<Longrightarrow>
   extends_option sources kinds raw (read_cuda dump h raw')"
  by (auto simp: read_cuda_def Let_def split: option.splits intro!: reading)

lemma read_level_zero_extends:
  "AcceleratorRuntime \<in> sources \<Longrightarrow> extended sources kinds raw raw' \<Longrightarrow>
   extends_option sources kinds raw (read_level_zero dump h raw')"
  by (auto simp: read_level_zero_def Let_def split: option.splits intro!: reading)

lemma read_accelerator_runtimes_extends [reading]:
  "AcceleratorRuntime \<in> sources \<Longrightarrow> extended sources kinds raw raw' \<Longrightarrow>
   extends_option sources kinds raw (read_accelerator_runtimes dump h raw')"
  unfolding read_accelerator_runtimes_def
  by (intro extends_option_bind read_cuda_extends read_level_zero_extends)
    (auto split: list.splits intro!: reading read_hip_extends)

abbreviation accelerator_sources :: "RawSource set" where
  "accelerator_sources \<equiv> {Nvml, SysfsDrm, AcceleratorRuntime}"

interpretation accelerators_reader: partial_reader "read_accelerator_backends dump h" accelerator_sources "{}" for dump h
  by (rule partial_readerI) (auto simp: read_accelerator_backends_def intro!: reading)

end
