(* ===== verification/Procfs_Reader.thy ===== *)
theory Procfs_Reader
  imports Cgroup_Reader Filesystem_Reader Accelerator_Reader
begin

text \<open>
  The reader of \<open>/proc\<close>, system calls, commands and environment variables (\<open>reader/linux/procfs.cpp\<close>), and its
  sections for the requested domains.
\<close>

section \<open>Commands\<close>

fun command_status_code :: "CommandStatus \<Rightarrow> nat" where
  "command_status_code Command_Success = 0"
| "command_status_code Command_Failed = 1"
| "command_status_code SpawnError = 2"
| "command_status_code Command_TimedOut = 3"
| "command_status_code OutputLimit = 4"
| "command_status_code ReadError = 5"

definition failed_command_json :: "CommandResult \<Rightarrow> json" where
  "failed_command_json result = json_object
     [(''command_status'', Some (json_nat (command_status_code (cmd_status result)))),
      (''stdout'', Some (Json_String (cmd_output result))),
      (''stderr'', Some (Json_String (cmd_error result))),
      (''exit_code'', map_option (\<lambda>code. json_nat (unat code)) (cmd_exit_code result)),
      (''signal'', map_option (\<lambda>signal. json_nat (unat signal)) (cmd_signal result))]"

text \<open>What a command wrote, or the report of its failure as JSON, whose text may throw.\<close>

definition command_payload :: "(json \<Rightarrow> string option) \<Rightarrow> CommandResult \<Rightarrow> string option" where
  "command_payload dump result =
     (if successful result then Some (cmd_output result) else dump (failed_command_json result))"

definition read_cmd ::
    "(json \<Rightarrow> string option) \<Rightarrow> Server \<Rightarrow> RawSource \<times> string \<Rightarrow> RawStore \<Rightarrow> RawStore option" where
  "read_cmd dump h query raw =
     (let result = run_command h (snd query)
      in map_option (\<lambda>payload. add_record h (fst query) (snd query) payload
             (if successful result then Success else Failed) (command_failure result) None raw)
           (command_payload dump result))"

abbreviation read_cmds ::
    "(json \<Rightarrow> string option) \<Rightarrow> Server \<Rightarrow> (RawSource \<times> string) list \<Rightarrow> RawStore \<Rightarrow> RawStore option" where
  "read_cmds dump h \<equiv> try_fold (read_cmd dump h)"

section \<open>System calls\<close>

definition read_uname :: "Server \<Rightarrow> RawStore \<Rightarrow> RawStore" where
  "read_uname h raw =
     (case server_uname h of
        None \<Rightarrow>
          add_record h ProcVersion ''uname'' [] Failed None None (add_record h Uname ''uname'' [] Failed None None raw)
      | Some (machine, release, version) \<Rightarrow>
          add_record h ProcVersion ''uname'' (release @ [CHR 0x0A] @ version) Success None None
            (add_record h Uname ''uname'' machine Success None None raw))"

definition read_hostname :: "Server \<Rightarrow> RawStore \<Rightarrow> RawStore" where
  "read_hostname h =
     (case server_hostname h of
        None \<Rightarrow> add_record h ProcHostname ''gethostname'' [] Failed None None
      | Some name \<Rightarrow> add_record h ProcHostname ''gethostname'' name Success None None)"

definition environment_step :: "Server \<Rightarrow> string \<Rightarrow> string \<Rightarrow> string" where
  "environment_step h name payload =
     (case server_environment h name of
        None \<Rightarrow> payload
      | Some val' \<Rightarrow> (if payload = [] then [] else payload @ [CHR 0x0A]) @ name @ ''='' @ val')"

definition read_env_vars :: "Server \<Rightarrow> string list \<Rightarrow> RawStore \<Rightarrow> RawStore" where
  "read_env_vars h names =
     (let payload = fold (environment_step h) names [] in
      if payload \<noteq> [] then add_record h Src_Environment ''env'' payload Success None None
      else add_record h Src_Environment ''env'' [] NotCollected None None)"

fun interface_line :: "string \<times> InterfaceAddress \<Rightarrow> string" where
  "interface_line (name, Inet (Some address)) = name @ '' '' @ address @ [CHR 0x0A]"
| "interface_line (name, Inet6 (Some address)) = name @ '' '' @ address @ [CHR 0x0A]"
| "interface_line _ = []"

definition read_ifaddrs :: "Server \<Rightarrow> RawStore \<Rightarrow> RawStore" where
  "read_ifaddrs h =
     (case server_interfaces h of
        None \<Rightarrow> add_record h IfAddrs ''getifaddrs'' [] Failed None None
      | Some addresses \<Rightarrow>
          (let payload = concat (map interface_line addresses) in
           if payload \<noteq> [] then add_record h IfAddrs ''getifaddrs'' payload Success None None
           else add_record h IfAddrs ''getifaddrs'' [] NotCollected None None))"

section \<open>The domains\<close>

definition read_docker_marker :: "Server \<Rightarrow> RawStore \<Rightarrow> RawStore" where
  "read_docker_marker h raw =
     (case path_exists h RootDockerenv ''/.dockerenv'' raw of
        (None, raw) \<Rightarrow> raw
      | (Some True, raw) \<Rightarrow>
          add_record h RootDockerenv ''/.dockerenv''
            (case file_content h ''/.dockerenv'' of None \<Rightarrow> [] | Some content \<Rightarrow> content) Success None None raw
      | (Some False, raw) \<Rightarrow> add_record h RootDockerenv ''/.dockerenv'' [] NotCollected None None raw)"

definition read_platform :: "Server \<Rightarrow> RawStore \<Rightarrow> RawStore" where
  "read_platform h raw =
     (let raw = read_file_record h ProcCpuInfo ''/proc/cpuinfo'' raw;
          raw = read_uname h raw;
          raw = read_file_record h EtcOsRelease ''/etc/os-release'' raw;
          raw = read_hostname h raw
      in read_docker_marker h raw)"

definition nvidia_smi_query :: "RawSource \<times> string" where
  "nvidia_smi_query =
     (NvidiaSmi, ''nvidia-smi --query-gpu=index,name,memory.total,pci.bus_id,driver_version,uuid --format=csv,noheader'')"

definition lspci_query :: "RawSource \<times> string" where
  "lspci_query = (Lspci, ''lspci -nn'')"

definition compilers :: "string list" where
  "compilers = [''gcc'', ''g++'', ''clang'', ''clang++'', ''gfortran'']"

definition compiler_queries :: "string \<Rightarrow> (RawSource \<times> string) list" where
  "compiler_queries cc =
     [(CompilerVersion, cc @ '' --version''), (CompilerPath, ''command -v '' @ cc),
      (CompilerTarget, cc @ '' -dumpmachine'')]"

definition package_libraries :: "string list" where
  "package_libraries =
     [''level-zero'', ''ze_loader'', ''OpenCL'', ''openblas'', ''blas'', ''lapack'', ''fftw3'', ''libfabric'', ''hwloc'']"

definition package_queries :: "string \<Rightarrow> (RawSource \<times> string) list" where
  "package_queries library =
     [(PackageLibrary, ''pkg-config --modversion '' @ library),
      (PackageLibrary, ''pkg-config --variable=libdir '' @ library)]"

definition software_queries :: "(RawSource \<times> string) list" where
  "software_queries =
     [(NvccPath, ''readlink -f $(command -v nvcc 2>/dev/null)''), (CudaHome, ''printenv CUDA_HOME'')] @
     concat (map compiler_queries compilers) @
     [(MpiVersion, ''mpirun --version''), (MpiPath, ''command -v mpirun''),
      (IbverbsVersion, ''pkg-config --modversion libibverbs''),
      (IbverbsLibdir, ''pkg-config --variable=libdir libibverbs''),
      (UcxVersion, ''pkg-config --modversion ucx''), (RocmVersion, ''hipconfig --version''),
      (RocmVersion, ''command -v hipconfig'')]"

definition read_software :: "(json \<Rightarrow> string option) \<Rightarrow> Server \<Rightarrow> Collect \<Rightarrow> RawStore \<Rightarrow> RawStore option" where
  "read_software dump h flags raw = do {
     raw \<leftarrow> read_cmd dump h (Nvcc, ''nvcc --version'') raw;
     raw \<leftarrow> (if has flags Collect_Accelerator then Some raw
             else Option.bind (read_accelerator_backends dump h raw) (read_cmd dump h nvidia_smi_query));
     raw \<leftarrow> read_cmds dump h software_queries raw;
     let raw = fold (read_file_record h RocmVersion)
       [''/opt/rocm/.info/version'', ''/opt/rocm/.info/version-dev''] raw;
     read_cmds dump h (concat (map package_queries package_libraries)) raw
   }"

definition read_accelerators :: "(json \<Rightarrow> string option) \<Rightarrow> Server \<Rightarrow> RawStore \<Rightarrow> RawStore option" where
  "read_accelerators dump h raw = do {
     raw \<leftarrow> read_accelerator_backends dump h raw;
     read_cmds dump h [(NvidiaMigList, ''nvidia-smi -L''), nvidia_smi_query] raw
   }"

definition read_network :: "(json \<Rightarrow> string option) \<Rightarrow> Server \<Rightarrow> RawStore \<Rightarrow> RawStore option" where
  "read_network dump h raw =
     map_option (\<lambda>raw. read_file_record h ProcNetVlan ''/proc/net/vlan/config'' (read_ifaddrs h raw))
       (read_cmd dump h lspci_query raw)"

definition environment_names :: "string list" where
  "environment_names =
     [''CUDA_VISIBLE_DEVICES'', ''HIP_VISIBLE_DEVICES'', ''ONEAPI_DEVICE_SELECTOR'', ''OMP_NUM_THREADS'',
      ''MLU_VISIBLE_DEVICES'', ''container'', ''KUBERNETES_SERVICE_HOST'', ''ROCR_VISIBLE_DEVICES'',
      ''CUDA_DEVICE_ORDER'', ''ZE_AFFINITY_MASK'']"

definition read_execution :: "Server \<Rightarrow> RawStore \<Rightarrow> RawStore" where
  "read_execution h raw =
     (let raw = read_cgroup_limits h raw;
          raw = read_file_record h ProcSelfCgroup ''/proc/self/cgroup'' raw;
          raw = read_file_record h ProcSelfStatus ''/proc/self/status'' raw;
          raw = read_file_record h ProcOneCgroup ''/proc/1/cgroup'' raw
      in read_env_vars h environment_names raw)"

text \<open>The sections in their order, each with the condition it is guarded by.\<close>

definition procfs_sections ::
    "(json \<Rightarrow> string option) \<Rightarrow> Server \<Rightarrow> Collect \<Rightarrow> CollectOptions \<Rightarrow>
      (bool \<times> (RawStore \<Rightarrow> RawStore option)) list" where
  "procfs_sections dump h flags options =
     [(has flags Collect_Platform, \<lambda>raw. Some (read_platform h raw)),
      (has flags Collect_Cpu \<and> \<not> has flags Collect_Platform,
       \<lambda>raw. Some (read_file_record h ProcCpuInfo ''/proc/cpuinfo'' raw)),
      (has flags Collect_Memory,
       \<lambda>raw. read_cmd dump h (Udevadm, ''udevadm info -e'') (read_file_record h ProcMemInfo ''/proc/meminfo'' raw)),
      (has flags Collect_Accelerator, read_accelerators dump h),
      (has flags Collect_Network, read_network dump h),
      (has flags Collect_Storage,
       \<lambda>raw. read_filesystems dump h (opt_filesystems options)
               (read_file_record h StorageMountInfo ''/proc/self/mountinfo'' raw)),
      (has flags (collect_or Collect_Pci Collect_Storage) \<and> \<not> has flags Collect_Network,
       read_cmd dump h lspci_query),
      (has flags Collect_Software, read_software dump h flags),
      (has flags Collect_Execution, \<lambda>raw. Some (read_execution h raw))]"

definition read_section :: "bool \<times> (RawStore \<Rightarrow> RawStore option) \<Rightarrow> RawStore \<Rightarrow> RawStore option" where
  "read_section section' raw = (if fst section' then snd section' raw else Some raw)"

definition read_procfs ::
    "(json \<Rightarrow> string option) \<Rightarrow> Server \<Rightarrow> Collect \<Rightarrow> CollectOptions \<Rightarrow> RawStore \<Rightarrow> RawStore option" where
  "read_procfs dump h flags options = try_fold read_section (procfs_sections dump h flags options)"

end
