(* ===== verification/Cgroup_Root.thy ===== *)
theory Cgroup_Root
  imports Cgroup_Reader Partial_Reading
begin

text \<open>
  What the header of \<open>reader/linux/cgroup.hpp\<close> promises: the control group and its mounted ancestors are read
  without leaving the mount root. The lexical operations are computed on paths given by their names.
\<close>

section \<open>Paths given by their names\<close>

definition clean :: "string \<Rightarrow> bool" where
  "clean name \<longleftrightarrow> name \<noteq> [] \<and> CHR ''/'' \<notin> set name \<and> name \<noteq> ''.'' \<and> name \<noteq> ''..''"

definition abs_path :: "string list \<Rightarrow> string" where
  "abs_path names = CHR ''/'' # join_names names"

definition plain_name :: "string \<Rightarrow> bool" where
  "plain_name name \<longleftrightarrow> name \<noteq> [] \<and> CHR ''/'' \<notin> set name"

lemma clean_plain: "list_all clean names \<Longrightarrow> list_all plain_name names"
  by (auto simp: list_all_iff clean_def plain_name_def)

lemma join_names_snoc: "names \<noteq> [] \<Longrightarrow> join_names (names @ [name]) = join_names names @ CHR ''/'' # name"
  unfolding join_names_def by (induction "CHR ''/''" names rule: join.induct) (auto simp: join_Cons)

lemma join_names_append:
  "xs \<noteq> [] \<Longrightarrow> ys \<noteq> [] \<Longrightarrow> join_names (xs @ ys) = join_names xs @ CHR ''/'' # join_names ys"
proof (induction ys rule: rev_induct)
  case (snoc y ys)
  show ?case
  proof (cases "ys = []")
    case True
    then show ?thesis using snoc.prems join_names_snoc [of xs y] by (simp add: join_names_def)
  next
    case False
    then show ?thesis
      using snoc join_names_snoc [of "xs @ ys" y] join_names_snoc [of ys y] by simp
  qed
qed simp

lemma last_join_names:
  "list_all plain_name names \<Longrightarrow> names \<noteq> [] \<Longrightarrow> join_names names \<noteq> [] \<and> List.last (join_names names) \<noteq> CHR ''/''"
proof (induction names rule: rev_induct)
  case (snoc name names)
  then have "name \<noteq> []" "List.last name \<noteq> CHR ''/''" by (auto simp: plain_name_def dest: last_in_set)
  then show ?case by (cases "names = []") (simp_all add: join_names_def join_names_snoc [unfolded join_names_def])
qed simp

lemma split_names:
  "list_all plain_name names \<Longrightarrow> names \<noteq> [] \<Longrightarrow> split (join_names names) (CHR ''/'') = names"
  unfolding join_names_def by (rule split_join) (auto simp: plain_name_def list_all_iff)

lemma split_names_slash:
  "list_all plain_name names \<Longrightarrow> names \<noteq> [] \<Longrightarrow>
   split (join_names names @ ''/'') (CHR ''/'') = names @ [[]]"
proof -
  assume names: "list_all plain_name names" "names \<noteq> []"
  have "split (join_names (names @ [[]])) (CHR ''/'') = names @ [[]]"
    unfolding join_names_def by (rule split_join) (use names in \<open>auto simp: plain_name_def list_all_iff\<close>)
  then show ?thesis using names by (simp add: join_names_snoc)
qed

lemma split_slash: "split (CHR ''/'' # s) (CHR ''/'') = [] # split s (CHR ''/'')"
  by (simp add: split_def)

lemma split_empty: "split [] d = [[]]"
  by (simp add: split_def)

section \<open>Normal forms\<close>

lemma fold_clean:
  "list_all clean names \<Longrightarrow> names \<noteq> [] \<Longrightarrow> fold (normal_step absolute) names s = (rev names @ fst s, False)"
proof (induction names arbitrary: s)
  case (Cons name names)
  then have step: "normal_step absolute name s = (name # fst s, False)"
    by (cases s) (simp add: normal_step_def clean_def)
  then show ?case using Cons by (cases "names = []") simp_all
qed simp

lemma normal_absolute:
  "lexically_normal (CHR ''/'' # s) = normal_text True (fold (normal_step True) (split s (CHR ''/'')) ([], True))"
  by (simp add: lexically_normal_def split_slash normal_step_def)

lemma normal_text_clean:
  "list_all clean names \<Longrightarrow>
   normal_text True (rev names, trailing) = abs_path names @ (if names \<noteq> [] \<and> trailing then ''/'' else [])"
  by (cases names rule: rev_cases) (auto simp: normal_text_def abs_path_def clean_def join_names_def)

lemma normal_abs_path:
  assumes "list_all clean names"
  shows "lexically_normal (abs_path names) = abs_path names"
    and "lexically_normal (abs_path names @ ''/'') = abs_path names @ (if names = [] then [] else ''/'')"
    and "lexically_normal (path_append (abs_path names) ''.'') = abs_path names @ (if names = [] then [] else ''/'')"
proof -
  have nil: "join_names [] = []" "split [CHR ''/''] (CHR ''/'') = [[], []]" "split ''.'' (CHR ''/'') = [''.'']"
    by (simp_all add: join_names_def split_def)
  show "lexically_normal (abs_path names) = abs_path names"
  proof (cases "names = []")
    case True
    then show ?thesis
      using normal_text_clean [of "[]" True] by (simp add: abs_path_def normal_absolute nil split_empty normal_step_def)
  next
    case False
    then show ?thesis
      using assms normal_text_clean [OF assms, of False]
      by (simp add: abs_path_def normal_absolute split_names clean_plain fold_clean)
  qed
  show "lexically_normal (abs_path names @ ''/'') = abs_path names @ (if names = [] then [] else ''/'')"
  proof (cases "names = []")
    case True
    then show ?thesis
      using normal_text_clean [of "[]" True] by (simp add: abs_path_def normal_absolute nil normal_step_def)
  next
    case False
    then show ?thesis
      using assms normal_text_clean [OF assms, of True]
      by (simp add: abs_path_def normal_absolute split_names_slash clean_plain fold_clean normal_step_def)
  qed
  show "lexically_normal (path_append (abs_path names) ''.'') = abs_path names @ (if names = [] then [] else ''/'')"
  proof (cases "names = []")
    case True
    then show ?thesis
      using normal_text_clean [of "[]" True]
      by (simp add: abs_path_def path_append_def normal_absolute nil normal_step_def)
  next
    case False
    have dotted: "split (join_names (names @ [''.''])) (CHR ''/'') = names @ [''.'']"
      unfolding join_names_def by (rule split_join) (use assms in \<open>auto simp: clean_def list_all_iff\<close>)
    have "path_append (abs_path names) ''.'' = CHR ''/'' # join_names (names @ [''.''])"
      using last_join_names [OF clean_plain [OF assms] False] False
      by (simp add: path_append_def abs_path_def join_names_snoc)
    then show ?thesis
      using assms False normal_text_clean [OF assms, of True]
      by (simp add: normal_absolute dotted fold_clean normal_step_def)
  qed
qed

lemma normal_step_clean:
  "list_all clean (fst s) \<Longrightarrow> CHR ''/'' \<notin> set name \<Longrightarrow> list_all clean (fst (normal_step True name s))"
  by (cases s) (auto simp: normal_step_def clean_def split: list.splits)

lemma normal_form:
  obtains names trailing where "list_all clean names"
    "lexically_normal (CHR ''/'' # s) = abs_path names @ (if names \<noteq> [] \<and> trailing then ''/'' else [])"
proof -
  have "list_all clean (fst (fold (normal_step True) parts t))"
    if "\<forall>part \<in> set parts. CHR ''/'' \<notin> set part" "list_all clean (fst t)" for parts t
    using that by (induction parts arbitrary: t) (simp_all add: normal_step_clean)
  then have c: "list_all clean (fst (fold (normal_step True) (split s (CHR ''/'')) ([], True)))"
    using split_no_delim by fastforce
  obtain names trailing where r: "fold (normal_step True) (split s (CHR ''/'')) ([], True) = (names, trailing)"
    by fastforce
  show ?thesis
    by (rule that [of "rev names" trailing])
      (use c r normal_text_clean [of "rev names" trailing] in \<open>simp_all add: normal_absolute\<close>)
qed

section \<open>Where a control group is mounted\<close>

definition slash_if :: "bool \<Rightarrow> string" where
  "slash_if b = (if b then ''/'' else [])"

lemma path_elements_abs:
  assumes "list_all clean names"
  shows "path_elements (abs_path names @ slash_if (names \<noteq> [] \<and> trailing)) =
     ''/'' # names @ (if names \<noteq> [] \<and> trailing then [[]] else [])"
proof (cases "names = []")
  case True
  then show ?thesis by (simp add: path_elements_def abs_path_def slash_if_def join_names_def split_def Let_def)
next
  case False
  have plain: "list_all plain_name names" using assms by (rule clean_plain)
  have parts: "split (join_names names @ slash_if trailing) (CHR ''/'') = names @ (if trailing then [[]] else [])"
    using split_names [OF plain False] split_names_slash [OF plain False] by (simp add: slash_if_def)
  have kept: "filter (\<lambda>name. name \<noteq> []) (names @ (if trailing then [[]] else [])) = names"
    using plain by (auto simp: list_all_iff plain_name_def filter_id_conv)
  have "List.last (abs_path names @ slash_if trailing) = CHR ''/'' \<longleftrightarrow> trailing"
    using last_join_names [OF plain False] by (auto simp: abs_path_def slash_if_def)
  then show ?thesis
    using False kept by (auto simp: path_elements_def abs_path_def split_slash parts Let_def)
qed

lemma strip_common_split:
  "strip_common xs ys = (as, bs) \<Longrightarrow> \<exists>c. xs = c @ as \<and> ys = c @ bs"
proof (induction xs ys rule: strip_common.induct)
  case (1 a as' b bs')
  then show ?case by (cases "a = b") (auto intro: exI [of _ "b # _"])
qed auto

text \<open>Joining names one after the other.\<close>

lemma fold_path_join:
  assumes "list_all plain_name names" "names \<noteq> []"
  shows "fold (\<lambda>name path. path_join path name) (names @ (if trailing then [[]] else [])) [] =
     join_names names @ slash_if trailing"
proof -
  have "fold (\<lambda>name path. path_join path name) names [] = join_names names"
    using assms
  proof (induction names rule: rev_induct)
    case (snoc name names)
    have name: "name \<noteq> []" "hd name \<noteq> CHR ''/''" using snoc.prems by (auto simp: plain_name_def dest: hd_in_set)
    show ?case
    proof (cases "names = []")
      case True
      then show ?thesis using name by (simp add: path_join_def path_append_def join_names_def)
    next
      case False
      then show ?thesis
        using snoc name last_join_names [of names] by (simp add: path_join_def path_append_def join_names_snoc)
    qed
  qed simp
  then show ?thesis
    using last_join_names [OF assms] by (auto simp: slash_if_def path_join_def path_append_def)
qed

lemma relative_elements_hd:
  "list_all plain_name names \<Longrightarrow> names \<noteq> [] \<Longrightarrow> hd (path_elements (join_names names @ slash_if trailing)) = hd names"
proof -
  assume names: "list_all plain_name names" "names \<noteq> []"
  obtain n ns where ns: "names = n # ns" using names by (cases names) auto
  then have n: "n \<noteq> []" "CHR ''/'' \<notin> set n" using names by (auto simp: plain_name_def)
  have parts: "split (join_names names @ slash_if trailing) (CHR ''/'') = names @ (if trailing then [[]] else [])"
    using split_names [OF names] split_names_slash [OF names] by (simp add: slash_if_def)
  have "hd (join_names names @ slash_if trailing) \<noteq> CHR ''/''"
    using n ns by (cases ns; cases n) (auto simp: join_names_def)
  then have "path_elements (join_names names @ slash_if trailing) =
      n # filter (\<lambda>name. name \<noteq> []) ns @ (if List.last (join_names names @ slash_if trailing) = CHR ''/'' then [[]] else [])"
    using n unfolding path_elements_def parts Let_def by (simp add: ns)
  then show ?thesis by (simp add: ns)
qed

text \<open>
  The relative path from one absolute normal path to another: it climbs, or it is empty or a dot, or it is
  the names that follow.
\<close>

lemma relative_cases:
  fixes trailing
  assumes ps: "list_all clean ps" and rs: "list_all clean rs"
  defines "path \<equiv> abs_path ps @ slash_if (ps \<noteq> [] \<and> trailing)"
  obtains "lexically_relative path (abs_path rs) \<noteq> []"
    "hd (path_elements (lexically_relative path (abs_path rs))) = ''..''"
  | "lexically_relative path (abs_path rs) = ''.''"
  | names where "names \<noteq> []" "list_all clean names"
    "lexically_relative path (abs_path rs) = join_names names @ slash_if trailing"
proof -
  let ?tail = "if ps \<noteq> [] \<and> trailing then [[]] else [] :: string list"
  have elements: "path_elements path = ''/'' # ps @ ?tail" "path_elements (abs_path rs) = ''/'' # rs"
    using path_elements_abs [OF ps, of trailing] path_elements_abs [OF rs, of False]
    by (simp_all add: path_def slash_if_def)
  obtain as bs where strip: "strip_common (ps @ ?tail) rs = (as, bs)" by fastforce
  then obtain c where c: "ps @ ?tail = c @ as" "rs = c @ bs" using strip_common_split by blast
  have bs: "list_all clean bs" using rs c by simp
  have ups: "filter (\<lambda>b. b \<notin> set [[], ''.'', ''..'']) bs = bs" "filter (\<lambda>b. b = ''..'') bs = []"
    using bs by (auto simp: list_all_iff clean_def filter_id_conv filter_empty_conv)
  have relative: "lexically_relative path (abs_path rs) =
      (if as = [] \<and> bs = [] then ''.''
       else if bs = [] \<and> (as = [] \<or> hd as = []) then ''.''
       else fold (\<lambda>name path. path_join path name) (replicate (length bs) ''..'' @ as) [])"
  proof -
    have heads: "path \<noteq> []" "hd path = CHR ''/''" "abs_path rs \<noteq> []" "hd (abs_path rs) = CHR ''/''"
      by (simp_all add: path_def abs_path_def)
    have common: "strip_common (path_elements path) (path_elements (abs_path rs)) = (as, bs)"
      using strip by (simp add: elements)
    show ?thesis by (simp only: lexically_relative_def heads common ups Let_def prod.case) auto
  qed
  obtain names where names: "list_all clean names" "as = names @ ?tail \<or> (as = [] \<and> names = [])"
  proof (cases as rule: rev_cases)
    case Nil
    then show ?thesis using that [of "[]"] by simp
  next
    case (snoc ys y)
    show ?thesis
    proof (cases "ps \<noteq> [] \<and> trailing")
      case True
      then have "y = []" "ps = c @ ys" using c(1) snoc by simp_all
      then show ?thesis using that [of ys] ps snoc True by simp
    next
      case False
      then show ?thesis using that [of as] ps c(1) by auto
    qed
  qed
  show ?thesis
  proof (cases "bs = []")
    case False
    let ?climb = "replicate (length bs) ''..'' @ names"
    have climb: "list_all plain_name ?climb" "?climb \<noteq> []" "hd ?climb = ''..''"
      using False clean_plain [OF names(1)] by (auto simp: list_all_iff plain_name_def hd_append)
    have "\<exists>t. lexically_relative path (abs_path rs) = join_names ?climb @ slash_if t"
      using names(2) relative False fold_path_join [OF climb(1,2), of True] fold_path_join [OF climb(1,2), of False]
      by (auto simp: append_assoc split: if_splits)
    then obtain t where t: "lexically_relative path (abs_path rs) = join_names ?climb @ slash_if t" by blast
    show ?thesis
      by (rule that(1)) (use relative_elements_hd [OF climb(1,2), of t] climb last_join_names [OF climb(1,2)] t in auto)
  next
    case True
    show ?thesis
    proof (cases "names = []")
      case True
      then have "as = [] \<or> hd as = []" using names(2) by (auto split: if_splits)
      then have "lexically_relative path (abs_path rs) = ''.''" using relative \<open>bs = []\<close> by auto
      then show ?thesis by (rule that(2))
    next
      case False
      then have as: "as = names @ ?tail" using names by auto
      have nonempty: "ps \<noteq> []"
        using as False c(1) by (cases ps) auto
      then have as': "as = names @ (if trailing then [[]] else [])" using as by simp
      have "hd as \<noteq> []" using False names(1) as by (cases names) (auto simp: clean_def)
      then have "lexically_relative path (abs_path rs) =
          fold (\<lambda>name path. path_join path name) (names @ (if trailing then [[]] else [])) []"
        using relative \<open>bs = []\<close> False as' by simp
      then show ?thesis
        using that(3) [OF False names(1)] fold_path_join [OF clean_plain [OF names(1)] False, of trailing] by simp
    qed
  qed
qed

lemma normal_relative:
  assumes "path = [] \<or> hd path \<noteq> CHR ''/''"
  shows "lexically_normal path = [] \<or> hd (lexically_normal path) \<noteq> CHR ''/''"
proof (cases "path = []")
  case False
  have step: "list_all plain_name (fst (normal_step False name s))"
    if "list_all plain_name (fst s)" "CHR ''/'' \<notin> set name" for name s
    using that by (cases s) (auto simp: normal_step_def plain_name_def split: list.splits)
  have steps: "list_all plain_name (fst (fold (normal_step False) parts s))"
    if "\<forall>part \<in> set parts. CHR ''/'' \<notin> set part" "list_all plain_name (fst s)" for parts s
    using that by (induction parts arbitrary: s) (simp_all add: step)
  obtain names trailing where r: "fold (normal_step False) (split path (CHR ''/'')) ([], False) = (names, trailing)"
    by fastforce
  have plain: "list_all plain_name (rev names)"
    using steps [of "split path (CHR ''/'')" "([], False)"] split_no_delim [of _ path "CHR ''/''"] r by auto
  have "hd (join_names (rev names)) \<noteq> CHR ''/'' \<and> join_names (rev names) \<noteq> []" if ne: "names \<noteq> []"
  proof -
    obtain n ns where ns: "rev names = n # ns" using ne by (cases "rev names") auto
    then show ?thesis using plain by (cases ns; cases n) (auto simp: join_names_def plain_name_def)
  qed
  moreover have "lexically_normal path = normal_text False (names, trailing)"
    using False assms r by (simp add: lexically_normal_def)
  ultimately show ?thesis by (cases "names = []") (auto simp: normal_text_def Let_def join_names_def)
qed (simp add: lexically_normal_def)

text \<open>A directory at or below the mount point, as the reader may spell it.\<close>

definition level :: "string list \<Rightarrow> string \<Rightarrow> bool" where
  "level ms dir \<longleftrightarrow>
     (\<exists>names trailing. list_all clean names \<and>
        dir = abs_path (ms @ names) @ slash_if (ms @ names \<noteq> [] \<and> trailing))"

lemma cgroup_leaf_level:
  assumes ms: "list_all clean ms" and rs: "list_all clean rs"
    and leaf: "cgroup_leaf (abs_path rs) (abs_path ms) (lexically_normal path) = Some leaf"
  shows "level ms leaf"
proof -
  let ?path = "lexically_normal path"
  let ?relative = "if ?path = ''/'' then [] else lexically_relative ?path (abs_path rs)"
  have here: "level ms (abs_path ms @ slash_if (ms \<noteq> [] \<and> trailing))" for trailing
    unfolding level_def by (rule exI [of _ "[]"]) auto
  have leaf_eq: "leaf = lexically_normal (path_join (abs_path ms) ?relative)"
    and down: "\<not> (?relative \<noteq> [] \<and> hd (path_elements ?relative) = ''..'')"
    and listed: "\<not> (?relative = [] \<and> ?path \<noteq> ''/'' \<and> ?path \<noteq> abs_path rs)"
    using leaf by (auto simp: cgroup_leaf_def Let_def split: if_splits)
  have mount_last: "List.last (abs_path ms) = CHR ''/'' \<longleftrightarrow> ms = []"
    using last_join_names [OF clean_plain [OF ms]] by (cases "ms = []") (auto simp: abs_path_def join_names_def)
  have nonempty: "abs_path names \<noteq> []" for names by (simp add: abs_path_def)
  have at_mount: "level ms (lexically_normal (path_join (abs_path ms) []))"
  proof -
    have "path_join (abs_path ms) [] = (if ms = [] then abs_path ms else abs_path ms @ ''/'')"
      using mount_last nonempty by (simp add: path_join_def path_append_def)
    then show ?thesis
      using normal_abs_path [OF ms] here [of True] here [of False] by (auto simp: slash_if_def split: if_splits)
  qed
  show ?thesis
  proof (cases "?relative = []")
    case True
    then show ?thesis using at_mount leaf_eq by simp
  next
    case False
    have "path \<noteq> [] \<and> hd path = CHR ''/''"
    proof (rule ccontr)
      assume "\<not> ?thesis"
      then have "?path = [] \<or> hd ?path \<noteq> CHR ''/''" by (intro normal_relative) auto
      then have "lexically_relative ?path (abs_path rs) = []" by (auto simp: lexically_relative_def abs_path_def)
      then show False using False by (simp split: if_splits)
    qed
    then obtain s where s: "path = CHR ''/'' # s" by (cases path) auto
    obtain ps trailing where ps: "list_all clean ps" and p: "?path = abs_path ps @ (if ps \<noteq> [] \<and> trailing then ''/'' else [])"
      unfolding s by (rule normal_form)
    have relative: "?relative = lexically_relative (abs_path ps @ slash_if (ps \<noteq> [] \<and> trailing)) (abs_path rs)"
      using False p by (auto simp: slash_if_def split: if_splits)
    show ?thesis
    proof (rule relative_cases [OF ps rs, of trailing], goal_cases)
      case 1
      then show ?case using down relative by simp
    next
      case 2
      then have "leaf = lexically_normal (path_append (abs_path ms) ''.'')"
        using leaf_eq relative by (simp add: path_join_def)
      then show ?case
        using normal_abs_path(3) [OF ms] here [of True] here [of False] by (auto simp: slash_if_def split: if_splits)
    next
      case (3 names)
      have all: "list_all clean (ms @ names)" "ms @ names \<noteq> []" using ms 3 by simp_all
      have first: "join_names names @ slash_if trailing \<noteq> []" "hd (join_names names @ slash_if trailing) \<noteq> CHR ''/''"
      proof -
        obtain n ns where "names = n # ns" "n \<noteq> []" "CHR ''/'' \<notin> set n"
          using 3 by (cases names) (auto simp: clean_def)
        then show "join_names names @ slash_if trailing \<noteq> []" "hd (join_names names @ slash_if trailing) \<noteq> CHR ''/''"
          by (cases ns; cases n; auto simp: join_names_def)+
      qed
      have "path_join (abs_path ms) ?relative = abs_path (ms @ names) @ slash_if trailing"
        using first mount_last nonempty 3 relative
        by (cases "ms = []") (simp_all add: path_join_def path_append_def abs_path_def join_names_append,
          simp_all add: join_names_def)
      then have "leaf = abs_path (ms @ names) @ slash_if (ms @ names \<noteq> [] \<and> trailing)"
        using leaf_eq normal_abs_path(1,2) [OF all(1)] all(2) by (auto simp: slash_if_def)
      then show ?case unfolding level_def using 3 by blast
    qed
  qed
qed

section \<open>The reader stays at or below the mount\<close>

lemma parent_of_level:
  assumes ms: "list_all clean ms" and "level ms leaf" "leaf \<noteq> abs_path ms"
  shows "level ms (parent_path leaf)"
proof -
  obtain names trailing where names: "list_all clean names"
    "leaf = abs_path (ms @ names) @ slash_if (ms @ names \<noteq> [] \<and> trailing)"
    using assms(2) unfolding level_def by blast
  have all: "list_all plain_name (ms @ names)" using ms names(1) clean_plain by simp
  have closed: "level ms (abs_path (ms @ names'))" if "list_all clean names'" for names'
    unfolding level_def using that by (intro exI [of _ names'] exI [of _ False]) (simp add: slash_if_def)
  show ?thesis
  proof (cases "ms @ names \<noteq> [] \<and> trailing")
    case True
    have "List.last (abs_path (ms @ names)) \<noteq> CHR ''/''"
      using last_join_names [OF all] True by (simp add: abs_path_def)
    then have "parent_path (abs_path (ms @ names) @ ''/'' @ []) = abs_path (ms @ names)"
      using parent_path_append [of "[]" "abs_path (ms @ names)"] by (simp add: abs_path_def)
    then show ?thesis using closed [OF names(1)] names(2) True by (simp add: slash_if_def)
  next
    case False
    then have leaf: "leaf = abs_path (ms @ names)" using names(2) by (simp add: slash_if_def)
    then have "names \<noteq> []" using assms(3) by auto
    then obtain ns n where ns: "names = ns @ [n]" by (cases names rule: rev_cases) auto
    have n: "CHR ''/'' \<notin> set n" using all ns by (simp add: plain_name_def)
    have "parent_path leaf = abs_path (ms @ ns)"
    proof (cases "ms @ ns = []")
      case True
      then show ?thesis
        using n rfind_char_append [of "CHR ''/''" n "[]"]
        by (simp add: leaf ns abs_path_def join_names_def parent_path_def strip_slashes_def)
    next
      case False
      have "List.last (abs_path (ms @ ns)) \<noteq> CHR ''/''"
        using last_join_names [of "ms @ ns"] all False ns by (auto simp: abs_path_def)
      then show ?thesis
        using parent_path_append [OF n, of "abs_path (ms @ ns)"] False join_names_snoc [of "ms @ ns" n]
        by (simp add: leaf ns abs_path_def)
    qed
    then show ?thesis using closed [of ns] names(1) ns by simp
  qed
qed

text \<open>The directory that a mount point is, with its separator.\<close>

definition mount_dir :: "string \<Rightarrow> string" where
  "mount_dir mount = (if mount = ''/'' then mount else mount @ ''/'')"

lemma level_file:
  assumes ms: "list_all clean ms" and "level ms dir"
  shows "prefix (mount_dir (abs_path ms)) (path_append dir name)"
proof -
  obtain names trailing where names: "list_all clean names"
    "dir = abs_path (ms @ names) @ slash_if (ms @ names \<noteq> [] \<and> trailing)"
    using assms(2) unfolding level_def by blast
  have all: "list_all plain_name (ms @ names)" using ms names(1) clean_plain by simp
  have last: "List.last (abs_path (ms @ names)) = CHR ''/'' \<longleftrightarrow> ms @ names = []"
    using last_join_names [OF all] by (cases "ms @ names = []") (auto simp: abs_path_def join_names_def)
  have spelled: "path_append dir name = abs_path (ms @ names) @ (if ms @ names = [] then [] else ''/'') @ name"
    using last names(2) by (auto simp: path_append_def slash_if_def abs_path_def)
  have root: "abs_path ms = ''/'' \<longleftrightarrow> ms = []"
    using last_join_names [OF clean_plain [OF ms]] by (cases "ms = []") (auto simp: abs_path_def join_names_def)
  show ?thesis
  proof (cases "ms = [] \<or> names = []")
    case True
    then show ?thesis using root by (auto simp: mount_dir_def spelled) (auto simp: abs_path_def)
  next
    case False
    then have "abs_path (ms @ names) = abs_path ms @ CHR ''/'' # join_names names"
      by (simp add: abs_path_def join_names_append)
    then show ?thesis using False root by (simp add: mount_dir_def spelled)
  qed
qed

definition files_below :: "string \<Rightarrow> RawStore \<Rightarrow> RawStore \<Rightarrow> bool" where
  "files_below mount raw raw' \<longleftrightarrow>
     (\<exists>rs. raw_records raw' = raw_records raw @ rs \<and>
        list_all (\<lambda>r. prefix (mount_dir mount) (rec_path_or_command r)) rs)"

lemma files_below_refl: "files_below mount raw raw"
  by (simp add: files_below_def)

lemma files_below_trans: "files_below mount raw raw' \<Longrightarrow> files_below mount raw' raw'' \<Longrightarrow> files_below mount raw raw''"
  by (auto simp: files_below_def)

lemma files_below_add:
  "prefix (mount_dir mount) path \<Longrightarrow> files_below mount raw (add_record h source path payload status failure skip raw)"
  by (simp add: files_below_def add_record_def)

lemma read_level_below:
  "list_all clean ms \<Longrightarrow> level ms leaf \<Longrightarrow>
   files_below (abs_path ms) raw (read_level h mount current leaf name raw)"
  by (auto simp: read_level_def Let_def files_below_refl level_file intro!: files_below_add split: option.splits)

lemma fold_below: "(\<And>x raw. files_below mount raw (f x raw)) \<Longrightarrow> files_below mount raw (fold f xs raw)"
  by (induction xs arbitrary: raw) (auto intro: files_below_refl files_below_trans)

lemma read_hierarchy_below:
  "list_all clean ms \<Longrightarrow> level ms leaf \<Longrightarrow>
   files_below (abs_path ms) raw (read_hierarchy h (abs_path ms) names current leaf raw)"
proof (induction "length leaf" arbitrary: leaf current raw rule: less_induct)
  case less
  have here: "files_below (abs_path ms) raw (fold (read_level h (abs_path ms) current leaf) names raw)"
    using less.prems by (intro fold_below read_level_below)
  show ?case
  proof (cases "leaf = abs_path ms \<or> parent_path leaf = leaf")
    case True
    then show ?thesis using here by (auto simp: read_hierarchy.simps [of h "abs_path ms" names current leaf] Let_def)
  next
    case False
    then show ?thesis
      using here less.hyps [OF parent_path_shorter less.prems(1) parent_of_level [OF less.prems]]
      by (simp add: read_hierarchy.simps [of h "abs_path ms" names current leaf] Let_def) (blast intro: files_below_trans)
  qed
qed

text \<open>C16: Whatever the membership file says and wherever the control group lies, every file the reader looks at for a
  mounted hierarchy is in the mount point or below it: no ancestor beyond the mount is read.
\<close>

theorem cgroup_files_below_mount:
  assumes "list_all clean ms" "list_all clean rs"
  shows "files_below (abs_path ms) raw (read_cgroup h (abs_path rs) (abs_path ms) unified options g raw)"
  using assms
  by (auto simp: read_cgroup_def Let_def files_below_refl read_hierarchy_below cgroup_leaf_level split: option.splits)

theorem cgroup_files_below_mount_witness:
  "files_below ''/sys/fs/cgroup'' RawStore_default
     (read_cgroup silent_server ''/'' ''/sys/fs/cgroup'' True ''rw'' ''0::/user.slice/app'' RawStore_default) \<and>
   length (raw_records (read_cgroup silent_server ''/'' ''/sys/fs/cgroup'' True ''rw'' ''0::/user.slice/app''
     RawStore_default)) = 13"
proof -
  have paths: "abs_path [''sys'', ''fs'', ''cgroup''] = ''/sys/fs/cgroup''" "abs_path [] = ''/''" by code_simp+
  have "list_all clean [''sys'', ''fs'', ''cgroup'']" "list_all clean []" by code_simp+
  then have "files_below ''/sys/fs/cgroup'' RawStore_default
     (read_cgroup silent_server ''/'' ''/sys/fs/cgroup'' True ''rw'' ''0::/user.slice/app'' RawStore_default)"
    using cgroup_files_below_mount [of "[''sys'', ''fs'', ''cgroup'']" "[]"] by (simp add: paths)
  moreover have "length (raw_records (read_cgroup silent_server ''/'' ''/sys/fs/cgroup'' True ''rw''
     ''0::/user.slice/app'' RawStore_default)) = 13" by code_simp
  ultimately show ?thesis ..
qed

text \<open>
  A process in the control group that is mounted: the joined path ends in a separator, so that it is not the
  mount point yet, and the same directory is read twice.
\<close>

lemma mounted_group_read_twice:
  "cgroup_leaf ''/'' ''/sys/fs/cgroup'' ''/'' = Some ''/sys/fs/cgroup/'' \<and>
   hierarchy ''/sys/fs/cgroup'' ''/sys/fs/cgroup/'' = [''/sys/fs/cgroup/'', ''/sys/fs/cgroup''] \<and>
   map rec_path_or_command (raw_records
     (read_hierarchy silent_server ''/sys/fs/cgroup'' [''cpu.max''] True ''/sys/fs/cgroup/'' RawStore_default)) =
     [''/sys/fs/cgroup/cpu.max'', ''/sys/fs/cgroup/cpu.max''] \<and>
   map rec_status (raw_records
     (read_hierarchy silent_server ''/sys/fs/cgroup'' [''cpu.max''] True ''/sys/fs/cgroup/'' RawStore_default)) =
     [Failed, NotCollected]"
  by code_simp

end
