(* ===== verification/Server_Machine.thy ===== *)
theory Server_Machine
  imports Sysfs_Reader Procfs_Reader Cgroup_Root Pipeline
begin

text \<open>
  The readers in the pipeline: a host becomes the machine a collection runs on. The theorems say which
  sources a collection may look at, and that the readers keep the request, which refreshing relies on.
\<close>

section \<open>The machine of a host\<close>

definition server_machine ::
    "nat \<Rightarrow> (string \<Rightarrow> json) \<Rightarrow> (json \<Rightarrow> string option) \<Rightarrow> Server \<Rightarrow> Machine" where
  "server_machine extra parse dump h =
     \<lparr>long_double_extra = extra, json_parse = parse,
      procfs_reader = (\<lambda>flags options. read_procfs dump h flags options),
      sysfs_reader = (\<lambda>flags options. read_sysfs_evidence parse h flags options)\<rparr>"

section \<open>The sources of a domain\<close>

text \<open>The domains for which a source is read.\<close>

definition any_of :: "Collect list \<Rightarrow> Collect" where
  "any_of flags = foldr collect_or flags 0"

fun source_domains :: "RawSource \<Rightarrow> Collect list" where
  "source_domains ProcCpuInfo = [Collect_Platform, Collect_Cpu]"
| "source_domains Uname = [Collect_Platform]"
| "source_domains ProcVersion = [Collect_Platform]"
| "source_domains EtcOsRelease = [Collect_Platform]"
| "source_domains ProcHostname = [Collect_Platform]"
| "source_domains RootDockerenv = [Collect_Platform]"
| "source_domains SysfsDmi = [Collect_Platform]"
| "source_domains SysHypervisor = [Collect_Platform]"
| "source_domains ProcMemInfo = [Collect_Memory]"
| "source_domains Udevadm = [Collect_Memory]"
| "source_domains SysfsEdac = [Collect_Memory]"
| "source_domains SysfsCpu = [Collect_Cpu]"
| "source_domains SysfsNuma = [Collect_Cpu, Collect_Memory]"
| "source_domains Nvml = [Collect_Accelerator, Collect_Software]"
| "source_domains SysfsDrm = [Collect_Accelerator, Collect_Software]"
| "source_domains AcceleratorRuntime = [Collect_Accelerator, Collect_Software]"
| "source_domains NvidiaSmi = [Collect_Accelerator, Collect_Software]"
| "source_domains NvidiaMigList = [Collect_Accelerator]"
| "source_domains Lspci = [Collect_Network, Collect_Pci, Collect_Storage]"
| "source_domains IfAddrs = [Collect_Network]"
| "source_domains ProcNetVlan = [Collect_Network]"
| "source_domains SysfsNet = [Collect_Network]"
| "source_domains SysfsRdma = [Collect_Network]"
| "source_domains Ethtool = [Collect_Network]"
| "source_domains SysfsPci = [Collect_Pci, Collect_Network, Collect_Storage, Collect_StorageHealth]"
| "source_domains SysfsBlock = [Collect_Storage, Collect_StorageHealth]"
| "source_domains SysfsStorageConnections = [Collect_Storage, Collect_StorageHealth]"
| "source_domains StorageMountInfo = [Collect_Storage]"
| "source_domains Src_FilesystemUsage = [Collect_Storage]"
| "source_domains StorageHealthSysfs = [Collect_StorageHealth]"
| "source_domains Smartctl = [Collect_StorageHealth]"
| "source_domains NvmeSmartLog = [Collect_StorageHealth]"
| "source_domains SysfsHwmon = [Collect_Sensors]"
| "source_domains SysfsThermal = [Collect_Sensors, Collect_Cpu]"
| "source_domains CgroupMountInfo = [Collect_Execution]"
| "source_domains CgroupFile = [Collect_Execution]"
| "source_domains ProcSelfCgroup = [Collect_Execution]"
| "source_domains ProcSelfStatus = [Collect_Execution]"
| "source_domains ProcOneCgroup = [Collect_Execution]"
| "source_domains Src_Environment = [Collect_Execution]"
| "source_domains Nvcc = [Collect_Software]"
| "source_domains NvccPath = [Collect_Software]"
| "source_domains CudaHome = [Collect_Software]"
| "source_domains CompilerVersion = [Collect_Software]"
| "source_domains CompilerPath = [Collect_Software]"
| "source_domains CompilerTarget = [Collect_Software]"
| "source_domains MpiVersion = [Collect_Software]"
| "source_domains MpiPath = [Collect_Software]"
| "source_domains IbverbsVersion = [Collect_Software]"
| "source_domains IbverbsLibdir = [Collect_Software]"
| "source_domains UcxVersion = [Collect_Software]"
| "source_domains RocmVersion = [Collect_Software]"
| "source_domains PackageLibrary = [Collect_Software]"
| "source_domains _ = []"

definition wanted :: "Collect \<Rightarrow> RawSource set" where
  "wanted flags = {source. list_ex (has flags) (source_domains source)}"

lemma wanted_iff [simp]: "source \<in> wanted flags \<longleftrightarrow> list_ex (has flags) (source_domains source)"
  by (simp add: wanted_def)

section \<open>The sections read what is wanted\<close>

lemma read_cmd_extends [reading]:
  "fst query \<in> sources \<Longrightarrow> extended sources kinds raw raw' \<Longrightarrow>
   extends_option sources kinds raw (read_cmd dump h query raw')"
  by (cases "command_payload dump (run_command h (snd query))") (auto simp: read_cmd_def Let_def intro!: reading)

lemma read_cmds_extends:
  "fst ` set queries \<subseteq> sources \<Longrightarrow> extended sources kinds raw raw' \<Longrightarrow>
   extends_option sources kinds raw (read_cmds dump h queries raw')"
  by (intro reading) auto

lemma read_level_extended [reading]:
  "CgroupFile \<in> sources \<Longrightarrow> extended sources kinds raw raw' \<Longrightarrow>
   extended sources kinds raw (read_level h mount current leaf name raw')"
  by (auto simp: read_level_def Let_def split: option.splits intro!: reading)

lemma read_hierarchy_extended [reading]:
  "CgroupFile \<in> sources \<Longrightarrow> extended sources kinds raw raw' \<Longrightarrow>
   extended sources kinds raw (read_hierarchy h mount names current leaf raw')"
proof (induction "length leaf" arbitrary: leaf current raw' rule: less_induct)
  case less
  have here: "extended sources kinds raw (fold (read_level h mount current leaf) names raw')"
    using less.prems by (intro reading)
  show ?case
    using here less.hyps [OF parent_path_shorter less.prems(1) here]
    by (auto simp: read_hierarchy.simps [of h mount names current leaf] Let_def)
qed

lemma read_cgroup_extended [reading]:
  "CgroupFile \<in> sources \<Longrightarrow> extended sources kinds raw raw' \<Longrightarrow>
   extended sources kinds raw (read_cgroup h root mount unified options g raw')"
  by (auto simp: read_cgroup_def Let_def split: option.splits intro!: reading)

lemma read_cgroup_mount_extended [reading]:
  "CgroupFile \<in> sources \<Longrightarrow> extended sources kinds raw raw' \<Longrightarrow>
   extended sources kinds raw (read_cgroup_mount h membership line raw')"
  by (auto simp: read_cgroup_mount_def Let_def split: option.splits intro!: reading)

lemma read_cgroup_limits_extended [reading]:
  "{CgroupFile, CgroupMountInfo} \<subseteq> sources \<Longrightarrow> extended sources kinds raw raw' \<Longrightarrow>
   extended sources kinds raw (read_cgroup_limits h raw')"
  by (auto simp: read_cgroup_limits_def split: option.splits intro!: reading)

lemma read_execution_extended:
  "has flags Collect_Execution \<Longrightarrow> extended (wanted flags) kinds raw raw' \<Longrightarrow>
   extended (wanted flags) kinds raw (read_execution h raw')"
  by (auto simp: read_execution_def read_env_vars_def Let_def intro!: reading)

lemma read_platform_extended:
  "has flags Collect_Platform \<Longrightarrow> extended (wanted flags) kinds raw raw' \<Longrightarrow>
   extended (wanted flags) kinds raw (read_platform h raw')"
  by (auto simp: read_platform_def read_uname_def read_hostname_def read_docker_marker_def path_exists_def Let_def
      split: option.splits sum.splits bool.splits intro!: reading)

lemma read_accelerator_backends_extends [reading]:
  "accelerator_sources \<subseteq> sources \<Longrightarrow> extended sources kinds raw raw' \<Longrightarrow>
   extends_option sources kinds raw (read_accelerator_backends dump h raw')"
  unfolding read_accelerator_backends_def by (intro reading) auto

lemma read_accelerators_extends:
  "has flags Collect_Accelerator \<Longrightarrow> extended (wanted flags) kinds raw raw' \<Longrightarrow>
   extends_option (wanted flags) kinds raw (read_accelerators dump h raw')"
  unfolding read_accelerators_def
  by (intro extends_option_bind read_accelerator_backends_extends read_cmds_extends) (auto simp: nvidia_smi_query_def)

lemma read_network_extends:
  "has flags Collect_Network \<Longrightarrow> extended (wanted flags) kinds raw raw' \<Longrightarrow>
   extends_option (wanted flags) kinds raw (read_network dump h raw')"
proof -
  assume net: "has flags Collect_Network" and e: "extended (wanted flags) kinds raw raw'"
  have "read_network dump h raw' = Option.bind (read_cmd dump h lspci_query raw')
      (\<lambda>raw. Some (read_file_record h ProcNetVlan ''/proc/net/vlan/config'' (read_ifaddrs h raw)))"
    by (cases "read_cmd dump h lspci_query raw'") (simp_all add: read_network_def)
  then show ?thesis
    using net e by (auto simp: lspci_query_def read_ifaddrs_def Let_def split: option.splits intro!: reading)
qed

lemma software_query_sources: "fst ` set software_queries \<subseteq> {NvccPath, CudaHome, CompilerVersion, CompilerPath,
    CompilerTarget, MpiVersion, MpiPath, IbverbsVersion, IbverbsLibdir, UcxVersion, RocmVersion}"
  by (auto simp: software_queries_def compilers_def compiler_queries_def)

lemma package_sources: "fst ` set (concat (map package_queries package_libraries)) \<subseteq> {PackageLibrary}"
  by (auto simp: package_queries_def)

lemma read_software_extends:
  assumes "has flags Collect_Software" "extended (wanted flags) kinds raw raw'"
  shows "extends_option (wanted flags) kinds raw (read_software dump h flags raw')"
proof -
  have queries: "fst ` set software_queries \<subseteq> wanted flags"
    by (rule subset_trans [OF software_query_sources]) (use assms in simp)
  have packages: "fst ` set (concat (map package_queries package_libraries)) \<subseteq> wanted flags"
    by (rule subset_trans [OF package_sources]) (use assms in simp)
  have accelerators: "extends_option (wanted flags) kinds raw
      (if has flags Collect_Accelerator then Some raw''
       else Option.bind (read_accelerator_backends dump h raw'') (read_cmd dump h nvidia_smi_query))"
    if "extended (wanted flags) kinds raw raw''" for raw''
    using that assms by (auto simp: nvidia_smi_query_def intro!: reading)
  have versions: "extended (wanted flags) kinds raw
      (fold (read_file_record h RocmVersion) [''/opt/rocm/.info/version'', ''/opt/rocm/.info/version-dev''] raw'')"
    if "extended (wanted flags) kinds raw raw''" for raw''
    using that assms by (intro reading) simp
  have "extends_option (wanted flags) kinds raw (read_cmd dump h (Nvcc, ''nvcc --version'') raw')"
    using assms by (intro reading) simp_all
  then show ?thesis
    unfolding read_software_def Let_def
    by (intro extends_option_bind accelerators read_cmds_extends queries packages versions)
qed

lemma read_filesystems_extends [reading]:
  "Src_FilesystemUsage \<in> sources \<Longrightarrow> extended sources kinds raw raw' \<Longrightarrow>
   extends_option sources kinds raw (read_filesystems dump h policy raw')"
  by (auto simp: read_filesystems_def Let_def split: option.splits prod.splits intro!: reading)

lemma section_extends:
  assumes "section' \<in> set (procfs_sections dump h flags options)" "extended (wanted flags) kinds raw raw'"
  shows "extends_option (wanted flags) kinds raw (read_section section' raw')"
  using assms
  by (auto simp: procfs_sections_def read_section_def has_or lspci_query_def
      intro!: read_execution_extended read_platform_extended read_accelerators_extends read_network_extends
        read_software_extends reading)

interpretation procfs_reader: partial_reader "read_procfs dump h flags options" "wanted flags" "{}"
  for dump h flags options
  by (rule partial_readerI)
    (simp add: read_procfs_def extends_option_fold extended_refl section_extends)

text \<open>A reader in the dispatch whose domains are requested.\<close>

abbreviation all_kinds :: "InventoryKind set" where
  "all_kinds \<equiv> {LogicalCpus, NumaNodes, NetworkInterfaces, PciDevices, BlockDevices}"

lemma dispatch_extended:
  assumes "entry \<in> set (reader_dispatch parse h)" "extended (wanted flags) all_kinds raw raw'"
  shows "extended (wanted flags) all_kinds raw (dispatch_reader flags entry raw')"
proof (cases "has flags (fst entry)")
  case False
  then show ?thesis using assms(2) by (simp add: dispatch_reader_def)
next
  case True
  have step: "extended (wanted flags) all_kinds raw raw''"
    if "extended sources kinds raw' raw''" "sources \<subseteq> wanted flags" "kinds \<subseteq> all_kinds"
    for raw'' sources kinds
    using extended_trans [OF assms(2) extended_mono [OF that]] .
  have "extended (wanted flags) all_kinds raw (snd entry raw')"
    using assms(1) True
    by (auto simp: reader_dispatch_def has_or
        intro!: step [OF cpu_reader.appends] step [OF numa_reader.appends] step [OF net_reader.appends]
          step [OF rdma_reader.appends] step [OF pci_reader.appends] step [OF block_reader.appends]
          step [OF connections_reader.appends] step [OF dmi_reader.appends] step [OF hypervisor_reader.appends]
          step [OF edac_reader.appends] step [OF health_reader.appends])
  then show ?thesis using True by (simp add: dispatch_reader_def)
qed

interpretation sysfs_reader: partial_reader "read_sysfs_evidence parse h flags options" "wanted flags" all_kinds
  for parse h flags options
proof unfold_locales
  fix raw raw'
  let ?read = "fold (dispatch_reader flags) (reader_dispatch parse h) raw"
  assume r: "read_sysfs_evidence parse h flags options raw = Some raw'"
  have dispatched: "extended (wanted flags) all_kinds raw ?read"
    by (intro fold_extended dispatch_extended extended_refl)
  show "extended (wanted flags) all_kinds raw raw'"
    using r dispatched
    by (auto simp: read_sysfs_evidence_def Let_def split: if_splits
        intro: read_sensors_extended read_thermal_sensors_extended)
qed

section \<open>The evidence of a collection\<close>

lemma evidence_extended:
  assumes "read_evidence (server_machine extra parse dump h) flags options = Some raw"
  shows "extended (wanted flags) all_kinds
     (RawStore_default\<lparr>raw_collection_request := Some \<lparr>req_flags = flags, req_options = options\<rparr>\<rparr>) raw"
proof -
  let ?start = "RawStore_default\<lparr>raw_collection_request := Some \<lparr>req_flags = flags, req_options = options\<rparr>\<rparr>"
  obtain mid where mid: "read_procfs dump h flags options ?start = Some mid"
    "read_sysfs_evidence parse h flags options mid = Some raw"
    using assms by (auto simp: read_evidence_def server_machine_def Let_def bind_eq_Some_conv)
  have "extended (wanted flags) all_kinds ?start mid"
    using extended_mono [OF procfs_reader.appended [OF mid(1)] subset_refl empty_subsetI] .
  then show ?thesis using sysfs_reader.appended [OF mid(2)] by (rule extended_trans)
qed

text \<open>C4: A collection looks only where the request points: every record of the evidence comes from a source of a
  requested domain, every enumeration is of an inventory the readers know, and the store holds the request itself.
\<close>

theorem evidence_within_request:
  "pred_option (\<lambda>raw.
     list_all (\<lambda>r. list_ex (has flags) (source_domains (rec_source r))) (raw_records raw) \<and>
     list_all (\<lambda>e. ie_inventory e \<in> all_kinds) (raw_enumerations raw) \<and>
     raw_collection_request raw = Some \<lparr>req_flags = flags, req_options = options\<rparr>)
   (read_evidence (server_machine extra parse dump h) flags options)"
proof (cases "read_evidence (server_machine extra parse dump h) flags options")
  case (Some raw)
  then show ?thesis using evidence_extended [OF Some] by (auto simp: extended_def RawStore_default_def)
qed simp

text \<open>The readers leave the request in the store alone.\<close>

lemma server_keeps_request: "keeps_request (server_machine extra parse dump h)"
  using procfs_reader.request_kept sysfs_reader.request_kept
  by (simp add: keeps_request_def server_machine_def)

end
