(* ===== verification/Network_Evidence.thy ===== *)
theory Network_Evidence
  imports Sysfs_Reader Inventory Network_Parser Partial_Reading
begin

text \<open>
  From the host to the model: the interfaces that the network parser finds in what the reader of
  \<open>/sys/class/net\<close> stored are the directories the kernel lists there, and the inventory is complete
  exactly when the listing succeeded and holds nothing else.
\<close>

section \<open>The records of one directory\<close>

text \<open>Only records of one source are added, and the successful ones are about paths below a directory.\<close>

definition adds_below :: "RawSource \<Rightarrow> string \<Rightarrow> RawStore \<Rightarrow> RawStore \<Rightarrow> bool" where
  "adds_below source dir raw raw' \<longleftrightarrow>
     (\<exists>rs. raw_records raw' = raw_records raw @ rs \<and>
        list_all (\<lambda>r. rec_source r = source \<longrightarrow> rec_status r = Success \<longrightarrow>
          prefix (dir @ ''/'') (rec_path_or_command r)) rs)"

named_theorems below

lemma adds_below_refl [below]: "adds_below source dir raw raw"
  by (simp add: adds_below_def)

lemma adds_below_add [below]:
  "(source' = source \<Longrightarrow> status = Success \<Longrightarrow> prefix (dir @ ''/'') path) \<Longrightarrow> adds_below source dir raw raw' \<Longrightarrow>
   adds_below source dir raw (add_record h source' path payload status failure skip raw')"
  by (auto simp: adds_below_def add_record_def)

lemma adds_below_fold [below]:
  "(\<And>x raw'. x \<in> set xs \<Longrightarrow> adds_below source dir raw raw' \<Longrightarrow> adds_below source dir raw (f x raw')) \<Longrightarrow>
   adds_below source dir raw raw' \<Longrightarrow> adds_below source dir raw (fold f xs raw')"
  by (induction xs arbitrary: raw') auto

lemma adds_below_file [below]:
  "(source' = source \<Longrightarrow> prefix (dir @ ''/'') path) \<Longrightarrow> adds_below source dir raw raw' \<Longrightarrow>
   adds_below source dir raw (read_file_record h source' path raw')"
  by (auto simp: read_file_record_def split: sum.splits intro!: below)

lemma prefix_path_append:
  "dir \<noteq> [] \<Longrightarrow> List.last dir \<noteq> CHR ''/'' \<Longrightarrow> prefix (dir @ ''/'') (path_append dir name)"
  by (simp add: path_append_def)

lemma prefix_path_append_again: "prefix p path \<Longrightarrow> prefix p (path_append path name)"
  by (auto simp: path_append_def prefix_def)

definition plain_dir :: "string \<Rightarrow> bool" where
  "plain_dir dir \<longleftrightarrow> dir \<noteq> [] \<and> List.last dir \<noteq> CHR ''/''"

lemma adds_below_fields [below]:
  "plain_dir dir \<Longrightarrow> adds_below source dir raw raw' \<Longrightarrow>
   adds_below source dir raw (read_fields h source dir names raw')"
  unfolding read_fields_def
  by (intro below) (simp_all add: plain_dir_def prefix_path_append)

lemma ethtool_query_below:
  "ethtool_query h interface query raw' = (failure, raw'') \<Longrightarrow> source \<noteq> Ethtool \<Longrightarrow>
   adds_below source dir raw raw' \<Longrightarrow> adds_below source dir raw raw''"
  by (auto simp: ethtool_query_def Let_def intro!: adds_below_add)

lemma ethtool_loop_below [below]:
  "source \<noteq> Ethtool \<Longrightarrow> adds_below source dir raw raw' \<Longrightarrow>
   adds_below source dir raw (ethtool_loop h interface queries raw')"
  by (induction queries arbitrary: raw') (auto simp: Let_def split: prod.splits intro: ethtool_query_below)

lemma capabilities_below [below]:
  "source \<noteq> Ethtool \<Longrightarrow> adds_below source dir raw raw' \<Longrightarrow>
   adds_below source dir raw (read_network_capabilities h interface raw')"
  by (auto simp: read_network_capabilities_def intro!: below)

section \<open>One interface\<close>

lemma path_exists_below [below]:
  "adds_below source dir raw raw' \<Longrightarrow> adds_below source dir raw (snd (path_exists h source' path raw'))"
  by (auto simp: path_exists_def split: sum.splits intro!: below)

lemma directory_test_below [below]:
  "adds_below source dir raw raw' \<Longrightarrow>
   adds_below source dir raw (snd (directory_entry_is_directory h source' path raw'))"
  by (auto simp: directory_entry_is_directory_def split: sum.splits intro!: below)

lemma link_name_below [below]:
  "prefix (dir @ ''/'') path \<Longrightarrow> adds_below source dir raw raw' \<Longrightarrow>
   adds_below source dir raw (link_name_record h source' path link raw')"
  by (auto simp: link_name_record_def split: sum.splits intro!: below)

lemma listing_below [below]:
  "prefix (dir @ ''/'') path \<Longrightarrow> adds_below source dir raw raw' \<Longrightarrow>
   adds_below source dir raw (listing_record h source' path dir' line raw')"
  by (auto simp: listing_record_def split: prod.splits intro!: below)

lemma net_kind_below [below]:
  "plain_dir dir \<Longrightarrow> adds_below SysfsNet dir raw raw' \<Longrightarrow> adds_below SysfsNet dir raw (read_net_kind h name dir raw')"
  by (auto simp: read_net_kind_def Let_def case_prod_unfold plain_dir_def prefix_path_append
      prefix_path_append_again split: option.splits intro!: below)

lemma net_device_below [below]:
  "plain_dir dir \<Longrightarrow> adds_below SysfsNet dir raw raw' \<Longrightarrow> adds_below SysfsNet dir raw (read_net_device h dir raw')"
  by (auto simp: read_net_device_def plain_dir_def prefix_path_append split: sum.splits intro!: below)

lemma net_interface_below:
  "plain_dir dir \<Longrightarrow> adds_below SysfsNet dir raw (read_net_interface h dir raw)"
  by (auto simp: read_net_interface_def Let_def case_prod_unfold plain_dir_def prefix_path_append
      intro!: below)

text \<open>A directory that can be listed leaves a successful record of its lower interfaces.\<close>

lemma net_interface_recorded:
  assumes "server_is_directory h dir = Inr True" "path_filename dir \<noteq> []" "snd (server_entries h dir) = None"
  obtains r where "r \<in> set (raw_records (read_net_interface h dir raw))" "rec_source r = SysfsNet"
    "rec_status r = Success" "rec_path_or_command r = path_append dir ''lower_interfaces''"
proof -
  define start where "start = link_name_record h SysfsNet (path_append dir ''master'') (path_append dir ''master'')
    (link_name_record h SysfsNet (path_append dir ''driver'') (path_append (path_append dir ''device'') ''driver'')
      (read_fields h SysfsNet dir net_fields raw))"
  define listed where "listed = listing_record h SysfsNet (path_append dir ''lower_interfaces'') dir lower_name start"
  have result: "read_net_interface h dir raw = read_net_device h dir (read_net_kind h (path_filename dir) dir listed)"
    using assms by (simp add: read_net_interface_def directory_entry_is_directory_def start_def listed_def Let_def)
  have "extended {SysfsNet, Ethtool} {} listed (read_net_interface h dir raw)"
    unfolding result by (intro reading) simp_all
  then have kept: "set (raw_records listed) \<subseteq> set (raw_records (read_net_interface h dir raw))"
    by (auto simp: extended_def)
  obtain names where names: "directory_entries h dir = (names, None)"
    using assms(3) by (simp add: directory_entries_def)
  have "\<exists>r \<in> set (raw_records listed). rec_source r = SysfsNet \<and> rec_status r = Success \<and>
      rec_path_or_command r = path_append dir ''lower_interfaces''"
    by (simp add: listed_def listing_record_def names add_record_def)
  then show ?thesis using that kept by blast
qed

section \<open>All interfaces\<close>

lemma interface_name:
  "CHR ''/'' \<notin> set name \<Longrightarrow> prefix (net_base @ ''/'' @ name @ ''/'') path \<Longrightarrow>
   extract_interface_name_from_path path = name"
proof -
  assume name: "CHR ''/'' \<notin> set name" "prefix (net_base @ ''/'' @ name @ ''/'') path"
  then obtain tail where path: "path = ''/sys/class/net/'' @ name @ CHR ''/'' # tail"
    by (auto simp: prefix_def net_base_def)
  have "find_str ''/sys/class/net/'' path = Some 0" by (simp add: path)
  moreover have "before_char (CHR ''/'') (name @ CHR ''/'' # tail) = name"
    using name(1) by (simp add: before_char_def find_char_append)
  ultimately show ?thesis by (simp add: extract_interface_name_from_path_def path)
qed

lemma sysfs_names_mono:
  "set (raw_records raw) \<subseteq> set (raw_records raw') \<Longrightarrow> sysfs_names raw \<subseteq> sysfs_names raw'"
  by (auto simp: sysfs_names_def)

lemma sysfs_names_below:
  assumes "adds_below SysfsNet (path_append net_base name) raw raw'" "CHR ''/'' \<notin> set name"
  shows "sysfs_names raw' \<subseteq> insert name (sysfs_names raw)"
proof -
  have dir: "path_append net_base name @ ''/'' = net_base @ ''/'' @ name @ ''/''"
    by (simp add: path_append_def net_base_def)
  obtain rs where rs: "raw_records raw' = raw_records raw @ rs"
    "\<And>r. r \<in> set rs \<Longrightarrow> rec_source r = SysfsNet \<Longrightarrow> rec_status r = Success \<Longrightarrow>
      prefix (net_base @ ''/'' @ name @ ''/'') (rec_path_or_command r)"
    using assms(1) unfolding adds_below_def dir list_all_iff by blast
  show ?thesis
  proof
    fix n
    assume "n \<in> sysfs_names raw'"
    then obtain r where r: "r \<in> set (raw_records raw) \<or> r \<in> set rs" "rec_source r = SysfsNet" "rec_status r = Success"
      "n = extract_interface_name_from_path (rec_path_or_command r)" "n \<noteq> []"
      by (auto simp: sysfs_names_def rs(1))
    then show "n \<in> insert name (sysfs_names raw)"
      using rs(2) [of r] interface_name [OF assms(2), of "rec_path_or_command r"] by (auto simp: sysfs_names_def)
  qed
qed

text \<open>What the kernel lists under \<open>/sys/class/net\<close>, and which of it are directories that can be read.\<close>

definition net_listed :: "Server \<Rightarrow> string list" where
  "net_listed h = fst (server_entries h net_base)"

definition is_net_dir :: "Server \<Rightarrow> string \<Rightarrow> bool" where
  "is_net_dir h name \<longleftrightarrow> server_is_directory h (path_append net_base name) = Inr True"

definition net_listable :: "Server \<Rightarrow> bool" where
  "net_listable h \<longleftrightarrow> list_all (\<lambda>name. name \<noteq> [] \<and> CHR ''/'' \<notin> set name \<and>
     (is_net_dir h name \<longrightarrow> snd (server_entries h (path_append net_base name)) = None)) (net_listed h)"

lemma net_entry_name: "CHR ''/'' \<notin> set name \<Longrightarrow> path_filename (path_append net_base name) = name"
proof -
  have "path_append net_base name = net_base @ CHR ''/'' # name" by (simp add: path_append_def net_base_def)
  then show "CHR ''/'' \<notin> set name \<Longrightarrow> ?thesis" by simp
qed

lemma interface_names:
  assumes "name \<noteq> []" "CHR ''/'' \<notin> set name"
    and "is_net_dir h name \<longrightarrow> snd (server_entries h (path_append net_base name)) = None"
  shows "sysfs_names (read_net_interface h (path_append net_base name) raw) =
     (if is_net_dir h name then insert name (sysfs_names raw) else sysfs_names raw)"
proof -
  let ?dir = "path_append net_base name"
  let ?read = "read_net_interface h ?dir raw"
  have entry: "path_filename ?dir = name" by (rule net_entry_name [OF assms(2)])
  have mono: "sysfs_names raw \<subseteq> sysfs_names ?read"
  proof (rule sysfs_names_mono)
    have "extended {SysfsNet, Ethtool} {} raw ?read" by (intro reading) simp_all
    then show "set (raw_records raw) \<subseteq> set (raw_records ?read)" by (auto simp: extended_def)
  qed
  show ?thesis
  proof (cases "is_net_dir h name")
    case False
    then have "raw_records ?read = raw_records raw \<or>
        (\<exists>r. raw_records ?read = raw_records raw @ [r] \<and> rec_status r = Failed)"
      by (auto simp: read_net_interface_def directory_entry_is_directory_def is_net_dir_def add_record_def Let_def
          split: sum.splits prod.splits)
    then have "sysfs_names ?read \<subseteq> sysfs_names raw" by (auto simp: sysfs_names_def)
    then show ?thesis using mono False by auto
  next
    case True
    have "plain_dir ?dir"
      using assms(1,2) by (auto simp: plain_dir_def path_append_def net_base_def dest: last_in_set)
    then have "sysfs_names ?read \<subseteq> insert name (sysfs_names raw)"
      by (intro sysfs_names_below net_interface_below assms(2))
    moreover have "name \<in> sysfs_names ?read"
    proof -
      obtain r where r: "r \<in> set (raw_records ?read)" "rec_source r = SysfsNet" "rec_status r = Success"
        "rec_path_or_command r = path_append ?dir ''lower_interfaces''"
        using True assms entry by (auto simp: is_net_dir_def intro: net_interface_recorded [of h ?dir raw])
      have "prefix (net_base @ ''/'' @ name @ ''/'') (path_append ?dir ''lower_interfaces'')"
        using \<open>plain_dir ?dir\<close> prefix_path_append [of ?dir "''lower_interfaces''"]
        by (simp add: plain_dir_def path_append_def net_base_def)
      then have "extract_interface_name_from_path (rec_path_or_command r) = name"
        using interface_name [OF assms(2)] r(4) by simp
      then show ?thesis using r assms(1) by (force simp: sysfs_names_def)
    qed
    ultimately show ?thesis using mono True by auto
  qed
qed

lemma interfaces_names:
  assumes "list_all (\<lambda>name. name \<noteq> [] \<and> CHR ''/'' \<notin> set name \<and>
     (is_net_dir h name \<longrightarrow> snd (server_entries h (path_append net_base name)) = None)) names"
  shows "sysfs_names (fold (read_net_interface h) (map (path_append net_base) names) raw) =
     set (filter (is_net_dir h) names) \<union> sysfs_names raw"
  using assms by (induction names arbitrary: raw) (auto simp: interface_names)

lemma read_net_sysfs_names:
  assumes "net_listable h" "get_all raw SysfsNet = []"
  shows "sysfs_names (read_net_sysfs h raw) = set (filter (is_net_dir h) (net_listed h))"
proof -
  obtain names error where listing: "server_entries h net_base = (names, error)" by fastforce
  define start where "start = snd (inventory_entries h NetworkInterfaces SysfsNet net_base [] raw)"
  have start: "raw_records start = raw_records raw"
    by (simp add: start_def inventory_entries_def Let_def case_prod_unfold)
  define loop where "loop = fold (read_net_interface h) (map (path_append net_base) names) start"
  have result: "read_net_sysfs h raw = record_directory_failure h SysfsNet net_base error loop"
    by (simp add: read_net_sysfs_def start_def loop_def inventory_entries_def directory_entries_def listing Let_def)
  have "sysfs_names (record_directory_failure h SysfsNet net_base error loop) = sysfs_names loop"
    by (auto simp: sysfs_names_def record_directory_failure_def add_record_def split: option.splits)
  moreover have "sysfs_names start = {}" using assms(2) start by (auto simp: sysfs_names_def get_all_def)
  ultimately show ?thesis
    using interfaces_names [of h names start] assms(1)
    by (simp add: result loop_def net_listable_def net_listed_def listing)
qed

lemma read_net_sysfs_enumeration:
  assumes "net_listable h" "list_all (\<lambda>e. ie_inventory e \<noteq> NetworkInterfaces) (raw_enumerations raw)"
  obtains e where "enumeration (read_net_sysfs h raw) NetworkInterfaces = Some e" "ie_entries e = net_listed h"
    "ie_status e = Success \<and> ie_failure e = None \<longleftrightarrow> snd (server_entries h net_base) = None"
proof -
  obtain names error where listing: "server_entries h net_base = (names, error)" by fastforce
  have files: "map (path_filename \<circ> path_append net_base) names = names"
    using assms(1) by (intro map_idI) (simp add: net_listable_def net_listed_def listing list_all_iff net_entry_name)
  define e where "e = \<lparr>ie_inventory = NetworkInterfaces, ie_source = SysfsNet, ie_origin = net_base, ie_entries = names,
    ie_status = (if error = None then Success else if names = [] then Failed else Partial),
    ie_failure = map_option file_failure error\<rparr>"
  define start where "start = raw\<lparr>raw_enumerations := raw_enumerations raw @ [e]\<rparr>"
  have result: "read_net_sysfs h raw = record_directory_failure h SysfsNet net_base error
      (fold (read_net_interface h) (map (path_append net_base) names) start)"
    by (simp add: read_net_sysfs_def start_def e_def inventory_entries_def directory_entries_def listing Let_def files)
  have "extended {SysfsNet, Ethtool} {} start (read_net_sysfs h raw)"
    unfolding result by (intro reading) simp_all
  then have "raw_enumerations (read_net_sysfs h raw) = raw_enumerations raw @ [e]"
    by (auto simp: extended_def start_def list_all_iff)
  moreover have "filter (\<lambda>e. ie_inventory e = NetworkInterfaces) (raw_enumerations raw) = []"
    using assms(2) by (simp add: filter_empty_conv list_all_iff)
  ultimately have "enumeration (read_net_sysfs h raw) NetworkInterfaces = Some e"
    by (simp add: enumeration_def unique_entry_filter e_def)
  then show ?thesis by (rule that) (simp_all add: e_def net_listed_def listing)
qed

lemma mset_filter_sorted:
  "distinct xs \<Longrightarrow> mset xs = mset (sorted_list_of_set (set (filter P xs))) \<longleftrightarrow> list_all P (xs :: string list)"
proof
  assume xs: "distinct xs" and "mset xs = mset (sorted_list_of_set (set (filter P xs)))"
  then have "set xs = set (filter P xs)" by (metis finite_set set_mset_mset set_sorted_list_of_set)
  then show "list_all P xs" by (auto simp: list_all_iff)
next
  assume xs: "distinct xs" and "list_all P xs"
  then have all: "filter P xs = xs" by (simp add: list_all_iff)
  show "mset xs = mset (sorted_list_of_set (set (filter P xs)))"
    unfolding all by (rule set_eq_iff_mset_eq_distinct [THEN iffD1]) (use xs in auto)
qed

text \<open>C5: From the kernel to the model. On a host whose directories under \<open>/sys/class/net\<close> can be listed, the
  interfaces of the network model are exactly those directories, once and in name order. The inventory is
  evidently complete exactly when the listing succeeded without a repeated name and every entry is a directory:
  a plain file there, such as the \<open>bonding_masters\<close> of the bonding driver, keeps it from ever being complete.
\<close>

theorem network_from_host:
  assumes "net_listable h" "get_all raw SysfsNet = []"
    and "list_all (\<lambda>e. ie_inventory e \<noteq> NetworkInterfaces) (raw_enumerations raw)"
  shows "case fst (parse_network (read_net_sysfs h raw) warnings) of
     None \<Rightarrow> False
   | Some net \<Rightarrow>
       map (str_value \<circ> if_name) (net_interfaces net) =
         sorted_list_of_set (set (filter (is_net_dir h) (net_listed h))) \<and>
       (listed_exactly (read_net_sysfs h raw) NetworkInterfaces (map (str_value \<circ> if_name) (net_interfaces net)) \<longleftrightarrow>
         snd (server_entries h net_base) = None \<and> distinct (net_listed h) \<and> list_all (is_net_dir h) (net_listed h))"
proof -
  let ?read = "read_net_sysfs h raw"
  obtain e where e: "enumeration ?read NetworkInterfaces = Some e" "ie_entries e = net_listed h"
    "ie_status e = Success \<and> ie_failure e = None \<longleftrightarrow> snd (server_entries h net_base) = None"
    using read_net_sysfs_enumeration [OF assms(1,3)] .
  have "fst (parse_network ?read warnings) \<noteq> None"
    by (simp add: parse_network_def e(1) Let_def case_prod_unfold)
  then obtain net where net: "fst (parse_network ?read warnings) = Some net" by auto
  have "map interface_core (net_interfaces net) = map (\<lambda>n. (NamedString n,
      map (NamedString \<circ> snd) (filter (\<lambda>e. fst e = n) (listed_addresses ?read)))) (sorted_list_of_set (sysfs_names ?read))"
    using parse_network_interfaces [OF net] by blast
  from arg_cong [OF this, of "map (str_value \<circ> fst)"]
  have names: "map (str_value \<circ> if_name) (net_interfaces net) =
      sorted_list_of_set (set (filter (is_net_dir h) (net_listed h)))"
    by (simp add: comp_def interface_core_def read_net_sysfs_names [OF assms(1,2)])
  have "listed_exactly ?read NetworkInterfaces (map (str_value \<circ> if_name) (net_interfaces net)) \<longleftrightarrow>
      snd (server_entries h net_base) = None \<and> distinct (net_listed h) \<and> list_all (is_net_dir h) (net_listed h)"
    using e(2,3) mset_filter_sorted [of "net_listed h" "is_net_dir h"]
    by (auto simp: listed_exactly_def e(1) names)
  then show ?thesis using net names by simp
qed

text \<open>A host with one interface and the file of the bonding driver.\<close>

definition bonding_server :: Server where
  "bonding_server = silent_server
     \<lparr>server_entries := (\<lambda>path. if path = net_base then ([''bonding_masters'', ''eth0''], None)
        else if path = path_append net_base ''eth0'' then ([''address''], None) else ([], Some ENOENT)),
      server_is_directory := (\<lambda>path. Inr (path = path_append net_base ''eth0''))\<rparr>"

theorem network_from_host_witness:
  "case fst (parse_network (read_net_sysfs bonding_server RawStore_default) []) of
     None \<Rightarrow> False
   | Some net \<Rightarrow>
       map (str_value \<circ> if_name) (net_interfaces net) = [''eth0''] \<and>
       \<not> listed_exactly (read_net_sysfs bonding_server RawStore_default) NetworkInterfaces
           (map (str_value \<circ> if_name) (net_interfaces net))"
proof -
  have listed: "net_listed bonding_server = [''bonding_masters'', ''eth0'']"
    by (simp add: net_listed_def bonding_server_def)
  have dirs: "is_net_dir bonding_server ''eth0''" "\<not> is_net_dir bonding_server ''bonding_masters''"
    by (simp_all add: is_net_dir_def bonding_server_def path_append_def net_base_def)
  have "net_listable bonding_server"
    unfolding net_listable_def listed using dirs
    by (simp add: bonding_server_def path_append_def net_base_def)
  moreover have "get_all RawStore_default SysfsNet = []"
    "list_all (\<lambda>e. ie_inventory e \<noteq> NetworkInterfaces) (raw_enumerations RawStore_default)"
    by (simp_all add: get_all_def RawStore_default_def)
  ultimately show ?thesis
    using network_from_host [of bonding_server RawStore_default "[]"] dirs
    by (auto simp: listed split: option.splits)
qed

end
