(* ===== verification/Filesystem_Evidence.thy ===== *)
theory Filesystem_Evidence
  imports Filesystem_Reader "HOL-Library.Multiset"
begin

text \<open>
  From the mount table to the reports: what the reader of file system statistics stores as JSON is what the
  parser reads back, and every mount is in exactly one report.
\<close>

section \<open>Groups of mounts\<close>

lemma mset_map_put:
  "map_invar m \<Longrightarrow> mset (concat (map snd (map_put k v m))) + mset (case map_of m k of None \<Rightarrow> [] | Some w \<Rightarrow> w) =
     mset (concat (map snd m)) + mset v"
proof (induction k v m rule: map_put.induct)
  case (1 k v)
  then show ?case by simp
next
  case (2 k v l w m)
  have tail: "map_invar m" "k < l \<Longrightarrow> map_of m k = None"
    using "2.prems" by (auto simp: map_invar_def map_of_eq_None_iff)
  show ?case using 2 tail by (auto simp: ac_simps)
qed

lemma mset_map_update:
  "map_invar m \<Longrightarrow> mset (concat (map snd (map_update k [] (\<lambda>xs. xs @ [x]) m))) = add_mset x (mset (concat (map snd m)))"
  using mset_map_put [of m k "(case map_of m k of None \<Rightarrow> [] | Some v \<Rightarrow> v) @ [x]"]
  by (simp add: map_update_def split: option.splits)

lemma map_put_values: "list_all (P \<circ> snd) m \<Longrightarrow> P v \<Longrightarrow> list_all (P \<circ> snd) (map_put k v m)"
  by (induction k v m rule: map_put.induct) auto

lemma mount_groups_fold:
  "map_invar m \<Longrightarrow> list_all ((\<lambda>ms. ms \<noteq> []) \<circ> snd) m \<Longrightarrow>
   (let m' = fold (\<lambda>mount. map_update (mount_key mount) [] (\<lambda>ms. ms @ [mount])) mounts m in
    map_invar m' \<and> list_all ((\<lambda>ms. ms \<noteq> []) \<circ> snd) m' \<and>
    mset (concat (map snd m')) = mset (concat (map snd m)) + mset mounts)"
proof (induction mounts arbitrary: m)
  case Nil
  then show ?case by simp
next
  case (Cons mount mounts)
  let ?m = "map_update (mount_key mount) [] (\<lambda>ms. ms @ [mount]) m"
  have "map_invar ?m" "list_all ((\<lambda>ms. ms \<noteq> []) \<circ> snd) ?m"
    using Cons.prems map_put_values [OF Cons.prems(2)] by (auto simp: map_update_def)
  then show ?case
    using Cons.IH [of ?m] mset_map_update [OF Cons.prems(1), of "mount_key mount" mount] by (simp add: Let_def comp_def)
qed

lemma mount_groups_mset: "mset (concat (map snd (mount_groups mounts))) = mset mounts"
  and mount_groups_nonempty: "list_all (\<lambda>g. snd g \<noteq> []) (mount_groups mounts)"
  using mount_groups_fold [of "[]" mounts] by (simp_all add: mount_groups_def Let_def comp_def)

section \<open>One report\<close>

lemma usage_json_ids:
  "json_find (usage_json mounts remark vals) ''mount_ids'' =
     Some (Json_Array (map (\<lambda>mount. Json_Unsigned (from_u32 (sm_mount_id mount))) mounts))"
  by (simp add: usage_json_def)

lemma known_mount_id: "i \<in> set ids \<Longrightarrow> known_mount ids (Json_Unsigned (from_u32 i)) = Some i"
proof -
  have i: "unat i < 4294967296" using unsigned_less [of i, where 'a = nat] by simp
  then have "from_u32 i \<le> u32_max" by (simp add: word_le_nat_alt)
  moreover have "to_u32 (from_u32 i) = i" using i by (simp add: word_unat_eq_iff unat_to_u32)
  ultimately show "i \<in> set ids \<Longrightarrow> ?thesis" by (simp add: known_mount_def)
qed

lemma known_mounts:
  "sm_mount_id ` set mounts \<subseteq> set ids \<Longrightarrow>
   List.map_filter (known_mount ids) (map (\<lambda>mount. Json_Unsigned (from_u32 (sm_mount_id mount))) mounts) =
     map sm_mount_id mounts"
  by (induction mounts) (simp_all add: known_mount_id List.map_filter_simps)

definition reads_usage :: "(json \<Rightarrow> string option) \<Rightarrow> (string \<Rightarrow> json) \<Rightarrow> bool" where
  "reads_usage dump parse \<longleftrightarrow>
     (\<forall>mounts remark vals. pred_option (\<lambda>text. parse text = usage_json mounts remark vals)
        (dump (usage_json mounts remark vals)))"

lemma usage_outcome_json: "\<exists>remark vals. fst (usage_outcome h policy mounts) = usage_json mounts remark vals"
  by (auto simp: usage_outcome_def Let_def split: option.splits)

lemma usage_query_record:
  assumes "usage_query dump h policy mounts raw = Some raw'" "reads_usage dump parse"
  obtains r remark vals where "raw_records raw' = raw_records raw @ [r]" "rec_source r = Src_FilesystemUsage"
    "parse (rec_payload r) = usage_json mounts remark vals"
proof -
  obtain j status failure skip where o: "usage_outcome h policy mounts = (j, status, failure, skip)"
    by (cases "usage_outcome h policy mounts")
  then obtain remark vals where j: "j = usage_json mounts remark vals"
    using usage_outcome_json [of h policy mounts] by auto
  obtain content where content: "dump j = Some content"
    "raw' = add_record h Src_FilesystemUsage (''statvfs/'' @ to_string (sm_mount_id (group_representative mounts)))
       content status failure skip raw"
    using assms(1) by (auto simp: usage_query_def o)
  have "parse content = usage_json mounts remark vals"
    using assms(2) content(1) unfolding reads_usage_def j by (metis option.pred_inject(2))
  then show ?thesis using that [of _ remark vals] content(2) by (simp add: add_record_def)
qed

lemma filesystem_record_usage:
  assumes "parse (rec_payload r) = usage_json mounts remark vals" "mounts \<noteq> []" "sm_mount_id ` set mounts \<subseteq> set ids"
  obtains report where "fr_mount_ids report = map sm_mount_id mounts"
    "filesystem_record parse ids r (storage, warnings) =
       (storage\<lparr>storage_filesystems := storage_filesystems storage @ [report]\<rparr>, warnings)"
proof -
  have ids: "List.map_filter (known_mount ids) (map (\<lambda>mount. Json_Unsigned (from_u32 (sm_mount_id mount))) mounts) =
      map sm_mount_id mounts"
    by (rule known_mounts [OF assms(3)])
  show ?thesis
  proof (rule that)
    show "filesystem_record parse ids r (storage, warnings) = (storage\<lparr>storage_filesystems :=
        storage_filesystems storage @ [filesystem_report storage r (usage_json mounts remark vals) (map sm_mount_id mounts)]\<rparr>,
        warnings)"
      using assms(2) by (simp add: filesystem_record_def assms(1) usage_json_ids ids)
    show "fr_mount_ids (filesystem_report storage r (usage_json mounts remark vals) (map sm_mount_id mounts)) =
        map sm_mount_id mounts"
      by (simp add: filesystem_report_def statistics_def invalid_statistics_def Let_def case_prod_unfold split: option.split)
  qed
qed

section \<open>All reports\<close>

definition is_report :: "(string \<Rightarrow> json) \<Rightarrow> StorageMount list \<Rightarrow> RawRecord \<Rightarrow> bool" where
  "is_report parse mounts r \<longleftrightarrow>
     rec_source r = Src_FilesystemUsage \<and> (\<exists>remark vals. parse (rec_payload r) = usage_json mounts remark vals)"

lemma usage_records:
  "try_fold (\<lambda>g. usage_query dump h policy (snd g)) gs raw = Some raw' \<Longrightarrow> reads_usage dump parse \<Longrightarrow>
   \<exists>rs. raw_records raw' = raw_records raw @ rs \<and> list_all2 (\<lambda>g. is_report parse (snd g)) gs rs"
proof (induction gs arbitrary: raw)
  case Nil
  then show ?case by simp
next
  case (Cons g gs)
  obtain raw1 where step: "usage_query dump h policy (snd g) raw = Some raw1"
    and rest: "try_fold (\<lambda>g. usage_query dump h policy (snd g)) gs raw1 = Some raw'"
    using Cons.prems(1) by (auto simp: bind_eq_Some_conv)
  obtain r where r: "raw_records raw1 = raw_records raw @ [r]" "is_report parse (snd g) r"
    using usage_query_record [OF step Cons.prems(2)] unfolding is_report_def by metis
  obtain rs where rs: "raw_records raw' = raw_records raw1 @ rs" "list_all2 (\<lambda>g. is_report parse (snd g)) gs rs"
    using Cons.IH [OF rest Cons.prems(2)] by blast
  show ?case by (rule exI [of _ "r # rs"]) (simp add: r rs)
qed

lemma records_usage:
  assumes "list_all2 (\<lambda>g. is_report parse (snd g)) gs rs"
  shows "list_all (\<lambda>g. snd g \<noteq> [] \<and> sm_mount_id ` set (snd g) \<subseteq> set ids) gs \<Longrightarrow>
    \<exists>reports. fold (filesystem_record parse ids) rs (storage, warnings) =
        (storage\<lparr>storage_filesystems := storage_filesystems storage @ reports\<rparr>, warnings) \<and>
      map fr_mount_ids reports = map (map sm_mount_id \<circ> snd) gs"
  using assms
proof (induction gs rs arbitrary: storage rule: list_all2_induct)
  case Nil
  show ?case by (rule exI [of _ "[]"]) simp
next
  case (Cons g gs r rs)
  obtain remark vals where json: "parse (rec_payload r) = usage_json (snd g) remark vals"
    using Cons.hyps(1) by (auto simp: is_report_def)
  obtain report where report: "fr_mount_ids report = map sm_mount_id (snd g)"
    "filesystem_record parse ids r (storage, warnings) =
       (storage\<lparr>storage_filesystems := storage_filesystems storage @ [report]\<rparr>, warnings)"
    using filesystem_record_usage [of parse r "snd g" remark vals ids storage warnings] json Cons.prems by auto
  obtain reports where "fold (filesystem_record parse ids) rs
        (storage\<lparr>storage_filesystems := storage_filesystems storage @ [report]\<rparr>, warnings) =
      (storage\<lparr>storage_filesystems := (storage_filesystems storage @ [report]) @ reports\<rparr>, warnings)"
    "map fr_mount_ids reports = map (map sm_mount_id \<circ> snd) gs"
    using Cons.IH [of "storage\<lparr>storage_filesystems := storage_filesystems storage @ [report]\<rparr>"] Cons.prems by auto
  then show ?case by (intro exI [of _ "report # reports"]) (simp add: report)
qed

lemma group_members: "g \<in> set (mount_groups mounts) \<Longrightarrow> set (snd g) \<subseteq> set mounts"
  using arg_cong [OF mount_groups_mset [of mounts], of set_mset] by auto

text \<open>C15: every mount of the table is in exactly one report of file system statistics. Whatever the
  host answers, where the reader of the statistics returns, what the parser makes of the
  records the reader stored as JSON is a list of reports whose mount identifiers are together those of the
  parsed mount table, each as often as the table has it, and the parser finds nothing to warn of.
\<close>

theorem filesystem_reports_partition:
  assumes "reads_usage dump parse" "first_success raw StorageMountInfo = Some r"
    and "get_all raw Src_FilesystemUsage = []" "storage_filesystems storage = []"
    and "storage_mounts storage = fst (parse_mountinfo (rec_payload r) [])"
    and "read_filesystems dump h policy raw = Some raw'"
  shows "let (storage', warnings') = apply_filesystems parse raw' storage warnings
    in warnings' = warnings \<and>
       mset (concat (map fr_mount_ids (storage_filesystems storage'))) = mset (map sm_mount_id (storage_mounts storage))"
proof -
  let ?mounts = "storage_mounts storage" and ?groups = "mount_groups (storage_mounts storage)"
  have "try_fold (\<lambda>g. usage_query dump h policy (snd g)) ?groups raw = Some raw'"
    using assms(2,5,6) by (simp add: read_filesystems_def case_prod_unfold)
  then obtain rs where rs: "raw_records raw' = raw_records raw @ rs" "list_all2 (\<lambda>g. is_report parse (snd g)) ?groups rs"
    using usage_records assms(1) by blast
  have "list_all (\<lambda>r. rec_source r = Src_FilesystemUsage) rs"
    using rs(2) by (auto simp: list_all2_conv_all_nth is_report_def list_all_length)
  then have all: "get_all raw' Src_FilesystemUsage = rs"
    using assms(3) by (auto simp: get_all_def rs(1) filter_id_conv list_all_iff)
  have "list_all (\<lambda>g. snd g \<noteq> [] \<and> sm_mount_id ` set (snd g) \<subseteq> set (map sm_mount_id ?mounts)) ?groups"
    using mount_groups_nonempty [of ?mounts] group_members [of _ ?mounts] by (fastforce simp: list_all_iff)
  from records_usage [OF rs(2) this, of storage warnings]
  obtain reports where reports: "apply_filesystems parse raw' storage warnings =
      (storage\<lparr>storage_filesystems := reports\<rparr>, warnings)"
    "map fr_mount_ids reports = map (map sm_mount_id \<circ> snd) ?groups"
    using assms(4) by (auto simp: apply_filesystems_def all)
  have "concat (map fr_mount_ids reports) = map sm_mount_id (concat (map snd ?groups))"
    by (simp add: reports(2) map_concat comp_def)
  then show ?thesis by (simp add: reports(1) mount_groups_mset)
qed

text \<open>A host whose root cannot be opened, with two mounts of one file system, and a text form for their report.\<close>

definition bound_mounts :: string where
  "bound_mounts = ''36 35 98:0 / / rw - ext3 /dev/root rw'' @ [CHR 0x0A] @ ''37 36 98:0 /a /srv rw - ext3 /dev/root rw''"

definition mounted_store :: RawStore where
  "mounted_store = add_record silent_server StorageMountInfo ''/proc/self/mountinfo'' bound_mounts Success None None RawStore_default"

definition bound_report :: json where
  "bound_report = usage_json (fst (parse_mountinfo bound_mounts [])) [] None"

definition report_dump :: "json \<Rightarrow> string option" where
  "report_dump j = (if j = bound_report then Some [] else None)"

theorem filesystem_reports_partition_witness:
  "case read_filesystems report_dump silent_server FilesystemQuery_None mounted_store of
     None \<Rightarrow> False
   | Some raw \<Rightarrow>
       let storage = Storage_default\<lparr>storage_mounts := fst (parse_mountinfo bound_mounts [])\<rparr>
       in mset (concat (map fr_mount_ids (storage_filesystems (fst (apply_filesystems (\<lambda>_. bound_report) raw storage []))))) =
          {# 36, 37 #}"
proof -
  let ?mounts = "fst (parse_mountinfo bound_mounts [])"
  have mounts: "map sm_mount_id ?mounts = [36, 37]" by code_simp
  have groups: "map snd (mount_groups ?mounts) = [?mounts]" by code_simp
  then obtain k where groups: "mount_groups ?mounts = [(k, ?mounts)]" by (cases "mount_groups ?mounts") auto
  have skip: "usage_skip FilesystemQuery_None (group_representative ?mounts) = Some NotRequested" by code_simp
  have reads: "reads_usage report_dump (\<lambda>_. bound_report)" by (simp add: reads_usage_def report_dump_def)
  have first: "first_success mounted_store StorageMountInfo = Some r \<Longrightarrow> rec_payload r = bound_mounts" for r
    by (auto simp: first_success_def get_all_def mounted_store_def add_record_def RawStore_default_def split: if_splits)
  obtain r where r: "first_success mounted_store StorageMountInfo = Some r"
    by (auto simp: first_success_def get_all_def mounted_store_def add_record_def RawStore_default_def)
  have "get_all mounted_store Src_FilesystemUsage = []"
    by (simp add: get_all_def mounted_store_def add_record_def RawStore_default_def)
  moreover obtain raw where raw: "read_filesystems report_dump silent_server FilesystemQuery_None mounted_store = Some raw"
    by (simp add: read_filesystems_def r first [OF r] case_prod_unfold groups usage_query_def usage_outcome_def skip
        report_dump_def bound_report_def)
  moreover have "storage_filesystems Storage_default = []" by (simp add: Storage_default_def)
  ultimately show ?thesis
    using filesystem_reports_partition [OF reads r, of "Storage_default\<lparr>storage_mounts := ?mounts\<rparr>"
        silent_server FilesystemQuery_None raw "[]"]
    by (simp add: first [OF r] case_prod_unfold Let_def mounts)
qed

end
